(* ===== verification/Prelude.thy ===== *)
theory Prelude
  imports Complex_Main "HOL-Library.Multiset"
begin

text \<open>
  Shared vocabulary of the development: the HTTP exceptions the services throw, JavaScript's
  array, \<open>Map\<close>/object and string operations as far as the services use them, and the
  generic lemmas on them that the component theories share.

  Strings are Isabelle \<open>string\<close>s; a \<open>char\<close> stands for one UTF-16 code unit of the
  Latin-1 range, and the character classes below are exact on that range.  Typographic
  characters of message texts outside ASCII (dashes, curly quotes, emoji) are written with
  their nearest ASCII spelling.
\<close>

section \<open>Collections of facts\<close>

named_theorems table_simps \<open>how the table operations change and keep rows\<close>
named_theorems service_defs \<open>definitions of service operations, unfolded on demand\<close>

section \<open>Exceptions\<close>

text \<open>
  The Nest exceptions, with their message; \<open>BadRequestErrors\<close> is a
  \<open>BadRequestException({ message, errors })\<close>.  \<open>UniqueViolation\<close> is Postgres' error
  23505 and \<open>PlainError\<close> any other thrown \<open>Error\<close>.
\<close>

datatype http_error =
    BadRequest string
  | BadRequestErrors string "string list"
  | NotFound string
  | Unauthorized string
  | Forbidden string
  | BadGateway string
  | ServiceUnavailable string
  | TooManyRequests string
  | InternalServerError string
  | UniqueViolation
  | PlainError string

type_synonym 'a result = "http_error + 'a"

text \<open>A timestamp in milliseconds since the epoch, as \<open>Date.now()\<close> gives it.\<close>

type_synonym time = int

text \<open>A UUID column, kept as the string the API exchanges.\<close>

type_synonym uuid = string

definition is_ok :: "'e + 'a \<Rightarrow> bool" where
  "is_ok r = (case r of Inl _ \<Rightarrow> False | Inr _ \<Rightarrow> True)"

lemma is_ok_simps [simp]: "is_ok (Inl e) = False" "is_ok (Inr x) = True"
  by (simp_all add: is_ok_def)

lemma is_ok_iff: "is_ok r \<longleftrightarrow> (\<exists>x. r = Inr x)"
  by (cases r) simp_all

section \<open>Lists as arrays and tables\<close>

text \<open>\<open>[...new Set(xs)]\<close>: the distinct elements in first-seen order.\<close>

fun js_unique :: "'a list \<Rightarrow> 'a list" where
  "js_unique [] = []"
| "js_unique (x # xs) = x # filter (\<lambda>y. y \<noteq> x) (js_unique xs)"

lemma set_js_unique [simp]: "set (js_unique xs) = set xs"
  by (induction xs) auto

lemma distinct_js_unique [simp]: "distinct (js_unique xs)"
  by (induction xs) auto

lemma js_unique_id: "distinct xs \<Longrightarrow> js_unique xs = xs"
proof (induction xs)
  case (Cons x xs)
  then have "filter (\<lambda>y. y \<noteq> x) xs = xs" by (auto simp: filter_id_conv)
  with Cons show ?case by simp
qed simp

lemma length_js_unique_le: "length (js_unique xs) \<le> length xs"
proof (induction xs)
  case (Cons x xs)
  have "length (filter (\<lambda>y. y \<noteq> x) (js_unique xs)) \<le> length (js_unique xs)"
    by (rule length_filter_le)
  also have "\<dots> \<le> length xs" by (rule Cons.IH)
  finally show ?case by simp
qed simp

text \<open>\<open>array.slice(-n)\<close> for \<open>n > 0\<close>: the last \<open>n\<close> elements.\<close>

definition slice_tail :: "nat \<Rightarrow> 'a list \<Rightarrow> 'a list" where
  "slice_tail n xs = drop (length xs - n) xs"

lemma length_slice_tail: "length (slice_tail n xs) = min n (length xs)"
  by (simp add: slice_tail_def)

lemma set_slice_tail: "set (slice_tail n xs) \<subseteq> set xs"
  by (simp add: slice_tail_def set_drop_subset)

lemma slice_tail_append:
  "length ys \<le> n \<Longrightarrow> slice_tail n (xs @ ys) = slice_tail (n - length ys) xs @ ys"
proof -
  assume h: "length ys \<le> n"
  then have e: "length (xs @ ys) - n = length xs - (n - length ys)" by simp
  have "length xs - (n - length ys) - length xs = 0" by arith
  then show ?thesis unfolding slice_tail_def e drop_append by simp
qed

text \<open>\<open>UPDATE .. SET f WHERE p\<close> over a table kept as the list of its rows in insertion order.\<close>

definition update_where :: "('a \<Rightarrow> bool) \<Rightarrow> ('a \<Rightarrow> 'a) \<Rightarrow> 'a list \<Rightarrow> 'a list" where
  "update_where p f rows = map (\<lambda>r. if p r then f r else r) rows"

lemma update_where_Nil [simp]: "update_where p f [] = []"
  by (simp add: update_where_def)

lemma update_where_Cons [simp]:
  "update_where p f (r # rows) = (if p r then f r else r) # update_where p f rows"
  by (simp add: update_where_def)

lemma length_update_where [simp, table_simps]: "length (update_where p f rows) = length rows"
  by (simp add: update_where_def)

lemma update_where_none: "\<forall>r \<in> set rows. \<not> p r \<Longrightarrow> update_where p f rows = rows"
  by (induction rows) auto

lemma map_update_where [table_simps]:
  "(\<And>r. p r \<Longrightarrow> g (f r) = g r) \<Longrightarrow> map g (update_where p f rows) = map g rows"
  by (induction rows) auto

lemma filter_update_where:
  "(\<And>r. r \<in> set rows \<Longrightarrow> p r \<Longrightarrow> \<not> q r \<and> \<not> q (f r)) \<Longrightarrow>
     filter q (update_where p f rows) = filter q rows"
  by (induction rows) auto

lemma set_update_where_subset:
  "set (update_where p f rows) \<subseteq> set rows \<union> f ` {r \<in> set rows. p r}"
  by (induction rows) auto

lemma in_set_update_where:
  "r \<in> set (update_where p f rows) \<longleftrightarrow>
     (r \<in> set rows \<and> \<not> p r) \<or> (\<exists>s \<in> set rows. p s \<and> r = f s)"
  by (induction rows) auto

lemma find_Some_iff_mem: "List.find p xs = Some x \<Longrightarrow> x \<in> set xs \<and> p x"
  by (induction xs) (auto split: if_splits)

lemma find_None_iff_all: "List.find p xs = None \<longleftrightarrow> (\<forall>x \<in> set xs. \<not> p x)"
  by (induction xs) auto

lemma find_isin: "(List.find p xs \<noteq> None) \<longleftrightarrow> (\<exists>x \<in> set xs. p x)"
  by (simp add: find_None_iff_all)

lemma find_append: "List.find p (xs @ ys) =
    (case List.find p xs of None \<Rightarrow> List.find p ys | Some x \<Rightarrow> Some x)"
  by (induction xs) auto

lemma find_unique:
  "x \<in> set xs \<Longrightarrow> p x \<Longrightarrow> (\<And>y. y \<in> set xs \<Longrightarrow> p y \<Longrightarrow> y = x) \<Longrightarrow> List.find p xs = Some x"
proof (induction xs)
  case (Cons a xs)
  show ?case
  proof (cases "p a")
    case True
    with Cons.prems(3)[of a] have "a = x" by simp
    with True show ?thesis by simp
  next
    case False
    with Cons.prems(1,2) have "x \<in> set xs" by auto
    then have "List.find p xs = Some x"
      using Cons.prems(2) by (rule Cons.IH) (rule Cons.prems(3), simp_all)
    with False show ?thesis by simp
  qed
qed simp

text \<open>Rows with distinct keys: a lookup by key is unambiguous.\<close>

lemma distinct_map_inj_on: "distinct (map k rows) \<Longrightarrow> inj_on k (set rows)"
  by (induction rows) auto

lemma find_by_key:
  "distinct (map k rows) \<Longrightarrow> r \<in> set rows \<Longrightarrow> List.find (\<lambda>x. k x = k r) rows = Some r"
  by (rule find_unique) (auto dest: distinct_map_inj_on inj_onD)

section \<open>Objects and maps as association lists\<close>

text \<open>
  Setting a key of a JavaScript object or \<open>Map\<close>: an existing key keeps its position, a new
  one goes last.
\<close>

fun aput :: "'k \<Rightarrow> 'v \<Rightarrow> ('k \<times> 'v) list \<Rightarrow> ('k \<times> 'v) list" where
  "aput k v [] = [(k, v)]"
| "aput k v ((k', v') # xs) = (if k' = k then (k, v) # xs else (k', v') # aput k v xs)"

lemma map_of_aput [simp]: "map_of (aput k v xs) = (map_of xs)(k \<mapsto> v)"
  by (induction xs) (auto simp: fun_eq_iff)

lemma keys_aput: "map fst (aput k v xs) = (if k \<in> fst ` set xs then map fst xs else map fst xs @ [k])"
proof (induction xs)
  case (Cons p xs)
  then show ?case by (cases p) (simp split: if_splits)
qed simp

lemma set_keys_aput [simp]: "fst ` set (aput k v xs) = insert k (fst ` set xs)"
proof (induction xs)
  case (Cons p xs)
  then show ?case by (cases p) (simp add: insert_commute split: if_splits)
qed simp

lemma distinct_keys_aput: "distinct (map fst xs) \<Longrightarrow> distinct (map fst (aput k v xs))"
  by (induction xs) auto

text \<open>\<open>new Map(entries)\<close> and repeated \<open>map.set\<close>: the last entry of a key wins.\<close>

definition map_from :: "('k \<times> 'v) list \<Rightarrow> ('k \<times> 'v) list" where
  "map_from entries = fold (\<lambda>(k, v) m. aput k v m) entries []"

lemma map_of_fold_aput:
  "map_of (fold (\<lambda>(k, v) m. aput k v m) es m) = map_of m ++ map_of (rev es)"
  by (induction es arbitrary: m) (auto simp: fun_eq_iff map_add_def split: option.splits)

lemma map_of_map_from: "map_of (map_from es) = map_of (rev es)"
  by (simp add: map_from_def map_of_fold_aput)

section \<open>Sums\<close>

lemma sum_list_filter_split:
  "sum_list (map f (filter p xs)) + sum_list (map f (filter (\<lambda>x. \<not> p x) xs)) =
     sum_list (map f xs)" for f :: "'a \<Rightarrow> int"
  by (induction xs) auto

lemma sum_list_nonneg_map: "(\<And>x. x \<in> set xs \<Longrightarrow> 0 \<le> f x) \<Longrightarrow> (0::int) \<le> sum_list (map f xs)"
  by (induction xs) (auto intro: add_nonneg_nonneg)

lemma sum_list_mono_map:
  "(\<And>x. x \<in> set xs \<Longrightarrow> f x \<le> g x) \<Longrightarrow> sum_list (map f xs) \<le> (sum_list (map g xs) :: int)"
  by (induction xs) (auto intro: add_mono)

lemma sum_list_map_if:
  "sum_list (map (\<lambda>x. if p x then f x else 0) xs) = sum_list (map f (filter p xs))"
  for f :: "'a \<Rightarrow> int"
  by (induction xs) auto

lemma member_le_sum_list_int:
  "x \<in> set xs \<Longrightarrow> (\<And>y. y \<in> set xs \<Longrightarrow> 0 \<le> f y) \<Longrightarrow> f x \<le> (sum_list (map f xs) :: int)"
proof (induction xs)
  case (Cons a xs)
  have "0 \<le> sum_list (map f xs)" using Cons.prems(2) by (intro sum_list_nonneg_map) simp
  moreover have "0 \<le> f a" using Cons.prems(2) by simp
  ultimately show ?case using Cons by (cases "x = a") (auto intro: add_increasing)
qed simp

end
