(* ===== verification/JsNumber.thy ===== *)
theory JsNumber
  imports Prelude "HOL-Library.Log_Nat"
begin

text \<open>
  JavaScript numbers.  A finite number is a rational, and \<open>fl\<close> rounds an exact result to
  the nearest binary64 value (53 significant bits, ties to even); the exponent range is left
  unbounded, so neither overflow nor subnormal results are modelled.  \<open>jsnum\<close> adds the two
  infinities and NaN for the code that meets them.  Integer quantities below \<open>2 ^ 53\<close> are
  exact (\<open>fl_of_int\<close>), which is why the services' counters are kept as \<open>int\<close>.
\<close>

section \<open>Rounding to binary64\<close>

definition pow2 :: "int \<Rightarrow> rat" where
  "pow2 e = 2 powi e"

lemma pow2_pos [simp]: "0 < pow2 e"
  by (simp add: pow2_def)

lemma pow2_nonneg [simp]: "0 \<le> pow2 e"
  by (rule less_imp_le) (rule pow2_pos)

lemma pow2_neq_0 [simp]: "pow2 e \<noteq> 0"
  by (simp add: pow2_def)

lemma pow2_add: "pow2 (a + b) = pow2 a * pow2 b"
  by (simp add: pow2_def power_int_add)

lemma pow2_mono: "a \<le> b \<Longrightarrow> pow2 a \<le> pow2 b"
  by (simp add: pow2_def power_int_increasing)

lemma pow2_nat: "0 \<le> e \<Longrightarrow> pow2 e = 2 ^ nat e"
  by (simp add: pow2_def power_int_def)

text \<open>The exponent \<open>e\<close> with \<open>2 ^ e \<le> x < 2 ^ (e + 1)\<close>, for positive \<open>x\<close>.\<close>

definition expo :: "rat \<Rightarrow> int" where
  "expo x = (let (n, d) = quotient_of x; k = bitlen n - bitlen d
             in if pow2 k \<le> x then k else k - 1)"

lemma bitlen_rat_bounds:
  assumes "0 < n"
  shows "pow2 (bitlen n - 1) \<le> of_int n" and "of_int n < pow2 (bitlen n)"
proof -
  have b: "2 ^ nat (bitlen n - 1) \<le> n \<and> n < 2 ^ nat (bitlen n)"
    using bitlen_bounds[OF assms] .
  have p: "0 < bitlen n" using assms by (simp add: bitlen_eq_zero_iff order_less_le bitlen_nonneg)
  have "(of_int (2 ^ nat (bitlen n - 1)) :: rat) \<le> of_int n" using b by (simp only: of_int_le_iff)
  with p show "pow2 (bitlen n - 1) \<le> of_int n" by (simp add: pow2_nat)
  have "(of_int n :: rat) < of_int (2 ^ nat (bitlen n))" using b by (simp only: of_int_less_iff)
  with p show "of_int n < pow2 (bitlen n)" by (simp add: pow2_nat)
qed

lemma expo_bounds:
  assumes "0 < x"
  shows "pow2 (expo x) \<le> x" and "x < pow2 (expo x + 1)"
proof -
  obtain n d where q: "quotient_of x = (n, d)" by fastforce
  then have d: "0 < d" using quotient_of_denom_pos by blast
  have x: "x = of_int n / of_int d" using q by (rule quotient_of_div)
  with assms d have n: "0 < n" by (simp add: zero_less_divide_iff)
  define k where "k = bitlen n - bitlen d"
  have nb: "pow2 (bitlen n - 1) \<le> of_int n" "of_int n < pow2 (bitlen n)"
    using bitlen_rat_bounds[OF n] by simp_all
  have db: "pow2 (bitlen d - 1) \<le> of_int d" "of_int d < pow2 (bitlen d)"
    using bitlen_rat_bounds[OF d] by simp_all
  have dp: "(0::rat) < of_int d" using d by simp
  have lo: "pow2 (k - 1) \<le> x"
  proof -
    have "pow2 (k - 1) * of_int d \<le> pow2 (k - 1) * pow2 (bitlen d)"
      using db(2) by (intro mult_left_mono) simp_all
    also have "\<dots> = pow2 (bitlen n - 1)" by (simp add: pow2_add[symmetric] k_def)
    also have "\<dots> \<le> of_int n" by (rule nb)
    finally show ?thesis using dp by (simp add: x pos_le_divide_eq)
  qed
  have hi: "x < pow2 (k + 1)"
  proof -
    have "of_int n < pow2 (bitlen n)" by (rule nb)
    also have "\<dots> = pow2 (k + 1) * pow2 (bitlen d - 1)" by (simp add: pow2_add[symmetric] k_def)
    also have "\<dots> \<le> pow2 (k + 1) * of_int d" using db(1) by (intro mult_left_mono) simp_all
    finally show ?thesis using dp by (simp add: x pos_divide_less_eq)
  qed
  have e: "expo x = (if pow2 k \<le> x then k else k - 1)" by (simp add: expo_def q k_def)
  show "pow2 (expo x) \<le> x" using lo by (simp add: e)
  show "x < pow2 (expo x + 1)" using hi by (auto simp: e)
qed

lemma expo_unique: "0 < x \<Longrightarrow> pow2 e \<le> x \<Longrightarrow> x < pow2 (e + 1) \<Longrightarrow> expo x = e"
proof (rule ccontr)
  assume h: "0 < x" "pow2 e \<le> x" "x < pow2 (e + 1)" "expo x \<noteq> e"
  note b = expo_bounds[OF h(1)]
  from h(4) have "expo x + 1 \<le> e \<or> e + 1 \<le> expo x" by linarith
  then show False
  proof
    assume "expo x + 1 \<le> e"
    from pow2_mono[OF this] b(2) h(2) show False by linarith
  next
    assume "e + 1 \<le> expo x"
    from pow2_mono[OF this] b(1) h(3) show False by linarith
  qed
qed

lemma expo_mono: "0 < x \<Longrightarrow> x \<le> y \<Longrightarrow> expo x \<le> expo y"
proof (rule ccontr)
  assume h: "0 < x" "x \<le> y" "\<not> expo x \<le> expo y"
  then have "expo y + 1 \<le> expo x" by linarith
  from pow2_mono[OF this] have "pow2 (expo y + 1) \<le> pow2 (expo x)" .
  with expo_bounds(1)[OF h(1)] expo_bounds(2)[of y] h show False by linarith
qed

text \<open>Round half to even.\<close>

definition rhe :: "rat \<Rightarrow> int" where
  "rhe x = (let f = \<lfloor>x\<rfloor>; r = x - of_int f
            in if r < 1/2 then f else if 1/2 < r then f + 1 else if even f then f else f + 1)"

lemma rhe_of_int [simp]: "rhe (of_int n) = n"
  by (simp add: rhe_def)

lemma rhe_cases: "rhe x = \<lfloor>x\<rfloor> \<or> rhe x = \<lfloor>x\<rfloor> + 1"
  by (simp add: rhe_def Let_def)

lemma rhe_error: "\<bar>of_int (rhe x) - x\<bar> \<le> 1/2"
proof -
  have "of_int \<lfloor>x\<rfloor> \<le> x" "x < of_int \<lfloor>x\<rfloor> + 1" by linarith+
  then show ?thesis by (simp add: rhe_def Let_def abs_le_iff)
qed

lemma rhe_mono: "x \<le> y \<Longrightarrow> rhe x \<le> rhe y"
proof -
  assume h: "x \<le> y"
  then have f: "\<lfloor>x\<rfloor> \<le> \<lfloor>y\<rfloor>" by (rule floor_mono)
  show ?thesis
  proof (cases "\<lfloor>x\<rfloor> = \<lfloor>y\<rfloor>")
    case True
    with h show ?thesis by (simp add: rhe_def Let_def)
  next
    case False
    with f have "\<lfloor>x\<rfloor> + 1 \<le> \<lfloor>y\<rfloor>" by linarith
    with rhe_cases[of x] rhe_cases[of y] show ?thesis by linarith
  qed
qed

text \<open>Rounding a positive number to 53 significant bits, then any number.\<close>

definition flp :: "rat \<Rightarrow> rat" where
  "flp x = (let u = pow2 (expo x - 52) in of_int (rhe (x / u)) * u)"

definition fl :: "rat \<Rightarrow> rat" where
  "fl x = (if x = 0 then 0 else if 0 < x then flp x else - flp (- x))"

lemma flp_bounds:
  assumes "0 < x"
  shows "pow2 (expo x) \<le> flp x" and "flp x \<le> pow2 (expo x + 1)"
proof -
  define u where "u = pow2 (expo x - 52)"
  have u: "0 < u" by (simp add: u_def)
  have lo: "pow2 (expo x) = 2 ^ 52 * u" and hi: "pow2 (expo x + 1) = 2 ^ 53 * u"
    using pow2_add[of 52 "expo x - 52"] pow2_add[of 53 "expo x - 52"]
    by (simp_all add: u_def pow2_nat add.commute)
  have "2 ^ 52 \<le> x / u" "x / u \<le> 2 ^ 53"
    using expo_bounds[OF assms] u by (simp_all add: lo hi pos_le_divide_eq pos_divide_le_eq)
  then have "rhe (of_int (2 ^ 52)) \<le> rhe (x / u)" "rhe (x / u) \<le> rhe (of_int (2 ^ 53))"
    by (intro rhe_mono; simp)+
  then have "(2::int) ^ 52 \<le> rhe (x / u)" "rhe (x / u) \<le> 2 ^ 53"
    unfolding rhe_of_int .
  then have "of_int (2 ^ 52) \<le> (of_int (rhe (x / u)) :: rat)"
    "(of_int (rhe (x / u)) :: rat) \<le> of_int (2 ^ 53)"
    by (simp_all only: of_int_le_iff)
  then have "2 ^ 52 * u \<le> of_int (rhe (x / u)) * u" "of_int (rhe (x / u)) * u \<le> 2 ^ 53 * u"
    using u by (intro mult_right_mono; simp)+
  then show "pow2 (expo x) \<le> flp x" "flp x \<le> pow2 (expo x + 1)"
    unfolding lo hi by (simp_all add: flp_def u_def Let_def)
qed

lemma flp_pos: "0 < x \<Longrightarrow> 0 < flp x"
  by (rule less_le_trans[OF pow2_pos flp_bounds(1)])

lemma flp_mono:
  assumes "0 < x" "x \<le> y"
  shows "flp x \<le> flp y"
proof (cases "expo x = expo y")
  case True
  have "rhe (x / pow2 (expo x - 52)) \<le> rhe (y / pow2 (expo x - 52))"
    using assms(2) by (intro rhe_mono divide_right_mono) simp_all
  with True show ?thesis
    by (simp add: flp_def Let_def mult_right_mono)
next
  case False
  from assms have y: "0 < y" by simp
  from False expo_mono[OF assms] have e: "expo x + 1 \<le> expo y" by simp
  have "flp x \<le> pow2 (expo x + 1)" using assms(1) by (rule flp_bounds)
  also have "\<dots> \<le> pow2 (expo y)" using e by (rule pow2_mono)
  also have "\<dots> \<le> flp y" using y by (rule flp_bounds)
  finally show ?thesis .
qed

lemma fl_0 [simp]: "fl 0 = 0"
  by (simp add: fl_def)

lemma fl_nonneg [simp]: "0 \<le> x \<Longrightarrow> 0 \<le> fl x"
  using flp_pos[of x] by (auto simp: fl_def)

lemma fl_pos: "0 < x \<Longrightarrow> 0 < fl x"
  using flp_pos[of x] by (simp add: fl_def)

lemma fl_mono: "x \<le> y \<Longrightarrow> fl x \<le> fl y"
proof -
  assume h: "x \<le> y"
  consider "0 < x" | "x \<le> 0" "0 \<le> y" | "y < 0" by linarith
  then show ?thesis
  proof cases
    case 1
    with h flp_mono[OF 1 h] show ?thesis by (simp add: fl_def)
  next
    case 2
    have "fl x \<le> 0" using 2(1) flp_pos[of "- x"] by (auto simp: fl_def)
    also have "0 \<le> fl y" using 2(2) by (rule fl_nonneg)
    finally show ?thesis .
  next
    case 3
    with h flp_mono[of "- y" "- x"] show ?thesis by (simp add: fl_def)
  qed
qed

lemma flp_of_int:
  assumes "0 < n" "n < 2 ^ 53"
  shows "flp (of_int n) = of_int n"
proof -
  have x: "(0::rat) < of_int n" using assms(1) by simp
  have "(of_int n :: rat) < of_int (2 ^ 53)" using assms(2) by (simp only: of_int_less_iff)
  then have lt: "of_int n < pow2 53" by (simp add: pow2_nat)
  have e: "expo (of_int n) \<le> 52"
  proof (rule ccontr)
    assume "\<not> ?thesis"
    then have "pow2 53 \<le> pow2 (expo (of_int n))" by (intro pow2_mono) simp
    with expo_bounds(1)[OF x] lt show False by linarith
  qed
  define k where "k = 52 - expo (of_int n)"
  have k: "0 \<le> k" using e by (simp add: k_def)
  have u: "pow2 (expo (of_int n) - 52) = 1 / pow2 k"
    using pow2_add[of "expo (of_int n) - 52" k] by (simp add: k_def pow2_def field_simps)
  have "of_int n / pow2 (expo (of_int n) - 52) = (of_int (n * 2 ^ nat k) :: rat)"
    by (simp add: u pow2_nat[OF k])
  then have "rhe (of_int n / pow2 (expo (of_int n) - 52)) = n * 2 ^ nat k"
    by (simp only: rhe_of_int)
  then show ?thesis by (simp add: flp_def Let_def u pow2_nat[OF k])
qed

lemma fl_of_int: "\<bar>n\<bar> < 2 ^ 53 \<Longrightarrow> fl (of_int n) = of_int n"
  using flp_of_int[of n] flp_of_int[of "- n"] by (auto simp: fl_def abs_less_iff)

lemma flp_error:
  assumes "0 < x"
  shows "\<bar>flp x - x\<bar> \<le> x / 2 ^ 53"
proof -
  define u where "u = pow2 (expo x - 52)"
  have u: "0 < u" by (simp add: u_def)
  have "flp x - x = (of_int (rhe (x / u)) - x / u) * u"
    using u by (simp add: flp_def Let_def u_def left_diff_distrib)
  then have "\<bar>flp x - x\<bar> = \<bar>of_int (rhe (x / u)) - x / u\<bar> * u"
    using u by (simp add: abs_mult)
  also have "\<dots> \<le> 1/2 * u" using rhe_error u by (intro mult_right_mono) simp_all
  also have "\<dots> = pow2 (expo x) / 2 ^ 53"
    using pow2_add[of 52 "expo x - 52"] by (simp add: u_def pow2_nat)
  also have "\<dots> \<le> x / 2 ^ 53" using expo_bounds(1)[OF assms] by (simp add: divide_right_mono)
  finally show ?thesis .
qed

lemma fl_error: "\<bar>fl x - x\<bar> \<le> \<bar>x\<bar> / 2 ^ 53"
proof (cases "x < 0")
  case True
  have "\<bar>fl x - x\<bar> = \<bar>flp (- x) - (- x)\<bar>" using True by (simp add: fl_def abs_minus_commute)
  also have "\<dots> \<le> (- x) / 2 ^ 53" using True by (intro flp_error) simp
  finally show ?thesis using True by simp
next
  case False
  with flp_error[of x] show ?thesis by (cases "x = 0") (simp_all add: fl_def)
qed

section \<open>Numbers with infinities and NaN\<close>

datatype jsnum = Fin rat | PInf | NInf | NaN

fun num_lt :: "jsnum \<Rightarrow> jsnum \<Rightarrow> bool" where
  "num_lt NaN _ = False"
| "num_lt _ NaN = False"
| "num_lt (Fin a) (Fin b) = (a < b)"
| "num_lt PInf _ = False"
| "num_lt _ NInf = False"
| "num_lt NInf _ = True"
| "num_lt _ PInf = True"

fun num_eq :: "jsnum \<Rightarrow> jsnum \<Rightarrow> bool" where
  "num_eq NaN _ = False"
| "num_eq _ NaN = False"
| "num_eq a b = (a = b)"

definition num_le :: "jsnum \<Rightarrow> jsnum \<Rightarrow> bool" where
  "num_le a b = (num_lt a b \<or> num_eq a b)"

fun is_finite :: "jsnum \<Rightarrow> bool" where
  "is_finite (Fin _) = True"
| "is_finite _ = False"

text \<open>\<open>Math.round\<close>, \<open>Math.floor\<close> and \<open>Math.ceil\<close> of a finite number.\<close>

definition math_round :: "rat \<Rightarrow> int" where
  "math_round x = \<lfloor>x + 1/2\<rfloor>"

lemma math_round_of_int [simp]: "math_round (of_int n) = n"
  by (simp add: math_round_def floor_eq_iff)

lemma math_round_mono: "x \<le> y \<Longrightarrow> math_round x \<le> math_round y"
  unfolding math_round_def by (rule floor_mono) simp

lemma num_lt_irrefl [simp]: "\<not> num_lt a a"
  by (cases a) simp_all

lemma num_lt_trans: "num_lt a b \<Longrightarrow> num_lt b c \<Longrightarrow> num_lt a c"
  by (cases a; cases b; cases c) simp_all

lemma num_lt_NaN [simp]: "\<not> num_lt a NaN"
  by (cases a) simp_all

lemma num_le_NaN [simp]: "\<not> num_le a NaN" "\<not> num_le NaN a"
  by (cases a; simp add: num_le_def)+

lemma num_le_Fin [simp]: "num_le (Fin a) (Fin b) \<longleftrightarrow> a \<le> b"
  by (auto simp: num_le_def)

section \<open>\<open>Number(string)\<close>\<close>

text \<open>White space and line terminators of the Latin-1 range.\<close>

definition is_ws :: "char \<Rightarrow> bool" where
  "is_ws c = (let n = (of_char c :: nat) in n \<in> {9, 10, 11, 12, 13, 32, 160})"

definition js_trim :: "string \<Rightarrow> string" where
  "js_trim s = rev (dropWhile is_ws (rev (dropWhile is_ws s)))"

definition is_digit :: "char \<Rightarrow> bool" where
  "is_digit c = (let n = (of_char c :: nat) in 48 \<le> n \<and> n \<le> 57)"

text \<open>The value of a digit of base 2, 8, 10 or 16; \<open>None\<close> for any other character.\<close>

definition digit_val :: "nat \<Rightarrow> char \<Rightarrow> nat option" where
  "digit_val b c = (let n = (of_char c :: nat);
       v = (if 48 \<le> n \<and> n \<le> 57 then n - 48
            else if 97 \<le> n \<and> n \<le> 102 then n - 87
            else if 65 \<le> n \<and> n \<le> 70 then n - 55 else b)
     in if v < b then Some v else None)"

fun digits_val :: "nat \<Rightarrow> nat \<Rightarrow> string \<Rightarrow> nat option" where
  "digits_val b acc [] = Some acc"
| "digits_val b acc (c # cs) =
     (case digit_val b c of None \<Rightarrow> None | Some v \<Rightarrow> digits_val b (b * acc + v) cs)"

definition nat_of_digits :: "string \<Rightarrow> nat" where
  "nat_of_digits ds = (case digits_val 10 0 ds of Some n \<Rightarrow> n | None \<Rightarrow> 0)"

text \<open>An exponent part \<open>e\<close>\<open>[+-]\<close>digits after the mantissa, or nothing.\<close>

definition exponent_part :: "string \<Rightarrow> int option" where
  "exponent_part s = (case s of [] \<Rightarrow> Some 0
     | c # r \<Rightarrow>
        if c \<noteq> CHR ''e'' \<and> c \<noteq> CHR ''E'' then None
        else let neg = (case r of d # _ \<Rightarrow> d = CHR ''-'' | [] \<Rightarrow> False);
                 ds = (case r of d # t \<Rightarrow> if d = CHR ''-'' \<or> d = CHR ''+'' then t else r | [] \<Rightarrow> [])
             in if ds = [] \<or> \<not> list_all is_digit ds then None
                else Some (if neg then - int (nat_of_digits ds) else int (nat_of_digits ds)))"

definition unsigned_decimal :: "string \<Rightarrow> jsnum" where
  "unsigned_decimal s =
     (if s = ''Infinity'' then PInf
      else let i = takeWhile is_digit s; r = dropWhile is_digit s;
               f = (case r of c # t \<Rightarrow> if c = CHR ''.'' then takeWhile is_digit t else [] | [] \<Rightarrow> []);
               r' = (case r of c # t \<Rightarrow> if c = CHR ''.'' then dropWhile is_digit t else r | [] \<Rightarrow> [])
           in if i = [] \<and> f = [] then NaN
              else case exponent_part r' of None \<Rightarrow> NaN
                | Some e \<Rightarrow> Fin (fl (of_nat (nat_of_digits (i @ f)) * 10 powi (e - int (length f)))))"

definition radix_literal :: "nat \<Rightarrow> string \<Rightarrow> jsnum" where
  "radix_literal b ds = (if ds = [] then NaN
     else case digits_val b 0 ds of None \<Rightarrow> NaN | Some n \<Rightarrow> Fin (fl (of_nat n)))"

fun num_neg :: "jsnum \<Rightarrow> jsnum" where
  "num_neg (Fin a) = Fin (- a)"
| "num_neg PInf = NInf"
| "num_neg NInf = PInf"
| "num_neg NaN = NaN"

definition number_of_string :: "string \<Rightarrow> jsnum" where
  "number_of_string s = (let t = js_trim s in
     case t of [] \<Rightarrow> Fin 0
     | c # r \<Rightarrow>
        if c = CHR ''-'' then num_neg (unsigned_decimal r)
        else if c = CHR ''+'' then unsigned_decimal r
        else if c = CHR ''0'' \<and> (case r of d # _ \<Rightarrow> d = CHR ''x'' \<or> d = CHR ''X'' | [] \<Rightarrow> False)
             then radix_literal 16 (tl r)
        else if c = CHR ''0'' \<and> (case r of d # _ \<Rightarrow> d = CHR ''o'' \<or> d = CHR ''O'' | [] \<Rightarrow> False)
             then radix_literal 8 (tl r)
        else if c = CHR ''0'' \<and> (case r of d # _ \<Rightarrow> d = CHR ''b'' \<or> d = CHR ''B'' | [] \<Rightarrow> False)
             then radix_literal 2 (tl r)
        else unsigned_decimal t)"

section \<open>Printing integers\<close>

fun show_nat :: "nat \<Rightarrow> string" where
  "show_nat n = (if n < 10 then [char_of (48 + n)]
                 else show_nat (n div 10) @ [char_of (48 + n mod 10)])"

declare show_nat.simps [simp del]

definition show_int :: "int \<Rightarrow> string" where
  "show_int i = (if i < 0 then ''-'' @ show_nat (nat (- i)) else show_nat (nat i))"

lemma digit_val_char: "d < 10 \<Longrightarrow> digit_val 10 (char_of (48 + d)) = Some d"
  by (simp add: digit_val_def of_char_of)

lemma digits_val_append:
  "digits_val b acc (xs @ ys) =
     (case digits_val b acc xs of None \<Rightarrow> None | Some a \<Rightarrow> digits_val b a ys)"
  by (induction xs arbitrary: acc) (auto split: option.splits)

lemma digits_val_show_nat: "digits_val 10 0 (show_nat n) = Some n"
proof (induction n rule: show_nat.induct)
  case (1 n)
  show ?case
  proof (cases "n < 10")
    case True
    then show ?thesis by (subst show_nat.simps) (simp add: digit_val_char)
  next
    case False
    with 1 have "digits_val 10 0 (show_nat (n div 10)) = Some (n div 10)" by simp
    with False show ?thesis
      by (subst show_nat.simps) (simp add: digits_val_append digit_val_char)
  qed
qed

lemma show_nat_inj: "show_nat m = show_nat n \<longleftrightarrow> m = n"
  using digits_val_show_nat[of m] digits_val_show_nat[of n] by (metis option.inject)

lemma show_nat_nonempty: "show_nat n \<noteq> []"
  by (subst show_nat.simps) simp

lemma show_nat_digits: "c \<in> set (show_nat n) \<Longrightarrow> is_digit c"
proof (induction n rule: show_nat.induct)
  case (1 n)
  have d: "is_digit (char_of (48 + k))" if "k < 10" for k :: nat
    using that by (simp add: is_digit_def of_char_of)
  show ?case
  proof (cases "n < 10")
    case True
    with 1 d[of n] show ?thesis by (subst (asm) show_nat.simps) simp
  next
    case False
    from "1.prems" False have "c \<in> set (show_nat (n div 10)) \<or> c = char_of (48 + n mod 10)"
      by (subst (asm) show_nat.simps) auto
    with "1.IH"[OF False] d[of "n mod 10"] show ?thesis by auto
  qed
qed

section \<open>Integers as text and back\<close>

lemma show_nat_all_digits: "takeWhile is_digit (show_nat n) = show_nat n" "dropWhile is_digit (show_nat n) = []"
  by (simp_all add: show_nat_digits)

lemma digit_not_ws: "is_digit c \<Longrightarrow> \<not> is_ws c"
  by (auto simp: is_digit_def is_ws_def Let_def)

lemma js_trim_digits: "(\<And>c. c \<in> set s \<Longrightarrow> is_digit c) \<Longrightarrow> js_trim s = s"
proof -
  assume d: "\<And>c. c \<in> set s \<Longrightarrow> is_digit c"
  have id: "dropWhile is_ws t = t" if "\<And>c. c \<in> set t \<Longrightarrow> is_digit c" for t
    using that digit_not_ws by (cases t) auto
  from d have "dropWhile is_ws s = s" "dropWhile is_ws (rev s) = rev s" by (auto intro!: id)
  then show ?thesis by (simp add: js_trim_def)
qed

lemma number_of_show_nat:
  assumes "n < 2 ^ 53" shows "number_of_string (show_nat n) = Fin (of_nat n)"
proof -
  have neq: "show_nat n \<noteq> ''Infinity''"
    using show_nat_digits[of "CHR ''I''" n] by (auto simp: is_digit_def)
  have "nat_of_digits (show_nat n) = n" by (simp add: nat_of_digits_def digits_val_show_nat)
  moreover have "fl (of_nat n) = of_nat n" using fl_of_int[of "int n"] assms by simp
  ultimately have ud: "unsigned_decimal (show_nat n) = Fin (of_nat n)"
    using neq by (simp add: unsigned_decimal_def show_nat_all_digits Let_def exponent_part_def show_nat_nonempty)
  obtain c r where cr: "show_nat n = c # r" using show_nat_nonempty[of n] by (meson neq_Nil_conv)
  have digits: "is_digit d" if "d \<in> set (c # r)" for d
    using that show_nat_digits[of d n] by (simp add: cr)
  have "c \<noteq> CHR ''-''" "c \<noteq> CHR ''+''" using digits[of c] by (auto simp: is_digit_def)
  moreover have "\<not> (case r of d # _ \<Rightarrow> d = x \<or> d = y | [] \<Rightarrow> False)"
    if "\<not> is_digit x" "\<not> is_digit y" for x y
  proof (cases r)
    case (Cons d t)
    with digits[of d] that show ?thesis by auto
  qed simp
  moreover have "js_trim (c # r) = c # r" by (rule js_trim_digits) (rule digits)
  ultimately show ?thesis
    using ud by (simp add: number_of_string_def Let_def cr is_digit_def)
qed

lemma show_nat_leading: "hd (show_nat n) = CHR ''0'' \<Longrightarrow> length (show_nat n) = 1"
proof (induction n rule: show_nat.induct)
  case (1 n)
  have zero: "char_of (48 :: nat) = CHR ''0''" by code_simp
  show ?case
  proof (cases "n < 10")
    case True
    then show ?thesis by (subst show_nat.simps) simp
  next
    case False
    then have e: "show_nat n = show_nat (n div 10) @ [char_of (48 + n mod 10)]"
      by (subst show_nat.simps) simp
    with "1.prems" have h: "hd (show_nat (n div 10)) = CHR ''0''" by (simp add: show_nat_nonempty)
    with "1.IH" False have l: "length (show_nat (n div 10)) = 1" by simp
    with h have "show_nat (n div 10) = [CHR ''0'']" by (cases "show_nat (n div 10)") auto
    also have "\<dots> = show_nat 0" by (subst show_nat.simps) (simp add: zero)
    finally have "n div 10 = 0" by (simp add: show_nat_inj)
    with False show ?thesis by simp
  qed
qed

lemma number_of_show_int:
  assumes "\<bar>i\<bar> < 2 ^ 53" shows "number_of_string (show_int i) = Fin (of_int i)"
proof (cases "i < 0")
  case False
  with number_of_show_nat[of "nat i"] assms show ?thesis by (simp add: show_int_def)
next
  case True
  define n where "n = nat (- i)"
  have n: "n < 2 ^ 53" using True assms by (simp add: n_def)
  have u: "unsigned_decimal (show_nat n) = Fin (of_nat n)"
  proof -
    have neq: "show_nat n \<noteq> ''Infinity''"
      using show_nat_digits[of "CHR ''I''" n] by (auto simp: is_digit_def)
    have "nat_of_digits (show_nat n) = n" by (simp add: nat_of_digits_def digits_val_show_nat)
    moreover have "fl (of_nat n) = of_nat n" using fl_of_int[of "int n"] n by simp
    ultimately show ?thesis
      using neq by (simp add: unsigned_decimal_def show_nat_all_digits Let_def exponent_part_def show_nat_nonempty)
  qed
  have ws: "\<not> is_ws (CHR ''-'')" by (simp add: is_ws_def Let_def)
  have "js_trim (CHR ''-'' # show_nat n) = CHR ''-'' # show_nat n"
  proof -
    obtain c r where cr: "rev (show_nat n) = c # r" using show_nat_nonempty[of n] by (cases "rev (show_nat n)") auto
    then have "c \<in> set (show_nat n)" by (metis list.set_intros(1) set_rev)
    then have "\<not> is_ws c" by (intro digit_not_ws show_nat_digits)
    with cr ws show ?thesis by (simp add: js_trim_def)
  qed
  with u True show ?thesis by (simp add: number_of_string_def show_int_def n_def)
qed

end
