(* ===== verification/JsValue.thy ===== *)
theory JsValue
  imports JsNumber
begin

text \<open>
  Untyped JavaScript values, as the services meet them in model output, request bodies and
  parsed JSON: property access with the functions every object inherits, the conversions
  \<open>String\<close>, \<open>Number\<close> and \<open>Boolean\<close>, number formatting, and \<open>JSON.parse\<close>.
\<close>

section \<open>Values\<close>

text \<open>
  An object is the list of its own properties in insertion order, each name once; \<open>JFun\<close> is one
  of the functions of \<open>Object.prototype\<close>, named.
\<close>

datatype jsval =
    JUndef
  | JNull
  | JBool bool
  | JNum jsnum
  | JStr string
  | JArr "jsval list"
  | JObj "(string \<times> jsval) list"
  | JFun string

definition object_prototype :: "string list" where
  "object_prototype = [''constructor'', ''hasOwnProperty'', ''isPrototypeOf'',
     ''propertyIsEnumerable'', ''toLocaleString'', ''toString'', ''valueOf'']"

text \<open>\<open>v[k]\<close> on an object: an own property, else an inherited function, else \<open>undefined\<close>.\<close>

fun get_prop :: "jsval \<Rightarrow> string \<Rightarrow> jsval" where
  "get_prop (JObj ps) k = (case map_of ps k of Some v \<Rightarrow> v
     | None \<Rightarrow> if k \<in> set object_prototype then JFun k else JUndef)"
| "get_prop _ k = JUndef"

fun is_object :: "jsval \<Rightarrow> bool" where
  "is_object (JObj _) = True"
| "is_object _ = False"

fun is_string :: "jsval \<Rightarrow> bool" where
  "is_string (JStr _) = True"
| "is_string _ = False"

fun is_boolean :: "jsval \<Rightarrow> bool" where
  "is_boolean (JBool _) = True"
| "is_boolean _ = False"

fun is_nullish :: "jsval \<Rightarrow> bool" where
  "is_nullish JUndef = True"
| "is_nullish JNull = True"
| "is_nullish _ = False"

fun str_of :: "jsval \<Rightarrow> string" where
  "str_of (JStr s) = s"
| "str_of _ = []"

fun arr_of :: "jsval \<Rightarrow> jsval list option" where
  "arr_of (JArr xs) = Some xs"
| "arr_of _ = None"

text \<open>\<open>Boolean(v)\<close>.\<close>

fun truthy :: "jsval \<Rightarrow> bool" where
  "truthy JUndef = False"
| "truthy JNull = False"
| "truthy (JBool b) = b"
| "truthy (JNum n) = (case n of Fin x \<Rightarrow> x \<noteq> 0 | NaN \<Rightarrow> False | _ \<Rightarrow> True)"
| "truthy (JStr s) = (s \<noteq> [])"
| "truthy _ = True"

section \<open>Numbers as text\<close>

definition pad0 :: "nat \<Rightarrow> string \<Rightarrow> string" where
  "pad0 n s = replicate (n - length s) (CHR ''0'') @ s"

text \<open>\<open>x.toFixed(f)\<close> below \<open>10 ^ 21\<close>: the nearest multiple, the larger one on a tie.\<close>

definition to_fixed :: "nat \<Rightarrow> rat \<Rightarrow> string" where
  "to_fixed f x = (let neg = x < 0; n = nat \<lfloor>\<bar>x\<bar> * 10 ^ f + 1/2\<rfloor>;
       s = pad0 (f + 1) (show_nat n); k = length s - f
     in (if neg then ''-'' else []) @ take k s
        @ (if f = 0 then [] else ''.'' @ drop k s))"

text \<open>
  \<open>Number::toString\<close>: the shortest decimal that rounds back to the number.  \<open>dec_point x\<close> is the
  \<open>n\<close> with \<open>10 ^ (n - 1) \<le> x < 10 ^ n\<close>, searched within the range of binary64.
\<close>

definition dec_point :: "rat \<Rightarrow> int" where
  "dec_point x = (case List.find (\<lambda>n. x < 10 powi n) [-330 .. 330] of Some n \<Rightarrow> n | None \<Rightarrow> 330)"

definition shortest_digits :: "rat \<Rightarrow> nat \<times> int \<times> nat" where
  "shortest_digits x = (let n = dec_point x;
       cand = (\<lambda>k. nat (rhe (x / 10 powi (n - int k))));
       k = (case List.find (\<lambda>k. fl (of_nat (cand k) * 10 powi (n - int k)) = x) [1..<18]
            of Some k \<Rightarrow> k | None \<Rightarrow> 17)
     in (cand k, n, k))"

definition pos_to_string :: "rat \<Rightarrow> string" where
  "pos_to_string x = (let (s, n, k) = shortest_digits x; ds = show_nat s in
     if int k \<le> n \<and> n \<le> 21 then ds @ replicate (nat (n - int k)) (CHR ''0'')
     else if 0 < n \<and> n \<le> 21 then take (nat n) ds @ ''.'' @ drop (nat n) ds
     else if -6 < n \<and> n \<le> 0 then ''0.'' @ replicate (nat (- n)) (CHR ''0'') @ ds
     else take 1 ds @ (if k = 1 then [] else ''.'' @ drop 1 ds) @ ''e''
          @ (if n - 1 < 0 then show_int (n - 1) else ''+'' @ show_int (n - 1)))"

definition rat_to_string :: "rat \<Rightarrow> string" where
  "rat_to_string x = (if x = of_int \<lfloor>x\<rfloor> \<and> \<bar>x\<bar> < 10 ^ 21 then show_int \<lfloor>x\<rfloor>
     else if x < 0 then ''-'' @ pos_to_string (- x) else pos_to_string x)"

fun num_to_string :: "jsnum \<Rightarrow> string" where
  "num_to_string (Fin x) = rat_to_string x"
| "num_to_string PInf = ''Infinity''"
| "num_to_string NInf = ''-Infinity''"
| "num_to_string NaN = ''NaN''"

lemma rat_to_string_of_int [simp]: "\<bar>i\<bar> < 10 ^ 21 \<Longrightarrow> rat_to_string (of_int i) = show_int i"
proof -
  assume "\<bar>i\<bar> < 10 ^ 21"
  then have "(of_int \<bar>i\<bar> :: rat) < of_int (10 ^ 21)" by (simp only: of_int_less_iff)
  then show ?thesis by (simp add: rat_to_string_def)
qed

section \<open>\<open>String(v)\<close> and \<open>Number(v)\<close>\<close>

fun join :: "string \<Rightarrow> string list \<Rightarrow> string" where
  "join sep [] = []"
| "join sep [x] = x"
| "join sep (x # y # xs) = x @ sep @ join sep (y # xs)"

function to_string :: "jsval \<Rightarrow> string" where
  "to_string JUndef = ''undefined''"
| "to_string JNull = ''null''"
| "to_string (JBool b) = (if b then ''true'' else ''false'')"
| "to_string (JNum n) = num_to_string n"
| "to_string (JStr s) = s"
| "to_string (JArr xs) = join '','' (map (\<lambda>v. if is_nullish v then [] else to_string v) xs)"
| "to_string (JObj ps) = ''[object Object]''"
| "to_string (JFun f) = ''function '' @ (if f = ''constructor'' then ''Object'' else f) @ ''() { [native code] }''"
  by pat_completeness auto
termination
  by (relation "measure size") (auto simp: size_list_estimation' less_Suc_eq_le)

definition to_number :: "jsval \<Rightarrow> jsnum" where
  "to_number v = (case v of
     JUndef \<Rightarrow> NaN | JNull \<Rightarrow> Fin 0 | JBool b \<Rightarrow> Fin (if b then 1 else 0)
   | JNum n \<Rightarrow> n | JStr s \<Rightarrow> number_of_string s | _ \<Rightarrow> number_of_string (to_string v))"

section \<open>\<open>JSON.parse\<close>\<close>

text \<open>
  The grammar of ECMA-404; \<open>None\<close> is a thrown \<open>SyntaxError\<close>.  Escapes name code units of the
  Latin-1 range.  The recursion is bounded by fuel, and \<open>json_fuel_enough\<close> shows that
  the amount \<open>json_parse\<close> gives never changes the answer.
\<close>

definition skip_ws :: "string \<Rightarrow> string" where
  "skip_ws s = dropWhile (\<lambda>c. (of_char c :: nat) \<in> {9, 10, 13, 32}) s"

definition unescape :: "char \<Rightarrow> char option" where
  "unescape c = map_of [(CHR 0x22, CHR 0x22), (CHR 0x5C, CHR 0x5C), (CHR ''/'', CHR ''/''),
     (CHR ''b'', CHR 0x08), (CHR ''f'', CHR 0x0C), (CHR ''n'', CHR 0x0A), (CHR ''r'', CHR 0x0D),
     (CHR ''t'', CHR 0x09)] c"

fun json_str :: "string \<Rightarrow> (string \<times> string) option" where
  "json_str [] = None"
| "json_str (c # r) =
     (if c = CHR 0x22 then Some ([], r)
      else if c = CHR 0x5C then
        (case r of [] \<Rightarrow> None
         | d # t \<Rightarrow>
            if d = CHR ''u'' then
              (case t of h1 # h2 # h3 # h4 # u \<Rightarrow>
                 (case digits_val 16 0 [h1, h2, h3, h4] of None \<Rightarrow> None
                  | Some n \<Rightarrow> map_option (\<lambda>(x, y). (char_of n # x, y)) (json_str u))
               | _ \<Rightarrow> None)
            else (case unescape d of None \<Rightarrow> None
                  | Some e \<Rightarrow> map_option (\<lambda>(x, y). (e # x, y)) (json_str t)))
      else if (of_char c :: nat) < 32 then None
      else map_option (\<lambda>(x, y). (c # x, y)) (json_str r))"

definition json_num_ok :: "string \<Rightarrow> bool" where
  "json_num_ok s = (let u = (case s of c # r \<Rightarrow> if c = CHR ''-'' then r else s | [] \<Rightarrow> []);
       i = takeWhile is_digit u; r = dropWhile is_digit u;
       f = (case r of c # t \<Rightarrow> if c = CHR ''.'' then Some (takeWhile is_digit t) else None | [] \<Rightarrow> None)
     in i \<noteq> [] \<and> (hd i = CHR ''0'' \<longrightarrow> length i = 1) \<and> f \<noteq> Some [])"

definition json_number :: "string \<Rightarrow> (jsval \<times> string) option" where
  "json_number s = (let p = (\<lambda>c. is_digit c \<or> c \<in> set ''+-.eE''); t = takeWhile p s in
     case number_of_string t of Fin x \<Rightarrow>
       if t \<noteq> [] \<and> json_num_ok t then Some (JNum (Fin x), dropWhile p s) else None
     | _ \<Rightarrow> None)"

definition keyword :: "string \<Rightarrow> (string \<times> jsval) option" where
  "keyword s = List.find (\<lambda>(k, _). take (length k) s = k)
     [(''true'', JBool True), (''false'', JBool False), (''null'', JNull)]"

fun json_value :: "nat \<Rightarrow> string \<Rightarrow> (jsval \<times> string) option"
  and json_items :: "nat \<Rightarrow> string \<Rightarrow> jsval list \<Rightarrow> (jsval \<times> string) option"
  and json_members :: "nat \<Rightarrow> string \<Rightarrow> (string \<times> jsval) list \<Rightarrow> (jsval \<times> string) option" where
  "json_value 0 s = None"
| "json_value (Suc n) s = (case skip_ws s of [] \<Rightarrow> None
     | c # r \<Rightarrow>
        if c = CHR ''{'' then
          (case skip_ws r of [] \<Rightarrow> None
           | d # t \<Rightarrow> if d = CHR ''}'' then Some (JObj [], t) else json_members n r [])
        else if c = CHR ''['' then
          (case skip_ws r of [] \<Rightarrow> None
           | d # t \<Rightarrow> if d = CHR '']'' then Some (JArr [], t) else json_items n r [])
        else if c = CHR 0x22 then map_option (\<lambda>(x, t). (JStr x, t)) (json_str r)
        else (case keyword (c # r) of Some (k, v) \<Rightarrow> Some (v, drop (length k) (c # r))
              | None \<Rightarrow> json_number (c # r)))"
| "json_items 0 s acc = None"
| "json_items (Suc n) s acc = (case json_value n s of None \<Rightarrow> None
     | Some (v, t) \<Rightarrow>
        (case skip_ws t of [] \<Rightarrow> None
         | d # u \<Rightarrow> if d = CHR '','' then json_items n u (acc @ [v])
                    else if d = CHR '']'' then Some (JArr (acc @ [v]), u) else None))"
| "json_members 0 s acc = None"
| "json_members (Suc n) s acc = (case skip_ws s of [] \<Rightarrow> None
     | c # r \<Rightarrow> if c \<noteq> CHR 0x22 then None else
        (case json_str r of None \<Rightarrow> None
         | Some (k, t) \<Rightarrow>
            (case skip_ws t of [] \<Rightarrow> None
             | d # u \<Rightarrow> if d \<noteq> CHR '':'' then None else
                (case json_value n u of None \<Rightarrow> None
                 | Some (v, w) \<Rightarrow>
                    (case skip_ws w of [] \<Rightarrow> None
                     | e # x \<Rightarrow> if e = CHR '','' then json_members n x (aput k v acc)
                                else if e = CHR ''}'' then Some (JObj (aput k v acc), x)
                                else None)))))"

definition json_parse :: "string \<Rightarrow> jsval option" where
  "json_parse s = (case json_value (2 * length s + 2) s of None \<Rightarrow> None
     | Some (v, t) \<Rightarrow> if skip_ws t = [] then Some v else None)"

lemma length_skip_ws: "length (skip_ws s) \<le> length s"
  by (simp add: skip_ws_def length_dropWhile_le)

lemma skip_ws_Cons: "skip_ws s = c # r \<Longrightarrow> length r < length s"
  using length_skip_ws[of s] by simp

lemma json_str_shorter: "json_str s = Some (x, t) \<Longrightarrow> length t < length s"
proof (induction s arbitrary: x t rule: json_str.induct)
  case (2 c r)
  show ?case
  proof (cases "c = CHR 0x22 \<or> c \<noteq> CHR 0x5C")
    case True
    with 2 show ?thesis by (fastforce split: if_splits)
  next
    case False
    with 2 show ?thesis
      by (fastforce split: if_splits list.splits option.splits)
  qed
qed simp

lemma keyword_Some: "keyword s = Some (k, v) \<Longrightarrow> 0 < length k \<and> length k \<le> length s"
  by (auto simp: keyword_def take_eq_Nil split: if_splits dest: arg_cong[where f = length])

lemma json_number_shorter: "json_number s = Some (v, t) \<Longrightarrow> length t < length s"
proof -
  let ?p = "\<lambda>c. is_digit c \<or> c \<in> set ''+-.eE''"
  assume "json_number s = Some (v, t)"
  then have "takeWhile ?p s \<noteq> []" and t: "t = dropWhile ?p s"
    by (auto simp: json_number_def Let_def split: jsnum.splits if_splits)
  then have "0 < length (takeWhile ?p s)" by blast
  moreover have "length (takeWhile ?p s) + length (dropWhile ?p s) = length s"
    by (metis length_append takeWhile_dropWhile_id)
  ultimately show ?thesis unfolding t by linarith
qed

lemma json_shorter:
  "json_value n s = Some (v, t) \<Longrightarrow> length t < length s"
  "json_items n s acc = Some (v, t) \<Longrightarrow> length t < length s"
  "json_members n s mem = Some (v, t) \<Longrightarrow> length t < length s"
proof (induction n s and n s acc and n s mem arbitrary: v t and v t and v t
    rule: json_value_json_items_json_members.induct)
  case (2 n s)
  obtain c r where c: "skip_ws s = c # r" using "2.prems" by (cases "skip_ws s") auto
  have r: "length (c # r) \<le> length s" using length_skip_ws[of s] by (simp add: c)
  consider (brace) "c = CHR ''{''" | (bracket) "c = CHR ''[''" | (quot) "c = CHR 0x22"
    | (other) "c \<noteq> CHR ''{''" "c \<noteq> CHR ''[''" "c \<noteq> CHR 0x22" by blast
  then show ?case
  proof cases
    case brace
    obtain d u where d: "skip_ws r = d # u" using "2.prems" c brace by (cases "skip_ws r") auto
    have "length t < length r"
    proof (cases "d = CHR ''}''")
      case True
      with "2.prems" c brace d have "t = u" by simp
      with skip_ws_Cons[OF d] show ?thesis by simp
    next
      case False
      with "2.prems" c brace d have "json_members n r [] = Some (v, t)" by simp
      with "2.IH" c brace d False show ?thesis by simp
    qed
    with r show ?thesis by simp
  next
    case bracket
    obtain d u where d: "skip_ws r = d # u" using "2.prems" c bracket by (cases "skip_ws r") auto
    have "length t < length r"
    proof (cases "d = CHR '']''")
      case True
      with "2.prems" c bracket d have "t = u" by simp
      with skip_ws_Cons[OF d] show ?thesis by simp
    next
      case False
      with "2.prems" c bracket d have "json_items n r [] = Some (v, t)" by simp
      with "2.IH" c bracket d False show ?thesis by simp
    qed
    with r show ?thesis by simp
  next
    case quot
    with "2.prems" c obtain x where "json_str r = Some (x, t)" by auto
    from json_str_shorter[OF this] r show ?thesis by simp
  next
    case other
    show ?thesis
    proof (cases "keyword (c # r)")
      case None
      with other "2.prems" c have "json_number (c # r) = Some (v, t)" by simp
      from json_number_shorter[OF this] r show ?thesis by simp
    next
      case (Some p)
      obtain k w where p: "p = (k, w)" by fastforce
      with Some other "2.prems" c have "t = drop (length k) (c # r)" by simp
      then have "length t = length (c # r) - length k" by (simp only: length_drop)
      moreover have "0 < length k" "length k \<le> length (c # r)"
        using keyword_Some[of "c # r" k w] Some p by simp_all
      ultimately show ?thesis using r by linarith
    qed
  qed
next
  case (4 n s acc)
  from "4.prems" obtain w x where w: "json_value n s = Some (w, x)"
    by (auto split: option.splits)
  from "4.IH"(1)[OF w] have x: "length x < length s" .
  from "4.prems" w obtain d u where d: "skip_ws x = d # u" by (cases "skip_ws x") auto
  have u: "length u < length x" using skip_ws_Cons[OF d] .
  show ?case
  proof (cases "d = CHR '',''")
    case True
    with "4.prems" w d have "json_items n u (acc @ [w]) = Some (v, t)" by simp
    with "4.IH"(2) w d True have "length t < length u" by simp
    with x u show ?thesis by simp
  next
    case False
    with "4.prems" w d have "t = u" by (auto split: if_splits)
    with x u show ?thesis by simp
  qed
next
  case (6 n s acc)
  from "6.prems" obtain c r where c: "skip_ws s = c # r" "c = CHR 0x22"
    by (cases "skip_ws s") (auto split: if_splits)
  from "6.prems" c obtain k x where k: "json_str r = Some (k, x)" by (auto split: option.splits)
  from "6.prems" c k obtain d u where d: "skip_ws x = d # u" "d = CHR '':''"
    by (cases "skip_ws x") (auto split: if_splits)
  from "6.prems" c k d obtain w y where w: "json_value n u = Some (w, y)" by (auto split: option.splits)
  from "6.prems" c k d w obtain e z where e: "skip_ws y = e # z" by (cases "skip_ws y") auto
  have y: "length y < length u" using "6.IH"(1)[OF c(1) _ k _ d(1) _ w] c(2) d(2) by simp
  note len = skip_ws_Cons[OF c(1)] json_str_shorter[OF k] skip_ws_Cons[OF d(1)] y skip_ws_Cons[OF e]
  show ?case
  proof (cases "e = CHR '',''")
    case True
    with "6.prems" c k d w e have "json_members n z (aput k w acc) = Some (v, t)" by simp
    with "6.IH"(2) c k d w e True have "length t < length z" by simp
    with len show ?thesis by simp
  next
    case False
    with "6.prems" c k d w e have "t = z" by (auto split: if_splits)
    with len show ?thesis by simp
  qed
qed simp_all

lemma json_fuel_enough:
  "(\<forall>s. 2 * length s + 2 \<le> n \<longrightarrow> json_value (Suc n) s = json_value n s) \<and>
   (\<forall>s acc. 2 * length s + 3 \<le> n \<longrightarrow> json_items (Suc n) s acc = json_items n s acc) \<and>
   (\<forall>s acc. 2 * length s + 3 \<le> n \<longrightarrow> json_members (Suc n) s acc = json_members n s acc)"
proof (induction n)
  case (Suc n)
  note IH = Suc.IH[THEN conjunct1, rule_format] Suc.IH[THEN conjunct2, THEN conjunct1, rule_format]
    Suc.IH[THEN conjunct2, THEN conjunct2, rule_format]
  have V: "json_value (Suc (Suc n)) s = json_value (Suc n) s" if h: "2 * length s + 2 \<le> Suc n" for s
  proof (cases "skip_ws s")
    case (Cons c r)
    from skip_ws_Cons[OF Cons] h have "2 * length r + 3 \<le> n" by simp
    then have "json_items (Suc n) r [] = json_items n r []" "json_members (Suc n) r [] = json_members n r []"
      by (rule IH(2), rule IH(3))
    then show ?thesis
      by (simp only: json_value.simps(2)[of "Suc n"] json_value.simps(2)[of n] Cons list.case)
  qed simp
  have I: "json_items (Suc (Suc n)) s acc = json_items (Suc n) s acc"
    if h: "2 * length s + 3 \<le> Suc n" for s acc
  proof -
    have e: "json_value (Suc n) s = json_value n s" using h by (intro IH(1)) simp
    show ?thesis
    proof (cases "json_value n s")
      case (Some p)
      obtain v t where p: "p = (v, t)" by fastforce
      with Some have t: "length t < length s" by (auto intro: json_shorter)
      show ?thesis
      proof (cases "skip_ws t")
        case (Cons d u)
        from skip_ws_Cons[OF Cons] t h have "2 * length u + 3 \<le> n" by simp
        then have "json_items (Suc n) u (acc @ [v]) = json_items n u (acc @ [v])" by (rule IH(2))
        with Some p e Cons show ?thesis
          by (simp only: json_items.simps(2)[of "Suc n"] json_items.simps(2)[of n]) simp
      next
        case Nil
        with Some p e show ?thesis
          by (simp only: json_items.simps(2)[of "Suc n"] json_items.simps(2)[of n]) simp
      qed
    next
      case None
      with e show ?thesis
        by (simp only: json_items.simps(2)[of "Suc n"] json_items.simps(2)[of n]) simp
    qed
  qed
  have M: "json_members (Suc (Suc n)) s acc = json_members (Suc n) s acc"
    if h: "2 * length s + 3 \<le> Suc n" for s acc
  proof -
    have v: "json_value (Suc n) u = json_value n u" if "length u < length s" for u
      using that h by (intro IH(1)) simp
    have m: "json_members (Suc n) u a = json_members n u a" if "length u < length s" for u a
      using that h by (intro IH(3)) simp
    note step = json_members.simps(2)[of "Suc n"] json_members.simps(2)[of n] list.case option.case prod.case
    show ?thesis
    proof (cases "skip_ws s")
      case (Cons c r)
      note c = this
      show ?thesis
      proof (cases "json_str r")
        case (Some p)
        obtain k t where k: "json_str r = Some (k, t)" using Some by (cases p) simp
        show ?thesis
        proof (cases "skip_ws t")
          case (Cons d u)
          note len = skip_ws_Cons[OF c] json_str_shorter[OF k] skip_ws_Cons[OF Cons]
          then have vu: "json_value (Suc n) u = json_value n u" by (intro v) simp
          show ?thesis
          proof (cases "json_value n u")
            case (Some q)
            obtain x w where x: "json_value n u = Some (x, w)" using Some by (cases q) simp
            show ?thesis
            proof (cases "skip_ws w")
              case e: (Cons e z)
              from json_shorter(1)[OF x] skip_ws_Cons[OF e] len have "length z < length s" by simp
              then have "json_members (Suc n) z (aput k x acc) = json_members n z (aput k x acc)" by (rule m)
              then show ?thesis by (simp only: step c k Cons vu x e)
            qed (simp only: step c k Cons vu x)
          qed (simp only: step c k Cons vu)
        qed (simp only: step c k)
      qed (simp only: step c)
    qed (simp only: step)
  qed
  from V I M show ?case by blast
qed simp

end
