(* ===== verification/ModelCatalog.thy ===== *)
theory ModelCatalog
  imports JsValue
begin

text \<open>
  \<open>src/src/ai/providers/model-catalog.ts\<close>: the models, their prices and what a run is charged
  (\<open>creditRates\<close>) and costs (\<open>listCostUsd\<close>).  Every arithmetic operation on prices rounds to
  binary64 (\<open>fl\<close>), in the order the code performs it.
\<close>

section \<open>The catalogue\<close>

datatype provider_id = Anthropic | Gateway

record model_badge =
  badge_type :: string
  badge_value :: "string option"

record model_definition =
  md_id :: string
  md_name :: string
  md_description :: string
  md_provider :: provider_id
  md_inputPricePerMillion :: rat
  md_outputPricePerMillion :: rat
  md_costInputPricePerMillion :: "rat option"
  md_costOutputPricePerMillion :: "rat option"
  md_supportsTools :: bool
  md_supportsRemoteMcp :: bool
  md_supportsAdaptiveThinking :: "bool option"
  md_badges :: "model_badge list"

definition CREDITS_PER_DOLLAR :: int where
  "CREDITS_PER_DOLLAR = 400"

definition CREDIT_MARGIN :: int where
  "CREDIT_MARGIN = 1"

definition claude_sonnet_5 :: model_definition where
  "claude_sonnet_5 =
     \<lparr>md_id = ''claude-sonnet-5'', md_name = ''Claude Sonnet 5'',
      md_description = ''Near-Opus quality on everyday agent work at 40% less. The default, and the right choice for most workspaces.'',
      md_provider = Anthropic, md_inputPricePerMillion = 3, md_outputPricePerMillion = 15,
      md_costInputPricePerMillion = None, md_costOutputPricePerMillion = None,
      md_supportsTools = True, md_supportsRemoteMcp = True, md_supportsAdaptiveThinking = Some True,
      md_badges = [\<lparr>badge_type = ''recommended'', badge_value = None\<rparr>,
                   \<lparr>badge_type = ''discount'', badge_value = Some ''-40%''\<rparr>]\<rparr>"

definition claude_opus_4_8 :: model_definition where
  "claude_opus_4_8 =
     \<lparr>md_id = ''claude-opus-4-8'', md_name = ''Claude Opus 4.8'',
      md_description = ''The stronger model, for complex or high-stakes campaign work. Costs about two-thirds more than Sonnet 5.'',
      md_provider = Anthropic, md_inputPricePerMillion = 5, md_outputPricePerMillion = 25,
      md_costInputPricePerMillion = None, md_costOutputPricePerMillion = None,
      md_supportsTools = True, md_supportsRemoteMcp = True, md_supportsAdaptiveThinking = Some True,
      md_badges = [\<lparr>badge_type = ''premium'', badge_value = Some ''+67%''\<rparr>]\<rparr>"

definition ANTHROPIC_MODELS :: "model_definition list" where
  "ANTHROPIC_MODELS = [claude_sonnet_5, claude_opus_4_8]"

text \<open>\<open>Number(v) || 0\<close>: NaN and zero give 0.  Infinite prices cannot come from JSON.\<close>

definition price_or_zero :: "jsval \<Rightarrow> rat" where
  "price_or_zero v = (case to_number v of Fin x \<Rightarrow> x | _ \<Rightarrow> 0)"

definition badge_of :: "jsval \<Rightarrow> model_badge" where
  "badge_of v = \<lparr>badge_type = str_of (get_prop v ''type''),
     badge_value = (case get_prop v ''value'' of JStr s \<Rightarrow> Some s | _ \<Rightarrow> None)\<rparr>"

definition gateway_model :: "jsval \<Rightarrow> model_definition" where
  "gateway_model e =
     \<lparr>md_id = to_string (get_prop e ''id''), md_name = to_string (get_prop e ''name''),
      md_description = (if is_nullish (get_prop e ''description'') then []
                        else to_string (get_prop e ''description'')),
      md_provider = Gateway,
      md_inputPricePerMillion = price_or_zero (get_prop e ''inputPricePerMillion''),
      md_outputPricePerMillion = price_or_zero (get_prop e ''outputPricePerMillion''),
      md_costInputPricePerMillion = None, md_costOutputPricePerMillion = None,
      md_supportsTools = truthy (get_prop e ''supportsTools''),
      md_supportsRemoteMcp = False, md_supportsAdaptiveThinking = None,
      md_badges = (case get_prop e ''badges'' of JArr bs \<Rightarrow> map badge_of bs | _ \<Rightarrow> [])\<rparr>"

definition parseGatewayModels :: "string \<Rightarrow> model_definition list" where
  "parseGatewayModels raw =
     (if js_trim raw = [] then []
      else case json_parse raw of None \<Rightarrow> []
        | Some parsed \<Rightarrow>
           (case parsed of JArr entries \<Rightarrow>
              map gateway_model
                (filter (\<lambda>e. truthy (get_prop e ''id'') \<and> truthy (get_prop e ''name'')) entries)
            | _ \<Rightarrow> []))"

definition buildCatalog :: "string \<Rightarrow> model_definition list" where
  "buildCatalog gatewayModelsJson = ANTHROPIC_MODELS @ parseGatewayModels gatewayModelsJson"

section \<open>Prices\<close>

definition perCredit :: "rat \<Rightarrow> rat" where
  "perCredit pricePerMillion =
     fl (fl (fl (pricePerMillion / 1000) * of_int CREDITS_PER_DOLLAR) * of_int CREDIT_MARGIN)"

record credit_rates =
  rate_input :: rat
  rate_output :: rat

definition creditRates :: "model_definition \<Rightarrow> credit_rates" where
  "creditRates m = \<lparr>rate_input = perCredit (md_inputPricePerMillion m),
                    rate_output = perCredit (md_outputPricePerMillion m)\<rparr>"

definition CACHE_WRITE_MULTIPLIER :: rat where
  "CACHE_WRITE_MULTIPLIER = 2"

definition CACHE_READ_MULTIPLIER :: rat where
  "CACHE_READ_MULTIPLIER = fl (1/10)"

definition listCostUsd :: "model_definition \<Rightarrow> int \<Rightarrow> int \<Rightarrow> int option \<Rightarrow> int option \<Rightarrow> rat" where
  "listCostUsd m inputTokens outputTokens cacheWriteTokens cacheReadTokens =
    (let inputPrice = (case md_costInputPricePerMillion m of Some p \<Rightarrow> p | None \<Rightarrow> md_inputPricePerMillion m);
         outputPrice = (case md_costOutputPricePerMillion m of Some p \<Rightarrow> p | None \<Rightarrow> md_outputPricePerMillion m);
         cacheWrites = max 0 (case cacheWriteTokens of Some n \<Rightarrow> n | None \<Rightarrow> 0);
         cacheReads = max 0 (case cacheReadTokens of Some n \<Rightarrow> n | None \<Rightarrow> 0);
         uncached = max 0 (inputTokens - cacheWrites - cacheReads)
     in fl (fl (fl (fl (fl (of_int uncached / 1000000) * inputPrice)
          + fl (fl (fl (of_int cacheWrites / 1000000) * inputPrice) * CACHE_WRITE_MULTIPLIER))
          + fl (fl (fl (of_int cacheReads / 1000000) * inputPrice) * CACHE_READ_MULTIPLIER))
          + fl (fl (of_int outputTokens / 1000000) * outputPrice)))"

section \<open>Facts\<close>

lemma perCredit_nonneg: "0 \<le> p \<Longrightarrow> 0 \<le> perCredit p"
  by (simp add: perCredit_def CREDITS_PER_DOLLAR_def CREDIT_MARGIN_def)

lemma perCredit_sonnet: "perCredit 3 = fl (6/5)" "perCredit 15 = 6"
  and perCredit_opus: "perCredit 5 = 2" "perCredit 25 = 10"
  by code_simp+

lemma listCostUsd_nonneg:
  assumes "0 \<le> md_inputPricePerMillion m" "0 \<le> md_outputPricePerMillion m"
    and "md_costInputPricePerMillion m = None \<or> 0 \<le> the (md_costInputPricePerMillion m)"
    and "md_costOutputPricePerMillion m = None \<or> 0 \<le> the (md_costOutputPricePerMillion m)"
    and "0 \<le> outputTokens"
  shows "0 \<le> listCostUsd m inputTokens outputTokens w r"
proof -
  have p: "0 \<le> (case md_costInputPricePerMillion m of Some p \<Rightarrow> p | None \<Rightarrow> md_inputPricePerMillion m)"
    "0 \<le> (case md_costOutputPricePerMillion m of Some p \<Rightarrow> p | None \<Rightarrow> md_outputPricePerMillion m)"
    using assms(1-4) by (auto split: option.splits)
  show ?thesis
    unfolding listCostUsd_def Let_def CACHE_WRITE_MULTIPLIER_def CACHE_READ_MULTIPLIER_def
    by (intro fl_nonneg add_nonneg_nonneg mult_nonneg_nonneg p divide_nonneg_nonneg)
      (use assms(5) in simp_all)
qed

lemma fl_mult_mono: "0 \<le> r \<Longrightarrow> a \<le> b \<Longrightarrow> fl (a * r) \<le> fl (b * r)"
  by (intro fl_mono mult_right_mono)

end
