(* ===== verification/Tables.thy ===== *)
theory Tables
  imports Prelude
begin

text \<open>
  TypeORM repositories as lists of rows in insertion order, which is also the order of their
  \<open>createdAt\<close> column: \<open>find\<close> with \<open>order: createdAt ASC\<close> is \<open>filter\<close>, with \<open>DESC\<close> it is
  \<open>filter\<close> reversed, \<open>findOne\<close> is \<open>List.find\<close>.  \<open>save\<close> overwrites the row with the same
  primary key or adds a new one.  The locale \<open>tenant_service\<close> states what every
  workspace-scoped service promises: it never touches another workspace's rows.
\<close>

section \<open>Repository operations\<close>

definition save_row :: "('r \<Rightarrow> uuid) \<Rightarrow> 'r \<Rightarrow> 'r list \<Rightarrow> 'r list" where
  "save_row key r rows =
     (if \<exists>x \<in> set rows. key x = key r then update_where (\<lambda>x. key x = key r) (\<lambda>_. r) rows
      else rows @ [r])"

definition delete_where :: "('r \<Rightarrow> bool) \<Rightarrow> 'r list \<Rightarrow> 'r list" where
  "delete_where p rows = filter (\<lambda>r. \<not> p r) rows"

text \<open>\<open>take: n\<close> of the newest rows that satisfy the condition.\<close>

definition newest :: "nat \<Rightarrow> ('r \<Rightarrow> bool) \<Rightarrow> 'r list \<Rightarrow> 'r list" where
  "newest n p rows = take n (rev (filter p rows))"

lemma set_save_row:
  "x \<in> set (save_row key r rows) \<longleftrightarrow> x = r \<or> (x \<in> set rows \<and> key x \<noteq> key r)"
  by (auto simp: save_row_def in_set_update_where)

lemma in_save_row [simp]: "r \<in> set (save_row key r rows)"
  by (simp add: set_save_row)

lemma map_key_save_row:
  "map key (save_row key r rows) =
     (if \<exists>x \<in> set rows. key x = key r then map key rows else map key rows @ [key r])"
  by (auto simp: save_row_def intro!: map_update_where)

lemma distinct_save_row:
  "distinct (map key rows) \<Longrightarrow> distinct (map key (save_row key r rows))"
  by (auto simp: map_key_save_row)

lemma save_row_keeps_others:
  "(\<And>x. x \<in> set rows \<Longrightarrow> key x = key r \<Longrightarrow> \<not> q x) \<Longrightarrow> \<not> q r \<Longrightarrow>
     filter q (save_row key r rows) = filter q rows"
  by (simp add: save_row_def filter_update_where)

lemma find_update_key:
  "key x = key r \<Longrightarrow> x \<in> set rows \<Longrightarrow>
     List.find (\<lambda>x. key x = k) (update_where (\<lambda>x. key x = key r) (\<lambda>_. r) rows) =
       (if k = key r then Some r else List.find (\<lambda>x. key x = k) rows)"
proof (induction rows)
  case (Cons a rows)
  show ?case
  proof (cases "key a = key r")
    case True
    have "List.find (\<lambda>x. key x = k) (update_where (\<lambda>x. key x = key r) (\<lambda>_. r) rows) =
          List.find (\<lambda>x. key x = k) rows" if "k \<noteq> key r"
      using that by (induction rows) auto
    with True show ?thesis by auto
  next
    case False
    with Cons have "x \<in> set rows" by auto
    with Cons False show ?thesis by auto
  qed
qed simp

lemma find_save_row:
  "List.find (\<lambda>x. key x = k) (save_row key r rows) =
       (if k = key r then Some r else List.find (\<lambda>x. key x = k) rows)"
proof (cases "\<exists>x \<in> set rows. key x = key r")
  case True
  then obtain x where x: "x \<in> set rows" "key x = key r" by blast
  with True show ?thesis using find_update_key[OF x(2,1)] by (simp add: save_row_def)
next
  case False
  then have n: "List.find (\<lambda>x. key x = key r) rows = None" by (simp add: find_None_iff_all)
  from False show ?thesis
    by (cases "k = key r") (simp_all add: save_row_def find_append n split: option.split)
qed

lemma set_delete_where [simp]: "set (delete_where p rows) = {r \<in> set rows. \<not> p r}"
  by (auto simp: delete_where_def)

lemma delete_where_keeps_others:
  "(\<And>x. x \<in> set rows \<Longrightarrow> p x \<Longrightarrow> \<not> q x) \<Longrightarrow> filter q (delete_where p rows) = filter q rows"
  by (induction rows) (auto simp: delete_where_def)

text \<open>Saving or deleting a row of one tenant leaves the rows of the others alone.\<close>

lemma save_row_foreign:
  assumes "distinct (map key rows)" "r \<in> set rows" "key r' = key r"
    and "tenant r = ws" "tenant r' = ws" "w \<noteq> ws"
  shows "filter (\<lambda>x. tenant x = w) (save_row key r' rows) = filter (\<lambda>x. tenant x = w) rows"
proof (rule save_row_keeps_others)
  fix x assume "x \<in> set rows" "key x = key r'"
  with assms(1-3) have "x = r" by (auto dest: distinct_map_inj_on inj_onD)
  with assms(4,6) show "tenant x \<noteq> w" by simp
qed (use assms in simp)

lemma save_row_foreign_new:
  "key r' \<notin> key ` set rows \<Longrightarrow> tenant r' \<noteq> w \<Longrightarrow>
     filter (\<lambda>x. tenant x = w) (save_row key r' rows) = filter (\<lambda>x. tenant x = w) rows"
  by (rule save_row_keeps_others) (metis image_eqI, simp)

lemma delete_where_foreign:
  assumes "distinct (map key rows)" "r \<in> set rows" "tenant r \<noteq> w"
  shows "filter (\<lambda>x. tenant x = w) (delete_where (\<lambda>x. key x = key r) rows) = filter (\<lambda>x. tenant x = w) rows"
  using assms by (intro delete_where_keeps_others) (auto dest: distinct_map_inj_on inj_onD)

lemma distinct_delete_where:
  "distinct (map key rows) \<Longrightarrow> distinct (map key (delete_where p rows))"
  by (simp add: delete_where_def distinct_map_filter)

lemma length_newest: "length (newest n p rows) \<le> n"
  by (simp add: newest_def)

lemma set_newest: "set (newest n p rows) \<subseteq> {r \<in> set rows. p r}"
  by (auto simp: newest_def dest: in_set_takeD)

text \<open>
  Postgres keeps a row's \<open>createdAt\<close> to the microsecond, while the \<open>Date\<close> that is read from it and
  sent back in \<open>MoreThan(since)\<close> ends at the millisecond.  \<open>micros\<close> gives the microseconds of the row
  with an id beyond the millisecond.
\<close>

definition stored_after :: "(uuid \<Rightarrow> nat) \<Rightarrow> uuid \<Rightarrow> time \<Rightarrow> time \<Rightarrow> bool" where
  "stored_after micros i createdAt since \<longleftrightarrow> since * 1000 < createdAt * 1000 + int (micros i mod 1000)"

lemma stored_after_whole: "micros i mod 1000 = 0 \<Longrightarrow> stored_after micros i t since \<longleftrightarrow> since < t"
  by (auto simp: stored_after_def)

lemma stored_after_part: "micros i mod 1000 \<noteq> 0 \<Longrightarrow> stored_after micros i t since \<longleftrightarrow> since \<le> t"
proof -
  assume "micros i mod 1000 \<noteq> 0"
  moreover have "micros i mod 1000 < 1000" by simp
  ultimately show ?thesis by (auto simp: stored_after_def)
qed

section \<open>Tenant isolation as an interface\<close>

locale tenant_service =
  fixes tenant :: "'r \<Rightarrow> uuid"
    and wf :: "'r list \<Rightarrow> bool"
    and ok :: "'op \<Rightarrow> 'r list \<Rightarrow> bool"
    and step :: "uuid \<Rightarrow> 'op \<Rightarrow> 'r list \<Rightarrow> 'r list"
  assumes step_wf: "wf rows \<Longrightarrow> ok op rows \<Longrightarrow> wf (step ws op rows)"
    and step_foreign: "wf rows \<Longrightarrow> ok op rows \<Longrightarrow> w \<noteq> ws \<Longrightarrow>
      filter (\<lambda>r. tenant r = w) (step ws op rows) = filter (\<lambda>r. tenant r = w) rows"
begin

text \<open>A run of operations, each by some workspace, oldest first.\<close>

fun run :: "(uuid \<times> 'op) list \<Rightarrow> 'r list \<Rightarrow> 'r list" where
  "run [] rows = rows"
| "run ((ws, op) # ops) rows = run ops (step ws op rows)"

fun run_ok :: "(uuid \<times> 'op) list \<Rightarrow> 'r list \<Rightarrow> bool" where
  "run_ok [] rows = True"
| "run_ok ((ws, op) # ops) rows = (ok op rows \<and> run_ok ops (step ws op rows))"

lemma run_wf: "wf rows \<Longrightarrow> run_ok ops rows \<Longrightarrow> wf (run ops rows)"
  by (induction ops rows rule: run.induct) (auto intro: step_wf)

lemma run_foreign:
  "wf rows \<Longrightarrow> run_ok ops rows \<Longrightarrow> w \<notin> fst ` set ops \<Longrightarrow>
     filter (\<lambda>r. tenant r = w) (run ops rows) = filter (\<lambda>r. tenant r = w) rows"
proof (induction ops rows rule: run.induct)
  case (2 ws op ops rows)
  then have "wf (step ws op rows)" by (auto intro: step_wf)
  with 2 have "filter (\<lambda>r. tenant r = w) (run ops (step ws op rows)) =
      filter (\<lambda>r. tenant r = w) (step ws op rows)" by simp
  also have "\<dots> = filter (\<lambda>r. tenant r = w) rows" using 2 by (intro step_foreign) auto
  finally show ?case by simp
qed simp

end

end
