(* ===== verification/Users.thy ===== *)
theory Users
  imports Tables
begin

text \<open>
  \<open>src/src/users/users.service.ts\<close> over the table of \<open>user.entity.ts\<close>: members of
  workspaces, how they are invited, signed in, promoted and switched off.  The
  columns \<open>updatedAt\<close> and the relations are left out, since no operation reads them.  The
  identifier of a new row, which the database generates, is the argument \<open>new_id\<close>, and
  \<open>new Date()\<close> is \<open>now\<close>.
\<close>

section \<open>Data\<close>

datatype user_role = ADMIN | MEMBER

record user =
  u_id :: uuid
  u_workspaceId :: uuid
  u_slackUserId :: string
  u_name :: string
  u_email :: "string option"
  u_avatarUrl :: "string option"
  u_role :: user_role
  u_isActive :: bool
  u_lastActiveAt :: "time option"
  u_invitedAt :: "time option"
  u_refreshTokenHash :: "string option"
  u_createdAt :: time

record team_member_view =
  tm_id :: uuid
  tm_name :: string
  tm_email :: "string option"
  tm_avatarUrl :: "string option"
  tm_role :: user_role
  tm_isCurrentUser :: bool
  tm_lastActiveAt :: "time option"
  tm_invitedAt :: "time option"
  tm_createdAt :: time

record provision_invited_input =
  pi_workspaceId :: uuid
  pi_slackUserId :: string
  pi_name :: string
  pi_email :: "string option"
  pi_avatarUrl :: "string option"

record upsert_user_input =
  ui_workspaceId :: uuid
  ui_slackUserId :: string
  ui_name :: string
  ui_email :: "string option"
  ui_avatarUrl :: "string option"
  ui_role :: "user_role option"

text \<open>\<open>a ?? b\<close> on a nullable column.\<close>

definition coalesce :: "'a option \<Rightarrow> 'a option \<Rightarrow> 'a option" where
  "coalesce a b = (case a of None \<Rightarrow> b | Some _ \<Rightarrow> a)"

lemma coalesce_simps [simp]: "coalesce None b = b" "coalesce (Some x) b = Some x" "coalesce a None = a"
  by (simp_all add: coalesce_def split: option.splits)

section \<open>Reads\<close>

definition findById :: "user list \<Rightarrow> uuid \<Rightarrow> user option" where
  "findById us i = List.find (\<lambda>u. u_id u = i) us"

definition findByIdOrFail :: "user list \<Rightarrow> uuid \<Rightarrow> user result" where
  "findByIdOrFail us i = (case findById us i of
     None \<Rightarrow> Inl (NotFound (''User '' @ i @ '' not found'')) | Some u \<Rightarrow> Inr u)"

definition findBySlackIdentity :: "user list \<Rightarrow> uuid \<Rightarrow> string \<Rightarrow> user option" where
  "findBySlackIdentity us ws slack =
     List.find (\<lambda>u. u_workspaceId u = ws \<and> u_slackUserId u = slack) us"

definition countByWorkspace :: "user list \<Rightarrow> uuid \<Rightarrow> nat" where
  "countByWorkspace us ws = length (filter (\<lambda>u. u_workspaceId u = ws) us)"

definition toTeamMemberView :: "user \<Rightarrow> uuid \<Rightarrow> team_member_view" where
  "toTeamMemberView m currentUserId =
     \<lparr>tm_id = u_id m, tm_name = u_name m, tm_email = u_email m, tm_avatarUrl = u_avatarUrl m,
      tm_role = u_role m, tm_isCurrentUser = (u_id m = currentUserId),
      tm_lastActiveAt = u_lastActiveAt m, tm_invitedAt = u_invitedAt m,
      tm_createdAt = u_createdAt m\<rparr>"

definition listByWorkspace :: "user list \<Rightarrow> uuid \<Rightarrow> user list" where
  "listByWorkspace us ws = filter (\<lambda>u. u_workspaceId u = ws \<and> u_isActive u) us"

definition countActiveByWorkspace :: "user list \<Rightarrow> uuid \<Rightarrow> nat" where
  "countActiveByWorkspace us ws = length (filter (\<lambda>u. u_workspaceId u = ws \<and> u_isActive u) us)"

definition listAllByWorkspace :: "user list \<Rightarrow> uuid \<Rightarrow> user list" where
  "listAllByWorkspace us ws = filter (\<lambda>u. u_workspaceId u = ws) us"

definition findMembershipsOf :: "user list \<Rightarrow> user \<Rightarrow> user list" where
  "findMembershipsOf us user = filter (\<lambda>u.
      (u_slackUserId u = u_slackUserId user \<and> u_isActive u)
      \<or> (case u_email user of None \<Rightarrow> False
         | Some e \<Rightarrow> e \<noteq> [] \<and> u_email u = Some e \<and> u_isActive u)) us"

section \<open>Writes\<close>

abbreviation save_user :: "user \<Rightarrow> user list \<Rightarrow> user list" where
  "save_user \<equiv> save_row u_id"

definition provisionInvited ::
  "uuid \<Rightarrow> time \<Rightarrow> provision_invited_input \<Rightarrow> user list \<Rightarrow> user \<times> user list" where
  "provisionInvited new_id now inp us =
     (case findBySlackIdentity us (pi_workspaceId inp) (pi_slackUserId inp) of
        Some ex \<Rightarrow>
          let u = ex\<lparr>u_name := (if pi_name inp = [] then u_name ex else pi_name inp),
                     u_email := coalesce (pi_email inp) (u_email ex),
                     u_avatarUrl := coalesce (pi_avatarUrl inp) (u_avatarUrl ex),
                     u_isActive := True, u_invitedAt := Some now\<rparr>
          in (u, save_user u us)
      | None \<Rightarrow>
          let u = \<lparr>u_id = new_id, u_workspaceId = pi_workspaceId inp,
                   u_slackUserId = pi_slackUserId inp, u_name = pi_name inp,
                   u_email = pi_email inp, u_avatarUrl = pi_avatarUrl inp, u_role = MEMBER,
                   u_isActive = True, u_lastActiveAt = None, u_invitedAt = Some now,
                   u_refreshTokenHash = None, u_createdAt = now\<rparr>
          in (u, save_user u us))"

text \<open>Active admins of the workspace other than the target.\<close>

definition otherAdmins :: "user list \<Rightarrow> uuid \<Rightarrow> uuid \<Rightarrow> nat" where
  "otherAdmins us ws target = length (filter (\<lambda>u.
     u_workspaceId u = ws \<and> u_role u = ADMIN \<and> u_isActive u \<and> u_id u \<noteq> target) us)"

definition setActive :: "uuid \<Rightarrow> uuid \<Rightarrow> uuid \<Rightarrow> bool \<Rightarrow> user list \<Rightarrow> user result \<times> user list" where
  "setActive ws caller target active us =
     (case List.find (\<lambda>u. u_id u = target \<and> u_workspaceId u = ws) us of
        None \<Rightarrow> (Inl (NotFound (''User '' @ target @ '' not found in this workspace'')), us)
      | Some t \<Rightarrow>
          if u_isActive t = active then (Inr t, us)
          else if \<not> active \<and> target = caller
            then (Inl (BadRequest ''You cannot deactivate your own account''), us)
          else if \<not> active \<and> u_role t = ADMIN \<and> otherAdmins us ws target = 0
            then (Inl (BadRequest ''A workspace must have at least one active admin''), us)
          else let t' = t\<lparr>u_isActive := active\<rparr> in (Inr t', save_user t' us))"

definition updateRole :: "uuid \<Rightarrow> uuid \<Rightarrow> user_role \<Rightarrow> user list \<Rightarrow> user result \<times> user list" where
  "updateRole ws target role us =
     (case List.find (\<lambda>u. u_id u = target \<and> u_workspaceId u = ws) us of
        None \<Rightarrow> (Inl (NotFound (''User '' @ target @ '' not found in this workspace'')), us)
      | Some t \<Rightarrow>
          if u_role t = role then (Inr t, us)
          else if u_role t = ADMIN \<and> role = MEMBER \<and> otherAdmins us ws target = 0
            then (Inl (BadRequest ''A workspace must have at least one admin''), us)
          else let t' = t\<lparr>u_role := role\<rparr> in (Inr t', save_user t' us))"

definition upsertFromSlack ::
  "uuid \<Rightarrow> time \<Rightarrow> upsert_user_input \<Rightarrow> user list \<Rightarrow> user \<times> user list" where
  "upsertFromSlack new_id now inp us =
     (case findBySlackIdentity us (ui_workspaceId inp) (ui_slackUserId inp) of
        Some ex \<Rightarrow>
          let u = ex\<lparr>u_name := ui_name inp,
                     u_email := coalesce (ui_email inp) (u_email ex),
                     u_avatarUrl := coalesce (ui_avatarUrl inp) (u_avatarUrl ex),
                     u_isActive := True, u_lastActiveAt := Some now\<rparr>
          in (u, save_user u us)
      | None \<Rightarrow>
          let isFirstUser = (countByWorkspace us (ui_workspaceId inp) = 0);
              u = \<lparr>u_id = new_id, u_workspaceId = ui_workspaceId inp,
                   u_slackUserId = ui_slackUserId inp, u_name = ui_name inp,
                   u_email = ui_email inp, u_avatarUrl = ui_avatarUrl inp,
                   u_role = (case ui_role inp of Some r \<Rightarrow> r
                             | None \<Rightarrow> if isFirstUser then ADMIN else MEMBER),
                   u_isActive = True, u_lastActiveAt = Some now, u_invitedAt = None,
                   u_refreshTokenHash = None, u_createdAt = now\<rparr>
          in (u, save_user u us))"

definition setRefreshTokenHash :: "uuid \<Rightarrow> string option \<Rightarrow> user list \<Rightarrow> user list" where
  "setRefreshTokenHash i h us = update_where (\<lambda>u. u_id u = i) (\<lambda>u. u\<lparr>u_refreshTokenHash := h\<rparr>) us"

definition updateLastActive :: "uuid \<Rightarrow> time \<Rightarrow> user list \<Rightarrow> user list" where
  "updateLastActive i now us = update_where (\<lambda>u. u_id u = i) (\<lambda>u. u\<lparr>u_lastActiveAt := Some now\<rparr>) us"

lemmas user_op_defs = provisionInvited_def setActive_def updateRole_def upsertFromSlack_def

section \<open>The table's invariant\<close>

text \<open>Primary key, and the unique constraint \<open>UQ_users_workspace_slack_user\<close>.\<close>

definition slack_identity :: "user \<Rightarrow> uuid \<times> string" where
  "slack_identity u = (u_workspaceId u, u_slackUserId u)"

definition users_wf :: "user list \<Rightarrow> bool" where
  "users_wf us \<longleftrightarrow> distinct (map u_id us) \<and> distinct (map slack_identity us)"

lemma users_wf_Nil [simp]: "users_wf []"
  by (simp add: users_wf_def)

lemma findBySlackIdentity_Some:
  "findBySlackIdentity us ws s = Some u \<Longrightarrow> u \<in> set us \<and> u_workspaceId u = ws \<and> u_slackUserId u = s"
  by (auto simp: findBySlackIdentity_def dest: find_Some_iff_mem)

lemma findBySlackIdentity_None:
  "findBySlackIdentity us ws s = None \<longleftrightarrow> (ws, s) \<notin> slack_identity ` set us"
  by (auto simp: findBySlackIdentity_def find_None_iff_all slack_identity_def)

lemma find_target_Some:
  "List.find (\<lambda>u. u_id u = target \<and> u_workspaceId u = ws) us = Some t \<Longrightarrow>
     t \<in> set us \<and> u_id t = target \<and> u_workspaceId t = ws"
  by (auto dest: find_Some_iff_mem)

text \<open>Overwriting a row with one of the same identity keeps the constraints.\<close>

lemma map_update_same:
  "(\<And>x. x \<in> set rows \<Longrightarrow> p x \<Longrightarrow> g (f x) = g x) \<Longrightarrow> map g (update_where p f rows) = map g rows"
  by (induction rows) auto

lemma users_wf_overwrite:
  assumes wf: "users_wf us" and t: "t \<in> set us" and e: "u_id t' = u_id t" "slack_identity t' = slack_identity t"
  shows "users_wf (save_user t' us)"
proof -
  have only: "x = t" if "x \<in> set us" "u_id x = u_id t'" for x
    using that t e(1) wf by (auto simp: users_wf_def dest: distinct_map_inj_on inj_onD)
  have s: "save_user t' us = update_where (\<lambda>x. u_id x = u_id t') (\<lambda>_. t') us"
    using t e(1) by (auto simp: save_row_def)
  have "map u_id (save_user t' us) = map u_id us"
    unfolding s by (rule map_update_same) simp
  moreover have "map slack_identity (save_user t' us) = map slack_identity us"
    unfolding s by (rule map_update_same) (use only e(2) in auto)
  ultimately show ?thesis using wf by (simp add: users_wf_def)
qed

lemma users_wf_insert:
  "users_wf us \<Longrightarrow> u_id u \<notin> u_id ` set us \<Longrightarrow> slack_identity u \<notin> slack_identity ` set us \<Longrightarrow>
     users_wf (save_user u us)"
  by (auto simp: users_wf_def save_row_def image_iff)

lemma save_user_foreign:
  assumes wf: "users_wf us" and t: "t \<in> set us" and e: "u_id t' = u_id t" "u_workspaceId t' = u_workspaceId t"
    and w: "w \<noteq> u_workspaceId t"
  shows "filter (\<lambda>u. u_workspaceId u = w) (save_user t' us) = filter (\<lambda>u. u_workspaceId u = w) us"
proof (rule save_row_keeps_others)
  fix x assume "x \<in> set us" "u_id x = u_id t'"
  with t e(1) wf have "x = t" by (auto simp: users_wf_def dest: distinct_map_inj_on inj_onD)
  with w show "u_workspaceId x \<noteq> w" by simp
qed (use e w in simp)

section \<open>A workspace never locks itself out\<close>

definition has_active_admin :: "user list \<Rightarrow> uuid \<Rightarrow> bool" where
  "has_active_admin us ws = list_ex (\<lambda>u. u_workspaceId u = ws \<and> u_role u = ADMIN \<and> u_isActive u) us"

lemma has_active_admin_iff:
  "has_active_admin us ws \<longleftrightarrow>
     (\<exists>u \<in> set us. u_workspaceId u = ws \<and> u_role u = ADMIN \<and> u_isActive u)"
  by (simp add: has_active_admin_def list_ex_iff)

lemma otherAdmins_pos:
  "0 < otherAdmins us ws target \<longleftrightarrow>
     (\<exists>u \<in> set us. u_workspaceId u = ws \<and> u_role u = ADMIN \<and> u_isActive u \<and> u_id u \<noteq> target)"
  by (auto simp: otherAdmins_def filter_empty_conv)

text \<open>Saving a row keeps every admin with another id, and the row itself when it is one.\<close>

lemma admin_after_save:
  assumes "\<exists>u \<in> set us. u_workspaceId u = ws \<and> u_role u = ADMIN \<and> u_isActive u \<and> u_id u \<noteq> u_id t"
  shows "has_active_admin (save_user t us) ws"
  using assms by (auto simp: has_active_admin_iff set_save_row)

lemma admin_after_harmless_save:
  assumes "has_active_admin us ws" "users_wf us" "x \<in> set us" "u_id t = u_id x"
    and "u_role t = u_role x" "u_workspaceId t = u_workspaceId x" "u_isActive x \<longrightarrow> u_isActive t"
  shows "has_active_admin (save_user t us) ws"
proof -
  from assms(1) obtain a where a: "a \<in> set us" "u_workspaceId a = ws" "u_role a = ADMIN" "u_isActive a"
    by (auto simp: has_active_admin_iff)
  show ?thesis
  proof (cases "u_id a = u_id t")
    case True
    with a(1) assms have "a = x" by (auto simp: users_wf_def dest: distinct_map_inj_on inj_onD)
    with a assms show ?thesis by (auto simp: has_active_admin_iff set_save_row)
  next
    case False
    with a show ?thesis by (intro admin_after_save) auto
  qed
qed

lemma admin_after_insert:
  "has_active_admin us ws \<Longrightarrow> u_id t \<notin> u_id ` set us \<Longrightarrow> has_active_admin (save_user t us) ws"
proof (rule admin_after_save)
  assume "has_active_admin us ws" and n: "u_id t \<notin> u_id ` set us"
  then obtain a where "a \<in> set us" "u_workspaceId a = ws" "u_role a = ADMIN" "u_isActive a"
    by (auto simp: has_active_admin_iff)
  with n show "\<exists>u \<in> set us. u_workspaceId u = ws \<and> u_role u = ADMIN \<and> u_isActive u \<and> u_id u \<noteq> u_id t"
    by (metis imageI)
qed

text \<open>
  The operations on members as one step: an admin of the workspace invites, switches a member
  on or off, or changes a role; someone signs in with Slack.
\<close>

datatype member_op =
    OpInvite uuid time provision_invited_input
  | OpSetActive uuid uuid bool
  | OpUpdateRole uuid user_role
  | OpSignIn uuid time upsert_user_input

fun member_step :: "uuid \<Rightarrow> member_op \<Rightarrow> user list \<Rightarrow> user list" where
  "member_step ws (OpInvite i now inp) us = snd (provisionInvited i now (inp\<lparr>pi_workspaceId := ws\<rparr>) us)"
| "member_step ws (OpSetActive caller target b) us = snd (setActive ws caller target b us)"
| "member_step ws (OpUpdateRole target r) us = snd (updateRole ws target r us)"
| "member_step ws (OpSignIn i now inp) us = snd (upsertFromSlack i now (inp\<lparr>ui_workspaceId := ws\<rparr>) us)"

text \<open>The database never hands out an identifier twice.\<close>

fun fresh_ok :: "member_op \<Rightarrow> user list \<Rightarrow> bool" where
  "fresh_ok (OpInvite i _ _) us = (i \<notin> u_id ` set us)"
| "fresh_ok (OpSignIn i _ _) us = (i \<notin> u_id ` set us)"
| "fresh_ok _ us = True"

text \<open>
  Every operation leaves the table alone, adds one fresh row of the workspace, or overwrites one
  of its rows keeping the identity: the shape all three invariants below are proved from.
\<close>

lemma member_step_shape:
  assumes wf: "users_wf us" and ok: "fresh_ok op us"
  obtains (same) "member_step ws op us = us"
  | (add) u where "member_step ws op us = save_user u us" "u_id u \<notin> u_id ` set us"
      "slack_identity u \<notin> slack_identity ` set us" "u_workspaceId u = ws"
  | (over) t t' where "member_step ws op us = save_user t' us" "t \<in> set us" "u_id t' = u_id t"
      "slack_identity t' = slack_identity t" "u_workspaceId t = ws"
      "u_role t' = u_role t \<and> (u_isActive t \<longrightarrow> u_isActive t') \<or>
       \<not> (u_role t = ADMIN \<and> u_isActive t) \<or> otherAdmins us ws (u_id t) \<noteq> 0 \<or>
       (u_role t' = ADMIN \<and> (u_isActive t \<longrightarrow> u_isActive t'))"
proof (cases op)
  case (OpInvite i now inp)
  show ?thesis
  proof (cases "findBySlackIdentity us ws (pi_slackUserId inp)")
    case None
    then have "(ws, pi_slackUserId inp) \<notin> slack_identity ` set us" by (simp add: findBySlackIdentity_None)
    then show ?thesis
      by (rule_tac add[where u = "fst (provisionInvited i now (inp\<lparr>pi_workspaceId := ws\<rparr>) us)"])
        (use OpInvite ok in \<open>simp_all add: provisionInvited_def None slack_identity_def Let_def\<close>)
  next
    case (Some ex)
    from findBySlackIdentity_Some[OF Some] show ?thesis
      by (rule_tac over[where t = ex and t' = "fst (provisionInvited i now (inp\<lparr>pi_workspaceId := ws\<rparr>) us)"])
        (use OpInvite in \<open>simp_all add: provisionInvited_def Some slack_identity_def Let_def\<close>)
  qed
next
  case (OpSetActive caller target b)
  show ?thesis
  proof (cases "fst (setActive ws caller target b us)")
    case (Inl e)
    with OpSetActive show ?thesis
      by (intro same; auto simp: setActive_def Let_def split: option.splits if_splits)
  next
    case (Inr x)
    then obtain t where f: "List.find (\<lambda>u. u_id u = target \<and> u_workspaceId u = ws) us = Some t"
      by (auto simp: setActive_def split: option.splits)
    note t = find_target_Some[OF f]
    show ?thesis
    proof (cases "u_isActive t = b")
      case True
      with f OpSetActive show ?thesis by (intro same; simp add: setActive_def)
    next
      case False
      with f t OpSetActive Inr show ?thesis
        by (intro over[of "t\<lparr>u_isActive := b\<rparr>" t];
            auto simp: setActive_def slack_identity_def Let_def split: if_splits)
    qed
  qed
next
  case (OpUpdateRole target r)
  show ?thesis
  proof (cases "fst (updateRole ws target r us)")
    case (Inl e)
    with OpUpdateRole show ?thesis
      by (intro same; auto simp: updateRole_def Let_def split: option.splits if_splits)
  next
    case (Inr x)
    then obtain t where f: "List.find (\<lambda>u. u_id u = target \<and> u_workspaceId u = ws) us = Some t"
      by (auto simp: updateRole_def split: option.splits)
    note t = find_target_Some[OF f]
    show ?thesis
    proof (cases "u_role t = r")
      case True
      with f OpUpdateRole show ?thesis by (intro same; simp add: updateRole_def)
    next
      case False
      with Inr f have g: "\<not> (u_role t = ADMIN \<and> r = MEMBER \<and> otherAdmins us ws target = 0)"
        by (auto simp: updateRole_def split: if_splits)
      have s: "member_step ws op us = save_user (t\<lparr>u_role := r\<rparr>) us"
        using OpUpdateRole f False g by (cases "otherAdmins us ws target = 0") (auto simp: updateRole_def Let_def)
      have d: "u_role t = ADMIN \<longrightarrow> r = ADMIN \<or> otherAdmins us ws (u_id t) \<noteq> 0"
        using g t by (cases r) auto
      show ?thesis
      proof (rule over[OF s])
        show "t \<in> set us" "u_workspaceId t = ws" using t by simp_all
        show "slack_identity (t\<lparr>u_role := r\<rparr>) = slack_identity t" by (simp add: slack_identity_def)
        show "u_role (t\<lparr>u_role := r\<rparr>) = u_role t \<and> (u_isActive t \<longrightarrow> u_isActive (t\<lparr>u_role := r\<rparr>)) \<or>
          \<not> (u_role t = ADMIN \<and> u_isActive t) \<or> otherAdmins us ws (u_id t) \<noteq> 0 \<or>
          (u_role (t\<lparr>u_role := r\<rparr>) = ADMIN \<and> (u_isActive t \<longrightarrow> u_isActive (t\<lparr>u_role := r\<rparr>)))"
          using d by (simp; blast)
      qed simp
    qed
  qed
next
  case (OpSignIn i now inp)
  show ?thesis
  proof (cases "findBySlackIdentity us ws (ui_slackUserId inp)")
    case None
    then have "(ws, ui_slackUserId inp) \<notin> slack_identity ` set us" by (simp add: findBySlackIdentity_None)
    then show ?thesis
      by (rule_tac add[where u = "fst (upsertFromSlack i now (inp\<lparr>ui_workspaceId := ws\<rparr>) us)"])
        (use OpSignIn ok in \<open>simp_all add: upsertFromSlack_def None slack_identity_def Let_def\<close>)
  next
    case (Some ex)
    from findBySlackIdentity_Some[OF Some] show ?thesis
      by (rule_tac over[where t = ex and t' = "fst (upsertFromSlack i now (inp\<lparr>ui_workspaceId := ws\<rparr>) us)"])
        (use OpSignIn in \<open>simp_all add: upsertFromSlack_def Some slack_identity_def Let_def\<close>)
  qed
qed

lemma member_step_wf:
  assumes "users_wf us" "fresh_ok op us"
  shows "users_wf (member_step ws op us)"
  using assms
  by (cases rule: member_step_shape[of us op ws])
    (use assms in \<open>auto intro: users_wf_insert users_wf_overwrite\<close>)

lemma member_step_foreign:
  assumes "users_wf us" "fresh_ok op us" "w \<noteq> ws"
  shows "filter (\<lambda>u. u_workspaceId u = w) (member_step ws op us) = filter (\<lambda>u. u_workspaceId u = w) us"
  using assms(1,2)
proof (cases rule: member_step_shape[of us op ws])
  case (add u)
  have "filter (\<lambda>u. u_workspaceId u = w) (save_user u us) = filter (\<lambda>u. u_workspaceId u = w) us"
  proof (rule save_row_keeps_others)
    show "u_workspaceId x \<noteq> w" if "x \<in> set us" "u_id x = u_id u" for x
      using that add(2) by (metis imageI)
  qed (use add(4) assms(3) in simp)
  with add(1) show ?thesis by simp
next
  case (over t t')
  then show ?thesis using assms(3)
    by (simp, intro save_user_foreign[OF assms(1)]) (auto simp: slack_identity_def)
qed simp

lemma member_step_keeps_admin:
  assumes wf: "users_wf us" and ok: "fresh_ok op us" and a: "has_active_admin us w"
  shows "has_active_admin (member_step ws op us) w"
proof (cases "w = ws")
  case False
  from a have "\<exists>u \<in> set (filter (\<lambda>u. u_workspaceId u = w) us). u_role u = ADMIN \<and> u_isActive u"
    by (auto simp: has_active_admin_iff)
  then have "\<exists>u \<in> set (filter (\<lambda>u. u_workspaceId u = w) (member_step ws op us)).
      u_role u = ADMIN \<and> u_isActive u"
    unfolding member_step_foreign[OF wf ok False] .
  then show ?thesis by (auto simp: has_active_admin_iff)
next
  case True
  show ?thesis using wf ok
  proof (cases rule: member_step_shape[of us op ws])
    case same
    with a show ?thesis by simp
  next
    case (add u)
    with a show ?thesis by (simp add: admin_after_insert)
  next
    case (over t t')
    have other: ?thesis if "\<exists>u \<in> set us. u_workspaceId u = ws \<and> u_role u = ADMIN \<and> u_isActive u \<and> u_id u \<noteq> u_id t'"
      using that over(1) True by (simp add: admin_after_save)
    from over(6) show ?thesis
    proof (elim disjE)
      assume "otherAdmins us ws (u_id t) \<noteq> 0"
      with over(3) show ?thesis by (intro other) (simp add: otherAdmins_pos)
    next
      assume n: "\<not> (u_role t = ADMIN \<and> u_isActive t)"
      from a True obtain x where x: "x \<in> set us" "u_workspaceId x = ws" "u_role x = ADMIN" "u_isActive x"
        by (auto simp: has_active_admin_iff)
      with n over(2,3) wf have "u_id x \<noteq> u_id t'"
        by (auto simp: users_wf_def dest: distinct_map_inj_on inj_onD)
      with x show ?thesis by (intro other) auto
    next
      assume "u_role t' = u_role t \<and> (u_isActive t \<longrightarrow> u_isActive t')"
      with over a True wf show ?thesis
        by (auto simp: slack_identity_def intro: admin_after_harmless_save)
    next
      assume r: "u_role t' = ADMIN \<and> (u_isActive t \<longrightarrow> u_isActive t')"
      show ?thesis
      proof (cases "u_role t = ADMIN")
        case True
        with r over a \<open>w = ws\<close> wf show ?thesis
          by (auto simp: slack_identity_def intro: admin_after_harmless_save)
      next
        case False
        from a True obtain x where x: "x \<in> set us" "u_workspaceId x = ws" "u_role x = ADMIN" "u_isActive x"
          by (auto simp: has_active_admin_iff)
        with False over(2,3) wf have "u_id x \<noteq> u_id t'"
          by (auto simp: users_wf_def dest: distinct_map_inj_on inj_onD)
        with x show ?thesis by (intro other) auto
      qed
    qed
  qed
qed

interpretation members: tenant_service u_workspaceId users_wf fresh_ok member_step
  by unfold_locales (auto intro: member_step_wf member_step_foreign)

lemma members_run_keeps_admin:
  "users_wf us \<Longrightarrow> members.run_ok ops us \<Longrightarrow> has_active_admin us w \<Longrightarrow>
     has_active_admin (members.run ops us) w"
proof (induction ops us rule: members.run.induct)
  case (2 ws op ops rows)
  then show ?case by (simp add: member_step_wf member_step_keeps_admin)
qed simp

section \<open>Properties\<close>

text \<open>C4: Once a workspace has an active admin it has one after any sequence of invitations,
  activations, deactivations, role changes and sign-ins, in whatever workspaces they happen:
  the guards of \<open>setActive\<close> and \<open>updateRole\<close> never let the last active admin go.\<close>

theorem member_ops_keep_admin:
  assumes "users_wf us" and "members.run_ok ops us" and "has_active_admin us w"
  shows "users_wf (members.run ops us) \<and> has_active_admin (members.run ops us) w"
  using assms by (simp add: members.run_wf members_run_keeps_admin)

text \<open>Two members of one workspace, for the witnesses.\<close>

definition sample_user :: "uuid \<Rightarrow> string \<Rightarrow> user_role \<Rightarrow> bool \<Rightarrow> user" where
  "sample_user i slack role active =
     \<lparr>u_id = i, u_workspaceId = ''w1'', u_slackUserId = slack, u_name = ''Ada'', u_email = None,
      u_avatarUrl = None, u_role = role, u_isActive = active, u_lastActiveAt = None,
      u_invitedAt = None, u_refreshTokenHash = None, u_createdAt = 0\<rparr>"

definition sample_users :: "user list" where
  "sample_users = [sample_user ''a'' ''U1'' ADMIN True, sample_user ''b'' ''U2'' MEMBER True]"

lemma sample_users_wf: "users_wf sample_users"
  by (simp add: users_wf_def sample_users_def sample_user_def slack_identity_def)

lemma sample_users_admin: "has_active_admin sample_users ''w1''"
  by (simp add: has_active_admin_def sample_users_def sample_user_def)

theorem member_ops_keep_admin_witness:
  "has_active_admin (members.run
     [(''w1'', OpUpdateRole ''b'' ADMIN), (''w1'', OpSetActive ''b'' ''a'' False)] sample_users) ''w1''"
  using member_ops_keep_admin[OF sample_users_wf _ sample_users_admin,
      of "[(''w1'', OpUpdateRole ''b'' ADMIN), (''w1'', OpSetActive ''b'' ''a'' False)]"]
  by simp

text \<open>Tenant isolation of the member directory: whatever the members of other workspaces do,
  the rows of a workspace that does nothing stay exactly as they were.\<close>

theorem member_ops_tenant_isolated:
  assumes "users_wf us" and "members.run_ok ops us" and "w \<notin> fst ` set ops"
  shows "listAllByWorkspace (members.run ops us) w = listAllByWorkspace us w"
  using assms unfolding listAllByWorkspace_def by (rule members.run_foreign)

theorem member_ops_tenant_isolated_witness:
  "listAllByWorkspace (members.run [(''w2'', OpSetActive ''z'' ''a'' False)] sample_users) ''w1'' =
     listAllByWorkspace sample_users ''w1''"
  by (rule member_ops_tenant_isolated[OF sample_users_wf]) simp_all

text \<open>Signing in with Slack gives back a row that is active, whatever an admin had set
  before: a member who was switched off by \<open>setActive\<close> and then completes the Slack sign-in
  is active again.\<close>

theorem sign_in_undoes_deactivation:
  assumes "findBySlackIdentity us (ui_workspaceId inp) (ui_slackUserId inp) = Some u"
    and "\<not> u_isActive u"
  shows "\<exists>u'. u' \<in> set (snd (upsertFromSlack i now inp us)) \<and> u_id u' = u_id u \<and> u_isActive u'"
proof -
  have "u_id (fst (upsertFromSlack i now inp us)) = u_id u"
    "u_isActive (fst (upsertFromSlack i now inp us))"
    "fst (upsertFromSlack i now inp us) \<in> set (snd (upsertFromSlack i now inp us))"
    using assms(1) by (simp_all add: upsertFromSlack_def Let_def)
  then show ?thesis by blast
qed

theorem sign_in_undoes_deactivation_witness:
  "\<exists>u'. u' \<in> set (snd (upsertFromSlack ''n'' 9
        \<lparr>ui_workspaceId = ''w1'', ui_slackUserId = ''U2'', ui_name = ''Ada'', ui_email = None,
         ui_avatarUrl = None, ui_role = None\<rparr>
        [sample_user ''a'' ''U1'' ADMIN True, sample_user ''b'' ''U2'' MEMBER False]))
      \<and> u_id u' = ''b'' \<and> u_isActive u'"
  using sign_in_undoes_deactivation[of "[sample_user ''a'' ''U1'' ADMIN True, sample_user ''b'' ''U2'' MEMBER False]"
      "\<lparr>ui_workspaceId = ''w1'', ui_slackUserId = ''U2'', ui_name = ''Ada'', ui_email = None,
         ui_avatarUrl = None, ui_role = None\<rparr>" "sample_user ''b'' ''U2'' MEMBER False" "''n''" 9]
  by (simp add: findBySlackIdentity_def sample_user_def)

end
