(* ===== verification/Usage.thy ===== *)
theory Usage
  imports ModelCatalog Users
begin

text \<open>
  \<open>src/src/usage/usage.service.ts\<close> over the tables of \<open>credit-grant.entity.ts\<close>,
  \<open>credit-event.entity.ts\<close> and \<open>credit-allocation.entity.ts\<close>: what runs are charged, which
  grants pay for them, what a workspace still holds, and the analytics of the Usage page.
  Credits, tokens and cents are \<open>int\<close>s (integer columns); times are milliseconds; a UTC
  calendar day is the number of days since the epoch, where the code prints it as
  \<open>YYYY-MM-DD\<close>.
\<close>

section \<open>Data\<close>

datatype credit_bucket = ROLLOVER | PLAN | TOPUP | REWARD

datatype credit_event_type = THREAD | SCHEDULED_TASK

datatype credit_grant_reason =
  ONBOARDING | TOPUP_PURCHASE | MANUAL | SUBSCRIPTION | ROLLOVER_CARRIED | REFERRAL | SEAT_BONUS

record credit_grant =
  cg_id :: uuid
  cg_workspaceId :: uuid
  cg_userId :: "uuid option"
  cg_reason :: credit_grant_reason
  cg_bucket :: credit_bucket
  cg_credits :: int
  cg_expiresAt :: "time option"
  cg_amountCents :: "int option"
  cg_currency :: "string option"
  cg_stripeSessionId :: "string option"
  cg_stripeInvoiceId :: "string option"
  cg_note :: "string option"
  cg_createdAt :: time

record credit_event =
  ce_id :: uuid
  ce_workspaceId :: uuid
  ce_userId :: "uuid option"
  ce_taskId :: "uuid option"
  ce_type :: credit_event_type
  ce_sourceName :: string
  ce_creditsUsed :: int
  ce_tokensUsed :: int
  ce_inputTokens :: int
  ce_outputTokens :: int
  ce_cacheWriteTokens :: int
  ce_cacheReadTokens :: int
  ce_model :: string
  ce_resolvedModel :: "string option"
  ce_providerCostUsd :: rat
  ce_createdAt :: time

record credit_allocation =
  ca_creditEventId :: "uuid option"
  ca_grantId :: uuid
  ca_bucket :: credit_bucket
  ca_credits :: int

record ledger =
  grants :: "credit_grant list"
  events :: "credit_event list"
  allocations :: "credit_allocation list"

record record_usage_input =
  ru_workspaceId :: uuid
  ru_userId :: "uuid option"
  ru_taskId :: "uuid option"
  ru_model :: string
  ru_inputTokens :: int
  ru_outputTokens :: int
  ru_cacheWriteTokens :: "int option"
  ru_cacheReadTokens :: "int option"
  ru_sourceName :: string
  ru_type :: "credit_event_type option"
  ru_providerCostUsd :: "jsnum option"
  ru_resolvedModel :: "string option"

record grant_credits_input =
  gi_workspaceId :: uuid
  gi_userId :: "uuid option"
  gi_reason :: credit_grant_reason
  gi_credits :: int
  gi_bucket :: "credit_bucket option"
  gi_expiresAt :: "time option"
  gi_amountCents :: "int option"
  gi_currency :: "string option"
  gi_stripeSessionId :: "string option"
  gi_stripeInvoiceId :: "string option"
  gi_note :: "string option"

section \<open>Constants\<close>

definition TRIAL_CREDITS_PER_SEAT :: int where
  "TRIAL_CREDITS_PER_SEAT = 25 * CREDITS_PER_DOLLAR"

definition TRIAL_CREDITS_FLOOR :: int where
  "TRIAL_CREDITS_FLOOR = 100 * CREDITS_PER_DOLLAR"

definition FREE_SEATS :: int where
  "FREE_SEATS = 4"

definition SEAT_BONUS_CREDITS :: int where
  "SEAT_BONUS_CREDITS = 25 * CREDITS_PER_DOLLAR"

definition SEAT_BONUS_CAP :: int where
  "SEAT_BONUS_CAP = 1000 * CREDITS_PER_DOLLAR"

lemmas credit_constants = TRIAL_CREDITS_PER_SEAT_def TRIAL_CREDITS_FLOOR_def FREE_SEATS_def
  SEAT_BONUS_CREDITS_def SEAT_BONUS_CAP_def CREDITS_PER_DOLLAR_def

definition SPEND_ORDER :: "credit_bucket list" where
  "SPEND_ORDER = [ROLLOVER, PLAN, TOPUP, REWARD]"

definition UNKNOWN_MODEL_RATES :: credit_rates where
  "UNKNOWN_MODEL_RATES = \<lparr>rate_input = 2, rate_output = 10\<rparr>"

definition SYSTEM_SPENDER_NAME :: string where
  "SYSTEM_SPENDER_NAME = ''System (rules & tasks)''"

fun bucketForReason :: "credit_grant_reason \<Rightarrow> credit_bucket" where
  "bucketForReason TOPUP_PURCHASE = TOPUP"
| "bucketForReason SUBSCRIPTION = PLAN"
| "bucketForReason ROLLOVER_CARRIED = ROLLOVER"
| "bucketForReason _ = REWARD"

section \<open>Planning which grants pay\<close>

record spendable_grant =
  sg_id :: uuid
  sg_bucket :: credit_bucket
  sg_remaining :: int

record planned_allocation =
  pa_grantId :: uuid
  pa_bucket :: credit_bucket
  pa_credits :: int

text \<open>\<open>array.indexOf\<close>.\<close>

fun index_of :: "'a \<Rightarrow> 'a list \<Rightarrow> int" where
  "index_of x [] = - 1"
| "index_of x (y # ys) = (if x = y then 0 else if index_of x ys < 0 then - 1 else 1 + index_of x ys)"

definition spend_rank :: "credit_bucket \<Rightarrow> int" where
  "spend_rank b = index_of b SPEND_ORDER"

fun plan_loop :: "spendable_grant list \<Rightarrow> int \<Rightarrow> planned_allocation list" where
  "plan_loop [] outstanding = []"
| "plan_loop (g # gs) outstanding =
     (if outstanding \<le> 0 then []
      else let t = min outstanding (sg_remaining g) in
           if t \<le> 0 then plan_loop gs outstanding
           else \<lparr>pa_grantId = sg_id g, pa_bucket = sg_bucket g, pa_credits = t\<rparr>
                # plan_loop gs (outstanding - t))"

definition planAllocations :: "spendable_grant list \<Rightarrow> int \<Rightarrow> planned_allocation list" where
  "planAllocations gs credits = plan_loop (sort_key (\<lambda>g. spend_rank (sg_bucket g)) gs) (max 0 credits)"

definition formatCredits :: "int \<Rightarrow> string" where
  "formatCredits credits = (let dollars = fl (of_int credits / of_int CREDITS_PER_DOLLAR) in
     if dollars = of_int \<lfloor>dollars\<rfloor> then ''$'' @ rat_to_string dollars
     else ''$'' @ to_fixed 2 dollars)"

section \<open>Charging a run\<close>

definition definitionFor :: "string \<Rightarrow> string \<Rightarrow> model_definition option" where
  "definitionFor gatewayModels model = List.find (\<lambda>c. md_id c = model) (buildCatalog gatewayModels)"

definition creditsFor :: "string \<Rightarrow> string \<Rightarrow> int \<Rightarrow> int \<Rightarrow> int" where
  "creditsFor gatewayModels model inputTokens outputTokens =
    (let rates = (case definitionFor gatewayModels model of
                    Some d \<Rightarrow> creditRates d | None \<Rightarrow> UNKNOWN_MODEL_RATES);
         credits = fl (fl (fl (of_int inputTokens / 1000) * rate_input rates)
                     + fl (fl (of_int outputTokens / 1000) * rate_output rates))
     in max 1 \<lceil>credits\<rceil>)"

definition costUsdFor :: "string \<Rightarrow> record_usage_input \<Rightarrow> rat" where
  "costUsdFor gatewayModels inp =
    (case ru_providerCostUsd inp of
       Some (Fin c) \<Rightarrow> c
     | _ \<Rightarrow> (case definitionFor gatewayModels (ru_model inp) of
               Some d \<Rightarrow> listCostUsd d (ru_inputTokens inp) (ru_outputTokens inp)
                          (ru_cacheWriteTokens inp) (ru_cacheReadTokens inp)
             | None \<Rightarrow> 0))"

text \<open>The value of \<open>x.toFixed(6)\<close>, as the numeric(12,6) column stores it.\<close>

definition fixed6 :: "rat \<Rightarrow> rat" where
  "fixed6 x = (let n = \<lfloor>\<bar>x\<bar> * 10 ^ 6 + 1/2\<rfloor> in
     (if x < 0 then - of_int n else of_int n) / 10 ^ 6)"

text \<open>\<open>COALESCE(SUM(allocation.credits), 0)\<close> over the allocations of one grant.\<close>

definition spent_on :: "credit_allocation list \<Rightarrow> uuid \<Rightarrow> int" where
  "spent_on as g = sum_list (map ca_credits (filter (\<lambda>a. ca_grantId a = g) as))"

definition is_live :: "time \<Rightarrow> credit_grant \<Rightarrow> bool" where
  "is_live now g = (case cg_expiresAt g of None \<Rightarrow> True | Some t \<Rightarrow> now < t)"

definition liveGrantsForSpending :: "uuid \<Rightarrow> time \<Rightarrow> ledger \<Rightarrow> spendable_grant list" where
  "liveGrantsForSpending ws now l =
     map (\<lambda>g. \<lparr>sg_id = cg_id g, sg_bucket = cg_bucket g,
               sg_remaining = cg_credits g - spent_on (allocations l) (cg_id g)\<rparr>)
       (sort_key cg_createdAt
         (filter (\<lambda>g. cg_workspaceId g = ws \<and> is_live now g
                      \<and> spent_on (allocations l) (cg_id g) < cg_credits g) (grants l)))"

definition allocate :: "time \<Rightarrow> credit_event \<Rightarrow> ledger \<Rightarrow> credit_allocation list \<times> ledger" where
  "allocate now e l =
    (let planned = planAllocations (liveGrantsForSpending (ce_workspaceId e) now l) (ce_creditsUsed e);
         rows = map (\<lambda>p. \<lparr>ca_creditEventId = Some (ce_id e), ca_grantId = pa_grantId p,
                          ca_bucket = pa_bucket p, ca_credits = pa_credits p\<rparr>) planned
     in if planned = [] then ([], l) else (rows, l\<lparr>allocations := allocations l @ rows\<rparr>))"

definition make_event :: "string \<Rightarrow> uuid \<Rightarrow> time \<Rightarrow> record_usage_input \<Rightarrow> credit_event" where
  "make_event gatewayModels new_id now inp =
     \<lparr>ce_id = new_id, ce_workspaceId = ru_workspaceId inp, ce_userId = ru_userId inp,
      ce_taskId = ru_taskId inp,
      ce_type = (case ru_type inp of Some t \<Rightarrow> t | None \<Rightarrow> THREAD),
      ce_sourceName = ru_sourceName inp,
      ce_creditsUsed = creditsFor gatewayModels (ru_model inp) (ru_inputTokens inp) (ru_outputTokens inp),
      ce_tokensUsed = ru_inputTokens inp + ru_outputTokens inp,
      ce_inputTokens = ru_inputTokens inp, ce_outputTokens = ru_outputTokens inp,
      ce_cacheWriteTokens = (case ru_cacheWriteTokens inp of Some n \<Rightarrow> n | None \<Rightarrow> 0),
      ce_cacheReadTokens = (case ru_cacheReadTokens inp of Some n \<Rightarrow> n | None \<Rightarrow> 0),
      ce_model = ru_model inp, ce_resolvedModel = ru_resolvedModel inp,
      ce_providerCostUsd = fixed6 (costUsdFor gatewayModels inp), ce_createdAt = now\<rparr>"

definition recordEvent ::
  "string \<Rightarrow> uuid \<Rightarrow> time \<Rightarrow> record_usage_input \<Rightarrow> ledger \<Rightarrow> credit_event \<times> ledger" where
  "recordEvent gatewayModels new_id now inp l =
    (let saved = make_event gatewayModels new_id now inp;
         l1 = l\<lparr>events := events l @ [saved]\<rparr>
     in (saved, snd (allocate now saved l1)))"

section \<open>Granting\<close>

text \<open>A 32-bit integer column refuses anything else.\<close>

definition int4_ok :: "int \<Rightarrow> bool" where
  "int4_ok n = (- (2 ^ 31) \<le> n \<and> n < 2 ^ 31)"

text \<open>
  \<open>INSERT INTO credit_grants\<close>: the unique constraints on the Stripe session and invoice and the
  range of the two integer columns; NULLs never collide.
\<close>

definition collides :: "string option \<Rightarrow> string option \<Rightarrow> bool" where
  "collides a b = (case a of None \<Rightarrow> False | Some _ \<Rightarrow> a = b)"

definition insert_grant :: "credit_grant \<Rightarrow> ledger \<Rightarrow> credit_grant result \<times> ledger" where
  "insert_grant g l =
     (if \<not> (int4_ok (cg_credits g) \<and> (case cg_amountCents g of None \<Rightarrow> True | Some c \<Rightarrow> int4_ok c)) then (Inl (PlainError ''integer out of range''), l)
      else if list_ex (\<lambda>x. collides (cg_stripeSessionId g) (cg_stripeSessionId x)
                       \<or> collides (cg_stripeInvoiceId g) (cg_stripeInvoiceId x)) (grants l)
        then (Inl UniqueViolation, l)
      else (Inr g, l\<lparr>grants := grants l @ [g]\<rparr>))"

definition make_grant :: "uuid \<Rightarrow> time \<Rightarrow> grant_credits_input \<Rightarrow> credit_grant" where
  "make_grant new_id now inp =
     \<lparr>cg_id = new_id, cg_workspaceId = gi_workspaceId inp, cg_userId = gi_userId inp,
      cg_reason = gi_reason inp,
      cg_bucket = (case gi_bucket inp of Some b \<Rightarrow> b | None \<Rightarrow> bucketForReason (gi_reason inp)),
      cg_credits = gi_credits inp, cg_expiresAt = gi_expiresAt inp,
      cg_amountCents = gi_amountCents inp, cg_currency = gi_currency inp,
      cg_stripeSessionId = gi_stripeSessionId inp, cg_stripeInvoiceId = gi_stripeInvoiceId inp,
      cg_note = gi_note inp, cg_createdAt = now\<rparr>"

definition grantCredits ::
  "uuid \<Rightarrow> time \<Rightarrow> grant_credits_input \<Rightarrow> ledger \<Rightarrow> credit_grant result \<times> ledger" where
  "grantCredits new_id now inp l = insert_grant (make_grant new_id now inp) l"

definition grantOnboardingCredits ::
  "user list \<Rightarrow> uuid \<Rightarrow> time \<Rightarrow> uuid \<Rightarrow> ledger \<Rightarrow> credit_grant option result \<times> ledger" where
  "grantOnboardingCredits us new_id now ws l =
     (case List.find (\<lambda>g. cg_workspaceId g = ws \<and> cg_reason g = ONBOARDING) (grants l) of
        Some _ \<Rightarrow> (Inr None, l)
      | None \<Rightarrow>
         let seats = max 1 (int (countActiveByWorkspace us ws));
             credits = max TRIAL_CREDITS_FLOOR (seats * TRIAL_CREDITS_PER_SEAT);
             note = ''Free trial - '' @ show_int seats @ '' seat'' @ (if seats = 1 then [] else ''s'')
                    @ '' ('' @ formatCredits credits @ '')''
         in (case grantCredits new_id now
               \<lparr>gi_workspaceId = ws, gi_userId = None, gi_reason = ONBOARDING, gi_credits = credits,
                gi_bucket = None, gi_expiresAt = None, gi_amountCents = None, gi_currency = None,
                gi_stripeSessionId = None, gi_stripeInvoiceId = None, gi_note = Some note\<rparr> l of
              (Inl e, l') \<Rightarrow> (Inl e, l')
            | (Inr g, l') \<Rightarrow> (Inr (Some g), l')))"

definition hasGrantForStripeSession :: "string \<Rightarrow> ledger \<Rightarrow> bool" where
  "hasGrantForStripeSession sid l =
     (List.find (\<lambda>g. cg_stripeSessionId g = Some sid) (grants l) \<noteq> None)"

section \<open>The balance\<close>

record usage_summary =
  us_totalCreditsUsed :: int
  us_totalTokensUsed :: int
  us_eventCount :: nat

definition summarizeForWorkspace :: "uuid \<Rightarrow> ledger \<Rightarrow> usage_summary" where
  "summarizeForWorkspace ws l =
     (let es = filter (\<lambda>e. ce_workspaceId e = ws) (events l)
      in \<lparr>us_totalCreditsUsed = sum_list (map ce_creditsUsed es),
          us_totalTokensUsed = sum_list (map ce_tokensUsed es),
          us_eventCount = length es\<rparr>)"

record bucket_balance =
  bb_bucket :: credit_bucket
  bb_credits :: int
  bb_expiresAt :: "time option"

record credit_balance =
  cb_granted :: int
  cb_used :: int
  cb_balance :: int
  cb_expired :: int
  cb_buckets :: "bucket_balance list"

text \<open>One row per grant, as the query groups them.\<close>

record grant_row =
  gr_bucket :: credit_bucket
  gr_dead :: bool
  gr_expiresAt :: "time option"
  gr_granted :: int
  gr_spent :: int

definition remainingByGrant :: "uuid \<Rightarrow> time \<Rightarrow> ledger \<Rightarrow> grant_row list" where
  "remainingByGrant ws now l =
     map (\<lambda>g. \<lparr>gr_bucket = cg_bucket g, gr_dead = \<not> is_live now g, gr_expiresAt = cg_expiresAt g,
               gr_granted = cg_credits g, gr_spent = spent_on (allocations l) (cg_id g)\<rparr>)
       (filter (\<lambda>g. cg_workspaceId g = ws) (grants l))"

definition soonest_of :: "bucket_balance option \<Rightarrow> time option \<Rightarrow> time option" where
  "soonest_of existing e =
     (case (existing, e) of
        (Some b, Some t) \<Rightarrow> (case bb_expiresAt b of Some t' \<Rightarrow> Some (min t' t) | None \<Rightarrow> Some t)
      | (Some b, None) \<Rightarrow> bb_expiresAt b
      | (None, e) \<Rightarrow> e)"

definition fold_row ::
  "grant_row \<Rightarrow> int \<times> int \<times> (credit_bucket \<times> bucket_balance) list
   \<Rightarrow> int \<times> int \<times> (credit_bucket \<times> bucket_balance) list" where
  "fold_row row acc = (case acc of (granted, expired, live) \<Rightarrow>
     let remaining = max 0 (gr_granted row - gr_spent row); granted' = granted + gr_granted row in
     if gr_dead row then (granted', expired + remaining, live)
     else let existing = map_of live (gr_bucket row);
              old = (case existing of Some b \<Rightarrow> bb_credits b | None \<Rightarrow> 0)
          in (granted', expired, aput (gr_bucket row)
               \<lparr>bb_bucket = gr_bucket row, bb_credits = old + remaining,
                bb_expiresAt = soonest_of existing (gr_expiresAt row)\<rparr> live))"

definition getBalance :: "uuid \<Rightarrow> time \<Rightarrow> ledger \<Rightarrow> credit_balance" where
  "getBalance ws now l =
    (let (granted, expired, live) = fold fold_row (remainingByGrant ws now l) (0, 0, []);
         buckets = map (\<lambda>b. case map_of live b of Some x \<Rightarrow> x
                          | None \<Rightarrow> \<lparr>bb_bucket = b, bb_credits = 0, bb_expiresAt = None\<rparr>) SPEND_ORDER
     in \<lparr>cb_granted = granted,
         cb_used = us_totalCreditsUsed (summarizeForWorkspace ws l),
         cb_balance = sum_list (map bb_credits buckets),
         cb_expired = expired, cb_buckets = buckets\<rparr>)"

section \<open>Reads and analytics\<close>

definition findGrantsForWorkspace :: "uuid \<Rightarrow> nat \<Rightarrow> ledger \<Rightarrow> credit_grant list" where
  "findGrantsForWorkspace ws limit l = newest limit (\<lambda>g. cg_workspaceId g = ws) (grants l)"

definition findRecentForWorkspace :: "uuid \<Rightarrow> nat \<Rightarrow> ledger \<Rightarrow> credit_event list" where
  "findRecentForWorkspace ws limit l = newest limit (\<lambda>e. ce_workspaceId e = ws) (events l)"

record date_range =
  dr_from :: time
  dr_to :: time

text \<open>
  The query builder's conditions: \<open>where\<close> replaces what was set before, \<open>andWhere\<close> adds.
\<close>

type_synonym event_query = "(credit_event \<Rightarrow> bool) list"

definition qb_where :: "(credit_event \<Rightarrow> bool) \<Rightarrow> event_query \<Rightarrow> event_query" where
  "qb_where p q = [p]"

definition qb_andWhere :: "(credit_event \<Rightarrow> bool) \<Rightarrow> event_query \<Rightarrow> event_query" where
  "qb_andWhere p q = q @ [p]"

definition run_query :: "event_query \<Rightarrow> ledger \<Rightarrow> credit_event list" where
  "run_query q l = filter (\<lambda>e. list_all (\<lambda>p. p e) q) (events l)"

definition scopedEvents :: "uuid \<Rightarrow> date_range \<Rightarrow> event_query" where
  "scopedEvents ws rng =
     qb_andWhere (\<lambda>e. ce_createdAt e \<le> dr_to rng)
      (qb_andWhere (\<lambda>e. dr_from rng \<le> ce_createdAt e)
        (qb_where (\<lambda>e. ce_workspaceId e = ws) []))"

text \<open>The groups of a GROUP BY, in first-seen order.\<close>

definition group_rows :: "('r \<Rightarrow> 'k) \<Rightarrow> 'r list \<Rightarrow> ('k \<times> 'r list) list" where
  "group_rows key rows = map (\<lambda>k. (k, filter (\<lambda>r. key r = k) rows)) (js_unique (map key rows))"

definition day_ms :: int where
  "day_ms = 24 * 60 * 60 * 1000"

definition day_of :: "time \<Rightarrow> int" where
  "day_of t = t div day_ms"

record daily_usage =
  du_day :: int
  du_credits :: int
  du_tokens :: int
  du_events :: nat

definition dailyUsage :: "uuid \<Rightarrow> date_range \<Rightarrow> ledger \<Rightarrow> daily_usage list" where
  "dailyUsage ws rng l =
     map (\<lambda>(d, es). \<lparr>du_day = d, du_credits = sum_list (map ce_creditsUsed es),
                     du_tokens = sum_list (map ce_tokensUsed es), du_events = length es\<rparr>)
       (sort_key fst (group_rows (\<lambda>e. day_of (ce_createdAt e)) (run_query (scopedEvents ws rng) l)))"

record spender_row =
  sp_userId :: "uuid option"
  sp_credits :: int
  sp_events :: nat

definition topSpenders :: "uuid \<Rightarrow> date_range \<Rightarrow> nat \<Rightarrow> ledger \<Rightarrow> spender_row list" where
  "topSpenders ws rng limit l =
     take limit (sort_key (\<lambda>r. - sp_credits r)
       (map (\<lambda>(u, es). \<lparr>sp_userId = u, sp_credits = sum_list (map ce_creditsUsed es),
                        sp_events = length es\<rparr>)
         (group_rows ce_userId (run_query (scopedEvents ws rng) l))))"

text \<open>What the analytics read of a scheduled task.\<close>

record task_ref =
  tr_id :: uuid
  tr_name :: string
  tr_createdByUserId :: "uuid option"
  tr_cronExpression :: "string option"
  tr_isActive :: bool

record task_spend =
  ts_taskId :: uuid
  ts_name :: string
  ts_createdByUserId :: "uuid option"
  ts_cronExpression :: "string option"
  ts_isActive :: bool
  ts_credits :: int
  ts_runs :: nat
  ts_lastRun :: time

definition topTasks :: "task_ref list \<Rightarrow> uuid \<Rightarrow> date_range \<Rightarrow> nat \<Rightarrow> ledger \<Rightarrow> task_spend list" where
  "topTasks tasks ws rng limit l =
    (let q = qb_andWhere (\<lambda>e. ce_taskId e \<noteq> None)
               (qb_where (\<lambda>e. ce_workspaceId e = ws) (scopedEvents ws rng));
         rows = take limit (sort_key (\<lambda>(t, es). - sum_list (map ce_creditsUsed es))
                  (group_rows (\<lambda>e. the (ce_taskId e)) (run_query q l)))
     in map (\<lambda>(t, es).
          let task = List.find (\<lambda>x. tr_id x = t) tasks
          in \<lparr>ts_taskId = t,
              ts_name = (case task of Some x \<Rightarrow> tr_name x | None \<Rightarrow> ''Deleted task''),
              ts_createdByUserId = Option.bind task tr_createdByUserId,
              ts_cronExpression = Option.bind task tr_cronExpression,
              ts_isActive = (case task of Some x \<Rightarrow> tr_isActive x | None \<Rightarrow> False),
              ts_credits = sum_list (map ce_creditsUsed es), ts_runs = length es,
              ts_lastRun = Max (set (map ce_createdAt es))\<rparr>) rows)"


text \<open>The daily series: credits of one day, split by what spent them.\<close>

record daily_point =
  dp_day :: int
  dp_thread :: int
  dp_scheduledTask :: int
  dp_credits :: int

definition zero_point :: "int \<Rightarrow> daily_point" where
  "zero_point d = \<lparr>dp_day = d, dp_thread = 0, dp_scheduledTask = 0, dp_credits = 0\<rparr>"

text \<open>
  One grouped row (day, type, credits) is folded into the map of days; a row of any type but
  \<open>SCHEDULED_TASK\<close> counts as thread spend.
\<close>

definition add_split_row ::
  "(int \<times> credit_event_type) \<times> credit_event list \<Rightarrow> (int \<times> daily_point) list
   \<Rightarrow> (int \<times> daily_point) list" where
  "add_split_row row m = (case row of ((d, t), es) \<Rightarrow>
     let entry = (case map_of m d of Some p \<Rightarrow> p | None \<Rightarrow> zero_point d);
         credits = sum_list (map ce_creditsUsed es);
         entry1 = (if t = SCHEDULED_TASK
                   then entry\<lparr>dp_scheduledTask := dp_scheduledTask entry + credits\<rparr>
                   else entry\<lparr>dp_thread := dp_thread entry + credits\<rparr>)
     in aput d (entry1\<lparr>dp_credits := dp_credits entry1 + credits\<rparr>) m)"

definition dailyUsageSplit :: "uuid \<Rightarrow> date_range \<Rightarrow> ledger \<Rightarrow> daily_point list" where
  "dailyUsageSplit ws rng l =
     map snd (fold add_split_row
       (sort_key (fst \<circ> fst)
         (group_rows (\<lambda>e. (day_of (ce_createdAt e), ce_type e)) (run_query (scopedEvents ws rng) l))) [])"

text \<open>The loop over the calendar days of the window, both ends included.\<close>

function fill_days :: "(int \<times> daily_point) list \<Rightarrow> int \<Rightarrow> int \<Rightarrow> daily_point list" where
  "fill_days byDay cursor final =
     (if cursor \<le> final
      then (case map_of byDay cursor of Some p \<Rightarrow> p | None \<Rightarrow> zero_point cursor)
           # fill_days byDay (cursor + 1) final
      else [])"
  by pat_completeness auto
termination
  by (relation "measure (\<lambda>(_, c, t). nat (t + 1 - c))") auto

declare fill_days.simps [simp del]

definition zeroFilledDays :: "daily_point list \<Rightarrow> date_range \<Rightarrow> daily_point list" where
  "zeroFilledDays rows rng =
     fill_days (map_from (map (\<lambda>r. (dp_day r, r)) rows)) (day_of (dr_from rng)) (day_of (dr_to rng))"

record credits_split =
  cs_thread :: int
  cs_scheduledTask :: int

definition creditsByType :: "uuid \<Rightarrow> date_range \<Rightarrow> ledger \<Rightarrow> credits_split" where
  "creditsByType ws rng l =
    (let rows = map (\<lambda>(t, es). (t, sum_list (map ce_creditsUsed es)))
                  (group_rows ce_type (run_query (scopedEvents ws rng) l));
         credits_of = (\<lambda>t. case map_of rows t of Some n \<Rightarrow> n | None \<Rightarrow> 0)
     in \<lparr>cs_thread = credits_of THREAD, cs_scheduledTask = credits_of SCHEDULED_TASK\<rparr>)"

record usage_analytics =
  an_days :: nat
  an_daily :: "daily_point list"
  an_totalCredits :: int
  an_burnPerDay :: int
  an_byType :: credits_split
  an_topTasks :: "(task_spend \<times> string option) list"
  an_topSpenders :: "(spender_row \<times> string \<times> string option) list"

text \<open>
  A member's name on the Usage page: \<open>name ?? email ?? id\<close>; the name column is never null.
\<close>

definition display_name :: "user \<Rightarrow> string" where
  "display_name u = u_name u"

definition burn_rate :: "int \<Rightarrow> nat \<Rightarrow> int" where
  "burn_rate spent days = (if 0 < days then math_round (fl (of_int spent / of_nat days)) else 0)"

definition analyticsForWorkspace ::
  "user list \<Rightarrow> task_ref list \<Rightarrow> uuid \<Rightarrow> date_range \<Rightarrow> ledger \<Rightarrow> usage_analytics" where
  "analyticsForWorkspace us tasks ws rng l =
    (let daily = dailyUsageSplit ws rng l; spenders = topSpenders ws rng 10 l;
         members = listAllByWorkspace us ws;
         totalCredits = sum_list (map dp_credits daily);
         series = zeroFilledDays daily rng;
         nameById = map_of (map_from (map (\<lambda>m. (u_id m, display_name m)) members));
         avatarById = map_of (map_from (map (\<lambda>m. (u_id m, u_avatarUrl m)) members))
     in \<lparr>an_days = length series, an_daily = series, an_totalCredits = totalCredits,
         an_burnPerDay = burn_rate totalCredits (length series),
         an_byType = creditsByType ws rng l,
         an_topTasks = map (\<lambda>t. (t, Option.bind (ts_createdByUserId t) nameById)) (topTasks tasks ws rng 10 l),
         an_topSpenders = map (\<lambda>r. (r,
             (case sp_userId r of None \<Rightarrow> SYSTEM_SPENDER_NAME
              | Some u \<Rightarrow> (case nameById u of Some n \<Rightarrow> n | None \<Rightarrow> u)),
             Option.bind (sp_userId r) (\<lambda>u. Option.bind (avatarById u) id))) spenders\<rparr>)"

record activity_entry =
  ac_id :: uuid
  ac_createdAt :: time
  ac_type :: credit_event_type
  ac_sourceName :: string
  ac_model :: string
  ac_credits :: int
  ac_tokens :: int
  ac_user :: "(uuid \<times> string \<times> string option) option"
  ac_task :: "(uuid \<times> string) option"

text \<open>\<open>name || email || id\<close>: empty strings fall through as well.\<close>

definition non_empty :: "string option \<Rightarrow> string option" where
  "non_empty s = (if s = Some [] then None else s)"

definition activity_name :: "user \<Rightarrow> string" where
  "activity_name u = (case coalesce (non_empty (Some (u_name u))) (non_empty (u_email u)) of
      Some n \<Rightarrow> n | None \<Rightarrow> u_id u)"

definition recentActivity ::
  "user list \<Rightarrow> task_ref list \<Rightarrow> uuid \<Rightarrow> uuid option \<Rightarrow> int option \<Rightarrow> ledger \<Rightarrow> activity_entry list" where
  "recentActivity us tasks ws taskId limit l =
     map (\<lambda>e. \<lparr>ac_id = ce_id e, ac_createdAt = ce_createdAt e, ac_type = ce_type e,
               ac_sourceName = ce_sourceName e,
               ac_model = (case ce_resolvedModel e of Some m \<Rightarrow> m | None \<Rightarrow> ce_model e),
               ac_credits = ce_creditsUsed e, ac_tokens = ce_tokensUsed e,
               ac_user = map_option (\<lambda>u. (u_id u, activity_name u, u_avatarUrl u))
                           (Option.bind (ce_userId e) (\<lambda>i. List.find (\<lambda>u. u_id u = i) us)),
               ac_task = map_option (\<lambda>t. (tr_id t, tr_name t))
                           (Option.bind (ce_taskId e) (\<lambda>i. List.find (\<lambda>t. tr_id t = i) tasks))\<rparr>)
       (newest (nat (min (max (case limit of Some n \<Rightarrow> n | None \<Rightarrow> 50) 1) 200))
         (\<lambda>e. ce_workspaceId e = ws \<and>
              (case non_empty taskId of None \<Rightarrow> True | Some t \<Rightarrow> ce_taskId e = Some t)) (events l))"

record reason_total =
  rt_reason :: credit_grant_reason
  rt_credits :: int
  rt_amountCents :: int
  rt_count :: nat

definition grantTotalsByReason :: "uuid \<Rightarrow> ledger \<Rightarrow> reason_total list" where
  "grantTotalsByReason ws l =
     map (\<lambda>(r, gs). \<lparr>rt_reason = r, rt_credits = sum_list (map cg_credits gs),
                     rt_amountCents = sum_list (map (\<lambda>g. case cg_amountCents g of Some c \<Rightarrow> c | None \<Rightarrow> 0) gs),
                     rt_count = length gs\<rparr>)
       (group_rows cg_reason (filter (\<lambda>g. cg_workspaceId g = ws) (grants l)))"

record cost_summary =
  co_costUsd :: rat
  co_chargedUsd :: rat
  co_marginUsd :: rat
  co_input :: int
  co_output :: int
  co_cacheWrite :: int
  co_cacheRead :: int
  co_events :: nat

definition costSummary :: "uuid \<Rightarrow> date_range \<Rightarrow> ledger \<Rightarrow> cost_summary" where
  "costSummary ws rng l =
    (let es = run_query (scopedEvents ws rng) l;
         costUsd = fl (sum_list (map ce_providerCostUsd es));
         chargedUsd = fl (fl (of_int (sum_list (map ce_creditsUsed es))) / of_int CREDITS_PER_DOLLAR)
     in \<lparr>co_costUsd = costUsd, co_chargedUsd = chargedUsd, co_marginUsd = fl (chargedUsd - costUsd),
         co_input = sum_list (map ce_inputTokens es), co_output = sum_list (map ce_outputTokens es),
         co_cacheWrite = sum_list (map ce_cacheWriteTokens es),
         co_cacheRead = sum_list (map ce_cacheReadTokens es), co_events = length es\<rparr>)"

end
