(* ===== verification/UsageAnalytics.thy ===== *)
theory UsageAnalytics
  imports Usage
begin

text \<open>
  The figures of the Usage page: the daily series has one bar per calendar day of the window, and
  its total, the per-type split and the headline agree with the events of the window.
\<close>

section \<open>Grouping\<close>

lemma sum_list_groups:
  fixes f :: "'r \<Rightarrow> int"
  shows "sum_list (map (\<lambda>(k, rs). sum_list (map f rs)) (group_rows key rows)) = sum_list (map f rows)"
proof -
  have "sum_list (map (\<lambda>k. sum_list (map f (filter (\<lambda>r. key r = k) rows))) ks) =
          sum_list (map f (filter (\<lambda>r. key r \<in> set ks) rows))" if "distinct ks" for ks
    using that
  proof (induction ks)
    case (Cons k ks)
    have "sum_list (map f (filter (\<lambda>r. key r \<in> set (k # ks)) rows)) =
        sum_list (map f (filter (\<lambda>r. key r = k) rows)) + sum_list (map f (filter (\<lambda>r. key r \<in> set ks) rows))"
      using Cons.prems by (induction rows) auto
    with Cons show ?case by simp
  qed simp
  from this[of "js_unique (map key rows)"] show ?thesis
    by (simp add: group_rows_def comp_def)
qed

lemma keys_group_rows: "fst ` set (group_rows key rows) = key ` set rows"
  by (force simp: group_rows_def)

lemma map_of_group_rows:
  "map_of (group_rows key rows) k =
     (if k \<in> key ` set rows then Some (filter (\<lambda>r. key r = k) rows) else None)"
proof -
  have "map_of (map (\<lambda>k. (k, g k)) ks) k = (if k \<in> set ks then Some (g k) else None)" for g :: "'b \<Rightarrow> 'a list" and ks
    by (induction ks) auto
  then show ?thesis by (simp add: group_rows_def)
qed

section \<open>The split series\<close>

definition points_ok :: "(int \<times> daily_point) list \<Rightarrow> bool" where
  "points_ok m \<longleftrightarrow> distinct (map fst m) \<and> list_all (\<lambda>(d, p). dp_day p = d) m"

definition points_total :: "(int \<times> daily_point) list \<Rightarrow> int" where
  "points_total m = sum_list (map (dp_credits \<circ> snd) m)"

lemma points_total_aput:
  "distinct (map fst m) \<Longrightarrow> points_total (aput d p m) = points_total m
     - (case map_of m d of Some q \<Rightarrow> dp_credits q | None \<Rightarrow> 0) + dp_credits p"
proof (induction m)
  case (Cons x m)
  obtain a b where x: "x = (a, b)" by (cases x)
  have "map_of m d = None" if "a = d" using that Cons.prems x by (auto simp: map_of_eq_None_iff)
  with Cons x show ?case by (auto simp: points_total_def)
qed (simp add: points_total_def)

lemma aput_all: "list_all P m \<Longrightarrow> P (d, p) \<Longrightarrow> list_all P (aput d p m)"
  by (induction m) (auto simp: split: if_splits)

lemma add_split_row_facts:
  assumes "points_ok m"
  shows "points_ok (add_split_row ((d, t), es) m)"
    and "points_total (add_split_row ((d, t), es) m) = points_total m + sum_list (map ce_creditsUsed es)"
    and "fst ` set (add_split_row ((d, t), es) m) = insert d (fst ` set m)"
proof -
  have day: "dp_day (case map_of m d of Some p \<Rightarrow> p | None \<Rightarrow> zero_point d) = d"
    using assms by (auto simp: points_ok_def list_all_iff zero_point_def dest!: map_of_SomeD split: option.split)
  have dist: "distinct (map fst m)" using assms by (simp add: points_ok_def)
  show "points_ok (add_split_row ((d, t), es) m)"
    using assms day unfolding points_ok_def add_split_row_def
    by (auto simp: Let_def intro!: distinct_keys_aput aput_all split: if_splits)
  show "points_total (add_split_row ((d, t), es) m) = points_total m + sum_list (map ce_creditsUsed es)"
    unfolding add_split_row_def
    by (auto simp: Let_def points_total_aput[OF dist] zero_point_def split: option.split)
  show "fst ` set (add_split_row ((d, t), es) m) = insert d (fst ` set m)"
    by (simp add: add_split_row_def Let_def)
qed

lemma fold_split_rows:
  "points_ok m \<Longrightarrow> points_ok (fold add_split_row rows m)
     \<and> points_total (fold add_split_row rows m) =
         points_total m + sum_list (map (\<lambda>(k, es). sum_list (map ce_creditsUsed es)) rows)
     \<and> fst ` set (fold add_split_row rows m) = (fst \<circ> fst) ` set rows \<union> fst ` set m"
proof (induction rows arbitrary: m)
  case (Cons row rows)
  obtain d t es where "row = ((d, t), es)" by (cases row) auto
  with Cons add_split_row_facts[OF Cons.prems, of d t es] show ?case by simp
qed simp

lemma sum_list_sort_key:
  "sum_list (map f (sort_key k xs)) = (sum_list (map f xs) :: int)"
  by (metis mset_map mset_sort sum_mset_sum_list)

lemma dailyUsageSplit_facts:
  fixes ws rng l defines "rows \<equiv> dailyUsageSplit ws rng l"
  shows "distinct (map dp_day rows)"
    and "sum_list (map dp_credits rows) = sum_list (map ce_creditsUsed (run_query (scopedEvents ws rng) l))"
    and "set (map dp_day rows) = (\<lambda>e. day_of (ce_createdAt e)) ` set (run_query (scopedEvents ws rng) l)"
proof -
  let ?es = "run_query (scopedEvents ws rng) l"
  let ?g = "group_rows (\<lambda>e. (day_of (ce_createdAt e), ce_type e)) ?es"
  define m where "m = fold add_split_row (sort_key (fst \<circ> fst) ?g) []"
  have m: "points_ok m" "points_total m = sum_list (map ce_creditsUsed ?es)"
    "fst ` set m = (fst \<circ> fst) ` set ?g"
    using fold_split_rows[of "[]" "sort_key (fst \<circ> fst) ?g"]
    by (simp_all add: m_def points_ok_def points_total_def sum_list_sort_key sum_list_groups)
  have rows: "rows = map snd m" by (simp add: rows_def dailyUsageSplit_def m_def)
  have days: "map dp_day rows = map fst m"
    using m(1) by (auto simp: rows points_ok_def list_all_iff)
  show "distinct (map dp_day rows)" using m(1) by (simp only: days points_ok_def)
  show "sum_list (map dp_credits rows) = sum_list (map ce_creditsUsed ?es)"
    using m(2) by (simp add: rows points_total_def comp_def)
  show "set (map dp_day rows) = (\<lambda>e. day_of (ce_createdAt e)) ` set ?es"
  proof -
    have "(fst \<circ> fst) ` set ?g = fst ` (fst ` set ?g)" by (simp add: image_comp)
    also have "\<dots> = (\<lambda>e. day_of (ce_createdAt e)) ` set ?es"
      by (simp add: keys_group_rows image_comp comp_def)
    finally show ?thesis using m(3) by (simp only: days set_map)
  qed
qed

section \<open>Padding to every day\<close>

lemma fill_days_days:
  "(\<And>d p. map_of m d = Some p \<Longrightarrow> dp_day p = d) \<Longrightarrow> map dp_day (fill_days m a b) = [a..b]"
proof (induction m a b rule: fill_days.induct)
  case (1 m a b)
  then show ?case
    by (subst fill_days.simps) (auto simp: zero_point_def upto_rec1 split: option.split)
qed

lemma fill_days_total:
  "sum_list (map dp_credits (fill_days m a b)) =
     sum_list (map (\<lambda>d. case map_of m d of Some p \<Rightarrow> dp_credits p | None \<Rightarrow> 0) [a..b])"
proof (induction m a b rule: fill_days.induct)
  case (1 m a b)
  then show ?case
    by (subst fill_days.simps) (auto simp: zero_point_def upto_rec1 split: option.split)
qed

lemma sum_lookup:
  assumes "distinct ds" "distinct (map dp_day rows)" "set (map dp_day rows) \<subseteq> set ds"
  shows "sum_list (map (\<lambda>d. case map_of (map (\<lambda>r. (dp_day r, r)) rows) d of
            Some p \<Rightarrow> dp_credits p | None \<Rightarrow> 0) ds) = sum_list (map dp_credits rows)"
  using assms(2,3)
proof (induction rows)
  case (Cons r rows)
  let ?f = "\<lambda>rows d. case map_of (map (\<lambda>r. (dp_day r, r)) rows) d of Some p \<Rightarrow> dp_credits p | None \<Rightarrow> 0"
  have "map_of (map (\<lambda>r. (dp_day r, r)) rows) (dp_day r) = None"
    using Cons.prems(1) by (auto simp: map_of_eq_None_iff)
  then have "?f (r # rows) = (\<lambda>d. (if d = dp_day r then dp_credits r else 0) + ?f rows d)"
    by (auto simp: fun_eq_iff)
  moreover have "sum_list (map (\<lambda>d. if d = dp_day r then dp_credits r else 0) ds) = dp_credits r"
  proof -
    have "sum_list (map (\<lambda>d. if d = x then c else 0) ds) = (if x \<in> set ds then c else (0::int))" for x :: int and c
      using assms(1) by (induction ds) auto
    with Cons.prems(2) show ?thesis by simp
  qed
  ultimately show ?case using Cons by (simp add: sum_list_addf)
qed simp

lemma map_from_unique:
  "distinct (map fst es) \<Longrightarrow> map_of (map_from es) = map_of es"
  by (subst map_of_map_from, subst map_of_inject_set) (simp_all flip: rev_map)

lemma creditsByType_totals:
  "cs_thread (creditsByType ws rng l) + cs_scheduledTask (creditsByType ws rng l) =
     sum_list (map ce_creditsUsed (run_query (scopedEvents ws rng) l))"
proof -
  let ?es = "run_query (scopedEvents ws rng) l"
  have look: "(case map_of (map (\<lambda>(t, es). (t, sum_list (map ce_creditsUsed es))) (group_rows ce_type ?es)) t of
      Some n \<Rightarrow> n | None \<Rightarrow> 0) = sum_list (map ce_creditsUsed (filter (\<lambda>e. ce_type e = t) ?es))" for t
  proof -
    have "map_of (map (\<lambda>(t, es). (t, sum_list (map ce_creditsUsed es))) g) t =
        map_option (\<lambda>es. sum_list (map ce_creditsUsed es)) (map_of g t)" for g :: "(credit_event_type \<times> credit_event list) list"
      by (induction g) auto
    moreover have "filter (\<lambda>e. ce_type e = t) ?es = []" if "t \<notin> ce_type ` set ?es"
      using that by (auto simp: filter_empty_conv)
    ultimately show ?thesis by (simp add: map_of_group_rows)
  qed
  have "filter (\<lambda>e. ce_type e = SCHEDULED_TASK) ?es = filter (\<lambda>e. ce_type e \<noteq> THREAD) ?es"
    by (rule filter_cong) (auto, metis credit_event_type.exhaust)
  then show ?thesis
    using sum_list_filter_split[of ce_creditsUsed "\<lambda>e. ce_type e = THREAD" ?es]
    by (simp add: creditsByType_def look)
qed

section \<open>Properties\<close>

text \<open>The Usage page is consistent: the series has exactly one point for every UTC day of
  the window in order, and its sum, the headline total and the thread/task split all equal the
  credits of the events of the window.\<close>

theorem analytics_totals_agree:
  fixes us tasks ws rng l
  defines "a \<equiv> analyticsForWorkspace us tasks ws rng l"
  shows "map dp_day (an_daily a) = [day_of (dr_from rng)..day_of (dr_to rng)]
    \<and> an_totalCredits a = sum_list (map ce_creditsUsed (run_query (scopedEvents ws rng) l))
    \<and> sum_list (map dp_credits (an_daily a)) = an_totalCredits a
    \<and> cs_thread (an_byType a) + cs_scheduledTask (an_byType a) = an_totalCredits a"
proof -
  let ?rows = "dailyUsageSplit ws rng l" and ?es = "run_query (scopedEvents ws rng) l"
  note f = dailyUsageSplit_facts[of ws rng l]
  have keys: "map_of (map_from (map (\<lambda>r. (dp_day r, r)) ?rows)) = map_of (map (\<lambda>r. (dp_day r, r)) ?rows)"
    using f(1) by (intro map_from_unique) (simp add: comp_def)
  have "dr_from rng \<le> ce_createdAt e \<and> ce_createdAt e \<le> dr_to rng" if "e \<in> set ?es" for e
    using that by (simp add: run_query_def scopedEvents_def qb_where_def qb_andWhere_def)
  then have sub: "set (map dp_day ?rows) \<subseteq> set [day_of (dr_from rng)..day_of (dr_to rng)]"
    unfolding f(3) by (auto simp: day_of_def day_ms_def zdiv_mono1)
  have "map dp_day (zeroFilledDays ?rows rng) = [day_of (dr_from rng)..day_of (dr_to rng)]"
    unfolding zeroFilledDays_def
    by (rule fill_days_days) (auto simp: keys dest: map_of_SomeD)
  moreover have "sum_list (map dp_credits (zeroFilledDays ?rows rng)) = sum_list (map dp_credits ?rows)"
    unfolding zeroFilledDays_def fill_days_total keys
    by (rule sum_lookup[OF _ f(1) sub]) simp
  ultimately show ?thesis
    by (simp add: a_def analyticsForWorkspace_def Let_def f(2) creditsByType_totals)
qed

text \<open>The table of the costliest tasks does not depend on the reporting window at all: the
  query's own \<open>where\<close> replaces the window's conditions.\<close>

theorem top_tasks_ignore_window:
  "topTasks tasks ws rng limit l = topTasks tasks ws rng' limit l"
  by (simp add: topTasks_def qb_where_def)

end
