(* ===== verification/UsageLedger.thy ===== *)
theory UsageLedger
  imports Usage
begin

text \<open>
  What the credit ledger of \<open>Usage\<close> guarantees: how a charge is spread over the grants, that
  no grant is ever overdrawn by requests that run one after the other, that credits are conserved,
  and where two requests running at once break this.
\<close>

section \<open>Ordered buckets\<close>

text \<open>Buckets are ordered the way they are spent.\<close>

instantiation credit_bucket :: linorder
begin

definition less_eq_credit_bucket :: "credit_bucket \<Rightarrow> credit_bucket \<Rightarrow> bool" where
  "less_eq_credit_bucket a b \<longleftrightarrow> spend_rank a \<le> spend_rank b"

definition less_credit_bucket :: "credit_bucket \<Rightarrow> credit_bucket \<Rightarrow> bool" where
  "less_credit_bucket a b \<longleftrightarrow> spend_rank a < spend_rank b"

instance
proof
  fix x y z :: credit_bucket
  show "(x < y) = (x \<le> y \<and> \<not> y \<le> x)"
    by (auto simp: less_eq_credit_bucket_def less_credit_bucket_def)
  show "x \<le> x" by (simp add: less_eq_credit_bucket_def)
  show "x \<le> y \<Longrightarrow> y \<le> z \<Longrightarrow> x \<le> z" by (simp add: less_eq_credit_bucket_def)
  show "x \<le> y \<Longrightarrow> y \<le> x \<Longrightarrow> x = y"
    by (cases x; cases y) (simp_all add: less_eq_credit_bucket_def spend_rank_def SPEND_ORDER_def)
  show "x \<le> y \<or> y \<le> x" by (auto simp: less_eq_credit_bucket_def)
qed

end

lemma spend_ranks [simp]:
  "spend_rank ROLLOVER = 0" "spend_rank PLAN = 1" "spend_rank TOPUP = 2" "spend_rank REWARD = 3"
  by (simp_all add: spend_rank_def SPEND_ORDER_def)

lemma distinct_SPEND_ORDER: "distinct SPEND_ORDER"
  by (simp add: SPEND_ORDER_def)

lemma set_SPEND_ORDER: "b \<in> set SPEND_ORDER"
  by (cases b) (simp_all add: SPEND_ORDER_def)

lemma sum_over_one:
  "distinct (map k xs) \<Longrightarrow> x \<in> set xs \<Longrightarrow>
     sum_list (map f (filter (\<lambda>y. k y = k x) xs)) = (f x :: int)"
proof (induction xs)
  case (Cons a xs)
  have none: "filter (\<lambda>y. k y = k x) xs = []" if "k a = k x"
    using that Cons.prems(1) by (auto simp: filter_empty_conv) (metis rev_image_eqI)
  show ?case
  proof (cases "x = a")
    case True
    with none show ?thesis by simp
  next
    case False
    with Cons.prems have "x \<in> set xs" by simp
    with Cons.prems(1) have "k a \<noteq> k x" by auto
    with Cons \<open>x \<in> set xs\<close> show ?thesis by simp
  qed
qed simp

section \<open>Planning\<close>

definition spendable :: "spendable_grant list \<Rightarrow> int" where
  "spendable gs = sum_list (map (\<lambda>g. max 0 (sg_remaining g)) gs)"

lemma spendable_Nil [simp]: "spendable [] = 0"
  by (simp add: spendable_def)

lemma spendable_Cons [simp]: "spendable (g # gs) = max 0 (sg_remaining g) + spendable gs"
  by (simp add: spendable_def)

lemma spendable_nonneg [simp]: "0 \<le> spendable gs"
  by (simp add: spendable_def sum_list_nonneg_map)

lemma spendable_sort [simp]: "spendable (sort_key k gs) = spendable gs"
proof -
  have "sum_mset (mset (map (\<lambda>g. max 0 (sg_remaining g)) (sort_key k gs))) =
        sum_mset (mset (map (\<lambda>g. max 0 (sg_remaining g)) gs))" by simp
  then show ?thesis unfolding spendable_def sum_mset_sum_list .
qed

lemma plan_loop_done: "c \<le> 0 \<Longrightarrow> plan_loop gs c = []"
  by (cases gs) simp_all

lemma plan_loop_take:
  "0 < c \<Longrightarrow> 0 < sg_remaining g \<Longrightarrow> plan_loop (g # gs) c =
     \<lparr>pa_grantId = sg_id g, pa_bucket = sg_bucket g, pa_credits = min c (sg_remaining g)\<rparr>
     # plan_loop gs (c - min c (sg_remaining g))"
  by (simp add: Let_def) (simp add: min_def)

lemma plan_loop_skip:
  "\<not> (0 < c \<and> 0 < sg_remaining g) \<Longrightarrow> plan_loop (g # gs) c = plan_loop gs c"
  using plan_loop_done[of c gs] by (auto simp: Let_def)

lemma plan_loop_total:
  "0 \<le> c \<Longrightarrow> sum_list (map pa_credits (plan_loop gs c)) = min c (spendable gs)"
proof (induction gs arbitrary: c)
  case (Cons g gs)
  show ?case
  proof (cases "0 < c \<and> 0 < sg_remaining g")
    case True
    define t where "t = min c (sg_remaining g)"
    have "0 \<le> c - t" "0 < t" using True by (simp_all add: t_def)
    have "sum_list (map pa_credits (plan_loop (g # gs) c)) = t + min (c - t) (spendable gs)"
      using True Cons.IH[OF \<open>0 \<le> c - t\<close>] by (simp add: t_def plan_loop_take del: plan_loop.simps)
    also have "\<dots> = min c (spendable (g # gs))"
      using True spendable_nonneg[of gs] unfolding t_def spendable_Cons by linarith
    finally show ?thesis .
  next
    case False
    then show ?thesis using Cons by (auto simp: Let_def min_def)
  qed
qed simp

lemma plan_loop_sound:
  "p \<in> set (plan_loop gs c) \<Longrightarrow>
     \<exists>g \<in> set gs. pa_grantId p = sg_id g \<and> pa_bucket p = sg_bucket g
                   \<and> 0 < pa_credits p \<and> pa_credits p \<le> sg_remaining g"
  by (induction gs c rule: plan_loop.induct) (auto simp: Let_def split: if_splits)

lemma plan_loop_ids: "set (map pa_grantId (plan_loop gs c)) \<subseteq> set (map sg_id gs)"
  using plan_loop_sound by fastforce

lemma plan_loop_distinct:
  "distinct (map sg_id gs) \<Longrightarrow> distinct (map pa_grantId (plan_loop gs c))"
proof (induction gs arbitrary: c)
  case (Cons g gs)
  have "sg_id g \<notin> set (map pa_grantId (plan_loop gs c'))" for c'
    using plan_loop_ids[of gs c'] Cons.prems by auto
  with Cons show ?case by (auto simp: Let_def)
qed simp

text \<open>Whatever comes before a grant that is drawn on has been emptied.\<close>

lemma plan_loop_drains:
  assumes "plan_loop (gs @ g # hs) c \<noteq> plan_loop gs c" and "x \<in> set gs" and "0 < sg_remaining x"
  shows "\<exists>q \<in> set (plan_loop gs c). pa_grantId q = sg_id x \<and> pa_credits q = sg_remaining x"
  using assms
proof (induction gs arbitrary: c)
  case (Cons a gs)
  show ?case
  proof (cases "0 < c \<and> 0 < sg_remaining a")
    case True
    define t where "t = min c (sg_remaining a)"
    have neq: "plan_loop (gs @ g # hs) (c - t) \<noteq> plan_loop gs (c - t)"
      using Cons.prems(1) True by (simp add: plan_loop_take t_def del: plan_loop.simps) 
    then have "0 < c - t" using plan_loop_done[of "c - t"] by fastforce
    then have ta: "t = sg_remaining a" by (simp add: t_def)
    show ?thesis
    proof (cases "x = a")
      case True
      with ta \<open>0 < c \<and> _\<close> show ?thesis
        by (simp add: plan_loop_take flip: t_def del: plan_loop.simps)
    next
      case False
      with Cons neq have "\<exists>q \<in> set (plan_loop gs (c - t)). pa_grantId q = sg_id x \<and> pa_credits q = sg_remaining x"
        by simp
      with \<open>0 < c \<and> _\<close> show ?thesis
        by (simp add: plan_loop_take flip: t_def del: plan_loop.simps)
    qed
  next
    case False
    then show ?thesis using Cons plan_loop_done[of c "gs @ g # hs"] plan_loop_done[of c gs]
      by (auto simp: plan_loop_skip simp del: plan_loop.simps)
  qed
qed simp

lemma plan_loop_reached:
  "p \<in> set (plan_loop xs c) \<Longrightarrow>
     \<exists>gs g hs. xs = gs @ g # hs \<and> pa_bucket p = sg_bucket g \<and> plan_loop xs c \<noteq> plan_loop gs c"
proof (induction xs arbitrary: c)
  case (Cons a xs)
  show ?case
  proof (cases "0 < c \<and> 0 < sg_remaining a")
    case True
    define t where "t = min c (sg_remaining a)"
    let ?p = "\<lparr>pa_grantId = sg_id a, pa_bucket = sg_bucket a, pa_credits = t\<rparr>"
    have unf: "plan_loop (a # ys) c = ?p # plan_loop ys (c - t)" for ys
      using True by (simp add: plan_loop_take t_def del: plan_loop.simps)
    show ?thesis
    proof (cases "p \<in> set (plan_loop xs (c - t))")
      case True
      then obtain gs g hs where "xs = gs @ g # hs" "pa_bucket p = sg_bucket g"
        "plan_loop xs (c - t) \<noteq> plan_loop gs (c - t)" using Cons.IH by blast
      then show ?thesis
        by (intro exI[of _ "a # gs"] exI[of _ g] exI[of _ hs]) (simp add: unf del: plan_loop.simps)
    next
      case False
      with Cons.prems have "p = ?p" by (simp add: unf del: plan_loop.simps)
      then show ?thesis
        by (intro exI[of _ "[]"] exI[of _ a] exI[of _ xs]) (simp add: unf del: plan_loop.simps(2))
    qed
  next
    case False
    then have unf: "plan_loop (a # ys) c = plan_loop ys c" for ys
      by (rule plan_loop_skip)
    from Cons.prems have "p \<in> set (plan_loop xs c)" by (simp only: unf)
    then obtain gs g hs where "xs = gs @ g # hs" "pa_bucket p = sg_bucket g"
        "plan_loop xs c \<noteq> plan_loop gs c" using Cons.IH by blast
    then show ?thesis
      by (intro exI[of _ "a # gs"] exI[of _ g] exI[of _ hs]) (simp add: unf del: plan_loop.simps)
  qed
qed simp


section \<open>The ledger's invariant\<close>

text \<open>
  Grants have distinct ids and no Stripe reference twice, every allocation is a positive amount,
  and what was drawn from a grant never exceeds what it holds.
\<close>

definition opt_distinct :: "'a option list \<Rightarrow> bool" where
  "opt_distinct xs = distinct (filter (\<lambda>x. x \<noteq> None) xs)"

definition covered :: "credit_grant \<Rightarrow> ledger \<Rightarrow> bool" where
  "covered g l \<longleftrightarrow> spent_on (allocations l) (cg_id g) \<le> max 0 (cg_credits g)"

definition ledger_wf :: "ledger \<Rightarrow> bool" where
  "ledger_wf l \<longleftrightarrow> distinct (map cg_id (grants l))
     \<and> opt_distinct (map cg_stripeSessionId (grants l))
     \<and> opt_distinct (map cg_stripeInvoiceId (grants l))
     \<and> list_all (\<lambda>a. 0 < ca_credits a \<and> ca_grantId a \<in> cg_id ` set (grants l)) (allocations l)
     \<and> list_all (\<lambda>g. covered g l) (grants l)"

lemma spent_on_append [simp]: "spent_on (as @ bs) g = spent_on as g + spent_on bs g"
  by (simp add: spent_on_def)

lemma spent_on_Nil [simp]: "spent_on [] g = 0"
  by (simp add: spent_on_def)

lemma spent_on_fresh: "g \<notin> ca_grantId ` set as \<Longrightarrow> spent_on as g = 0"
  by (induction as) (auto simp: spent_on_def)

lemma spent_on_nonneg: "list_all (\<lambda>a. 0 < ca_credits a) as \<Longrightarrow> 0 \<le> spent_on as g"
  unfolding spent_on_def list_all_iff by (rule sum_list_nonneg_map) (auto intro: less_imp_le)

text \<open>The rows one charge adds.\<close>

definition charge_rows :: "uuid \<Rightarrow> planned_allocation list \<Rightarrow> credit_allocation list" where
  "charge_rows e ps = map (\<lambda>p. \<lparr>ca_creditEventId = Some e, ca_grantId = pa_grantId p,
                          ca_bucket = pa_bucket p, ca_credits = pa_credits p\<rparr>) ps"

definition planned_for :: "time \<Rightarrow> credit_event \<Rightarrow> ledger \<Rightarrow> planned_allocation list" where
  "planned_for now e l = planAllocations (liveGrantsForSpending (ce_workspaceId e) now l) (ce_creditsUsed e)"

lemma allocate_eq:
  "snd (allocate now e l) = l\<lparr>allocations := allocations l @ charge_rows (ce_id e) (planned_for now e l)\<rparr>"
  by (simp add: allocate_def charge_rows_def planned_for_def Let_def)

lemma charge_rows_ids: "ca_grantId ` set (charge_rows e ps) = pa_grantId ` set ps"
  by (force simp: charge_rows_def)

lemma spent_on_charge_rows:
  "spent_on (charge_rows e ps) g = sum_list (map pa_credits (filter (\<lambda>p. pa_grantId p = g) ps))"
  by (induction ps) (simp_all add: spent_on_def charge_rows_def)

lemma sg_of_live:
  "s \<in> set (liveGrantsForSpending ws now l) \<longleftrightarrow>
     (\<exists>g \<in> set (grants l). cg_workspaceId g = ws \<and> is_live now g
        \<and> spent_on (allocations l) (cg_id g) < cg_credits g
        \<and> s = \<lparr>sg_id = cg_id g, sg_bucket = cg_bucket g,
                sg_remaining = cg_credits g - spent_on (allocations l) (cg_id g)\<rparr>)"
  by (auto simp: liveGrantsForSpending_def)

lemma distinct_sort_key_map:
  "distinct (map f (sort_key k xs)) \<longleftrightarrow> distinct (map f xs)"
  by (metis mset_map mset_sort mset_eq_imp_distinct_iff)

lemma distinct_live_ids:
  "distinct (map cg_id (grants l)) \<Longrightarrow> distinct (map sg_id (liveGrantsForSpending ws now l))"
  by (simp add: liveGrantsForSpending_def comp_def distinct_sort_key_map distinct_map_filter)

lemma planned_for_distinct:
  "distinct (map cg_id (grants l)) \<Longrightarrow> distinct (map pa_grantId (planned_for now e l))"
  unfolding planned_for_def planAllocations_def
  by (rule plan_loop_distinct) (simp add: distinct_sort_key_map distinct_live_ids)

lemma planned_for_sound:
  assumes "p \<in> set (planned_for now e l)"
  obtains g where "g \<in> set (grants l)" "cg_workspaceId g = ce_workspaceId e" "is_live now g"
    "pa_grantId p = cg_id g" "0 < pa_credits p"
    "pa_credits p \<le> cg_credits g - spent_on (allocations l) (cg_id g)"
  using plan_loop_sound[OF assms[unfolded planned_for_def planAllocations_def]]
  by (auto simp: sg_of_live)

lemma charge_within_grant:
  assumes d: "distinct (map cg_id (grants l))" and g: "g \<in> set (grants l)"
    and c: "covered g l"
  shows "spent_on (allocations l) (cg_id g)
           + spent_on (charge_rows i (planned_for now e l)) (cg_id g) \<le> max 0 (cg_credits g)"
proof (cases "cg_id g \<in> pa_grantId ` set (planned_for now e l)")
  case True
  then obtain p where p: "p \<in> set (planned_for now e l)" "pa_grantId p = cg_id g" by auto
  obtain g' where g': "g' \<in> set (grants l)" "pa_grantId p = cg_id g'"
    "pa_credits p \<le> cg_credits g' - spent_on (allocations l) (cg_id g')"
    using planned_for_sound[OF p(1)] by metis
  have "g' = g" using d g g' p(2) by (metis distinct_map inj_onD)
  have "spent_on (charge_rows i (planned_for now e l)) (cg_id g) = pa_credits p"
    unfolding spent_on_charge_rows p(2)[symmetric]
    by (rule sum_over_one[OF planned_for_distinct[OF d] p(1)])
  with g'(3) \<open>g' = g\<close> show ?thesis by simp
next
  case False
  then have "spent_on (charge_rows i (planned_for now e l)) (cg_id g) = 0"
    by (intro spent_on_fresh) (simp add: charge_rows_ids)
  with c show ?thesis by (simp add: covered_def)
qed

lemma allocate_wf:
  assumes "ledger_wf l"
  shows "ledger_wf (snd (allocate now e l))"
proof -
  have "list_all (\<lambda>a. 0 < ca_credits a \<and> ca_grantId a \<in> cg_id ` set (grants l))
          (charge_rows (ce_id e) (planned_for now e l))"
    unfolding list_all_iff charge_rows_def
    by (auto elim!: planned_for_sound)
  with assms charge_within_grant[of l _ "ce_id e" now e] show ?thesis
    by (auto simp: ledger_wf_def allocate_eq covered_def list_all_iff)
qed

lemma events_irrelevant: "ledger_wf (l\<lparr>events := es\<rparr>) = ledger_wf l"
  by (simp add: ledger_wf_def covered_def)

lemma recordEvent_wf: "ledger_wf l \<Longrightarrow> ledger_wf (snd (recordEvent gw i now inp l))"
  by (simp add: recordEvent_def Let_def allocate_wf events_irrelevant)

lemma opt_distinct_snoc:
  "opt_distinct (xs @ [x]) \<longleftrightarrow> opt_distinct xs \<and> (x = None \<or> x \<notin> set xs)"
  by (auto simp: opt_distinct_def)

lemma collides_iff: "collides a b \<longleftrightarrow> a \<noteq> None \<and> a = b"
  by (cases a) (auto simp: collides_def)

lemma insert_grant_cases:
  "insert_grant g l = (Inr g, l\<lparr>grants := grants l @ [g]\<rparr>) \<and> int4_ok (cg_credits g)
       \<and> (cg_stripeSessionId g = None \<or> cg_stripeSessionId g \<notin> cg_stripeSessionId ` set (grants l))
       \<and> (cg_stripeInvoiceId g = None \<or> cg_stripeInvoiceId g \<notin> cg_stripeInvoiceId ` set (grants l))
   \<or> (\<exists>e. insert_grant g l = (Inl e, l))"
  by (auto simp: insert_grant_def list_ex_iff collides_iff)

lemma insert_grant_wf:
  assumes "ledger_wf l" "cg_id g \<notin> cg_id ` set (grants l)"
  shows "ledger_wf (snd (insert_grant g l))"
proof -
  consider "snd (insert_grant g l) = l"
    | "snd (insert_grant g l) = l\<lparr>grants := grants l @ [g]\<rparr>"
      "cg_stripeSessionId g = None \<or> cg_stripeSessionId g \<notin> cg_stripeSessionId ` set (grants l)"
      "cg_stripeInvoiceId g = None \<or> cg_stripeInvoiceId g \<notin> cg_stripeInvoiceId ` set (grants l)"
    using insert_grant_cases[of g l] by auto
  then show ?thesis
  proof cases
    case 2
    have "spent_on (allocations l) (cg_id g) = 0"
      using assms by (intro spent_on_fresh) (force simp: ledger_wf_def list_all_iff)
    with 2 assms show ?thesis
      by (auto simp: ledger_wf_def list_all_iff covered_def opt_distinct_snoc)
  qed (use assms in simp)
qed

lemma grantCredits_wf:
  "ledger_wf l \<Longrightarrow> i \<notin> cg_id ` set (grants l) \<Longrightarrow> ledger_wf (snd (grantCredits i now inp l))"
  by (simp add: grantCredits_def insert_grant_wf make_grant_def)


section \<open>The balance in closed form\<close>

definition remaining_of :: "ledger \<Rightarrow> credit_grant \<Rightarrow> int" where
  "remaining_of l g = max 0 (cg_credits g - spent_on (allocations l) (cg_id g))"

definition live_grants :: "uuid \<Rightarrow> time \<Rightarrow> ledger \<Rightarrow> credit_grant list" where
  "live_grants ws now l = filter (\<lambda>g. cg_workspaceId g = ws \<and> is_live now g) (grants l)"

definition dead_grants :: "uuid \<Rightarrow> time \<Rightarrow> ledger \<Rightarrow> credit_grant list" where
  "dead_grants ws now l = filter (\<lambda>g. cg_workspaceId g = ws \<and> \<not> is_live now g) (grants l)"

definition bucket_total :: "(credit_bucket \<times> bucket_balance) list \<Rightarrow> int" where
  "bucket_total m =
     sum_list (map (\<lambda>b. case map_of m b of Some x \<Rightarrow> bb_credits x | None \<Rightarrow> 0) SPEND_ORDER)"

definition row_left :: "grant_row \<Rightarrow> int" where
  "row_left r = max 0 (gr_granted r - gr_spent r)"

lemma bucket_total_Nil [simp]: "bucket_total [] = 0"
  by (simp add: bucket_total_def SPEND_ORDER_def)

lemma bucket_total_aput:
  "bucket_total (aput b v m) = bucket_total m
     - (case map_of m b of Some x \<Rightarrow> bb_credits x | None \<Rightarrow> 0) + bb_credits v"
  by (cases b) (simp_all add: bucket_total_def SPEND_ORDER_def)

lemma fold_rows_totals:
  "fold fold_row rows (g, e, m) = (g', e', m') \<Longrightarrow>
     g' = g + sum_list (map gr_granted rows)
     \<and> e' = e + sum_list (map row_left (filter gr_dead rows))
     \<and> bucket_total m' = bucket_total m + sum_list (map row_left (filter (\<lambda>r. \<not> gr_dead r) rows))"
proof (induction rows arbitrary: g e m)
  case (Cons r rows)
  obtain g1 e1 m1 where one: "fold_row r (g, e, m) = (g1, e1, m1)" by (cases "fold_row r (g, e, m)")
  from Cons.prems one have "fold fold_row rows (g1, e1, m1) = (g', e', m')" by simp
  note rest = Cons.IH[OF this]
  show ?case
  proof (cases "gr_dead r")
    case True
    with one have "g1 = g + gr_granted r" "e1 = e + row_left r" "m1 = m"
      by (simp_all add: fold_row_def Let_def row_left_def)
    with rest True show ?thesis by simp
  next
    case False
    with one have "g1 = g + gr_granted r" "e1 = e" "bucket_total m1 = bucket_total m + row_left r"
      by (auto simp: fold_row_def Let_def row_left_def bucket_total_aput split: option.splits)
    with rest False show ?thesis by simp
  qed
qed simp

lemma balance_of_buckets:
  "sum_list (map bb_credits (map (\<lambda>b. case map_of m b of Some x \<Rightarrow> x
       | None \<Rightarrow> \<lparr>bb_bucket = b, bb_credits = 0, bb_expiresAt = None\<rparr>) SPEND_ORDER)) = bucket_total m"
  unfolding bucket_total_def by (rule arg_cong[of _ _ sum_list]) (simp split: option.split)

lemma getBalance_closed:
  "cb_granted (getBalance ws now l) =
     sum_list (map cg_credits (filter (\<lambda>g. cg_workspaceId g = ws) (grants l)))" (is ?G)
  "cb_expired (getBalance ws now l) = sum_list (map (remaining_of l) (dead_grants ws now l))" (is ?E)
  "cb_balance (getBalance ws now l) = sum_list (map (remaining_of l) (live_grants ws now l))" (is ?B)
proof -
  obtain g e m where f: "fold fold_row (remainingByGrant ws now l) (0, 0, []) = (g, e, m)"
    by (metis prod_cases3)
  note t = fold_rows_totals[OF f]
  have d: "filter gr_dead (remainingByGrant ws now l) =
      map (\<lambda>g. \<lparr>gr_bucket = cg_bucket g, gr_dead = \<not> is_live now g, gr_expiresAt = cg_expiresAt g,
               gr_granted = cg_credits g, gr_spent = spent_on (allocations l) (cg_id g)\<rparr>)
        (dead_grants ws now l)"
    by (simp add: remainingByGrant_def dead_grants_def filter_map comp_def conj_commute)
  have v: "filter (\<lambda>r. \<not> gr_dead r) (remainingByGrant ws now l) =
      map (\<lambda>g. \<lparr>gr_bucket = cg_bucket g, gr_dead = \<not> is_live now g, gr_expiresAt = cg_expiresAt g,
               gr_granted = cg_credits g, gr_spent = spent_on (allocations l) (cg_id g)\<rparr>)
        (live_grants ws now l)"
    by (simp add: remainingByGrant_def live_grants_def filter_map comp_def conj_commute)
  have r: "map gr_granted (remainingByGrant ws now l) =
      map cg_credits (filter (\<lambda>g. cg_workspaceId g = ws) (grants l))"
    by (simp add: remainingByGrant_def)
  show ?G using t by (simp add: getBalance_def f Let_def r)
  show ?E using t unfolding d
    by (simp add: getBalance_def f Let_def row_left_def remaining_of_def[abs_def] comp_def)
  have "bucket_total m = sum_list (map (remaining_of l) (live_grants ws now l))" using t unfolding v
    by (simp add: row_left_def remaining_of_def[abs_def] comp_def)
  then show ?B by (simp add: getBalance_def f Let_def balance_of_buckets del: map_map)
qed

lemma sum_by_key:
  "distinct (map k gs) \<Longrightarrow> (\<And>p. p \<in> set ps \<Longrightarrow> i p \<in> k ` set gs) \<Longrightarrow>
     sum_list (map (\<lambda>g. sum_list (map c (filter (\<lambda>p. i p = k g) ps))) gs) = (sum_list (map c ps) :: int)"
proof (induction ps)
  case (Cons p ps)
  obtain g where g: "g \<in> set gs" "k g = i p" using Cons.prems(2)[of p] by auto
  have "sum_list (map (\<lambda>x. if i p = k x then c p else 0) gs) = c p"
    using sum_over_one[of k gs g "\<lambda>_. c p"] Cons.prems(1) g
    by (simp add: sum_list_map_if eq_commute)
  moreover have "sum_list (map (\<lambda>g. sum_list (map c (filter (\<lambda>p. i p = k g) (p # ps)))) gs) =
      sum_list (map (\<lambda>x. if i p = k x then c p else 0) gs)
      + sum_list (map (\<lambda>g. sum_list (map c (filter (\<lambda>p. i p = k g) ps))) gs)"
    by (subst sum_list_addf[symmetric]) (rule arg_cong[of _ _ sum_list], auto)
  ultimately show ?case using Cons by simp
qed simp

lemma spendable_live:
  "spendable (liveGrantsForSpending ws now l) = sum_list (map (remaining_of l) (live_grants ws now l))"
proof -
  have mset: "sum_list (map f (sort_key k xs)) = sum_list (map f xs)" for f :: "credit_grant \<Rightarrow> int" and k :: "credit_grant \<Rightarrow> int" and xs
    by (metis mset_map mset_sort sum_mset_sum_list)
  have "sum_list (map (remaining_of l)
          (filter (\<lambda>g. spent_on (allocations l) (cg_id g) < cg_credits g) gs)) =
        sum_list (map (remaining_of l) gs)" for gs
    by (induction gs) (auto simp: remaining_of_def)
  from this[of "live_grants ws now l"] show ?thesis
    by (simp add: liveGrantsForSpending_def spendable_def comp_def mset live_grants_def
          remaining_of_def[abs_def] conj_ac)
qed

lemma planned_total:
  "0 \<le> ce_creditsUsed e \<Longrightarrow> sum_list (map pa_credits (planned_for now e l)) =
     min (ce_creditsUsed e) (cb_balance (getBalance (ce_workspaceId e) now l))"
  by (simp add: planned_for_def planAllocations_def plan_loop_total spendable_live getBalance_closed)

lemma planned_live:
  "p \<in> set (planned_for now e l) \<Longrightarrow> pa_grantId p \<in> cg_id ` set (live_grants (ce_workspaceId e) now l)"
  by (elim planned_for_sound) (auto simp: live_grants_def)

lemma remaining_after:
  assumes "ledger_wf l" "g \<in> set (grants l)"
  shows "remaining_of (snd (allocate now e l)) g =
     remaining_of l g - spent_on (charge_rows (ce_id e) (planned_for now e l)) (cg_id g)"
proof -
  let ?r = "spent_on (charge_rows (ce_id e) (planned_for now e l)) (cg_id g)"
  have "covered g l" and d: "distinct (map cg_id (grants l))"
    using assms by (auto simp: ledger_wf_def list_all_iff)
  then have le: "spent_on (allocations l) (cg_id g) + ?r \<le> max 0 (cg_credits g)"
    using charge_within_grant assms(2) by blast
  have "?r = 0" if "cg_credits g \<le> spent_on (allocations l) (cg_id g)"
  proof (rule spent_on_fresh, rule notI)
    assume "cg_id g \<in> ca_grantId ` set (charge_rows (ce_id e) (planned_for now e l))"
    then obtain p where p: "p \<in> set (planned_for now e l)" "pa_grantId p = cg_id g"
      by (auto simp: charge_rows_ids)
    then obtain g' where "g' \<in> set (grants l)" "cg_id g' = cg_id g" "0 < pa_credits p"
      "pa_credits p \<le> cg_credits g' - spent_on (allocations l) (cg_id g')"
      by (metis planned_for_sound)
    moreover have "g' = g" using d assms(2) calculation(1,2) by (metis distinct_map inj_onD)
    ultimately show False using that by simp
  qed
  moreover have "0 \<le> ?r"
    by (rule spent_on_nonneg) (auto simp: list_all_iff charge_rows_def elim!: planned_for_sound)
  moreover have "0 \<le> spent_on (allocations l) (cg_id g)"
    using assms(1) by (intro spent_on_nonneg) (auto simp: ledger_wf_def list_all_iff)
  ultimately show ?thesis using le by (auto simp: remaining_of_def allocate_eq)
qed

lemma sum_list_diff_int:
  "sum_list (map (\<lambda>x. f x - g x) xs) = sum_list (map f xs) - (sum_list (map g xs) :: int)"
  by (induction xs) auto

lemma allocate_balance:
  assumes wf: "ledger_wf l" and c: "0 \<le> ce_creditsUsed e" and ws: "ce_workspaceId e = ws"
  shows "cb_balance (getBalance ws now (snd (allocate now e l))) =
    cb_balance (getBalance ws now l) - min (ce_creditsUsed e) (cb_balance (getBalance ws now l))"
proof -
  let ?l' = "snd (allocate now e l)" and ?G = "live_grants ws now l"
    and ?ps = "planned_for now e l"
  have same: "live_grants ws now ?l' = ?G" by (simp add: live_grants_def allocate_eq)
  have d: "distinct (map cg_id ?G)"
    using wf by (simp add: ledger_wf_def live_grants_def distinct_map_filter)
  have "sum_list (map (remaining_of ?l') ?G) =
        sum_list (map (\<lambda>g. remaining_of l g - spent_on (charge_rows (ce_id e) ?ps) (cg_id g)) ?G)"
    using remaining_after[OF wf] by (intro arg_cong[of _ _ sum_list] map_cong) (auto simp: live_grants_def)
  also have "\<dots> = sum_list (map (remaining_of l) ?G) - sum_list (map pa_credits ?ps)"
    unfolding sum_list_diff_int spent_on_charge_rows
    using sum_by_key[OF d, of ?ps pa_grantId pa_credits] planned_live[of _ now e l] ws by simp
  finally show ?thesis
    using planned_total[OF c, of now l] ws by (simp add: getBalance_closed same)
qed

lemma balance_ignores_events: "cb_balance (getBalance ws now (l\<lparr>events := es\<rparr>)) = cb_balance (getBalance ws now l)"
  by (simp add: getBalance_closed live_grants_def remaining_of_def[abs_def])

lemma creditsFor_pos: "1 \<le> creditsFor gw m i out"
  by (simp add: creditsFor_def Let_def)

lemma recordEvent_balance_lemma:
  assumes "ledger_wf l" "ru_workspaceId inp = ws"
  shows "cb_balance (getBalance ws now (snd (recordEvent gw i now inp l))) =
    cb_balance (getBalance ws now l)
    - min (creditsFor gw (ru_model inp) (ru_inputTokens inp) (ru_outputTokens inp))
          (cb_balance (getBalance ws now l))"
proof -
  let ?e = "make_event gw i now inp"
  have "0 \<le> ce_creditsUsed ?e"
    using creditsFor_pos[of gw "ru_model inp" "ru_inputTokens inp" "ru_outputTokens inp"]
    by (simp add: make_event_def)
  from allocate_balance[OF _ this, of "l\<lparr>events := events l @ [?e]\<rparr>" ws now] assms
  show ?thesis
    by (simp add: recordEvent_def Let_def events_irrelevant balance_ignores_events)
       (simp add: make_event_def)
qed


lemma live_grants_others:
  assumes wf: "ledger_wf l" and ws: "ce_workspaceId e \<noteq> ws"
  shows "cb_balance (getBalance ws now (snd (allocate t e l))) = cb_balance (getBalance ws now l)"
proof -
  have "remaining_of (snd (allocate t e l)) g = remaining_of l g" if g: "g \<in> set (live_grants ws now l)" for g
  proof -
    have gl: "g \<in> set (grants l)" "cg_workspaceId g = ws" using g by (auto simp: live_grants_def)
    have "cg_id g \<notin> ca_grantId ` set (charge_rows (ce_id e) (planned_for t e l))"
    proof
      assume "cg_id g \<in> ca_grantId ` set (charge_rows (ce_id e) (planned_for t e l))"
      then obtain p where "p \<in> set (planned_for t e l)" "pa_grantId p = cg_id g"
        by (auto simp: charge_rows_ids)
      then obtain g' where "g' \<in> set (grants l)" "cg_id g' = cg_id g" "cg_workspaceId g' = ce_workspaceId e"
        by (metis planned_for_sound)
      moreover have "inj_on cg_id (set (grants l))" using wf by (simp add: ledger_wf_def distinct_map)
      ultimately have "g' = g" using gl(1) by (meson inj_onD)
      with \<open>cg_workspaceId g' = ce_workspaceId e\<close> show False using gl ws by simp
    qed
    then show ?thesis using remaining_after[OF wf gl(1), of t e] by (simp add: spent_on_fresh)
  qed
  then have "map (remaining_of (snd (allocate t e l))) (live_grants ws now l) =
      map (remaining_of l) (live_grants ws now l)" by simp
  moreover have "live_grants ws now (snd (allocate t e l)) = live_grants ws now l"
    by (simp add: live_grants_def allocate_eq)
  ultimately show ?thesis by (simp only: getBalance_closed)
qed

section \<open>A credit account as an interface\<close>

text \<open>
  What the rest of the program relies on: a charge takes the price from the balance, or all that
  is left; a grant adds its worth; time passes and takes what expires; all three keep the ledger in
  order.  The history of an account is then balanced: what was paid, what expired and what remains is
  what was there and what was granted.
\<close>

datatype ('c, 'g, 'd) account_op = Charge 'c | Grant 'g | Wait 'd

locale credit_account =
  fixes inv :: "'l \<Rightarrow> bool"
    and balance :: "'l \<Rightarrow> int"
    and price :: "'c \<Rightarrow> int"
    and charge :: "'c \<Rightarrow> 'l \<Rightarrow> 'l"
    and fresh :: "'g \<Rightarrow> 'l \<Rightarrow> bool"
    and worth :: "'g \<Rightarrow> 'l \<Rightarrow> int"
    and grant :: "'g \<Rightarrow> 'l \<Rightarrow> 'l"
    and lapse :: "'d \<Rightarrow> 'l \<Rightarrow> int"
    and wait :: "'d \<Rightarrow> 'l \<Rightarrow> 'l"
  assumes price_nonneg: "0 \<le> price c"
    and balance_nonneg: "inv l \<Longrightarrow> 0 \<le> balance l"
    and charge_inv: "inv l \<Longrightarrow> inv (charge c l)"
    and charge_balance: "inv l \<Longrightarrow> balance (charge c l) = balance l - min (price c) (balance l)"
    and worth_nonneg: "0 \<le> worth g l"
    and grant_inv: "inv l \<Longrightarrow> fresh g l \<Longrightarrow> inv (grant g l)"
    and grant_balance: "inv l \<Longrightarrow> fresh g l \<Longrightarrow> balance (grant g l) = balance l + worth g l"
    and lapse_nonneg: "0 \<le> lapse d l"
    and wait_inv: "inv l \<Longrightarrow> inv (wait d l)"
    and wait_balance: "inv l \<Longrightarrow> balance (wait d l) = balance l - lapse d l"
begin

fun play :: "('c, 'g, 'd) account_op list \<Rightarrow> 'l \<Rightarrow> 'l" where
  "play [] l = l"
| "play (Charge c # ops) l = play ops (charge c l)"
| "play (Grant g # ops) l = play ops (grant g l)"
| "play (Wait d # ops) l = play ops (wait d l)"

fun all_fresh :: "('c, 'g, 'd) account_op list \<Rightarrow> 'l \<Rightarrow> bool" where
  "all_fresh [] l \<longleftrightarrow> True"
| "all_fresh (Charge c # ops) l \<longleftrightarrow> all_fresh ops (charge c l)"
| "all_fresh (Grant g # ops) l \<longleftrightarrow> fresh g l \<and> all_fresh ops (grant g l)"
| "all_fresh (Wait d # ops) l \<longleftrightarrow> all_fresh ops (wait d l)"

fun paid :: "('c, 'g, 'd) account_op list \<Rightarrow> 'l \<Rightarrow> int" where
  "paid [] l = 0"
| "paid (Charge c # ops) l = min (price c) (balance l) + paid ops (charge c l)"
| "paid (Grant g # ops) l = paid ops (grant g l)"
| "paid (Wait d # ops) l = paid ops (wait d l)"

fun granted :: "('c, 'g, 'd) account_op list \<Rightarrow> 'l \<Rightarrow> int" where
  "granted [] l = 0"
| "granted (Charge c # ops) l = granted ops (charge c l)"
| "granted (Grant g # ops) l = worth g l + granted ops (grant g l)"
| "granted (Wait d # ops) l = granted ops (wait d l)"

fun lapsed :: "('c, 'g, 'd) account_op list \<Rightarrow> 'l \<Rightarrow> int" where
  "lapsed [] l = 0"
| "lapsed (Charge c # ops) l = lapsed ops (charge c l)"
| "lapsed (Grant g # ops) l = lapsed ops (grant g l)"
| "lapsed (Wait d # ops) l = lapse d l + lapsed ops (wait d l)"

definition billed :: "('c, 'g, 'd) account_op list \<Rightarrow> int" where
  "billed ops = sum_list (map (\<lambda>oper. case oper of Charge c \<Rightarrow> price c | _ \<Rightarrow> 0) ops)"

lemma billed_simps [simp]:
  "billed [] = 0" "billed (Charge c # ops) = price c + billed ops" "billed (Grant g # ops) = billed ops"
  "billed (Wait d # ops) = billed ops"
  by (simp_all add: billed_def)

lemma billed_nonneg: "0 \<le> billed ops"
  unfolding billed_def
  by (rule sum_list_nonneg_map) (auto simp: price_nonneg split: account_op.split)

lemma lapsed_nonneg: "0 \<le> lapsed ops l"
  by (induction ops l rule: lapsed.induct) (auto simp: lapse_nonneg)

lemma play_inv: "inv l \<Longrightarrow> all_fresh ops l \<Longrightarrow> inv (play ops l)"
  by (induction ops l rule: play.induct) (auto intro: charge_inv grant_inv wait_inv)

lemma play_conserves:
  "inv l \<Longrightarrow> all_fresh ops l \<Longrightarrow> balance (play ops l) + paid ops l + lapsed ops l = balance l + granted ops l"
  by (induction ops l rule: play.induct)
     (auto simp: charge_inv grant_inv wait_inv charge_balance grant_balance wait_balance)

lemma paid_le_billed: "paid ops l \<le> billed ops"
  by (induction ops l rule: paid.induct) auto

text \<open>An account that holds enough for all its charges and for what expires meanwhile pays every one in full.\<close>

lemma solvent_paid_in_full:
  "inv l \<Longrightarrow> all_fresh ops l \<Longrightarrow> billed ops + lapsed ops l \<le> balance l \<Longrightarrow> paid ops l = billed ops"
proof (induction ops l rule: play.induct)
  case (2 c ops l)
  have "price c \<le> balance l" using 2(4) billed_nonneg[of ops] lapsed_nonneg[of ops "charge c l"] by simp
  then have "balance (charge c l) = balance l - price c" using charge_balance[OF 2(2)] by simp
  with 2 \<open>price c \<le> balance l\<close> show ?case by (simp add: charge_inv)
next
  case (3 g ops l)
  with worth_nonneg[of g l] show ?case by (simp add: grant_inv grant_balance)
next
  case (4 d ops l)
  then show ?case by (simp add: wait_inv wait_balance)
qed simp

end

text \<open>The model's charges and grants, as the account of one workspace on a clock that moves.\<close>

record charge_call =
  cc_gateway :: string
  cc_id :: uuid
  cc_input :: record_usage_input

record grant_call =
  gc_id :: uuid
  gc_input :: grant_credits_input

definition charge_price :: "uuid \<Rightarrow> charge_call \<Rightarrow> int" where
  "charge_price ws c = (if ru_workspaceId (cc_input c) = ws
     then creditsFor (cc_gateway c) (ru_model (cc_input c)) (ru_inputTokens (cc_input c))
            (ru_outputTokens (cc_input c)) else 0)"

definition charge_step :: "time \<Rightarrow> charge_call \<Rightarrow> ledger \<Rightarrow> ledger" where
  "charge_step now c l = snd (recordEvent (cc_gateway c) (cc_id c) now (cc_input c) l)"

definition grant_step :: "time \<Rightarrow> grant_call \<Rightarrow> ledger \<Rightarrow> ledger" where
  "grant_step now g l = snd (grantCredits (gc_id g) now (gc_input g) l)"

definition grant_fresh :: "grant_call \<Rightarrow> ledger \<Rightarrow> bool" where
  "grant_fresh g l \<longleftrightarrow> gc_id g \<notin> cg_id ` set (grants l)"

definition grant_worth :: "uuid \<Rightarrow> time \<Rightarrow> grant_call \<Rightarrow> ledger \<Rightarrow> int" where
  "grant_worth ws now g l =
     (let row = make_grant (gc_id g) now (gc_input g)
      in if is_ok (fst (grantCredits (gc_id g) now (gc_input g) l)) \<and> cg_workspaceId row = ws \<and> is_live now row
         then max 0 (cg_credits row) else 0)"

lemma grant_adds:
  assumes wf: "ledger_wf l" and fresh: "cg_id g \<notin> cg_id ` set (grants l)"
    and ok: "insert_grant g l = (Inr g, l\<lparr>grants := grants l @ [g]\<rparr>)"
  shows "cb_balance (getBalance ws now (snd (insert_grant g l))) = cb_balance (getBalance ws now l)
    + (if cg_workspaceId g = ws \<and> is_live now g then max 0 (cg_credits g) else 0)"
proof -
  have "spent_on (allocations l) (cg_id g) = 0"
    using wf fresh by (intro spent_on_fresh) (force simp: ledger_wf_def list_all_iff)
  moreover have "remaining_of (l\<lparr>grants := grants l @ [g]\<rparr>) = remaining_of l"
    by (simp add: remaining_of_def[abs_def])
  ultimately show ?thesis using ok
    by (simp add: getBalance_closed live_grants_def) (simp add: remaining_of_def)
qed

text \<open>What a stretch of time takes from the balance: the rest of every grant that expires in it.\<close>

definition expiring :: "uuid \<Rightarrow> time \<Rightarrow> time \<Rightarrow> ledger \<Rightarrow> int" where
  "expiring ws now later l =
     sum_list (map (remaining_of l) (filter (\<lambda>g. \<not> is_live later g) (live_grants ws now l)))"

lemma is_live_earlier: "is_live later g \<Longrightarrow> now \<le> later \<Longrightarrow> is_live now g"
  by (auto simp: is_live_def split: option.splits)

lemma waiting_expires:
  assumes "now \<le> later"
  shows "cb_balance (getBalance ws later l) = cb_balance (getBalance ws now l) - expiring ws now later l"
proof -
  have "live_grants ws later l = filter (is_live later) (live_grants ws now l)"
    using is_live_earlier[OF _ assms] unfolding live_grants_def by (auto intro!: filter_cong)
  then show ?thesis
    using sum_list_filter_split[of "remaining_of l" "is_live later" "live_grants ws now l"]
    by (simp add: getBalance_closed expiring_def)
qed

type_synonym clocked = "time \<times> ledger"

definition served_charge :: "charge_call \<Rightarrow> clocked \<Rightarrow> clocked" where
  "served_charge c = (\<lambda>(now, l). (now, charge_step now c l))"

definition served_grant :: "grant_call \<Rightarrow> clocked \<Rightarrow> clocked" where
  "served_grant g = (\<lambda>(now, l). (now, grant_step now g l))"

definition passing :: "nat \<Rightarrow> clocked \<Rightarrow> clocked" where
  "passing d = (\<lambda>(now, l). (now + int d, l))"

interpretation account: credit_account "\<lambda>(now, l). ledger_wf l" "\<lambda>(now, l). cb_balance (getBalance ws now l)"
  "charge_price ws" served_charge "\<lambda>g (now, l). grant_fresh g l" "\<lambda>g (now, l). grant_worth ws now g l" served_grant
  "\<lambda>d (now, l). expiring ws now (now + int d) l" passing for ws
proof
  fix c :: charge_call and g :: grant_call and d :: nat and nl :: clocked
  obtain now l where nl: "nl = (now, l)" by fastforce
  show "0 \<le> charge_price ws c"
    using creditsFor_pos[of "cc_gateway c" "ru_model (cc_input c)" "ru_inputTokens (cc_input c)"
        "ru_outputTokens (cc_input c)"] by (simp add: charge_price_def)
  show "0 \<le> (case nl of (now, l) \<Rightarrow> grant_worth ws now g l)" by (simp add: nl grant_worth_def Let_def)
  show "0 \<le> (case nl of (now, l) \<Rightarrow> expiring ws now (now + int d) l)"
    by (simp add: nl expiring_def sum_list_nonneg_map remaining_of_def)
  assume "case nl of (now, l) \<Rightarrow> ledger_wf l"
  then have wf: "ledger_wf l" by (simp add: nl)
  have nn: "0 \<le> cb_balance (getBalance ws now l)"
    by (simp add: getBalance_closed sum_list_nonneg_map remaining_of_def)
  then show "0 \<le> (case nl of (now, l) \<Rightarrow> cb_balance (getBalance ws now l))" by (simp add: nl)
  show "case served_charge c nl of (now, l) \<Rightarrow> ledger_wf l"
    using wf by (simp add: nl served_charge_def charge_step_def recordEvent_wf)
  have "cb_balance (getBalance ws now (charge_step now c l)) = cb_balance (getBalance ws now l)
      - min (charge_price ws c) (cb_balance (getBalance ws now l))"
  proof (cases "ru_workspaceId (cc_input c) = ws")
    case True
    with recordEvent_balance_lemma[OF wf] show ?thesis by (simp add: charge_step_def charge_price_def)
  next
    case False
    let ?e = "make_event (cc_gateway c) (cc_id c) now (cc_input c)"
    have "ce_workspaceId ?e \<noteq> ws" using False by (simp add: make_event_def)
    from live_grants_others[OF _ this, of "l\<lparr>events := events l @ [?e]\<rparr>"] wf nn False show ?thesis
      by (simp add: charge_step_def charge_price_def recordEvent_def Let_def events_irrelevant
          balance_ignores_events)
  qed
  then show "(case served_charge c nl of (now, l) \<Rightarrow> cb_balance (getBalance ws now l)) =
      (case nl of (now, l) \<Rightarrow> cb_balance (getBalance ws now l))
      - min (charge_price ws c) (case nl of (now, l) \<Rightarrow> cb_balance (getBalance ws now l))"
    by (simp add: nl served_charge_def)
  show "case passing d nl of (now, l) \<Rightarrow> ledger_wf l" using wf by (simp add: nl passing_def)
  show "(case passing d nl of (now, l) \<Rightarrow> cb_balance (getBalance ws now l)) =
      (case nl of (now, l) \<Rightarrow> cb_balance (getBalance ws now l)) - (case nl of (now, l) \<Rightarrow> expiring ws now (now + int d) l)"
    by (simp add: nl passing_def waiting_expires)
  assume "case nl of (now, l) \<Rightarrow> grant_fresh g l"
  then have fresh: "grant_fresh g l" by (simp add: nl)
  then have fr: "cg_id (make_grant (gc_id g) now (gc_input g)) \<notin> cg_id ` set (grants l)"
    by (simp add: grant_fresh_def make_grant_def)
  show "case served_grant g nl of (now, l) \<Rightarrow> ledger_wf l"
    using wf fresh by (simp add: nl served_grant_def grant_step_def grant_fresh_def grantCredits_wf)
  have "cb_balance (getBalance ws now (grant_step now g l)) =
      cb_balance (getBalance ws now l) + grant_worth ws now g l"
    using insert_grant_cases[of "make_grant (gc_id g) now (gc_input g)" l] grant_adds[OF wf fr]
    by (auto simp: grant_step_def grantCredits_def grant_worth_def Let_def)
  then show "(case served_grant g nl of (now, l) \<Rightarrow> cb_balance (getBalance ws now l)) =
      (case nl of (now, l) \<Rightarrow> cb_balance (getBalance ws now l)) + (case nl of (now, l) \<Rightarrow> grant_worth ws now g l)"
    by (simp add: nl served_grant_def)
qed

section \<open>Charges that run at once\<close>

text \<open>
  \<open>allocate\<close> awaits its query before it saves the rows, so other requests run in between.  A
  charge is in one of three phases; a step of the system is one of the two database calls of one
  charge.
\<close>

datatype charge_phase = Saved | Planned "planned_allocation list" | Written

type_synonym charges = "ledger \<times> (credit_event \<times> charge_phase) list"

definition write_rows :: "uuid \<Rightarrow> planned_allocation list \<Rightarrow> ledger \<Rightarrow> ledger" where
  "write_rows e ps l = l\<lparr>allocations := allocations l @ charge_rows e ps\<rparr>"

inductive charge_move :: "time \<Rightarrow> charges \<Rightarrow> charges \<Rightarrow> bool" for now :: time where
  reads: "i < length ps \<Longrightarrow> ps ! i = (e, Saved) \<Longrightarrow>
    charge_move now (l, ps) (l, ps[i := (e, Planned (planned_for now e l))])"
| writes: "i < length ps \<Longrightarrow> ps ! i = (e, Planned p) \<Longrightarrow>
    charge_move now (l, ps) (write_rows (ce_id e) p l, ps[i := (e, Written)])"

inductive_cases charge_moveE: "charge_move now s t"

definition paid_for :: "uuid \<Rightarrow> ledger \<Rightarrow> int" where
  "paid_for e l = sum_list (map ca_credits (filter (\<lambda>a. ca_creditEventId a = Some e) (allocations l)))"

lemma charge_reads: "charge_move now (l, xs @ (e, Saved) # ys)
    (l, xs @ (e, Planned (planned_for now e l)) # ys)"
  using charge_move.reads[of "length xs" "xs @ (e, Saved) # ys" e now l]
  by (simp add: nth_append list_update_append)

lemma charge_writes: "charge_move now (l, xs @ (e, Planned p) # ys)
    (write_rows (ce_id e) p l, xs @ (e, Written) # ys)"
  using charge_move.writes[of "length xs" "xs @ (e, Planned p) # ys" e p now l]
  by (simp add: nth_append list_update_append)

definition phase_ok :: "ledger \<Rightarrow> credit_event \<times> charge_phase \<Rightarrow> bool" where
  "phase_ok l x = (case snd x of
       Saved \<Rightarrow> paid_for (ce_id (fst x)) l = 0
     | Planned p \<Rightarrow> paid_for (ce_id (fst x)) l = 0
          \<and> sum_list (map pa_credits p) \<le> max 0 (ce_creditsUsed (fst x))
     | Written \<Rightarrow> paid_for (ce_id (fst x)) l \<le> max 0 (ce_creditsUsed (fst x)))"

definition charges_ok :: "charges \<Rightarrow> bool" where
  "charges_ok s \<longleftrightarrow> distinct (map (ce_id \<circ> fst) (snd s)) \<and> list_all (phase_ok (fst s)) (snd s)"

lemma planned_at_most: "sum_list (map pa_credits (planned_for now e l)) \<le> max 0 (ce_creditsUsed e)"
  using plan_loop_total[of "max 0 (ce_creditsUsed e)"
      "sort_key (\<lambda>g. spend_rank (sg_bucket g)) (liveGrantsForSpending (ce_workspaceId e) now l)"]
  by (simp add: planned_for_def planAllocations_def)

lemma paid_for_write:
  "paid_for e' (write_rows e ps l) = paid_for e' l + (if e' = e then sum_list (map pa_credits ps) else 0)"
  by (simp add: paid_for_def write_rows_def charge_rows_def filter_map comp_def)

lemma phase_ok_write:
  "ce_id (fst x) \<noteq> e \<Longrightarrow> phase_ok (write_rows e ps l) x = phase_ok l x"
  by (simp add: phase_ok_def paid_for_write split: charge_phase.split)

lemma ids_after_move: "i < length ps \<Longrightarrow> fst (ps ! i) = e \<Longrightarrow>
    map (ce_id \<circ> fst) (ps[i := (e, ph)]) = map (ce_id \<circ> fst) ps"
  by (simp add: map_update list_update_same_conv)

lemma charges_ok_step: "charge_move now s t \<Longrightarrow> charges_ok s \<Longrightarrow> charges_ok t"
proof (induction rule: charge_move.induct)
  case (reads i ps e l)
  then have "phase_ok l (e, Saved)" by (auto simp: charges_ok_def list_all_length)
  then have "phase_ok l (e, Planned (planned_for now e l))"
    by (simp add: phase_ok_def planned_at_most)
  with reads show ?case
    by (auto simp: charges_ok_def ids_after_move list_all_length nth_list_update)
next
  case (writes i ps e p l)
  have "ce_id (fst (ps ! j)) \<noteq> ce_id e" if "j < length ps" "j \<noteq> i" for j
    using writes that nth_eq_iff_index_eq[of "map (ce_id \<circ> fst) ps" j i] by (auto simp: charges_ok_def)
  moreover have "phase_ok l (e, Planned p)" using writes by (auto simp: charges_ok_def list_all_length)
  then have "phase_ok (write_rows (ce_id e) p l) (e, Written)"
    by (simp add: phase_ok_def paid_for_write)
  ultimately show ?case using writes
    by (auto simp: charges_ok_def ids_after_move list_all_length nth_list_update phase_ok_write)
qed

lemma charges_ok_reachable: "(charge_move now)\<^sup>*\<^sup>* s t \<Longrightarrow> charges_ok s \<Longrightarrow> charges_ok t"
  by (induction rule: rtranclp_induct) (auto intro: charges_ok_step)

section \<open>Example ledger\<close>

definition sample_grant :: "uuid \<Rightarrow> credit_grant_reason \<Rightarrow> int \<Rightarrow> time option \<Rightarrow> credit_grant" where
  "sample_grant i r n ex = \<lparr>cg_id = i, cg_workspaceId = ''w1'', cg_userId = None, cg_reason = r,
     cg_bucket = bucketForReason r, cg_credits = n, cg_expiresAt = ex, cg_amountCents = None,
     cg_currency = None, cg_stripeSessionId = None, cg_stripeInvoiceId = None, cg_note = None,
     cg_createdAt = 0\<rparr>"

definition sample_ledger :: ledger where
  "sample_ledger = \<lparr>grants = [sample_grant ''g1'' ONBOARDING 40000 None,
       sample_grant ''g2'' SUBSCRIPTION 100 (Some 1000)], events = [], allocations = []\<rparr>"

definition sample_event :: "uuid \<Rightarrow> int \<Rightarrow> credit_event" where
  "sample_event i n = \<lparr>ce_id = i, ce_workspaceId = ''w1'', ce_userId = None, ce_taskId = None,
     ce_type = THREAD, ce_sourceName = ''run'', ce_creditsUsed = n, ce_tokensUsed = 0,
     ce_inputTokens = 0, ce_outputTokens = 0, ce_cacheWriteTokens = 0, ce_cacheReadTokens = 0,
     ce_model = ''m'', ce_resolvedModel = None, ce_providerCostUsd = 0, ce_createdAt = 0\<rparr>"

definition sample_usage :: record_usage_input where
  "sample_usage = \<lparr>ru_workspaceId = ''w1'', ru_userId = None, ru_taskId = None, ru_model = ''gone'',
     ru_inputTokens = 12000, ru_outputTokens = 8000, ru_cacheWriteTokens = None,
     ru_cacheReadTokens = None, ru_sourceName = ''Slack'', ru_type = None,
     ru_providerCostUsd = None, ru_resolvedModel = None\<rparr>"

lemma sample_ledger_wf: "ledger_wf sample_ledger"
  by (simp add: ledger_wf_def sample_ledger_def sample_grant_def opt_distinct_def covered_def spent_on_def)

section \<open>Properties\<close>

text \<open>C1: a metered run leaves no grant overdrawn, and the workspace's balance falls by exactly
  what the run costs, or to zero when it costs more than the workspace holds.\<close>

theorem charge_draws_down_balance:
  assumes "ledger_wf l" "ru_workspaceId inp = ws"
  shows "ledger_wf (snd (recordEvent gw i now inp l)) \<and>
    cb_balance (getBalance ws now (snd (recordEvent gw i now inp l))) =
      cb_balance (getBalance ws now l)
      - min (creditsFor gw (ru_model inp) (ru_inputTokens inp) (ru_outputTokens inp))
            (cb_balance (getBalance ws now l))"
  using recordEvent_wf[OF assms(1)] recordEvent_balance_lemma[OF assms] by blast

lemma charge_draws_down_balance_witness:
  "cb_balance (getBalance ''w1'' 500 (snd (recordEvent [] ''e1'' 500 sample_usage sample_ledger))) = 39996"
proof -
  have b: "cb_balance (getBalance ''w1'' 500 sample_ledger) = 40100"
    and c: "creditsFor [] ''gone'' 12000 8000 = 104" by code_simp+
  show ?thesis
    using charge_draws_down_balance[OF sample_ledger_wf, of sample_usage "''w1''" "[]" "''e1''" 500]
    by (simp add: b c sample_usage_def)
qed

text \<open>A plan pays the smaller of the charge and what the grants hold, each grant at most
  once and never beyond what is left on it.\<close>

theorem plan_covers_the_charge:
  assumes "distinct (map sg_id gs)"
  shows "sum_list (map pa_credits (planAllocations gs c)) = min (max 0 c) (spendable gs)
    \<and> distinct (map pa_grantId (planAllocations gs c))
    \<and> list_all (\<lambda>p. 0 < pa_credits p \<and> list_ex (\<lambda>g. sg_id g = pa_grantId p
          \<and> sg_bucket g = pa_bucket p \<and> pa_credits p \<le> sg_remaining g) gs) (planAllocations gs c)"
proof (intro conjI)
  let ?s = "sort_key (\<lambda>g. spend_rank (sg_bucket g)) gs"
  show "sum_list (map pa_credits (planAllocations gs c)) = min (max 0 c) (spendable gs)"
    by (simp add: planAllocations_def plan_loop_total)
  show "distinct (map pa_grantId (planAllocations gs c))"
    unfolding planAllocations_def
    by (rule plan_loop_distinct) (simp add: distinct_sort_key_map assms)
  show "list_all (\<lambda>p. 0 < pa_credits p \<and> list_ex (\<lambda>g. sg_id g = pa_grantId p
          \<and> sg_bucket g = pa_bucket p \<and> pa_credits p \<le> sg_remaining g) gs) (planAllocations gs c)"
    using plan_loop_sound[of _ ?s "max 0 c"]
    by (fastforce simp: planAllocations_def list_all_iff list_ex_iff)
qed

definition sample_spendable :: "spendable_grant list" where
  "sample_spendable =
     [\<lparr>sg_id = ''g1'', sg_bucket = REWARD, sg_remaining = 500\<rparr>,
      \<lparr>sg_id = ''g2'', sg_bucket = ROLLOVER, sg_remaining = 30\<rparr>,
      \<lparr>sg_id = ''g3'', sg_bucket = PLAN, sg_remaining = 100\<rparr>]"

lemma plan_covers_the_charge_witness:
  "sum_list (map pa_credits (planAllocations sample_spendable 150)) = 150"
proof -
  have "distinct (map sg_id sample_spendable)" by (simp add: sample_spendable_def)
  from plan_covers_the_charge[OF this, of 150] show ?thesis
    by (simp add: sample_spendable_def spendable_def)
qed

text \<open>C6: buckets are drained in order: when a plan draws on a bucket, every grant of an
  earlier bucket is used up.\<close>

theorem spend_order_respected:
  assumes "p \<in> set (planAllocations gs c)" "g \<in> set gs" "sg_bucket g < pa_bucket p"
    "0 < sg_remaining g"
  shows "\<exists>q \<in> set (planAllocations gs c). pa_grantId q = sg_id g \<and> pa_credits q = sg_remaining g"
proof -
  let ?k = "\<lambda>g. spend_rank (sg_bucket g)"
  let ?s = "sort_key ?k gs"
  obtain xs h ys where s: "?s = xs @ h # ys" "pa_bucket p = sg_bucket h"
    and drawn: "plan_loop ?s (max 0 c) \<noteq> plan_loop xs (max 0 c)"
    using plan_loop_reached assms(1) unfolding planAllocations_def by blast
  have "sorted (map ?k (xs @ h # ys))" using sorted_sort_key[of ?k gs] s(1) by simp
  then have later: "spend_rank (sg_bucket h) \<le> ?k y" if "y \<in> set ys" for y
    using that by (auto simp: sorted_append)
  have "g \<in> set (xs @ h # ys)" using assms(2) s(1) by (metis set_sort)
  moreover have "?k g < ?k h" using assms(3) s(2) by (simp add: less_credit_bucket_def)
  ultimately have "g \<in> set xs" using later[of g] by auto
  with drawn[unfolded s(1)] assms(4) obtain q where q: "q \<in> set (plan_loop xs (max 0 c))"
    "pa_grantId q = sg_id g" "pa_credits q = sg_remaining g"
    using plan_loop_drains[of xs h ys "max 0 c" g] by blast
  have "set (plan_loop us d) \<subseteq> set (plan_loop (us @ vs) d)" for us vs :: "spendable_grant list" and d
    by (induction us arbitrary: d) (auto simp: Let_def)
  from this[of xs "max 0 c" "h # ys"] q show ?thesis by (auto simp: planAllocations_def s(1))
qed

lemma spend_order_respected_witness:
  "\<exists>q \<in> set (planAllocations sample_spendable 150). pa_grantId q = ''g3'' \<and> pa_credits q = 100"
proof -
  have "\<lparr>pa_grantId = ''g1'', pa_bucket = REWARD, pa_credits = 20\<rparr> \<in> set (planAllocations sample_spendable 150)"
    by code_simp
  from spend_order_respected[OF this, of "\<lparr>sg_id = ''g3'', sg_bucket = PLAN, sg_remaining = 100\<rparr>"]
  show ?thesis by (simp add: sample_spendable_def less_credit_bucket_def)
qed

text \<open>C8: over any sequence of charged runs and grants, served one after the other while time passes between them,
  nothing is lost: what a workspace has left, what its runs took and what expired add up to what it had
  and what it was granted; and one that holds enough for all its runs and for what expires meanwhile
  pays each run in full.\<close>

theorem credits_are_conserved:
  assumes "ledger_wf l" "account.all_fresh ops (now, l)" and "account.play ops (now, l) = (later, l')"
  shows "ledger_wf l'
    \<and> cb_balance (getBalance ws later l') + account.paid ws ops (now, l) + account.lapsed ws ops (now, l)
        = cb_balance (getBalance ws now l) + account.granted ws ops (now, l)
    \<and> (account.billed ws ops + account.lapsed ws ops (now, l) \<le> cb_balance (getBalance ws now l) \<longrightarrow>
         account.paid ws ops (now, l) = account.billed ws ops)"
  using account.play_inv[of "(now, l)" ops] account.play_conserves[of "(now, l)" ops ws]
    account.solvent_paid_in_full[of "(now, l)" ops ws] assms by simp

lemma credits_are_conserved_witness:
  "cb_balance (getBalance ''w1'' 1500
     (snd (account.play [Charge \<lparr>cc_gateway = [], cc_id = ''e1'', cc_input = sample_usage\<rparr>, Wait 1000] (500, sample_ledger))))
   + account.paid ''w1'' [Charge \<lparr>cc_gateway = [], cc_id = ''e1'', cc_input = sample_usage\<rparr>, Wait 1000] (500, sample_ledger)
   + account.lapsed ''w1'' [Charge \<lparr>cc_gateway = [], cc_id = ''e1'', cc_input = sample_usage\<rparr>, Wait 1000] (500, sample_ledger)
   = 40100"
proof -
  let ?ops = "[Charge \<lparr>cc_gateway = [], cc_id = ''e1'', cc_input = sample_usage\<rparr>, Wait 1000]"
  have b: "cb_balance (getBalance ''w1'' 500 sample_ledger) = 40100" by code_simp
  have "account.play ?ops (500, sample_ledger) = (1500, snd (account.play ?ops (500, sample_ledger)))"
    by (simp add: account.play.simps served_charge_def passing_def)
  from credits_are_conserved[OF sample_ledger_wf _ this, of "''w1''"] show ?thesis
    by (simp add: b account.all_fresh.simps account.granted.simps)
qed

text \<open>Everything ever granted to a workspace is accounted for: it is in the balance, it
  expired, or a run spent it.\<close>

theorem granted_is_accounted_for:
  assumes "ledger_wf l" "list_all (\<lambda>g. 0 \<le> cg_credits g) (grants l)"
  shows "cb_granted (getBalance ws now l) = cb_balance (getBalance ws now l)
    + cb_expired (getBalance ws now l)
    + sum_list (map (\<lambda>g. spent_on (allocations l) (cg_id g))
        (filter (\<lambda>g. cg_workspaceId g = ws) (grants l)))"
proof -
  let ?G = "filter (\<lambda>g. cg_workspaceId g = ws) (grants l)"
  have "remaining_of l g = cg_credits g - spent_on (allocations l) (cg_id g)" if "g \<in> set ?G" for g
    using that assms by (auto simp: ledger_wf_def covered_def list_all_iff remaining_of_def)
  then have "map (remaining_of l) ?G = map (\<lambda>g. cg_credits g - spent_on (allocations l) (cg_id g)) ?G"
    by simp
  then have "sum_list (map (remaining_of l) ?G) = sum_list (map cg_credits ?G)
      - sum_list (map (\<lambda>g. spent_on (allocations l) (cg_id g)) ?G)"
    by (simp only: sum_list_diff_int)
  moreover have "sum_list (map (remaining_of l) (live_grants ws now l))
      + sum_list (map (remaining_of l) (dead_grants ws now l)) = sum_list (map (remaining_of l) ?G)"
    using sum_list_filter_split[of "remaining_of l" "is_live now" ?G]
    by (simp add: live_grants_def dead_grants_def conj_commute)
  ultimately show ?thesis by (simp add: getBalance_closed)
qed

lemma granted_is_accounted_for_witness:
  "cb_balance (getBalance ''w1'' 2000 sample_ledger) + cb_expired (getBalance ''w1'' 2000 sample_ledger) = 40100"
proof -
  have "list_all (\<lambda>g. 0 \<le> cg_credits g) (grants sample_ledger)"
    by (simp add: sample_ledger_def sample_grant_def)
  from granted_is_accounted_for[OF sample_ledger_wf this, of "''w1''" 2000] show ?thesis
    by (simp add: getBalance_closed(1)) (simp add: sample_ledger_def sample_grant_def)
qed

text \<open>Two runs of one workspace that are metered at the same time can both be paid from
  the same credits: the rows they write overdraw a grant the plan of each respected.\<close>

theorem concurrent_charges_overdraw:
  "\<exists>l l' e1 e2. ledger_wf l
     \<and> (charge_move 500)\<^sup>*\<^sup>* (l, [(e1, Saved), (e2, Saved)]) (l', [(e1, Written), (e2, Written)])
     \<and> \<not> ledger_wf l'"
proof -
  let ?l = sample_ledger and ?e1 = "sample_event ''e1'' 40000" and ?e2 = "sample_event ''e2'' 40000"
  let ?p1 = "planned_for 500 ?e1 ?l" and ?p2 = "planned_for 500 ?e2 ?l"
  let ?l' = "write_rows (ce_id ?e2) ?p2 (write_rows (ce_id ?e1) ?p1 ?l)"
  have "charge_move 500 (?l, [(?e1, Saved), (?e2, Saved)]) (?l, [(?e1, Planned ?p1), (?e2, Saved)])"
    using charge_reads[of 500 ?l "[]"] by simp
  moreover have "charge_move 500 \<dots> (?l, [(?e1, Planned ?p1), (?e2, Planned ?p2)])"
    using charge_reads[of 500 ?l "[(?e1, Planned ?p1)]"] by simp
  moreover have "charge_move 500 \<dots> (write_rows (ce_id ?e1) ?p1 ?l, [(?e1, Written), (?e2, Planned ?p2)])"
    using charge_writes[of 500 ?l "[]"] by simp
  moreover have "charge_move 500 \<dots> (?l', [(?e1, Written), (?e2, Written)])"
    using charge_writes[of 500 "write_rows (ce_id ?e1) ?p1 ?l" "[(?e1, Written)]"] by simp
  ultimately have "(charge_move 500)\<^sup>*\<^sup>* (?l, [(?e1, Saved), (?e2, Saved)]) (?l', [(?e1, Written), (?e2, Written)])"
    by (meson r_into_rtranclp rtranclp_trans)
  moreover have "\<not> list_all (\<lambda>g. covered g ?l') (grants ?l')" by code_simp
  then have "\<not> ledger_wf ?l'" by (simp add: ledger_wf_def)
  ultimately show ?thesis using sample_ledger_wf by blast
qed

text \<open>However the database calls of concurrent runs interleave, no run is ever paid more
  than it costs.\<close>

theorem interleaved_charges_pay_at_most_price:
  assumes "(charge_move now)\<^sup>*\<^sup>* (l, map (\<lambda>e. (e, Saved)) es) (l', ps)"
    and "distinct (map ce_id es)" "list_all (\<lambda>e. paid_for (ce_id e) l = 0) es"
    and "(e, ph) \<in> set ps"
  shows "paid_for (ce_id e) l' \<le> max 0 (ce_creditsUsed e)"
proof -
  have "charges_ok (l, map (\<lambda>e. (e, Saved)) es)"
    using assms(2,3) by (simp add: charges_ok_def phase_ok_def comp_def list_all_iff)
  with assms(1) have "charges_ok (l', ps)" by (rule charges_ok_reachable)
  with assms(4) have "phase_ok l' (e, ph)" by (auto simp: charges_ok_def list_all_iff)
  then show ?thesis by (auto simp: phase_ok_def split: charge_phase.splits)
qed

lemma interleaved_charges_pay_at_most_price_witness:
  "paid_for ''e1'' (snd (allocate 500 (sample_event ''e1'' 40000) sample_ledger)) \<le> 40000"
proof -
  let ?l = sample_ledger and ?e = "sample_event ''e1'' 40000"
  have "charge_move 500 (?l, [(?e, Saved)]) (?l, [(?e, Planned (planned_for 500 ?e ?l))])"
    using charge_reads[of 500 ?l "[]"] by simp
  moreover have "charge_move 500 \<dots> (snd (allocate 500 ?e ?l), [(?e, Written)])"
    using charge_writes[of 500 ?l "[]"] by (simp add: allocate_eq write_rows_def)
  ultimately have "(charge_move 500)\<^sup>*\<^sup>* (?l, map (\<lambda>e. (e, Saved)) [?e]) (snd (allocate 500 ?e ?l), [(?e, Written)])"
    by simp
  from interleaved_charges_pay_at_most_price[OF this, of ?e Written] show ?thesis
    by (simp add: paid_for_def sample_ledger_def) (simp add: sample_event_def)
qed

text \<open>A Stripe session that was granted once is never granted again, even when two
  deliveries of the webhook both passed the lookup: the second insert fails and changes nothing.\<close>

theorem stripe_session_granted_once:
  assumes "gi_stripeSessionId inp = Some s" "hasGrantForStripeSession s l"
  shows "\<not> is_ok (fst (grantCredits i now inp l)) \<and> snd (grantCredits i now inp l) = l"
proof -
  obtain g where "g \<in> set (grants l)" "cg_stripeSessionId g = Some s"
    using assms(2) by (auto simp: hasGrantForStripeSession_def find_None_iff_all)
  then have "list_ex (\<lambda>x. collides (gi_stripeSessionId inp) (cg_stripeSessionId x) \<or> q x) (grants l)" for q
    using assms(1) by (auto simp: list_ex_iff collides_iff intro!: bexI[of _ g])
  then show ?thesis by (simp add: grantCredits_def insert_grant_def make_grant_def)
qed

definition sample_topup :: "string \<Rightarrow> grant_credits_input" where
  "sample_topup s = \<lparr>gi_workspaceId = ''w1'', gi_userId = None, gi_reason = TOPUP_PURCHASE,
     gi_credits = 4000, gi_bucket = None, gi_expiresAt = None, gi_amountCents = Some 1000,
     gi_currency = Some ''usd'', gi_stripeSessionId = Some s, gi_stripeInvoiceId = None, gi_note = None\<rparr>"

lemma stripe_session_granted_once_witness:
  "snd (grantCredits ''g9'' 7 (sample_topup ''cs_1'') (snd (grantCredits ''g8'' 6 (sample_topup ''cs_1'') sample_ledger)))
   = snd (grantCredits ''g8'' 6 (sample_topup ''cs_1'') sample_ledger)"
proof -
  have "hasGrantForStripeSession ''cs_1'' (snd (grantCredits ''g8'' 6 (sample_topup ''cs_1'') sample_ledger))"
    by code_simp
  then show ?thesis
    using stripe_session_granted_once[of "sample_topup ''cs_1''" "''cs_1''" _ "''g9''" 7]
    by (simp add: sample_topup_def)
qed

text \<open>The trial is granted at most once per workspace, whoever is on it and whenever the
  call is repeated; what it grants is at least the advertised floor, is spent last and never
  expires.\<close>

theorem onboarding_granted_once:
  assumes "fst (grantOnboardingCredits us i now ws l) = Inr r"
  shows "grantOnboardingCredits us' i' now' ws (snd (grantOnboardingCredits us i now ws l))
       = (Inr None, snd (grantOnboardingCredits us i now ws l))
    \<and> (case r of None \<Rightarrow> True | Some g \<Rightarrow> TRIAL_CREDITS_FLOOR \<le> cg_credits g
         \<and> cg_bucket g = REWARD \<and> cg_expiresAt g = None)"
proof (cases "List.find (\<lambda>g. cg_workspaceId g = ws \<and> cg_reason g = ONBOARDING) (grants l)")
  case (Some g)
  with assms show ?thesis by (auto simp: grantOnboardingCredits_def)
next
  case None
  then obtain g where r: "r = Some g" and g: "grantOnboardingCredits us i now ws l =
      (Inr (Some g), l\<lparr>grants := grants l @ [g]\<rparr>)"
    and props: "cg_workspaceId g = ws" "cg_reason g = ONBOARDING" "TRIAL_CREDITS_FLOOR \<le> cg_credits g"
      "cg_bucket g = REWARD" "cg_expiresAt g = None"
    using assms by (auto simp: grantOnboardingCredits_def Let_def grantCredits_def insert_grant_def
        make_grant_def split: if_splits)
  then show ?thesis using None by (simp add: grantOnboardingCredits_def find_append)
qed

lemma onboarding_granted_once_witness:
  "grantOnboardingCredits sample_users ''g9'' 9 ''w2''
      (snd (grantOnboardingCredits [] ''g8'' 5 ''w2'' sample_ledger))
   = (Inr None, snd (grantOnboardingCredits [] ''g8'' 5 ''w2'' sample_ledger))"
proof -
  have "is_ok (fst (grantOnboardingCredits [] ''g8'' 5 ''w2'' sample_ledger))" by code_simp
  then obtain r where "fst (grantOnboardingCredits [] ''g8'' 5 ''w2'' sample_ledger) = Inr r"
    by (auto simp: is_ok_iff)
  from onboarding_granted_once[OF this] show ?thesis by blast
qed

text \<open>A run is charged at least one credit, and never less for more tokens, whatever the
  model, as long as the catalogue holds no negative price.\<close>

theorem charge_grows_with_tokens:
  assumes "i \<le> i'" "j \<le> j'"
    and "list_all (\<lambda>d. 0 \<le> md_inputPricePerMillion d \<and> 0 \<le> md_outputPricePerMillion d) (buildCatalog gw)"
  shows "1 \<le> creditsFor gw m i j \<and> creditsFor gw m i j \<le> creditsFor gw m i' j'"
proof -
  let ?r = "case definitionFor gw m of Some d \<Rightarrow> creditRates d | None \<Rightarrow> UNKNOWN_MODEL_RATES"
  have "0 \<le> rate_input ?r \<and> 0 \<le> rate_output ?r"
  proof (cases "definitionFor gw m")
    case (Some d)
    then have "d \<in> set (buildCatalog gw)"
      unfolding definitionFor_def by (blast dest: find_Some_iff_mem)
    with assms(3) Some show ?thesis by (simp add: creditRates_def perCredit_nonneg list_all_iff)
  qed (simp add: UNKNOWN_MODEL_RATES_def)
  then have "fl (fl (of_int i / 1000) * rate_input ?r) \<le> fl (fl (of_int i' / 1000) * rate_input ?r)"
    and "fl (fl (of_int j / 1000) * rate_output ?r) \<le> fl (fl (of_int j' / 1000) * rate_output ?r)"
    using assms(1,2) by (simp_all add: fl_mult_mono fl_mono divide_right_mono)
  then have "\<lceil>fl (fl (fl (of_int i / 1000) * rate_input ?r) + fl (fl (of_int j / 1000) * rate_output ?r))\<rceil>
      \<le> \<lceil>fl (fl (fl (of_int i' / 1000) * rate_input ?r) + fl (fl (of_int j' / 1000) * rate_output ?r))\<rceil>"
    by (rule ceiling_mono[OF fl_mono[OF add_mono]])
  then show ?thesis unfolding creditsFor_def Let_def by (intro conjI max.cobounded1 max.mono order_refl)
qed

lemma charge_grows_with_tokens_witness:
  "creditsFor [] ''claude-opus-4-8'' 1000 200 \<le> creditsFor [] ''claude-opus-4-8'' 1000 300"
proof -
  have "list_all (\<lambda>d. 0 \<le> md_inputPricePerMillion d \<and> 0 \<le> md_outputPricePerMillion d) (buildCatalog [])"
    by code_simp
  with charge_grows_with_tokens[of 1000 1000 200 300 "[]" "''claude-opus-4-8''"] show ?thesis by simp
qed

end
