(* ===== verification/Subscriptions.thy ===== *)
theory Subscriptions
  imports UsageLedger JsString
begin

text \<open>
  \<open>src/src/billing/plans.ts\<close> and \<open>src/src/billing/subscriptions.service.ts\<close>: the price ladder,
  the local mirror of Stripe subscriptions and what a paid period grants.  Stripe objects are
  untyped values (\<open>jsval\<close>), as they arrive; the queries are written over the tables the way the
  SQL joins them.
\<close>

section \<open>Plans and packs\<close>

record subscription_plan =
  sp_id :: string
  sp_label :: string
  sp_priceCents :: int
  sp_monthlyCredits :: int
  sp_bonusCredits :: "int option"

record credit_pack =
  pk_id :: string
  pk_label :: string
  pk_amountCents :: int
  pk_credits :: int

definition SUBSCRIPTION_PLANS :: "subscription_plan list" where
  "SUBSCRIPTION_PLANS =
    [\<lparr>sp_id = ''starter'', sp_label = ''Starter'', sp_priceCents = 5000, sp_monthlyCredits = 20000, sp_bonusCredits = None\<rparr>,
     \<lparr>sp_id = ''small'', sp_label = ''Small'', sp_priceCents = 7500, sp_monthlyCredits = 30000, sp_bonusCredits = None\<rparr>,
     \<lparr>sp_id = ''team'', sp_label = ''Team'', sp_priceCents = 10000, sp_monthlyCredits = 40000, sp_bonusCredits = None\<rparr>,
     \<lparr>sp_id = ''business'', sp_label = ''Business'', sp_priceCents = 20000, sp_monthlyCredits = 80000, sp_bonusCredits = None\<rparr>,
     \<lparr>sp_id = ''scale'', sp_label = ''Scale'', sp_priceCents = 30000, sp_monthlyCredits = 125000, sp_bonusCredits = Some 5000\<rparr>]"

definition CREDIT_PACKS :: "credit_pack list" where
  "CREDIT_PACKS =
    [\<lparr>pk_id = ''starter'', pk_label = ''Starter - $25'', pk_amountCents = 2500, pk_credits = 10000\<rparr>,
     \<lparr>pk_id = ''growth'', pk_label = ''Growth - $50'', pk_amountCents = 5000, pk_credits = 20000\<rparr>,
     \<lparr>pk_id = ''scale'', pk_label = ''Scale - $100'', pk_amountCents = 10000, pk_credits = 40000\<rparr>,
     \<lparr>pk_id = ''pro'', pk_label = ''Pro - $250'', pk_amountCents = 25000, pk_credits = 100000\<rparr>]"

definition findPlan :: "string \<Rightarrow> subscription_plan option" where
  "findPlan planId = List.find (\<lambda>p. sp_id p = planId) SUBSCRIPTION_PLANS"

definition findPack :: "string \<Rightarrow> credit_pack option" where
  "findPack packId = List.find (\<lambda>p. pk_id p = packId) CREDIT_PACKS"

text \<open>The loop at module load: the first row off the rate stops the boot with an error.\<close>

definition plan_expected :: "subscription_plan \<Rightarrow> rat" where
  "plan_expected p = fl (fl (fl (of_int (sp_priceCents p) / 100) * of_int CREDITS_PER_DOLLAR)
     + of_int (case sp_bonusCredits p of Some b \<Rightarrow> b | None \<Rightarrow> 0))"

definition pack_expected :: "credit_pack \<Rightarrow> rat" where
  "pack_expected p = fl (fl (of_int (pk_amountCents p) / 100) * of_int CREDITS_PER_DOLLAR)"

definition boot_check :: "subscription_plan list \<Rightarrow> credit_pack list \<Rightarrow> unit result" where
  "boot_check plans packs =
    (case List.find (\<lambda>p. of_int (sp_monthlyCredits p) \<noteq> plan_expected p) plans of
       Some p \<Rightarrow> Inl (PlainError (''Plan '' @ sp_id p))
     | None \<Rightarrow>
        (case List.find (\<lambda>p. of_int (pk_credits p) \<noteq> pack_expected p) packs of
           Some p \<Rightarrow> Inl (PlainError (''Pack '' @ pk_id p))
         | None \<Rightarrow> Inr ()))"

lemma fl_numeral: "(numeral n :: int) < 2 ^ 53 \<Longrightarrow> fl (numeral n) = numeral n"
  using fl_of_int[of "numeral n"] by simp

lemma boots: "boot_check SUBSCRIPTION_PLANS CREDIT_PACKS = Inr ()"
  by (simp add: boot_check_def SUBSCRIPTION_PLANS_def CREDIT_PACKS_def plan_expected_def
      pack_expected_def CREDITS_PER_DOLLAR_def fl_numeral)

lemma findPlan_credits:
  assumes "findPlan i = Some p"
  shows "20000 \<le> sp_monthlyCredits p \<and> sp_monthlyCredits p \<le> 125000"
proof -
  have "list_all (\<lambda>p. 20000 \<le> sp_monthlyCredits p \<and> sp_monthlyCredits p \<le> 125000) SUBSCRIPTION_PLANS"
    by (simp add: SUBSCRIPTION_PLANS_def)
  moreover have "p \<in> set SUBSCRIPTION_PLANS"
    using assms unfolding findPlan_def by (blast dest: find_Some_iff_mem)
  ultimately show ?thesis by (auto simp: list_all_iff)
qed

section \<open>Subscriptions\<close>

datatype subscription_status = TRIALING | ACTIVE | PAST_DUE | CANCELED | INCOMPLETE

definition status_names :: "(string \<times> subscription_status) list" where
  "status_names = [(''trialing'', TRIALING), (''active'', ACTIVE), (''past_due'', PAST_DUE),
     (''canceled'', CANCELED), (''incomplete'', INCOMPLETE)]"

definition ENTITLED_STATUSES :: "subscription_status list" where
  "ENTITLED_STATUSES = [TRIALING, ACTIVE, PAST_DUE]"

record subscription =
  su_id :: uuid
  su_workspaceId :: uuid
  su_planId :: string
  su_status :: subscription_status
  su_stripeSubscriptionId :: string
  su_stripeCustomerId :: string
  su_currentPeriodStart :: time
  su_currentPeriodEnd :: time
  su_seats :: int
  su_cancelAtPeriodEnd :: bool

text \<open>The tables billing works on.\<close>

record billing_state =
  bs_subscriptions :: "subscription list"
  bs_ledger :: ledger
  bs_users :: "user list"

text \<open>\<open>new Date(seconds * 1000)\<close>: whole milliseconds, towards zero.\<close>

definition date_of_seconds :: "rat \<Rightarrow> time" where
  "date_of_seconds x = (let ms = fl (x * 1000) in if ms < 0 then - \<lfloor>- ms\<rfloor> else \<lfloor>ms\<rfloor>)"

definition finite_prop :: "jsval \<Rightarrow> string \<Rightarrow> rat option" where
  "finite_prop v k = (case get_prop v k of JNum (Fin x) \<Rightarrow> Some x | _ \<Rightarrow> None)"

text \<open>\<open>[stripe, ...(stripe.items?.data ?? [])]\<close>; what is not iterable throws a \<open>TypeError\<close>.\<close>

definition spread_items :: "jsval \<Rightarrow> jsval list result" where
  "spread_items v = (case v of JUndef \<Rightarrow> Inr [] | JNull \<Rightarrow> Inr [] | JArr xs \<Rightarrow> Inr xs
     | JStr s \<Rightarrow> Inr (map (\<lambda>c. JStr [c]) s)
     | _ \<Rightarrow> Inl (PlainError ''TypeError: not iterable''))"

text \<open>Reading a property of \<open>undefined\<close> or \<open>null\<close> throws.\<close>

definition subscriptionPeriod :: "jsval \<Rightarrow> (time \<times> time) option result" where
  "subscriptionPeriod stripe =
    (case spread_items (get_prop (get_prop stripe ''items'') ''data'') of
       Inl e \<Rightarrow> Inl e
     | Inr items \<Rightarrow>
        (case List.find (\<lambda>f. is_nullish f
             \<or> finite_prop f ''current_period_start'' \<noteq> None \<and> finite_prop f ''current_period_end'' \<noteq> None)
             (stripe # items) of
           None \<Rightarrow> Inr None
         | Some f \<Rightarrow> (case (finite_prop f ''current_period_start'', finite_prop f ''current_period_end'') of
              (Some s, Some e) \<Rightarrow> Inr (Some (date_of_seconds s, date_of_seconds e))
            | _ \<Rightarrow> Inl (PlainError ''TypeError: cannot read properties''))))"

definition findForWorkspace :: "subscription list \<Rightarrow> uuid \<Rightarrow> subscription option" where
  "findForWorkspace subs ws = List.find (\<lambda>s. su_workspaceId s = ws) subs"

definition findByStripeId :: "subscription list \<Rightarrow> string \<Rightarrow> subscription option" where
  "findByStripeId subs sid = List.find (\<lambda>s. su_stripeSubscriptionId s = sid) subs"

definition isEntitled :: "subscription list \<Rightarrow> uuid \<Rightarrow> bool" where
  "isEntitled subs ws = (case findForWorkspace subs ws of
     None \<Rightarrow> False | Some s \<Rightarrow> su_status s \<in> set ENTITLED_STATUSES)"

definition toStatus :: "jsval \<Rightarrow> subscription_status" where
  "toStatus raw = (case raw of
     JStr s \<Rightarrow> (case map_of status_names s of Some st \<Rightarrow> st | None \<Rightarrow> CANCELED)
   | _ \<Rightarrow> CANCELED)"

text \<open>
  \<open>save\<close> under the two unique indexes of the table: one row per workspace and one per Stripe id.
\<close>

definition save_subscription :: "subscription \<Rightarrow> subscription list \<Rightarrow> subscription result \<times> subscription list" where
  "save_subscription r subs =
     (if \<exists>s \<in> set subs. su_id s \<noteq> su_id r \<and>
           (su_workspaceId s = su_workspaceId r \<or> su_stripeSubscriptionId s = su_stripeSubscriptionId r)
      then (Inl UniqueViolation, subs)
      else (Inr r, save_row su_id r subs))"

definition syncFromStripe ::
  "uuid \<Rightarrow> uuid \<Rightarrow> string \<Rightarrow> jsval \<Rightarrow> subscription list \<Rightarrow> subscription result \<times> subscription list" where
  "syncFromStripe new_id ws planId stripe subs =
    (let sid = to_string (get_prop stripe ''id''); existing = findByStripeId subs sid in
     case subscriptionPeriod stripe of
       Inl e \<Rightarrow> (Inl e, subs)
     | Inr period \<Rightarrow>
        (case (period, existing) of
           (None, None) \<Rightarrow> (Inl (PlainError (''Subscription '' @ sid @ '' carries no current period'')), subs)
         | _ \<Rightarrow>
            let (start, finish) = (case period of Some p \<Rightarrow> p
                  | None \<Rightarrow> (case existing of Some x \<Rightarrow> (su_currentPeriodStart x, su_currentPeriodEnd x)
                                           | None \<Rightarrow> (0, 0)))
            in save_subscription
                 \<lparr>su_id = (case existing of Some x \<Rightarrow> su_id x | None \<Rightarrow> new_id),
                  su_workspaceId = ws, su_planId = planId,
                  su_status = toStatus (get_prop stripe ''status''),
                  su_stripeSubscriptionId = sid,
                  su_stripeCustomerId = to_string (get_prop stripe ''customer''),
                  su_currentPeriodStart = start, su_currentPeriodEnd = finish,
                  su_seats = (case existing of Some x \<Rightarrow> su_seats x | None \<Rightarrow> 0),
                  su_cancelAtPeriodEnd = truthy (get_prop stripe ''cancel_at_period_end'')\<rparr> subs))"

definition seatBonusFor :: "int \<Rightarrow> int" where
  "seatBonusFor seats = min (max 0 (seats - FREE_SEATS) * SEAT_BONUS_CREDITS) SEAT_BONUS_CAP"

definition markStatus :: "string \<Rightarrow> subscription_status \<Rightarrow> subscription list \<Rightarrow> subscription list" where
  "markStatus sid st = update_where (\<lambda>s. su_stripeSubscriptionId s = sid) (\<lambda>s. s\<lparr>su_status := st\<rparr>)"

section \<open>Renewals\<close>

text \<open>\<open>grants LEFT JOIN allocations\<close>: one row per allocation of a grant, one without if it has none.\<close>

definition left_join :: "credit_grant list \<Rightarrow> credit_allocation list \<Rightarrow> (credit_grant \<times> credit_allocation option) list" where
  "left_join gs as = concat (map (\<lambda>g.
     let mine = filter (\<lambda>a. ca_grantId a = cg_id g) as
     in if mine = [] then [(g, None)] else map (\<lambda>a. (g, Some a)) mine) gs)"

definition unspentPlanCredits :: "uuid \<Rightarrow> time \<Rightarrow> ledger \<Rightarrow> int" where
  "unspentPlanCredits ws now l =
    (let rows = left_join (filter (\<lambda>g. cg_workspaceId g = ws \<and> cg_bucket g = PLAN \<and> is_live now g) (grants l))
                  (allocations l)
     in max 0 (sum_list (map (\<lambda>(g, _). cg_credits g) rows)
               - sum_list (map (\<lambda>(_, a). case a of Some x \<Rightarrow> ca_credits x | None \<Rightarrow> 0) rows)))"

record renewal_result =
  rr_planCredits :: int
  rr_rolledOver :: int
  rr_seatBonus :: int
  rr_applied :: bool

definition not_applied :: renewal_result where
  "not_applied = \<lparr>rr_planCredits = 0, rr_rolledOver = 0, rr_seatBonus = 0, rr_applied = False\<rparr>"

definition renewal_grant ::
  "uuid \<Rightarrow> time \<Rightarrow> uuid \<Rightarrow> credit_grant_reason \<Rightarrow> credit_bucket \<Rightarrow> int \<Rightarrow> time option \<Rightarrow> string \<Rightarrow> credit_grant" where
  "renewal_grant new_id now ws reason bucket credits expires note =
     \<lparr>cg_id = new_id, cg_workspaceId = ws, cg_userId = None, cg_reason = reason, cg_bucket = bucket,
      cg_credits = credits, cg_expiresAt = expires, cg_amountCents = None, cg_currency = None,
      cg_stripeSessionId = None, cg_stripeInvoiceId = None, cg_note = Some note, cg_createdAt = now\<rparr>"

text \<open>The statements of one transaction: the first that fails aborts the rest.\<close>

fun insert_all :: "credit_grant list \<Rightarrow> ledger \<Rightarrow> ledger result" where
  "insert_all [] l = Inr l"
| "insert_all (g # gs) l = (case insert_grant g l of
     (Inl e, _) \<Rightarrow> Inl e | (Inr _, l') \<Rightarrow> insert_all gs l')"

definition renewal_grants ::
  "(uuid \<times> uuid \<times> uuid) \<Rightarrow> time \<Rightarrow> subscription \<Rightarrow> subscription_plan \<Rightarrow> string \<Rightarrow> time \<Rightarrow> int \<Rightarrow> int \<Rightarrow> int
   \<Rightarrow> credit_grant list" where
  "renewal_grants ids now sub plan invoiceId periodEnd rolledOver seatBonus seats =
    (let ws = su_workspaceId sub; (i1, i2, i3) = ids in
     (if 0 < rolledOver then [renewal_grant i1 now ws ROLLOVER_CARRIED ROLLOVER rolledOver (Some periodEnd)
          (''Carried forward from the previous period ('' @ formatCredits rolledOver @ '')'')] else [])
     @ [(renewal_grant i2 now ws SUBSCRIPTION PLAN (sp_monthlyCredits plan) (Some periodEnd)
          (sp_label plan @ '' plan - monthly allowance''))
          \<lparr>cg_amountCents := Some (sp_priceCents plan), cg_currency := Some ''usd'',
           cg_stripeInvoiceId := Some invoiceId\<rparr>]
     @ (if 0 < seatBonus then [renewal_grant i3 now ws SEAT_BONUS REWARD seatBonus None
          (''Team bonus - '' @ show_int (seats - FREE_SEATS) @ '' seat(s) over '' @ show_int FREE_SEATS
           @ '' ('' @ formatCredits seatBonus @ '')'')] else []))"

definition applyRenewal ::
  "(uuid \<times> uuid \<times> uuid) \<Rightarrow> time \<Rightarrow> subscription \<Rightarrow> string \<Rightarrow> time \<Rightarrow> billing_state
   \<Rightarrow> renewal_result result \<times> billing_state" where
  "applyRenewal ids now sub invoiceId periodEnd st =
    (case findPlan (su_planId sub) of
       None \<Rightarrow> (Inr not_applied, st)
     | Some plan \<Rightarrow>
        if list_ex (\<lambda>g. cg_stripeInvoiceId g = Some invoiceId) (grants (bs_ledger st))
        then (Inr not_applied, st)
        else
          let seats = int (countActiveByWorkspace (bs_users st) (su_workspaceId sub));
              seatBonus = seatBonusFor seats;
              rolledOver = unspentPlanCredits (su_workspaceId sub) now (bs_ledger st)
          in (case insert_all (renewal_grants ids now sub plan invoiceId periodEnd rolledOver seatBonus seats)
                    (bs_ledger st) of
                Inl UniqueViolation \<Rightarrow> (Inr not_applied, st)
              | Inl e \<Rightarrow> (Inl e, st)
              | Inr l' \<Rightarrow>
                  (Inr \<lparr>rr_planCredits = sp_monthlyCredits plan, rr_rolledOver = rolledOver,
                        rr_seatBonus = seatBonus, rr_applied = True\<rparr>,
                   st\<lparr>bs_ledger := l',
                      bs_subscriptions := update_where (\<lambda>s. su_id s = su_id sub)
                        (\<lambda>s. s\<lparr>su_seats := seats, su_currentPeriodEnd := periodEnd\<rparr>) (bs_subscriptions st)\<rparr>)))"

end
