(* ===== verification/SubscriptionFacts.thy ===== *)
theory SubscriptionFacts
  imports Subscriptions
begin

text \<open>
  What a paid period does to the ledger, and where the mirror of Stripe and the rollover query
  depart from what they mean to do.
\<close>

section \<open>The table of subscriptions\<close>

definition subs_wf :: "subscription list \<Rightarrow> bool" where
  "subs_wf subs \<longleftrightarrow> distinct (map su_id subs) \<and> distinct (map su_workspaceId subs)
     \<and> distinct (map su_stripeSubscriptionId subs)"

lemma distinct_save_row_key:
  assumes "distinct (map f rows)" "\<And>x. x \<in> set rows \<Longrightarrow> key x \<noteq> key r \<Longrightarrow> f x \<noteq> f r"
    and "distinct (map key rows)"
  shows "distinct (map f (save_row key r rows))"
proof (cases "\<exists>x \<in> set rows. key x = key r")
  case True
  have "distinct (map f (update_where (\<lambda>x. key x = key r) (\<lambda>_. r) rows))"
    using assms
  proof (induction rows)
    case (Cons a rows)
    show ?case
    proof (cases "key a = key r")
      case True
      with Cons.prems(3) have none: "\<forall>x \<in> set rows. key x \<noteq> key r" by (auto simp: image_iff)
      then have "update_where (\<lambda>x. key x = key r) (\<lambda>_. r) rows = rows" by (intro update_where_none) blast
      with Cons.prems True none show ?thesis by force
    next
      case False
      with Cons show ?thesis by (auto simp: in_set_update_where)
    qed
  qed simp
  with True show ?thesis by (simp add: save_row_def)
next
  case False
  then have "f r \<notin> f ` set rows" using assms(2) by (metis imageE)
  with False assms(1) show ?thesis by (simp add: save_row_def)
qed

lemma save_subscription_wf:
  assumes "subs_wf subs" "save_subscription r subs = (res, subs')"
  shows "subs_wf subs'"
proof (cases "\<exists>s \<in> set subs. su_id s \<noteq> su_id r \<and>
           (su_workspaceId s = su_workspaceId r \<or> su_stripeSubscriptionId s = su_stripeSubscriptionId r)")
  case True
  with assms show ?thesis by (auto simp: save_subscription_def)
next
  case False
  with assms have "subs' = save_row su_id r subs" by (auto simp: save_subscription_def)
  with assms(1) False show ?thesis
    unfolding subs_wf_def
    by (auto intro!: distinct_save_row distinct_save_row_key)
qed

lemma find_saved:
  assumes "\<And>s. s \<in> set subs \<Longrightarrow> key s \<noteq> key r \<Longrightarrow> f s \<noteq> f r"
  shows "List.find (\<lambda>s. f s = f r) (save_row key r subs) = Some r"
  by (rule find_unique) (use assms in \<open>auto simp: set_save_row\<close>)

section \<open>Inserting the grants of a period\<close>

definition grant_value :: "uuid \<Rightarrow> time \<Rightarrow> credit_grant \<Rightarrow> int" where
  "grant_value ws now g = (if cg_workspaceId g = ws \<and> is_live now g then max 0 (cg_credits g) else 0)"

lemma insert_all_facts:
  "ledger_wf l \<Longrightarrow> insert_all gs l = Inr l' \<Longrightarrow> distinct (map cg_id gs) \<Longrightarrow>
   set (map cg_id gs) \<inter> cg_id ` set (grants l) = {} \<Longrightarrow>
     ledger_wf l' \<and> l' = l\<lparr>grants := grants l @ gs\<rparr>
     \<and> cb_balance (getBalance ws now l') = cb_balance (getBalance ws now l) + sum_list (map (grant_value ws now) gs)"
proof (induction gs arbitrary: l)
  case (Cons g gs)
  from Cons.prems(2) have ok: "insert_grant g l = (Inr g, l\<lparr>grants := grants l @ [g]\<rparr>)"
    using insert_grant_cases[of g l] by auto
  let ?l1 = "l\<lparr>grants := grants l @ [g]\<rparr>"
  have fresh: "cg_id g \<notin> cg_id ` set (grants l)" using Cons.prems(4) by auto
  have wf1: "ledger_wf ?l1" using insert_grant_wf[OF Cons.prems(1) fresh] ok by simp
  have "cb_balance (getBalance ws now ?l1) = cb_balance (getBalance ws now l) + grant_value ws now g"
    using grant_adds[OF Cons.prems(1) fresh ok] ok by (simp add: grant_value_def)
  moreover have "insert_all gs ?l1 = Inr l'" using Cons.prems(2) ok by simp
  moreover have "set (map cg_id gs) \<inter> cg_id ` set (grants ?l1) = {}"
    using Cons.prems(3,4) by auto
  ultimately show ?case using Cons.IH[OF wf1] Cons.prems(3) by (auto simp: add.assoc)
qed simp

lemma unspentPlanCredits_nonneg: "0 \<le> unspentPlanCredits ws now l"
  by (simp add: unspentPlanCredits_def Let_def)

lemma seatBonusFor_nonneg: "0 \<le> seatBonusFor n"
  by (simp add: seatBonusFor_def SEAT_BONUS_CREDITS_def SEAT_BONUS_CAP_def CREDITS_PER_DOLLAR_def)

lemma renewal_grants_ids:
  "set (map cg_id (renewal_grants (i1, i2, i3) now sub plan invoice pe r b n)) \<subseteq> {i1, i2, i3}"
  "distinct [i1, i2, i3] \<Longrightarrow> distinct (map cg_id (renewal_grants (i1, i2, i3) now sub plan invoice pe r b n))"
  by (auto simp: renewal_grants_def Let_def renewal_grant_def)

lemma renewal_grants_value:
  assumes "0 \<le> r" "0 \<le> b" "0 \<le> sp_monthlyCredits plan"
  shows "sum_list (map (grant_value (su_workspaceId sub) later) (renewal_grants (i1, i2, i3) now sub plan invoice pe r b n))
     = (if later < pe then sp_monthlyCredits plan + r else 0) + b"
  using assms by (simp add: renewal_grants_def Let_def grant_value_def renewal_grant_def is_live_def)

text \<open>An applied renewal, taken apart.\<close>

lemma applyRenewal_cases:
  assumes "applyRenewal ids now sub invoice pe st = (res, st')"
  obtains (skip) "st' = st" "res = Inr not_applied \<or> (\<exists>e. res = Inl e)"
  | (applied) plan where "findPlan (su_planId sub) = Some plan"
      "\<not> list_ex (\<lambda>g. cg_stripeInvoiceId g = Some invoice) (grants (bs_ledger st))"
      "insert_all (renewal_grants ids now sub plan invoice pe
          (unspentPlanCredits (su_workspaceId sub) now (bs_ledger st))
          (seatBonusFor (int (countActiveByWorkspace (bs_users st) (su_workspaceId sub))))
          (int (countActiveByWorkspace (bs_users st) (su_workspaceId sub)))) (bs_ledger st)
        = Inr (bs_ledger st')"
      "res = Inr \<lparr>rr_planCredits = sp_monthlyCredits plan,
          rr_rolledOver = unspentPlanCredits (su_workspaceId sub) now (bs_ledger st),
          rr_seatBonus = seatBonusFor (int (countActiveByWorkspace (bs_users st) (su_workspaceId sub))),
          rr_applied = True\<rparr>"
  using assms
  by (auto simp: applyRenewal_def Let_def split: option.splits if_splits sum.splits http_error.splits)

section \<open>The rollover query\<close>

definition draws :: "credit_allocation list \<Rightarrow> credit_grant \<Rightarrow> nat" where
  "draws as g = length (filter (\<lambda>a. ca_grantId a = cg_id g) as)"

lemma left_join_credits:
  "sum_list (map (\<lambda>(g, _). cg_credits g) (left_join gs as)) =
     sum_list (map (\<lambda>g. int (max 1 (draws as g)) * cg_credits g) gs)"
proof (induction gs)
  case (Cons g gs)
  have "sum_list (map (\<lambda>(g, _). cg_credits g) (map (\<lambda>a. (g, Some a)) xs)) = int (length xs) * cg_credits g"
    for xs :: "credit_allocation list"
    by (induction xs) (auto simp: algebra_simps)
  with Cons show ?case
    by (auto simp: left_join_def draws_def Let_def max_def Suc_le_eq)
qed (simp add: left_join_def)

lemma left_join_spent:
  "sum_list (map (\<lambda>(_, a). case a of Some x \<Rightarrow> ca_credits x | None \<Rightarrow> 0) (left_join gs as)) =
     sum_list (map (\<lambda>g. spent_on as (cg_id g)) gs)"
proof (induction gs)
  case (Cons g gs)
  then show ?case
    by (auto simp: left_join_def spent_on_def Let_def comp_def)
qed (simp add: left_join_def)

definition live_plan_grants :: "uuid \<Rightarrow> time \<Rightarrow> ledger \<Rightarrow> credit_grant list" where
  "live_plan_grants ws now l =
     filter (\<lambda>g. cg_workspaceId g = ws \<and> cg_bucket g = PLAN \<and> is_live now g) (grants l)"

lemma unspentPlanCredits_eq:
  "unspentPlanCredits ws now l = max 0 (sum_list (map (\<lambda>g.
     int (max 1 (draws (allocations l) g)) * cg_credits g - spent_on (allocations l) (cg_id g))
       (live_plan_grants ws now l)))"
  unfolding unspentPlanCredits_def Let_def left_join_credits left_join_spent sum_list_diff_int
    live_plan_grants_def ..

section \<open>Renewing twice\<close>

lemma insert_all_grants: "insert_all gs l = Inr l' \<Longrightarrow> grants l' = grants l @ gs"
  by (induction gs l rule: insert_all.induct)
     (auto simp: insert_grant_def split: prod.splits sum.splits if_splits)

lemma renewal_is_idempotent_lemma:
  assumes "applyRenewal ids now sub invoice pe st = (Inr r, st')" "rr_applied r"
  shows "applyRenewal ids' now' sub' invoice pe' st' = (Inr not_applied, st')"
  using assms(1)
proof (cases rule: applyRenewal_cases)
  case skip
  with assms(2) show ?thesis by (auto simp: not_applied_def)
next
  case (applied plan)
  from insert_all_grants[OF applied(3)]
  have "list_ex (\<lambda>g. cg_stripeInvoiceId g = Some invoice) (grants (bs_ledger st'))"
    by (cases ids) (auto simp: renewal_grants_def Let_def)
  then show ?thesis by (auto simp: applyRenewal_def split: option.split)
qed

lemma renewal_changes:
  "applyRenewal ids now sub invoice pe st = (Inr r, st) \<Longrightarrow> \<not> rr_applied r"
  by (erule applyRenewal_cases)
     (auto simp: not_applied_def dest!: insert_all_grants, auto simp: renewal_grants_def Let_def split: prod.splits)

lemma insert_all_no_violation:
  assumes "insert_all gs l = Inl UniqueViolation"
    and "opt_distinct (map cg_stripeInvoiceId gs)" "\<forall>g \<in> set gs. cg_stripeSessionId g = None"
    and "\<forall>g \<in> set gs. cg_stripeInvoiceId g = None \<or> cg_stripeInvoiceId g \<notin> cg_stripeInvoiceId ` set (grants l)"
  shows False
  using assms
proof (induction gs arbitrary: l)
  case (Cons g gs)
  have no: "insert_grant g l \<noteq> (Inl UniqueViolation, l)"
    using Cons.prems(3,4) by (auto simp: insert_grant_def list_ex_iff collides_iff)
  have step: "fst (insert_grant g l) = Inl UniqueViolation \<longrightarrow> insert_grant g l = (Inl UniqueViolation, l)"
    by (simp add: insert_grant_def)
  from no step Cons.prems(1) obtain l1 where l1: "insert_grant g l = (Inr g, l1)" "l1 = l\<lparr>grants := grants l @ [g]\<rparr>"
      "insert_all gs l1 = Inl UniqueViolation"
    using insert_grant_cases[of g l] by (auto split: sum.splits prod.splits)
  have "cg_stripeInvoiceId h = None \<or> cg_stripeInvoiceId h \<noteq> cg_stripeInvoiceId g" if "h \<in> set gs" for h
    using Cons.prems(2) that by (auto simp: opt_distinct_def split: if_splits) (metis imageI)
  with Cons.prems(4) have "\<forall>h \<in> set gs. cg_stripeInvoiceId h = None
      \<or> cg_stripeInvoiceId h \<notin> cg_stripeInvoiceId ` set (grants l1)"
    by (simp add: l1(2)) metis
  moreover have "opt_distinct (map cg_stripeInvoiceId gs)" "\<forall>h \<in> set gs. cg_stripeSessionId h = None"
    using Cons.prems(2,3) by (auto simp: opt_distinct_def split: if_splits)
  ultimately show ?case using Cons.IH[OF l1(3)] by blast
qed simp

lemma renewal_grants_refs:
  "opt_distinct (map cg_stripeInvoiceId (renewal_grants ids now sub plan invoice pe r b n))"
  "\<forall>g \<in> set (renewal_grants ids now sub plan invoice pe r b n). cg_stripeSessionId g = None"
  "\<forall>g \<in> set (renewal_grants ids now sub plan invoice pe r b n). cg_stripeInvoiceId g \<in> {None, Some invoice}"
  by (cases ids; auto simp: renewal_grants_def renewal_grant_def Let_def opt_distinct_def)+

lemma renewal_declined_again:
  assumes "applyRenewal ids now sub invoice pe st = (Inr r, st)" "\<not> rr_applied r"
  shows "applyRenewal ids' now' sub invoice pe' st = (Inr not_applied, st)"
proof -
  have "\<not> (\<exists>gs. insert_all gs (bs_ledger st) = Inl UniqueViolation
      \<and> gs = renewal_grants ids now sub plan invoice pe a b c)"
    if "\<not> list_ex (\<lambda>g. cg_stripeInvoiceId g = Some invoice) (grants (bs_ledger st))" for plan a b c
  proof -
    have "\<forall>g \<in> set (renewal_grants ids now sub plan invoice pe a b c). cg_stripeInvoiceId g = None
        \<or> cg_stripeInvoiceId g \<notin> cg_stripeInvoiceId ` set (grants (bs_ledger st))"
      using renewal_grants_refs(3) that unfolding list_ex_iff by (metis imageE insertE singletonD)
    from insert_all_no_violation[OF _ renewal_grants_refs(1,2) this] show ?thesis by blast
  qed
  then show ?thesis using assms
    by (auto simp: applyRenewal_def Let_def not_applied_def split: option.splits if_splits sum.splits http_error.splits)
qed

section \<open>Examples\<close>

definition sample_subscription :: subscription where
  "sample_subscription = \<lparr>su_id = ''s1'', su_workspaceId = ''w1'', su_planId = ''starter'',
     su_status = ACTIVE, su_stripeSubscriptionId = ''sub_1'', su_stripeCustomerId = ''cus_1'',
     su_currentPeriodStart = 0, su_currentPeriodEnd = 1000, su_seats = 1, su_cancelAtPeriodEnd = False\<rparr>"

definition sample_billing :: billing_state where
  "sample_billing = \<lparr>bs_subscriptions = [sample_subscription], bs_ledger = sample_ledger, bs_users = sample_users\<rparr>"

lemma sample_subs_wf: "subs_wf [sample_subscription]"
  by (simp add: subs_wf_def)

text \<open>A starter allowance of 20000 credits that four runs have drawn 100 credits each from.\<close>

definition drawn_ledger :: ledger where
  "drawn_ledger = \<lparr>grants = [sample_grant ''p1'' SUBSCRIPTION 20000 (Some 1000)], events = [],
     allocations = map (\<lambda>e. \<lparr>ca_creditEventId = Some e, ca_grantId = ''p1'', ca_bucket = PLAN, ca_credits = 100\<rparr>)
       [''e1'', ''e2'', ''e3'', ''e4'']\<rparr>"

lemma drawn_ledger_wf: "ledger_wf drawn_ledger"
  by (simp add: ledger_wf_def drawn_ledger_def sample_grant_def opt_distinct_def covered_def spent_on_def)

section \<open>Properties\<close>

text \<open>C3: a renewal adds to the workspace's balance exactly what it reports, for as long as it reports it:
  whenever the balance is read, it is higher by the seat bonus, which never expires, and, before the end
  of the invoiced period, by the plan credits and the rollover too (so an invoice that arrives after its
  period ended adds the bonus alone); a renewal that reports it was not applied adds nothing, and the ledger stays
  in order.\<close>

theorem renewal_adds_what_it_reports:
  assumes "ledger_wf (bs_ledger st)" "applyRenewal (i1, i2, i3) now sub invoice pe st = (Inr r, st')"
    and "distinct [i1, i2, i3]" "{i1, i2, i3} \<inter> cg_id ` set (grants (bs_ledger st)) = {}"
  shows "ledger_wf (bs_ledger st') \<and>
    cb_balance (getBalance (su_workspaceId sub) later (bs_ledger st')) =
      cb_balance (getBalance (su_workspaceId sub) later (bs_ledger st))
      + (if later < pe then rr_planCredits r + rr_rolledOver r else 0) + rr_seatBonus r"
  using assms(2)
proof (cases rule: applyRenewal_cases)
  case skip
  with assms(1) show ?thesis by (auto simp: not_applied_def)
next
  case (applied plan)
  let ?r = "unspentPlanCredits (su_workspaceId sub) now (bs_ledger st)"
  let ?n = "int (countActiveByWorkspace (bs_users st) (su_workspaceId sub))"
  let ?gs = "renewal_grants (i1, i2, i3) now sub plan invoice pe ?r (seatBonusFor ?n) ?n"
  have "set (map cg_id ?gs) \<inter> cg_id ` set (grants (bs_ledger st)) = {}"
    using renewal_grants_ids(1)[of i1 i2 i3 now sub plan invoice pe ?r "seatBonusFor ?n" ?n] assms(4) by blast
  from insert_all_facts[OF assms(1) applied(3) renewal_grants_ids(2)[OF assms(3)] this]
  have facts: "ledger_wf (bs_ledger st')" "cb_balance (getBalance (su_workspaceId sub) later (bs_ledger st')) =
      cb_balance (getBalance (su_workspaceId sub) later (bs_ledger st))
      + sum_list (map (grant_value (su_workspaceId sub) later) ?gs)" by blast+
  have "0 \<le> sp_monthlyCredits plan" using findPlan_credits[OF applied(1)] by simp
  from renewal_grants_value[OF unspentPlanCredits_nonneg seatBonusFor_nonneg this] facts applied(4)
  show ?thesis by simp
qed

lemma renewal_adds_what_it_reports_witness:
  "cb_balance (getBalance ''w1'' 500 (bs_ledger (snd
     (applyRenewal (''n1'', ''n2'', ''n3'') 500 sample_subscription ''in_1'' 2000 sample_billing)))) = 60200
   \<and> cb_balance (getBalance ''w1'' 2000 (bs_ledger (snd
     (applyRenewal (''n1'', ''n2'', ''n3'') 500 sample_subscription ''in_1'' 2000 sample_billing))))
     = cb_balance (getBalance ''w1'' 2000 sample_ledger)"
proof -
  let ?c = "applyRenewal (''n1'', ''n2'', ''n3'') 500 sample_subscription ''in_1'' 2000 sample_billing"
  have "fst ?c = Inr \<lparr>rr_planCredits = 20000, rr_rolledOver = 100, rr_seatBonus = 0, rr_applied = True\<rparr>"
    by code_simp
  then have c: "?c = (Inr \<lparr>rr_planCredits = 20000, rr_rolledOver = 100, rr_seatBonus = 0, rr_applied = True\<rparr>, snd ?c)"
    by (metis prod.collapse)
  have b: "cb_balance (getBalance ''w1'' 500 sample_ledger) = 40100" by code_simp
  have wf: "ledger_wf (bs_ledger sample_billing)" by (simp add: sample_billing_def sample_ledger_wf)
  have new: "{''n1'', ''n2'', ''n3''} \<inter> cg_id ` set (grants (bs_ledger sample_billing)) = {}"
    by (simp add: sample_billing_def sample_ledger_def sample_grant_def)
  from renewal_adds_what_it_reports[OF wf c _ new, of 500] renewal_adds_what_it_reports[OF wf c _ new, of 2000] b
  show ?thesis by (simp add: sample_billing_def sample_subscription_def)
qed

text \<open>What rolls over is not what is left: the join counts every live plan grant once for
  each run that drew on it, so the sum is right only when no grant was drawn on twice.\<close>

theorem rollover_counts_grants_per_draw:
  "unspentPlanCredits ws now l = max 0 (sum_list (map (\<lambda>g.
     int (max 1 (draws (allocations l) g)) * cg_credits g - spent_on (allocations l) (cg_id g))
       (live_plan_grants ws now l)))"
  by (rule unspentPlanCredits_eq)

text \<open>A workspace can roll over far more than its allowance ever was: with a plan grant of
  20000 credits of which 400 are spent in four runs, 79600 credits are carried forward.\<close>

theorem rollover_exceeds_allowance:
  "\<exists>l. ledger_wf l \<and> cb_balance (getBalance ''w1'' 500 l) = 19600
     \<and> cb_granted (getBalance ''w1'' 500 l) = 20000 \<and> unspentPlanCredits ''w1'' 500 l = 79600"
proof -
  have "cb_balance (getBalance ''w1'' 500 drawn_ledger) = 19600
     \<and> cb_granted (getBalance ''w1'' 500 drawn_ledger) = 20000
     \<and> unspentPlanCredits ''w1'' 500 drawn_ledger = 79600" by code_simp
  with drawn_ledger_wf show ?thesis by blast
qed

text \<open>Mirroring a Stripe subscription keeps one row per workspace and per Stripe id, and the
  saved row is what both lookups then return; when it fails, nothing changed.\<close>

theorem sync_mirrors_stripe:
  assumes "subs_wf subs" "syncFromStripe i ws planId stripe subs = (res, subs')"
  shows "subs_wf subs' \<and> (case res of
      Inl e \<Rightarrow> subs' = subs
    | Inr r \<Rightarrow> findForWorkspace subs' ws = Some r \<and> findByStripeId subs' (to_string (get_prop stripe ''id'')) = Some r
        \<and> su_planId r = planId \<and> su_status r = toStatus (get_prop stripe ''status''))"
proof -
  have save: "subs_wf subs' \<and> (case res of Inl e \<Rightarrow> subs' = subs
      | Inr r' \<Rightarrow> r' = r \<and> findForWorkspace subs' (su_workspaceId r) = Some r
          \<and> findByStripeId subs' (su_stripeSubscriptionId r) = Some r)"
    if "save_subscription r subs = (res, subs')" for r
  proof -
    have "findForWorkspace subs' (su_workspaceId r) = Some r
        \<and> findByStripeId subs' (su_stripeSubscriptionId r) = Some r" if "res = Inr r"
      using \<open>save_subscription r subs = (res, subs')\<close> that
      unfolding save_subscription_def findForWorkspace_def findByStripeId_def
      by (auto split: if_splits intro!: find_saved)
    with that save_subscription_wf[OF assms(1) that] show ?thesis
      by (auto simp: save_subscription_def split: if_splits)
  qed
  have "syncFromStripe i ws planId stripe subs = (Inl e, subs) \<or>
    (\<exists>r. syncFromStripe i ws planId stripe subs = save_subscription r subs \<and> su_workspaceId r = ws
       \<and> su_stripeSubscriptionId r = to_string (get_prop stripe ''id'') \<and> su_planId r = planId
       \<and> su_status r = toStatus (get_prop stripe ''status''))"
    if "\<forall>e. syncFromStripe i ws planId stripe subs \<noteq> (Inl e, subs)" for e
    using that unfolding syncFromStripe_def Let_def
    by (auto split: sum.splits option.splits prod.splits)
  then consider e where "res = Inl e" "subs' = subs"
    | r where "save_subscription r subs = (res, subs')" "su_workspaceId r = ws"
       "su_stripeSubscriptionId r = to_string (get_prop stripe ''id'')" "su_planId r = planId"
       "su_status r = toStatus (get_prop stripe ''status'')"
    using assms(2) by (metis prod.inject)
  then show ?thesis
  proof cases
    case 1
    with assms(1) show ?thesis by simp
  next
    case 2
    from save[OF 2(1)] 2(2-) show ?thesis by (auto split: sum.splits)
  qed
qed

definition stripe_sub :: "string \<Rightarrow> jsval" where
  "stripe_sub i = JObj [(''id'', JStr i), (''customer'', JStr ''cus_1''), (''status'', JStr ''active''),
     (''items'', JObj [(''data'', JArr [JObj [(''current_period_start'', JNum (Fin 10)),
        (''current_period_end'', JNum (Fin 20))]])])]"

lemma sync_mirrors_stripe_witness:
  "\<exists>r subs'. syncFromStripe ''s2'' ''w2'' ''team'' (stripe_sub ''sub_2'') [sample_subscription] = (Inr r, subs')
     \<and> findForWorkspace subs' ''w2'' = Some r \<and> su_planId r = ''team''"
proof -
  let ?c = "syncFromStripe ''s2'' ''w2'' ''team'' (stripe_sub ''sub_2'') [sample_subscription]"
  have "is_ok (fst ?c)" by code_simp
  then obtain r where r: "?c = (Inr r, snd ?c)" by (metis is_ok_iff prod.collapse)
  from sync_mirrors_stripe[OF sample_subs_wf r] show ?thesis
    by (intro exI[of _ r] exI[of _ "snd ?c"]) (use r in \<open>simp add: sample_subscription_def\<close>)
qed

text \<open>A workspace that had a subscription can never get a new one: while its old row is
  there, a subscription with another Stripe id fails on the one-row-per-workspace index and is
  not stored, so the invoices of the new subscription find no row to renew.\<close>

theorem resubscription_is_refused:
  assumes "subs_wf subs" "old \<in> set subs" "su_workspaceId old = ws"
    and "findByStripeId subs (to_string (get_prop stripe ''id'')) = None" "i \<notin> su_id ` set subs"
  shows "\<not> is_ok (fst (syncFromStripe i ws planId stripe subs))
    \<and> snd (syncFromStripe i ws planId stripe subs) = subs"
proof -
  have "save_subscription r subs = (Inl UniqueViolation, subs)" if "su_id r = i" "su_workspaceId r = ws" for r
  proof -
    have "su_id old \<noteq> su_id r" using assms(2,5) that(1) by (metis imageI)
    with assms(2,3) that(2) show ?thesis by (auto simp: save_subscription_def)
  qed
  then show ?thesis using assms(4)
    unfolding syncFromStripe_def Let_def by (auto split: sum.split option.split prod.split)
qed

lemma resubscription_is_refused_witness:
  "\<not> is_ok (fst (syncFromStripe ''s2'' ''w1'' ''team'' (stripe_sub ''sub_2'') [sample_subscription\<lparr>su_status := CANCELED\<rparr>]))"
proof -
  have "findByStripeId [sample_subscription\<lparr>su_status := CANCELED\<rparr>] (to_string (get_prop (stripe_sub ''sub_2'') ''id'')) = None"
    by code_simp
  from resubscription_is_refused[OF _ _ _ this, of "sample_subscription\<lparr>su_status := CANCELED\<rparr>" "''w1''" "''s2''" "''team''"]
  show ?thesis by (simp add: subs_wf_def sample_subscription_def)
qed

text \<open>The seat bonus is zero up to the free seats, never falls as the team grows and is
  capped.\<close>

theorem seat_bonus_bounds:
  assumes "m \<le> n"
  shows "0 \<le> seatBonusFor m \<and> seatBonusFor m \<le> seatBonusFor n \<and> seatBonusFor n \<le> 400000
    \<and> (m \<le> 4 \<longrightarrow> seatBonusFor m = 0)"
  using assms by (auto simp: seatBonusFor_def credit_constants min_def max_def)

lemma seat_bonus_bounds_witness: "seatBonusFor 5 \<le> seatBonusFor 100"
  using seat_bonus_bounds[of 5 100] by simp

end
