(* ===== verification/Billing.thy ===== *)
theory Billing
  imports SubscriptionFacts
begin

text \<open>
  \<open>src/src/billing/billing.service.ts\<close>: starting checkouts and handling Stripe's webhooks.  Stripe
  itself is a parameter \<open>stripe\<close> (the response to a POST), as are the HMAC and the clock; parsed
  bodies are untyped values.  Every handler answers \<open>{ received: true }\<close> or throws.
\<close>

section \<open>Configuration and references\<close>

record billing_config =
  bc_stripeSecretKey :: string
  bc_stripeWebhookSecret :: string
  bc_frontendUrl :: string

text \<open>Where Stripe sends an id or an expanded object.\<close>

definition refId :: "jsval \<Rightarrow> string option" where
  "refId v = (case v of
     JStr s \<Rightarrow> if s = [] then None else Some s
   | _ \<Rightarrow> (case get_prop v ''id'' of JStr s \<Rightarrow> if s = [] then None else Some s | _ \<Rightarrow> None))"

definition subscriptionIdFromInvoice :: "jsval \<Rightarrow> string option" where
  "subscriptionIdFromInvoice invoice =
     coalesce (refId (get_prop invoice ''subscription''))
       (refId (get_prop (get_prop (get_prop invoice ''parent'') ''subscription_details'') ''subscription''))"

definition RENEWAL_REASONS :: "string list" where
  "RENEWAL_REASONS = [''subscription_create'', ''subscription_cycle'']"

definition isUniqueViolation :: "http_error \<Rightarrow> bool" where
  "isUniqueViolation e = (e = UniqueViolation)"

section \<open>Checkouts\<close>

type_synonym form = "(string \<times> string) list"

text \<open>\<open>fetch\<close> of a Stripe path: whether the status was 2xx and the parsed body.\<close>

type_synonym stripe_api = "string \<Rightarrow> form \<Rightarrow> bool \<times> jsval"

definition secretKey :: "billing_config \<Rightarrow> string result" where
  "secretKey cfg = (if bc_stripeSecretKey cfg = []
     then Inl (ServiceUnavailable ''Billing is not configured (set STRIPE_SECRET_KEY)'')
     else Inr (bc_stripeSecretKey cfg))"

definition stripePost :: "billing_config \<Rightarrow> stripe_api \<Rightarrow> string \<Rightarrow> form \<Rightarrow> jsval result" where
  "stripePost cfg stripe path frm =
    (case secretKey cfg of Inl e \<Rightarrow> Inl e
     | Inr _ \<Rightarrow>
        let (ok, body) = stripe path frm in
        if is_nullish body then Inl (PlainError ''TypeError: cannot read properties'')
        else if \<not> ok \<or> truthy (get_prop body ''error'')
          then Inl (ServiceUnavailable ''Could not reach Stripe - try again shortly.'')
        else Inr body)"

definition url_or :: "string \<Rightarrow> jsval result \<Rightarrow> string result" where
  "url_or msg r = (case r of Inl e \<Rightarrow> Inl e
     | Inr body \<Rightarrow> if truthy (get_prop body ''url'') then Inr (to_string (get_prop body ''url''))
                   else Inl (ServiceUnavailable msg))"

definition with_user :: "uuid option \<Rightarrow> form \<Rightarrow> form" where
  "with_user userId frm = (case userId of Some u \<Rightarrow> if u = [] then frm else aput ''metadata[userId]'' u frm
     | None \<Rightarrow> frm)"

definition subscription_form :: "billing_config \<Rightarrow> uuid \<Rightarrow> uuid option \<Rightarrow> subscription_plan \<Rightarrow> form" where
  "subscription_form cfg ws userId plan =
    (let billingPage = bc_frontendUrl cfg @ ''/dashboard/billing'' in with_user userId
     [(''mode'', ''subscription''),
      (''success_url'', billingPage @ ''?subscription=success''),
      (''cancel_url'', billingPage @ ''?subscription=cancelled''),
      (''line_items[0][price_data][currency]'', ''usd''),
      (''line_items[0][price_data][product_data][name]'', ''Gaspo '' @ sp_label plan @ '' plan''),
      (''line_items[0][price_data][unit_amount]'', show_int (sp_priceCents plan)),
      (''line_items[0][price_data][recurring][interval]'', ''month''),
      (''line_items[0][quantity]'', ''1''),
      (''metadata[workspaceId]'', ws), (''metadata[planId]'', sp_id plan),
      (''subscription_data[metadata][workspaceId]'', ws),
      (''subscription_data[metadata][planId]'', sp_id plan),
      (''managed_payments[enabled]'', ''false'')])"

definition createSubscriptionSession ::
  "billing_config \<Rightarrow> stripe_api \<Rightarrow> uuid \<Rightarrow> uuid option \<Rightarrow> string \<Rightarrow> string result" where
  "createSubscriptionSession cfg stripe ws userId planId =
    (case findPlan planId of
       None \<Rightarrow> Inl (BadRequest (''Unknown plan: '' @ planId))
     | Some plan \<Rightarrow> url_or ''Could not start the checkout - try again shortly.''
         (stripePost cfg stripe ''checkout/sessions'' (subscription_form cfg ws userId plan)))"

definition createPortalSession ::
  "billing_config \<Rightarrow> stripe_api \<Rightarrow> subscription list \<Rightarrow> uuid \<Rightarrow> string result" where
  "createPortalSession cfg stripe subs ws =
    (case findForWorkspace subs ws of
       None \<Rightarrow> Inl (BadRequest ''This workspace has no subscription to manage.'')
     | Some s \<Rightarrow> url_or ''Could not open the billing portal - try again shortly.''
         (stripePost cfg stripe ''billing_portal/sessions''
            [(''customer'', su_stripeCustomerId s),
             (''return_url'', bc_frontendUrl cfg @ ''/dashboard/billing'')]))"

definition topup_form :: "billing_config \<Rightarrow> uuid \<Rightarrow> uuid option \<Rightarrow> credit_pack \<Rightarrow> form" where
  "topup_form cfg ws userId pack =
    (let billingPage = bc_frontendUrl cfg @ ''/dashboard/billing'' in with_user userId
     [(''mode'', ''payment''),
      (''success_url'', billingPage @ ''?topup=success''),
      (''cancel_url'', billingPage @ ''?topup=cancelled''),
      (''line_items[0][price_data][currency]'', ''usd''),
      (''line_items[0][price_data][product_data][name]'', ''Gaspo credits - '' @ pk_label pack),
      (''line_items[0][price_data][unit_amount]'', show_int (pk_amountCents pack)),
      (''line_items[0][quantity]'', ''1''),
      (''metadata[workspaceId]'', ws), (''metadata[packId]'', pk_id pack),
      (''metadata[credits]'', show_int (pk_credits pack)),
      (''managed_payments[enabled]'', ''false'')])"

definition createTopupSession ::
  "billing_config \<Rightarrow> stripe_api \<Rightarrow> uuid \<Rightarrow> uuid option \<Rightarrow> string \<Rightarrow> string result" where
  "createTopupSession cfg stripe ws userId packId =
    (case findPack packId of
       None \<Rightarrow> Inl (BadRequest (''Unknown credit pack: '' @ packId))
     | Some pack \<Rightarrow> url_or ''Could not start the checkout - try again shortly.''
         (stripePost cfg stripe ''checkout/sessions'' (topup_form cfg ws userId pack)))"

section \<open>Webhook handlers\<close>

text \<open>
  Values on their way into a column: text as \<open>String\<close>, nothing for null, and an integer column
  refuses any number that is not one.
\<close>

definition text_column :: "jsval \<Rightarrow> string option" where
  "text_column v = (if is_nullish v then None else Some (to_string v))"

definition int_column :: "jsval \<Rightarrow> int option result" where
  "int_column v = (if is_nullish v then Inr None
     else case to_number v of
       Fin x \<Rightarrow> if x = of_int \<lfloor>x\<rfloor> then Inr (Some \<lfloor>x\<rfloor>) else Inl (PlainError ''invalid input syntax for type integer'')
     | _ \<Rightarrow> Inl (PlainError ''invalid input syntax for type integer''))"

text \<open>
  \<open>onCheckoutCompleted\<close>: what it acknowledges without looking further, the grant it makes of the
  session's metadata, and the handler.
\<close>

definition session_credits :: "jsval \<Rightarrow> jsnum" where
  "session_credits session = (let c = get_prop (get_prop session ''metadata'') ''credits''
     in to_number (if is_nullish c then JNum (Fin 0) else c))"

definition checkout_ignored :: "jsval \<Rightarrow> bool" where
  "checkout_ignored session \<longleftrightarrow>
     get_prop session ''mode'' = JStr ''subscription''
     \<or> \<not> truthy (get_prop session ''id'') \<or> \<not> truthy (get_prop (get_prop session ''metadata'') ''workspaceId'')
     \<or> \<not> is_finite (session_credits session) \<or> num_le (session_credits session) (Fin 0)
     \<or> truthy (get_prop session ''payment_status'') \<and> get_prop session ''payment_status'' \<noteq> JStr ''paid''"

definition checkout_grant :: "jsval \<Rightarrow> grant_credits_input result" where
  "checkout_grant session = (let meta = get_prop session ''metadata'' in
     case (int_column (JNum (session_credits session)), int_column (get_prop session ''amount_total'')) of
       (Inl e, _) \<Rightarrow> Inl e
     | (Inr c, Inl e) \<Rightarrow> Inl e
     | (Inr c, Inr cents) \<Rightarrow> Inr
         \<lparr>gi_workspaceId = to_string (get_prop meta ''workspaceId''),
          gi_userId = text_column (get_prop meta ''userId''),
          gi_reason = TOPUP_PURCHASE, gi_credits = the c, gi_bucket = None, gi_expiresAt = None,
          gi_amountCents = cents, gi_currency = text_column (get_prop session ''currency''),
          gi_stripeSessionId = Some (to_string (get_prop session ''id'')), gi_stripeInvoiceId = None,
          gi_note = Some (''Top-up ('' @ (case text_column (get_prop meta ''packId'') of
              Some p \<Rightarrow> p | None \<Rightarrow> ''unknown pack'') @ '')'')\<rparr>)"

definition onCheckoutCompleted ::
  "uuid \<Rightarrow> time \<Rightarrow> jsval \<Rightarrow> billing_state \<Rightarrow> unit result \<times> billing_state" where
  "onCheckoutCompleted new_id now session st =
    (if checkout_ignored session
        \<or> hasGrantForStripeSession (to_string (get_prop session ''id'')) (bs_ledger st)
     then (Inr (), st)
     else (case checkout_grant session of
        Inl e \<Rightarrow> (Inl e, st)
      | Inr inp \<Rightarrow>
          (case grantCredits new_id now inp (bs_ledger st) of
             (Inl e, _) \<Rightarrow> if isUniqueViolation e then (Inr (), st) else (Inl e, st)
           | (Inr _, l') \<Rightarrow> (Inr (), st\<lparr>bs_ledger := l'\<rparr>))))"

definition first_item :: "jsval \<Rightarrow> jsval" where
  "first_item v = (case v of JArr (x # _) \<Rightarrow> x | _ \<Rightarrow> JUndef)"

definition invoice_period_end :: "jsval \<Rightarrow> jsval" where
  "invoice_period_end invoice =
     get_prop (get_prop (first_item (get_prop (get_prop invoice ''lines'') ''data'')) ''period'') ''end''"

text \<open>An invalid date is only noticed when the grants that carry it are inserted.\<close>

definition invoice_ignored :: "jsval \<Rightarrow> bool" where
  "invoice_ignored invoice \<longleftrightarrow> \<not> truthy (get_prop invoice ''id'')
     \<or> truthy (get_prop invoice ''billing_reason'')
       \<and> get_prop invoice ''billing_reason'' \<notin> set (map JStr RENEWAL_REASONS)"

definition renew_until :: "jsval \<Rightarrow> subscription \<Rightarrow> time option" where
  "renew_until invoice sub = (let v = invoice_period_end invoice in
     if truthy v then (case to_number v of Fin x \<Rightarrow> Some (date_of_seconds x) | _ \<Rightarrow> None)
     else Some (su_currentPeriodEnd sub))"

definition renew ::
  "uuid \<times> uuid \<times> uuid \<Rightarrow> time \<Rightarrow> jsval \<Rightarrow> subscription \<Rightarrow> billing_state \<Rightarrow> unit result \<times> billing_state" where
  "renew ids now invoice sub st =
    (let pe = renew_until invoice sub in
     case applyRenewal ids now sub (to_string (get_prop invoice ''id''))
            (case pe of Some t \<Rightarrow> t | None \<Rightarrow> 0) st of
       (Inl e, _) \<Rightarrow> (Inl e, st)
     | (Inr r, st') \<Rightarrow>
         if rr_applied r \<and> pe = None then (Inl (PlainError ''invalid input syntax for type timestamp''), st)
         else (Inr (), st'))"

definition onInvoicePaid ::
  "uuid \<times> uuid \<times> uuid \<Rightarrow> time \<Rightarrow> jsval \<Rightarrow> billing_state \<Rightarrow> unit result \<times> billing_state" where
  "onInvoicePaid ids now invoice st =
    (if invoice_ignored invoice then (Inr (), st)
     else (case subscriptionIdFromInvoice invoice of
        None \<Rightarrow> (Inr (), st)
      | Some sid \<Rightarrow>
         (case findByStripeId (bs_subscriptions st) sid of
            None \<Rightarrow> (Inl (ServiceUnavailable ''Subscription not yet synced''), st)
          | Some sub \<Rightarrow> renew ids now invoice sub st)))"

definition onSubscriptionChanged ::
  "uuid \<Rightarrow> jsval \<Rightarrow> billing_state \<Rightarrow> unit result \<times> billing_state" where
  "onSubscriptionChanged new_id stripe st =
    (let ws = get_prop (get_prop stripe ''metadata'') ''workspaceId'';
         planId = get_prop (get_prop stripe ''metadata'') ''planId''
     in if \<not> truthy (get_prop stripe ''id'') \<or> \<not> truthy ws \<or> \<not> truthy planId then (Inr (), st)
        else (case syncFromStripe new_id (to_string ws) (to_string planId) stripe (bs_subscriptions st) of
            (Inl e, _) \<Rightarrow> (Inl e, st)
          | (Inr _, subs') \<Rightarrow> (Inr (), st\<lparr>bs_subscriptions := subs'\<rparr>)))"

definition onSubscriptionDeleted :: "jsval \<Rightarrow> billing_state \<Rightarrow> unit result \<times> billing_state" where
  "onSubscriptionDeleted stripe st =
    (if \<not> truthy (get_prop stripe ''id'') then (Inr (), st)
     else (Inr (), st\<lparr>bs_subscriptions := markStatus (to_string (get_prop stripe ''id'')) CANCELED (bs_subscriptions st)\<rparr>))"

section \<open>The signature\<close>

definition WEBHOOK_TOLERANCE_SECONDS :: int where
  "WEBHOOK_TOLERANCE_SECONDS = 5 * 60"

text \<open>One \<open>key=value\<close> pair of the header; a second \<open>=\<close> ends the value.\<close>

definition add_pair :: "string \<Rightarrow> (string \<times> string list) list \<Rightarrow> (string \<times> string list) list" where
  "add_pair pair parts = (case split_on (CHR ''='') pair of
     key # val # _ \<Rightarrow>
       if key = [] \<or> val = [] then parts
       else aput (js_trim key) ((case map_of parts (js_trim key) of Some vs \<Rightarrow> vs | None \<Rightarrow> []) @ [js_trim val]) parts
   | _ \<Rightarrow> parts)"

definition header_parts :: "string \<Rightarrow> (string \<times> string list) list" where
  "header_parts header = fold add_pair (split_on (CHR '','') header) []"

definition header_values :: "string \<Rightarrow> string \<Rightarrow> string list" where
  "header_values header k = (case map_of (header_parts header) k of Some vs \<Rightarrow> vs | None \<Rightarrow> [])"

definition header_timestamp :: "string \<Rightarrow> jsnum" where
  "header_timestamp header = (case header_values header ''t'' of [] \<Rightarrow> NaN | t # _ \<Rightarrow> number_of_string t)"

definition verifySignature ::
  "(string \<Rightarrow> string \<Rightarrow> string) \<Rightarrow> billing_config \<Rightarrow> time \<Rightarrow> string \<Rightarrow> string option \<Rightarrow> unit result" where
  "verifySignature hmac cfg now rawBody header =
    (if bc_stripeWebhookSecret cfg = []
       then Inl (ServiceUnavailable ''Billing webhook is not configured (set STRIPE_WEBHOOK_SECRET)'')
     else (case header of None \<Rightarrow> Inl (Unauthorized ''Missing Stripe signature'')
      | Some h \<Rightarrow>
         if h = [] then Inl (Unauthorized ''Missing Stripe signature'')
         else (case header_timestamp h of
            Fin ts \<Rightarrow>
              if header_values h ''v1'' = [] then Inl (Unauthorized ''Malformed Stripe signature'')
              else if of_int WEBHOOK_TOLERANCE_SECONDS < \<bar>fl (fl (of_int now / 1000) - ts)\<bar>
                then Inl (Unauthorized ''Stripe signature timestamp out of tolerance'')
              else let expected = hex_bytes (hmac (bc_stripeWebhookSecret cfg) (rat_to_string ts @ ''.'' @ rawBody))
                   in if list_ex (\<lambda>s. hex_bytes s = expected) (header_values h ''v1'') then Inr ()
                      else Inl (Unauthorized ''Invalid Stripe signature'')
          | _ \<Rightarrow> Inl (Unauthorized ''Malformed Stripe signature''))))"

text \<open>The parsed event of a delivery whose signature holds.\<close>

definition webhook_event ::
  "(string \<Rightarrow> string \<Rightarrow> string) \<Rightarrow> billing_config \<Rightarrow> time \<Rightarrow> string option \<Rightarrow> string option \<Rightarrow> jsval result" where
  "webhook_event hmac cfg now rawBody header =
    (case rawBody of None \<Rightarrow> Inl (BadRequest ''Missing request body'')
     | Some raw \<Rightarrow>
        (case verifySignature hmac cfg now raw header of Inl e \<Rightarrow> Inl e
         | Inr _ \<Rightarrow>
            (case json_parse raw of None \<Rightarrow> Inl (PlainError ''SyntaxError'')
             | Some ev \<Rightarrow> if ev = JNull then Inl (PlainError ''TypeError: cannot read properties'') else Inr ev)))"

definition dispatch ::
  "uuid \<times> uuid \<times> uuid \<Rightarrow> time \<Rightarrow> jsval \<Rightarrow> billing_state \<Rightarrow> unit result \<times> billing_state" where
  "dispatch ids now ev st =
    (let obj = get_prop (get_prop ev ''data'') ''object''; kind = get_prop ev ''type'' in
     if kind = JStr ''checkout.session.completed'' then onCheckoutCompleted (fst ids) now obj st
     else if kind = JStr ''invoice.paid'' then onInvoicePaid ids now obj st
     else if kind = JStr ''customer.subscription.created'' \<or> kind = JStr ''customer.subscription.updated''
       then onSubscriptionChanged (fst ids) obj st
     else if kind = JStr ''customer.subscription.deleted'' then onSubscriptionDeleted obj st
     else (Inr (), st))"

definition handleWebhook ::
  "(string \<Rightarrow> string \<Rightarrow> string) \<Rightarrow> billing_config \<Rightarrow> uuid \<times> uuid \<times> uuid \<Rightarrow> time \<Rightarrow> string option \<Rightarrow> string option
   \<Rightarrow> billing_state \<Rightarrow> unit result \<times> billing_state" where
  "handleWebhook hmac cfg ids now rawBody header st =
    (case webhook_event hmac cfg now rawBody header of
       Inl e \<Rightarrow> (Inl e, st)
     | Inr ev \<Rightarrow> dispatch ids now ev st)"

end
