(* ===== verification/JsonText.thy ===== *)
theory JsonText
  imports JsValue JsString
begin

text \<open>
  \<open>JSON.stringify\<close> and \<open>toUpperCase\<close>, as the services use them.  A text that \<open>stringify\<close>
  produced for a value without fractions parses back to that value (\<open>parse_stringify\<close>).
\<close>

section \<open>\<open>JSON.stringify\<close>\<close>

definition hex4 :: "nat \<Rightarrow> string" where
  "hex4 n = map (\<lambda>i. ''0123456789abcdef'' ! (n div 16 ^ i mod 16)) [3, 2, 1, 0]"

definition quote_char :: "char \<Rightarrow> string" where
  "quote_char c = (let n = (of_char c :: nat) in
     if n = 34 then [CHR 0x5C, CHR 0x22] else if n = 92 then [CHR 0x5C, CHR 0x5C]
     else if n = 8 then [CHR 0x5C, CHR ''b''] else if n = 12 then [CHR 0x5C, CHR ''f'']
     else if n = 10 then [CHR 0x5C, CHR ''n''] else if n = 13 then [CHR 0x5C, CHR ''r'']
     else if n = 9 then [CHR 0x5C, CHR ''t'']
     else if n < 32 then CHR 0x5C # CHR ''u'' # hex4 n else [c])"

definition quote_string :: "string \<Rightarrow> string" where
  "quote_string s = CHR 0x22 # concat (map quote_char s) @ [CHR 0x22]"

fun is_absent :: "jsval \<Rightarrow> bool" where
  "is_absent JUndef = True"
| "is_absent (JFun _) = True"
| "is_absent _ = False"

text \<open>
  The text of a value; an absent one is left out of an object and is \<open>null\<close> in an array.
\<close>

function stringify :: "jsval \<Rightarrow> string" where
  "stringify JUndef = ''null''"
| "stringify (JFun _) = ''null''"
| "stringify JNull = ''null''"
| "stringify (JBool b) = (if b then ''true'' else ''false'')"
| "stringify (JNum n) = (if is_finite n then num_to_string n else ''null'')"
| "stringify (JStr s) = quote_string s"
| "stringify (JArr xs) = ''['' @ join '','' (map stringify xs) @ '']''"
| "stringify (JObj ps) = ''{'' @ join '',''
     (map (\<lambda>(k, v). quote_string k @ '':'' @ stringify v) (filter (\<lambda>(k, v). \<not> is_absent v) ps)) @ ''}''"
  by pat_completeness auto
termination
proof (relation "measure size")
  fix xs x assume "x \<in> set (xs :: jsval list)"
  then show "(x, JArr xs) \<in> measure size" by (auto simp: size_list_estimation' less_Suc_eq_le)
next
  fix ps p k v assume h: "p \<in> set (filter (\<lambda>(k, v). \<not> is_absent v) (ps :: (string \<times> jsval) list))" "(k, v) = p"
  then have "(k, v) \<in> set ps" by auto
  then show "(v, JObj ps) \<in> measure size" 
    by (induction ps) auto
qed simp

definition upper_char :: "char \<Rightarrow> char" where
  "upper_char c = (let n = (of_char c :: nat) in if 97 \<le> n \<and> n \<le> 122 then char_of (n - 32) else c)"

text \<open>\<open>s.toUpperCase()\<close>, on the ASCII texts it is applied to.\<close>

definition to_upper :: "string \<Rightarrow> string" where
  "to_upper s = map upper_char s"

section \<open>Printing, then parsing\<close>

lemma hex_digit_val: "d < 16 \<Longrightarrow> digit_val 16 (''0123456789abcdef'' ! d) = Some d"
proof -
  assume "d < 16"
  moreover have "list_all (\<lambda>d. digit_val 16 (''0123456789abcdef'' ! d) = Some d) [0..<16]"
    by code_simp
  ultimately show ?thesis by (auto simp: list_all_iff)
qed

lemma hex4_val: "n < 32 \<Longrightarrow> digits_val 16 0 (hex4 n) = Some n"
proof -
  assume h: "n < 32"
  have z: "digit_val 16 (CHR ''0'') = Some 0" by code_simp
  from h have "n div 16 < 16" "n mod 16 < 16" by auto
  then show ?thesis using h by (simp add: hex4_def hex_digit_val z)
qed

lemma escaped_chars:
  "char_of (34 :: nat) = CHR 0x22" "char_of (92 :: nat) = CHR 0x5C" "char_of (8 :: nat) = CHR 0x08"
  "char_of (12 :: nat) = CHR 0x0C" "char_of (10 :: nat) = CHR 0x0A" "char_of (13 :: nat) = CHR 0x0D"
  "char_of (9 :: nat) = CHR 0x09"
  by code_simp+

lemma json_str_quote_char:
  "json_str (quote_char c @ r) = map_option (\<lambda>(x, y). (c # x, y)) (json_str r)"
proof -
  define n where "n = (of_char c :: nat)"
  have c: "c = char_of n" by (simp add: n_def)
  consider "n \<in> {34, 92, 8, 12, 10, 13, 9}" | "n < 32" "n \<notin> {34, 92, 8, 12, 10, 13, 9}"
    | "32 \<le> n" "n \<noteq> 34" "n \<noteq> 92" by force
  then show ?thesis
  proof cases
    case 1
    then show ?thesis unfolding quote_char_def n_def[symmetric] c
      by (auto simp: unescape_def escaped_chars)
  next
    case 2
    obtain a b d e where h: "hex4 n = [a, b, d, e]" by (simp add: hex4_def)
    from hex4_val[OF 2(1)] have "digits_val 16 0 [a, b, d, e] = Some n" by (simp add: h)
    with 2 show ?thesis unfolding quote_char_def n_def[symmetric] by (simp add: h c)
  next
    case 3
    from 3 have "c \<noteq> CHR 0x22" "c \<noteq> CHR 0x5C" by (auto simp: n_def)
    with 3 show ?thesis unfolding quote_char_def n_def[symmetric] by (simp add: n_def)
  qed
qed

lemma json_str_quoted: "json_str (concat (map quote_char s) @ CHR 0x22 # t) = Some (s, t)"
  by (induction s) (simp_all add: json_str_quote_char)

text \<open>
  Values made of strings, booleans, null, safe integers, arrays and objects with distinct keys.
\<close>

function textual :: "jsval \<Rightarrow> bool" where
  "textual JUndef = False"
| "textual (JFun _) = False"
| "textual JNull = True"
| "textual (JBool _) = True"
| "textual (JNum n) = (case n of Fin x \<Rightarrow> x = of_int \<lfloor>x\<rfloor> \<and> \<bar>x\<bar> < 2 ^ 53 | _ \<Rightarrow> False)"
| "textual (JStr _) = True"
| "textual (JArr xs) = list_all textual xs"
| "textual (JObj ps) = (distinct (map fst ps) \<and> list_all (\<lambda>(k, v). textual v) ps)"
  by pat_completeness auto
termination
proof (relation "measure size")
  fix xs x assume "x \<in> set (xs :: jsval list)"
  then show "(x, JArr xs) \<in> measure size" by (auto simp: size_list_estimation' less_Suc_eq_le)
next
  fix ps p k v assume "p \<in> set (ps :: (string \<times> jsval) list)" "(k, v) = p"
  then show "(v, JObj ps) \<in> measure size" by (induction ps) auto
qed simp

lemma textual_present: "textual v \<Longrightarrow> \<not> is_absent v"
  by (cases v) simp_all

lemma skip_ws_id: "c # s \<noteq> [] \<Longrightarrow> (of_char c :: nat) \<notin> {9, 10, 13, 32} \<Longrightarrow> skip_ws (c # s) = c # s"
  by (simp add: skip_ws_def)

text \<open>What may follow a value; the parser reads \<open>v\<close> off the front of such a text.\<close>

definition follows :: "string \<Rightarrow> bool" where
  "follows t \<longleftrightarrow> (case t of [] \<Rightarrow> True | c # _ \<Rightarrow> c \<in> set '',]}'')"

lemma follows_simps [simp]:
  "follows []" "follows (CHR '','' # t)" "follows (CHR '']'' # t)" "follows (CHR ''}'' # t)"
  by (simp_all add: follows_def)

definition reads :: "string \<Rightarrow> jsval \<Rightarrow> bool" where
  "reads s v \<longleftrightarrow> (\<forall>t. follows t \<longrightarrow> (\<exists>n. \<forall>m \<ge> n. json_value m (s @ t) = Some (v, t)))"

lemma readsI: "(\<And>t m. n \<le> m \<Longrightarrow> follows t \<Longrightarrow> json_value m (s @ t) = Some (v, t)) \<Longrightarrow> reads s v"
  unfolding reads_def by blast

lemma readsD: "reads s v \<Longrightarrow> follows t \<Longrightarrow> \<exists>n. \<forall>m \<ge> n. json_value m (s @ t) = Some (v, t)"
  unfolding reads_def by blast

text \<open>Integers.\<close>

definition num_char :: "char \<Rightarrow> bool" where
  "num_char c \<longleftrightarrow> is_digit c \<or> c \<in> set ''+-.eE''"

lemma follows_not_num: "follows t \<Longrightarrow> takeWhile num_char t = [] \<and> dropWhile num_char t = t"
  by (cases t) (auto simp: follows_def num_char_def is_digit_def)

lemma show_int_num: "c \<in> set (show_int i) \<Longrightarrow> num_char c"
  using show_nat_digits by (auto simp: show_int_def num_char_def split: if_splits)

lemma digits_only: "takeWhile is_digit (show_nat n) = show_nat n \<and> dropWhile is_digit (show_nat n) = []"
  by (simp add: show_nat_digits)

lemma json_num_ok_show_nat: "json_num_ok (show_nat n)"
proof -
  obtain c r where cr: "show_nat n = c # r" using show_nat_nonempty[of n] by (cases "show_nat n") auto
  then have "is_digit c" using show_nat_digits[of c n] by simp
  then have "c \<noteq> CHR ''-''" by (auto simp: is_digit_def)
  then show ?thesis
    using digits_only[of n] show_nat_leading[of n] show_nat_nonempty[of n]
    by (simp add: json_num_ok_def cr)
qed

lemma json_num_ok_show_int: "json_num_ok (show_int i)"
proof (cases "i < 0")
  case True
  have "json_num_ok (CHR ''-'' # show_nat n)" for n
    using show_nat_leading[of n] show_nat_nonempty[of n]
    by (simp add: json_num_ok_def Let_def digits_only[THEN conjunct1] digits_only[THEN conjunct2])
  with True show ?thesis by (simp add: show_int_def)
qed (simp add: show_int_def json_num_ok_show_nat)

lemma json_number_show_int:
  assumes "\<bar>i\<bar> < 2 ^ 53" "follows t"
  shows "json_number (show_int i @ t) = Some (JNum (Fin (of_int i)), t)"
proof -
  have p: "(\<lambda>c. is_digit c \<or> c \<in> set ''+-.eE'') = num_char" by (simp add: fun_eq_iff num_char_def)
  have "takeWhile num_char (show_int i @ t) = show_int i" "dropWhile num_char (show_int i @ t) = t"
    using show_int_num follows_not_num[OF assms(2)] by (simp_all add: takeWhile_append dropWhile_append)
  moreover have "show_int i \<noteq> []" by (simp add: show_int_def show_nat_nonempty)
  ultimately show ?thesis
    unfolding json_number_def p by (simp add: number_of_show_int[OF assms(1)] json_num_ok_show_int)
qed

lemma show_int_head: "\<exists>c r. show_int i = c # r \<and> (is_digit c \<or> c = CHR ''-'')"
proof (cases "i < 0")
  case False
  obtain c r where "show_nat (nat i) = c # r" using show_nat_nonempty[of "nat i"] by (cases "show_nat (nat i)") auto
  with False show ?thesis using show_nat_digits[of c "nat i"] by (auto simp: show_int_def)
qed (auto simp: show_int_def)

lemma reads_show_int:
  assumes "\<bar>i\<bar> < 2 ^ 53" shows "reads (show_int i) (JNum (Fin (of_int i)))"
proof (rule readsI[of 1])
  fix t and m :: nat assume m: "1 \<le> m" and t: "follows t"
  then obtain k where k: "m = Suc k" by (cases m) auto
  obtain c r where c: "show_int i = c # r" "is_digit c \<or> c = CHR ''-''" using show_int_head by blast
  then have n: "c \<notin> set (CHR 0x22 # ''{[tfn'')" "(of_char c :: nat) \<notin> {9, 10, 13, 32}"
    by (auto simp: is_digit_def Let_def)
  from n have "keyword (c # r @ t) = None" by (auto simp: keyword_def)
  with n c(1) json_number_show_int[OF assms t]
  show "json_value m (show_int i @ t) = Some (JNum (Fin (of_int i)), t)"
    by (simp add: k skip_ws_id)
qed

lemma reads_items:
  assumes "\<And>v. v \<in> set (v0 # vs) \<Longrightarrow> reads (f v) v"
  shows "\<exists>n. \<forall>m \<ge> n. json_items m (join '','' (map f (v0 # vs)) @ '']'' @ t) acc = Some (JArr (acc @ v0 # vs), t)"
  using assms
proof (induction vs arbitrary: v0 acc)
  case Nil
  then have "reads (f v0) v0" by simp
  then obtain n where n: "\<forall>m \<ge> n. json_value m (f v0 @ '']'' @ t) = Some (v0, '']'' @ t)"
    unfolding reads_def by fastforce
  have "json_items m (f v0 @ '']'' @ t) acc = Some (JArr (acc @ [v0]), t)" if "Suc n \<le> m" for m
    using that n by (cases m) (simp_all add: skip_ws_id)
  then show ?case by auto
next
  case (Cons v1 vs)
  let ?rest = "join '','' (map f (v1 # vs)) @ '']'' @ t"
  from Cons.prems have "reads (f v0) v0" by simp
  then obtain n where n: "\<forall>m \<ge> n. json_value m (f v0 @ '','' @ ?rest) = Some (v0, '','' @ ?rest)"
    using readsD by fastforce
  from Cons.IH[of v1 "acc @ [v0]"] Cons.prems
  obtain k where k: "\<forall>m \<ge> k. json_items m ?rest (acc @ [v0]) = Some (JArr (acc @ v0 # v1 # vs), t)" by auto
  have "json_items m (f v0 @ '','' @ ?rest) acc = Some (JArr (acc @ v0 # v1 # vs), t)"
    if "Suc (max n k) \<le> m" for m
    using that n k by (cases m) (simp_all add: skip_ws_id del: join.simps list.map)
  then show ?case by auto
qed

lemma aput_fresh: "k \<notin> fst ` set xs \<Longrightarrow> aput k v xs = xs @ [(k, v)]"
  by (induction xs) auto

lemma reads_members:
  assumes "\<And>k v. (k, v) \<in> set (p # ps) \<Longrightarrow> reads (f v) v" "distinct (map fst (acc @ p # ps))"
  shows "\<exists>n. \<forall>m \<ge> n. json_members m
     (join '','' (map (\<lambda>(k, v). quote_string k @ '':'' @ f v) (p # ps)) @ ''}'' @ t) acc = Some (JObj (acc @ p # ps), t)"
  using assms
proof (induction ps arbitrary: p acc)
  case Nil
  obtain k v where p: "p = (k, v)" by fastforce
  with Nil have "reads (f v) v" by auto
  then obtain n where n: "\<forall>m \<ge> n. json_value m (f v @ ''}'' @ t) = Some (v, ''}'' @ t)"
    using readsD by fastforce
  have "json_members m (quote_string k @ '':'' @ f v @ ''}'' @ t) acc = Some (JObj (acc @ [(k, v)]), t)"
    if "Suc n \<le> m" for m
    using that n Nil.prems(2) p
    by (cases m) (simp_all add: skip_ws_id quote_string_def json_str_quoted aput_fresh)
  then show ?case by (auto simp: p)
next
  case (Cons q ps)
  obtain k v where p: "p = (k, v)" by fastforce
  let ?rest = "join '','' (map (\<lambda>(k, v). quote_string k @ '':'' @ f v) (q # ps)) @ ''}'' @ t"
  from Cons.prems p have "reads (f v) v" by auto
  then obtain n where n: "\<forall>m \<ge> n. json_value m (f v @ '','' @ ?rest) = Some (v, '','' @ ?rest)"
    using readsD by fastforce
  have "\<exists>n. \<forall>m \<ge> n. json_members m ?rest (acc @ [(k, v)]) = Some (JObj ((acc @ [(k, v)]) @ q # ps), t)"
    using Cons.prems p by (intro Cons.IH) auto
  then obtain j where j: "\<forall>m \<ge> j. json_members m ?rest (acc @ [(k, v)]) = Some (JObj (acc @ p # q # ps), t)"
    by (auto simp: p)
  have "json_members m (quote_string k @ '':'' @ f v @ '','' @ ?rest) acc = Some (JObj (acc @ p # q # ps), t)"
    if "Suc (max n j) \<le> m" for m
    using that n j Cons.prems(2) p
    by (cases m) (simp_all add: skip_ws_id quote_string_def json_str_quoted aput_fresh del: join.simps list.map)
  then show ?case by (auto simp: p case_prod_unfold)
qed

lemma stringify_int: "textual (JNum n) \<Longrightarrow>
    \<exists>i. n = Fin (of_int i) \<and> \<bar>i\<bar> < 2 ^ 53 \<and> stringify (JNum n) = show_int i"
proof (cases n)
  case (Fin x)
  assume "textual (JNum n)"
  with Fin have x: "x = of_int \<lfloor>x\<rfloor>" "\<bar>x\<bar> < 2 ^ 53" by simp_all
  then have "\<bar>of_int \<lfloor>x\<rfloor> :: rat\<bar> < of_int (2 ^ 53)" by simp
  then have b: "\<bar>\<lfloor>x\<rfloor>\<bar> < 2 ^ 53" by (simp only: of_int_abs[symmetric] of_int_less_iff)
  then have "rat_to_string (of_int \<lfloor>x\<rfloor>) = show_int \<lfloor>x\<rfloor>" by (intro rat_to_string_of_int) simp
  with x(1) b Fin show ?thesis by (intro exI[of _ "\<lfloor>x\<rfloor>"]) simp
qed simp_all

lemma stringify_head:
  assumes "textual v"
  shows "\<exists>c r. stringify v = c # r \<and> (of_char c :: nat) \<notin> {9, 10, 13, 32} \<and> c \<noteq> CHR '']''"
proof (cases v)
  case (JNum n)
  with assms obtain i where "stringify v = show_int i" using stringify_int by blast
  moreover obtain c r where "show_int i = c # r" "is_digit c \<or> c = CHR ''-''" using show_int_head by blast
  ultimately show ?thesis by (auto simp: is_digit_def Let_def)
qed (use assms in \<open>auto simp: quote_string_def\<close>)

lemma join_Cons: "join sep (x # xs) = x @ (if xs = [] then [] else sep @ join sep xs)"
  by (cases xs) simp_all

lemma reads_stringify: "textual v \<Longrightarrow> reads (stringify v) v"
proof (induction v rule: stringify.induct)
  case 3
  show ?case by (rule readsI[of 1]) (auto simp: skip_ws_id keyword_def dest!: Suc_le_D)
next
  case (4 b)
  show ?case by (rule readsI[of 1]) (auto simp: skip_ws_id keyword_def dest!: Suc_le_D)
next
  case (5 n)
  then show ?case using stringify_int[of n] reads_show_int by auto
next
  case (6 s)
  show ?case
    by (rule readsI[of 1]) (auto simp: skip_ws_id quote_string_def json_str_quoted dest!: Suc_le_D)
next
  case (7 xs)
  show ?case
  proof (cases xs)
    case Nil
    show ?thesis by (rule readsI[of 1]) (auto simp: Nil skip_ws_id dest!: Suc_le_D)
  next
    case (Cons v vs)
    have all: "reads (stringify x) x" if "x \<in> set (v # vs)" for x
      using 7 that Cons by (auto simp: list_all_iff)
    have "\<exists>c r. stringify v = c # r \<and> (of_char c :: nat) \<notin> {9, 10, 13, 32} \<and> c \<noteq> CHR '']''"
      using 7 Cons by (intro stringify_head) simp
    then obtain c r where c: "stringify v = c # r" "(of_char c :: nat) \<notin> {9, 10, 13, 32}" "c \<noteq> CHR '']''"
      by blast
    show ?thesis unfolding reads_def
    proof (intro allI impI)
      fix t
      let ?in = "join '','' (map stringify (v # vs)) @ '']'' @ t"
      obtain n where n: "\<forall>m \<ge> n. json_items m ?in [] = Some (JArr (v # vs), t)"
        using reads_items[of v vs stringify t "[]"] all by auto
      obtain r' where "?in = c # r'" by (simp add: join_Cons c(1))
      then have h: "skip_ws ?in = c # r'" using c(2) by (simp add: skip_ws_id)
      have "json_value m (stringify (JArr xs) @ t) = Some (JArr xs, t)" if le: "Suc n \<le> m" for m
      proof -
        obtain k where k: "m = Suc k" "n \<le> k" using le by (auto dest: Suc_le_D)
        have "json_value (Suc k) (CHR ''['' # ?in) = json_items k ?in []"
          unfolding json_value.simps(2) using h c(3) by (simp add: skip_ws_id del: list.map join.simps)
        with n k show ?thesis by (simp add: Cons del: list.map join.simps json_value.simps)
      qed
      then show "\<exists>n. \<forall>m \<ge> n. json_value m (stringify (JArr xs) @ t) = Some (JArr xs, t)" by blast
    qed
  qed
next
  case (8 ps)
  from 8 have f: "filter (\<lambda>(k, v). \<not> is_absent v) ps = ps"
    by (auto simp: filter_id_conv list_all_iff dest: textual_present)
  show ?case
  proof (cases ps)
    case Nil
    show ?thesis by (rule readsI[of 1]) (auto simp: Nil skip_ws_id dest!: Suc_le_D)
  next
    case (Cons p qs)
    have all: "reads (stringify v) v" if "(k, v) \<in> set (p # qs)" for k v
    proof -
      have m: "(k, v) \<in> set ps" using that Cons by simp
      with 8 have "textual v" by (auto simp: list_all_iff)
      with 8(1)[of "(k, v)" k v] m f show ?thesis by simp
    qed
    show ?thesis unfolding reads_def
    proof (intro allI impI)
      fix t
      let ?in = "join '','' (map (\<lambda>(k, v). quote_string k @ '':'' @ stringify v) (p # qs)) @ ''}'' @ t"
      obtain n where n: "\<forall>m \<ge> n. json_members m ?in [] = Some (JObj (p # qs), t)"
        using reads_members[of p qs stringify "[]" t] all 8 Cons by auto
      obtain r' where "?in = CHR 0x22 # r'"
        by (cases p) (simp add: join_Cons quote_string_def)
      then have h: "skip_ws ?in = CHR 0x22 # r'" by (simp add: skip_ws_id)
      have "json_value m (stringify (JObj ps) @ t) = Some (JObj ps, t)" if le: "Suc n \<le> m" for m
      proof -
        obtain k where k: "m = Suc k" "n \<le> k" using le by (auto dest: Suc_le_D)
        have "json_value (Suc k) (CHR ''{'' # ?in) = json_members k ?in []"
          unfolding json_value.simps(2) using h by (simp add: skip_ws_id del: list.map join.simps)
        with n k f show ?thesis by (simp add: Cons del: list.map join.simps json_value.simps filter.simps)
      qed
      then show "\<exists>n. \<forall>m \<ge> n. json_value m (stringify (JObj ps) @ t) = Some (JObj ps, t)" by blast
    qed
  qed
qed simp_all

text \<open>\<open>JSON.parse(JSON.stringify(v))\<close> is \<open>v\<close>.\<close>

lemma parse_stringify: "textual v \<Longrightarrow> json_parse (stringify v) = Some v"
proof -
  assume "textual v"
  then have "reads (stringify v) v" by (rule reads_stringify)
  from readsD[OF this, of "[]"] have "\<exists>n. \<forall>m \<ge> n. json_value m (stringify v @ []) = Some (v, [])" by simp
  then obtain n where n: "\<And>m. n \<le> m \<Longrightarrow> json_value m (stringify v) = Some (v, [])" by auto
  let ?k = "2 * length (stringify v) + 2"
  have "json_value (?k + d) (stringify v) = json_value ?k (stringify v)" for d
  proof (induction d)
    case (Suc d)
    have "json_value (Suc (?k + d)) (stringify v) = json_value (?k + d) (stringify v)"
      using json_fuel_enough[of "?k + d"] by simp
    with Suc show ?case by simp
  qed simp
  from this[of n] n[of "?k + n"] show ?thesis by (simp add: json_parse_def skip_ws_def)
qed

end
