(* ===== verification/BillingFacts.thy ===== *)
theory BillingFacts
  imports Billing JsonText
begin

text \<open>
  Webhooks: what can change the billing tables, that a redelivered event changes nothing, and that
  a top-up credits what its checkout promised.
\<close>

section \<open>Handlers\<close>

lemma grantCredits_ok:
  "grantCredits i now inp l = (Inr g, l') \<Longrightarrow>
     g = make_grant i now inp \<and> l' = l\<lparr>grants := grants l @ [g]\<rparr>"
  by (auto simp: grantCredits_def insert_grant_def split: if_splits)

lemma checkout_grant_session:
  "checkout_grant s = Inr inp \<Longrightarrow> gi_stripeSessionId inp = Some (to_string (get_prop s ''id''))"
  by (auto simp: checkout_grant_def Let_def split: sum.splits)

lemma onCheckoutCompleted_cases:
  assumes "onCheckoutCompleted i now s st = (res, st')"
  obtains (same) "st' = st"
  | (granted) inp g where "checkout_grant s = Inr inp" "\<not> checkout_ignored s" "res = Inr ()"
      "grantCredits i now inp (bs_ledger st) = (Inr g, bs_ledger st')" "st' = st\<lparr>bs_ledger := bs_ledger st'\<rparr>"
  using assms unfolding onCheckoutCompleted_def
  by (auto split: if_splits sum.splits prod.splits)

lemma onInvoicePaid_cases:
  assumes "onInvoicePaid ids now v st = (res, st')"
  obtains (same) "st' = st"
  | (renewed) sub pe r where "applyRenewal ids now sub (to_string (get_prop v ''id'')) pe st = (Inr r, st')"
      "rr_applied r" "res = Inr ()" "\<not> invoice_ignored v"
proof (cases "st' = st")
  case False
  with assms obtain sub where sub: "renew ids now v sub st = (res, st')" "\<not> invoice_ignored v"
    by (auto simp: onInvoicePaid_def split: if_splits option.splits)
  with False obtain r pe where ap: "applyRenewal ids now sub (to_string (get_prop v ''id'')) pe st = (Inr r, st')"
    and "res = Inr ()"
    by (auto simp: renew_def Let_def split: sum.splits prod.splits if_splits)
  from ap have "rr_applied r"
  proof (cases rule: applyRenewal_cases)
    case skip
    with False show ?thesis by simp
  qed simp
  with ap sub(2) \<open>res = Inr ()\<close> renewed show ?thesis by blast
qed (rule same)

lemma dispatch_cases:
  assumes "dispatch ids now ev st = (res, st')"
  obtains (same) "st' = st"
  | (checkout) "get_prop ev ''type'' = JStr ''checkout.session.completed''"
      "onCheckoutCompleted (fst ids) now (get_prop (get_prop ev ''data'') ''object'') st = (res, st')"
  | (invoice) "get_prop ev ''type'' = JStr ''invoice.paid''"
      "onInvoicePaid ids now (get_prop (get_prop ev ''data'') ''object'') st = (res, st')"
  | (changed) "get_prop ev ''type'' = JStr ''customer.subscription.created'' \<or> get_prop ev ''type'' = JStr ''customer.subscription.updated''"
      "onSubscriptionChanged (fst ids) (get_prop (get_prop ev ''data'') ''object'') st = (res, st')"
  | (deleted) "get_prop ev ''type'' = JStr ''customer.subscription.deleted''"
      "onSubscriptionDeleted (get_prop (get_prop ev ''data'') ''object'') st = (res, st')"
  using assms unfolding dispatch_def Let_def by (auto split: if_splits)

section \<open>The signature\<close>

text \<open>What a delivery that is acted on carries.\<close>

definition signed :: "(string \<Rightarrow> string \<Rightarrow> string) \<Rightarrow> billing_config \<Rightarrow> time \<Rightarrow> string \<Rightarrow> string \<Rightarrow> bool" where
  "signed hmac cfg now raw h \<longleftrightarrow> bc_stripeWebhookSecret cfg \<noteq> [] \<and>
     (case header_timestamp h of
        Fin ts \<Rightarrow> \<bar>fl (fl (of_int now / 1000) - ts)\<bar> \<le> of_int WEBHOOK_TOLERANCE_SECONDS
          \<and> list_ex (\<lambda>s. hex_bytes s = hex_bytes (hmac (bc_stripeWebhookSecret cfg) (rat_to_string ts @ ''.'' @ raw)))
              (header_values h ''v1'')
      | _ \<Rightarrow> False)"

lemma verifySignature_ok:
  assumes "verifySignature hmac cfg now raw header = Inr ()"
  shows "\<exists>h. header = Some h \<and> signed hmac cfg now raw h"
proof -
  from assms have secret: "bc_stripeWebhookSecret cfg \<noteq> []"
    unfolding verifySignature_def by (rule contrapos_pn) simp
  from assms secret obtain h where h: "header = Some h" "h \<noteq> []"
    unfolding verifySignature_def by (cases header) (auto split: if_splits)
  from assms secret h obtain ts where ts: "header_timestamp h = Fin ts"
    unfolding verifySignature_def by (cases "header_timestamp h") simp_all
  let ?far = "of_int WEBHOOK_TOLERANCE_SECONDS < \<bar>fl (fl (of_int now / 1000) - ts)\<bar>"
  let ?sig = "list_ex (\<lambda>s. hex_bytes s = hex_bytes (hmac (bc_stripeWebhookSecret cfg) (rat_to_string ts @ ''.'' @ raw)))
              (header_values h ''v1'')"
  have eq: "verifySignature hmac cfg now raw header =
     (if header_values h ''v1'' = [] then Inl (Unauthorized ''Malformed Stripe signature'')
      else if ?far then Inl (Unauthorized ''Stripe signature timestamp out of tolerance'')
      else if ?sig then Inr () else Inl (Unauthorized ''Invalid Stripe signature''))"
    unfolding verifySignature_def Let_def h(1) option.case ts jsnum.case
    by (simp only: secret h(2) if_False)
  have "\<not> ?far" and "?sig" using assms unfolding eq by (metis sum.distinct(1))+
  then show ?thesis using h secret ts by (simp only: signed_def jsnum.case not_less simp_thms option.inject ex_simps(1))
qed

lemma webhook_event_signed:
  assumes "webhook_event hmac cfg now raw header = Inr ev"
  shows "\<exists>r h. raw = Some r \<and> header = Some h \<and> signed hmac cfg now r h \<and> json_parse r = Some ev"
  using assms unfolding webhook_event_def
  by (auto split: option.splits sum.splits if_splits dest!: verifySignature_ok)

section \<open>Redelivery\<close>

lemma save_row_idem: "save_row key r (save_row key r rows) = save_row key r rows"
proof (cases "\<exists>x \<in> set rows. key x = key r")
  case True
  have "update_where (\<lambda>x. key x = key r) (\<lambda>_. r) (update_where (\<lambda>x. key x = key r) (\<lambda>_. r) rows)
      = update_where (\<lambda>x. key x = key r) (\<lambda>_. r) rows"
    by (induction rows) auto
  moreover have "\<exists>x \<in> set (update_where (\<lambda>x. key x = key r) (\<lambda>_. r) rows). key x = key r"
    using True by (intro bexI[of _ r]) (simp_all add: in_set_update_where)
  ultimately show ?thesis by (simp only: save_row_def True if_True)
next
  case False
  have "update_where (\<lambda>x. key x = key r) (\<lambda>_. r) rows = rows"
    using False by (intro update_where_none) blast
  then have "update_where (\<lambda>x. key x = key r) (\<lambda>_. r) (rows @ [r]) = rows @ [r]"
    by (simp add: update_where_def)
  then show ?thesis by (simp only: save_row_def False if_False) simp
qed

lemma syncFromStripe_again:
  assumes wf: "subs_wf subs" and one: "syncFromStripe i ws planId v subs = (Inr r, subs')"
  shows "snd (syncFromStripe i' ws planId v subs') = subs'"
proof -
  let ?sid = "to_string (get_prop v ''id'')"
  have found: "findByStripeId subs' ?sid = Some r"
    using sync_mirrors_stripe[OF wf one] by simp
  obtain period where period: "subscriptionPeriod v = Inr period"
    using one by (auto simp: syncFromStripe_def Let_def split: sum.splits)
  define row where "row j s f seats = \<lparr>su_id = j, su_workspaceId = ws, su_planId = planId,
      su_status = toStatus (get_prop v ''status''), su_stripeSubscriptionId = ?sid,
      su_stripeCustomerId = to_string (get_prop v ''customer''), su_currentPeriodStart = s,
      su_currentPeriodEnd = f, su_seats = seats,
      su_cancelAtPeriodEnd = truthy (get_prop v ''cancel_at_period_end'')\<rparr>" for j s f seats
  obtain j s f seats where r: "save_subscription (row j s f seats) subs = (Inr r, subs')"
      "period = None \<or> period = Some (s, f)"
    using one period unfolding syncFromStripe_def Let_def row_def
    by (auto split: option.splits)
  then have row: "r = row j s f seats" and subs': "subs' = save_row su_id r subs"
    and free: "\<not> (\<exists>x \<in> set subs. su_id x \<noteq> su_id r \<and>
           (su_workspaceId x = su_workspaceId r \<or> su_stripeSubscriptionId x = su_stripeSubscriptionId r))"
    by (auto simp: save_subscription_def split: if_splits)
  have "syncFromStripe i' ws planId v subs' = save_subscription r subs'"
    using r(2) by (auto simp: syncFromStripe_def period found Let_def row row_def)
  moreover have "\<not> (\<exists>x \<in> set subs'. su_id x \<noteq> su_id r \<and>
           (su_workspaceId x = su_workspaceId r \<or> su_stripeSubscriptionId x = su_stripeSubscriptionId r))"
    using free by (auto simp: subs' set_save_row)
  ultimately show ?thesis by (simp add: save_subscription_def subs' save_row_idem)
qed

lemma checkout_again:
  assumes "onCheckoutCompleted i now s st = (Inr (), st')"
  shows "onCheckoutCompleted i' now' s st' = (Inr (), st')"
  using assms
proof (cases rule: onCheckoutCompleted_cases)
  case same
  have "fst (grantCredits i' now' inp l) = fst (grantCredits i now inp l)
      \<or> is_ok (fst (grantCredits i now inp l))" for inp l
    by (simp add: grantCredits_def insert_grant_def make_grant_def)
  then have *: "grantCredits i now inp l = (Inl e, l1) \<Longrightarrow> \<exists>l2. grantCredits i' now' inp l = (Inl e, l2)" for inp l e l1
    by (metis fst_conv is_ok_simps(1) prod.collapse)
  have kept: "st\<lparr>bs_ledger := l1\<rparr> \<noteq> st" if "grantCredits i now inp (bs_ledger st) = (Inr g, l1)" for inp g l1
  proof
    assume "st\<lparr>bs_ledger := l1\<rparr> = st"
    then have "bs_ledger (st\<lparr>bs_ledger := l1\<rparr>) = bs_ledger st" by (rule arg_cong)
    moreover have "grants l1 = grants (bs_ledger st) @ [g]"
      using grantCredits_ok[OF that] by simp
    ultimately show False by simp
  qed
  show ?thesis
  proof (cases "checkout_ignored s \<or> hasGrantForStripeSession (to_string (get_prop s ''id'')) (bs_ledger st)")
    case False
    with assms obtain inp where inp: "checkout_grant s = Inr inp"
      by (auto simp: onCheckoutCompleted_def split: sum.splits)
    obtain rr l1 where g: "grantCredits i now inp (bs_ledger st) = (rr, l1)" by (cases "grantCredits i now inp (bs_ledger st)")
    with assms False inp kept[of inp _ l1] obtain e where "rr = Inl e" "isUniqueViolation e"
      unfolding same by (cases rr) (auto simp: onCheckoutCompleted_def split: if_splits)
    with g *[of inp "bs_ledger st" e l1] False inp show ?thesis
      unfolding same by (auto simp: onCheckoutCompleted_def)
  qed (simp add: onCheckoutCompleted_def same)
next
  case (granted inp g)
  have "g \<in> set (grants (bs_ledger st'))" "cg_stripeSessionId g = Some (to_string (get_prop s ''id''))"
    using grantCredits_ok[OF granted(4)] checkout_grant_session[OF granted(1)]
    by (simp_all add: make_grant_def)
  then have "hasGrantForStripeSession (to_string (get_prop s ''id'')) (bs_ledger st')"
    by (auto simp: hasGrantForStripeSession_def find_None_iff_all)
  then show ?thesis by (simp add: onCheckoutCompleted_def)
qed

lemma invoice_again:
  assumes "onInvoicePaid ids now v st = (Inr (), st')"
  shows "snd (onInvoicePaid ids' now' v st') = st'"
  using assms
proof (cases rule: onInvoicePaid_cases)
  case (renewed sub pe r)
  have "applyRenewal ids' now' sub' (to_string (get_prop v ''id'')) pe' st' = (Inr not_applied, st')" for sub' pe'
    using renewal_is_idempotent_lemma[OF renewed(1,2)] .
  then show ?thesis
    by (simp add: onInvoicePaid_def renew_def Let_def not_applied_def split: option.split)
next
  case same
  show ?thesis
  proof (rule ccontr)
    assume changed: "snd (onInvoicePaid ids' now' v st') \<noteq> st'"
    then obtain sid sub where found: "\<not> invoice_ignored v" "subscriptionIdFromInvoice v = Some sid"
        "findByStripeId (bs_subscriptions st') sid = Some sub" "snd (renew ids' now' v sub st') \<noteq> st'"
      by (auto simp: onInvoicePaid_def split: if_splits option.splits)
    then have one: "renew ids now v sub st' = (Inr (), st')"
      using assms by (simp add: onInvoicePaid_def same)
    let ?pe = "case renew_until v sub of Some t \<Rightarrow> t | None \<Rightarrow> 0"
    from one obtain r where r: "applyRenewal ids now sub (to_string (get_prop v ''id'')) ?pe st' = (Inr r, st')"
      by (auto simp: renew_def Let_def split: sum.splits prod.splits if_splits)
    have "\<not> rr_applied r"
      using renewal_changes[OF r] by blast
    then have "applyRenewal ids' now' sub (to_string (get_prop v ''id'')) ?pe st' = (Inr not_applied, st')"
      by (rule renewal_declined_again[OF r])
    with found(4) show False by (simp add: renew_def Let_def not_applied_def)
  qed
qed

lemma changed_again:
  assumes "subs_wf (bs_subscriptions st)" "onSubscriptionChanged i v st = (Inr (), st')"
  shows "snd (onSubscriptionChanged i' v st') = st'"
proof (cases "\<not> truthy (get_prop v ''id'') \<or> \<not> truthy (get_prop (get_prop v ''metadata'') ''workspaceId'')
    \<or> \<not> truthy (get_prop (get_prop v ''metadata'') ''planId'')")
  case True
  then show ?thesis by (auto simp: onSubscriptionChanged_def Let_def)
next
  case False
  let ?sync = "\<lambda>i. syncFromStripe i (to_string (get_prop (get_prop v ''metadata'') ''workspaceId''))
      (to_string (get_prop (get_prop v ''metadata'') ''planId'')) v"
  from assms(2) False obtain r subs' where s: "?sync i (bs_subscriptions st) = (Inr r, subs')"
    "st' = st\<lparr>bs_subscriptions := subs'\<rparr>"
    by (auto simp: onSubscriptionChanged_def Let_def split: sum.splits prod.splits)
  from syncFromStripe_again[OF assms(1) s(1)] have "snd (?sync i' subs') = subs'" .
  with s(2) show ?thesis
    by (auto simp: onSubscriptionChanged_def Let_def split: sum.split prod.split)
qed

lemma deleted_again:
  "onSubscriptionDeleted v st = (Inr (), st') \<Longrightarrow> snd (onSubscriptionDeleted v st') = st'"
proof -
  have "markStatus s t (markStatus s t subs) = markStatus s t subs" for s t subs
    unfolding markStatus_def by (induction subs) auto
  then show "onSubscriptionDeleted v st = (Inr (), st') \<Longrightarrow> snd (onSubscriptionDeleted v st') = st'"
    by (auto simp: onSubscriptionDeleted_def split: if_splits)
qed

section \<open>Properties\<close>

text \<open>C7: a delivery changes the billing tables only when it carries a signature, made with the
  configured secret over the timestamp and the exact body, that is at most five minutes old.\<close>

theorem webhook_needs_valid_signature:
  assumes "snd (handleWebhook hmac cfg ids now raw header st) \<noteq> st"
  shows "\<exists>r h. raw = Some r \<and> header = Some h \<and> signed hmac cfg now r h"
proof -
  from assms obtain ev where "webhook_event hmac cfg now raw header = Inr ev"
    by (auto simp: handleWebhook_def split: sum.splits)
  from webhook_event_signed[OF this] show ?thesis by blast
qed

definition sample_config :: billing_config where
  "sample_config = \<lparr>bc_stripeSecretKey = ''sk'', bc_stripeWebhookSecret = ''whsec'', bc_frontendUrl = ''https://app''\<rparr>"

definition sample_hmac :: "string \<Rightarrow> string \<Rightarrow> string" where
  "sample_hmac key msg = (if msg = [] then ''00'' else ''ab'')"

definition deleted_body :: string where
  "deleted_body = ''{\"type\":\"customer.subscription.deleted\",\"data\":{\"object\":{\"id\":\"sub_1\"}}}''"

definition deliver :: "time \<Rightarrow> string \<Rightarrow> billing_state \<Rightarrow> unit result \<times> billing_state" where
  "deliver now body = handleWebhook sample_hmac sample_config (''n1'', ''n2'', ''n3'') now (Some body) (Some ''t=1,v1=ab'')"

lemma webhook_needs_valid_signature_witness:
  "signed sample_hmac sample_config 2000 deleted_body ''t=1,v1=ab''"
proof -
  have "map su_status (bs_subscriptions (snd (deliver 2000 deleted_body sample_billing))) = [CANCELED]"
    by code_simp
  moreover have "map su_status (bs_subscriptions sample_billing) = [ACTIVE]"
    by (simp add: sample_billing_def sample_subscription_def)
  ultimately have "snd (deliver 2000 deleted_body sample_billing) \<noteq> sample_billing" by auto
  from webhook_needs_valid_signature[OF this[unfolded deliver_def]] show ?thesis by simp
qed

section \<open>Histories\<close>

text \<open>
  What may come between two deliveries: other webhooks, runs that are charged, grants made elsewhere
  (onboarding, by hand) and any change of the roster.
\<close>

datatype billing_move =
  Webhook "uuid \<times> uuid \<times> uuid" time "string option" "string option"
| ServedRun string uuid time record_usage_input
| OtherGrant uuid time grant_credits_input
| NewRoster "user list"

fun billing_step :: "(string \<Rightarrow> string \<Rightarrow> string) \<Rightarrow> billing_config \<Rightarrow> billing_move \<Rightarrow> billing_state \<Rightarrow> billing_state" where
  "billing_step hmac cfg (Webhook ids now raw h) st = snd (handleWebhook hmac cfg ids now raw h st)"
| "billing_step hmac cfg (ServedRun gw i now inp) st = st\<lparr>bs_ledger := snd (recordEvent gw i now inp (bs_ledger st))\<rparr>"
| "billing_step hmac cfg (OtherGrant i now inp) st = st\<lparr>bs_ledger := snd (grantCredits i now inp (bs_ledger st))\<rparr>"
| "billing_step hmac cfg (NewRoster us) st = st\<lparr>bs_users := us\<rparr>"

definition billing_history ::
  "(string \<Rightarrow> string \<Rightarrow> string) \<Rightarrow> billing_config \<Rightarrow> billing_move list \<Rightarrow> billing_state \<Rightarrow> billing_state" where
  "billing_history hmac cfg moves st = fold (billing_step hmac cfg) moves st"

lemma onCheckoutCompleted_keeps: "set (grants (bs_ledger st)) \<subseteq> set (grants (bs_ledger (snd (onCheckoutCompleted i now s st))))"
proof -
  obtain res st' where o: "onCheckoutCompleted i now s st = (res, st')" by fastforce
  then show ?thesis
  proof (cases rule: onCheckoutCompleted_cases)
    case (granted inp g)
    from grantCredits_ok[OF granted(4)] have "grants (bs_ledger st') = grants (bs_ledger st) @ [g]" by simp
    with o show ?thesis by auto
  qed (simp add: o)
qed

lemma onInvoicePaid_keeps: "set (grants (bs_ledger st)) \<subseteq> set (grants (bs_ledger (snd (onInvoicePaid ids now v st))))"
proof -
  obtain res st' where o: "onInvoicePaid ids now v st = (res, st')" by fastforce
  then show ?thesis
  proof (cases rule: onInvoicePaid_cases)
    case (renewed sub pe r)
    from renewed(1) have "set (grants (bs_ledger st)) \<subseteq> set (grants (bs_ledger st'))"
      by (cases rule: applyRenewal_cases) (auto dest: insert_all_grants)
    with o show ?thesis by simp
  qed (simp add: o)
qed

lemma subscription_handlers_keep:
  "bs_ledger (snd (onSubscriptionChanged i v st)) = bs_ledger st" "bs_ledger (snd (onSubscriptionDeleted v st)) = bs_ledger st"
  by (auto simp: onSubscriptionChanged_def onSubscriptionDeleted_def Let_def split: sum.splits prod.splits)

lemma dispatch_keeps: "set (grants (bs_ledger st)) \<subseteq> set (grants (bs_ledger (snd (dispatch ids now ev st))))"
  using onCheckoutCompleted_keeps onInvoicePaid_keeps
  by (auto simp: dispatch_def Let_def subscription_handlers_keep)

lemma billing_step_keeps: "set (grants (bs_ledger st)) \<subseteq> set (grants (bs_ledger (billing_step hmac cfg m st)))"
proof (cases m)
  case (Webhook ids now raw h)
  then show ?thesis using dispatch_keeps by (auto simp: handleWebhook_def split: sum.split)
next
  case (ServedRun gw i now inp)
  then show ?thesis by (simp add: recordEvent_def allocate_def Let_def)
next
  case (OtherGrant i now inp)
  then show ?thesis by (auto simp: grantCredits_def insert_grant_def)
qed simp

lemma history_keeps: "set (grants (bs_ledger st)) \<subseteq> set (grants (bs_ledger (billing_history hmac cfg moves st)))"
proof (induction moves arbitrary: st)
  case (Cons m moves)
  from billing_step_keeps[of st hmac cfg m] Cons[of "billing_step hmac cfg m st"] show ?case
    unfolding billing_history_def by simp
qed (simp add: billing_history_def)

text \<open>A grant that carries the reference of an event stays, and turns every later delivery away.\<close>

definition absorbed :: "jsval \<Rightarrow> billing_state \<Rightarrow> bool" where
  "absorbed ev st \<longleftrightarrow> (let obj = get_prop (get_prop ev ''data'') ''object''; i = Some (to_string (get_prop obj ''id'')) in
     get_prop ev ''type'' = JStr ''checkout.session.completed'' \<and> (\<exists>g \<in> set (grants (bs_ledger st)). cg_stripeSessionId g = i)
     \<or> get_prop ev ''type'' = JStr ''invoice.paid'' \<and> (\<exists>g \<in> set (grants (bs_ledger st)). cg_stripeInvoiceId g = i))"

lemma absorbed_later: "absorbed ev st \<Longrightarrow> absorbed ev (billing_history hmac cfg moves st)"
  using history_keeps[of st hmac cfg moves] unfolding absorbed_def Let_def by blast

lemma renewal_turned_away:
  "\<exists>g \<in> set (grants (bs_ledger st)). cg_stripeInvoiceId g = Some invoice \<Longrightarrow>
     applyRenewal ids now sub invoice pe st = (Inr not_applied, st)"
  by (auto simp: applyRenewal_def list_ex_iff split: option.split)

lemma renewal_leaves_reference:
  assumes "applyRenewal ids now sub invoice pe st = (Inr r, st')" "rr_applied r"
  shows "\<exists>g \<in> set (grants (bs_ledger st')). cg_stripeInvoiceId g = Some invoice"
  using assms(1)
proof (cases rule: applyRenewal_cases)
  case skip
  with assms(2) show ?thesis by (auto simp: not_applied_def)
next
  case (applied plan)
  from insert_all_grants[OF applied(3)] show ?thesis by (cases ids) (auto simp: renewal_grants_def Let_def)
qed

lemma absorbed_turned_away: "absorbed ev st \<Longrightarrow> bs_ledger (snd (dispatch ids now ev st)) = bs_ledger st"
proof -
  let ?o = "get_prop (get_prop ev ''data'') ''object''"
  assume "absorbed ev st"
  then consider (co) "get_prop ev ''type'' = JStr ''checkout.session.completed''" "hasGrantForStripeSession (to_string (get_prop ?o ''id'')) (bs_ledger st)"
    | (inv) "get_prop ev ''type'' = JStr ''invoice.paid''" "\<exists>g \<in> set (grants (bs_ledger st)). cg_stripeInvoiceId g = Some (to_string (get_prop ?o ''id''))"
    by (auto simp: absorbed_def Let_def hasGrantForStripeSession_def find_None_iff_all)
  then show ?thesis
  proof cases
    case co
    then show ?thesis by (simp add: dispatch_def onCheckoutCompleted_def)
  next
    case inv
    then show ?thesis
      by (simp add: dispatch_def onInvoicePaid_def renew_def Let_def renewal_turned_away not_applied_def split: option.split)
  qed
qed

lemma credited_is_absorbed:
  assumes "dispatch ids now ev st = (res, st')" "bs_ledger st' \<noteq> bs_ledger st"
  shows "absorbed ev st'"
  using assms(1)
proof (cases rule: dispatch_cases)
  case checkout
  from checkout(2) show ?thesis
  proof (cases rule: onCheckoutCompleted_cases)
    case (granted inp g)
    from grantCredits_ok[OF granted(4)] have "g \<in> set (grants (bs_ledger st'))" "g = make_grant (fst ids) now inp" by simp_all
    moreover from this(2) checkout_grant_session[OF granted(1)]
    have "cg_stripeSessionId g = Some (to_string (get_prop (get_prop (get_prop ev ''data'') ''object'') ''id''))"
      by (simp add: make_grant_def)
    ultimately show ?thesis unfolding absorbed_def Let_def using checkout(1) by blast
  qed (use assms(2) in simp)
next
  case invoice
  from invoice(2) show ?thesis
  proof (cases rule: onInvoicePaid_cases)
    case (renewed sub pe r)
    from renewal_leaves_reference[OF renewed(1,2)] invoice(1) show ?thesis by (simp add: absorbed_def Let_def)
  qed (use assms(2) in simp)
next
  case changed
  then show ?thesis using assms(2) subscription_handlers_keep(1) by (metis snd_conv)
next
  case deleted
  then show ?thesis using assms(2) subscription_handlers_keep(2) by (metis snd_conv)
qed (use assms(2) in simp)

lemma redelivered_at_once:
  assumes "subs_wf (bs_subscriptions st)"
    and "handleWebhook hmac cfg ids now raw h st = (Inr (), st')"
  shows "snd (handleWebhook hmac cfg ids' now' raw h' st') = st'"
proof (cases "webhook_event hmac cfg now' raw h'")
  case (Inl e)
  then show ?thesis by (simp add: handleWebhook_def)
next
  case (Inr ev)
  obtain ev1 where ev1: "webhook_event hmac cfg now raw h = Inr ev1" "dispatch ids now ev1 st = (Inr (), st')"
    using assms(2) by (auto simp: handleWebhook_def split: sum.splits)
  have "ev1 = ev" using webhook_event_signed[OF Inr] webhook_event_signed[OF ev1(1)] by auto
  let ?o = "get_prop (get_prop ev ''data'') ''object''"
  have "snd (dispatch ids' now' ev st') = st'"
    using ev1(2)[unfolded \<open>ev1 = ev\<close>]
  proof -
    assume d: "dispatch ids now ev st = (Inr (), st')"
    have "get_prop ev ''type'' \<notin> {JStr ''checkout.session.completed'', JStr ''invoice.paid'',
          JStr ''customer.subscription.created'', JStr ''customer.subscription.updated'',
          JStr ''customer.subscription.deleted''} \<Longrightarrow> dispatch ids now ev st = (Inr (), st)" for ids now st
      by (simp add: dispatch_def Let_def)
    then consider (co) "get_prop ev ''type'' = JStr ''checkout.session.completed''"
      | (inv) "get_prop ev ''type'' = JStr ''invoice.paid''"
      | (ch) "get_prop ev ''type'' = JStr ''customer.subscription.created'' \<or> get_prop ev ''type'' = JStr ''customer.subscription.updated''"
      | (de) "get_prop ev ''type'' = JStr ''customer.subscription.deleted''"
      | (no) "\<And>ids now st. dispatch ids now ev st = (Inr (), st)"
      by blast
    then show ?thesis
    proof cases
      case co
      with d checkout_again[of "fst ids" now ?o st st' "fst ids'" now'] show ?thesis by (simp add: dispatch_def)
    next
      case inv
      with d have one: "onInvoicePaid ids now ?o st = (Inr (), st')" by (simp add: dispatch_def)
      have "snd (onInvoicePaid ids' now' ?o st') = st'" by (rule invoice_again[OF one])
      with inv show ?thesis by (simp add: dispatch_def)
    next
      case ch
      with d have one: "onSubscriptionChanged (fst ids) ?o st = (Inr (), st')" by (auto simp: dispatch_def)
      have "snd (onSubscriptionChanged (fst ids') ?o st') = st'" by (rule changed_again[OF assms(1) one])
      with ch show ?thesis by (auto simp: dispatch_def)
    next
      case de
      with d have "onSubscriptionDeleted ?o st = (Inr (), st')" by (simp add: dispatch_def)
      then have "snd (onSubscriptionDeleted ?o st') = st'" by (rule deleted_again)
      with de show ?thesis by (simp add: dispatch_def)
    next
      case no
      with d show ?thesis by simp
    qed
  qed
  with Inr show ?thesis by (simp add: handleWebhook_def)
qed

text \<open>C2: Stripe may deliver an event any number of times. An event whose delivery moved credits never moves
  credits again: whatever other webhooks, charged runs, other grants and roster changes come in between, a later
  delivery of the same body, at any time and under any signature, leaves the whole ledger as it finds it. And any
  acknowledged event that is delivered again at once changes nothing at all, in no table.\<close>

theorem redelivery_changes_nothing:
  assumes "subs_wf (bs_subscriptions st)"
    and "handleWebhook hmac cfg ids now raw h st = (Inr (), st')"
  shows "snd (handleWebhook hmac cfg ids' now' raw h' st') = st'
    \<and> (bs_ledger st' \<noteq> bs_ledger st \<longrightarrow>
        bs_ledger (snd (handleWebhook hmac cfg ids' now' raw h' (billing_history hmac cfg moves st'))) =
        bs_ledger (billing_history hmac cfg moves st'))"
proof (intro conjI impI)
  show "snd (handleWebhook hmac cfg ids' now' raw h' st') = st'" by (rule redelivered_at_once[OF assms])
  assume moved: "bs_ledger st' \<noteq> bs_ledger st"
  obtain ev where ev: "webhook_event hmac cfg now raw h = Inr ev" "dispatch ids now ev st = (Inr (), st')"
    using assms(2) by (auto simp: handleWebhook_def split: sum.splits)
  let ?st = "billing_history hmac cfg moves st'"
  from absorbed_later[OF credited_is_absorbed[OF ev(2) moved]] have a: "absorbed ev ?st" .
  show "bs_ledger (snd (handleWebhook hmac cfg ids' now' raw h' ?st)) = bs_ledger ?st"
  proof (cases "webhook_event hmac cfg now' raw h'")
    case (Inr ev')
    then have "ev' = ev" using webhook_event_signed[OF Inr] webhook_event_signed[OF ev(1)] by auto
    with Inr absorbed_turned_away[OF a] show ?thesis by (simp add: handleWebhook_def)
  qed (simp add: handleWebhook_def)
qed

definition paid_session :: jsval where
  "paid_session = JObj [(''id'', JStr ''cs_1''), (''payment_status'', JStr ''paid''),
     (''amount_total'', JNum (Fin 2500)), (''currency'', JStr ''usd''),
     (''metadata'', JObj [(''workspaceId'', JStr ''w1''), (''credits'', JNum (Fin 10000)), (''packId'', JStr ''starter'')])]"

definition stripe_event :: "string \<Rightarrow> jsval \<Rightarrow> jsval" where
  "stripe_event kind obj = JObj [(''type'', JStr kind), (''data'', JObj [(''object'', obj)])]"

lemma deliver_event:
  assumes "textual ev" "ev \<noteq> JNull"
  shows "deliver 2000 (stringify ev) st = dispatch (''n1'', ''n2'', ''n3'') 2000 ev st"
proof -
  have t: "header_timestamp ''t=1,v1=ab'' = Fin 1" "header_values ''t=1,v1=ab'' ''v1'' = [''ab'']" by code_simp+
  have w: "\<not> of_int WEBHOOK_TOLERANCE_SECONDS < \<bar>fl (fl (of_int 2000 / 1000) - 1)\<bar>" by code_simp
  have "verifySignature sample_hmac sample_config 2000 raw (Some ''t=1,v1=ab'') = Inr ()" for raw
    using t w by (simp add: verifySignature_def sample_config_def sample_hmac_def)
  then show ?thesis
    using parse_stringify[OF assms(1)] assms(2) by (simp add: deliver_def handleWebhook_def webhook_event_def)
qed

definition paid_body :: string where
  "paid_body = stringify (stripe_event ''checkout.session.completed'' paid_session)"

lemma paid_delivery:
  "deliver 2000 paid_body sample_billing
     = dispatch (''n1'', ''n2'', ''n3'') 2000 (stripe_event ''checkout.session.completed'' paid_session) sample_billing"
  unfolding paid_body_def by (rule deliver_event) (simp_all add: stripe_event_def paid_session_def)

lemma redelivery_changes_nothing_witness:
  "bs_ledger (snd (deliver 9000 paid_body (snd (deliver 8000 deleted_body (snd (deliver 2000 paid_body sample_billing))))))
   = bs_ledger (snd (deliver 8000 deleted_body (snd (deliver 2000 paid_body sample_billing))))
   \<and> length (grants (bs_ledger (snd (deliver 2000 paid_body sample_billing)))) = 3"
proof -
  have ok: "is_ok (fst (deliver 2000 paid_body sample_billing))" unfolding paid_delivery by code_simp
  have three: "length (grants (bs_ledger (snd (deliver 2000 paid_body sample_billing)))) = 3"
    unfolding paid_delivery by code_simp
  then have moved: "bs_ledger (snd (deliver 2000 paid_body sample_billing)) \<noteq> bs_ledger sample_billing"
    by (auto simp: sample_billing_def sample_ledger_def)
  from ok have d: "handleWebhook sample_hmac sample_config (''n1'', ''n2'', ''n3'') 2000 (Some paid_body)
      (Some ''t=1,v1=ab'') sample_billing = (Inr (), snd (deliver 2000 paid_body sample_billing))"
    by (simp add: deliver_def is_ok_iff prod_eq_iff)
  have "subs_wf (bs_subscriptions sample_billing)" by (simp add: sample_billing_def sample_subs_wf)
  from redelivery_changes_nothing[OF this d, of _ _ _ "[Webhook (''n1'', ''n2'', ''n3'') 8000 (Some deleted_body) (Some ''t=1,v1=ab'')]"]
    moved three show ?thesis by (simp add: deliver_def billing_history_def)
qed

text \<open>C10: an invoice renews at most once: after it was applied, and whatever other webhooks (renewals by other invoices
  included), charged runs, grants and roster changes have come since, applying it again, for whatever subscription
  row and period, reports that nothing was applied and changes nothing.\<close>

theorem renewal_is_idempotent:
  assumes "applyRenewal ids now sub invoice pe st = (Inr r, st')" "rr_applied r"
  shows "applyRenewal ids' now' sub' invoice pe' (billing_history hmac cfg moves st') =
    (Inr not_applied, billing_history hmac cfg moves st')"
proof (rule renewal_turned_away)
  from renewal_leaves_reference[OF assms] history_keeps[of st' hmac cfg moves]
  show "\<exists>g \<in> set (grants (bs_ledger (billing_history hmac cfg moves st'))). cg_stripeInvoiceId g = Some invoice" by blast
qed

lemma renewal_is_idempotent_witness:
  "let later = snd (deliver 800 deleted_body (snd (applyRenewal (''n1'', ''n2'', ''n3'') 500 sample_subscription ''in_1'' 2000 sample_billing)))
   in applyRenewal (''m1'', ''m2'', ''m3'') 900 sample_subscription ''in_1'' 2000 later = (Inr not_applied, later)"
proof -
  let ?c = "applyRenewal (''n1'', ''n2'', ''n3'') 500 sample_subscription ''in_1'' 2000 sample_billing"
  have "case fst ?c of Inr r \<Rightarrow> rr_applied r | Inl _ \<Rightarrow> False" by code_simp
  then obtain r where r: "?c = (Inr r, snd ?c)" "rr_applied r" by (auto simp: prod_eq_iff split: sum.splits)
  from renewal_is_idempotent[OF r, of _ _ _ _ sample_hmac sample_config
      "[Webhook (''n1'', ''n2'', ''n3'') 800 (Some deleted_body) (Some ''t=1,v1=ab'')]"]
  show ?thesis by (simp add: deliver_def billing_history_def Let_def)
qed

text \<open>The only events that move credits are a checkout that is paid and is no subscription,
  and a paid invoice that starts a subscription period; no event ever touches the members.\<close>

theorem only_payments_move_credits:
  assumes "bs_ledger (snd (dispatch ids now ev st)) \<noteq> bs_ledger st"
  shows "get_prop ev ''type'' = JStr ''checkout.session.completed''
        \<and> \<not> checkout_ignored (get_prop (get_prop ev ''data'') ''object'')
      \<or> get_prop ev ''type'' = JStr ''invoice.paid''
        \<and> \<not> invoice_ignored (get_prop (get_prop ev ''data'') ''object'')
        \<and> subscriptionIdFromInvoice (get_prop (get_prop ev ''data'') ''object'') \<noteq> None"
proof -
  let ?o = "get_prop (get_prop ev ''data'') ''object''"
  obtain res st' where d: "dispatch ids now ev st = (res, st')" by (cases "dispatch ids now ev st")
  then show ?thesis
  proof (cases rule: dispatch_cases)
    case same
    with assms d show ?thesis by simp
  next
    case checkout
    with assms d show ?thesis by (auto simp: onCheckoutCompleted_def)
  next
    case invoice
    with assms d show ?thesis by (auto simp: onInvoicePaid_def split: if_splits option.splits)
  next
    case changed
    with assms d show ?thesis by (auto simp: onSubscriptionChanged_def Let_def split: if_splits sum.splits prod.splits)
  next
    case deleted
    with assms d show ?thesis by (auto simp: onSubscriptionDeleted_def split: if_splits)
  qed
qed

lemma only_payments_move_credits_witness:
  "\<not> checkout_ignored paid_session"
proof -
  have "length (grants (bs_ledger (snd (dispatch (''n1'', ''n2'', ''n3'') 5
      (stripe_event ''checkout.session.completed'' paid_session) sample_billing)))) = 3" by code_simp
  moreover have "length (grants (bs_ledger sample_billing)) = 2"
    by (simp add: sample_billing_def sample_ledger_def)
  ultimately have "bs_ledger (snd (dispatch (''n1'', ''n2'', ''n3'') 5
      (stripe_event ''checkout.session.completed'' paid_session) sample_billing)) \<noteq> bs_ledger sample_billing" by auto
  from only_payments_move_credits[OF this] show ?thesis by (simp add: stripe_event_def)
qed

text \<open>C9: a top-up credits what it sold: when the session that \<open>createTopupSession\<close> opens for a
  pack, for a member or for none, comes back paid with the workspace, the pack and the credits that were put
  on its metadata (whatever else it carries, such as the member's id), the workspace's balance grows by
  exactly the pack's credits.\<close>

theorem topup_credits_the_pack:
  assumes "findPack packId = Some pack" and "ws \<noteq> []"
    and meta: "\<And>k. k \<in> {''workspaceId'', ''packId'', ''credits''} \<Longrightarrow> get_prop (get_prop session ''metadata'') k =
        JStr (the (map_of (topup_form cfg ws userId pack) (''metadata['' @ k @ '']'')))"
    and session: "get_prop session ''id'' = JStr sid" "sid \<noteq> []" "get_prop session ''mode'' = JStr ''payment''"
      "get_prop session ''payment_status'' = JStr ''paid''" "get_prop session ''amount_total'' = JNum (Fin (of_int cents))"
      "0 \<le> cents" "cents < 2 ^ 31"
    and new: "\<not> hasGrantForStripeSession sid (bs_ledger st)" "ledger_wf (bs_ledger st)"
      "i \<notin> cg_id ` set (grants (bs_ledger st))"
  shows "fst (onCheckoutCompleted i now session st) = Inr ()
    \<and> cb_balance (getBalance ws now (bs_ledger (snd (onCheckoutCompleted i now session st)))) =
        cb_balance (getBalance ws now (bs_ledger st)) + pk_credits pack"
proof -
  have pos: "0 < pk_credits pack" "pk_credits pack < 2 ^ 31"
  proof -
    have "list_all (\<lambda>p. 0 < pk_credits p \<and> pk_credits p < 2 ^ 31) CREDIT_PACKS" by (simp add: CREDIT_PACKS_def)
    moreover have "pack \<in> set CREDIT_PACKS"
      using assms(1) unfolding findPack_def by (blast dest: find_Some_iff_mem)
    ultimately show "0 < pk_credits pack" "pk_credits pack < 2 ^ 31" by (auto simp: list_all_iff)
  qed
  have form: "map_of (topup_form cfg ws userId pack) ''metadata[workspaceId]'' = Some ws"
    "map_of (topup_form cfg ws userId pack) ''metadata[credits]'' = Some (show_int (pk_credits pack))"
    by (simp_all add: topup_form_def with_user_def Let_def split: option.split)
  have meta': "get_prop (get_prop session ''metadata'') ''workspaceId'' = JStr ws"
    "get_prop (get_prop session ''metadata'') ''credits'' = JStr (show_int (pk_credits pack))"
    using meta[of "''workspaceId''"] meta[of "''credits''"] form by simp_all
  have num: "number_of_string (show_int (pk_credits pack)) = Fin (of_int (pk_credits pack))"
    using number_of_show_nat[of "nat (pk_credits pack)"] pos by (simp add: show_int_def)
  have credits: "session_credits session = Fin (of_int (pk_credits pack))"
    by (simp add: session_credits_def meta' num to_number_def)
  obtain inp where inp: "checkout_grant session = Inr inp"
    and inpf: "gi_workspaceId inp = ws" "gi_credits inp = pk_credits pack" "gi_expiresAt inp = None"
      "gi_stripeSessionId inp = Some sid" "gi_stripeInvoiceId inp = None" "gi_amountCents inp = Some cents"
    by (simp add: checkout_grant_def Let_def credits int_column_def to_number_def session meta')
  have "\<not> checkout_ignored session"
    using assms(2) pos(1) by (simp add: checkout_ignored_def session meta' credits)
  let ?g = "make_grant i now inp"
  have ins: "insert_grant ?g (bs_ledger st) = (Inr ?g, bs_ledger st\<lparr>grants := grants (bs_ledger st) @ [?g]\<rparr>)"
    using pos new(1) session(6,7) by (auto simp: insert_grant_def int4_ok_def make_grant_def inpf list_ex_iff collides_iff
        hasGrantForStripeSession_def find_None_iff_all)
  then have step: "onCheckoutCompleted i now session st =
      (Inr (), st\<lparr>bs_ledger := snd (insert_grant ?g (bs_ledger st))\<rparr>)"
    using \<open>\<not> checkout_ignored session\<close> new(1) inp
    by (simp add: onCheckoutCompleted_def session grantCredits_def)
  have "cg_id ?g \<notin> cg_id ` set (grants (bs_ledger st))" using new(3) by (simp add: make_grant_def)
  from grant_adds[OF new(2) this ins, of ws now] step pos(1) show ?thesis
    by (simp add: make_grant_def inpf is_live_def)
qed

definition member_session :: jsval where
  "member_session = JObj [(''id'', JStr ''cs_1''), (''mode'', JStr ''payment''), (''payment_status'', JStr ''paid''),
     (''amount_total'', JNum (Fin 2500)),
     (''metadata'', JObj [(''workspaceId'', JStr ''w1''), (''packId'', JStr ''starter''), (''credits'', JStr ''10000''),
        (''userId'', JStr ''u1'')])]"

lemma topup_credits_the_pack_witness:
  "cb_balance (getBalance ''w1'' 5 (bs_ledger (snd (onCheckoutCompleted ''n1'' 5 member_session sample_billing)))) = 50100"
proof -
  let ?p = "\<lparr>pk_id = ''starter'', pk_label = ''Starter - $25'', pk_amountCents = 2500, pk_credits = 10000\<rparr>"
  have pack: "findPack ''starter'' = Some ?p" by (simp add: findPack_def CREDIT_PACKS_def)
  have b: "cb_balance (getBalance ''w1'' 5 (bs_ledger sample_billing)) = 40100" by code_simp
  have "show_int 10000 = ''10000''" by (simp add: show_int_def show_nat.simps char_of_def bit_0)
  then have m: "get_prop (get_prop member_session ''metadata'') k =
      JStr (the (map_of (topup_form sample_config ''w1'' (Some ''u1'') ?p) (''metadata['' @ k @ '']'')))"
    if "k \<in> {''workspaceId'', ''packId'', ''credits''}" for k
    using that by (auto simp: topup_form_def with_user_def member_session_def)
  have "\<not> hasGrantForStripeSession ''cs_1'' (bs_ledger sample_billing)" by code_simp
  from topup_credits_the_pack[OF pack _ m, of "''cs_1''" 2500 sample_billing "''n1''" 5] this b sample_ledger_wf
  show ?thesis by (simp add: sample_billing_def sample_ledger_def sample_grant_def member_session_def)
qed

end
