(* ===== verification/Slack.thy ===== *)
theory Slack
  imports Users JsNumber JsString "HOL-Library.Monad_Syntax"
begin

text \<open>
  \<open>src/src/slack/slack.service.ts\<close> and the messages of \<open>slack-messages.ts\<close>.  Slack's Web API is
  a parameter: a call gives \<open>None\<close> when the request throws and the decoded response otherwise.
\<close>

section \<open>Request signatures\<close>

definition slack_signature_ok ::
  "(string \<Rightarrow> string \<Rightarrow> string) \<Rightarrow> string \<Rightarrow> time \<Rightarrow> string option \<Rightarrow> string option \<Rightarrow> string \<Rightarrow> bool" where
  "slack_signature_ok hmac signingSecret now signature timestamp rawBody =
     (case (signature, timestamp) of
        (Some s, Some t) \<Rightarrow>
          signingSecret \<noteq> [] \<and> s \<noteq> [] \<and> t \<noteq> [] \<and>
          (case number_of_string t of
             Fin x \<Rightarrow> \<bar>fl (fl (of_int now / 1000) - x)\<bar> \<le> 60 * 5
                      \<and> s = ''v0='' @ hmac signingSecret (''v0:'' @ t @ '':'' @ rawBody)
           | _ \<Rightarrow> False)
      | _ \<Rightarrow> False)"

section \<open>Profiles\<close>

record slack_profile =
  pr_real_name :: "string option"
  pr_display_name :: "string option"
  pr_email :: "string option"
  pr_image_192 :: "string option"
  pr_image_512 :: "string option"

record slack_user =
  sl_id :: string
  sl_name :: "string option"
  sl_real_name :: "string option"
  sl_deleted :: bool
  sl_is_bot :: bool
  sl_profile :: "slack_profile option"

definition empty_profile :: slack_profile where
  "empty_profile = \<lparr>pr_real_name = None, pr_display_name = None, pr_email = None,
     pr_image_192 = None, pr_image_512 = None\<rparr>"

definition profile_of :: "slack_user \<Rightarrow> slack_profile" where
  "profile_of u = (case sl_profile u of Some p \<Rightarrow> p | None \<Rightarrow> empty_profile)"

text \<open>\<open>a || b\<close> on optional strings: the first that is neither missing nor empty.\<close>

fun first_truthy :: "string option list \<Rightarrow> string \<Rightarrow> string" where
  "first_truthy [] d = d"
| "first_truthy (Some s # xs) d = (if s = [] then first_truthy xs d else s)"
| "first_truthy (None # xs) d = first_truthy xs d"

definition slackDisplayName :: "slack_user \<Rightarrow> string" where
  "slackDisplayName u = first_truthy [pr_display_name (profile_of u), pr_real_name (profile_of u),
     sl_real_name u, sl_name u] (sl_id u)"

section \<open>Listing the team\<close>

record slack_team_member =
  st_id :: string
  st_name :: string
  st_email :: "string option"
  st_avatarUrl :: "string option"

record users_page =
  up_ok :: bool
  up_members :: "slack_user list"
  up_next_cursor :: "string option"

definition is_human :: "slack_user \<Rightarrow> bool" where
  "is_human m \<longleftrightarrow> \<not> (sl_is_bot m \<or> sl_deleted m \<or> sl_id m = ''USLACKBOT'')"

definition team_member :: "slack_user \<Rightarrow> slack_team_member" where
  "team_member m = \<lparr>st_id = sl_id m, st_name = slackDisplayName m, st_email = pr_email (profile_of m),
     st_avatarUrl = coalesce (pr_image_192 (profile_of m)) (pr_image_512 (profile_of m))\<rparr>"

text \<open>
  The \<open>do .. while (cursor)\<close> loop over the pages: it ends only if Slack stops sending cursors, so
  not returning is the value \<open>None\<close>; \<open>Some None\<close> is the \<open>null\<close> of a failed call.
\<close>

partial_function (option) list_pages ::
  "(string option \<Rightarrow> users_page option) \<Rightarrow> string option \<Rightarrow> slack_team_member list
   \<Rightarrow> slack_team_member list option option" where
  [code]: "list_pages api cursor members =
    (case api cursor of
       None \<Rightarrow> Some None
     | Some page \<Rightarrow>
        if \<not> up_ok page then Some None
        else (let all = members @ map team_member (filter is_human (up_members page)) in
          case up_next_cursor page of
            None \<Rightarrow> Some (Some all)
          | Some c \<Rightarrow> if c = [] then Some (Some all) else list_pages api (Some c) all))"

definition listMembers :: "(string option \<Rightarrow> users_page option) \<Rightarrow> slack_team_member list option option" where
  "listMembers api = list_pages api None []"

definition countMembers :: "(string option \<Rightarrow> users_page option) \<Rightarrow> nat option option" where
  "countMembers api = map_option (map_option length) (listMembers api)"

section \<open>Resolving people\<close>

record slack_found =
  sf_id :: string
  sf_name :: string
  sf_email :: "string option"
  sf_avatarUrl :: "string option"
  sf_deleted :: bool
  sf_isBot :: bool

datatype email_lookup = LookupFound slack_found | LookupNotFound | LookupError string

record user_response =
  ur_ok :: bool
  ur_error :: "string option"
  ur_user :: "slack_user option"

definition lookupUserByEmail :: "(string \<Rightarrow> user_response option) \<Rightarrow> string \<Rightarrow> email_lookup" where
  "lookupUserByEmail api email =
    (case api email of
       None \<Rightarrow> LookupError ''request failed''
     | Some r \<Rightarrow>
        (case (ur_ok r, ur_user r) of
           (True, Some u) \<Rightarrow> LookupFound
             \<lparr>sf_id = sl_id u, sf_name = slackDisplayName u,
              sf_email = coalesce (pr_email (profile_of u)) (Some email),
              sf_avatarUrl = coalesce (pr_image_512 (profile_of u)) (pr_image_192 (profile_of u)),
              sf_deleted = sl_deleted u, sf_isBot = sl_is_bot u\<rparr>
         | _ \<Rightarrow> let e = (case ur_error r of Some e \<Rightarrow> e | None \<Rightarrow> ''unknown_error'')
                in if e = ''users_not_found'' then LookupNotFound else LookupError e))"

record slack_person =
  pe_name :: string
  pe_email :: "string option"
  pe_avatarUrl :: "string option"

definition fetchUserProfile ::
  "(string \<Rightarrow> user_response option) \<Rightarrow> string \<Rightarrow> string option \<Rightarrow> slack_person" where
  "fetchUserProfile api slackUserId botToken =
    (let fallback = \<lparr>pe_name = slackUserId, pe_email = None, pe_avatarUrl = None\<rparr> in
     if botToken = None \<or> botToken = Some [] then fallback
     else case api slackUserId of
        None \<Rightarrow> fallback
      | Some r \<Rightarrow>
         (case (ur_ok r, ur_user r) of
            (True, Some u) \<Rightarrow>
              \<lparr>pe_name = first_truthy [pr_display_name (profile_of u), pr_real_name (profile_of u),
                  sl_real_name u, sl_name u] slackUserId,
               pe_email = pr_email (profile_of u),
               pe_avatarUrl = coalesce (pr_image_512 (profile_of u)) (pr_image_192 (profile_of u))\<rparr>
          | _ \<Rightarrow> fallback))"

section \<open>Delivering messages\<close>

record post_response =
  po_ok :: bool
  po_ts :: "string option"

definition postMessage :: "(string \<Rightarrow> string \<Rightarrow> post_response option) \<Rightarrow> string \<Rightarrow> string \<Rightarrow> string option" where
  "postMessage post channel txt = (case post channel txt of
     None \<Rightarrow> None | Some r \<Rightarrow> if po_ok r then po_ts r else None)"

record open_response =
  op_ok :: bool
  op_channel :: "string option"

definition openDm :: "(string \<Rightarrow> open_response option) \<Rightarrow> string \<Rightarrow> string option" where
  "openDm open_im userId = (case open_im userId of
     None \<Rightarrow> None
   | Some r \<Rightarrow> (case op_channel r of None \<Rightarrow> None | Some c \<Rightarrow> if op_ok r \<and> c \<noteq> [] then Some c else None))"

definition is_user_id :: "string \<Rightarrow> bool" where
  "is_user_id d = (case d of c # _ \<Rightarrow> c = CHR ''U'' \<or> c = CHR ''W'' | [] \<Rightarrow> False)"

definition deliver_to ::
  "(string \<Rightarrow> open_response option) \<Rightarrow> (string \<Rightarrow> string \<Rightarrow> post_response option) \<Rightarrow> string \<Rightarrow> string \<Rightarrow> string option" where
  "deliver_to open_im post destination txt =
    (case (if is_user_id destination then openDm open_im destination else Some destination) of
       None \<Rightarrow> None
     | Some channel \<Rightarrow> if channel = [] then None else postMessage post channel txt)"

definition reaction_failed :: "bool \<Rightarrow> string option \<Rightarrow> bool" where
  "reaction_failed ok err = (\<not> ok \<and> (case err of Some e \<Rightarrow> e | None \<Rightarrow> []) \<notin> {''already_reacted'', ''no_reaction''})"

section \<open>Messages\<close>

text \<open>The line feed of the messages.\<close>

definition nl :: string where
  "nl = [CHR 0x0A]"

fun join_lines :: "string list \<Rightarrow> string" where
  "join_lines [] = []"
| "join_lines [x] = x"
| "join_lines (x # y # xs) = x @ nl @ join_lines (y # xs)"

definition firstName :: "string option \<Rightarrow> string" where
  "firstName name = (let t = js_trim (case name of Some n \<Rightarrow> n | None \<Rightarrow> []) in
     if t = [] then ''there'' else takeWhile (\<lambda>c. \<not> is_ws c) t)"

definition buildWelcomeMessage :: "string option \<Rightarrow> bool \<Rightarrow> string" where
  "buildWelcomeMessage name isInstaller = join_lines
     ([''Hi '' @ firstName name @ '' :wave:, great to meet you. I'm *Gaspo*, your new AI coworker. Here are three ways to work with me:'',
       [],
       '':speech_balloon: *DM me here* - just message me like a coworker. Research, analysis, reports, automation - anything.'',
       '':mega: *@Gaspo in any channel* - mention me in context and I'll jump in with the full thread as background.'',
       '':electric_plug: *I connect to 3000+ tools* - Gmail, GitHub, Stripe, HubSpot, Google Ads, and more. Just tell me what you need and I'll figure out access.'',
       [],
       ''Try one now - just reply here:'',
       ''- _Check my Gmail for anything urgent this week and summarize it_'',
       ''- _Summarize the last week of activity in one of our channels_'']
      @ (if isInstaller then [[], ''I'll also do a short daily check-in here to suggest ways I can help - tell me to dial it back anytime.''] else [])
      @ [[], ''Or just tell me what you need - I'll take it from there :rocket:''])"

definition buildInviteMessage :: "string option \<Rightarrow> string \<Rightarrow> string \<Rightarrow> string" where
  "buildInviteMessage inviterName workspaceName dashboardUrl =
    (let t = js_trim (case inviterName of Some n \<Rightarrow> n | None \<Rightarrow> []);
         inviter = (if t = [] then ''A teammate'' else t)
     in join_lines
      [''Hi :wave: *'' @ inviter @ ''* added you to *'' @ workspaceName @ ''* on Gaspo, your team's AI coworker.'',
       [],
       '':speech_balloon: *DM me here* - just message me like a coworker. Research, analysis, reports, automation - anything.'',
       '':bar_chart: *Open the dashboard* at <'' @ dashboardUrl @ ''> - sign in with Slack to see usage, connected tools and your team.'',
       [],
       ''Try one now - just reply here:'',
       ''- _Summarize the last week of activity in one of our channels_''])"

definition escape_slack :: "string \<Rightarrow> string" where
  "escape_slack s = concat (map (\<lambda>c. if c = CHR ''&'' then ''&amp;'' else if c = CHR ''<'' then ''&lt;''
     else if c = CHR ''>'' then ''&gt;'' else [c]) s)"

definition buildSpaceSignInMessage :: "string \<Rightarrow> string \<Rightarrow> string" where
  "buildSpaceSignInMessage spaceName link =
    (let name = escape_slack spaceName in join_lines
      ['':key: Here's your sign-in link for *'' @ name @ ''*: <'' @ link @ ''|Open '' @ name @ ''>'',
       [],
       ''It works once and expires in 30 minutes. If you didn't ask for it, you can ignore this message.''])"

section \<open>Facts\<close>

lemma escape_slack_no_markup: "CHR ''<'' \<notin> set (escape_slack s)" "CHR ''>'' \<notin> set (escape_slack s)"
  by (auto simp: escape_slack_def)

lemma first_truthy_nonempty: "d \<noteq> [] \<Longrightarrow> first_truthy xs d \<noteq> []"
  by (induction xs d rule: first_truthy.induct) auto

text \<open>The listing returns whenever the cursors cannot go on for ever.\<close>

lemma list_pages_returns:
  fixes rank :: "string option \<Rightarrow> nat"
  assumes "\<And>c page c'. api c = Some page \<Longrightarrow> up_next_cursor page = Some c' \<Longrightarrow> rank (Some c') < rank c"
  shows "list_pages api c acc \<noteq> None"
proof (induction "rank c" arbitrary: c acc rule: less_induct)
  case less
  then show ?case
    by (subst list_pages.simps) (auto simp: Let_def assms split: option.split)
qed

lemma list_pages_humans:
  assumes "list_pages api c acc = Some (Some ms)" and "\<forall>m \<in> set acc. P m"
    and human: "\<And>u. is_human u \<Longrightarrow> P (team_member u)"
  shows "\<forall>m \<in> set ms. P m"
proof -
  have "(\<forall>m \<in> set acc. P m) \<longrightarrow> (case Some ms of None \<Rightarrow> True | Some ms \<Rightarrow> \<forall>m \<in> set ms. P m)"
  proof (rule list_pages.raw_induct[OF _ assms(1), where P = "\<lambda>_ _ acc r.
        (\<forall>m \<in> set acc. P m) \<longrightarrow> (case r of None \<Rightarrow> True | Some ms \<Rightarrow> \<forall>m \<in> set ms. P m)"])
    fix f api c acc r
    assume IH: "\<And>api c acc r. f api c acc = Some r \<Longrightarrow>
        (\<forall>m \<in> set acc. P m) \<longrightarrow> (case r of None \<Rightarrow> True | Some ms \<Rightarrow> \<forall>m \<in> set ms. P m)"
      and r: "(case api c of None \<Rightarrow> Some None
         | Some page \<Rightarrow> if \<not> up_ok page then Some None
            else let all = acc @ map team_member (filter is_human (up_members page))
                 in case up_next_cursor page of None \<Rightarrow> Some (Some all)
                    | Some c \<Rightarrow> if c = [] then Some (Some all) else f api (Some c) all) = Some r"
    show "(\<forall>m \<in> set acc. P m) \<longrightarrow> (case r of None \<Rightarrow> True | Some ms \<Rightarrow> \<forall>m \<in> set ms. P m)"
    proof
      assume acc: "\<forall>m \<in> set acc. P m"
      then have all: "\<forall>m \<in> set (acc @ map team_member (filter is_human us)). P m" for us
        using human by auto
      have next_page: "case r of None \<Rightarrow> True | Some ms \<Rightarrow> \<forall>m \<in> set ms. P m"
        if "f api (Some k) (acc @ map team_member (filter is_human us)) = Some r" for k us r
        using IH[OF that] all by blast
      from r all show "case r of None \<Rightarrow> True | Some ms \<Rightarrow> \<forall>m \<in> set ms. P m"
        by (auto simp: Let_def split: option.splits if_splits dest!: next_page)
    qed
  qed
  with assms(2) show ?thesis by simp
qed

end
