(* ===== verification/Workspaces.thy ===== *)
theory Workspaces
  imports UsageLedger Slack
begin

text \<open>
  \<open>src/src/workspaces/workspaces.service.ts\<close>: the workspace of a Slack team, its settings, and the
  trial credits a new one is given.
\<close>

section \<open>Data\<close>

record workspace =
  w_id :: uuid
  w_name :: string
  w_slackTeamId :: string
  w_slackBotToken :: "string option"
  w_credits :: int
  w_workspaceInstructions :: "string option"
  w_defaultModel :: "string option"
  w_personalityTone :: "string option"
  w_createdAt :: time

record upsert_workspace_input =
  wi_slackTeamId :: string
  wi_name :: string
  wi_slackBotToken :: "string option option"

text \<open>A field of a settings request: absent, or set to a value or to null.\<close>

record settings_input =
  si_defaultModel :: "string option option"
  si_personalityTone :: "string option option"
  si_workspaceInstructions :: "string option option"

record tenants =
  tn_workspaces :: "workspace list"
  tn_ledger :: ledger
  tn_users :: "user list"

section \<open>Operations\<close>

definition workspaceById :: "workspace list \<Rightarrow> uuid \<Rightarrow> workspace option" where
  "workspaceById ws i = List.find (\<lambda>w. w_id w = i) ws"

definition workspaceByIdOrFail :: "workspace list \<Rightarrow> uuid \<Rightarrow> workspace result" where
  "workspaceByIdOrFail ws i = (case workspaceById ws i of
     None \<Rightarrow> Inl (NotFound (''Workspace '' @ i @ '' not found'')) | Some w \<Rightarrow> Inr w)"

definition findBySlackTeamId :: "workspace list \<Rightarrow> string \<Rightarrow> workspace option" where
  "findBySlackTeamId ws team = List.find (\<lambda>w. w_slackTeamId w = team) ws"

definition given :: "'a option \<Rightarrow> 'a \<Rightarrow> 'a" where
  "given field old = (case field of None \<Rightarrow> old | Some v \<Rightarrow> v)"

text \<open>\<open>value?.trim() || null\<close>.\<close>

definition trim_or_null :: "string option \<Rightarrow> string option" where
  "trim_or_null v = (case v of None \<Rightarrow> None
     | Some s \<Rightarrow> if js_trim s = [] then None else Some (js_trim s))"

definition updateSettings :: "uuid \<Rightarrow> settings_input \<Rightarrow> workspace list \<Rightarrow> workspace result \<times> workspace list" where
  "updateSettings i inp ws =
    (case workspaceByIdOrFail ws i of
       Inl e \<Rightarrow> (Inl e, ws)
     | Inr w \<Rightarrow>
        let w' = w\<lparr>w_defaultModel := given (si_defaultModel inp) (w_defaultModel w),
                   w_personalityTone := given (si_personalityTone inp) (w_personalityTone w),
                   w_workspaceInstructions := (case si_workspaceInstructions inp of
                      None \<Rightarrow> w_workspaceInstructions w | Some v \<Rightarrow> trim_or_null v)\<rparr>
        in (Inr w', save_row w_id w' ws))"

text \<open>A failure of the grant is logged and swallowed.\<close>

definition upsertWorkspace ::
  "uuid \<Rightarrow> uuid \<Rightarrow> time \<Rightarrow> upsert_workspace_input \<Rightarrow> tenants \<Rightarrow> workspace \<times> tenants" where
  "upsertWorkspace new_id grant_id now inp t =
    (case findBySlackTeamId (tn_workspaces t) (wi_slackTeamId inp) of
       Some ex \<Rightarrow>
         let w = ex\<lparr>w_name := wi_name inp,
                    w_slackBotToken := given (wi_slackBotToken inp) (w_slackBotToken ex)\<rparr>
         in (w, t\<lparr>tn_workspaces := save_row w_id w (tn_workspaces t)\<rparr>)
     | None \<Rightarrow>
         let w = \<lparr>w_id = new_id, w_name = wi_name inp, w_slackTeamId = wi_slackTeamId inp,
                  w_slackBotToken = given (wi_slackBotToken inp) None, w_credits = 0,
                  w_workspaceInstructions = None, w_defaultModel = None, w_personalityTone = None,
                  w_createdAt = now\<rparr>
         in (w, t\<lparr>tn_workspaces := save_row w_id w (tn_workspaces t),
                  tn_ledger := snd (grantOnboardingCredits (tn_users t) grant_id now new_id (tn_ledger t))\<rparr>))"

section \<open>Invariant\<close>

definition workspaces_wf :: "workspace list \<Rightarrow> bool" where
  "workspaces_wf ws \<longleftrightarrow> distinct (map w_id ws) \<and> distinct (map w_slackTeamId ws)"

lemma find_team_saved:
  assumes "workspaces_wf ws" "w \<in> set ws" "w_id w' = w_id w" "w_slackTeamId w' = w_slackTeamId w"
  shows "map w_slackTeamId (save_row w_id w' ws) = map w_slackTeamId ws"
    and "map w_id (save_row w_id w' ws) = map w_id ws"
proof -
  have inj: "x = w" if "x \<in> set ws" "w_id x = w_id w" for x
    using assms(1,2) that unfolding workspaces_wf_def by (metis distinct_map inj_onD)
  have "map w_slackTeamId (update_where (\<lambda>x. w_id x = w_id w') (\<lambda>_. w') rows) = map w_slackTeamId rows"
    if "set rows \<subseteq> set ws" for rows
    using that assms(3,4) inj by (induction rows) auto
  with assms(2,3) show "map w_slackTeamId (save_row w_id w' ws) = map w_slackTeamId ws"
    by (auto simp: save_row_def)
  show "map w_id (save_row w_id w' ws) = map w_id ws"
    using assms(2,3) by (auto simp: map_key_save_row)
qed

lemma upsertWorkspace_wf:
  assumes "workspaces_wf (tn_workspaces t)" "i \<notin> w_id ` set (tn_workspaces t)"
  shows "workspaces_wf (tn_workspaces (snd (upsertWorkspace i g now inp t)))"
proof (cases "findBySlackTeamId (tn_workspaces t) (wi_slackTeamId inp)")
  case None
  then have "wi_slackTeamId inp \<notin> w_slackTeamId ` set (tn_workspaces t)"
    by (auto simp: findBySlackTeamId_def find_None_iff_all)
  with None assms show ?thesis
    by (auto simp: upsertWorkspace_def Let_def workspaces_wf_def save_row_def)
next
  case (Some ex)
  then have ex: "ex \<in> set (tn_workspaces t)"
    unfolding findBySlackTeamId_def by (blast dest: find_Some_iff_mem)
  let ?w = "ex\<lparr>w_name := wi_name inp, w_slackBotToken := given (wi_slackBotToken inp) (w_slackBotToken ex)\<rparr>"
  from find_team_saved[OF assms(1) ex, of ?w] assms(1) Some show ?thesis
    by (simp add: upsertWorkspace_def Let_def workspaces_wf_def)
qed

lemma updateSettings_wf:
  assumes "workspaces_wf ws"
  shows "workspaces_wf (snd (updateSettings i inp ws))"
proof (cases "workspaceByIdOrFail ws i")
  case (Inr w)
  then have w: "w \<in> set ws"
    by (auto simp: workspaceByIdOrFail_def workspaceById_def split: option.splits dest: find_Some_iff_mem)
  from find_team_saved[OF assms w] assms Inr show ?thesis
    by (simp add: updateSettings_def Let_def workspaces_wf_def)
qed (use assms in \<open>simp add: updateSettings_def\<close>)

section \<open>Properties\<close>

text \<open>Saving one section of the settings cannot wipe another: a field that the request does
  not carry keeps its value, and no other workspace changes.\<close>

theorem settings_are_independent:
  assumes "workspaces_wf ws" "updateSettings i inp ws = (Inr w', ws')" "workspaceById ws i = Some w"
  shows "workspaces_wf ws' \<and> workspaceById ws' i = Some w'
    \<and> (si_defaultModel inp = None \<longrightarrow> w_defaultModel w' = w_defaultModel w)
    \<and> (si_personalityTone inp = None \<longrightarrow> w_personalityTone w' = w_personalityTone w)
    \<and> (si_workspaceInstructions inp = None \<longrightarrow> w_workspaceInstructions w' = w_workspaceInstructions w)
    \<and> (w_slackBotToken w', w_slackTeamId w', w_name w') = (w_slackBotToken w, w_slackTeamId w, w_name w)
    \<and> (\<forall>j. j \<noteq> i \<longrightarrow> workspaceById ws' j = workspaceById ws j)"
proof -
  have "w_id w = i" using assms(3) unfolding workspaceById_def by (blast dest: find_Some_iff_mem)
  moreover have "ws' = save_row w_id w' ws" "w_id w' = w_id w"
    using assms(2,3) by (auto simp: updateSettings_def workspaceByIdOrFail_def Let_def)
  ultimately have find: "workspaceById ws' j = (if j = i then Some w' else workspaceById ws j)" for j
    by (simp add: workspaceById_def find_save_row)
  have "workspaces_wf ws'" using updateSettings_wf[OF assms(1), of i inp] assms(2) by simp
  moreover have "(si_defaultModel inp = None \<longrightarrow> w_defaultModel w' = w_defaultModel w)
    \<and> (si_personalityTone inp = None \<longrightarrow> w_personalityTone w' = w_personalityTone w)
    \<and> (si_workspaceInstructions inp = None \<longrightarrow> w_workspaceInstructions w' = w_workspaceInstructions w)
    \<and> (w_slackBotToken w', w_slackTeamId w', w_name w') = (w_slackBotToken w, w_slackTeamId w, w_name w)"
    using assms(2,3) by (auto simp: updateSettings_def workspaceByIdOrFail_def Let_def given_def)
  ultimately show ?thesis using find by auto
qed

definition sample_workspace :: workspace where
  "sample_workspace = \<lparr>w_id = ''w1'', w_name = ''Acme'', w_slackTeamId = ''T1'', w_slackBotToken = Some ''xoxb'',
     w_credits = 0, w_workspaceInstructions = Some ''be brief'', w_defaultModel = Some ''claude-sonnet-5'',
     w_personalityTone = None, w_createdAt = 0\<rparr>"

lemma settings_are_independent_witness:
  "w_workspaceInstructions (the (workspaceById (snd (updateSettings ''w1''
     \<lparr>si_defaultModel = Some (Some ''claude-opus-4-8''), si_personalityTone = None,
      si_workspaceInstructions = None\<rparr> [sample_workspace])) ''w1'')) = Some ''be brief''"
proof -
  let ?inp = "\<lparr>si_defaultModel = Some (Some ''claude-opus-4-8''), si_personalityTone = None,
      si_workspaceInstructions = None\<rparr> :: settings_input"
  have "is_ok (fst (updateSettings ''w1'' ?inp [sample_workspace]))" by code_simp
  then obtain w' where "updateSettings ''w1'' ?inp [sample_workspace] = (Inr w', snd (updateSettings ''w1'' ?inp [sample_workspace]))"
    by (metis is_ok_iff prod.collapse)
  from settings_are_independent[OF _ this, of sample_workspace] show ?thesis
    by (simp add: workspaces_wf_def workspaceById_def sample_workspace_def)
qed

text \<open>The trial is never sized to the team: the grant is made while the workspace is being
  created, before any of its members exists, so every new workspace gets exactly the floor of
  40000 credits, however many people install later.\<close>

theorem trial_is_always_the_floor:
  assumes "findBySlackTeamId (tn_workspaces t) (wi_slackTeamId inp) = None"
    and "countActiveByWorkspace (tn_users t) i = 0"
    and "\<not> list_ex (\<lambda>x. cg_workspaceId x = i \<and> cg_reason x = ONBOARDING) (grants (tn_ledger t))"
  shows "\<exists>g. grants (tn_ledger (snd (upsertWorkspace i gid now inp t))) = grants (tn_ledger t) @ [g]
     \<and> cg_workspaceId g = i \<and> cg_reason g = ONBOARDING \<and> cg_credits g = 40000"
proof -
  have "List.find (\<lambda>g. cg_workspaceId g = i \<and> cg_reason g = ONBOARDING) (grants (tn_ledger t)) = None"
    using assms(3) by (auto simp: find_None_iff_all list_ex_iff)
  then have "\<exists>g. grants (snd (grantOnboardingCredits (tn_users t) gid now i (tn_ledger t))) =
        grants (tn_ledger t) @ [g]
      \<and> cg_workspaceId g = i \<and> cg_reason g = ONBOARDING \<and> cg_credits g = 40000"
    using assms(2) by (simp add: grantOnboardingCredits_def Let_def grantCredits_def insert_grant_def
        make_grant_def credit_constants int4_ok_def collides_def list_ex_iff)
  with assms(1) show ?thesis by (simp add: upsertWorkspace_def Let_def)
qed

lemma trial_is_always_the_floor_witness:
  "\<exists>g. grants (tn_ledger (snd (upsertWorkspace ''w9'' ''g9'' 7
       \<lparr>wi_slackTeamId = ''T9'', wi_name = ''Nine'', wi_slackBotToken = None\<rparr>
       \<lparr>tn_workspaces = [sample_workspace], tn_ledger = sample_ledger, tn_users = sample_users\<rparr>)))
     = grants sample_ledger @ [g] \<and> cg_workspaceId g = ''w9'' \<and> cg_reason g = ONBOARDING \<and> cg_credits g = 40000"
  using trial_is_always_the_floor[of "\<lparr>tn_workspaces = [sample_workspace], tn_ledger = sample_ledger, tn_users = sample_users\<rparr>"
      "\<lparr>wi_slackTeamId = ''T9'', wi_name = ''Nine'', wi_slackBotToken = None\<rparr>" "''w9''" "''g9''" 7]
  by (simp add: findBySlackTeamId_def sample_workspace_def countActiveByWorkspace_def sample_users_def
      sample_user_def sample_ledger_def sample_grant_def)

end
