(* ===== verification/Invites.thy ===== *)
theory Invites
  imports Workspaces
begin

text \<open>
  \<open>src/src/invites/invites.service.ts\<close>: inviting teammates by e-mail address, one result per
  address, and the roster of the Slack team.  Slack's answers and whether a message was delivered
  are parameters; the identifiers of rows the batch inserts come from a supply.
\<close>

section \<open>Addresses and standing\<close>

text \<open>The loop of \<open>normalizeEmails\<close>, with the set of addresses seen so far.\<close>

fun normalize_loop :: "string list \<Rightarrow> string list \<Rightarrow> string list" where
  "normalize_loop seen [] = []"
| "normalize_loop seen (raw # raws) = (let email = to_lower (js_trim raw) in
     if email = [] \<or> email \<in> set seen then normalize_loop seen raws
     else email # normalize_loop (email # seen) raws)"

definition normalizeEmails :: "string list \<Rightarrow> string list" where
  "normalizeEmails emails = normalize_loop [] emails"

definition isPendingInvite :: "user \<Rightarrow> bool" where
  "isPendingInvite u \<longleftrightarrow> u_isActive u \<and> u_invitedAt u \<noteq> None \<and> u_lastActiveAt u = None"

datatype roster_status = OnGaspo | Invited | NotOnGaspo

definition rosterStatus :: "user option \<Rightarrow> roster_status" where
  "rosterStatus u = (case u of None \<Rightarrow> NotOnGaspo
     | Some m \<Rightarrow> if \<not> u_isActive m then NotOnGaspo else if isPendingInvite m then Invited else OnGaspo)"

section \<open>Inviting\<close>

datatype invite_status = SInvited | SAlreadyMember | SNotInSlack | SFailed

record invite_result =
  ir_email :: string
  ir_status :: invite_status
  ir_name :: "string option"
  ir_notified :: bool
  ir_message :: string

record invite_batch =
  ib_workspaceId :: uuid
  ib_dashboardUrl :: string
  ib_message :: string
  ib_byEmail :: "(string \<times> user) list"
  ib_bySlackId :: "(string \<times> user) list"

definition MAX_INVITES_PER_REQUEST :: nat where
  "MAX_INVITES_PER_REQUEST = 25"

definition alreadyMember :: "string \<Rightarrow> string \<Rightarrow> invite_result" where
  "alreadyMember email name = \<lparr>ir_email = email, ir_status = SAlreadyMember, ir_name = Some name,
     ir_notified = False, ir_message = name @ '' is already on the team.''\<rparr>"

definition refused :: "string \<Rightarrow> invite_status \<Rightarrow> string option \<Rightarrow> string \<Rightarrow> invite_result" where
  "refused email status name msg = \<lparr>ir_email = email, ir_status = status, ir_name = name,
     ir_notified = False, ir_message = msg\<rparr>"

definition settled :: "user option \<Rightarrow> bool" where
  "settled u = (case u of None \<Rightarrow> False | Some m \<Rightarrow> u_isActive m \<and> \<not> isPendingInvite m)"

text \<open>The person Slack knows under the address, provisioned and messaged.\<close>

definition provision_found ::
  "uuid \<Rightarrow> time \<Rightarrow> (string \<Rightarrow> string \<Rightarrow> bool) \<Rightarrow> string \<Rightarrow> slack_found \<Rightarrow> invite_batch \<Rightarrow> user list
   \<Rightarrow> invite_result \<times> invite_batch \<times> user list" where
  "provision_found new_id now deliver email f batch us =
    (let existing = map_of (ib_bySlackId batch) (sf_id f);
         reminder = (case existing of None \<Rightarrow> False | Some m \<Rightarrow> isPendingInvite m);
         (m, us') = provisionInvited new_id now
            \<lparr>pi_workspaceId = ib_workspaceId batch, pi_slackUserId = sf_id f, pi_name = sf_name f,
             pi_email = sf_email f, pi_avatarUrl = sf_avatarUrl f\<rparr> us;
         batch' = batch\<lparr>ib_byEmail := aput email m (ib_byEmail batch),
                        ib_bySlackId := aput (u_slackUserId m) m (ib_bySlackId batch)\<rparr>;
         notified = deliver (sf_id f) (ib_message batch);
         msg = (if \<not> notified then ''Added '' @ u_name m @ '', but the Slack DM could not be sent. They can sign in at ''
                  @ ib_dashboardUrl batch @ ''.''
                else if reminder then ''Sent '' @ u_name m @ '' another Slack reminder.''
                else ''Added '' @ u_name m @ '' and sent them a Slack DM.'')
     in (\<lparr>ir_email = email, ir_status = SInvited, ir_name = Some (u_name m), ir_notified = notified,
          ir_message = msg\<rparr>, batch', us'))"

definition inviteOne ::
  "uuid \<Rightarrow> time \<Rightarrow> (string \<Rightarrow> email_lookup) \<Rightarrow> (string \<Rightarrow> string \<Rightarrow> bool) \<Rightarrow> string \<Rightarrow> invite_batch \<Rightarrow> user list
   \<Rightarrow> invite_result \<times> invite_batch \<times> user list" where
  "inviteOne new_id now lookup deliver email batch us =
    (let known = map_of (ib_byEmail batch) email in
     if settled known then (alreadyMember email (u_name (the known)), batch, us)
     else (case lookup email of
        LookupError _ \<Rightarrow> (refused email SFailed None ''Slack didn't answer. Try again in a minute.'', batch, us)
      | LookupNotFound \<Rightarrow> (refused email SNotInSlack None
          ''Not in your Slack workspace yet. Add them to Slack first, then invite again.'', batch, us)
      | LookupFound f \<Rightarrow>
          if sf_deleted f then (refused email SNotInSlack (Some (sf_name f))
             (sf_name f @ '''s Slack account is deactivated.''), batch, us)
          else if sf_isBot f then (refused email SNotInSlack (Some (sf_name f))
             (sf_name f @ '' is a bot, not a person.''), batch, us)
          else let existing = map_of (ib_bySlackId batch) (sf_id f) in
               if settled existing then (alreadyMember email (u_name (the existing)), batch, us)
               else provision_found new_id now deliver email f batch us))"

fun invite_loop ::
  "(nat \<Rightarrow> uuid) \<Rightarrow> nat \<Rightarrow> time \<Rightarrow> (string \<Rightarrow> email_lookup) \<Rightarrow> (string \<Rightarrow> string \<Rightarrow> bool) \<Rightarrow> string list
   \<Rightarrow> invite_batch \<Rightarrow> user list \<Rightarrow> invite_result list \<times> user list" where
  "invite_loop ids k now lookup deliver [] batch us = ([], us)"
| "invite_loop ids k now lookup deliver (email # emails) batch us =
    (let (r, batch', us') = inviteOne (ids k) now lookup deliver email batch us;
         (rs, us'') = invite_loop ids (k + 1) now lookup deliver emails batch' us'
     in (r # rs, us''))"

text \<open>\<open>frontendUrl.replace(/\/+$/, '')\<close> and the sign-in page.\<close>

definition dashboard_url :: "string \<Rightarrow> string" where
  "dashboard_url frontendUrl = rev (dropWhile (\<lambda>c. c = CHR ''/'') (rev frontendUrl)) @ ''/sign-in''"

definition member_maps :: "user list \<Rightarrow> (string \<times> user) list \<times> (string \<times> user) list" where
  "member_maps members =
    (map_from (concat (map (\<lambda>m. case u_email m of Some e \<Rightarrow> if e = [] then [] else [(to_lower e, m)] | None \<Rightarrow> []) members)),
     map_from (map (\<lambda>m. (u_slackUserId m, m)) members))"

definition invite ::
  "(nat \<Rightarrow> uuid) \<Rightarrow> time \<Rightarrow> (string \<Rightarrow> string \<Rightarrow> email_lookup) \<Rightarrow> (string \<Rightarrow> string \<Rightarrow> string \<Rightarrow> bool) \<Rightarrow> string
   \<Rightarrow> workspace list \<Rightarrow> uuid \<Rightarrow> uuid \<Rightarrow> string list \<Rightarrow> user list \<Rightarrow> invite_result list result \<times> user list" where
  "invite ids now lookup deliver frontendUrl wss ws inviterId emails us =
    (case workspaceByIdOrFail wss ws of Inl e \<Rightarrow> (Inl e, us)
     | Inr w \<Rightarrow>
        (case w_slackBotToken w of
           None \<Rightarrow> (Inl (BadRequest ''Gaspo is not installed in your Slack workspace. Reinstall it from the sign-in page, then invite again.''), us)
         | Some token \<Rightarrow>
            if token = [] then (Inl (BadRequest ''Gaspo is not installed in your Slack workspace. Reinstall it from the sign-in page, then invite again.''), us)
            else (case findByIdOrFail us inviterId of Inl e \<Rightarrow> (Inl e, us)
              | Inr inviter \<Rightarrow>
                 let (byEmail, bySlackId) = member_maps (listAllByWorkspace us ws);
                     url = dashboard_url frontendUrl;
                     (rs, us') = invite_loop ids 0 now (lookup token) (deliver token) (normalizeEmails emails)
                       \<lparr>ib_workspaceId = ws, ib_dashboardUrl = url,
                        ib_message = buildInviteMessage (Some (u_name inviter)) (w_name w) url,
                        ib_byEmail = byEmail, ib_bySlackId = bySlackId\<rparr> us
                 in (Inr rs, us'))))"

record roster_entry =
  re_slackUserId :: string
  re_name :: string
  re_email :: "string option"
  re_avatarUrl :: "string option"
  re_status :: roster_status

text \<open>
  \<open>localeCompare\<close> is the collation of the runtime: the order is a parameter \<open>rank\<close> of the names.
\<close>

definition slackRoster ::
  "(string \<Rightarrow> 'k::linorder) \<Rightarrow> (string \<Rightarrow> slack_team_member list option) \<Rightarrow> workspace list \<Rightarrow> uuid \<Rightarrow> user list
   \<Rightarrow> roster_entry list result" where
  "slackRoster rank list_members wss ws us =
    (case workspaceByIdOrFail wss ws of Inl e \<Rightarrow> Inl e
     | Inr w \<Rightarrow>
        (case w_slackBotToken w of
           None \<Rightarrow> Inl (BadRequest ''Gaspo is not installed in your Slack workspace. Reinstall it from the sign-in page.'')
         | Some token \<Rightarrow>
            if token = [] then Inl (BadRequest ''Gaspo is not installed in your Slack workspace. Reinstall it from the sign-in page.'')
            else (case list_members token of
               None \<Rightarrow> Inl (BadGateway ''Slack didn't answer. Try again in a minute.'')
             | Some people \<Rightarrow>
                let bySlackId = map_of (snd (member_maps (listAllByWorkspace us ws)))
                in Inr (sort_key (\<lambda>r. rank (re_name r)) (map (\<lambda>p.
                     \<lparr>re_slackUserId = st_id p, re_name = st_name p, re_email = st_email p,
                      re_avatarUrl = st_avatarUrl p, re_status = rosterStatus (bySlackId (st_id p))\<rparr>) people)))))"

section \<open>Facts\<close>

lemma normalize_loop_props:
  "distinct (normalize_loop seen raws) \<and> set (normalize_loop seen raws) =
     {to_lower (js_trim r) | r. r \<in> set raws \<and> js_trim r \<noteq> []} - set seen"
proof (induction raws arbitrary: seen)
  case (Cons raw raws)
  have e: "to_lower s = [] \<longleftrightarrow> s = []" for s by (simp add: to_lower_def)
  from Cons[of seen] Cons[of "to_lower (js_trim raw) # seen"] show ?case
    by (auto simp: Let_def e)
qed simp

lemma inviteOne_cases:
  assumes "inviteOne i now lookup deliver email batch us = (r, batch', us')"
  obtains (declined) "ir_email r = email" "ir_status r \<noteq> SInvited" "batch' = batch" "us' = us"
  | (provisioned) f where "lookup email = LookupFound f" "\<not> sf_deleted f" "\<not> sf_isBot f"
      "\<not> settled (map_of (ib_bySlackId batch) (sf_id f))"
      "provision_found i now deliver email f batch us = (r, batch', us')"
  using assms unfolding inviteOne_def Let_def alreadyMember_def refused_def
  by (auto split: if_splits email_lookup.splits)

lemma provisionInvited_facts:
  "u_workspaceId (fst (provisionInvited i now inp us)) = pi_workspaceId inp"
  "u_slackUserId (fst (provisionInvited i now inp us)) = pi_slackUserId inp"
  "u_isActive (fst (provisionInvited i now inp us))"
  "fst (provisionInvited i now inp us) \<in> set (snd (provisionInvited i now inp us))"
  by (auto simp: provisionInvited_def Let_def split: option.split dest: findBySlackIdentity_Some)

text \<open>What the batch does to the table is a sequence of invitations.\<close>

lemma provision_found_facts:
  assumes "provision_found i now deliver email f batch us = (r, batch', us')"
  obtains inp where "us' = member_step (ib_workspaceId batch) (OpInvite i now inp) us"
    "ib_workspaceId batch' = ib_workspaceId batch" "ir_email r = email" "ir_status r = SInvited"
    "list_ex (\<lambda>u. u_workspaceId u = ib_workspaceId batch \<and> u_slackUserId u = sf_id f \<and> u_isActive u
        \<and> Some (u_name u) = ir_name r) us'"
proof -
  define inp where "inp = \<lparr>pi_workspaceId = ib_workspaceId batch, pi_slackUserId = sf_id f,
    pi_name = sf_name f, pi_email = sf_email f, pi_avatarUrl = sf_avatarUrl f\<rparr>"
  obtain m us1 where m: "provisionInvited i now inp us = (m, us1)" by (cases "provisionInvited i now inp us")
  note facts = provisionInvited_facts[of i now inp us]
  from assms m have r: "ir_email r = email" "ir_status r = SInvited" "ir_name r = Some (u_name m)"
    "ib_workspaceId batch' = ib_workspaceId batch" "us' = us1"
    unfolding provision_found_def Let_def inp_def[symmetric] by auto
  have "us' = member_step (ib_workspaceId batch) (OpInvite i now inp) us"
    using m r(5) by (simp add: inp_def)
  moreover have "list_ex (\<lambda>u. u_workspaceId u = ib_workspaceId batch \<and> u_slackUserId u = sf_id f \<and> u_isActive u
        \<and> Some (u_name u) = ir_name r) us'"
    using facts m r by (auto simp: list_ex_iff inp_def intro!: bexI[of _ m])
  ultimately show thesis using r that by blast
qed

definition supply_ok :: "(nat \<Rightarrow> uuid) \<Rightarrow> user list \<Rightarrow> bool" where
  "supply_ok ids us \<longleftrightarrow> inj ids \<and> range ids \<inter> u_id ` set us = {}"

definition ids_used :: "(nat \<Rightarrow> uuid) \<Rightarrow> nat \<Rightarrow> user list \<Rightarrow> bool" where
  "ids_used ids k us \<longleftrightarrow> inj ids \<and> (\<forall>j. k \<le> j \<longrightarrow> ids j \<notin> u_id ` set us)"

lemma invite_step_ids:
  assumes "users_wf us" "ids_used ids k us"
  shows "ids_used ids (Suc k) (member_step ws (OpInvite (ids k) now inp) us)"
proof -
  have "fresh_ok (OpInvite (ids k) now inp) us" using assms(2) by (simp add: ids_used_def)
  then have "u_id ` set (member_step ws (OpInvite (ids k) now inp) us) \<subseteq> insert (ids k) (u_id ` set us)"
    by (auto simp: provisionInvited_def Let_def set_save_row split: option.split dest!: findBySlackIdentity_Some)
  moreover have "ids j \<noteq> ids k" if "Suc k \<le> j" for j
    using assms(2) that by (auto simp: ids_used_def inj_eq)
  ultimately show ?thesis using assms(2) unfolding ids_used_def
    by (meson Suc_leD insertE subsetD)
qed

lemma ids_used_Suc: "ids_used ids k us \<Longrightarrow> ids_used ids (Suc k) us"
  by (simp add: ids_used_def)

lemma invite_loop_facts:
  assumes "invite_loop ids k now lookup deliver emails batch us = (rs, us')"
    and "users_wf us" "ids_used ids k us"
  shows "map ir_email rs = emails \<and> users_wf us'
    \<and> (has_active_admin us w \<longrightarrow> has_active_admin us' w)
    \<and> (w \<noteq> ib_workspaceId batch \<longrightarrow> listAllByWorkspace us' w = listAllByWorkspace us w)
    \<and> (\<forall>u \<in> set us. \<exists>u' \<in> set us'. u_id u' = u_id u \<and> u_role u' = u_role u \<and> (u_isActive u \<longrightarrow> u_isActive u'))"
  using assms
proof (induction emails arbitrary: k batch us rs)
  case Nil
  then show ?case by auto
next
  case (Cons email emails)
  obtain r batch1 us1 where one: "inviteOne (ids k) now lookup deliver email batch us = (r, batch1, us1)"
    by (metis prod_cases3)
  with Cons.prems(1) obtain rs' where rest: "invite_loop ids (k + 1) now lookup deliver emails batch1 us1 = (rs', us')"
    and rs: "rs = r # rs'" by (auto simp: Let_def split: prod.splits)
  have head: "ir_email r = email \<and> ib_workspaceId batch1 = ib_workspaceId batch
      \<and> (us1 = us \<or> (\<exists>inp. us1 = member_step (ib_workspaceId batch) (OpInvite (ids k) now inp) us))"
    using one by (cases rule: inviteOne_cases) (auto elim!: provision_found_facts)
  have fresh: "fresh_ok (OpInvite (ids k) now inp) us" for inp using Cons.prems(3) by (simp add: ids_used_def)
  have next_ids: "ids_used ids (k + 1) us1"
    using head invite_step_ids[OF Cons.prems(2,3)] ids_used_Suc[OF Cons.prems(3)] by (metis Suc_eq_plus1)
  have keep: "\<exists>u' \<in> set (member_step ws (OpInvite (ids k) now inp) us).
      u_id u' = u_id u \<and> u_role u' = u_role u \<and> (u_isActive u \<longrightarrow> u_isActive u')"
    if u: "u \<in> set us" for u ws inp
  proof (cases "findBySlackIdentity us ws (pi_slackUserId inp)")
    case None
    have "u_id u \<noteq> ids k" using u Cons.prems(3) unfolding ids_used_def by (metis imageI order_refl)
    with None u show ?thesis
      by (intro bexI[of _ u]) (auto simp: provisionInvited_def Let_def set_save_row)
  next
    case (Some ex)
    show ?thesis
    proof (cases "u_id u = u_id ex")
      case True
      then have "u = ex" using u Cons.prems(2) findBySlackIdentity_Some[OF Some]
        by (auto simp: users_wf_def dest: distinct_map_inj_on inj_onD)
      with Some show ?thesis by (auto simp: provisionInvited_def Let_def intro!: bexI[OF _ in_save_row])
    next
      case False
      with u Some show ?thesis by (intro bexI[of _ u]) (auto simp: provisionInvited_def Let_def set_save_row)
    qed
  qed
  have step: "users_wf us1 \<and> (has_active_admin us w \<longrightarrow> has_active_admin us1 w)
      \<and> (w \<noteq> ib_workspaceId batch \<longrightarrow> listAllByWorkspace us1 w = listAllByWorkspace us w)
      \<and> (\<forall>u \<in> set us. \<exists>u' \<in> set us1. u_id u' = u_id u \<and> u_role u' = u_role u \<and> (u_isActive u \<longrightarrow> u_isActive u'))"
  proof (cases "us1 = us")
    case True
    with Cons.prems(2) show ?thesis by auto
  next
    case False
    with head obtain inp where us1: "us1 = member_step (ib_workspaceId batch) (OpInvite (ids k) now inp) us" by blast
    show ?thesis
      using keep member_step_wf[OF Cons.prems(2) fresh] member_step_keeps_admin[OF Cons.prems(2) fresh]
        member_step_foreign[OF Cons.prems(2) fresh]
      unfolding listAllByWorkspace_def us1 by (intro conjI impI ballI) assumption+
  qed
  from Cons.IH[OF rest conjunct1[OF step] next_ids] step head rs show ?case
    by auto (metis)+
qed


section \<open>Properties\<close>

text \<open>The addresses a batch works on are exactly the distinct non-blank ones of the request,
  trimmed and lower-cased, and normalising them again changes nothing.\<close>

theorem normalized_emails:
  "distinct (normalizeEmails es) \<and>
   set (normalizeEmails es) = {to_lower (js_trim e) | e. e \<in> set es \<and> js_trim e \<noteq> []}"
  using normalize_loop_props[of "[]" es] by (simp add: normalizeEmails_def)

text \<open>C11: a batch of invitations gives one result per distinct address in order, never switches
  a member off or changes anyone's role, keeps the workspace's admins, and touches no other
  workspace.\<close>

theorem invite_batch_is_safe:
  assumes "invite ids now lookup deliver url wss ws inviter emails us = (Inr rs, us')"
    and "users_wf us" "supply_ok ids us"
  shows "map ir_email rs = normalizeEmails emails \<and> users_wf us'
    \<and> (has_active_admin us w \<longrightarrow> has_active_admin us' w)
    \<and> (w \<noteq> ws \<longrightarrow> listAllByWorkspace us' w = listAllByWorkspace us w)
    \<and> (\<forall>u \<in> set us. \<exists>u' \<in> set us'. u_id u' = u_id u \<and> u_role u' = u_role u \<and> (u_isActive u \<longrightarrow> u_isActive u'))"
proof -
  obtain batch look del where "invite_loop ids 0 now look del (normalizeEmails emails) batch us = (rs, us')"
    "ib_workspaceId batch = ws"
    using assms(1) unfolding invite_def Let_def
    by (auto split: sum.splits option.splits if_splits prod.splits)
  moreover have "ids_used ids 0 us" using assms(3) by (auto simp: ids_used_def supply_ok_def)
  ultimately show ?thesis using invite_loop_facts[OF _ assms(2)] by blast
qed

definition sample_lookup :: "string \<Rightarrow> string \<Rightarrow> email_lookup" where
  "sample_lookup token email = (if email = ''bob@acme.io'' then LookupFound
     \<lparr>sf_id = ''U3'', sf_name = ''Bob'', sf_email = Some email, sf_avatarUrl = None,
      sf_deleted = False, sf_isBot = False\<rparr> else LookupNotFound)"

definition sample_supply :: "nat \<Rightarrow> uuid" where
  "sample_supply k = CHR ''n'' # show_nat k"

lemma invite_batch_is_safe_witness:
  "\<exists>rs us'. invite sample_supply 9 sample_lookup (\<lambda>_ _ _. True) ''https://app/'' [sample_workspace] ''w1'' ''a''
      ['' Bob@acme.io'', ''eve@acme.io''] sample_users = (Inr rs, us')
    \<and> map ir_email rs = [''bob@acme.io'', ''eve@acme.io''] \<and> has_active_admin us' ''w1''"
proof -
  let ?c = "invite sample_supply 9 sample_lookup (\<lambda>_ _ _. True) ''https://app/'' [sample_workspace] ''w1'' ''a''
      ['' Bob@acme.io'', ''eve@acme.io''] sample_users"
  have "is_ok (fst ?c)" by code_simp
  then obtain rs where c: "?c = (Inr rs, snd ?c)" by (metis is_ok_iff prod.collapse)
  have n: "normalizeEmails ['' Bob@acme.io'', ''eve@acme.io''] = [''bob@acme.io'', ''eve@acme.io'']" by code_simp
  have "inj sample_supply" by (auto simp: inj_def sample_supply_def show_nat_inj)
  moreover have "sample_supply k \<noteq> ''a'' \<and> sample_supply k \<noteq> ''b''" for k by (simp add: sample_supply_def)
  then have "range sample_supply \<inter> {''a'', ''b''} = {}" by blast
  ultimately have "supply_ok sample_supply sample_users"
    by (simp add: supply_ok_def sample_users_def sample_user_def)
  from invite_batch_is_safe[OF c sample_users_wf this, of "''w1''"] sample_users_admin n c show ?thesis by metis
qed

text \<open>An address reported as invited belongs to a person Slack knows, who is not deleted and
  no bot, and who is an active member of the workspace when the result is returned.\<close>

theorem invited_is_a_member:
  assumes "inviteOne i now lookup deliver email batch us = (r, batch', us')" "ir_status r = SInvited"
  shows "\<exists>f. lookup email = LookupFound f \<and> \<not> sf_deleted f \<and> \<not> sf_isBot f
    \<and> list_ex (\<lambda>u. u_workspaceId u = ib_workspaceId batch \<and> u_slackUserId u = sf_id f \<and> u_isActive u
        \<and> Some (u_name u) = ir_name r) us'"
  using assms(1)
proof (cases rule: inviteOne_cases)
  case declined
  with assms(2) show ?thesis by simp
next
  case (provisioned f)
  show ?thesis
    by (rule provision_found_facts[OF provisioned(5)]) (intro exI[of _ f] conjI provisioned(1-3))
qed

definition sample_batch :: invite_batch where
  "sample_batch = \<lparr>ib_workspaceId = ''w1'', ib_dashboardUrl = ''u'', ib_message = ''m'', ib_byEmail = [], ib_bySlackId = []\<rparr>"

lemma invited_is_a_member_witness:
  "\<exists>f. sample_lookup ''t'' ''bob@acme.io'' = LookupFound f \<and> sf_id f = ''U3'' \<and> \<not> sf_isBot f"
proof -
  let ?c = "inviteOne ''n'' 9 (sample_lookup ''t'') (\<lambda>_ _. True) ''bob@acme.io'' sample_batch sample_users"
  obtain r b us' where c: "?c = (r, b, us')" by (rule prod_cases3)
  have "ir_status (fst ?c) = SInvited" by code_simp
  then have "ir_status r = SInvited" by (simp only: c fst_conv)
  from invited_is_a_member[OF c this] obtain f
    where f: "sample_lookup ''t'' ''bob@acme.io'' = LookupFound f" "\<not> sf_isBot f" by blast
  from f(1) have "sf_id f = ''U3''" by (auto simp: sample_lookup_def)
  with f show ?thesis by blast
qed

end
