(* ===== verification/KeyValue.thy ===== *)
theory KeyValue
  imports Prelude
begin

text \<open>
  The Redis commands the services use, over one store of string entries with an optional
  expiry, and the interface \<open>ticket_store\<close> of the single-use tokens kept in it: what is
  stored under a token can be read until it expires or is consumed.
\<close>

section \<open>Commands\<close>

type_synonym kv = "string \<Rightarrow> (string \<times> time option) option"

definition empty_kv :: kv where
  "empty_kv = (\<lambda>_. None)"

definition live :: "time \<Rightarrow> string \<times> time option \<Rightarrow> bool" where
  "live now e = (case snd e of None \<Rightarrow> True | Some t \<Rightarrow> now < t)"

definition kv_get :: "string \<Rightarrow> time \<Rightarrow> kv \<Rightarrow> string option" where
  "kv_get k now s = (case s k of None \<Rightarrow> None | Some e \<Rightarrow> if live now e then Some (fst e) else None)"

text \<open>\<open>SET key value EX seconds\<close>.\<close>

definition kv_set_ex :: "string \<Rightarrow> string \<Rightarrow> int \<Rightarrow> time \<Rightarrow> kv \<Rightarrow> kv" where
  "kv_set_ex k v seconds now s = s(k \<mapsto> (v, Some (now + seconds * 1000)))"

text \<open>\<open>SET key value EX seconds NX\<close>: whether the key was free, and so was set.\<close>

definition kv_set_nx :: "string \<Rightarrow> string \<Rightarrow> int \<Rightarrow> time \<Rightarrow> kv \<Rightarrow> bool \<times> kv" where
  "kv_set_nx k v seconds now s =
     (if kv_get k now s = None then (True, kv_set_ex k v seconds now s) else (False, s))"

definition kv_del :: "string \<Rightarrow> kv \<Rightarrow> kv" where
  "kv_del k s = s(k := None)"

lemma kv_get_empty [simp]: "kv_get k now empty_kv = None"
  by (simp add: kv_get_def empty_kv_def)

lemma kv_get_set_ex:
  "kv_get k now (kv_set_ex k' v n t s) =
     (if k = k' then (if now < t + n * 1000 then Some v else None) else kv_get k now s)"
  by (simp add: kv_get_def kv_set_ex_def live_def)

lemma kv_get_del [simp]: "kv_get k now (kv_del k' s) = (if k = k' then None else kv_get k now s)"
  by (simp add: kv_get_def kv_del_def)

lemma kv_get_expires: "kv_get k now s = None \<Longrightarrow> now \<le> later \<Longrightarrow> kv_get k later s = None"
  by (auto simp: kv_get_def live_def split: option.splits if_splits)

section \<open>Single-use tokens as an interface\<close>

locale ticket_store =
  fixes issue :: "'t \<Rightarrow> 'p \<Rightarrow> time \<Rightarrow> 's \<Rightarrow> 's"
    and peek :: "'t \<Rightarrow> time \<Rightarrow> 's \<Rightarrow> 'p option"
    and consume :: "'t \<Rightarrow> time \<Rightarrow> 's \<Rightarrow> 's"
    and ok :: "'p \<Rightarrow> bool"
    and lifetime :: int
  assumes peek_issue: "ok p \<Longrightarrow> peek t now (issue t p t0 s) = (if now < t0 + lifetime then Some p else None)"
    and peek_issue_other: "t \<noteq> u \<Longrightarrow> peek t now (issue u p t0 s) = peek t now s"
    and peek_consume: "peek t now (consume t used s) = None"
    and peek_consume_other: "t \<noteq> u \<Longrightarrow> peek t now (consume u used s) = peek t now s"
begin

text \<open>
  Redeeming reads the token and, when it was there and \<open>g\<close> accepts what it holds, consumes it.
\<close>

definition redeem_if :: "('p \<Rightarrow> bool) \<Rightarrow> 't \<Rightarrow> time \<Rightarrow> 's \<Rightarrow> 'p option \<times> 's" where
  "redeem_if g t now s = (case peek t now s of None \<Rightarrow> (None, s)
     | Some p \<Rightarrow> if g p then (Some p, consume t now s) else (None, s))"

abbreviation redeem :: "'t \<Rightarrow> time \<Rightarrow> 's \<Rightarrow> 'p option \<times> 's" where
  "redeem \<equiv> redeem_if (\<lambda>_. True)"

text \<open>A history of redemptions, each at its time: what each of them got.\<close>

fun redeem_all :: "('t \<times> time \<times> ('p \<Rightarrow> bool)) list \<Rightarrow> 's \<Rightarrow> ('t \<times> 'p) list \<times> 's" where
  "redeem_all [] s = ([], s)"
| "redeem_all ((t, now, g) # rs) s =
     (case redeem_if g t now s of
        (None, s') \<Rightarrow> redeem_all rs s'
      | (Some p, s') \<Rightarrow> (let (got, s'') = redeem_all rs s' in ((t, p) # got, s'')))"

lemma redeem_gone: "fst (redeem_if g t now (consume t used s)) = None"
  by (simp add: redeem_if_def peek_consume)

lemma redeem_fresh: "ok p \<Longrightarrow> now < t0 + lifetime \<Longrightarrow> fst (redeem t now (issue t p t0 s)) = Some p"
  by (simp add: redeem_if_def peek_issue)

lemma redeem_expired: "ok p \<Longrightarrow> t0 + lifetime \<le> now \<Longrightarrow> fst (redeem_if g t now (issue t p t0 s)) = None"
  by (simp add: redeem_if_def peek_issue)

definition gone :: "'t \<Rightarrow> 's \<Rightarrow> bool" where
  "gone t s \<longleftrightarrow> (\<forall>now. peek t now s = None)"

lemma gone_redeem: "gone t s \<Longrightarrow> gone t (snd (redeem_if g u now s))"
  by (cases "t = u") (auto simp: gone_def redeem_if_def peek_consume peek_consume_other split: option.split)

lemma redeemed_is_gone: "redeem_if g t now s = (Some p, s') \<Longrightarrow> gone t s'"
  by (auto simp: gone_def redeem_if_def peek_consume split: option.splits if_splits)

lemma gone_redeem_all: "gone t s \<Longrightarrow> t \<notin> fst ` set (fst (redeem_all rs s))"
proof (induction rs s rule: redeem_all.induct)
  case (2 u now g rs s)
  have g: "gone t (snd (redeem_if g u now s))" using 2(3) by (rule gone_redeem)
  show ?case
  proof (cases "redeem_if g u now s")
    case (Pair r s')
    with g have "gone t s'" by simp
    show ?thesis
    proof (cases r)
      case None
      with 2(1) Pair \<open>gone t s'\<close> show ?thesis by simp
    next
      case (Some p)
      with Pair 2(3) have "u \<noteq> t" by (auto simp: gone_def redeem_if_def split: option.splits if_splits)
      with 2(2) Pair Some \<open>gone t s'\<close> show ?thesis by (auto simp: split_beta)
    qed
  qed
qed simp

text \<open>However often and in whatever order tokens are redeemed, each is honoured at most once.\<close>

lemma redeemed_once: "distinct (map fst (fst (redeem_all rs s)))"
proof (induction rs s rule: redeem_all.induct)
  case (2 u now g rs s)
  show ?case
  proof (cases "redeem_if g u now s")
    case (Pair r s')
    show ?thesis
    proof (cases r)
      case None
      with 2(1) Pair show ?thesis by simp
    next
      case (Some p)
      with Pair have "gone u s'" by (simp add: redeemed_is_gone)
      then have "u \<notin> fst ` set (fst (redeem_all rs s'))" by (rule gone_redeem_all)
      with 2(2) Pair Some show ?thesis by (auto simp: split_beta)
    qed
  qed
qed simp

end

section \<open>Tokens in the store\<close>

text \<open>
  A payload under \<open>prefix\<close> and token for some seconds.  The readers test the text they get as a
  condition, so an empty one counts as missing.
\<close>

definition put_ticket :: "string \<Rightarrow> int \<Rightarrow> string \<Rightarrow> string \<Rightarrow> time \<Rightarrow> kv \<Rightarrow> kv" where
  "put_ticket prefix seconds t payload now s = kv_set_ex (prefix @ t) payload seconds now s"

definition peek_ticket :: "string \<Rightarrow> string \<Rightarrow> time \<Rightarrow> kv \<Rightarrow> string option" where
  "peek_ticket prefix t now s = (case kv_get (prefix @ t) now s of Some (c # p) \<Rightarrow> Some (c # p) | _ \<Rightarrow> None)"

definition drop_ticket :: "string \<Rightarrow> string \<Rightarrow> kv \<Rightarrow> kv" where
  "drop_ticket prefix t s = kv_del (prefix @ t) s"

interpretation tickets: ticket_store "put_ticket prefix seconds" "peek_ticket prefix" "\<lambda>t _. drop_ticket prefix t"
    "\<lambda>p. p \<noteq> []" "seconds * 1000" for prefix seconds
  by unfold_locales
    (auto simp: put_ticket_def peek_ticket_def drop_ticket_def kv_get_set_ex split: option.split list.split)

end
