(* ===== verification/MetaAds.thy ===== *)
theory MetaAds
  imports JsonText
begin

text \<open>
  \<open>src/src/integrations/meta-ads.service.ts\<close>: the client of Meta's Graph API.  Every method
  builds one request and reads one reply.  The Graph API itself is the parameter \<open>graph\<close>: its
  answer to a request, given the requests sent before.  The state of a run is the list of
  requests sent so far, so what the program asks Meta to do can be stated.
\<close>

section \<open>Fetching\<close>

text \<open>
  What \<open>fetch\<close> does: it throws, or it gives a status and a body that parses as JSON or does not.
\<close>

datatype fetch_reply = Throws string | Reply (reply_ok: bool) (reply_status: nat) (reply_body: "jsval option")

datatype http_method = GET | POST | DELETE

record meta_request =
  mq_method :: http_method
  mq_path :: string
  mq_params :: "(string \<times> string) list"

type_synonym meta_log = "meta_request list"
type_synonym graph_api = "meta_log \<Rightarrow> meta_request \<Rightarrow> fetch_reply"
type_synonym 'a meta = "meta_log \<Rightarrow> 'a result \<times> meta_log"

text \<open>\<open>field?.trim()\<close> of an error envelope; its fields are strings where present.\<close>

definition trimmed_field :: "jsval \<Rightarrow> string \<Rightarrow> string" where
  "trimmed_field v k = js_trim (str_of (get_prop v k))"

definition metaErrorMessage :: "jsval \<Rightarrow> nat \<Rightarrow> string" where
  "metaErrorMessage error status =
     (let plain = ''Meta API error (HTTP '' @ show_nat status @ '')'' in
      if \<not> truthy error then plain
      else let heading = trimmed_field error ''error_user_title'';
               detail = trimmed_field error ''error_user_msg''
           in if heading \<noteq> [] \<and> detail \<noteq> []
              then (if heading = detail then heading else heading @ '': '' @ detail)
              else if detail \<noteq> [] then detail else if heading \<noteq> [] then heading
              else if str_of (get_prop error ''message'') \<noteq> [] then str_of (get_prop error ''message'')
              else plain)"

text \<open>Reading the reply, which \<open>get\<close> and \<open>request\<close> do alike.\<close>

definition read_reply :: "fetch_reply \<Rightarrow> jsval result" where
  "read_reply r = (case r of
     Throws m \<Rightarrow> Inl (PlainError m)
   | Reply ok status json \<Rightarrow>
       (let body = (case json of None \<Rightarrow> JObj [] | Some v \<Rightarrow> v) in
        if body = JNull then Inl (PlainError ''Cannot read properties of null (reading error)'')
        else if \<not> ok \<or> truthy (get_prop body ''error'')
        then Inl (PlainError (metaErrorMessage (get_prop body ''error'') status))
        else Inr body))"

definition meta_send :: "graph_api \<Rightarrow> meta_request \<Rightarrow> jsval meta" where
  "meta_send graph r sent = (read_reply (graph sent r), sent @ [r])"

text \<open>Setting a query parameter twice keeps one value; the token comes last.\<close>

definition with_token :: "string \<Rightarrow> (string \<times> string) list \<Rightarrow> (string \<times> string) list" where
  "with_token token params = aput ''access_token'' token params"

definition meta_get :: "string \<Rightarrow> string \<Rightarrow> (string \<times> string) list \<Rightarrow> meta_request" where
  "meta_get path token query = \<lparr>mq_method = GET, mq_path = path, mq_params = with_token token query\<rparr>"

definition meta_post :: "string \<Rightarrow> string \<Rightarrow> (string \<times> string) list \<Rightarrow> meta_request" where
  "meta_post path token params = \<lparr>mq_method = POST, mq_path = path, mq_params = with_token token params\<rparr>"

definition meta_delete :: "string \<Rightarrow> string \<Rightarrow> meta_request" where
  "meta_delete path token = \<lparr>mq_method = DELETE, mq_path = path, mq_params = with_token token []\<rparr>"

section \<open>Parameters\<close>

text \<open>
  Identifiers are strings.  An optional field is a value that may be \<open>undefined\<close>: the callers
  pass on what a model supplied without checking its type, so a field keeps whatever it holds.
  Only fields declared as arrays are arrays when present.
\<close>

record insights_params =
  in_adAccountId :: string
  in_level :: jsval
  in_datePreset :: jsval
  in_since :: jsval
  in_until :: jsval
  in_fields :: "jsval list"

record create_campaign_params =
  cc_adAccountId :: string
  cc_name :: string
  cc_objective :: string
  cc_dailyBudget :: jsval
  cc_lifetimeBudget :: jsval

text \<open>\<open>UpdateCampaignParams\<close>, \<open>UpdateAdSetParams\<close> and \<open>UpdateAdParams\<close> but for the id.\<close>

record update_params =
  up_name :: jsval
  up_status :: jsval
  up_dailyBudget :: jsval

record create_adset_params =
  ca_adAccountId :: string
  ca_campaignId :: string
  ca_name :: string
  ca_optimizationGoal :: string
  ca_billingEvent :: string
  ca_targeting :: "(string \<times> jsval) list"
  ca_dailyBudget :: jsval
  ca_lifetimeBudget :: jsval
  ca_bidStrategy :: jsval
  ca_startTime :: jsval
  ca_endTime :: jsval

record create_creative_params =
  cr_adAccountId :: string
  cr_name :: string
  cr_pageId :: string
  cr_link :: string
  cr_message :: string
  cr_imageUrl :: jsval
  cr_headline :: jsval
  cr_callToAction :: jsval

record create_ad_params =
  ad_adAccountId :: string
  ad_name :: string
  ad_adSetId :: string
  ad_creativeId :: string

text \<open>The three duplicate interfaces: the parent to copy into is a campaign or an ad set.\<close>

record duplicate_params =
  du_id :: string
  du_parentId :: jsval
  du_deepCopy :: jsval
  du_statusOption :: jsval
  du_renameSuffix :: jsval

section \<open>Requests\<close>

definition normalizeAccount :: "string \<Rightarrow> string" where
  "normalizeAccount i = (if starts_with ''act_'' i then i else ''act_'' @ i)"

text \<open>A parameter set when the field is not null, and one set when it is truthy.\<close>

definition opt_param :: "string \<Rightarrow> jsval \<Rightarrow> (string \<times> string) list" where
  "opt_param k v = (if is_nullish v then [] else [(k, to_string v)])"

definition truthy_param :: "string \<Rightarrow> jsval \<Rightarrow> (string \<times> string) list" where
  "truthy_param k v = (if truthy v then [(k, to_string v)] else [])"

text \<open>\<open>v ?? d\<close>.\<close>

definition nullish_or :: "jsval \<Rightarrow> string \<Rightarrow> string" where
  "nullish_or v d = (if is_nullish v then d else to_string v)"

definition listAdAccounts :: "string \<Rightarrow> meta_request" where
  "listAdAccounts token = meta_get ''me/adaccounts'' token
     [(''fields'', ''id,account_id,name,currency,account_status''), (''limit'', ''100'')]"

definition DEFAULT_INSIGHT_FIELDS :: "string list" where
  "DEFAULT_INSIGHT_FIELDS = [''spend'', ''impressions'', ''clicks'', ''ctr'', ''reach'', ''cpc'', ''cpm'']"

definition getInsights :: "string \<Rightarrow> insights_params \<Rightarrow> meta_request" where
  "getInsights token p = meta_get (normalizeAccount (in_adAccountId p) @ ''/insights'') token
     ([(''level'', nullish_or (in_level p) ''account''),
       (''fields'', to_string (JArr (if in_fields p = [] then map JStr DEFAULT_INSIGHT_FIELDS else in_fields p)))]
      @ (if truthy (in_since p) \<and> truthy (in_until p)
         then [(''time_range'', stringify (JObj [(''since'', in_since p), (''until'', in_until p)]))]
         else [(''date_preset'', nullish_or (in_datePreset p) ''last_7d'')]))"

definition listCampaigns :: "string \<Rightarrow> string \<Rightarrow> jsval list \<Rightarrow> meta_request" where
  "listCampaigns token account effectiveStatus = meta_get (normalizeAccount account @ ''/campaigns'') token
     ([(''fields'', ''id,name,status,effective_status,objective,daily_budget,lifetime_budget''),
       (''limit'', ''100'')]
      @ (if effectiveStatus = [] then []
         else [(''effective_status'', stringify (JArr effectiveStatus))]))"

definition createCampaign :: "string \<Rightarrow> create_campaign_params \<Rightarrow> meta_request" where
  "createCampaign token p = meta_post (normalizeAccount (cc_adAccountId p) @ ''/campaigns'') token
     ([(''name'', cc_name p), (''objective'', cc_objective p), (''status'', ''PAUSED''),
       (''special_ad_categories'', stringify (JArr []))]
      @ opt_param ''daily_budget'' (cc_dailyBudget p)
      @ opt_param ''lifetime_budget'' (cc_lifetimeBudget p)
      @ (if is_nullish (cc_dailyBudget p) \<and> is_nullish (cc_lifetimeBudget p)
         then [(''is_adset_budget_sharing_enabled'', ''false'')] else []))"

definition updateCampaign :: "string \<Rightarrow> string \<Rightarrow> update_params \<Rightarrow> meta_request" where
  "updateCampaign token i p = meta_post i token
     (opt_param ''name'' (up_name p) @ opt_param ''status'' (up_status p)
      @ opt_param ''daily_budget'' (up_dailyBudget p))"

definition deleteCampaign :: "string \<Rightarrow> string \<Rightarrow> meta_request" where
  "deleteCampaign token i = meta_delete i token"

definition copyOptions :: "jsval \<Rightarrow> jsval \<Rightarrow> jsval \<Rightarrow> (string \<times> string) list" where
  "copyOptions statusOption renameSuffix deepCopy =
     (''status_option'', nullish_or statusOption ''PAUSED'')
     # (if truthy renameSuffix
        then [(''rename_options'', stringify (JObj
               [(''rename_strategy'', JStr (if truthy deepCopy then ''DEEP_RENAME'' else ''ONLY_TOP_LEVEL_RENAME'')),
                (''rename_suffix'', renameSuffix)]))]
        else [])"

definition deep_copy :: "duplicate_params \<Rightarrow> string" where
  "deep_copy p = nullish_or (du_deepCopy p) ''false''"

definition duplicateCampaign :: "string \<Rightarrow> duplicate_params \<Rightarrow> meta_request" where
  "duplicateCampaign token p = meta_post (du_id p @ ''/copies'') token
     ((''deep_copy'', deep_copy p) # copyOptions (du_statusOption p) (du_renameSuffix p) (du_deepCopy p))"

definition listAdSets :: "string \<Rightarrow> string \<Rightarrow> meta_request" where
  "listAdSets token campaign = meta_get (campaign @ ''/adsets'') token
     [(''fields'', ''id,name,status,effective_status,optimization_goal,billing_event,daily_budget,targeting''),
      (''limit'', ''100'')]"

definition listAdSetsForAccount :: "string \<Rightarrow> string \<Rightarrow> meta_request" where
  "listAdSetsForAccount token account = meta_get (normalizeAccount account @ ''/adsets'') token
     [(''fields'', ''id,name,status,effective_status,campaign_id,daily_budget''), (''limit'', ''200'')]"

definition adset_targeting :: "(string \<times> jsval) list \<Rightarrow> (string \<times> jsval) list" where
  "adset_targeting targeting =
     (if truthy (get_prop (JObj targeting) ''targeting_automation'') then targeting
      else aput ''targeting_automation'' (JObj [(''advantage_audience'', JNum (Fin 0))]) targeting)"

definition createAdSet :: "string \<Rightarrow> create_adset_params \<Rightarrow> meta_request" where
  "createAdSet token p = meta_post (normalizeAccount (ca_adAccountId p) @ ''/adsets'') token
     ([(''name'', ca_name p), (''campaign_id'', ca_campaignId p),
       (''optimization_goal'', ca_optimizationGoal p), (''billing_event'', ca_billingEvent p),
       (''bid_strategy'', nullish_or (ca_bidStrategy p) ''LOWEST_COST_WITHOUT_CAP''),
       (''targeting'', stringify (JObj (adset_targeting (ca_targeting p)))), (''status'', ''PAUSED'')]
      @ opt_param ''daily_budget'' (ca_dailyBudget p)
      @ opt_param ''lifetime_budget'' (ca_lifetimeBudget p)
      @ truthy_param ''start_time'' (ca_startTime p) @ truthy_param ''end_time'' (ca_endTime p))"

definition updateAdSet :: "string \<Rightarrow> string \<Rightarrow> update_params \<Rightarrow> meta_request" where
  "updateAdSet token i p = meta_post i token
     (opt_param ''name'' (up_name p) @ opt_param ''status'' (up_status p)
      @ opt_param ''daily_budget'' (up_dailyBudget p))"

definition deleteAdSet :: "string \<Rightarrow> string \<Rightarrow> meta_request" where
  "deleteAdSet token i = meta_delete i token"

definition duplicateAdSet :: "string \<Rightarrow> duplicate_params \<Rightarrow> meta_request" where
  "duplicateAdSet token p = meta_post (du_id p @ ''/copies'') token
     ((''deep_copy'', deep_copy p) # copyOptions (du_statusOption p) (du_renameSuffix p) (du_deepCopy p)
      @ truthy_param ''campaign_id'' (du_parentId p))"

definition listAds :: "string \<Rightarrow> string \<Rightarrow> meta_request" where
  "listAds token adset = meta_get (adset @ ''/ads'') token
     [(''fields'', ''id,name,status,effective_status,creative''), (''limit'', ''100'')]"

text \<open>The optional parts of a link ad, set only when not empty.\<close>

definition truthy_prop :: "string \<Rightarrow> jsval \<Rightarrow> (string \<times> jsval) list" where
  "truthy_prop k v = (if truthy v then [(k, v)] else [])"

definition link_data :: "create_creative_params \<Rightarrow> (string \<times> jsval) list" where
  "link_data p = [(''link'', JStr (cr_link p)), (''message'', JStr (cr_message p))]
     @ truthy_prop ''name'' (cr_headline p) @ truthy_prop ''picture'' (cr_imageUrl p)
     @ (if truthy (cr_callToAction p)
        then [(''call_to_action'', JObj [(''type'', cr_callToAction p),
                (''value'', JObj [(''link'', JStr (cr_link p))])])] else [])"

definition createAdCreative :: "string \<Rightarrow> create_creative_params \<Rightarrow> meta_request" where
  "createAdCreative token p = meta_post (normalizeAccount (cr_adAccountId p) @ ''/adcreatives'') token
     [(''name'', cr_name p),
      (''object_story_spec'', stringify (JObj [(''page_id'', JStr (cr_pageId p)), (''link_data'', JObj (link_data p))]))]"

definition createAd :: "string \<Rightarrow> create_ad_params \<Rightarrow> meta_request" where
  "createAd token p = meta_post (normalizeAccount (ad_adAccountId p) @ ''/ads'') token
     [(''name'', ad_name p), (''adset_id'', ad_adSetId p),
      (''creative'', stringify (JObj [(''creative_id'', JStr (ad_creativeId p))])), (''status'', ''PAUSED'')]"

definition updateAd :: "string \<Rightarrow> string \<Rightarrow> update_params \<Rightarrow> meta_request" where
  "updateAd token i p = meta_post i token
     (opt_param ''name'' (up_name p) @ opt_param ''status'' (up_status p))"

definition deleteAd :: "string \<Rightarrow> string \<Rightarrow> meta_request" where
  "deleteAd token i = meta_delete i token"

definition duplicateAd :: "string \<Rightarrow> duplicate_params \<Rightarrow> meta_request" where
  "duplicateAd token p = meta_post (du_id p @ ''/copies'') token
     (copyOptions (du_statusOption p) (du_renameSuffix p) (JBool False)
      @ truthy_param ''adset_id'' (du_parentId p))"

definition listPages :: "string \<Rightarrow> meta_request" where
  "listPages token = meta_get ''me/accounts'' token [(''fields'', ''id,name''), (''limit'', ''100'')]"

definition searchInterests :: "string \<Rightarrow> string \<Rightarrow> meta_request" where
  "searchInterests token query = meta_get ''search'' token
     [(''type'', ''adinterest''), (''q'', query), (''limit'', ''15'')]"

end
