(* ===== verification/Integrations.thy ===== *)
theory Integrations
  imports Users KeyValue MetaAds
begin

text \<open>
  \<open>src/src/integrations/integrations.service.ts\<close> over the table of \<open>integration.entity.ts\<close>, with
  the token handling of \<open>meta-mcp.service.ts\<close>: which connected accounts a member may see and
  use, how a Meta account is connected and its token kept fresh, and how accounts are edited
  and removed.  Parameters are Pipedream (its account lookup, credentials and revocation),
  Meta's OAuth endpoints, and the random values.
\<close>

section \<open>Data\<close>

datatype access_level = TEAM | PRIVATE
datatype provider = PIPEDREAM | META

fun level_text :: "access_level \<Rightarrow> string" where
  "level_text TEAM = ''team''"
| "level_text PRIVATE = ''private''"

record integration =
  ig_id :: uuid
  ig_workspaceId :: uuid
  ig_userId :: uuid
  ig_provider :: provider
  ig_appName :: string
  ig_appSlug :: string
  ig_externalAccountId :: "string option"
  ig_accountName :: "string option"
  ig_nickname :: "string option"
  ig_accessLevel :: access_level
  ig_iconUrl :: "string option"
  ig_isActive :: bool
  ig_accessToken :: "string option"
  ig_refreshToken :: "string option"
  ig_tokenExpiresAt :: "time option"
  ig_scopes :: "string option"
  ig_connectedAt :: time

record integration_view =
  iv_id :: uuid
  iv_provider :: provider
  iv_appName :: string
  iv_appSlug :: string
  iv_accountName :: "string option"
  iv_nickname :: "string option"
  iv_accessLevel :: access_level
  iv_iconUrl :: "string option"
  iv_externalAccountId :: "string option"
  iv_isActive :: bool
  iv_connectedAt :: time
  iv_userId :: uuid
  iv_userName :: "string option"

record token_set =
  ts_accessToken :: string
  ts_refreshToken :: "string option"
  ts_expiresAt :: "time option"
  ts_scopes :: "string option"

text \<open>An account as Pipedream's SDK describes it.\<close>

record pd_account =
  pa_id :: string
  pa_name :: "string option"
  pa_healthy :: "bool option"
  pa_appSlug :: "string option"
  pa_appName :: "string option"
  pa_appImg :: "string option"

definition integration_view_of :: "user list \<Rightarrow> integration \<Rightarrow> integration_view" where
  "integration_view_of us r = \<lparr>iv_id = ig_id r, iv_provider = ig_provider r, iv_appName = ig_appName r,
     iv_appSlug = ig_appSlug r, iv_accountName = ig_accountName r, iv_nickname = ig_nickname r,
     iv_accessLevel = ig_accessLevel r, iv_iconUrl = ig_iconUrl r,
     iv_externalAccountId = ig_externalAccountId r, iv_isActive = ig_isActive r,
     iv_connectedAt = ig_connectedAt r, iv_userId = ig_userId r,
     iv_userName = map_option u_name (findById us (ig_userId r))\<rparr>"

section \<open>Who sees what\<close>

definition privateExternalUserId :: "uuid \<Rightarrow> string" where
  "privateExternalUserId user = ''u:'' @ user"

definition resolveExternalUserId :: "uuid \<Rightarrow> uuid \<Rightarrow> access_level \<Rightarrow> string" where
  "resolveExternalUserId ws user level = (if level = PRIVATE then privateExternalUserId user else ws)"

text \<open>The bracketed condition both queries share; an empty user id counts as none.\<close>

definition visible_to :: "uuid option \<Rightarrow> integration \<Rightarrow> bool" where
  "visible_to user r \<longleftrightarrow> ig_accessLevel r = TEAM \<or> (user \<noteq> None \<and> user \<noteq> Some [] \<and> user = Some (ig_userId r))"

definition findVisibleForUser :: "user list \<Rightarrow> uuid \<Rightarrow> uuid option \<Rightarrow> integration list \<Rightarrow> integration_view list" where
  "findVisibleForUser us ws user rows = map (integration_view_of us)
     (rev (filter (\<lambda>r. ig_workspaceId r = ws \<and> visible_to user r) rows))"

definition visibleMetaIntegrations :: "uuid \<Rightarrow> uuid option \<Rightarrow> integration list \<Rightarrow> integration list" where
  "visibleMetaIntegrations ws user rows =
     filter (\<lambda>r. ig_workspaceId r = ws \<and> ig_provider r = META \<and> ig_isActive r \<and> visible_to user r) rows"

definition visibleAppConnections ::
  "user list \<Rightarrow> uuid \<Rightarrow> uuid option \<Rightarrow> string \<Rightarrow> integration list \<Rightarrow> integration_view list" where
  "visibleAppConnections us ws user slug rows =
     sort_key (\<lambda>v. if iv_accessLevel v = TEAM then 0 else 1 :: nat)
       (filter (\<lambda>v. iv_isActive v \<and> iv_provider v = PIPEDREAM \<and> iv_appSlug v = slug)
          (findVisibleForUser us ws user rows))"

text \<open>\<open>row.externalAccountId\<close> as a condition.\<close>

definition has_account :: "integration_view \<Rightarrow> bool" where
  "has_account v \<longleftrightarrow> iv_externalAccountId v \<notin> {None, Some []}"

definition getGoogleSheetsCredential ::
  "user list \<Rightarrow> uuid \<Rightarrow> uuid option \<Rightarrow> integration list \<Rightarrow> (string \<times> string) option" where
  "getGoogleSheetsCredential us ws user rows =
     map_option (\<lambda>v. (resolveExternalUserId ws (iv_userId v) (iv_accessLevel v), the (iv_externalAccountId v)))
       (List.find has_account (visibleAppConnections us ws user ''google_sheets'' rows))"

definition firstString :: "jsval list \<Rightarrow> string option" where
  "firstString vs = map_option str_of (List.find (\<lambda>v. is_string v \<and> str_of v \<noteq> []) vs)"

text \<open>
  The first readable credential; \<open>credentials\<close> is Pipedream's answer for an account id, where
  an error or \<open>null\<close> passes on to the next connection.
\<close>

fun first_credential ::
  "(string \<Rightarrow> jsval result) \<Rightarrow> (jsval \<Rightarrow> string option) \<Rightarrow> integration_view list \<Rightarrow> string option" where
  "first_credential credentials pick [] = None"
| "first_credential credentials pick (v # vs) =
     (case credentials (the (iv_externalAccountId v)) of
        Inl _ \<Rightarrow> first_credential credentials pick vs
      | Inr c \<Rightarrow> (case if is_nullish c then None else pick c of
           Some s \<Rightarrow> if s = [] then first_credential credentials pick vs else Some s
         | None \<Rightarrow> first_credential credentials pick vs))"

definition resolveAppCredential ::
  "(string \<Rightarrow> jsval result) \<Rightarrow> user list \<Rightarrow> uuid \<Rightarrow> uuid option \<Rightarrow> string \<Rightarrow> (jsval \<Rightarrow> string option)
     \<Rightarrow> integration list \<Rightarrow> string option" where
  "resolveAppCredential credentials us ws user slug pick rows =
     first_credential credentials pick (filter has_account (visibleAppConnections us ws user slug rows))"

definition getStripeApiKey ::
  "(string \<Rightarrow> jsval result) \<Rightarrow> user list \<Rightarrow> uuid \<Rightarrow> uuid option \<Rightarrow> integration list \<Rightarrow> string option" where
  "getStripeApiKey credentials us ws user rows = resolveAppCredential credentials us ws user ''stripe''
     (\<lambda>c. firstString [get_prop c ''api_key'', get_prop c ''apiKey'', get_prop c ''oauthAccessToken'']) rows"

definition listActiveMetaWorkspaceIds :: "integration list \<Rightarrow> uuid list" where
  "listActiveMetaWorkspaceIds rows =
     js_unique (map ig_workspaceId (filter (\<lambda>r. ig_provider r = META \<and> ig_isActive r) rows))"

text \<open>
  The report for a whole workspace.  Postgres orders the joined rows by the member's name (rows
  without a member last) and then by the app's; \<open>collate\<close> is the rank its collation gives a text.
\<close>

definition report_row :: "user list \<Rightarrow> integration \<Rightarrow> string option \<times> string \<times> string \<times> string option \<times> bool \<times> access_level" where
  "report_row us r = (map_option u_name (findById us (ig_userId r)), ig_appName r, ig_appSlug r,
     coalesce (ig_nickname r) (ig_accountName r), ig_isActive r, ig_accessLevel r)"

definition getWorkspaceIntegrations ::
  "(string \<Rightarrow> nat) \<Rightarrow> user list \<Rightarrow> uuid \<Rightarrow> integration list
     \<Rightarrow> (string option \<times> string \<times> string \<times> string option \<times> bool \<times> access_level) list" where
  "getWorkspaceIntegrations collate us ws rows =
    (let mine = sort_key (\<lambda>r. collate (ig_appName r)) (filter (\<lambda>r. ig_workspaceId r = ws) rows);
         named = (\<lambda>r. findById us (ig_userId r) \<noteq> None)
     in map (report_row us)
          (sort_key (\<lambda>r. collate (u_name (the (findById us (ig_userId r))))) (filter named mine)
           @ filter (\<lambda>r. \<not> named r) mine))"

section \<open>Meta's OAuth\<close>

text \<open>
  The environment of the OAuth exchange: our client, the token endpoint's answer to a form, the
  Graph API's answer to \<open>me\<close> for a token, and the random hex used when that fails.
\<close>

record meta_oauth =
  mo_clientId :: string
  mo_clientSecret :: "string option"
  mo_redirectUri :: string
  mo_token :: "(string \<times> string) list \<Rightarrow> fetch_reply"
  mo_me :: "string \<Rightarrow> fetch_reply"
  mo_random :: string

definition EXPIRY_SKEW_MS :: int where
  "EXPIRY_SKEW_MS = 60000"

definition isExpired :: "time \<Rightarrow> time option \<Rightarrow> bool" where
  "isExpired now expiresAt = (case expiresAt of None \<Rightarrow> False | Some t \<Rightarrow> t - EXPIRY_SKEW_MS \<le> now)"

definition opt_str :: "jsval \<Rightarrow> string option" where
  "opt_str v = (if is_nullish v then None else Some (to_string v))"

text \<open>The reply of the token endpoint; \<open>expires_in\<close> is a number of seconds when present.\<close>

definition token_set_of :: "time \<Rightarrow> jsval \<Rightarrow> token_set" where
  "token_set_of now json = \<lparr>ts_accessToken = to_string (get_prop json ''access_token''),
     ts_refreshToken = opt_str (get_prop json ''refresh_token''),
     ts_expiresAt = (case get_prop json ''expires_in'' of
        JNum (Fin x) \<Rightarrow> if x = 0 then None else Some \<lfloor>fl (of_int now + fl (x * 1000))\<rfloor>
      | _ \<Rightarrow> None),
     ts_scopes = opt_str (get_prop json ''scope'')\<rparr>"

definition tokenRequest :: "meta_oauth \<Rightarrow> time \<Rightarrow> (string \<times> string) list \<Rightarrow> token_set result" where
  "tokenRequest mo now params =
    (let form = params @ [(''client_id'', mo_clientId mo)]
           @ (case mo_clientSecret mo of Some (c # s) \<Rightarrow> [(''client_secret'', c # s)] | _ \<Rightarrow> [])
     in case mo_token mo form of
          Throws m \<Rightarrow> Inl (PlainError m)
        | Reply ok status json \<Rightarrow>
            if \<not> ok then Inl (ServiceUnavailable (''Meta token request failed ('' @ show_nat status @ '')''))
            else (case json of None \<Rightarrow> Inl (PlainError ''Unexpected token in JSON'')
                  | Some v \<Rightarrow> Inr (token_set_of now v)))"

definition refreshAccessToken :: "meta_oauth \<Rightarrow> time \<Rightarrow> string \<Rightarrow> token_set result" where
  "refreshAccessToken mo now refreshToken =
     tokenRequest mo now [(''grant_type'', ''refresh_token''), (''refresh_token'', refreshToken)]"

definition resolveAccount :: "meta_oauth \<Rightarrow> string \<Rightarrow> string \<times> string option" where
  "resolveAccount mo token = (case mo_me mo token of
      Reply ok status (Some me) \<Rightarrow>
        if ok \<and> truthy (get_prop me ''id'')
        then (''meta:'' @ to_string (get_prop me ''id''), opt_str (get_prop me ''name''))
        else (''meta:'' @ mo_random mo, None)
    | _ \<Rightarrow> (''meta:'' @ mo_random mo, None))"

text \<open>The tokens with the account's id and name.\<close>

definition exchangeCode :: "meta_oauth \<Rightarrow> time \<Rightarrow> string \<Rightarrow> string \<Rightarrow> (token_set \<times> string \<times> string option) result" where
  "exchangeCode mo now code verifier =
    (case tokenRequest mo now [(''grant_type'', ''authorization_code''), (''code'', code),
             (''redirect_uri'', mo_redirectUri mo), (''code_verifier'', verifier)] of
       Inl e \<Rightarrow> Inl e
     | Inr ts \<Rightarrow> Inr (ts, resolveAccount mo (ts_accessToken ts)))"

section \<open>Keeping a token fresh\<close>

definition refreshed :: "token_set \<Rightarrow> integration \<Rightarrow> integration" where
  "refreshed ts r = r\<lparr>ig_accessToken := Some (ts_accessToken ts),
     ig_refreshToken := coalesce (ts_refreshToken ts) (ig_refreshToken r),
     ig_tokenExpiresAt := ts_expiresAt ts,
     ig_scopes := (case ts_scopes ts of Some (c # s) \<Rightarrow> Some (c # s) | _ \<Rightarrow> ig_scopes r)\<rparr>"

definition ensureFreshMetaToken ::
  "meta_oauth \<Rightarrow> time \<Rightarrow> integration \<Rightarrow> integration list \<Rightarrow> string option \<times> integration list" where
  "ensureFreshMetaToken mo now r rows =
    (if ig_accessToken r \<notin> {None, Some []} \<and> \<not> isExpired now (ig_tokenExpiresAt r) then (ig_accessToken r, rows)
     else case ig_refreshToken r of
         Some (c # s) \<Rightarrow>
           (case refreshAccessToken mo now (c # s) of
              Inr ts \<Rightarrow> (Some (ts_accessToken ts), save_row ig_id (refreshed ts r) rows)
            | Inl _ \<Rightarrow> (None, save_row ig_id (r\<lparr>ig_isActive := False\<rparr>) rows))
       | _ \<Rightarrow> (ig_accessToken r, rows))"

text \<open>The first token of the listed accounts that is neither missing nor empty.\<close>

fun first_token ::
  "meta_oauth \<Rightarrow> time \<Rightarrow> integration list \<Rightarrow> integration list \<Rightarrow> string option \<times> integration list" where
  "first_token mo now [] rows = (None, rows)"
| "first_token mo now (r # rs) rows =
     (case ensureFreshMetaToken mo now r rows of
        (Some (c # t), rows') \<Rightarrow> (Some (c # t), rows')
      | (_, rows') \<Rightarrow> first_token mo now rs rows')"

definition getMetaAccessToken ::
  "meta_oauth \<Rightarrow> time \<Rightarrow> uuid \<Rightarrow> uuid option \<Rightarrow> integration list \<Rightarrow> string option \<times> integration list" where
  "getMetaAccessToken mo now ws user rows = first_token mo now (visibleMetaIntegrations ws user rows) rows"

text \<open>The Meta MCP servers of a run: the account's server name with its token.\<close>

fun meta_servers ::
  "meta_oauth \<Rightarrow> time \<Rightarrow> integration list \<Rightarrow> integration list \<Rightarrow> (string \<times> string) list \<times> integration list" where
  "meta_servers mo now [] rows = ([], rows)"
| "meta_servers mo now (r # rs) rows =
     (case ensureFreshMetaToken mo now r rows of
        (Some (c # t), rows') \<Rightarrow>
          (let (ss, rows'') = meta_servers mo now rs rows' in ((''meta-'' @ ig_id r, c # t) # ss, rows''))
      | (_, rows') \<Rightarrow> meta_servers mo now rs rows')"

definition buildMetaMcpServers ::
  "meta_oauth \<Rightarrow> time \<Rightarrow> uuid \<Rightarrow> uuid \<Rightarrow> integration list \<Rightarrow> (string \<times> string) list \<times> integration list" where
  "buildMetaMcpServers mo now ws user rows =
     meta_servers mo now (visibleMetaIntegrations ws (Some user) rows) rows"

section \<open>Connecting an account\<close>

definition META_STATE_TTL_SECONDS :: int where
  "META_STATE_TTL_SECONDS = 600"

definition META_STATE_PREFIX :: string where
  "META_STATE_PREFIX = ''meta:oauth:''"

record oauth_state =
  os_workspaceId :: uuid
  os_userId :: uuid
  os_accessLevel :: access_level
  os_codeVerifier :: string

definition oauth_state_json :: "oauth_state \<Rightarrow> jsval" where
  "oauth_state_json s = JObj [(''workspaceId'', JStr (os_workspaceId s)), (''userId'', JStr (os_userId s)),
     (''accessLevel'', JStr (level_text (os_accessLevel s))), (''codeVerifier'', JStr (os_codeVerifier s))]"

definition oauth_state_of :: "jsval \<Rightarrow> oauth_state" where
  "oauth_state_of v = \<lparr>os_workspaceId = str_of (get_prop v ''workspaceId''), os_userId = str_of (get_prop v ''userId''),
     os_accessLevel = (if get_prop v ''accessLevel'' = JStr ''private'' then PRIVATE else TEAM),
     os_codeVerifier = str_of (get_prop v ''codeVerifier'')\<rparr>"

definition stash_state :: "string \<Rightarrow> oauth_state \<Rightarrow> time \<Rightarrow> kv \<Rightarrow> kv" where
  "stash_state state p now s =
     put_ticket META_STATE_PREFIX META_STATE_TTL_SECONDS state (stringify (oauth_state_json p)) now s"

text \<open>
  \<open>authorize\<close> builds the consent URL from the state and the challenge; \<open>sha256\<close> is the base64url
  digest.
\<close>

definition startMetaConnect ::
  "(string \<Rightarrow> string \<Rightarrow> string result) \<Rightarrow> (string \<Rightarrow> string) \<Rightarrow> string \<Rightarrow> string \<Rightarrow> time \<Rightarrow> uuid \<Rightarrow> uuid \<Rightarrow> access_level
     \<Rightarrow> kv \<Rightarrow> string result \<times> kv" where
  "startMetaConnect authorize sha256 state verifier now ws user level s =
     (authorize state (sha256 verifier),
      stash_state state \<lparr>os_workspaceId = ws, os_userId = user, os_accessLevel = level,
                         os_codeVerifier = verifier\<rparr> now s)"

text \<open>A row with this workspace and account: the unique index both connect paths upsert on.\<close>

definition find_account :: "uuid \<Rightarrow> string \<Rightarrow> integration list \<Rightarrow> integration option" where
  "find_account ws account rows = List.find (\<lambda>r. ig_workspaceId r = ws \<and> ig_externalAccountId r = Some account) rows"

definition new_integration :: "uuid \<Rightarrow> time \<Rightarrow> uuid \<Rightarrow> uuid \<Rightarrow> string \<Rightarrow> integration" where
  "new_integration i now ws user account = \<lparr>ig_id = i, ig_workspaceId = ws, ig_userId = user, ig_provider = PIPEDREAM,
     ig_appName = [], ig_appSlug = [], ig_externalAccountId = Some account, ig_accountName = None,
     ig_nickname = None, ig_accessLevel = TEAM, ig_iconUrl = None, ig_isActive = True, ig_accessToken = None,
     ig_refreshToken = None, ig_tokenExpiresAt = None, ig_scopes = None, ig_connectedAt = now\<rparr>"

definition existing_or_new :: "uuid \<Rightarrow> time \<Rightarrow> uuid \<Rightarrow> uuid \<Rightarrow> string \<Rightarrow> integration list \<Rightarrow> integration" where
  "existing_or_new i now ws user account rows = (case find_account ws account rows of
     Some r \<Rightarrow> r | None \<Rightarrow> new_integration i now ws user account)"

definition META_ICON_URL :: string where
  "META_ICON_URL = ''https://www.facebook.com/images/fb_icon_325x325.png''"

definition connect_meta_row :: "token_set \<Rightarrow> string option \<Rightarrow> access_level \<Rightarrow> integration \<Rightarrow> integration" where
  "connect_meta_row ts name level r = r\<lparr>ig_provider := META, ig_appSlug := ''meta_ads'', ig_appName := ''Meta Ads'',
     ig_accountName := name, ig_accessLevel := level, ig_iconUrl := Some META_ICON_URL, ig_isActive := True,
     ig_accessToken := Some (ts_accessToken ts), ig_refreshToken := ts_refreshToken ts,
     ig_tokenExpiresAt := ts_expiresAt ts, ig_scopes := ts_scopes ts\<rparr>"

text \<open>\<open>JSON.parse\<close> of what \<open>startMetaConnect\<close> stored; any other text is a thrown error.\<close>

definition completeMetaConnect ::
  "meta_oauth \<Rightarrow> uuid \<Rightarrow> time \<Rightarrow> string \<Rightarrow> string \<Rightarrow> integration list \<Rightarrow> kv
     \<Rightarrow> integration result \<times> integration list \<times> kv" where
  "completeMetaConnect mo i now state code rows s =
    (case peek_ticket META_STATE_PREFIX state now s of
       None \<Rightarrow> (Inl (NotFound ''Meta connect session expired or invalid''), rows, s)
     | Some raw \<Rightarrow>
        let s' = drop_ticket META_STATE_PREFIX state s in
        (case json_parse raw of
           None \<Rightarrow> (Inl (PlainError ''Unexpected token in JSON''), rows, s')
         | Some v \<Rightarrow>
            let p = oauth_state_of v in
            (case exchangeCode mo now code (os_codeVerifier p) of
               Inl e \<Rightarrow> (Inl e, rows, s')
             | Inr (ts, account, name) \<Rightarrow>
                let r = connect_meta_row ts name (os_accessLevel p)
                          (existing_or_new i now (os_workspaceId p) (os_userId p) account rows)
                in (Inr r, save_row ig_id r rows, s'))))"

section \<open>Confirming, editing and removing\<close>

definition confirm_row :: "pd_account \<Rightarrow> string \<Rightarrow> access_level \<Rightarrow> string option \<Rightarrow> integration \<Rightarrow> integration" where
  "confirm_row a slug level nickname r = r\<lparr>
     ig_appSlug := (case pa_appSlug a of Some s \<Rightarrow> s | None \<Rightarrow> slug),
     ig_appName := (case pa_appName a of Some s \<Rightarrow> s | None \<Rightarrow> slug),
     ig_accountName := pa_name a,
     ig_nickname := (case nickname of None \<Rightarrow> None
        | Some n \<Rightarrow> if js_trim n = [] then None else Some (js_trim n)),
     ig_accessLevel := level, ig_iconUrl := pa_appImg a, ig_isActive := (pa_healthy a \<noteq> Some False)\<rparr>"

text \<open>\<open>accounts\<close> is Pipedream's list of the accounts of an external user.\<close>

definition getAccount :: "(string \<Rightarrow> pd_account list result) \<Rightarrow> string \<Rightarrow> string \<Rightarrow> pd_account option result" where
  "getAccount accounts accountId ext = (case accounts ext of Inl e \<Rightarrow> Inl e
     | Inr as \<Rightarrow> Inr (List.find (\<lambda>a. pa_id a = accountId) as))"

definition confirmConnection ::
  "(string \<Rightarrow> pd_account list result) \<Rightarrow> uuid \<Rightarrow> time \<Rightarrow> uuid \<Rightarrow> uuid \<Rightarrow> string \<Rightarrow> string \<Rightarrow> access_level \<Rightarrow> string option
     \<Rightarrow> integration list \<Rightarrow> integration result \<times> integration list" where
  "confirmConnection accounts i now ws user accountId slug level nickname rows =
    (case getAccount accounts accountId (resolveExternalUserId ws user level) of
       Inl e \<Rightarrow> (Inl e, rows)
     | Inr None \<Rightarrow> (Inl (NotFound ''Connected account not found for this scope''), rows)
     | Inr (Some a) \<Rightarrow>
        let r = confirm_row a slug level nickname (existing_or_new i now ws user (pa_id a) rows)
        in (Inr r, save_row ig_id r rows))"

record integration_patch =
  pt_nickname :: "string option"
  pt_accessLevel :: "access_level option"
  pt_isActive :: "bool option"

definition patched :: "integration_patch \<Rightarrow> integration \<Rightarrow> integration" where
  "patched p r = r\<lparr>
     ig_nickname := (case pt_nickname p of None \<Rightarrow> ig_nickname r
        | Some n \<Rightarrow> if js_trim n = [] then None else Some (js_trim n)),
     ig_accessLevel := (case pt_accessLevel p of None \<Rightarrow> ig_accessLevel r | Some l \<Rightarrow> l),
     ig_isActive := (case pt_isActive p of None \<Rightarrow> ig_isActive r | Some b \<Rightarrow> b)\<rparr>"

definition findIntegration :: "uuid \<Rightarrow> uuid \<Rightarrow> integration list \<Rightarrow> integration option" where
  "findIntegration ws i rows = List.find (\<lambda>r. ig_id r = i \<and> ig_workspaceId r = ws) rows"

definition updateIntegration ::
  "user list \<Rightarrow> uuid \<Rightarrow> uuid \<Rightarrow> integration_patch \<Rightarrow> integration list \<Rightarrow> integration_view result \<times> integration list" where
  "updateIntegration us ws i p rows = (case findIntegration ws i rows of
      None \<Rightarrow> (Inl (NotFound ''Integration not found''), rows)
    | Some r \<Rightarrow> (Inr (integration_view_of us (patched p r)), save_row ig_id (patched p r) rows))"

text \<open>
  Removing a row.  The account to revoke at Pipedream is the first component of the answer; a
  failure there is logged and swallowed.
\<close>

definition disconnect :: "uuid \<Rightarrow> uuid \<Rightarrow> integration list \<Rightarrow> string option result \<times> integration list" where
  "disconnect ws i rows = (case findIntegration ws i rows of
      None \<Rightarrow> (Inl (NotFound ''Integration not found''), rows)
    | Some r \<Rightarrow>
       (Inr (if ig_provider r = PIPEDREAM \<and> ig_externalAccountId r \<noteq> Some [] then ig_externalAccountId r else None),
        delete_where (\<lambda>x. ig_id x = ig_id r) rows))"

end
