(* ===== verification/IntegrationFacts.thy ===== *)
theory IntegrationFacts
  imports Integrations "HOL-Library.Sublist"
begin

text \<open>
  What \<open>Integrations\<close> guarantees: operations stay inside their workspace, a token used for a
  member comes from an account that member may use, an OAuth state is honoured once; and where
  the isolation of private accounts is given up.
\<close>

section \<open>Invariant\<close>

definition same_account :: "integration \<Rightarrow> integration \<Rightarrow> bool" where
  "same_account r x \<longleftrightarrow> ig_workspaceId r = ig_workspaceId x \<and> ig_externalAccountId r = ig_externalAccountId x
     \<and> ig_externalAccountId r \<noteq> None"

definition integrations_wf :: "integration list \<Rightarrow> bool" where
  "integrations_wf rows \<longleftrightarrow> distinct (map ig_id rows)
     \<and> (\<forall>r \<in> set rows. \<forall>x \<in> set rows. same_account r x \<longrightarrow> ig_id r = ig_id x)"

lemma integrations_wf_ids: "integrations_wf rows \<Longrightarrow> distinct (map ig_id rows)"
  by (simp add: integrations_wf_def)

lemma save_keeps_wf:
  assumes "integrations_wf rows" "r \<in> set rows" "ig_id r' = ig_id r"
    and "ig_workspaceId r' = ig_workspaceId r" "ig_externalAccountId r' = ig_externalAccountId r"
  shows "integrations_wf (save_row ig_id r' rows)"
proof -
  have s: "same_account r' x \<longleftrightarrow> same_account r x" "same_account x r' \<longleftrightarrow> same_account x r" for x
    using assms(4,5) by (simp_all add: same_account_def)
  from assms show ?thesis
    by (auto simp: integrations_wf_def distinct_save_row set_save_row s)
qed

lemma find_account_None:
  "find_account ws a rows = None \<longleftrightarrow> (\<forall>r \<in> set rows. ig_workspaceId r = ws \<longrightarrow> ig_externalAccountId r \<noteq> Some a)"
  by (auto simp: find_account_def find_None_iff_all)

lemma find_account_Some:
  "find_account ws a rows = Some r \<Longrightarrow>
     r \<in> set rows \<and> ig_workspaceId r = ws \<and> ig_externalAccountId r = Some a"
  unfolding find_account_def by (blast dest: find_Some_iff_mem)

lemma save_new_wf:
  assumes "integrations_wf rows" "ig_id r \<notin> ig_id ` set rows" "find_account (ig_workspaceId r) a rows = None"
    and "ig_externalAccountId r = Some a"
  shows "integrations_wf (save_row ig_id r rows)"
proof -
  have "\<not> same_account r x" "\<not> same_account x r" if "x \<in> set rows" for x
    using that assms(3,4) by (auto simp: same_account_def find_account_None)
  with assms(1,2) show ?thesis
    by (auto simp: integrations_wf_def distinct_save_row set_save_row)
qed

text \<open>The row both connect paths write: its identity comes from \<open>existing_or_new\<close>.\<close>

lemma connect_row:
  assumes "integrations_wf rows" "i \<notin> ig_id ` set rows"
    and "r0 = existing_or_new i now ws user a rows"
    and "ig_id r = ig_id r0" "ig_workspaceId r = ig_workspaceId r0"
      "ig_externalAccountId r = ig_externalAccountId r0"
  shows "integrations_wf (save_row ig_id r rows)"
    and "w \<noteq> ws \<Longrightarrow> filter (\<lambda>x. ig_workspaceId x = w) (save_row ig_id r rows) = filter (\<lambda>x. ig_workspaceId x = w) rows"
    and "ig_workspaceId r = ws \<and> ig_externalAccountId r = Some a"
proof -
  consider (old) "find_account ws a rows = Some r0" | (fresh) "find_account ws a rows = None" "ig_id r0 = i"
      "ig_workspaceId r0 = ws" "ig_externalAccountId r0 = Some a"
    using assms(3) by (auto simp: existing_or_new_def new_integration_def split: option.splits)
  then have "integrations_wf (save_row ig_id r rows)
    \<and> (w \<noteq> ws \<longrightarrow> filter (\<lambda>x. ig_workspaceId x = w) (save_row ig_id r rows) = filter (\<lambda>x. ig_workspaceId x = w) rows)
    \<and> ig_workspaceId r = ws \<and> ig_externalAccountId r = Some a"
  proof cases
    case old
    note o = find_account_Some[OF old]
    from o assms show ?thesis
      by (auto intro: save_keeps_wf save_row_foreign[OF integrations_wf_ids])
  next
    case fresh
    with assms show ?thesis by (auto intro: save_new_wf save_row_foreign_new)
  qed
  then show "integrations_wf (save_row ig_id r rows)"
    and "w \<noteq> ws \<Longrightarrow> filter (\<lambda>x. ig_workspaceId x = w) (save_row ig_id r rows) = filter (\<lambda>x. ig_workspaceId x = w) rows"
    and "ig_workspaceId r = ws \<and> ig_externalAccountId r = Some a" by blast+
qed

section \<open>Refreshing\<close>

lemma ensure_cases [consumes 1, case_names kept refreshed dead]:
  assumes "ensureFreshMetaToken mo now r rows = (tok, rows')"
  obtains (kept) "tok = ig_accessToken r" "rows' = rows"
    | (refreshed) ts where "tok = Some (ts_accessToken ts)" "rows' = save_row ig_id (refreshed ts r) rows"
    | (dead) "tok = None" "rows' = save_row ig_id (r\<lparr>ig_isActive := False\<rparr>) rows"
  using assms unfolding ensureFreshMetaToken_def
  by (auto split: if_splits option.splits list.splits sum.splits)

lemma refreshed_keeps [simp]:
  "ig_id (refreshed ts r) = ig_id r" "ig_workspaceId (refreshed ts r) = ig_workspaceId r"
  "ig_externalAccountId (refreshed ts r) = ig_externalAccountId r" "ig_provider (refreshed ts r) = ig_provider r"
  "ig_isActive (refreshed ts r) = ig_isActive r" "ig_accessLevel (refreshed ts r) = ig_accessLevel r"
  "ig_userId (refreshed ts r) = ig_userId r" "ig_accessToken (refreshed ts r) = Some (ts_accessToken ts)"
  by (simp_all add: refreshed_def)

lemma visible_refreshed [simp]: "visible_to u (refreshed ts r) = visible_to u r"
  by (simp add: visible_to_def)

lemma ensure_wf:
  assumes "ensureFreshMetaToken mo now r rows = (tok, rows')" "integrations_wf rows" "r \<in> set rows"
  shows "integrations_wf rows'"
    and "w \<noteq> ig_workspaceId r \<Longrightarrow> filter (\<lambda>x. ig_workspaceId x = w) rows' = filter (\<lambda>x. ig_workspaceId x = w) rows"
    and "x \<in> set rows \<Longrightarrow> ig_id x \<noteq> ig_id r \<Longrightarrow> x \<in> set rows'"
  using assms(1)
  by (cases rule: ensure_cases,
      use assms in \<open>auto simp: set_save_row intro!: save_keeps_wf save_row_foreign[OF integrations_wf_ids]\<close>)+

lemma first_token_wf:
  assumes "integrations_wf rows" "distinct (map ig_id rs)" "set rs \<subseteq> set rows"
    and "\<forall>r \<in> set rs. ig_workspaceId r = ws"
  shows "integrations_wf (snd (first_token mo now rs rows))
    \<and> (\<forall>w. w \<noteq> ws \<longrightarrow> filter (\<lambda>x. ig_workspaceId x = w) (snd (first_token mo now rs rows)) =
         filter (\<lambda>x. ig_workspaceId x = w) rows)"
  using assms
proof (induction mo now rs rows rule: first_token.induct)
  case (2 mo now r rs rows)
  obtain tok rows' where e: "ensureFreshMetaToken mo now r rows = (tok, rows')" by fastforce
  note w = ensure_wf[OF e]
  from 2(3-6) have r: "integrations_wf rows" "r \<in> set rows" "ig_workspaceId r = ws" by simp_all
  have f: "integrations_wf rows'"
    "\<forall>w. w \<noteq> ws \<longrightarrow> filter (\<lambda>x. ig_workspaceId x = w) rows' = filter (\<lambda>x. ig_workspaceId x = w) rows"
    using w(1,2) r by simp_all
  have s: "set rs \<subseteq> set rows'"
  proof
    fix x assume x: "x \<in> set rs"
    with 2(4,5) have "x \<in> set rows" "ig_id x \<noteq> ig_id r" by (auto simp: image_iff)
    with w(3) r show "x \<in> set rows'" by blast
  qed
  from 2 f s e show ?case by (auto split: option.split list.split)
qed simp

text \<open>Where the token of a run comes from.\<close>

lemma first_token_source:
  assumes "first_token mo now rs rows = (Some t, rows')" "distinct (map ig_id rs)" "set rs \<subseteq> set rows"
    and "integrations_wf rows"
  shows "t \<noteq> [] \<and> (\<exists>r \<in> set rs. \<exists>x \<in> set rows'. ig_accessToken x = Some t
     \<and> (x = r \<or> (\<exists>ts. x = refreshed ts r)))"
  using assms
proof (induction mo now rs rows rule: first_token.induct)
  case (2 mo now r rs rows)
  obtain tok mid where e: "ensureFreshMetaToken mo now r rows = (tok, mid)" by fastforce
  have r: "r \<in> set rows" using 2(5) by simp
  show ?case
  proof (cases "tok = None \<or> tok = Some []")
    case True
    have "set rs \<subseteq> set mid"
    proof
      fix x assume "x \<in> set rs"
      with 2(4,5) have "x \<in> set rows" "ig_id x \<noteq> ig_id r" by (auto simp: image_iff)
      with ensure_wf(3)[OF e 2(6) r] show "x \<in> set mid" by blast
    qed
    moreover have "integrations_wf mid" by (rule ensure_wf(1)[OF e 2(6) r])
    moreover have "first_token mo now rs mid = (Some t, rows')" using True 2(3) e by auto
    ultimately show ?thesis using 2(1,2) 2(4) e True by fastforce
  next
    case False
    then have "tok = Some t" "mid = rows'" "t \<noteq> []" using 2(3) e by (auto split: list.splits)
    have "\<exists>x \<in> set rows'. ig_accessToken x = Some t \<and> (x = r \<or> (\<exists>ts. x = refreshed ts r))"
      using e
    proof (cases rule: ensure_cases)
      case (refreshed ts)
      with \<open>tok = Some t\<close> \<open>mid = rows'\<close> show ?thesis
        by (intro bexI[of _ "refreshed ts r"]) auto
    qed (use \<open>tok = Some t\<close> \<open>mid = rows'\<close> r in auto)
    with \<open>t \<noteq> []\<close> show ?thesis by simp
  qed
qed simp

section \<open>Isolation of workspaces\<close>

datatype integration_op =
    Confirm "string \<Rightarrow> pd_account list result" uuid time uuid string string access_level "string option"
  | ConnectMeta uuid time uuid token_set string "string option" access_level
  | Patch "user list" uuid integration_patch
  | Disconnect uuid
  | UseMeta meta_oauth time "uuid option"

text \<open>
  \<open>ConnectMeta\<close> is the write of \<open>completeMetaConnect\<close>, whose workspace is the one that started
  the handshake.
\<close>

fun integration_step :: "uuid \<Rightarrow> integration_op \<Rightarrow> integration list \<Rightarrow> integration list" where
  "integration_step ws (Confirm accounts i now user acc slug level nick) rows =
     snd (confirmConnection accounts i now ws user acc slug level nick rows)"
| "integration_step ws (ConnectMeta i now user ts account name level) rows =
     save_row ig_id (connect_meta_row ts name level (existing_or_new i now ws user account rows)) rows"
| "integration_step ws (Patch us i p) rows = snd (updateIntegration us ws i p rows)"
| "integration_step ws (Disconnect i) rows = snd (disconnect ws i rows)"
| "integration_step ws (UseMeta mo now user) rows = snd (getMetaAccessToken mo now ws user rows)"

fun integration_op_ok :: "integration_op \<Rightarrow> integration list \<Rightarrow> bool" where
  "integration_op_ok (Confirm _ i _ _ _ _ _ _) rows = (i \<notin> ig_id ` set rows)"
| "integration_op_ok (ConnectMeta i _ _ _ _ _ _) rows = (i \<notin> ig_id ` set rows)"
| "integration_op_ok _ rows = True"

lemma findIntegration_Some:
  "findIntegration ws i rows = Some r \<Longrightarrow> r \<in> set rows \<and> ig_id r = i \<and> ig_workspaceId r = ws"
  unfolding findIntegration_def by (blast dest: find_Some_iff_mem)

lemma patched_keeps [simp]:
  "ig_id (patched p r) = ig_id r" "ig_workspaceId (patched p r) = ig_workspaceId r"
  "ig_externalAccountId (patched p r) = ig_externalAccountId r" "ig_userId (patched p r) = ig_userId r"
  by (simp_all add: patched_def)

lemma connect_rows_keep [simp]:
  "ig_id (connect_meta_row ts n l r) = ig_id r" "ig_workspaceId (connect_meta_row ts n l r) = ig_workspaceId r"
  "ig_externalAccountId (connect_meta_row ts n l r) = ig_externalAccountId r"
  "ig_userId (connect_meta_row ts n l r) = ig_userId r"
  "ig_id (confirm_row a s l m r) = ig_id r" "ig_workspaceId (confirm_row a s l m r) = ig_workspaceId r"
  "ig_externalAccountId (confirm_row a s l m r) = ig_externalAccountId r"
  by (simp_all add: connect_meta_row_def confirm_row_def)

lemma confirm_cases:
  "confirmConnection accounts i now ws user acc slug level nick rows = (res, rows') \<Longrightarrow>
     rows' = rows \<or> (\<exists>a. rows' = save_row ig_id (confirm_row a slug level nick
                          (existing_or_new i now ws user (pa_id a) rows)) rows)"
  unfolding confirmConnection_def by (auto simp: Let_def split: sum.splits option.splits)

lemma visible_sub:
  assumes "integrations_wf rows"
  shows "distinct (map ig_id (visibleMetaIntegrations ws user rows))"
    and "set (visibleMetaIntegrations ws user rows) \<subseteq> set rows"
    and "\<forall>r \<in> set (visibleMetaIntegrations ws user rows). ig_workspaceId r = ws"
  using integrations_wf_ids[OF assms] by (auto simp: visibleMetaIntegrations_def distinct_map_filter)

lemma delete_wf: "integrations_wf rows \<Longrightarrow> integrations_wf (delete_where p rows)"
  by (auto simp: integrations_wf_def distinct_delete_where)

lemma integration_step_ok:
  assumes "integrations_wf rows" "integration_op_ok op rows"
  shows "integrations_wf (integration_step ws op rows) \<and>
    (w \<noteq> ws \<longrightarrow> filter (\<lambda>r. ig_workspaceId r = w) (integration_step ws op rows) =
       filter (\<lambda>r. ig_workspaceId r = w) rows)"
proof (cases op)
  case (Confirm accounts i now user acc slug level nick)
  obtain res rows' where c: "confirmConnection accounts i now ws user acc slug level nick rows = (res, rows')" by fastforce
  from confirm_cases[OF c] show ?thesis
  proof
    assume "rows' = rows"
    with c Confirm assms show ?thesis by simp
  next
    assume "\<exists>a. rows' = save_row ig_id (confirm_row a slug level nick (existing_or_new i now ws user (pa_id a) rows)) rows"
    then obtain a where a: "rows' = save_row ig_id (confirm_row a slug level nick (existing_or_new i now ws user (pa_id a) rows)) rows" by blast
    have "i \<notin> ig_id ` set rows" using assms(2) Confirm by simp
    from connect_row[OF assms(1) this refl, where r = "confirm_row a slug level nick (existing_or_new i now ws user (pa_id a) rows)"]
    show ?thesis using c a Confirm by simp
  qed
next
  case (ConnectMeta i now user ts account name level)
  have "i \<notin> ig_id ` set rows" using assms(2) ConnectMeta by simp
  from connect_row[OF assms(1) this refl, where r = "connect_meta_row ts name level (existing_or_new i now ws user account rows)"]
  show ?thesis using ConnectMeta by simp
next
  case (Patch us i p)
  show ?thesis
  proof (cases "findIntegration ws i rows")
    case (Some r)
    note f = findIntegration_Some[OF Some]
    have "integrations_wf (save_row ig_id (patched p r) rows)"
      by (rule save_keeps_wf[OF assms(1), of r]) (use f in simp_all)
    moreover have "w \<noteq> ws \<Longrightarrow> filter (\<lambda>r. ig_workspaceId r = w) (save_row ig_id (patched p r) rows) =
        filter (\<lambda>r. ig_workspaceId r = w) rows"
      by (rule save_row_foreign[OF integrations_wf_ids[OF assms(1)], of r]) (use f in simp_all)
    ultimately show ?thesis using Some Patch by (simp add: updateIntegration_def)
  qed (use assms Patch in \<open>simp add: updateIntegration_def\<close>)
next
  case (Disconnect i)
  show ?thesis
  proof (cases "findIntegration ws i rows")
    case (Some r)
    note f = findIntegration_Some[OF Some]
    have "w \<noteq> ws \<Longrightarrow> filter (\<lambda>x. ig_workspaceId x = w) (delete_where (\<lambda>x. ig_id x = ig_id r) rows) =
        filter (\<lambda>x. ig_workspaceId x = w) rows"
      by (rule delete_where_foreign[OF integrations_wf_ids[OF assms(1)]]) (use f in simp_all)
    then show ?thesis using Some Disconnect assms(1) by (simp add: disconnect_def delete_wf)
  qed (use assms Disconnect in \<open>simp add: disconnect_def\<close>)
next
  case (UseMeta mo now user)
  with first_token_wf[OF assms(1) visible_sub[OF assms(1)]] show ?thesis
    by (simp add: getMetaAccessToken_def)
qed

interpretation connections: tenant_service ig_workspaceId integrations_wf integration_op_ok integration_step
  by unfold_locales (use integration_step_ok in blast)+

section \<open>Samples\<close>

definition sample_integration :: "uuid \<Rightarrow> uuid \<Rightarrow> access_level \<Rightarrow> string \<Rightarrow> integration" where
  "sample_integration i user level account = \<lparr>ig_id = i, ig_workspaceId = ''w1'', ig_userId = user, ig_provider = META,
     ig_appName = ''Meta Ads'', ig_appSlug = ''meta_ads'', ig_externalAccountId = Some account,
     ig_accountName = None, ig_nickname = None, ig_accessLevel = level, ig_iconUrl = None, ig_isActive = True,
     ig_accessToken = Some (''token-'' @ i), ig_refreshToken = Some (''refresh-'' @ i),
     ig_tokenExpiresAt = Some 1000000, ig_scopes = None, ig_connectedAt = 0\<rparr>"

definition sample_integrations :: "integration list" where
  "sample_integrations = [sample_integration ''i1'' ''a'' PRIVATE ''meta:1'', sample_integration ''i2'' ''b'' TEAM ''meta:2'']"

lemma sample_integrations_wf: "integrations_wf sample_integrations"
  by (simp add: integrations_wf_def sample_integrations_def sample_integration_def same_account_def)

text \<open>An OAuth server that answers every form with the given token.\<close>

definition sample_oauth :: "bool \<Rightarrow> string \<Rightarrow> string \<Rightarrow> meta_oauth" where
  "sample_oauth ok token account = \<lparr>mo_clientId = ''app'', mo_clientSecret = None, mo_redirectUri = ''https://x/cb'',
     mo_token = (\<lambda>_. Reply ok (if ok then 200 else 400) (Some (JObj [(''access_token'', JStr token)]))),
     mo_me = (\<lambda>_. Reply True 200 (Some (JObj [(''id'', JStr account)]))), mo_random = ''00''\<rparr>"

section \<open>Properties\<close>

lemma token_source:
  assumes "integrations_wf rows" and "getMetaAccessToken mo now ws user rows = (Some t, rows')"
  shows "t \<noteq> [] \<and> (\<exists>x \<in> set rows'. ig_accessToken x = Some t \<and> ig_provider x = META \<and> ig_isActive x
     \<and> ig_workspaceId x = ws \<and> (ig_accessLevel x = TEAM \<or> user = Some (ig_userId x)))"
proof -
  let ?vs = "visibleMetaIntegrations ws user rows"
  from first_token_source[OF assms(2)[unfolded getMetaAccessToken_def] visible_sub(1,2)[OF assms(1)] assms(1)]
  obtain r x where r: "r \<in> set ?vs" and x: "x \<in> set rows'" "ig_accessToken x = Some t"
      "x = r \<or> (\<exists>ts. x = refreshed ts r)" "t \<noteq> []" by blast
  from r have "ig_workspaceId r = ws" "ig_provider r = META" "ig_isActive r" "visible_to user r"
    by (simp_all add: visibleMetaIntegrations_def)
  with x show ?thesis by (auto simp: visible_to_def)
qed

text \<open>A token the service hands to a run for a member comes from an active Meta account of
  that member's own workspace that is shared with the team or is the member's own, and is the
  token stored for it; a run without a member uses team accounts only.\<close>

theorem token_comes_from_visible_account:
  assumes "integrations_wf rows" and "getMetaAccessToken mo now ws user rows = (Some t, rows')"
  shows "t \<noteq> [] \<and> (\<exists>x \<in> set rows'. ig_accessToken x = Some t \<and> ig_provider x = META \<and> ig_isActive x
     \<and> ig_workspaceId x = ws \<and> (ig_accessLevel x = TEAM \<or> user = Some (ig_userId x)))"
  using assms by (rule token_source)

lemma token_comes_from_visible_account_witness:
  "\<exists>x \<in> set (snd (getMetaAccessToken (sample_oauth True ''new'' ''1'') 2000000 ''w1'' (Some ''c'') sample_integrations)).
     ig_accessToken x = Some ''new'' \<and> ig_accessLevel x = TEAM"
proof -
  have r: "getMetaAccessToken (sample_oauth True ''new'' ''1'') 2000000 ''w1'' (Some ''c'') sample_integrations =
     (Some ''new'', snd (getMetaAccessToken (sample_oauth True ''new'' ''1'') 2000000 ''w1'' (Some ''c'') sample_integrations))"
    by (simp add: getMetaAccessToken_def visibleMetaIntegrations_def sample_integrations_def sample_integration_def
        visible_to_def ensureFreshMetaToken_def isExpired_def EXPIRY_SKEW_MS_def refreshAccessToken_def
        tokenRequest_def sample_oauth_def token_set_of_def)
  have o: "ig_userId x \<noteq> ''c''" if "x \<in> set (snd (getMetaAccessToken (sample_oauth True ''new'' ''1'') 2000000 ''w1'' (Some ''c'') sample_integrations))" for x
    using that
    by (auto simp: getMetaAccessToken_def visibleMetaIntegrations_def sample_integrations_def sample_integration_def
        visible_to_def ensureFreshMetaToken_def isExpired_def EXPIRY_SKEW_MS_def refreshAccessToken_def
        tokenRequest_def sample_oauth_def token_set_of_def set_save_row)
  from token_comes_from_visible_account[OF sample_integrations_wf r] o show ?thesis by force
qed

text \<open>C14: Tenant isolation of connected accounts: whatever other workspaces connect, edit, remove
  or refresh, what each member of a workspace sees stays the same.\<close>

theorem connections_tenant_isolated:
  assumes "integrations_wf rows" and "connections.run_ok ops rows" and "ws \<notin> fst ` set ops"
  shows "findVisibleForUser us ws user (connections.run ops rows) = findVisibleForUser us ws user rows"
proof -
  have f: "filter (\<lambda>r. ig_workspaceId r = ws \<and> visible_to user r) rs =
      filter (visible_to user) (filter (\<lambda>r. ig_workspaceId r = ws) rs)" for rs
    by (simp add: conj_commute)
  show ?thesis unfolding findVisibleForUser_def f by (simp only: connections.run_foreign[OF assms])
qed

lemma connections_tenant_isolated_witness:
  "findVisibleForUser [] ''w1'' (Some ''a'') (connections.run [(''w2'', Disconnect ''i1''),
       (''w2'', Patch [] ''i2'' \<lparr>pt_nickname = None, pt_accessLevel = Some PRIVATE, pt_isActive = Some False\<rparr>)] sample_integrations) =
     findVisibleForUser [] ''w1'' (Some ''a'') sample_integrations"
  by (rule connections_tenant_isolated[OF sample_integrations_wf]) simp_all

text \<open>The isolation of private accounts does not survive editing: \<open>update\<close> checks only the
  workspace, so any member who knows the id of a colleague's private account can share it with
  the team, after which every member sees it and runs of any member use its token.\<close>

theorem private_account_can_be_exposed:
  assumes "findIntegration ws i rows = Some r" and "ig_accessLevel r = PRIVATE" and "ig_userId r \<noteq> other"
    and "updateIntegration us ws i \<lparr>pt_nickname = None, pt_accessLevel = Some TEAM, pt_isActive = None\<rparr> rows = (res, rows')"
    and "integrations_wf rows"
  shows "is_ok res \<and> \<not> visible_to (Some other) r
    \<and> (\<exists>v \<in> set (findVisibleForUser us ws (Some other) rows'). iv_id v = i \<and> iv_userId v = ig_userId r)"
proof -
  let ?p = "\<lparr>pt_nickname = None, pt_accessLevel = Some TEAM, pt_isActive = None\<rparr>"
  note f = findIntegration_Some[OF assms(1)]
  from assms(1,4) have rows': "rows' = save_row ig_id (patched ?p r) rows" and ok: "is_ok res"
    by (auto simp: updateIntegration_def)
  have "patched ?p r \<in> set rows'" by (simp add: rows')
  moreover have "visible_to (Some other) (patched ?p r)" by (simp add: visible_to_def patched_def)
  ultimately have "integration_view_of us (patched ?p r) \<in> set (findVisibleForUser us ws (Some other) rows')"
    using f by (simp add: findVisibleForUser_def)
  moreover have "iv_id (integration_view_of us (patched ?p r)) = i"
    "iv_userId (integration_view_of us (patched ?p r)) = ig_userId r"
    using f by (simp_all add: integration_view_of_def)
  ultimately show ?thesis using ok assms(2,3) by (auto simp: visible_to_def)
qed

lemma private_account_can_be_exposed_witness:
  "\<exists>v \<in> set (findVisibleForUser [] ''w1'' (Some ''b'') (snd (updateIntegration [] ''w1'' ''i1''
       \<lparr>pt_nickname = None, pt_accessLevel = Some TEAM, pt_isActive = None\<rparr> sample_integrations))). iv_id v = ''i1''"
proof -
  have f: "findIntegration ''w1'' ''i1'' sample_integrations = Some (sample_integration ''i1'' ''a'' PRIVATE ''meta:1'')"
    by (simp add: findIntegration_def sample_integrations_def sample_integration_def)
  from private_account_can_be_exposed[OF f _ _ prod.collapse[symmetric] sample_integrations_wf, of "''b''" "[]"]
  show ?thesis by (auto simp: sample_integration_def)
qed

subsection \<open>OAuth states\<close>

lemma level_text_parse [simp]: "(if level_text l = ''private'' then PRIVATE else TEAM) = l"
  by (cases l) simp_all

lemma oauth_state_roundtrip: "json_parse (stringify (oauth_state_json p)) = Some (oauth_state_json p)"
  by (rule parse_stringify) (simp add: oauth_state_json_def)

lemma oauth_state_of_json [simp]: "oauth_state_of (oauth_state_json p) = p"
  by (simp add: oauth_state_of_def oauth_state_json_def)

lemma stringify_obj_nonempty [simp]: "stringify (JObj ps) \<noteq> []"
  by simp

lemma state_text_nonempty: "stringify (oauth_state_json p) \<noteq> []"
  by (simp add: oauth_state_json_def)

lemma peek_stashed:
  "now < t0 + META_STATE_TTL_SECONDS * 1000 \<Longrightarrow>
     peek_ticket META_STATE_PREFIX state now (stash_state state p t0 s) = Some (stringify (oauth_state_json p))"
  unfolding stash_state_def using tickets.peek_issue[OF state_text_nonempty] by simp

lemma complete_stashed:
  "now < t0 + META_STATE_TTL_SECONDS * 1000 \<Longrightarrow>
     completeMetaConnect mo i now state code rows (stash_state state p t0 s) =
      (case exchangeCode mo now code (os_codeVerifier p) of
         Inl e \<Rightarrow> (Inl e, rows, drop_ticket META_STATE_PREFIX state (stash_state state p t0 s))
       | Inr (ts, account, name) \<Rightarrow>
          (let r = connect_meta_row ts name (os_accessLevel p)
                     (existing_or_new i now (os_workspaceId p) (os_userId p) account rows)
           in (Inr r, save_row ig_id r rows, drop_ticket META_STATE_PREFIX state (stash_state state p t0 s))))"
  by (simp add: completeMetaConnect_def peek_stashed oauth_state_roundtrip Let_def)

text \<open>The browser's returns from Meta, in order: what each answered.\<close>

type_synonym callback = "uuid \<times> time \<times> string \<times> string"

fun run_callbacks :: "meta_oauth \<Rightarrow> callback list \<Rightarrow> integration list \<Rightarrow> kv \<Rightarrow> (string \<times> integration result) list" where
  "run_callbacks mo [] rows s = []"
| "run_callbacks mo ((i, now, state, code) # cbs) rows s =
     (case completeMetaConnect mo i now state code rows s of
        (res, rows', s') \<Rightarrow> (state, res) # run_callbacks mo cbs rows' s')"

text \<open>To the store, completing a connection is a redemption of its state.\<close>

lemma complete_redeems:
  assumes "completeMetaConnect mo i now state code rows s = (res, rows', s')"
  shows "s' = snd (tickets.redeem META_STATE_PREFIX state now s)"
    and "is_ok res \<Longrightarrow> fst (tickets.redeem META_STATE_PREFIX state now s) \<noteq> None"
  using assms by (auto simp: completeMetaConnect_def tickets.redeem_if_def Let_def
      split: option.splits sum.splits prod.splits)

lemma oks_are_redeemed:
  "subseq (map fst (filter (is_ok \<circ> snd) (run_callbacks mo cbs rows s)))
     (map fst (fst (tickets.redeem_all META_STATE_PREFIX (map (\<lambda>(i, now, state, code). (state, now, \<lambda>_. True)) cbs) s)))"
proof (induction mo cbs rows s rule: run_callbacks.induct)
  case (2 mo i now state code cbs rows s)
  obtain res rows' s' where c: "completeMetaConnect mo i now state code rows s = (res, rows', s')"
    by (metis prod_cases3)
  note r = complete_redeems[OF c]
  obtain got where g: "tickets.redeem META_STATE_PREFIX state now s = (got, s')"
    using r(1) by (metis prod.collapse snd_conv)
  note IH = 2[OF c[symmetric] refl]
  show ?case
  proof (cases "is_ok res")
    case True
    with r(2) g obtain p where "got = Some p" by auto
    with True IH c g show ?thesis by (simp add: split_beta)
  next
    case False
    with IH c g show ?thesis by (cases got) (auto simp: split_beta)
  qed
qed simp

lemma distinct_subseq: "subseq xs ys \<Longrightarrow> distinct ys \<Longrightarrow> distinct xs"
  by (auto simp: subseq_conv_nths)

text \<open>An OAuth state is honoured at most once: in any sequence of returns from Meta, with
  whatever codes and in whatever order, no state completes two connections.\<close>

theorem oauth_state_single_use:
  "distinct (map fst (filter (is_ok \<circ> snd) (run_callbacks mo cbs rows s)))"
  using distinct_subseq[OF oks_are_redeemed tickets.redeemed_once] .

text \<open>Connecting Meta round-trips through the browser: the handshake started by a member and
  finished in time with a code Meta accepts stores an active account in that member's workspace
  at the access level they chose, with the token Meta issued, and consumes the state; a failed
  exchange stores nothing, but consumes the state too.\<close>

theorem meta_connect_round_trip:
  assumes "startMetaConnect authorize sha state verifier t0 ws user level s = (url, s1)"
    and "now < t0 + 600 * 1000"
    and "completeMetaConnect mo i now state code rows s1 = (res, rows', s2)"
  shows "(case exchangeCode mo now code verifier of
       Inl e \<Rightarrow> res = Inl e \<and> rows' = rows
     | Inr (ts, account, name) \<Rightarrow> \<exists>r. res = Inr r \<and> r \<in> set rows' \<and> ig_workspaceId r = ws \<and> ig_isActive r
         \<and> ig_externalAccountId r = Some account \<and> ig_accessLevel r = level
         \<and> ig_accessToken r = Some (ts_accessToken ts)
         \<and> (find_account ws account rows = None \<longrightarrow> ig_userId r = user))
    \<and> (\<forall>later code' mo' j. fst (completeMetaConnect mo' j later state code' rows' s2) =
         Inl (NotFound ''Meta connect session expired or invalid''))"
proof -
  let ?p = "\<lparr>os_workspaceId = ws, os_userId = user, os_accessLevel = level, os_codeVerifier = verifier\<rparr>"
  from assms(1) have s1: "s1 = stash_state state ?p t0 s" by (simp add: startMetaConnect_def)
  have t: "now < t0 + META_STATE_TTL_SECONDS * 1000" using assms(2) by (simp add: META_STATE_TTL_SECONDS_def)
  note c = complete_stashed[OF t, of mo i state code rows ?p s, folded s1, unfolded assms(3)]
  have s2: "s2 = drop_ticket META_STATE_PREFIX state s1"
    using c by (auto simp: s1 Let_def split: sum.splits prod.splits)
  have late: "fst (completeMetaConnect mo' j later state code' rows' s2) =
      Inl (NotFound ''Meta connect session expired or invalid'')" for mo' j later code'
    by (simp add: completeMetaConnect_def s2 tickets.peek_consume)
  have id: "ig_workspaceId (existing_or_new i now ws user a rows) = ws
     \<and> ig_externalAccountId (existing_or_new i now ws user a rows) = Some a
     \<and> (find_account ws a rows = None \<longrightarrow> ig_userId (existing_or_new i now ws user a rows) = user)" for a
    using find_account_Some[of ws a rows]
    by (auto simp: existing_or_new_def new_integration_def split: option.splits)
  show ?thesis
  proof (cases "exchangeCode mo now code verifier")
    case (Inl e)
    with c late show ?thesis by simp
  next
    case (Inr x)
    obtain ts a n where x: "x = (ts, a, n)" by (cases x) auto
    with c Inr have "res = Inr (connect_meta_row ts n level (existing_or_new i now ws user a rows))"
      "rows' = save_row ig_id (connect_meta_row ts n level (existing_or_new i now ws user a rows)) rows"
      by (simp_all add: Let_def)
    with id[of a] late Inr x show ?thesis by (simp add: connect_meta_row_def)
  qed
qed

lemma sample_exchange:
  "exchangeCode (sample_oauth True t a) now code v = Inr (token_set_of now (JObj [(''access_token'', JStr t)]),
     if a = [] then (''meta:00'', None) else (''meta:'' @ a, None))"
  by (simp add: exchangeCode_def tokenRequest_def sample_oauth_def resolveAccount_def token_set_of_def opt_str_def
      object_prototype_def)

lemma meta_connect_round_trip_witness:
  "\<exists>r. fst (completeMetaConnect (sample_oauth True ''tok'' ''9'') ''i9'' 5000 ''st'' ''code'' sample_integrations
        (snd (startMetaConnect (\<lambda>_ _. Inr ''url'') id ''st'' ''v'' 0 ''w1'' ''c'' PRIVATE empty_kv))) = Inr r
     \<and> ig_accessLevel r = PRIVATE \<and> ig_accessToken r = Some ''tok''"
proof -
  let ?s = "startMetaConnect (\<lambda>_ _. Inr ''url'') id ''st'' ''v'' 0 ''w1'' ''c'' PRIVATE empty_kv"
  obtain res rows' s2 where c: "completeMetaConnect (sample_oauth True ''tok'' ''9'') ''i9'' 5000 ''st'' ''code''
      sample_integrations (snd ?s) = (res, rows', s2)" by (metis prod_cases3)
  from meta_connect_round_trip[OF prod.collapse[symmetric] _ c] show ?thesis
    by (auto simp: sample_exchange c token_set_of_def)
qed

text \<open>Reconnecting privately hands the account to whoever connected it first: when a second
  member of the workspace connects an account that a colleague had connected, choosing
  \<open>private\<close>, the row keeps the colleague as its owner, so the colleague can use the second
  member's new token and the second member cannot even see the account.\<close>

theorem private_reconnect_goes_to_first_owner:
  assumes "find_account ws account rows = Some old" and "ig_userId old \<noteq> user" and "ig_userId old \<noteq> []"
    and "exchangeCode mo now code verifier = Inr (ts, account, name)"
    and "now < t0 + 600 * 1000"
    and "completeMetaConnect mo i now state code rows
          (stash_state state \<lparr>os_workspaceId = ws, os_userId = user, os_accessLevel = PRIVATE, os_codeVerifier = verifier\<rparr> t0 s)
         = (res, rows', s2)"
  shows "\<exists>r \<in> set rows'. ig_externalAccountId r = Some account \<and> ig_accessToken r = Some (ts_accessToken ts)
     \<and> visible_to (Some (ig_userId old)) r \<and> \<not> visible_to (Some user) r"
proof -
  let ?r = "connect_meta_row ts name PRIVATE old"
  have t: "now < t0 + META_STATE_TTL_SECONDS * 1000" using assms(5) by (simp add: META_STATE_TTL_SECONDS_def)
  from assms(1,4,6) have "rows' = save_row ig_id ?r rows"
    by (simp add: complete_stashed[OF t] existing_or_new_def Let_def)
  then have "?r \<in> set rows'" by simp
  then show ?thesis
    by (rule bexI[rotated]) (use assms(2,3) find_account_Some[OF assms(1)] in
        \<open>simp add: connect_meta_row_def visible_to_def\<close>)
qed

lemma private_reconnect_goes_to_first_owner_witness:
  "\<exists>rows' s2. \<exists>r \<in> set rows'. ig_accessToken r = Some ''tok'' \<and> \<not> visible_to (Some ''c'') r
     \<and> snd (completeMetaConnect (sample_oauth True ''tok'' ''1'') ''i9'' 5000 ''st'' ''code'' sample_integrations
        (stash_state ''st'' \<lparr>os_workspaceId = ''w1'', os_userId = ''c'', os_accessLevel = PRIVATE, os_codeVerifier = ''v''\<rparr> 0 empty_kv))
       = (rows', s2)"
proof -
  let ?c = "completeMetaConnect (sample_oauth True ''tok'' ''1'') ''i9'' 5000 ''st'' ''code'' sample_integrations
        (stash_state ''st'' \<lparr>os_workspaceId = ''w1'', os_userId = ''c'', os_accessLevel = PRIVATE, os_codeVerifier = ''v''\<rparr> 0 empty_kv)"
  obtain res rows' s2 where c: "?c = (res, rows', s2)" by (metis prod_cases3)
  have f: "find_account ''w1'' ''meta:1'' sample_integrations = Some (sample_integration ''i1'' ''a'' PRIVATE ''meta:1'')"
    by (simp add: find_account_def sample_integrations_def sample_integration_def)
  from private_reconnect_goes_to_first_owner[OF f _ _ _ _ c, of "token_set_of 5000 (JObj [(''access_token'', JStr ''tok'')])" None]
  have "\<exists>r \<in> set rows'. ig_accessToken r = Some ''tok'' \<and> \<not> visible_to (Some ''c'') r"
    by (auto simp: sample_exchange sample_integration_def token_set_of_def)
  with c show ?thesis by auto
qed

end
