(* ===== verification/MetaTools.thy ===== *)
theory MetaTools
  imports IntegrationFacts
begin

text \<open>
  The Meta Ads tools a model may call: their declarations in \<open>src/src/ai/meta-ads-tools.ts\<close> and
  their execution in \<open>src/src/ai/ai.service.ts\<close> (\<open>runMetaAdsTool\<close>, \<open>executeMetaAdsAction\<close>,
  \<open>dispatchMetaAdsTool\<close>).  A call is checked for the user's approval, given a token of an account
  the member may use, turned into one request of \<open>MetaAds\<close> and sent.
\<close>

section \<open>Declarations\<close>

text \<open>
  A declaration keeps the parts the program acts on: the name, the JSON type of each property and
  the required properties.  Descriptions, item types and enumerations, which only the model reads,
  are left out.
\<close>

record tool_spec =
  tl_name :: string
  tl_properties :: "(string \<times> string) list"
  tl_required :: "string list"

definition CONFIRMED_PROP :: "(string \<times> string) list" where
  "CONFIRMED_PROP = [(''confirmed'', ''boolean'')]"

definition LIST_AD_ACCOUNTS_TOOL :: tool_spec where
  "LIST_AD_ACCOUNTS_TOOL = \<lparr>tl_name = ''meta_ads_list_ad_accounts'',
     tl_properties = [],
     tl_required = []\<rparr>"

definition GET_INSIGHTS_TOOL :: tool_spec where
  "GET_INSIGHTS_TOOL = \<lparr>tl_name = ''meta_ads_get_insights'',
     tl_properties = [(''ad_account_id'', ''string''),
       (''level'', ''string''),
       (''date_preset'', ''string''),
       (''since'', ''string''),
       (''until'', ''string''),
       (''fields'', ''array'')],
     tl_required = [''ad_account_id'']\<rparr>"

definition LIST_CAMPAIGNS_TOOL :: tool_spec where
  "LIST_CAMPAIGNS_TOOL = \<lparr>tl_name = ''meta_ads_list_campaigns'',
     tl_properties = [(''ad_account_id'', ''string''), (''effective_status'', ''array'')],
     tl_required = [''ad_account_id'']\<rparr>"

definition CREATE_CAMPAIGN_TOOL :: tool_spec where
  "CREATE_CAMPAIGN_TOOL = \<lparr>tl_name = ''meta_ads_create_campaign'',
     tl_properties = [(''ad_account_id'', ''string''),
       (''name'', ''string''),
       (''objective'', ''string''),
       (''daily_budget'', ''number'')] @ CONFIRMED_PROP,
     tl_required = [''ad_account_id'', ''name'', ''objective'', ''confirmed'']\<rparr>"

definition UPDATE_CAMPAIGN_TOOL :: tool_spec where
  "UPDATE_CAMPAIGN_TOOL = \<lparr>tl_name = ''meta_ads_update_campaign'',
     tl_properties = [(''campaign_id'', ''string''),
       (''name'', ''string''),
       (''status'', ''string''),
       (''daily_budget'', ''number'')] @ CONFIRMED_PROP,
     tl_required = [''campaign_id'', ''confirmed'']\<rparr>"

definition DELETE_CAMPAIGN_TOOL :: tool_spec where
  "DELETE_CAMPAIGN_TOOL = \<lparr>tl_name = ''meta_ads_delete_campaign'',
     tl_properties = [(''campaign_id'', ''string'')] @ CONFIRMED_PROP,
     tl_required = [''campaign_id'', ''confirmed'']\<rparr>"

definition DUPLICATE_CAMPAIGN_TOOL :: tool_spec where
  "DUPLICATE_CAMPAIGN_TOOL = \<lparr>tl_name = ''meta_ads_duplicate_campaign'',
     tl_properties = [(''campaign_id'', ''string''),
       (''deep_copy'', ''boolean''),
       (''rename_suffix'', ''string'')] @ CONFIRMED_PROP,
     tl_required = [''campaign_id'', ''confirmed'']\<rparr>"

definition LIST_AD_SETS_TOOL :: tool_spec where
  "LIST_AD_SETS_TOOL = \<lparr>tl_name = ''meta_ads_list_ad_sets'',
     tl_properties = [(''campaign_id'', ''string'')],
     tl_required = [''campaign_id'']\<rparr>"

definition CREATE_AD_SET_TOOL :: tool_spec where
  "CREATE_AD_SET_TOOL = \<lparr>tl_name = ''meta_ads_create_ad_set'',
     tl_properties = [(''ad_account_id'', ''string''),
       (''campaign_id'', ''string''),
       (''name'', ''string''),
       (''optimization_goal'', ''string''),
       (''billing_event'', ''string''),
       (''daily_budget'', ''number''),
       (''targeting'', ''object''),
       (''start_time'', ''string'')] @ CONFIRMED_PROP,
     tl_required = [''ad_account_id'', ''campaign_id'', ''name'', ''optimization_goal'', ''billing_event'', ''targeting'', ''confirmed'']\<rparr>"

definition UPDATE_AD_SET_TOOL :: tool_spec where
  "UPDATE_AD_SET_TOOL = \<lparr>tl_name = ''meta_ads_update_ad_set'',
     tl_properties = [(''ad_set_id'', ''string''),
       (''name'', ''string''),
       (''status'', ''string''),
       (''daily_budget'', ''number'')] @ CONFIRMED_PROP,
     tl_required = [''ad_set_id'', ''confirmed'']\<rparr>"

definition DELETE_AD_SET_TOOL :: tool_spec where
  "DELETE_AD_SET_TOOL = \<lparr>tl_name = ''meta_ads_delete_ad_set'',
     tl_properties = [(''ad_set_id'', ''string'')] @ CONFIRMED_PROP,
     tl_required = [''ad_set_id'', ''confirmed'']\<rparr>"

definition DUPLICATE_AD_SET_TOOL :: tool_spec where
  "DUPLICATE_AD_SET_TOOL = \<lparr>tl_name = ''meta_ads_duplicate_ad_set'',
     tl_properties = [(''ad_set_id'', ''string''),
       (''campaign_id'', ''string''),
       (''deep_copy'', ''boolean''),
       (''rename_suffix'', ''string'')] @ CONFIRMED_PROP,
     tl_required = [''ad_set_id'', ''confirmed'']\<rparr>"

definition LIST_ADS_TOOL :: tool_spec where
  "LIST_ADS_TOOL = \<lparr>tl_name = ''meta_ads_list_ads'',
     tl_properties = [(''ad_set_id'', ''string'')],
     tl_required = [''ad_set_id'']\<rparr>"

definition CREATE_AD_CREATIVE_TOOL :: tool_spec where
  "CREATE_AD_CREATIVE_TOOL = \<lparr>tl_name = ''meta_ads_create_ad_creative'',
     tl_properties = [(''ad_account_id'', ''string''),
       (''name'', ''string''),
       (''page_id'', ''string''),
       (''link'', ''string''),
       (''message'', ''string''),
       (''headline'', ''string''),
       (''image_url'', ''string''),
       (''call_to_action'', ''string'')] @ CONFIRMED_PROP,
     tl_required = [''ad_account_id'', ''name'', ''page_id'', ''link'', ''message'', ''confirmed'']\<rparr>"

definition CREATE_AD_TOOL :: tool_spec where
  "CREATE_AD_TOOL = \<lparr>tl_name = ''meta_ads_create_ad'',
     tl_properties = [(''ad_account_id'', ''string''),
       (''name'', ''string''),
       (''ad_set_id'', ''string''),
       (''creative_id'', ''string'')] @ CONFIRMED_PROP,
     tl_required = [''ad_account_id'', ''name'', ''ad_set_id'', ''creative_id'', ''confirmed'']\<rparr>"

definition UPDATE_AD_TOOL :: tool_spec where
  "UPDATE_AD_TOOL = \<lparr>tl_name = ''meta_ads_update_ad'',
     tl_properties = [(''ad_id'', ''string''),
       (''name'', ''string''),
       (''status'', ''string'')] @ CONFIRMED_PROP,
     tl_required = [''ad_id'', ''confirmed'']\<rparr>"

definition DELETE_AD_TOOL :: tool_spec where
  "DELETE_AD_TOOL = \<lparr>tl_name = ''meta_ads_delete_ad'',
     tl_properties = [(''ad_id'', ''string'')] @ CONFIRMED_PROP,
     tl_required = [''ad_id'', ''confirmed'']\<rparr>"

definition DUPLICATE_AD_TOOL :: tool_spec where
  "DUPLICATE_AD_TOOL = \<lparr>tl_name = ''meta_ads_duplicate_ad'',
     tl_properties = [(''ad_id'', ''string''),
       (''ad_set_id'', ''string''),
       (''rename_suffix'', ''string'')] @ CONFIRMED_PROP,
     tl_required = [''ad_id'', ''confirmed'']\<rparr>"

definition LIST_PAGES_TOOL :: tool_spec where
  "LIST_PAGES_TOOL = \<lparr>tl_name = ''meta_ads_list_pages'',
     tl_properties = [],
     tl_required = []\<rparr>"

definition SEARCH_INTERESTS_TOOL :: tool_spec where
  "SEARCH_INTERESTS_TOOL = \<lparr>tl_name = ''meta_ads_search_interests'',
     tl_properties = [(''query'', ''string'')],
     tl_required = [''query'']\<rparr>"

definition META_ADS_TOOLS :: "tool_spec list" where
  "META_ADS_TOOLS = [LIST_AD_ACCOUNTS_TOOL, GET_INSIGHTS_TOOL, LIST_CAMPAIGNS_TOOL, CREATE_CAMPAIGN_TOOL,
     UPDATE_CAMPAIGN_TOOL, DELETE_CAMPAIGN_TOOL, DUPLICATE_CAMPAIGN_TOOL, LIST_AD_SETS_TOOL,
     CREATE_AD_SET_TOOL, UPDATE_AD_SET_TOOL, DELETE_AD_SET_TOOL, DUPLICATE_AD_SET_TOOL,
     LIST_ADS_TOOL, CREATE_AD_CREATIVE_TOOL, CREATE_AD_TOOL, UPDATE_AD_TOOL,
     DELETE_AD_TOOL, DUPLICATE_AD_TOOL, LIST_PAGES_TOOL, SEARCH_INTERESTS_TOOL]"

definition META_ADS_WRITE_TOOL_NAMES :: "string list" where
  "META_ADS_WRITE_TOOL_NAMES = [''meta_ads_create_campaign'', ''meta_ads_update_campaign'', ''meta_ads_delete_campaign'',
     ''meta_ads_duplicate_campaign'', ''meta_ads_create_ad_set'', ''meta_ads_update_ad_set'',
     ''meta_ads_delete_ad_set'', ''meta_ads_duplicate_ad_set'', ''meta_ads_create_ad_creative'',
     ''meta_ads_create_ad'', ''meta_ads_update_ad'', ''meta_ads_delete_ad'',
     ''meta_ads_duplicate_ad'']"

definition META_WRITE_LABELS :: "(string \<times> string) list" where
  "META_WRITE_LABELS = [(''meta_ads_create_campaign'', ''Create campaign''), (''meta_ads_update_campaign'', ''Update campaign''),
     (''meta_ads_delete_campaign'', ''Delete campaign''), (''meta_ads_duplicate_campaign'', ''Duplicate campaign''),
     (''meta_ads_create_ad_set'', ''Create ad set''), (''meta_ads_update_ad_set'', ''Update ad set''),
     (''meta_ads_delete_ad_set'', ''Delete ad set''), (''meta_ads_duplicate_ad_set'', ''Duplicate ad set''),
     (''meta_ads_create_ad_creative'', ''Create ad creative''), (''meta_ads_create_ad'', ''Create ad''),
     (''meta_ads_update_ad'', ''Update ad''), (''meta_ads_delete_ad'', ''Delete ad''),
     (''meta_ads_duplicate_ad'', ''Duplicate ad'')]"

section \<open>Dispatch\<close>

text \<open>
  \<open>String(input.k)\<close>; and the arguments declared as arrays or objects, which are taken to be
  such when present.
\<close>

definition arg_str :: "jsval \<Rightarrow> string \<Rightarrow> string" where
  "arg_str input k = to_string (get_prop input k)"

definition arg_list :: "jsval \<Rightarrow> string \<Rightarrow> jsval list" where
  "arg_list input k = (case get_prop input k of JArr xs \<Rightarrow> xs | _ \<Rightarrow> [])"

definition arg_obj :: "jsval \<Rightarrow> string \<Rightarrow> (string \<times> jsval) list" where
  "arg_obj input k = (case get_prop input k of JObj ps \<Rightarrow> ps | _ \<Rightarrow> [])"

definition campaign_of :: "jsval \<Rightarrow> create_campaign_params" where
  "campaign_of input = \<lparr>cc_adAccountId = arg_str input ''ad_account_id'', cc_name = arg_str input ''name'',
     cc_objective = arg_str input ''objective'', cc_dailyBudget = get_prop input ''daily_budget'',
     cc_lifetimeBudget = JUndef\<rparr>"

definition update_of :: "jsval \<Rightarrow> update_params" where
  "update_of input = \<lparr>up_name = get_prop input ''name'', up_status = get_prop input ''status'',
     up_dailyBudget = get_prop input ''daily_budget''\<rparr>"

definition adset_of :: "jsval \<Rightarrow> create_adset_params" where
  "adset_of input = \<lparr>ca_adAccountId = arg_str input ''ad_account_id'', ca_campaignId = arg_str input ''campaign_id'',
     ca_name = arg_str input ''name'', ca_optimizationGoal = arg_str input ''optimization_goal'',
     ca_billingEvent = arg_str input ''billing_event'', ca_targeting = arg_obj input ''targeting'',
     ca_dailyBudget = get_prop input ''daily_budget'', ca_lifetimeBudget = JUndef, ca_bidStrategy = JUndef,
     ca_startTime = get_prop input ''start_time'', ca_endTime = JUndef\<rparr>"

definition creative_of :: "jsval \<Rightarrow> create_creative_params" where
  "creative_of input = \<lparr>cr_adAccountId = arg_str input ''ad_account_id'', cr_name = arg_str input ''name'',
     cr_pageId = arg_str input ''page_id'', cr_link = arg_str input ''link'', cr_message = arg_str input ''message'',
     cr_imageUrl = get_prop input ''image_url'', cr_headline = get_prop input ''headline'',
     cr_callToAction = get_prop input ''call_to_action''\<rparr>"

definition ad_of :: "jsval \<Rightarrow> create_ad_params" where
  "ad_of input = \<lparr>ad_adAccountId = arg_str input ''ad_account_id'', ad_name = arg_str input ''name'',
     ad_adSetId = arg_str input ''ad_set_id'', ad_creativeId = arg_str input ''creative_id''\<rparr>"

definition insights_of :: "jsval \<Rightarrow> insights_params" where
  "insights_of input = \<lparr>in_adAccountId = arg_str input ''ad_account_id'', in_level = get_prop input ''level'',
     in_datePreset = get_prop input ''date_preset'', in_since = get_prop input ''since'',
     in_until = get_prop input ''until'', in_fields = arg_list input ''fields''\<rparr>"

text \<open>A copy: the status option is never passed, so the client's default applies.\<close>

definition copy_of :: "jsval \<Rightarrow> string \<Rightarrow> jsval \<Rightarrow> jsval \<Rightarrow> duplicate_params" where
  "copy_of input idKey parent deepCopy = \<lparr>du_id = arg_str input idKey, du_parentId = parent,
     du_deepCopy = deepCopy, du_statusOption = JUndef, du_renameSuffix = get_prop input ''rename_suffix''\<rparr>"

definition tool_request :: "string \<Rightarrow> string \<Rightarrow> jsval \<Rightarrow> meta_request result" where
  "tool_request token name input =
    (if name = ''meta_ads_list_ad_accounts'' then Inr (listAdAccounts token)
     else if name = ''meta_ads_get_insights'' then Inr (getInsights token (insights_of input))
     else if name = ''meta_ads_list_campaigns''
       then Inr (listCampaigns token (arg_str input ''ad_account_id'') (arg_list input ''effective_status''))
     else if name = ''meta_ads_create_campaign'' then Inr (createCampaign token (campaign_of input))
     else if name = ''meta_ads_update_campaign''
       then Inr (updateCampaign token (arg_str input ''campaign_id'') (update_of input))
     else if name = ''meta_ads_delete_campaign'' then Inr (deleteCampaign token (arg_str input ''campaign_id''))
     else if name = ''meta_ads_duplicate_campaign''
       then Inr (duplicateCampaign token (copy_of input ''campaign_id'' JUndef (get_prop input ''deep_copy'')))
     else if name = ''meta_ads_list_ad_sets'' then Inr (listAdSets token (arg_str input ''campaign_id''))
     else if name = ''meta_ads_create_ad_set'' then Inr (createAdSet token (adset_of input))
     else if name = ''meta_ads_update_ad_set''
       then Inr (updateAdSet token (arg_str input ''ad_set_id'') (update_of input))
     else if name = ''meta_ads_delete_ad_set'' then Inr (deleteAdSet token (arg_str input ''ad_set_id''))
     else if name = ''meta_ads_duplicate_ad_set''
       then Inr (duplicateAdSet token (copy_of input ''ad_set_id'' (get_prop input ''campaign_id'') (get_prop input ''deep_copy'')))
     else if name = ''meta_ads_list_ads'' then Inr (listAds token (arg_str input ''ad_set_id''))
     else if name = ''meta_ads_create_ad_creative'' then Inr (createAdCreative token (creative_of input))
     else if name = ''meta_ads_create_ad'' then Inr (createAd token (ad_of input))
     else if name = ''meta_ads_update_ad'' then Inr (updateAd token (arg_str input ''ad_id'') (update_of input))
     else if name = ''meta_ads_delete_ad'' then Inr (deleteAd token (arg_str input ''ad_id''))
     else if name = ''meta_ads_duplicate_ad''
       then Inr (duplicateAd token (copy_of input ''ad_id'' (get_prop input ''ad_set_id'') JUndef))
     else if name = ''meta_ads_list_pages'' then Inr (listPages token)
     else if name = ''meta_ads_search_interests'' then Inr (searchInterests token (arg_str input ''query''))
     else Inl (PlainError (''Unknown Meta Ads tool: '' @ name)))"

definition dispatchMetaAdsTool :: "graph_api \<Rightarrow> string \<Rightarrow> string \<Rightarrow> jsval \<Rightarrow> jsval meta" where
  "dispatchMetaAdsTool graph token name input sent = (case tool_request token name input of
     Inl e \<Rightarrow> (Inl e, sent) | Inr r \<Rightarrow> meta_send graph r sent)"

section \<open>Running a tool call\<close>

datatype confirm_mode = INLINE | BUTTONS

record pending_action =
  pn_app :: string
  pn_tool :: string
  pn_label :: string
  pn_input :: jsval

record tool_result =
  tr_tool_use_id :: string
  tr_content :: string
  tr_is_error :: bool

text \<open>What a call can change: the connections whose tokens are refreshed, and the requests sent.\<close>

record meta_world =
  mw_rows :: "integration list"
  mw_sent :: meta_log

text \<open>The message of a thrown error, as \<open>error.message\<close> gives it.\<close>

fun error_message :: "http_error \<Rightarrow> string" where
  "error_message (BadRequest m) = m"
| "error_message (BadRequestErrors m _) = m"
| "error_message (NotFound m) = m"
| "error_message (Unauthorized m) = m"
| "error_message (Forbidden m) = m"
| "error_message (BadGateway m) = m"
| "error_message (ServiceUnavailable m) = m"
| "error_message (TooManyRequests m) = m"
| "error_message (InternalServerError m) = m"
| "error_message UniqueViolation = ''duplicate key value violates unique constraint''"
| "error_message (PlainError m) = m"

definition write_label :: "string \<Rightarrow> string" where
  "write_label name = (case map_of META_WRITE_LABELS name of Some l \<Rightarrow> l | None \<Rightarrow> name)"

definition NOT_EXECUTED_BUTTONS :: string where
  "NOT_EXECUTED_BUTTONS = ''Not executed yet - this change needs the user's approval, which will be requested '' @
     ''via Approve/Cancel buttons shown under your reply. In your reply, state exactly what '' @
     ''you will do (account, campaign/ad set, budget, status) in one short paragraph, then '' @
     ''stop. Do not call this tool again and do not claim it is done.''"

definition NOT_EXECUTED_INLINE :: string where
  "NOT_EXECUTED_INLINE = ''Not executed: this changes a live ad account. Describe the exact action to the user, '' @
     ''get their explicit confirmation, then call again with confirmed=true.''"

text \<open>
  \<open>(toolUse.input ?? {})\<close>, and the call itself.  \<open>pending\<close> is the context's captured action.
\<close>

definition tool_input :: "jsval \<Rightarrow> jsval" where
  "tool_input v = (if is_nullish v then JObj [] else v)"

definition is_write :: "string \<Rightarrow> bool" where
  "is_write name \<longleftrightarrow> name \<in> set META_ADS_WRITE_TOOL_NAMES"

definition capture :: "string \<Rightarrow> jsval \<Rightarrow> pending_action option \<Rightarrow> pending_action option" where
  "capture name input pending = (case pending of Some p \<Rightarrow> Some p
     | None \<Rightarrow> Some \<lparr>pn_app = ''meta_ads'', pn_tool = name, pn_label = write_label name, pn_input = input\<rparr>)"

definition runMetaAdsTool ::
  "meta_oauth \<Rightarrow> graph_api \<Rightarrow> time \<Rightarrow> uuid \<Rightarrow> uuid option \<Rightarrow> confirm_mode \<Rightarrow> string \<Rightarrow> string \<Rightarrow> jsval
     \<Rightarrow> pending_action option \<Rightarrow> meta_world \<Rightarrow> tool_result \<times> pending_action option \<times> meta_world" where
  "runMetaAdsTool mo graph now ws user mode callId name rawInput pending w =
    (let input = tool_input rawInput in
     if is_write name \<and> mode = BUTTONS
     then (\<lparr>tr_tool_use_id = callId, tr_content = NOT_EXECUTED_BUTTONS, tr_is_error = False\<rparr>,
           capture name input pending, w)
     else case getMetaAccessToken mo now ws user (mw_rows w) of
       (None, rows) \<Rightarrow>
         (\<lparr>tr_tool_use_id = callId,
           tr_content = ''No active Meta Ads connection is available for this workspace.'', tr_is_error = True\<rparr>,
          pending, w\<lparr>mw_rows := rows\<rparr>)
     | (Some token, rows) \<Rightarrow>
         if is_write name \<and> get_prop input ''confirmed'' \<noteq> JBool True
         then (\<lparr>tr_tool_use_id = callId, tr_content = NOT_EXECUTED_INLINE, tr_is_error = False\<rparr>,
               pending, w\<lparr>mw_rows := rows\<rparr>)
         else (case dispatchMetaAdsTool graph token name input (mw_sent w) of
             (Inr v, sent) \<Rightarrow>
               (\<lparr>tr_tool_use_id = callId, tr_content = stringify v, tr_is_error = False\<rparr>,
                pending, \<lparr>mw_rows = rows, mw_sent = sent\<rparr>)
           | (Inl e, sent) \<Rightarrow>
               (\<lparr>tr_tool_use_id = callId, tr_content = ''Meta Ads request failed: '' @ error_message e,
                 tr_is_error = True\<rparr>, pending, \<lparr>mw_rows = rows, mw_sent = sent\<rparr>)))"

definition summarizeMetaWrite :: "string \<Rightarrow> jsval \<Rightarrow> string" where
  "summarizeMetaWrite name v =
    (let i = (case v of JObj ps \<Rightarrow> (case map_of ps ''id'' of Some x \<Rightarrow> to_string x | None \<Rightarrow> []) | _ \<Rightarrow> []) in
     if str_includes ''create'' name \<and> i \<noteq> []
     then ''Done - '' @ to_lower (write_label name) @ '' (id '' @ i @ ''), paused.''
     else ''Done - '' @ to_lower (write_label name) @ '' completed.'')"

definition executeMetaAdsAction ::
  "meta_oauth \<Rightarrow> graph_api \<Rightarrow> time \<Rightarrow> uuid \<Rightarrow> uuid option \<Rightarrow> string \<Rightarrow> jsval \<Rightarrow> meta_world
     \<Rightarrow> (bool \<times> string) \<times> meta_world" where
  "executeMetaAdsAction mo graph now ws user name input w =
    (case getMetaAccessToken mo now ws user (mw_rows w) of
       (None, rows) \<Rightarrow> ((False, ''No active Meta Ads connection is available.''), w\<lparr>mw_rows := rows\<rparr>)
     | (Some token, rows) \<Rightarrow>
         (case dispatchMetaAdsTool graph token name input (mw_sent w) of
            (Inr v, sent) \<Rightarrow> ((True, summarizeMetaWrite name v), \<lparr>mw_rows = rows, mw_sent = sent\<rparr>)
          | (Inl e, sent) \<Rightarrow>
              ((False, ''Meta Ads request failed: '' @ error_message e), \<lparr>mw_rows = rows, mw_sent = sent\<rparr>)))"

section \<open>Facts\<close>

lemmas tool_tables = META_ADS_TOOLS_def META_ADS_WRITE_TOOL_NAMES_def CONFIRMED_PROP_def
  LIST_AD_ACCOUNTS_TOOL_def GET_INSIGHTS_TOOL_def LIST_CAMPAIGNS_TOOL_def CREATE_CAMPAIGN_TOOL_def
  UPDATE_CAMPAIGN_TOOL_def DELETE_CAMPAIGN_TOOL_def DUPLICATE_CAMPAIGN_TOOL_def LIST_AD_SETS_TOOL_def
  CREATE_AD_SET_TOOL_def UPDATE_AD_SET_TOOL_def DELETE_AD_SET_TOOL_def DUPLICATE_AD_SET_TOOL_def
  LIST_ADS_TOOL_def CREATE_AD_CREATIVE_TOOL_def CREATE_AD_TOOL_def UPDATE_AD_TOOL_def DELETE_AD_TOOL_def
  DUPLICATE_AD_TOOL_def LIST_PAGES_TOOL_def SEARCH_INTERESTS_TOOL_def

lemmas meta_reads = listAdAccounts_def getInsights_def listCampaigns_def listAdSets_def listAds_def
  listPages_def searchInterests_def

lemmas meta_writes = createCampaign_def updateCampaign_def deleteCampaign_def duplicateCampaign_def
  createAdSet_def updateAdSet_def deleteAdSet_def duplicateAdSet_def createAdCreative_def
  createAd_def updateAd_def deleteAd_def duplicateAd_def

lemma meta_request_simps [simp]:
  "mq_method (meta_get p t q) = GET" "mq_method (meta_post p t q) = POST" "mq_method (meta_delete p t) = DELETE"
  "mq_params (meta_get p t q) = with_token t q" "mq_params (meta_post p t q) = with_token t q"
  "mq_params (meta_delete p t) = with_token t []"
  by (simp_all add: meta_get_def meta_post_def meta_delete_def)

lemma read_methods [simp]:
  "mq_method (listAdAccounts t) = GET" "mq_method (getInsights t p) = GET" "mq_method (listCampaigns t a e) = GET"
  "mq_method (listAdSets t c) = GET" "mq_method (listAds t a) = GET" "mq_method (listPages t) = GET"
  "mq_method (searchInterests t q) = GET"
  by (simp_all add: meta_reads)

lemma write_methods [simp]:
  "mq_method (createCampaign t cp) \<noteq> GET" "mq_method (updateCampaign t i u) \<noteq> GET"
  "mq_method (deleteCampaign t i) \<noteq> GET" "mq_method (duplicateCampaign t d) \<noteq> GET"
  "mq_method (createAdSet t ap) \<noteq> GET" "mq_method (updateAdSet t i u) \<noteq> GET"
  "mq_method (deleteAdSet t i) \<noteq> GET" "mq_method (duplicateAdSet t d) \<noteq> GET"
  "mq_method (createAdCreative t cr) \<noteq> GET" "mq_method (createAd t ad) \<noteq> GET"
  "mq_method (updateAd t i u) \<noteq> GET" "mq_method (deleteAd t i) \<noteq> GET" "mq_method (duplicateAd t d) \<noteq> GET"
  by (simp_all add: meta_writes)

lemma mutating_tool_is_write:
  "tool_request token name input = Inr r \<Longrightarrow> mq_method r \<noteq> GET \<Longrightarrow> is_write name"
  unfolding tool_request_def is_write_def META_ADS_WRITE_TOOL_NAMES_def
  by (simp split: if_splits) auto

lemma token_in_params [simp]: "map_of (with_token t q) ''access_token'' = Some t"
  by (simp add: with_token_def)

lemma tool_request_token:
  "tool_request token name input = Inr r \<Longrightarrow> map_of (mq_params r) ''access_token'' = Some token"
  unfolding tool_request_def meta_reads meta_writes by (auto split: if_splits)

text \<open>What the status parameters of a request can be.\<close>

lemma in_with_token: "k \<noteq> ''access_token'' \<Longrightarrow> (k, v) \<in> set (with_token t q) \<Longrightarrow> (k, v) \<in> set q"
  unfolding with_token_def by (induction q) (auto split: if_splits)

lemma in_opt_param: "(k, v) \<in> set (opt_param j x) \<longleftrightarrow> k = j \<and> v = to_string x \<and> \<not> is_nullish x"
  by (auto simp: opt_param_def)

lemma in_truthy_param: "(k, v) \<in> set (truthy_param j x) \<longleftrightarrow> k = j \<and> v = to_string x \<and> truthy x"
  by (auto simp: truthy_param_def)

lemma in_copyOptions:
  "(''status'', v) \<notin> set (copyOptions s n d)"
  "(''status_option'', v) \<in> set (copyOptions s n d) \<longleftrightarrow> v = nullish_or s ''PAUSED''"
  by (auto simp: copyOptions_def)

lemmas param_simps = in_opt_param in_truthy_param in_copyOptions

lemma status_of_request:
  assumes "tool_request token name input = Inr r"
  shows "(''status'', v) \<in> set (mq_params r) \<Longrightarrow> v = ''PAUSED'' \<or>
      (name \<in> {''meta_ads_update_campaign'', ''meta_ads_update_ad_set'', ''meta_ads_update_ad''}
       \<and> v = arg_str input ''status'')"
    and "(''status_option'', v) \<in> set (mq_params r) \<Longrightarrow> v = ''PAUSED''"
proof -
  have n: "''status'' \<noteq> ''access_token''" "''status_option'' \<noteq> ''access_token''" by simp_all
  show "v = ''PAUSED'' \<or>
      (name \<in> {''meta_ads_update_campaign'', ''meta_ads_update_ad_set'', ''meta_ads_update_ad''}
       \<and> v = arg_str input ''status'')" if "(''status'', v) \<in> set (mq_params r)"
    using assms that unfolding tool_request_def meta_reads meta_writes
    by (simp split: if_splits)
      (auto dest!: in_with_token[OF n(1)] simp: param_simps update_of_def arg_str_def)
  show "v = ''PAUSED''" if "(''status_option'', v) \<in> set (mq_params r)"
    using assms that unfolding tool_request_def meta_reads meta_writes
    by (simp split: if_splits)
      (auto dest!: in_with_token[OF n(2)] simp: param_simps copy_of_def nullish_or_def)
qed

lemma tool_send_cases:
  assumes "dispatchMetaAdsTool graph token name input sent = (res, sent')"
  obtains (unknown) "sent' = sent" | (sent) r where "sent' = sent @ [r]" "tool_request token name input = Inr r"
      "res = read_reply (graph sent r)"
  using assms by (auto simp: dispatchMetaAdsTool_def meta_send_def split: sum.splits)

lemma run_tool_cases:
  assumes "runMetaAdsTool mo graph now ws user mode callId name raw pending w = (res, pending', w')"
  obtains (silent) "mw_sent w' = mw_sent w"
    | (sent) r token where "mw_sent w' = mw_sent w @ [r]" "tool_request token name (tool_input raw) = Inr r"
        "getMetaAccessToken mo now ws user (mw_rows w) = (Some token, mw_rows w')"
        "is_write name \<Longrightarrow> mode = INLINE \<and> get_prop (tool_input raw) ''confirmed'' = JBool True"
proof (cases "is_write name \<and> mode = BUTTONS")
  case True
  with assms silent show ?thesis by (simp add: runMetaAdsTool_def Let_def)
next
  case False
  obtain tok rows where t: "getMetaAccessToken mo now ws user (mw_rows w) = (tok, rows)" by fastforce
  show ?thesis
  proof (cases "tok = None \<or> is_write name \<and> get_prop (tool_input raw) ''confirmed'' \<noteq> JBool True")
    case True
    with assms False t have "mw_sent w' = mw_sent w"
      by (cases tok) (auto simp: runMetaAdsTool_def Let_def split: if_splits)
    then show ?thesis by (rule silent)
  next
    case go: False
    then obtain token where token: "tok = Some token" by auto
    obtain v sent where d: "dispatchMetaAdsTool graph token name (tool_input raw) (mw_sent w) = (v, sent)" by fastforce
    have w': "mw_sent w' = sent" "mw_rows w' = rows"
      using assms False go t token d by (auto simp: runMetaAdsTool_def Let_def split: sum.splits)
    from d show ?thesis
    proof (cases rule: tool_send_cases)
      case unknown
      with w' silent show ?thesis by simp
    next
      case (sent r)
      have m: "is_write name \<Longrightarrow> mode = INLINE \<and> get_prop (tool_input raw) ''confirmed'' = JBool True"
        using False go by (cases mode) auto
      show ?thesis by (rule that(2)[of r token]) (use sent w' t token m in auto)
    qed
  qed
qed

section \<open>Properties\<close>


definition sample_world :: meta_world where
  "sample_world = \<lparr>mw_rows = sample_integrations, mw_sent = []\<rparr>"

definition sample_graph :: graph_api where
  "sample_graph = (\<lambda>_ _. Reply True 200 (Some (JObj [(''id'', JStr ''123'')])))"


text \<open>No tool call starts spending by itself: whatever a model passes, everything a tool creates
  or copies is created paused, and a request that sets any other status is one of the three
  updates, with exactly the status that the (confirmed) call named.\<close>

theorem tools_create_paused:
  assumes "tool_request token name input = Inr r"
  shows "((''status'', v) \<in> set (mq_params r) \<or> (''status_option'', v) \<in> set (mq_params r)) \<longrightarrow> v \<noteq> ''PAUSED'' \<longrightarrow>
      name \<in> {''meta_ads_update_campaign'', ''meta_ads_update_ad_set'', ''meta_ads_update_ad''}
      \<and> v = arg_str input ''status'' \<and> is_write name"
proof -
  have "is_write n" if "n \<in> {''meta_ads_update_campaign'', ''meta_ads_update_ad_set'', ''meta_ads_update_ad''}" for n
    using that by (auto simp: is_write_def META_ADS_WRITE_TOOL_NAMES_def)
  with status_of_request[OF assms, of v] show ?thesis by blast
qed

lemma tools_create_paused_witness:
  "(''status'', ''PAUSED'') \<in> set (mq_params (createCampaign ''t'' (campaign_of (JObj [(''status'', JStr ''ACTIVE'')]))))
   \<and> (''status'', ''ACTIVE'') \<notin> set (mq_params (createCampaign ''t'' (campaign_of (JObj [(''status'', JStr ''ACTIVE'')]))))"
proof -
  let ?in = "JObj [(''status'', JStr ''ACTIVE'')]"
  have "tool_request ''t'' ''meta_ads_create_campaign'' ?in = Inr (createCampaign ''t'' (campaign_of ?in))"
    by (simp add: tool_request_def)
  from tools_create_paused[OF this, of "''ACTIVE''"] show ?thesis
    by (auto simp: createCampaign_def with_token_def)
qed

text \<open>The declared tools and the gate agree: every declared tool is dispatched, and a tool sends
  a request that changes something exactly when its schema requires \<open>confirmed\<close>, which is
  exactly when it is on the list of gated tools.\<close>

theorem declared_tools_are_gated:
  "list_all (\<lambda>t. is_ok (tool_request token (tl_name t) input)
      \<and> (''confirmed'' \<in> set (tl_required t)) = is_write (tl_name t)
      \<and> (mq_method (projr (tool_request token (tl_name t) input)) = GET) = (\<not> is_write (tl_name t))) META_ADS_TOOLS"
  by (simp add: tool_tables tool_request_def is_write_def)

text \<open>What a tool call sends to Meta goes out under an account of the member: the request carries
  the token of an active Meta account of the workspace that is shared with the team or the
  member's own.\<close>

theorem tool_calls_use_visible_account:
  assumes "integrations_wf (mw_rows w)"
    and "runMetaAdsTool mo graph now ws user mode callId name raw pending w = (res, pending', w')"
    and "mw_sent w' = mw_sent w @ [r]"
  shows "\<exists>x \<in> set (mw_rows w'). ig_workspaceId x = ws \<and> ig_provider x = META \<and> ig_isActive x
    \<and> (ig_accessLevel x = TEAM \<or> user = Some (ig_userId x))
    \<and> map_of (mq_params r) ''access_token'' = ig_accessToken x"
  using assms(2)
proof (cases rule: run_tool_cases)
  case silent
  with assms(3) show ?thesis by simp
next
  case (sent r' token)
  from sent(1) assms(3) have "r' = r" by simp
  with sent(2) have t: "map_of (mq_params r) ''access_token'' = Some token" by (auto dest: tool_request_token)
  from token_source[OF assms(1) sent(3)] t show ?thesis by force
qed

lemma tool_calls_use_visible_account_witness:
  "\<exists>x \<in> set (mw_rows sample_world). ig_accessLevel x = TEAM \<and> ig_accessToken x = Some ''token-i2''"
proof -
  let ?r = "runMetaAdsTool (sample_oauth True ''t'' ''1'') sample_graph 0 ''w1'' (Some ''c'') INLINE ''call''
      ''meta_ads_list_pages'' JUndef None sample_world"
  have g: "getMetaAccessToken (sample_oauth True ''t'' ''1'') 0 ''w1'' (Some ''c'') sample_integrations = (Some ''token-i2'', sample_integrations)"
    by (simp add: getMetaAccessToken_def visibleMetaIntegrations_def sample_integrations_def sample_integration_def
        visible_to_def ensureFreshMetaToken_def isExpired_def EXPIRY_SKEW_MS_def)
  have r: "snd (snd ?r) = \<lparr>mw_rows = sample_integrations, mw_sent = [listPages ''token-i2'']\<rparr>"
    by (simp add: runMetaAdsTool_def Let_def is_write_def META_ADS_WRITE_TOOL_NAMES_def sample_world_def g
        dispatchMetaAdsTool_def tool_request_def meta_send_def sample_graph_def read_reply_def tool_input_def
        object_prototype_def)
  have "mw_sent (snd (snd ?r)) = mw_sent sample_world @ [listPages ''token-i2'']"
    unfolding r by (simp add: sample_world_def)
  from tool_calls_use_visible_account[OF _ _ this, of "sample_oauth True ''t'' ''1''" sample_graph 0 "''w1''" "Some ''c''" INLINE
      "''call''" "''meta_ads_list_pages''" JUndef None "fst ?r" "fst (snd ?r)"] r
  show ?thesis
    by (auto simp: sample_world_def sample_integrations_wf listPages_def sample_integrations_def sample_integration_def)
qed

end
