(* ===== verification/Approvals.thy ===== *)
theory Approvals
  imports MetaTools Workspaces
begin

text \<open>
  \<open>src/src/slack/slack-interactions.service.ts\<close>: changes to a live ad account that wait for a
  click on Approve or Cancel.  A pending change is kept in Redis under a fresh token; a click
  reads it, then, in a later command, deletes it and acts.  \<open>decide_click\<close> is the part up to
  the deletion, \<open>finish_click\<close> the part from it on, and \<open>handleInteraction\<close> one after the
  other; the step relation \<open>approval_step\<close> lets clicks that are handled at the same time
  interleave between the two.
\<close>

section \<open>Data\<close>

definition APPROVAL_TTL_SECONDS :: int where
  "APPROVAL_TTL_SECONDS = 900"

definition APPROVAL_PREFIX :: string where
  "APPROVAL_PREFIX = ''slack:approval:''"

definition APPROVE_ACTION_ID :: string where
  "APPROVE_ACTION_ID = ''gomer_approve''"

definition CANCEL_ACTION_ID :: string where
  "CANCEL_ACTION_ID = ''gomer_cancel''"

record pending_approval =
  pg_workspaceId :: uuid
  pg_requesterUserId :: "uuid option"
  pg_requesterSlackId :: string
  pg_requesterName :: string
  pg_teamId :: string
  pg_channel :: string
  pg_threadTs :: "string option"
  pg_messageTs :: string
  pg_toolName :: string
  pg_input :: jsval
  pg_label :: string
  pg_answer :: string

definition null_or_str :: "string option \<Rightarrow> jsval" where
  "null_or_str v = (case v of None \<Rightarrow> JNull | Some s \<Rightarrow> JStr s)"

text \<open>The stored record; \<open>threadTs\<close> is left out when it is undefined.\<close>

definition pending_json :: "pending_approval \<Rightarrow> jsval" where
  "pending_json p = JObj ([(''workspaceId'', JStr (pg_workspaceId p)),
     (''requesterUserId'', null_or_str (pg_requesterUserId p)), (''requesterSlackId'', JStr (pg_requesterSlackId p)),
     (''requesterName'', JStr (pg_requesterName p)), (''teamId'', JStr (pg_teamId p)),
     (''channel'', JStr (pg_channel p))]
     @ (case pg_threadTs p of None \<Rightarrow> [] | Some t \<Rightarrow> [(''threadTs'', JStr t)])
     @ [(''messageTs'', JStr (pg_messageTs p)), (''toolName'', JStr (pg_toolName p)), (''input'', pg_input p),
        (''label'', JStr (pg_label p)), (''answer'', JStr (pg_answer p))])"

definition pending_of :: "jsval \<Rightarrow> pending_approval" where
  "pending_of v = \<lparr>pg_workspaceId = str_of (get_prop v ''workspaceId''),
     pg_requesterUserId = opt_str (get_prop v ''requesterUserId''),
     pg_requesterSlackId = str_of (get_prop v ''requesterSlackId''),
     pg_requesterName = str_of (get_prop v ''requesterName''), pg_teamId = str_of (get_prop v ''teamId''),
     pg_channel = str_of (get_prop v ''channel''), pg_threadTs = opt_str (get_prop v ''threadTs''),
     pg_messageTs = str_of (get_prop v ''messageTs''), pg_toolName = str_of (get_prop v ''toolName''),
     pg_input = get_prop v ''input'', pg_label = str_of (get_prop v ''label''),
     pg_answer = str_of (get_prop v ''answer'')\<rparr>"

text \<open>The parts of a \<open>block_actions\<close> payload the service reads.\<close>

record click =
  ck_type :: "string option"
  ck_actionId :: "string option"
  ck_value :: "string option"
  ck_userId :: "string option"
  ck_userName :: "string option"
  ck_username :: "string option"
  ck_responseUrl :: "string option"

text \<open>What is posted to Slack, in order; Slack's calls are best effort and never throw.\<close>

datatype slack_out =
    Ephemeral string string
  | UpdateMessage string string string string string
  | PostMessage string string string "string option"

record approval_state =
  av_kv :: kv
  av_world :: meta_world
  av_out :: "slack_out list"

section \<open>Storing\<close>

definition storePending :: "string \<Rightarrow> pending_approval \<Rightarrow> time \<Rightarrow> kv \<Rightarrow> kv" where
  "storePending token p now s =
     put_ticket APPROVAL_PREFIX APPROVAL_TTL_SECONDS token (stringify (pending_json p)) now s"

definition set_messageTs :: "string \<Rightarrow> jsval \<Rightarrow> jsval" where
  "set_messageTs ts v = (case v of JObj ps \<Rightarrow> JObj (aput ''messageTs'' (JStr ts) ps) | _ \<Rightarrow> v)"

text \<open>Patching the stored record: the text read first, and the write of the patched text.\<close>

definition patched_record :: "string \<Rightarrow> string \<Rightarrow> string option" where
  "patched_record ts raw = map_option (\<lambda>v. stringify (set_messageTs ts v)) (json_parse raw)"

definition attachMessageTs :: "string \<Rightarrow> string \<Rightarrow> time \<Rightarrow> kv \<Rightarrow> unit result \<times> kv" where
  "attachMessageTs token ts now s = (case peek_ticket APPROVAL_PREFIX token now s of
      None \<Rightarrow> (Inr (), s)
    | Some raw \<Rightarrow> (case patched_record ts raw of
        None \<Rightarrow> (Inl (PlainError ''Unexpected token in JSON''), s)
      | Some raw' \<Rightarrow> (Inr (), put_ticket APPROVAL_PREFIX APPROVAL_TTL_SECONDS token raw' now s)))"

section \<open>Handling a click\<close>

datatype decision =
    Ignore
  | Refuse string string
  | Cancel string string pending_approval string
  | Approve string string pending_approval string

text \<open>\<open>if (responseUrl) respondEphemeral(responseUrl, text)\<close>.\<close>

definition refuse :: "click \<Rightarrow> string \<Rightarrow> decision" where
  "refuse c text = (case ck_responseUrl c of Some (h # u) \<Rightarrow> Refuse (h # u) text | _ \<Rightarrow> Ignore)"

definition clicker_name :: "click \<Rightarrow> string" where
  "clicker_name c = first_truthy [ck_userName c, ck_username c] ''someone''"

text \<open>Deciding on a stored record that was found under the token.\<close>

definition judge_click :: "workspace list \<Rightarrow> click \<Rightarrow> string \<Rightarrow> string \<Rightarrow> pending_approval \<Rightarrow> decision" where
  "judge_click ws c actionId token p =
    (case findBySlackTeamId ws (pg_teamId p) of
       None \<Rightarrow> Ignore
     | Some w \<Rightarrow> (case w_slackBotToken w of
         Some (b # bt) \<Rightarrow>
           if actionId = CANCEL_ACTION_ID then Cancel token (b # bt) p (clicker_name c)
           else if actionId \<noteq> APPROVE_ACTION_ID then Ignore
           else if (case ck_userId c of Some u \<Rightarrow> u | None \<Rightarrow> []) \<noteq> pg_requesterSlackId p
           then refuse c (''Only '' @ pg_requesterName p @ '' can approve this action.'')
           else Approve token (b # bt) p (clicker_name c)
       | _ \<Rightarrow> Ignore))"

text \<open>The handler up to its first write; text that does not parse makes it throw, and nothing happens.\<close>

definition decide_click :: "workspace list \<Rightarrow> time \<Rightarrow> click \<Rightarrow> kv \<Rightarrow> decision" where
  "decide_click ws now c s =
    (if ck_type c \<noteq> Some ''block_actions'' then Ignore
     else case (ck_value c, ck_actionId c) of
       (Some (t # token), Some (a # actionId)) \<Rightarrow>
         (case peek_ticket APPROVAL_PREFIX (t # token) now s of
            None \<Rightarrow> refuse c ''This approval has expired or was already handled.''
          | Some raw \<Rightarrow> (case json_parse raw of None \<Rightarrow> Ignore
              | Some v \<Rightarrow> judge_click ws c (a # actionId) (t # token) (pending_of v)))
     | _ \<Rightarrow> Ignore)"

definition result_mark :: "bool \<times> string \<Rightarrow> string" where
  "result_mark r = (if fst r then '':white_check_mark: '' @ snd r else '':warning: '' @ snd r)"

text \<open>
  Acting on the decision.  An approval consumes the token, edits the card, executes the stored
  change as the requester and posts what came of it.
\<close>

definition finish_click ::
  "meta_oauth \<Rightarrow> graph_api \<Rightarrow> time \<Rightarrow> decision \<Rightarrow> approval_state \<Rightarrow> approval_state" where
  "finish_click mo graph now d st = (case d of
      Ignore \<Rightarrow> st
    | Refuse url text \<Rightarrow> st\<lparr>av_out := av_out st @ [Ephemeral url text]\<rparr>
    | Cancel token bt p who \<Rightarrow>
        st\<lparr>av_kv := drop_ticket APPROVAL_PREFIX token (av_kv st),
           av_out := av_out st @ [UpdateMessage bt (pg_channel p) (pg_messageTs p) (pg_answer p)
             ('':x: Cancelled by '' @ who)]\<rparr>
    | Approve token bt p who \<Rightarrow>
        (let (r, w) = executeMetaAdsAction mo graph now (pg_workspaceId p) (pg_requesterUserId p)
                        (pg_toolName p) (pg_input p) (av_world st)
         in \<lparr>av_kv = drop_ticket APPROVAL_PREFIX token (av_kv st), av_world = w,
             av_out = av_out st @ [UpdateMessage bt (pg_channel p) (pg_messageTs p) (pg_answer p)
                 ('':white_check_mark: Approved by '' @ who @ '' - running...''),
               PostMessage bt (pg_channel p) (result_mark r) (pg_threadTs p)]\<rparr>))"

definition handleInteraction ::
  "workspace list \<Rightarrow> meta_oauth \<Rightarrow> graph_api \<Rightarrow> time \<Rightarrow> click \<Rightarrow> approval_state \<Rightarrow> approval_state" where
  "handleInteraction ws mo graph now c st = finish_click mo graph now (decide_click ws now c (av_kv st)) st"

section \<open>Facts\<close>

definition storable :: "pending_approval \<Rightarrow> bool" where
  "storable p \<longleftrightarrow> textual (pg_input p)"

lemma pending_roundtrip: "pending_of (pending_json p) = p" if "\<not> is_nullish (pg_input p) \<or> pg_input p = JNull"
  using that
  by (cases "pg_requesterUserId p"; cases "pg_threadTs p")
    (simp_all add: pending_of_def pending_json_def null_or_str_def opt_str_def object_prototype_def)

lemma parse_pending: "storable p \<Longrightarrow> json_parse (stringify (pending_json p)) = Some (pending_json p)"
  by (rule parse_stringify) (auto simp: storable_def pending_json_def null_or_str_def split: option.split)

lemma storable_roundtrip: "storable p \<Longrightarrow> pending_of (pending_json p) = p"
  by (rule pending_roundtrip) (auto simp: storable_def elim!: textual.elims is_nullish.elims)

lemma pending_text_nonempty: "stringify (pending_json p) \<noteq> []"
  by (simp add: pending_json_def)

lemma peek_stored:
  "storable p \<Longrightarrow> now < t0 + APPROVAL_TTL_SECONDS * 1000 \<Longrightarrow>
     peek_ticket APPROVAL_PREFIX token now (storePending token p t0 s) = Some (stringify (pending_json p))"
  unfolding storePending_def using tickets.peek_issue[OF pending_text_nonempty] by simp

text \<open>An approval or a cancellation is decided only on a live token.\<close>

lemma decide_acts:
  assumes "decide_click ws now c s = Approve token bt p who \<or> decide_click ws now c s = Cancel token bt p who"
  shows "ck_value c = Some token \<and> (\<exists>raw v. peek_ticket APPROVAL_PREFIX token now s = Some raw
     \<and> json_parse raw = Some v \<and> p = pending_of v)"
  using assms
  by (auto simp: decide_click_def judge_click_def refuse_def
      split: if_splits option.splits list.splits)

lemma decide_approve:
  assumes "decide_click ws now c s = Approve token bt p who"
  shows "ck_actionId c = Some APPROVE_ACTION_ID"
    and "(case ck_userId c of Some u \<Rightarrow> u | None \<Rightarrow> []) = pg_requesterSlackId p"
  using assms
  by (auto simp: decide_click_def judge_click_def refuse_def APPROVE_ACTION_ID_def CANCEL_ACTION_ID_def
      split: if_splits option.splits list.splits)

section \<open>Handling clicks one after the other\<close>

text \<open>The token a decision executes.\<close>

fun executed_token :: "decision \<Rightarrow> string list" where
  "executed_token (Approve token bt p who) = [token]"
| "executed_token _ = []"

fun run_clicks ::
  "workspace list \<Rightarrow> meta_oauth \<Rightarrow> graph_api \<Rightarrow> (time \<times> click) list \<Rightarrow> approval_state \<Rightarrow> string list \<times> approval_state" where
  "run_clicks ws mo graph [] st = ([], st)"
| "run_clicks ws mo graph ((now, c) # cs) st =
     (let (ts, st') = run_clicks ws mo graph cs (handleInteraction ws mo graph now c st)
      in (executed_token (decide_click ws now c (av_kv st)) @ ts, st'))"

lemma finish_kv:
  "av_kv (finish_click mo graph now d st) = (case d of
      Cancel token bt p who \<Rightarrow> drop_ticket APPROVAL_PREFIX token (av_kv st)
    | Approve token bt p who \<Rightarrow> drop_ticket APPROVAL_PREFIX token (av_kv st)
    | _ \<Rightarrow> av_kv st)"
  by (cases d) (simp_all add: finish_click_def split_beta)

abbreviation token_settled :: "string \<Rightarrow> kv \<Rightarrow> bool" where
  "token_settled \<equiv> tickets.gone APPROVAL_PREFIX"

lemma settled_drop: "token_settled t (drop_ticket APPROVAL_PREFIX t s)"
  by (simp add: tickets.gone_def tickets.peek_consume)

lemma settled_drop_other: "token_settled t s \<Longrightarrow> token_settled t (drop_ticket APPROVAL_PREFIX u s)"
  by (cases "t = u") (simp_all add: tickets.gone_def tickets.peek_consume tickets.peek_consume_other)

lemma settled_handle: "token_settled t (av_kv st) \<Longrightarrow> token_settled t (av_kv (handleInteraction ws mo graph now c st))"
  by (auto simp: handleInteraction_def finish_kv settled_drop_other split: decision.split)

lemma settled_not_executed: "token_settled t s \<Longrightarrow> t \<notin> set (executed_token (decide_click ws now c s))"
  by (cases "decide_click ws now c s") (auto simp: tickets.gone_def dest!: decide_acts[OF disjI1])

lemma executed_settles:
  "t \<in> set (executed_token (decide_click ws now c (av_kv st))) \<Longrightarrow>
     token_settled t (av_kv (handleInteraction ws mo graph now c st))"
  by (cases "decide_click ws now c (av_kv st)") (auto simp: handleInteraction_def finish_kv settled_drop)

lemma settled_run: "token_settled t (av_kv st) \<Longrightarrow> t \<notin> set (fst (run_clicks ws mo graph cs st))"
proof (induction ws mo graph cs st rule: run_clicks.induct)
  case (2 ws mo graph now c cs st)
  then show ?case
    using settled_handle[OF 2(2)] settled_not_executed[OF 2(2)] by (auto simp: split_beta)
qed simp

section \<open>The contract\<close>

text \<open>
  What the service promises, without Redis or JSON: the open approvals over time, and a click on
  one of them.  The first component of the answer is the change to execute.
\<close>

type_synonym approvals = "string \<Rightarrow> time \<Rightarrow> pending_approval option"

definition approvals_abs :: "kv \<Rightarrow> approvals" where
  "approvals_abs s = (\<lambda>token now. case peek_ticket APPROVAL_PREFIX token now s of None \<Rightarrow> None
     | Some raw \<Rightarrow> map_option pending_of (json_parse raw))"

definition team_reachable :: "workspace list \<Rightarrow> pending_approval \<Rightarrow> bool" where
  "team_reachable ws p = (case findBySlackTeamId ws (pg_teamId p) of None \<Rightarrow> False
     | Some w \<Rightarrow> w_slackBotToken w \<notin> {None, Some []})"

definition by_requester :: "click \<Rightarrow> pending_approval \<Rightarrow> bool" where
  "by_requester c p \<longleftrightarrow> (case ck_userId c of Some u \<Rightarrow> u | None \<Rightarrow> []) = pg_requesterSlackId p"

definition spec_click :: "workspace list \<Rightarrow> time \<Rightarrow> click \<Rightarrow> approvals \<Rightarrow> pending_approval option \<times> approvals" where
  "spec_click ws now c A =
    (case ck_value c of None \<Rightarrow> (None, A)
     | Some token \<Rightarrow> (case A token now of None \<Rightarrow> (None, A)
        | Some p \<Rightarrow>
           if token = [] \<or> ck_type c \<noteq> Some ''block_actions'' \<or> \<not> team_reachable ws p then (None, A)
           else if ck_actionId c = Some CANCEL_ACTION_ID then (None, A(token := \<lambda>_. None))
           else if ck_actionId c = Some APPROVE_ACTION_ID \<and> by_requester c p
           then (Some p, A(token := \<lambda>_. None)) else (None, A)))"

lemma abs_drop: "approvals_abs (drop_ticket APPROVAL_PREFIX token s) = (approvals_abs s)(token := \<lambda>_. None)"
  by (auto simp: approvals_abs_def fun_eq_iff tickets.peek_consume tickets.peek_consume_other)

lemma abs_store:
  "storable p \<Longrightarrow> approvals_abs (storePending token p t0 s) =
     (approvals_abs s)(token := \<lambda>now. if now < t0 + 900 * 1000 then Some p else None)"
  unfolding approvals_abs_def storePending_def
  by (auto simp: fun_eq_iff tickets.peek_issue[OF pending_text_nonempty] tickets.peek_issue_other
      parse_pending storable_roundtrip APPROVAL_TTL_SECONDS_def split: option.split)

text \<open>The decision in terms of the open approvals.\<close>

lemma action_ids [simp]: "CANCEL_ACTION_ID \<noteq> []" "APPROVE_ACTION_ID \<noteq> []" "APPROVE_ACTION_ID \<noteq> CANCEL_ACTION_ID"
  by (simp_all add: CANCEL_ACTION_ID_def APPROVE_ACTION_ID_def)

definition acts_on :: "decision \<Rightarrow> (bool \<times> pending_approval) option" where
  "acts_on d = (case d of Approve t bt p who \<Rightarrow> Some (True, p) | Cancel t bt p who \<Rightarrow> Some (False, p) | _ \<Rightarrow> None)"

lemma acts_on_simps [simp]:
  "acts_on Ignore = None" "acts_on (Refuse u t) = None" "acts_on (refuse c t) = None"
  "acts_on (Approve t bt p who) = Some (True, p)" "acts_on (Cancel t bt p who) = Some (False, p)"
  by (simp_all add: acts_on_def refuse_def split: option.split list.split)

lemma judge_acts:
  "acts_on (judge_click ws c a token p) =
     (if \<not> team_reachable ws p then None
      else if a = CANCEL_ACTION_ID then Some (False, p)
      else if a = APPROVE_ACTION_ID \<and> by_requester c p then Some (True, p) else None)"
  by (auto simp: judge_click_def team_reachable_def by_requester_def split: option.splits list.splits)

lemma spec_of_decision:
  "spec_click ws now c (approvals_abs s) =
     (case acts_on (decide_click ws now c s) of
        None \<Rightarrow> (None, approvals_abs s)
      | Some (approved, p) \<Rightarrow> (if approved then Some p else None, (approvals_abs s)(the (ck_value c) := \<lambda>_. None)))"
proof -
  consider "ck_type c \<noteq> Some ''block_actions''" | "ck_value c \<in> {None, Some []}" | "ck_actionId c \<in> {None, Some []}"
    | h t a k where "ck_type c = Some ''block_actions''" "ck_value c = Some (h # t)" "ck_actionId c = Some (a # k)"
    by (cases "ck_value c"; cases "ck_actionId c"; auto) (metis list.exhaust)
  then show ?thesis
  proof cases
    case (4 h t a k)
    show ?thesis
    proof (cases "peek_ticket APPROVAL_PREFIX (h # t) now s")
      case None
      with 4 show ?thesis by (simp add: spec_click_def decide_click_def approvals_abs_def)
    next
      case (Some raw)
      show ?thesis
      proof (cases "json_parse raw")
        case None
        with 4 Some show ?thesis by (simp add: spec_click_def decide_click_def approvals_abs_def)
      next
        case (Some v)
        with 4 \<open>peek_ticket APPROVAL_PREFIX (h # t) now s = Some raw\<close>
        have "approvals_abs s (h # t) now = Some (pending_of v)"
          "decide_click ws now c s = judge_click ws c (a # k) (h # t) (pending_of v)"
          by (simp_all add: decide_click_def approvals_abs_def)
        with 4 show ?thesis by (simp add: spec_click_def judge_acts)
      qed
    qed
  next
    case 1
    then have "decide_click ws now c s = Ignore" by (simp add: decide_click_def)
    with 1 show ?thesis by (simp add: spec_click_def split: option.split)
  next
    case 2
    then have "decide_click ws now c s = Ignore" by (auto simp: decide_click_def)
    with 2 show ?thesis by (auto simp: spec_click_def split: option.split)
  next
    case 3
    then have "decide_click ws now c s = Ignore"
      by (auto simp: decide_click_def split: option.split list.split)
    moreover from 3 have "ck_actionId c \<noteq> Some CANCEL_ACTION_ID" "ck_actionId c \<noteq> Some APPROVE_ACTION_ID"
      by (auto simp del: action_ids simp: CANCEL_ACTION_ID_def APPROVE_ACTION_ID_def)
    ultimately show ?thesis by (simp add: spec_click_def split: option.split)
  qed
qed

lemma finish_world:
  "av_world (finish_click mo graph now d st) = (case acts_on d of
      Some (True, p) \<Rightarrow> snd (executeMetaAdsAction mo graph now (pg_workspaceId p) (pg_requesterUserId p)
                          (pg_toolName p) (pg_input p) (av_world st))
    | _ \<Rightarrow> av_world st)"
  by (cases d) (simp_all add: finish_click_def split_beta)

lemma finish_abs:
  assumes "d = decide_click ws now c (av_kv st)"
  shows "approvals_abs (av_kv (finish_click mo graph now d st)) = (case acts_on d of None \<Rightarrow> approvals_abs (av_kv st)
     | Some _ \<Rightarrow> (approvals_abs (av_kv st))(the (ck_value c) := \<lambda>_. None))"
proof (cases d)
  case (Cancel t bt p who)
  with assms have "ck_value c = Some t" using decide_acts by metis
  with Cancel show ?thesis by (simp add: finish_kv abs_drop)
next
  case (Approve t bt p who)
  with assms have "ck_value c = Some t" using decide_acts by metis
  with Approve show ?thesis by (simp add: finish_kv abs_drop)
qed (simp_all add: finish_kv)

section \<open>Clicks that interleave\<close>

text \<open>
  The clicks in flight are decided but not yet acted on.  The webhook does not wait for one
  handler before it starts the next.
\<close>

type_synonym in_flight = "(time \<times> decision) list"

inductive approval_step ::
  "workspace list \<Rightarrow> meta_oauth \<Rightarrow> graph_api \<Rightarrow> in_flight \<times> approval_state \<Rightarrow> in_flight \<times> approval_state \<Rightarrow> bool"
  for ws mo graph where
  Read: "approval_step ws mo graph (q, st) (q @ [(now, decide_click ws now c (av_kv st))], st)"
| Act: "approval_step ws mo graph ((now, d) # q, st) (q, finish_click mo graph now d st)"

inductive_cases approval_stepE: "approval_step ws mo graph s s'"

section \<open>Properties\<close>

text \<open>C13: The approval service implements its contract (\<open>spec_click\<close>), clicks being handled one after the other:
  storing a change whose tool input survives JSON (objects, texts, booleans and whole numbers below 2^53, which is
  \<open>storable\<close>) opens it under its token for 900 seconds; as long as the workspace of its Slack team still has a bot
  token (\<open>team_reachable\<close>), a click on Cancel by anyone, or on Approve by the member who asked, closes it, and
  exactly that approval executes it, as that member and with the stored tool and input; every other click, and
  every click of a team without a bot token, leaves both the open approvals and the ad account alone.\<close>

theorem approvals_refine_contract:
  assumes "spec_click ws now c (approvals_abs (av_kv st)) = (executed, A)"
  shows "approvals_abs (av_kv (handleInteraction ws mo graph now c st)) = A
    \<and> av_world (handleInteraction ws mo graph now c st) = (case executed of None \<Rightarrow> av_world st
        | Some p \<Rightarrow> snd (executeMetaAdsAction mo graph now (pg_workspaceId p) (pg_requesterUserId p)
                      (pg_toolName p) (pg_input p) (av_world st)))
    \<and> (storable p \<longrightarrow> approvals_abs (storePending token p t0 s) =
         (approvals_abs s)(token := \<lambda>now. if now < t0 + 900 * 1000 then Some p else None))"
proof -
  note a = assms[unfolded spec_of_decision]
  have "approvals_abs (av_kv (handleInteraction ws mo graph now c st)) = A"
    using a unfolding handleInteraction_def finish_abs[OF refl] by (auto split: option.splits prod.splits)
  moreover have "av_world (handleInteraction ws mo graph now c st) = (case executed of None \<Rightarrow> av_world st
        | Some p \<Rightarrow> snd (executeMetaAdsAction mo graph now (pg_workspaceId p) (pg_requesterUserId p)
                      (pg_toolName p) (pg_input p) (av_world st)))"
    using a unfolding handleInteraction_def finish_world by (auto split: option.splits prod.splits bool.splits if_splits)
  ultimately show ?thesis using abs_store by blast
qed

definition sample_pending :: pending_approval where
  "sample_pending = \<lparr>pg_workspaceId = ''w1'', pg_requesterUserId = Some ''b'', pg_requesterSlackId = ''U2'',
     pg_requesterName = ''Bea'', pg_teamId = ''T1'', pg_channel = ''C1'', pg_threadTs = None, pg_messageTs = ''1.2'',
     pg_toolName = ''meta_ads_delete_ad'', pg_input = JObj [(''ad_id'', JStr ''77'')], pg_label = ''Delete ad'',
     pg_answer = ''I will delete ad 77.''\<rparr>"

definition sample_approvals :: approval_state where
  "sample_approvals = \<lparr>av_kv = storePending ''tok'' sample_pending 0 empty_kv, av_world = sample_world, av_out = []\<rparr>"

definition sample_click :: "string \<Rightarrow> string \<Rightarrow> click" where
  "sample_click actionId user = \<lparr>ck_type = Some ''block_actions'', ck_actionId = Some actionId, ck_value = Some ''tok'',
     ck_userId = Some user, ck_userName = None, ck_username = Some user, ck_responseUrl = Some ''https://r''\<rparr>"

lemma storable_sample: "storable sample_pending"
  by (simp add: storable_def sample_pending_def)

lemma sample_open: "approvals_abs (av_kv sample_approvals) ''tok'' 5000 = Some sample_pending"
  by (simp add: sample_approvals_def abs_store[OF storable_sample])

lemma sample_reachable: "team_reachable [sample_workspace] sample_pending"
  by (simp add: team_reachable_def sample_pending_def sample_workspace_def findBySlackTeamId_def)

lemma approvals_refine_contract_witness:
  "approvals_abs (av_kv (handleInteraction [sample_workspace] (sample_oauth True ''t'' ''1'') sample_graph 5000 (sample_click ''gomer_approve'' ''U2'') sample_approvals)) ''tok'' 6000 = None"
proof -
  have "spec_click [sample_workspace] 5000 (sample_click ''gomer_approve'' ''U2'') (approvals_abs (av_kv sample_approvals)) =
      (Some sample_pending, (approvals_abs (av_kv sample_approvals))(''tok'' := \<lambda>_. None))"
    using sample_open sample_reachable
    by (simp add: spec_click_def sample_click_def by_requester_def CANCEL_ACTION_ID_def APPROVE_ACTION_ID_def)
      (simp add: sample_pending_def)
  from approvals_refine_contract[OF this, of "sample_oauth True ''t'' ''1''" sample_graph] show ?thesis by simp
qed

text \<open>Handled one after the other, clicks execute each approval at most once, whoever clicks, how
  often and when; and only the member who asked, clicking Approve while the approval is live, ever
  has it executed.\<close>

theorem approval_executes_once:
  "distinct (fst (run_clicks ws mo graph cs st))
   \<and> (t \<in> set (executed_token (decide_click ws now c s)) \<longrightarrow>
        ck_actionId c = Some APPROVE_ACTION_ID
        \<and> (\<exists>p. approvals_abs s t now = Some p \<and> by_requester c p))"
proof
  show "distinct (fst (run_clicks ws mo graph cs st))"
  proof (induction ws mo graph cs st rule: run_clicks.induct)
    case (2 ws mo graph now c cs st)
    have "t \<notin> set (fst (run_clicks ws mo graph cs (handleInteraction ws mo graph now c st)))"
      if "t \<in> set (executed_token (decide_click ws now c (av_kv st)))" for t
      by (rule settled_run[OF executed_settles[OF that]])
    moreover have "distinct (executed_token (decide_click ws now c (av_kv st)))"
      by (cases "decide_click ws now c (av_kv st)") simp_all
    ultimately show ?case using 2 by (auto simp: split_beta)
  qed simp
  show "t \<in> set (executed_token (decide_click ws now c s)) \<longrightarrow>
        ck_actionId c = Some APPROVE_ACTION_ID \<and> (\<exists>p. approvals_abs s t now = Some p \<and> by_requester c p)"
  proof
    assume "t \<in> set (executed_token (decide_click ws now c s))"
    then obtain bt p who where d: "decide_click ws now c s = Approve t bt p who"
      by (cases "decide_click ws now c s") auto
    obtain raw v where "peek_ticket APPROVAL_PREFIX t now s = Some raw" "json_parse raw = Some v" "p = pending_of v"
      using decide_acts d by blast
    then have "approvals_abs s t now = Some p" by (simp add: approvals_abs_def)
    with decide_approve[OF d] show "ck_actionId c = Some APPROVE_ACTION_ID
        \<and> (\<exists>p. approvals_abs s t now = Some p \<and> by_requester c p)" by (auto simp: by_requester_def)
  qed
qed

lemma approval_executes_once_witness:
  "ck_actionId (sample_click ''gomer_approve'' ''U2'') = Some APPROVE_ACTION_ID
   \<and> (\<exists>p. approvals_abs (av_kv sample_approvals) ''tok'' 5000 = Some p \<and> by_requester (sample_click ''gomer_approve'' ''U2'') p)"
proof -
  have d: "acts_on (decide_click [sample_workspace] 5000 (sample_click ''gomer_approve'' ''U2'') (av_kv sample_approvals)) = Some (True, sample_pending)"
  proof -
    have "peek_ticket APPROVAL_PREFIX ''tok'' 5000 (av_kv sample_approvals) = Some (stringify (pending_json sample_pending))"
      using peek_stored[OF storable_sample] by (simp add: sample_approvals_def APPROVAL_TTL_SECONDS_def)
    then show ?thesis using sample_reachable
      by (simp add: decide_click_def sample_click_def parse_pending storable_sample storable_roundtrip judge_acts
          by_requester_def APPROVE_ACTION_ID_def CANCEL_ACTION_ID_def) (simp add: sample_pending_def)
  qed
  then obtain t bt who where e: "decide_click [sample_workspace] 5000 (sample_click ''gomer_approve'' ''U2'') (av_kv sample_approvals)
      = Approve t bt sample_pending who"
    by (auto simp: acts_on_def split: decision.splits)
  with decide_acts[OF disjI1[OF e]] have "t = ''tok''" by (simp add: sample_click_def)
  with approval_executes_once[of "[sample_workspace]" _ _ _ _ "''tok''" 5000 "sample_click ''gomer_approve'' ''U2''" "av_kv sample_approvals"] e
  show ?thesis by simp
qed

text \<open>Two clicks at once execute twice: when the member who asked clicks Approve twice and the
  second click is read before the first has deleted the token, both go through and the change is
  sent to Meta twice; deleting the token first does not prevent this, since nobody looks at
  whether the deletion found it.\<close>

theorem double_click_executes_twice:
  assumes "decide_click ws now c (av_kv st) = Approve token bt p who"
    and "getMetaAccessToken mo now (pg_workspaceId p) (pg_requesterUserId p) (mw_rows (av_world st)) = (Some t, mw_rows (av_world st))"
    and "tool_request t (pg_toolName p) (pg_input p) = Inr r"
  shows "\<exists>st'. (approval_step ws mo graph)\<^sup>*\<^sup>* ([], st) ([], st')
    \<and> mw_sent (av_world st') = mw_sent (av_world st) @ [r, r]"
proof -
  let ?d = "decide_click ws now c (av_kv st)"
  let ?s1 = "finish_click mo graph now ?d st"
  let ?s2 = "finish_click mo graph now ?d ?s1"
  have one: "mw_sent (av_world (finish_click mo graph now ?d s)) = mw_sent (av_world s) @ [r]
      \<and> mw_rows (av_world (finish_click mo graph now ?d s)) = mw_rows (av_world s)"
    if "mw_rows (av_world s) = mw_rows (av_world st)" for s
    using assms that
    by (auto simp: finish_click_def executeMetaAdsAction_def dispatchMetaAdsTool_def meta_send_def split_beta
        split: sum.split)
  have steps: "approval_step ws mo graph ([], st) ([] @ [(now, ?d)], st)"
    "approval_step ws mo graph ([(now, ?d)], st) ([(now, ?d)] @ [(now, ?d)], st)"
    "approval_step ws mo graph ((now, ?d) # [(now, ?d)], st) ([(now, ?d)], ?s1)"
    "approval_step ws mo graph ((now, ?d) # [], ?s1) ([], ?s2)"
    by (rule Read Act)+
  then have "(approval_step ws mo graph)\<^sup>*\<^sup>* ([], st) ([], ?s2)"
    by (simp add: converse_rtranclp_into_rtranclp)
  moreover have "mw_sent (av_world ?s2) = mw_sent (av_world st) @ [r, r]"
    using one[OF refl] one[of ?s1] by simp
  ultimately show ?thesis by blast
qed

text \<open>The member's click at time 0, the token it executes with, and the request it leads to.\<close>

lemma sample_decision:
  "decide_click [sample_workspace] 0 (sample_click ''gomer_approve'' ''U2'') (av_kv sample_approvals) = Approve ''tok'' ''xoxb'' sample_pending ''U2''"
proof -
  have peek: "peek_ticket APPROVAL_PREFIX ''tok'' 0 (av_kv sample_approvals) = Some (stringify (pending_json sample_pending))"
    using peek_stored[OF storable_sample] by (simp add: sample_approvals_def APPROVAL_TTL_SECONDS_def)
  show ?thesis
    by (simp add: decide_click_def sample_click_def peek parse_pending storable_sample storable_roundtrip judge_click_def
        APPROVE_ACTION_ID_def CANCEL_ACTION_ID_def clicker_name_def)
      (simp add: sample_pending_def findBySlackTeamId_def sample_workspace_def clicker_name_def APPROVE_ACTION_ID_def CANCEL_ACTION_ID_def)
qed

lemma sample_approval_token:
  "getMetaAccessToken (sample_oauth True ''t'' ''1'') 0 (pg_workspaceId sample_pending) (pg_requesterUserId sample_pending) sample_integrations
   = (Some ''token-i2'', sample_integrations)"
  by (simp add: getMetaAccessToken_def visibleMetaIntegrations_def sample_integrations_def sample_integration_def
      visible_to_def ensureFreshMetaToken_def isExpired_def EXPIRY_SKEW_MS_def sample_pending_def)

lemma sample_deletion: "tool_request ''token-i2'' (pg_toolName sample_pending) (pg_input sample_pending) = Inr (deleteAd ''token-i2'' ''77'')"
  by (simp add: tool_request_def sample_pending_def arg_str_def)

lemma double_click_executes_twice_witness:
  "\<exists>st'. (approval_step [sample_workspace] (sample_oauth True ''t'' ''1'') sample_graph)\<^sup>*\<^sup>* ([], sample_approvals) ([], st')
    \<and> mw_sent (av_world st') = [deleteAd ''token-i2'' ''77'', deleteAd ''token-i2'' ''77'']"
proof -
  have g: "getMetaAccessToken (sample_oauth True ''t'' ''1'') 0 (pg_workspaceId sample_pending) (pg_requesterUserId sample_pending)
      (mw_rows (av_world sample_approvals)) = (Some ''token-i2'', mw_rows (av_world sample_approvals))"
    using sample_approval_token by (simp add: sample_approvals_def sample_world_def)
  from double_click_executes_twice[OF sample_decision g sample_deletion, of sample_graph] show ?thesis
    by (simp add: sample_approvals_def sample_world_def)
qed

end
