(* ===== verification/JsDate.thy ===== *)
theory JsDate
  imports JsValue JsString
begin

text \<open>
  \<open>Date\<close> as far as the services use it: \<open>toISOString().slice(0, 10)\<close> of a time, and the time of
  \<open>new Date(`${day}T..Z`)\<close> for a \<open>YYYY-MM-DD\<close> text.  Days count from 1970-01-01 in the
  proleptic Gregorian calendar, whose cycle of 400 years has 146097 days; years start in March
  here, so that the leap day is the last one.
\<close>

definition ms_per_day :: int where
  "ms_per_day = 86400000"

text \<open>Year, month and day of a day number.\<close>

definition civil :: "int \<Rightarrow> int \<times> int \<times> int" where
  "civil n = (let z = n + 719468; era = z div 146097; doe = z mod 146097;
       yoe = (doe - doe div 1460 + doe div 36524 - doe div 146096) div 365;
       doy = doe - (365 * yoe + yoe div 4 - yoe div 100);
       mp = (5 * doy + 2) div 153; d = doy - (153 * mp + 2) div 5 + 1;
       m = (if mp < 10 then mp + 3 else mp - 9)
     in (yoe + era * 400 + (if m \<le> 2 then 1 else 0), m, d))"

definition day_number :: "int \<Rightarrow> int \<Rightarrow> int \<Rightarrow> int" where
  "day_number y m d = (let y' = (if m \<le> 2 then y - 1 else y); era = y' div 400; yoe = y' mod 400;
       doy = (153 * (if 2 < m then m - 3 else m + 9) + 2) div 5 + d - 1
     in era * 146097 + yoe * 365 + yoe div 4 - yoe div 100 + doy - 719468)"

text \<open>
  Years outside 0 to 9999 print with a sign and six digits, which the slice then cuts.  A time more
  than 100,000,000 days from the epoch is no date: \<open>toISOString\<close> throws.
\<close>

definition year_text :: "int \<Rightarrow> string" where
  "year_text y = (if 0 \<le> y \<and> y \<le> 9999 then pad0 4 (show_int y)
     else (if y < 0 then ''-'' else ''+'') @ pad0 6 (show_int \<bar>y\<bar>))"

definition iso_date :: "time \<Rightarrow> string" where
  "iso_date t = (let (y, m, d) = civil (t div ms_per_day) in
     take 10 (year_text y @ ''-'' @ pad0 2 (show_int m) @ ''-'' @ pad0 2 (show_int d)))"

definition valid_date :: "time \<Rightarrow> bool" where
  "valid_date t \<longleftrightarrow> \<bar>t\<bar> \<le> 100000000 * ms_per_day"

text \<open>A day's time in milliseconds at midnight UTC, or \<open>None\<close> for an invalid date.\<close>

definition parse_day :: "string \<Rightarrow> time option" where
  "parse_day s = (case split_on (CHR ''-'') s of
      [y, m, d] \<Rightarrow>
        if length y = 4 \<and> length m = 2 \<and> length d = 2 \<and> list_all is_digit (y @ m @ d)
        then let m' = int (nat_of_digits m); d' = int (nat_of_digits d) in
             if 1 \<le> m' \<and> m' \<le> 12 \<and> 1 \<le> d' \<and> d' \<le> 31
             then Some (ms_per_day * day_number (int (nat_of_digits y)) m' d') else None
        else None
    | _ \<Rightarrow> None)"

lemma calendar_samples:
  "civil 0 = (1970, 1, 1)" "civil 11016 = (2000, 2, 29)" "civil 19782 = (2024, 2, 29)" "civil 20453 = (2025, 12, 31)"
  "day_number 2000 2 29 = 11016" "day_number 2024 2 29 = 19782" "day_number 1900 3 1 = -25508"
  by code_simp+

end
