(* ===== verification/Roas.thy ===== *)
theory Roas
  imports MetaTools JsDate
begin

text \<open>
  \<open>src/src/integrations/stripe.service.ts\<close> (revenue of a window, paged and summed by currency) and
  \<open>src/src/integrations/roas.service.ts\<close> (ad spend against that revenue).  Stripe is the parameter
  \<open>stripe\<close>: its answer to the query of one page of charges.
\<close>

section \<open>Arithmetic on numbers that may be infinite\<close>

fun num_add :: "jsnum \<Rightarrow> jsnum \<Rightarrow> jsnum" where
  "num_add NaN _ = NaN"
| "num_add _ NaN = NaN"
| "num_add (Fin a) (Fin b) = Fin (fl (a + b))"
| "num_add PInf NInf = NaN"
| "num_add NInf PInf = NaN"
| "num_add PInf _ = PInf"
| "num_add _ PInf = PInf"
| "num_add NInf _ = NInf"
| "num_add _ NInf = NInf"

fun num_map :: "(rat \<Rightarrow> rat) \<Rightarrow> jsnum \<Rightarrow> jsnum" where
  "num_map f (Fin x) = Fin (f x)"
| "num_map f n = n"

text \<open>\<open>x / y\<close> for a finite \<open>x\<close> and a positive \<open>y\<close>; the reverse for a positive finite \<open>y\<close>.\<close>

fun over_positive :: "rat \<Rightarrow> jsnum \<Rightarrow> rat" where
  "over_positive x (Fin y) = fl (x / y)"
| "over_positive x _ = 0"

text \<open>\<open>Math.round(x * scale) / scale\<close>.\<close>

definition round_to :: "rat \<Rightarrow> rat \<Rightarrow> rat" where
  "round_to scale x = fl (of_int (math_round (fl (x * scale))) / scale)"

section \<open>Stripe revenue\<close>

definition MAX_PAGES :: nat where
  "MAX_PAGES = 10"

definition PAGE_LIMIT :: nat where
  "PAGE_LIMIT = 100"

definition ZERO_DECIMAL :: "string list" where
  "ZERO_DECIMAL = [''bif'', ''clp'', ''djf'', ''gnf'', ''jpy'', ''kmf'', ''krw'', ''mga'', ''pyg'', ''rwf'', ''ugx'',
     ''vnd'', ''vuv'', ''xaf'', ''xof'', ''xpf'']"

text \<open>A charge of Stripe's list; amounts are integers in minor units.\<close>

record stripe_charge =
  sc_id :: string
  sc_amount :: int
  sc_amount_refunded :: int
  sc_currency :: string
  sc_status :: string
  sc_paid :: bool
  sc_customer :: "string option"

definition int_of_num :: "jsval \<Rightarrow> int" where
  "int_of_num v = (case v of JNum (Fin x) \<Rightarrow> \<lfloor>x\<rfloor> | _ \<Rightarrow> 0)"

definition charge_of :: "jsval \<Rightarrow> stripe_charge" where
  "charge_of v = \<lparr>sc_id = str_of (get_prop v ''id''), sc_amount = int_of_num (get_prop v ''amount''),
     sc_amount_refunded = int_of_num (get_prop v ''amount_refunded''),
     sc_currency = str_of (get_prop v ''currency''), sc_status = str_of (get_prop v ''status''),
     sc_paid = truthy (get_prop v ''paid''), sc_customer = opt_str (get_prop v ''customer'')\<rparr>"

record revenue_entry =
  rv_gross :: int
  rv_refunded :: int
  rv_charges :: nat
  rv_customers :: "string list"

type_synonym revenue_totals = "(string \<times> revenue_entry) list"

definition empty_entry :: revenue_entry where
  "empty_entry = \<lparr>rv_gross = 0, rv_refunded = 0, rv_charges = 0, rv_customers = []\<rparr>"

definition counted :: "stripe_charge \<Rightarrow> bool" where
  "counted c \<longleftrightarrow> sc_status c = ''succeeded'' \<and> sc_paid c"

definition add_customer :: "string option \<Rightarrow> string list \<Rightarrow> string list" where
  "add_customer c cs = (case c of Some (h # t) \<Rightarrow> if (h # t) \<in> set cs then cs else cs @ [h # t] | _ \<Rightarrow> cs)"

definition add_to_entry :: "stripe_charge \<Rightarrow> revenue_entry \<Rightarrow> revenue_entry" where
  "add_to_entry c e = \<lparr>rv_gross = rv_gross e + sc_amount c, rv_refunded = rv_refunded e + sc_amount_refunded c,
     rv_charges = rv_charges e + 1, rv_customers = add_customer (sc_customer c) (rv_customers e)\<rparr>"

definition add_charge :: "stripe_charge \<Rightarrow> revenue_totals \<Rightarrow> revenue_totals" where
  "add_charge c totals =
    (if \<not> counted c then totals
     else let k = to_lower (sc_currency c);
              e = (case map_of totals k of Some e \<Rightarrow> e | None \<Rightarrow> empty_entry)
          in aput k (add_to_entry c e) totals)"

type_synonym stripe_api = "string \<Rightarrow> (string \<times> string) list \<Rightarrow> fetch_reply"

text \<open>The query of one page; times are in seconds.\<close>

definition charges_query :: "time \<Rightarrow> time \<Rightarrow> string option \<Rightarrow> (string \<times> string) list" where
  "charges_query since until after =
     [(''limit'', show_nat PAGE_LIMIT), (''created[gte]'', show_int (since div 1000)),
      (''created[lte]'', show_int (until div 1000))]
     @ (case after of Some (h # t) \<Rightarrow> [(''starting_after'', h # t)] | _ \<Rightarrow> [])"

definition stripe_get :: "stripe_api \<Rightarrow> string \<Rightarrow> (string \<times> string) list \<Rightarrow> jsval result" where
  "stripe_get stripe key query = (case stripe key query of
     Throws m \<Rightarrow> Inl (PlainError m)
   | Reply ok status json \<Rightarrow>
      (let body = (case json of None \<Rightarrow> JObj [] | Some v \<Rightarrow> v); error = get_prop body ''error'' in
       if body = JNull then Inl (PlainError ''Cannot read properties of null (reading error)'')
       else if \<not> ok \<or> truthy error
       then Inl (PlainError (nullish_or (get_prop error ''message'')
              (''Stripe API error (HTTP '' @ show_nat status @ '')'')))
       else Inr body))"

text \<open>
  The pages from one cursor on; \<open>n\<close> is the number of pages that may still be fetched.  The second
  component is \<open>truncated\<close>.
\<close>

fun revenue_pages ::
  "stripe_api \<Rightarrow> string \<Rightarrow> time \<Rightarrow> time \<Rightarrow> nat \<Rightarrow> string option \<Rightarrow> revenue_totals \<Rightarrow> (revenue_totals \<times> bool) result" where
  "revenue_pages stripe key since until 0 after totals = Inr (totals, False)"
| "revenue_pages stripe key since until (Suc n) after totals =
     (case stripe_get stripe key (charges_query since until after) of
        Inl e \<Rightarrow> Inl e
      | Inr body \<Rightarrow>
         (case arr_of (get_prop body ''data'') of
            None \<Rightarrow> Inl (PlainError ''body.data is not iterable'')
          | Some data \<Rightarrow>
             (let charges = map charge_of data; totals' = fold add_charge charges totals in
              if \<not> truthy (get_prop body ''has_more'') \<or> charges = [] then Inr (totals', False)
              else if n = 0 then Inr (totals', True)
              else revenue_pages stripe key since until n (Some (sc_id (last charges))) totals')))"

definition toMajor :: "int \<Rightarrow> string \<Rightarrow> rat" where
  "toMajor amount currency = (if currency \<in> set ZERO_DECIMAL then of_int amount else fl (of_int amount / 100))"

record currency_revenue =
  cv_currency :: string
  cv_grossRevenue :: rat
  cv_refunded :: rat
  cv_netRevenue :: rat
  cv_charges :: nat
  cv_uniqueCustomers :: nat

definition currency_revenue_of :: "string \<times> revenue_entry \<Rightarrow> currency_revenue" where
  "currency_revenue_of ke = (case ke of (k, e) \<Rightarrow> \<lparr>cv_currency = k, cv_grossRevenue = toMajor (rv_gross e) k,
     cv_refunded = toMajor (rv_refunded e) k, cv_netRevenue = toMajor (rv_gross e - rv_refunded e) k,
     cv_charges = rv_charges e, cv_uniqueCustomers = length (rv_customers e)\<rparr>)"

definition getRevenue ::
  "stripe_api \<Rightarrow> string \<Rightarrow> time \<Rightarrow> time \<Rightarrow> (currency_revenue list \<times> bool) result" where
  "getRevenue stripe key since until = (case revenue_pages stripe key since until MAX_PAGES None [] of
     Inl e \<Rightarrow> Inl e
   | Inr (totals, truncated) \<Rightarrow> Inr (map currency_revenue_of totals, truncated))"

section \<open>Verification\<close>

record verify_params =
  vp_adAccountId :: string
  vp_since :: string
  vp_until :: string
  vp_currency :: "string option"

record verified_roas =
  vr_adAccountId :: string
  vr_since :: string
  vr_until :: string
  vr_metaSpend :: jsnum
  vr_spendCurrency :: "string option"
  vr_stripeNetRevenue :: rat
  vr_revenueCurrency :: "string option"
  vr_verifiedRoas :: "rat option"
  vr_purchases :: nat
  vr_uniqueCustomers :: nat
  vr_verifiedCpa :: "jsnum option"
  vr_otherCurrencies :: "(string \<times> rat \<times> nat) list"
  vr_caveats :: "string list"

record roas_snapshot =
  rs_id :: uuid
  rs_workspaceId :: uuid
  rs_adAccountId :: string
  rs_sinceDate :: string
  rs_untilDate :: string
  rs_metaSpend :: string
  rs_spendCurrency :: "string option"
  rs_stripeRevenue :: string
  rs_revenueCurrency :: "string option"
  rs_roas :: "string option"
  rs_purchases :: nat
  rs_cpa :: "string option"
  rs_caveats :: "string list option"
  rs_createdByUserId :: "uuid option"
  rs_createdAt :: time

text \<open>\<open>Number(row.spend) || 0\<close>, and the first currency a row names.\<close>

definition row_spend :: "jsval \<Rightarrow> jsnum" where
  "row_spend row = (let n = to_number (get_prop row ''spend'') in if truthy (JNum n) then n else Fin 0)"

definition row_currency :: "jsval \<Rightarrow> bool" where
  "row_currency row = truthy (get_prop row ''account_currency'')"

definition spend_of :: "jsval list \<Rightarrow> jsnum" where
  "spend_of rows = foldl (\<lambda>sum row. num_add sum (row_spend row)) (Fin 0) rows"

definition spend_currency :: "jsval list \<Rightarrow> string option" where
  "spend_currency rows = map_option (\<lambda>row. to_string (get_prop row ''account_currency'')) (List.find row_currency rows)"

definition chosen_revenue :: "string option \<Rightarrow> string option \<Rightarrow> currency_revenue list \<Rightarrow> currency_revenue option" where
  "chosen_revenue wantedCurrency spendCurrency byCurrency =
    (let wanted = to_lower (case coalesce wantedCurrency spendCurrency of Some c \<Rightarrow> c | None \<Rightarrow> []) in
     coalesce (List.find (\<lambda>r. cv_currency r = wanted) byCurrency)
       (case byCurrency of [r] \<Rightarrow> Some r | _ \<Rightarrow> None))"

definition comparable_currencies :: "string option \<Rightarrow> string option \<Rightarrow> bool" where
  "comparable_currencies spendCurrency revenueCurrency = (case (spendCurrency, revenueCurrency) of
     (Some s, Some r) \<Rightarrow> to_lower s = r | _ \<Rightarrow> False)"

definition nonempty :: "string option \<Rightarrow> bool" where
  "nonempty s \<longleftrightarrow> s \<notin> {None, Some []}"

text \<open>The caveats in the order they are pushed.\<close>

definition roas_caveats ::
  "jsval list \<Rightarrow> bool \<Rightarrow> currency_revenue option \<Rightarrow> currency_revenue list \<Rightarrow> string option \<Rightarrow> string list" where
  "roas_caveats rows truncated chosen byCurrency spendCurrency =
    (let revenueCurrency = map_option cv_currency chosen in
       (if rows = [] then [''Meta returned no insight rows for this window (spend 0).''] else [])
     @ (if truncated then [''Stripe charge list was truncated; revenue is undercounted for this window.''] else [])
     @ (if chosen = None \<and> 1 < length byCurrency
        then [''Stripe revenue spans multiple currencies and none matched the request; no single ROAS was computed.''] else [])
     @ (if \<not> comparable_currencies spendCurrency revenueCurrency \<and> nonempty spendCurrency \<and> nonempty revenueCurrency
        then [''Spend is in '' @ the spendCurrency @ '' but revenue in '' @ to_upper (the revenueCurrency)
              @ ''; ROAS was not computed across currencies.''] else [])
     @ [''Revenue is ALL Stripe revenue in the window, not only ad-attributed purchases - treat this as blended ROAS/CPA.''])"

definition verified_roas_of ::
  "jsnum \<Rightarrow> string option \<Rightarrow> currency_revenue option \<Rightarrow> rat option" where
  "verified_roas_of spend spendCurrency chosen =
    (case chosen of None \<Rightarrow> None
     | Some r \<Rightarrow> if num_lt (Fin 0) spend \<and> comparable_currencies spendCurrency (Some (cv_currency r))
                then Some (round_to 10000 (over_positive (cv_netRevenue r) spend)) else None)"

definition verified_cpa_of :: "jsnum \<Rightarrow> nat \<Rightarrow> jsnum option" where
  "verified_cpa_of spend purchases =
     (if 0 < purchases then Some (num_map (\<lambda>s. round_to 100 (fl (s / of_nat purchases))) spend) else None)"

definition roas_result :: "verify_params \<Rightarrow> jsval list \<Rightarrow> currency_revenue list \<Rightarrow> bool \<Rightarrow> verified_roas" where
  "roas_result p rows byCurrency truncated =
    (let spend = spend_of rows; spendCurrency = spend_currency rows;
         chosen = chosen_revenue (vp_currency p) spendCurrency byCurrency;
         purchases = (case chosen of Some r \<Rightarrow> cv_charges r | None \<Rightarrow> 0)
     in \<lparr>vr_adAccountId = vp_adAccountId p, vr_since = vp_since p, vr_until = vp_until p,
         vr_metaSpend = num_map (round_to 100) spend, vr_spendCurrency = spendCurrency,
         vr_stripeNetRevenue = (case chosen of Some r \<Rightarrow> cv_netRevenue r | None \<Rightarrow> 0),
         vr_revenueCurrency = (case chosen of Some r \<Rightarrow> if cv_currency r = [] then None else Some (to_upper (cv_currency r)) | None \<Rightarrow> None),
         vr_verifiedRoas = verified_roas_of spend spendCurrency chosen, vr_purchases = purchases,
         vr_uniqueCustomers = (case chosen of Some r \<Rightarrow> cv_uniqueCustomers r | None \<Rightarrow> 0),
         vr_verifiedCpa = verified_cpa_of spend purchases,
         vr_otherCurrencies = map (\<lambda>r. (cv_currency r, cv_netRevenue r, cv_charges r))
           (filter (\<lambda>r. Some r \<noteq> chosen) byCurrency),
         vr_caveats = roas_caveats rows truncated chosen byCurrency spendCurrency\<rparr>)"

fun num_fixed :: "nat \<Rightarrow> jsnum \<Rightarrow> string" where
  "num_fixed f (Fin x) = to_fixed f x"
| "num_fixed f n = num_to_string n"

definition snapshot_of :: "uuid \<Rightarrow> time \<Rightarrow> uuid \<Rightarrow> uuid option \<Rightarrow> verified_roas \<Rightarrow> roas_snapshot" where
  "snapshot_of i now ws user r = \<lparr>rs_id = i, rs_workspaceId = ws, rs_adAccountId = vr_adAccountId r,
     rs_sinceDate = vr_since r, rs_untilDate = vr_until r, rs_metaSpend = num_fixed 2 (vr_metaSpend r),
     rs_spendCurrency = vr_spendCurrency r, rs_stripeRevenue = to_fixed 2 (vr_stripeNetRevenue r),
     rs_revenueCurrency = vr_revenueCurrency r, rs_roas = map_option (to_fixed 4) (vr_verifiedRoas r),
     rs_purchases = vr_purchases r, rs_cpa = map_option (num_fixed 2) (vr_verifiedCpa r),
     rs_caveats = (if vr_caveats r = [] then None else Some (vr_caveats r)), rs_createdByUserId = user,
     rs_createdAt = now\<rparr>"

text \<open>
  Saving a snapshot is best effort: \<open>saves\<close> says whether the database takes the row (an infinite
  amount, a date that is none or a text that is too long is refused).
\<close>

record ads_world =
  aw_meta :: meta_world
  aw_snapshots :: "roas_snapshot list"

definition persistSnapshot ::
  "(roas_snapshot \<Rightarrow> bool) \<Rightarrow> uuid \<Rightarrow> time \<Rightarrow> uuid \<Rightarrow> uuid option \<Rightarrow> verified_roas \<Rightarrow> ads_world \<Rightarrow> ads_world" where
  "persistSnapshot saves i now ws user r w =
    (let s = snapshot_of i now ws user r in
     if saves s then w\<lparr>aw_snapshots := aw_snapshots w @ [s]\<rparr> else w)"

definition listSnapshots :: "uuid \<Rightarrow> nat \<Rightarrow> roas_snapshot list \<Rightarrow> roas_snapshot list" where
  "listSnapshots ws limit rows = newest limit (\<lambda>s. rs_workspaceId s = ws) rows"

definition snapshotsSince :: "(uuid \<Rightarrow> nat) \<Rightarrow> uuid \<Rightarrow> time \<Rightarrow> nat \<Rightarrow> roas_snapshot list \<Rightarrow> roas_snapshot list" where
  "snapshotsSince micros ws since limit rows =
     take limit (filter (\<lambda>s. rs_workspaceId s = ws \<and> stored_after micros (rs_id s) (rs_createdAt s) since) rows)"

text \<open>
  What \<open>verify\<close> reads from outside: Meta's OAuth and Graph API, Pipedream's credentials, Stripe, and
  the rest of its context.
\<close>

record ads_env =
  ae_oauth :: meta_oauth
  ae_graph :: graph_api
  ae_credentials :: "string \<Rightarrow> jsval result"
  ae_users :: "user list"
  ae_stripe :: stripe_api
  ae_saves :: "roas_snapshot \<Rightarrow> bool"

definition roas_insights :: "verify_params \<Rightarrow> insights_params" where
  "roas_insights p = \<lparr>in_adAccountId = vp_adAccountId p, in_level = JStr ''account'', in_datePreset = JUndef,
     in_since = JStr (vp_since p), in_until = JStr (vp_until p), in_fields = [JStr ''spend'', JStr ''account_currency'']\<rparr>"

text \<open>Midnight and the last second of the window's days.\<close>

definition window_times :: "verify_params \<Rightarrow> (time \<times> time) option" where
  "window_times p = (case (parse_day (vp_since p), parse_day (vp_until p)) of
     (Some a, Some b) \<Rightarrow> Some (a, b + ms_per_day - 1000) | _ \<Rightarrow> None)"

text \<open>
  A window that is not two dates makes Stripe's query carry \<open>NaN\<close>, which its API refuses with
  the error \<open>Invalid integer\<close>.
\<close>

definition verify ::
  "ads_env \<Rightarrow> uuid \<Rightarrow> time \<Rightarrow> uuid \<Rightarrow> uuid option \<Rightarrow> verify_params \<Rightarrow> ads_world \<Rightarrow> verified_roas result \<times> ads_world" where
  "verify env i now ws user p w =
    (let (metaToken, rows') = getMetaAccessToken (ae_oauth env) now ws user (mw_rows (aw_meta w));
         stripeKey = getStripeApiKey (ae_credentials env) (ae_users env) ws user (mw_rows (aw_meta w));
         w1 = w\<lparr>aw_meta := (aw_meta w)\<lparr>mw_rows := rows'\<rparr>\<rparr>
     in case metaToken of None \<Rightarrow> (Inl (PlainError ''No active Meta Ads connection is available.''), w1)
      | Some token \<Rightarrow>
        (case stripeKey of None \<Rightarrow> (Inl (PlainError ''No active Stripe connection is available.''), w1)
         | Some key \<Rightarrow>
           (let (answer, sent) = meta_send (ae_graph env) (getInsights token (roas_insights p)) (mw_sent (aw_meta w1));
                w2 = w1\<lparr>aw_meta := (aw_meta w1)\<lparr>mw_sent := sent\<rparr>\<rparr>
            in case answer of Inl e \<Rightarrow> (Inl e, w2)
             | Inr insights \<Rightarrow>
               (case arr_of (get_prop insights ''data'') of
                  None \<Rightarrow> (Inl (PlainError ''Cannot read properties of undefined (reading reduce)''), w2)
                | Some rows \<Rightarrow>
                  (case window_times p of None \<Rightarrow> (Inl (PlainError ''Invalid integer: NaN''), w2)
                   | Some (since, until) \<Rightarrow>
                     (case getRevenue (ae_stripe env) key since until of
                        Inl e \<Rightarrow> (Inl e, w2)
                      | Inr (byCurrency, truncated) \<Rightarrow>
                         (let r = roas_result p rows byCurrency truncated
                          in (Inr r, persistSnapshot (ae_saves env) i now ws user r w2))))))))"

section \<open>Reading a whole window\<close>

text \<open>
  Stripe's contract for its paged list: after the \<open>k\<close> first charges of the window, asked with the
  id of the last one as cursor, it answers the next hundred and whether more follow.
\<close>

definition cursor_after :: "jsval list \<Rightarrow> nat \<Rightarrow> string option" where
  "cursor_after charges k = (if k = 0 then None else Some (sc_id (charge_of (charges ! (k - 1)))))"

definition charge_page :: "jsval list \<Rightarrow> nat \<Rightarrow> fetch_reply" where
  "charge_page charges k = Reply True 200 (Some (JObj [(''object'', JStr ''list''),
     (''data'', JArr (take PAGE_LIMIT (drop k charges))),
     (''has_more'', JBool (k + PAGE_LIMIT < length charges))]))"

definition pages_window :: "stripe_api \<Rightarrow> string \<Rightarrow> time \<Rightarrow> time \<Rightarrow> jsval list \<Rightarrow> bool" where
  "pages_window stripe key since until charges \<longleftrightarrow> (\<forall>k \<in> {..length charges}.
     stripe key (charges_query since until (cursor_after charges k)) = charge_page charges k)"

lemma stripe_get_page:
  "pages_window stripe key since until charges \<Longrightarrow> k \<le> length charges \<Longrightarrow>
   stripe_get stripe key (charges_query since until (cursor_after charges k)) =
     Inr (JObj [(''object'', JStr ''list''), (''data'', JArr (take PAGE_LIMIT (drop k charges))),
       (''has_more'', JBool (k + PAGE_LIMIT < length charges))])"
  by (simp add: pages_window_def stripe_get_def charge_page_def object_prototype_def)

lemma take_skip: "take m (drop k xs) @ take n (drop (k + m) xs) = take (m + n) (drop k xs)"
  by (simp add: take_add add.commute)

lemma fold_skip:
  "fold f (map g (take n (drop (k + m) xs))) (fold f (map g (take m (drop k xs))) s)
     = fold f (map g (take (m + n) (drop k xs))) s"
  by (simp add: take_skip [symmetric])

lemma cursor_next:
  assumes "k + PAGE_LIMIT < length charges"
  shows "Some (sc_id (last (map charge_of (take PAGE_LIMIT (drop k charges))))) = cursor_after charges (k + PAGE_LIMIT)"
proof -
  have ne: "take PAGE_LIMIT (drop k charges) \<noteq> []" using assms by (simp add: PAGE_LIMIT_def)
  have "last (take PAGE_LIMIT (drop k charges)) = charges ! (k + PAGE_LIMIT - 1)"
    using assms by (auto simp: last_conv_nth PAGE_LIMIT_def min_def not_le add.commute)
  with ne show ?thesis by (simp add: last_map cursor_after_def PAGE_LIMIT_def)
qed

lemma revenue_pages_from:
  assumes w: "pages_window stripe key since until charges" and k: "k \<le> length charges"
  shows "revenue_pages stripe key since until (Suc n) (cursor_after charges k) totals =
    Inr (fold add_charge (map charge_of (take (Suc n * PAGE_LIMIT) (drop k charges))) totals,
         k + Suc n * PAGE_LIMIT < length charges)"
  using k
proof (induction n arbitrary: k totals)
  case 0
  have "PAGE_LIMIT \<noteq> 0" by (simp add: PAGE_LIMIT_def)
  then show ?case
    by (auto simp: stripe_get_page[OF w "0"] Let_def object_prototype_def)
next
  case (Suc n)
  let ?page = "take PAGE_LIMIT (drop k charges)"
  show ?case
  proof (cases "k + PAGE_LIMIT < length charges")
    case True
    then have ne: "?page \<noteq> []" by (simp add: PAGE_LIMIT_def)
    have "k + PAGE_LIMIT \<le> length charges" using True by simp
    note IH = Suc.IH[OF this]
    have "revenue_pages stripe key since until (Suc (Suc n)) (cursor_after charges k) totals =
        revenue_pages stripe key since until (Suc n) (cursor_after charges (k + PAGE_LIMIT))
          (fold add_charge (map charge_of ?page) totals)"
      by (subst revenue_pages.simps)
         (use True ne in \<open>simp add: stripe_get_page[OF w Suc.prems] Let_def object_prototype_def cursor_next [symmetric] del: revenue_pages.simps\<close>)
    also have "\<dots> = Inr (fold add_charge (map charge_of (take (Suc n * PAGE_LIMIT) (drop (k + PAGE_LIMIT) charges)))
          (fold add_charge (map charge_of ?page) totals), k + PAGE_LIMIT + Suc n * PAGE_LIMIT < length charges)"
      by (rule IH)
    finally show ?thesis by (simp add: fold_skip add.assoc)
  next
    case False
    then have "take PAGE_LIMIT (drop k charges) = drop k charges" by simp
    moreover have "take (Suc (Suc n) * PAGE_LIMIT) (drop k charges) = drop k charges"
      using False by simp
    ultimately show ?thesis using False
      by (subst revenue_pages.simps)
         (simp add: stripe_get_page[OF w Suc.prems] Let_def object_prototype_def del: revenue_pages.simps)
  qed
qed

lemma window_revenue:
  assumes "pages_window stripe key since until charges"
  shows "getRevenue stripe key since until =
    Inr (map currency_revenue_of (fold add_charge (map charge_of (take 1000 charges)) []), 1000 < length charges)"
proof -
  have "revenue_pages stripe key since until MAX_PAGES None [] =
      Inr (fold add_charge (map charge_of (take 1000 charges)) [], 1000 < length charges)"
    using revenue_pages_from[OF assms, of 0 9 "[]"]
    by (simp add: cursor_after_def MAX_PAGES_def PAGE_LIMIT_def del: revenue_pages.simps)
  then show ?thesis by (simp add: getRevenue_def)
qed

text \<open>C15: Reading a Stripe window of charges page by page gives the totals of its first thousand charges (ten pages of a
  hundred), each charge counted once, and reports \<open>truncated\<close> exactly when the window holds more than
  that.\<close>

theorem revenue_of_window:
  assumes "pages_window stripe key since until charges"
  shows "getRevenue stripe key since until =
    Inr (map currency_revenue_of (fold add_charge (map charge_of (take 1000 charges)) []), 1000 < length charges)"
  by (rule window_revenue) (rule assms)

definition sample_charges :: "jsval list" where
  "sample_charges =
     [JObj [(''id'', JStr ''ch_1''), (''amount'', JNum (Fin 5000)), (''amount_refunded'', JNum (Fin 1000)),
        (''currency'', JStr ''usd''), (''status'', JStr ''succeeded''), (''paid'', JBool True), (''customer'', JStr ''cus_1'')],
      JObj [(''id'', JStr ''ch_2''), (''amount'', JNum (Fin 2000)), (''amount_refunded'', JNum (Fin 0)),
        (''currency'', JStr ''usd''), (''status'', JStr ''failed''), (''paid'', JBool False), (''customer'', JNull)]]"

definition sample_stripe :: stripe_api where
  "sample_stripe key query = charge_page sample_charges
     (case map_of query ''starting_after'' of None \<Rightarrow> 0 | Some i \<Rightarrow> if i = ''ch_1'' then 1 else 2)"

lemma sample_pages: "pages_window sample_stripe key since until sample_charges"
proof -
  have cases: "k = 0 \<or> k = 1 \<or> k = 2" if "k \<le> length sample_charges" for k
    using that by (auto simp: sample_charges_def)
  have "cursor_after sample_charges 1 = Some ''ch_1''" "cursor_after sample_charges 2 = Some ''ch_2''"
    by (simp_all add: cursor_after_def sample_charges_def charge_of_def object_prototype_def)
  moreover have "cursor_after sample_charges 0 = None" by (simp add: cursor_after_def)
  ultimately show ?thesis
    by (auto simp: pages_window_def sample_stripe_def charges_query_def dest!: cases)
qed

theorem revenue_of_window_witness:
  "getRevenue sample_stripe ''sk'' 0 86399000 =
     Inr (map currency_revenue_of (fold add_charge (map charge_of (take 1000 sample_charges)) []), 1000 < length sample_charges)
   \<and> map currency_revenue_of (fold add_charge (map charge_of sample_charges) []) =
     [\<lparr>cv_currency = ''usd'', cv_grossRevenue = 50, cv_refunded = 10, cv_netRevenue = 40, cv_charges = 1, cv_uniqueCustomers = 1\<rparr>]"
proof
  show "getRevenue sample_stripe ''sk'' 0 86399000 =
     Inr (map currency_revenue_of (fold add_charge (map charge_of (take 1000 sample_charges)) []), 1000 < length sample_charges)"
    by (rule revenue_of_window) (rule sample_pages)
  show "map currency_revenue_of (fold add_charge (map charge_of sample_charges) []) =
     [\<lparr>cv_currency = ''usd'', cv_grossRevenue = 50, cv_refunded = 10, cv_netRevenue = 40, cv_charges = 1, cv_uniqueCustomers = 1\<rparr>]"
    by code_simp
qed

section \<open>What a verification does\<close>

lemma verified_roas_Some:
  "vr_verifiedRoas (roas_result p rows byCurrency truncated) = Some x \<Longrightarrow>
   \<exists>c \<in> set byCurrency. num_lt (Fin 0) (spend_of rows)
     \<and> comparable_currencies (spend_currency rows) (Some (cv_currency c))
     \<and> vr_stripeNetRevenue (roas_result p rows byCurrency truncated) = cv_netRevenue c
     \<and> x = round_to 10000 (over_positive (cv_netRevenue c) (spend_of rows))"
  by (auto simp: roas_result_def Let_def verified_roas_of_def chosen_revenue_def coalesce_def
      dest!: find_Some_iff_mem split: option.splits if_splits list.splits)

definition saved_snapshots :: "ads_env \<Rightarrow> uuid \<Rightarrow> time \<Rightarrow> uuid \<Rightarrow> uuid option \<Rightarrow> verified_roas \<Rightarrow> roas_snapshot list" where
  "saved_snapshots env i now ws user r = filter (ae_saves env) [snapshot_of i now ws user r]"

lemma persistSnapshot_saved:
  "aw_snapshots (persistSnapshot (ae_saves env) i now ws user r w) = aw_snapshots w @ saved_snapshots env i now ws user r"
  by (simp add: persistSnapshot_def saved_snapshots_def Let_def)

lemma verify_outcomes:
  "verify env i now ws user p w = (result, w') \<Longrightarrow>
   (\<exists>rows byCurrency truncated. result = Inr (roas_result p rows byCurrency truncated)
      \<and> aw_snapshots w' = aw_snapshots w @ saved_snapshots env i now ws user (roas_result p rows byCurrency truncated))
   \<or> (\<exists>e. result = Inl e \<and> aw_snapshots w' = aw_snapshots w)"
  by (auto simp: verify_def Let_def persistSnapshot_saved split: prod.splits option.splits sum.splits) blast+

text \<open>A verified ROAS is reported only when Meta reported a positive spend, in the currency of a revenue total
  read from Stripe; then it is that total's net revenue over the spend, to four decimals.  The
  verification appends at most the one snapshot of what it reports.\<close>

theorem verified_roas_is_comparable:
  assumes "verify env i now ws user p w = (Inr r, w')" and "vr_verifiedRoas r = Some x"
  shows "\<exists>rows (c :: currency_revenue). num_lt (Fin 0) (spend_of rows) \<and> vr_metaSpend r = num_map (round_to 100) (spend_of rows)
      \<and> comparable_currencies (vr_spendCurrency r) (Some (cv_currency c)) \<and> vr_stripeNetRevenue r = cv_netRevenue c
      \<and> x = round_to 10000 (over_positive (cv_netRevenue c) (spend_of rows))
      \<and> aw_snapshots w' = aw_snapshots w @ saved_snapshots env i now ws user r"
proof -
  from verify_outcomes[OF assms(1)] obtain rows byCurrency truncated
    where r: "r = roas_result p rows byCurrency truncated"
      and w: "aw_snapshots w' = aw_snapshots w @ saved_snapshots env i now ws user r" by auto
  have m: "vr_metaSpend r = num_map (round_to 100) (spend_of rows)" "vr_spendCurrency r = spend_currency rows"
    by (simp_all add: r roas_result_def Let_def)
  from assms(2) r have "vr_verifiedRoas (roas_result p rows byCurrency truncated) = Some x" by simp
  from verified_roas_Some[OF this] obtain c :: currency_revenue where "num_lt (Fin 0) (spend_of rows)"
    "comparable_currencies (spend_currency rows) (Some (cv_currency c))" "vr_stripeNetRevenue r = cv_netRevenue c"
    "x = round_to 10000 (over_positive (cv_netRevenue c) (spend_of rows))" unfolding r by blast
  with m w show ?thesis by (intro exI[of _ rows] exI[of _ c]) simp
qed

definition sample_stripe_row :: integration where
  "sample_stripe_row = (sample_integration ''i3'' ''b'' TEAM ''apn_1'')\<lparr>ig_provider := PIPEDREAM, ig_appSlug := ''stripe''\<rparr>"

definition sample_ads_world :: ads_world where
  "sample_ads_world = \<lparr>aw_meta = \<lparr>mw_rows = sample_integrations @ [sample_stripe_row], mw_sent = []\<rparr>, aw_snapshots = []\<rparr>"

definition sample_insights :: graph_api where
  "sample_insights sent r = Reply True 200 (Some (JObj [(''data'', JArr
     [JObj [(''spend'', JStr ''16''), (''account_currency'', JStr ''USD'')]])]))"

definition sample_ads_env :: ads_env where
  "sample_ads_env = \<lparr>ae_oauth = sample_oauth True ''t'' ''1'', ae_graph = sample_insights,
     ae_credentials = (\<lambda>_. Inr (JObj [(''api_key'', JStr ''sk'')])), ae_users = [], ae_stripe = sample_stripe,
     ae_saves = (\<lambda>_. True)\<rparr>"

definition sample_verify :: verify_params where
  "sample_verify = \<lparr>vp_adAccountId = ''1'', vp_since = ''2024-01-01'', vp_until = ''2024-01-01'', vp_currency = None\<rparr>"

lemma verify_ignores_saving:
  "fst (verify (env\<lparr>ae_saves := s\<rparr>) i now ws user p w) = fst (verify env i now ws user p w)"
  by (simp add: verify_def Let_def split: prod.splits option.splits sum.splits)

lemma sample_token:
  "getMetaAccessToken (sample_oauth True ''t'' ''1'') 0 ''w1'' (Some ''b'') (sample_integrations @ [sample_stripe_row])
     = (Some ''token-i2'', sample_integrations @ [sample_stripe_row])"
  by code_simp

lemma sample_key:
  "getStripeApiKey (\<lambda>_. Inr (JObj [(''api_key'', JStr ''sk'')])) [] ''w1'' (Some ''b'') (sample_integrations @ [sample_stripe_row])
     = Some ''sk''"
  by code_simp

lemma sample_window: "window_times sample_verify = Some (1704067200000, 1704153599000)"
  by code_simp

lemma sample_answer:
  "read_reply (sample_insights sent r) = Inr (JObj [(''data'', JArr
     [JObj [(''spend'', JStr ''16''), (''account_currency'', JStr ''USD'')]])])"
  by code_simp

definition sample_rows :: "jsval list" where
  "sample_rows = [JObj [(''spend'', JStr ''16''), (''account_currency'', JStr ''USD'')]]"

definition sample_revenue :: "currency_revenue list" where
  "sample_revenue = [\<lparr>cv_currency = ''usd'', cv_grossRevenue = 50, cv_refunded = 10, cv_netRevenue = 40, cv_charges = 1, cv_uniqueCustomers = 1\<rparr>]"

lemma sample_spend: "spend_of sample_rows = Fin 16" "spend_currency sample_rows = Some ''USD''"
  by code_simp+

lemma sample_roas: "verified_roas_of (Fin 16) (Some ''USD'') (chosen_revenue None (Some ''USD'') sample_revenue) = Some (5/2)"
  by code_simp

lemma sample_result: "vr_verifiedRoas (roas_result sample_verify sample_rows sample_revenue False) = Some (5/2)"
  using sample_roas by (simp add: roas_result_def Let_def sample_spend sample_verify_def)

lemma sample_revenue_read: "getRevenue sample_stripe key since until = Inr (sample_revenue, False)"
proof -
  have "map currency_revenue_of (fold add_charge (map charge_of sample_charges) []) = sample_revenue" by code_simp
  with window_revenue[OF sample_pages, of key since until] show ?thesis by (simp add: sample_charges_def)
qed

lemma sample_verify_result:
  "\<exists>w'. verify sample_ads_env ''r1'' 0 ''w1'' (Some ''b'') sample_verify sample_ads_world
     = (Inr (roas_result sample_verify sample_rows sample_revenue False), w')"
  by (simp add: verify_def sample_ads_env_def sample_ads_world_def sample_token sample_key sample_window meta_send_def
      sample_answer [folded sample_rows_def] sample_revenue_read object_prototype_def Let_def)

theorem verified_roas_is_comparable_witness:
  "\<exists>r w'. verify sample_ads_env ''r1'' 0 ''w1'' (Some ''b'') sample_verify sample_ads_world = (Inr r, w')
     \<and> vr_verifiedRoas r = Some (5/2)
     \<and> aw_snapshots w' = [] @ saved_snapshots sample_ads_env ''r1'' 0 ''w1'' (Some ''b'') r"
proof -
  from sample_verify_result obtain w' where v: "verify sample_ads_env ''r1'' 0 ''w1'' (Some ''b'') sample_verify sample_ads_world
     = (Inr (roas_result sample_verify sample_rows sample_revenue False), w')" by blast
  have "aw_snapshots sample_ads_world = []" by (simp add: sample_ads_world_def)
  with v sample_result verified_roas_is_comparable[OF v sample_result] show ?thesis by metis
qed

end
