(* ===== verification/Schedule.thy ===== *)
theory Schedule
  imports Tables
begin

text \<open>
  What the rule engine and the scheduled tasks share: the next fire time of a cron expression, the
  rows that are due at a tick, and saving a row back after its run.  The cron library is the
  parameter \<open>cron\<close>: the next fire time of an expression in a timezone after a time, or \<open>None\<close> where
  it throws.
\<close>

section \<open>Fire times\<close>

type_synonym cron = "string \<Rightarrow> string option \<Rightarrow> time \<Rightarrow> time option"

definition nextRunFrom :: "cron \<Rightarrow> string \<Rightarrow> string option \<Rightarrow> time \<Rightarrow> time result" where
  "nextRunFrom cron expression timezone now = (case cron expression timezone now of
     None \<Rightarrow> Inl (BadRequest (''Invalid cron expression: '' @ [CHR 0x22] @ expression @ [CHR 0x22]))
   | Some t \<Rightarrow> Inr t)"

text \<open>The library's promise: the next fire time is in the future.\<close>

definition fires_later :: "cron \<Rightarrow> time \<Rightarrow> bool" where
  "fires_later cron now \<longleftrightarrow> (\<forall>expression timezone. case cron expression timezone now of None \<Rightarrow> True | Some t \<Rightarrow> now < t)"

lemma nextRunFrom_later: "fires_later cron now \<Longrightarrow> nextRunFrom cron e tz now = Inr t \<Longrightarrow> now < t"
  by (auto simp: nextRunFrom_def fires_later_def split: option.splits dest: spec[of _ e])

definition is_due :: "time \<Rightarrow> bool \<Rightarrow> time option \<Rightarrow> bool" where
  "is_due now active next_run \<longleftrightarrow> active \<and> (case next_run of Some t \<Rightarrow> t \<le> now | None \<Rightarrow> False)"

section \<open>A tick as an interface\<close>

text \<open>
  A table of scheduled rows: \<open>advance\<close> gives the row as it is saved after its run.  The row saved is
  the one read before the run.
\<close>

locale scheduled =
  fixes key :: "'r \<Rightarrow> uuid"
    and active :: "'r \<Rightarrow> bool"
    and next_run :: "'r \<Rightarrow> time option"
    and advance :: "cron \<Rightarrow> time \<Rightarrow> 'r \<Rightarrow> 'r result"
  assumes advance_key: "advance cron now r = Inr r' \<Longrightarrow> key r' = key r"
    and advance_passes: "fires_later cron now \<Longrightarrow> advance cron now r = Inr r' \<Longrightarrow> \<not> is_due now (active r') (next_run r')"
begin

definition due :: "time \<Rightarrow> 'r list \<Rightarrow> 'r list" where
  "due now rows = filter (\<lambda>r. is_due now (active r) (next_run r)) rows"

definition settle_one :: "cron \<Rightarrow> time \<Rightarrow> 'r \<Rightarrow> 'r list \<Rightarrow> 'r list" where
  "settle_one cron now r rows = (case advance cron now r of Inl _ \<Rightarrow> rows | Inr r' \<Rightarrow> save_row key r' rows)"

definition settle :: "cron \<Rightarrow> time \<Rightarrow> 'r list \<Rightarrow> 'r list \<Rightarrow> 'r list" where
  "settle cron now rs rows = fold (settle_one cron now) rs rows"

lemma settle_simps [simp]:
  "settle cron now [] rows = rows"
  "settle cron now (r # rs) rows = settle cron now rs (settle_one cron now r rows)"
  by (simp_all add: settle_def)

lemma settled_row:
  "x \<in> set (settle cron now rs rows) \<Longrightarrow>
     (x \<in> set rows \<and> (\<forall>r \<in> set rs. key r = key x \<longrightarrow> (\<exists>e. advance cron now r = Inl e)))
     \<or> (\<exists>r \<in> set rs. advance cron now r = Inr x)"
proof (induction rs arbitrary: rows)
  case (Cons r rs)
  from Cons.IH[of "settle_one cron now r rows"] Cons.prems
  consider "x \<in> set (settle_one cron now r rows)"
      "\<forall>r \<in> set rs. key r = key x \<longrightarrow> (\<exists>e. advance cron now r = Inl e)"
    | "\<exists>r \<in> set rs. advance cron now r = Inr x" by auto
  then show ?case
    by cases (auto simp: settle_one_def set_save_row split: sum.splits dest: advance_key)
qed simp

text \<open>After a tick that settled the due rows, a row is still due only if its own schedule is unreadable.\<close>

lemma due_after_settling:
  assumes "fires_later cron now" and "x \<in> set (settle cron now (due now rows) rows)"
    and "is_due now (active x) (next_run x)"
  shows "x \<in> set rows \<and> (\<exists>e. advance cron now x = Inl e)"
proof -
  from settled_row[OF assms(2)] show ?thesis
  proof
    assume "\<exists>r \<in> set (due now rows). advance cron now r = Inr x"
    with advance_passes[OF assms(1)] assms(3) show ?thesis by blast
  next
    assume a: "x \<in> set rows \<and> (\<forall>r \<in> set (due now rows). key r = key x \<longrightarrow> (\<exists>e. advance cron now r = Inl e))"
    then have "x \<in> set (due now rows)" using assms(3) by (simp add: due_def)
    with a show ?thesis by blast
  qed
qed

text \<open>The row as it was read comes back, whatever happened to it meanwhile.\<close>

lemma settling_restores:
  "advance cron now r = Inr r' \<Longrightarrow> r' \<in> set (settle_one cron now r rows)"
  by (simp add: settle_one_def)

lemma distinct_settle:
  "distinct (map key rows) \<Longrightarrow> distinct (map key (settle cron now rs rows))"
  by (induction rs arbitrary: rows) (auto simp: settle_one_def distinct_save_row split: sum.splits)

end

end
