(* ===== verification/Rules.thy ===== *)
theory Rules
  imports Roas Schedule Workspaces Slack
begin

text \<open>
  The rule engine: \<open>src/src/rules/rules.service.ts\<close> over the tables of \<open>ad-rule.entity.ts\<close> and
  \<open>ad-rule-action.entity.ts\<close>, with \<open>src/src/integrations/meta-metrics.ts\<close> and the tick of
  \<open>rules.scheduler.ts\<close>.  A rule measures a metric of Meta's insights on its schedule and alerts,
  pauses or scales the breaching campaigns or ad sets within its guardrails.  One clock reading
  \<open>now\<close> stands for all those of a run.
\<close>

section \<open>Data\<close>

datatype rule_metric = SPEND | CPA | ROAS | VERIFIED_ROAS | CTR | CPC
datatype rule_comparator = GT | LT | GTE | LTE
datatype rule_scope = ACCOUNT | CAMPAIGN | ADSET
datatype rule_action_type = ALERT | PAUSE | SCALE

fun metric_text :: "rule_metric \<Rightarrow> string" where
  "metric_text SPEND = ''spend''"
| "metric_text CPA = ''cpa''"
| "metric_text ROAS = ''roas''"
| "metric_text VERIFIED_ROAS = ''verified_roas''"
| "metric_text CTR = ''ctr''"
| "metric_text CPC = ''cpc''"

fun scope_text :: "rule_scope \<Rightarrow> string" where
  "scope_text ACCOUNT = ''account''"
| "scope_text CAMPAIGN = ''campaign''"
| "scope_text ADSET = ''adset''"

text \<open>The threshold is what its column \<open>numeric(14, 4)\<close> holds.\<close>

record ad_rule =
  ar_id :: uuid
  ar_workspaceId :: uuid
  ar_name :: string
  ar_adAccountId :: string
  ar_scope :: rule_scope
  ar_metric :: rule_metric
  ar_comparator :: rule_comparator
  ar_threshold :: jsnum
  ar_windowDays :: int
  ar_action :: rule_action_type
  ar_scalePct :: "int option"
  ar_autoExecute :: bool
  ar_maxScalePct :: int
  ar_maxActionsPerRun :: int
  ar_dailyActionCap :: int
  ar_cronExpression :: string
  ar_timezone :: "string option"
  ar_slackChannelId :: "string option"
  ar_isActive :: bool
  ar_createdByUserId :: "uuid option"
  ar_lastRun :: "time option"
  ar_nextRun :: "time option"

record rule_action =
  ra_id :: uuid
  ra_ruleId :: uuid
  ra_workspaceId :: uuid
  ra_entityType :: rule_scope
  ra_entityId :: "string option"
  ra_entityName :: "string option"
  ra_metricValue :: "string option"
  ra_action :: rule_action_type
  ra_detail :: "string option"
  ra_success :: bool
  ra_error :: "string option"
  ra_createdAt :: time

record create_rule_input =
  ci_name :: string
  ci_adAccountId :: string
  ci_scope :: rule_scope
  ci_metric :: rule_metric
  ci_comparator :: rule_comparator
  ci_threshold :: jsnum
  ci_windowDays :: "int option"
  ci_action :: rule_action_type
  ci_scalePct :: "int option"
  ci_cronExpression :: string
  ci_timezone :: "string option"
  ci_slackChannelId :: "string option"
  ci_autoExecute :: "bool option"
  ci_maxScalePct :: "int option"
  ci_maxActionsPerRun :: "int option"
  ci_dailyActionCap :: "int option"

record rule_run_report =
  rr_ruleId :: uuid
  rr_ruleName :: string
  rr_workspaceId :: uuid
  rr_slackChannelId :: "string option"
  rr_message :: "string option"

record breach =
  br_entityId :: "string option"
  br_entityName :: "string option"
  br_value :: jsnum

section \<open>Numbers in Postgres\<close>

text \<open>
  The value of a number's shortest decimal text, rounded half away from zero to four places.  The
  column refuses an infinity and anything of more than ten digits before the point; it takes
  \<open>NaN\<close>.
\<close>

definition decimal_value :: "rat \<Rightarrow> rat" where
  "decimal_value x = (if x = 0 then 0
     else let (s, n, k) = shortest_digits \<bar>x\<bar> in (if x < 0 then -1 else 1) * of_nat s * 10 powi (n - int k))"

definition numeric_4 :: "rat \<Rightarrow> rat" where
  "numeric_4 q = (if q < 0 then -1 else 1) * of_int \<lfloor>\<bar>q\<bar> * 10000 + 1/2\<rfloor> / 10000"

fun numeric_14_4 :: "jsnum \<Rightarrow> jsnum option" where
  "numeric_14_4 (Fin x) = (let q = numeric_4 (decimal_value x) in if \<bar>q\<bar> < 10 ^ 10 then Some (Fin q) else None)"
| "numeric_14_4 NaN = Some NaN"
| "numeric_14_4 _ = None"

text \<open>\<open>Number(rule.threshold)\<close>.\<close>

definition threshold_of :: "ad_rule \<Rightarrow> jsnum" where
  "threshold_of r = num_map fl (ar_threshold r)"

section \<open>Creating and editing rules\<close>

definition validate_rule :: "cron \<Rightarrow> time \<Rightarrow> create_rule_input \<Rightarrow> unit result" where
  "validate_rule cron now c =
    (if ci_metric c = VERIFIED_ROAS \<and> ci_scope c \<noteq> ACCOUNT
     then Inl (BadRequest ''verified_roas rules must use account scope'')
     else if ci_scope c = ACCOUNT \<and> ci_action c \<noteq> ALERT
     then Inl (BadRequest ''account-scope rules can only alert (nothing to pause/scale)'')
     else if ci_action c = SCALE \<and> ci_scope c = ACCOUNT
     then Inl (BadRequest ''scaling requires campaign or adset scope'')
     else if ci_action c = SCALE \<and> (ci_scalePct c = None \<or> ci_scalePct c = Some 0)
     then Inl (BadRequest ''a scale rule needs a non-zero scalePct'')
     else map_sum id (\<lambda>_. ()) (nextRunFrom cron (ci_cronExpression c) (ci_timezone c) now))"

definition or_default :: "'a option \<Rightarrow> 'a \<Rightarrow> 'a" where
  "or_default v d = (case v of Some x \<Rightarrow> x | None \<Rightarrow> d)"

definition new_rule :: "uuid \<Rightarrow> uuid \<Rightarrow> uuid option \<Rightarrow> create_rule_input \<Rightarrow> jsnum \<Rightarrow> time \<Rightarrow> ad_rule" where
  "new_rule i ws user c threshold next = \<lparr>ar_id = i, ar_workspaceId = ws, ar_name = ci_name c,
     ar_adAccountId = ci_adAccountId c, ar_scope = ci_scope c, ar_metric = ci_metric c,
     ar_comparator = ci_comparator c, ar_threshold = threshold, ar_windowDays = or_default (ci_windowDays c) 3,
     ar_action = ci_action c, ar_scalePct = (if ci_action c = SCALE then ci_scalePct c else None),
     ar_autoExecute = or_default (ci_autoExecute c) True, ar_maxScalePct = or_default (ci_maxScalePct c) 25,
     ar_maxActionsPerRun = or_default (ci_maxActionsPerRun c) 10,
     ar_dailyActionCap = or_default (ci_dailyActionCap c) 25, ar_cronExpression = ci_cronExpression c,
     ar_timezone = ci_timezone c, ar_slackChannelId = ci_slackChannelId c, ar_isActive = True,
     ar_createdByUserId = user, ar_lastRun = None, ar_nextRun = Some next\<rparr>"

text \<open>The texts are taken to fit their columns; a threshold that does not is the database's error.\<close>

definition create_rule ::
  "cron \<Rightarrow> uuid \<Rightarrow> time \<Rightarrow> uuid \<Rightarrow> uuid option \<Rightarrow> create_rule_input \<Rightarrow> ad_rule list \<Rightarrow> ad_rule result \<times> ad_rule list" where
  "create_rule cron i now ws user c rules =
    (case validate_rule cron now c of Inl e \<Rightarrow> (Inl e, rules)
     | Inr _ \<Rightarrow>
       (case nextRunFrom cron (ci_cronExpression c) (ci_timezone c) now of Inl e \<Rightarrow> (Inl e, rules)
        | Inr next \<Rightarrow>
          (case numeric_14_4 (ci_threshold c) of
             None \<Rightarrow> (Inl (PlainError ''numeric field overflow''), rules)
           | Some q \<Rightarrow> let r = new_rule i ws user c q next in (Inr r, rules @ [r]))))"

definition list_rules :: "uuid \<Rightarrow> ad_rule list \<Rightarrow> ad_rule list" where
  "list_rules ws rules = rev (filter (\<lambda>r. ar_workspaceId r = ws) rules)"

definition findOwnedRule :: "uuid \<Rightarrow> uuid \<Rightarrow> ad_rule list \<Rightarrow> ad_rule result" where
  "findOwnedRule ws i rules = (case List.find (\<lambda>r. ar_id r = i \<and> ar_workspaceId r = ws) rules of
     None \<Rightarrow> Inl (NotFound ''Rule not found'') | Some r \<Rightarrow> Inr r)"

definition setRuleActive ::
  "cron \<Rightarrow> time \<Rightarrow> uuid \<Rightarrow> uuid \<Rightarrow> bool \<Rightarrow> ad_rule list \<Rightarrow> ad_rule result \<times> ad_rule list" where
  "setRuleActive cron now ws i active rules = (case findOwnedRule ws i rules of
     Inl e \<Rightarrow> (Inl e, rules)
   | Inr r \<Rightarrow>
      (if active
       then (case nextRunFrom cron (ar_cronExpression r) (ar_timezone r) now of
               Inl e \<Rightarrow> (Inl e, rules)
             | Inr t \<Rightarrow> let r' = r\<lparr>ar_isActive := True, ar_nextRun := Some t\<rparr> in (Inr r', save_row ar_id r' rules))
       else let r' = r\<lparr>ar_isActive := False\<rparr> in (Inr r', save_row ar_id r' rules)))"

definition removeRule :: "uuid \<Rightarrow> uuid \<Rightarrow> ad_rule list \<Rightarrow> unit result \<times> ad_rule list" where
  "removeRule ws i rules = (case findOwnedRule ws i rules of
     Inl e \<Rightarrow> (Inl e, rules) | Inr r \<Rightarrow> (Inr (), delete_where (\<lambda>x. ar_id x = ar_id r) rules))"

definition recentActions :: "uuid \<Rightarrow> nat \<Rightarrow> rule_action list \<Rightarrow> rule_action list" where
  "recentActions rule limit rows = newest limit (\<lambda>a. ra_ruleId a = rule) rows"

definition recentActionsForWorkspace :: "uuid \<Rightarrow> nat \<Rightarrow> rule_action list \<Rightarrow> rule_action list" where
  "recentActionsForWorkspace ws limit rows = newest limit (\<lambda>a. ra_workspaceId a = ws) rows"

definition actionsForWorkspace :: "(uuid \<Rightarrow> nat) \<Rightarrow> uuid \<Rightarrow> time \<Rightarrow> nat \<Rightarrow> rule_action list \<Rightarrow> rule_action list" where
  "actionsForWorkspace micros ws since limit rows =
     take limit (filter (\<lambda>a. ra_workspaceId a = ws \<and> stored_after micros (ra_id a) (ra_createdAt a) since) rows)"

section \<open>Metrics\<close>

definition PURCHASE_ACTION_TYPES :: "string list" where
  "PURCHASE_ACTION_TYPES =
     [''purchase'', ''omni_purchase'', ''offsite_conversion.fb_pixel_purchase'', ''onsite_web_purchase'']"

definition action_type :: "jsval \<Rightarrow> string" where
  "action_type entry = str_of (get_prop entry ''action_type'')"

definition pickPurchaseValue :: "jsval \<Rightarrow> jsnum option" where
  "pickPurchaseValue entries = (let es = (case arr_of entries of Some l \<Rightarrow> l | None \<Rightarrow> []) in
     map_option (\<lambda>e. to_number (get_prop e ''value''))
       (coalesce (List.find (\<lambda>e. action_type e \<in> set PURCHASE_ACTION_TYPES) es)
                 (List.find (\<lambda>e. str_includes ''purchase'' (action_type e)) es)))"

definition number_field :: "jsval \<Rightarrow> string \<Rightarrow> jsnum option" where
  "number_field row k = (if is_nullish (get_prop row k) then None else Some (to_number (get_prop row k)))"

fun extractMetric :: "jsval \<Rightarrow> rule_metric \<Rightarrow> jsnum option" where
  "extractMetric row SPEND = (let s = to_number (get_prop row ''spend'') in if is_finite s then Some s else None)"
| "extractMetric row CTR = number_field row ''ctr''"
| "extractMetric row CPC = number_field row ''cpc''"
| "extractMetric row ROAS = Some (or_default (pickPurchaseValue (get_prop row ''purchase_roas'')) (Fin 0))"
| "extractMetric row CPA = (case pickPurchaseValue (get_prop row ''cost_per_action_type'') of
     Some v \<Rightarrow> Some v
   | None \<Rightarrow> if num_lt (Fin 0) (to_number (get_prop row ''spend'')) then Some PInf else None)"
| "extractMetric row VERIFIED_ROAS = None"

definition breaches :: "jsnum \<Rightarrow> ad_rule \<Rightarrow> bool" where
  "breaches v r = (let t = threshold_of r in case ar_comparator r of
     GT \<Rightarrow> num_lt t v | GTE \<Rightarrow> num_le t v | LT \<Rightarrow> num_lt v t | LTE \<Rightarrow> num_le v t)"

section \<open>Texts\<close>

definition clampPct :: "int \<Rightarrow> int \<Rightarrow> int" where
  "clampPct pct mx = max (min pct \<bar>mx\<bar>) (- \<bar>mx\<bar>)"

definition rule_window :: "time \<Rightarrow> int \<Rightarrow> (string \<times> string) result" where
  "rule_window now days = (let since = now - days * ms_per_day in
     if valid_date since \<and> valid_date now then Inr (iso_date since, iso_date now)
     else Inl (PlainError ''Invalid time value''))"

fun round_text :: "jsnum \<Rightarrow> string" where
  "round_text (Fin x) = rat_to_string (round_to 100 x)"
| "round_text _ = ''infinity''"

definition money :: "jsnum \<Rightarrow> string" where
  "money minor = num_to_string (num_map (\<lambda>x. fl (of_int (math_round x) / 100)) minor)"

definition metricLabel :: "rule_metric \<Rightarrow> string" where
  "metricLabel m = (if m = VERIFIED_ROAS then ''verified ROAS'' else to_upper (metric_text m))"

definition comparatorWord :: "rule_comparator \<Rightarrow> string" where
  "comparatorWord c = (if c = GT \<or> c = GTE then ''above'' else ''below'')"

text \<open>\<open>`${breach.entityName ?? breach.entityId}`\<close>.\<close>

definition breach_label :: "breach \<Rightarrow> string" where
  "breach_label b = or_default (coalesce (br_entityName b) (br_entityId b)) ''null''"

definition alertDetail :: "ad_rule \<Rightarrow> breach \<Rightarrow> string" where
  "alertDetail r b = metricLabel (ar_metric r) @ '' '' @ round_text (br_value b) @ '' ''
     @ comparatorWord (ar_comparator r) @ '' '' @ round_text (threshold_of r)"

text \<open>\<open>xs.slice(0, n)\<close>: a negative \<open>n\<close> counts from the end.\<close>

definition js_slice :: "int \<Rightarrow> 'a list \<Rightarrow> 'a list" where
  "js_slice n xs = take (nat (if n < 0 then int (length xs) + n else n)) xs"

definition rule_name :: "ad_rule \<Rightarrow> string" where
  "rule_name r = ''Rule *'' @ ar_name r @ ''*''"

definition alertMessage :: "ad_rule \<Rightarrow> breach list \<Rightarrow> string" where
  "alertMessage r bs = rule_name r @ '' - '' @ show_nat (length bs) @ '' '' @ scope_text (ar_scope r)
     @ ''(s) breached:'' @ nl
     @ join nl (map (\<lambda>b. ''- '' @ breach_label b @ '': '' @ alertDetail r b) (js_slice (ar_maxActionsPerRun r) bs))"

definition actionMessage :: "ad_rule \<Rightarrow> string list \<Rightarrow> string list \<Rightarrow> int \<Rightarrow> string option" where
  "actionMessage r acted failed skipped =
    (if acted = [] \<and> failed = [] then None
     else Some (join nl
       ([rule_name r @ '' - '' @ (if ar_action r = PAUSE then ''Paused'' else ''Scaled'') @ '' ''
           @ show_nat (length acted) @ '' '' @ scope_text (ar_scope r) @ ''(s):'']
        @ map (\<lambda>l. ''- '' @ l) acted
        @ (if failed = [] then [] else (nl @ show_nat (length failed) @ '' failed:'') # map (\<lambda>l. ''- '' @ l) failed)
        @ (if 0 < skipped
           then [nl @ ''_'' @ show_int skipped @ '' more breached but were held back by the action cap._''] else []))))"

definition report :: "ad_rule \<Rightarrow> string option \<Rightarrow> rule_run_report" where
  "report r message = \<lparr>rr_ruleId = ar_id r, rr_ruleName = ar_name r, rr_workspaceId = ar_workspaceId r,
     rr_slackChannelId = ar_slackChannelId r, rr_message = message\<rparr>"

section \<open>Acting within the guardrails\<close>

record rules_world =
  ru_ads :: ads_world
  ru_rules :: "ad_rule list"
  ru_actions :: "rule_action list"

text \<open>
  Outside the engine: what verification needs, cron, the id the database gives a new row when the
  table has had so many, and whether it refuses an action row, with its message.
\<close>

record rules_env =
  re_ads :: ads_env
  re_cron :: cron
  re_id :: "nat \<Rightarrow> uuid"
  re_refuses :: "rule_action \<Rightarrow> string option"

definition action_row ::
  "uuid \<Rightarrow> time \<Rightarrow> ad_rule \<Rightarrow> breach \<Rightarrow> rule_action_type \<Rightarrow> string option \<Rightarrow> bool \<Rightarrow> string option \<Rightarrow> rule_action" where
  "action_row i now r b act detail success err = \<lparr>ra_id = i, ra_ruleId = ar_id r, ra_workspaceId = ar_workspaceId r,
     ra_entityType = ar_scope r, ra_entityId = br_entityId b, ra_entityName = br_entityName b,
     ra_metricValue = (case br_value b of Fin x \<Rightarrow> Some (to_fixed 4 x) | _ \<Rightarrow> None), ra_action = act,
     ra_detail = detail, ra_success = success, ra_error = err, ra_createdAt = now\<rparr>"

definition recordAction ::
  "rules_env \<Rightarrow> time \<Rightarrow> ad_rule \<Rightarrow> breach \<Rightarrow> rule_action_type \<Rightarrow> string option \<Rightarrow> bool \<Rightarrow> string option \<Rightarrow> rules_world
     \<Rightarrow> unit result \<times> rules_world" where
  "recordAction env now r b act detail success err w =
    (let a = action_row (re_id env (length (ru_actions w))) now r b act detail success err in
     case re_refuses env a of Some m \<Rightarrow> (Inl (PlainError m), w)
     | None \<Rightarrow> (Inr (), w\<lparr>ru_actions := ru_actions w @ [a]\<rparr>))"

text \<open>A request to Meta from the engine.\<close>

definition rule_send :: "rules_env \<Rightarrow> meta_request \<Rightarrow> rules_world \<Rightarrow> jsval result \<times> rules_world" where
  "rule_send env q w =
    (let a = ru_ads w; m = aw_meta a; (answer, sent) = meta_send (ae_graph (re_ads env)) q (mw_sent m) in
     (answer, w\<lparr>ru_ads := a\<lparr>aw_meta := m\<lparr>mw_sent := sent\<rparr>\<rparr>\<rparr>))"

definition sent_by :: "rules_world \<Rightarrow> meta_log" where
  "sent_by w = mw_sent (aw_meta (ru_ads w))"

type_synonym budgets = "(string \<times> jsnum) list"

definition budget_of_row :: "jsval \<Rightarrow> budgets \<Rightarrow> budgets" where
  "budget_of_row raw m = (if truthy (get_prop raw ''id'') \<and> \<not> is_nullish (get_prop raw ''daily_budget'')
     then aput (to_string (get_prop raw ''id'')) (to_number (get_prop raw ''daily_budget'')) m else m)"

definition loadBudgets :: "rules_env \<Rightarrow> ad_rule \<Rightarrow> string \<Rightarrow> rules_world \<Rightarrow> budgets result \<times> rules_world" where
  "loadBudgets env r token w =
    (let (answer, w') = rule_send env
           (if ar_scope r = ADSET then listAdSetsForAccount token (ar_adAccountId r)
            else listCampaigns token (ar_adAccountId r) []) w
     in case answer of Inl e \<Rightarrow> (Inl e, w')
      | Inr body \<Rightarrow> (case arr_of (get_prop body ''data'') of
          None \<Rightarrow> (Inl (PlainError ''rows is not iterable''), w')
        | Some rows \<Rightarrow> (Inr (fold budget_of_row rows []), w')))"

text \<open>
  \<open>Math.max(Math.round(current * (1 + pct / 100)), 1)\<close>: a product with an infinity is infinite
  with the sign of the factor, or \<open>NaN\<close> for the factor zero.
\<close>

fun scaled_budget :: "jsnum \<Rightarrow> int \<Rightarrow> jsnum" where
  "scaled_budget (Fin c) pct = Fin (of_int (max (math_round (fl (c * fl (1 + fl (of_int pct / 100))))) 1))"
| "scaled_budget NaN pct = NaN"
| "scaled_budget PInf pct = (if -100 < pct then PInf else if pct = -100 then NaN else Fin 1)"
| "scaled_budget NInf pct = (if -100 < pct then Fin 1 else if pct = -100 then NaN else PInf)"

definition entity_update :: "ad_rule \<Rightarrow> string \<Rightarrow> string \<Rightarrow> jsval \<Rightarrow> jsval \<Rightarrow> meta_request" where
  "entity_update r token entity status budget =
    (let p = \<lparr>up_name = JUndef, up_status = status, up_dailyBudget = budget\<rparr> in
     if ar_scope r = ADSET then updateAdSet token entity p else updateCampaign token entity p)"

definition pct_of :: "ad_rule \<Rightarrow> int" where
  "pct_of r = clampPct (or_default (ar_scalePct r) 0) (ar_maxScalePct r)"

definition paused_detail :: "ad_rule \<Rightarrow> breach \<Rightarrow> string" where
  "paused_detail r b = ''Paused *'' @ breach_label b @ ''* ('' @ metricLabel (ar_metric r) @ '' ''
     @ round_text (br_value b) @ '')''"

definition scaled_detail :: "breach \<Rightarrow> int \<Rightarrow> jsnum \<Rightarrow> jsnum \<Rightarrow> string" where
  "scaled_detail b pct current next = ''Scaled *'' @ breach_label b @ ''* '' @ (if 0 < pct then ''+'' else [])
     @ show_int pct @ ''% ('' @ money current @ '' -> '' @ money next @ '')''"

definition applyAction ::
  "rules_env \<Rightarrow> ad_rule \<Rightarrow> string \<Rightarrow> breach \<Rightarrow> string \<Rightarrow> budgets \<Rightarrow> rules_world \<Rightarrow> string result \<times> rules_world" where
  "applyAction env r token b entity budgets w =
    (if ar_action r = PAUSE
     then (case rule_send env (entity_update r token entity (JStr ''PAUSED'') JUndef) w of
             (Inl e, w') \<Rightarrow> (Inl e, w') | (Inr _, w') \<Rightarrow> (Inr (paused_detail r b), w'))
     else case map_of budgets entity of
       None \<Rightarrow> (Inl (PlainError ''no daily budget at this level to scale''), w)
     | Some current \<Rightarrow>
        (let pct = pct_of r; next = scaled_budget current pct in
         case rule_send env (entity_update r token entity JUndef (JNum next)) w of
           (Inl e, w') \<Rightarrow> (Inl e, w') | (Inr _, w') \<Rightarrow> (Inr (scaled_detail b pct current next), w')))"

text \<open>The body of the loop's \<open>try\<close>: the change, then its audit row.\<close>

definition try_action ::
  "rules_env \<Rightarrow> time \<Rightarrow> ad_rule \<Rightarrow> string \<Rightarrow> breach \<Rightarrow> string \<Rightarrow> budgets \<Rightarrow> rules_world \<Rightarrow> string result \<times> rules_world" where
  "try_action env now r token b entity budgets w = (case applyAction env r token b entity budgets w of
     (Inl e, w1) \<Rightarrow> (Inl e, w1)
   | (Inr detail, w1) \<Rightarrow>
      (case recordAction env now r b (ar_action r) (Some detail) True None w1 of
         (Inl e, w2) \<Rightarrow> (Inl e, w2) | (Inr _, w2) \<Rightarrow> (Inr detail, w2)))"

fun act_on_breaches ::
  "rules_env \<Rightarrow> time \<Rightarrow> ad_rule \<Rightarrow> string \<Rightarrow> budgets \<Rightarrow> breach list \<Rightarrow> string list \<times> string list \<Rightarrow> rules_world
     \<Rightarrow> (string list \<times> string list) result \<times> rules_world" where
  "act_on_breaches env now r token budgets [] outcome w = (Inr outcome, w)"
| "act_on_breaches env now r token budgets (b # bs) (acted, failed) w =
    (case br_entityId b of
       Some (c # cs) \<Rightarrow>
        (case try_action env now r token b (c # cs) budgets w of
           (Inr detail, w1) \<Rightarrow> act_on_breaches env now r token budgets bs (acted @ [detail], failed) w1
         | (Inl e, w1) \<Rightarrow>
            (case recordAction env now r b (ar_action r) None False (Some (error_message e)) w1 of
               (Inl e', w2) \<Rightarrow> (Inl e', w2)
             | (Inr _, w2) \<Rightarrow>
                 act_on_breaches env now r token budgets bs
                   (acted, failed @ [breach_label b @ '': '' @ error_message e]) w2))
     | _ \<Rightarrow> act_on_breaches env now r token budgets bs (acted, failed) w)"

text \<open>The mutations of the last day that count against the rule's daily cap.\<close>

definition counts_today :: "time \<Rightarrow> ad_rule \<Rightarrow> rule_action \<Rightarrow> bool" where
  "counts_today now r a \<longleftrightarrow> ra_ruleId a = ar_id r \<and> ra_success a \<and> ra_action a = ar_action r
     \<and> now - ms_per_day < ra_createdAt a"

definition used_today :: "time \<Rightarrow> ad_rule \<Rightarrow> rule_action list \<Rightarrow> int" where
  "used_today now r actions = int (length (filter (counts_today now r) actions))"

definition action_cap :: "time \<Rightarrow> ad_rule \<Rightarrow> rule_action list \<Rightarrow> int" where
  "action_cap now r actions = min (ar_maxActionsPerRun r) (max (ar_dailyActionCap r - used_today now r actions) 0)"

definition executeMutations ::
  "rules_env \<Rightarrow> time \<Rightarrow> ad_rule \<Rightarrow> string \<Rightarrow> breach list \<Rightarrow> rules_world \<Rightarrow> rule_run_report result \<times> rules_world" where
  "executeMutations env now r token bs w =
    (let cap = action_cap now r (ru_actions w) in
     if cap \<le> 0
     then (Inr (report r (Some (rule_name r @ '': '' @ show_nat (length bs)
             @ '' breach(es) found but the daily action cap ('' @ show_int (ar_dailyActionCap r)
             @ '') is reached - no changes made.''))), w)
     else let (budgets, w1) = (if ar_action r = SCALE then loadBudgets env r token w else (Inr [], w)) in
       case budgets of Inl e \<Rightarrow> (Inl e, w1)
       | Inr m \<Rightarrow>
          (let (outcome, w2) = act_on_breaches env now r token m (js_slice cap bs) ([], []) w1 in
           (map_sum id (\<lambda>(acted, failed). report r
              (actionMessage r acted failed (int (length bs) - min (int (length bs)) cap))) outcome, w2)))"

section \<open>Evaluating a rule\<close>

text \<open>Alert rows for the breaches, one after the other; a refused row ends the run with its error.\<close>

fun record_alerts ::
  "rules_env \<Rightarrow> time \<Rightarrow> ad_rule \<Rightarrow> breach list \<Rightarrow> rules_world \<Rightarrow> unit result \<times> rules_world" where
  "record_alerts env now r [] w = (Inr (), w)"
| "record_alerts env now r (b # bs) w =
    (case recordAction env now r b ALERT (Some (alertDetail r b)) True None w of
       (Inl e, w') \<Rightarrow> (Inl e, w') | (Inr _, w') \<Rightarrow> record_alerts env now r bs w')"

definition lift_ads :: "('a \<times> ads_world) \<Rightarrow> rules_world \<Rightarrow> 'a \<times> rules_world" where
  "lift_ads result w = (fst result, w\<lparr>ru_ads := snd result\<rparr>)"

definition evaluateVerifiedRoas ::
  "rules_env \<Rightarrow> time \<Rightarrow> ad_rule \<Rightarrow> string \<Rightarrow> string \<Rightarrow> rules_world \<Rightarrow> rule_run_report result \<times> rules_world" where
  "evaluateVerifiedRoas env now r since until w =
    (let (result, w1) = lift_ads (verify (re_ads env) (re_id env (length (aw_snapshots (ru_ads w)))) now (ar_workspaceId r)
             (ar_createdByUserId r) \<lparr>vp_adAccountId = ar_adAccountId r, vp_since = since, vp_until = until, vp_currency = None\<rparr>
             (ru_ads w)) w
     in case result of Inl e \<Rightarrow> (Inl e, w1)
      | Inr v \<Rightarrow>
         (case vr_verifiedRoas v of
            None \<Rightarrow> (Inr (report r (Some (rule_name r @ '': verified ROAS could not be computed (''
                      @ (case vr_caveats v of c # _ \<Rightarrow> c | [] \<Rightarrow> ''no data'') @ '').''))), w1)
          | Some x \<Rightarrow>
             if \<not> breaches (Fin x) r then (Inr (report r None), w1)
             else let b = \<lparr>br_entityId = Some (ar_adAccountId r), br_entityName = Some (ar_adAccountId r), br_value = Fin x\<rparr>;
                      (saved, w2) = recordAction env now r b ALERT (Some (alertDetail r b)) True None w1
                  in (map_sum id (\<lambda>_. report r (Some (rule_name r @ '': verified ROAS '' @ round_text (Fin x) @ '' on ''
                        @ ar_adAccountId r @ '' '' @ comparatorWord (ar_comparator r) @ '' target ''
                        @ round_text (threshold_of r) @ ''.''))) saved, w2)))"

definition INSIGHT_FIELDS :: "string list" where
  "INSIGHT_FIELDS = [''spend'', ''ctr'', ''cpc'', ''actions'', ''cost_per_action_type'', ''purchase_roas'',
     ''account_currency'', ''campaign_id'', ''campaign_name'', ''adset_id'', ''adset_name'']"

definition row_breach :: "ad_rule \<Rightarrow> jsval \<Rightarrow> breach list" where
  "row_breach r row = (case extractMetric row (ar_metric r) of
     None \<Rightarrow> []
   | Some v \<Rightarrow> if \<not> breaches v r then []
      else [\<lparr>br_entityId = opt_str (get_prop row (if ar_scope r = ADSET then ''adset_id'' else ''campaign_id'')),
             br_entityName = opt_str (get_prop row (if ar_scope r = ADSET then ''adset_name'' else ''campaign_name'')),
             br_value = v\<rparr>])"

text \<open>Whether a breach changes anything at Meta.\<close>

definition mutates :: "ad_rule \<Rightarrow> bool" where
  "mutates r \<longleftrightarrow> ar_action r \<noteq> ALERT \<and> ar_autoExecute r \<and> ar_scope r \<noteq> ACCOUNT"

text \<open>From the insights' reply on.\<close>

definition judge_insights ::
  "rules_env \<Rightarrow> time \<Rightarrow> ad_rule \<Rightarrow> string \<Rightarrow> jsval \<Rightarrow> rules_world \<Rightarrow> rule_run_report result \<times> rules_world" where
  "judge_insights env now r token insights w =
    (let data = get_prop insights ''data'' in
     case (if is_nullish data then Some [] else arr_of data) of
       None \<Rightarrow> (Inl (PlainError ''rows is not iterable''), w)
     | Some rows \<Rightarrow>
        (let bs = concat (map (row_breach r) rows) in
         if bs = [] then (Inr (report r None), w)
         else if \<not> mutates r
         then (let (saved, w') = record_alerts env now r (js_slice (ar_maxActionsPerRun r) bs) w in
               (map_sum id (\<lambda>_. report r (Some (alertMessage r bs))) saved, w'))
         else executeMutations env now r token bs w))"

definition evaluateRule ::
  "rules_env \<Rightarrow> time \<Rightarrow> ad_rule \<Rightarrow> rules_world \<Rightarrow> rule_run_report result \<times> rules_world" where
  "evaluateRule env now r w =
    (let a = ru_ads w; m = aw_meta a;
         (token', rows') = getMetaAccessToken (ae_oauth (re_ads env)) now (ar_workspaceId r) (ar_createdByUserId r) (mw_rows m);
         w1 = w\<lparr>ru_ads := a\<lparr>aw_meta := m\<lparr>mw_rows := rows'\<rparr>\<rparr>\<rparr>
     in case token' of
          None \<Rightarrow> (Inr (report r (Some (rule_name r @ '' skipped: no active Meta Ads connection.''))), w1)
        | Some token \<Rightarrow>
           (case rule_window now (ar_windowDays r) of Inl e \<Rightarrow> (Inl e, w1)
            | Inr (since, until) \<Rightarrow>
               if ar_metric r = VERIFIED_ROAS then evaluateVerifiedRoas env now r since until w1
               else let (answer, w2) = rule_send env (getInsights token
                          \<lparr>in_adAccountId = ar_adAccountId r, in_level = JStr (scope_text (ar_scope r)), in_datePreset = JUndef,
                           in_since = JStr since, in_until = JStr until, in_fields = map JStr INSIGHT_FIELDS\<rparr>) w1
                    in case answer of Inl e \<Rightarrow> (Inl e, w2)
                       | Inr insights \<Rightarrow> judge_insights env now r token insights w2))"

section \<open>The tick\<close>

definition advance_rule :: "cron \<Rightarrow> time \<Rightarrow> ad_rule \<Rightarrow> ad_rule result" where
  "advance_rule cron now r = map_sum id (\<lambda>t. r\<lparr>ar_lastRun := Some now, ar_nextRun := Some t\<rparr>)
     (nextRunFrom cron (ar_cronExpression r) (ar_timezone r) now)"

definition due_rules :: "time \<Rightarrow> ad_rule list \<Rightarrow> ad_rule list" where
  "due_rules now rules = filter (\<lambda>r. is_due now (ar_isActive r) (ar_nextRun r)) rules"

definition failure_report :: "ad_rule \<Rightarrow> http_error \<Rightarrow> rule_run_report" where
  "failure_report r e = report r (Some (rule_name r @ '' could not run: '' @ error_message e))"

text \<open>
  One rule: its report and, in the \<open>finally\<close> block, its schedule.  The row saved is the one the tick
  read; an error of the \<open>finally\<close> block leaves the loop.
\<close>

definition run_rule ::
  "rules_env \<Rightarrow> time \<Rightarrow> ad_rule \<Rightarrow> rules_world \<Rightarrow> rule_run_report result \<times> rules_world" where
  "run_rule env now r w =
    (let (result, w1) = evaluateRule env now r w;
         rep = (case result of Inr x \<Rightarrow> x | Inl e \<Rightarrow> failure_report r e)
     in case advance_rule (re_cron env) now r of
          Inl e \<Rightarrow> (Inl e, w1)
        | Inr r' \<Rightarrow> (Inr rep, w1\<lparr>ru_rules := save_row ar_id r' (ru_rules w1)\<rparr>))"

fun run_rules ::
  "rules_env \<Rightarrow> time \<Rightarrow> ad_rule list \<Rightarrow> rules_world \<Rightarrow> rule_run_report list result \<times> rules_world" where
  "run_rules env now [] w = (Inr [], w)"
| "run_rules env now (r # rs) w = (case run_rule env now r w of
     (Inl e, w1) \<Rightarrow> (Inl e, w1)
   | (Inr rep, w1) \<Rightarrow> (let (reps, w2) = run_rules env now rs w1 in (map_sum id ((#) rep) reps, w2)))"

definition runDueRules :: "rules_env \<Rightarrow> time \<Rightarrow> rules_world \<Rightarrow> rule_run_report list result \<times> rules_world" where
  "runDueRules env now w = run_rules env now (due_rules now (ru_rules w)) w"

text \<open>The messages a tick posts: bot token, channel and text.\<close>

definition rule_delivery :: "workspace list \<Rightarrow> rule_run_report \<Rightarrow> (string \<times> string \<times> string) list" where
  "rule_delivery ws rep = (case (rr_message rep, rr_slackChannelId rep) of
     (Some (m # ms), Some (c # cs)) \<Rightarrow>
       (case workspaceById ws (rr_workspaceId rep) of
          Some t \<Rightarrow> (case w_slackBotToken t of Some (b # bt) \<Rightarrow> [(b # bt, c # cs, m # ms)] | _ \<Rightarrow> [])
        | None \<Rightarrow> [])
   | _ \<Rightarrow> [])"

definition rules_tick ::
  "rules_env \<Rightarrow> workspace list \<Rightarrow> time \<Rightarrow> bool \<Rightarrow> rules_world \<Rightarrow> (string \<times> string \<times> string) list \<times> rules_world" where
  "rules_tick env ws now running w =
    (if running then ([], w)
     else case runDueRules env now w of
       (Inl _, w') \<Rightarrow> ([], w') | (Inr reps, w') \<Rightarrow> (concat (map (rule_delivery ws) reps), w'))"

end
