(* ===== verification/RuleFacts.thy ===== *)
theory RuleFacts
  imports Rules
begin

text \<open>
  Properties of the rule engine: what a run may send to Meta and record, its guardrails, its schedule,
  and the isolation of workspaces.
\<close>

section \<open>What a step changes\<close>

definition writes :: "meta_log \<Rightarrow> meta_log" where
  "writes sent = filter (\<lambda>q. mq_method q \<noteq> GET) sent"

lemma writes_append [simp]: "writes (xs @ ys) = writes xs @ writes ys"
  by (simp add: writes_def)

lemma writes_Nil [simp]: "writes [] = []"
  by (simp add: writes_def)

lemma length_writes: "length (writes xs) \<le> length xs"
  by (simp add: writes_def)

lemma rule_send_effect:
  "rule_send env q w = (answer, w') \<Longrightarrow>
     sent_by w' = sent_by w @ [q] \<and> ru_actions w' = ru_actions w \<and> ru_rules w' = ru_rules w"
  by (auto simp: rule_send_def sent_by_def meta_send_def Let_def)

lemma recordAction_effect:
  "recordAction env now r b act d s e w = (res, w') \<Longrightarrow>
     sent_by w' = sent_by w \<and> ru_rules w' = ru_rules w \<and>
     ru_actions w' = ru_actions w @ (case res of Inl _ \<Rightarrow> []
        | Inr _ \<Rightarrow> [action_row (re_id env (length (ru_actions w))) now r b act d s e])"
  by (auto simp: recordAction_def sent_by_def Let_def split: option.splits)

text \<open>The requests a rule may send: pausing an entity, or setting its budget by the clamped percentage.\<close>

definition permitted :: "ad_rule \<Rightarrow> string \<Rightarrow> meta_request \<Rightarrow> bool" where
  "permitted r token q \<longleftrightarrow> (\<exists>entity.
     (ar_action r = PAUSE \<and> q = entity_update r token entity (JStr ''PAUSED'') JUndef)
     \<or> (ar_action r \<noteq> PAUSE \<and> (\<exists>current. q = entity_update r token entity JUndef (JNum (scaled_budget current (pct_of r))))))"

lemma permitted_updates:
  "ar_action r = PAUSE \<Longrightarrow> permitted r token (entity_update r token entity (JStr ''PAUSED'') JUndef)"
  "ar_action r \<noteq> PAUSE \<Longrightarrow> permitted r token (entity_update r token entity JUndef (JNum (scaled_budget current (pct_of r))))"
  unfolding permitted_def by blast+

lemma applyAction_effect:
  "applyAction env r token b entity budgets w = (res, w') \<Longrightarrow>
     ru_actions w' = ru_actions w \<and> ru_rules w' = ru_rules w \<and>
     (\<exists>qs. sent_by w' = sent_by w @ qs \<and> length qs \<le> 1 \<and> (\<forall>q \<in> set qs. permitted r token q))"
  by (auto simp: applyAction_def Let_def permitted_updates split: if_splits option.splits prod.splits sum.splits
      dest!: rule_send_effect)

definition own_action :: "time \<Rightarrow> ad_rule \<Rightarrow> rule_action \<Rightarrow> bool" where
  "own_action now r a \<longleftrightarrow> ra_ruleId a = ar_id r \<and> ra_workspaceId a = ar_workspaceId r \<and> ra_createdAt a = now"

lemma own_action_row [simp]: "own_action now r (action_row i now r b act d s e)"
  by (simp add: own_action_def action_row_def)

text \<open>One step of the engine: what it sends, what it records and what it leaves alone.\<close>

definition engine_step :: "nat \<Rightarrow> nat \<Rightarrow> time \<Rightarrow> ad_rule \<Rightarrow> string \<Rightarrow> rules_world \<Rightarrow> rules_world \<Rightarrow> bool" where
  "engine_step m n now r token w w' \<longleftrightarrow> ru_rules w' = ru_rules w
     \<and> (\<exists>qs. sent_by w' = sent_by w @ qs \<and> length (writes qs) \<le> m
          \<and> (\<forall>q \<in> set (writes qs). permitted r token q))
     \<and> (\<exists>as. ru_actions w' = ru_actions w @ as \<and> (\<forall>a \<in> set as. own_action now r a)
          \<and> length (filter (counts_today now r) as) \<le> n)"

lemma engine_step_refl: "engine_step 0 0 now r token w w"
  by (simp add: engine_step_def)

lemma engine_step_trans:
  assumes "engine_step m n now r token w w1" and "engine_step m' n' now r token w1 w2"
  shows "engine_step (m + m') (n + n') now r token w w2"
proof -
  from assms obtain qs as qs' as' where
    "sent_by w1 = sent_by w @ qs" "length (writes qs) \<le> m" "\<forall>q \<in> set (writes qs). permitted r token q"
    "ru_actions w1 = ru_actions w @ as" "\<forall>a \<in> set as. own_action now r a" "length (filter (counts_today now r) as) \<le> n"
    "sent_by w2 = sent_by w1 @ qs'" "length (writes qs') \<le> m'" "\<forall>q \<in> set (writes qs'). permitted r token q"
    "ru_actions w2 = ru_actions w1 @ as'" "\<forall>a \<in> set as'. own_action now r a" "length (filter (counts_today now r) as') \<le> n'"
    "ru_rules w2 = ru_rules w"
    by (auto simp: engine_step_def)
  then show ?thesis unfolding engine_step_def
    by (intro conjI exI[of _ "qs @ qs'"] exI[of _ "as @ as'"]) auto
qed

lemma engine_step_mono: "engine_step m n now r token w w' \<Longrightarrow> m \<le> m' \<Longrightarrow> n \<le> n' \<Longrightarrow> engine_step m' n' now r token w w'"
  unfolding engine_step_def by (meson le_trans)

lemma applyAction_step:
  assumes "applyAction env r token b entity budgets w = (res, w')"
  shows "engine_step 1 0 now r token w w'"
proof -
  from applyAction_effect[OF assms] obtain qs where
    "sent_by w' = sent_by w @ qs" "length qs \<le> 1" "\<forall>q \<in> set qs. permitted r token q"
    "ru_actions w' = ru_actions w" "ru_rules w' = ru_rules w" by blast
  moreover have "length (writes qs) \<le> 1" using length_writes[of qs] \<open>length qs \<le> 1\<close> by linarith
  moreover have "set (writes qs) \<subseteq> set qs" by (auto simp: writes_def)
  ultimately show ?thesis unfolding engine_step_def
    by (intro conjI exI[of _ qs] exI[of _ "[]"]) auto
qed

lemma recordAction_step:
  assumes "recordAction env now r b act d s e w = (res, w')"
  shows "engine_step 0 (case res of Inl _ \<Rightarrow> 0 | Inr _ \<Rightarrow> if s \<and> act = ar_action r then 1 else 0) now r token w w'"
  using recordAction_effect[OF assms] unfolding engine_step_def
  by (cases res) (auto simp: counts_today_def action_row_def own_action_def)

lemma read_step:
  assumes "rule_send env q w = (answer, w')" and "mq_method q = GET"
  shows "engine_step 0 0 now r token w w'"
  using rule_send_effect[OF assms(1)] assms(2) by (auto simp: engine_step_def writes_def)

section \<open>A run stays within its caps\<close>

lemma try_action_step:
  assumes "try_action env now r token b entity budgets w = (res, w')"
  shows "engine_step 1 1 now r token w w'"
proof -
  obtain ra w1 where a: "applyAction env r token b entity budgets w = (ra, w1)" by fastforce
  show ?thesis
  proof (cases ra)
    case (Inl e)
    with assms a have "w' = w1" by (simp add: try_action_def)
    with applyAction_step[OF a] show ?thesis by (auto intro: engine_step_mono)
  next
    case (Inr detail)
    obtain rb w2 where b: "recordAction env now r b (ar_action r) (Some detail) True None w1 = (rb, w2)" by fastforce
    with assms a Inr have "w' = w2" by (auto simp: try_action_def split: sum.splits)
    moreover have "engine_step 0 1 now r token w1 w2"
      using recordAction_step[OF b] by (cases rb) (auto intro: engine_step_mono)
    ultimately show ?thesis using engine_step_trans[OF applyAction_step[OF a]] by fastforce
  qed
qed

lemma failure_step:
  assumes "recordAction env now r b act d False e w = (res, w')"
  shows "engine_step 0 0 now r token w w'"
  using recordAction_step[OF assms] by (cases res) simp_all

lemma act_on_breaches_step:
  "act_on_breaches env now r token budgets bs outcome w = (res, w') \<Longrightarrow>
     engine_step (length bs) (length bs) now r token w w'"
proof (induction bs arbitrary: outcome w)
  case Nil
  then show ?case by (simp add: engine_step_refl)
next
  case (Cons b bs)
  obtain acted failed where o: "outcome = (acted, failed)" by fastforce
  show ?case
  proof (cases "br_entityId b = None \<or> br_entityId b = Some []")
    case True
    then obtain outcome' where "act_on_breaches env now r token budgets bs outcome' w = (res, w')"
      using Cons.prems by (auto simp: o)
    from Cons.IH[OF this] show ?thesis by (auto intro: engine_step_mono)
  next
    case False
    then obtain c cs where e: "br_entityId b = Some (c # cs)" by (cases "br_entityId b") (auto simp: neq_Nil_conv)
    obtain rt w1 where t: "try_action env now r token b (c # cs) budgets w = (rt, w1)" by fastforce
    note st = try_action_step[OF t]
    show ?thesis
    proof (cases rt)
      case (Inr detail)
      with Cons.prems t have "act_on_breaches env now r token budgets bs (acted @ [detail], failed) w1 = (res, w')"
        by (simp add: e o)
      from engine_step_trans[OF st Cons.IH[OF this]] show ?thesis by simp
    next
      case (Inl er)
      obtain rf w2 where f: "recordAction env now r b (ar_action r) None False (Some (error_message er)) w1 = (rf, w2)" by fastforce
      note s2 = engine_step_trans[OF st failure_step[OF f]]
      show ?thesis
      proof (cases rf)
        case (Inl e')
        with Cons.prems t f \<open>rt = Inl er\<close> have "w' = w2" by (simp add: e o)
        with s2 show ?thesis by (auto intro: engine_step_mono)
      next
        case (Inr u)
        with Cons.prems t f \<open>rt = Inl er\<close>
        have "act_on_breaches env now r token budgets bs (acted, failed @ [breach_label b @ '': '' @ error_message er]) w2 = (res, w')"
          by (simp add: e o)
        from engine_step_trans[OF s2 Cons.IH[OF this]] show ?thesis by simp
      qed
    qed
  qed
qed

lemma record_alerts_step:
  "record_alerts env now r bs w = (res, w') \<Longrightarrow>
     ru_rules w' = ru_rules w \<and> sent_by w' = sent_by w
     \<and> (\<exists>as. ru_actions w' = ru_actions w @ as \<and> (\<forall>a \<in> set as. own_action now r a \<and> ra_action a = ALERT))"
proof (induction bs arbitrary: w)
  case (Cons b bs)
  obtain ra w1 where a: "recordAction env now r b ALERT (Some (alertDetail r b)) True None w = (ra, w1)" by fastforce
  note ef = recordAction_effect[OF a]
  show ?case
  proof (cases ra)
    case (Inl e)
    with Cons.prems a ef show ?thesis by auto
  next
    case (Inr u)
    with Cons.prems a have "record_alerts env now r bs w1 = (res, w')" by simp
    from Cons.IH[OF this] Inr ef obtain as where
      "ru_rules w' = ru_rules w" "sent_by w' = sent_by w"
      "ru_actions w' = ru_actions w @ [action_row (re_id env (length (ru_actions w))) now r b ALERT (Some (alertDetail r b)) True None] @ as"
      "\<forall>a \<in> set as. own_action now r a \<and> ra_action a = ALERT" by auto
    then show ?thesis by (auto simp: action_row_def own_action_def)
  qed
qed simp

lemma loadBudgets_step:
  assumes "loadBudgets env r token' w = (res, w')"
  shows "engine_step 0 0 now r token w w'"
proof -
  let ?q = "if ar_scope r = ADSET then listAdSetsForAccount token' (ar_adAccountId r)
            else listCampaigns token' (ar_adAccountId r) []"
  obtain answer w1 where s: "rule_send env ?q w = (answer, w1)" by fastforce
  have "mq_method ?q = GET" by (simp add: listAdSetsForAccount_def listCampaigns_def meta_get_def)
  from read_step[OF s this] have "engine_step 0 0 now r token w w1" .
  moreover have "w' = w1" using assms s by (auto simp: loadBudgets_def split: sum.splits option.splits)
  ultimately show ?thesis by simp
qed

lemma length_js_slice: "0 \<le> n \<Longrightarrow> length (js_slice n xs) \<le> nat n"
  by (simp add: js_slice_def)

definition run_cap :: "time \<Rightarrow> ad_rule \<Rightarrow> rules_world \<Rightarrow> nat" where
  "run_cap now r w = (if mutates r then nat (action_cap now r (ru_actions w)) else 0)"

lemma executeMutations_step:
  assumes "executeMutations env now r token bs w = (res, w')" and m: "mutates r"
  shows "engine_step (run_cap now r w) (run_cap now r w) now r token w w'"
proof (cases "action_cap now r (ru_actions w) \<le> 0")
  case True
  with assms show ?thesis by (simp add: executeMutations_def engine_step_refl run_cap_def)
next
  case False
  let ?cap = "action_cap now r (ru_actions w)"
  obtain budgets w1 where b: "(if ar_action r = SCALE then loadBudgets env r token w else (Inr [], w)) = (budgets, w1)"
    by fastforce
  then have s1: "engine_step 0 0 now r token w w1"
    by (auto split: if_splits intro: loadBudgets_step engine_step_refl)
  show ?thesis
  proof (cases budgets)
    case (Inl e)
    with False assms(1) b have "w' = w1" by (simp add: executeMutations_def Let_def)
    with s1 show ?thesis by (auto intro: engine_step_mono)
  next
    case (Inr budget)
    obtain outcome w2 where a: "act_on_breaches env now r token budget (js_slice ?cap bs) ([], []) w1 = (outcome, w2)"
      by fastforce
    with Inr False assms(1) b have "w' = w2" by (simp add: executeMutations_def Let_def)
    moreover have "length (js_slice ?cap bs) \<le> run_cap now r w"
      using False m length_js_slice[of ?cap bs] by (simp add: run_cap_def)
    ultimately show ?thesis
      using engine_step_trans[OF s1 act_on_breaches_step[OF a]] by (auto intro: engine_step_mono)
  qed
qed

text \<open>A run as a whole: what it may send, and what it records when it may mutate.\<close>

definition engine_run :: "time \<Rightarrow> ad_rule \<Rightarrow> string \<Rightarrow> rules_world \<Rightarrow> rules_world \<Rightarrow> bool" where
  "engine_run now r token w w' \<longleftrightarrow> ru_rules w' = ru_rules w
     \<and> (\<exists>qs. sent_by w' = sent_by w @ qs \<and> length (writes qs) \<le> run_cap now r w
          \<and> (\<forall>q \<in> set (writes qs). permitted r token q))
     \<and> (\<exists>as. ru_actions w' = ru_actions w @ as \<and> (\<forall>a \<in> set as. own_action now r a)
          \<and> (mutates r \<longrightarrow> length (filter (counts_today now r) as) \<le> run_cap now r w))"

lemma engine_step_run:
  "engine_step (run_cap now r w) (run_cap now r w) now r token w w' \<Longrightarrow> engine_run now r token w w'"
  unfolding engine_step_def engine_run_def by blast

lemma engine_run_after_read:
  assumes "engine_step 0 0 now r token w w1" and "engine_run now r token w1 w'" and "run_cap now r w1 = run_cap now r w"
  shows "engine_run now r token w w'"
proof -
  from assms(1) obtain qs as where 1: "ru_rules w1 = ru_rules w" "sent_by w1 = sent_by w @ qs" "writes qs = []"
    "ru_actions w1 = ru_actions w @ as" "\<forall>a \<in> set as. own_action now r a" "filter (counts_today now r) as = []"
    by (auto simp: engine_step_def)
  from assms(2,3) obtain qs' as' where 2: "ru_rules w' = ru_rules w1" "sent_by w' = sent_by w1 @ qs'"
    "length (writes qs') \<le> run_cap now r w" "\<forall>q \<in> set (writes qs'). permitted r token q"
    "ru_actions w' = ru_actions w1 @ as'" "\<forall>a \<in> set as'. own_action now r a"
    "mutates r \<longrightarrow> length (filter (counts_today now r) as') \<le> run_cap now r w"
    by (auto simp: engine_run_def)
  show ?thesis unfolding engine_run_def
    by (intro conjI exI[of _ "qs @ qs'"] exI[of _ "as @ as'"]) (use 1 2 in auto)
qed

lemma alerts_run:
  assumes "ru_rules w' = ru_rules w" "sent_by w' = sent_by w @ qs" "writes qs = []" "ru_actions w' = ru_actions w @ as"
    and "\<forall>a \<in> set as. own_action now r a \<and> ra_action a = ALERT"
  shows "engine_run now r token w w'"
proof -
  have "filter (counts_today now r) as = []" if "mutates r"
    using that assms(5) by (auto simp: filter_empty_conv counts_today_def mutates_def)
  with assms show ?thesis unfolding engine_run_def by auto
qed

lemma judge_insights_run:
  assumes "judge_insights env now r token insights w = (res, w')"
  shows "engine_run now r token w w'"
proof -
  note quiet = engine_step_run[OF engine_step_mono[OF engine_step_refl]]
  let ?data = "get_prop insights ''data''"
  show ?thesis
  proof (cases "if is_nullish ?data then Some [] else arr_of ?data")
    case None
    with assms have "w' = w" by (simp add: judge_insights_def Let_def)
    with quiet show ?thesis by simp
  next
    case (Some rows)
    obtain bs where bs: "concat (map (row_breach r) rows) = bs" by blast
    consider "bs = []" | "bs \<noteq> []" "\<not> mutates r" | "bs \<noteq> []" "mutates r" by blast
    then show ?thesis
    proof cases
      case 1
      with assms Some have "w' = w" by (simp add: judge_insights_def Let_def bs)
      with quiet show ?thesis by simp
    next
      case 2
      obtain saved w1 where a: "record_alerts env now r (js_slice (ar_maxActionsPerRun r) bs) w = (saved, w1)" by fastforce
      with assms Some 2 have "w' = w1" by (simp add: judge_insights_def Let_def bs)
      with record_alerts_step[OF a] show ?thesis by (auto intro: alerts_run[where qs = "[]"])
    next
      case 3
      with assms Some have "executeMutations env now r token bs w = (res, w')"
        by (simp add: judge_insights_def Let_def bs)
      from executeMutations_step[OF this 3(2)] show ?thesis by (rule engine_step_run)
    qed
  qed
qed

lemma getInsights_GET [simp]: "mq_method (getInsights token p) = GET"
  by (simp add: getInsights_def meta_get_def)

lemma verify_reads:
  "verify env i now ws user p w = (res, w') \<Longrightarrow>
     \<exists>qs. mw_sent (aw_meta w') = mw_sent (aw_meta w) @ qs \<and> writes qs = []"
  by (auto simp: verify_def Let_def persistSnapshot_def meta_send_def writes_def
      split: prod.splits option.splits sum.splits if_splits)

lemma evaluateVerifiedRoas_run:
  assumes "evaluateVerifiedRoas env now r since until w = (res, w')"
  shows "engine_run now r token w w'"
proof -
  let ?v = "verify (re_ads env) (re_id env (length (aw_snapshots (ru_ads w)))) now (ar_workspaceId r)
             (ar_createdByUserId r) \<lparr>vp_adAccountId = ar_adAccountId r, vp_since = since, vp_until = until, vp_currency = None\<rparr>
             (ru_ads w)"
  obtain result a where v: "?v = (result, a)" by fastforce
  define w1 where "w1 = w\<lparr>ru_ads := a\<rparr>"
  from verify_reads[OF v] obtain qs where q: "sent_by w1 = sent_by w @ qs" "writes qs = []" by (auto simp: sent_by_def w1_def)
  have l: "lift_ads ?v w = (result, w1)" by (simp add: lift_ads_def v w1_def)
  have same: "ru_rules w1 = ru_rules w" "ru_actions w1 = ru_actions w" by (simp_all add: w1_def)
  consider "w' = w1"
    | b saved where "recordAction env now r b ALERT (Some (alertDetail r b)) True None w1 = (saved, w')"
    using assms unfolding evaluateVerifiedRoas_def Let_def l
    by (auto split: sum.splits option.splits if_splits prod.splits)
  then show ?thesis
  proof cases
    case 1
    with q same show ?thesis by (intro alerts_run[where qs = qs and as = "[]"]) simp_all
  next
    case 2
    from recordAction_effect[OF this] q same
    have "sent_by w' = sent_by w @ qs" "ru_rules w' = ru_rules w"
      "ru_actions w' = ru_actions w @ (case saved of Inl _ \<Rightarrow> [] | Inr _ \<Rightarrow>
         [action_row (re_id env (length (ru_actions w1))) now r b ALERT (Some (alertDetail r b)) True None])" by simp_all
    with q(2) show ?thesis
      by (intro alerts_run[where qs = qs]) (auto simp: action_row_def own_action_def split: sum.splits)
  qed
qed

lemma evaluateRule_run:
  assumes "evaluateRule env now r w = (res, w')"
  shows "\<exists>token. engine_run now r token w w'"
proof -
  obtain t rows' where t: "getMetaAccessToken (ae_oauth (re_ads env)) now (ar_workspaceId r) (ar_createdByUserId r)
      (mw_rows (aw_meta (ru_ads w))) = (t, rows')" by fastforce
  define w1 where "w1 = w\<lparr>ru_ads := (ru_ads w)\<lparr>aw_meta := (aw_meta (ru_ads w))\<lparr>mw_rows := rows'\<rparr>\<rparr>\<rparr>"
  have s1: "engine_step 0 0 now r token w w1" for token by (simp add: engine_step_def w1_def sent_by_def)
  have cap: "run_cap now r w1 = run_cap now r w" by (simp add: run_cap_def w1_def)
  note first = engine_run_after_read[OF s1 _ cap]
  have idle: "engine_run now r token x x" for token x
    by (rule engine_step_run[OF engine_step_mono[OF engine_step_refl]]) simp_all
  consider "w' = w1"
    | since until where "evaluateVerifiedRoas env now r since until w1 = (res, w')"
    | token p answer w2 where "rule_send env (getInsights token p) w1 = (answer, w2)"
       "w' = w2 \<or> (\<exists>insights. judge_insights env now r token insights w2 = (res, w'))"
    using assms unfolding evaluateRule_def Let_def t prod.case w1_def [symmetric]
    by (auto split: option.splits sum.splits prod.splits if_splits) blast+
  then show ?thesis
  proof cases
    case 1
    with first idle show ?thesis by blast
  next
    case 2
    with first evaluateVerifiedRoas_run show ?thesis by blast
  next
    case 3
    have s2: "engine_step 0 0 now r token w1 w2" by (rule read_step[OF 3(1)]) simp
    have c2: "run_cap now r w2 = run_cap now r w1" using rule_send_effect[OF 3(1)] by (simp add: run_cap_def)
    from 3(2) idle judge_insights_run have "engine_run now r token w2 w'" by blast
    from first[OF engine_run_after_read[OF s2 this c2]] show ?thesis by blast
  qed
qed

text \<open>Whatever Meta, the database and the connections do, one evaluation of a rule sends at most
  \<open>min(maxActionsPerRun, what is left of the daily cap)\<close> changes to Meta, none at all when the rule
  only alerts, is not to execute on its own or watches an account; each change pauses an entity or sets
  its budget by the clamped percentage, and every audit row it adds is the rule's own.\<close>

theorem rule_run_within_caps:
  assumes "evaluateRule env now r w = (res, w')"
  shows "\<exists>token qs as. sent_by w' = sent_by w @ qs
      \<and> int (length (writes qs)) \<le> (if mutates r then max 0 (action_cap now r (ru_actions w)) else 0)
      \<and> (\<forall>q \<in> set (writes qs). permitted r token q)
      \<and> ru_rules w' = ru_rules w \<and> ru_actions w' = ru_actions w @ as \<and> (\<forall>a \<in> set as. own_action now r a)"
proof -
  from evaluateRule_run[OF assms] obtain token qs as where
    "ru_rules w' = ru_rules w" "sent_by w' = sent_by w @ qs" "length (writes qs) \<le> run_cap now r w"
    "\<forall>q \<in> set (writes qs). permitted r token q" "ru_actions w' = ru_actions w @ as" "\<forall>a \<in> set as. own_action now r a"
    unfolding engine_run_def by blast
  moreover from this(3) have "int (length (writes qs)) \<le> (if mutates r then max 0 (action_cap now r (ru_actions w)) else 0)"
    by (auto simp: run_cap_def)
  ultimately show ?thesis by blast
qed

section \<open>The daily cap over many runs\<close>

lemma used_today_append:
  "used_today now r (xs @ ys) = used_today now r xs + int (length (filter (counts_today now r) ys))"
  by (simp add: used_today_def)

lemma used_today_later:
  "now \<le> later \<Longrightarrow> used_today later r xs \<le> used_today now r xs"
  unfolding used_today_def counts_today_def by (induction xs) auto

lemma used_today_same:
  "ar_id r' = ar_id r \<Longrightarrow> ar_action r' = ar_action r \<Longrightarrow> used_today now r' xs = used_today now r xs"
  unfolding used_today_def counts_today_def by simp

lemma evaluateRule_used:
  assumes e: "evaluateRule env now r' w = (res, w')" and m: "ar_id r' = ar_id r \<Longrightarrow> mutates r' \<and> ar_action r' = ar_action r
      \<and> ar_dailyActionCap r' = ar_dailyActionCap r"
  shows "used_today now r (ru_actions w') \<le> max (used_today now r (ru_actions w)) (ar_dailyActionCap r)"
proof -
  from evaluateRule_run[OF e] obtain as where
    as: "ru_actions w' = ru_actions w @ as" "\<forall>a \<in> set as. own_action now r' a"
    "mutates r' \<longrightarrow> length (filter (counts_today now r') as) \<le> run_cap now r' w"
    unfolding engine_run_def by blast
  show ?thesis
  proof (cases "ar_id r' = ar_id r")
    case False
    with as(2) have "filter (counts_today now r) as = []" by (auto simp: filter_empty_conv counts_today_def own_action_def)
    with as(1) show ?thesis by (simp add: used_today_append)
  next
    case True
    note same = m[OF True]
    have c: "counts_today now r' = counts_today now r" using True same by (auto simp: counts_today_def fun_eq_iff)
    have "int (length (filter (counts_today now r) as)) \<le> max 0 (action_cap now r' (ru_actions w))"
      using as(3) same by (auto simp: run_cap_def c)
    also have "\<dots> \<le> max 0 (ar_dailyActionCap r - used_today now r (ru_actions w))"
      using same used_today_same[OF True] by (simp add: action_cap_def)
    finally show ?thesis unfolding as(1) used_today_append by linarith
  qed
qed

text \<open>Evaluations one after the other, each of some rule at some time.\<close>

fun evaluations :: "rules_env \<Rightarrow> (time \<times> ad_rule) list \<Rightarrow> rules_world \<Rightarrow> rules_world" where
  "evaluations env [] w = w"
| "evaluations env ((now, r) # runs) w = evaluations env runs (snd (evaluateRule env now r w))"

definition same_rule :: "ad_rule \<Rightarrow> ad_rule \<Rightarrow> bool" where
  "same_rule r r' \<longleftrightarrow> (ar_id r' = ar_id r \<longrightarrow> mutates r' \<and> ar_action r' = ar_action r
     \<and> ar_dailyActionCap r' = ar_dailyActionCap r)"

text \<open>C16: The daily cap: over any sequence of evaluations of any rules in time order, the recorded changes of a
  mutating rule within the last 24 hours never exceed its daily cap, unless they did to begin with.\<close>

theorem daily_cap_over_runs:
  assumes "sorted (start # map fst runs @ [finish])" and "\<forall>(t, r') \<in> set runs. same_rule r r'"
  shows "used_today finish r (ru_actions (evaluations env runs w))
     \<le> max (used_today start r (ru_actions w)) (ar_dailyActionCap r)"
  using assms
proof (induction runs arbitrary: start w)
  case Nil
  then show ?case using used_today_later[of start finish r "ru_actions w"] by simp
next
  case (Cons run runs)
  obtain now r' where run: "run = (now, r')" by fastforce
  obtain res w1 where e: "evaluateRule env now r' w = (res, w1)" by fastforce
  have "used_today finish r (ru_actions (evaluations env runs w1)) \<le> max (used_today now r (ru_actions w1)) (ar_dailyActionCap r)"
    using Cons.prems run by (intro Cons.IH) auto
  also have "\<dots> \<le> max (used_today now r (ru_actions w)) (ar_dailyActionCap r)"
    using evaluateRule_used[OF e, of r] Cons.prems(2) run by (fastforce simp: same_rule_def)
  also have "\<dots> \<le> max (used_today start r (ru_actions w)) (ar_dailyActionCap r)"
    using Cons.prems(1) run used_today_later[of start now r "ru_actions w"] by simp
  finally show ?case by (simp add: run e)
qed

section \<open>Samples\<close>

definition sample_rule :: ad_rule where
  "sample_rule = \<lparr>ar_id = ''r1'', ar_workspaceId = ''w1'', ar_name = ''n'', ar_adAccountId = ''1'', ar_scope = CAMPAIGN,
     ar_metric = SPEND, ar_comparator = GT, ar_threshold = Fin 10, ar_windowDays = 3, ar_action = PAUSE, ar_scalePct = None,
     ar_autoExecute = True, ar_maxScalePct = 25, ar_maxActionsPerRun = 10, ar_dailyActionCap = 1,
     ar_cronExpression = ''c'', ar_timezone = None, ar_slackChannelId = None, ar_isActive = True,
     ar_createdByUserId = Some ''b'', ar_lastRun = None, ar_nextRun = Some 0\<rparr>"

definition sample_row :: "string \<Rightarrow> jsval" where
  "sample_row name = JObj [(''spend'', JStr ''20''), (''campaign_id'', JStr ''7''), (''campaign_name'', JStr name)]"

definition rule_graph :: "string \<Rightarrow> graph_api" where
  "rule_graph name sent q = Reply True 200 (Some (if mq_method q = GET then JObj [(''data'', JArr [sample_row name])] else JObj []))"

definition name_too_long :: "rule_action \<Rightarrow> string option" where
  "name_too_long a = (case ra_entityName a of Some n \<Rightarrow> if 255 < length n then Some ''value too long'' else None | None \<Rightarrow> None)"

definition daily_cron :: cron where
  "daily_cron e tz now = Some (now + ms_per_day)"

definition sample_rules_env :: "string \<Rightarrow> rules_env" where
  "sample_rules_env name = \<lparr>re_ads = sample_ads_env\<lparr>ae_graph := rule_graph name\<rparr>, re_cron = daily_cron,
     re_id = (\<lambda>n. show_nat n), re_refuses = name_too_long\<rparr>"

definition sample_rules_world :: "meta_log \<Rightarrow> rules_world" where
  "sample_rules_world sent = \<lparr>ru_ads = sample_ads_world\<lparr>aw_meta := \<lparr>mw_rows = sample_integrations @ [sample_stripe_row], mw_sent = sent\<rparr>\<rparr>,
     ru_rules = [sample_rule], ru_actions = []\<rparr>"

lemma sample_rule_window: "rule_window 0 3 = Inr (''1969-12-29'', ''1970-01-01'')"
  by code_simp

lemma sample_spend_row: "to_number (JStr ''20'') = Fin 20"
  by code_simp

lemma sample_rule_simps:
  "ar_windowDays sample_rule = 3" "ar_metric sample_rule = SPEND" "ar_adAccountId sample_rule = ''1''"
  "ar_scope sample_rule = CAMPAIGN" "ar_action sample_rule = PAUSE" "ar_comparator sample_rule = GT"
  "ar_id sample_rule = ''r1''" "ar_dailyActionCap sample_rule = 1" "ar_maxActionsPerRun sample_rule = 10"
  by (simp_all add: sample_rule_def)

lemma sample_rule_threshold: "threshold_of sample_rule = Fin 10"
  using fl_of_int[of 10] by (simp add: threshold_of_def sample_rule_def)

definition sample_breach :: "string \<Rightarrow> breach" where
  "sample_breach name = \<lparr>br_entityId = Some ''7'', br_entityName = Some name, br_value = Fin 20\<rparr>"

lemma sample_row_breach: "row_breach sample_rule (sample_row name) = [sample_breach name]"
  by (simp add: row_breach_def sample_row_def object_prototype_def sample_spend_row breaches_def opt_str_def
      sample_rule_simps sample_rule_threshold sample_breach_def Let_def)

definition sample_read :: meta_request where
  "sample_read = getInsights ''token-i2'' \<lparr>in_adAccountId = ''1'', in_level = JStr ''campaign'', in_datePreset = JUndef,
     in_since = JStr ''1969-12-29'', in_until = JStr ''1970-01-01'', in_fields = map JStr INSIGHT_FIELDS\<rparr>"

definition sample_pause :: meta_request where
  "sample_pause = entity_update sample_rule ''token-i2'' ''7'' (JStr ''PAUSED'') JUndef"

lemma sample_send:
  "rule_send (sample_rules_env name) q (sample_rules_world sent) =
     (Inr (if mq_method q = GET then JObj [(''data'', JArr [sample_row name])] else JObj []), sample_rules_world (sent @ [q]))"
  by (simp add: rule_send_def sample_rules_env_def sample_rules_world_def meta_send_def rule_graph_def read_reply_def
      object_prototype_def)

lemma sample_evaluation:
  "evaluateRule (sample_rules_env name) 0 sample_rule (sample_rules_world sent) =
     judge_insights (sample_rules_env name) 0 sample_rule ''token-i2'' (JObj [(''data'', JArr [sample_row name])])
       (sample_rules_world (sent @ [sample_read]))"
proof -
  have t: "getMetaAccessToken (ae_oauth (re_ads (sample_rules_env name))) 0 (ar_workspaceId sample_rule)
      (ar_createdByUserId sample_rule) (mw_rows (aw_meta (ru_ads (sample_rules_world sent)))) =
        (Some ''token-i2'', sample_integrations @ [sample_stripe_row])"
    using sample_token by (simp add: sample_rules_env_def sample_ads_env_def sample_rule_def sample_rules_world_def)
  have w: "(sample_rules_world sent)\<lparr>ru_ads := (ru_ads (sample_rules_world sent))\<lparr>aw_meta :=
      (aw_meta (ru_ads (sample_rules_world sent)))\<lparr>mw_rows := sample_integrations @ [sample_stripe_row]\<rparr>\<rparr>\<rparr> = sample_rules_world sent"
    by (simp add: sample_rules_world_def)
  show ?thesis
    unfolding evaluateRule_def Let_def t prod.case w option.case sample_rule_simps sample_rule_window sum.case
      scope_text.simps sample_send sample_read_def [symmetric]
    by (simp add: sample_read_def)
qed

lemma sample_pause_POST: "mq_method sample_pause = POST"
  by (simp add: sample_pause_def entity_update_def updateCampaign_def meta_post_def sample_rule_simps)

lemma sample_mutates: "mutates sample_rule"
  by (simp add: mutates_def sample_rule_def)

lemma sample_cap: "action_cap 0 sample_rule (ru_actions (sample_rules_world sent)) = 1"
  by (simp add: action_cap_def used_today_def sample_rules_world_def sample_rule_simps)

lemma sample_recorded:
  "recordAction (sample_rules_env name) 0 sample_rule (sample_breach name) PAUSE d s e (sample_rules_world sent) =
     (if 255 < length name then (Inl (PlainError ''value too long''), sample_rules_world sent)
      else (Inr (), (sample_rules_world sent)\<lparr>ru_actions := [action_row ''0'' 0 sample_rule (sample_breach name) PAUSE d s e]\<rparr>))"
proof -
  have "show_nat 0 = ''0''" by code_simp
  then show ?thesis
    by (simp add: recordAction_def sample_rules_env_def sample_rules_world_def name_too_long_def action_row_def sample_breach_def Let_def)
qed

lemma sample_change:
  "snd (evaluateRule (sample_rules_env name) 0 sample_rule (sample_rules_world sent)) =
     (if 255 < length name then sample_rules_world (sent @ [sample_read, sample_pause])
      else (sample_rules_world (sent @ [sample_read, sample_pause]))\<lparr>ru_actions :=
        [action_row ''0'' 0 sample_rule (sample_breach name) PAUSE (Some (paused_detail sample_rule (sample_breach name))) True None]\<rparr>)"
proof -
  have i: "br_entityId (sample_breach name) = Some ''7''" by (simp add: sample_breach_def)
  show ?thesis
    by (cases "255 < length name")
       (simp_all add: sample_mutates sample_pause_POST sample_evaluation judge_insights_def Let_def object_prototype_def
         sample_row_breach executeMutations_def sample_cap js_slice_def sample_rule_simps i applyAction_def try_action_def
         sample_pause_def [symmetric] sample_send sample_recorded)
qed

lemma rule_run_within_caps_witness:
  "map mq_method (writes (sent_by (snd (evaluateRule (sample_rules_env ''x'') 0 sample_rule (sample_rules_world []))))) = [POST]
   \<and> (\<exists>token qs as. sent_by (snd (evaluateRule (sample_rules_env ''x'') 0 sample_rule (sample_rules_world []))) = qs
      \<and> int (length (writes qs)) \<le> 1 \<and> (\<forall>q \<in> set (writes qs). permitted sample_rule token q)
      \<and> ru_actions (snd (evaluateRule (sample_rules_env ''x'') 0 sample_rule (sample_rules_world []))) = as
      \<and> (\<forall>a \<in> set as. own_action 0 sample_rule a))"
proof -
  obtain res w' where e: "evaluateRule (sample_rules_env ''x'') 0 sample_rule (sample_rules_world []) = (res, w')" by fastforce
  have s: "sent_by (sample_rules_world sent) = sent" "ru_actions (sample_rules_world sent) = []" for sent
    by (simp_all add: sent_by_def sample_rules_world_def)
  have "mq_method sample_read = GET" by (simp add: sample_read_def)
  then have "map mq_method (writes (sent_by w')) = [POST]"
    using sample_change[of "''x''" "[]"] sample_pause_POST e s(1)[of "[sample_read, sample_pause]"]
    by (simp add: writes_def sent_by_def)
  with rule_run_within_caps[OF e] show ?thesis by (simp add: e s sample_mutates sample_cap [unfolded s])
qed

lemma daily_cap_over_runs_witness:
  "used_today 0 sample_rule (ru_actions (evaluations (sample_rules_env ''x'') [(0, sample_rule), (0, sample_rule)] (sample_rules_world [])))
     \<le> 1"
proof -
  have "sorted (0 # map fst [(0 :: time, sample_rule), (0, sample_rule)] @ [0])" by simp
  moreover have "\<forall>(t, r') \<in> set [(0 :: time, sample_rule), (0, sample_rule)]. same_rule sample_rule r'"
    by (simp add: same_rule_def sample_mutates)
  moreover have "used_today 0 sample_rule (ru_actions (sample_rules_world [])) = 0"
    by (simp add: used_today_def sample_rules_world_def)
  ultimately show ?thesis
    using daily_cap_over_runs[of 0 "[(0, sample_rule), (0, sample_rule)]" 0 sample_rule "sample_rules_env ''x''" "sample_rules_world []"]
    by (simp add: sample_rule_simps)
qed

section \<open>Changes whose audit row is refused\<close>

text \<open>The cap counts audit rows, which are written after the change: a campaign whose name is longer than the column of
  255 characters is paused by every run, and however many runs there are, none of them counts against a
  daily cap of one.\<close>

theorem refused_rows_escape_the_cap:
  "let w = evaluations (sample_rules_env (replicate 256 (CHR ''x''))) (replicate n (0, sample_rule)) (sample_rules_world []) in
     length (writes (sent_by w)) = n \<and> used_today 0 sample_rule (ru_actions w) = 0 \<and> ar_dailyActionCap sample_rule = 1"
proof -
  let ?env = "sample_rules_env (replicate 256 (CHR ''x''))"
  have read: "mq_method sample_read = GET" by (simp add: sample_read_def)
  have "evaluations ?env (replicate n (0, sample_rule)) (sample_rules_world sent) =
      sample_rules_world (sent @ concat (replicate n [sample_read, sample_pause]))" for sent
    by (induction n arbitrary: sent) (simp_all add: sample_change)
  moreover have "length (writes (concat (replicate n [sample_read, sample_pause]))) = n"
    by (induction n) (simp_all add: writes_def read sample_pause_POST)
  ultimately show ?thesis
    by (simp add: sent_by_def sample_rules_world_def used_today_def sample_rule_simps)
qed

section \<open>Clamped budgets\<close>

lemma clampPct_bound: "\<bar>clampPct pct mx\<bar> \<le> \<bar>mx\<bar>"
  by (auto simp: clampPct_def)

lemma scaled_budget_mono:
  assumes "0 \<le> c" and "p \<le> q" shows "num_le (scaled_budget (Fin c) p) (scaled_budget (Fin c) q)"
proof -
  have "(of_int p :: rat) / 100 \<le> of_int q / 100" using assms(2) by (simp add: divide_right_mono)
  then have "fl (1 + fl (of_int p / 100)) \<le> fl (1 + fl (of_int q / 100))" by (intro fl_mono add_left_mono)
  with assms(1) have "fl (c * fl (1 + fl (of_int p / 100))) \<le> fl (c * fl (1 + fl (of_int q / 100)))"
    by (auto intro: fl_mono mult_left_mono)
  then have "math_round (fl (c * fl (1 + fl (of_int p / 100)))) \<le> math_round (fl (c * fl (1 + fl (of_int q / 100))))"
    by (rule math_round_mono)
  then show ?thesis by simp
qed

text \<open>The scale guardrail: whatever percentage a rule asks for, the budget it sets lies between the budgets its
  ceiling \<open>maxScalePct\<close> gives downwards and upwards, and is at least one minor unit.\<close>

theorem scale_is_clamped:
  assumes "0 \<le> current"
  shows "num_le (scaled_budget (Fin current) (- \<bar>ar_maxScalePct r\<bar>)) (scaled_budget (Fin current) (pct_of r))
    \<and> num_le (scaled_budget (Fin current) (pct_of r)) (scaled_budget (Fin current) \<bar>ar_maxScalePct r\<bar>)
    \<and> num_le (Fin 1) (scaled_budget (Fin current) (pct_of r))"
proof -
  have b: "- \<bar>ar_maxScalePct r\<bar> \<le> pct_of r" "pct_of r \<le> \<bar>ar_maxScalePct r\<bar>"
    by (auto simp: pct_of_def clampPct_def)
  from scaled_budget_mono[OF assms b(1)] scaled_budget_mono[OF assms b(2)] show ?thesis by simp
qed

lemma scale_is_clamped_witness:
  "num_le (scaled_budget (Fin 1000) (pct_of (sample_rule\<lparr>ar_action := SCALE, ar_scalePct := Some 80\<rparr>))) (Fin 1250)"
proof -
  have "scaled_budget (Fin 1000) 25 = Fin 1250" by code_simp
  moreover have "\<bar>ar_maxScalePct (sample_rule\<lparr>ar_action := SCALE, ar_scalePct := Some 80\<rparr>)\<bar> = 25"
    by (simp add: sample_rule_def)
  ultimately show ?thesis
    using scale_is_clamped[of 1000 "sample_rule\<lparr>ar_action := SCALE, ar_scalePct := Some 80\<rparr>"] by simp
qed

section \<open>The rules table\<close>

text \<open>What every stored rule satisfies, whoever created it and however it was switched on and off.\<close>

definition rule_ok :: "ad_rule \<Rightarrow> bool" where
  "rule_ok r \<longleftrightarrow> (ar_metric r = VERIFIED_ROAS \<longrightarrow> ar_scope r = ACCOUNT) \<and> (ar_scope r = ACCOUNT \<longrightarrow> ar_action r = ALERT)
     \<and> (ar_action r = SCALE \<longrightarrow> (\<exists>p. ar_scalePct r = Some p \<and> p \<noteq> 0)) \<and> (ar_action r \<noteq> SCALE \<longrightarrow> ar_scalePct r = None)"

definition rules_wf :: "ad_rule list \<Rightarrow> bool" where
  "rules_wf rules \<longleftrightarrow> distinct (map ar_id rules) \<and> (\<forall>r \<in> set rules. rule_ok r)"

lemma rules_wf_save:
  "rules_wf rules \<Longrightarrow> rule_ok r \<Longrightarrow> rules_wf (save_row ar_id r rules)"
  by (auto simp: rules_wf_def distinct_save_row set_save_row)

lemma validated_rule_ok: "validate_rule cron now c = Inr u \<Longrightarrow> rule_ok (new_rule i ws user c q next)"
  by (auto simp: validate_rule_def rule_ok_def new_rule_def split: if_splits)

datatype rule_op = CreateRule cron uuid time "uuid option" create_rule_input | SetActive cron time uuid bool | RemoveRule uuid

fun rule_step :: "uuid \<Rightarrow> rule_op \<Rightarrow> ad_rule list \<Rightarrow> ad_rule list" where
  "rule_step ws (CreateRule cron i now user c) rules = snd (create_rule cron i now ws user c rules)"
| "rule_step ws (SetActive cron now i active) rules = snd (setRuleActive cron now ws i active rules)"
| "rule_step ws (RemoveRule i) rules = snd (removeRule ws i rules)"

text \<open>A created row gets a fresh id.\<close>

fun rule_op_ok :: "rule_op \<Rightarrow> ad_rule list \<Rightarrow> bool" where
  "rule_op_ok (CreateRule cron i now user c) rules = (i \<notin> ar_id ` set rules)"
| "rule_op_ok _ rules = True"

lemma findOwnedRule_Inr:
  "findOwnedRule ws i rules = Inr r \<Longrightarrow> r \<in> set rules \<and> ar_id r = i \<and> ar_workspaceId r = ws"
  by (auto simp: findOwnedRule_def split: option.splits dest: find_Some_iff_mem)

lemma setRuleActive_effect:
  "snd (setRuleActive cron now ws i active rules) = rules
   \<or> (\<exists>r r'. r \<in> set rules \<and> ar_workspaceId r = ws \<and> ar_id r' = ar_id r \<and> ar_workspaceId r' = ws
        \<and> (rule_ok r \<longrightarrow> rule_ok r') \<and> snd (setRuleActive cron now ws i active rules) = save_row ar_id r' rules)"
proof (cases "findOwnedRule ws i rules")
  case (Inr r)
  have k: "rule_ok (r\<lparr>ar_isActive := a, ar_nextRun := n\<rparr>) = rule_ok r" "rule_ok (r\<lparr>ar_isActive := a\<rparr>) = rule_ok r" for a n
    by (simp_all add: rule_ok_def)
  note found = findOwnedRule_Inr[OF Inr]
  consider "snd (setRuleActive cron now ws i active rules) = rules"
    | "snd (setRuleActive cron now ws i active rules) = save_row ar_id (r\<lparr>ar_isActive := False\<rparr>) rules"
    | t where "snd (setRuleActive cron now ws i active rules) = save_row ar_id (r\<lparr>ar_isActive := True, ar_nextRun := Some t\<rparr>) rules"
    by (cases active; cases "nextRunFrom cron (ar_cronExpression r) (ar_timezone r) now")
       (simp_all add: setRuleActive_def Inr Let_def)
  then show ?thesis
  proof cases
    case 2
    with k found show ?thesis by (intro disjI2 exI[of _ r] exI[of _ "r\<lparr>ar_isActive := False\<rparr>"]) simp
  next
    case (3 t)
    with k found show ?thesis
      by (intro disjI2 exI[of _ r] exI[of _ "r\<lparr>ar_isActive := True, ar_nextRun := Some t\<rparr>"]) simp
  qed simp
qed (simp add: setRuleActive_def)

lemma rule_step_ok:
  assumes "rules_wf rules" and "rule_op_ok op rules"
  shows "rules_wf (rule_step ws op rules)"
    and "w \<noteq> ws \<Longrightarrow> filter (\<lambda>r. ar_workspaceId r = w) (rule_step ws op rules) = filter (\<lambda>r. ar_workspaceId r = w) rules"
proof -
  have "rules_wf (rule_step ws op rules) \<and> (w \<noteq> ws \<longrightarrow>
      filter (\<lambda>r. ar_workspaceId r = w) (rule_step ws op rules) = filter (\<lambda>r. ar_workspaceId r = w) rules)" for w
  proof (cases op)
    case (CreateRule cron i now user c)
    have n: "ar_id (new_rule i ws user c q t) = i" "ar_workspaceId (new_rule i ws user c q t) = ws" for q t
      by (simp_all add: new_rule_def)
    from assms CreateRule show ?thesis
      by (auto simp: create_rule_def rules_wf_def n Let_def split: sum.splits option.splits dest: validated_rule_ok)
  next
    case (SetActive cron now i active)
    with setRuleActive_effect[of cron now ws i active rules] assms show ?thesis
      by (auto simp: rules_wf_def intro: save_row_foreign distinct_save_row) (auto simp: set_save_row)
  next
    case (RemoveRule i)
    show ?thesis
    proof (cases "findOwnedRule ws i rules")
      case (Inr r)
      from findOwnedRule_Inr[OF Inr] assms RemoveRule show ?thesis
        by (auto simp: removeRule_def Inr rules_wf_def distinct_delete_where intro!: delete_where_foreign)
    qed (use assms RemoveRule in \<open>simp add: removeRule_def\<close>)
  qed
  then show "rules_wf (rule_step ws op rules)"
    and "w \<noteq> ws \<Longrightarrow> filter (\<lambda>r. ar_workspaceId r = w) (rule_step ws op rules) = filter (\<lambda>r. ar_workspaceId r = w) rules"
    by blast+
qed

interpretation rules: tenant_service ar_workspaceId rules_wf rule_op_ok rule_step
  by unfold_locales (use rule_step_ok in blast)+

text \<open>A rule is only ever stored in a sound shape - verified ROAS at account scope, alerts alone at account scope, a
  non-zero percentage exactly for scaling - and the operations of other workspaces never change what a
  workspace's own rules are.\<close>

theorem rules_stay_sound:
  assumes "rules_wf rules" and "rules.run_ok ops rules"
  shows "rules_wf (rules.run ops rules)
    \<and> (w \<notin> fst ` set ops \<longrightarrow> list_rules w (rules.run ops rules) = list_rules w rules)"
  using rules.run_wf[OF assms] rules.run_foreign[OF assms] by (auto simp: list_rules_def)

definition sample_create :: create_rule_input where
  "sample_create = \<lparr>ci_name = ''n'', ci_adAccountId = ''1'', ci_scope = CAMPAIGN, ci_metric = CPA, ci_comparator = GT,
     ci_threshold = Fin 40, ci_windowDays = None, ci_action = SCALE, ci_scalePct = Some (-20), ci_cronExpression = ''0 * * * *'',
     ci_timezone = None, ci_slackChannelId = None, ci_autoExecute = None, ci_maxScalePct = None, ci_maxActionsPerRun = None,
     ci_dailyActionCap = None\<rparr>"

lemma rules_stay_sound_witness:
  "rules_wf (rules.run [(''w2'', CreateRule daily_cron ''r2'' 0 None sample_create), (''w2'', SetActive daily_cron 0 ''r1'' False)] [sample_rule])
   \<and> list_rules ''w1'' (rules.run [(''w2'', CreateRule daily_cron ''r2'' 0 None sample_create), (''w2'', SetActive daily_cron 0 ''r1'' False)] [sample_rule])
      = [sample_rule]"
proof -
  have "rules_wf [sample_rule]" by (simp add: rules_wf_def rule_ok_def sample_rule_def)
  moreover have "rules.run_ok [(''w2'', CreateRule daily_cron ''r2'' 0 None sample_create), (''w2'', SetActive daily_cron 0 ''r1'' False)] [sample_rule]"
    by (simp add: sample_rule_def)
  moreover have "list_rules ''w1'' [sample_rule] = [sample_rule]" by (simp add: list_rules_def sample_rule_def)
  ultimately show ?thesis
    using rules_stay_sound[of "[sample_rule]" "[(''w2'', CreateRule daily_cron ''r2'' 0 None sample_create), (''w2'', SetActive daily_cron 0 ''r1'' False)]" "''w1''"]
    by simp
qed

section \<open>The tick\<close>

lemma advance_rule_fields:
  "advance_rule cron now r = Inr r' \<Longrightarrow> ar_id r' = ar_id r \<and> ar_isActive r' = ar_isActive r
     \<and> ar_workspaceId r' = ar_workspaceId r \<and> (rule_ok r \<longrightarrow> rule_ok r')
     \<and> (\<exists>t. ar_nextRun r' = Some t \<and> nextRunFrom cron (ar_cronExpression r) (ar_timezone r) now = Inr t)"
  by (cases "nextRunFrom cron (ar_cronExpression r) (ar_timezone r) now") (auto simp: advance_rule_def rule_ok_def)

interpretation rule_ticks: scheduled ar_id ar_isActive ar_nextRun advance_rule
  by unfold_locales (auto simp: is_due_def dest!: advance_rule_fields nextRunFrom_later)

lemma due_rules_eq: "due_rules now rules = rule_ticks.due now rules"
  by (simp add: due_rules_def rule_ticks.due_def)

lemma run_rule_settles:
  "run_rule env now r w = (Inr rep, w') \<Longrightarrow>
     ru_rules w' = rule_ticks.settle_one (re_cron env) now r (ru_rules w) \<and> (\<exists>r'. advance_rule (re_cron env) now r = Inr r')"
  by (auto simp: run_rule_def Let_def rule_ticks.settle_one_def split: prod.splits sum.splits
      dest!: evaluateRule_run simp: engine_run_def)

lemma run_rules_settle:
  "run_rules env now rs w = (Inr reps, w') \<Longrightarrow>
     ru_rules w' = rule_ticks.settle (re_cron env) now rs (ru_rules w) \<and> length reps = length rs
     \<and> (\<forall>r \<in> set rs. \<exists>r'. advance_rule (re_cron env) now r = Inr r')"
proof (induction rs arbitrary: w reps)
  case (Cons r rs)
  obtain rep w1 where r: "run_rule env now r w = (Inr rep, w1)"
    using Cons.prems by (cases "run_rule env now r w") (auto split: sum.splits)
  obtain res w2 where rs: "run_rules env now rs w1 = (res, w2)" by fastforce
  with Cons.prems r obtain reps' where "res = Inr reps'" "reps = rep # reps'" "w2 = w'" by (cases res) auto
  with Cons.IH[of w1 reps'] rs run_rule_settles[OF r] show ?case by auto
qed simp

text \<open>One rule's turn: what is reported on it, and the world it leaves, its schedule advanced.\<close>

definition turn_report :: "rules_env \<Rightarrow> time \<Rightarrow> ad_rule \<Rightarrow> rules_world \<Rightarrow> rule_run_report" where
  "turn_report env now r w = (case fst (evaluateRule env now r w) of Inr rep \<Rightarrow> rep | Inl e \<Rightarrow> failure_report r e)"

definition turn_world :: "rules_env \<Rightarrow> time \<Rightarrow> ad_rule \<Rightarrow> rules_world \<Rightarrow> rules_world" where
  "turn_world env now r w = (let w1 = snd (evaluateRule env now r w) in
     w1\<lparr>ru_rules := case advance_rule (re_cron env) now r of Inr r' \<Rightarrow> save_row ar_id r' (ru_rules w1) | Inl _ \<Rightarrow> ru_rules w1\<rparr>)"

lemma run_rule_turn:
  "run_rule env now r w = (Inr rep, w') \<Longrightarrow> rep = turn_report env now r w \<and> w' = turn_world env now r w"
  by (cases "evaluateRule env now r w"; cases "advance_rule (re_cron env) now r")
     (simp_all add: run_rule_def turn_report_def turn_world_def Let_def)

lemma run_rules_turns:
  "run_rules env now rs w = (Inr reps, w') \<Longrightarrow>
     w' = fold (turn_world env now) rs w
     \<and> (\<forall>i < length rs. reps ! i = turn_report env now (rs ! i) (fold (turn_world env now) (take i rs) w))"
proof (induction rs arbitrary: w reps)
  case (Cons r rs)
  obtain rep w1 where r: "run_rule env now r w = (Inr rep, w1)"
    using Cons.prems by (cases "run_rule env now r w") (auto split: sum.splits)
  obtain res w2 where rs: "run_rules env now rs w1 = (res, w2)" by fastforce
  with Cons.prems r obtain reps' where e: "res = Inr reps'" "reps = rep # reps'" "w2 = w'" by (cases res) auto
  from Cons.IH[of w1 reps'] rs e run_rule_turn[OF r] show ?case by (auto simp: nth_Cons less_Suc_eq_0_disj)
qed simp

lemma map_sum_Inr_iff: "map_sum id f x = Inr y \<longleftrightarrow> (\<exists>z. x = Inr z \<and> y = f z)"
  by (cases x) auto

lemma executeMutations_about: "executeMutations env now r token bs w = (Inr rep, w') \<Longrightarrow> \<exists>m. rep = report r m"
  by (auto simp: executeMutations_def Let_def map_sum_Inr_iff split: if_splits sum.splits prod.splits)

lemma verifiedRoas_about: "evaluateVerifiedRoas env now r since until w = (Inr rep, w') \<Longrightarrow> \<exists>m. rep = report r m"
  by (auto simp: evaluateVerifiedRoas_def Let_def map_sum_Inr_iff split: if_splits sum.splits prod.splits option.splits list.splits)

lemma judge_about: "judge_insights env now r token v w = (Inr rep, w') \<Longrightarrow> \<exists>m. rep = report r m"
  by (auto simp: judge_insights_def Let_def map_sum_Inr_iff dest: executeMutations_about
      split: if_splits sum.splits prod.splits option.splits)

lemma turn_report_about: "\<exists>m. turn_report env now r w = report r m"
proof (cases "fst (evaluateRule env now r w)")
  case (Inl e)
  then have "turn_report env now r w = report r (Some (rule_name r @ '' could not run: '' @ error_message e))"
    by (simp add: turn_report_def failure_report_def)
  then show ?thesis by blast
next
  case (Inr rep)
  then obtain w' where "evaluateRule env now r w = (Inr rep, w')" by (metis prod.collapse)
  then have "\<exists>m. rep = report r m"
    unfolding evaluateRule_def Let_def
    by (auto split: if_splits sum.splits prod.splits option.splits dest: judge_about verifiedRoas_about)
  with Inr show ?thesis by (simp add: turn_report_def)
qed

text \<open>C17: Every due rule gets its turn, in order: a tick that completes evaluates each rule that was due, in the world
  that the turns before it left (\<open>turn_world\<close>: the rule evaluated, its schedule advanced), and its i-th report
  is about the i-th due rule and is what that evaluation answered, or the report of its failure; the world it leaves is
  the one after the last turn, and there no rule is due at that time any more, whatever Meta answered.\<close>

theorem tick_serves_every_due_rule:
  fixes env :: rules_env and now :: time and w :: rules_world
  defines "due \<equiv> due_rules now (ru_rules w)"
  assumes "runDueRules env now w = (Inr reports, w')" and "fires_later (re_cron env) now"
  shows "length reports = length due
    \<and> (\<forall>i < length due. rr_ruleId (reports ! i) = ar_id (due ! i)
         \<and> reports ! i = turn_report env now (due ! i) (fold (turn_world env now) (take i due) w))
    \<and> w' = fold (turn_world env now) due w
    \<and> due_rules now (ru_rules w') = []"
proof -
  from run_rules_settle[OF assms(2) [unfolded runDueRules_def]] have
    s: "ru_rules w' = rule_ticks.settle (re_cron env) now (rule_ticks.due now (ru_rules w)) (ru_rules w)"
    "length reports = length (due_rules now (ru_rules w))"
    "\<forall>r \<in> set (rule_ticks.due now (ru_rules w)). \<exists>r'. advance_rule (re_cron env) now r = Inr r'"
    by (simp_all add: due_rules_eq)
  have "x \<notin> set (rule_ticks.due now (ru_rules w'))" for x
  proof
    assume "x \<in> set (rule_ticks.due now (ru_rules w'))"
    then have x: "x \<in> set (ru_rules w')" "is_due now (ar_isActive x) (ar_nextRun x)" by (auto simp: rule_ticks.due_def)
    from rule_ticks.due_after_settling[OF assms(3) x(1) [unfolded s] x(2)]
    obtain e where "x \<in> set (ru_rules w)" "advance_rule (re_cron env) now x = Inl e" by blast
    with s(3) x(2) show False by (fastforce simp: rule_ticks.due_def)
  qed
  then have "rule_ticks.due now (ru_rules w') = []" by (metis list.set_intros(1) neq_Nil_conv)
  moreover have "rr_ruleId (turn_report env now r v) = ar_id r" for r v
    using turn_report_about[of env now r v] by (auto simp: report_def)
  ultimately show ?thesis
    using s(2) run_rules_turns[OF assms(2) [unfolded runDueRules_def]] by (simp add: due_rules_eq due_def)
qed

lemma tick_serves_every_due_rule_witness:
  "\<exists>reports w'. runDueRules (sample_rules_env ''x'') 0 (sample_rules_world []) = (Inr reports, w')
     \<and> length reports = 1 \<and> rr_ruleId (reports ! 0) = ''r1''
     \<and> reports ! 0 = turn_report (sample_rules_env ''x'') 0 sample_rule (sample_rules_world [])
     \<and> due_rules 0 (ru_rules w') = []"
proof -
  have "fires_later (re_cron (sample_rules_env ''x'')) 0"
    by (simp add: fires_later_def sample_rules_env_def daily_cron_def ms_per_day_def)
  moreover have due: "due_rules 0 (ru_rules (sample_rules_world [])) = [sample_rule]"
    by (simp add: due_rules_def is_due_def sample_rules_world_def) (simp add: sample_rule_def)
  moreover have "\<exists>r'. advance_rule daily_cron 0 sample_rule = Inr r'"
    by (simp add: advance_rule_def nextRunFrom_def daily_cron_def)
  then have "\<exists>reports w'. runDueRules (sample_rules_env ''x'') 0 (sample_rules_world []) = (Inr reports, w')"
    by (auto simp: runDueRules_def due run_rule_def Let_def sample_rules_env_def split: prod.splits)
  moreover have "ar_id sample_rule = ''r1''" by (simp add: sample_rule_def)
  ultimately show ?thesis
    using tick_serves_every_due_rule[of "sample_rules_env ''x''" 0 "sample_rules_world []"] by fastforce
qed

text \<open>Switching a rule off or deleting it while its run is in progress does not last: the run ends by saving the row it
  read at the start, active and with its next run, so the rule is back.\<close>

theorem pause_during_run_is_lost:
  assumes "r \<in> set (due_rules now rules)" and "advance_rule cron later r = Inr r'"
    and "rules' = snd (setRuleActive cron' t ws (ar_id r) False rules) \<or> rules' = snd (removeRule ws (ar_id r) rules)"
  shows "findOwnedRule (ar_workspaceId r) (ar_id r) (save_row ar_id r' rules') = Inr r' \<and> ar_isActive r' \<and> ar_nextRun r' \<noteq> None"
proof -
  from advance_rule_fields[OF assms(2)] have f: "ar_id r' = ar_id r" "ar_isActive r' = ar_isActive r"
    "ar_workspaceId r' = ar_workspaceId r" "ar_nextRun r' \<noteq> None" by auto
  have "List.find (\<lambda>x. ar_id x = ar_id r \<and> ar_workspaceId x = ar_workspaceId r) (save_row ar_id r' rules') = Some r'"
    by (rule find_unique) (auto simp: f set_save_row)
  with f assms(1) show ?thesis by (auto simp: findOwnedRule_def due_rules_def is_due_def)
qed

lemma pause_during_run_is_lost_witness:
  "ar_isActive (the (List.find (\<lambda>x. ar_id x = ''r1'') (snd (setRuleActive daily_cron 0 ''w1'' ''r1'' False [sample_rule])))) = False
   \<and> (\<exists>r'. findOwnedRule ''w1'' ''r1'' (save_row ar_id r' (snd (setRuleActive daily_cron 0 ''w1'' ''r1'' False [sample_rule]))) = Inr r'
        \<and> ar_isActive r')"
proof -
  have due: "sample_rule \<in> set (due_rules 0 [sample_rule])"
    by (simp add: due_rules_def is_due_def) (simp add: sample_rule_def)
  obtain r' where a: "advance_rule daily_cron 0 sample_rule = Inr r'"
    by (simp add: advance_rule_def nextRunFrom_def daily_cron_def)
  have w: "ar_workspaceId sample_rule = ''w1''" by (simp add: sample_rule_def)
  have p: "snd (setRuleActive daily_cron 0 ''w1'' ''r1'' False [sample_rule]) = [sample_rule\<lparr>ar_isActive := False\<rparr>]"
    by (simp add: setRuleActive_def findOwnedRule_def w sample_rule_simps save_row_def Let_def)
  then have "\<not> ar_isActive (the (List.find (\<lambda>x. ar_id x = ''r1'') (snd (setRuleActive daily_cron 0 ''w1'' ''r1'' False [sample_rule]))))"
    by (simp add: sample_rule_simps)
  moreover from pause_during_run_is_lost[OF due a, of "snd (setRuleActive daily_cron 0 ''w1'' ''r1'' False [sample_rule])" daily_cron 0 "''w1''"]
  have "findOwnedRule ''w1'' ''r1'' (save_row ar_id r' (snd (setRuleActive daily_cron 0 ''w1'' ''r1'' False [sample_rule]))) = Inr r'"
    "ar_isActive r'" by (simp_all add: sample_rule_simps w)
  ultimately show ?thesis by blast
qed

end
