(* ===== verification/Tasks.thy ===== *)
theory Tasks
  imports Schedule Workspaces Slack
begin

text \<open>
  Scheduled tasks: \<open>src/src/tasks/tasks.service.ts\<close> over the table of
  \<open>scheduled-task.entity.ts\<close>, with the tick of \<open>tasks.scheduler.ts\<close>.  The model's answer to a
  task's prompt is the parameter \<open>answer\<close>; cron is the parameter of \<open>Schedule\<close>.
\<close>

section \<open>Data\<close>

datatype task_type = USER_TASK | SYSTEM_TASK

record scheduled_task =
  st_id :: uuid
  st_workspaceId :: uuid
  st_name :: string
  st_description :: "string option"
  st_cronExpression :: string
  st_timezone :: "string option"
  st_prompt :: string
  st_slackChannelId :: "string option"
  st_isActive :: bool
  st_type :: task_type
  st_model :: "string option"
  st_createdByUserId :: "uuid option"
  st_lastRun :: "time option"
  st_nextRun :: "time option"
  st_oneTime :: bool
  st_createdAt :: time

record create_task_dto =
  ct_name :: string
  ct_prompt :: string
  ct_cronExpression :: string
  ct_timezone :: "string option"
  ct_slackChannelId :: "string option"
  ct_description :: "string option"
  ct_model :: "string option"
  ct_oneTime :: "bool option"

text \<open>A field of an update is absent, or a value; a nullable one may be null.\<close>

record update_task_dto =
  ut_name :: "string option"
  ut_prompt :: "string option"
  ut_cronExpression :: "string option"
  ut_timezone :: "string option option"
  ut_slackChannelId :: "string option option"
  ut_description :: "string option option"
  ut_model :: "string option option"
  ut_oneTime :: "bool option"
  ut_isActive :: "bool option"

text \<open>Times stay times here; the view prints them.\<close>

record task_view =
  tv_id :: uuid
  tv_name :: string
  tv_description :: "string option"
  tv_cronExpression :: string
  tv_timezone :: "string option"
  tv_prompt :: string
  tv_slackChannelId :: "string option"
  tv_isActive :: bool
  tv_isSystem :: bool
  tv_model :: "string option"
  tv_oneTime :: bool
  tv_lastRun :: "time option"
  tv_nextRun :: "time option"
  tv_createdAt :: time
  tv_authorName :: "string option"
  tv_authorIsCurrentUser :: bool

definition task_view_of :: "user list \<Rightarrow> uuid \<Rightarrow> scheduled_task \<Rightarrow> task_view" where
  "task_view_of us viewer t = \<lparr>tv_id = st_id t, tv_name = st_name t, tv_description = st_description t,
     tv_cronExpression = st_cronExpression t, tv_timezone = st_timezone t, tv_prompt = st_prompt t,
     tv_slackChannelId = st_slackChannelId t, tv_isActive = st_isActive t, tv_isSystem = (st_type t = SYSTEM_TASK),
     tv_model = st_model t, tv_oneTime = st_oneTime t, tv_lastRun = st_lastRun t, tv_nextRun = st_nextRun t,
     tv_createdAt = st_createdAt t,
     tv_authorName = (case st_createdByUserId t of None \<Rightarrow> None | Some u \<Rightarrow> map_option u_name (findById us u)),
     tv_authorIsCurrentUser = (st_createdByUserId t = Some viewer)\<rparr>"

section \<open>Editing\<close>

definition findTask :: "uuid \<Rightarrow> uuid \<Rightarrow> scheduled_task list \<Rightarrow> scheduled_task option" where
  "findTask ws i tasks = List.find (\<lambda>t. st_id t = i \<and> st_workspaceId t = ws) tasks"

definition findOwnedTask :: "uuid \<Rightarrow> uuid \<Rightarrow> scheduled_task list \<Rightarrow> scheduled_task result" where
  "findOwnedTask ws i tasks = (case findTask ws i tasks of
     None \<Rightarrow> Inl (NotFound ''Task not found'')
   | Some t \<Rightarrow> if st_type t = SYSTEM_TASK then Inl (Forbidden ''System tasks cannot be modified'') else Inr t)"

definition findOneView :: "user list \<Rightarrow> uuid \<Rightarrow> uuid \<Rightarrow> uuid \<Rightarrow> scheduled_task list \<Rightarrow> task_view result" where
  "findOneView us ws i viewer tasks = (case findTask ws i tasks of
     None \<Rightarrow> Inl (NotFound ''Task not found'') | Some t \<Rightarrow> Inr (task_view_of us viewer t))"

definition findAllForWorkspace :: "user list \<Rightarrow> uuid \<Rightarrow> uuid \<Rightarrow> scheduled_task list \<Rightarrow> task_view list" where
  "findAllForWorkspace us ws viewer tasks =
     map (task_view_of us viewer) (rev (filter (\<lambda>t. st_workspaceId t = ws) tasks))"

definition new_task :: "uuid \<Rightarrow> time \<Rightarrow> uuid \<Rightarrow> uuid \<Rightarrow> create_task_dto \<Rightarrow> time \<Rightarrow> scheduled_task" where
  "new_task i now ws user dto next = \<lparr>st_id = i, st_workspaceId = ws, st_name = ct_name dto,
     st_description = ct_description dto, st_cronExpression = ct_cronExpression dto, st_timezone = ct_timezone dto,
     st_prompt = ct_prompt dto, st_slackChannelId = ct_slackChannelId dto, st_isActive = True, st_type = USER_TASK,
     st_model = ct_model dto, st_createdByUserId = Some user, st_lastRun = None, st_nextRun = Some next,
     st_oneTime = (case ct_oneTime dto of Some b \<Rightarrow> b | None \<Rightarrow> False), st_createdAt = now\<rparr>"

definition create_task ::
  "cron \<Rightarrow> uuid \<Rightarrow> time \<Rightarrow> user list \<Rightarrow> uuid \<Rightarrow> uuid \<Rightarrow> create_task_dto \<Rightarrow> scheduled_task list
     \<Rightarrow> task_view result \<times> scheduled_task list" where
  "create_task cron i now us ws user dto tasks =
    (case nextRunFrom cron (ct_cronExpression dto) (ct_timezone dto) now of Inl e \<Rightarrow> (Inl e, tasks)
     | Inr next \<Rightarrow> (let tasks' = tasks @ [new_task i now ws user dto next] in (findOneView us ws i user tasks', tasks')))"

text \<open>\<open>value || null\<close>.\<close>

definition or_null :: "string option \<Rightarrow> string option" where
  "or_null v = (if v = Some [] then None else v)"

definition patch_task :: "update_task_dto \<Rightarrow> scheduled_task \<Rightarrow> scheduled_task" where
  "patch_task dto t = t\<lparr>st_name := given (ut_name dto) (st_name t), st_prompt := given (ut_prompt dto) (st_prompt t),
     st_description := given (ut_description dto) (st_description t),
     st_model := given (map_option or_null (ut_model dto)) (st_model t),
     st_oneTime := given (ut_oneTime dto) (st_oneTime t), st_isActive := given (ut_isActive dto) (st_isActive t),
     st_slackChannelId := given (map_option or_null (ut_slackChannelId dto)) (st_slackChannelId t),
     st_timezone := given (map_option or_null (ut_timezone dto)) (st_timezone t),
     st_cronExpression := given (ut_cronExpression dto) (st_cronExpression t)\<rparr>"

definition reschedules :: "update_task_dto \<Rightarrow> bool" where
  "reschedules dto \<longleftrightarrow> ut_cronExpression dto \<noteq> None \<or> ut_timezone dto \<noteq> None"

definition update_task ::
  "cron \<Rightarrow> time \<Rightarrow> user list \<Rightarrow> uuid \<Rightarrow> uuid \<Rightarrow> uuid \<Rightarrow> update_task_dto \<Rightarrow> scheduled_task list
     \<Rightarrow> task_view result \<times> scheduled_task list" where
  "update_task cron now us ws user i dto tasks = (case findOwnedTask ws i tasks of
     Inl e \<Rightarrow> (Inl e, tasks)
   | Inr t \<Rightarrow>
      (let t1 = patch_task dto t;
           next = (if reschedules dto then map_sum id Some (nextRunFrom cron (st_cronExpression t1) (st_timezone t1) now)
                   else Inr (st_nextRun t1))
       in case next of Inl e \<Rightarrow> (Inl e, tasks)
        | Inr n \<Rightarrow> (let tasks' = save_row st_id (t1\<lparr>st_nextRun := n\<rparr>) tasks in (findOneView us ws i user tasks', tasks'))))"

definition remove_task :: "uuid \<Rightarrow> uuid \<Rightarrow> scheduled_task list \<Rightarrow> unit result \<times> scheduled_task list" where
  "remove_task ws i tasks = (case findOwnedTask ws i tasks of
     Inl e \<Rightarrow> (Inl e, tasks) | Inr t \<Rightarrow> (Inr (), delete_where (\<lambda>x. st_id x = st_id t) tasks))"

section \<open>Running\<close>

text \<open>What a run needs from outside: the model's answer to a task and the workspaces with their bot tokens.\<close>

record task_env =
  te_cron :: cron
  te_answer :: "scheduled_task \<Rightarrow> string result"
  te_workspaces :: "workspace list"

record task_world =
  tw_tasks :: "scheduled_task list"
  tw_runs :: "uuid list"
  tw_posts :: "(string \<times> string \<times> string) list"

text \<open>
  \<open>deliver\<close>: the bot token, destination and text of the message posted, if any.  Slack's own errors
  are swallowed by its client.
\<close>

definition task_post :: "workspace list \<Rightarrow> scheduled_task \<Rightarrow> string \<Rightarrow> (string \<times> string \<times> string) list" where
  "task_post ws t answer = (case (st_slackChannelId t, js_trim answer) of
     (Some (c # cs), x # xs) \<Rightarrow>
       (case workspaceById ws (st_workspaceId t) of
          Some w \<Rightarrow> (case w_slackBotToken w of Some (b # bt) \<Rightarrow> [(b # bt, c # cs, x # xs)] | _ \<Rightarrow> [])
        | None \<Rightarrow> [])
   | _ \<Rightarrow> [])"

text \<open>The row as the \<open>finally\<close> block leaves it.\<close>

definition advance_task :: "cron \<Rightarrow> time \<Rightarrow> scheduled_task \<Rightarrow> scheduled_task result" where
  "advance_task cron now t =
    (if st_oneTime t then Inr (t\<lparr>st_lastRun := Some now, st_isActive := False, st_nextRun := None\<rparr>)
     else map_sum id (\<lambda>n. t\<lparr>st_lastRun := Some now, st_nextRun := Some n\<rparr>)
            (nextRunFrom cron (st_cronExpression t) (st_timezone t) now))"

definition executeTask :: "task_env \<Rightarrow> time \<Rightarrow> scheduled_task \<Rightarrow> task_world \<Rightarrow> unit result \<times> task_world" where
  "executeTask env now t w =
    (let w1 = w\<lparr>tw_runs := tw_runs w @ [st_id t]\<rparr>;
         (result, w2) = (case te_answer env t of Inl e \<Rightarrow> (Inl e, w1)
            | Inr answer \<Rightarrow> (Inr (), w1\<lparr>tw_posts := tw_posts w1 @ task_post (te_workspaces env) t answer\<rparr>))
     in case advance_task (te_cron env) now t of Inl e \<Rightarrow> (Inl e, w2)
      | Inr t' \<Rightarrow> (result, w2\<lparr>tw_tasks := save_row st_id t' (tw_tasks w2)\<rparr>))"

definition runNow :: "task_env \<Rightarrow> time \<Rightarrow> user list \<Rightarrow> uuid \<Rightarrow> uuid \<Rightarrow> uuid \<Rightarrow> task_world \<Rightarrow> task_view result \<times> task_world" where
  "runNow env now us ws i viewer w = (case findTask ws i (tw_tasks w) of
     None \<Rightarrow> (Inl (NotFound ''Task not found''), w)
   | Some t \<Rightarrow> (case executeTask env now t w of (Inl e, w') \<Rightarrow> (Inl e, w')
      | (Inr _, w') \<Rightarrow> (findOneView us ws i viewer (tw_tasks w'), w')))"

definition due_tasks :: "time \<Rightarrow> scheduled_task list \<Rightarrow> scheduled_task list" where
  "due_tasks now tasks = filter (\<lambda>t. is_due now (st_isActive t) (st_nextRun t)) tasks"

text \<open>An error of one task is logged and the next one runs.\<close>

definition runDueTasks :: "task_env \<Rightarrow> time \<Rightarrow> task_world \<Rightarrow> task_world" where
  "runDueTasks env now w = fold (\<lambda>t w. snd (executeTask env now t w)) (due_tasks now (tw_tasks w)) w"

definition tasks_tick :: "task_env \<Rightarrow> time \<Rightarrow> bool \<Rightarrow> task_world \<Rightarrow> task_world" where
  "tasks_tick env now running w = (if running then w else runDueTasks env now w)"

section \<open>The check-in of a workspace\<close>

definition SYSTEM_CHECK_IN_NAME :: string where
  "SYSTEM_CHECK_IN_NAME = ''Daily workspace check-in''"

definition SYSTEM_CHECK_IN_CRON :: string where
  "SYSTEM_CHECK_IN_CRON = ''0 9 * * *''"

definition SYSTEM_CHECK_IN_PROMPT :: string where
  "SYSTEM_CHECK_IN_PROMPT = join '' ''
     [''You are doing a brief daily workspace check-in, posted proactively in Slack.'',
      ''Review what you know about this workspace and the apps members have connected,'',
      ''then suggest 2-3 specific, concrete ways you could help right now (a report,'',
      ''an automation, research, or a draft tailored to this team). Lead with one strong'',
      ''idea, keep it short and friendly, and end by inviting them to just reply with'',
      ''what they need. If there'' @ [CHR 0x27] @ ''s genuinely nothing useful to suggest, say a brief'',
      ''hello and offer to help rather than inventing busywork.'']"

definition is_check_in :: "uuid \<Rightarrow> scheduled_task \<Rightarrow> bool" where
  "is_check_in ws t \<longleftrightarrow> st_workspaceId t = ws \<and> st_type t = SYSTEM_TASK \<and> st_name t = SYSTEM_CHECK_IN_NAME"

definition check_in_task :: "uuid \<Rightarrow> time \<Rightarrow> uuid \<Rightarrow> string option \<Rightarrow> time \<Rightarrow> scheduled_task" where
  "check_in_task i now ws channel next = \<lparr>st_id = i, st_workspaceId = ws, st_name = SYSTEM_CHECK_IN_NAME,
     st_description = Some ''Gaspo reviews the workspace and proposes ways it can help.'',
     st_cronExpression = SYSTEM_CHECK_IN_CRON, st_timezone = None, st_prompt = SYSTEM_CHECK_IN_PROMPT,
     st_slackChannelId = channel, st_isActive = True, st_type = SYSTEM_TASK, st_model = None,
     st_createdByUserId = None, st_lastRun = None, st_nextRun = Some next, st_oneTime = False, st_createdAt = now\<rparr>"

definition ensureSystemCheckIn ::
  "cron \<Rightarrow> uuid \<Rightarrow> time \<Rightarrow> uuid \<Rightarrow> string option \<Rightarrow> scheduled_task list \<Rightarrow> bool result \<times> scheduled_task list" where
  "ensureSystemCheckIn cron i now ws channel tasks = (case List.find (is_check_in ws) tasks of
     Some t \<Rightarrow> (Inr False,
       if st_slackChannelId t \<in> {None, Some []} \<and> channel \<notin> {None, Some []}
       then save_row st_id (t\<lparr>st_slackChannelId := channel\<rparr>) tasks else tasks)
   | None \<Rightarrow>
      (case nextRunFrom cron SYSTEM_CHECK_IN_CRON None now of Inl e \<Rightarrow> (Inl e, tasks)
       | Inr n \<Rightarrow> (Inr True, tasks @ [check_in_task i now ws channel n])))"

end
