(* ===== verification/TaskFacts.thy ===== *)
theory TaskFacts
  imports Tasks
begin

text \<open>
  Properties of the scheduled tasks: what a tick runs, one-time tasks, the check-in of a workspace, and
  the isolation of workspaces.
\<close>

section \<open>The tick\<close>

lemma advance_task_fields:
  "advance_task cron now t = Inr t' \<Longrightarrow> st_id t' = st_id t \<and> st_workspaceId t' = st_workspaceId t
     \<and> st_type t' = st_type t \<and> st_name t' = st_name t \<and> st_oneTime t' = st_oneTime t
     \<and> (if st_oneTime t then \<not> st_isActive t'
        else \<exists>n. st_nextRun t' = Some n \<and> nextRunFrom cron (st_cronExpression t) (st_timezone t) now = Inr n)"
  by (cases "nextRunFrom cron (st_cronExpression t) (st_timezone t) now") (auto simp: advance_task_def split: if_splits)

lemma advance_task_passes:
  assumes "fires_later cron now" and "advance_task cron now t = Inr t'"
  shows "\<not> is_due now (st_isActive t') (st_nextRun t')"
  using advance_task_fields[OF assms(2)] nextRunFrom_later[OF assms(1), of "st_cronExpression t" "st_timezone t"]
  by (fastforce simp: is_due_def split: if_splits)

interpretation task_ticks: scheduled st_id st_isActive st_nextRun advance_task
  by unfold_locales (use advance_task_fields advance_task_passes in blast)+

lemma due_tasks_eq: "due_tasks now tasks = task_ticks.due now tasks"
  by (simp add: due_tasks_def task_ticks.due_def)

lemma executeTask_settles:
  "tw_tasks (snd (executeTask env now t w)) = task_ticks.settle_one (te_cron env) now t (tw_tasks w)
   \<and> tw_runs (snd (executeTask env now t w)) = tw_runs w @ [st_id t]"
  by (auto simp: executeTask_def Let_def task_ticks.settle_one_def split: sum.splits prod.splits)

lemma runs_of_fold:
  "tw_tasks (fold (\<lambda>t w. snd (executeTask env now t w)) ts w) = task_ticks.settle (te_cron env) now ts (tw_tasks w)
   \<and> tw_runs (fold (\<lambda>t w. snd (executeTask env now t w)) ts w) = tw_runs w @ map st_id ts"
  by (induction ts arbitrary: w) (simp_all add: executeTask_settles)

lemma runDueTasks_effect:
  "tw_tasks (runDueTasks env now w) = task_ticks.settle (te_cron env) now (due_tasks now (tw_tasks w)) (tw_tasks w)"
  "tw_runs (runDueTasks env now w) = tw_runs w @ map st_id (due_tasks now (tw_tasks w))"
  using runs_of_fold[of env now "due_tasks now (tw_tasks w)" w] by (simp_all add: runDueTasks_def)

text \<open>Every due task runs once per tick, whatever the runs before it threw, and afterwards only a task whose cron
  expression cannot be read is still due.\<close>

theorem tick_runs_every_due_task:
  assumes "fires_later (te_cron env) now"
  shows "tw_runs (runDueTasks env now w) = tw_runs w @ map st_id (due_tasks now (tw_tasks w))
    \<and> (\<forall>t \<in> set (due_tasks now (tw_tasks (runDueTasks env now w))).
         \<exists>e. nextRunFrom (te_cron env) (st_cronExpression t) (st_timezone t) now = Inl e)"
proof (intro conjI ballI)
  fix t assume "t \<in> set (due_tasks now (tw_tasks (runDueTasks env now w)))"
  then have "t \<in> set (tw_tasks (runDueTasks env now w))" "is_due now (st_isActive t) (st_nextRun t)"
    by (auto simp: due_tasks_def)
  with task_ticks.due_after_settling[OF assms, of t "tw_tasks w"]
  obtain e where "advance_task (te_cron env) now t = Inl e" by (auto simp: runDueTasks_effect due_tasks_eq)
  then show "\<exists>e. nextRunFrom (te_cron env) (st_cronExpression t) (st_timezone t) now = Inl e"
    by (cases "nextRunFrom (te_cron env) (st_cronExpression t) (st_timezone t) now") (auto simp: advance_task_def split: if_splits)
qed (rule runDueTasks_effect)

section \<open>One-time tasks\<close>

definition ticks :: "task_env \<Rightarrow> time list \<Rightarrow> task_world \<Rightarrow> task_world" where
  "ticks env ts w = fold (runDueTasks env) ts w"

definition one_time :: "uuid \<Rightarrow> task_world \<Rightarrow> bool" where
  "one_time i w \<longleftrightarrow> distinct (map st_id (tw_tasks w)) \<and> (\<forall>t \<in> set (tw_tasks w). st_id t = i \<longrightarrow> st_oneTime t)"

definition finished :: "uuid \<Rightarrow> task_world \<Rightarrow> bool" where
  "finished i w \<longleftrightarrow> (\<forall>t \<in> set (tw_tasks w). st_id t = i \<longrightarrow> \<not> st_isActive t)"

lemma tick_row:
  assumes "x \<in> set (tw_tasks (runDueTasks env now w))"
  shows "x \<in> set (tw_tasks w) \<and> (\<forall>r \<in> set (due_tasks now (tw_tasks w)). st_id r = st_id x \<longrightarrow> (\<exists>e. advance_task (te_cron env) now r = Inl e))
    \<or> (\<exists>r \<in> set (due_tasks now (tw_tasks w)). advance_task (te_cron env) now r = Inr x)"
  using task_ticks.settled_row[OF assms [unfolded runDueTasks_effect]] by simp

lemma one_time_tick: "one_time i w \<Longrightarrow> one_time i (runDueTasks env now w)"
  unfolding one_time_def
proof (intro conjI ballI impI)
  fix t assume w: "distinct (map st_id (tw_tasks w)) \<and> (\<forall>t \<in> set (tw_tasks w). st_id t = i \<longrightarrow> st_oneTime t)"
    and t: "t \<in> set (tw_tasks (runDueTasks env now w))" "st_id t = i"
  from tick_row[OF t(1)] w t(2) show "st_oneTime t"
    by (auto simp: due_tasks_def dest!: advance_task_fields)
qed (simp add: runDueTasks_effect task_ticks.distinct_settle)

lemma one_time_advances: "st_oneTime t \<Longrightarrow> \<exists>t'. advance_task cron now t = Inr t' \<and> \<not> st_isActive t'"
  by (simp add: advance_task_def)

lemma finished_tick:
  assumes "one_time i w" and "finished i w \<or> i \<in> st_id ` set (due_tasks now (tw_tasks w))"
  shows "finished i (runDueTasks env now w)"
  unfolding finished_def
proof (intro ballI impI)
  fix x assume x: "x \<in> set (tw_tasks (runDueTasks env now w))" "st_id x = i"
  from tick_row[OF x(1)] show "\<not> st_isActive x"
  proof
    assume "\<exists>r \<in> set (due_tasks now (tw_tasks w)). advance_task (te_cron env) now r = Inr x"
    with assms(1) x(2) show ?thesis
      by (auto simp: one_time_def due_tasks_def dest!: advance_task_fields split: if_splits)
  next
    assume a: "x \<in> set (tw_tasks w) \<and> (\<forall>r \<in> set (due_tasks now (tw_tasks w)). st_id r = st_id x \<longrightarrow> (\<exists>e. advance_task (te_cron env) now r = Inl e))"
    have "r \<notin> set (due_tasks now (tw_tasks w))" if "st_id r = i" for r
      using a x(2) that assms(1) one_time_advances[of r "te_cron env" now]
      by (auto simp: one_time_def due_tasks_def)
    then have "i \<notin> st_id ` set (due_tasks now (tw_tasks w))" by blast
    with assms(2) a x(2) show ?thesis by (auto simp: finished_def)
  qed
qed

lemma finished_not_due: "finished i w \<Longrightarrow> i \<notin> st_id ` set (due_tasks now (tw_tasks w))"
  by (auto simp: finished_def due_tasks_def is_due_def)

lemma count_list_distinct: "distinct xs \<Longrightarrow> count_list xs x \<le> 1"
proof (induction xs)
  case (Cons a xs)
  then show ?case by (cases "a = x") (simp_all add: count_list_0_iff)
qed simp

lemma ticks_count:
  "one_time i w \<Longrightarrow> count_list (tw_runs (ticks env ts w)) i \<le> count_list (tw_runs w) i + (if finished i w then 0 else 1)"
proof (induction ts arbitrary: w)
  case Nil
  then show ?case by (simp add: ticks_def)
next
  case (Cons now ts)
  let ?w = "runDueTasks env now w"
  let ?due = "map st_id (due_tasks now (tw_tasks w))"
  have IH: "count_list (tw_runs (ticks env ts ?w)) i \<le> count_list (tw_runs ?w) i + (if finished i ?w then 0 else 1)"
    by (rule Cons.IH) (rule one_time_tick[OF Cons.prems])
  have runs: "count_list (tw_runs ?w) i = count_list (tw_runs w) i + count_list ?due i"
    by (simp add: runDueTasks_effect)
  have "distinct ?due"
    using Cons.prems by (simp add: one_time_def due_tasks_def distinct_map_filter)
  then have one: "count_list ?due i \<le> 1" by (rule count_list_distinct)
  show ?case
  proof (cases "i \<in> set ?due")
    case True
    then have "finished i ?w" "\<not> finished i w"
      using finished_tick[OF Cons.prems] finished_not_due[of i w] by auto
    with IH runs one show ?thesis by (simp add: ticks_def)
  next
    case False
    then have "count_list ?due i = 0" by (simp add: count_list_0_iff)
    moreover have "finished i w \<Longrightarrow> finished i ?w" using finished_tick[OF Cons.prems] by blast
    ultimately show ?thesis using IH runs by (auto simp: ticks_def split: if_splits)
  qed
qed

text \<open>A one-time task runs at most once, however many ticks follow, whether its run succeeds or fails.\<close>

theorem one_time_task_runs_once:
  assumes "distinct (map st_id (tw_tasks w))" and "t \<in> set (tw_tasks w)" and "st_oneTime t"
  shows "count_list (tw_runs (ticks env ts w)) (st_id t) \<le> count_list (tw_runs w) (st_id t) + 1"
proof -
  have "one_time (st_id t) w"
    using assms by (auto simp: one_time_def dest: distinct_map_inj_on inj_onD)
  from ticks_count[OF this, of env ts] show ?thesis by (auto split: if_splits)
qed

section \<open>Samples\<close>

definition sample_task :: scheduled_task where
  "sample_task = \<lparr>st_id = ''t1'', st_workspaceId = ''w1'', st_name = ''n'', st_description = None, st_cronExpression = ''c'',
     st_timezone = None, st_prompt = ''p'', st_slackChannelId = None, st_isActive = True, st_type = USER_TASK,
     st_model = None, st_createdByUserId = Some ''a'', st_lastRun = None, st_nextRun = Some 0, st_oneTime = True, st_createdAt = 0\<rparr>"

definition sample_cron :: cron where
  "sample_cron e tz now = Some (now + 60000)"

definition sample_task_env :: task_env where
  "sample_task_env = \<lparr>te_cron = sample_cron, te_answer = (\<lambda>_. Inl (PlainError ''out of credits'')), te_workspaces = []\<rparr>"

definition sample_task_world :: task_world where
  "sample_task_world = \<lparr>tw_tasks = [sample_task], tw_runs = [], tw_posts = []\<rparr>"

lemma one_time_task_runs_once_witness:
  "count_list (tw_runs (ticks sample_task_env [0, 60000, 120000] sample_task_world)) ''t1'' \<le> 1
   \<and> tw_runs (ticks sample_task_env [0, 60000, 120000] sample_task_world) = [''t1'']"
proof
  show "count_list (tw_runs (ticks sample_task_env [0, 60000, 120000] sample_task_world)) ''t1'' \<le> 1"
    using one_time_task_runs_once[of sample_task_world sample_task sample_task_env "[0, 60000, 120000]"]
    by (simp add: sample_task_world_def sample_task_def)
  show "tw_runs (ticks sample_task_env [0, 60000, 120000] sample_task_world) = [''t1'']"
    by (simp add: ticks_def runDueTasks_def due_tasks_def sample_task_world_def sample_task_def is_due_def executeTask_def
        sample_task_env_def advance_task_def save_row_def)
qed

lemma tick_runs_every_due_task_witness:
  "tw_runs (runDueTasks sample_task_env 0 sample_task_world) = [''t1'']
   \<and> due_tasks 0 (tw_tasks (runDueTasks sample_task_env 0 sample_task_world)) = []"
proof -
  have "fires_later (te_cron sample_task_env) 0" by (simp add: fires_later_def sample_task_env_def sample_cron_def)
  note tick = tick_runs_every_due_task[OF this, of sample_task_world]
  have "t \<notin> set (due_tasks 0 (tw_tasks (runDueTasks sample_task_env 0 sample_task_world)))" for t
    using tick by (auto simp: nextRunFrom_def sample_task_env_def sample_cron_def)
  then have "due_tasks 0 (tw_tasks (runDueTasks sample_task_env 0 sample_task_world)) = []"
    by (meson equals0I set_empty)
  with tick show ?thesis by (simp add: sample_task_world_def sample_task_def due_tasks_def is_due_def)
qed

section \<open>Finished tasks switched on again\<close>

lemma given_None [simp]: "given None x = x" and given_Some [simp]: "given (Some y) x = y"
  by (simp_all add: given_def)

lemma findOwnedTask_Inr:
  "findOwnedTask ws i tasks = Inr t \<Longrightarrow> t \<in> set tasks \<and> st_id t = i \<and> st_workspaceId t = ws \<and> st_type t = USER_TASK"
  by (cases "st_type t") (auto simp: findOwnedTask_def findTask_def split: option.splits if_splits dest: find_Some_iff_mem)

text \<open>Switching a finished one-time task on again without touching its schedule succeeds, but the task never runs:
  its next run stays empty, so it is shown as active and is due at no time.\<close>

theorem reactivated_task_never_runs:
  assumes "findOwnedTask ws i tasks = Inr t" and "st_nextRun t = None"
    and "ut_isActive dto = Some True" and "\<not> reschedules dto"
  shows "\<exists>view x. fst (update_task cron now us ws user i dto tasks) = Inr view \<and> tv_isActive view
     \<and> findTask ws i (snd (update_task cron now us ws user i dto tasks)) = Some x
     \<and> st_isActive x \<and> x \<notin> set (due_tasks later (snd (update_task cron now us ws user i dto tasks)))"
proof -
  let ?x = "(patch_task dto t)\<lparr>st_nextRun := st_nextRun (patch_task dto t)\<rparr>"
  from findOwnedTask_Inr[OF assms(1)] have t: "st_id t = i" "st_workspaceId t = ws" by auto
  have x: "st_id ?x = i" "st_workspaceId ?x = ws" "st_isActive ?x" "st_nextRun ?x = None"
    using t assms(2,3) by (simp_all add: patch_task_def)
  have f: "findTask ws i (save_row st_id ?x tasks) = Some ?x"
    unfolding findTask_def by (rule find_unique) (use x in \<open>auto simp: set_save_row\<close>)
  have u: "update_task cron now us ws user i dto tasks = (Inr (task_view_of us user ?x), save_row st_id ?x tasks)"
    using assms(4) f by (simp add: update_task_def assms(1) Let_def findOneView_def)
  have "?x \<notin> set (due_tasks later (save_row st_id ?x tasks))" using x by (simp add: due_tasks_def is_due_def)
  moreover have "tv_isActive (task_view_of us user ?x)" using x(3) by (simp add: task_view_of_def)
  ultimately show ?thesis unfolding u fst_conv snd_conv using f x(3) by blast
qed

definition switch_on :: update_task_dto where
  "switch_on = \<lparr>ut_name = None, ut_prompt = None, ut_cronExpression = None, ut_timezone = None, ut_slackChannelId = None,
     ut_description = None, ut_model = None, ut_oneTime = None, ut_isActive = Some True\<rparr>"

lemma reactivated_task_never_runs_witness:
  "\<exists>x. findTask ''w1'' ''t1'' (snd (update_task sample_cron 0 [] ''w1'' ''a'' ''t1'' switch_on
       (tw_tasks (runDueTasks sample_task_env 0 sample_task_world)))) = Some x
     \<and> st_isActive x \<and> x \<notin> set (due_tasks 99999999 (snd (update_task sample_cron 0 [] ''w1'' ''a'' ''t1'' switch_on
       (tw_tasks (runDueTasks sample_task_env 0 sample_task_world)))))"
proof -
  let ?t = "sample_task\<lparr>st_lastRun := Some 0, st_isActive := False, st_nextRun := None\<rparr>"
  let ?ts = "tw_tasks (runDueTasks sample_task_env 0 sample_task_world)"
  have ts: "?ts = [?t]"
    by (simp add: runDueTasks_def due_tasks_def sample_task_world_def sample_task_def is_due_def executeTask_def
        sample_task_env_def advance_task_def save_row_def)
  have "findOwnedTask ''w1'' ''t1'' ?ts = Inr ?t" unfolding ts by (simp add: findOwnedTask_def findTask_def sample_task_def)
  moreover have "st_nextRun ?t = None" "ut_isActive switch_on = Some True" "\<not> reschedules switch_on"
    by (simp_all add: switch_on_def reschedules_def)
  ultimately show ?thesis
    using reactivated_task_never_runs[of "''w1''" "''t1''" ?ts ?t switch_on sample_cron 0 "[]" "''a''" 99999999] by blast
qed

text \<open>An edit or a deletion during a run is overwritten by the row the run read at its start.\<close>

lemma edit_during_task_run_is_lost:
  "advance_task cron now t = Inr t' \<Longrightarrow> tasks' = snd (update_task cron' n us ws user (st_id t) dto tasks) \<or> tasks' = snd (remove_task ws (st_id t) tasks) \<Longrightarrow>
     findTask (st_workspaceId t) (st_id t) (task_ticks.settle_one cron now t tasks') = Some t'"
  unfolding findTask_def
  by (rule find_unique)
     (auto simp: task_ticks.settle_one_def set_save_row dest!: advance_task_fields)

section \<open>Editing and the check-in\<close>

definition tasks_wf :: "scheduled_task list \<Rightarrow> bool" where
  "tasks_wf tasks \<longleftrightarrow> distinct (map st_id tasks)
     \<and> distinct (map st_workspaceId (filter (\<lambda>t. is_check_in (st_workspaceId t) t) tasks))"

datatype task_op =
    CreateTask cron uuid time "user list" uuid create_task_dto
  | UpdateTask cron time "user list" uuid uuid update_task_dto
  | RemoveTask uuid
  | EnsureCheckIn cron uuid time "string option"

fun task_step :: "uuid \<Rightarrow> task_op \<Rightarrow> scheduled_task list \<Rightarrow> scheduled_task list" where
  "task_step ws (CreateTask cron i now us user dto) tasks = snd (create_task cron i now us ws user dto tasks)"
| "task_step ws (UpdateTask cron now us user i dto) tasks = snd (update_task cron now us ws user i dto tasks)"
| "task_step ws (RemoveTask i) tasks = snd (remove_task ws i tasks)"
| "task_step ws (EnsureCheckIn cron i now channel) tasks = snd (ensureSystemCheckIn cron i now ws channel tasks)"

fun task_op_ok :: "task_op \<Rightarrow> scheduled_task list \<Rightarrow> bool" where
  "task_op_ok (CreateTask cron i now us user dto) tasks = (i \<notin> st_id ` set tasks)"
| "task_op_ok (EnsureCheckIn cron i now channel) tasks = (i \<notin> st_id ` set tasks)"
| "task_op_ok _ tasks = True"

text \<open>The four ways a step changes the table, each for the acting workspace only.\<close>

inductive table_change :: "uuid \<Rightarrow> scheduled_task list \<Rightarrow> scheduled_task list \<Rightarrow> bool" for ws tasks where
  unchanged: "table_change ws tasks tasks"
| added: "st_id t \<notin> st_id ` set tasks \<Longrightarrow> st_workspaceId t = ws \<Longrightarrow>
    (is_check_in ws t \<Longrightarrow> List.find (is_check_in ws) tasks = None) \<Longrightarrow> table_change ws tasks (tasks @ [t])"
| saved: "t \<in> set tasks \<Longrightarrow> st_workspaceId t = ws \<Longrightarrow> st_id t' = st_id t \<Longrightarrow> st_workspaceId t' = ws \<Longrightarrow>
    st_type t' = st_type t \<Longrightarrow> (st_type t = SYSTEM_TASK \<Longrightarrow> \<exists>c. t' = t\<lparr>st_slackChannelId := c\<rparr>)
    \<Longrightarrow> table_change ws tasks (save_row st_id t' tasks)"
| removed: "t \<in> set tasks \<Longrightarrow> st_workspaceId t = ws \<Longrightarrow> st_type t = USER_TASK \<Longrightarrow>
    table_change ws tasks (delete_where (\<lambda>x. st_id x = st_id t) tasks)"

lemma task_step_changes:
  assumes "task_op_ok op tasks" shows "table_change ws tasks (task_step ws op tasks)"
proof (cases op)
  case (CreateTask cron i now us user dto)
  have "\<not> is_check_in ws (new_task i now ws user dto n)" for n by (simp add: is_check_in_def new_task_def)
  moreover have "st_id (new_task i now ws user dto n) = i" "st_workspaceId (new_task i now ws user dto n) = ws" for n
    by (simp_all add: new_task_def)
  ultimately show ?thesis using assms CreateTask
    by (auto simp: create_task_def Let_def split: sum.splits intro: table_change.unchanged table_change.added)
next
  case (UpdateTask cron now us user i dto)
  show ?thesis
  proof (cases "findOwnedTask ws i tasks")
    case (Inr t)
    let ?next = "if reschedules dto
        then map_sum id Some (nextRunFrom cron (st_cronExpression (patch_task dto t)) (st_timezone (patch_task dto t)) now)
        else Inr (st_nextRun (patch_task dto t))"
    note f = findOwnedTask_Inr[OF Inr]
    show ?thesis
    proof (cases ?next)
      case (Inl e)
      then have "task_step ws op tasks = tasks"
        using UpdateTask \<open>findOwnedTask ws i tasks = Inr t\<close> by (simp add: update_task_def Let_def split: if_splits)
      then show ?thesis by (simp add: table_change.unchanged)
    next
      case (Inr n)
      then have "task_step ws op tasks = save_row st_id ((patch_task dto t)\<lparr>st_nextRun := n\<rparr>) tasks"
        using UpdateTask \<open>findOwnedTask ws i tasks = Inr t\<close> by (simp add: update_task_def Let_def)
      with f show ?thesis by (auto simp: patch_task_def intro!: table_change.saved[of t])
    qed
  qed (use UpdateTask in \<open>simp add: update_task_def table_change.unchanged\<close>)
next
  case (RemoveTask i)
  show ?thesis
  proof (cases "findOwnedTask ws i tasks")
    case (Inr t)
    with findOwnedTask_Inr[OF Inr] RemoveTask show ?thesis by (auto simp: remove_task_def intro: table_change.removed)
  qed (use RemoveTask in \<open>simp add: remove_task_def table_change.unchanged\<close>)
next
  case (EnsureCheckIn cron i now channel)
  show ?thesis
  proof (cases "List.find (is_check_in ws) tasks")
    case None
    with EnsureCheckIn assms show ?thesis
      by (auto simp: ensureSystemCheckIn_def check_in_task_def split: sum.splits
          intro: table_change.unchanged intro!: table_change.added)
  next
    case (Some t)
    then have t: "t \<in> set tasks" "st_workspaceId t = ws" using find_Some_iff_mem[OF Some] by (auto simp: is_check_in_def)
    then have "table_change ws tasks (save_row st_id (t\<lparr>st_slackChannelId := channel\<rparr>) tasks)"
      by (intro table_change.saved) auto
    with Some EnsureCheckIn show ?thesis by (simp add: ensureSystemCheckIn_def table_change.unchanged)
  qed
qed

lemma map_filter_update_where:
  "(\<And>r. r \<in> set rows \<Longrightarrow> p r \<Longrightarrow> q (f r) = q r \<and> g (f r) = g r) \<Longrightarrow>
     map g (filter q (update_where p f rows)) = map g (filter q rows)"
  by (induction rows) auto

lemma distinct_map_filter_conj:
  "distinct (map f (filter q xs)) \<Longrightarrow> distinct (map f (filter (\<lambda>x. p x \<and> q x) xs))"
  using distinct_map_filter[of f "filter q xs" p] by (simp add: conj_commute)

definition same_system_task :: "scheduled_task list \<Rightarrow> scheduled_task list \<Rightarrow> bool" where
  "same_system_task tasks tasks' \<longleftrightarrow> (\<forall>t \<in> set tasks. st_type t = SYSTEM_TASK \<longrightarrow>
     (\<exists>c. t\<lparr>st_slackChannelId := c\<rparr> \<in> set tasks'))"

lemma same_system_task_mem:
  assumes "t \<in> set tasks'" shows "\<exists>c. t\<lparr>st_slackChannelId := c\<rparr> \<in> set tasks'"
  by (rule exI[of _ "st_slackChannelId t"]) (simp add: assms)

lemma same_system_task_refl: "same_system_task tasks tasks"
  by (simp add: same_system_task_def same_system_task_mem)

lemma same_system_task_trans:
  assumes "same_system_task tasks tasks1" and "same_system_task tasks1 tasks2"
  shows "same_system_task tasks tasks2"
  unfolding same_system_task_def
proof (intro ballI impI)
  fix t assume t: "t \<in> set tasks" "st_type t = SYSTEM_TASK"
  with assms(1) obtain c where "t\<lparr>st_slackChannelId := c\<rparr> \<in> set tasks1" by (auto simp: same_system_task_def)
  with assms(2) t(2) obtain d where "t\<lparr>st_slackChannelId := c\<rparr>\<lparr>st_slackChannelId := d\<rparr> \<in> set tasks2"
    by (fastforce simp: same_system_task_def)
  then show "\<exists>c. t\<lparr>st_slackChannelId := c\<rparr> \<in> set tasks2" by auto
qed

lemma table_change_ok:
  assumes "table_change ws tasks tasks'" and "tasks_wf tasks"
  shows "tasks_wf tasks' \<and> same_system_task tasks tasks'
    \<and> (w \<noteq> ws \<longrightarrow> filter (\<lambda>t. st_workspaceId t = w) tasks' = filter (\<lambda>t. st_workspaceId t = w) tasks)"
  using assms
proof (induction rule: table_change.induct)
  case unchanged
  then show ?case by (simp add: same_system_task_refl)
next
  case (added t)
  have "st_workspaceId t \<notin> st_workspaceId ` {x \<in> set tasks. is_check_in (st_workspaceId x) x}" if "is_check_in ws t"
    using added(2) added(3)[OF that] by (auto simp: find_None_iff_all is_check_in_def)
  moreover have "same_system_task tasks (tasks @ [t])"
    unfolding same_system_task_def by (intro ballI impI same_system_task_mem) simp
  ultimately show ?case using added by (auto simp: tasks_wf_def)
next
  case (saved t t')
  have d: "distinct (map st_id tasks)" using saved by (simp add: tasks_wf_def)
  have ex: "\<exists>x \<in> set tasks. st_id x = st_id t'" using saved(1,3) by auto
  have only: "x = t" if "x \<in> set tasks" "st_id x = st_id t'" for x
    using that saved(1,3) d by (auto dest: distinct_map_inj_on inj_onD)
  have check: "is_check_in (st_workspaceId t') t' = is_check_in (st_workspaceId t) t"
  proof (cases "st_type t")
    case SYSTEM_TASK
    from saved(6)[OF this] have "st_name t' = st_name t" by auto
    with saved show ?thesis by (simp add: is_check_in_def)
  qed (use saved in \<open>simp add: is_check_in_def\<close>)
  have "map st_workspaceId (filter (\<lambda>x. is_check_in (st_workspaceId x) x) (save_row st_id t' tasks)) =
      map st_workspaceId (filter (\<lambda>x. is_check_in (st_workspaceId x) x) tasks)"
    unfolding save_row_def if_P[OF ex]
  proof (rule map_filter_update_where)
    fix x assume "x \<in> set tasks" "st_id x = st_id t'"
    then have "x = t" by (rule only)
    with check saved(2,4) show "is_check_in (st_workspaceId t') t' = is_check_in (st_workspaceId x) x \<and> st_workspaceId t' = st_workspaceId x"
      by simp
  qed
  then have "tasks_wf (save_row st_id t' tasks)"
    using saved.prems d by (simp add: tasks_wf_def distinct_save_row)
  moreover have "same_system_task tasks (save_row st_id t' tasks)"
    unfolding same_system_task_def
  proof (intro ballI impI)
    fix x assume x: "x \<in> set tasks" "st_type x = SYSTEM_TASK"
    show "\<exists>c. x\<lparr>st_slackChannelId := c\<rparr> \<in> set (save_row st_id t' tasks)"
    proof (cases "x = t")
      case True
      with saved(6) x(2) obtain c where "t' = x\<lparr>st_slackChannelId := c\<rparr>" by blast
      then have "x\<lparr>st_slackChannelId := c\<rparr> \<in> set (save_row st_id t' tasks)" by simp
      then show ?thesis ..
    next
      case False
      with only x(1) have "x \<in> set (save_row st_id t' tasks)" by (auto simp: set_save_row)
      then show ?thesis by (rule same_system_task_mem)
    qed
  qed
  moreover have "filter (\<lambda>t. st_workspaceId t = w) (save_row st_id t' tasks) = filter (\<lambda>t. st_workspaceId t = w) tasks" if "w \<noteq> ws"
    by (rule save_row_foreign[OF d saved(1) saved(3) saved(2) saved(4) that])
  ultimately show ?case by blast
next
  case (removed t)
  have d: "distinct (map st_id tasks)" using removed by (simp add: tasks_wf_def)
  have "same_system_task tasks (delete_where (\<lambda>x. st_id x = st_id t) tasks)"
    unfolding same_system_task_def
  proof (intro ballI impI)
    fix x assume x: "x \<in> set tasks" "st_type x = SYSTEM_TASK"
    with removed(3) have "x \<noteq> t" by auto
    with x(1) removed(1) distinct_map_inj_on[OF d] have "st_id x \<noteq> st_id t" by (auto dest: inj_onD)
    with x show "\<exists>c. x\<lparr>st_slackChannelId := c\<rparr> \<in> set (delete_where (\<lambda>x. st_id x = st_id t) tasks)"
      by (intro same_system_task_mem) simp
  qed
  moreover have "tasks_wf (delete_where (\<lambda>x. st_id x = st_id t) tasks)"
    using removed.prems distinct_map_filter_conj[of st_workspaceId "\<lambda>x. is_check_in (st_workspaceId x) x" tasks "\<lambda>x. st_id x \<noteq> st_id t"]
    by (simp add: tasks_wf_def distinct_delete_where) (simp add: delete_where_def)
  ultimately show ?case using delete_where_foreign[OF d removed(1), of st_workspaceId w] removed(2) by auto
qed

lemma task_step_ok:
  assumes "tasks_wf tasks" and "task_op_ok op tasks"
  shows "tasks_wf (task_step ws op tasks)" and "same_system_task tasks (task_step ws op tasks)"
    and "w \<noteq> ws \<Longrightarrow> filter (\<lambda>t. st_workspaceId t = w) (task_step ws op tasks) = filter (\<lambda>t. st_workspaceId t = w) tasks"
  using table_change_ok[OF task_step_changes[OF assms(2)] assms(1)] by blast+

interpretation tasks: tenant_service st_workspaceId tasks_wf task_op_ok task_step
  by unfold_locales (use task_step_ok in blast)+

lemma system_tasks_stay: "tasks_wf rows \<Longrightarrow> tasks.run_ok ops rows \<Longrightarrow> same_system_task rows (tasks.run ops rows)"
proof (induction ops rows rule: tasks.run.induct)
  case (1 rows)
  then show ?case by (simp add: same_system_task_refl)
next
  case (2 ws op ops rows)
  then have "same_system_task rows (task_step ws op rows)" "tasks_wf (task_step ws op rows)" by (auto intro: task_step_ok)
  with 2 show ?case by (auto intro: same_system_task_trans)
qed

text \<open>Whatever tasks are created, edited, deleted and whatever installs repeat: a workspace has at most one check-in,
  a system task never changes but for its destination, and the tasks of a workspace are only touched by
  its own operations.\<close>

theorem system_tasks_are_protected:
  assumes "tasks_wf rows" and "tasks.run_ok ops rows"
  shows "tasks_wf (tasks.run ops rows) \<and> same_system_task rows (tasks.run ops rows)
    \<and> (w \<notin> fst ` set ops \<longrightarrow> findAllForWorkspace us w viewer (tasks.run ops rows) = findAllForWorkspace us w viewer rows)"
  using tasks.run_wf[OF assms] system_tasks_stay[OF assms] tasks.run_foreign[OF assms]
  by (auto simp: findAllForWorkspace_def)

lemma system_tasks_are_protected_witness:
  "let ops = [(''w2'', EnsureCheckIn sample_cron ''t2'' 0 None), (''w2'', EnsureCheckIn sample_cron ''t3'' 0 (Some ''D1'')),
              (''w2'', RemoveTask ''t2'')]
   in tasks_wf (tasks.run ops [sample_task]) \<and> map st_id (tasks.run ops [sample_task]) = [''t1'', ''t2'']
      \<and> findAllForWorkspace [] ''w1'' ''a'' (tasks.run ops [sample_task]) = findAllForWorkspace [] ''w1'' ''a'' [sample_task]"
proof -
  define ops where "ops = [(''w2'', EnsureCheckIn sample_cron ''t2'' 0 None), (''w2'', EnsureCheckIn sample_cron ''t3'' 0 (Some ''D1'')),
              (''w2'', RemoveTask ''t2'')]"
  note defs = ops_def ensureSystemCheckIn_def sample_task_def is_check_in_def check_in_task_def nextRunFrom_def sample_cron_def
    save_row_def remove_task_def findOwnedTask_def findTask_def
  have wf: "tasks_wf [sample_task]" by (simp add: tasks_wf_def)
  have ok: "tasks.run_ok ops [sample_task]" by (simp add: defs)
  have w: "''w1'' \<notin> fst ` set ops" by (simp add: ops_def)
  have ids: "map st_id (tasks.run ops [sample_task]) = [''t1'', ''t2'']" by (simp add: defs)
  from system_tasks_are_protected[OF wf ok, of "''w1''" "[]" "''a''"] w ids show ?thesis
    unfolding ops_def [symmetric] by (simp add: Let_def)
qed

end
