(* ===== verification/SpaceSpec.thy ===== *)
theory SpaceSpec
  imports JsonText
begin

text \<open>
  The specification of an app: \<open>src/src/spaces/spec/validate-spec.ts\<close> checks the value a model
  wrote, and the records people enter against it; \<open>src/src/spaces/spec/seed-records.ts\<close> turns
  model-written rows into records.  A specification stays the value it was written as; the
  declarative \<open>app_spec_wf\<close> says what a well-formed one is (\<open>app-spec.ts\<close>).
\<close>

section \<open>Identifiers and labels\<close>

definition FIELD_TYPES :: "string list" where
  "FIELD_TYPES = [''string'', ''text'', ''number'', ''date'', ''datetime'', ''boolean'', ''select'', ''reference'']"

definition is_word :: "char \<Rightarrow> bool" where
  "is_word c \<longleftrightarrow> is_lower c \<or> is_upper c \<or> is_digit c \<or> c = CHR ''_''"

text \<open>\<open>NAME_RE\<close>: a letter, then letters, digits and underscores.\<close>

definition name_ok :: "string \<Rightarrow> bool" where
  "name_ok s = (case s of [] \<Rightarrow> False | c # cs \<Rightarrow> (is_lower c \<or> is_upper c) \<and> list_all is_word cs)"

definition is_identifier :: "jsval \<Rightarrow> bool" where
  "is_identifier v \<longleftrightarrow> is_string v \<and> name_ok (str_of v)"

definition blank :: "jsval \<Rightarrow> bool" where
  "blank v \<longleftrightarrow> \<not> is_string v \<or> js_trim (str_of v) = []"

definition quoted :: "string \<Rightarrow> string" where
  "quoted s = [CHR 0x22] @ s @ [CHR 0x22]"

definition squoted :: "string \<Rightarrow> string" where
  "squoted s = [CHR 0x27] @ s @ [CHR 0x27]"

text \<open>\<open>`${at}[${i}]`\<close>.\<close>

definition at_index :: "string \<Rightarrow> nat \<Rightarrow> string" where
  "at_index pos i = pos @ ''['' @ show_nat i @ '']''"

definition name_of :: "jsval \<Rightarrow> string" where
  "name_of v = str_of (get_prop v ''name'')"

definition array_of :: "jsval \<Rightarrow> string \<Rightarrow> jsval list" where
  "array_of v k = (case arr_of (get_prop v k) of Some xs \<Rightarrow> xs | None \<Rightarrow> [])"

section \<open>The validator\<close>

text \<open>
  The names seen so far are passed along as the sets of the code are; each function gives the errors
  it pushes.
\<close>

definition add_name :: "jsval \<Rightarrow> string list \<Rightarrow> string list" where
  "add_name v names = (if is_object v \<and> is_identifier (get_prop v ''name'') \<and> name_of v \<notin> set names
     then names @ [name_of v] else names)"

definition name_errors :: "string \<Rightarrow> string \<Rightarrow> string list \<Rightarrow> jsval \<Rightarrow> string list" where
  "name_errors pos hint names v =
    (if \<not> is_identifier (get_prop v ''name'') then [pos @ ''.name must be an identifier'' @ hint]
     else if name_of v \<in> set names then [pos @ ''.name '' @ quoted (name_of v) @ '' is duplicated''] else [])"

definition label_errors :: "string \<Rightarrow> jsval \<Rightarrow> string list" where
  "label_errors pos v = (if blank (get_prop v ''label'') then [pos @ ''.label is required''] else [])"

definition validateField :: "string \<Rightarrow> string list \<Rightarrow> jsval \<Rightarrow> string list" where
  "validateField pos names field =
    (if \<not> is_object field then [pos @ '' must be an object'']
     else name_errors pos [] names field @ label_errors pos field
       @ (if get_prop field ''type'' \<notin> JStr ` set FIELD_TYPES
          then [pos @ ''.type must be one of: '' @ join '', '' FIELD_TYPES] else [])
       @ (if get_prop field ''type'' = JStr ''select'' \<and> array_of field ''options'' = []
          then [pos @ ''.options is required for select fields''] else [])
       @ (if get_prop field ''type'' = JStr ''reference'' \<and> \<not> is_string (get_prop field ''refEntity'')
          then [pos @ ''.refEntity is required for reference fields''] else [])
       @ (if get_prop field ''required'' \<noteq> JUndef \<and> \<not> is_boolean (get_prop field ''required'')
          then [pos @ ''.required must be a boolean''] else []))"

fun validateFields :: "string \<Rightarrow> nat \<Rightarrow> string list \<Rightarrow> jsval list \<Rightarrow> string list" where
  "validateFields pos i names [] = []"
| "validateFields pos i names (f # fs) =
     validateField (at_index (pos @ ''.fields'') i) names f @ validateFields pos (i + 1) (add_name f names) fs"

definition validateEntity :: "nat \<Rightarrow> string list \<Rightarrow> jsval \<Rightarrow> string list" where
  "validateEntity i names entity = (let pos = at_index ''spec.entities'' i in
     if \<not> is_object entity then [pos @ '' must be an object'']
     else name_errors pos '' (letters, digits, underscore)'' names entity @ label_errors pos entity
       @ (if array_of entity ''fields'' = [] then [pos @ ''.fields must be a non-empty array'']
          else validateFields pos 0 [] (array_of entity ''fields'')))"

text \<open>All entities, with the names they declare.\<close>

fun validateEntities :: "nat \<Rightarrow> string list \<Rightarrow> jsval list \<Rightarrow> string list" where
  "validateEntities i names [] = []"
| "validateEntities i names (e # es) = validateEntity i names e @ validateEntities (i + 1) (add_name e names) es"

definition entity_names :: "jsval list \<Rightarrow> string list" where
  "entity_names es = fold add_name es []"

definition refers_to :: "string list \<Rightarrow> jsval \<Rightarrow> bool" where
  "refers_to names v \<longleftrightarrow> is_string (get_prop v ''entity'') \<and> str_of (get_prop v ''entity'') \<in> set names"

definition WIDGET_KINDS :: "string list" where
  "WIDGET_KINDS = [''count'', ''sum'', ''list'']"

definition validateWidget :: "string \<Rightarrow> string list \<Rightarrow> jsval \<Rightarrow> string list" where
  "validateWidget pos names widget =
    (if \<not> is_object widget then [pos @ '' must be an object'']
     else (if get_prop widget ''kind'' \<notin> JStr ` set WIDGET_KINDS
           then [pos @ ''.kind must be one of: '' @ join '', '' WIDGET_KINDS] else [])
       @ label_errors pos widget
       @ (if refers_to names widget then [] else [pos @ ''.entity must reference a defined entity''])
       @ (if get_prop widget ''kind'' = JStr ''sum'' \<and> \<not> is_string (get_prop widget ''field'')
          then [pos @ ''.field is required for sum widgets''] else []))"

fun validateWidgets :: "string \<Rightarrow> nat \<Rightarrow> string list \<Rightarrow> jsval list \<Rightarrow> string list" where
  "validateWidgets pos i names [] = []"
| "validateWidgets pos i names (w # ws) =
     validateWidget (at_index (pos @ ''.widgets'') i) names w @ validateWidgets pos (i + 1) names ws"

definition validateView :: "nat \<Rightarrow> string list \<Rightarrow> jsval \<Rightarrow> string list" where
  "validateView i names view = (let pos = at_index ''spec.views'' i; kind = get_prop view ''type'' in
     if \<not> is_object view then [pos @ '' must be an object'']
     else (if blank (get_prop view ''title'') then [pos @ ''.title is required''] else [])
       @ (if kind = JStr ''form'' \<or> kind = JStr ''table''
          then (if refers_to names view then [] else [pos @ ''.entity must reference a defined entity''])
          else if kind = JStr ''dashboard''
          then (if array_of view ''widgets'' = [] then [pos @ ''.widgets must be a non-empty array'']
                else validateWidgets pos 0 names (array_of view ''widgets''))
          else [pos @ ''.type must be '' @ squoted ''form'' @ '', '' @ squoted ''table'' @ '', or '' @ squoted ''dashboard'']))"

fun validateViews :: "nat \<Rightarrow> string list \<Rightarrow> jsval list \<Rightarrow> string list" where
  "validateViews i names [] = []"
| "validateViews i names (v # vs) = validateView i names v @ validateViews (i + 1) names vs"

definition auth_errors :: "jsval \<Rightarrow> string list" where
  "auth_errors auth =
    (if \<not> is_object auth then [''spec.auth is required'']
     else (if get_prop auth ''mode'' \<noteq> JStr ''magic-link'' then [''spec.auth.mode must be '' @ squoted ''magic-link''] else [])
       @ (if is_boolean (get_prop auth ''allowSignup'') then [] else [''spec.auth.allowSignup must be a boolean'']))"

definition spec_errors :: "jsval \<Rightarrow> string list" where
  "spec_errors v = (let es = array_of v ''entities''; vs = array_of v ''views'' in
       (if blank (get_prop v ''name'') then [''spec.name is required''] else [])
     @ (if get_prop v ''description'' \<noteq> JUndef \<and> \<not> is_string (get_prop v ''description'')
        then [''spec.description must be a string''] else [])
     @ (if es = [] then [''spec.entities must be a non-empty array''] else validateEntities 0 [] es)
     @ (if vs = [] then [''spec.views must be a non-empty array''] else validateViews 0 (entity_names es) vs)
     @ auth_errors (get_prop v ''auth''))"

definition validateAppSpec :: "jsval \<Rightarrow> jsval result" where
  "validateAppSpec v =
    (if \<not> is_object v then Inl (BadRequest ''spec must be an object'')
     else if spec_errors v \<noteq> [] then Inl (BadRequestErrors ''Invalid app spec'' (spec_errors v))
     else Inr v)"

section \<open>Well-formed specifications\<close>

definition label_wf :: "jsval \<Rightarrow> bool" where
  "label_wf v \<longleftrightarrow> (\<exists>s. get_prop v ''label'' = JStr s \<and> js_trim s \<noteq> [])"

definition named :: "jsval \<Rightarrow> bool" where
  "named v \<longleftrightarrow> (\<exists>s. get_prop v ''name'' = JStr s \<and> name_ok s)"

definition field_wf :: "jsval \<Rightarrow> bool" where
  "field_wf f \<longleftrightarrow> is_object f \<and> named f \<and> label_wf f \<and> (\<exists>t \<in> set FIELD_TYPES. get_prop f ''type'' = JStr t)
     \<and> (get_prop f ''type'' = JStr ''select'' \<longrightarrow> (\<exists>options. get_prop f ''options'' = JArr options \<and> options \<noteq> []))
     \<and> (get_prop f ''type'' = JStr ''reference'' \<longrightarrow> (\<exists>e. get_prop f ''refEntity'' = JStr e))
     \<and> (get_prop f ''required'' = JUndef \<or> (\<exists>b. get_prop f ''required'' = JBool b))"

definition entity_wf :: "jsval \<Rightarrow> bool" where
  "entity_wf e \<longleftrightarrow> is_object e \<and> named e \<and> label_wf e
     \<and> (\<exists>fields. get_prop e ''fields'' = JArr fields \<and> fields \<noteq> [] \<and> (\<forall>f \<in> set fields. field_wf f)
          \<and> distinct (map name_of fields))"

definition refers :: "string set \<Rightarrow> jsval \<Rightarrow> bool" where
  "refers names v \<longleftrightarrow> (\<exists>e \<in> names. get_prop v ''entity'' = JStr e)"

definition widget_wf :: "string set \<Rightarrow> jsval \<Rightarrow> bool" where
  "widget_wf names w \<longleftrightarrow> is_object w \<and> (\<exists>k \<in> set WIDGET_KINDS. get_prop w ''kind'' = JStr k) \<and> label_wf w \<and> refers names w
     \<and> (get_prop w ''kind'' = JStr ''sum'' \<longrightarrow> (\<exists>f. get_prop w ''field'' = JStr f))"

definition view_wf :: "string set \<Rightarrow> jsval \<Rightarrow> bool" where
  "view_wf names v \<longleftrightarrow> is_object v \<and> (\<exists>s. get_prop v ''title'' = JStr s \<and> js_trim s \<noteq> [])
     \<and> (get_prop v ''type'' \<in> {JStr ''form'', JStr ''table''} \<and> refers names v
        \<or> get_prop v ''type'' = JStr ''dashboard''
          \<and> (\<exists>ws. get_prop v ''widgets'' = JArr ws \<and> ws \<noteq> [] \<and> (\<forall>w \<in> set ws. widget_wf names w)))"

definition app_spec_wf :: "jsval \<Rightarrow> bool" where
  "app_spec_wf v \<longleftrightarrow> is_object v \<and> (\<exists>s. get_prop v ''name'' = JStr s \<and> js_trim s \<noteq> [])
     \<and> (get_prop v ''description'' = JUndef \<or> (\<exists>s. get_prop v ''description'' = JStr s))
     \<and> (\<exists>es. get_prop v ''entities'' = JArr es \<and> es \<noteq> [] \<and> (\<forall>e \<in> set es. entity_wf e) \<and> distinct (map name_of es)
          \<and> (\<exists>vs. get_prop v ''views'' = JArr vs \<and> vs \<noteq> [] \<and> (\<forall>x \<in> set vs. view_wf (name_of ` set es) x)))
     \<and> (is_object (get_prop v ''auth'') \<and> get_prop (get_prop v ''auth'') ''mode'' = JStr ''magic-link''
        \<and> (\<exists>b. get_prop (get_prop v ''auth'') ''allowSignup'' = JBool b))"

section \<open>The validator accepts exactly the well-formed specifications\<close>

lemma is_string_ex: "is_string v \<longleftrightarrow> (\<exists>s. v = JStr s)"
  by (cases v) simp_all

lemma is_boolean_ex: "is_boolean v \<longleftrightarrow> (\<exists>b. v = JBool b)"
  by (cases v) simp_all

lemma blank_ex: "\<not> blank v \<longleftrightarrow> (\<exists>s. v = JStr s \<and> js_trim s \<noteq> [])"
  by (cases v) (simp_all add: blank_def)

lemma is_identifier_ex: "is_identifier v \<longleftrightarrow> (\<exists>s. v = JStr s \<and> name_ok s)"
  by (cases v) (simp_all add: is_identifier_def)

lemma array_nonempty: "array_of v k \<noteq> [] \<longleftrightarrow> (\<exists>xs. get_prop v k = JArr xs \<and> xs \<noteq> [])"
  by (cases "get_prop v k") (simp_all add: array_of_def)

lemma array_of_JArr: "get_prop v k = JArr xs \<Longrightarrow> array_of v k = xs"
  by (simp add: array_of_def)

lemma name_errors_none: "name_errors pos hint names v = [] \<longleftrightarrow> named v \<and> name_of v \<notin> set names"
  by (auto simp: name_errors_def named_def is_identifier_ex)

lemma label_errors_none: "label_errors pos v = [] \<longleftrightarrow> label_wf v"
  using blank_ex[of "get_prop v ''label''"] by (auto simp: label_errors_def label_wf_def)

lemma validateField_none: "validateField pos names f = [] \<longleftrightarrow> field_wf f \<and> name_of f \<notin> set names"
  unfolding validateField_def field_wf_def
  using array_nonempty[of f "''options''"]
  by (auto simp: name_errors_none label_errors_none is_string_ex is_boolean_ex image_iff)

lemma add_name_named: "is_object v \<Longrightarrow> named v \<Longrightarrow> name_of v \<notin> set names \<Longrightarrow> add_name v names = names @ [name_of v]"
  by (auto simp: add_name_def named_def is_identifier_ex)

lemma validateFields_none:
  "validateFields pos i names fs = [] \<longleftrightarrow> (\<forall>f \<in> set fs. field_wf f) \<and> distinct (map name_of fs) \<and> name_of ` set fs \<inter> set names = {}"
proof (induction fs arbitrary: i names)
  case (Cons f fs)
  show ?case
  proof (cases "field_wf f \<and> name_of f \<notin> set names")
    case True
    then have "add_name f names = names @ [name_of f]" by (intro add_name_named) (simp_all add: field_wf_def)
    with True Cons.IH[of "i + 1" "names @ [name_of f]"] show ?thesis by (auto simp: validateField_none)
  qed (auto simp: validateField_none)
qed simp

lemma validateEntity_none: "validateEntity i names e = [] \<longleftrightarrow> entity_wf e \<and> name_of e \<notin> set names"
  using array_nonempty[of e "''fields''"]
  by (auto simp: validateEntity_def entity_wf_def Let_def name_errors_none label_errors_none validateFields_none array_of_JArr
      split: if_splits)

lemma validateEntities_none:
  "validateEntities i names es = [] \<longleftrightarrow> (\<forall>e \<in> set es. entity_wf e) \<and> distinct (map name_of es) \<and> name_of ` set es \<inter> set names = {}"
proof (induction es arbitrary: i names)
  case (Cons e es)
  show ?case
  proof (cases "entity_wf e \<and> name_of e \<notin> set names")
    case True
    then have "add_name e names = names @ [name_of e]" by (intro add_name_named) (simp_all add: entity_wf_def)
    with True Cons.IH[of "i + 1" "names @ [name_of e]"] show ?thesis by (auto simp: validateEntity_none)
  qed (auto simp: validateEntity_none)
qed simp

lemma fold_add_name:
  "(\<forall>e \<in> set es. entity_wf e) \<Longrightarrow> distinct (map name_of es) \<Longrightarrow> name_of ` set es \<inter> set names = {}
     \<Longrightarrow> fold add_name es names = names @ map name_of es"
proof (induction es arbitrary: names)
  case (Cons e es)
  then have "add_name e names = names @ [name_of e]" by (intro add_name_named) (auto simp: entity_wf_def)
  with Cons show ?case by auto
qed simp

lemma refers_to_iff: "refers_to names v \<longleftrightarrow> refers (set names) v"
  by (cases "get_prop v ''entity''") (auto simp: refers_to_def refers_def)

lemma validateWidget_none: "validateWidget pos names w = [] \<longleftrightarrow> widget_wf (set names) w"
  by (auto simp: validateWidget_def widget_wf_def label_errors_none refers_to_iff is_string_ex image_iff)

lemma validateWidgets_none: "validateWidgets pos i names ws = [] \<longleftrightarrow> (\<forall>w \<in> set ws. widget_wf (set names) w)"
  by (induction ws arbitrary: i) (auto simp: validateWidget_none)

lemma validateView_none: "validateView i names v = [] \<longleftrightarrow> view_wf (set names) v"
  using array_nonempty[of v "''widgets''"] blank_ex[of "get_prop v ''title''"]
  by (auto simp: validateView_def view_wf_def Let_def refers_to_iff validateWidgets_none array_of_JArr split: if_splits)

lemma validateViews_none: "validateViews i names vs = [] \<longleftrightarrow> (\<forall>v \<in> set vs. view_wf (set names) v)"
  by (induction vs arbitrary: i) (auto simp: validateView_none)

lemma auth_errors_none:
  "auth_errors a = [] \<longleftrightarrow> is_object a \<and> get_prop a ''mode'' = JStr ''magic-link'' \<and> (\<exists>b. get_prop a ''allowSignup'' = JBool b)"
  by (auto simp: auth_errors_def is_boolean_ex)

lemma array_cases:
  "(if array_of v k = [] then [msg] else errors) = [] \<longleftrightarrow> (\<exists>xs. get_prop v k = JArr xs \<and> xs \<noteq> [] \<and> errors = [])"
  using array_nonempty[of v k] by auto

lemma spec_errors_none:
  "is_object v \<Longrightarrow> spec_errors v = [] \<longleftrightarrow> app_spec_wf v"
proof -
  assume o: "is_object v"
  let ?es = "array_of v ''entities''"
  let ?vs = "array_of v ''views''"
  have names: "set (entity_names ?es) = name_of ` set ?es" if "validateEntities 0 [] ?es = []"
    using that fold_add_name[of ?es "[]"] by (simp add: entity_names_def validateEntities_none)
  have "spec_errors v = [] \<longleftrightarrow> \<not> blank (get_prop v ''name'')
      \<and> (get_prop v ''description'' = JUndef \<or> is_string (get_prop v ''description''))
      \<and> (\<exists>es. get_prop v ''entities'' = JArr es \<and> es \<noteq> [] \<and> validateEntities 0 [] ?es = [])
      \<and> (\<exists>vs. get_prop v ''views'' = JArr vs \<and> vs \<noteq> [] \<and> validateViews 0 (entity_names ?es) ?vs = [])
      \<and> auth_errors (get_prop v ''auth'') = []"
    unfolding spec_errors_def Let_def append_is_Nil_conv array_cases by simp
  also have "\<dots> \<longleftrightarrow> app_spec_wf v"
    using names by (auto simp: app_spec_wf_def o blank_ex is_string_ex auth_errors_none validateEntities_none validateViews_none array_of_JArr)
  finally show ?thesis .
qed

text \<open>C18: The validator accepts a model-written specification exactly when it is well formed - unique identifier names,
  labels, known field types, views over declared entities, magic-link sign-in - and then passes it on
  unchanged; everything else is refused.\<close>

theorem validator_is_exact: "validateAppSpec v = (if app_spec_wf v then Inr v
    else Inl (if is_object v then BadRequestErrors ''Invalid app spec'' (spec_errors v) else BadRequest ''spec must be an object''))"
proof (cases "is_object v")
  case True
  with spec_errors_none[OF True] show ?thesis by (auto simp: validateAppSpec_def)
next
  case False
  then have "\<not> app_spec_wf v" by (simp add: app_spec_wf_def)
  with False show ?thesis by (simp add: validateAppSpec_def)
qed

end
