(* ===== verification/SpaceRecords.thy ===== *)
theory SpaceRecords
  imports SpaceSpec
begin

text \<open>
  The rows of an app: \<open>validateRecordData\<close> of \<open>validate-spec.ts\<close> for what people enter and
  \<open>src/src/spaces/spec/seed-records.ts\<close> for the rows a model writes.  The random ids are the
  parameter \<open>ids\<close>.
\<close>

section \<open>Records people enter\<close>

definition field_type :: "jsval \<Rightarrow> string" where
  "field_type f = str_of (get_prop f ''type'')"

definition missing :: "jsval \<Rightarrow> bool" where
  "missing raw \<longleftrightarrow> raw \<in> {JUndef, JNull, JStr []}"

definition option_texts :: "jsval list \<Rightarrow> string" where
  "option_texts options = join '', '' (map (\<lambda>v. if is_nullish v then [] else to_string v) options)"

text \<open>The value to store, or the error pushed.\<close>

definition coerceFieldValue :: "jsval \<Rightarrow> jsval \<Rightarrow> string + jsval" where
  "coerceFieldValue field raw =
    (if field_type field = ''number''
     then (let n = to_number raw in if n = NaN then Inl (name_of field @ '' must be a number'') else Inr (JNum n))
     else if field_type field = ''boolean'' then Inr (JBool (truthy raw))
     else if field_type field = ''select''
     then (if JStr (to_string raw) \<in> set (array_of field ''options'') then Inr (JStr (to_string raw))
           else Inl (name_of field @ '' must be one of: '' @ option_texts (array_of field ''options'')))
     else Inr (JStr (to_string raw)))"

definition field_outcome :: "jsval \<Rightarrow> jsval \<Rightarrow> string list \<times> (string \<times> jsval) list" where
  "field_outcome data field = (let raw = get_prop data (name_of field) in
     if missing raw
     then (if truthy (get_prop field ''required'') then [name_of field @ '' is required''] else [], [])
     else case coerceFieldValue field raw of
       Inl e \<Rightarrow> ([e], []) | Inr v \<Rightarrow> ([], [(name_of field, v)]))"

definition record_errors :: "jsval \<Rightarrow> jsval \<Rightarrow> string list" where
  "record_errors entity data = concat (map (\<lambda>f. fst (field_outcome data f)) (array_of entity ''fields''))"

definition record_values :: "jsval \<Rightarrow> jsval \<Rightarrow> (string \<times> jsval) list" where
  "record_values entity data =
     fold (\<lambda>(k, v) clean. aput k v clean) (concat (map (\<lambda>f. snd (field_outcome data f)) (array_of entity ''fields''))) []"

definition validateRecordData :: "jsval \<Rightarrow> jsval \<Rightarrow> ((string \<times> jsval) list) result" where
  "validateRecordData entity data =
    (if \<not> is_object data then Inl (BadRequest ''record data must be an object'')
     else if record_errors entity data \<noteq> [] then Inl (BadRequestErrors ''Invalid record'' (record_errors entity data))
     else Inr (record_values entity data))"

text \<open>What a stored value of a field is.\<close>

definition value_fits :: "jsval \<Rightarrow> jsval \<Rightarrow> bool" where
  "value_fits f v \<longleftrightarrow>
    (if field_type f = ''number'' then (\<exists>n. v = JNum n \<and> n \<noteq> NaN)
     else if field_type f = ''boolean'' then (\<exists>b. v = JBool b)
     else if field_type f = ''select'' then (\<exists>s. v = JStr s \<and> v \<in> set (array_of f ''options''))
     else (\<exists>s. v = JStr s))"

definition record_fits :: "jsval \<Rightarrow> (string \<times> jsval) list \<Rightarrow> bool" where
  "record_fits entity clean \<longleftrightarrow> distinct (map fst clean)
     \<and> (\<forall>(k, v) \<in> set clean. \<exists>f \<in> set (array_of entity ''fields''). k = name_of f \<and> value_fits f v)
     \<and> (\<forall>f \<in> set (array_of entity ''fields''). truthy (get_prop f ''required'') \<longrightarrow> name_of f \<in> fst ` set clean)"

lemma coerced_fits: "coerceFieldValue f raw = Inr v \<Longrightarrow> value_fits f v"
  by (auto simp: coerceFieldValue_def value_fits_def Let_def split: if_splits)

lemma field_outcome_fits: "(k, v) \<in> set (snd (field_outcome data f)) \<Longrightarrow> k = name_of f \<and> value_fits f v"
  by (auto simp: field_outcome_def Let_def coerced_fits split: if_splits sum.splits)

lemma field_outcome_required:
  "fst (field_outcome data f) = [] \<Longrightarrow> truthy (get_prop f ''required'') \<Longrightarrow> name_of f \<in> fst ` set (snd (field_outcome data f))"
  by (auto simp: field_outcome_def Let_def split: if_splits sum.splits)

lemma distinct_fold_aput: "distinct (map fst m) \<Longrightarrow> distinct (map fst (fold (\<lambda>(k, v) m. aput k v m) es m))"
  by (induction es arbitrary: m) (auto simp: distinct_keys_aput)

lemma keys_fold_aput: "fst ` set (fold (\<lambda>(k, v) m. aput k v m) es m) = fst ` set m \<union> fst ` set es"
proof (induction es arbitrary: m)
  case (Cons p es)
  then show ?case by (cases p) simp
qed simp

lemma set_aput_subset: "set (aput k v m) \<subseteq> insert (k, v) (set m)"
  by (induction m) (auto split: if_splits)

lemma set_fold_aput: "set (fold (\<lambda>(k, v) m. aput k v m) es m) \<subseteq> set m \<union> set es"
proof (induction es arbitrary: m)
  case (Cons p es)
  obtain k v where p: "p = (k, v)" by fastforce
  have "set (fold (\<lambda>(k, v) m. aput k v m) es (aput k v m)) \<subseteq> set (aput k v m) \<union> set es" by (rule Cons.IH)
  also have "\<dots> \<subseteq> insert (k, v) (set m) \<union> set es" using set_aput_subset[of k v m] by blast
  finally show ?case by (simp add: p)
qed simp

lemma stored_records_fit':
  assumes "validateRecordData entity data = Inr clean"
  shows "record_fits entity clean"
proof -
  from assms have errors: "record_errors entity data = []" and clean: "clean = record_values entity data"
    by (auto simp: validateRecordData_def split: if_splits)
  let ?pairs = "concat (map (\<lambda>f. snd (field_outcome data f)) (array_of entity ''fields''))"
  have sub: "set clean \<subseteq> set ?pairs" using set_fold_aput[of ?pairs "[]"] by (simp add: clean record_values_def)
  have keys: "fst ` set clean = fst ` set ?pairs" using keys_fold_aput[of ?pairs "[]"] by (simp add: clean record_values_def)
  have "distinct (map fst clean)" unfolding clean record_values_def by (rule distinct_fold_aput) simp
  moreover have "\<exists>f \<in> set (array_of entity ''fields''). k = name_of f \<and> value_fits f v" if "(k, v) \<in> set clean" for k v
    using that sub field_outcome_fits by fastforce
  moreover have "name_of f \<in> fst ` set clean" if "f \<in> set (array_of entity ''fields'')" "truthy (get_prop f ''required'')" for f
  proof -
    have "fst (field_outcome data f) = []" using that(1) errors by (simp add: record_errors_def)
    from field_outcome_required[OF this that(2)] that(1) show ?thesis unfolding keys by fastforce
  qed
  ultimately show ?thesis by (auto simp: record_fits_def)
qed

text \<open>C19: What reaches the record store fits the entity: only its fields, each once, numbers where numbers are
  declared, declared options only, and every required field present.\<close>

theorem stored_records_fit:
  assumes "validateRecordData entity data = Inr clean"
  shows "record_fits entity clean"
  by (rule stored_records_fit') (rule assms)

definition sample_field :: "string \<Rightarrow> string \<Rightarrow> jsval" where
  "sample_field n t = JObj [(''name'', JStr n), (''label'', JStr n), (''type'', JStr t), (''required'', JBool True)]"

definition sample_entity :: "jsval list \<Rightarrow> jsval" where
  "sample_entity fields = JObj [(''name'', JStr ''Task''), (''label'', JStr ''Task''), (''fields'', JArr fields)]"

lemma stored_records_fit_witness:
  "validateRecordData (sample_entity [sample_field ''hours'' ''number'']) (JObj [(''hours'', JStr ''2''), (''x'', JNull)])
     = Inr [(''hours'', JNum (Fin 2))]
   \<and> record_fits (sample_entity [sample_field ''hours'' ''number'']) [(''hours'', JNum (Fin 2))]"
proof -
  have v: "validateRecordData (sample_entity [sample_field ''hours'' ''number'']) (JObj [(''hours'', JStr ''2''), (''x'', JNull)])
     = Inr [(''hours'', JNum (Fin 2))]"
    by code_simp
  from stored_records_fit[OF v] v show ?thesis by blast
qed

section \<open>Names every object inherits\<close>

text \<open>A field may be named after a property every JavaScript object inherits: the specification is accepted, and a
  row without the required field is stored with the text of a built-in function in it.\<close>

theorem inherited_name_defeats_required:
  "let f = sample_field ''constructor'' ''string''; e = sample_entity [f] in
     entity_wf e \<and> truthy (get_prop f ''required'')
     \<and> validateRecordData e (JObj []) = Inr [(''constructor'', JStr ''function Object() { [native code] }'')]"
proof -
  have "entity_wf (sample_entity [sample_field ''constructor'' ''string''])"
    by (auto simp: entity_wf_def sample_entity_def sample_field_def named_def label_wf_def field_wf_def FIELD_TYPES_def
        name_ok_def is_word_def is_lower_def is_upper_def js_trim_def is_ws_def)
  moreover have "validateRecordData (sample_entity [sample_field ''constructor'' ''string'']) (JObj []) =
      Inr [(''constructor'', JStr ''function Object() { [native code] }'')]" by code_simp
  ultimately show ?thesis by (simp add: Let_def sample_field_def)
qed

section \<open>Rows a model writes\<close>

definition MAX_SEED_RECORDS :: nat where
  "MAX_SEED_RECORDS = 200"

record seed_record =
  sd_id :: uuid
  sd_entityName :: string
  sd_data :: "(string \<times> jsval) list"

definition labelFieldOf :: "jsval \<Rightarrow> jsval option" where
  "labelFieldOf entity = List.find (\<lambda>f. field_type f \<in> {''string'', ''text''}) (array_of entity ''fields'')"

definition find_entity :: "jsval \<Rightarrow> string \<Rightarrow> jsval option" where
  "find_entity spec name = List.find (\<lambda>e. name_of e = name) (array_of spec ''entities'')"

definition describe_field :: "jsval \<Rightarrow> string" where
  "describe_field f = name_of f @ '' ('' @
     (if field_type f = ''select''
      then ''select: '' @ join '' | '' (map (\<lambda>v. if is_nullish v then [] else to_string v) (array_of f ''options''))
      else if field_type f = ''reference'' then ''reference to a '' @ to_string (get_prop f ''refEntity'') @ '', by its name''
      else field_type f)
     @ (if truthy (get_prop f ''required'') then '', required'' else []) @ '')''"

definition describeEntity :: "jsval \<Rightarrow> string" where
  "describeEntity e = name_of e @ '': '' @ join '', '' (map describe_field (array_of e ''fields''))"

definition describeApp :: "jsval \<Rightarrow> string" where
  "describeApp spec = join ''; '' (map describeEntity (array_of spec ''entities''))"

text \<open>\<open>validationReasons\<close>, with the fallback to the message.\<close>

definition reasons :: "http_error \<Rightarrow> string list" where
  "reasons e = (case e of BadRequestErrors _ (r # rs) \<Rightarrow> r # rs | BadRequestErrors m [] \<Rightarrow> [m] | BadRequest m \<Rightarrow> [m] | _ \<Rightarrow> [])"

text \<open>One row: its data or its errors.\<close>

definition row_outcome :: "jsval \<Rightarrow> string \<Rightarrow> jsval \<Rightarrow> string list + (string \<times> jsval) list" where
  "row_outcome entity pos row = (case row of
     JObj ps \<Rightarrow>
       (let unknown = filter (\<lambda>k. k \<notin> set (map name_of (array_of entity ''fields''))) (map fst ps) in
        if unknown \<noteq> [] then Inl [pos @ '': unknown field '' @ join '', '' (map quoted unknown)]
        else case validateRecordData entity row of
          Inl e \<Rightarrow> Inl (map (\<lambda>r. pos @ '': '' @ r) (reasons e))
        | Inr [] \<Rightarrow> Inl [pos @ '' has no values'']
        | Inr (p # ps) \<Rightarrow> Inr (p # ps))
   | _ \<Rightarrow> Inl [pos @ '' must be an object''])"

type_synonym seed_item = "string \<times> string \<times> (string list + (string \<times> jsval) list)"

text \<open>The outcomes of an entity's rows: entity name, position and outcome.\<close>

definition entry_items :: "jsval \<Rightarrow> string \<times> jsval \<Rightarrow> seed_item list" where
  "entry_items spec entry = (case entry of (name, rows) \<Rightarrow>
     (case find_entity spec name of
        None \<Rightarrow> [(name, [], Inl [''records.'' @ name @ '': no such entity''])]
      | Some e \<Rightarrow>
         (case arr_of rows of
            None \<Rightarrow> [(name, [], Inl [''records.'' @ name @ '' must be a list of rows''])]
          | Some rs \<Rightarrow> map (\<lambda>(i, row). (name, at_index (''records.'' @ name) i, row_outcome e (at_index (''records.'' @ name) i) row))
                          (enumerate 0 rs))))"

definition item_errors :: "seed_item \<Rightarrow> string list" where
  "item_errors it = (case it of (_, _, Inl es) \<Rightarrow> es | (_, _, Inr _) \<Rightarrow> [])"

text \<open>The seeds with their positions; the nth of them gets the nth id.\<close>

fun seeds_of :: "(nat \<Rightarrow> uuid) \<Rightarrow> nat \<Rightarrow> seed_item list \<Rightarrow> (seed_record \<times> string) list" where
  "seeds_of ids n [] = []"
| "seeds_of ids n ((name, pos, Inl es) # items) = seeds_of ids n items"
| "seeds_of ids n ((name, pos, Inr data) # items) =
     (\<lparr>sd_id = ids n, sd_entityName = name, sd_data = data\<rparr>, pos) # seeds_of ids (n + 1) items"

text \<open>The name a row is known by, lower-cased; and the row a reference names: the first of that name.\<close>

definition row_label :: "jsval \<Rightarrow> seed_record \<Rightarrow> string option" where
  "row_label spec row = (case find_entity spec (sd_entityName row) of
     None \<Rightarrow> None
   | Some e \<Rightarrow> (case labelFieldOf e of
        None \<Rightarrow> None
      | Some f \<Rightarrow> (case get_prop (JObj (sd_data row)) (name_of f) of
           JStr s \<Rightarrow> if js_trim s = [] then None else Some (to_lower (js_trim s)) | _ \<Rightarrow> None)))"

definition named_row :: "jsval \<Rightarrow> seed_record list \<Rightarrow> string \<Rightarrow> string \<Rightarrow> uuid option" where
  "named_row spec rows target name =
     map_option sd_id (List.find (\<lambda>r. sd_entityName r = target \<and> row_label spec r = Some name) rows)"

definition resolve_field ::
  "jsval \<Rightarrow> seed_record list \<Rightarrow> string \<Rightarrow> jsval \<Rightarrow> (string \<times> jsval) list \<times> string list \<Rightarrow> (string \<times> jsval) list \<times> string list" where
  "resolve_field spec rows pos f state = (case state of (data, errors) \<Rightarrow>
     if field_type f \<noteq> ''reference'' then (data, errors)
     else case get_prop (JObj data) (name_of f) of
        JStr v \<Rightarrow>
          (case named_row spec rows (str_of (get_prop f ''refEntity'')) (to_lower (js_trim v)) of
             Some (c # cs) \<Rightarrow> (aput (name_of f) (JStr (c # cs)) data, errors)
           | _ \<Rightarrow> (data, errors @ [pos @ ''.'' @ name_of f @ '': no '' @ to_string (get_prop f ''refEntity'') @ '' named ''
                @ quoted v @ ''. Give the name of a '' @ to_string (get_prop f ''refEntity'')
                @ '' added in this call or already in the app'']))
      | _ \<Rightarrow> (data, errors))"

definition resolve_seed :: "jsval \<Rightarrow> seed_record list \<Rightarrow> seed_record \<times> string \<Rightarrow> seed_record \<times> string list" where
  "resolve_seed spec rows seed_at = (case seed_at of (seed, pos) \<Rightarrow>
     (let fields = (case find_entity spec (sd_entityName seed) of Some e \<Rightarrow> array_of e ''fields'' | None \<Rightarrow> []);
          (data, errors) = fold (resolve_field spec rows pos) fields (sd_data seed, [])
      in (seed\<lparr>sd_data := data\<rparr>, errors)))"

definition row_total :: "(string \<times> jsval) list \<Rightarrow> nat" where
  "row_total entries = sum_list (map (\<lambda>(_, rows). case arr_of rows of Some rs \<Rightarrow> length rs | None \<Rightarrow> 0) entries)"

definition prepareSeedRecords ::
  "(nat \<Rightarrow> uuid) \<Rightarrow> jsval \<Rightarrow> jsval \<Rightarrow> seed_record list \<Rightarrow> seed_record list result" where
  "prepareSeedRecords ids spec input existing = (case input of
     JObj entries \<Rightarrow>
      (if MAX_SEED_RECORDS < row_total entries
       then Inl (BadRequest (''records holds '' @ show_nat (row_total entries) @ '' rows; one call may add at most ''
              @ show_nat MAX_SEED_RECORDS))
       else (let items = concat (map (entry_items spec) entries); seeds = seeds_of ids 0 items;
                 rows = map fst seeds @ existing; resolved = map (resolve_seed spec rows) seeds;
                 errors = concat (map item_errors items) @ concat (map snd resolved)
             in if errors \<noteq> [] then Inl (BadRequestErrors ''Invalid starting records'' (errors @ [''This app has '' @ describeApp spec]))
                else Inr (map fst resolved)))
   | JUndef \<Rightarrow> Inr [] | JNull \<Rightarrow> Inr []
   | _ \<Rightarrow> Inl (BadRequest ''records must map each entity name to a list of rows, e.g. { Task: [{ ... }] }''))"

lemma get_prop_JStr: "get_prop (JObj d) k = JStr v \<longleftrightarrow> map_of d k = Some (JStr v)"
  by (auto split: option.splits)

lemma named_row_Some:
  "named_row spec rows target name = Some i \<Longrightarrow> \<exists>r \<in> set rows. sd_id r = i \<and> sd_entityName r = target"
  by (auto simp: named_row_def dest!: find_Some_iff_mem)

text \<open>What resolving one field without an error does.\<close>

definition points_to :: "seed_record list \<Rightarrow> jsval \<Rightarrow> (string \<times> jsval) list \<Rightarrow> bool" where
  "points_to rows f data \<longleftrightarrow> (field_type f = ''reference'' \<longrightarrow> (\<forall>v. map_of data (name_of f) = Some (JStr v) \<longrightarrow>
     (\<exists>r \<in> set rows. sd_id r = v \<and> sd_entityName r = str_of (get_prop f ''refEntity''))))"

lemma resolve_field_cases:
  assumes "resolve_field spec rows pos f (data, errors) = (data', errors')"
  shows "(\<exists>e. errors' = errors @ [e]) \<or> errors' = errors \<and> points_to rows f data'
    \<and> (data' = data \<or> field_type f = ''reference'' \<and> (\<exists>i v. map_of data (name_of f) = Some (JStr v) \<and> data' = aput (name_of f) (JStr i) data))"
proof (cases "field_type f = ''reference'' \<and> (\<exists>v. map_of data (name_of f) = Some (JStr v))")
  case True
  then obtain v where t: "field_type f = ''reference''" and v: "map_of data (name_of f) = Some (JStr v)" by blast
  show ?thesis
  proof (cases "named_row spec rows (str_of (get_prop f ''refEntity'')) (to_lower (js_trim v))")
    case None
    with assms t v show ?thesis by (auto simp: resolve_field_def)
  next
    case (Some i)
    from named_row_Some[OF Some] assms t v Some show ?thesis
      by (cases i) (auto simp: resolve_field_def points_to_def)
  qed
next
  case False
  then have "resolve_field spec rows pos f (data, errors) = (data, errors)"
    by (auto simp: resolve_field_def split: jsval.splits option.splits)
  with assms False show ?thesis by (auto simp: points_to_def)
qed

lemma resolve_errors_grow:
  "snd (fold (resolve_field spec rows pos) fs (data, errors)) = [] \<Longrightarrow> errors = []"
proof (induction fs arbitrary: data errors)
  case (Cons f fs)
  obtain d e where r: "resolve_field spec rows pos f (data, errors) = (d, e)" by fastforce
  with Cons have "e = []" by auto
  with resolve_field_cases[OF r] show ?case by auto
qed simp

lemma map_of_member: "distinct (map fst d) \<Longrightarrow> map_of d k = Some v \<longleftrightarrow> (k, v) \<in> set d"
  by simp

lemma resolve_keeps_keys:
  "fold (resolve_field spec rows pos) fs (d, es) = (d', es') \<Longrightarrow> fst ` set d \<subseteq> fst ` set d'"
proof (induction fs arbitrary: d es)
  case (Cons f fs)
  obtain d1 es1 where r: "resolve_field spec rows pos f (d, es) = (d1, es1)" by fastforce
  have "d1 = d \<or> (\<exists>v. d1 = aput (name_of f) v d)"
    using r by (auto simp: resolve_field_def split: if_splits jsval.splits option.splits list.splits)
  then have "fst ` set d \<subseteq> fst ` set d1" by (elim disjE exE) (simp_all add: subset_insertI)
  also have "\<dots> \<subseteq> fst ` set d'" using Cons r by simp
  finally show ?case .
qed simp

lemma record_fits_replace:
  assumes fits: "record_fits e d" and names: "distinct (map name_of (array_of e ''fields''))"
    and f: "f \<in> set (array_of e ''fields'')" "field_type f = ''reference''" and k: "map_of d (name_of f) = Some w"
  shows "record_fits e (aput (name_of f) (JStr i) d)"
proof -
  have "value_fits f (JStr i)" using f(2) by (simp add: value_fits_def)
  then have new: "\<exists>g \<in> set (array_of e ''fields''). k = name_of g \<and> value_fits g v"
    if "(k, v) \<in> set (aput (name_of f) (JStr i) d)" for k v
    using that set_aput_subset[of "name_of f" "JStr i" d] fits f(1) by (fastforce simp: record_fits_def)
  with fits show ?thesis unfolding record_fits_def by (auto simp: distinct_keys_aput)
qed

lemma resolve_fields:
  assumes "fold (resolve_field spec rows pos) fs (data, []) = (data', [])"
    and "distinct (map name_of (array_of e ''fields''))" and "set fs \<subseteq> set (array_of e ''fields'')"
    and "distinct (map name_of fs)" and "record_fits e data"
  shows "record_fits e data' \<and> (\<forall>f \<in> set fs. points_to rows f data')
    \<and> (\<forall>k. k \<notin> name_of ` set fs \<longrightarrow> map_of data' k = map_of data k)"
  using assms
proof (induction fs arbitrary: data)
  case (Cons f fs)
  obtain d es where r: "resolve_field spec rows pos f (data, []) = (d, es)" by fastforce
  with Cons.prems(1) have rest: "fold (resolve_field spec rows pos) fs (d, es) = (data', [])" by simp
  with resolve_errors_grow[of spec rows pos fs d es] have es: "es = []" by simp
  from resolve_field_cases[OF r] es have p: "points_to rows f d"
    and d: "d = data \<or> field_type f = ''reference'' \<and> (\<exists>i v. map_of data (name_of f) = Some (JStr v) \<and> d = aput (name_of f) (JStr i) data)"
    by auto
  have f: "f \<in> set (array_of e ''fields'')" using Cons.prems(3) by simp
  from d have fits: "record_fits e d"
    using record_fits_replace[OF Cons.prems(5,2) f] Cons.prems(5) by blast
  from d have same: "k \<noteq> name_of f \<Longrightarrow> map_of d k = map_of data k" for k by auto
  have ih: "record_fits e data' \<and> (\<forall>f \<in> set fs. points_to rows f data') \<and> (\<forall>k. k \<notin> name_of ` set fs \<longrightarrow> map_of data' k = map_of d k)"
    using rest Cons.prems fits by (intro Cons.IH) (auto simp: es)
  moreover have "name_of f \<notin> name_of ` set fs" using Cons.prems(4) by simp
  ultimately have "points_to rows f data'" using p by (simp add: points_to_def)
  with ih same show ?case by auto
qed simp

definition seed_fits :: "jsval \<Rightarrow> seed_record \<Rightarrow> bool" where
  "seed_fits spec s \<longleftrightarrow> (\<exists>e. find_entity spec (sd_entityName s) = Some e \<and> record_fits e (sd_data s) \<and> sd_data s \<noteq> [])"

definition item_ok :: "jsval \<Rightarrow> seed_item \<Rightarrow> bool" where
  "item_ok spec it \<longleftrightarrow> (case it of (name, pos, Inl _) \<Rightarrow> True
     | (name, pos, Inr data) \<Rightarrow> \<exists>e. find_entity spec name = Some e \<and> record_fits e data \<and> data \<noteq> [])"

lemma row_outcome_fits: "row_outcome e pos row = Inr data \<Longrightarrow> record_fits e data \<and> data \<noteq> []"
  by (auto simp: row_outcome_def Let_def stored_records_fit' split: jsval.splits if_splits sum.splits list.splits)

lemma entry_items_ok: "it \<in> set (entry_items spec entry) \<Longrightarrow> item_ok spec it"
proof -
  assume it: "it \<in> set (entry_items spec entry)"
  obtain name rows where e: "entry = (name, rows)" by fastforce
  show ?thesis
  proof (cases "\<exists>ent rs. find_entity spec name = Some ent \<and> arr_of rows = Some rs")
    case True
    then obtain ent rs where t: "find_entity spec name = Some ent" "arr_of rows = Some rs" by blast
    with it obtain pos row where "it = (name, pos, row_outcome ent pos row)" by (auto simp: entry_items_def e)
    with t(1) show ?thesis by (auto simp: item_ok_def row_outcome_fits split: sum.splits)
  next
    case False
    with it show ?thesis by (auto simp: entry_items_def e item_ok_def split: option.splits)
  qed
qed

lemma seeds_of_fit:
  "\<forall>it \<in> set items. item_ok spec it \<Longrightarrow> (s, pos) \<in> set (seeds_of ids n items) \<Longrightarrow> seed_fits spec s"
  by (induction ids n items rule: seeds_of.induct) (auto simp: item_ok_def seed_fits_def)

lemma length_seeds_of: "length (seeds_of ids n items) \<le> length items"
  by (induction ids n items rule: seeds_of.induct) auto

text \<open>An error item stands for no row, so the seeds of an entry are at most its rows.\<close>

lemma length_entry_seeds: "length (seeds_of ids n (entry_items spec entry)) \<le> (case arr_of (snd entry) of Some rs \<Rightarrow> length rs | None \<Rightarrow> 0)"
  using length_seeds_of[of ids n "entry_items spec entry"]
  by (auto simp: entry_items_def split: option.splits prod.splits)

lemma seeds_of_count:
  "length (seeds_of ids n items) = length (filter (\<lambda>(_, _, outcome). case outcome of Inl _ \<Rightarrow> False | Inr _ \<Rightarrow> True) items)"
  by (induction ids n items rule: seeds_of.induct) auto

lemma length_seeds_append: "length (seeds_of ids n (xs @ ys)) = length (seeds_of ids n xs) + length (seeds_of ids n ys)"
  by (simp add: seeds_of_count)

lemma length_all_seeds: "length (seeds_of ids n (concat (map (entry_items spec) entries))) \<le> row_total entries"
proof (induction entries)
  case (Cons e es)
  then show ?case using length_entry_seeds[of ids n spec e]
    by (auto simp: length_seeds_append row_total_def split: prod.splits)
qed (simp add: row_total_def)

lemma find_entity_wf:
  "app_spec_wf spec \<Longrightarrow> find_entity spec name = Some e \<Longrightarrow> distinct (map name_of (array_of e ''fields''))"
proof -
  assume "app_spec_wf spec" "find_entity spec name = Some e"
  then have "entity_wf e" by (auto simp: app_spec_wf_def find_entity_def array_of_JArr dest!: find_Some_iff_mem)
  then show ?thesis by (auto simp: entity_wf_def array_of_JArr)
qed

lemma resolve_seed_fits:
  assumes spec: "app_spec_wf spec" and fits: "seed_fits spec s" and none: "snd (resolve_seed spec rows (s, pos)) = []"
  shows "seed_fits spec (fst (resolve_seed spec rows (s, pos)))
    \<and> (\<forall>e. find_entity spec (sd_entityName s) = Some e \<longrightarrow>
         (\<forall>f \<in> set (array_of e ''fields''). points_to rows f (sd_data (fst (resolve_seed spec rows (s, pos))))))
    \<and> sd_id (fst (resolve_seed spec rows (s, pos))) = sd_id s \<and> sd_entityName (fst (resolve_seed spec rows (s, pos))) = sd_entityName s"
proof -
  from fits obtain e where e: "find_entity spec (sd_entityName s) = Some e" "record_fits e (sd_data s)" "sd_data s \<noteq> []"
    by (auto simp: seed_fits_def)
  note d = find_entity_wf[OF spec e(1)]
  obtain data errors where f: "fold (resolve_field spec rows pos) (array_of e ''fields'') (sd_data s, []) = (data, errors)" by fastforce
  with none e have "errors = []" by (simp add: resolve_seed_def Let_def)
  with f have f: "fold (resolve_field spec rows pos) (array_of e ''fields'') (sd_data s, []) = (data, [])" by simp
  from resolve_fields[OF f d _ d e(2)] have r: "record_fits e data" "\<forall>g \<in> set (array_of e ''fields''). points_to rows g data"
    "\<forall>k. k \<notin> name_of ` set (array_of e ''fields'') \<longrightarrow> map_of data k = map_of (sd_data s) k" by auto
  have ne: "data \<noteq> []"
  proof -
    have "fst ` set (sd_data s) \<subseteq> fst ` set data"
      using f by (rule resolve_keeps_keys)
    with e(3) show ?thesis by auto
  qed
  have "resolve_seed spec rows (s, pos) = (s\<lparr>sd_data := data\<rparr>, [])" using f e(1) by (simp add: resolve_seed_def)
  with r e(1) ne show ?thesis by (simp add: seed_fits_def)
qed

lemma seeds_fit_and_resolve':
  assumes "app_spec_wf spec" and "prepareSeedRecords ids spec input existing = Inr seeds" and "s \<in> set seeds"
  shows "length seeds \<le> 200 \<and> (\<exists>e. find_entity spec (sd_entityName s) = Some e \<and> record_fits e (sd_data s)
    \<and> (\<forall>f \<in> set (array_of e ''fields''). field_type f = ''reference'' \<longrightarrow>
         (\<forall>v. map_of (sd_data s) (name_of f) = Some (JStr v) \<longrightarrow>
            (\<exists>r \<in> set seeds \<union> set existing. sd_id r = v \<and> sd_entityName r = str_of (get_prop f ''refEntity'')))))"
proof -
  from assms(2,3) obtain entries where input: "input = JObj entries" by (cases input) (auto simp: prepareSeedRecords_def)
  define items where "items = concat (map (entry_items spec) entries)"
  define made where "made = seeds_of ids 0 items"
  define rows where "rows = map fst made @ existing"
  have total: "row_total entries \<le> 200" and none: "\<forall>m \<in> set made. snd (resolve_seed spec rows m) = []"
    and seeds: "seeds = map (\<lambda>m. fst (resolve_seed spec rows m)) made"
    using assms(2) by (auto simp: input prepareSeedRecords_def Let_def items_def [symmetric] made_def [symmetric] rows_def [symmetric]
        MAX_SEED_RECORDS_def split: if_splits)
  have ok: "\<forall>it \<in> set items. item_ok spec it" by (auto simp: items_def entry_items_ok)
  have fits: "seed_fits spec m" if "(m, pos) \<in> set made" for m pos
    using seeds_of_fit[OF ok] that by (simp add: made_def)
  have same: "\<exists>x \<in> set seeds. sd_id x = sd_id m \<and> sd_entityName x = sd_entityName m" if "(m, pos) \<in> set made" for m pos
    using that resolve_seed_fits[OF assms(1) fits[OF that]] none by (force simp: seeds)
  from assms(3) obtain m pos where m: "(m, pos) \<in> set made" "s = fst (resolve_seed spec rows (m, pos))"
    by (auto simp: seeds)
  have "snd (resolve_seed spec rows (m, pos)) = []" using none m(1) by blast
  from resolve_seed_fits[OF assms(1) fits[OF m(1)] this] m(2) obtain e where
    e: "find_entity spec (sd_entityName s) = Some e" "record_fits e (sd_data s)"
    "\<forall>f \<in> set (array_of e ''fields''). points_to rows f (sd_data s)" by (auto simp: seed_fits_def)
  have "\<exists>x \<in> set seeds \<union> set existing. sd_id x = sd_id r \<and> sd_entityName x = sd_entityName r" if "r \<in> set rows" for r
    using that same by (fastforce simp: rows_def)
  with e(3) have "\<forall>f \<in> set (array_of e ''fields''). field_type f = ''reference'' \<longrightarrow>
         (\<forall>v. map_of (sd_data s) (name_of f) = Some (JStr v) \<longrightarrow>
            (\<exists>r \<in> set seeds \<union> set existing. sd_id r = v \<and> sd_entityName r = str_of (get_prop f ''refEntity'')))"
    unfolding points_to_def by metis
  moreover have "length seeds \<le> 200"
    using length_all_seeds[of ids 0 spec entries] total by (simp add: seeds made_def items_def)
  ultimately show ?thesis using e by blast
qed

lemma prepared_seed_fits:
  "app_spec_wf spec \<Longrightarrow> prepareSeedRecords ids spec input existing = Inr seeds \<Longrightarrow> s \<in> set seeds \<Longrightarrow>
     \<exists>e. find_entity spec (sd_entityName s) = Some e \<and> record_fits e (sd_data s)"
  using seeds_fit_and_resolve' by blast

text \<open>The rows a model writes for an app: when they are taken there are at most 200, each belongs to a declared
  entity and fits it, and each reference in them holds the id of a row of the entity it points at, from the same call or
  from the app.\<close>

theorem seeds_fit_and_resolve:
  assumes "app_spec_wf spec" and "prepareSeedRecords ids spec input existing = Inr seeds" and "s \<in> set seeds"
  shows "length seeds \<le> 200 \<and> (\<exists>e. find_entity spec (sd_entityName s) = Some e \<and> record_fits e (sd_data s)
    \<and> (\<forall>f \<in> set (array_of e ''fields''). field_type f = ''reference'' \<longrightarrow>
         (\<forall>v. map_of (sd_data s) (name_of f) = Some (JStr v) \<longrightarrow>
            (\<exists>r \<in> set seeds \<union> set existing. sd_id r = v \<and> sd_entityName r = str_of (get_prop f ''refEntity'')))))"
  using seeds_fit_and_resolve'[OF assms] .

definition sample_spec :: jsval where
  "sample_spec = JObj [(''name'', JStr ''Plan''),
     (''entities'', JArr [sample_entity [sample_field ''title'' ''string'',
        JObj [(''name'', JStr ''parent''), (''label'', JStr ''parent''), (''type'', JStr ''reference''), (''refEntity'', JStr ''Task'')]]]),
     (''views'', JArr [JObj [(''type'', JStr ''table''), (''title'', JStr ''Tasks''), (''entity'', JStr ''Task'')]]),
     (''auth'', JObj [(''mode'', JStr ''magic-link''), (''allowSignup'', JBool False)])]"

definition sample_seeds :: jsval where
  "sample_seeds = JObj [(''Task'', JArr [JObj [(''title'', JStr ''A'')], JObj [(''title'', JStr ''B''), (''parent'', JStr '' a'')]])]"

lemma sample_spec_wf: "app_spec_wf sample_spec"
proof -
  have "spec_errors sample_spec = []" by code_simp
  moreover have "is_object sample_spec" by (simp add: sample_spec_def)
  ultimately show ?thesis by (simp add: spec_errors_none)
qed

definition sample_rows_written :: "seed_record list" where
  "sample_rows_written = [\<lparr>sd_id = ''i0'', sd_entityName = ''Task'', sd_data = [(''title'', JStr ''A'')]\<rparr>,
     \<lparr>sd_id = ''i1'', sd_entityName = ''Task'', sd_data = [(''title'', JStr ''B''), (''parent'', JStr ''i0'')]\<rparr>]"

lemma sample_prepared: "prepareSeedRecords (\<lambda>n. CHR ''i'' # show_nat n) sample_spec sample_seeds [] = Inr sample_rows_written"
  by code_simp

lemma seeds_fit_and_resolve_witness:
  "prepareSeedRecords (\<lambda>n. CHR ''i'' # show_nat n) sample_spec sample_seeds [] = Inr sample_rows_written
   \<and> (\<exists>e. find_entity sample_spec ''Task'' = Some e \<and> record_fits e [(''title'', JStr ''B''), (''parent'', JStr ''i0'')])"
  using seeds_fit_and_resolve[OF sample_spec_wf sample_prepared, of "sample_rows_written ! 1"] sample_prepared
  by (auto simp: sample_rows_written_def)

end
