(* ===== verification/SpacePages.thy ===== *)
theory SpacePages
  imports JsonText
begin

text \<open>
  Pages, the spaces a model writes as one HTML document: \<open>src/src/spaces/page/page-input.ts\<close>, the checks
  on a page and on what it saves, and edits by find and replace.
\<close>

section \<open>Checks\<close>

definition MAX_PAGE_CHARS :: nat where
  "MAX_PAGE_CHARS = 300000"

definition MAX_STATE_VALUE_CHARS :: nat where
  "MAX_STATE_VALUE_CHARS = 100000"

text \<open>\<open>/<[a-z!]/i.test(html)\<close>.\<close>

fun has_tag :: "string \<Rightarrow> bool" where
  "has_tag (c # d # cs) = (c = CHR ''<'' \<and> (is_lower d \<or> is_upper d \<or> d = CHR ''!'') \<or> has_tag (d # cs))"
| "has_tag _ = False"

definition validatePageHtml :: "jsval \<Rightarrow> string result" where
  "validatePageHtml v = (case v of
     JStr s \<Rightarrow>
      (if js_trim s = [] then Inl (BadRequest ''html must be the whole page as one HTML document'')
       else if MAX_PAGE_CHARS < length s
       then Inl (BadRequest (''html is '' @ show_nat (length s) @ '' characters; a page may be at most ''
              @ show_nat MAX_PAGE_CHARS @ ''. Make it shorter''))
       else if \<not> has_tag s then Inl (BadRequest ''html must be an HTML document, not plain text'')
       else Inr s)
   | _ \<Rightarrow> Inl (BadRequest ''html must be the whole page as one HTML document''))"

record page_input =
  pi_name :: string
  pi_description :: "string option"
  pi_html :: string
  pi_allowSignup :: bool

definition validatePageInput :: "jsval \<Rightarrow> page_input result" where
  "validatePageInput v = (let name = get_prop v ''name''; description = get_prop v ''description'';
       signup = get_prop v ''allowSignup'' in
     if \<not> is_object v then Inl (BadRequest ''page input must be an object'')
     else if \<not> is_string name \<or> js_trim (str_of name) = [] then Inl (BadRequest ''name is required'')
     else if description \<noteq> JUndef \<and> \<not> is_string description then Inl (BadRequest ''description must be a string'')
     else if signup \<noteq> JUndef \<and> \<not> is_boolean signup then Inl (BadRequest ''allowSignup must be a boolean'')
     else map_sum id (\<lambda>html. \<lparr>pi_name = js_trim (str_of name),
            pi_description = (if is_string description then Some (str_of description) else None),
            pi_html = html, pi_allowSignup = (signup = JBool True)\<rparr>)
            (validatePageHtml (get_prop v ''html'')))"

section \<open>Edits\<close>

lemma index_of_sub_Some:
  "index_of_sub p s = Some i \<Longrightarrow> s = take i s @ p @ drop (i + length p) s"
proof (induction s arbitrary: i)
  case Nil
  then show ?case by (cases p) (auto split: if_splits)
next
  case (Cons c cs)
  show ?case
  proof (cases "starts_with p (c # cs)")
    case True
    then obtain t where "c # cs = p @ t" by (auto simp: starts_with_iff)
    moreover have "i = 0" using Cons.prems True by simp
    ultimately show ?thesis by simp
  next
    case False
    with Cons.prems obtain j where "index_of_sub p cs = Some j" "i = Suc j" by (auto split: option.splits)
    with Cons.IH show ?thesis by auto
  qed
qed

text \<open>\<open>s.split(find).length - 1\<close>: the occurrences that do not overlap, from the left.\<close>

function occurrences :: "string \<Rightarrow> string \<Rightarrow> nat" where
  "occurrences p s = (if p = [] then 0 else case index_of_sub p s of None \<Rightarrow> 0
     | Some i \<Rightarrow> 1 + occurrences p (drop (i + length p) s))"
  by pat_completeness auto
termination
proof (relation "measure (\<lambda>(p, s). length s)")
  fix p s :: string and i assume p: "p \<noteq> []" and i: "index_of_sub p s = Some i"
  from index_of_sub_Some[OF i] have "length s = length (take i s @ p @ drop (i + length p) s)" by simp
  with p show "((p, drop (i + length p) s), p, s) \<in> measure (\<lambda>(p, s). length s)" by (simp add: length_greater_0_conv [symmetric] del: length_greater_0_conv)
qed simp

declare occurrences.simps [simp del]

definition edit_error :: "nat \<Rightarrow> string \<Rightarrow> string" where
  "edit_error i m = ''edits['' @ show_nat i @ '']'' @ m"

text \<open>One edit: the changed page or the error pushed.\<close>

definition apply_edit :: "nat \<Rightarrow> string \<Rightarrow> jsval \<Rightarrow> string + string" where
  "apply_edit i html edit =
    (if \<not> is_object edit \<or> \<not> is_string (get_prop edit ''find'') \<or> \<not> is_string (get_prop edit ''replace'')
     then Inl (edit_error i '' must be { find: string, replace: string }'')
     else let p = str_of (get_prop edit ''find''); r = str_of (get_prop edit ''replace''); n = occurrences p html in
       if p = [] then Inl (edit_error i ''.find is empty'')
       else if n = 0 then Inl (edit_error i ''.find does not appear in the page. Copy it exactly from get_page'')
       else if n \<noteq> 1 then Inl (edit_error i (''.find appears '' @ show_nat n @ '' times. Include more of the surrounding text''))
       else case index_of_sub p html of
         Some k \<Rightarrow> Inr (take k html @ r @ drop (k + length p) html)
       | None \<Rightarrow> Inl [])"

fun apply_edits :: "nat \<Rightarrow> string \<Rightarrow> jsval list \<Rightarrow> string list \<times> string" where
  "apply_edits i html [] = ([], html)"
| "apply_edits i html (e # es) = (case apply_edit i html e of
     Inl m \<Rightarrow> (let (errors, html') = apply_edits (i + 1) html es in (m # errors, html'))
   | Inr html' \<Rightarrow> apply_edits (i + 1) html' es)"

definition applyPageEdits :: "string \<Rightarrow> jsval \<Rightarrow> string result" where
  "applyPageEdits html edits = (case edits of
     JArr (e # es) \<Rightarrow>
       (let (errors, result) = apply_edits 0 html (e # es) in
        if errors \<noteq> [] then Inl (BadRequestErrors ''The page was not changed'' errors)
        else validatePageHtml (JStr result))
   | _ \<Rightarrow> Inl (BadRequest ''edits must be a non-empty list of { find, replace }''))"

section \<open>What a page saves\<close>

definition validatePageStateEntry :: "jsval \<Rightarrow> jsval \<Rightarrow> (string \<times> string) result" where
  "validatePageStateEntry key v = (case key of
     JStr k \<Rightarrow>
      (if k = [] \<or> 200 < length k then Inl (BadRequest ''key must be a string of 1 to 200 characters'')
       else let json = stringify (if is_nullish v then JNull else v) in
         if MAX_STATE_VALUE_CHARS < length json
         then Inl (BadRequest (''value must be JSON of at most '' @ show_nat MAX_STATE_VALUE_CHARS @ '' characters''))
         else Inr (k, json))
   | _ \<Rightarrow> Inl (BadRequest ''key must be a string of 1 to 200 characters''))"

section \<open>Edits land where they were meant\<close>

text \<open>The specification of a list of edits: each replaces the one place where its text stands.\<close>

inductive edited :: "string \<Rightarrow> jsval list \<Rightarrow> string \<Rightarrow> bool" where
  edited_none: "edited html [] html"
| edited_step: "get_prop e ''find'' = JStr p \<Longrightarrow> get_prop e ''replace'' = JStr r \<Longrightarrow> p \<noteq> [] \<Longrightarrow>
    occurrences p (a @ p @ b) = 1 \<Longrightarrow> edited (a @ r @ b) es html \<Longrightarrow> edited (a @ p @ b) (e # es) html"

lemma apply_edit_Inr:
  assumes "apply_edit i html e = Inr html'"
  shows "\<exists>p r a b. get_prop e ''find'' = JStr p \<and> get_prop e ''replace'' = JStr r \<and> p \<noteq> [] \<and> html = a @ p @ b
    \<and> occurrences p html = 1 \<and> html' = a @ r @ b"
proof -
  from assms have "is_string (get_prop e ''find'') \<and> is_string (get_prop e ''replace'')"
    unfolding apply_edit_def by (meson Inl_Inr_False)
  then obtain p r where pr: "get_prop e ''find'' = JStr p" "get_prop e ''replace'' = JStr r"
    by (cases "get_prop e ''find''"; cases "get_prop e ''replace''") simp_all
  obtain k where e: "p \<noteq> []" "occurrences p html = 1" "index_of_sub p html = Some k" "html' = take k html @ r @ drop (k + length p) html"
    using assms unfolding apply_edit_def pr str_of.simps Let_def by (auto split: if_splits option.splits)
  with index_of_sub_Some[OF e(3)] pr show ?thesis
    by (intro exI[of _ p] exI[of _ r] exI[of _ "take k html"] exI[of _ "drop (k + length p) html"]) simp
qed

lemma apply_edits_edited: "apply_edits i html es = ([], html') \<Longrightarrow> edited html es html'"
proof (induction i html es rule: apply_edits.induct)
  case (2 i html e es)
  show ?case
  proof (cases "apply_edit i html e")
    case (Inl m)
    with "2.prems" show ?thesis by (simp split: prod.splits)
  next
    case (Inr h)
    with 2 have "edited h es html'" by simp
    with apply_edit_Inr[OF Inr] show ?thesis by (auto intro: edited_step)
  qed
qed (auto intro: edited_none)

text \<open>Editing a page is exact: if it succeeds, each edit replaced the only occurrence of its text, in order, and the
  result is again a page within the limit; otherwise nothing of it is kept.\<close>

theorem page_edits_are_exact:
  assumes "applyPageEdits html edits = Inr html'"
  shows "\<exists>es. edits = JArr es \<and> es \<noteq> [] \<and> edited html es html' \<and> length html' \<le> MAX_PAGE_CHARS \<and> has_tag html'"
proof -
  from assms obtain e es where edits: "edits = JArr (e # es)"
    by (auto simp: applyPageEdits_def split: jsval.splits list.splits)
  obtain errors h where a: "apply_edits 0 html (e # es) = (errors, h)" by fastforce
  with assms have "errors = []" and v: "validatePageHtml (JStr h) = Inr html'"
    unfolding applyPageEdits_def edits by (auto simp del: apply_edits.simps split: if_splits)
  with a have "edited html (e # es) h" by (auto intro: apply_edits_edited)
  moreover from v have "h = html'" "length html' \<le> MAX_PAGE_CHARS" "has_tag html'"
    by (auto simp: validatePageHtml_def split: if_splits)
  ultimately show ?thesis using edits by blast
qed

definition sample_edit :: "string \<Rightarrow> string \<Rightarrow> jsval" where
  "sample_edit p r = JObj [(''find'', JStr p), (''replace'', JStr r)]"

lemma page_edits_are_exact_witness:
  "applyPageEdits ''<p>one two</p>'' (JArr [sample_edit ''two'' ''2'', sample_edit ''e 2'' ''e, 2'']) = Inr ''<p>one, 2</p>''
   \<and> edited ''<p>one two</p>'' [sample_edit ''two'' ''2'', sample_edit ''e 2'' ''e, 2''] ''<p>one, 2</p>''"
proof -
  have "apply_edits 0 ''<p>one two</p>'' [sample_edit ''two'' ''2'', sample_edit ''e 2'' ''e, 2''] = ([], ''<p>one, 2</p>'')"
    by code_simp
  moreover have "js_trim ''<p>one, 2</p>'' \<noteq> []" "has_tag ''<p>one, 2</p>''" by code_simp+
  ultimately have a: "applyPageEdits ''<p>one two</p>'' (JArr [sample_edit ''two'' ''2'', sample_edit ''e 2'' ''e, 2'']) = Inr ''<p>one, 2</p>''"
    by (simp add: applyPageEdits_def validatePageHtml_def MAX_PAGE_CHARS_def del: apply_edits.simps)
  obtain es where "JArr [sample_edit ''two'' ''2'', sample_edit ''e 2'' ''e, 2''] = JArr es" "edited ''<p>one two</p>'' es ''<p>one, 2</p>''"
    using page_edits_are_exact[OF a] by blast
  then have "edited ''<p>one two</p>'' [sample_edit ''two'' ''2'', sample_edit ''e 2'' ''e, 2''] ''<p>one, 2</p>''" by (simp only: jsval.inject)
  with a show ?thesis by (rule conjI)
qed

end
