(* ===== verification/Spaces.thy ===== *)
theory Spaces
  imports SpaceRecords SpacePages Tables
begin

text \<open>
  Spaces, the apps and pages a model builds for a workspace: \<open>src/src/spaces/spaces.service.ts\<close> over
  the tables of \<open>space.entity.ts\<close> and \<open>space-record.entity.ts\<close>.  Every row of every app is kept in
  one table of records, checked against the app's specification.
\<close>

section \<open>Tables\<close>

datatype space_status = DRAFT | PUBLISHED
datatype space_kind = APP | PAGE

record space =
  sp_id :: uuid
  sp_workspaceId :: uuid
  sp_createdByUserId :: "uuid option"
  sp_slug :: string
  sp_name :: string
  sp_description :: "string option"
  sp_spec :: jsval
  sp_status :: space_status
  sp_kind :: space_kind
  sp_html :: "string option"
  sp_pageState :: "(string \<times> jsval) list"
  sp_createdAt :: time
  sp_updatedAt :: time

record space_record =
  sr_id :: uuid
  sr_spaceId :: uuid
  sr_entityName :: string
  sr_data :: "(string \<times> jsval) list"
  sr_createdBySpaceUserId :: "uuid option"
  sr_createdAt :: time

record spaces_db =
  db_spaces :: "space list"
  db_records :: "space_record list"

section \<open>Slugs\<close>

definition is_alnum :: "char \<Rightarrow> bool" where
  "is_alnum c \<longleftrightarrow> is_lower c \<or> is_digit c"

text \<open>\<open>.replace(/[^a-z0-9]+/g, '-')\<close>: each run of other characters becomes one dash.\<close>

function dash_runs :: "string \<Rightarrow> string" where
  "dash_runs [] = []"
| "dash_runs (c # cs) = (if is_alnum c then c # dash_runs cs
     else CHR ''-'' # dash_runs (dropWhile (\<lambda>x. \<not> is_alnum x) cs))"
  by pat_completeness auto
termination
  by (relation "measure length") (auto simp: less_Suc_eq_le length_dropWhile_le)

definition strip_dashes :: "string \<Rightarrow> string" where
  "strip_dashes s = rev (dropWhile (\<lambda>c. c = CHR ''-'') (rev (dropWhile (\<lambda>c. c = CHR ''-'') s)))"

definition slug_base :: "string \<Rightarrow> string" where
  "slug_base name = (let s = take 48 (strip_dashes (dash_runs (to_lower (js_trim name)))) in if s = [] then ''app'' else s)"

text \<open>The loop may in principle run for ever; \<open>unique_slug_found\<close> shows that it does not.\<close>

partial_function (option) free_slug :: "string list \<Rightarrow> string \<Rightarrow> string \<Rightarrow> nat \<Rightarrow> string option" where
  "free_slug taken base candidate suffix =
    (if candidate \<in> set taken
     then free_slug taken base (base @ ''-'' @ show_nat (suffix + 1)) (suffix + 1)
     else Some candidate)"

definition uniqueSlug :: "string \<Rightarrow> space list \<Rightarrow> string option" where
  "uniqueSlug name spaces = free_slug (map sp_slug spaces) (slug_base name) (slug_base name) 1"

section \<open>Building apps\<close>

definition opt_text :: "jsval \<Rightarrow> string option" where
  "opt_text v = (if is_string v then Some (str_of v) else None)"

text \<open>
  What the jsonb column of a record keeps of a value (validated values are strings, numbers and booleans): a
  number that is not finite is written as null.  The row handed back to the caller still has the number.
\<close>

definition jsonb_value :: "jsval \<Rightarrow> jsval" where
  "jsonb_value v = (case v of JNum n \<Rightarrow> if is_finite n then v else JNull | _ \<Rightarrow> v)"

definition jsonb_data :: "(string \<times> jsval) list \<Rightarrow> (string \<times> jsval) list" where
  "jsonb_data data = map (\<lambda>(k, v). (k, jsonb_value v)) data"

text \<open>Each seed is stamped a millisecond before the one written before it.\<close>

definition seed_rows :: "time \<Rightarrow> uuid \<Rightarrow> seed_record list \<Rightarrow> space_record list" where
  "seed_rows now space seeds = map (\<lambda>(i, s). \<lparr>sr_id = sd_id s, sr_spaceId = space, sr_entityName = sd_entityName s,
     sr_data = jsonb_data (sd_data s), sr_createdBySpaceUserId = None, sr_createdAt = now - int i\<rparr>) (enumerate 0 seeds)"

text \<open>
  \<open>ids\<close> gives the random ids of the seeds; a slug is taken with the space in the same step, so the
  unique index on it is never hit.  The result is \<open>None\<close> only if the search for a slug never ended.
\<close>

definition createFromSpec ::
  "(nat \<Rightarrow> uuid) \<Rightarrow> uuid \<Rightarrow> time \<Rightarrow> uuid \<Rightarrow> uuid option \<Rightarrow> jsval \<Rightarrow> jsval \<Rightarrow> spaces_db \<Rightarrow> ((space \<times> nat) result \<times> spaces_db) option" where
  "createFromSpec ids i now ws user specInput recordsInput db = (case validateAppSpec specInput of
     Inl e \<Rightarrow> Some (Inl e, db)
   | Inr spec \<Rightarrow>
      (case prepareSeedRecords ids spec recordsInput [] of Inl e \<Rightarrow> Some (Inl e, db)
       | Inr seeds \<Rightarrow>
          (case uniqueSlug (name_of spec) (db_spaces db) of None \<Rightarrow> None
           | Some slug \<Rightarrow>
              (let s = \<lparr>sp_id = i, sp_workspaceId = ws, sp_createdByUserId = user, sp_slug = slug, sp_name = name_of spec,
                     sp_description = opt_text (get_prop spec ''description''), sp_spec = spec, sp_status = PUBLISHED,
                     sp_kind = APP, sp_html = None, sp_pageState = [], sp_createdAt = now, sp_updatedAt = now\<rparr>
               in Some (Inr (s, length seeds), \<lparr>db_spaces = db_spaces db @ [s], db_records = db_records db @ seed_rows now i seeds\<rparr>)))))"

definition find_by_slug :: "uuid \<Rightarrow> string \<Rightarrow> space list \<Rightarrow> space option" where
  "find_by_slug ws slug spaces = List.find (\<lambda>s. sp_slug s = slug \<and> sp_workspaceId s = ws) spaces"

definition findAppForWorkspace :: "uuid \<Rightarrow> string \<Rightarrow> space list \<Rightarrow> space result" where
  "findAppForWorkspace ws slug spaces = (case find_by_slug ws slug spaces of
     None \<Rightarrow> Inl (NotFound ''Space not found'')
   | Some s \<Rightarrow> if sp_kind s = PAGE then Inl (BadRequest (quoted slug @ '' is a page, not an app. Change it with update_page'')) else Inr s)"

definition findPageForWorkspace :: "uuid \<Rightarrow> string \<Rightarrow> space list \<Rightarrow> space result" where
  "findPageForWorkspace ws slug spaces = (case find_by_slug ws slug spaces of
     None \<Rightarrow> Inl (NotFound ''Page not found'')
   | Some s \<Rightarrow> if sp_kind s \<noteq> PAGE
       then Inl (BadRequest (quoted slug @ '' is an app, not a page. Change it with update_space or add_space_records'')) else Inr s)"

text \<open>The entities some reference field of the app points at.\<close>

definition reference_targets :: "jsval \<Rightarrow> string list" where
  "reference_targets spec = js_unique (concat (map (\<lambda>e. concat (map (\<lambda>f.
     if field_type f = ''reference'' \<and> truthy (get_prop f ''refEntity'') then [str_of (get_prop f ''refEntity'')] else [])
       (array_of e ''fields''))) (array_of spec ''entities'')))"

definition existing_seed :: "space_record \<Rightarrow> seed_record" where
  "existing_seed r = \<lparr>sd_id = sr_id r, sd_entityName = sr_entityName r, sd_data = sr_data r\<rparr>"

definition addRecords ::
  "(nat \<Rightarrow> uuid) \<Rightarrow> time \<Rightarrow> uuid \<Rightarrow> string \<Rightarrow> jsval \<Rightarrow> spaces_db \<Rightarrow> (space \<times> nat) result \<times> spaces_db" where
  "addRecords ids now ws slug recordsInput db = (case findAppForWorkspace ws slug (db_spaces db) of
     Inl e \<Rightarrow> (Inl e, db)
   | Inr s \<Rightarrow>
      (let existing = map existing_seed (filter (\<lambda>r. sr_spaceId r = sp_id s \<and> sr_entityName r \<in> set (reference_targets (sp_spec s)))
             (db_records db))
       in case prepareSeedRecords ids (sp_spec s) recordsInput existing of Inl e \<Rightarrow> (Inl e, db)
        | Inr seeds \<Rightarrow>
           if seeds = [] then (Inl (BadRequest (''records is empty. This app has '' @ describeApp (sp_spec s))), db)
           else (Inr (s, length seeds), db\<lparr>db_records := db_records db @ seed_rows now (sp_id s) seeds\<rparr>)))"

definition updateSpec :: "time \<Rightarrow> uuid \<Rightarrow> string \<Rightarrow> jsval \<Rightarrow> spaces_db \<Rightarrow> space result \<times> spaces_db" where
  "updateSpec now ws slug specInput db = (case findAppForWorkspace ws slug (db_spaces db) of
     Inl e \<Rightarrow> (Inl e, db)
   | Inr s \<Rightarrow>
      (case validateAppSpec specInput of Inl e \<Rightarrow> (Inl e, db)
       | Inr spec \<Rightarrow>
          (let s' = s\<lparr>sp_spec := spec, sp_name := name_of spec,
                  sp_description := opt_text (get_prop spec ''description''), sp_updatedAt := now\<rparr>
           in (Inr s', db\<lparr>db_spaces := save_row sp_id s' (db_spaces db)\<rparr>))))"

section \<open>Pages\<close>

definition pageSpec :: "string \<Rightarrow> string option \<Rightarrow> bool \<Rightarrow> jsval" where
  "pageSpec name description allowSignup = JObj ([(''name'', JStr name)]
     @ (case description of Some (c # cs) \<Rightarrow> [(''description'', JStr (c # cs))] | _ \<Rightarrow> [])
     @ [(''entities'', JArr []), (''views'', JArr []),
        (''auth'', JObj [(''mode'', JStr ''magic-link''), (''allowSignup'', JBool allowSignup)])])"

definition createPage :: "uuid \<Rightarrow> time \<Rightarrow> uuid \<Rightarrow> uuid option \<Rightarrow> jsval \<Rightarrow> spaces_db \<Rightarrow> (space result \<times> spaces_db) option" where
  "createPage i now ws user input db = (case validatePageInput input of
     Inl e \<Rightarrow> Some (Inl e, db)
   | Inr p \<Rightarrow>
      (case uniqueSlug (pi_name p) (db_spaces db) of None \<Rightarrow> None
       | Some slug \<Rightarrow>
          (let s = \<lparr>sp_id = i, sp_workspaceId = ws, sp_createdByUserId = user, sp_slug = slug, sp_name = pi_name p,
                 sp_description = pi_description p, sp_spec = pageSpec (pi_name p) (pi_description p) (pi_allowSignup p),
                 sp_status = PUBLISHED, sp_kind = PAGE, sp_html = Some (pi_html p), sp_pageState = [],
                 sp_createdAt = now, sp_updatedAt = now\<rparr>
           in Some (Inr s, db\<lparr>db_spaces := db_spaces db @ [s]\<rparr>))))"

definition with_name :: "string \<Rightarrow> space \<Rightarrow> space" where
  "with_name n s = s\<lparr>sp_name := n, sp_spec := (case sp_spec s of JObj ps \<Rightarrow> JObj (aput ''name'' (JStr n) ps) | v \<Rightarrow> v)\<rparr>"

definition updatePage ::
  "time \<Rightarrow> uuid \<Rightarrow> string \<Rightarrow> jsval \<Rightarrow> jsval \<Rightarrow> jsval \<Rightarrow> spaces_db \<Rightarrow> space result \<times> spaces_db" where
  "updatePage now ws slug html edits name db = (case findPageForWorkspace ws slug (db_spaces db) of
     Inl e \<Rightarrow> (Inl e, db)
   | Inr s \<Rightarrow>
      if (html = JUndef) = (edits = JUndef)
      then (Inl (BadRequest ''Pass either html (the whole page) or edits, not both''), db)
      else case (if html \<noteq> JUndef then validatePageHtml html
                 else applyPageEdits (case sp_html s of Some h \<Rightarrow> h | None \<Rightarrow> []) edits) of
        Inl e \<Rightarrow> (Inl e, db)
      | Inr h \<Rightarrow>
         if name \<noteq> JUndef \<and> blank name then (Inl (BadRequest ''name must be a non-empty string''), db)
         else (let s1 = (if name = JUndef then s else with_name (js_trim (str_of name)) s);
                   s' = s1\<lparr>sp_html := Some h, sp_updatedAt := now\<rparr>
               in (Inr s', db\<lparr>db_spaces := save_row sp_id s' (db_spaces db)\<rparr>)))"

definition readPage :: "uuid \<Rightarrow> string \<Rightarrow> space list \<Rightarrow> space result" where
  "readPage ws slug spaces = findPageForWorkspace ws slug spaces"

definition pageDocument :: "space \<Rightarrow> space list \<Rightarrow> (string \<times> (string \<times> jsval) list) result" where
  "pageDocument s spaces =
    (if sp_kind s \<noteq> PAGE then Inl (NotFound ''Page not found'')
     else case List.find (\<lambda>x. sp_id x = sp_id s) spaces of
       Some x \<Rightarrow> (case sp_html x of Some (c # cs) \<Rightarrow> Inr (c # cs, sp_pageState x) | _ \<Rightarrow> Inl (NotFound ''Page not found''))
     | None \<Rightarrow> Inl (NotFound ''Page not found''))"

text \<open>Saving one key is one statement; \<open>octets\<close> is the size Postgres gives the merged state.\<close>

definition MAX_PAGE_STATE_BYTES :: nat where
  "MAX_PAGE_STATE_BYTES = 1000000"

definition merged_state :: "string \<Rightarrow> jsval \<Rightarrow> (string \<times> jsval) list \<Rightarrow> (string \<times> jsval) list" where
  "merged_state k v state = (if is_nullish v then filter (\<lambda>p. fst p \<noteq> k) state else aput k v state)"

definition savePageState ::
  "((string \<times> jsval) list \<Rightarrow> nat) \<Rightarrow> time \<Rightarrow> space \<Rightarrow> jsval \<Rightarrow> jsval \<Rightarrow> spaces_db \<Rightarrow> unit result \<times> spaces_db" where
  "savePageState octets now s key v db =
    (if sp_kind s \<noteq> PAGE then (Inl (NotFound ''Page not found''), db)
     else case validatePageStateEntry key v of Inl e \<Rightarrow> (Inl e, db)
      | Inr (k, json) \<Rightarrow>
         (let p = (\<lambda>x. sp_id x = sp_id s \<and> octets (merged_state k v (sp_pageState x)) \<le> MAX_PAGE_STATE_BYTES) in
          if \<exists>x \<in> set (db_spaces db). p x
          then (Inr (), db\<lparr>db_spaces := update_where p (\<lambda>x. x\<lparr>sp_pageState := merged_state k v (sp_pageState x), sp_updatedAt := now\<rparr>)
                  (db_spaces db)\<rparr>)
          else (Inl (BadRequest ''This page has saved too much data''), db)))"

section \<open>The dashboard\<close>

record space_view =
  sv_id :: uuid
  sv_slug :: string
  sv_name :: string
  sv_description :: "string option"
  sv_status :: space_status
  sv_kind :: space_kind
  sv_url :: string
  sv_entityCount :: nat
  sv_viewCount :: nat
  sv_createdAt :: time
  sv_updatedAt :: time

text \<open>\<open>frontendUrl.replace(/\/$/, '')\<close>.\<close>

definition spaceUrl :: "string \<Rightarrow> string \<Rightarrow> string" where
  "spaceUrl frontendUrl slug =
     (if frontendUrl \<noteq> [] \<and> last frontendUrl = CHR 0x2F then butlast frontendUrl else frontendUrl) @ ''/s/'' @ slug"

definition space_view_of :: "string \<Rightarrow> space \<Rightarrow> space_view" where
  "space_view_of frontendUrl s = \<lparr>sv_id = sp_id s, sv_slug = sp_slug s, sv_name = sp_name s, sv_description = sp_description s,
     sv_status = sp_status s, sv_kind = sp_kind s, sv_url = spaceUrl frontendUrl (sp_slug s),
     sv_entityCount = length (array_of (sp_spec s) ''entities''), sv_viewCount = length (array_of (sp_spec s) ''views''),
     sv_createdAt = sp_createdAt s, sv_updatedAt = sp_updatedAt s\<rparr>"

definition findSpacesForWorkspace :: "string \<Rightarrow> uuid \<Rightarrow> space list \<Rightarrow> space_view list" where
  "findSpacesForWorkspace url ws spaces = map (space_view_of url) (rev (filter (\<lambda>s. sp_workspaceId s = ws) spaces))"

definition findOneForWorkspace :: "string \<Rightarrow> uuid \<Rightarrow> uuid \<Rightarrow> space list \<Rightarrow> space_view result" where
  "findOneForWorkspace url ws i spaces = (case List.find (\<lambda>s. sp_id s = i \<and> sp_workspaceId s = ws) spaces of
     None \<Rightarrow> Inl (NotFound ''Space not found'') | Some s \<Rightarrow> Inr (space_view_of url s))"

text \<open>Deleting a space deletes its records with it.\<close>

definition deleteForWorkspace :: "uuid \<Rightarrow> uuid \<Rightarrow> spaces_db \<Rightarrow> unit result \<times> spaces_db" where
  "deleteForWorkspace ws i db =
    (if \<exists>s \<in> set (db_spaces db). sp_id s = i \<and> sp_workspaceId s = ws
     then (Inr (), \<lparr>db_spaces = delete_where (\<lambda>s. sp_id s = i \<and> sp_workspaceId s = ws) (db_spaces db),
                    db_records = delete_where (\<lambda>r. sr_spaceId r = i) (db_records db)\<rparr>)
     else (Inl (NotFound ''Space not found''), db))"

definition findPublishedBySlug :: "string \<Rightarrow> space list \<Rightarrow> space result" where
  "findPublishedBySlug slug spaces = (case List.find (\<lambda>s. sp_slug s = slug \<and> sp_status s = PUBLISHED) spaces of
     None \<Rightarrow> Inl (NotFound ''Space not found'') | Some s \<Rightarrow> Inr s)"

definition findPublicBySlug :: "string \<Rightarrow> space list \<Rightarrow> (string \<times> string \<times> space_kind \<times> jsval) result" where
  "findPublicBySlug slug spaces =
     map_sum id (\<lambda>s. (sp_slug s, sp_name s, sp_kind s, sp_spec s)) (findPublishedBySlug slug spaces)"

section \<open>The record store\<close>

definition entityOrFail :: "space \<Rightarrow> string \<Rightarrow> jsval result" where
  "entityOrFail s name = (case find_entity (sp_spec s) name of
     None \<Rightarrow> Inl (NotFound (''Unknown entity '' @ quoted name)) | Some e \<Rightarrow> Inr e)"

definition createRecord ::
  "uuid \<Rightarrow> time \<Rightarrow> space \<Rightarrow> string \<Rightarrow> jsval \<Rightarrow> uuid option \<Rightarrow> space_record list \<Rightarrow> space_record result \<times> space_record list" where
  "createRecord i now s name data user records = (case entityOrFail s name of
     Inl e \<Rightarrow> (Inl e, records)
   | Inr entity \<Rightarrow>
      (case validateRecordData entity data of Inl e \<Rightarrow> (Inl e, records)
       | Inr clean \<Rightarrow>
          (let r = \<lparr>sr_id = i, sr_spaceId = sp_id s, sr_entityName = name_of entity, sr_data = clean,
                 sr_createdBySpaceUserId = user, sr_createdAt = now\<rparr>
           in (Inr r, records @ [r\<lparr>sr_data := jsonb_data clean\<rparr>]))))"

text \<open>Newest first.\<close>

definition listRecords :: "space \<Rightarrow> string \<Rightarrow> space_record list \<Rightarrow> space_record list result" where
  "listRecords s name records = map_sum id
     (\<lambda>entity. sort_key (\<lambda>r. - sr_createdAt r) (filter (\<lambda>r. sr_spaceId r = sp_id s \<and> sr_entityName r = name_of entity) records))
     (entityOrFail s name)"

definition is_record :: "space \<Rightarrow> jsval \<Rightarrow> uuid \<Rightarrow> space_record \<Rightarrow> bool" where
  "is_record s entity i r \<longleftrightarrow> sr_id r = i \<and> sr_spaceId r = sp_id s \<and> sr_entityName r = name_of entity"

definition updateRecord ::
  "space \<Rightarrow> string \<Rightarrow> uuid \<Rightarrow> jsval \<Rightarrow> space_record list \<Rightarrow> space_record result \<times> space_record list" where
  "updateRecord s name i data records = (case entityOrFail s name of
     Inl e \<Rightarrow> (Inl e, records)
   | Inr entity \<Rightarrow>
      (case List.find (is_record s entity i) records of None \<Rightarrow> (Inl (NotFound ''Record not found''), records)
       | Some r \<Rightarrow>
          (case validateRecordData entity data of Inl e \<Rightarrow> (Inl e, records)
           | Inr clean \<Rightarrow> (Inr (r\<lparr>sr_data := clean\<rparr>), save_row sr_id (r\<lparr>sr_data := jsonb_data clean\<rparr>) records))))"

definition deleteRecord :: "space \<Rightarrow> string \<Rightarrow> uuid \<Rightarrow> space_record list \<Rightarrow> unit result \<times> space_record list" where
  "deleteRecord s name i records = (case entityOrFail s name of
     Inl e \<Rightarrow> (Inl e, records)
   | Inr entity \<Rightarrow>
      if \<exists>r \<in> set records. is_record s entity i r then (Inr (), delete_where (is_record s entity i) records)
      else (Inl (NotFound ''Record not found''), records))"

end
