(* ===== verification/SpaceFacts.thy ===== *)
theory SpaceFacts
  imports Spaces
begin

text \<open>
  Properties of spaces: the search for a free slug ends, rows are listed in the order they were
  written, and the records of one app are out of reach of every other.
\<close>

section \<open>Slugs\<close>

definition slug_candidate :: "string \<Rightarrow> nat \<Rightarrow> string" where
  "slug_candidate base k = (if k = 1 then base else base @ ''-'' @ show_nat k)"

lemma slug_candidate_inj: "slug_candidate base j = slug_candidate base k \<Longrightarrow> j = k"
  by (auto simp: slug_candidate_def show_nat_inj split: if_splits)

lemma free_candidate: "\<exists>k. 1 \<le> k \<and> k \<le> length taken + 1 \<and> slug_candidate base k \<notin> set taken"
proof (rule ccontr)
  assume "\<nexists>k. 1 \<le> k \<and> k \<le> length taken + 1 \<and> slug_candidate base k \<notin> set taken"
  then have "slug_candidate base ` {1..length taken + 1} \<subseteq> set taken" by auto
  then have "card (slug_candidate base ` {1..length taken + 1}) \<le> card (set taken)" by (intro card_mono) simp_all
  moreover have "card (slug_candidate base ` {1..length taken + 1}) = length taken + 1"
    by (subst card_image) (auto intro!: inj_onI dest: slug_candidate_inj)
  ultimately show False using card_length[of taken] by simp
qed

lemma free_slug_next:
  "1 \<le> k \<Longrightarrow> slug_candidate base k \<in> set taken \<Longrightarrow>
     free_slug taken base (slug_candidate base k) k = free_slug taken base (slug_candidate base (k + 1)) (k + 1)"
  by (subst free_slug.simps) (simp add: slug_candidate_def)

lemma free_slug_reaches:
  assumes "1 \<le> k" and "slug_candidate base (k + n) \<notin> set taken"
  shows "\<exists>j. k \<le> j \<and> j \<le> k + n \<and> slug_candidate base j \<notin> set taken
    \<and> free_slug taken base (slug_candidate base k) k = Some (slug_candidate base j)"
  using assms
proof (induction n arbitrary: k)
  case 0
  then show ?case by (subst free_slug.simps) auto
next
  case (Suc n)
  show ?case
  proof (cases "slug_candidate base k \<in> set taken")
    case True
    from Suc.IH[of "k + 1"] Suc.prems obtain j where "k + 1 \<le> j" "j \<le> k + 1 + n" "slug_candidate base j \<notin> set taken"
      "free_slug taken base (slug_candidate base (k + 1)) (k + 1) = Some (slug_candidate base j)" by auto
    with free_slug_next[OF Suc.prems(1) True] show ?thesis by (intro exI[of _ j]) simp
  next
    case False
    then show ?thesis by (subst free_slug.simps) auto
  qed
qed

text \<open>The search for a slug ends after at most as many tries as there are spaces, and one more, with a slug no space has;
  the slug of a name is the name's own or carries a number.\<close>

theorem unique_slug_found:
  "\<exists>j slug. uniqueSlug name spaces = Some slug \<and> slug = slug_candidate (slug_base name) j \<and> 1 \<le> j \<and> j \<le> length spaces + 1
     \<and> slug \<notin> sp_slug ` set spaces"
proof -
  obtain k where k: "1 \<le> k" "k \<le> length spaces + 1" "slug_candidate (slug_base name) k \<notin> set (map sp_slug spaces)"
    using free_candidate[of "map sp_slug spaces" "slug_base name"] by auto
  with free_slug_reaches[of 1 "slug_base name" "k - 1" "map sp_slug spaces"]
  obtain j where "1 \<le> j" "j \<le> k" "slug_candidate (slug_base name) j \<notin> set (map sp_slug spaces)"
    "free_slug (map sp_slug spaces) (slug_base name) (slug_candidate (slug_base name) 1) 1 = Some (slug_candidate (slug_base name) j)"
    by auto
  with k(2) show ?thesis
    by (intro exI[of _ j] exI[of _ "slug_candidate (slug_base name) j"]) (simp add: uniqueSlug_def slug_candidate_def)
qed

section \<open>Rows in the order they were written\<close>

lemma seed_rows_sorted:
  "sorted (map (\<lambda>r. - sr_createdAt r) (map (\<lambda>(i, s). \<lparr>sr_id = sd_id s, sr_spaceId = space, sr_entityName = sd_entityName s,
     sr_data = jsonb_data (sd_data s), sr_createdBySpaceUserId = None, sr_createdAt = now - int i\<rparr>) (enumerate n seeds)))"
proof (induction seeds arbitrary: n)
  case (Cons s seeds)
  have "n \<le> i" if "(i, x) \<in> set (enumerate (Suc n) seeds)" for i x
    using that by (auto simp: in_set_enumerate_eq)
  with Cons show ?case by auto
qed simp

lemma seed_rows_filter_sorted: "sorted (map (\<lambda>r. - sr_createdAt r) (filter p (seed_rows now space seeds)))"
  using seed_rows_sorted[of space now 0 seeds] unfolding seed_rows_def by (rule sorted_filter)

lemma sort_key_sorted: "sorted (map f xs) \<Longrightarrow> sort_key f xs = xs"
  by (simp add: sort_key_id_if_sorted)

lemma seed_rows_data: "map sr_data (filter (\<lambda>r. sr_entityName r = n) (seed_rows now space seeds)) =
    map (jsonb_data \<circ> sd_data) (filter (\<lambda>s. sd_entityName s = n) seeds)"
proof -
  have "map sr_data (filter (\<lambda>r. sr_entityName r = n) (map (\<lambda>(i, s). \<lparr>sr_id = sd_id s, sr_spaceId = space, sr_entityName = sd_entityName s,
     sr_data = jsonb_data (sd_data s), sr_createdBySpaceUserId = None, sr_createdAt = now - int i\<rparr>) (enumerate k seeds))) =
    map (jsonb_data \<circ> sd_data) (filter (\<lambda>s. sd_entityName s = n) seeds)" for k
    by (induction seeds arbitrary: k) auto
  then show ?thesis by (simp add: seed_rows_def)
qed

lemma seed_rows_space: "r \<in> set (seed_rows now space seeds) \<Longrightarrow> sr_spaceId r = space"
  by (auto simp: seed_rows_def)

text \<open>A new app lists the starting rows of each entity in the order the plan wrote them, although lists show the newest
  first.\<close>

theorem seeds_listed_in_order:
  assumes "createFromSpec ids i now ws user specInput recordsInput db = Some (Inr (s, n), db')"
    and "\<forall>r \<in> set (db_records db). sr_spaceId r \<noteq> i" and "find_entity (sp_spec s) name = Some e"
  shows "\<exists>seeds. prepareSeedRecords ids (sp_spec s) recordsInput [] = Inr seeds \<and> n = length seeds
    \<and> map_sum id (map sr_data) (listRecords s name (db_records db')) = Inr (map (jsonb_data \<circ> sd_data) (filter (\<lambda>x. sd_entityName x = name) seeds))"
proof -
  from assms(1) obtain seeds where p: "prepareSeedRecords ids (sp_spec s) recordsInput [] = Inr seeds" "n = length seeds"
    "sp_id s = i" "db_records db' = db_records db @ seed_rows now i seeds"
    by (auto simp: createFromSpec_def Let_def split: sum.splits option.splits)
  have name: "name_of e = name" using assms(3) by (auto simp: find_entity_def dest: find_Some_iff_mem)
  have "filter (\<lambda>r. sr_spaceId r = i \<and> sr_entityName r = name) (db_records db') =
      filter (\<lambda>r. sr_entityName r = name) (seed_rows now i seeds)"
    using assms(2) seed_rows_space[of _ now i seeds] by (auto simp: p(4) filter_empty_conv intro!: filter_cong)
  then have "listRecords s name (db_records db') = Inr (filter (\<lambda>r. sr_entityName r = name) (seed_rows now i seeds))"
    by (simp add: listRecords_def entityOrFail_def assms(3) name p(3) sort_key_sorted[OF seed_rows_filter_sorted])
  with p seed_rows_data show ?thesis by auto
qed

definition empty_spaces :: spaces_db where
  "empty_spaces = \<lparr>db_spaces = [], db_records = []\<rparr>"

lemma seeds_listed_in_order_witness:
  "\<exists>s db'. createFromSpec (\<lambda>n. CHR ''i'' # show_nat n) ''s1'' 0 ''w1'' None sample_spec sample_seeds empty_spaces = Some (Inr (s, 2), db')
     \<and> map_sum id (map sr_data) (listRecords s ''Task'' (db_records db')) = Inr (map (jsonb_data \<circ> sd_data) sample_rows_written)"
proof -
  have v: "validateAppSpec sample_spec = Inr sample_spec"
    using spec_errors_none[of sample_spec] sample_spec_wf by (simp add: validateAppSpec_def app_spec_wf_def)
  have "slug_base ''Plan'' = ''plan''" by code_simp
  moreover have "free_slug [] ''plan'' ''plan'' 1 = Some ''plan''" by (subst free_slug.simps) simp
  moreover have "name_of sample_spec = ''Plan''" by (simp add: sample_spec_def name_of_def)
  ultimately have u: "uniqueSlug (name_of sample_spec) (db_spaces empty_spaces) = Some ''plan''"
    by (simp add: uniqueSlug_def empty_spaces_def)
  obtain s db' where c: "createFromSpec (\<lambda>n. CHR ''i'' # show_nat n) ''s1'' 0 ''w1'' None sample_spec sample_seeds empty_spaces
      = Some (Inr (s, 2), db')" and s: "sp_spec s = sample_spec"
    by (simp add: createFromSpec_def v sample_prepared u Let_def sample_rows_written_def)
  have "find_entity sample_spec ''Task'' \<noteq> None" by code_simp
  then obtain e where e: "find_entity (sp_spec s) ''Task'' = Some e" by (auto simp: s)
  have "filter (\<lambda>x. sd_entityName x = ''Task'') sample_rows_written = sample_rows_written"
    by (simp add: sample_rows_written_def)
  with seeds_listed_in_order[OF c _ e] c sample_prepared show ?thesis by (auto simp: empty_spaces_def s)
qed

section \<open>The record store of one app\<close>

text \<open>
  What the runtime can do to the records for a session of one app: the space it was pinned to, by its id,
  is what each operation gets.
\<close>

datatype record_op = CreateRecord uuid time string jsval "uuid option" | UpdateRecord string uuid jsval | DeleteRecord string uuid
  | AddRecords "nat \<Rightarrow> uuid" time jsval

fun record_step :: "space \<Rightarrow> record_op \<Rightarrow> space_record list \<Rightarrow> space_record list" where
  "record_step s (CreateRecord i now name data user) records = snd (createRecord i now s name data user records)"
| "record_step s (UpdateRecord name i data) records = snd (updateRecord s name i data records)"
| "record_step s (DeleteRecord name i) records = snd (deleteRecord s name i records)"
| "record_step s (AddRecords ids now input) records = db_records (snd (addRecords ids now (sp_workspaceId s) (sp_slug s) input
     \<lparr>db_spaces = [s], db_records = records\<rparr>))"

text \<open>A stored value of a field: one that fits it, except that infinity was written as null.\<close>

definition value_kept :: "jsval \<Rightarrow> jsval \<Rightarrow> bool" where
  "value_kept f v \<longleftrightarrow> value_fits f v \<and> jsonb_value v = v \<or> field_type f = ''number'' \<and> v = JNull"

definition record_kept :: "jsval \<Rightarrow> (string \<times> jsval) list \<Rightarrow> bool" where
  "record_kept entity data \<longleftrightarrow> distinct (map fst data)
     \<and> (\<forall>(k, v) \<in> set data. \<exists>f \<in> set (array_of entity ''fields''). k = name_of f \<and> value_kept f v)
     \<and> (\<forall>f \<in> set (array_of entity ''fields''). truthy (get_prop f ''required'') \<longrightarrow> name_of f \<in> fst ` set data)"

lemma value_kept_jsonb: "value_fits f v \<Longrightarrow> value_kept f (jsonb_value v)"
  by (auto simp: value_kept_def value_fits_def jsonb_value_def split: if_splits jsval.splits)

lemma keys_jsonb [simp]: "map fst (jsonb_data data) = map fst data" "fst ` set (jsonb_data data) = fst ` set data"
  by (auto simp: jsonb_data_def comp_def split_beta image_image)

lemma record_kept_jsonb: "record_fits e clean \<Longrightarrow> record_kept e (jsonb_data clean)"
proof -
  assume r: "record_fits e clean"
  have "\<exists>f \<in> set (array_of e ''fields''). k = name_of f \<and> value_kept f v" if "(k, v) \<in> set (jsonb_data clean)" for k v
  proof -
    from that obtain v0 where "(k, v0) \<in> set clean" "v = jsonb_value v0" by (auto simp: jsonb_data_def)
    with r value_kept_jsonb show ?thesis unfolding record_fits_def by fastforce
  qed
  with r show ?thesis unfolding record_fits_def record_kept_def by auto
qed

text \<open>Every record of the space belongs to an entity of its specification and fits it.\<close>

definition records_fit :: "space \<Rightarrow> space_record list \<Rightarrow> bool" where
  "records_fit s records \<longleftrightarrow> (\<forall>r \<in> set records. sr_spaceId r = sp_id s \<longrightarrow>
     (\<exists>e. find_entity (sp_spec s) (sr_entityName r) = Some e \<and> record_kept e (sr_data r)))"

fun record_op_ok :: "record_op \<Rightarrow> space_record list \<Rightarrow> bool" where
  "record_op_ok (CreateRecord i now name data user) records = (i \<notin> sr_id ` set records)"
| "record_op_ok (AddRecords ids now input) records = (inj ids \<and> range ids \<inter> sr_id ` set records = {})"
| "record_op_ok _ records = True"

lemma entityOrFail_Inr: "entityOrFail s name = Inr e \<Longrightarrow> find_entity (sp_spec s) (name_of e) = Some e \<and> name_of e = name"
  by (auto simp: entityOrFail_def find_entity_def split: option.splits dest: find_Some_iff_mem)

lemma updateRecord_effect:
  "snd (updateRecord s name i data records) = records
   \<or> (\<exists>r clean e. r \<in> set records \<and> sr_spaceId r = sp_id s \<and> find_entity (sp_spec s) (sr_entityName r) = Some e
        \<and> record_kept e clean \<and> snd (updateRecord s name i data records) = save_row sr_id (r\<lparr>sr_data := clean\<rparr>) records)"
proof (cases "entityOrFail s name")
  case (Inr e)
  show ?thesis
  proof (cases "List.find (is_record s e i) records")
    case (Some r)
    then have "r \<in> set records" "is_record s e i r" using find_Some_iff_mem[OF Some] by auto
    then have r: "r \<in> set records" "sr_spaceId r = sp_id s" "find_entity (sp_spec s) (sr_entityName r) = Some e"
      using entityOrFail_Inr[OF Inr] by (auto simp: is_record_def)
    show ?thesis
    proof (cases "validateRecordData e data")
      case (Inr clean)
      have "snd (updateRecord s name i data records) = save_row sr_id (r\<lparr>sr_data := jsonb_data clean\<rparr>) records"
        using \<open>entityOrFail s name = Inr e\<close> Some Inr by (simp add: updateRecord_def)
      with r record_kept_jsonb[OF stored_records_fit'[OF Inr]] show ?thesis by blast
    qed (use Some \<open>entityOrFail s name = Inr e\<close> in \<open>simp add: updateRecord_def\<close>)
  qed (use Inr in \<open>simp add: updateRecord_def\<close>)
qed (simp add: updateRecord_def)

text \<open>What \<open>addRecords\<close> adds: rows of this app with the ids it was given, that fit its entities.\<close>

lemma seeds_of_ids: "map (sd_id \<circ> fst) (seeds_of ids n items) = map ids [n ..< n + length (seeds_of ids n items)]"
  by (induction ids n items rule: seeds_of.induct) (simp_all add: upt_conv_Cons del: upt_Suc)

lemma prepared_ids:
  assumes "prepareSeedRecords ids spec input existing = Inr seeds"
  shows "map sd_id seeds = map ids [0 ..< length seeds]"
proof -
  have "sd_id (fst (resolve_seed spec rows m)) = sd_id (fst m)" for rows m
    by (cases m) (simp add: resolve_seed_def Let_def split_beta)
  then have *: "map sd_id (map (\<lambda>m. fst (resolve_seed spec rows m)) ms) = map (sd_id \<circ> fst) ms" for rows ms by simp
  show ?thesis
  proof (cases input)
    case (JObj entries)
    let ?made = "seeds_of ids 0 (concat (map (entry_items spec) entries))"
    let ?rows = "map fst ?made @ existing"
    from assms have "seeds = map (\<lambda>m. fst (resolve_seed spec ?rows m)) ?made"
      by (simp add: JObj prepareSeedRecords_def Let_def comp_def split: if_splits)
    with *[of ?rows ?made] seeds_of_ids[of ids 0 "concat (map (entry_items spec) entries)"] show ?thesis by simp
  qed (use assms in \<open>auto simp: prepareSeedRecords_def\<close>)
qed

lemma seed_rows_ids: "map sr_id (seed_rows now i seeds) = map sd_id seeds"
proof -
  have "map sr_id (map (\<lambda>(j, s). \<lparr>sr_id = sd_id s, sr_spaceId = i, sr_entityName = sd_entityName s,
     sr_data = jsonb_data (sd_data s), sr_createdBySpaceUserId = None, sr_createdAt = now - int j\<rparr>) (enumerate n seeds)) = map sd_id seeds" for n
    by (induction seeds arbitrary: n) auto
  then show ?thesis by (simp add: seed_rows_def)
qed

lemma addRecords_effect:
  assumes "db_records (snd (addRecords ids now ws slug input \<lparr>db_spaces = [s], db_records = records\<rparr>)) \<noteq> records"
  obtains seeds existing where "prepareSeedRecords ids (sp_spec s) input existing = Inr seeds"
    "db_records (snd (addRecords ids now ws slug input \<lparr>db_spaces = [s], db_records = records\<rparr>)) = records @ seed_rows now (sp_id s) seeds"
  using assms
  by (auto simp: addRecords_def findAppForWorkspace_def find_by_slug_def Let_def split: sum.splits option.splits if_splits)

lemma addRecords_ok:
  fixes ids now input s records
  defines "after \<equiv> record_step s (AddRecords ids now input) records"
  assumes "distinct (map sr_id records)" and "inj ids" "range ids \<inter> sr_id ` set records = {}"
  shows "distinct (map sr_id after)
    \<and> (app_spec_wf (sp_spec s) \<longrightarrow> records_fit s records \<longrightarrow> records_fit s after)
    \<and> (w \<noteq> sp_id s \<longrightarrow> filter (\<lambda>r. sr_spaceId r = w) after = filter (\<lambda>r. sr_spaceId r = w) records)"
proof (cases "after = records")
  case False
  with addRecords_effect[of ids now "sp_workspaceId s" "sp_slug s" input s records] obtain seeds existing where
    p: "prepareSeedRecords ids (sp_spec s) input existing = Inr seeds" and after: "after = records @ seed_rows now (sp_id s) seeds"
    unfolding after_def record_step.simps by metis
  note new = prepared_ids[OF p]
  have "distinct (map ids [0 ..< length seeds])" using assms(3) by (simp add: distinct_map inj_on_def inj_def)
  moreover have "set (map ids [0 ..< length seeds]) \<inter> sr_id ` set records = {}" using assms(4) by auto
  ultimately have "distinct (map sr_id after)"
    using assms(2) by (simp only: after map_append seed_rows_ids new distinct_append) (simp add: Int_commute)
  moreover have "\<exists>e. find_entity (sp_spec s) (sr_entityName r) = Some e \<and> record_kept e (sr_data r)"
    if spec: "app_spec_wf (sp_spec s)" and r: "r \<in> set (seed_rows now (sp_id s) seeds)" for r
  proof -
    from r have "\<exists>x \<in> set seeds. sr_entityName r = sd_entityName x \<and> sr_data r = jsonb_data (sd_data x)"
      by (auto simp: seed_rows_def in_set_enumerate_eq intro!: bexI[OF _ nth_mem])
    then obtain x where x: "x \<in> set seeds" "sr_entityName r = sd_entityName x" "sr_data r = jsonb_data (sd_data x)" by blast
    from prepared_seed_fits[OF spec p x(1)] record_kept_jsonb x(2,3) show ?thesis by auto
  qed
  moreover have "filter (\<lambda>r. sr_spaceId r = w) (seed_rows now (sp_id s) seeds) = []" if "w \<noteq> sp_id s"
    using that seed_rows_space by (fastforce simp: filter_empty_conv)
  ultimately show ?thesis by (auto simp: after records_fit_def)
qed (use assms in simp)

lemma record_step_ok:
  assumes "distinct (map sr_id records)" and "record_op_ok op records"
  shows "distinct (map sr_id (record_step s op records))" and "app_spec_wf (sp_spec s) \<Longrightarrow> records_fit s records \<Longrightarrow> records_fit s (record_step s op records)"
    and "w \<noteq> sp_id s \<Longrightarrow> filter (\<lambda>r. sr_spaceId r = w) (record_step s op records) = filter (\<lambda>r. sr_spaceId r = w) records"
proof -
  have "distinct (map sr_id (record_step s op records)) \<and> (app_spec_wf (sp_spec s) \<longrightarrow> records_fit s records \<longrightarrow> records_fit s (record_step s op records))
    \<and> (w \<noteq> sp_id s \<longrightarrow> filter (\<lambda>r. sr_spaceId r = w) (record_step s op records) = filter (\<lambda>r. sr_spaceId r = w) records)" for w
  proof (cases op)
    case (CreateRecord i now name data user)
    with assms show ?thesis
      by (auto simp: createRecord_def Let_def records_fit_def split: sum.splits dest!: entityOrFail_Inr record_kept_jsonb[OF stored_records_fit'])
  next
    case (UpdateRecord name i data)
    from updateRecord_effect[of s name i data records] show ?thesis
    proof (elim disjE exE conjE, goal_cases)
      case 1
      with assms UpdateRecord show ?case by simp
    next
      case (2 r clean e)
      then have "filter (\<lambda>x. sr_spaceId x = w) (save_row sr_id (r\<lparr>sr_data := clean\<rparr>) records) = filter (\<lambda>x. sr_spaceId x = w) records"
        if "w \<noteq> sp_id s" using that assms(1) by (intro save_row_foreign[where r = r and ws = "sp_id s"]) auto
      with 2 assms UpdateRecord show ?case by (auto simp: distinct_save_row records_fit_def set_save_row)
    qed
  next
    case (DeleteRecord name i)
    have "filter (\<lambda>r. sr_spaceId r = w) (delete_where (is_record s e i) records) = filter (\<lambda>r. sr_spaceId r = w) records"
      if "w \<noteq> sp_id s" for e using that by (intro delete_where_keeps_others) (auto simp: is_record_def)
    with assms DeleteRecord show ?thesis
      by (auto simp: deleteRecord_def distinct_delete_where records_fit_def split: sum.splits)
  next
    case (AddRecords ids now input)
    with assms addRecords_ok[of records ids s now input w] show ?thesis by simp
  qed
  then show "distinct (map sr_id (record_step s op records))" and "app_spec_wf (sp_spec s) \<Longrightarrow> records_fit s records \<Longrightarrow> records_fit s (record_step s op records)"
    and "w \<noteq> sp_id s \<Longrightarrow> filter (\<lambda>r. sr_spaceId r = w) (record_step s op records) = filter (\<lambda>r. sr_spaceId r = w) records"
    by blast+
qed

text \<open>An operation in the name of a space's id, with the specification it was loaded with.\<close>

definition store_step :: "uuid \<Rightarrow> space \<times> record_op \<Rightarrow> space_record list \<Rightarrow> space_record list" where
  "store_step i sop = record_step ((fst sop)\<lparr>sp_id := i\<rparr>) (snd sop)"

definition store_ok :: "space \<times> record_op \<Rightarrow> space_record list \<Rightarrow> bool" where
  "store_ok sop = record_op_ok (snd sop)"

definition store_wf :: "space_record list \<Rightarrow> bool" where
  "store_wf records \<longleftrightarrow> distinct (map sr_id records)"

interpretation store: tenant_service sr_spaceId store_wf store_ok store_step
  by unfold_locales (auto simp: store_wf_def store_ok_def store_step_def record_step_ok(1) record_step_ok(3))

lemma records_fit_cong: "sp_id s' = sp_id s \<Longrightarrow> sp_spec s' = sp_spec s \<Longrightarrow> records_fit s' records = records_fit s records"
  by (simp add: records_fit_def)

lemma records_fit_foreign:
  "filter (\<lambda>r. sr_spaceId r = sp_id s) records' = filter (\<lambda>r. sr_spaceId r = sp_id s) records \<Longrightarrow>
     records_fit s records' = records_fit s records"
  unfolding records_fit_def by (drule arg_cong[of _ _ set]) (auto simp: set_eq_iff)

lemma store_run_fits:
  "store_wf records \<Longrightarrow> store.run_ok ops records \<Longrightarrow> records_fit s records \<Longrightarrow>
   \<forall>(i, s', op) \<in> set ops. i = sp_id s \<longrightarrow> sp_spec s' = sp_spec s \<Longrightarrow> app_spec_wf (sp_spec s) \<Longrightarrow>
     records_fit s (store.run ops records)"
proof (induction ops records rule: store.run.induct)
  case (2 i sop ops records)
  obtain s' op where sop: "sop = (s', op)" by fastforce
  have sok: "store_ok sop records" and rest: "store.run_ok ops (store_step i sop records)" using "2.prems"(2) by simp_all
  from sok "2.prems"(1) have ok: "distinct (map sr_id records)" "record_op_ok op records"
    by (simp_all add: store_wf_def store_ok_def sop)
  have "records_fit s (store_step i sop records)"
  proof (cases "i = sp_id s")
    case True
    with "2.prems"(4) have same: "sp_spec (s'\<lparr>sp_id := i\<rparr>) = sp_spec s" by (simp add: sop)
    have "records_fit (s'\<lparr>sp_id := i\<rparr>) records" using "2.prems"(3) True same by (subst records_fit_cong[of _ s]) simp_all
    from record_step_ok(2)[OF ok _ this] "2.prems"(5) same
    have "records_fit (s'\<lparr>sp_id := i\<rparr>) (record_step (s'\<lparr>sp_id := i\<rparr>) op records)" by simp
    then show ?thesis
      using True same by (subst (asm) records_fit_cong[of _ s]) (simp_all add: store_step_def sop)
  next
    case False
    then have "sp_id s \<noteq> i" by simp
    from records_fit_foreign[OF store.step_foreign[OF "2.prems"(1) sok this]] "2.prems"(3) show ?thesis by blast
  qed
  moreover note store.step_wf[OF "2.prems"(1) sok, of i]
  moreover have "\<forall>(i, s', op) \<in> set ops. i = sp_id s \<longrightarrow> sp_spec s' = sp_spec s" using "2.prems"(4) by simp
  ultimately show ?case using "2.IH"[OF _ rest] "2.prems"(5) by simp
qed simp

text \<open>C20: The records of an app, whatever sessions create, change or delete and whatever rows a model adds: the operations of
  other apps neither change nor add any of them, and as long as its (valid) specification stays the same, every stored record in it
  belongs to one of its entities and fits it: only that entity's fields, each once, every required field
  present, and values of the declared types, save that a number that was entered as infinity is stored as null.\<close>

theorem app_records_isolated:
  assumes "store_wf records" and "store.run_ok ops records"
  shows "(sp_id s \<notin> fst ` set ops \<longrightarrow> listRecords s name (store.run ops records) = listRecords s name records)
    \<and> (records_fit s records \<longrightarrow> app_spec_wf (sp_spec s) \<longrightarrow> (\<forall>(i, s', op) \<in> set ops. i = sp_id s \<longrightarrow> sp_spec s' = sp_spec s)
         \<longrightarrow> records_fit s (store.run ops records))"
proof (intro conjI impI)
  assume "sp_id s \<notin> fst ` set ops"
  from store.run_foreign[OF assms this]
  have f: "filter (\<lambda>r. sr_spaceId r = sp_id s) (store.run ops records) = filter (\<lambda>r. sr_spaceId r = sp_id s) records" .
  have split: "filter (\<lambda>r. sr_spaceId r = sp_id s \<and> sr_entityName r = n) xs = filter (\<lambda>r. sr_entityName r = n) (filter (\<lambda>r. sr_spaceId r = sp_id s) xs)"
    for n and xs :: "space_record list" by (simp add: conj_commute)
  show "listRecords s name (store.run ops records) = listRecords s name records"
    unfolding listRecords_def split f ..
next
  assume "records_fit s records" "app_spec_wf (sp_spec s)" "\<forall>(i, s', op) \<in> set ops. i = sp_id s \<longrightarrow> sp_spec s' = sp_spec s"
  with store_run_fits[OF assms] show "records_fit s (store.run ops records)" by blast
qed

definition sample_space :: "uuid \<Rightarrow> space" where
  "sample_space i = \<lparr>sp_id = i, sp_workspaceId = ''w1'', sp_createdByUserId = None, sp_slug = i, sp_name = ''Plan'',
     sp_description = None, sp_spec = sample_spec, sp_status = PUBLISHED, sp_kind = APP, sp_html = None,
     sp_pageState = [], sp_createdAt = 0, sp_updatedAt = 0\<rparr>"

lemma app_records_isolated_witness:
  "let ops = [(''s2'', sample_space ''s2'', CreateRecord ''r1'' 0 ''Task'' (JObj [(''title'', JStr ''A'')]) None),
              (''s2'', sample_space ''s2'', AddRecords (\<lambda>n. CHR ''i'' # show_nat n) 5 sample_seeds),
              (''s2'', sample_space ''s2'', UpdateRecord ''Task'' ''r1'' (JObj [(''title'', JStr ''B'')]))];
       records = [\<lparr>sr_id = ''r0'', sr_spaceId = ''s1'', sr_entityName = ''Task'', sr_data = [], sr_createdBySpaceUserId = None, sr_createdAt = 0\<rparr>]
   in listRecords (sample_space ''s1'') ''Task'' (store.run ops records) = listRecords (sample_space ''s1'') ''Task'' records
      \<and> records_fit (sample_space ''s2'') (store.run ops records)
      \<and> map (\<lambda>r. map_of (sr_data r) ''title'') (filter (\<lambda>r. sr_spaceId r = ''s2'') (store.run ops records))
          = [Some (JStr ''B''), Some (JStr ''A''), Some (JStr ''B'')]"
proof -
  let ?ids = "\<lambda>n. CHR ''i'' # show_nat n"
  define ops where "ops = [(''s2'', sample_space ''s2'', CreateRecord ''r1'' 0 ''Task'' (JObj [(''title'', JStr ''A'')]) None),
              (''s2'', sample_space ''s2'', AddRecords ?ids 5 sample_seeds),
              (''s2'', sample_space ''s2'', UpdateRecord ''Task'' ''r1'' (JObj [(''title'', JStr ''B'')]))]"
  define records where "records = [\<lparr>sr_id = ''r0'', sr_spaceId = ''s1'', sr_entityName = ''Task'', sr_data = [],
     sr_createdBySpaceUserId = None, sr_createdAt = 0 :: time\<rparr>]"
  have wf: "store_wf records" by (simp add: store_wf_def records_def)
  have one: "store_step ''s2'' (sample_space ''s2'', CreateRecord ''r1'' 0 ''Task'' (JObj [(''title'', JStr ''A'')]) None) records
      = records @ [\<lparr>sr_id = ''r1'', sr_spaceId = ''s2'', sr_entityName = ''Task'', sr_data = [(''title'', JStr ''A'')],
          sr_createdBySpaceUserId = None, sr_createdAt = 0\<rparr>]"
    unfolding records_def by code_simp
  have "inj ?ids" by (simp add: inj_def show_nat_inj)
  then have ok: "store.run_ok ops records" by (auto simp: ops_def store_ok_def one) (auto simp: records_def)
  have titles: "map (\<lambda>r. map_of (sr_data r) ''title'') (filter (\<lambda>r. sr_spaceId r = ''s2'') (store.run ops records))
      = [Some (JStr ''B''), Some (JStr ''A''), Some (JStr ''B'')]"
    unfolding ops_def records_def store.run.simps by code_simp
  have "records_fit (sample_space ''s2'') records" by (simp add: records_fit_def records_def sample_space_def)
  moreover have "app_spec_wf (sp_spec (sample_space ''s2''))" using sample_spec_wf by (simp add: sample_space_def)
  moreover have "\<forall>(i, s', op) \<in> set ops. i = sp_id (sample_space ''s2'') \<longrightarrow> sp_spec s' = sp_spec (sample_space ''s2'')"
    by (simp add: ops_def)
  ultimately have "records_fit (sample_space ''s2'') (store.run ops records)"
    using app_records_isolated[OF wf ok, of "sample_space ''s2''"] by blast
  moreover have "sp_id (sample_space ''s1'') \<notin> fst ` set ops" by (simp add: ops_def sample_space_def)
  then have "listRecords (sample_space ''s1'') ''Task'' (store.run ops records) = listRecords (sample_space ''s1'') ''Task'' records"
    using app_records_isolated[OF wf ok, of "sample_space ''s1''" "''Task''"] by blast
  ultimately show ?thesis using titles by (simp add: ops_def records_def Let_def)
qed

text \<open>A number field takes infinity from a form (it is a number), but the row that is stored has null in it, so a required
  number can be missing from the record although it was checked.\<close>

theorem infinite_number_stored_as_null:
  "let e = sample_entity [sample_field ''hours'' ''number''];
       s = (sample_space ''s1'')\<lparr>sp_spec := JObj [(''entities'', JArr [e])]\<rparr>;
       (res, rows) = createRecord ''r1'' 0 s ''Task'' (JObj [(''hours'', JStr ''Infinity'')]) None []
   in is_ok res \<and> map sr_data rows = [[(''hours'', JNull)]]"
  by code_simp

end
