(* ===== verification/Crypto.thy ===== *)
theory Crypto
  imports JsonText
begin

text \<open>
  The two libraries the sessions rest on, as parameters with their documented behaviour:
  \<open>bcryptjs\<close>, which hashes at most the first 72 bytes of a text, and \<open>jsonwebtoken\<close>, whose tokens
  are the JWS compact form: base64url of a fixed header, a dot, base64url of the claims as JSON with
  \<open>iat\<close> and \<open>exp\<close> appended, a dot, and the signature.
\<close>

section \<open>The libraries\<close>

text \<open>
  \<open>bc_hash rounds salt text\<close>; \<open>jwt_sign secret claims expiresIn now\<close>; \<open>jwt_verify secret now token\<close>
  is the payload, or \<open>None\<close> when it throws.
\<close>

record crypto =
  bc_hash :: "nat \<Rightarrow> string \<Rightarrow> string \<Rightarrow> string"
  bc_compare :: "string \<Rightarrow> string \<Rightarrow> bool"
  jwt_sign :: "string \<Rightarrow> jsval \<Rightarrow> string \<Rightarrow> time \<Rightarrow> string"
  jwt_verify :: "string \<Rightarrow> time \<Rightarrow> string \<Rightarrow> jsval option"

definition bcrypt_law :: "crypto \<Rightarrow> bool" where
  "bcrypt_law c \<longleftrightarrow> (\<forall>rounds salt s t. (bc_compare c s (bc_hash c rounds salt t) \<longleftrightarrow> take 72 s = take 72 t)
     \<and> bc_hash c rounds salt t \<noteq> [])"

section \<open>base64url\<close>

definition b64_char :: "nat \<Rightarrow> char" where
  "b64_char n = ''ABCDEFGHIJKLMNOPQRSTUVWXYZabcdefghijklmnopqrstuvwxyz0123456789-_'' ! n"

definition byte_of :: "char \<Rightarrow> nat" where
  "byte_of c = of_char c"

fun base64url :: "string \<Rightarrow> string" where
  "base64url [] = []"
| "base64url [a] = [b64_char (byte_of a div 4), b64_char (byte_of a mod 4 * 16)]"
| "base64url [a, b] = [b64_char (byte_of a div 4), b64_char (byte_of a mod 4 * 16 + byte_of b div 16), b64_char (byte_of b mod 16 * 4)]"
| "base64url (a # b # c # s) = b64_char (byte_of a div 4) # b64_char (byte_of a mod 4 * 16 + byte_of b div 16)
     # b64_char (byte_of b mod 16 * 4 + byte_of c div 64) # b64_char (byte_of c mod 64) # base64url s"

definition JWT_HEADER :: string where
  "JWT_HEADER = ''eyJhbGciOiJIUzI1NiIsInR5cCI6IkpXVCJ9''"

definition jwt_format :: "crypto \<Rightarrow> string \<Rightarrow> bool" where
  "jwt_format c secret \<longleftrightarrow> (\<forall>ps expiresIn now. \<exists>iat exp signature.
     jwt_sign c secret (JObj ps) expiresIn now = JWT_HEADER @ ''.''
       @ base64url (stringify (JObj (ps @ [(''iat'', JNum iat), (''exp'', JNum exp)]))) @ ''.'' @ signature)"

text \<open>Within its lifetime a token verifies under its own secret, with the claims it was signed with.\<close>

definition jwt_reads_back :: "crypto \<Rightarrow> string \<Rightarrow> jsval \<Rightarrow> string \<Rightarrow> time \<Rightarrow> bool" where
  "jwt_reads_back c secret claims expiresIn lifetime \<longleftrightarrow> (\<forall>t0 now. t0 \<le> now \<and> now < t0 + lifetime \<longrightarrow>
     (\<exists>p. jwt_verify c secret now (jwt_sign c secret claims expiresIn t0) = Some p
        \<and> (\<forall>k. k \<noteq> ''iat'' \<and> k \<noteq> ''exp'' \<longrightarrow> get_prop p k = get_prop claims k)))"

section \<open>What the first 72 characters of a token hold\<close>

lemma base64url_take: "3 * n \<le> length s \<Longrightarrow> take (4 * n) (base64url s) = base64url (take (3 * n) s)"
proof (induction n arbitrary: s)
  case (Suc n)
  then obtain a b c r where s: "s = a # b # c # r"
    by (metis Suc_le_length_iff length_Suc_conv_rev mult_Suc_right numeral_3_eq_3 add_Suc add_leD1 le_add1)
  with Suc have "take (4 * n) (base64url r) = base64url (take (3 * n) r)" by simp
  moreover have "3 * Suc n = Suc (Suc (Suc (3 * n)))" "4 * Suc n = Suc (Suc (Suc (Suc (4 * n))))" by simp_all
  ultimately show ?case by (simp only: s base64url.simps take_Suc_Cons)
qed simp

lemma length_base64url: "4 * (length s div 3) \<le> length (base64url s)"
  by (induction s rule: base64url.induct) auto

definition is_uuid :: "string \<Rightarrow> bool" where
  "is_uuid i \<longleftrightarrow> length i = 36 \<and> (\<forall>c \<in> set i. is_digit c \<or> c \<in> set ''abcdef-'')"

lemma quote_char_plain: "is_digit c \<or> c \<in> set ''abcdef-'' \<Longrightarrow> quote_char c = [c]"
  by (auto simp: quote_char_def is_digit_def Let_def)

definition sub_text :: "uuid \<Rightarrow> string" where
  "sub_text i = CHR ''{'' # CHR 0x22 # ''sub'' @ [CHR 0x22, CHR '':'', CHR 0x22] @ i"

lemma stringify_sub: "is_uuid i \<Longrightarrow> \<exists>r. stringify (JObj ((''sub'', JStr i) # ps)) = sub_text i @ r"
proof -
  assume u: "is_uuid i"
  then have "\<forall>c \<in> set i. quote_char c = [c]" by (auto simp: is_uuid_def quote_char_plain)
  then have "concat (map quote_char i) = i" by (induction i) simp_all
  then have q: "quote_string i = CHR 0x22 # i @ [CHR 0x22]" by (simp add: quote_string_def)
  have k: "quote_string ''sub'' = CHR 0x22 # ''sub'' @ [CHR 0x22]" by code_simp
  show ?thesis
    by (cases "filter (\<lambda>(k, v). \<not> is_absent v) ps") (auto simp: q k sub_text_def)
qed

lemma token_prefix:
  assumes f: "jwt_format c secret" and u: "is_uuid i"
  shows "take 72 (jwt_sign c secret (JObj ((''sub'', JStr i) # ps)) e t)
       = JWT_HEADER @ ''.'' @ take 35 (base64url (take 27 (sub_text i)))"
proof -
  obtain a x g where s: "jwt_sign c secret (JObj ((''sub'', JStr i) # ps)) e t = JWT_HEADER @ ''.''
       @ base64url (stringify (JObj (((''sub'', JStr i) # ps) @ [(''iat'', JNum a), (''exp'', JNum x)]))) @ ''.'' @ g"
    using f unfolding jwt_format_def by blast
  obtain r where r: "stringify (JObj (((''sub'', JStr i) # ps) @ [(''iat'', JNum a), (''exp'', JNum x)])) = sub_text i @ r"
    using stringify_sub[OF u] unfolding append_Cons by blast
  have len: "length (sub_text i) = 44" using u by (simp add: sub_text_def is_uuid_def)
  have "take 36 (base64url (sub_text i @ r)) = base64url (take 27 (sub_text i))"
    using base64url_take[of 9 "sub_text i @ r"] len by simp
  from arg_cong[OF this, of "take 35"]
  have "take 35 (base64url (sub_text i @ r)) = take 35 (base64url (take 27 (sub_text i)))" by simp
  moreover have "35 \<le> length (base64url (sub_text i @ r))"
    using length_base64url[of "sub_text i @ r"] len by (simp add: div_le_mono[of 44])
  moreover have "length JWT_HEADER = 36" by (simp add: JWT_HEADER_def)
  ultimately show ?thesis unfolding s r by simp
qed

end
