(* ===== verification/Sessions.thy ===== *)
theory Sessions
  imports Crypto KeyValue Tasks Workspaces
begin

text \<open>
  Who a request is: \<open>src/src/auth/auth.service.ts\<close> and \<open>auth/strategies/jwt.strategy.ts\<close>, the
  guards of \<open>src/src/common/guards\<close> and the owner's guard of \<open>src/src/super-admin\<close>.  The JWT and
  bcrypt libraries are the parameter \<open>c\<close> (theory \<open>Crypto\<close>), Slack's replies are functions.
\<close>

section \<open>Access tokens\<close>

definition role_text :: "user_role \<Rightarrow> string" where
  "role_text r = (case r of ADMIN \<Rightarrow> ''admin'' | MEMBER \<Rightarrow> ''member'')"

definition WORKSPACE_ROLES :: "string list" where
  "WORKSPACE_ROLES = map role_text [ADMIN, MEMBER]"

record authenticated_user =
  au_userId :: uuid
  au_workspaceId :: uuid
  au_slackUserId :: jsval
  au_role :: string

definition jwt_validate :: "jsval \<Rightarrow> authenticated_user result" where
  "jwt_validate payload =
    (if get_prop payload ''scope'' \<noteq> JUndef then Inl (Unauthorized ''Not a workspace session'')
     else if \<not> is_string (get_prop payload ''sub'') \<or> \<not> is_string (get_prop payload ''workspaceId'')
        \<or> \<not> truthy (get_prop payload ''sub'') \<or> \<not> truthy (get_prop payload ''workspaceId'')
        \<or> get_prop payload ''role'' \<notin> JStr ` set WORKSPACE_ROLES
     then Inl (Unauthorized ''Malformed workspace session'')
     else Inr \<lparr>au_userId = str_of (get_prop payload ''sub''), au_workspaceId = str_of (get_prop payload ''workspaceId''),
               au_slackUserId = get_prop payload ''slackUserId'', au_role = str_of (get_prop payload ''role'')\<rparr>)"

text \<open>The global guard: a public route passes without a member.\<close>

definition jwt_guard :: "crypto \<Rightarrow> string \<Rightarrow> time \<Rightarrow> bool \<Rightarrow> string option \<Rightarrow> authenticated_user option result" where
  "jwt_guard c secret now isPublic bearer =
    (if isPublic then Inr None
     else case bearer of None \<Rightarrow> Inl (Unauthorized ''Unauthorized'')
       | Some token \<Rightarrow> (case jwt_verify c secret now token of None \<Rightarrow> Inl (Unauthorized ''Unauthorized'')
           | Some payload \<Rightarrow> map_sum id Some (jwt_validate payload)))"

definition roles_guard :: "string list option \<Rightarrow> authenticated_user option \<Rightarrow> unit result" where
  "roles_guard required user = (case required of
     None \<Rightarrow> Inr ()
   | Some rs \<Rightarrow> if rs = [] then Inr ()
       else case user of Some u \<Rightarrow> if au_role u \<in> set rs then Inr () else Inl (Forbidden ''Insufficient permissions for this resource'')
         | None \<Rightarrow> Inl (Forbidden ''Insufficient permissions for this resource''))"

section \<open>The owner of the platform\<close>

definition isSuperAdmin :: "string list \<Rightarrow> string option \<Rightarrow> bool" where
  "isSuperAdmin allowlist email = (case email of None \<Rightarrow> False
     | Some e \<Rightarrow> e \<noteq> [] \<and> to_lower (js_trim e) \<in> set allowlist)"

definition isConfigured :: "string list \<Rightarrow> bool" where
  "isConfigured allowlist \<longleftrightarrow> set allowlist \<noteq> {}"

text \<open>On success the email the request is marked with.\<close>

definition super_admin_guard :: "string list \<Rightarrow> user list \<Rightarrow> authenticated_user option \<Rightarrow> string option result" where
  "super_admin_guard allowlist us requester =
    (let refused = Inl (Forbidden ''Insufficient permissions for this resource'') in
     case requester of None \<Rightarrow> refused
     | Some a \<Rightarrow> if au_userId a = [] then refused
         else case findById us (au_userId a) of None \<Rightarrow> refused
           | Some u \<Rightarrow> if \<not> u_isActive u \<or> \<not> isSuperAdmin allowlist (u_email u) then refused else Inr (u_email u))"

section \<open>Rate limits\<close>

type_synonym counters = "string \<Rightarrow> (nat \<times> time option) option"

definition counter_value :: "string \<Rightarrow> time \<Rightarrow> counters \<Rightarrow> nat" where
  "counter_value k now s = (case s k of Some (n, None) \<Rightarrow> n
     | Some (n, Some t) \<Rightarrow> if now < t then n else 0 | None \<Rightarrow> 0)"

text \<open>\<open>INCR\<close> keeps the expiry of a live counter; \<open>EXPIRE\<close> sets it.\<close>

definition incr :: "string \<Rightarrow> time \<Rightarrow> counters \<Rightarrow> nat \<times> counters" where
  "incr k now s = (let n = counter_value k now s + 1;
       expiry = (if n = 1 then None else case s k of Some (_, t) \<Rightarrow> t | None \<Rightarrow> None)
     in (n, s(k \<mapsto> (n, expiry))))"

definition expire :: "string \<Rightarrow> int \<Rightarrow> time \<Rightarrow> counters \<Rightarrow> counters" where
  "expire k seconds now s = (case s k of None \<Rightarrow> s | Some (n, _) \<Rightarrow> s(k \<mapsto> (n, Some (now + seconds * 1000))))"

text \<open>Redis as a request finds it: answering, lost before the increment, or lost right after it.\<close>

datatype redis_health = Answering | LostBefore | LostAfterIncr

record rate_options =
  rl_limit :: nat
  rl_windowSeconds :: int

definition KEY_PREFIX :: string where
  "KEY_PREFIX = ''ratelimit:''"

datatype forwarded_header = NoHeader | OneHeader string | ManyHeaders "string list"

record http_request =
  rq_userId :: "uuid option"
  rq_forwarded :: forwarded_header
  rq_ip :: "string option"

definition first_hop :: "forwarded_header \<Rightarrow> string" where
  "first_hop h = (case h of OneHeader s \<Rightarrow> js_trim (hd (split_on (CHR '','') s))
     | ManyHeaders (s # _) \<Rightarrow> js_trim (hd (split_on (CHR '','') s)) | _ \<Rightarrow> [])"

definition callerId :: "http_request \<Rightarrow> string" where
  "callerId r = (case rq_userId r of
     Some (ch # i) \<Rightarrow> ''user:'' @ ch # i
   | _ \<Rightarrow> ''ip:'' @ (if first_hop (rq_forwarded r) \<noteq> [] then first_hop (rq_forwarded r)
        else case rq_ip r of Some (ch # i) \<Rightarrow> ch # i | _ \<Rightarrow> ''unknown''))"

definition rate_key :: "string \<Rightarrow> http_request \<Rightarrow> string" where
  "rate_key route r = KEY_PREFIX @ route @ '':'' @ callerId r"

text \<open>\<open>route\<close> is the class and method name of the handler, joined by a dot.\<close>

definition rate_limit_guard ::
  "redis_health \<Rightarrow> rate_options option \<Rightarrow> string \<Rightarrow> time \<Rightarrow> http_request \<Rightarrow> counters \<Rightarrow> unit result \<times> counters" where
  "rate_limit_guard health options route now r s = (case options of None \<Rightarrow> (Inr (), s)
   | Some opts \<Rightarrow>
      if health = LostBefore then (Inr (), s)
      else (let k = rate_key route r; (count, s1) = incr k now s in
        if count = 1 \<and> health = LostAfterIncr then (Inr (), s1)
        else (let s2 = (if count = 1 then expire k (rl_windowSeconds opts) now s1 else s1) in
          if rl_limit opts < count then (Inl (TooManyRequests ''Too many requests - wait a moment and try again.''), s2)
          else (Inr (), s2))))"

section \<open>Signing in\<close>

record slack_identity_data =
  id_slackTeamId :: string
  id_teamName :: string
  id_slackUserId :: string
  id_name :: string
  id_email :: "string option"
  id_avatarUrl :: "string option"
  id_botToken :: "string option"

record oauth_reply =
  oa_ok :: bool
  oa_access_token :: "string option"
  oa_team :: "(string \<times> string) option"
  oa_authed_user :: "string option"

text \<open>
  \<open>oauth\<close> is the reply to \<open>oauth.v2.access\<close> for a code, \<open>None\<close> when the request fails; \<open>info\<close> that of
  \<open>users.info\<close>.
\<close>

definition exchangeCodeForIdentity ::
  "(string \<Rightarrow> oauth_reply option) \<Rightarrow> (string \<Rightarrow> user_response option) \<Rightarrow> string \<Rightarrow> slack_identity_data result" where
  "exchangeCodeForIdentity oauth info code = (case oauth code of
     None \<Rightarrow> Inl (PlainError ''request failed'')
   | Some r \<Rightarrow>
      (case (oa_ok r, oa_team r, oa_authed_user r) of
         (True, Some (team, name), Some person) \<Rightarrow>
           (let p = fetchUserProfile info person (oa_access_token r)
            in Inr \<lparr>id_slackTeamId = team, id_teamName = name, id_slackUserId = person, id_name = pe_name p,
                    id_email = pe_email p, id_avatarUrl = pe_avatarUrl p, id_botToken = oa_access_token r\<rparr>)
       | _ \<Rightarrow> Inl (InternalServerError ''Slack OAuth exchange failed'')))"

record auth_tokens =
  at_accessToken :: string
  at_refreshToken :: string

record jwt_config =
  jc_secret :: string
  jc_expiresIn :: string
  jc_refreshSecret :: string
  jc_refreshExpiresIn :: string

definition REFRESH_TOKEN_SALT_ROUNDS :: nat where
  "REFRESH_TOKEN_SALT_ROUNDS = 10"

definition session_claims :: "user \<Rightarrow> jsval" where
  "session_claims u = JObj [(''sub'', JStr (u_id u)), (''workspaceId'', JStr (u_workspaceId u)),
     (''slackUserId'', JStr (u_slackUserId u)), (''role'', JStr (role_text (u_role u)))]"

text \<open>\<open>salt\<close> is the random salt of the hash.\<close>

definition issueTokens ::
  "crypto \<Rightarrow> jwt_config \<Rightarrow> string \<Rightarrow> time \<Rightarrow> user \<Rightarrow> user list \<Rightarrow> auth_tokens result \<times> user list" where
  "issueTokens c cfg salt now u us =
    (if u_workspaceId u = [] then (Inl (BadRequest ''User is not linked to a workspace''), us)
     else (let access = jwt_sign c (jc_secret cfg) (session_claims u) (jc_expiresIn cfg) now;
               token = jwt_sign c (jc_refreshSecret cfg) (session_claims u) (jc_refreshExpiresIn cfg) now
           in (Inr \<lparr>at_accessToken = access, at_refreshToken = token\<rparr>,
               setRefreshTokenHash (u_id u) (Some (bc_hash c REFRESH_TOKEN_SALT_ROUNDS salt token)) us)))"

definition refresh ::
  "crypto \<Rightarrow> jwt_config \<Rightarrow> string \<Rightarrow> time \<Rightarrow> string \<Rightarrow> user list \<Rightarrow> auth_tokens result \<times> user list" where
  "refresh c cfg salt now refreshToken us = (case jwt_verify c (jc_refreshSecret cfg) now refreshToken of
     None \<Rightarrow> (Inl (Unauthorized ''Invalid or expired refresh token''), us)
   | Some payload \<Rightarrow>
      (case findById us (str_of (get_prop payload ''sub'')) of
         None \<Rightarrow> (Inl (Unauthorized ''Refresh token is no longer valid''), us)
       | Some u \<Rightarrow>
          (case u_refreshTokenHash u of
             Some (ch # h) \<Rightarrow>
               if \<not> u_isActive u then (Inl (Unauthorized ''Refresh token is no longer valid''), us)
               else if \<not> bc_compare c refreshToken (ch # h) then (Inl (Unauthorized ''Refresh token mismatch''), us)
               else issueTokens c cfg salt now u us
           | _ \<Rightarrow> (Inl (Unauthorized ''Refresh token is no longer valid''), us))))"

definition logout :: "uuid \<Rightarrow> user list \<Rightarrow> user list" where
  "logout userId us = setRefreshTokenHash userId None us"

record current_user_view =
  cu_id :: uuid
  cu_workspaceId :: uuid
  cu_slackUserId :: string
  cu_name :: string
  cu_email :: "string option"
  cu_avatarUrl :: "string option"
  cu_role :: user_role
  cu_isActive :: bool
  cu_isSuperAdmin :: bool

definition getCurrentUser :: "string list \<Rightarrow> uuid \<Rightarrow> user list \<Rightarrow> current_user_view result" where
  "getCurrentUser allowlist userId us = map_sum id (\<lambda>u. \<lparr>cu_id = u_id u, cu_workspaceId = u_workspaceId u,
     cu_slackUserId = u_slackUserId u, cu_name = u_name u, cu_email = u_email u, cu_avatarUrl = u_avatarUrl u,
     cu_role = u_role u, cu_isActive = u_isActive u, cu_isSuperAdmin = isSuperAdmin allowlist (u_email u)\<rparr>)
     (findByIdOrFail us userId)"

record membership =
  mb_workspaceId :: uuid
  mb_name :: string
  mb_slackTeamId :: string
  mb_role :: user_role
  mb_isCurrent :: bool

text \<open>\<open>findMembershipsOf\<close> orders by creation; a member's workspace is always there, by its foreign key.\<close>

definition membership_of :: "workspace list \<Rightarrow> user \<Rightarrow> user \<Rightarrow> membership list" where
  "membership_of ws u m = (case workspaceById ws (u_workspaceId m) of None \<Rightarrow> []
     | Some w \<Rightarrow> [\<lparr>mb_workspaceId = u_workspaceId m, mb_name = w_name w, mb_slackTeamId = w_slackTeamId w,
                   mb_role = u_role m, mb_isCurrent = (u_workspaceId m = u_workspaceId u)\<rparr>])"

definition listWorkspaces :: "workspace list \<Rightarrow> uuid \<Rightarrow> user list \<Rightarrow> membership list result" where
  "listWorkspaces ws userId us = map_sum id
     (\<lambda>u. concat (map (membership_of ws u) (sort_key u_createdAt (findMembershipsOf us u)))) (findByIdOrFail us userId)"

definition switchWorkspace ::
  "crypto \<Rightarrow> jwt_config \<Rightarrow> string \<Rightarrow> time \<Rightarrow> uuid \<Rightarrow> uuid \<Rightarrow> user list \<Rightarrow> auth_tokens result \<times> user list" where
  "switchWorkspace c cfg salt now userId ws us = (case findByIdOrFail us userId of Inl e \<Rightarrow> (Inl e, us)
   | Inr u \<Rightarrow>
      (case List.find (\<lambda>m. u_workspaceId m = ws) (sort_key u_createdAt (findMembershipsOf us u)) of
         None \<Rightarrow> (Inl (Forbidden ''You are not a member of that workspace''), us)
       | Some target \<Rightarrow> issueTokens c cfg salt now target us))"

section \<open>The Slack callback\<close>

record auth_db =
  ad_tenants :: tenants
  ad_tasks :: "scheduled_task list"

text \<open>The welcome, posted when the check-in was seeded and there is a bot to post as.\<close>

definition onboardWorkspace ::
  "cron \<Rightarrow> uuid \<Rightarrow> time \<Rightarrow> workspace \<Rightarrow> string \<Rightarrow> string \<Rightarrow> scheduled_task list \<Rightarrow> (string \<times> string) list \<times> scheduled_task list" where
  "onboardWorkspace cron i now w slackUserId name tasks =
    (case ensureSystemCheckIn cron i now (w_id w) (Some slackUserId) tasks of
       (Inr True, tasks') \<Rightarrow> ((case w_slackBotToken w of Some (ch # t) \<Rightarrow> [(slackUserId, buildWelcomeMessage (Some name) True)] | _ \<Rightarrow> []), tasks')
     | (_, tasks') \<Rightarrow> ([], tasks'))"

record auth_ids =
  ai_workspace :: uuid
  ai_grant :: uuid
  ai_user :: uuid
  ai_task :: uuid

definition handleSlackCallback ::
  "crypto \<Rightarrow> jwt_config \<Rightarrow> cron \<Rightarrow> (string \<Rightarrow> oauth_reply option) \<Rightarrow> (string \<Rightarrow> user_response option) \<Rightarrow> auth_ids \<Rightarrow> string
     \<Rightarrow> time \<Rightarrow> string \<Rightarrow> auth_db \<Rightarrow> (auth_tokens \<times> user \<times> workspace) result \<times> (string \<times> string) list \<times> auth_db" where
  "handleSlackCallback c cfg cron oauth info ids salt now code db =
    (case exchangeCodeForIdentity oauth info code of Inl e \<Rightarrow> (Inl e, [], db)
     | Inr p \<Rightarrow>
        (let (w, tn) = upsertWorkspace (ai_workspace ids) (ai_grant ids) now
               \<lparr>wi_slackTeamId = id_slackTeamId p, wi_name = id_teamName p, wi_slackBotToken = Some (id_botToken p)\<rparr> (ad_tenants db);
             (u, us) = upsertFromSlack (ai_user ids) now
               \<lparr>ui_workspaceId = w_id w, ui_slackUserId = id_slackUserId p, ui_name = id_name p, ui_email = id_email p,
                ui_avatarUrl = id_avatarUrl p, ui_role = None\<rparr> (tn_users tn);
             (posts, tasks) = onboardWorkspace cron (ai_task ids) now w (id_slackUserId p) (id_name p) (ad_tasks db);
             (r, us') = issueTokens c cfg salt now u us
         in (map_sum id (\<lambda>t. (t, u, w)) r, posts, \<lparr>ad_tenants = tn\<lparr>tn_users := us'\<rparr>, ad_tasks = tasks\<rparr>)))"

text \<open>\<open>GET /auth/slack/callback\<close>.  The \<open>state\<close> of the query is not read.\<close>

record callback_query =
  cq_code :: "string option"
  cq_state :: "string option"
  cq_error :: "string option"

definition slackCallback ::
  "(string \<Rightarrow> 'd \<Rightarrow> 'a result \<times> 'd) \<Rightarrow> callback_query \<Rightarrow> 'd \<Rightarrow> 'a result \<times> 'd" where
  "slackCallback handle q db = (case cq_error q of
     Some (ch # e) \<Rightarrow> (Inl (BadRequest (''Slack authorization failed: '' @ ch # e)), db)
   | _ \<Rightarrow> (case cq_code q of Some (ch # k) \<Rightarrow> handle (ch # k) db | _ \<Rightarrow> (Inl (BadRequest ''Missing OAuth code from Slack''), db)))"

end
