(* ===== verification/SpacesAuth.thy ===== *)
theory SpacesAuth
  imports Sessions Spaces
begin

text \<open>
  Signing in to a space: \<open>src/src/spaces/spaces-auth.service.ts\<close>, the delivery of links in
  \<open>spaces-link-delivery.service.ts\<close> and the guard of the data routes, \<open>space-auth.guard.ts\<close>, over
  the tables of \<open>space-auth-token.entity.ts\<close> and \<open>space-user.entity.ts\<close>.
\<close>

section \<open>Tables\<close>

record space_auth_token =
  sk_id :: uuid
  sk_spaceId :: uuid
  sk_email :: string
  sk_tokenHash :: string
  sk_expiresAt :: time
  sk_usedAt :: "time option"
  sk_createdAt :: time

datatype space_user_role = SPACE_ADMIN | SPACE_MEMBER

record space_user =
  su_id :: uuid
  su_spaceId :: uuid
  su_email :: string
  su_name :: "string option"
  su_role :: space_user_role
  su_lastLoginAt :: "time option"
  su_createdAt :: time

record space_access =
  sa_tokens :: "space_auth_token list"
  sa_users :: "space_user list"

definition listSpaceMembers :: "uuid \<Rightarrow> space_user list \<Rightarrow> space_user list" where
  "listSpaceMembers spaceId users = sort_key su_createdAt (filter (\<lambda>u. su_spaceId u = spaceId) users)"

section \<open>Delivering links\<close>

record slack_teammate =
  te_slackUserId :: string
  te_botToken :: string

definition findTeammate ::
  "(string \<Rightarrow> string \<Rightarrow> user_response option) \<Rightarrow> workspace list \<Rightarrow> uuid \<Rightarrow> string \<Rightarrow> slack_teammate option" where
  "findTeammate lookup ws i email = (case workspaceById ws i of None \<Rightarrow> None
   | Some w \<Rightarrow> (case w_slackBotToken w of
       Some (ch # tok) \<Rightarrow> (case lookupUserByEmail (lookup (ch # tok)) email of
          LookupFound p \<Rightarrow> if sf_deleted p \<or> sf_isBot p then None
            else Some \<lparr>te_slackUserId = sf_id p, te_botToken = ch # tok\<rparr>
        | _ \<Rightarrow> None)
     | _ \<Rightarrow> None))"

text \<open>The direct message sent, if any: bot token, destination and text.\<close>

definition send_link :: "slack_teammate option \<Rightarrow> string \<Rightarrow> string \<Rightarrow> (string \<times> string \<times> string) option" where
  "send_link teammate spaceName link = (case teammate of None \<Rightarrow> None
     | Some t \<Rightarrow> Some (te_botToken t, te_slackUserId t, buildSpaceSignInMessage spaceName link))"

section \<open>Requesting a link\<close>

definition TOKEN_TTL_MS :: int where
  "TOKEN_TTL_MS = 30 * 60 * 1000"

definition TOKEN_SALT_ROUNDS :: nat where
  "TOKEN_SALT_ROUNDS = 10"

definition SESSION_TTL :: string where
  "SESSION_TTL = ''7d''"

record link_result =
  lr_sent :: bool
  lr_devLink :: "string option"

definition admitted :: "space \<Rightarrow> string \<Rightarrow> slack_teammate option \<Rightarrow> space_user list \<Rightarrow> bool" where
  "admitted s email teammate users \<longleftrightarrow> truthy (get_prop (get_prop (sp_spec s) ''auth'') ''allowSignup'') \<or> teammate \<noteq> None
     \<or> (\<exists>u \<in> set users. su_spaceId u = sp_id s \<and> su_email u = email)"

definition link_url :: "string \<Rightarrow> string \<Rightarrow> string \<Rightarrow> string" where
  "link_url frontendUrl slug raw = spaceUrl frontendUrl slug @ ''?token='' @ raw"

text \<open>
  \<open>i\<close>, \<open>secret\<close> and \<open>salt\<close> are random.  \<open>encodeURIComponent\<close> changes nothing of a token, which is a
  UUID, a dot and base64url characters.
\<close>

definition requestLink ::
  "crypto \<Rightarrow> bool \<Rightarrow> string \<Rightarrow> (string \<Rightarrow> string \<Rightarrow> user_response option) \<Rightarrow> workspace list \<Rightarrow> uuid \<Rightarrow> string \<Rightarrow> string \<Rightarrow> time
     \<Rightarrow> string \<Rightarrow> string \<Rightarrow> space list \<Rightarrow> space_access \<Rightarrow> link_result result \<times> (string \<times> string \<times> string) option \<times> space_access" where
  "requestLink c isDev frontendUrl lookup ws i secret salt now slug email spaces db =
    (case findPublishedBySlug slug spaces of Inl e \<Rightarrow> (Inl e, None, db)
     | Inr s \<Rightarrow>
        (let normalized = to_lower (js_trim email); teammate = findTeammate lookup ws (sp_workspaceId s) normalized in
         if \<not> admitted s normalized teammate (sa_users db) \<or> (teammate = None \<and> \<not> isDev)
         then (Inr \<lparr>lr_sent = True, lr_devLink = None\<rparr>, None, db)
         else (let row = \<lparr>sk_id = i, sk_spaceId = sp_id s, sk_email = normalized,
                     sk_tokenHash = bc_hash c TOKEN_SALT_ROUNDS salt secret, sk_expiresAt = now + TOKEN_TTL_MS,
                     sk_usedAt = None, sk_createdAt = now\<rparr>;
                   link = link_url frontendUrl slug (i @ ''.'' @ secret)
               in (Inr \<lparr>lr_sent = True, lr_devLink = (if isDev then Some link else None)\<rparr>,
                   send_link teammate (sp_name s) link, db\<lparr>sa_tokens := save_row sk_id row (sa_tokens db)\<rparr>))))"

section \<open>Sessions\<close>

record space_session =
  ss_token :: string
  ss_userId :: uuid
  ss_email :: string
  ss_name :: "string option"

definition space_claims :: "uuid \<Rightarrow> space_user \<Rightarrow> jsval" where
  "space_claims spaceId u = JObj [(''sub'', JStr (su_id u)), (''spaceId'', JStr spaceId), (''email'', JStr (su_email u)),
     (''scope'', JStr ''space'')]"

definition issueSession :: "crypto \<Rightarrow> string \<Rightarrow> time \<Rightarrow> uuid \<Rightarrow> space_user \<Rightarrow> space_session" where
  "issueSession c secret now spaceId u = \<lparr>ss_token = jwt_sign c secret (space_claims spaceId u) SESSION_TTL now,
     ss_userId = su_id u, ss_email = su_email u, ss_name = su_name u\<rparr>"

definition upsertMember ::
  "uuid \<Rightarrow> time \<Rightarrow> uuid \<Rightarrow> string \<Rightarrow> string option \<Rightarrow> space_user list \<Rightarrow> space_user \<times> space_user list" where
  "upsertMember i now spaceId email name users =
    (case List.find (\<lambda>u. su_spaceId u = spaceId \<and> su_email u = email) users of
       Some u \<Rightarrow> let u' = u\<lparr>su_lastLoginAt := Some now, su_name := coalesce (su_name u) name\<rparr> in (u', save_row su_id u' users)
     | None \<Rightarrow> let u' = \<lparr>su_id = i, su_spaceId = spaceId, su_email = email, su_name = name, su_role = SPACE_MEMBER,
                 su_lastLoginAt = Some now, su_createdAt = now\<rparr> in (u', save_row su_id u' users))"

definition signed_in_to :: "workspace option \<Rightarrow> string" where
  "signed_in_to w = (case map_option w_name w of Some (ch # n) \<Rightarrow> ''the '' @ ch # n @ '' workspace'' | _ \<Rightarrow> ''another workspace'')"

definition workspaceSession ::
  "crypto \<Rightarrow> string \<Rightarrow> workspace list \<Rightarrow> user list \<Rightarrow> uuid \<Rightarrow> time \<Rightarrow> string \<Rightarrow> uuid \<Rightarrow> uuid \<Rightarrow> space list \<Rightarrow> space_access
     \<Rightarrow> space_session result \<times> space_access" where
  "workspaceSession c secret ws us i now slug workspaceId userId spaces db =
    (case findPublishedBySlug slug spaces of Inl e \<Rightarrow> (Inl e, db)
     | Inr s \<Rightarrow>
        if sp_workspaceId s \<noteq> workspaceId
        then (Inl (Forbidden (''You're signed in to Gaspo on '' @ signed_in_to (workspaceById ws workspaceId)
           @ '', but this app belongs to a different one. Sign in below with the email on that team's Slack, or sign in to Gaspo with Slack on that workspace.'')), db)
        else case findById us userId of None \<Rightarrow> (Inl (Unauthorized ''Your Gaspo account is not active''), db)
         | Some u \<Rightarrow>
            if \<not> u_isActive u then (Inl (Unauthorized ''Your Gaspo account is not active''), db)
            else (case u_email u of
               Some (ch # e) \<Rightarrow>
                 (let (m, users) = upsertMember i now (sp_id s) (to_lower (ch # e)) (Some (u_name u)) (sa_users db)
                  in (Inr (issueSession c secret now (sp_id s) m), db\<lparr>sa_users := users\<rparr>))
             | _ \<Rightarrow> (Inl (Forbidden ''Your Gaspo account has no email address on file. Sign in below with the email on your Slack profile.''), db)))"

text \<open>Redeeming reads the row, then marks it used and signs the person in.\<close>

definition token_parts :: "string \<Rightarrow> string \<times> string" where
  "token_parts raw = (case split_on (CHR ''.'') raw of t # s # _ \<Rightarrow> (t, s) | [t] \<Rightarrow> (t, []) | [] \<Rightarrow> ([], []))"

definition verify_read :: "crypto \<Rightarrow> time \<Rightarrow> uuid \<Rightarrow> string \<Rightarrow> space_auth_token list \<Rightarrow> space_auth_token result" where
  "verify_read c now spaceId raw tokens = (case token_parts raw of (tokenId, secret) \<Rightarrow>
     if tokenId = [] \<or> secret = [] then Inl (Unauthorized ''Malformed token'')
     else case List.find (\<lambda>r. sk_id r = tokenId \<and> sk_spaceId r = spaceId) tokens of
        None \<Rightarrow> Inl (Unauthorized ''Invalid or expired token'')
      | Some row \<Rightarrow>
          if sk_usedAt row \<noteq> None \<or> sk_expiresAt row < now \<or> \<not> bc_compare c secret (sk_tokenHash row)
          then Inl (Unauthorized ''Invalid or expired token'') else Inr row)"

definition verify_write ::
  "crypto \<Rightarrow> string \<Rightarrow> uuid \<Rightarrow> time \<Rightarrow> uuid \<Rightarrow> space_auth_token \<Rightarrow> space_access \<Rightarrow> space_session \<times> space_access" where
  "verify_write c secret i now spaceId row db =
    (let tokens = save_row sk_id (row\<lparr>sk_usedAt := Some now\<rparr>) (sa_tokens db);
         (m, users) = upsertMember i now spaceId (sk_email row) None (sa_users db)
     in (issueSession c secret now spaceId m, \<lparr>sa_tokens = tokens, sa_users = users\<rparr>))"

definition verify_link ::
  "crypto \<Rightarrow> string \<Rightarrow> uuid \<Rightarrow> time \<Rightarrow> string \<Rightarrow> string \<Rightarrow> space list \<Rightarrow> space_access \<Rightarrow> space_session result \<times> space_access" where
  "verify_link c secret i now slug raw spaces db = (case findPublishedBySlug slug spaces of Inl e \<Rightarrow> (Inl e, db)
   | Inr s \<Rightarrow>
      (case verify_read c now (sp_id s) raw (sa_tokens db) of Inl e \<Rightarrow> (Inl e, db)
       | Inr row \<Rightarrow> let (session, db') = verify_write c secret i now (sp_id s) row db in (Inr session, db')))"

definition purgeExpired :: "time \<Rightarrow> space_access \<Rightarrow> space_access" where
  "purgeExpired now db = db\<lparr>sa_tokens := delete_where (\<lambda>r. sk_expiresAt r < now) (sa_tokens db)\<rparr>"

section \<open>The guard of the data routes\<close>

record authenticated_space_user =
  as_spaceUserId :: jsval
  as_spaceId :: jsval
  as_email :: jsval

definition verifySession :: "crypto \<Rightarrow> string \<Rightarrow> time \<Rightarrow> string \<Rightarrow> authenticated_space_user result" where
  "verifySession c secret now token = (case jwt_verify c secret now token of
     None \<Rightarrow> Inl (Unauthorized ''Invalid space session'')
   | Some payload \<Rightarrow>
      if get_prop payload ''scope'' \<noteq> JStr ''space'' then Inl (Unauthorized ''Not a space session'')
      else Inr \<lparr>as_spaceUserId = get_prop payload ''sub'', as_spaceId = get_prop payload ''spaceId'', as_email = get_prop payload ''email''\<rparr>)"

definition space_guard ::
  "crypto \<Rightarrow> string \<Rightarrow> time \<Rightarrow> string option \<Rightarrow> string \<Rightarrow> space list \<Rightarrow> (space \<times> authenticated_space_user) result" where
  "space_guard c secret now authorization slug spaces = (case authorization of
     None \<Rightarrow> Inl (Unauthorized ''Missing space session'')
   | Some header \<Rightarrow>
      if \<not> starts_with ''Bearer '' header then Inl (Unauthorized ''Missing space session'')
      else (case verifySession c secret now (drop 7 header) of Inl e \<Rightarrow> Inl e
       | Inr person \<Rightarrow>
          (case findPublishedBySlug slug spaces of Inl e \<Rightarrow> Inl e
           | Inr s \<Rightarrow> if JStr (sp_id s) \<noteq> as_spaceId person then Inl (Unauthorized ''Session does not belong to this app'')
               else Inr (s, person))))"

end
