(* ===== verification/SpacesAuthFacts.thy ===== *)
theory SpacesAuthFacts
  imports SpacesAuth SpaceFacts
begin

text \<open>
  The sign-in links as single-use tokens (an interpretation of \<open>ticket_store\<close>), what the link form
  tells a stranger, and how the sessions of spaces and of workspaces are kept apart.
\<close>

section \<open>Links are tickets\<close>

definition issue_link :: "uuid \<Rightarrow> uuid \<times> string \<times> string \<Rightarrow> time \<Rightarrow> space_auth_token list \<Rightarrow> space_auth_token list" where
  "issue_link i p t0 tokens = save_row sk_id \<lparr>sk_id = i, sk_spaceId = fst p, sk_email = fst (snd p),
     sk_tokenHash = snd (snd p), sk_expiresAt = t0 + TOKEN_TTL_MS, sk_usedAt = None, sk_createdAt = t0\<rparr> tokens"

definition peek_link :: "uuid \<Rightarrow> time \<Rightarrow> space_auth_token list \<Rightarrow> (uuid \<times> string \<times> string) option" where
  "peek_link i now tokens = (case List.find (\<lambda>r. sk_id r = i) tokens of None \<Rightarrow> None
     | Some r \<Rightarrow> if sk_usedAt r = None \<and> now \<le> sk_expiresAt r then Some (sk_spaceId r, sk_email r, sk_tokenHash r) else None)"

definition use_link :: "uuid \<Rightarrow> time \<Rightarrow> space_auth_token list \<Rightarrow> space_auth_token list" where
  "use_link i used tokens = (case List.find (\<lambda>r. sk_id r = i) tokens of None \<Rightarrow> tokens
     | Some r \<Rightarrow> save_row sk_id (r\<lparr>sk_usedAt := Some used\<rparr>) tokens)"

text \<open>A link is still good in the millisecond it expires.\<close>

interpretation links: ticket_store issue_link peek_link use_link "\<lambda>_. True" "TOKEN_TTL_MS + 1"
proof unfold_locales
  show "peek_link t now (issue_link t p t0 s) = (if now < t0 + (TOKEN_TTL_MS + 1) then Some p else None)" for t now p t0 s
    by (simp add: peek_link_def issue_link_def find_save_row)
  show "t \<noteq> u \<Longrightarrow> peek_link t now (issue_link u p t0 s) = peek_link t now s" for t u now p t0 s
    by (simp add: peek_link_def issue_link_def find_save_row)
  show "peek_link t now (use_link t used s) = None" for t now used s
    by (auto simp: peek_link_def use_link_def find_save_row split: option.splits dest: find_Some_iff_mem)
  show "t \<noteq> u \<Longrightarrow> peek_link t now (use_link u used s) = peek_link t now s" for t u now used s
    by (auto simp: peek_link_def use_link_def find_save_row split: option.splits dest: find_Some_iff_mem)
qed

section \<open>Redeeming a link is redeeming a ticket\<close>

definition accepts :: "crypto \<Rightarrow> uuid \<Rightarrow> string \<Rightarrow> uuid \<times> string \<times> string \<Rightarrow> bool" where
  "accepts c spaceId raw p \<longleftrightarrow> fst (token_parts raw) \<noteq> [] \<and> snd (token_parts raw) \<noteq> [] \<and> fst p = spaceId
     \<and> bc_compare c (snd (token_parts raw)) (snd (snd p))"

lemma find_in_space:
  "distinct (map sk_id tokens) \<Longrightarrow> List.find (\<lambda>r. sk_id r = i \<and> sk_spaceId r = sp) tokens =
     (case List.find (\<lambda>r. sk_id r = i) tokens of None \<Rightarrow> None | Some r \<Rightarrow> if sk_spaceId r = sp then Some r else None)"
  by (induction tokens) (auto simp: image_iff split: option.splits dest!: find_Some_iff_mem)

lemma verify_read_peek:
  assumes "distinct (map sk_id tokens)"
  shows "verify_read c now sp raw tokens = Inr row \<longleftrightarrow>
     List.find (\<lambda>r. sk_id r = fst (token_parts raw)) tokens = Some row
     \<and> peek_link (fst (token_parts raw)) now tokens = Some (sk_spaceId row, sk_email row, sk_tokenHash row)
     \<and> accepts c sp raw (sk_spaceId row, sk_email row, sk_tokenHash row)"
  by (cases "token_parts raw")
    (auto simp: verify_read_def find_in_space[OF assms] peek_link_def accepts_def split: option.splits if_splits)

lemma verify_read_refused:
  assumes d: "distinct (map sk_id tokens)" and e: "verify_read c now sp raw tokens = Inl e"
  shows "links.redeem_if (accepts c sp raw) (fst (token_parts raw)) now tokens = (None, tokens)"
proof (cases "peek_link (fst (token_parts raw)) now tokens")
  case (Some p)
  then obtain r where r: "List.find (\<lambda>r. sk_id r = fst (token_parts raw)) tokens = Some r"
      "p = (sk_spaceId r, sk_email r, sk_tokenHash r)"
    by (auto simp: peek_link_def split: option.splits if_splits)
  have "\<not> accepts c sp raw p" using verify_read_peek[OF d, of c now sp raw r] e r Some by auto
  with Some show ?thesis by (simp add: links.redeem_if_def)
qed (simp add: links.redeem_if_def)

lemma verify_link_is_redeem:
  assumes d: "distinct (map sk_id (sa_tokens db))" and s: "findPublishedBySlug slug spaces = Inr s"
    and v: "verify_link c secret i now slug raw spaces db = (res, db')"
  defines "g \<equiv> accepts c (sp_id s) raw" and "t \<equiv> fst (token_parts raw)"
  shows "(is_ok res \<longrightarrow> (\<exists>p. links.redeem_if g t now (sa_tokens db) = (Some p, sa_tokens db')))
    \<and> (\<not> is_ok res \<longrightarrow> links.redeem_if g t now (sa_tokens db) = (None, sa_tokens db) \<and> db' = db)"
proof (cases "verify_read c now (sp_id s) raw (sa_tokens db)")
  case (Inl e)
  with verify_read_refused[OF d Inl] v s show ?thesis by (auto simp: verify_link_def g_def t_def)
next
  case (Inr row)
  with verify_read_peek[OF d, of c now "sp_id s" raw row]
  have r: "List.find (\<lambda>r. sk_id r = t) (sa_tokens db) = Some row"
      "peek_link t now (sa_tokens db) = Some (sk_spaceId row, sk_email row, sk_tokenHash row)"
      "g (sk_spaceId row, sk_email row, sk_tokenHash row)" by (simp_all add: g_def t_def)
  have "is_ok res" "sa_tokens db' = use_link t now (sa_tokens db)"
    using v s Inr r(1) by (auto simp: verify_link_def verify_write_def use_link_def Let_def split: prod.splits)
  with r show ?thesis by (simp add: links.redeem_if_def)
qed

lemma redeem_if_distinct:
  "distinct (map sk_id tokens) \<Longrightarrow> distinct (map sk_id (snd (links.redeem_if g t now tokens)))"
  by (auto simp: links.redeem_if_def use_link_def distinct_save_row split: option.splits)

section \<open>Histories of attempts\<close>

text \<open>An attempt: the new member's id, the time, the slug, the raw token and the spaces at that moment.\<close>

type_synonym attempt = "uuid \<times> time \<times> string \<times> string \<times> space list"

fun verify_all :: "crypto \<Rightarrow> string \<Rightarrow> attempt list \<Rightarrow> space_access \<Rightarrow> (uuid \<times> space_session) list \<times> space_access" where
  "verify_all c secret [] db = ([], db)"
| "verify_all c secret ((i, now, slug, raw, spaces) # rest) db =
    (case verify_link c secret i now slug raw spaces db of
       (Inl e, db') \<Rightarrow> verify_all c secret rest db'
     | (Inr session, db') \<Rightarrow>
        (let (got, db'') = verify_all c secret rest db' in ((fst (token_parts raw), session) # got, db'')))"

definition as_redemption :: "crypto \<Rightarrow> attempt \<Rightarrow> uuid \<times> time \<times> (uuid \<times> string \<times> string \<Rightarrow> bool)" where
  "as_redemption c a = (case a of (i, now, slug, raw, spaces) \<Rightarrow> (fst (token_parts raw), now,
     case findPublishedBySlug slug spaces of Inl e \<Rightarrow> (\<lambda>_. False) | Inr s \<Rightarrow> accepts c (sp_id s) raw))"

lemma verify_all_is_redeem_all:
  "distinct (map sk_id (sa_tokens db)) \<Longrightarrow>
     map fst (fst (verify_all c secret attempts db)) = map fst (fst (links.redeem_all (map (as_redemption c) attempts) (sa_tokens db)))"
proof (induction attempts arbitrary: db)
  case (Cons a rest)
  obtain i now slug raw spaces where a: "a = (i, now, slug, raw, spaces)" by (cases a)
  obtain res db' where v: "verify_link c secret i now slug raw spaces db = (res, db')" by fastforce
  show ?case
  proof (cases "findPublishedBySlug slug spaces")
    case (Inl e)
    have "links.redeem_if (\<lambda>_. False) (fst (token_parts raw)) now (sa_tokens db) = (None, sa_tokens db)"
      by (auto simp: links.redeem_if_def split: option.splits)
    with Inl Cons show ?thesis by (simp add: a as_redemption_def verify_link_def)
  next
    case (Inr s)
    note red = verify_link_is_redeem[OF Cons.prems Inr v]
    show ?thesis
    proof (cases res)
      case (Inl e)
      with red have "links.redeem_if (accepts c (sp_id s) raw) (fst (token_parts raw)) now (sa_tokens db) = (None, sa_tokens db)" "db' = db"
        by simp_all
      with Inl Inr v Cons show ?thesis by (simp add: a as_redemption_def)
    next
      case right: (Inr session)
      with red obtain p where p: "links.redeem_if (accepts c (sp_id s) raw) (fst (token_parts raw)) now (sa_tokens db) = (Some p, sa_tokens db')"
        by auto
      with redeem_if_distinct[OF Cons.prems, of "accepts c (sp_id s) raw" "fst (token_parts raw)" now]
      have "distinct (map sk_id (sa_tokens db'))" by simp
      from Cons.IH[OF this] p right Inr v show ?thesis by (simp add: a as_redemption_def split_beta)
    qed
  qed
qed simp

text \<open>C21: A sign-in link works at most once when its attempts are handled one after the other: in every such history of
  attempts, whatever their spaces, times and tokens, no link is honoured twice.  (Attempts that overlap are not covered: two
  that both read the row before either marks it are both signed in, as \<open>link_redeemed_twice\<close> shows.)\<close>

theorem link_redeems_once:
  assumes "distinct (map sk_id (sa_tokens db))"
  shows "distinct (map fst (fst (verify_all c secret attempts db)))"
  unfolding verify_all_is_redeem_all[OF assms] by (rule links.redeemed_once)

text \<open>A crypto library for the examples: the hash keeps what is hashed, a token shows its claims' subject.\<close>

definition sample_crypto :: crypto where
  "sample_crypto = \<lparr>bc_hash = (\<lambda>rounds salt s. ''$2b$'' @ take 72 s), bc_compare = (\<lambda>s h. h = ''$2b$'' @ take 72 s),
     jwt_sign = (\<lambda>secret claims expiresIn now. JWT_HEADER @ ''.'' @ base64url (stringify
        (case claims of JObj ps \<Rightarrow> JObj (ps @ [(''iat'', JNum (Fin (of_int now))), (''exp'', JNum (Fin (of_int now)))]) | v \<Rightarrow> v))
        @ ''.'' @ str_of (get_prop claims ''sub'')),
     jwt_verify = (\<lambda>secret now token. Some (JObj [(''sub'', JStr (drop (length token - 36) token))]))\<rparr>"

lemma sample_bcrypt: "bcrypt_law sample_crypto"
  by (auto simp: bcrypt_law_def sample_crypto_def)

definition sample_token :: space_auth_token where
  "sample_token = \<lparr>sk_id = ''t1'', sk_spaceId = ''s1'', sk_email = ''a@b.c'', sk_tokenHash = ''$2b$xyz'', sk_expiresAt = 1000,
     sk_usedAt = None, sk_createdAt = 0\<rparr>"

definition sample_attempts :: "attempt list" where
  "sample_attempts = [(''u1'', 5, ''s1'', ''t1.xyz'', [sample_space ''s1'']), (''u2'', 6, ''s1'', ''t1.xyz'', [sample_space ''s1''])]"

lemma link_redeems_once_witness:
  "map fst (fst (verify_all sample_crypto ''k'' sample_attempts \<lparr>sa_tokens = [sample_token], sa_users = []\<rparr>)) = [''t1'']
   \<and> distinct (map fst (fst (verify_all sample_crypto ''k'' sample_attempts \<lparr>sa_tokens = [sample_token], sa_users = []\<rparr>)))"
proof
  show "distinct (map fst (fst (verify_all sample_crypto ''k'' sample_attempts \<lparr>sa_tokens = [sample_token], sa_users = []\<rparr>)))"
    by (rule link_redeems_once) simp
  show "map fst (fst (verify_all sample_crypto ''k'' sample_attempts \<lparr>sa_tokens = [sample_token], sa_users = []\<rparr>)) = [''t1'']"
    by (simp add: sample_attempts_def verify_link_def findPublishedBySlug_def sample_space_def verify_read_def token_parts_def
        sample_token_def sample_crypto_def verify_write_def upsertMember_def save_row_def Let_def split_beta)
qed

section \<open>What overlapping attempts do\<close>

text \<open>
  The row is read before it is marked: two attempts that both read it before either marks it are
  both signed in.
\<close>

lemma link_redeemed_twice:
  "let db = \<lparr>sa_tokens = [sample_token], sa_users = []\<rparr> in
     verify_read sample_crypto 5 ''s1'' ''t1.xyz'' (sa_tokens db) = Inr sample_token
   \<and> (let (first, db1) = verify_write sample_crypto ''k'' ''u1'' 5 ''s1'' sample_token db;
          (second, db2) = verify_write sample_crypto ''k'' ''u2'' 6 ''s1'' sample_token db1
      in ss_userId first = ''u1'' \<and> ss_userId second = ''u1'' \<and> ss_email second = ''a@b.c'')"
  by (simp add: Let_def verify_read_def token_parts_def sample_token_def sample_crypto_def verify_write_def upsertMember_def
      save_row_def issueSession_def split_beta)

section \<open>From the request to the sign-in\<close>

lemma split_on_dot: "CHR ''.'' \<notin> set i \<Longrightarrow> CHR ''.'' \<notin> set s \<Longrightarrow> split_on (CHR ''.'') (i @ ''.'' @ s) = [i, s]"
  by (simp add: split_on_append split_on_none)

text \<open>A link that was made for an address works in its space until thirty minutes have passed, and signs in that
  address.\<close>

theorem link_round_trip:
  assumes "bcrypt_law c" and "findPublishedBySlug slug spaces = Inr s"
    and "admitted s (to_lower (js_trim email)) (findTeammate lookup ws (sp_workspaceId s) (to_lower (js_trim email))) (sa_users db)"
    and "findTeammate lookup ws (sp_workspaceId s) (to_lower (js_trim email)) \<noteq> None \<or> isDev"
    and "distinct (map sk_id (sa_tokens db))" and "i \<noteq> []" and "CHR ''.'' \<notin> set i" and "key \<noteq> []" and "CHR ''.'' \<notin> set key"
  shows "case requestLink c isDev url lookup ws i key salt t0 slug email spaces db of (_, _, db') \<Rightarrow>
    (case fst (verify_link c secret u now slug (i @ ''.'' @ key) spaces db') of
       Inl e \<Rightarrow> t0 + 30 * 60 * 1000 < now
     | Inr session \<Rightarrow> now \<le> t0 + 30 * 60 * 1000 \<and> ss_email session = to_lower (js_trim email))"
proof -
  let ?e = "to_lower (js_trim email)"
  define row where "row = \<lparr>sk_id = i, sk_spaceId = sp_id s, sk_email = ?e, sk_tokenHash = bc_hash c TOKEN_SALT_ROUNDS salt key,
     sk_expiresAt = t0 + TOKEN_TTL_MS, sk_usedAt = None, sk_createdAt = t0\<rparr>"
  define db' where "db' = db\<lparr>sa_tokens := save_row sk_id row (sa_tokens db)\<rparr>"
  have r: "snd (snd (requestLink c isDev url lookup ws i key salt t0 slug email spaces db)) = db'"
    using assms(2-4) by (auto simp: requestLink_def Let_def db'_def row_def)
  have d: "distinct (map sk_id (sa_tokens db'))" using assms(5) by (simp add: db'_def distinct_save_row)
  have p: "token_parts (i @ ''.'' @ key) = (i, key)" using assms(7,9) split_on_dot[of i key] by (simp add: token_parts_def)
  have f: "List.find (\<lambda>r. sk_id r = i) (sa_tokens db') = Some row" by (simp add: db'_def find_save_row) (simp add: row_def)
  have b: "bc_compare c key (sk_tokenHash row)" using assms(1) by (simp add: bcrypt_law_def row_def)
  have v: "verify_read c now (sp_id s) (i @ ''.'' @ key) (sa_tokens db') = (if now \<le> t0 + TOKEN_TTL_MS then Inr row
      else Inl (Unauthorized ''Invalid or expired token''))"
    unfolding verify_read_def p find_in_space[OF d] using f b assms(6,8) by (simp add: row_def)
  have e: "su_email (fst (upsertMember u now (sp_id s) ?e None users)) = ?e" for users
    by (auto simp: upsertMember_def Let_def split: option.splits dest!: find_Some_iff_mem)
  have "fst (verify_link c secret u now slug (i @ ''.'' @ key) spaces db') = (if now \<le> t0 + TOKEN_TTL_MS
      then Inr (fst (verify_write c secret u now (sp_id s) row db')) else Inl (Unauthorized ''Invalid or expired token''))"
    unfolding verify_link_def assms(2) sum.case v by (simp add: split_beta)
  moreover have "ss_email (fst (verify_write c secret u now (sp_id s) row db')) = ?e"
    using e by (simp add: verify_write_def issueSession_def split_beta row_def)
  ultimately show ?thesis using r by (simp add: split_beta TOKEN_TTL_MS_def)
qed

definition sample_member :: space_user where
  "sample_member = \<lparr>su_id = ''m1'', su_spaceId = ''s1'', su_email = ''a@b.c'', su_name = None, su_role = SPACE_MEMBER,
     su_lastLoginAt = None, su_createdAt = 0\<rparr>"

lemma link_round_trip_witness:
  "case requestLink sample_crypto True ''https://gaspo'' (\<lambda>_ _. None) [] ''t1'' ''xyz'' ''n'' 0 ''s1'' '' A@b.c'' [sample_space ''s1'']
      \<lparr>sa_tokens = [], sa_users = [sample_member]\<rparr> of (_, _, db') \<Rightarrow>
     (case fst (verify_link sample_crypto ''k'' ''u1'' 7 ''s1'' (''t1'' @ ''.'' @ ''xyz'') [sample_space ''s1''] db') of
        Inl e \<Rightarrow> 0 + 30 * 60 * 1000 < (7 :: time)
      | Inr session \<Rightarrow> (7 :: time) \<le> 0 + 30 * 60 * 1000 \<and> ss_email session = to_lower (js_trim '' A@b.c''))"
proof -
  have f: "findPublishedBySlug ''s1'' [sample_space ''s1''] = Inr (sample_space ''s1'')"
    by (simp add: findPublishedBySlug_def sample_space_def)
  have "to_lower (js_trim '' A@b.c'') = ''a@b.c''" by code_simp
  then have a: "admitted (sample_space ''s1'') (to_lower (js_trim '' A@b.c'')) t [sample_member]" for t
    by (simp add: admitted_def sample_member_def sample_space_def)
  show ?thesis
    by (rule link_round_trip[OF sample_bcrypt f]) (simp_all add: a)
qed

section \<open>What the form tells\<close>

text \<open>In production the link form is no oracle: for any two addresses it answers the same, whoever is on the team and
  whoever signed in before, and its answer never holds a link.\<close>

theorem link_request_reveals_nothing:
  "fst (requestLink c False url lookup ws i key salt now slug email spaces db)
     = fst (requestLink c False url lookup' ws' i' key' salt' now' slug email' spaces db')
   \<and> (\<forall>r. fst (requestLink c False url lookup ws i key salt now slug email spaces db) = Inr r \<longrightarrow> lr_devLink r = None)"
  by (auto simp: requestLink_def Let_def split: sum.splits)

lemma link_request_reveals_nothing_witness:
  "fst (requestLink sample_crypto False ''https://gaspo'' (\<lambda>_ _. None) [] ''t1'' ''xyz'' ''n'' 0 ''s1'' ''a@b.c'' [sample_space ''s1'']
      \<lparr>sa_tokens = [], sa_users = [sample_member]\<rparr>)
   = fst (requestLink sample_crypto False ''https://gaspo'' (\<lambda>_ _. None) [] ''t1'' ''xyz'' ''n'' 0 ''s1'' ''x@y.z'' [sample_space ''s1'']
      \<lparr>sa_tokens = [], sa_users = [sample_member]\<rparr>)"
  using link_request_reveals_nothing by blast

section \<open>Trust domains\<close>

lemma space_guard_claims:
  "space_guard c secret now (Some (''Bearer '' @ token)) slug spaces = Inr (s, person) \<Longrightarrow>
     \<exists>p. jwt_verify c secret now token = Some p \<and> get_prop p ''scope'' = JStr ''space'' \<and> get_prop p ''spaceId'' = JStr (sp_id s)"
  by (auto simp: space_guard_def verifySession_def split: sum.splits option.splits if_splits)

text \<open>Sessions are kept apart although one secret signs them all: a token the guard of the spaces lets through is
  refused by the guard of the workspaces, and it opens one space only.\<close>

theorem trust_domains_disjoint:
  assumes "space_guard c secret now (Some (''Bearer '' @ token)) slug spaces = Inr (s, person)"
  shows "\<not> is_ok (jwt_guard c secret now False (Some token))
    \<and> (\<forall>slug' spaces' s' person'. space_guard c secret now (Some (''Bearer '' @ token)) slug' spaces' = Inr (s', person')
         \<longrightarrow> sp_id s' = sp_id s)"
proof -
  obtain p where p: "jwt_verify c secret now token = Some p" "get_prop p ''scope'' = JStr ''space''" "get_prop p ''spaceId'' = JStr (sp_id s)"
    using space_guard_claims[OF assms] by blast
  then have "\<not> is_ok (jwt_guard c secret now False (Some token))" by (simp add: jwt_guard_def jwt_validate_def)
  moreover have "sp_id s' = sp_id s" if "space_guard c secret now (Some (''Bearer '' @ token)) slug' spaces' = Inr (s', person')"
    for slug' spaces' s' person' using space_guard_claims[OF that] p by auto
  ultimately show ?thesis by blast
qed

definition space_crypto :: crypto where
  "space_crypto = sample_crypto\<lparr>jwt_verify := (\<lambda>secret now token. Some (space_claims token sample_member))\<rparr>"

lemma trust_domains_disjoint_witness:
  "is_ok (space_guard space_crypto ''k'' 0 (Some (''Bearer '' @ ''s1'')) ''s1'' [sample_space ''s1''])
   \<and> \<not> is_ok (jwt_guard space_crypto ''k'' 0 False (Some ''s1''))"
proof -
  have g: "space_guard space_crypto ''k'' 0 (Some (''Bearer '' @ ''s1'')) ''s1'' [sample_space ''s1'']
      = Inr (sample_space ''s1'', \<lparr>as_spaceUserId = JStr ''m1'', as_spaceId = JStr ''s1'', as_email = JStr ''a@b.c''\<rparr>)"
    by (simp add: space_guard_def starts_with_def verifySession_def space_crypto_def space_claims_def findPublishedBySlug_def
        sample_space_def sample_member_def)
  from trust_domains_disjoint[OF g] g show ?thesis by simp
qed

end
