(* ===== verification/SessionFacts.thy ===== *)
theory SessionFacts
  imports Sessions SpacesAuthFacts
begin

text \<open>
  What the guards and the tokens of \<open>Sessions\<close> guarantee: how many requests the rate limiter lets
  through, which refresh tokens are accepted, where a member can switch to, and who is the owner.
\<close>

section \<open>Rate limits\<close>

text \<open>A history of requests to one route, with what became of each: its key and whether it passed.\<close>

fun limiter_run :: "rate_options \<Rightarrow> string \<Rightarrow> (redis_health \<times> time \<times> http_request) list \<Rightarrow> counters \<Rightarrow> (string \<times> bool) list" where
  "limiter_run opts route [] s = []"
| "limiter_run opts route ((health, now, r) # rest) s = (case rate_limit_guard health (Some opts) route now r s of
     (res, s') \<Rightarrow> (rate_key route r, is_ok res) # limiter_run opts route rest s')"

definition passes_of :: "string \<Rightarrow> (string \<times> bool) list \<Rightarrow> bool list" where
  "passes_of k outcomes = map snd (filter (\<lambda>p. fst p = k) outcomes)"

definition requests_of :: "string \<Rightarrow> string \<Rightarrow> (redis_health \<times> time \<times> http_request) list \<Rightarrow> (redis_health \<times> time \<times> http_request) list" where
  "requests_of route k rs = filter (\<lambda>(_, _, r). rate_key route r = k) rs"

lemma limiter_other_key: "rate_key route r \<noteq> k \<Longrightarrow> snd (rate_limit_guard health (Some opts) route now r s) k = s k"
  by (auto simp: rate_limit_guard_def incr_def expire_def Let_def split: option.splits)

lemma limiter_open_window:
  assumes "s k = Some (n, e)" and "0 < n" and "\<forall>t. e = Some t \<longrightarrow> now < t" and "rate_key route r = k"
  shows "is_ok (fst (rate_limit_guard Answering (Some opts) route now r s)) \<longleftrightarrow> n < rl_limit opts"
    and "snd (rate_limit_guard Answering (Some opts) route now r s) k = Some (n + 1, e)"
proof -
  have "counter_value k now s = n" using assms(1,3) by (simp add: counter_value_def split: option.split)
  with assms(1,2) have "incr k now s = (n + 1, s(k \<mapsto> (n + 1, e)))" by (simp add: incr_def Let_def)
  with assms(2,4) show "is_ok (fst (rate_limit_guard Answering (Some opts) route now r s)) \<longleftrightarrow> n < rl_limit opts"
    and "snd (rate_limit_guard Answering (Some opts) route now r s) k = Some (n + 1, e)"
    by (auto simp: rate_limit_guard_def Let_def)
qed

lemma limiter_run_window:
  "s k = Some (n, e) \<Longrightarrow> 0 < n \<Longrightarrow>
     \<forall>(health, now, r) \<in> set (requests_of route k rs). health = Answering \<and> (\<forall>t. e = Some t \<longrightarrow> now < t) \<Longrightarrow>
     passes_of k (limiter_run opts route rs s) = map (\<lambda>i. n + i < rl_limit opts) [0..<length (requests_of route k rs)]"
proof (induction rs arbitrary: s n)
  case (Cons a rs)
  obtain health now r where a: "a = (health, now, r)" by (cases a)
  obtain res s' where g: "rate_limit_guard health (Some opts) route now r s = (res, s')" by fastforce
  show ?case
  proof (cases "rate_key route r = k")
    case True
    with Cons.prems(3) a have h: "health = Answering" "\<forall>t. e = Some t \<longrightarrow> now < t" by (simp_all add: requests_of_def)
    with limiter_open_window[of s k n e now route r opts, OF Cons.prems(1,2) h(2) True] g
    have step: "is_ok res \<longleftrightarrow> n < rl_limit opts" "s' k = Some (n + 1, e)" by simp_all
    have "passes_of k (limiter_run opts route rs s') = map (\<lambda>i. n + 1 + i < rl_limit opts) [0..<length (requests_of route k rs)]"
      by (rule Cons.IH[of s' "n + 1", OF step(2)]) (use Cons.prems(3) in \<open>auto simp: requests_of_def\<close>)
    then show ?thesis using a g step True
      by (simp add: passes_of_def requests_of_def upt_conv_Cons map_Suc_upt[symmetric] del: upt_Suc)
  next
    case False
    with limiter_other_key[OF this, of health opts now s] g Cons.prems(1) have "s' k = Some (n, e)" by simp
    from Cons.IH[of s' n, OF this Cons.prems(2)] Cons.prems(3) a g False show ?thesis by (simp add: passes_of_def requests_of_def)
  qed
qed (simp add: passes_of_def requests_of_def)

lemma limiter_first:
  assumes "counter_value k now s = 0" and "rate_key route r = k" and "rate_limit_guard health (Some opts) route now r s = (res, s')"
  shows "health = Answering \<Longrightarrow> is_ok res = (0 < rl_limit opts) \<and> s' k = Some (1, Some (now + rl_windowSeconds opts * 1000))"
    and "health = LostAfterIncr \<Longrightarrow> is_ok res \<and> s' k = Some (1, None)"
  using assms by (auto simp: rate_limit_guard_def incr_def expire_def Let_def split: if_splits)

text \<open>C22: While Redis answers, the limiter is exact: of the requests one caller makes to a route within a window, the
  first \<open>limit\<close> pass and the others are refused, whatever other callers do in between.\<close>

theorem rate_limit_is_exact:
  assumes "rate_key route r0 = k" and "counter_value k t0 s = 0"
    and "\<forall>(health, now, r) \<in> set (requests_of route k rs). health = Answering \<and> now < t0 + rl_windowSeconds opts * 1000"
  shows "passes_of k (limiter_run opts route ((Answering, t0, r0) # rs) s)
       = map (\<lambda>i. i < rl_limit opts) [0..<1 + length (requests_of route k rs)]"
proof -
  obtain res s' where g: "rate_limit_guard Answering (Some opts) route t0 r0 s = (res, s')" by fastforce
  from limiter_first(1)[OF assms(2,1) g refl]
  have step: "is_ok res = (0 < rl_limit opts)" "s' k = Some (1, Some (t0 + rl_windowSeconds opts * 1000))" by simp_all
  have "passes_of k (limiter_run opts route rs s') = map (\<lambda>i. 1 + i < rl_limit opts) [0..<length (requests_of route k rs)]"
    by (rule limiter_run_window[of s', OF step(2)]) (use assms(3) in auto)
  with g step(1) assms(1) show ?thesis
    by (simp add: passes_of_def upt_conv_Cons map_Suc_upt[symmetric] del: upt_Suc)
qed

text \<open>The limiter does not fail open: when Redis is lost between the increment and the expiry that the first request of
  a window sets, the counter never expires, and once the limit is spent that caller is refused for good.\<close>

theorem missed_expiry_locks_out:
  assumes "rate_key route r0 = k" and "counter_value k t0 s = 0"
    and "\<forall>(health, now, r) \<in> set (requests_of route k rs). health = Answering"
  shows "passes_of k (limiter_run opts route ((LostAfterIncr, t0, r0) # rs) s)
       = True # map (\<lambda>i. i + 1 < rl_limit opts) [0..<length (requests_of route k rs)]"
proof -
  obtain res s' where g: "rate_limit_guard LostAfterIncr (Some opts) route t0 r0 s = (res, s')" by fastforce
  from limiter_first(2)[OF assms(2,1) g refl] have step: "is_ok res" "s' k = Some (1, None)" by simp_all
  have "passes_of k (limiter_run opts route rs s') = map (\<lambda>i. 1 + i < rl_limit opts) [0..<length (requests_of route k rs)]"
    by (rule limiter_run_window[of s', OF step(2)]) (use assms(3) in auto)
  with g step(1) assms(1) show ?thesis by (simp add: passes_of_def)
qed

definition visitor :: "string \<Rightarrow> http_request" where
  "visitor hop = \<lparr>rq_userId = None, rq_forwarded = OneHeader hop, rq_ip = Some ''10.0.0.1''\<rparr>"

definition link_limit :: rate_options where
  "link_limit = \<lparr>rl_limit = 2, rl_windowSeconds = 900\<rparr>"

lemma visitor_key: "rate_key ''C.m'' (visitor ''1.2.3.4'') = ''ratelimit:C.m:ip:1.2.3.4''"
  by code_simp

lemma rate_limit_is_exact_witness:
  "passes_of ''ratelimit:C.m:ip:1.2.3.4'' (limiter_run link_limit ''C.m'' ((Answering, 0, visitor ''1.2.3.4'') #
      [(Answering, 5, visitor ''1.2.3.4''), (Answering, 6, visitor ''1.2.3.4'')]) (\<lambda>_. None)) = [True, True, False]"
proof -
  have n: "length (requests_of ''C.m'' ''ratelimit:C.m:ip:1.2.3.4'' [(Answering, 5, visitor ''1.2.3.4''), (Answering, 6, visitor ''1.2.3.4'')]) = 2"
    by (simp only: requests_of_def prod.case filter.simps visitor_key if_True list.size) simp
  have "passes_of ''ratelimit:C.m:ip:1.2.3.4'' (limiter_run link_limit ''C.m'' ((Answering, 0, visitor ''1.2.3.4'') #
      [(Answering, 5, visitor ''1.2.3.4''), (Answering, 6, visitor ''1.2.3.4'')]) (\<lambda>_. None))
    = map (\<lambda>i. i < rl_limit link_limit) [0..<1 + length (requests_of ''C.m'' ''ratelimit:C.m:ip:1.2.3.4''
        [(Answering, 5, visitor ''1.2.3.4''), (Answering, 6, visitor ''1.2.3.4'')])]"
    by (rule rate_limit_is_exact[OF visitor_key]) (auto simp: counter_value_def requests_of_def link_limit_def)
  also have "\<dots> = [True, True, False]" unfolding n by code_simp
  finally show ?thesis .
qed

lemma missed_expiry_locks_out_witness:
  "passes_of ''ratelimit:C.m:ip:1.2.3.4'' (limiter_run link_limit ''C.m'' ((LostAfterIncr, 0, visitor ''1.2.3.4'') #
      [(Answering, 10 ^ 12, visitor ''1.2.3.4''), (Answering, 10 ^ 15, visitor ''1.2.3.4'')]) (\<lambda>_. None)) = [True, True, False]"
proof -
  have n: "length (requests_of ''C.m'' ''ratelimit:C.m:ip:1.2.3.4'' [(Answering, 10 ^ 12, visitor ''1.2.3.4''), (Answering, 10 ^ 15, visitor ''1.2.3.4'')]) = 2"
    by (simp only: requests_of_def prod.case filter.simps visitor_key if_True list.size) simp
  have "passes_of ''ratelimit:C.m:ip:1.2.3.4'' (limiter_run link_limit ''C.m'' ((LostAfterIncr, 0, visitor ''1.2.3.4'') #
      [(Answering, 10 ^ 12, visitor ''1.2.3.4''), (Answering, 10 ^ 15, visitor ''1.2.3.4'')]) (\<lambda>_. None))
    = True # map (\<lambda>i. i + 1 < rl_limit link_limit) [0..<length (requests_of ''C.m'' ''ratelimit:C.m:ip:1.2.3.4''
        [(Answering, 10 ^ 12, visitor ''1.2.3.4''), (Answering, 10 ^ 15, visitor ''1.2.3.4'')])]"
    by (rule missed_expiry_locks_out[OF visitor_key]) (auto simp: counter_value_def requests_of_def)
  also have "\<dots> = [True, True, False]" unfolding n by code_simp
  finally show ?thesis .
qed

text \<open>
  The first hop is what the client itself wrote, for every proxy appends: with another address in
  the header, the same client has another counter.
\<close>

lemma forged_hop_has_its_own_counter:
  "rq_userId r = None \<Longrightarrow> first_hop h \<noteq> [] \<Longrightarrow> first_hop h' \<noteq> [] \<Longrightarrow> first_hop h \<noteq> first_hop h' \<Longrightarrow>
     rate_key route (r\<lparr>rq_forwarded := h\<rparr>) \<noteq> rate_key route (r\<lparr>rq_forwarded := h'\<rparr>)"
  by (simp add: rate_key_def callerId_def)

section \<open>Refresh tokens\<close>

lemma find_after_hash:
  "findById (setRefreshTokenHash i h us) j =
     map_option (\<lambda>u. if u_id u = i then u\<lparr>u_refreshTokenHash := h\<rparr> else u) (findById us j)"
  unfolding findById_def setRefreshTokenHash_def by (induction us) auto

lemma find_after_other_hash: "i \<noteq> j \<Longrightarrow> findById (setRefreshTokenHash i h us) j = findById us j"
  unfolding findById_def setRefreshTokenHash_def by (induction us) auto

lemma session_claims_sub: "\<exists>ps. session_claims u = JObj ((''sub'', JStr (u_id u)) # ps)"
  by (simp add: session_claims_def)

lemma refresh_tokens_look_alike:
  assumes "jwt_format c secret" and "is_uuid (u_id u)" and "u_id v = u_id u"
  shows "take 72 (jwt_sign c secret (session_claims u) e t) = take 72 (jwt_sign c secret (session_claims v) e' t')"
  using assms token_prefix[OF assms(1,2)] session_claims_sub[of u] session_claims_sub[of v] by metis

lemma any_refresh_token_passes:
  assumes b: "bcrypt_law c" and f: "jwt_format c (jc_refreshSecret cfg)" and i: "is_uuid (u_id u)"
    and row: "findById us (u_id u) = Some v" "u_isActive v" "u_workspaceId v \<noteq> []"
    and h: "u_refreshTokenHash v = Some (bc_hash c rounds salt0 (jwt_sign c (jc_refreshSecret cfg) (session_claims w) e t0))" "u_id w = u_id u"
    and p: "jwt_verify c (jc_refreshSecret cfg) now token = Some p" "get_prop p ''sub'' = JStr (u_id u)"
    and t: "token = jwt_sign c (jc_refreshSecret cfg) (session_claims u) e' t'"
  shows "is_ok (fst (refresh c cfg salt now token us))"
proof -
  obtain ch hs where hs: "u_refreshTokenHash v = Some (ch # hs)"
    using b h(1) by (cases "bc_hash c rounds salt0 (jwt_sign c (jc_refreshSecret cfg) (session_claims w) e t0)") (auto simp: bcrypt_law_def)
  have "bc_compare c token (ch # hs)"
    using b h hs refresh_tokens_look_alike[OF f i h(2)] unfolding bcrypt_law_def t by (metis option.inject)
  with row p hs show ?thesis by (simp add: refresh_def issueTokens_def Let_def)
qed

text \<open>A history of refresh requests, made by whoever, with whatever tokens and whenever.\<close>

definition rotations :: "crypto \<Rightarrow> jwt_config \<Rightarrow> (string \<times> time \<times> string) list \<Rightarrow> user list \<Rightarrow> user list" where
  "rotations c cfg requests us = fold (\<lambda>(salt, now, token) us. snd (refresh c cfg salt now token us)) requests us"

text \<open>The member's row is as it was but for the hash, which is of some refresh token of that member.\<close>

definition holds_own_hash :: "crypto \<Rightarrow> jwt_config \<Rightarrow> user \<Rightarrow> user list \<Rightarrow> bool" where
  "holds_own_hash c cfg u us \<longleftrightarrow> (\<exists>salt w e t. u_id w = u_id u \<and> findById us (u_id u) = Some (u\<lparr>u_refreshTokenHash :=
     Some (bc_hash c REFRESH_TOKEN_SALT_ROUNDS salt (jwt_sign c (jc_refreshSecret cfg) (session_claims w) e t))\<rparr>))"

lemma issue_holds:
  assumes "issueTokens c cfg salt now v us = (Inr ts, us')" and "u_id v = u_id u"
    and "findById us (u_id u) = Some (u\<lparr>u_refreshTokenHash := h\<rparr>)"
  shows "holds_own_hash c cfg u us'"
proof -
  from assms(1) have us': "us' = setRefreshTokenHash (u_id v) (Some (bc_hash c REFRESH_TOKEN_SALT_ROUNDS salt
      (jwt_sign c (jc_refreshSecret cfg) (session_claims v) (jc_refreshExpiresIn cfg) now))) us"
    by (auto simp: issueTokens_def Let_def split: if_splits)
  show ?thesis unfolding holds_own_hash_def us'
    by (rule exI[of _ salt], rule exI[of _ v], rule exI[of _ "jc_refreshExpiresIn cfg"], rule exI[of _ now])
       (use assms(2,3) in \<open>simp add: find_after_hash\<close>)
qed

lemma refresh_holds: "holds_own_hash c cfg u us \<Longrightarrow> holds_own_hash c cfg u (snd (refresh c cfg salt now token us))"
proof -
  assume h: "holds_own_hash c cfg u us"
  show ?thesis
  proof (cases "snd (refresh c cfg salt now token us) = us")
    case False
    then obtain q v where v: "findById us (str_of (get_prop q ''sub'')) = Some v"
        "refresh c cfg salt now token us = issueTokens c cfg salt now v us"
      unfolding refresh_def by (auto split: option.splits list.splits if_splits)
    with False obtain ts us' where i: "issueTokens c cfg salt now v us = (Inr ts, us')"
      by (auto simp: issueTokens_def Let_def split: if_splits)
    from h obtain x where x: "findById us (u_id u) = Some (u\<lparr>u_refreshTokenHash := x\<rparr>)"
      unfolding holds_own_hash_def by blast
    show ?thesis
    proof (cases "u_id v = u_id u")
      case True
      from issue_holds[OF i True x] show ?thesis by (simp add: v(2) i)
    next
      case False
      with i have "findById us' (u_id u) = findById us (u_id u)"
        by (auto simp: issueTokens_def Let_def find_after_other_hash split: if_splits)
      with h show ?thesis by (simp add: v(2) i holds_own_hash_def)
    qed
  qed (use h in simp)
qed

lemma rotations_hold: "holds_own_hash c cfg u us \<Longrightarrow> holds_own_hash c cfg u (rotations c cfg requests us)"
  unfolding rotations_def by (induction requests arbitrary: us) (auto simp: refresh_holds)

text \<open>C23: Rotating refresh tokens does not retire the old ones: only the first 72 bytes of a token are hashed, and those
  hold the header and part of the member's id, so the token an active member signed in with keeps minting new
  pairs for its whole lifetime, whatever refresh requests (this member's rotations, with the old token or with any newer one,
  and everybody else's) were made meanwhile.\<close>

theorem rotated_token_still_refreshes:
  assumes "bcrypt_law c" and "jwt_format c (jc_refreshSecret cfg)"
    and "jwt_reads_back c (jc_refreshSecret cfg) (session_claims u) (jc_refreshExpiresIn cfg) life"
    and "is_uuid (u_id u)" and "findById us (u_id u) = Some u" and "u_isActive u"
    and "issueTokens c cfg salt1 t1 u us = (Inr first, us1)"
    and "t1 \<le> t3" and "t3 < t1 + life"
  shows "is_ok (fst (refresh c cfg salt3 t3 (at_refreshToken first) (rotations c cfg requests us1)))"
proof -
  let ?sec = "jc_refreshSecret cfg" and ?tok = "\<lambda>t. jwt_sign c (jc_refreshSecret cfg) (session_claims u) (jc_refreshExpiresIn cfg) t"
  from assms(7) have first: "at_refreshToken first = ?tok t1" and w: "u_workspaceId u \<noteq> []"
    by (auto simp: issueTokens_def Let_def split: if_splits)
  obtain p where p: "jwt_verify c ?sec t3 (?tok t1) = Some p" "get_prop p ''sub'' = JStr (u_id u)"
  proof -
    obtain p where p: "jwt_verify c ?sec t3 (?tok t1) = Some p"
        "\<forall>k. k \<noteq> ''iat'' \<and> k \<noteq> ''exp'' \<longrightarrow> get_prop p k = get_prop (session_claims u) k"
      using assms(3,8,9) unfolding jwt_reads_back_def by blast
    then have "get_prop p ''sub'' = get_prop (session_claims u) ''sub''" by simp
    with p(1) show thesis by (intro that) (simp_all add: session_claims_def)
  qed
  have "findById us (u_id u) = Some (u\<lparr>u_refreshTokenHash := u_refreshTokenHash u\<rparr>)" using assms(5) by simp
  from rotations_hold[OF issue_holds[OF assms(7) refl this], of requests] obtain salt v e t where
    r: "u_id v = u_id u" "findById (rotations c cfg requests us1) (u_id u) = Some (u\<lparr>u_refreshTokenHash :=
        Some (bc_hash c REFRESH_TOKEN_SALT_ROUNDS salt (jwt_sign c ?sec (session_claims v) e t))\<rparr>)"
    unfolding holds_own_hash_def by blast
  show ?thesis unfolding first
    by (rule any_refresh_token_passes[OF assms(1,2,4) r(2) _ _ _ r(1) p refl]) (use assms(6) w in simp_all)
qed

definition staff :: user where
  "staff = (sample_user ''3f2b8c1e-7d4a-4b6f-9c0d-5e8a1b2c3d4f'' ''w1'' ADMIN True)\<lparr>u_workspaceId := ''w1''\<rparr>"

definition staff_crypto :: crypto where
  "staff_crypto = sample_crypto\<lparr>jwt_verify := (\<lambda>secret now token. Some (session_claims staff))\<rparr>"

definition staff_config :: jwt_config where
  "staff_config = \<lparr>jc_secret = ''k'', jc_expiresIn = ''15m'', jc_refreshSecret = ''r'', jc_refreshExpiresIn = ''7d''\<rparr>"

lemma staff_sign: "jwt_sign staff_crypto secret (JObj ps) e now = JWT_HEADER @ ''.''
    @ base64url (stringify (JObj (ps @ [(''iat'', JNum (Fin (of_int now))), (''exp'', JNum (Fin (of_int now)))])))
    @ ''.'' @ str_of (get_prop (JObj ps) ''sub'')"
  unfolding staff_crypto_def sample_crypto_def by simp

lemma staff_laws: "bcrypt_law staff_crypto" "jwt_format staff_crypto secret"
  "jwt_reads_back staff_crypto secret (session_claims staff) e life"
proof -
  show "jwt_format staff_crypto secret" unfolding jwt_format_def staff_sign by blast
qed (auto simp add: bcrypt_law_def staff_crypto_def sample_crypto_def jwt_reads_back_def)

lemma staff_id: "u_id staff = ''3f2b8c1e-7d4a-4b6f-9c0d-5e8a1b2c3d4f''" "u_isActive staff" "u_workspaceId staff = ''w1''"
  by (simp_all add: staff_def sample_user_def)

lemma staff_uuid: "is_uuid (u_id staff)"
  unfolding staff_id by code_simp

lemma staff_found: "findById [staff] (u_id staff) = Some staff"
  by (simp add: findById_def)

lemma rotated_token_still_refreshes_witness:
  "\<exists>first us1. issueTokens staff_crypto staff_config ''a'' 0 staff [staff] = (Inr first, us1)
     \<and> is_ok (fst (refresh staff_crypto staff_config ''b'' 10 (at_refreshToken first) us1))
     \<and> is_ok (fst (refresh staff_crypto staff_config ''c'' 20 (at_refreshToken first)
          (rotations staff_crypto staff_config [(''b'', 10, at_refreshToken first), (''d'', 15, at_refreshToken first)] us1)))"
proof -
  obtain first us1 where i: "issueTokens staff_crypto staff_config ''a'' 0 staff [staff] = (Inr first, us1)"
    by (simp add: issueTokens_def Let_def staff_id(3))
  note again = rotated_token_still_refreshes[OF staff_laws(1) staff_laws(2) staff_laws(3) staff_uuid staff_found staff_id(2) i,
      where life = 100]
  from again[of 10 _ "[]"] have "is_ok (fst (refresh staff_crypto staff_config ''b'' 10 (at_refreshToken first) us1))"
    by (simp add: rotations_def)
  moreover from again[of 20 ] have "is_ok (fst (refresh staff_crypto staff_config ''c'' 20 (at_refreshToken first)
      (rotations staff_crypto staff_config [(''b'', 10, at_refreshToken first), (''d'', 15, at_refreshToken first)] us1)))"
    by simp
  ultimately show ?thesis using i by blast
qed

section \<open>Switching workspaces and the owner's panel\<close>

text \<open>Switching workspaces hands out tokens of one member only: an active one of the workspace asked for, with the
  caller's Slack id or the caller's e-mail address; nobody else's row changes.\<close>

theorem switch_reaches_same_person:
  assumes "switchWorkspace c cfg salt now userId ws us = (Inr tokens, us')"
  shows "\<exists>u m. findById us userId = Some u \<and> m \<in> set us \<and> u_workspaceId m = ws \<and> u_isActive m
     \<and> (u_slackUserId m = u_slackUserId u \<or> (u_email m = u_email u \<and> u_email m \<notin> {None, Some []}))
     \<and> at_accessToken tokens = jwt_sign c (jc_secret cfg) (session_claims m) (jc_expiresIn cfg) now
     \<and> (\<forall>x \<in> set us. u_id x \<noteq> u_id m \<longrightarrow> x \<in> set us')"
proof -
  from assms obtain u m where u: "findByIdOrFail us userId = Inr u"
      and m: "List.find (\<lambda>m. u_workspaceId m = ws) (sort_key u_createdAt (findMembershipsOf us u)) = Some m"
      and i: "issueTokens c cfg salt now m us = (Inr tokens, us')"
    by (auto simp: switchWorkspace_def split: sum.splits option.splits)
  from u have "findById us userId = Some u" by (auto simp: findByIdOrFail_def split: option.splits)
  moreover from find_Some_iff_mem[OF m] have "m \<in> set us \<and> u_workspaceId m = ws \<and> u_isActive m
     \<and> (u_slackUserId m = u_slackUserId u \<or> (u_email m = u_email u \<and> u_email m \<notin> {None, Some []}))"
    by (auto simp: findMembershipsOf_def split: option.splits)
  moreover from i have "at_accessToken tokens = jwt_sign c (jc_secret cfg) (session_claims m) (jc_expiresIn cfg) now"
      and "\<forall>x \<in> set us. u_id x \<noteq> u_id m \<longrightarrow> x \<in> set us'"
    by (auto simp: issueTokens_def Let_def setRefreshTokenHash_def in_set_update_where split: if_splits)
  ultimately show ?thesis by blast
qed

lemma switch_reaches_same_person_witness:
  "\<exists>tokens us'. switchWorkspace staff_crypto staff_config ''a'' 0 (u_id staff) ''w1'' [staff] = (Inr tokens, us')
     \<and> at_accessToken tokens = jwt_sign staff_crypto ''k'' (session_claims staff) ''15m'' 0"
proof -
  obtain tokens us' where s: "switchWorkspace staff_crypto staff_config ''a'' 0 (u_id staff) ''w1'' [staff] = (Inr tokens, us')"
    by (simp add: switchWorkspace_def findByIdOrFail_def staff_found findMembershipsOf_def staff_id(2,3) issueTokens_def Let_def)
  from switch_reaches_same_person[OF s] s show ?thesis by (auto simp: staff_found staff_config_def)
qed

text \<open>The dashboard offers the owner's panel exactly where its guard admits, for members that are active.\<close>

lemma owner_link_matches_guard:
  "findById us (au_userId a) = Some u \<Longrightarrow> au_userId a \<noteq> [] \<Longrightarrow> u_isActive u \<Longrightarrow>
     is_ok (super_admin_guard allowlist us (Some a)) \<longleftrightarrow>
       (\<exists>view. getCurrentUser allowlist (au_userId a) us = Inr view \<and> cu_isSuperAdmin view)"
  by (auto simp: super_admin_guard_def getCurrentUser_def findByIdOrFail_def Let_def)

lemma no_owner_without_email: "\<not> isSuperAdmin allowlist None" "\<not> isSuperAdmin allowlist (Some [])"
  by (simp_all add: isSuperAdmin_def)

text \<open>
  The \<open>state\<close> minted for the consent screen is not looked at when Slack sends the browser back, so
  whoever opens a prepared callback address is signed in to the account of whoever prepared it.
\<close>

lemma callback_ignores_state: "slackCallback handle (q\<lparr>cq_state := x\<rparr>) db = slackCallback handle q db"
  by (simp add: slackCallback_def split: option.split list.split)

end
