(* ===== verification/ToolRouter.thy ===== *)
theory ToolRouter
  imports JsonText "HOL-Library.List_Lexorder" "HOL-Library.Char_ord" "HOL-Library.Sublist"
begin

text \<open>
  Which tools and apps a run gets: \<open>src/src/ai/providers/tool-router.service.ts\<close>.  The model that is
  asked is the parameter \<open>ask\<close>: its answer to a system prompt and a message, or \<open>None\<close> when the call
  fails.
\<close>

section \<open>Limits and prompts\<close>

definition ROUTE_THRESHOLD :: nat where
  "ROUTE_THRESHOLD = 20"

definition SERVER_ROUTE_THRESHOLD :: nat where
  "SERVER_ROUTE_THRESHOLD = 1"

definition ACTION_ROUTE_THRESHOLD :: nat where
  "ACTION_ROUTE_THRESHOLD = 4"

definition MAX_CANDIDATES_IN_PROMPT :: nat where
  "MAX_CANDIDATES_IN_PROMPT = 200"

definition DESCRIPTION_PREVIEW_CHARS :: nat where
  "DESCRIPTION_PREVIEW_CHARS = 160"

definition two_lines :: string where
  "two_lines = [CHR 0x0A, CHR 0x0A]"

definition ROUTER_SYSTEM_PROMPT :: string where
  "ROUTER_SYSTEM_PROMPT =
     ''You are a tool selector. You are given a user request and a list of available '' @
     ''tools, each as '' @ [CHR 0x22] @ ''name: description'' @ [CHR 0x22] @ ''. Return the tools that could plausibly be '' @
     ''needed to fulfil the request, as a JSON array of tool names and nothing else.'' @ two_lines @
     ''Bias hard toward recall: a missing tool makes the task fail outright, while an '' @
     ''extra tool only costs a little prompt space. Include a tool if there is any '' @
     ''reasonable chance it helps, including tools needed to gather ids or context '' @
     ''before the main action. Only return an empty array if the request plainly needs '' @
     ''no tool at all (e.g. a greeting or a general question). Respond with the JSON '' @
     ''array only - no prose, no code fences.''"

definition SERVER_ROUTER_SYSTEM_PROMPT :: string where
  "SERVER_ROUTER_SYSTEM_PROMPT =
     ''You are an app selector. You are given a user request, the built-in tools the '' @
     ''assistant already has, and a list of apps the workspace has connected, each as '' @
     [CHR 0x22] @ ''id (name)'' @ [CHR 0x22] @ ''. Return the connected apps the request actually needs, as a JSON '' @
     ''array of app ids and nothing else.'' @ two_lines @
     ''Built-in tools cover their own domain, so an app is not needed merely to '' @
     ''repeat what one already does. But when a connected app covers the same domain '' @
     ''as a built-in, the two hold different data: the built-in cannot see inside the '' @
     ''connected app.'' @ two_lines @
     ''So for a request that spans a domain rather than naming one platform - '' @ [CHR 0x22] @ ''list '' @
     ''my ads accounts'' @ [CHR 0x22] @ '', '' @ [CHR 0x22] @ ''how are my campaigns doing'' @ [CHR 0x22] @ '', '' @
     [CHR 0x22] @ ''what am I spending'' @ [CHR 0x22] @ '' - select '' @
     ''every connected app in that domain alongside the built-ins. Answering from the '' @
     ''built-in alone would silently omit whatever the connected app holds, and the '' @
     ''user would never know it was missing. Only leave an app out when the request '' @
     ''plainly cannot involve it.'' @ two_lines @
     ''Attaching an app is cheap - only the handful of its actions the request needs '' @
     ''are loaded - so bias toward including one. Include any app needed to gather '' @
     ''ids or context first. Return an empty array only when no connected app could '' @
     ''contribute. Respond with the JSON array only - no prose, no code fences.''"

section \<open>Candidates\<close>

record tool_spec =
  tl_name :: string
  tl_description :: "string option"
  tl_parameters :: jsval

record remote_server =
  rs_appSlug :: string
  rs_name :: string
  rs_url :: string
  rs_authorizationToken :: "string option"
  rs_enabledTools :: "string list option"

type_synonym ask = "string \<Rightarrow> string \<Rightarrow> string option"

section \<open>Reading the answer\<close>

text \<open>The text from the first opening to the last closing bracket.\<close>

definition bracketed :: "string \<Rightarrow> string option" where
  "bracketed txt = (let start = length (takeWhile (\<lambda>c. c \<noteq> CHR ''['') txt);
       behind = length (takeWhile (\<lambda>c. c \<noteq> CHR '']'') (rev txt)) in
     if start = length txt \<or> length txt \<le> behind + start + 1 then None
     else Some (drop start (take (length txt - behind) txt)))"

definition strings_of :: "jsval list \<Rightarrow> string list" where
  "strings_of xs = map str_of (filter is_string xs)"

definition parseNames :: "string \<Rightarrow> string list option" where
  "parseNames txt = (case bracketed txt of None \<Rightarrow> None
     | Some t \<Rightarrow> (case json_parse t of Some v \<Rightarrow> map_option strings_of (arr_of v) | None \<Rightarrow> None))"

section \<open>The catalogue of a prompt\<close>

text \<open>\<open>.replace(/\s+/g, ' ')\<close>.\<close>

function flatten_ws :: "string \<Rightarrow> string" where
  "flatten_ws [] = []"
| "flatten_ws (c # cs) = (if is_ws c then CHR '' '' # flatten_ws (dropWhile is_ws cs) else c # flatten_ws cs)"
  by pat_completeness auto
termination
  by (relation "measure length") (auto simp: less_Suc_eq_le length_dropWhile_le)

definition previewDescription :: "string \<Rightarrow> string" where
  "previewDescription d = (let flat = js_trim (flatten_ws d) in
     if DESCRIPTION_PREVIEW_CHARS < length flat then take DESCRIPTION_PREVIEW_CHARS flat @ ''...'' else flat)"

text \<open>\<open>slug.replace(/[_-]+/g, ' ').trim()\<close>.\<close>

definition is_dash :: "char \<Rightarrow> bool" where
  "is_dash c \<longleftrightarrow> c = CHR ''_'' \<or> c = CHR ''-''"

function spaced :: "string \<Rightarrow> string" where
  "spaced [] = []"
| "spaced (c # cs) = (if is_dash c then CHR '' '' # spaced (dropWhile is_dash cs) else c # spaced cs)"
  by pat_completeness auto
termination
  by (relation "measure length") (auto simp: less_Suc_eq_le length_dropWhile_le)

definition humanise :: "string \<Rightarrow> string" where
  "humanise slug = js_trim (spaced slug)"

definition newline :: string where
  "newline = [CHR 0x0A]"

definition tool_catalog :: "tool_spec list \<Rightarrow> string" where
  "tool_catalog tools = join newline (map (\<lambda>t. ''- '' @ tl_name t @ '': ''
     @ previewDescription (case tl_description t of None \<Rightarrow> [] | Some d \<Rightarrow> d)) tools)"

text \<open>The question about tools, and the names in the answer to it.\<close>

definition tool_question :: "string \<Rightarrow> tool_spec list \<Rightarrow> string" where
  "tool_question message tools = ''Request:'' @ newline @ message @ two_lines @ ''Available tools:'' @ newline @ tool_catalog tools
     @ two_lines @ ''Return the JSON array of relevant tool names.''"

definition chooseNames :: "ask \<Rightarrow> string \<Rightarrow> tool_spec list \<Rightarrow> string list option" where
  "chooseNames ask message tools = (case ask ROUTER_SYSTEM_PROMPT (tool_question message tools) of
     None \<Rightarrow> None | Some txt \<Rightarrow> map_option js_unique (parseNames txt))"

section \<open>Selecting\<close>

text \<open>\<open>None\<close> means that all of them are sent.\<close>

definition chosen_tools :: "ask \<Rightarrow> string \<Rightarrow> tool_spec list \<Rightarrow> tool_spec list option" where
  "chosen_tools ask message candidates = (let considered = take MAX_CANDIDATES_IN_PROMPT candidates in
     case chooseNames ask message considered of None \<Rightarrow> None
     | Some names \<Rightarrow> (case filter (\<lambda>t. tl_name t \<in> set names) considered of [] \<Rightarrow> None | t # ts \<Rightarrow> Some (t # ts)))"

definition selectRelevant :: "ask \<Rightarrow> string \<Rightarrow> tool_spec list \<Rightarrow> tool_spec list option" where
  "selectRelevant ask message candidates =
     (if length candidates \<le> ROUTE_THRESHOLD then None else chosen_tools ask message candidates)"

definition selectRelevantActions :: "ask \<Rightarrow> string \<Rightarrow> tool_spec list \<Rightarrow> string list option" where
  "selectRelevantActions ask message actions =
     (if length actions \<le> ACTION_ROUTE_THRESHOLD then None
      else map_option (\<lambda>ts. sort (map tl_name ts)) (chosen_tools ask message actions))"

definition server_prompt :: "string \<Rightarrow> remote_server list \<Rightarrow> tool_spec list \<Rightarrow> string" where
  "server_prompt message servers localTools = (let builtIn = join '', '' (map tl_name localTools) in
     ''Request:'' @ newline @ message @ two_lines
     @ (if builtIn = [] then [] else ''Built-in tools (no app needed for these):'' @ newline @ builtIn @ two_lines)
     @ ''Connected apps:'' @ newline @ join newline (map (\<lambda>s. ''- '' @ rs_appSlug s @ '' ('' @ humanise (rs_appSlug s) @ '')'') servers)
     @ two_lines @ ''Return the JSON array of app ids this request needs.'')"

definition selectRelevantServers :: "ask \<Rightarrow> string \<Rightarrow> remote_server list \<Rightarrow> tool_spec list \<Rightarrow> remote_server list option" where
  "selectRelevantServers ask message servers localTools =
    (if length servers \<le> SERVER_ROUTE_THRESHOLD then None
     else case ask SERVER_ROUTER_SYSTEM_PROMPT (server_prompt message servers localTools) of None \<Rightarrow> None
      | Some txt \<Rightarrow> (case parseNames txt of None \<Rightarrow> None
          | Some [] \<Rightarrow> Some []
          | Some (n # ns) \<Rightarrow> (case filter (\<lambda>s. rs_appSlug s \<in> set (n # ns)) servers of [] \<Rightarrow> None | s # ss \<Rightarrow> Some (s # ss))))"

section \<open>What routing asks\<close>

text \<open>
  The questions, system prompt and message, that a selection puts to the model; nothing else about \<open>ask\<close>
  matters to it.
\<close>

definition asks_tools :: "nat \<Rightarrow> string \<Rightarrow> tool_spec list \<Rightarrow> (string \<times> string) list" where
  "asks_tools threshold message candidates = (if length candidates \<le> threshold then []
     else [(ROUTER_SYSTEM_PROMPT, tool_question message (take MAX_CANDIDATES_IN_PROMPT candidates))])"

definition asks_servers :: "string \<Rightarrow> remote_server list \<Rightarrow> tool_spec list \<Rightarrow> (string \<times> string) list" where
  "asks_servers message servers localTools = (if length servers \<le> SERVER_ROUTE_THRESHOLD then []
     else [(SERVER_ROUTER_SYSTEM_PROMPT, server_prompt message servers localTools)])"

definition agree_on :: "(string \<times> string) list \<Rightarrow> ask \<Rightarrow> ask \<Rightarrow> bool" where
  "agree_on questions ask ask' \<longleftrightarrow> (\<forall>(system, message) \<in> set questions. ask system message = ask' system message)"

lemma agree_on_append [simp]: "agree_on (xs @ ys) ask ask' \<longleftrightarrow> agree_on xs ask ask' \<and> agree_on ys ask ask'"
  by (auto simp: agree_on_def)

lemma agree_on_concat: "agree_on (concat (map f xs)) ask ask' \<longleftrightarrow> (\<forall>x \<in> set xs. agree_on (f x) ask ask')"
  by (auto simp: agree_on_def)

lemma selections_ask_only:
  "agree_on (asks_tools ROUTE_THRESHOLD message candidates) ask ask' \<Longrightarrow>
     selectRelevant ask message candidates = selectRelevant ask' message candidates"
  "agree_on (asks_tools ACTION_ROUTE_THRESHOLD message candidates) ask ask' \<Longrightarrow>
     selectRelevantActions ask message candidates = selectRelevantActions ask' message candidates"
  "agree_on (asks_servers message servers localTools) ask ask' \<Longrightarrow>
     selectRelevantServers ask message servers localTools = selectRelevantServers ask' message servers localTools"
  by (auto simp: agree_on_def asks_tools_def asks_servers_def selectRelevant_def selectRelevantActions_def selectRelevantServers_def
      chosen_tools_def chooseNames_def Let_def)

section \<open>What routing can do\<close>

lemma bracketed_array:
  "CHR '']'' \<notin> set after \<Longrightarrow> CHR ''['' \<notin> set before \<Longrightarrow> bracketed (before @ ''['' @ body @ '']'' @ after) = Some (''['' @ body @ '']'')"
proof -
  assume a: "CHR '']'' \<notin> set after" and b: "CHR ''['' \<notin> set before"
  have s: "takeWhile (\<lambda>c. c \<noteq> CHR ''['') (before @ ''['' @ body @ '']'' @ after) = before"
    using b by (subst takeWhile_append2) auto
  have e: "takeWhile (\<lambda>c. c \<noteq> CHR '']'') (rev (before @ ''['' @ body @ '']'' @ after)) = rev after"
    using a by simp (subst takeWhile_append2, auto)
  show ?thesis unfolding bracketed_def s e Let_def by simp
qed

text \<open>An answer is read through prose and code fences around it.\<close>

lemma parseNames_reads:
  "CHR '']'' \<notin> set after \<Longrightarrow> CHR ''['' \<notin> set before \<Longrightarrow>
     parseNames (before @ stringify (JArr (map JStr names)) @ after) = Some names"
proof -
  assume a: "CHR '']'' \<notin> set after" "CHR ''['' \<notin> set before"
  have b: "bracketed (before @ stringify (JArr (map JStr names)) @ after) = Some (stringify (JArr (map JStr names)))"
    using bracketed_array[OF a, of "join '','' (map stringify (map JStr names))"] by simp
  have "textual (JArr (map JStr names))" by (simp add: list_all_iff)
  from parse_stringify[OF this] have p: "json_parse (stringify (JArr (map JStr names))) = Some (JArr (map JStr names))" .
  have "strings_of (map JStr names) = names" unfolding strings_of_def by (induction names) simp_all
  then show ?thesis unfolding parseNames_def b by (simp only: option.case p arr_of.simps option.map)
qed

lemma chosen_tools_subseq:
  "chosen_tools ask message candidates = Some ts \<Longrightarrow> ts \<noteq> [] \<and> subseq ts candidates \<and> set ts \<subseteq> set candidates \<and> length ts \<le> 200"
proof -
  assume c: "chosen_tools ask message candidates = Some ts"
  have ne: "ts \<noteq> []" using c by (auto simp: chosen_tools_def Let_def split: option.splits list.splits)
  obtain names where n: "ts = filter (\<lambda>t. tl_name t \<in> set names) (take MAX_CANDIDATES_IN_PROMPT candidates)"
    using c by (auto simp: chosen_tools_def Let_def split: option.splits list.splits)
  have "subseq ts (take MAX_CANDIDATES_IN_PROMPT candidates)" unfolding n by (rule subseq_filter_left)
  moreover have "subseq (take MAX_CANDIDATES_IN_PROMPT candidates) candidates" by (rule prefix_imp_subseq) (rule take_is_prefix)
  moreover have "length ts \<le> length (take MAX_CANDIDATES_IN_PROMPT candidates)" unfolding n by (rule length_filter_le)
  moreover have "set ts \<subseteq> set candidates" unfolding n by (auto dest: in_set_takeD)
  ultimately show ?thesis using ne by (auto simp: MAX_CANDIDATES_IN_PROMPT_def intro: subseq_order.trans)
qed

lemma filter_eq_subseq: "filter P xs = ys \<Longrightarrow> subseq ys xs"
  by (auto simp: subseq_filter_left)

text \<open>Routing never invents and never fails a run: whatever the model answers, tools come back as a non-empty selection
  of the candidates in their order, actions as sorted names of candidates, apps as a selection in their
  order; otherwise everything is sent, and few candidates are never narrowed.\<close>

theorem router_never_invents:
  "(case selectRelevant ask message candidates of None \<Rightarrow> True
      | Some ts \<Rightarrow> ts \<noteq> [] \<and> subseq ts candidates \<and> 20 < length candidates)
   \<and> (case selectRelevantActions ask message candidates of None \<Rightarrow> True
      | Some names \<Rightarrow> names \<noteq> [] \<and> sorted names \<and> set names \<subseteq> tl_name ` set candidates \<and> 4 < length candidates)
   \<and> (case selectRelevantServers ask message servers localTools of None \<Rightarrow> True
      | Some ss \<Rightarrow> subseq ss servers \<and> 1 < length servers)"
proof (intro conjI)
  show "case selectRelevant ask message candidates of None \<Rightarrow> True
      | Some ts \<Rightarrow> ts \<noteq> [] \<and> subseq ts candidates \<and> 20 < length candidates"
    by (auto simp: selectRelevant_def ROUTE_THRESHOLD_def dest: chosen_tools_subseq split: option.split)
  show "case selectRelevantActions ask message candidates of None \<Rightarrow> True
      | Some names \<Rightarrow> names \<noteq> [] \<and> sorted names \<and> set names \<subseteq> tl_name ` set candidates \<and> 4 < length candidates"
  proof (cases "selectRelevantActions ask message candidates")
    case (Some names)
    then obtain ts where t: "chosen_tools ask message candidates = Some ts" "names = sort (map tl_name ts)" "4 < length candidates"
      by (auto simp: selectRelevantActions_def ACTION_ROUTE_THRESHOLD_def split: if_splits)
    from chosen_tools_subseq[OF t(1)] have ne: "ts \<noteq> []" and sub: "set ts \<subseteq> set candidates" by simp_all
    have "length names = length ts" by (simp add: t(2))
    with ne have "names \<noteq> []" by auto
    with t(2,3) sub Some show ?thesis by auto
  qed simp
  show "case selectRelevantServers ask message servers localTools of None \<Rightarrow> True
      | Some ss \<Rightarrow> subseq ss servers \<and> 1 < length servers"
    by (auto simp: selectRelevantServers_def SERVER_ROUTE_THRESHOLD_def dest: filter_eq_subseq split: option.splits list.splits if_splits)
qed

end
