(* ===== verification/AttachedApps.thy ===== *)
theory AttachedApps
  imports JsonText KeyValue
begin

text \<open>
  The apps a conversation has attached: \<open>src/src/ai/providers/attached-apps.service.ts\<close>, one JSON
  text per conversation in Redis.  \<open>up\<close> says whether Redis answers; server names are none of the
  property names every object inherits.
\<close>

section \<open>Records\<close>

definition ATTACHED_PREFIX :: string where
  "ATTACHED_PREFIX = ''ai:attached:''"

definition ATTACHED_TTL_SECONDS :: int where
  "ATTACHED_TTL_SECONDS = 2 * 60 * 60"

definition MAX_ACTIONS_PER_APP :: nat where
  "MAX_ACTIONS_PER_APP = 24"

text \<open>Server name to exposed actions, in insertion order; no actions means all of them.\<close>

type_synonym attached_apps = "(string \<times> string list) list"

definition attached_key :: "uuid \<Rightarrow> string \<Rightarrow> string" where
  "attached_key ws conversation = ATTACHED_PREFIX @ ws @ '':'' @ conversation"

definition apps_json :: "attached_apps \<Rightarrow> jsval" where
  "apps_json apps = JObj (map (\<lambda>(server, actions). (server, JArr (map JStr actions))) apps)"

definition actions_of :: "jsval \<Rightarrow> string list" where
  "actions_of v = (case arr_of v of None \<Rightarrow> [] | Some xs \<Rightarrow> map str_of xs)"

definition apps_of :: "jsval \<Rightarrow> attached_apps" where
  "apps_of v = (case v of JObj ps \<Rightarrow> map (\<lambda>(server, actions). (server, actions_of actions)) ps | _ \<Rightarrow> [])"

section \<open>Operations\<close>

definition attached_get :: "bool \<Rightarrow> uuid \<Rightarrow> string \<Rightarrow> time \<Rightarrow> kv \<Rightarrow> attached_apps" where
  "attached_get up ws conversation now s =
    (if \<not> up then []
     else case kv_get (attached_key ws conversation) now s of
        Some (c # raw) \<Rightarrow> (case json_parse (c # raw) of None \<Rightarrow> [] | Some v \<Rightarrow> apps_of v)
      | _ \<Rightarrow> [])"

definition attached_write :: "bool \<Rightarrow> uuid \<Rightarrow> string \<Rightarrow> attached_apps \<Rightarrow> time \<Rightarrow> kv \<Rightarrow> kv" where
  "attached_write up ws conversation apps now s =
    (if up then kv_set_ex (attached_key ws conversation) (stringify (apps_json apps)) ATTACHED_TTL_SECONDS now s else s)"

definition merge_app :: "string \<times> string list \<Rightarrow> attached_apps \<Rightarrow> attached_apps" where
  "merge_app p merged = (case p of (server, actions) \<Rightarrow>
     (let before = map_of merged server in
      if before = Some [] \<or> actions = [] then aput server [] merged
      else aput server (slice_tail MAX_ACTIONS_PER_APP
             (js_unique ((case before of None \<Rightarrow> [] | Some b \<Rightarrow> b) @ actions))) merged))"

definition merge_apps :: "attached_apps \<Rightarrow> attached_apps \<Rightarrow> attached_apps" where
  "merge_apps previous attaching = fold merge_app attaching previous"

text \<open>Redis may be lost between the reading and the writing.\<close>

definition attached_merge ::
  "bool \<Rightarrow> bool \<Rightarrow> uuid \<Rightarrow> string \<Rightarrow> attached_apps \<Rightarrow> time \<Rightarrow> kv \<Rightarrow> attached_apps \<times> kv" where
  "attached_merge up_get up_set ws conversation attaching now s =
    (let merged = merge_apps (attached_get up_get ws conversation now s) attaching
     in (merged, attached_write up_set ws conversation merged now s))"

definition attached_replace :: "bool \<Rightarrow> uuid \<Rightarrow> string \<Rightarrow> attached_apps \<Rightarrow> time \<Rightarrow> kv \<Rightarrow> kv" where
  "attached_replace up ws conversation apps now s = attached_write up ws conversation apps now s"

section \<open>A record survives the store\<close>

lemma apps_of_json: "apps_of (apps_json apps) = apps"
  by (induction apps) (auto simp: apps_of_def apps_json_def actions_of_def split_beta comp_def)

lemma textual_apps: "distinct (map fst apps) \<Longrightarrow> textual (apps_json apps)"
  by (auto simp: apps_json_def list_all_iff comp_def split_beta)

lemma stringify_apps_nonempty: "stringify (apps_json apps) \<noteq> []"
  by (simp add: apps_json_def)

lemma get_after_write:
  assumes "distinct (map fst apps)" and "t0 \<le> now" and "now < t0 + 2 * 60 * 60 * 1000"
  shows "attached_get True ws conversation now (attached_write True ws conversation apps t0 s) = apps"
proof -
  have "kv_get (attached_key ws conversation) now (attached_write True ws conversation apps t0 s) = Some (stringify (apps_json apps))"
    using assms(3) by (simp add: attached_write_def kv_get_set_ex ATTACHED_TTL_SECONDS_def)
  moreover obtain c raw where "stringify (apps_json apps) = c # raw"
    using stringify_apps_nonempty[of apps] by (cases "stringify (apps_json apps)") auto
  ultimately show ?thesis
    using parse_stringify[OF textual_apps[OF assms(1)]] by (simp add: attached_get_def apps_of_json)
qed

lemma distinct_merge_app: "distinct (map fst m) \<Longrightarrow> distinct (map fst (merge_app p m))"
  by (cases p) (simp add: merge_app_def Let_def distinct_keys_aput)

lemma distinct_merge_apps: "distinct (map fst m) \<Longrightarrow> distinct (map fst (merge_apps m as))"
  unfolding merge_apps_def by (induction as arbitrary: m) (simp_all add: distinct_merge_app)

section \<open>What merging keeps\<close>

lemma merge_app_other: "server \<noteq> fst p \<Longrightarrow> map_of (merge_app p m) server = map_of m server"
  by (cases p) (simp add: merge_app_def Let_def)

lemma merge_apps_other: "server \<notin> fst ` set as \<Longrightarrow> map_of (merge_apps m as) server = map_of m server"
  unfolding merge_apps_def by (induction as arbitrary: m) (simp_all add: merge_app_other)

lemma js_unique_append: "js_unique (xs @ ys) = js_unique xs @ filter (\<lambda>y. y \<notin> set xs) (js_unique ys)"
proof (induction xs)
  case (Cons x xs)
  have "filter (\<lambda>y. y \<noteq> x) (filter (\<lambda>y. y \<notin> set xs) (js_unique ys)) = filter (\<lambda>y. y \<notin> set (x # xs)) (js_unique ys)"
    by (simp add: conj_commute)
  with Cons show ?case by simp
qed simp

text \<open>A record: every server once, its actions distinct and within the ceiling.\<close>

definition attached_ok :: "attached_apps \<Rightarrow> bool" where
  "attached_ok m \<longleftrightarrow> distinct (map fst m) \<and> (\<forall>(server, actions) \<in> set m. distinct actions \<and> length actions \<le> MAX_ACTIONS_PER_APP)"

lemma in_set_aput: "x \<in> set (aput k v m) \<Longrightarrow> x = (k, v) \<or> x \<in> set m"
  by (induction m) (auto split: if_splits)

lemma attached_ok_merge_app: "attached_ok m \<Longrightarrow> attached_ok (merge_app p m)"
  by (cases p) (auto simp: attached_ok_def merge_app_def Let_def distinct_keys_aput slice_tail_def distinct_drop
      dest!: in_set_aput)

lemma attached_ok_merge_apps: "attached_ok m \<Longrightarrow> attached_ok (merge_apps m as)"
  unfolding merge_apps_def by (induction as arbitrary: m) (simp_all add: attached_ok_merge_app)

lemma merge_app_grows:
  assumes "attached_ok previous" and "map_of previous server = Some before" "before \<noteq> []" "actions \<noteq> []"
    and c: "card (set before \<union> set actions) \<le> 24"
  shows "\<exists>new. map_of (merge_app (server, actions) previous) server = Some (before @ new) \<and> set new = set actions - set before"
proof -
  let ?new = "filter (\<lambda>y. y \<notin> set before) (js_unique actions)"
  have d: "distinct before" using assms(1) map_of_SomeD[OF assms(2)] by (auto simp: attached_ok_def)
  then have u: "js_unique (before @ actions) = before @ ?new" by (simp add: js_unique_append js_unique_id)
  have "card (set (js_unique (before @ actions))) = length (js_unique (before @ actions))"
    by (rule distinct_card) simp
  with c have "length (js_unique (before @ actions)) \<le> 24" by simp
  then have "slice_tail MAX_ACTIONS_PER_APP (js_unique (before @ actions)) = before @ ?new"
    by (simp add: slice_tail_def MAX_ACTIONS_PER_APP_def u)
  with assms show ?thesis by (auto simp: merge_app_def)
qed

text \<open>Attachment is append-only below the ceiling: a turn keeps the actions a conversation already had for an app, in
  their order and in front, and adds its own behind them; an app attached whole stays whole; other apps are
  untouched; and the record is there for the following turns for two hours.\<close>

theorem attachment_is_append_only:
  assumes "attached_ok previous" and "attached_get True ws conversation now s = previous"
    and "attached_merge True True ws conversation [(server, actions)] now s = (merged, s')"
  shows "attached_ok merged
    \<and> (\<forall>other. other \<noteq> server \<longrightarrow> map_of merged other = map_of previous other)
    \<and> (map_of previous server = Some [] \<longrightarrow> map_of merged server = Some [])
    \<and> (\<forall>before. map_of previous server = Some before \<and> before \<noteq> [] \<and> actions \<noteq> [] \<and> card (set before \<union> set actions) \<le> 24
         \<longrightarrow> (\<exists>new. map_of merged server = Some (before @ new) \<and> set new = set actions - set before))
    \<and> (\<forall>later. now \<le> later \<and> later < now + 2 * 60 * 60 * 1000 \<longrightarrow> attached_get True ws conversation later s' = merged)"
proof -
  have m: "merged = merge_app (server, actions) previous" and s': "s' = attached_write True ws conversation merged now s"
    using assms(2,3) by (auto simp: attached_merge_def merge_apps_def Let_def)
  have ok: "attached_ok merged" unfolding m by (rule attached_ok_merge_app[OF assms(1)])
  have grow: "\<exists>new. map_of merged server = Some (before @ new) \<and> set new = set actions - set before"
    if b: "map_of previous server = Some before" "before \<noteq> []" "actions \<noteq> []" and c: "card (set before \<union> set actions) \<le> 24" for before
    unfolding m by (rule merge_app_grows[OF assms(1) b c])
  moreover have "attached_get True ws conversation later s' = merged" if "now \<le> later" "later < now + 2 * 60 * 60 * 1000" for later
    using get_after_write[of merged now later ws conversation s] that ok by (simp add: s' attached_ok_def)
  ultimately show ?thesis using ok by (simp add: m merge_app_other) (simp add: merge_app_def)
qed

lemma attachment_is_append_only_witness:
  "let s = attached_write True ''w'' ''t'' [(''ads'', [''list'', ''report''])] 0 empty_kv in
     case attached_merge True True ''w'' ''t'' [(''ads'', [''report'', ''pause''])] 5 s of (merged, s') \<Rightarrow>
       (\<exists>new. map_of merged ''ads'' = Some ([''list'', ''report''] @ new) \<and> set new = {''pause''})
       \<and> attached_get True ''w'' ''t'' 100 s' = merged"
proof -
  define s where "s = attached_write True ''w'' ''t'' [(''ads'', [''list'', ''report''])] 0 empty_kv"
  have g: "attached_get True ''w'' ''t'' 5 s = [(''ads'', [''list'', ''report''])]"
    unfolding s_def by (rule get_after_write) simp_all
  obtain merged s' where m: "attached_merge True True ''w'' ''t'' [(''ads'', [''report'', ''pause''])] 5 s = (merged, s')" by fastforce
  have ok: "attached_ok [(''ads'', [''list'', ''report''])]" by (simp add: attached_ok_def MAX_ACTIONS_PER_APP_def)
  note all = attachment_is_append_only[OF ok g m]
  have c: "card (set [''list'', ''report''] \<union> set [''report'', ''pause'']) \<le> 24" by (simp add: card_insert_if)
  have "\<exists>new. map_of merged ''ads'' = Some ([''list'', ''report''] @ new) \<and> set new = set [''report'', ''pause''] - set [''list'', ''report'']"
    by (rule all[THEN conjunct2, THEN conjunct2, THEN conjunct2, THEN conjunct1, rule_format]) (use c in auto)
  then have "\<exists>new. map_of merged ''ads'' = Some ([''list'', ''report''] @ new) \<and> set new = {''pause''}" by auto
  moreover have "attached_get True ''w'' ''t'' 100 s' = merged" using all by simp
  ultimately show ?thesis by (simp add: s_def[symmetric] m)
qed

text \<open>At the ceiling the choice of the current turn can be dropped: an action that the conversation already had keeps its
  old place in the union, so it is the first to go even when this turn asked for it again.\<close>

theorem chosen_action_evicted:
  "let old = map (\<lambda>i. ''action'' @ show_nat i) [0..<24];
       merged = merge_apps [(''ads'', old)] [(''ads'', [''action0'', ''extra''])]
   in map_of merged ''ads'' = Some (drop 1 old @ [''extra'']) \<and> ''action0'' \<notin> set (drop 1 old @ [''extra''])"
  by code_simp

end
