(* ===== verification/Attaching.thy ===== *)
theory Attaching
  imports ToolRouter AttachedApps
begin

text \<open>
  Which connected apps a run attaches, and which of their actions: \<open>attachServers\<close> and \<open>appActions\<close>
  of \<open>src/src/ai/ai.service.ts\<close>, over the router and the conversation's record.  The catalogue of an
  app's actions is the parameter \<open>catalogue\<close> (\<open>None\<close> where reading it throws).  One clock reading
  stands for the whole call.
\<close>

section \<open>Decisions\<close>

type_synonym catalogue = "string \<Rightarrow> tool_spec list option"

definition appActions :: "catalogue \<Rightarrow> string \<Rightarrow> tool_spec list" where
  "appActions catalogue slug = (case catalogue slug of None \<Rightarrow> [] | Some tools \<Rightarrow> tools)"

text \<open>The actions recorded for a chosen server; none means the app whole.\<close>

definition attach_actions :: "ask \<Rightarrow> catalogue \<Rightarrow> string \<Rightarrow> attached_apps \<Rightarrow> remote_server \<Rightarrow> string list" where
  "attach_actions ask catalogue message sticky s =
    (let remembered = map_of sticky (rs_name s) in
     if remembered = Some [] then []
     else let actions = appActions catalogue (rs_appSlug s);
              enabled = (if actions = [] then None else selectRelevantActions ask message actions)
          in case enabled of Some e \<Rightarrow> e
             | None \<Rightarrow> (case remembered of Some r \<Rightarrow> r | None \<Rightarrow> []))"

definition with_tools :: "remote_server \<Rightarrow> string list \<Rightarrow> remote_server" where
  "with_tools s actions = s\<lparr>rs_enabledTools := (if actions = [] then None else Some actions)\<rparr>"

definition sticky_in :: "attached_apps \<Rightarrow> remote_server \<Rightarrow> bool" where
  "sticky_in sticky s \<longleftrightarrow> rs_name s \<in> fst ` set sticky"

definition chosen_names :: "ask \<Rightarrow> string \<Rightarrow> remote_server list \<Rightarrow> tool_spec list \<Rightarrow> attached_apps \<Rightarrow> string list" where
  "chosen_names ask message servers localTools sticky =
    (let undecided = filter (\<lambda>s. \<not> sticky_in sticky s) servers in
     map rs_name (filter (sticky_in sticky) servers)
     @ (if undecided = [] then []
        else map rs_name (case selectRelevantServers ask message undecided localTools of None \<Rightarrow> undecided | Some ss \<Rightarrow> ss)))"

definition attaching_record :: "ask \<Rightarrow> catalogue \<Rightarrow> string \<Rightarrow> attached_apps \<Rightarrow> remote_server list \<Rightarrow> attached_apps" where
  "attaching_record ask catalogue message sticky chosen =
     fold (\<lambda>s m. aput (rs_name s) (attach_actions ask catalogue message sticky s) m) chosen []"

section \<open>Attaching\<close>

text \<open>Whether Redis answers at each of the calls.\<close>

record redis_calls =
  rc_get :: bool
  rc_merge_get :: bool
  rc_merge_set :: bool
  rc_branch :: bool

definition present :: "string option \<Rightarrow> bool" where
  "present v \<longleftrightarrow> v \<noteq> None \<and> v \<noteq> Some []"

definition attachServers ::
  "redis_calls \<Rightarrow> ask \<Rightarrow> catalogue \<Rightarrow> string \<Rightarrow> remote_server list \<Rightarrow> tool_spec list \<Rightarrow> uuid
     \<Rightarrow> string option \<Rightarrow> string option \<Rightarrow> time \<Rightarrow> kv \<Rightarrow> remote_server list \<times> kv" where
  "attachServers up ask catalogue message servers localTools ws conversation branch now s =
    (let sticky = (if present conversation then attached_get (rc_get up) ws (the conversation) now s else []);
         names = chosen_names ask message servers localTools sticky;
         chosen = filter (\<lambda>v. rs_name v \<in> set names) servers
     in if names = [] then ([], s)
        else
          (let attached = map (\<lambda>v. with_tools v (attach_actions ask catalogue message sticky v)) chosen;
               (sending, s1) =
                 (if present conversation
                  then (let (merged, s1) = attached_merge (rc_merge_get up) (rc_merge_set up) ws (the conversation)
                              (attaching_record ask catalogue message sticky chosen) now s
                        in (map (\<lambda>v. with_tools v (the (map_of merged (rs_name v)))) (filter (sticky_in merged) servers), s1))
                  else (attached, s));
               s2 = (if present branch
                     then attached_replace (rc_branch up) ws (the branch)
                            (fold (\<lambda>v m. aput (rs_name v) (case rs_enabledTools v of None \<Rightarrow> [] | Some ts \<Rightarrow> ts) m) sending []) now s1
                     else s1)
           in (sending, s2)))"

section \<open>What attaching asks\<close>

definition attach_asks :: "catalogue \<Rightarrow> string \<Rightarrow> attached_apps \<Rightarrow> remote_server \<Rightarrow> (string \<times> string) list" where
  "attach_asks catalogue message sticky s =
    (let actions = appActions catalogue (rs_appSlug s) in
     if map_of sticky (rs_name s) = Some [] \<or> actions = [] then [] else asks_tools ACTION_ROUTE_THRESHOLD message actions)"

definition server_asks :: "string \<Rightarrow> remote_server list \<Rightarrow> tool_spec list \<Rightarrow> attached_apps \<Rightarrow> (string \<times> string) list" where
  "server_asks message servers localTools sticky =
    (let undecided = filter (\<lambda>s. \<not> sticky_in sticky s) servers in
     if undecided = [] then [] else asks_servers message undecided localTools)"

text \<open>First which apps, then, for each app that is attached, which of its actions.\<close>

definition attach_questions ::
  "bool \<Rightarrow> ask \<Rightarrow> catalogue \<Rightarrow> string \<Rightarrow> remote_server list \<Rightarrow> tool_spec list \<Rightarrow> uuid \<Rightarrow> string option \<Rightarrow> time \<Rightarrow> kv
     \<Rightarrow> (string \<times> string) list" where
  "attach_questions up ask catalogue message servers localTools ws conversation now s =
    (let sticky = (if present conversation then attached_get up ws (the conversation) now s else []);
         names = chosen_names ask message servers localTools sticky
     in server_asks message servers localTools sticky
        @ concat (map (attach_asks catalogue message sticky) (filter (\<lambda>v. rs_name v \<in> set names) servers)))"

lemma attach_actions_ask_only:
  "agree_on (attach_asks catalogue message sticky v) ask ask' \<Longrightarrow>
     attach_actions ask catalogue message sticky v = attach_actions ask' catalogue message sticky v"
  using selections_ask_only(2)[of message "appActions catalogue (rs_appSlug v)" ask ask']
  by (auto simp: attach_actions_def attach_asks_def Let_def)

lemma chosen_names_ask_only:
  "agree_on (server_asks message servers localTools sticky) ask ask' \<Longrightarrow>
     chosen_names ask message servers localTools sticky = chosen_names ask' message servers localTools sticky"
  using selections_ask_only(3)[of message "filter (\<lambda>s. \<not> sticky_in sticky s) servers" localTools ask ask']
  by (auto simp: chosen_names_def server_asks_def Let_def)

text \<open>Attaching puts no other question to the model: only the answers to these matter.\<close>

lemma attaching_asks_only:
  assumes "agree_on (attach_questions (rc_get up) ask catalogue message servers localTools ws conversation now s) ask ask'"
  shows "attachServers up ask catalogue message servers localTools ws conversation branch now s
    = attachServers up ask' catalogue message servers localTools ws conversation branch now s"
proof -
  define sticky where "sticky = (if present conversation then attached_get (rc_get up) ws (the conversation) now s else [])"
  define chosen where "chosen = filter (\<lambda>v. rs_name v \<in> set (chosen_names ask message servers localTools sticky)) servers"
  from assms have a: "agree_on (server_asks message servers localTools sticky) ask ask'"
    and b: "\<forall>v \<in> set chosen. agree_on (attach_asks catalogue message sticky v) ask ask'"
    unfolding attach_questions_def Let_def sticky_def[symmetric] chosen_def[symmetric] agree_on_append agree_on_concat by blast+
  have n: "chosen_names ask message servers localTools sticky = chosen_names ask' message servers localTools sticky"
    by (rule chosen_names_ask_only[OF a])
  have e: "attach_actions ask catalogue message sticky v = attach_actions ask' catalogue message sticky v" if "v \<in> set chosen" for v
    by (rule attach_actions_ask_only) (rule bspec[OF b that])
  have m: "map (\<lambda>v. with_tools v (attach_actions ask catalogue message sticky v)) chosen
      = map (\<lambda>v. with_tools v (attach_actions ask' catalogue message sticky v)) chosen"
    by (rule map_cong[OF refl]) (simp only: e)
  have r: "attaching_record ask catalogue message sticky chosen = attaching_record ask' catalogue message sticky chosen"
    unfolding attaching_record_def by (rule fold_cong[OF refl refl]) (simp only: e)
  show ?thesis
    unfolding attachServers_def Let_def sticky_def[symmetric] chosen_def[symmetric] n[symmetric] m r ..
qed

lemma few_questions:
  "length (attach_questions up ask catalogue message servers localTools ws conversation now s) \<le> Suc (length servers)"
proof -
  have c: "length (concat (map (attach_asks catalogue message sticky) vs)) \<le> length vs" for sticky vs
  proof (induction vs)
    case (Cons v vs)
    have "length (attach_asks catalogue message sticky v) \<le> 1" by (simp add: attach_asks_def asks_tools_def Let_def)
    with Cons show ?case by simp
  qed simp
  have "length (concat (map (attach_asks catalogue message sticky) (filter P servers))) \<le> length servers" for sticky P
    using c[of sticky "filter P servers"] length_filter_le[of P servers] by linarith
  moreover have "length (server_asks message servers localTools sticky) \<le> 1" for sticky
    by (simp add: server_asks_def asks_servers_def Let_def)
  ultimately show ?thesis
    unfolding attach_questions_def Let_def length_append plus_1_eq_Suc[symmetric] by (intro add_mono)
qed

section \<open>The record of a turn\<close>

lemma merge_app_at:
  "map_of (merge_app (k, a) m) k = Some (if map_of m k = Some [] \<or> a = [] then []
     else slice_tail MAX_ACTIONS_PER_APP (js_unique ((case map_of m k of None \<Rightarrow> [] | Some b \<Rightarrow> b) @ a)))"
  by (simp add: merge_app_def Let_def)

lemma merge_app_at_cong: "map_of m k = map_of m' k \<Longrightarrow> map_of (merge_app (k, a) m) k = map_of (merge_app (k, a) m') k"
  by (simp add: merge_app_at)

lemma merge_apps_at:
  "distinct (map fst as) \<Longrightarrow> (k, a) \<in> set as \<Longrightarrow> map_of (merge_apps m as) k = map_of (merge_app (k, a) m) k"
proof (induction as arbitrary: m)
  case (Cons p as)
  show ?case
  proof (cases "p = (k, a)")
    case True
    with Cons.prems(1) have "k \<notin> fst ` set as" by simp
    then show ?thesis using merge_apps_other[of k as "merge_app p m"] True by (simp add: merge_apps_def)
  next
    case False
    with Cons.prems have ka: "(k, a) \<in> set as" by simp
    with Cons.prems(1) have "fst p \<noteq> k" by (auto simp: image_iff)
    with Cons.IH[OF _ ka, of "merge_app p m"] Cons.prems(1) have "map_of (merge_apps m (p # as)) k = map_of (merge_app (k, a) (merge_app p m)) k"
      by (simp add: merge_apps_def)
    also have "\<dots> = map_of (merge_app (k, a) m) k"
      by (rule merge_app_at_cong) (rule merge_app_other, use \<open>fst p \<noteq> k\<close> in simp)
    finally show ?thesis .
  qed
qed simp

lemma in_keys_merge_apps: "k \<in> fst ` set (merge_apps m as) \<longleftrightarrow> k \<in> fst ` set m \<or> k \<in> fst ` set as"
proof -
  have step: "k \<in> fst ` set (merge_app p m) \<longleftrightarrow> k \<in> fst ` set m \<or> k = fst p" for p m
    by (cases p) (simp only: merge_app_def Let_def prod.case fst_conv split: if_split, simp only: set_keys_aput, blast)
  show ?thesis unfolding merge_apps_def by (induction as arbitrary: m) (auto simp: step)
qed

lemma attaching_record_keys:
  "fst ` set (attaching_record ask catalogue message sticky chosen) = rs_name ` set chosen"
  "distinct (map fst (attaching_record ask catalogue message sticky chosen))"
proof -
  have k: "fst ` set (fold (\<lambda>v m. aput (rs_name v) (f v) m) vs m) = fst ` set m \<union> rs_name ` set vs"
    for f :: "remote_server \<Rightarrow> string list" and vs m
    by (induction vs arbitrary: m) auto
  have d: "distinct (map fst m) \<Longrightarrow> distinct (map fst (fold (\<lambda>v m. aput (rs_name v) (f v) m) vs m))"
    for f :: "remote_server \<Rightarrow> string list" and vs m
    by (induction vs arbitrary: m) (simp_all add: distinct_keys_aput)
  show "fst ` set (attaching_record ask catalogue message sticky chosen) = rs_name ` set chosen"
    by (simp add: attaching_record_def k)
  show "distinct (map fst (attaching_record ask catalogue message sticky chosen))"
    by (simp add: attaching_record_def d)
qed

lemma recorded_at:
  "distinct (map rs_name vs) \<Longrightarrow> v \<in> set vs \<Longrightarrow>
     map_of (fold (\<lambda>v m. aput (rs_name v) (f v) m) vs m) (rs_name v) = Some (f v)"
proof (induction vs arbitrary: m)
  case (Cons x vs)
  have other: "k \<notin> rs_name ` set vs \<Longrightarrow> map_of (fold (\<lambda>v m. aput (rs_name v) (f v) m) vs m) k = map_of m k" for k m
    by (induction vs arbitrary: m) auto
  from Cons show ?case by (cases "v = x") (auto simp: other)
qed simp

lemma attaching_record_at:
  "distinct (map rs_name chosen) \<Longrightarrow> v \<in> set chosen \<Longrightarrow>
     (rs_name v, attach_actions ask catalogue message sticky v) \<in> set (attaching_record ask catalogue message sticky chosen)"
  unfolding attaching_record_def by (rule map_of_SomeD) (rule recorded_at)

text \<open>What a server exposes.\<close>

definition exposes :: "remote_server \<Rightarrow> string \<Rightarrow> bool" where
  "exposes s action = (case rs_enabledTools s of None \<Rightarrow> True | Some ts \<Rightarrow> action \<in> set ts)"

definition bare :: "remote_server \<Rightarrow> remote_server" where
  "bare s = s\<lparr>rs_enabledTools := None\<rparr>"

lemma bare_with_tools [simp]: "bare (with_tools s ts) = bare s"
  by (simp add: bare_def with_tools_def)

lemma exposes_with_tools: "exposes (with_tools s ts) a \<longleftrightarrow> ts = [] \<or> a \<in> set ts"
  by (simp add: exposes_def with_tools_def)

definition recorded_apps ::
  "redis_calls \<Rightarrow> ask \<Rightarrow> catalogue \<Rightarrow> string \<Rightarrow> remote_server list \<Rightarrow> tool_spec list \<Rightarrow> uuid \<Rightarrow> string \<Rightarrow> time \<Rightarrow> kv \<Rightarrow> attached_apps" where
  "recorded_apps up ask catalogue message servers localTools ws c now s =
    (let sticky = attached_get (rc_get up) ws c now s;
         chosen = filter (\<lambda>v. rs_name v \<in> set (chosen_names ask message servers localTools sticky)) servers
     in merge_apps (attached_get (rc_merge_get up) ws c now s) (attaching_record ask catalogue message sticky chosen))"

lemma attachServers_in_conversation:
  assumes "c \<noteq> []" and "chosen_names ask message servers localTools (attached_get (rc_get up) ws c now s) \<noteq> []"
  shows "fst (attachServers up ask catalogue message servers localTools ws (Some c) branch now s)
    = (let merged = recorded_apps up ask catalogue message servers localTools ws c now s
       in map (\<lambda>v. with_tools v (the (map_of merged (rs_name v)))) (filter (sticky_in merged) servers))"
  using assms by (simp add: attachServers_def present_def recorded_apps_def attached_merge_def Let_def)

section \<open>What a run is given\<close>

lemma sent_are_servers: "subseq (map bare (fst (attachServers up ask catalogue message servers localTools ws conversation branch now s))) (map bare servers)"
proof -
  have f: "subseq (map bare (map (\<lambda>v. with_tools v (g v)) (filter P servers))) (map bare servers)" for g P
    by (simp add: comp_def subseq_map subseq_filter_left)
  show ?thesis
    by (simp add: attachServers_def Let_def split_beta subseq_map subseq_filter_left comp_def)
qed

lemma sticky_is_recorded:
  assumes "distinct (map rs_name servers)" "rc_get up" "v \<in> set servers" "sticky_in (attached_get True ws c now s) v"
  defines "sticky \<equiv> attached_get True ws c now s"
  shows "map_of (recorded_apps up ask catalogue message servers localTools ws c now s) (rs_name v)
      = map_of (merge_app (rs_name v, attach_actions ask catalogue message sticky v) (attached_get (rc_merge_get up) ws c now s)) (rs_name v)"
    and "sticky_in (recorded_apps up ask catalogue message servers localTools ws c now s) v"
proof -
  let ?chosen = "filter (\<lambda>v. rs_name v \<in> set (chosen_names ask message servers localTools sticky)) servers"
  have v: "v \<in> set ?chosen" using assms(3,4) by (auto simp: chosen_names_def sticky_def Let_def)
  have d: "distinct (map rs_name ?chosen)" using assms(1) by (rule distinct_map_filter)
  have r: "recorded_apps up ask catalogue message servers localTools ws c now s
      = merge_apps (attached_get (rc_merge_get up) ws c now s) (attaching_record ask catalogue message sticky ?chosen)"
    using assms(2) by (simp add: recorded_apps_def sticky_def Let_def)
  show "map_of (recorded_apps up ask catalogue message servers localTools ws c now s) (rs_name v)
      = map_of (merge_app (rs_name v, attach_actions ask catalogue message sticky v) (attached_get (rc_merge_get up) ws c now s)) (rs_name v)"
    unfolding r by (rule merge_apps_at[OF attaching_record_keys(2) attaching_record_at[OF d v]])
  show "sticky_in (recorded_apps up ask catalogue message servers localTools ws c now s) v"
    unfolding r sticky_in_def in_keys_merge_apps attaching_record_keys(1) using v by (auto intro: imageI)
qed

text \<open>A run is given a selection of the servers its member may use, in their order and with nothing but the exposed actions changed;
  and an app the conversation attached before is given to it again whatever the router answers: an app attached
  whole stays whole, and every action it had is still exposed while the union fits the ceiling of 24.\<close>

theorem attached_apps_stay:
  assumes "distinct (map rs_name servers)" and "c \<noteq> []" and "rc_get up" and "rc_merge_get up"
    and "attached_ok (attached_get True ws c now s)"
    and "attachServers up ask catalogue message servers localTools ws (Some c) branch now s = (sent, s')"
  shows "subseq (map bare sent) (map bare servers)
    \<and> (\<forall>v \<in> set servers. \<forall>before. map_of (attached_get True ws c now s) (rs_name v) = Some before \<longrightarrow>
        (\<exists>w \<in> set sent. bare w = bare v
           \<and> (before = [] \<longrightarrow> rs_enabledTools w = None)
           \<and> (card (set before \<union> set (attach_actions ask catalogue message (attached_get True ws c now s) v)) \<le> 24
                \<longrightarrow> (\<forall>a \<in> set before. exposes w a))))"
proof (intro conjI ballI allI impI)
  from sent_are_servers[of up ask catalogue message servers localTools ws "Some c" branch now s]
  show "subseq (map bare sent) (map bare servers)" using assms(6) by simp
next
  fix v before
  let ?sticky = "attached_get True ws c now s"
  let ?merged = "recorded_apps up ask catalogue message servers localTools ws c now s"
  let ?acts = "attach_actions ask catalogue message ?sticky v"
  assume v: "v \<in> set servers" and b: "map_of ?sticky (rs_name v) = Some before"
  have st: "sticky_in ?sticky v" using map_of_SomeD[OF b] by (force simp: sticky_in_def)
  note rec = sticky_is_recorded[OF assms(1,3) v st, of ask catalogue message localTools]
  have "chosen_names ask message servers localTools (attached_get (rc_get up) ws c now s) \<noteq> []"
    using v st assms(3) by (auto simp: chosen_names_def Let_def filter_empty_conv)
  from attachServers_in_conversation[OF assms(2) this, of catalogue branch] assms(6)
  have sent: "sent = map (\<lambda>v. with_tools v (the (map_of ?merged (rs_name v)))) (filter (sticky_in ?merged) servers)"
    by (simp add: Let_def)
  let ?w = "with_tools v (the (map_of ?merged (rs_name v)))"
  have w: "?w \<in> set sent" unfolding sent using v rec(2) by simp
  have m: "map_of ?merged (rs_name v) = map_of (merge_app (rs_name v, ?acts) ?sticky) (rs_name v)"
    using rec(1) assms(4) by simp
  show "\<exists>w \<in> set sent. bare w = bare v \<and> (before = [] \<longrightarrow> rs_enabledTools w = None)
     \<and> (card (set before \<union> set ?acts) \<le> 24 \<longrightarrow> (\<forall>a \<in> set before. exposes w a))"
  proof (intro bexI[of _ ?w] conjI impI ballI w)
    show "bare ?w = bare v" by simp
    show "rs_enabledTools ?w = None" if "before = []" using b that by (simp add: m merge_app_at with_tools_def)
  next
    fix a assume c: "card (set before \<union> set ?acts) \<le> 24" and a: "a \<in> set before"
    show "exposes ?w a"
    proof (cases "?acts = []")
      case True
      then show ?thesis by (simp add: m merge_app_at exposes_with_tools)
    next
      case False
      from a have "before \<noteq> []" by auto
      from merge_app_grows[OF assms(5) b this False c] obtain new where
        "map_of (merge_app (rs_name v, ?acts) ?sticky) (rs_name v) = Some (before @ new)" by blast
      with a show ?thesis unfolding m exposes_with_tools by simp
    qed
  qed
qed

definition sample_servers :: "remote_server list" where
  "sample_servers = [\<lparr>rs_appSlug = ''gmail'', rs_name = ''p-w-gmail'', rs_url = ''u1'', rs_authorizationToken = None, rs_enabledTools = None\<rparr>,
     \<lparr>rs_appSlug = ''ads'', rs_name = ''p-w-ads'', rs_url = ''u2'', rs_authorizationToken = None, rs_enabledTools = None\<rparr>]"

lemma attached_apps_stay_witness:
  "let s = attached_write True ''w'' ''t'' [(''p-w-ads'', [''list''])] 0 empty_kv;
       up = \<lparr>rc_get = True, rc_merge_get = True, rc_merge_set = True, rc_branch = True\<rparr> in
     (\<exists>v \<in> set sample_servers. rs_appSlug v = ''ads''
       \<and> (\<exists>w \<in> set (fst (attachServers up (\<lambda>_ _. None) (\<lambda>_. None) ''and now?'' sample_servers [] ''w'' (Some ''t'') None 5 s)).
            bare w = bare v \<and> exposes w ''list''))"
proof -
  define s where "s = attached_write True ''w'' ''t'' [(''p-w-ads'', [''list''])] 0 empty_kv"
  define up where "up = \<lparr>rc_get = True, rc_merge_get = True, rc_merge_set = True, rc_branch = True\<rparr>"
  have g: "attached_get True ''w'' ''t'' 5 s = [(''p-w-ads'', [''list''])]"
    unfolding s_def by (rule get_after_write) simp_all
  obtain sent s' where r: "attachServers up (\<lambda>_ _. None) (\<lambda>_. None) ''and now?'' sample_servers [] ''w'' (Some ''t'') None 5 s = (sent, s')"
    by fastforce
  let ?v = "sample_servers ! Suc 0"
  have v: "?v \<in> set sample_servers" "rs_appSlug ?v = ''ads''" "rs_name ?v = ''p-w-ads''"
    unfolding sample_servers_def by simp_all
  have d: "distinct (map rs_name sample_servers)" by (simp add: sample_servers_def)
  have ok: "attached_ok (attached_get True ''w'' ''t'' 5 s)" by (simp add: g attached_ok_def MAX_ACTIONS_PER_APP_def)
  have up: "rc_get up" "rc_merge_get up" by (simp_all add: up_def)
  have acts: "attach_actions (\<lambda>_ _. None) (\<lambda>_. None) ''and now?'' [(''p-w-ads'', [''list''])] ?v = [''list'']"
    by (simp add: attach_actions_def v(3) appActions_def)
  from attached_apps_stay[OF d _ up ok r, THEN conjunct2, rule_format, OF _ v(1), of "[''list'']"]
  obtain w where "w \<in> set sent" "bare w = bare ?v" "exposes w ''list''" by (auto simp: g v(3) acts)
  with v r show ?thesis unfolding Let_def s_def[symmetric] up_def[symmetric] by auto
qed

end
