(* ===== verification/BridgeFacts.thy ===== *)
theory BridgeFacts
  imports Bridge
begin

text \<open>
  What \<open>Bridge\<close> guarantees: a free name is always found and fits the providers' rules, the toolset is
  bounded, fair to every app and routes each of its tools to the server that listed it.
\<close>

section \<open>Free names\<close>

fun name_at :: "string \<Rightarrow> nat \<Rightarrow> nat \<Rightarrow> string" where
  "name_at name k 0 = name"
| "name_at name k (Suc i) = name_at (numbered name k) (Suc k) i"

lemma numbered_inj:
  assumes "numbered m a = numbered n b" shows "a = b"
proof -
  have t: "takeWhile is_digit (rev (numbered x k)) = rev (show_nat k)" for x k
  proof -
    have u: "\<not> is_digit (CHR ''_'')" by (simp add: is_digit_def)
    have "rev (numbered x k) = rev (show_nat k) @ CHR ''_'' # rev (take (MAX_TOOL_NAME_LENGTH - length (CHR ''_'' # show_nat k)) x)"
      by (simp add: numbered_def)
    moreover have "takeWhile is_digit (rev (show_nat k) @ CHR ''_'' # ys) = rev (show_nat k)" for ys
      using u show_nat_digits by (subst takeWhile_append2) auto
    ultimately show ?thesis by simp
  qed
  from arg_cong[OF assms, of "\<lambda>x. takeWhile is_digit (rev x)"] have "show_nat a = show_nat b" by (simp add: t)
  then show ?thesis by (simp add: show_nat_inj)
qed

lemma name_at_numbered: "\<exists>m. name_at name k (Suc i) = numbered m (k + i)"
proof (induction i arbitrary: name k)
  case (Suc i)
  from Suc.IH[of "numbered name k" "Suc k"] show ?case by simp
qed auto

lemma name_at_inj: "name_at name k (Suc i) = name_at name k (Suc j) \<Longrightarrow> i = j"
proof -
  assume e: "name_at name k (Suc i) = name_at name k (Suc j)"
  obtain m n where "name_at name k (Suc i) = numbered m (k + i)" "name_at name k (Suc j) = numbered n (k + j)"
    using name_at_numbered by metis
  with e have "numbered m (k + i) = numbered n (k + j)" by simp
  from numbered_inj[OF this] show "i = j" by simp
qed

lemma some_name_free:
  assumes "finite taken" shows "\<exists>i \<le> Suc (card taken). name_at name k i \<notin> taken"
proof (rule ccontr)
  assume "\<not> ?thesis"
  then have "(\<lambda>i. name_at name k (Suc i)) ` {..card taken} \<subseteq> taken" by auto
  from card_mono[OF assms this] have "card ((\<lambda>i. name_at name k (Suc i)) ` {..card taken}) \<le> card taken" .
  moreover have "inj_on (\<lambda>i. name_at name k (Suc i)) {..card taken}" by (rule inj_onI) (rule name_at_inj)
  then have "card ((\<lambda>i. name_at name k (Suc i)) ` {..card taken}) = Suc (card taken)" by (simp add: card_image)
  ultimately show False by simp
qed

lemma free_name_reaches:
  "name_at name k i \<notin> taken \<Longrightarrow> \<exists>j \<le> i. free_name taken name k = Some (name_at name k j) \<and> name_at name k j \<notin> taken"
proof (induction i arbitrary: name k)
  case 0
  then show ?case by (subst free_name.simps) simp
next
  case (Suc i)
  show ?case
  proof (cases "name \<in> taken")
    case True
    from Suc.IH[of "numbered name k" "Suc k"] Suc.prems obtain j where "j \<le> i"
      "free_name taken (numbered name k) (Suc k) = Some (name_at (numbered name k) (Suc k) j)"
      "name_at (numbered name k) (Suc k) j \<notin> taken" by auto
    with True show ?thesis by (intro exI[of _ "Suc j"]) (subst free_name.simps, simp)
  next
    case False
    then show ?thesis by (intro exI[of _ 0]) (subst free_name.simps, simp)
  qed
qed

text \<open>The rules of the providers for a tool's name.\<close>

definition legal_name :: "string \<Rightarrow> bool" where
  "legal_name n \<longleftrightarrow> length n \<le> 64 \<and> (\<forall>c \<in> set n. name_char c)"

lemma show_nat_short: "k < 1000 \<Longrightarrow> length (show_nat k) \<le> 3"
proof -
  assume "k < 1000"
  then have "k div 10 < 100" "k div 10 div 10 < 10" by auto
  then show ?thesis by (subst show_nat.simps, subst show_nat.simps, subst show_nat.simps) simp
qed

lemma legal_numbered: "legal_name n \<Longrightarrow> k < 1000 \<Longrightarrow> legal_name (numbered n k)"
proof -
  assume n: "legal_name n" and k: "k < 1000"
  have d: "name_char c" if "c \<in> set (show_nat k)" for c using show_nat_digits[OF that] by (simp add: name_char_def)
  from n show_nat_short[OF k] d show ?thesis
    by (auto simp: legal_name_def numbered_def Let_def MAX_TOOL_NAME_LENGTH_def name_char_def dest: in_set_takeD)
qed

lemma legal_name_at: "legal_name n \<Longrightarrow> k + i \<le> 1000 \<Longrightarrow> legal_name (name_at n k i)"
  by (induction i arbitrary: n k) (simp_all add: legal_numbered)

lemma sanitize_legal: "\<forall>c \<in> set (sanitize s). name_char c"
  by (auto simp: sanitize_def name_char_def)

lemma free_name_found:
  assumes "finite taken" and "card taken \<le> 200"
  shows "\<exists>n. exposedName slug remote taken = Some n \<and> n \<notin> taken \<and> legal_name n"
proof -
  let ?n = "take MAX_TOOL_NAME_LENGTH (sanitize slug @ ''__'' @ sanitize remote)"
  have l: "legal_name ?n" using sanitize_legal[of slug] sanitize_legal[of remote]
    by (auto simp: legal_name_def MAX_TOOL_NAME_LENGTH_def name_char_def dest!: in_set_takeD)
  from some_name_free[OF assms(1), of ?n 2] obtain i where i: "i \<le> Suc (card taken)" "name_at ?n 2 i \<notin> taken" by blast
  from free_name_reaches[OF i(2)] obtain j where j: "j \<le> i" "free_name taken ?n 2 = Some (name_at ?n 2 j)" "name_at ?n 2 j \<notin> taken" by blast
  have "legal_name (name_at ?n 2 j)" using i(1) j(1) assms(2) by (intro legal_name_at l) simp
  with j show ?thesis by (simp add: exposedName_def)
qed

section \<open>Turns\<close>

definition routes_to :: "queues \<Rightarrow> bridged_tool \<Rightarrow> bool" where
  "routes_to listings t \<longleftrightarrow> (\<exists>tools. (bt_server t, tools) \<in> set listings \<and> bt_remoteName t \<in> tl_name ` set tools)"

definition toolset_ok :: "queues \<Rightarrow> bridged_toolset \<Rightarrow> bool" where
  "toolset_ok listings ts \<longleftrightarrow> length (bs_tools ts) \<le> 200
     \<and> map fst (bs_byExposedName ts) = map tl_name (bs_tools ts) \<and> distinct (map tl_name (bs_tools ts))
     \<and> (\<forall>t \<in> set (bs_tools ts). legal_name (tl_name t))
     \<and> (\<forall>(n, t) \<in> set (bs_byExposedName ts). bt_exposedName t = n \<and> routes_to listings t)
     \<and> distinct (bs_apps ts) \<and> set (bs_apps ts) = (\<lambda>(n, t). rs_appSlug (bt_server t)) ` set (bs_byExposedName ts)"

definition drawn_from :: "queues \<Rightarrow> queues \<Rightarrow> bool" where
  "drawn_from listings qs \<longleftrightarrow> (\<forall>(v, remaining) \<in> set qs. \<exists>tools. (v, tools) \<in> set listings \<and> set remaining \<subseteq> set tools)"

definition served :: "bridged_toolset \<Rightarrow> remote_server set" where
  "served ts = (\<lambda>(n, t). bt_server t) ` set (bs_byExposedName ts)"

lemma aput_new: "k \<notin> fst ` set m \<Longrightarrow> aput k v m = m @ [(k, v)]"
  by (induction m) auto

lemma add_tool_ok:
  assumes "toolset_ok listings ts" "length (bs_tools ts) < 200" "n \<notin> fst ` set (bs_byExposedName ts)" "legal_name n"
    and "(server, tools) \<in> set listings" "remote \<in> set tools"
  shows "toolset_ok listings (add_tool server remote n ts) \<and> served (add_tool server remote n ts) = insert server (served ts)"
proof -
  have n: "n \<notin> tl_name ` set (bs_tools ts)"
    using assms(1,3) by (metis list.set_map toolset_ok_def)
  have r: "routes_to listings \<lparr>bt_exposedName = n, bt_remoteName = tl_name remote, bt_server = server\<rparr>"
    using assms(5,6) by (auto simp: routes_to_def)
  show ?thesis
    using assms(1,2,4) n r unfolding toolset_ok_def add_tool_def served_def aput_new[OF assms(3)] by auto
qed

lemma finite_taken: "toolset_ok listings ts \<Longrightarrow> card (fst ` set (bs_byExposedName ts)) \<le> 200"
proof -
  assume ok: "toolset_ok listings ts"
  then have e: "map fst (bs_byExposedName ts) = map tl_name (bs_tools ts)" and l: "length (bs_tools ts) \<le> 200" by (simp_all add: toolset_ok_def)
  from card_length[of "map fst (bs_byExposedName ts)"] have "card (fst ` set (bs_byExposedName ts)) \<le> length (map tl_name (bs_tools ts))"
    unfolding e[symmetric] by simp
  with l show ?thesis by simp
qed

lemma take_turn_ok:
  "toolset_ok listings ts \<Longrightarrow> drawn_from listings qs \<Longrightarrow> \<exists>qs' ts'. take_turn qs ts = Some (qs', ts')
     \<and> toolset_ok listings ts' \<and> drawn_from listings qs' \<and> served ts \<subseteq> served ts'
     \<and> (length (bs_tools ts) + length qs \<le> 200 \<longrightarrow> (\<forall>(v, remaining) \<in> set qs. remaining \<noteq> [] \<longrightarrow> v \<in> served ts'))"
proof (induction qs ts rule: take_turn.induct)
  case (2 server remaining qs ts)
  show ?case
  proof (cases "MAX_CANDIDATE_TOOLS \<le> length (bs_tools ts)")
    case True
    with "2.prems" show ?thesis by (auto simp: MAX_CANDIDATE_TOOLS_def)
  next
    case False
    then have lt: "length (bs_tools ts) < 200" by (simp add: MAX_CANDIDATE_TOOLS_def)
    have d: "drawn_from listings qs" using "2.prems"(2) by (simp add: drawn_from_def)
    show ?thesis
    proof (cases remaining)
      case Nil
      from "2.IH"(1)[OF False Nil "2.prems"(1) d] False Nil "2.prems"(2) show ?thesis by (fastforce simp: drawn_from_def)
    next
      case (Cons remote rest)
      obtain tools where tools: "(server, tools) \<in> set listings" "set remaining \<subseteq> set tools"
        using "2.prems"(2) by (auto simp: drawn_from_def)
      obtain n where n: "exposedName (rs_appSlug server) (tl_name remote) (fst ` set (bs_byExposedName ts)) = Some n"
        "n \<notin> fst ` set (bs_byExposedName ts)" "legal_name n"
        using free_name_found[OF _ finite_taken[OF "2.prems"(1)]] by (metis List.finite_set finite_imageI)
      have rm: "remote \<in> set tools" using tools(2) Cons by simp
      from add_tool_ok[OF "2.prems"(1) lt n(2,3) tools(1) rm]
      have a: "toolset_ok listings (add_tool server remote n ts)" "served (add_tool server remote n ts) = insert server (served ts)" by simp_all
      from "2.IH"(2)[OF False Cons n(1) a(1) d] obtain qs' ts' where r: "take_turn qs (add_tool server remote n ts) = Some (qs', ts')"
        "toolset_ok listings ts'" "drawn_from listings qs'" "insert server (served ts) \<subseteq> served ts'"
        "Suc (length (bs_tools ts)) + length qs \<le> 200 \<longrightarrow> (\<forall>(v, remaining) \<in> set qs. remaining \<noteq> [] \<longrightarrow> v \<in> served ts')"
        by (auto simp: a(2))
      have t: "take_turn ((server, remaining) # qs) ts = Some ((server, rest) # qs', ts')" using False Cons n(1) r(1) by simp
      have "drawn_from listings ((server, rest) # qs')" using r(3) tools Cons by (auto simp: drawn_from_def)
      with t r(2,4,5) show ?thesis by auto
    qed
  qed
qed (simp add: drawn_from_def)

lemma build_loop_ok:
  "toolset_ok listings ts \<Longrightarrow> drawn_from listings qs \<Longrightarrow> \<exists>ts'. build_loop qs ts = Some ts' \<and> toolset_ok listings ts'
     \<and> served ts \<subseteq> served ts' \<and> length (bs_tools ts') = min 200 (length (bs_tools ts) + waiting qs)
     \<and> (length (bs_tools ts) + length qs \<le> 200 \<longrightarrow> (\<forall>(v, remaining) \<in> set qs. remaining \<noteq> [] \<longrightarrow> v \<in> served ts'))"
proof (induction qs ts rule: build_loop.induct)
  case (1 qs ts)
  show ?case
  proof (cases "length (bs_tools ts) < MAX_CANDIDATE_TOOLS \<and> (\<exists>q \<in> set qs. snd q \<noteq> [])")
    case True
    from take_turn_ok[OF "1.prems"] obtain qs1 ts1 where t: "take_turn qs ts = Some (qs1, ts1)"
      "toolset_ok listings ts1" "drawn_from listings qs1" "served ts \<subseteq> served ts1"
      "length (bs_tools ts) + length qs \<le> 200 \<longrightarrow> (\<forall>(v, remaining) \<in> set qs. remaining \<noteq> [] \<longrightarrow> v \<in> served ts1)" by blast
    from "1.IH"[OF True t(1), unfolded fst_conv snd_conv, OF t(2,3)] obtain ts' where r: "build_loop qs1 ts1 = Some ts'" "toolset_ok listings ts'"
      "served ts1 \<subseteq> served ts'" "length (bs_tools ts') = min 200 (length (bs_tools ts1) + waiting qs1)" by blast
    have b: "build_loop qs ts = Some ts'" using True t(1) r(1) by (subst build_loop.simps) simp
    have c: "length (bs_tools ts1) + waiting qs1 = length (bs_tools ts) + waiting qs" using take_turn_count[OF t(1)] by simp
    have "length (bs_tools ts') = min 200 (length (bs_tools ts) + waiting qs)" using r(4) c by simp
    with b r(2,3) t(4,5) show ?thesis by blast
  next
    case False
    have b: "build_loop qs ts = Some ts" unfolding build_loop.simps[of qs ts] if_not_P[OF False] ..
    have l: "length (bs_tools ts) \<le> 200" using "1.prems"(1) by (simp add: toolset_ok_def)
    show ?thesis
    proof (cases "length (bs_tools ts) < MAX_CANDIDATE_TOOLS")
      case True
      with False have e: "\<forall>q \<in> set qs. snd q = []" by blast
      then have "waiting qs = 0" by (simp add: waiting_zero)
      with b l "1.prems"(1) e show ?thesis by auto
    next
      case f: False
      with l have "length (bs_tools ts) = 200" by (simp add: MAX_CANDIDATE_TOOLS_def)
      with b "1.prems"(1) show ?thesis by (cases qs) auto
    qed
  qed
qed

section \<open>The toolset of a run\<close>

text \<open>C24: Bridging always comes back with a toolset: of at most 200 tools and no fewer than the apps list up to there, under distinct names
  the providers accept; every tool can be called and goes to a server that listed it under that name; and of up
  to 200 connected apps none that lists a tool is left out.\<close>

theorem bridge_builds_toolset:
  "\<exists>ts. toolset_of listings = Some ts
     \<and> length (bs_tools ts) = min 200 (waiting listings)
     \<and> distinct (map tl_name (bs_tools ts)) \<and> (\<forall>t \<in> set (bs_tools ts). legal_name (tl_name t) \<and> has_tool ts (tl_name t))
     \<and> (\<forall>(n, t) \<in> set (bs_byExposedName ts). routes_to listings t)
     \<and> set (bs_apps ts) = (\<lambda>(n, t). rs_appSlug (bt_server t)) ` set (bs_byExposedName ts)
     \<and> (length (filter (\<lambda>l. snd l \<noteq> []) listings) \<le> 200 \<longrightarrow>
          (\<forall>(v, tools) \<in> set listings. tools \<noteq> [] \<longrightarrow> v \<in> served ts))"
proof -
  let ?qs = "filter (\<lambda>l. snd l \<noteq> []) listings"
  have e: "toolset_ok listings empty_toolset" by (simp add: toolset_ok_def empty_toolset_def)
  have w: "drawn_from listings ?qs" by (auto simp: drawn_from_def)
  have n: "waiting ?qs = waiting listings" by (induction listings) auto
  from build_loop_ok[OF e w] obtain ts where ts: "build_loop ?qs empty_toolset = Some ts" "toolset_ok listings ts"
    "length (bs_tools ts) = min 200 (waiting ?qs)"
    "length ?qs \<le> 200 \<longrightarrow> (\<forall>(v, remaining) \<in> set ?qs. remaining \<noteq> [] \<longrightarrow> v \<in> served ts)"
    by (auto simp: empty_toolset_def)
  from ts(2) have k: "fst ` set (bs_byExposedName ts) = tl_name ` set (bs_tools ts)"
    by (metis list.set_map toolset_ok_def)
  have "length ?qs \<le> 200 \<longrightarrow> (\<forall>(v, tools) \<in> set listings. tools \<noteq> [] \<longrightarrow> v \<in> served ts)" using ts(4) by fastforce
  moreover have "\<forall>t \<in> set (bs_tools ts). legal_name (tl_name t) \<and> has_tool ts (tl_name t)"
    using ts(2) k by (auto simp: toolset_ok_def has_tool_def)
  ultimately show ?thesis using ts(1-3) n by (intro exI[of _ ts]) (auto simp: toolset_of_def toolset_ok_def)
qed

lemma keep_tools:
  "(\<forall>t \<in> set tools. tl_name t \<in> fst ` set (bs_byExposedName ts)) \<Longrightarrow>
     fst ` set (bs_byExposedName (fold (keep_tool ts) tools acc)) = fst ` set (bs_byExposedName acc) \<union> tl_name ` set tools
     \<and> bs_tools (fold (keep_tool ts) tools acc) = bs_tools acc"
proof (induction tools arbitrary: acc)
  case (Cons t tools)
  then obtain r where r: "map_of (bs_byExposedName ts) (tl_name t) = Some r"
    by (metis list.set_intros(1) map_of_eq_None_iff not_None_eq)
  from Cons.IH[of "keep_tool ts t acc"] Cons.prems r show ?case by (auto simp: keep_tool_def)
qed simp

lemma kept_routing:
  "map_of (bs_byExposedName (fold (keep_tool ts) tools acc)) n =
     (if n \<in> tl_name ` set tools \<and> map_of (bs_byExposedName ts) n \<noteq> None then map_of (bs_byExposedName ts) n
      else map_of (bs_byExposedName acc) n)"
proof (induction tools arbitrary: acc)
  case (Cons t tools)
  show ?case unfolding fold_simps Cons.IH by (auto simp: keep_tool_def split: option.split)
qed simp

text \<open>What the router leaves of a toolset and what the final cap keeps can all be called: the tools sent are at most 60, each is
  executable, a name that was not sent is unknown, and a call still goes to the server the full toolset
  routed it to.\<close>

theorem narrowed_toolset_agrees:
  assumes "toolset_of listings = Some ts"
    and "bs = narrowTo ts (case selectRelevant ask message (bs_tools ts) of None \<Rightarrow> bs_tools ts | Some kept \<Rightarrow> kept) MAX_BRIDGED_TOOLS"
  shows "length (bs_tools bs) \<le> 60 \<and> set (bs_tools bs) \<subseteq> set (bs_tools ts)
    \<and> (\<forall>n. has_tool bs n \<longleftrightarrow> n \<in> tl_name ` set (bs_tools bs))
    \<and> (\<forall>n input. has_tool bs n \<longrightarrow> call_bridged executed bs n input = call_bridged executed ts n input)
    \<and> (\<forall>n input. \<not> has_tool bs n \<longrightarrow> br_isError (call_bridged executed bs n input))"
proof -
  let ?keep = "case selectRelevant ask message (bs_tools ts) of None \<Rightarrow> bs_tools ts | Some kept \<Rightarrow> kept"
  let ?tools = "take MAX_BRIDGED_TOOLS ?keep"
  have e: "toolset_ok listings empty_toolset" by (simp add: toolset_ok_def empty_toolset_def)
  have w: "drawn_from listings (filter (\<lambda>l. snd l \<noteq> []) listings)" by (auto simp: drawn_from_def)
  from build_loop_ok[OF e w] assms(1) have ok: "toolset_ok listings ts" by (auto simp: toolset_of_def)
  from ok have k: "fst ` set (bs_byExposedName ts) = tl_name ` set (bs_tools ts)" by (metis list.set_map toolset_ok_def)
  have sub: "set ?keep \<subseteq> set (bs_tools ts)"
    by (auto simp: selectRelevant_def split: option.splits if_splits dest: chosen_tools_subseq)
  then have sub': "set ?tools \<subseteq> set (bs_tools ts)" by (auto dest: in_set_takeD)
  then have all: "\<forall>t \<in> set ?tools. tl_name t \<in> fst ` set (bs_byExposedName ts)" unfolding k by blast
  let ?acc = "\<lparr>bs_byExposedName = [], bs_apps = [], bs_tools = ?tools\<rparr>"
  have bs: "bs = fold (keep_tool ts) ?tools ?acc" using assms(2) by (simp add: narrowTo_def Let_def)
  from keep_tools[OF all, of ?acc] have t: "bs_tools bs = ?tools" and h: "fst ` set (bs_byExposedName bs) = tl_name ` set ?tools"
    unfolding bs by simp_all
  have has: "has_tool bs n \<longleftrightarrow> n \<in> tl_name ` set (bs_tools bs)" for n by (simp add: has_tool_def h t)
  have route: "map_of (bs_byExposedName bs) n = map_of (bs_byExposedName ts) n" if "has_tool bs n" for n
  proof -
    from that have n: "n \<in> tl_name ` set ?tools" by (simp add: has t)
    with sub' have "n \<in> fst ` set (bs_byExposedName ts)" unfolding k by blast
    then have "map_of (bs_byExposedName ts) n \<noteq> None" by (simp add: map_of_eq_None_iff)
    with n show ?thesis unfolding bs kept_routing by simp
  qed
  have unk: "br_isError (call_bridged executed bs n input)" if "\<not> has_tool bs n" for n input
  proof -
    have "map_of (bs_byExposedName bs) n = None" using that by (simp add: has_tool_def map_of_eq_None_iff)
    then show ?thesis by (simp add: call_bridged_def)
  qed
  have "length ?tools \<le> 60" by (simp add: MAX_BRIDGED_TOOLS_def)
  with sub' t has unk route show ?thesis by (auto simp: call_bridged_def)
qed

definition sample_listing :: queues where
  "sample_listing = [(\<lparr>rs_appSlug = ''gmail'', rs_name = ''p-w-gmail'', rs_url = ''u1'', rs_authorizationToken = None, rs_enabledTools = None\<rparr>,
     [\<lparr>tl_name = ''send mail'', tl_description = None, tl_parameters = JNull\<rparr>])]"

definition sample_toolset :: bridged_toolset where
  "sample_toolset = \<lparr>bs_byExposedName = [(''gmail__send_mail'', \<lparr>bt_exposedName = ''gmail__send_mail'', bt_remoteName = ''send mail'',
       bt_server = fst (hd sample_listing)\<rparr>)], bs_apps = [''gmail''],
     bs_tools = [\<lparr>tl_name = ''gmail__send_mail'', tl_description = None, tl_parameters = JNull\<rparr>]\<rparr>"

lemma narrowed_toolset_agrees_witness:
  "toolset_of sample_listing = Some sample_toolset
   \<and> has_tool (narrowTo sample_toolset (bs_tools sample_toolset) MAX_BRIDGED_TOOLS) ''gmail__send_mail''
   \<and> call_bridged (\<lambda>s n i. Inr (Blocks [TextBlock n] False)) (narrowTo sample_toolset (bs_tools sample_toolset) MAX_BRIDGED_TOOLS)
       ''gmail__send_mail'' JNull = \<lparr>br_content = ''send mail'', br_isError = False\<rparr>"
proof -
  let ?bs = "narrowTo sample_toolset (bs_tools sample_toolset) MAX_BRIDGED_TOOLS"
  have t: "toolset_of sample_listing = Some sample_toolset" by code_simp
  have r: "selectRelevant (\<lambda>_ _. None) ''hi'' (bs_tools sample_toolset) = None" by code_simp
  have b: "?bs = narrowTo sample_toolset (case selectRelevant (\<lambda>_ _. None) ''hi'' (bs_tools sample_toolset) of None \<Rightarrow> bs_tools sample_toolset | Some kept \<Rightarrow> kept) MAX_BRIDGED_TOOLS"
    by (simp add: r)
  note all = narrowed_toolset_agrees[OF t b]
  have h: "has_tool ?bs ''gmail__send_mail''" by code_simp
  have c: "call_bridged (\<lambda>s n i. Inr (Blocks [TextBlock n] False)) sample_toolset ''gmail__send_mail'' JNull = \<lparr>br_content = ''send mail'', br_isError = False\<rparr>"
    by code_simp
  from all[THEN conjunct2, THEN conjunct2, THEN conjunct2, THEN conjunct1] h c t show ?thesis by metis
qed

lemma bridge_builds_toolset_witness:
  "toolset_of sample_listing = Some sample_toolset \<and> distinct (map tl_name (bs_tools sample_toolset))
   \<and> fst (hd sample_listing) \<in> served sample_toolset"
proof -
  have t: "toolset_of sample_listing = Some sample_toolset" by code_simp
  have few: "length (filter (\<lambda>l. snd l \<noteq> []) sample_listing) \<le> 200" by code_simp
  have first: "fst (hd sample_listing) \<in> fst ` set sample_listing \<and> snd (hd sample_listing) \<noteq> [] \<and> hd sample_listing \<in> set sample_listing"
    by (simp add: sample_listing_def)
  from bridge_builds_toolset[of sample_listing] t few
  have "distinct (map tl_name (bs_tools sample_toolset))"
    "\<forall>(v, tools) \<in> set sample_listing. tools \<noteq> [] \<longrightarrow> v \<in> served sample_toolset" by auto
  with first t show ?thesis by (cases "hd sample_listing") auto
qed

end
