(* ===== verification/Memory.thy ===== *)
theory Memory
  imports Tables JsNumber JsValue
begin

text \<open>
  What Gaspo remembers: \<open>src/src/memory/workspace-memory.service.ts\<close> (durable facts of a workspace) and
  \<open>src/src/memory/messages.service.ts\<close> (the turns of a thread).  \<open>up\<close> says whether the database
  answers; where the services swallow its errors this is visible in the results.
\<close>

section \<open>Facts of a workspace\<close>

definition KEY_MAX_LENGTH :: nat where
  "KEY_MAX_LENGTH = 128"

definition VALUE_MAX_LENGTH :: nat where
  "VALUE_MAX_LENGTH = 2000"

definition PROMPT_BUDGET_CHARS :: nat where
  "PROMPT_BUDGET_CHARS = 4000"

record workspace_memory =
  wm_id :: uuid
  wm_workspaceId :: uuid
  wm_key :: string
  wm_value :: string
  wm_updatedByUserId :: "uuid option"
  wm_createdAt :: time
  wm_updatedAt :: time

text \<open>\<open>order: { updatedAt: 'DESC' }\<close>.\<close>

definition list_facts :: "uuid \<Rightarrow> workspace_memory list \<Rightarrow> workspace_memory list" where
  "list_facts ws rows = sort_key (\<lambda>f. - wm_updatedAt f) (filter (\<lambda>f. wm_workspaceId f = ws) rows)"

definition is_fact :: "uuid \<Rightarrow> string \<Rightarrow> workspace_memory \<Rightarrow> bool" where
  "is_fact ws key f \<longleftrightarrow> wm_workspaceId f = ws \<and> wm_key f = key"

text \<open>\<open>save\<close> of a loaded row writes the columns that changed, and the update time with them.\<close>

definition overwrite :: "time \<Rightarrow> uuid option \<Rightarrow> string \<Rightarrow> workspace_memory \<Rightarrow> workspace_memory" where
  "overwrite now user v f = (if wm_value f = v \<and> wm_updatedByUserId f = user then f
     else f\<lparr>wm_value := v, wm_updatedByUserId := user, wm_updatedAt := now\<rparr>)"

definition new_fact :: "uuid \<Rightarrow> time \<Rightarrow> uuid \<Rightarrow> uuid option \<Rightarrow> string \<Rightarrow> string \<Rightarrow> workspace_memory" where
  "new_fact i now ws user k v = \<lparr>wm_id = i, wm_workspaceId = ws, wm_key = k, wm_value = v,
     wm_updatedByUserId = user, wm_createdAt = now, wm_updatedAt = now\<rparr>"

definition remember ::
  "uuid \<Rightarrow> time \<Rightarrow> uuid \<Rightarrow> uuid option \<Rightarrow> string \<Rightarrow> string \<Rightarrow> workspace_memory list
     \<Rightarrow> workspace_memory result \<times> workspace_memory list" where
  "remember i now ws user key val rows =
    (let k = js_trim key; v = js_trim val in
     if k = [] \<or> KEY_MAX_LENGTH < length k
     then (Inl (PlainError (''Fact key must be 1-'' @ show_nat KEY_MAX_LENGTH @ '' characters'')), rows)
     else if v = [] \<or> VALUE_MAX_LENGTH < length v
     then (Inl (PlainError (''Fact value must be 1-'' @ show_nat VALUE_MAX_LENGTH @ '' characters'')), rows)
     else case List.find (is_fact ws k) rows of
       Some f \<Rightarrow> (let f' = overwrite now user v f in (Inr f', save_row wm_id f' rows))
     | None \<Rightarrow> (let f = new_fact i now ws user k v in (Inr f, rows @ [f])))"

definition forget :: "uuid \<Rightarrow> string \<Rightarrow> workspace_memory list \<Rightarrow> bool \<times> workspace_memory list" where
  "forget ws key rows = (\<exists>f \<in> set rows. is_fact ws (js_trim key) f, delete_where (is_fact ws (js_trim key)) rows)"

definition fact_line :: "workspace_memory \<Rightarrow> string" where
  "fact_line f = ''- '' @ wm_key f @ '': '' @ wm_value f"

text \<open>The loop of \<open>buildPromptBlock\<close>: it stops at the first line that does not fit.\<close>

fun budget_lines :: "nat \<Rightarrow> workspace_memory list \<Rightarrow> string list" where
  "budget_lines used [] = []"
| "budget_lines used (f # fs) = (let line = fact_line f in
     if PROMPT_BUDGET_CHARS < used + length line then [] else line # budget_lines (used + length line) fs)"

definition memory_heading :: string where
  "memory_heading = ''Workspace memory (durable facts saved in earlier conversations):''"

definition buildPromptBlock :: "bool \<Rightarrow> uuid \<Rightarrow> workspace_memory list \<Rightarrow> string option" where
  "buildPromptBlock up ws rows =
    (if \<not> up \<or> list_facts ws rows = [] then None
     else Some (memory_heading @ [CHR 0x0A] @ join [CHR 0x0A] (budget_lines 0 (list_facts ws rows))))"

section \<open>Turns of a thread\<close>

definition HISTORY_TURN_LIMIT :: nat where
  "HISTORY_TURN_LIMIT = 20"

definition TURN_CHAR_LIMIT :: nat where
  "TURN_CHAR_LIMIT = 4000"

datatype message_role = USER_TURN | ASSISTANT_TURN

record message_row =
  mg_id :: uuid
  mg_workspaceId :: uuid
  mg_userId :: "uuid option"
  mg_threadId :: string
  mg_role :: message_role
  mg_content :: string
  mg_createdAt :: time

record conversation_turn =
  cv_fromAssistant :: bool
  cv_content :: string

definition appendTurn ::
  "bool \<Rightarrow> uuid \<Rightarrow> time \<Rightarrow> uuid \<Rightarrow> string \<Rightarrow> uuid option \<Rightarrow> message_role \<Rightarrow> string \<Rightarrow> message_row list \<Rightarrow> message_row list" where
  "appendTurn up i now ws thread user role content rows =
    (if js_trim content = [] \<or> \<not> up then rows
     else rows @ [\<lparr>mg_id = i, mg_workspaceId = ws, mg_userId = user, mg_threadId = thread, mg_role = role,
       mg_content = content, mg_createdAt = now\<rparr>])"

definition clip_turn :: "string \<Rightarrow> string" where
  "clip_turn s = (if TURN_CHAR_LIMIT < length s then take TURN_CHAR_LIMIT s @ ''...'' else s)"

definition turn_of :: "message_row \<Rightarrow> conversation_turn" where
  "turn_of m = \<lparr>cv_fromAssistant = (mg_role m = ASSISTANT_TURN), cv_content = clip_turn (mg_content m)\<rparr>"

definition getThread :: "bool \<Rightarrow> uuid \<Rightarrow> string \<Rightarrow> nat \<Rightarrow> message_row list \<Rightarrow> conversation_turn list" where
  "getThread up ws thread limit rows = (if \<not> up then []
     else map turn_of (rev (newest limit (\<lambda>m. mg_workspaceId m = ws \<and> mg_threadId m = thread) rows)))"

section \<open>A store of keyed values as an interface\<close>

text \<open>
  What the memory tools rely on: every command writes at most one cell of a map from tenant and key to
  value.  \<open>admits\<close> is what a command needs of the state (a fresh id).
\<close>

type_synonym 'v cells = "uuid \<Rightarrow> string \<Rightarrow> 'v option"
type_synonym 'v cell_write = "(uuid \<times> string \<times> 'v option) option"

fun write_cell :: "'v cell_write \<Rightarrow> 'v cells \<Rightarrow> 'v cells" where
  "write_cell None m = m"
| "write_cell (Some (ws, k, v)) m = m(ws := (m ws)(k := v))"

locale cell_store =
  fixes cells :: "'s \<Rightarrow> 'v cells"
    and step :: "'c \<Rightarrow> 's \<Rightarrow> 's"
    and effect :: "'c \<Rightarrow> 'v cell_write"
    and admits :: "'c \<Rightarrow> 's \<Rightarrow> bool"
    and ok :: "'s \<Rightarrow> bool"
  assumes step_ok: "ok s \<Longrightarrow> admits c s \<Longrightarrow> ok (step c s)"
    and step_cells: "ok s \<Longrightarrow> admits c s \<Longrightarrow> cells (step c s) = write_cell (effect c) (cells s)"
begin

fun all_admitted :: "'c list \<Rightarrow> 's \<Rightarrow> bool" where
  "all_admitted [] s = True"
| "all_admitted (c # cs) s = (admits c s \<and> all_admitted cs (step c s))"

lemma run_ok: "ok s \<Longrightarrow> all_admitted cs s \<Longrightarrow> ok (fold step cs s)"
  by (induction cs arbitrary: s) (simp_all add: step_ok)

lemma run_cells:
  "ok s \<Longrightarrow> all_admitted cs s \<Longrightarrow> cells (fold step cs s) = fold (\<lambda>c. write_cell (effect c)) cs (cells s)"
  by (induction cs arbitrary: s) (simp_all add: step_ok step_cells)

text \<open>A tenant no command names keeps its cells.\<close>

lemma run_other_tenant:
  assumes "ok s" "all_admitted cs s" "\<And>c. c \<in> set cs \<Longrightarrow> (case effect c of None \<Rightarrow> True | Some (ws, _) \<Rightarrow> ws \<noteq> other)"
  shows "cells (fold step cs s) other = cells s other"
  using assms
proof (induction cs arbitrary: s)
  case (Cons c cs)
  from Cons.prems(3)[of c] have e: "write_cell (effect c) (cells s) other = cells s other"
    by (cases "effect c") (auto split: prod.splits)
  from Cons.IH[of "step c s"] Cons.prems have "cells (fold step cs (step c s)) other = cells (step c s) other"
    by (simp add: step_ok)
  then show ?case using Cons.prems e by (simp add: step_cells)
qed simp

end

section \<open>The facts are such a store\<close>

definition memory_ok :: "workspace_memory list \<Rightarrow> bool" where
  "memory_ok rows \<longleftrightarrow> distinct (map wm_id rows) \<and> distinct (map (\<lambda>f. (wm_workspaceId f, wm_key f)) rows)"

definition facts :: "workspace_memory list \<Rightarrow> string cells" where
  "facts rows ws k = map_option wm_value (List.find (is_fact ws k) rows)"

datatype memory_command =
    Remember uuid time uuid "uuid option" string string
  | Forget uuid string

fun memory_step :: "memory_command \<Rightarrow> workspace_memory list \<Rightarrow> workspace_memory list" where
  "memory_step (Remember i now ws user k v) rows = snd (remember i now ws user k v rows)"
| "memory_step (Forget ws k) rows = snd (forget ws k rows)"

text \<open>Whether a key and value pass \<open>remember\<close>'s checks.\<close>

definition storable :: "string \<Rightarrow> string \<Rightarrow> bool" where
  "storable k v \<longleftrightarrow> js_trim k \<noteq> [] \<and> length (js_trim k) \<le> 128 \<and> js_trim v \<noteq> [] \<and> length (js_trim v) \<le> 2000"

fun memory_effect :: "memory_command \<Rightarrow> string cell_write" where
  "memory_effect (Remember i now ws user k v) = (if storable k v then Some (ws, js_trim k, Some (js_trim v)) else None)"
| "memory_effect (Forget ws k) = Some (ws, js_trim k, None)"

fun memory_admits :: "memory_command \<Rightarrow> workspace_memory list \<Rightarrow> bool" where
  "memory_admits (Remember i now ws user k v) rows = (i \<notin> wm_id ` set rows)"
| "memory_admits (Forget ws k) rows = True"

lemma remember_refused: "\<not> storable k v \<Longrightarrow> remember i now ws user k v rows = (fst (remember i now ws user k v rows), rows)"
  by (auto simp: remember_def storable_def Let_def KEY_MAX_LENGTH_def VALUE_MAX_LENGTH_def)

lemma remember_known:
  "storable k v \<Longrightarrow> List.find (is_fact ws (js_trim k)) rows = Some f \<Longrightarrow>
     remember i now ws user k v rows = (Inr (overwrite now user (js_trim v) f), save_row wm_id (overwrite now user (js_trim v) f) rows)"
  by (simp add: remember_def storable_def Let_def KEY_MAX_LENGTH_def VALUE_MAX_LENGTH_def)

lemma remember_unknown:
  "storable k v \<Longrightarrow> List.find (is_fact ws (js_trim k)) rows = None \<Longrightarrow>
     remember i now ws user k v rows = (Inr (new_fact i now ws user (js_trim k) (js_trim v)), rows @ [new_fact i now ws user (js_trim k) (js_trim v)])"
  by (simp add: remember_def storable_def Let_def KEY_MAX_LENGTH_def VALUE_MAX_LENGTH_def)

lemma overwrite_simps [simp]:
  "wm_id (overwrite now user v f) = wm_id f" "wm_workspaceId (overwrite now user v f) = wm_workspaceId f"
  "wm_key (overwrite now user v f) = wm_key f" "wm_value (overwrite now user v f) = v"
  by (simp_all add: overwrite_def)

lemma is_fact_overwrite [simp]: "is_fact ws k (overwrite now user v f) = is_fact ws k f"
  by (simp add: is_fact_def)

lemma memory_ok_save:
  assumes "memory_ok rows" "f \<in> set rows"
  shows "memory_ok (save_row wm_id (overwrite now user v f) rows)"
proof -
  have u: "\<forall>x \<in> set rows. wm_id x = wm_id f \<longrightarrow> x = f"
    using assms by (auto simp: memory_ok_def dest: distinct_map_inj_on inj_onD)
  then have "map (\<lambda>f. (wm_workspaceId f, wm_key f)) (save_row wm_id (overwrite now user v f) rows) = map (\<lambda>f. (wm_workspaceId f, wm_key f)) rows"
    using assms(2) by (auto simp: save_row_def update_where_def)
  with assms show ?thesis by (simp add: memory_ok_def distinct_save_row)
qed

lemma find_map_invariant: "(\<And>x. P (g x) = P x) \<Longrightarrow> List.find P (map g xs) = map_option g (List.find P xs)"
  by (induction xs) auto

lemma fact_cell: "List.find (is_fact ws k) rows = Some f \<Longrightarrow> f \<in> set rows \<and> wm_workspaceId f = ws \<and> wm_key f = k"
  by (auto simp: is_fact_def dest: find_Some_iff_mem)

lemma facts_save:
  assumes ok: "memory_ok rows" and f: "List.find (is_fact ws k) rows = Some f"
  shows "facts (save_row wm_id (overwrite now user v f) rows) = (facts rows)(ws := (facts rows ws)(k := Some v))"
proof -
  have m: "f \<in> set rows" "wm_workspaceId f = ws" "wm_key f = k" using fact_cell[OF f] by auto
  have inj: "inj_on wm_id (set rows)" using ok by (simp add: memory_ok_def distinct_map)
  have u: "wm_id x = wm_id f \<longleftrightarrow> x = f" if "x \<in> set rows" for x
    using inj_on_eq_iff[OF inj that m(1)] .
  have "save_row wm_id (overwrite now user v f) rows = map (\<lambda>x. if wm_id x = wm_id f then overwrite now user v f else x) rows"
    using m(1) unfolding save_row_def update_where_def overwrite_simps by auto
  also have "\<dots> = map (\<lambda>x. if x = f then overwrite now user v f else x) rows"
    by (rule map_cong) (simp_all add: u)
  finally have s: "save_row wm_id (overwrite now user v f) rows = map (\<lambda>x. if x = f then overwrite now user v f else x) rows" .
  have find: "List.find (is_fact w key) (save_row wm_id (overwrite now user v f) rows)
      = map_option (\<lambda>x. if x = f then overwrite now user v f else x) (List.find (is_fact w key) rows)" for w key
    unfolding s by (rule find_map_invariant) simp
  show ?thesis
  proof (intro ext)
    fix w key
    show "facts (save_row wm_id (overwrite now user v f) rows) w key = ((facts rows)(ws := (facts rows ws)(k := Some v))) w key"
    proof (cases "List.find (is_fact w key) rows")
      case None
      with f have "\<not> (w = ws \<and> key = k)" by (metis option.distinct(1))
      with None show ?thesis by (auto simp: facts_def find)
    next
      case (Some x)
      have "x = f \<longleftrightarrow> w = ws \<and> key = k"
      proof
        assume "x = f"
        with fact_cell[OF Some] fact_cell[OF f] show "w = ws \<and> key = k" by simp
      next
        assume "w = ws \<and> key = k"
        with f Some show "x = f" by simp
      qed
      with Some show ?thesis by (auto simp: facts_def find)
    qed
  qed
qed

lemma facts_append_new:
  assumes "List.find (is_fact ws k) rows = None"
  shows "facts (rows @ [new_fact i now ws user k v]) = (facts rows)(ws := (facts rows ws)(k := Some v))"
  using assms by (intro ext) (auto simp: facts_def find_append is_fact_def new_fact_def split: option.split)

lemma memory_ok_append_new:
  assumes "memory_ok rows" "i \<notin> wm_id ` set rows" "List.find (is_fact ws k) rows = None"
  shows "memory_ok (rows @ [new_fact i now ws user k v])"
  using assms by (auto simp: memory_ok_def new_fact_def find_None_iff_all is_fact_def)

lemma facts_forget: "facts (snd (forget ws key rows)) = (facts rows)(ws := (facts rows ws)(js_trim key := None))"
proof (intro ext)
  fix w k
  have same: "List.find (is_fact w k) (delete_where (is_fact ws (js_trim key)) rows) = None" if "w = ws" "k = js_trim key"
    using that by (simp add: find_None_iff_all)
  have other: "List.find (is_fact w k) (delete_where (is_fact ws (js_trim key)) rows) = List.find (is_fact w k) rows"
    if "\<not> (w = ws \<and> k = js_trim key)"
    using that by (induction rows) (auto simp: delete_where_def is_fact_def)
  show "facts (snd (forget ws key rows)) w k = ((facts rows)(ws := (facts rows ws)(js_trim key := None))) w k"
    using same other by (cases "w = ws \<and> k = js_trim key") (auto simp: facts_def forget_def)
qed

lemma memory_ok_forget: "memory_ok rows \<Longrightarrow> memory_ok (snd (forget ws key rows))"
  by (auto simp: memory_ok_def forget_def delete_where_def distinct_map_filter)

interpretation memory: cell_store facts memory_step memory_effect memory_admits memory_ok
proof unfold_locales
  fix rows c assume ok: "memory_ok rows" and a: "memory_admits c rows"
  have "memory_ok (memory_step c rows) \<and> facts (memory_step c rows) = write_cell (memory_effect c) (facts rows)"
  proof (cases c)
    case (Remember i now ws user k v)
    show ?thesis
    proof (cases "storable k v")
      case False
      from arg_cong[OF remember_refused[OF False], of snd] have "memory_step c rows = rows" using Remember by simp
      with ok False Remember show ?thesis by simp
    next
      case True
      show ?thesis
      proof (cases "List.find (is_fact ws (js_trim k)) rows")
        case None
        then show ?thesis using True Remember ok a
          by (simp add: remember_unknown memory_ok_append_new facts_append_new)
      next
        case (Some f)
        then show ?thesis using True Remember ok fact_cell[OF Some]
          by (simp add: remember_known memory_ok_save facts_save)
      qed
    qed
  next
    case (Forget ws k)
    then show ?thesis using ok by (simp add: facts_forget memory_ok_forget)
  qed
  then show "memory_ok (memory_step c rows)" "facts (memory_step c rows) = write_cell (memory_effect c) (facts rows)" by simp_all
qed

section \<open>Memory behaves as a map\<close>

text \<open>C25: Memory is a map: after any sequence of remember and forget calls a workspace's facts are those of an abstract map
  to which the accepted calls were applied in order under trimmed keys, each key has one row, and
  the facts of a workspace no call names are untouched.\<close>

theorem memory_refines_map:
  assumes "memory_ok rows" and "memory.all_admitted cs rows"
  shows "facts (fold memory_step cs rows) = fold (\<lambda>c. write_cell (memory_effect c)) cs (facts rows)
    \<and> memory_ok (fold memory_step cs rows)
    \<and> ((\<forall>c \<in> set cs. case memory_effect c of None \<Rightarrow> True | Some (ws, _) \<Rightarrow> ws \<noteq> other)
        \<longrightarrow> facts (fold memory_step cs rows) other = facts rows other)"
  using memory.run_cells[OF assms] memory.run_ok[OF assms] memory.run_other_tenant[OF assms] by blast

definition sample_facts :: "workspace_memory list" where
  "sample_facts = [new_fact ''m1'' 5 ''w'' (Some ''u'') ''target_roas'' ''3.0'', new_fact ''m2'' 6 ''w'' None ''currency'' ''EUR'']"

definition sample_commands :: "memory_command list" where
  "sample_commands = [Remember ''m3'' 7 ''w'' (Some ''u'') '' target_roas '' ''4.0'', Forget ''w'' ''currency'',
     Remember ''m4'' 8 ''w'' None ''tone'' ''brief'']"

lemma memory_refines_map_witness:
  "memory_ok sample_facts \<and> memory.all_admitted sample_commands sample_facts
   \<and> facts (fold memory_step sample_commands sample_facts) ''w'' ''target_roas'' = Some ''4.0''
   \<and> facts (fold memory_step sample_commands sample_facts) ''w'' ''currency'' = None
   \<and> facts (fold memory_step sample_commands sample_facts) = fold (\<lambda>c. write_cell (memory_effect c)) sample_commands (facts sample_facts)"
proof -
  have ok: "memory_ok sample_facts" by (simp add: memory_ok_def sample_facts_def new_fact_def)
  have ad: "memory.all_admitted sample_commands sample_facts" by (simp add: sample_commands_def sample_facts_def) code_simp
  have v: "facts (fold memory_step sample_commands sample_facts) ''w'' ''target_roas'' = Some ''4.0''"
    "facts (fold memory_step sample_commands sample_facts) ''w'' ''currency'' = None" by code_simp+
  from ok ad v memory_refines_map[OF ok ad, of "''w''"] show ?thesis by blast
qed

section \<open>The prompt block\<close>

lemma budget_lines_prefix:
  "used \<le> 4000 \<Longrightarrow> \<exists>n \<le> length fs. budget_lines used fs = map fact_line (take n fs)
     \<and> used + sum_list (map (\<lambda>f. length (fact_line f)) (take n fs)) \<le> 4000
     \<and> (n < length fs \<longrightarrow> 4000 < used + sum_list (map (\<lambda>f. length (fact_line f)) (take (Suc n) fs)))"
proof (induction fs arbitrary: used)
  case (Cons f fs)
  show ?case
  proof (cases "4000 < used + length (fact_line f)")
    case True
    with Cons.prems show ?thesis by (intro exI[of _ 0]) (simp add: PROMPT_BUDGET_CHARS_def)
  next
    case False
    with Cons.IH[of "used + length (fact_line f)"] obtain n where
      "n \<le> length fs" "budget_lines (used + length (fact_line f)) fs = map fact_line (take n fs)"
      "used + length (fact_line f) + sum_list (map (\<lambda>f. length (fact_line f)) (take n fs)) \<le> 4000"
      "n < length fs \<longrightarrow> 4000 < used + length (fact_line f) + sum_list (map (\<lambda>f. length (fact_line f)) (take (Suc n) fs))" by auto
    with False show ?thesis by (intro exI[of _ "Suc n"]) (auto simp: PROMPT_BUDGET_CHARS_def Let_def)
  qed
qed simp

text \<open>The memory block of a prompt holds the newest facts whole, as many as fit into 4000 characters and no fewer; with the
  limits remember enforces, the newest fact is always among them.\<close>

theorem prompt_block_fits_budget:
  assumes "buildPromptBlock True ws rows = Some block"
  shows "\<exists>n \<le> length (list_facts ws rows).
      block = memory_heading @ [CHR 0x0A] @ join [CHR 0x0A] (map fact_line (take n (list_facts ws rows)))
    \<and> sum_list (map (\<lambda>f. length (fact_line f)) (take n (list_facts ws rows))) \<le> 4000
    \<and> (n < length (list_facts ws rows) \<longrightarrow>
         4000 < sum_list (map (\<lambda>f. length (fact_line f)) (take (Suc n) (list_facts ws rows))))
    \<and> ((\<forall>f \<in> set rows. length (wm_key f) \<le> 128 \<and> length (wm_value f) \<le> 2000) \<longrightarrow> 0 < n)"
proof -
  let ?fs = "list_facts ws rows"
  from assms have ne: "?fs \<noteq> []" and b: "block = memory_heading @ [CHR 0x0A] @ join [CHR 0x0A] (budget_lines 0 ?fs)"
    by (auto simp: buildPromptBlock_def split: if_splits)
  from budget_lines_prefix[of 0 ?fs] obtain n where n: "n \<le> length ?fs" "budget_lines 0 ?fs = map fact_line (take n ?fs)"
    "sum_list (map (\<lambda>f. length (fact_line f)) (take n ?fs)) \<le> 4000"
    "n < length ?fs \<longrightarrow> 4000 < sum_list (map (\<lambda>f. length (fact_line f)) (take (Suc n) ?fs))" by auto
  have "0 < n" if lim: "\<forall>f \<in> set rows. length (wm_key f) \<le> 128 \<and> length (wm_value f) \<le> 2000"
  proof (rule ccontr)
    assume z: "\<not> 0 < n"
    obtain f fs where c: "?fs = f # fs" using ne by (cases ?fs) auto
    then have "f \<in> set ?fs" by simp
    then have "f \<in> set rows" by (simp add: list_facts_def)
    with lim have "length (wm_key f) \<le> 128 \<and> length (wm_value f) \<le> 2000" by blast
    with n(4) z c show False by (simp add: fact_line_def)
  qed
  with n b show ?thesis by (intro exI[of _ n] conjI impI) simp_all
qed

lemma prompt_block_fits_budget_witness:
  "buildPromptBlock True ''w'' sample_facts = Some (memory_heading @ [CHR 0x0A] @ ''- currency: EUR'' @ [CHR 0x0A] @ ''- target_roas: 3.0'')
   \<and> (\<exists>n \<le> length (list_facts ''w'' sample_facts). sum_list (map (\<lambda>f. length (fact_line f)) (take n (list_facts ''w'' sample_facts))) \<le> 4000)"
proof -
  have b: "buildPromptBlock True ''w'' sample_facts = Some (memory_heading @ [CHR 0x0A] @ ''- currency: EUR'' @ [CHR 0x0A] @ ''- target_roas: 3.0'')"
    by code_simp
  from b prompt_block_fits_budget[OF b] show ?thesis by blast
qed

section \<open>The history of a thread\<close>

lemma rev_newest: "rev (newest n p rows) = slice_tail n (filter p rows)"
  by (simp add: newest_def slice_tail_def take_rev)

text \<open>A run sees the last twenty turns of its own thread in the order they were said, each whole or as its first 4000
  characters with an ellipsis; a turn just recorded is the last of them.\<close>

theorem history_is_recent_tail:
  "getThread True ws thread limit rows
     = map turn_of (slice_tail limit (filter (\<lambda>m. mg_workspaceId m = ws \<and> mg_threadId m = thread) rows))
   \<and> length (getThread True ws thread HISTORY_TURN_LIMIT rows) \<le> 20
   \<and> (case js_trim content of [] \<Rightarrow> appendTurn True i now ws thread user role content rows = rows
      | _ # _ \<Rightarrow> last (getThread True ws thread HISTORY_TURN_LIMIT (appendTurn True i now ws thread user role content rows))
          = \<lparr>cv_fromAssistant = (role = ASSISTANT_TURN), cv_content = (if length content \<le> 4000 then content else take 4000 content @ ''...'')\<rparr>)"
proof -
  have l: "last (slice_tail 20 (xs @ [x])) = x" for xs and x :: message_row
    using slice_tail_append[of "[x]" 20 xs] by simp
  show ?thesis
    by (auto simp: getThread_def rev_newest length_slice_tail HISTORY_TURN_LIMIT_def appendTurn_def turn_of_def clip_turn_def
        TURN_CHAR_LIMIT_def last_map slice_tail_append l split: list.split)
qed

end
