(* ===== verification/Sheets.thy ===== *)
theory Sheets
  imports MetaAds JsDate
begin

text \<open>
  The Google Sheets client: \<open>src/src/integrations/sheets.service.ts\<close> and \<open>proxyRequest\<close> of
  \<open>pipedream.service.ts\<close>.  Pipedream's proxy is the parameter \<open>proxy\<close>: its answer to a request after the
  requests made before, or the message it throws.
\<close>

section \<open>Requests\<close>

type_synonym sheets_credential = "string \<times> string"

record sheets_request =
  sq_credential :: sheets_credential
  sq_method :: http_method
  sq_url :: string
  sq_body :: jsval

type_synonym sheets_log = "sheets_request list"
type_synonym sheets_proxy = "sheets_log \<Rightarrow> sheets_request \<Rightarrow> string + jsval"
type_synonym 'a sheets = "sheets_log \<Rightarrow> 'a result \<times> sheets_log"

definition SHEETS_BASE :: string where
  "SHEETS_BASE = ''https://sheets.googleapis.com/v4/spreadsheets''"

text \<open>A proxied answer may still wrap an error envelope.\<close>

definition sheets_call ::
  "sheets_proxy \<Rightarrow> string \<Rightarrow> sheets_credential \<Rightarrow> http_method \<Rightarrow> jsval \<Rightarrow> jsval sheets" where
  "sheets_call proxy path credential method body sent =
    (let q = \<lparr>sq_credential = credential, sq_method = method, sq_url = SHEETS_BASE @ path, sq_body = body\<rparr>
     in (case proxy sent q of
           Inl message \<Rightarrow> Inl (PlainError message)
         | Inr v \<Rightarrow>
            if truthy (get_prop v ''error'')
            then Inl (PlainError (if is_nullish (get_prop (get_prop v ''error'') ''message'') then ''Google Sheets API error''
                                  else to_string (get_prop (get_prop v ''error'') ''message'')))
            else Inr v,
         sent @ [q]))"

text \<open>A request whose answer is read: an answer that is no object makes the first property read throw.\<close>

definition sheets_read ::
  "sheets_proxy \<Rightarrow> string \<Rightarrow> sheets_credential \<Rightarrow> http_method \<Rightarrow> jsval \<Rightarrow> jsval sheets" where
  "sheets_read proxy path credential method body sent =
    (case sheets_call proxy path credential method body sent of
       (Inr v, sent') \<Rightarrow> (if is_nullish v then Inl (PlainError ''Cannot read properties of null'') else Inr v, sent')
     | (Inl e, sent') \<Rightarrow> (Inl e, sent'))"

text \<open>\<open>encodeURIComponent\<close>: UTF-8 bytes outside the unreserved characters in upper-case hexadecimal.\<close>

definition uri_plain :: "char \<Rightarrow> bool" where
  "uri_plain c \<longleftrightarrow> is_lower c \<or> is_upper c \<or> is_digit c \<or> c \<in> set ''-_.!~*()'' \<or> c = CHR 0x27"

definition hex_upper :: "nat \<Rightarrow> char" where
  "hex_upper n = (if n < 10 then char_of (48 + n) else char_of (55 + n))"

definition percent :: "nat \<Rightarrow> string" where
  "percent n = [CHR ''%'', hex_upper (n div 16), hex_upper (n mod 16)]"

definition encodeURIComponent :: "string \<Rightarrow> string" where
  "encodeURIComponent s = concat (map (\<lambda>c. if uri_plain c then [c]
     else let n = (of_char c :: nat) in if n < 128 then percent n else percent (192 + n div 64) @ percent (128 + n mod 64)) s)"

definition quoteTitle :: "string \<Rightarrow> string" where
  "quoteTitle title = [CHR 0x27] @ concat (map (\<lambda>c. if c = CHR 0x27 then [c, c] else [c]) title) @ [CHR 0x27]"

definition urlFor :: "string \<Rightarrow> string" where
  "urlFor i = ''https://docs.google.com/spreadsheets/d/'' @ i @ ''/edit''"

definition createSpreadsheet :: "sheets_proxy \<Rightarrow> sheets_credential \<Rightarrow> string \<Rightarrow> string \<Rightarrow> (string \<times> string) sheets" where
  "createSpreadsheet proxy credential title sheetTitle sent =
    (case sheets_read proxy [] credential POST
        (JObj [(''properties'', JObj [(''title'', JStr title)]),
               (''sheets'', JArr [JObj [(''properties'', JObj [(''title'', JStr sheetTitle)])]])]) sent of
       (Inl e, sent') \<Rightarrow> (Inl e, sent')
     | (Inr v, sent') \<Rightarrow> (let i = to_string (get_prop v ''spreadsheetId''); url = get_prop v ''spreadsheetUrl''
         in (Inr (i, if is_nullish url then urlFor i else to_string url), sent')))"

definition getSpreadsheet :: "sheets_proxy \<Rightarrow> sheets_credential \<Rightarrow> string \<Rightarrow> jsval sheets" where
  "getSpreadsheet proxy credential i =
     sheets_read proxy (CHR ''/'' # encodeURIComponent i @ ''?fields=spreadsheetId,spreadsheetUrl,sheets.properties.title'') credential GET JUndef"

definition addSheet :: "sheets_proxy \<Rightarrow> sheets_credential \<Rightarrow> string \<Rightarrow> string \<Rightarrow> jsval sheets" where
  "addSheet proxy credential i sheetTitle =
     sheets_call proxy (CHR ''/'' # encodeURIComponent i @ '':batchUpdate'') credential POST
       (JObj [(''requests'', JArr [JObj [(''addSheet'', JObj [(''properties'', JObj [(''title'', JStr sheetTitle)])])]])])"

definition hasContent :: "sheets_proxy \<Rightarrow> sheets_credential \<Rightarrow> string \<Rightarrow> string \<Rightarrow> bool sheets" where
  "hasContent proxy credential i sheetTitle sent =
    (case sheets_read proxy (CHR ''/'' # encodeURIComponent i @ ''/values/'' @ encodeURIComponent (quoteTitle sheetTitle @ ''!A1:A1''))
            credential GET JUndef sent of
       (Inl e, sent') \<Rightarrow> (Inl e, sent')
     | (Inr v, sent') \<Rightarrow> (Inr (case arr_of (get_prop v ''values'') of Some (x # xs) \<Rightarrow> True | _ \<Rightarrow> False), sent'))"

type_synonym cells = "jsval list list"

definition append_path :: "string \<Rightarrow> string \<Rightarrow> string" where
  "append_path i sheetTitle = CHR ''/'' # encodeURIComponent i @ ''/values/'' @ encodeURIComponent (quoteTitle sheetTitle @ ''!A1'')
     @ '':append?valueInputOption=USER_ENTERED&insertDataOption=INSERT_ROWS''"

definition values_body :: "cells \<Rightarrow> jsval" where
  "values_body values = JObj [(''values'', JArr (map (\<lambda>row. JArr (map (\<lambda>c. if is_nullish c then JStr [] else c) row)) values))]"

definition append_rows :: "sheets_proxy \<Rightarrow> sheets_credential \<Rightarrow> string \<Rightarrow> string \<Rightarrow> cells \<Rightarrow> jsval sheets" where
  "append_rows proxy credential i sheetTitle values =
     sheets_call proxy (append_path i sheetTitle) credential POST (values_body values)"

section \<open>Writing a table\<close>

record export_table =
  xt_headers :: "string list"
  xt_rows :: cells

record sheet_destination =
  sd_spreadsheetId :: "string option"
  sd_spreadsheetTitle :: "string option"
  sd_sheetTitle :: string

record sheet_write_result =
  sw_spreadsheetId :: string
  sw_spreadsheetUrl :: string
  sw_sheetTitle :: string
  sw_rowsAppended :: nat
  sw_headerWritten :: bool
  sw_spreadsheetCreated :: bool

definition sheet_titles :: "jsval \<Rightarrow> string list" where
  "sheet_titles meta = map str_of (filter truthy (map (\<lambda>s. get_prop (get_prop s ''properties'') ''title'')
     (case arr_of (get_prop meta ''sheets'') of None \<Rightarrow> [] | Some ss \<Rightarrow> ss)))"

text \<open>The spreadsheet a write goes to: its id, the URL of a new one, and whether it is new.\<close>

definition resolve_sheet ::
  "sheets_proxy \<Rightarrow> sheets_credential \<Rightarrow> sheet_destination \<Rightarrow> (string \<times> string option \<times> bool) sheets" where
  "resolve_sheet proxy credential d sent = (case sd_spreadsheetId d of
      Some (c # i) \<Rightarrow> (Inr (c # i, None, False), sent)
    | _ \<Rightarrow>
       (let title = (case sd_spreadsheetTitle d of None \<Rightarrow> [] | Some t \<Rightarrow> js_trim t)
        in case createSpreadsheet proxy credential (if title = [] then ''Gaspo export'' else title) (sd_sheetTitle d) sent of
             (Inl e, s') \<Rightarrow> (Inl e, s') | (Inr (i, url), s') \<Rightarrow> (Inr (i, Some url, True), s')))"

definition ensure_tab :: "sheets_proxy \<Rightarrow> sheets_credential \<Rightarrow> string \<Rightarrow> string \<Rightarrow> jsval \<Rightarrow> unit sheets" where
  "ensure_tab proxy credential i sheetTitle meta sent =
    (if sheetTitle \<in> set (sheet_titles meta) then (Inr (), sent)
     else case addSheet proxy credential i sheetTitle sent of (Inl e, s') \<Rightarrow> (Inl e, s') | (Inr _, s') \<Rightarrow> (Inr (), s'))"

definition table_values :: "bool \<Rightarrow> export_table \<Rightarrow> cells" where
  "table_values headerWritten t = (if headerWritten then map JStr (xt_headers t) # xt_rows t else xt_rows t)"

definition put_values :: "sheets_proxy \<Rightarrow> sheets_credential \<Rightarrow> string \<Rightarrow> string \<Rightarrow> cells \<Rightarrow> unit sheets" where
  "put_values proxy credential i sheetTitle values sent =
    (if values = [] then (Inr (), sent)
     else case append_rows proxy credential i sheetTitle values sent of (Inl e, s') \<Rightarrow> (Inl e, s') | (Inr _, s') \<Rightarrow> (Inr (), s'))"

definition writeTable ::
  "sheets_proxy \<Rightarrow> sheets_credential \<Rightarrow> sheet_destination \<Rightarrow> export_table \<Rightarrow> sheet_write_result sheets" where
  "writeTable proxy credential d t s0 =
    (case resolve_sheet proxy credential d s0 of (Inl e, s1) \<Rightarrow> (Inl e, s1)
     | (Inr (i, url, created), s1) \<Rightarrow>
       (case getSpreadsheet proxy credential i s1 of (Inl e, s2) \<Rightarrow> (Inl e, s2)
        | (Inr meta, s2) \<Rightarrow>
          (case ensure_tab proxy credential i (sd_sheetTitle d) meta s2 of (Inl e, s3) \<Rightarrow> (Inl e, s3)
           | (Inr _, s3) \<Rightarrow>
             (case hasContent proxy credential i (sd_sheetTitle d) s3 of (Inl e, s4) \<Rightarrow> (Inl e, s4)
              | (Inr content, s4) \<Rightarrow>
                (case put_values proxy credential i (sd_sheetTitle d) (table_values (\<not> content) t) s4 of (Inl e, s5) \<Rightarrow> (Inl e, s5)
                 | (Inr _, s5) \<Rightarrow>
                   (let metaUrl = get_prop meta ''spreadsheetUrl'' in
                    (Inr \<lparr>sw_spreadsheetId = i,
                       sw_spreadsheetUrl = (if \<not> is_nullish metaUrl then to_string metaUrl
                          else case url of Some u \<Rightarrow> u | None \<Rightarrow> urlFor i),
                       sw_sheetTitle = sd_sheetTitle d, sw_rowsAppended = length (xt_rows t), sw_headerWritten = (\<not> content),
                       sw_spreadsheetCreated = created\<rparr>, s5)))))))"

section \<open>What reaches the sheet\<close>

text \<open>The requests that append values.\<close>

definition is_append :: "sheets_request \<Rightarrow> bool" where
  "is_append q \<longleftrightarrow> get_prop (sq_body q) ''values'' \<noteq> JUndef"

definition append_request :: "sheets_credential \<Rightarrow> string \<Rightarrow> string \<Rightarrow> cells \<Rightarrow> sheets_request" where
  "append_request credential i sheetTitle values =
     \<lparr>sq_credential = credential, sq_method = POST, sq_url = SHEETS_BASE @ append_path i sheetTitle, sq_body = values_body values\<rparr>"

text \<open>A call that only adds requests of its credential that append nothing.\<close>

definition harmless :: "sheets_credential \<Rightarrow> sheets_log \<Rightarrow> bool" where
  "harmless credential new \<longleftrightarrow> (\<forall>q \<in> set new. sq_credential q = credential \<and> \<not> is_append q)"

lemma harmless_simps [simp]:
  "harmless c []" "harmless c (q # qs) \<longleftrightarrow> sq_credential q = c \<and> \<not> is_append q \<and> harmless c qs"
  "harmless c (xs @ ys) \<longleftrightarrow> harmless c xs \<and> harmless c ys"
  by (auto simp: harmless_def)

lemma values_not_inherited [simp]: "''values'' \<notin> set object_prototype"
  by (simp add: object_prototype_def)

lemma request_adds:
  "sheets_call proxy path c m body s = (r, s') \<Longrightarrow> s' = s @ [\<lparr>sq_credential = c, sq_method = m, sq_url = SHEETS_BASE @ path, sq_body = body\<rparr>]"
  by (simp add: sheets_call_def Let_def)

lemma read_adds:
  "sheets_read proxy path c m body s = (r, s') \<Longrightarrow> get_prop body ''values'' = JUndef \<Longrightarrow> \<exists>q. s' = s @ [q] \<and> harmless c [q]"
  by (auto simp: sheets_read_def is_append_def split: prod.splits sum.splits if_splits dest!: request_adds)

lemma resolve_adds: "resolve_sheet proxy c d s = (r, s') \<Longrightarrow> \<exists>new. s' = s @ new \<and> harmless c new \<and> length new \<le> 1"
  by (auto simp: resolve_sheet_def createSpreadsheet_def Let_def split: option.splits list.splits prod.splits sum.splits dest!: read_adds)

lemma get_adds: "getSpreadsheet proxy c i s = (r, s') \<Longrightarrow> \<exists>new. s' = s @ new \<and> harmless c new \<and> length new \<le> 1"
  by (auto simp: getSpreadsheet_def dest!: read_adds)

lemma tab_adds: "ensure_tab proxy c i t meta s = (r, s') \<Longrightarrow> \<exists>new. s' = s @ new \<and> harmless c new \<and> length new \<le> 1"
  by (auto simp: ensure_tab_def addSheet_def is_append_def split: if_splits prod.splits sum.splits dest!: request_adds)

lemma content_adds: "hasContent proxy c i t s = (r, s') \<Longrightarrow> \<exists>new. s' = s @ new \<and> harmless c new \<and> length new \<le> 1"
  by (auto simp: hasContent_def split: prod.splits sum.splits dest!: read_adds)

lemma put_adds:
  "put_values proxy c i t values s = (r, s') \<Longrightarrow> s' = s @ (if values = [] then [] else [append_request c i t values])"
  by (auto simp: put_values_def append_rows_def append_request_def split: if_splits prod.splits sum.splits dest!: request_adds)

lemma append_is_append [simp]: "is_append (append_request c i t values)" "sq_credential (append_request c i t values) = c"
  by (simp_all add: is_append_def append_request_def values_body_def)

text \<open>A write to a sheet sends its rows at most once and last: everything before only looks the sheet up or makes it; all of it uses the
  credential given; when it succeeds, exactly the table's rows, under the headers if the tab was empty, were sent
  to the sheet whose id it returns.\<close>

theorem sheet_written_once:
  assumes "writeTable proxy c d t s = (r, s')"
  shows "\<exists>looks app. s' = s @ looks @ app \<and> harmless c looks \<and> length looks \<le> 4 \<and> length app \<le> 1
    \<and> (\<forall>q \<in> set app. is_append q \<and> sq_credential q = c)
    \<and> (case r of Inl e \<Rightarrow> True
       | Inr w \<Rightarrow> app = (let values = table_values (sw_headerWritten w) t in
           if values = [] then [] else [append_request c (sw_spreadsheetId w) (sd_sheetTitle d) values]))"
proof -
  obtain r1 s1 where h1: "resolve_sheet proxy c d s = (r1, s1)" by fastforce
  from resolve_adds[OF h1] obtain n1 where n1: "s1 = s @ n1" "harmless c n1" "length n1 \<le> 1" by blast
  show ?thesis
  proof (cases r1)
    case (Inl e)
    with assms h1 n1 show ?thesis by (intro exI[of _ n1] exI[of _ "[]"]) (auto simp: writeTable_def)
  next
    case (Inr p1)
    then obtain i url created where p1: "r1 = Inr (i, url, created)" by (cases p1) auto
    obtain r2 s2 where h2: "getSpreadsheet proxy c i s1 = (r2, s2)" by fastforce
    from get_adds[OF h2] n1 obtain n2 where n2: "s2 = s @ n2" "harmless c n2" "length n2 \<le> 2" by fastforce
    show ?thesis
    proof (cases r2)
      case (Inl e)
      with assms h1 p1 h2 n2 show ?thesis by (intro exI[of _ n2] exI[of _ "[]"]) (auto simp: writeTable_def)
    next
      case (Inr meta)
      note r2 = this
      obtain r3 s3 where h3: "ensure_tab proxy c i (sd_sheetTitle d) meta s2 = (r3, s3)" by fastforce
      from tab_adds[OF h3] n2 obtain n3 where n3: "s3 = s @ n3" "harmless c n3" "length n3 \<le> 3" by fastforce
      show ?thesis
      proof (cases r3)
        case (Inl e)
        with assms h1 p1 h2 r2 h3 n3 show ?thesis by (intro exI[of _ n3] exI[of _ "[]"]) (auto simp: writeTable_def)
      next
        case (Inr u)
        note r3 = this
        obtain r4 s4 where h4: "hasContent proxy c i (sd_sheetTitle d) s3 = (r4, s4)" by fastforce
        from content_adds[OF h4] n3 obtain n4 where n4: "s4 = s @ n4" "harmless c n4" "length n4 \<le> 4" by fastforce
        show ?thesis
        proof (cases r4)
          case (Inl e)
          with assms h1 p1 h2 r2 h3 r3 h4 n4 show ?thesis by (intro exI[of _ n4] exI[of _ "[]"]) (auto simp: writeTable_def)
        next
          case (Inr content)
          obtain r5 s5 where h5: "put_values proxy c i (sd_sheetTitle d) (table_values (\<not> content) t) s4 = (r5, s5)" by fastforce
          let ?app = "if table_values (\<not> content) t = [] then [] else [append_request c i (sd_sheetTitle d) (table_values (\<not> content) t)]"
          have s5: "s5 = s @ n4 @ ?app" using put_adds[OF h5] n4(1) by simp
          have "s' = s5" "case r of Inl e \<Rightarrow> True | Inr w \<Rightarrow> sw_spreadsheetId w = i \<and> sw_headerWritten w = (\<not> content)"
            using assms h1 p1 h2 r2 h3 r3 h4 Inr h5 by (auto simp: writeTable_def Let_def split: sum.splits)
          with s5 n4 show ?thesis by (intro exI[of _ n4] exI[of _ ?app]) (auto simp: Let_def split: sum.split)
        qed
      qed
    qed
  qed
qed

definition sample_proxy :: sheets_proxy where
  "sample_proxy = (\<lambda>sent q. Inr (JObj [(''spreadsheetId'', JStr ''S1''), (''sheets'', JArr [JObj [(''properties'', JObj [(''title'', JStr ''Log'')])]])]))"

definition sample_table :: export_table where
  "sample_table = \<lparr>xt_headers = [''Time''], xt_rows = [[JStr ''t1''], [JNull]]\<rparr>"

lemma sheet_written_once_witness:
  "\<exists>looks r s'. writeTable sample_proxy (''w'', ''a'') \<lparr>sd_spreadsheetId = None, sd_spreadsheetTitle = None, sd_sheetTitle = ''Log''\<rparr> sample_table [] = (Inr r, s')
     \<and> s' = looks @ [append_request (''w'', ''a'') ''S1'' ''Log'' [[JStr ''Time''], [JStr ''t1''], [JNull]]]"
proof -
  let ?d = "\<lparr>sd_spreadsheetId = None, sd_spreadsheetTitle = None, sd_sheetTitle = ''Log''\<rparr>"
  obtain r s' where w: "writeTable sample_proxy (''w'', ''a'') ?d sample_table [] = (r, s')" by fastforce
  have "fst (writeTable sample_proxy (''w'', ''a'') ?d sample_table []) =
      Inr \<lparr>sw_spreadsheetId = ''S1'', sw_spreadsheetUrl = ''https://docs.google.com/spreadsheets/d/S1/edit'', sw_sheetTitle = ''Log'',
        sw_rowsAppended = 2, sw_headerWritten = True, sw_spreadsheetCreated = True\<rparr>" by code_simp
  with w have r: "r = Inr \<lparr>sw_spreadsheetId = ''S1'', sw_spreadsheetUrl = ''https://docs.google.com/spreadsheets/d/S1/edit'', sw_sheetTitle = ''Log'',
        sw_rowsAppended = 2, sw_headerWritten = True, sw_spreadsheetCreated = True\<rparr>" by simp
  from sheet_written_once[OF w] show ?thesis unfolding r w by (auto simp: table_values_def sample_table_def Let_def)
qed

end
