(* ===== verification/Exports.thy ===== *)
theory Exports
  imports Sheets Rules
begin

text \<open>
  Exports of reporting data to Google Sheets: \<open>src/src/exports/exports.service.ts\<close> with the tables of
  \<open>export-tables.ts\<close>, the rows of \<open>scheduled-export.entity.ts\<close> and the tick of \<open>exports.scheduler.ts\<close>.
  One clock reading stands for a whole run.  A number of days is an integer here.
\<close>

section \<open>Tables\<close>

text \<open>\<open>toISOString\<close> of a time.\<close>

definition iso_stamp :: "time \<Rightarrow> string" where
  "iso_stamp t = (let (y, m, d) = civil (t div ms_per_day); ms = t mod ms_per_day in
     year_text y @ ''-'' @ pad0 2 (show_int m) @ ''-'' @ pad0 2 (show_int d) @ ''T'' @ pad0 2 (show_int (ms div 3600000))
     @ '':'' @ pad0 2 (show_int (ms div 60000 mod 60)) @ '':'' @ pad0 2 (show_int (ms div 1000 mod 60)) @ ''.''
     @ pad0 3 (show_int (ms mod 1000)) @ ''Z'')"

definition CAMPAIGN_INSIGHT_FIELDS :: "string list" where
  "CAMPAIGN_INSIGHT_FIELDS = [''campaign_id'', ''campaign_name'', ''spend'', ''impressions'', ''clicks'', ''ctr'', ''cpc'',
     ''actions'', ''cost_per_action_type'', ''purchase_roas'', ''account_currency'']"

definition ROAS_HEADERS :: "string list" where
  "ROAS_HEADERS = [''Verified At'', ''Ad Account'', ''Window Start'', ''Window End'', ''Meta Spend'', ''Spend Currency'',
     ''Stripe Revenue'', ''Revenue Currency'', ''Verified ROAS'', ''Purchases'', ''Verified CPA'', ''Caveats'']"

definition RULE_ACTION_HEADERS :: "string list" where
  "RULE_ACTION_HEADERS = [''Time'', ''Rule'', ''Entity Type'', ''Entity'', ''Entity ID'', ''Metric Value'', ''Action'',
     ''Detail'', ''Result'', ''Error'']"

definition CAMPAIGN_HEADERS :: "string list" where
  "CAMPAIGN_HEADERS = [''Exported At'', ''Window Start'', ''Window End'', ''Campaign ID'', ''Campaign'', ''Spend'', ''Currency'',
     ''Impressions'', ''Clicks'', ''CTR %'', ''CPC'', ''Purchases'', ''CPA'', ''Meta ROAS'']"

text \<open>\<open>num\<close>: a finite number, or a blank.\<close>

definition num_cell :: "jsval \<Rightarrow> jsval" where
  "num_cell v = (if is_nullish v \<or> v = JStr [] then JNull
     else let n = to_number v in if is_finite n then JNum n else JNull)"

definition text_cell :: "string option \<Rightarrow> jsval" where
  "text_cell v = (case v of None \<Rightarrow> JNull | Some s \<Rightarrow> JStr s)"

definition text_num :: "string option \<Rightarrow> jsval" where
  "text_num v = num_cell (text_cell v)"

definition roasSnapshotTable :: "roas_snapshot list \<Rightarrow> export_table" where
  "roasSnapshotTable snapshots = \<lparr>xt_headers = ROAS_HEADERS, xt_rows = map (\<lambda>s.
     [JStr (iso_stamp (rs_createdAt s)), JStr (rs_adAccountId s), JStr (rs_sinceDate s), JStr (rs_untilDate s),
      num_cell (JStr (rs_metaSpend s)), text_cell (rs_spendCurrency s), num_cell (JStr (rs_stripeRevenue s)),
      text_cell (rs_revenueCurrency s), text_num (rs_roas s), JNum (Fin (of_nat (rs_purchases s))), text_num (rs_cpa s),
      text_cell (map_option (join '' | '') (rs_caveats s))]) snapshots\<rparr>"

fun rule_action_text :: "rule_action_type \<Rightarrow> string" where
  "rule_action_text ALERT = ''alert''"
| "rule_action_text PAUSE = ''pause''"
| "rule_action_text SCALE = ''scale''"

definition ruleActionTable :: "ad_rule list \<Rightarrow> rule_action list \<Rightarrow> export_table" where
  "ruleActionTable rules actions = \<lparr>xt_headers = RULE_ACTION_HEADERS, xt_rows = map (\<lambda>a.
     [JStr (iso_stamp (ra_createdAt a)),
      JStr (case List.find (\<lambda>r. ar_id r = ra_ruleId a) rules of Some r \<Rightarrow> ar_name r | None \<Rightarrow> ra_ruleId a),
      JStr (scope_text (ra_entityType a)), text_cell (ra_entityName a), text_cell (ra_entityId a), text_num (ra_metricValue a),
      JStr (rule_action_text (ra_action a)), text_cell (ra_detail a),
      JStr (if ra_success a then ''success'' else ''failed''), text_cell (ra_error a)]) actions\<rparr>"

text \<open>\<open>spend != null && purchases ? round(spend / purchases, 2) : null\<close> for a finite spend.\<close>

fun cpa_fallback :: "jsval \<Rightarrow> jsnum option \<Rightarrow> jsval" where
  "cpa_fallback (JNum (Fin s)) (Some (Fin p)) = (if p = 0 then JNull else JNum (Fin (round_to 100 (fl (s / p)))))"
| "cpa_fallback (JNum (Fin s)) (Some PInf) = JNum (Fin 0)"
| "cpa_fallback (JNum (Fin s)) (Some NInf) = JNum (Fin 0)"
| "cpa_fallback _ _ = JNull"

definition opt_num :: "jsnum option \<Rightarrow> jsval" where
  "opt_num n = (case n of None \<Rightarrow> JNull | Some x \<Rightarrow> JNum x)"

definition prop_or_null :: "jsval \<Rightarrow> string \<Rightarrow> jsval" where
  "prop_or_null row k = (if is_nullish (get_prop row k) then JNull else get_prop row k)"

definition campaign_row :: "string \<Rightarrow> string \<times> string \<Rightarrow> jsval \<Rightarrow> jsval list" where
  "campaign_row exportedAt window row =
    (let spend = num_cell (get_prop row ''spend''); purchases = pickPurchaseValue (get_prop row ''actions'');
         cpa = (case pickPurchaseValue (get_prop row ''cost_per_action_type'') of
                  Some v \<Rightarrow> JNum v | None \<Rightarrow> cpa_fallback spend purchases)
     in [JStr exportedAt, JStr (fst window), JStr (snd window), prop_or_null row ''campaign_id'', prop_or_null row ''campaign_name'',
         spend, prop_or_null row ''account_currency'', num_cell (get_prop row ''impressions''), num_cell (get_prop row ''clicks''),
         num_cell (get_prop row ''ctr''), num_cell (get_prop row ''cpc''), opt_num purchases, cpa,
         opt_num (pickPurchaseValue (get_prop row ''purchase_roas''))])"

definition campaignInsightTable :: "jsval list \<Rightarrow> string \<times> string \<Rightarrow> time \<Rightarrow> export_table" where
  "campaignInsightTable rows window exportedAt =
     \<lparr>xt_headers = CAMPAIGN_HEADERS, xt_rows = map (campaign_row (iso_stamp exportedAt) window) rows\<rparr>"

section \<open>Requests and rows\<close>

definition MAX_ROWS_PER_RUN :: nat where
  "MAX_ROWS_PER_RUN = 500"

definition EXPORT_DATASETS :: "string list" where
  "EXPORT_DATASETS = [''roas_snapshots'', ''campaign_insights'', ''rule_actions'']"

record export_request =
  er_dataset :: string
  er_adAccountId :: "string option"
  er_windowDays :: "int option"
  er_spreadsheetId :: "string option"
  er_spreadsheetTitle :: "string option"
  er_sheetTitle :: "string option"

record create_export_input =
  ce_request :: export_request
  ce_name :: string
  ce_cronExpression :: string
  ce_timezone :: "string option"
  ce_slackChannelId :: "string option"

record scheduled_export =
  se_id :: uuid
  se_workspaceId :: uuid
  se_name :: string
  se_dataset :: string
  se_adAccountId :: "string option"
  se_windowDays :: int
  se_spreadsheetId :: "string option"
  se_spreadsheetTitle :: "string option"
  se_spreadsheetUrl :: "string option"
  se_sheetTitle :: string
  se_cronExpression :: string
  se_timezone :: "string option"
  se_slackChannelId :: "string option"
  se_isActive :: bool
  se_createdByUserId :: "uuid option"
  se_lastRun :: "time option"
  se_nextRun :: "time option"
  se_lastExportedAt :: "time option"
  se_lastRowCount :: "nat option"
  se_lastError :: "string option"

record export_result =
  xr_dataset :: string
  xr_rowsExported :: nat
  xr_spreadsheetId :: string
  xr_spreadsheetUrl :: string
  xr_sheetTitle :: string
  xr_spreadsheetCreated :: bool
  xr_since :: string
  xr_until :: string

record export_report =
  xp_exportId :: uuid
  xp_exportName :: string
  xp_workspaceId :: uuid
  xp_slackChannelId :: "string option"
  xp_message :: "string option"

record export_env =
  ee_rules :: rules_env
  ee_micros :: "uuid \<Rightarrow> nat"
  ee_sheets :: sheets_proxy

record export_world =
  ew_rules :: rules_world
  ew_exports :: "scheduled_export list"
  ew_sheets :: sheets_log

definition defaultSheetTitle :: "string \<Rightarrow> string" where
  "defaultSheetTitle dataset = (if dataset = ''roas_snapshots'' then ''Verified ROAS''
     else if dataset = ''campaign_insights'' then ''Campaign Performance'' else ''Rule Actions'')"

definition defaultTitle :: "string \<Rightarrow> string" where
  "defaultTitle dataset = ''Gaspo - '' @ defaultSheetTitle dataset"

definition datasetLabel :: "string \<Rightarrow> string" where
  "datasetLabel dataset = (if dataset = ''roas_snapshots'' then ''verified ROAS''
     else if dataset = ''campaign_insights'' then ''campaign performance'' else ''rule action'')"

definition validateExport :: "cron \<Rightarrow> time \<Rightarrow> export_request \<Rightarrow> string option \<Rightarrow> unit result" where
  "validateExport cron now r cronExpression =
    (if er_dataset r \<notin> set EXPORT_DATASETS
     then Inl (BadRequest (''Unknown dataset '' @ [CHR 0x22] @ er_dataset r @ [CHR 0x22] @ '' - expected one of '' @ join '', '' EXPORT_DATASETS))
     else if er_dataset r = ''campaign_insights'' \<and> er_adAccountId r \<in> {None, Some []}
     then Inl (BadRequest ''campaign_insights exports need an ad account id'')
     else if (case er_windowDays r of None \<Rightarrow> False | Some d \<Rightarrow> d < 1 \<or> 365 < d)
     then Inl (BadRequest ''windowDays must be between 1 and 365'')
     else case cronExpression of
        Some (c # cs) \<Rightarrow> map_sum id (\<lambda>_. ()) (nextRunFrom cron (c # cs) None now)
      | _ \<Rightarrow> Inr ())"

definition new_export :: "uuid \<Rightarrow> uuid \<Rightarrow> uuid option \<Rightarrow> create_export_input \<Rightarrow> time \<Rightarrow> scheduled_export" where
  "new_export i ws user c next = (let r = ce_request c in \<lparr>se_id = i, se_workspaceId = ws, se_name = ce_name c,
     se_dataset = er_dataset r, se_adAccountId = er_adAccountId r, se_windowDays = or_default (er_windowDays r) 7,
     se_spreadsheetId = er_spreadsheetId r, se_spreadsheetTitle = Some (or_default (er_spreadsheetTitle r) (ce_name c)),
     se_spreadsheetUrl = None, se_sheetTitle = or_default (er_sheetTitle r) (defaultSheetTitle (er_dataset r)),
     se_cronExpression = ce_cronExpression c, se_timezone = ce_timezone c, se_slackChannelId = ce_slackChannelId c,
     se_isActive = True, se_createdByUserId = user, se_lastRun = None, se_nextRun = Some next, se_lastExportedAt = None,
     se_lastRowCount = None, se_lastError = None\<rparr>)"

definition create_export ::
  "cron \<Rightarrow> uuid \<Rightarrow> time \<Rightarrow> uuid \<Rightarrow> uuid option \<Rightarrow> create_export_input \<Rightarrow> scheduled_export list
     \<Rightarrow> scheduled_export result \<times> scheduled_export list" where
  "create_export cron i now ws user c rows =
    (case validateExport cron now (ce_request c) (Some (ce_cronExpression c)) of Inl e \<Rightarrow> (Inl e, rows)
     | Inr _ \<Rightarrow> (case nextRunFrom cron (ce_cronExpression c) (ce_timezone c) now of Inl e \<Rightarrow> (Inl e, rows)
        | Inr next \<Rightarrow> (let x = new_export i ws user c next in (Inr x, rows @ [x]))))"

definition list_exports :: "uuid \<Rightarrow> scheduled_export list \<Rightarrow> scheduled_export list" where
  "list_exports ws rows = rev (filter (\<lambda>x. se_workspaceId x = ws) rows)"

definition findOwnedExport :: "uuid \<Rightarrow> uuid \<Rightarrow> scheduled_export list \<Rightarrow> scheduled_export result" where
  "findOwnedExport ws i rows = (case List.find (\<lambda>x. se_id x = i \<and> se_workspaceId x = ws) rows of
     None \<Rightarrow> Inl (NotFound ''Export not found'') | Some x \<Rightarrow> Inr x)"

definition setExportActive ::
  "cron \<Rightarrow> time \<Rightarrow> uuid \<Rightarrow> uuid \<Rightarrow> bool \<Rightarrow> scheduled_export list \<Rightarrow> scheduled_export result \<times> scheduled_export list" where
  "setExportActive cron now ws i active rows = (case findOwnedExport ws i rows of Inl e \<Rightarrow> (Inl e, rows)
   | Inr x \<Rightarrow>
      (let x1 = x\<lparr>se_isActive := active\<rparr>;
           x2 = (if active then map_sum id (\<lambda>n. x1\<lparr>se_nextRun := Some n\<rparr>) (nextRunFrom cron (se_cronExpression x) (se_timezone x) now)
                 else Inr x1)
       in case x2 of Inl e \<Rightarrow> (Inl e, rows) | Inr y \<Rightarrow> (Inr y, save_row se_id y rows)))"

definition removeExport :: "uuid \<Rightarrow> uuid \<Rightarrow> scheduled_export list \<Rightarrow> unit result \<times> scheduled_export list" where
  "removeExport ws i rows = (case findOwnedExport ws i rows of Inl e \<Rightarrow> (Inl e, rows)
   | Inr x \<Rightarrow> (Inr (), delete_where (\<lambda>y. se_id y = se_id x) rows))"

section \<open>Running an export\<close>

text \<open>The latest of the times, or none.\<close>

definition newest_time :: "time list \<Rightarrow> time option" where
  "newest_time ts = fold (\<lambda>t latest. case latest of None \<Rightarrow> Some t | Some l \<Rightarrow> if l < t then Some t else Some l) ts None"

definition days_ago :: "time \<Rightarrow> int \<Rightarrow> time" where
  "days_ago now days = now - days * ms_per_day"

definition ads_of :: "export_world \<Rightarrow> ads_world" where
  "ads_of w = ru_ads (ew_rules w)"

text \<open>The Meta token of the run's member, refreshed if need be.\<close>

definition export_token :: "export_env \<Rightarrow> time \<Rightarrow> uuid \<Rightarrow> uuid option \<Rightarrow> export_world \<Rightarrow> string option \<times> export_world" where
  "export_token env now ws user w =
    (let a = ads_of w; (token, rows) = getMetaAccessToken (ae_oauth (re_ads (ee_rules env))) now ws user (mw_rows (aw_meta a))
     in (token, w\<lparr>ew_rules := (ew_rules w)\<lparr>ru_ads := a\<lparr>aw_meta := (aw_meta a)\<lparr>mw_rows := rows\<rparr>\<rparr>\<rparr>\<rparr>))"

definition export_insights :: "string \<Rightarrow> string \<times> string \<Rightarrow> insights_params" where
  "export_insights account window = \<lparr>in_adAccountId = account, in_level = JStr ''campaign'', in_datePreset = JUndef,
     in_since = JStr (fst window), in_until = JStr (snd window), in_fields = map JStr CAMPAIGN_INSIGHT_FIELDS\<rparr>"

definition campaign_table ::
  "export_env \<Rightarrow> time \<Rightarrow> uuid \<Rightarrow> uuid option \<Rightarrow> export_request \<Rightarrow> string \<times> string \<Rightarrow> export_world
     \<Rightarrow> (export_table \<times> time option) result \<times> export_world" where
  "campaign_table env now ws user r window w =
    (case export_token env now ws user w of
       (None, w1) \<Rightarrow> (Inl (PlainError ''No active Meta Ads connection is available.''), w1)
     | (Some token, w1) \<Rightarrow>
        (case er_adAccountId r of None \<Rightarrow> (Inl (PlainError ''Cannot read properties of null''), w1)
         | Some account \<Rightarrow>
            (let (answer, ru) = rule_send (ee_rules env) (getInsights token (export_insights account window)) (ew_rules w1);
                 w2 = w1\<lparr>ew_rules := ru\<rparr>
             in case answer of Inl e \<Rightarrow> (Inl e, w2)
              | Inr insights \<Rightarrow>
                 (let data = get_prop insights ''data'' in
                  case (if is_nullish data then Some [] else arr_of data) of
                    None \<Rightarrow> (Inl (PlainError ''rows.map is not a function''), w2)
                  | Some rows \<Rightarrow> (Inr (campaignInsightTable rows window now, None), w2)))))"

definition buildTable ::
  "export_env \<Rightarrow> time \<Rightarrow> uuid \<Rightarrow> uuid option \<Rightarrow> export_request \<Rightarrow> time \<Rightarrow> string \<times> string \<Rightarrow> export_world
     \<Rightarrow> (export_table \<times> time option) result \<times> export_world" where
  "buildTable env now ws user r watermark window w =
    (if er_dataset r = ''roas_snapshots''
     then let snapshots = snapshotsSince (ee_micros env) ws watermark MAX_ROWS_PER_RUN (aw_snapshots (ads_of w))
          in (Inr (roasSnapshotTable snapshots, newest_time (map rs_createdAt snapshots)), w)
     else if er_dataset r = ''rule_actions''
     then let actions = actionsForWorkspace (ee_micros env) ws watermark MAX_ROWS_PER_RUN (ru_actions (ew_rules w))
          in (Inr (ruleActionTable (ru_rules (ew_rules w)) actions, newest_time (map ra_createdAt actions)), w)
     else campaign_table env now ws user r window w)"

definition write_export ::
  "export_env \<Rightarrow> uuid \<Rightarrow> uuid option \<Rightarrow> export_request \<Rightarrow> export_table \<Rightarrow> export_world
     \<Rightarrow> sheet_write_result result \<times> export_world" where
  "write_export env ws user r t w =
    (case getGoogleSheetsCredential (ae_users (re_ads (ee_rules env))) ws user (mw_rows (aw_meta (ads_of w))) of
       None \<Rightarrow> (Inl (PlainError (''No active Google Sheets connection is available - connect Google Sheets in Integrations first.'')), w)
     | Some credential \<Rightarrow>
        (let d = \<lparr>sd_spreadsheetId = er_spreadsheetId r,
                  sd_spreadsheetTitle = Some (or_default (er_spreadsheetTitle r) (defaultTitle (er_dataset r))),
                  sd_sheetTitle = or_default (er_sheetTitle r) (defaultSheetTitle (er_dataset r))\<rparr>;
             (result, sent) = writeTable (ee_sheets env) credential d t (ew_sheets w)
         in (result, w\<lparr>ew_sheets := sent\<rparr>)))"

definition exportNow ::
  "export_env \<Rightarrow> time \<Rightarrow> uuid \<Rightarrow> uuid option \<Rightarrow> export_request \<Rightarrow> export_world \<Rightarrow> export_result result \<times> export_world" where
  "exportNow env now ws user r w =
    (case validateExport (re_cron (ee_rules env)) now r None of Inl e \<Rightarrow> (Inl e, w)
     | Inr _ \<Rightarrow>
       (let days = or_default (er_windowDays r) 7 in
        case rule_window now days of Inl e \<Rightarrow> (Inl e, w)
        | Inr window \<Rightarrow>
          (case buildTable env now ws user r (days_ago now days) window w of (Inl e, w1) \<Rightarrow> (Inl e, w1)
           | (Inr (t, _), w1) \<Rightarrow>
             (case write_export env ws user r t w1 of (Inl e, w2) \<Rightarrow> (Inl e, w2)
              | (Inr x, w2) \<Rightarrow> (Inr \<lparr>xr_dataset = er_dataset r, xr_rowsExported = length (xt_rows t),
                   xr_spreadsheetId = sw_spreadsheetId x, xr_spreadsheetUrl = sw_spreadsheetUrl x, xr_sheetTitle = sw_sheetTitle x,
                   xr_spreadsheetCreated = sw_spreadsheetCreated x, xr_since = fst window, xr_until = snd window\<rparr>, w2)))))"

text \<open>A stored export is the request of its runs.\<close>

definition request_of :: "scheduled_export \<Rightarrow> export_request" where
  "request_of x = \<lparr>er_dataset = se_dataset x, er_adAccountId = se_adAccountId x, er_windowDays = Some (se_windowDays x),
     er_spreadsheetId = se_spreadsheetId x, er_spreadsheetTitle = se_spreadsheetTitle x, er_sheetTitle = Some (se_sheetTitle x)\<rparr>"

definition export_message :: "scheduled_export \<Rightarrow> nat \<Rightarrow> string \<Rightarrow> string option" where
  "export_message x rows url = (if rows = 0 then None
     else Some (''Export *'' @ se_name x @ ''* - '' @ show_nat rows @ '' '' @ datasetLabel (se_dataset x) @ '' row(s) added to <''
       @ url @ ''|'' @ se_sheetTitle x @ ''>.''))"

definition export_report_of :: "scheduled_export \<Rightarrow> string option \<Rightarrow> export_report" where
  "export_report_of x message = \<lparr>xp_exportId = se_id x, xp_exportName = se_name x, xp_workspaceId = se_workspaceId x,
     xp_slackChannelId = se_slackChannelId x, xp_message = message\<rparr>"

text \<open>The \<open>try\<close> block: the rows written and where, and what the next run resumes from.\<close>

definition export_rows ::
  "export_env \<Rightarrow> time \<Rightarrow> scheduled_export \<Rightarrow> string \<times> string \<Rightarrow> export_world
     \<Rightarrow> (export_table \<times> time option \<times> sheet_write_result) result \<times> export_world" where
  "export_rows env now x window w =
    (case buildTable env now (se_workspaceId x) (se_createdByUserId x) (request_of x)
            (or_default (se_lastExportedAt x) (days_ago now (se_windowDays x))) window w of
       (Inl e, w1) \<Rightarrow> (Inl e, w1)
     | (Inr (t, watermark), w1) \<Rightarrow>
        (case write_export env (se_workspaceId x) (se_createdByUserId x) (request_of x) t w1 of
           (Inl e, w2) \<Rightarrow> (Inl e, w2)
         | (Inr written, w2) \<Rightarrow> (Inr (t, watermark, written), w2)))"

definition export_succeeded :: "time \<Rightarrow> scheduled_export \<Rightarrow> export_table \<times> time option \<times> sheet_write_result \<Rightarrow> scheduled_export" where
  "export_succeeded now x p = (case p of (t, watermark, written) \<Rightarrow>
     x\<lparr>se_spreadsheetId := Some (sw_spreadsheetId written), se_spreadsheetUrl := Some (sw_spreadsheetUrl written),
       se_lastRowCount := Some (length (xt_rows t)), se_lastError := None, se_lastExportedAt := Some (or_default watermark now)\<rparr>)"

definition export_failed :: "http_error \<Rightarrow> scheduled_export \<Rightarrow> scheduled_export" where
  "export_failed e x = x\<lparr>se_lastError := Some (error_message e), se_lastRowCount := None\<rparr>"

text \<open>The \<open>finally\<close> block: an error of the cron library there replaces the report and nothing is saved.\<close>

definition settle_export :: "cron \<Rightarrow> time \<Rightarrow> bool \<Rightarrow> scheduled_export \<Rightarrow> scheduled_export result" where
  "settle_export cron now advance x =
    (if advance then map_sum id (\<lambda>n. x\<lparr>se_lastRun := Some now, se_nextRun := Some n\<rparr>)
                      (nextRunFrom cron (se_cronExpression x) (se_timezone x) now)
     else Inr (x\<lparr>se_lastRun := Some now\<rparr>))"

definition runExport ::
  "export_env \<Rightarrow> time \<Rightarrow> bool \<Rightarrow> scheduled_export \<Rightarrow> export_world \<Rightarrow> export_report result \<times> export_world" where
  "runExport env now advance x w =
    (case rule_window now (se_windowDays x) of Inl e \<Rightarrow> (Inl e, w)
     | Inr window \<Rightarrow>
       (let (result, w1) = export_rows env now x window w;
            (x1, message) = (case result of
               Inl e \<Rightarrow> (export_failed e x, Some (''Export *'' @ se_name x @ ''* failed: '' @ error_message e))
             | Inr p \<Rightarrow> (export_succeeded now x p,
                 export_message x (length (xt_rows (fst p))) (sw_spreadsheetUrl (snd (snd p)))))
        in case settle_export (re_cron (ee_rules env)) now advance x1 of
             Inl e \<Rightarrow> (Inl e, w1)
           | Inr x2 \<Rightarrow> (Inr (export_report_of x message), w1\<lparr>ew_exports := save_row se_id x2 (ew_exports w1)\<rparr>)))"

definition runExportNow :: "export_env \<Rightarrow> time \<Rightarrow> uuid \<Rightarrow> uuid \<Rightarrow> export_world \<Rightarrow> export_report result \<times> export_world" where
  "runExportNow env now ws i w = (case findOwnedExport ws i (ew_exports w) of Inl e \<Rightarrow> (Inl e, w)
   | Inr x \<Rightarrow> runExport env now False x w)"

definition due_exports :: "time \<Rightarrow> scheduled_export list \<Rightarrow> scheduled_export list" where
  "due_exports now rows = filter (\<lambda>x. is_due now (se_isActive x) (se_nextRun x)) rows"

fun run_exports ::
  "export_env \<Rightarrow> time \<Rightarrow> scheduled_export list \<Rightarrow> export_world \<Rightarrow> export_report list result \<times> export_world" where
  "run_exports env now [] w = (Inr [], w)"
| "run_exports env now (x # xs) w = (case runExport env now True x w of
     (Inl e, w1) \<Rightarrow> (Inl e, w1)
   | (Inr rep, w1) \<Rightarrow> (let (reps, w2) = run_exports env now xs w1 in (map_sum id ((#) rep) reps, w2)))"

definition runDueExports :: "export_env \<Rightarrow> time \<Rightarrow> export_world \<Rightarrow> export_report list result \<times> export_world" where
  "runDueExports env now w = run_exports env now (due_exports now (ew_exports w)) w"

text \<open>The messages a tick posts: bot token, channel and text.\<close>

definition export_delivery :: "workspace list \<Rightarrow> export_report \<Rightarrow> (string \<times> string \<times> string) list" where
  "export_delivery ws rep = (case (xp_message rep, xp_slackChannelId rep) of
     (Some (m # ms), Some (c # cs)) \<Rightarrow>
       (case workspaceById ws (xp_workspaceId rep) of
          Some t \<Rightarrow> (case w_slackBotToken t of Some (b # bt) \<Rightarrow> [(b # bt, c # cs, m # ms)] | _ \<Rightarrow> [])
        | None \<Rightarrow> [])
   | _ \<Rightarrow> [])"

definition exports_tick ::
  "export_env \<Rightarrow> workspace list \<Rightarrow> time \<Rightarrow> bool \<Rightarrow> export_world \<Rightarrow> (string \<times> string \<times> string) list \<times> export_world" where
  "exports_tick env ws now running w =
    (if running then ([], w)
     else case runDueExports env now w of
       (Inl _, w') \<Rightarrow> ([], w') | (Inr reps, w') \<Rightarrow> (concat (map (export_delivery ws) reps), w'))"

end
