(* ===== verification/ExportFacts.thy ===== *)
theory ExportFacts
  imports Exports
begin

text \<open>
  What repeated exports put into a sheet: with row times that are whole milliseconds every row goes in
  once and in order; with the microseconds Postgres keeps, the last row goes in again at every run; and
  a failed write leaves nothing behind that the next run could resume from.
\<close>

section \<open>Resuming a stream of rows\<close>

lemma newest_time_snoc:
  "newest_time (ts @ [t]) = (case newest_time ts of None \<Rightarrow> Some t | Some l \<Rightarrow> if l < t then Some t else Some l)"
  by (simp add: newest_time_def)

lemma newest_time_sorted: "sorted_wrt (<) ts \<Longrightarrow> newest_time ts = (if ts = [] then None else Some (last ts))"
proof (induction ts rule: rev_induct)
  case (snoc t ts)
  then have s: "sorted_wrt (<) ts" "\<forall>u \<in> set ts. u < t" by (simp_all add: sorted_wrt_append)
  then have "ts \<noteq> [] \<Longrightarrow> last ts < t" by simp
  with snoc.IH[OF s(1)] show ?case by (simp add: newest_time_snoc)
qed (simp add: newest_time_def)

lemma filter_later:
  fixes f :: "'e \<Rightarrow> time"
  shows "m < c \<Longrightarrow> filter (\<lambda>e. c < f e) ys = filter (\<lambda>e. c < f e) (filter (\<lambda>e. m < f e) ys)"
  by (induction ys) auto

definition batch :: "('e \<Rightarrow> time) \<Rightarrow> time \<Rightarrow> 'e list \<Rightarrow> 'e list" where
  "batch f watermark es = take MAX_ROWS_PER_RUN (filter (\<lambda>e. watermark < f e) es)"

lemma sorted_map_filter: "sorted_wrt P (map f xs) \<Longrightarrow> sorted_wrt P (map f (filter Q xs))"
  by (induction xs) auto

text \<open>Two batches adjoin, also when rows share a time, as long as the cut at 500 rows does not separate two of them.\<close>

lemma newest_time_le: "sorted ts \<Longrightarrow> newest_time ts = (if ts = [] then None else Some (last ts))"
proof (induction ts rule: rev_induct)
  case (snoc t ts)
  then have s: "sorted ts" "\<forall>u \<in> set ts. u \<le> t" by (simp_all add: sorted_append)
  then have "ts \<noteq> [] \<Longrightarrow> last ts \<le> t" by simp
  with snoc.IH[OF s(1)] show ?case by (auto simp: newest_time_snoc)
qed (simp add: newest_time_def)

lemma last_is_greatest: "sorted (map f xs) \<Longrightarrow> e \<in> set xs \<Longrightarrow> f e \<le> f (last xs)"
  by (induction xs rule: rev_induct) (auto simp: sorted_append)

lemma batches_adjoin_le:
  assumes s: "sorted (map f es)" and ne: "batch f m es \<noteq> []"
    and cut: "\<forall>e \<in> set (drop MAX_ROWS_PER_RUN (filter (\<lambda>e. m < f e) es)). f (last (batch f m es)) < f e"
    and late: "\<forall>e \<in> set later. f (last (batch f m es)) < f e"
  shows "batch f m es @ batch f (f (last (batch f m es))) (es @ later)
    = take (length (batch f m es) + MAX_ROWS_PER_RUN) (filter (\<lambda>e. m < f e) (es @ later))"
proof -
  let ?F = "filter (\<lambda>e. m < f e) es" and ?E = "batch f m es"
  let ?c = "f (last ?E)" and ?k = MAX_ROWS_PER_RUN
  have E: "?E = take ?k ?F" by (simp add: batch_def)
  have in_E: "last ?E \<in> set ?E" using ne by simp
  then have mc: "m < ?c" using set_take_subset[of ?k ?F] by (auto simp: E)
  have "sorted (map f ?E)" unfolding E take_map[symmetric] by (intro sorted_wrt_take sorted_map_filter s)
  then have "\<forall>e \<in> set ?E. f e \<le> ?c" by (intro ballI last_is_greatest)
  then have "filter (\<lambda>e. ?c < f e) ?E = []" by (auto simp: filter_empty_conv)
  moreover have "filter (\<lambda>e. ?c < f e) (drop ?k ?F) = drop ?k ?F" using cut by (auto simp: filter_id_conv)
  moreover have "filter (\<lambda>e. ?c < f e) (filter (\<lambda>e. m < f e) later) = filter (\<lambda>e. m < f e) later"
    using late by (auto intro!: filter_cong)
  moreover have "?F = ?E @ drop ?k ?F" by (simp add: E)
  ultimately have "filter (\<lambda>e. ?c < f e) (?F @ filter (\<lambda>e. m < f e) later) = drop ?k ?F @ filter (\<lambda>e. m < f e) later"
    by (metis append_Nil filter_append)
  also have "\<dots> = drop (length ?E) (?F @ filter (\<lambda>e. m < f e) later)" by (simp add: E min_def)
  finally have "filter (\<lambda>e. ?c < f e) (es @ later) = drop (length ?E) (filter (\<lambda>e. m < f e) (es @ later))"
    using filter_later[OF mc, where ys = "es @ later"] by simp
  then have "batch f ?c (es @ later) = take ?k (drop (length ?E) (filter (\<lambda>e. m < f e) (es @ later)))"
    by (simp add: batch_def)
  moreover have "?E = take (length ?E) (filter (\<lambda>e. m < f e) (es @ later))" by (simp add: E min_def)
  ultimately show ?thesis by (metis take_add)
qed

section \<open>The rows of an event dataset\<close>

definition is_event :: "scheduled_export \<Rightarrow> bool" where
  "is_event x \<longleftrightarrow> se_dataset x = ''roas_snapshots'' \<or> se_dataset x = ''rule_actions''"

text \<open>Time, id and cells of the workspace's rows.\<close>

definition event_rows :: "scheduled_export \<Rightarrow> export_world \<Rightarrow> (time \<times> uuid \<times> jsval list) list" where
  "event_rows x w = (if se_dataset x = ''roas_snapshots''
     then map (\<lambda>s. (rs_createdAt s, rs_id s, hd (xt_rows (roasSnapshotTable [s]))))
            (filter (\<lambda>s. rs_workspaceId s = se_workspaceId x) (aw_snapshots (ads_of w)))
     else map (\<lambda>a. (ra_createdAt a, ra_id a, hd (xt_rows (ruleActionTable (ru_rules (ew_rules w)) [a]))))
            (filter (\<lambda>a. ra_workspaceId a = se_workspaceId x) (ru_actions (ew_rules w))))"

definition event_batch :: "export_env \<Rightarrow> scheduled_export \<Rightarrow> time \<Rightarrow> export_world \<Rightarrow> (time \<times> uuid \<times> jsval list) list" where
  "event_batch env x since w = take MAX_ROWS_PER_RUN (filter (\<lambda>(t, i, _). stored_after (ee_micros env) i t since) (event_rows x w))"

lemma buildTable_event:
  assumes "is_event x"
  shows "\<exists>headers. buildTable env now (se_workspaceId x) user (request_of x) since window w =
     (Inr (\<lparr>xt_headers = headers, xt_rows = map (\<lambda>(_, _, c). c) (event_batch env x since w)\<rparr>,
           newest_time (map fst (event_batch env x since w))), w)"
proof (cases "se_dataset x = ''roas_snapshots''")
  case True
  have "map (\<lambda>(_, _, c). c) (event_batch env x since w) = xt_rows (roasSnapshotTable (snapshotsSince (ee_micros env) (se_workspaceId x) since MAX_ROWS_PER_RUN (aw_snapshots (ads_of w))))"
    "map fst (event_batch env x since w) = map rs_createdAt (snapshotsSince (ee_micros env) (se_workspaceId x) since MAX_ROWS_PER_RUN (aw_snapshots (ads_of w)))"
    by (simp_all add: True event_batch_def event_rows_def snapshotsSince_def roasSnapshotTable_def take_map filter_map comp_def conj_commute)
  then show ?thesis using True by (intro exI[of _ ROAS_HEADERS]) (simp add: buildTable_def request_of_def roasSnapshotTable_def Let_def)
next
  case False
  with assms have d: "se_dataset x = ''rule_actions''" by (simp add: is_event_def)
  have "map (\<lambda>(_, _, c). c) (event_batch env x since w) = xt_rows (ruleActionTable (ru_rules (ew_rules w)) (actionsForWorkspace (ee_micros env) (se_workspaceId x) since MAX_ROWS_PER_RUN (ru_actions (ew_rules w))))"
    "map fst (event_batch env x since w) = map ra_createdAt (actionsForWorkspace (ee_micros env) (se_workspaceId x) since MAX_ROWS_PER_RUN (ru_actions (ew_rules w)))"
    by (simp_all add: d event_batch_def event_rows_def actionsForWorkspace_def ruleActionTable_def take_map filter_map comp_def conj_commute)
  then show ?thesis using d by (intro exI[of _ RULE_ACTION_HEADERS]) (simp add: buildTable_def request_of_def ruleActionTable_def Let_def)
qed

lemma event_batch_whole:
  "(\<And>i. ee_micros env i mod 1000 = 0) \<Longrightarrow> event_batch env x since w = batch fst since (event_rows x w)"
  by (simp add: event_batch_def batch_def stored_after_whole case_prod_unfold)

lemma succeeded_same [simp]:
  "se_dataset (export_succeeded now x p) = se_dataset x" "se_workspaceId (export_succeeded now x p) = se_workspaceId x"
  "se_createdByUserId (export_succeeded now x p) = se_createdByUserId x" "is_event (export_succeeded now x p) = is_event x"
  "event_rows (export_succeeded now x p) w = event_rows x w" "event_batch env (export_succeeded now x p) since w = event_batch env x since w"
  by (simp_all add: export_succeeded_def is_event_def event_rows_def event_batch_def split: prod.split)

definition resume_from :: "time \<Rightarrow> scheduled_export \<Rightarrow> time" where
  "resume_from now x = or_default (se_lastExportedAt x) (days_ago now (se_windowDays x))"

definition cells_of :: "(time \<times> uuid \<times> jsval list) list \<Rightarrow> cells" where
  "cells_of es = map (\<lambda>(_, _, c). c) es"

lemma event_export:
  assumes "is_event x" and "export_rows env now x window w = (Inr p, w1)"
  shows "xt_rows (fst p) = cells_of (event_batch env x (resume_from now x) w)"
    and "fst (snd p) = newest_time (map fst (event_batch env x (resume_from now x) w))"
  using assms(2) buildTable_event[OF assms(1), of env now "se_createdByUserId x" "resume_from now x" window w]
  by (auto simp: export_rows_def resume_from_def cells_of_def split: prod.splits sum.splits)

lemma succeeded_watermark:
  "resume_from now' (export_succeeded now x p) = or_default (fst (snd p)) now"
  by (simp add: resume_from_def export_succeeded_def or_default_def split: prod.split)

text \<open>C26: With row times that are whole milliseconds, successive successful exports neither repeat nor skip a row: what two
  runs write is one stretch of the workspace's rows after the first watermark, in order, also when the first run is
  cut at 500 rows or finds nothing.  Rows may share a millisecond, except at the cut: when a run leaves
  rows over for the next one, none of them has the time of the last row it wrote (such rows would be skipped), and the
  rows that come later are newer than the first run.\<close>

theorem exports_resume_exactly:
  assumes "is_event x" and "\<And>i. ee_micros env i mod 1000 = 0"
    and "export_rows env now x window w = (Inr p, w1)"
    and "export_rows env now' (export_succeeded now x p) window' w2 = (Inr q, w3)"
    and "event_rows x w2 = event_rows x w @ later" and "sorted (map fst (event_rows x w))"
    and "resume_from now x \<le> now" and "\<forall>e \<in> set (event_rows x w). fst e \<le> now" and "\<forall>e \<in> set later. now < fst e"
    and cut: "let due = filter (\<lambda>e. resume_from now x < fst e) (event_rows x w) in
      \<forall>d \<in> set (take 500 due). \<forall>e \<in> set (drop 500 due). fst d < fst e"
  shows "xt_rows (fst p) @ xt_rows (fst q) =
    cells_of (take (length (xt_rows (fst p)) + 500) (filter (\<lambda>e. resume_from now x < fst e) (event_rows x w2)))"
proof -
  let ?m = "resume_from now x" and ?es = "event_rows x w"
  let ?E1 = "batch fst ?m ?es"
  have E1: "xt_rows (fst p) = cells_of ?E1" "fst (snd p) = newest_time (map fst ?E1)"
    using event_export[OF assms(1,3)] by (simp_all add: event_batch_whole[OF assms(2)])
  have "is_event (export_succeeded now x p)" using assms(1) by simp
  from event_export(1)[OF this assms(4)]
  have E2: "xt_rows (fst q) = cells_of (batch fst (or_default (fst (snd p)) now) (?es @ later))"
    by (simp add: event_batch_whole[OF assms(2)] succeeded_watermark assms(5))
  have len: "length (xt_rows (fst p)) = length ?E1" by (simp add: E1 cells_of_def)
  have "?E1 @ batch fst (or_default (fst (snd p)) now) (?es @ later)
      = take (length ?E1 + 500) (filter (\<lambda>e. ?m < fst e) (?es @ later))"
  proof (cases "?E1 = []")
    case True
    then have n: "filter (\<lambda>e. ?m < fst e) ?es = []" by (simp add: batch_def MAX_ROWS_PER_RUN_def)
    have l: "filter (\<lambda>e. ?m < fst e) later = later" "filter (\<lambda>e. now < fst e) later = later"
      using assms(7,9) by (auto simp: filter_id_conv)
    have "filter (\<lambda>e. now < fst e) ?es = []" using assms(8) by (auto simp: filter_empty_conv)
    moreover have "or_default (fst (snd p)) now = now" using True by (simp add: E1(2) or_default_def newest_time_def)
    ultimately show ?thesis using True n l by (simp add: batch_def MAX_ROWS_PER_RUN_def)
  next
    case False
    have "sorted (map fst ?E1)" unfolding batch_def take_map[symmetric] by (intro sorted_wrt_take sorted_map_filter assms(6))
    from newest_time_le[OF this] False
    have wm: "or_default (fst (snd p)) now = fst (last ?E1)" by (simp add: E1(2) or_default_def last_map)
    have l: "last ?E1 \<in> set ?E1" using False by simp
    then have "last ?E1 \<in> set ?es" using set_take_subset by (fastforce simp: batch_def)
    with assms(8,9) have "\<forall>e \<in> set later. fst (last ?E1) < fst e" by force
    moreover have "\<forall>e \<in> set (drop MAX_ROWS_PER_RUN (filter (\<lambda>e. ?m < fst e) ?es)). fst (last ?E1) < fst e"
      using cut l by (simp add: Let_def batch_def MAX_ROWS_PER_RUN_def)
    ultimately show ?thesis
      unfolding wm using batches_adjoin_le[OF assms(6) False] by (simp add: MAX_ROWS_PER_RUN_def)
  qed
  then show ?thesis unfolding E1(1) E2 assms(5) len[unfolded E1(1)] by (simp add: cells_of_def flip: map_append)
qed

lemma event_batch_part:
  "(\<And>i. ee_micros env i mod 1000 \<noteq> 0) \<Longrightarrow> event_batch env x since w = take 500 (filter (\<lambda>e. since \<le> fst e) (event_rows x w))"
  by (simp add: event_batch_def stored_after_part case_prod_unfold MAX_ROWS_PER_RUN_def)

lemma last_is_newest:
  fixes f :: "'e \<Rightarrow> time"
  assumes "sorted_wrt (<) (map f es)" "filter (\<lambda>e. m \<le> f e) es \<noteq> []"
  shows "last (filter (\<lambda>e. m \<le> f e) es) = last es \<and> filter (\<lambda>e. f (last es) \<le> f e) es = [last es]"
proof -
  have ne: "es \<noteq> []" using assms(2) by auto
  then obtain xs x where es: "es = xs @ [x]" by (metis append_butlast_last_id)
  have s: "\<forall>y \<in> set xs. f y < f x" using assms(1) by (auto simp: es sorted_wrt_append)
  have mx: "m \<le> f x" using assms(2) s by (force simp: es filter_empty_conv split: if_splits)
  have "filter (\<lambda>e. f x \<le> f e) xs = []" using s by (auto simp: filter_empty_conv)
  with mx show ?thesis by (simp add: es)
qed

text \<open>
  The microseconds Postgres keeps defeat the watermark: on unchanged tables the next export writes the last
  row again, and does so at every run.
\<close>

lemma last_row_exported_again:
  assumes "is_event x" and "\<And>i. ee_micros env i mod 1000 \<noteq> 0"
    and "export_rows env now x window w = (Inr p, w1)" and "xt_rows (fst p) \<noteq> []" and "length (xt_rows (fst p)) < 500"
    and "export_rows env now' (export_succeeded now x p) window' w2 = (Inr q, w3)"
    and "event_rows x w2 = event_rows x w" and s: "sorted_wrt (<) (map fst (event_rows x w))"
  shows "xt_rows (fst q) = [last (xt_rows (fst p))]"
proof -
  let ?es = "event_rows x w" and ?m = "resume_from now x"
  let ?F = "filter (\<lambda>e. ?m \<le> fst e) ?es"
  have E1: "xt_rows (fst p) = cells_of (take 500 ?F)" "fst (snd p) = newest_time (map fst (take 500 ?F))"
    using event_export[OF assms(1,3)] by (simp_all add: event_batch_part[OF assms(2)])
  from assms(5) have t: "take 500 ?F = ?F" by (simp add: E1 cells_of_def)
  from assms(4) have ne: "?F \<noteq> []" by (auto simp: E1 cells_of_def)
  from last_is_newest[OF s ne] have l: "last ?F = last ?es" "filter (\<lambda>e. fst (last ?es) \<le> fst e) ?es = [last ?es]" by simp_all
  have "newest_time (map fst ?F) = Some (fst (last ?F))"
    using newest_time_sorted[OF sorted_map_filter[OF s, of "\<lambda>e. ?m \<le> fst e"]] ne by (simp add: last_map)
  then have wm: "or_default (fst (snd p)) now = fst (last ?es)" by (simp add: E1(2) t l or_default_def)
  have "is_event (export_succeeded now x p)" using assms(1) by simp
  from event_export(1)[OF this assms(6)] have "xt_rows (fst q) = cells_of (take 500 [last ?es])"
    by (simp add: event_batch_part[OF assms(2)] succeeded_watermark wm assms(7) l(2))
  then show ?thesis using ne l(1) by (simp add: E1(1) t cells_of_def last_map split_beta)
qed

text \<open>A failed run changes nothing a later run resumes from, not even the sheet it may have created or filled.\<close>

lemma failed_run_leaves_no_trace:
  "se_spreadsheetId (export_failed e x) = se_spreadsheetId x \<and> resume_from now (export_failed e x) = resume_from now x
   \<and> request_of (export_failed e x) = request_of x"
  by (simp add: export_failed_def resume_from_def request_of_def)

section \<open>A sample\<close>

definition sample_action :: "uuid \<Rightarrow> time \<Rightarrow> rule_action" where
  "sample_action i t = \<lparr>ra_id = i, ra_ruleId = ''r1'', ra_workspaceId = ''w1'', ra_entityType = CAMPAIGN, ra_entityId = Some ''e1'',
     ra_entityName = None, ra_metricValue = None, ra_action = PAUSE, ra_detail = None, ra_success = True, ra_error = None,
     ra_createdAt = t\<rparr>"

definition sample_sheets_row :: integration where
  "sample_sheets_row = (sample_integration ''i4'' ''b'' TEAM ''apn_2'')\<lparr>ig_provider := PIPEDREAM, ig_appSlug := ''google_sheets''\<rparr>"

definition sample_export :: scheduled_export where
  "sample_export = \<lparr>se_id = ''x1'', se_workspaceId = ''w1'', se_name = ''Log'', se_dataset = ''rule_actions'', se_adAccountId = None,
     se_windowDays = 1, se_spreadsheetId = None, se_spreadsheetTitle = Some ''Log'', se_spreadsheetUrl = None, se_sheetTitle = ''Log'',
     se_cronExpression = ''0 8 * * *'', se_timezone = None, se_slackChannelId = None, se_isActive = True,
     se_createdByUserId = None, se_lastRun = None, se_nextRun = None, se_lastExportedAt = None, se_lastRowCount = None,
     se_lastError = None\<rparr>"

definition sample_export_env :: "nat \<Rightarrow> export_env" where
  "sample_export_env micros = \<lparr>ee_rules = \<lparr>re_ads = sample_ads_env, re_cron = (\<lambda>_ _ t. Some (t + 1)), re_id = (\<lambda>_. []), re_refuses = (\<lambda>_. None)\<rparr>,
     ee_micros = (\<lambda>_. micros), ee_sheets = sample_proxy\<rparr>"

definition sample_export_world :: "rule_action list \<Rightarrow> export_world" where
  "sample_export_world actions = \<lparr>ew_rules = \<lparr>ru_ads = sample_ads_world\<lparr>aw_meta := \<lparr>mw_rows = [sample_sheets_row], mw_sent = []\<rparr>\<rparr>,
     ru_rules = [], ru_actions = actions\<rparr>, ew_exports = [sample_export], ew_sheets = []\<rparr>"

lemma exports_resume_exactly_witness:
  "\<exists>p w1 q w3. export_rows (sample_export_env 0) 30 sample_export (''a'', ''b'') (sample_export_world [sample_action ''1'' 10, sample_action ''2'' 20]) = (Inr p, w1)
     \<and> export_rows (sample_export_env 0) 60 (export_succeeded 30 sample_export p) (''a'', ''b'')
          (sample_export_world [sample_action ''1'' 10, sample_action ''2'' 20, sample_action ''3'' 50]) = (Inr q, w3)
     \<and> length (xt_rows (fst p)) = 2
     \<and> xt_rows (fst p) @ xt_rows (fst q) = cells_of (event_rows sample_export (sample_export_world [sample_action ''1'' 10, sample_action ''2'' 20, sample_action ''3'' 50]))"
proof -
  let ?w = "sample_export_world [sample_action ''1'' 10, sample_action ''2'' 20]"
  let ?w2 = "sample_export_world [sample_action ''1'' 10, sample_action ''2'' 20, sample_action ''3'' 50]"
  let ?run = "export_rows (sample_export_env 0) 30 sample_export (''a'', ''b'') ?w"
  have both: "case fst ?run of Inl _ \<Rightarrow> False | Inr p \<Rightarrow> length (xt_rows (fst p)) = 2 \<and> is_ok (fst (export_rows (sample_export_env 0) 60
      (export_succeeded 30 sample_export p) (''a'', ''b'') ?w2))" by code_simp
  then have "is_ok (fst ?run)" by (cases "fst ?run") (simp_all only: sum.case is_ok_simps)
  then obtain p w1 where p: "?run = (Inr p, w1)" by (cases ?run) (auto simp: is_ok_iff)
  from both have n: "length (xt_rows (fst p)) = 2" and "is_ok (fst (export_rows (sample_export_env 0) 60 (export_succeeded 30 sample_export p) (''a'', ''b'') ?w2))"
    by (simp_all add: p)
  then obtain q w3 where q: "export_rows (sample_export_env 0) 60 (export_succeeded 30 sample_export p) (''a'', ''b'') ?w2 = (Inr q, w3)"
    by (cases "export_rows (sample_export_env 0) 60 (export_succeeded 30 sample_export p) (''a'', ''b'') ?w2") (auto simp: is_ok_iff)
  have e: "is_event sample_export" by (simp add: is_event_def sample_export_def)
  have m: "ee_micros (sample_export_env 0) i mod 1000 = 0" for i by (simp add: sample_export_env_def)
  let ?later = "drop 2 (event_rows sample_export ?w2)"
  have grow: "event_rows sample_export ?w2 = event_rows sample_export ?w @ ?later"
    by (simp add: event_rows_def sample_export_def sample_export_world_def sample_action_def ruleActionTable_def)
  have times: "map fst (event_rows sample_export ?w2) = [10, 20, 50]" "map fst (event_rows sample_export ?w) = [10, 20]"
    by (simp_all add: event_rows_def sample_export_def sample_export_world_def sample_action_def)
  have start: "resume_from 30 sample_export = 30 - 86400000"
    by (simp add: resume_from_def sample_export_def or_default_def days_ago_def ms_per_day_def)
  have past: "\<forall>x \<in> set (event_rows sample_export ?w). fst x \<le> 30" and future: "\<forall>x \<in> set ?later. 30 < fst x"
    and all: "filter (\<lambda>x. resume_from 30 sample_export < fst x) (event_rows sample_export ?w2) = event_rows sample_export ?w2"
    unfolding start by (simp_all add: event_rows_def sample_export_def sample_export_world_def sample_action_def)
  have "length (event_rows sample_export ?w2) = 3" using arg_cong[OF times(1), of length] by simp
  moreover have "resume_from 30 sample_export \<le> 30" by (simp add: start)
  moreover have "sorted (map fst (event_rows sample_export ?w))" by (simp add: times(2))
  moreover have "length (event_rows sample_export ?w) = 2" using arg_cong[OF times(2), of length] by simp
  then have "length (filter P (event_rows sample_export ?w)) \<le> 500" for P
    using length_filter_le[of P "event_rows sample_export ?w"] by linarith
  ultimately have "xt_rows (fst p) @ xt_rows (fst q) = cells_of (event_rows sample_export ?w2)"
    using exports_resume_exactly[OF e m p q grow _ _ past future] by (simp only: all n) (simp add: Let_def)
  with p q n show ?thesis by blast
qed

section \<open>The tick\<close>

lemma campaign_keeps_exports: "ew_exports (snd (campaign_table env now ws user r window w)) = ew_exports w"
  by (simp add: campaign_table_def export_token_def Let_def split_beta split: option.split sum.split)

lemma build_keeps_exports: "ew_exports (snd (buildTable env now ws user r m window w)) = ew_exports w"
  by (simp add: buildTable_def campaign_keeps_exports Let_def)

lemma write_keeps_exports: "ew_exports (snd (write_export env ws user r t w)) = ew_exports w"
  by (simp add: write_export_def Let_def split_beta split: option.split)

lemma export_rows_keeps_exports: "ew_exports (snd (export_rows env now x window w)) = ew_exports w"
proof -
  obtain r w1 where b: "buildTable env now (se_workspaceId x) (se_createdByUserId x) (request_of x)
      (or_default (se_lastExportedAt x) (days_ago now (se_windowDays x))) window w = (r, w1)" by fastforce
  with build_keeps_exports have w1: "ew_exports w1 = ew_exports w" by (metis snd_conv)
  show ?thesis
  proof (cases r)
    case (Inr p)
    obtain t m where p: "p = (t, m)" by fastforce
    obtain q w2 where q: "write_export env (se_workspaceId x) (se_createdByUserId x) (request_of x) t w1 = (q, w2)" by fastforce
    with write_keeps_exports have "ew_exports w2 = ew_exports w1" by (metis snd_conv)
    with b q w1 Inr p show ?thesis by (cases q) (simp_all add: export_rows_def)
  qed (simp add: export_rows_def b w1)
qed

text \<open>Whether the schedule of an export can be read and its window is two dates.\<close>

definition runnable :: "cron \<Rightarrow> time \<Rightarrow> scheduled_export \<Rightarrow> bool" where
  "runnable cron now x \<longleftrightarrow> is_ok (rule_window now (se_windowDays x)) \<and> is_ok (nextRunFrom cron (se_cronExpression x) (se_timezone x) now)"

lemma runExport_settles:
  assumes "fires_later (re_cron (ee_rules env)) now" and "runnable (re_cron (ee_rules env)) now x"
  shows "\<exists>rep w1 x2. runExport env now True x w = (Inr rep, w1) \<and> xp_exportId rep = se_id x
     \<and> ew_exports w1 = save_row se_id x2 (ew_exports w) \<and> se_id x2 = se_id x \<and> \<not> is_due now (se_isActive x2) (se_nextRun x2)"
proof -
  let ?cron = "re_cron (ee_rules env)"
  from assms(2) obtain window n where v: "rule_window now (se_windowDays x) = Inr window"
    and n: "nextRunFrom ?cron (se_cronExpression x) (se_timezone x) now = Inr n" by (auto simp: runnable_def is_ok_iff)
  from nextRunFrom_later[OF assms(1) n] have late: "now < n" .
  obtain r w1 where r: "export_rows env now x window w = (r, w1)" by fastforce
  with export_rows_keeps_exports have w1: "ew_exports w1 = ew_exports w" by (metis snd_conv)
  show ?thesis
  proof (cases r)
    case (Inl e)
    with v n r w1 late show ?thesis
      by (simp add: runExport_def settle_export_def export_failed_def export_report_of_def is_due_def
          exI[of _ "x\<lparr>se_lastError := Some (error_message e), se_lastRowCount := None, se_lastRun := Some now, se_nextRun := Some n\<rparr>"])
  next
    case (Inr p)
    have "settle_export ?cron now True (export_succeeded now x p) = Inr ((export_succeeded now x p)\<lparr>se_lastRun := Some now, se_nextRun := Some n\<rparr>)"
      using n by (simp add: settle_export_def export_succeeded_def split: prod.split)
    moreover have "se_id (export_succeeded now x p) = se_id x" by (simp add: export_succeeded_def split: prod.split)
    ultimately show ?thesis using v r w1 Inr late
      by (simp add: runExport_def export_report_of_def is_due_def
          exI[of _ "(export_succeeded now x p)\<lparr>se_lastRun := Some now, se_nextRun := Some n\<rparr>"])
  qed
qed

text \<open>
  One broken export never stalls the tick: whatever Meta and Sheets answer, every due export gets a
  report and none is due afterwards.
\<close>

lemma tick_serves_every_due_export:
  assumes "fires_later (re_cron (ee_rules env)) now" and "\<forall>x \<in> set (due_exports now (ew_exports w)). runnable (re_cron (ee_rules env)) now x"
  shows "\<exists>reps w'. runDueExports env now w = (Inr reps, w') \<and> map xp_exportId reps = map se_id (due_exports now (ew_exports w))
     \<and> (\<forall>x \<in> set (ew_exports w'). \<not> is_due now (se_isActive x) (se_nextRun x))"
proof -
  have run: "\<exists>reps w'. run_exports env now xs w = (Inr reps, w') \<and> map xp_exportId reps = map se_id xs
     \<and> (\<forall>y \<in> set (ew_exports w'). is_due now (se_isActive y) (se_nextRun y) \<longrightarrow> y \<in> set (ew_exports w) \<and> se_id y \<notin> se_id ` set xs)"
    if "\<forall>x \<in> set xs. runnable (re_cron (ee_rules env)) now x" for xs w
    using that
  proof (induction xs arbitrary: w)
    case (Cons x xs)
    from runExport_settles[OF assms(1), of x w] Cons.prems obtain rep w1 x2 where
      r: "runExport env now True x w = (Inr rep, w1)" "xp_exportId rep = se_id x"
      and s: "ew_exports w1 = save_row se_id x2 (ew_exports w)" "se_id x2 = se_id x" "\<not> is_due now (se_isActive x2) (se_nextRun x2)" by auto
    from Cons.IH[of w1] Cons.prems obtain reps w' where
      i: "run_exports env now xs w1 = (Inr reps, w')" "map xp_exportId reps = map se_id xs"
      "\<forall>y \<in> set (ew_exports w'). is_due now (se_isActive y) (se_nextRun y) \<longrightarrow> y \<in> set (ew_exports w1) \<and> se_id y \<notin> se_id ` set xs" by auto
    have "\<forall>y \<in> set (ew_exports w'). is_due now (se_isActive y) (se_nextRun y) \<longrightarrow> y \<in> set (ew_exports w) \<and> se_id y \<notin> se_id ` set (x # xs)"
      using i(3) s by (auto simp: set_save_row)
    with r i(1,2) show ?case by auto
  qed simp
  from run[OF assms(2)] obtain reps w' where r: "run_exports env now (due_exports now (ew_exports w)) w = (Inr reps, w')"
    "map xp_exportId reps = map se_id (due_exports now (ew_exports w))"
    "\<forall>y \<in> set (ew_exports w'). is_due now (se_isActive y) (se_nextRun y) \<longrightarrow> y \<in> set (ew_exports w) \<and> se_id y \<notin> se_id ` set (due_exports now (ew_exports w))" by blast
  have "\<not> is_due now (se_isActive y) (se_nextRun y)" if "y \<in> set (ew_exports w')" for y
    using r(3) that by (auto simp: due_exports_def)
  with r(1,2) show ?thesis by (auto simp: runDueExports_def)
qed

end
