(* ===== verification/AiRun.thy ===== *)
theory AiRun
  imports Bridge Roas
begin

text \<open>
  The loop of a run of the model: the part of \<open>AiService.run\<close> in \<open>src/src/ai/ai.service.ts\<close> between the
  resolved toolset and the metering, over the shapes of \<open>providers/provider.interface.ts\<close>.  The provider
  is the parameter \<open>llm\<close>: its reply to a request after the requests it got before.  What executes a tool
  call is the argument \<open>exec\<close>, which \<open>AiService\<close> instantiates with \<open>runTool\<close>.
\<close>

section \<open>Shapes\<close>

datatype stop_reason = END_TURN | TOOL_USE | PAUSE_TURN | TRUNCATED

record tool_call =
  tc_id :: string
  tc_name :: string
  tc_input :: jsval

record call_result =
  cr_id :: string
  cr_name :: string
  cr_content :: string
  cr_isError :: bool

datatype provider_message =
  UserMessage string
| AssistantMessage string "tool_call list" "jsval option"
| ToolMessage "call_result list"

record provider_usage =
  pu_inputTokens :: int
  pu_outputTokens :: int
  pu_cacheWriteTokens :: "int option"
  pu_cacheReadTokens :: "int option"
  pu_costUsd :: "jsnum option"
  pu_resolvedModel :: "string option"

record ai_action =
  ac_app :: string
  ac_tool :: string
  ac_isError :: bool

record provider_response =
  pr_text :: string
  pr_toolCalls :: "tool_call list"
  pr_remoteActivity :: "ai_action list"
  pr_usage :: provider_usage
  pr_stopReason :: stop_reason
  pr_raw :: jsval

record provider_request =
  rq_model :: string
  rq_system :: string
  rq_messages :: "provider_message list"
  rq_tools :: "ToolRouter.tool_spec list"
  rq_mcpServers :: "remote_server list"
  rq_adaptiveThinking :: bool

text \<open>What \<open>create\<close> throws: an \<open>McpConnectionError\<close> or anything else.\<close>

datatype llm_failure = McpConnectionError string | Refused http_error

type_synonym llm = "provider_request list \<Rightarrow> provider_request \<Rightarrow> llm_failure + provider_response"

section \<open>One turn\<close>

definition MAX_TRUNCATED_RETRIES :: nat where
  "MAX_TRUNCATED_RETRIES = 1"

definition TRUNCATED_ANSWER :: string where
  "TRUNCATED_ANSWER = ''That was too long for me to write in one reply, so I stopped rather than publish it cut off. ''
     @ ''Ask for a shorter version, or for it in parts and I will add each part to the page.''"

definition NOT_RUN_TRUNCATED :: string where
  "NOT_RUN_TRUNCATED = ''Not run: your reply reached the output limit before this call was complete. ''
     @ ''Try again with less, e.g. a shorter page, or build it and then add to it with edits.''"

text \<open>
  The variables of the loop; \<open>rn_calls\<close> and \<open>rn_replies\<close> record the requests sent and the replies that came.
\<close>

record run_state =
  rn_servers :: "remote_server list"
  rn_bridged :: "bridged_toolset option"
  rn_tools :: "ToolRouter.tool_spec list"
  rn_apps :: "string list"
  rn_available :: bool
  rn_messages :: "provider_message list"
  rn_actions :: "ai_action list"
  rn_answer :: string
  rn_input :: int
  rn_output :: int
  rn_cacheWrite :: int
  rn_cacheRead :: int
  rn_cost :: "jsnum option"
  rn_resolved :: "string option"
  rn_truncations :: nat
  rn_calls :: "provider_request list"
  rn_replies :: "provider_response list"

text \<open>What stays the same during the loop.\<close>

record run_setup =
  st_model :: string
  st_system :: string
  st_adaptive :: bool
  st_localTools :: "ToolRouter.tool_spec list"
  st_hasMeta :: bool

definition request_for :: "run_setup \<Rightarrow> run_state \<Rightarrow> provider_request" where
  "request_for u s = \<lparr>rq_model = st_model u, rq_system = st_system u, rq_messages = rn_messages s,
     rq_tools = rn_tools s, rq_mcpServers = rn_servers s, rq_adaptiveThinking = st_adaptive u\<rparr>"

text \<open>Sending a request and recording it.\<close>

definition send_request :: "llm \<Rightarrow> run_setup \<Rightarrow> run_state \<Rightarrow> (llm_failure + provider_response) \<times> run_state" where
  "send_request llm u s = (let r = request_for u s in (llm (rn_calls s) r, s\<lparr>rn_calls := rn_calls s @ [r]\<rparr>))"

definition without_apps :: "run_setup \<Rightarrow> run_state \<Rightarrow> run_state" where
  "without_apps u s = s\<lparr>rn_servers := [], rn_bridged := None, rn_tools := st_localTools u,
     rn_apps := (if st_hasMeta u then [''meta_ads''] else []), rn_available := st_hasMeta u\<rparr>"

definition reply_of :: "llm \<Rightarrow> run_setup \<Rightarrow> run_state \<Rightarrow> (llm_failure + provider_response) \<times> run_state" where
  "reply_of llm u s = (case send_request llm u s of
     (Inl (McpConnectionError m), s1) \<Rightarrow>
       if rn_servers s = [] then (Inl (McpConnectionError m), s1) else send_request llm u (without_apps u s1)
   | other \<Rightarrow> other)"

definition add_cost :: "jsnum option \<Rightarrow> jsnum option \<Rightarrow> jsnum option" where
  "add_cost before cost = (case cost of None \<Rightarrow> before
     | Some c \<Rightarrow> Some (num_add (case before of None \<Rightarrow> Fin 0 | Some t \<Rightarrow> t) c))"

definition tally :: "provider_response \<Rightarrow> run_state \<Rightarrow> run_state" where
  "tally r s = (let u = pr_usage r in
     s\<lparr>rn_input := rn_input s + pu_inputTokens u,
       rn_cost := add_cost (rn_cost s) (pu_costUsd u),
       rn_resolved := (case pu_resolvedModel u of Some (c # cs) \<Rightarrow> Some (c # cs) | _ \<Rightarrow> rn_resolved s),
       rn_output := rn_output s + pu_outputTokens u,
       rn_cacheWrite := rn_cacheWrite s + (case pu_cacheWriteTokens u of None \<Rightarrow> 0 | Some n \<Rightarrow> n),
       rn_cacheRead := rn_cacheRead s + (case pu_cacheReadTokens u of None \<Rightarrow> 0 | Some n \<Rightarrow> n),
       rn_answer := rn_answer s @ pr_text r,
       rn_actions := rn_actions s @ pr_remoteActivity r,
       rn_replies := rn_replies s @ [r]\<rparr>)"

type_synonym 'w exec = "bridged_toolset option \<Rightarrow> tool_call \<Rightarrow> 'w \<Rightarrow> call_result \<times> 'w"

fun run_calls :: "'w exec \<Rightarrow> bridged_toolset option \<Rightarrow> tool_call list \<Rightarrow> 'w \<Rightarrow> call_result list \<times> 'w" where
  "run_calls exec b [] w = ([], w)"
| "run_calls exec b (c # cs) w = (let (r, w1) = exec b c w; (rs, w2) = run_calls exec b cs w1 in (r # rs, w2))"

definition called_app :: "(string \<Rightarrow> string) \<Rightarrow> bridged_toolset option \<Rightarrow> string \<Rightarrow> string" where
  "called_app localToolApp b name = (case b of
     Some bs \<Rightarrow> if has_tool bs name then appFor bs name else localToolApp name
   | None \<Rightarrow> localToolApp name)"

definition add_message :: "provider_message \<Rightarrow> run_state \<Rightarrow> run_state" where
  "add_message m s = s\<lparr>rn_messages := rn_messages s @ [m]\<rparr>"

definition assistant_turn :: "provider_response \<Rightarrow> tool_call list \<Rightarrow> provider_message" where
  "assistant_turn r calls = AssistantMessage (pr_text r) calls (Some (pr_raw r))"

definition not_run :: "tool_call \<Rightarrow> call_result" where
  "not_run c = \<lparr>cr_id = tc_id c, cr_name = tc_name c, cr_content = NOT_RUN_TRUNCATED, cr_isError = True\<rparr>"

text \<open>The rest of an iteration once the reply is there: whether to go round again.\<close>

definition after_reply ::
  "(string \<Rightarrow> string) \<Rightarrow> 'w exec \<Rightarrow> provider_response \<Rightarrow> run_state \<Rightarrow> 'w \<Rightarrow> bool \<times> run_state \<times> 'w" where
  "after_reply localToolApp exec r s w =
    (if pr_stopReason r = TOOL_USE \<and> pr_toolCalls r \<noteq> [] then
       (let (results, w') = run_calls exec (rn_bridged s) (pr_toolCalls r) w;
            acts = map2 (\<lambda>c res. \<lparr>ac_app = called_app localToolApp (rn_bridged s) (tc_name c), ac_tool = tc_name c,
                                  ac_isError = cr_isError res\<rparr>) (pr_toolCalls r) results
        in (True, add_message (ToolMessage results) (add_message (assistant_turn r (pr_toolCalls r))
              (s\<lparr>rn_actions := rn_actions s @ acts\<rparr>)), w'))
     else if pr_stopReason r = TRUNCATED \<and> pr_toolCalls r \<noteq> [] then
       (let s1 = s\<lparr>rn_truncations := Suc (rn_truncations s)\<rparr> in
        if MAX_TRUNCATED_RETRIES < rn_truncations s1
        then (False, s1\<lparr>rn_answer := rn_answer s1 @ (if js_trim (rn_answer s1) = [] then [] else [CHR 0x0A, CHR 0x0A])
                          @ TRUNCATED_ANSWER\<rparr>, w)
        else (True, add_message (ToolMessage (map not_run (pr_toolCalls r)))
                      (add_message (assistant_turn r (pr_toolCalls r)) s1), w))
     else if pr_stopReason r = PAUSE_TURN then (True, add_message (assistant_turn r []) s, w)
     else (False, s, w))"

definition run_turn ::
  "llm \<Rightarrow> (string \<Rightarrow> string) \<Rightarrow> 'w exec \<Rightarrow> run_setup \<Rightarrow> run_state \<Rightarrow> 'w \<Rightarrow> (llm_failure + bool) \<times> run_state \<times> 'w" where
  "run_turn llm localToolApp exec u s w = (case reply_of llm u s of
     (Inl e, s1) \<Rightarrow> (Inl e, s1, w)
   | (Inr r, s1) \<Rightarrow> (case after_reply localToolApp exec r (tally r s1) w of (again, s2, w') \<Rightarrow> (Inr again, s2, w')))"

section \<open>The loop\<close>

definition MAX_TURNS :: nat where
  "MAX_TURNS = 6"

text \<open>\<open>for (let i = 0; i < 6; i += 1)\<close>: \<open>n\<close> iterations are left.\<close>

fun run_loop ::
  "nat \<Rightarrow> llm \<Rightarrow> (string \<Rightarrow> string) \<Rightarrow> 'w exec \<Rightarrow> run_setup \<Rightarrow> run_state \<Rightarrow> 'w \<Rightarrow> (llm_failure + unit) \<times> run_state \<times> 'w" where
  "run_loop 0 llm localToolApp exec u s w = (Inr (), s, w)"
| "run_loop (Suc n) llm localToolApp exec u s w = (case run_turn llm localToolApp exec u s w of
     (Inl e, s1, w1) \<Rightarrow> (Inl e, s1, w1)
   | (Inr again, s1, w1) \<Rightarrow> if again then run_loop n llm localToolApp exec u s1 w1 else (Inr (), s1, w1))"

section \<open>Invariants of the loop\<close>

lemma loop_invariant:
  assumes turn: "\<And>s w res s1 w1. I s w \<Longrightarrow> run_turn llm app exec u s w = (res, s1, w1) \<Longrightarrow> I s1 w1"
    and "I s w" "run_loop n llm app exec u s w = (res, s', w')"
  shows "I s' w'"
  using assms(2,3)
proof (induction n arbitrary: s w)
  case 0
  then show ?case by simp
next
  case (Suc n)
  obtain x s1 w1 where t: "run_turn llm app exec u s w = (x, s1, w1)" by (metis prod_cases3)
  from turn[OF Suc.prems(1) t] Suc.prems(2) t show ?case
    by (cases x) (auto split: if_splits intro: Suc.IH)
qed

lemma reply_of_keeps:
  assumes "reply_of llm u s = (x, s1)"
  shows "rn_messages s1 = rn_messages s" "rn_actions s1 = rn_actions s" "rn_answer s1 = rn_answer s"
    "rn_input s1 = rn_input s" "rn_output s1 = rn_output s" "rn_cacheWrite s1 = rn_cacheWrite s"
    "rn_cacheRead s1 = rn_cacheRead s" "rn_cost s1 = rn_cost s" "rn_resolved s1 = rn_resolved s"
    "rn_truncations s1 = rn_truncations s" "rn_replies s1 = rn_replies s"
  using assms by (auto simp: reply_of_def send_request_def without_apps_def Let_def split: sum.splits llm_failure.splits if_splits)

text \<open>What an attempt sends: the transcript, once more without the apps if there were any.\<close>

lemma reply_of_calls:
  assumes "reply_of llm u s = (x, s1)"
  shows "\<exists>rs. rn_calls s1 = rn_calls s @ rs \<and> (\<forall>r \<in> set rs. rq_messages r = rn_messages s)
    \<and> length rs + (if rn_servers s1 = [] then 0 else 1) \<le> 1 + (if rn_servers s = [] then 0 else 1)"
  using assms by (auto simp: reply_of_def send_request_def without_apps_def request_for_def Let_def
      split: sum.splits llm_failure.splits if_splits)

text \<open>What one turn does to the state, by how the turn ended.\<close>

lemma run_turn_cases:
  assumes "run_turn llm app exec u s w = (res, s2, w2)"
  obtains (failed) e where "res = Inl e" "reply_of llm u s = (Inl e, s2)" "w2 = w"
  | (called) r s1 results where "res = Inr True" "reply_of llm u s = (Inr r, s1)" "pr_stopReason r = TOOL_USE" "pr_toolCalls r \<noteq> []"
      "run_calls exec (rn_bridged s1) (pr_toolCalls r) w = (results, w2)"
      "s2 = add_message (ToolMessage results) (add_message (assistant_turn r (pr_toolCalls r))
         ((tally r s1)\<lparr>rn_actions := rn_actions s1 @ pr_remoteActivity r @
            map2 (\<lambda>c x. \<lparr>ac_app = called_app app (rn_bridged s1) (tc_name c), ac_tool = tc_name c, ac_isError = cr_isError x\<rparr>)
              (pr_toolCalls r) results\<rparr>))"
  | (gave_up) r s1 a where "res = Inr False" "reply_of llm u s = (Inr r, s1)" "pr_stopReason r = TRUNCATED" "w2 = w"
      "s2 = (tally r s1)\<lparr>rn_truncations := Suc (rn_truncations s1), rn_answer := rn_answer s1 @ pr_text r @ a\<rparr>"
  | (cut) r s1 where "res = Inr True" "reply_of llm u s = (Inr r, s1)" "pr_stopReason r = TRUNCATED" "pr_toolCalls r \<noteq> []" "w2 = w"
      "rn_truncations s1 = 0"
      "s2 = add_message (ToolMessage (map not_run (pr_toolCalls r))) (add_message (assistant_turn r (pr_toolCalls r))
         ((tally r s1)\<lparr>rn_truncations := Suc (rn_truncations s1)\<rparr>))"
  | (paused) r s1 where "res = Inr True" "reply_of llm u s = (Inr r, s1)" "pr_stopReason r = PAUSE_TURN" "w2 = w"
      "s2 = add_message (assistant_turn r []) (tally r s1)"
  | (ended) r s1 where "res = Inr False" "reply_of llm u s = (Inr r, s1)" "w2 = w" "s2 = tally r s1"
      "pr_stopReason r = TOOL_USE \<longrightarrow> pr_toolCalls r = []"
proof -
  obtain x s1 where r: "reply_of llm u s = (x, s1)" by fastforce
  show thesis
  proof (cases x)
    case (Inl e)
    with assms r show thesis by (intro failed[of e]) (auto simp: run_turn_def)
  next
    case x: (Inr r)
    obtain again s' w' where a: "after_reply app exec r (tally r s1) w = (again, s', w')" by (metis prod_cases3)
    with assms r x have e: "res = Inr again" "s2 = s'" "w2 = w'" by (simp_all add: run_turn_def)
    note ar = a[unfolded after_reply_def Let_def]
    consider (t) "pr_stopReason r = TOOL_USE" "pr_toolCalls r \<noteq> []"
      | (c) "pr_stopReason r = TRUNCATED" "pr_toolCalls r \<noteq> []" "rn_truncations s1 = 0"
      | (g) "pr_stopReason r = TRUNCATED" "pr_toolCalls r \<noteq> []" "rn_truncations s1 \<noteq> 0"
      | (p) "pr_stopReason r = PAUSE_TURN"
      | (o) "pr_stopReason r \<noteq> PAUSE_TURN" "pr_stopReason r = TOOL_USE \<or> pr_stopReason r = TRUNCATED \<longrightarrow> pr_toolCalls r = []"
      by (cases "pr_stopReason r") auto
    then show thesis
    proof cases
      case t
      obtain results w3 where k: "run_calls exec (rn_bridged s1) (pr_toolCalls r) w = (results, w3)" by fastforce
      have b: "rn_bridged (tally r s1) = rn_bridged s1" "rn_actions (tally r s1) = rn_actions s1 @ pr_remoteActivity r"
        by (simp_all add: tally_def Let_def)
      from ar t k e show thesis by (intro called[OF _ r[unfolded x] t]) (auto simp: b)
    next
      case c
      from ar c e show thesis
        by (intro cut[OF _ r[unfolded x] c(1,2)]) (auto simp: tally_def Let_def MAX_TRUNCATED_RETRIES_def)
    next
      case g
      from ar g e show thesis
        by (intro gave_up[OF _ r[unfolded x] g(1)]) (auto simp: tally_def Let_def MAX_TRUNCATED_RETRIES_def)
    next
      case p
      from ar p e show thesis by (intro paused[OF _ r[unfolded x] p]) auto
    next
      case o
      from ar o e show thesis by (intro ended[OF _ r[unfolded x]]) (auto split: if_splits)
    qed
  qed
qed

text \<open>The sums of the loop are the sums over the replies.\<close>

definition count :: "int option \<Rightarrow> int" where
  "count n = (case n of None \<Rightarrow> 0 | Some n \<Rightarrow> n)"

definition tallied :: "run_state \<Rightarrow> bool" where
  "tallied s \<longleftrightarrow> rn_input s = sum_list (map (pu_inputTokens \<circ> pr_usage) (rn_replies s))
     \<and> rn_output s = sum_list (map (pu_outputTokens \<circ> pr_usage) (rn_replies s))
     \<and> rn_cacheWrite s = sum_list (map (count \<circ> pu_cacheWriteTokens \<circ> pr_usage) (rn_replies s))
     \<and> rn_cacheRead s = sum_list (map (count \<circ> pu_cacheReadTokens \<circ> pr_usage) (rn_replies s))
     \<and> rn_cost s = fold (\<lambda>r t. add_cost t (pu_costUsd (pr_usage r))) (rn_replies s) None"

lemma tallied_tally: "tallied s \<Longrightarrow> tallied (tally r s)"
  by (simp add: tallied_def tally_def Let_def count_def)

lemma tallied_cong:
  "rn_input s = rn_input t \<Longrightarrow> rn_output s = rn_output t \<Longrightarrow> rn_cacheWrite s = rn_cacheWrite t \<Longrightarrow> rn_cacheRead s = rn_cacheRead t
   \<Longrightarrow> rn_cost s = rn_cost t \<Longrightarrow> rn_replies s = rn_replies t \<Longrightarrow> tallied s = tallied t"
  by (simp add: tallied_def)

lemma tallied_turn:
  assumes "tallied s" "run_turn llm app exec u s w = (res, s2, w2)"
  shows "tallied s2"
proof -
  have k: "tallied s1" if "reply_of llm u s = (x, s1)" for x s1
    using assms(1) reply_of_keeps[OF that] tallied_cong[of s1 s] by metis
  show ?thesis
    using assms(2)
  proof (cases rule: run_turn_cases)
    case (called r s1 results)
    with k[THEN tallied_tally, of _ s1 r] show ?thesis by (subst tallied_cong[of _ "tally r s1"]) (simp_all add: add_message_def)
  next
    case (gave_up r s1 a)
    with k[THEN tallied_tally, of _ s1 r] show ?thesis by (subst tallied_cong[of _ "tally r s1"]) (simp_all add: add_message_def)
  next
    case (cut r s1)
    with k[THEN tallied_tally, of _ s1 r] show ?thesis by (subst tallied_cong[of _ "tally r s1"]) (simp_all add: add_message_def)
  next
    case (paused r s1)
    with k[THEN tallied_tally, of _ s1 r] show ?thesis by (subst tallied_cong[of _ "tally r s1"]) (simp_all add: add_message_def)
  next
    case (ended r s1)
    with k[THEN tallied_tally, of _ s1 r] show ?thesis by simp
  qed (use k in auto)
qed

lemma tallied_loop:
  assumes "tallied s" "run_loop n llm app exec u s w = (res, s', w')"
  shows "tallied s'"
  by (rule loop_invariant[where I = "\<lambda>s w. tallied s", OF _ assms]) (erule tallied_turn)

section \<open>How often the provider is called\<close>

lemma turn_calls:
  assumes "run_turn llm app exec u s w = (res, s2, w2)"
  shows "length (rn_calls s2) + (if rn_servers s2 = [] then 0 else 1) \<le> Suc (length (rn_calls s)) + (if rn_servers s = [] then 0 else 1)"
proof -
  have k: "length (rn_calls s1) + (if rn_servers s1 = [] then 0 else 1) \<le> Suc (length (rn_calls s)) + (if rn_servers s = [] then 0 else 1)"
    if "reply_of llm u s = (x, s1)" for x s1
    using reply_of_calls[OF that] by (auto split: if_splits)
  show ?thesis using assms by (cases rule: run_turn_cases) (use k in \<open>auto simp: tally_def add_message_def Let_def\<close>)
qed

lemma loop_calls:
  "run_loop n llm app exec u s w = (res, s', w')
   \<Longrightarrow> length (rn_calls s') + (if rn_servers s' = [] then 0 else 1) \<le> length (rn_calls s) + n + (if rn_servers s = [] then 0 else 1)"
proof (induction n arbitrary: s w)
  case 0
  then show ?case by simp
next
  case (Suc n)
  obtain x s1 w1 where t: "run_turn llm app exec u s w = (x, s1, w1)" by (metis prod_cases3)
  from turn_calls[OF t] Suc.prems Suc.IH[of s1 w1] t show ?case by (cases x) (auto split: if_splits)
qed

section \<open>Transcripts\<close>

definition answers :: "tool_call list \<Rightarrow> call_result list \<Rightarrow> bool" where
  "answers calls results \<longleftrightarrow> map cr_id results = map tc_id calls \<and> map cr_name results = map tc_name calls"

text \<open>
  What the providers require of a transcript: the calls of an assistant's turn are answered, each once and
  in order, by the message after it, and nothing else is answered.
\<close>

fun well_paired :: "provider_message list \<Rightarrow> bool" where
  "well_paired [] \<longleftrightarrow> True"
| "well_paired (UserMessage t # ms) \<longleftrightarrow> well_paired ms"
| "well_paired (AssistantMessage t [] raw # ms) \<longleftrightarrow> well_paired ms"
| "well_paired (AssistantMessage t (c # cs) raw # ToolMessage rs # ms) \<longleftrightarrow> answers (c # cs) rs \<and> well_paired ms"
| "well_paired (AssistantMessage t (c # cs) raw # ms) \<longleftrightarrow> False"
| "well_paired (ToolMessage rs # ms) \<longleftrightarrow> False"

lemma well_paired_append: "well_paired xs \<Longrightarrow> well_paired ys \<Longrightarrow> well_paired (xs @ ys)"
  by (induction xs rule: well_paired.induct) simp_all

lemma well_paired_history: "\<forall>m \<in> set ms. (\<exists>t. m = UserMessage t) \<or> (\<exists>t raw. m = AssistantMessage t [] raw) \<Longrightarrow> well_paired ms"
  by (induction ms) auto

lemma answers_not_run: "answers calls (map not_run calls)"
  by (simp add: answers_def not_run_def)

definition executed :: "provider_response \<Rightarrow> tool_call list" where
  "executed r = (if pr_stopReason r = TOOL_USE then pr_toolCalls r else [])"

definition transcript_ok :: "run_state \<Rightarrow> bool" where
  "transcript_ok s \<longleftrightarrow> well_paired (rn_messages s) \<and> (\<forall>q \<in> set (rn_calls s). well_paired (rq_messages q))"

text \<open>The audit of a run: for each reply the tools the provider ran, then the calls it asked for.\<close>

definition audited :: "run_state \<Rightarrow> bool" where
  "audited s \<longleftrightarrow> map ac_tool (rn_actions s)
     = concat (map (\<lambda>r. map ac_tool (pr_remoteActivity r) @ map tc_name (executed r)) (rn_replies s))"

text \<open>
  What runs, and in which order: the calls of the turns that stopped to have them run, and no others; each
  with the toolset of its turn.
\<close>

definition play :: "'w exec \<Rightarrow> bridged_toolset option list \<Rightarrow> tool_call list \<Rightarrow> 'w \<Rightarrow> 'w" where
  "play exec bs cs w = fold (\<lambda>(b, c) w. snd (exec b c w)) (zip bs cs) w"

definition played :: "'w exec \<Rightarrow> 'w \<Rightarrow> run_state \<Rightarrow> 'w \<Rightarrow> bool" where
  "played exec w0 s w \<longleftrightarrow> (let cs = concat (map executed (rn_replies s)) in \<exists>bs. length bs = length cs \<and> w = play exec bs cs w0)"

lemma run_calls_play: "run_calls exec b cs w = (rs, w') \<Longrightarrow> w' = play exec (replicate (length cs) b) cs w"
  by (induction cs arbitrary: w rs) (auto simp: play_def split: prod.splits)

lemma play_append:
  "length bs = length cs \<Longrightarrow> play exec (bs @ bs') (cs @ cs') w = play exec bs' cs' (play exec bs cs w)"
  by (simp add: play_def)

lemma played_turn:
  assumes "played exec w0 s w" "run_turn llm app exec u s w = (res, s2, w2)"
  shows "played exec w0 s2 w2"
proof -
  have k: "played exec w0 s1 w" if "reply_of llm u s = (x, s1)" for x s1
    using assms(1) reply_of_keeps(11)[OF that] by (simp add: played_def)
  show ?thesis
    using assms(2)
  proof (cases rule: run_turn_cases)
    case (called r s1 results)
    from k[OF called(2)] obtain bs where b: "length bs = length (concat (map executed (rn_replies s1)))"
      "w = play exec bs (concat (map executed (rn_replies s1))) w0" by (auto simp: played_def Let_def)
    let ?bs = "bs @ replicate (length (pr_toolCalls r)) (rn_bridged s1)"
    have "w2 = play exec ?bs (concat (map executed (rn_replies s1)) @ pr_toolCalls r) w0"
      using run_calls_play[OF called(5)] b by (simp add: play_append)
    with b(1) called show ?thesis
      by (auto simp: played_def add_message_def tally_def Let_def executed_def intro!: exI[of _ ?bs])
  next
    case (failed e)
    with k show ?thesis by simp
  next
    case (ended r s1)
    with k[of _ s1] show ?thesis by (auto simp: played_def tally_def Let_def executed_def)
  qed (use k in \<open>auto simp: played_def add_message_def tally_def Let_def executed_def\<close>)
qed

lemma played_loop:
  assumes "played exec w0 s w" "run_loop n llm app exec u s w = (res, s', w')"
  shows "played exec w0 s' w'"
  by (rule loop_invariant[where I = "played exec w0", OF _ assms]) (erule played_turn)

text \<open>
  The interface of the loop to what executes the calls: each is answered under its own id and name.
\<close>

locale tool_runner =
  fixes exec :: "bridged_toolset option \<Rightarrow> tool_call \<Rightarrow> 'w \<Rightarrow> call_result \<times> 'w"
  assumes answered: "exec b c w = (r, w') \<Longrightarrow> cr_id r = tc_id c \<and> cr_name r = tc_name c"
begin

lemma calls_answered: "run_calls exec b cs w = (rs, w') \<Longrightarrow> answers cs rs"
  by (induction cs arbitrary: w rs) (auto simp: answers_def answered split: prod.splits)

lemma transcript_turn:
  assumes "transcript_ok s" "run_turn llm app exec u s w = (res, s2, w2)"
  shows "transcript_ok s2"
proof -
  have k: "transcript_ok s1" if "reply_of llm u s = (x, s1)" for x s1
    using assms(1) reply_of_keeps(1)[OF that] reply_of_calls[OF that] by (auto simp: transcript_ok_def)
  have m: "well_paired (rn_messages s1 @ [assistant_turn r cs, ToolMessage rs])"
    if "transcript_ok s1" "answers cs rs" "cs \<noteq> []" for s1 r cs rs
    using that by (intro well_paired_append) (auto simp: transcript_ok_def assistant_turn_def neq_Nil_conv)
  show ?thesis
    using assms(2)
  proof (cases rule: run_turn_cases)
    case (called r s1 results)
    with k[of _ s1] m[OF k calls_answered, of _ s1 "rn_bridged s1" "pr_toolCalls r" w results w2 r] show ?thesis
      by (auto simp: transcript_ok_def add_message_def tally_def Let_def)
  next
    case (cut r s1)
    with k[of _ s1] m[OF k answers_not_run, of _ s1 "pr_toolCalls r" r] show ?thesis
      by (auto simp: transcript_ok_def add_message_def tally_def Let_def)
  next
    case (paused r s1)
    with k[of _ s1] show ?thesis
      by (auto simp: transcript_ok_def add_message_def tally_def Let_def assistant_turn_def intro!: well_paired_append)
  qed (use k in \<open>auto simp: transcript_ok_def tally_def Let_def\<close>)
qed

lemma transcript_loop:
  assumes "transcript_ok s" "run_loop n llm app exec u s w = (res, s', w')"
  shows "transcript_ok s'"
  by (rule loop_invariant[where I = "\<lambda>s w. transcript_ok s", OF _ assms]) (erule transcript_turn)

lemma calls_length: "run_calls exec b cs w = (rs, w') \<Longrightarrow> length rs = length cs"
  using calls_answered by (fastforce simp: answers_def dest: map_eq_imp_length_eq)

lemma audited_turn:
  assumes "audited s" "run_turn llm app exec u s w = (res, s2, w2)"
  shows "audited s2"
proof -
  have k: "audited s1" if "reply_of llm u s = (x, s1)" for x s1
    using assms(1) reply_of_keeps(2,11)[OF that] by (simp add: audited_def)
  show ?thesis
    using assms(2)
  proof (cases rule: run_turn_cases)
    case (called r s1 results)
    with k[of _ s1] calls_length[OF called(5)] show ?thesis
      by (simp add: audited_def add_message_def tally_def Let_def executed_def comp_def case_prod_unfold)
         (simp add: map_fst_zip[of "pr_toolCalls r" results, THEN arg_cong[where f = "map tc_name"], unfolded map_map comp_def])
  next
    case (failed e)
    with k show ?thesis by simp
  next
    case (ended r s1)
    with k[of _ s1] show ?thesis by (auto simp: audited_def tally_def Let_def executed_def)
  qed (use k in \<open>auto simp: audited_def add_message_def tally_def Let_def executed_def\<close>)
qed

lemma audited_loop:
  assumes "audited s" "run_loop n llm app exec u s w = (res, s', w')"
  shows "audited s'"
  by (rule loop_invariant[where I = "\<lambda>s w. audited s", OF _ assms]) (erule audited_turn)

end

text \<open>An executor that leaves a part of the world alone: so does the loop.\<close>

locale quiet_runner = tool_runner exec
  for exec :: "bridged_toolset option \<Rightarrow> tool_call \<Rightarrow> 'w \<Rightarrow> call_result \<times> 'w" +
  fixes part :: "'w \<Rightarrow> 'o"
  assumes untouched: "exec b c w = (r, w') \<Longrightarrow> part w' = part w"
begin

lemma calls_untouched: "run_calls exec b cs w = (rs, w') \<Longrightarrow> part w' = part w"
  by (induction cs arbitrary: w rs) (auto dest: untouched split: prod.splits)

lemma turn_untouched: "run_turn llm app exec u s w = (res, s2, w2) \<Longrightarrow> part w2 = part w"
  by (erule run_turn_cases) (auto dest: calls_untouched)

lemma loop_untouched:
  assumes "run_loop n llm app exec u s w = (res, s', w')"
  shows "part w' = part w"
  using loop_invariant[where I = "\<lambda>s w1. part w1 = part w", OF _ _ assms] turn_untouched by metis

end

end
