(* ===== verification/Providers.thy ===== *)
theory Providers
  imports AiRun Usage
begin

text \<open>
  The two adapters behind \<open>LlmProvider\<close>: \<open>src/src/ai/providers/anthropic.provider.ts\<close> and
  \<open>src/src/ai/providers/gateway.provider.ts\<close>.  Requests and replies on the wire are values of JSON.
  The SDK's call is the parameter \<open>api\<close>: the reply to a request body, or the message of the error it
  throws; a streamed reply counts as its final message.  The members of a reply have the types the
  SDK documents.
\<close>

section \<open>Shared\<close>

text \<open>A member that may be absent; \<open>JSON.stringify\<close> drops an undefined one.\<close>

definition opt_member :: "string option \<Rightarrow> jsval" where
  "opt_member s = (case s of Some x \<Rightarrow> JStr x | None \<Rightarrow> JUndef)"

text \<open>\<open>v ?? 0\<close> of a count of tokens.\<close>

definition token_count :: "jsval \<Rightarrow> int" where
  "token_count v = (case v of JNum (Fin x) \<Rightarrow> \<lfloor>x\<rfloor> | _ \<Rightarrow> 0)"

section \<open>Anthropic: the request\<close>

definition MCP_BETA :: string where
  "MCP_BETA = ''mcp-client-2025-11-20''"

definition ANTHROPIC_MAX_TOKENS :: rat where
  "ANTHROPIC_MAX_TOKENS = 32000"

text \<open>The breakpoint, with the time to live of the catalogue.\<close>

definition CACHE :: jsval where
  "CACHE = JObj [(''type'', JStr ''ephemeral''), (''ttl'', JStr ''1h'')]"

definition TRANSCRIPT_BREAKPOINTS :: nat where
  "TRANSCRIPT_BREAKPOINTS = 2"

definition text_block :: "string \<Rightarrow> jsval" where
  "text_block s = JObj [(''type'', JStr ''text''), (''text'', JStr s)]"

text \<open>A turn of the transcript on the wire: its role and its content, a text or a list of blocks.\<close>

record wire_turn =
  wt_role :: string
  wt_content :: jsval

definition result_block :: "call_result \<Rightarrow> jsval" where
  "result_block r = JObj ([(''type'', JStr ''tool_result''), (''tool_use_id'', JStr (cr_id r)),
      (''content'', JStr (cr_content r))] @ (if cr_isError r then [(''is_error'', JBool True)] else []))"

fun toAnthropicMessage :: "provider_message \<Rightarrow> wire_turn" where
  "toAnthropicMessage (UserMessage s) = \<lparr>wt_role = ''user'', wt_content = JStr s\<rparr>"
| "toAnthropicMessage (AssistantMessage s calls raw) = \<lparr>wt_role = ''assistant'',
     wt_content = (case raw of Some v \<Rightarrow> if truthy v then v else JStr s | None \<Rightarrow> JStr s)\<rparr>"
| "toAnthropicMessage (ToolMessage results) = \<lparr>wt_role = ''user'', wt_content = JArr (map result_block results)\<rparr>"

definition toAnthropicMessages :: "provider_message list \<Rightarrow> wire_turn list" where
  "toAnthropicMessages ms = map toAnthropicMessage ms"

definition blocks_of :: "jsval \<Rightarrow> jsval list" where
  "blocks_of content = (case content of JStr s \<Rightarrow> [text_block s] | JArr bs \<Rightarrow> bs | _ \<Rightarrow> [])"

definition carries_cache :: "jsval \<Rightarrow> bool" where
  "carries_cache b \<longleftrightarrow> get_prop b ''type'' = JStr ''text'' \<or> get_prop b ''type'' = JStr ''tool_result''"

text \<open>\<open>{ ...tail, cache_control: CACHE }\<close>.\<close>

definition with_cache :: "jsval \<Rightarrow> jsval" where
  "with_cache b = (case b of JObj ps \<Rightarrow> JObj (aput ''cache_control'' CACHE ps) | _ \<Rightarrow> b)"

text \<open>One step of the walk: the turn with its breakpoint, when it is a user's and can carry one.\<close>

definition mark_turn :: "wire_turn \<Rightarrow> wire_turn option" where
  "mark_turn m =
    (let blocks = blocks_of (wt_content m) in
     if wt_role m \<noteq> ''user'' \<or> blocks = [] \<or> \<not> carries_cache (last blocks) then None
     else Some \<lparr>wt_role = ''user'', wt_content = JArr (butlast blocks @ [with_cache (last blocks)])\<rparr>)"

text \<open>The walk from the end of the transcript, over the reversed list.\<close>

fun mark_back :: "nat \<Rightarrow> wire_turn list \<Rightarrow> wire_turn list" where
  "mark_back n [] = []"
| "mark_back n (m # ms) =
     (if n = 0 then m # ms
      else case mark_turn m of None \<Rightarrow> m # mark_back n ms | Some m' \<Rightarrow> m' # mark_back (n - 1) ms)"

definition withTranscriptCache :: "wire_turn list \<Rightarrow> wire_turn list" where
  "withTranscriptCache ms = rev (mark_back TRANSCRIPT_BREAKPOINTS (rev ms))"

definition turn_json :: "wire_turn \<Rightarrow> jsval" where
  "turn_json m = JObj [(''role'', JStr (wt_role m)), (''content'', wt_content m)]"

definition mcp_toolset :: "remote_server \<Rightarrow> jsval" where
  "mcp_toolset s = JObj ([(''type'', JStr ''mcp_toolset''), (''mcp_server_name'', JStr (rs_name s))]
     @ (case rs_enabledTools s of
          Some (t # ts) \<Rightarrow> [(''default_config'', JObj [(''enabled'', JBool False)]),
             (''configs'', JObj (map_from (map (\<lambda>x. (x, JObj [(''enabled'', JBool True)])) (t # ts))))]
        | _ \<Rightarrow> []))"

definition custom_tool :: "ToolRouter.tool_spec \<Rightarrow> jsval" where
  "custom_tool t = JObj [(''type'', JStr ''custom''), (''name'', JStr (ToolRouter.tl_name t)),
     (''description'', opt_member (ToolRouter.tl_description t)), (''input_schema'', ToolRouter.tl_parameters t)]"

definition server_json :: "remote_server \<Rightarrow> jsval" where
  "server_json s = JObj [(''type'', JStr ''url''), (''url'', JStr (rs_url s)), (''name'', JStr (rs_name s)),
     (''authorization_token'', opt_member (rs_authorizationToken s))]"

definition anthropic_body :: "provider_request \<Rightarrow> jsval" where
  "anthropic_body req =
    (let tools = map mcp_toolset (rq_mcpServers req) @ map custom_tool (rq_tools req);
         servers = map server_json (rq_mcpServers req)
     in JObj ([(''model'', JStr (rq_model req)), (''max_tokens'', JNum (Fin ANTHROPIC_MAX_TOKENS))]
          @ (if rq_adaptiveThinking req then [(''thinking'', JObj [(''type'', JStr ''adaptive'')])] else [])
          @ [(''system'', JArr [JObj [(''type'', JStr ''text''), (''text'', JStr (rq_system req)), (''cache_control'', CACHE)]]),
             (''messages'', JArr (map turn_json (withTranscriptCache (toAnthropicMessages (rq_messages req)))))]
          @ (if tools = [] then [] else [(''tools'', JArr tools)])
          @ (if servers = [] then [] else [(''mcp_servers'', JArr servers)])
          @ [(''betas'', JArr [JStr MCP_BETA])]))"

section \<open>Anthropic: the reply\<close>

text \<open>The three accumulators of the loop over the blocks.\<close>

record reading =
  rd_text :: string
  rd_calls :: "tool_call list"
  rd_activity :: "ai_action list"

definition set_last_error :: "bool \<Rightarrow> ai_action list \<Rightarrow> ai_action list" where
  "set_last_error e as = (if as = [] then [] else butlast as @ [(last as)\<lparr>ac_isError := e\<rparr>])"

definition read_block :: "jsval \<Rightarrow> reading \<Rightarrow> reading" where
  "read_block b s =
    (let type = get_prop b ''type'' in
     if type = JStr ''text'' then s\<lparr>rd_text := rd_text s @ str_of (get_prop b ''text'')\<rparr>
     else if type = JStr ''mcp_tool_use''
       then s\<lparr>rd_activity := rd_activity s @ [\<lparr>ac_app = str_of (get_prop b ''server_name''),
                ac_tool = str_of (get_prop b ''name''), ac_isError = False\<rparr>]\<rparr>
     else if type = JStr ''mcp_tool_result''
       then s\<lparr>rd_activity := set_last_error (truthy (get_prop b ''is_error'')) (rd_activity s)\<rparr>
     else if type = JStr ''tool_use''
       then s\<lparr>rd_calls := rd_calls s @ [\<lparr>tc_id = str_of (get_prop b ''id''), tc_name = str_of (get_prop b ''name''),
                tc_input = (let v = get_prop b ''input'' in if is_nullish v then JObj [] else v)\<rparr>]\<rparr>
     else s)"

definition read_blocks :: "jsval list \<Rightarrow> reading" where
  "read_blocks bs = fold read_block bs \<lparr>rd_text = [], rd_calls = [], rd_activity = []\<rparr>"

definition anthropic_stop :: "jsval \<Rightarrow> tool_call list \<Rightarrow> stop_reason" where
  "anthropic_stop reason calls =
     (if reason = JStr ''max_tokens'' then TRUNCATED
      else if reason = JStr ''tool_use'' \<and> calls \<noteq> [] then TOOL_USE
      else if reason = JStr ''pause_turn'' then PAUSE_TURN else END_TURN)"

definition fromAnthropicMessage :: "jsval \<Rightarrow> provider_response" where
  "fromAnthropicMessage response =
    (let content = get_prop response ''content''; s = read_blocks (blocks_of content);
         usage = get_prop response ''usage'';
         cacheWrites = token_count (get_prop usage ''cache_creation_input_tokens'');
         cacheReads = token_count (get_prop usage ''cache_read_input_tokens'')
     in \<lparr>pr_text = rd_text s, pr_toolCalls = rd_calls s, pr_remoteActivity = rd_activity s,
         pr_usage = \<lparr>pu_inputTokens = token_count (get_prop usage ''input_tokens'') + cacheWrites + cacheReads,
            pu_outputTokens = token_count (get_prop usage ''output_tokens''),
            pu_cacheWriteTokens = Some cacheWrites, pu_cacheReadTokens = Some cacheReads,
            pu_costUsd = None, pu_resolvedModel = None\<rparr>,
         pr_stopReason = anthropic_stop (get_prop response ''stop_reason'') (rd_calls s),
         pr_raw = content\<rparr>)"

definition anthropic_configured :: "string option \<Rightarrow> bool" where
  "anthropic_configured key \<longleftrightarrow> non_empty key \<noteq> None"

definition anthropic_create ::
  "string option \<Rightarrow> (jsval \<Rightarrow> string + jsval) \<Rightarrow> provider_request \<Rightarrow> llm_failure + provider_response" where
  "anthropic_create key api req =
    (if \<not> anthropic_configured key
     then Inl (Refused (ServiceUnavailable ''AI is not configured (set ANTHROPIC_API_KEY)''))
     else case api (anthropic_body req) of
       Inr response \<Rightarrow> Inr (fromAnthropicMessage response)
     | Inl message \<Rightarrow> if str_includes ''MCP server'' message then Inl (McpConnectionError message)
         else Inl (Refused (ServiceUnavailable (''AI request failed: '' @ message))))"

section \<open>The gateway: the request\<close>

definition GATEWAY_MAX_TOKENS :: rat where
  "GATEWAY_MAX_TOKENS = 8000"

definition function_tool :: "ToolRouter.tool_spec \<Rightarrow> jsval" where
  "function_tool t = JObj [(''type'', JStr ''function''), (''function'', JObj [(''name'', JStr (ToolRouter.tl_name t)),
     (''description'', opt_member (ToolRouter.tl_description t)), (''parameters'', ToolRouter.tl_parameters t)])]"

definition call_json :: "tool_call \<Rightarrow> jsval" where
  "call_json c = JObj [(''id'', JStr (tc_id c)), (''type'', JStr ''function''),
     (''function'', JObj [(''name'', JStr (tc_name c)), (''arguments'', JStr (stringify (tc_input c)))])]"

definition tool_message :: "call_result \<Rightarrow> jsval" where
  "tool_message r = JObj [(''role'', JStr ''tool''), (''tool_call_id'', JStr (cr_id r)), (''content'', JStr (cr_content r))]"

fun toOpenAiMessage :: "provider_message \<Rightarrow> jsval list" where
  "toOpenAiMessage (UserMessage s) = [JObj [(''role'', JStr ''user''), (''content'', JStr s)]]"
| "toOpenAiMessage (AssistantMessage s calls raw) =
     [JObj ([(''role'', JStr ''assistant''), (''content'', if s = [] then JNull else JStr s)]
        @ (if calls = [] then [] else [(''tool_calls'', JArr (map call_json calls))]))]"
| "toOpenAiMessage (ToolMessage results) = map tool_message results"

definition toOpenAiMessages :: "provider_message list \<Rightarrow> jsval list" where
  "toOpenAiMessages ms = concat (map toOpenAiMessage ms)"

definition gateway_body :: "provider_request \<Rightarrow> jsval" where
  "gateway_body req =
    (let tools = map function_tool (rq_tools req)
     in JObj ([(''model'', JStr (rq_model req)), (''max_tokens'', JNum (Fin GATEWAY_MAX_TOKENS)),
          (''messages'', JArr (JObj [(''role'', JStr ''system''), (''content'', JStr (rq_system req))]
             # toOpenAiMessages (rq_messages req)))]
          @ (if tools = [] then [] else [(''tools'', JArr tools)])))"

section \<open>The gateway: the reply\<close>

text \<open>Arguments that are no JSON, or JSON of no object, count as none.\<close>

definition parseArguments :: "string \<Rightarrow> jsval" where
  "parseArguments raw =
    (if js_trim raw = [] then JObj []
     else case json_parse raw of
       Some (JObj ps) \<Rightarrow> JObj ps
     | Some (JArr xs) \<Rightarrow> JArr xs
     | _ \<Rightarrow> JObj [])"

definition read_call :: "jsval \<Rightarrow> tool_call" where
  "read_call c = (let f = get_prop c ''function'' in
     \<lparr>tc_id = str_of (get_prop c ''id''), tc_name = str_of (get_prop f ''name''),
      tc_input = parseArguments (str_of (get_prop f ''arguments''))\<rparr>)"

definition read_calls :: "jsval \<Rightarrow> tool_call list" where
  "read_calls calls = (case calls of
     JArr cs \<Rightarrow> map read_call (filter (\<lambda>c. get_prop c ''type'' = JStr ''function'') cs) | _ \<Rightarrow> [])"

text \<open>The headers of the reply: the value of a name, \<open>None\<close> for null.\<close>

type_synonym headers = "string \<Rightarrow> string option"

definition header_cost :: "headers \<Rightarrow> jsnum option" where
  "header_cost headers = (case headers ''x-omniroute-response-cost'' of None \<Rightarrow> None
     | Some raw \<Rightarrow> (case number_of_string raw of Fin c \<Rightarrow> if 0 \<le> c then Some (Fin c) else None | _ \<Rightarrow> None))"

definition served_model :: "headers \<Rightarrow> jsval \<Rightarrow> string option" where
  "served_model headers completionModel = non_empty (case headers ''x-omniroute-model'' of Some m \<Rightarrow> Some m
     | None \<Rightarrow> (case completionModel of JStr m \<Rightarrow> Some m | _ \<Rightarrow> None))"

definition gateway_stop :: "jsval \<Rightarrow> tool_call list \<Rightarrow> stop_reason" where
  "gateway_stop reason calls =
     (if reason = JStr ''length'' then TRUNCATED else if calls \<noteq> [] then TOOL_USE else END_TURN)"

text \<open>\<open>completion.choices[0]\<close>: without a list of choices the access throws.\<close>

definition fromCompletion :: "headers \<Rightarrow> jsval \<Rightarrow> llm_failure + provider_response" where
  "fromCompletion headers completion =
    (let choices = get_prop completion ''choices'' in
     if is_nullish choices then Inl (Refused (PlainError ''Cannot read properties of undefined (reading 0)''))
     else let choice = (case choices of JArr (c # cs) \<Rightarrow> c | _ \<Rightarrow> JUndef);
              message = get_prop choice ''message''; usage = get_prop completion ''usage'';
              calls = read_calls (get_prop message ''tool_calls'')
          in Inr \<lparr>pr_text = str_of (get_prop message ''content''), pr_toolCalls = calls, pr_remoteActivity = [],
               pr_usage = \<lparr>pu_inputTokens = token_count (get_prop usage ''prompt_tokens''),
                  pu_outputTokens = token_count (get_prop usage ''completion_tokens''),
                  pu_cacheWriteTokens = None, pu_cacheReadTokens = None,
                  pu_costUsd = header_cost headers,
                  pu_resolvedModel = served_model headers (get_prop completion ''model'')\<rparr>,
               pr_stopReason = gateway_stop (get_prop choice ''finish_reason'') calls,
               pr_raw = (if is_nullish message then JNull else message)\<rparr>)"

definition gateway_configured :: "string option \<Rightarrow> string option \<Rightarrow> bool" where
  "gateway_configured baseUrl key \<longleftrightarrow> non_empty baseUrl \<noteq> None \<and> non_empty key \<noteq> None"

definition gateway_create ::
  "string option \<Rightarrow> string option \<Rightarrow> (jsval \<Rightarrow> string + (jsval \<times> headers)) \<Rightarrow> provider_request
   \<Rightarrow> llm_failure + provider_response" where
  "gateway_create baseUrl key api req =
    (if \<not> gateway_configured baseUrl key
     then Inl (Refused (ServiceUnavailable
        ''This model needs an AI gateway (set AI_GATEWAY_BASE_URL and AI_GATEWAY_API_KEY)''))
     else case api (gateway_body req) of
       Inl message \<Rightarrow> Inl (Refused (ServiceUnavailable (''AI request failed: '' @ message)))
     | Inr (completion, headers) \<Rightarrow> fromCompletion headers completion)"

end
