(* ===== verification/AiTools.thy ===== *)
theory AiTools
  imports AiRun Exports Memory Spaces
begin

text \<open>
  The tools a run executes itself: \<open>runTool\<close>, \<open>runLocalTool\<close> and the executors of
  \<open>src/src/ai/ai.service.ts\<close> over the services modelled in the other theories (the Meta Ads tools are in
  \<open>MetaTools\<close>).  One clock reading stands for a whole run; a call's number gives the identifiers the
  database draws while it runs.
\<close>

section \<open>World and surroundings\<close>

record ai_space =
  as_slug :: string
  as_name :: string
  as_url :: string

record agent_world =
  gw_exports :: export_world
  gw_spaces :: spaces_db
  gw_facts :: "workspace_memory list"
  gw_built :: "ai_space list"
  gw_pending :: "pending_action option"
  gw_calls :: nat

text \<open>
  \<open>ag_members\<close> is \<open>fetchMemberCount\<close>, if there is one: what it throws or the count.  \<open>ag_take\<close> is how many rows
  the database library reads for a numeric limit, or what it throws.  \<open>ag_untyped\<close> is the outcome of creating
  a rule or an export from an input outside the types and enumerations its tool declares: these are not
  checked by the code and end in the database's coercions and refusals.
\<close>

record agent_env =
  ag_exports :: export_env
  ag_mcp :: mcp_client
  ag_collate :: "string \<Rightarrow> nat"
  ag_members :: "nat option result option"
  ag_frontendUrl :: string
  ag_ids :: "nat \<Rightarrow> nat \<Rightarrow> uuid"
  ag_take :: "jsnum \<Rightarrow> string + nat option"
  ag_untyped :: "jsval \<Rightarrow> http_error"

definition ag_rules :: "agent_env \<Rightarrow> rules_env" where
  "ag_rules env = ee_rules (ag_exports env)"

definition ag_ads :: "agent_env \<Rightarrow> ads_env" where
  "ag_ads env = re_ads (ag_rules env)"

definition new_row_id :: "agent_env \<Rightarrow> agent_world \<Rightarrow> uuid" where
  "new_row_id env w = ag_ids env (gw_calls w) 0"

definition seed_ids :: "agent_env \<Rightarrow> agent_world \<Rightarrow> nat \<Rightarrow> uuid" where
  "seed_ids env w k = ag_ids env (gw_calls w) (Suc k)"

definition gw_rules :: "agent_world \<Rightarrow> rules_world" where
  "gw_rules w = ew_rules (gw_exports w)"

definition set_rules :: "rules_world \<Rightarrow> agent_world \<Rightarrow> agent_world" where
  "set_rules r w = w\<lparr>gw_exports := (gw_exports w)\<lparr>ew_rules := r\<rparr>\<rparr>"

definition gw_ads :: "agent_world \<Rightarrow> ads_world" where
  "gw_ads w = ru_ads (gw_rules w)"

definition set_ads :: "ads_world \<Rightarrow> agent_world \<Rightarrow> agent_world" where
  "set_ads a w = set_rules ((gw_rules w)\<lparr>ru_ads := a\<rparr>) w"

definition in_quotes :: "string \<Rightarrow> string" where
  "in_quotes s = [CHR 0x22] @ s @ [CHR 0x22]"

text \<open>\<open>String(v ?? '')\<close> and an optional field of its declared type: \<open>None\<close> where it has another type.\<close>

definition str_or_empty :: "jsval \<Rightarrow> string" where
  "str_or_empty v = (if is_nullish v then [] else to_string v)"

definition opt_string :: "jsval \<Rightarrow> string option option" where
  "opt_string v = (if is_nullish v then Some None else case v of JStr s \<Rightarrow> Some (Some s) | _ \<Rightarrow> None)"

definition opt_int :: "jsval \<Rightarrow> int option option" where
  "opt_int v = (if is_nullish v then Some None
     else case v of JNum (Fin x) \<Rightarrow> if x = of_int \<lfloor>x\<rfloor> then Some (Some \<lfloor>x\<rfloor>) else None | _ \<Rightarrow> None)"

definition opt_bool :: "jsval \<Rightarrow> bool option option" where
  "opt_bool v = (if is_nullish v then Some None else case v of JBool b \<Rightarrow> Some (Some b) | _ \<Rightarrow> None)"

definition json_int :: "int \<Rightarrow> jsval" where
  "json_int i = JNum (Fin (of_int i))"

definition json_opt :: "('a \<Rightarrow> jsval) \<Rightarrow> 'a option \<Rightarrow> jsval" where
  "json_opt f v = (case v of None \<Rightarrow> JNull | Some x \<Rightarrow> f x)"

abbreviation json_text :: "string option \<Rightarrow> jsval" where
  "json_text \<equiv> json_opt JStr"

abbreviation json_time :: "time option \<Rightarrow> jsval" where
  "json_time \<equiv> json_opt (\<lambda>t. JStr (iso_stamp t))"

type_synonym tool_outcome = "string \<times> bool"

text \<open>A local tool's result: its content and whether it is an error.\<close>

definition done_well :: "string \<Rightarrow> tool_outcome" where
  "done_well content = (content, False)"

definition went_wrong :: "string \<Rightarrow> http_error \<Rightarrow> tool_outcome" where
  "went_wrong what e = (what @ '': '' @ error_message e, True)"

section \<open>Memory\<close>

definition MEMORY_TOOL_NAMES :: "string list" where
  "MEMORY_TOOL_NAMES = [''remember_fact'', ''recall_facts'', ''forget_fact'']"

definition fact_json :: "workspace_memory \<Rightarrow> jsval" where
  "fact_json f = JObj [(''key'', JStr (wm_key f)), (''value'', JStr (wm_value f)), (''updatedAt'', JStr (iso_stamp (wm_updatedAt f)))]"

definition runMemoryTool ::
  "agent_env \<Rightarrow> time \<Rightarrow> uuid \<Rightarrow> uuid option \<Rightarrow> string \<Rightarrow> jsval \<Rightarrow> agent_world \<Rightarrow> tool_outcome \<times> agent_world" where
  "runMemoryTool env now ws user name rawInput w =
    (let input = tool_input rawInput in
     if name = ''remember_fact'' then
       (case remember (new_row_id env w) now ws user (str_or_empty (get_prop input ''key'')) (str_or_empty (get_prop input ''value'')) (gw_facts w) of
          (Inl e, rows) \<Rightarrow> (went_wrong ''Memory operation failed'' e, w\<lparr>gw_facts := rows\<rparr>)
        | (Inr f, rows) \<Rightarrow> (done_well (''Remembered '' @ in_quotes (wm_key f) @ ''.''), w\<lparr>gw_facts := rows\<rparr>))
     else if name = ''forget_fact'' then
       (let key = str_or_empty (get_prop input ''key''); (existed, rows) = forget ws key (gw_facts w) in
        (done_well (if existed then ''Forgot '' @ in_quotes key @ ''.'' else ''No fact named '' @ in_quotes key @ '' was saved.''),
         w\<lparr>gw_facts := rows\<rparr>))
     else (done_well (stringify (JArr (map fact_json (list_facts ws (gw_facts w))))), w))"

section \<open>Verified return on ad spend\<close>

definition ROAS_TOOL_NAMES :: "string list" where
  "ROAS_TOOL_NAMES = [''verify_roas'', ''list_roas_snapshots'']"

definition verified_json :: "verified_roas \<Rightarrow> jsval" where
  "verified_json r = JObj [(''adAccountId'', JStr (vr_adAccountId r)), (''since'', JStr (vr_since r)), (''until'', JStr (vr_until r)),
     (''metaSpend'', JNum (vr_metaSpend r)), (''spendCurrency'', json_text (vr_spendCurrency r)),
     (''stripeNetRevenue'', JNum (Fin (vr_stripeNetRevenue r))), (''revenueCurrency'', json_text (vr_revenueCurrency r)),
     (''verifiedRoas'', json_opt (\<lambda>x. JNum (Fin x)) (vr_verifiedRoas r)), (''purchases'', json_int (int (vr_purchases r))),
     (''uniqueCustomers'', json_int (int (vr_uniqueCustomers r))), (''verifiedCpa'', opt_num (vr_verifiedCpa r)),
     (''otherCurrencies'', JArr (map (\<lambda>(c, net, n). JObj [(''currency'', JStr c), (''netRevenue'', JNum (Fin net)), (''charges'', json_int (int n))])
        (vr_otherCurrencies r))), (''caveats'', JArr (map JStr (vr_caveats r)))]"

definition snapshot_json :: "roas_snapshot \<Rightarrow> jsval" where
  "snapshot_json s = JObj [(''adAccountId'', JStr (rs_adAccountId s)), (''since'', JStr (rs_sinceDate s)), (''until'', JStr (rs_untilDate s)),
     (''metaSpend'', JStr (rs_metaSpend s)), (''spendCurrency'', json_text (rs_spendCurrency s)),
     (''stripeRevenue'', JStr (rs_stripeRevenue s)), (''revenueCurrency'', json_text (rs_revenueCurrency s)),
     (''roas'', json_text (rs_roas s)), (''purchases'', json_int (int (rs_purchases s))), (''cpa'', json_text (rs_cpa s)),
     (''caveats'', json_opt (\<lambda>cs. JArr (map JStr cs)) (rs_caveats s)), (''verifiedAt'', JStr (iso_stamp (rs_createdAt s)))]"

text \<open>A limit that is no number reads as none, and then as twenty.\<close>

definition snapshot_limit :: "agent_env \<Rightarrow> jsval \<Rightarrow> string + nat option" where
  "snapshot_limit env v = (case v of JNum n \<Rightarrow> ag_take env n | _ \<Rightarrow> Inr (Some 20))"

definition runRoasTool ::
  "agent_env \<Rightarrow> time \<Rightarrow> uuid \<Rightarrow> uuid option \<Rightarrow> string \<Rightarrow> jsval \<Rightarrow> agent_world \<Rightarrow> tool_outcome \<times> agent_world" where
  "runRoasTool env now ws user name rawInput w =
    (let input = tool_input rawInput in
     if name = ''verify_roas'' then
       (case opt_string (get_prop input ''currency'') of
          None \<Rightarrow> (went_wrong ''ROAS verification failed'' (ag_untyped env input), w)
        | Some currency \<Rightarrow>
            (case verify (ag_ads env) (new_row_id env w) now ws user
                   \<lparr>vp_adAccountId = to_string (get_prop input ''ad_account_id''), vp_since = to_string (get_prop input ''since''),
                    vp_until = to_string (get_prop input ''until''), vp_currency = currency\<rparr> (gw_ads w) of
               (Inl e, a) \<Rightarrow> (went_wrong ''ROAS verification failed'' e, set_ads a w)
             | (Inr r, a) \<Rightarrow> (done_well (stringify (verified_json r)), set_ads a w)))
     else (case snapshot_limit env (get_prop input ''limit'') of
         Inl m \<Rightarrow> (went_wrong ''ROAS verification failed'' (PlainError m), w)
       | Inr limit \<Rightarrow> (let rows = aw_snapshots (gw_ads w) in
           (done_well (stringify (JArr (map snapshot_json (listSnapshots ws (or_default limit (length rows)) rows)))), w))))"

section \<open>Rules\<close>

definition RULE_TOOL_NAMES :: "string list" where
  "RULE_TOOL_NAMES = [''create_ad_rule'', ''list_ad_rules'', ''set_ad_rule_active'', ''delete_ad_rule'']"

fun comparator_text :: "rule_comparator \<Rightarrow> string" where
  "comparator_text GT = ''gt''" | "comparator_text LT = ''lt''" | "comparator_text GTE = ''gte''" | "comparator_text LTE = ''lte''"

definition listed :: "('a \<Rightarrow> string) \<Rightarrow> 'a list \<Rightarrow> jsval \<Rightarrow> 'a option" where
  "listed text xs v = List.find (\<lambda>x. v = JStr (text x)) xs"

definition rule_input_of :: "jsval \<Rightarrow> create_rule_input option" where
  "rule_input_of input = (let p = get_prop input in
     case (listed scope_text [ACCOUNT, CAMPAIGN, ADSET] (p ''scope''),
           listed metric_text [SPEND, CPA, ROAS, VERIFIED_ROAS, CTR, CPC] (p ''metric''),
           listed comparator_text [GT, LT, GTE, LTE] (p ''comparator''),
           listed rule_action_text [ALERT, PAUSE, SCALE] (p ''action'')) of
       (Some scope, Some metric, Some comparator, Some act) \<Rightarrow>
         (case (opt_int (p ''window_days''), opt_int (p ''scale_pct''), opt_string (p ''timezone''), opt_string (p ''slack_channel_id'')) of
            (Some windowDays, Some scalePct, Some timezone, Some slackChannelId) \<Rightarrow>
              (case (opt_bool (p ''auto_execute''), opt_int (p ''max_scale_pct''), opt_int (p ''max_actions_per_run''), opt_int (p ''daily_action_cap'')) of
                 (Some autoExecute, Some maxScalePct, Some maxActionsPerRun, Some dailyActionCap) \<Rightarrow>
                   Some \<lparr>ci_name = to_string (p ''name''), ci_adAccountId = to_string (p ''ad_account_id''), ci_scope = scope, ci_metric = metric,
                     ci_comparator = comparator, ci_threshold = to_number (p ''threshold''), ci_windowDays = windowDays, ci_action = act,
                     ci_scalePct = scalePct, ci_cronExpression = to_string (p ''cron_expression''), ci_timezone = timezone,
                     ci_slackChannelId = slackChannelId, ci_autoExecute = autoExecute, ci_maxScalePct = maxScalePct,
                     ci_maxActionsPerRun = maxActionsPerRun, ci_dailyActionCap = dailyActionCap\<rparr>
               | _ \<Rightarrow> None)
          | _ \<Rightarrow> None)
     | _ \<Rightarrow> None)"

definition first_run :: "time option \<Rightarrow> string" where
  "first_run next = (case next of None \<Rightarrow> ''unscheduled'' | Some t \<Rightarrow> iso_stamp t)"

definition rule_json :: "ad_rule \<Rightarrow> jsval" where
  "rule_json r = JObj [(''id'', JStr (ar_id r)), (''name'', JStr (ar_name r)), (''adAccountId'', JStr (ar_adAccountId r)),
     (''scope'', JStr (scope_text (ar_scope r))), (''metric'', JStr (metric_text (ar_metric r))),
     (''comparator'', JStr (comparator_text (ar_comparator r))), (''threshold'', JStr (num_fixed 4 (ar_threshold r))),
     (''windowDays'', json_int (ar_windowDays r)), (''action'', JStr (rule_action_text (ar_action r))),
     (''scalePct'', json_opt json_int (ar_scalePct r)), (''autoExecute'', JBool (ar_autoExecute r)),
     (''guardrails'', JObj [(''maxScalePct'', json_int (ar_maxScalePct r)), (''maxActionsPerRun'', json_int (ar_maxActionsPerRun r)),
        (''dailyActionCap'', json_int (ar_dailyActionCap r))]),
     (''cronExpression'', JStr (ar_cronExpression r)), (''timezone'', json_text (ar_timezone r)), (''isActive'', JBool (ar_isActive r)),
     (''lastRun'', json_time (ar_lastRun r)), (''nextRun'', json_time (ar_nextRun r))]"

definition set_rule_rows :: "ad_rule list \<Rightarrow> agent_world \<Rightarrow> agent_world" where
  "set_rule_rows rows w = set_rules ((gw_rules w)\<lparr>ru_rules := rows\<rparr>) w"

definition runRuleTool ::
  "agent_env \<Rightarrow> time \<Rightarrow> uuid \<Rightarrow> uuid option \<Rightarrow> string \<Rightarrow> jsval \<Rightarrow> agent_world \<Rightarrow> tool_outcome \<times> agent_world" where
  "runRuleTool env now ws user name rawInput w =
    (let input = tool_input rawInput; cron = re_cron (ag_rules env); rows = ru_rules (gw_rules w); what = ''Rule operation failed'' in
     if name = ''create_ad_rule'' then
       (case rule_input_of input of None \<Rightarrow> (went_wrong what (ag_untyped env input), w)
        | Some c \<Rightarrow> (case create_rule cron (new_row_id env w) now ws user c rows of
             (Inl e, _) \<Rightarrow> (went_wrong what e, w)
           | (Inr r, rows') \<Rightarrow> (done_well (''Rule '' @ in_quotes (ar_name r) @ '' created (id '' @ ar_id r @ ''); first run ''
                 @ first_run (ar_nextRun r) @ ''.''), set_rule_rows rows' w)))
     else if name = ''set_ad_rule_active'' then
       (case setRuleActive cron now ws (to_string (get_prop input ''rule_id'')) (truthy (get_prop input ''is_active'')) rows of
          (Inl e, _) \<Rightarrow> (went_wrong what e, w)
        | (Inr r, rows') \<Rightarrow> (done_well (''Rule '' @ in_quotes (ar_name r) @ '' is now '' @ (if ar_isActive r then ''active'' else ''paused'') @ ''.''),
            set_rule_rows rows' w))
     else if name = ''delete_ad_rule'' then
       (case removeRule ws (to_string (get_prop input ''rule_id'')) rows of
          (Inl e, _) \<Rightarrow> (went_wrong what e, w)
        | (Inr _, rows') \<Rightarrow> (done_well ''Rule deleted.'', set_rule_rows rows' w))
     else (done_well (stringify (JArr (map rule_json (list_rules ws rows)))), w))"

section \<open>Exports\<close>

definition SHEETS_TOOL_NAMES :: "string list" where
  "SHEETS_TOOL_NAMES = [''export_to_sheet'', ''create_scheduled_export'', ''list_scheduled_exports'', ''set_scheduled_export_active'',
     ''delete_scheduled_export'', ''run_scheduled_export_now'']"

definition export_request_of :: "jsval \<Rightarrow> export_request option" where
  "export_request_of input = (let p = get_prop input in
     case (p ''dataset'', opt_string (p ''ad_account_id''), opt_int (p ''window_days'')) of
       (JStr dataset, Some adAccountId, Some windowDays) \<Rightarrow>
         (case (opt_string (p ''spreadsheet_id''), opt_string (p ''spreadsheet_title''), opt_string (p ''sheet_title'')) of
            (Some spreadsheetId, Some spreadsheetTitle, Some sheetTitle) \<Rightarrow>
              Some \<lparr>er_dataset = dataset, er_adAccountId = adAccountId, er_windowDays = windowDays, er_spreadsheetId = spreadsheetId,
                    er_spreadsheetTitle = spreadsheetTitle, er_sheetTitle = sheetTitle\<rparr>
          | _ \<Rightarrow> None)
     | _ \<Rightarrow> None)"

definition export_input_of :: "jsval \<Rightarrow> create_export_input option" where
  "export_input_of input = (let p = get_prop input in
     case (export_request_of input, opt_string (p ''timezone''), opt_string (p ''slack_channel_id'')) of
       (Some r, Some timezone, Some slackChannelId) \<Rightarrow>
         Some \<lparr>ce_request = r, ce_name = to_string (p ''name''), ce_cronExpression = to_string (p ''cron_expression''),
               ce_timezone = timezone, ce_slackChannelId = slackChannelId\<rparr>
     | _ \<Rightarrow> None)"

definition export_result_json :: "export_result \<Rightarrow> jsval" where
  "export_result_json x = JObj [(''dataset'', JStr (xr_dataset x)), (''rowsExported'', json_int (int (xr_rowsExported x))),
     (''spreadsheetId'', JStr (xr_spreadsheetId x)), (''spreadsheetUrl'', JStr (xr_spreadsheetUrl x)), (''sheetTitle'', JStr (xr_sheetTitle x)),
     (''spreadsheetCreated'', JBool (xr_spreadsheetCreated x)), (''since'', JStr (xr_since x)), (''until'', JStr (xr_until x))]"

definition export_json :: "scheduled_export \<Rightarrow> jsval" where
  "export_json x = JObj [(''id'', JStr (se_id x)), (''name'', JStr (se_name x)), (''dataset'', JStr (se_dataset x)),
     (''adAccountId'', json_text (se_adAccountId x)), (''windowDays'', json_int (se_windowDays x)),
     (''cronExpression'', JStr (se_cronExpression x)), (''timezone'', json_text (se_timezone x)), (''sheetTitle'', JStr (se_sheetTitle x)),
     (''spreadsheetId'', json_text (se_spreadsheetId x)), (''spreadsheetUrl'', json_text (se_spreadsheetUrl x)),
     (''isActive'', JBool (se_isActive x)), (''lastRun'', json_time (se_lastRun x)), (''nextRun'', json_time (se_nextRun x)),
     (''lastRowCount'', json_opt (\<lambda>n. json_int (int n)) (se_lastRowCount x)), (''lastError'', json_text (se_lastError x))]"

definition set_export_rows :: "scheduled_export list \<Rightarrow> agent_world \<Rightarrow> agent_world" where
  "set_export_rows rows w = w\<lparr>gw_exports := (gw_exports w)\<lparr>ew_exports := rows\<rparr>\<rparr>"

definition runSheetsTool ::
  "agent_env \<Rightarrow> time \<Rightarrow> uuid \<Rightarrow> uuid option \<Rightarrow> string \<Rightarrow> jsval \<Rightarrow> agent_world \<Rightarrow> tool_outcome \<times> agent_world" where
  "runSheetsTool env now ws user name rawInput w =
    (let input = tool_input rawInput; cron = re_cron (ag_rules env); rows = ew_exports (gw_exports w); what = ''Sheets export failed'';
         target = to_string (get_prop input ''export_id'') in
     if name = ''export_to_sheet'' then
       (case export_request_of input of None \<Rightarrow> (went_wrong what (ag_untyped env input), w)
        | Some r \<Rightarrow> (case exportNow (ag_exports env) now ws user r (gw_exports w) of
             (Inl e, x) \<Rightarrow> (went_wrong what e, w\<lparr>gw_exports := x\<rparr>)
           | (Inr v, x) \<Rightarrow> (done_well (stringify (export_result_json v)), w\<lparr>gw_exports := x\<rparr>)))
     else if name = ''create_scheduled_export'' then
       (case export_input_of input of None \<Rightarrow> (went_wrong what (ag_untyped env input), w)
        | Some c \<Rightarrow> (case create_export cron (new_row_id env w) now ws user c rows of
             (Inl e, _) \<Rightarrow> (went_wrong what e, w)
           | (Inr x, rows') \<Rightarrow> (done_well (''Export '' @ in_quotes (se_name x) @ '' created (id '' @ se_id x @ ''); first run ''
                 @ first_run (se_nextRun x) @ ''.''), set_export_rows rows' w)))
     else if name = ''set_scheduled_export_active'' then
       (case setExportActive cron now ws target (truthy (get_prop input ''is_active'')) rows of
          (Inl e, _) \<Rightarrow> (went_wrong what e, w)
        | (Inr x, rows') \<Rightarrow> (done_well (''Export '' @ in_quotes (se_name x) @ '' is now '' @ (if se_isActive x then ''active'' else ''paused'') @ ''.''),
            set_export_rows rows' w))
     else if name = ''delete_scheduled_export'' then
       (case removeExport ws target rows of
          (Inl e, _) \<Rightarrow> (went_wrong what e, w)
        | (Inr _, rows') \<Rightarrow> (done_well ''Export deleted.'', set_export_rows rows' w))
     else if name = ''run_scheduled_export_now'' then
       (case runExportNow (ag_exports env) now ws target (gw_exports w) of
          (Inl e, x) \<Rightarrow> (went_wrong what e, w\<lparr>gw_exports := x\<rparr>)
        | (Inr rep, x) \<Rightarrow> (done_well (case xp_message rep of Some m \<Rightarrow> m
             | None \<Rightarrow> ''Export '' @ in_quotes (xp_exportName rep) @ '' ran with nothing new to add since its last run.''), w\<lparr>gw_exports := x\<rparr>))
     else (done_well (stringify (JArr (map export_json (list_exports ws rows)))), w))"

section \<open>Facts about the workspace\<close>

definition stats_account_json :: "string option \<times> string \<times> string \<times> string option \<times> bool \<times> access_level \<Rightarrow> jsval" where
  "stats_account_json row = (case row of (person, app, slug, label, active, level) \<Rightarrow>
     JObj [(''person'', json_text person), (''app'', JStr app), (''label'', json_text label), (''scope'', JStr (level_text level)),
           (''active'', JBool active)])"

definition stats_json ::
  "nat \<Rightarrow> nat option \<Rightarrow> (string option \<times> string \<times> string \<times> string option \<times> bool \<times> access_level) list \<Rightarrow> jsval" where
  "stats_json signedUp members rows =
    (let people = js_unique (concat (map (\<lambda>row. case fst row of Some (c # cs) \<Rightarrow> [c # cs] | _ \<Rightarrow> []) rows))
     in JObj [(''members'', JObj [(''total'', json_opt (\<lambda>n. json_int (int n)) members), (''signedUp'', json_int (int signedUp)),
                (''notSignedUp'', json_opt (\<lambda>n. json_int (max (int n - int signedUp) 0)) members)]),
              (''connections'', JObj [(''accountCount'', json_int (int (length rows))), (''peopleConnected'', json_int (int (length people))),
                (''accounts'', JArr (map stats_account_json rows))])])"

definition runWorkspaceStatsTool :: "agent_env \<Rightarrow> uuid \<Rightarrow> agent_world \<Rightarrow> tool_outcome" where
  "runWorkspaceStatsTool env ws w =
    (case ag_members env of
       Some (Inl e) \<Rightarrow> went_wrong ''Failed to read workspace stats'' e
     | other \<Rightarrow> (let us = ae_users (ag_ads env) in
         done_well (stringify (stats_json (countByWorkspace us ws) (case other of Some (Inr n) \<Rightarrow> n | _ \<Rightarrow> None)
           (getWorkspaceIntegrations (ag_collate env) us ws (mw_rows (aw_meta (gw_ads w))))))))"

section \<open>Spaces\<close>

definition SPACE_TOOL_ACTIONS :: "(string \<times> string) list" where
  "SPACE_TOOL_ACTIONS = [(''create_space'', ''build the Space''), (''update_space'', ''update the Space''),
     (''add_space_records'', ''add rows to the Space''), (''create_page'', ''build the page''), (''update_page'', ''change the page''),
     (''get_page'', ''read the page'')]"

text \<open>\<open>validationReasons\<close>.\<close>

definition validation_reasons :: "http_error \<Rightarrow> string list" where
  "validation_reasons e = (case e of BadRequestErrors _ rs \<Rightarrow> rs | _ \<Rightarrow> [])"

definition bullet_break :: string where
  "bullet_break = [CHR 0x0A] @ ''- ''"

definition space_failure :: "string \<Rightarrow> http_error \<Rightarrow> tool_outcome" where
  "space_failure name e = (let rs = validation_reasons e;
       detail = (if rs = [] then error_message e else error_message e @ '':'' @ bullet_break @ join bullet_break rs)
     in (''Failed to '' @ (case map_of SPACE_TOOL_ACTIONS name of Some a \<Rightarrow> a | None \<Rightarrow> ''build the Space'') @ '': '' @ detail, True))"

text \<open>\<open>const { key, ...rest } = input\<close>.\<close>

definition without_key :: "string \<Rightarrow> jsval \<Rightarrow> jsval" where
  "without_key k v = (case v of JObj ps \<Rightarrow> JObj (filter (\<lambda>p. fst p \<noteq> k) ps) | _ \<Rightarrow> JObj [])"

text \<open>
  The space a tool wrote and its summary before the link, what follows the link, and the tables.  The
  searches for a slug always end (\<open>unique_slug_found\<close>), so \<open>the\<close> is a value.
\<close>

definition space_write ::
  "agent_env \<Rightarrow> time \<Rightarrow> uuid \<Rightarrow> uuid option \<Rightarrow> string \<Rightarrow> jsval \<Rightarrow> agent_world \<Rightarrow> (space \<times> string \<times> string) result \<times> spaces_db" where
  "space_write env now ws user name input w =
    (let db = gw_spaces w; slug = to_string (get_prop input ''slug'') in
     if name = ''create_page'' then
       (case the (createPage (new_row_id env w) now ws user input db) of (r, db') \<Rightarrow>
          (map_sum id (\<lambda>s. (s, ''Page '' @ in_quotes (sp_name s) @ '' is live at '', [])) r, db'))
     else if name = ''update_page'' then
       (case updatePage now ws slug (get_prop input ''html'') (get_prop input ''edits'') (get_prop input ''name'') db of (r, db') \<Rightarrow>
          (map_sum id (\<lambda>s. (s, ''Updated page '' @ in_quotes (sp_name s) @ '' at '', [])) r, db'))
     else if name = ''update_space'' then
       (case updateSpec now ws slug (without_key ''slug'' input) db of (r, db') \<Rightarrow>
          (map_sum id (\<lambda>s. (s, ''Space '' @ in_quotes (sp_name s) @ '' is live at '', [])) r, db'))
     else if name = ''add_space_records'' then
       (case addRecords (seed_ids env w) now ws slug (get_prop input ''records'') db of (r, db') \<Rightarrow>
          (map_sum id (\<lambda>(s, n). (s, ''Added '' @ show_nat n @ '' rows to Space '' @ in_quotes (sp_name s) @ '' at '', [])) r, db'))
     else
       (case the (createFromSpec (seed_ids env w) (new_row_id env w) now ws user (without_key ''records'' input) (get_prop input ''records'') db) of
          (r, db') \<Rightarrow>
          (map_sum id (\<lambda>(s, n). (s, ''Space '' @ in_quotes (sp_name s) @ '' is live at '',
             if 0 < n then '' with '' @ show_nat n @ '' starting rows'' else '' with no rows yet'')) r, db')))"

definition runSpaceTool ::
  "agent_env \<Rightarrow> time \<Rightarrow> uuid \<Rightarrow> uuid option \<Rightarrow> string \<Rightarrow> jsval \<Rightarrow> agent_world \<Rightarrow> tool_outcome \<times> agent_world" where
  "runSpaceTool env now ws user name rawInput w =
    (let input = tool_input rawInput in
     if name = ''get_page'' then
       (case readPage ws (to_string (get_prop input ''slug'')) (db_spaces (gw_spaces w)) of
          Inl e \<Rightarrow> (space_failure name e, w)
        | Inr p \<Rightarrow> (done_well (''Page '' @ in_quotes (sp_name p) @ '' at '' @ spaceUrl (ag_frontendUrl env) (sp_slug p)
             @ ''. Its current HTML:'' @ [CHR 0x0A, CHR 0x0A] @ or_default (sp_html p) []), w))
     else (case space_write env now ws user name input w of
         (Inl e, db) \<Rightarrow> (space_failure name e, w\<lparr>gw_spaces := db\<rparr>)
       | (Inr (s, before, behind), db) \<Rightarrow>
           (let url = spaceUrl (ag_frontendUrl env) (sp_slug s) in
            (done_well (before @ url @ behind),
             w\<lparr>gw_spaces := db, gw_built := gw_built w @ [\<lparr>as_slug = sp_slug s, as_name = sp_name s, as_url = url\<rparr>]\<rparr>))))"

section \<open>Routing\<close>

definition META_ADS_TOOL_NAMES :: "string list" where
  "META_ADS_TOOL_NAMES = map MetaTools.tl_name META_ADS_TOOLS"

definition localToolApp :: "string \<Rightarrow> string" where
  "localToolApp name =
    (if name \<in> set META_ADS_TOOL_NAMES then ''meta_ads''
     else if name = ''get_workspace_stats'' then ''workspace''
     else if name \<in> set MEMORY_TOOL_NAMES then ''memory''
     else if name \<in> set ROAS_TOOL_NAMES then ''roas''
     else if name \<in> set RULE_TOOL_NAMES then ''rules''
     else if name \<in> set SHEETS_TOOL_NAMES then ''google_sheets''
     else ''spaces'')"

definition run_meta_tool ::
  "agent_env \<Rightarrow> time \<Rightarrow> uuid \<Rightarrow> uuid option \<Rightarrow> confirm_mode \<Rightarrow> tool_call \<Rightarrow> agent_world \<Rightarrow> tool_outcome \<times> agent_world" where
  "run_meta_tool env now ws user mode c w =
    (case runMetaAdsTool (ae_oauth (ag_ads env)) (ae_graph (ag_ads env)) now ws user mode (tc_id c) (tc_name c) (tc_input c)
        (gw_pending w) (aw_meta (gw_ads w)) of
       (r, pending, m) \<Rightarrow> ((tr_content r, tr_is_error r), set_ads ((gw_ads w)\<lparr>aw_meta := m\<rparr>) (w\<lparr>gw_pending := pending\<rparr>)))"

definition runLocalTool ::
  "agent_env \<Rightarrow> time \<Rightarrow> uuid \<Rightarrow> uuid option \<Rightarrow> confirm_mode \<Rightarrow> tool_call \<Rightarrow> agent_world \<Rightarrow> tool_outcome \<times> agent_world" where
  "runLocalTool env now ws user mode c w = (let name = tc_name c in
     if name = ''get_workspace_stats'' then (runWorkspaceStatsTool env ws w, w)
     else if name \<in> set META_ADS_TOOL_NAMES then run_meta_tool env now ws user mode c w
     else if name \<in> set MEMORY_TOOL_NAMES then runMemoryTool env now ws user name (tc_input c) w
     else if name \<in> set ROAS_TOOL_NAMES then runRoasTool env now ws user name (tc_input c) w
     else if name \<in> set RULE_TOOL_NAMES then runRuleTool env now ws user name (tc_input c) w
     else if name \<in> set SHEETS_TOOL_NAMES then runSheetsTool env now ws user name (tc_input c) w
     else runSpaceTool env now ws user name (tc_input c) w)"

definition next_call :: "agent_world \<Rightarrow> agent_world" where
  "next_call w = w\<lparr>gw_calls := Suc (gw_calls w)\<rparr>"

definition runTool ::
  "agent_env \<Rightarrow> time \<Rightarrow> uuid \<Rightarrow> uuid option \<Rightarrow> confirm_mode \<Rightarrow> agent_world exec" where
  "runTool env now ws user mode bridged c w =
    (let answer = (\<lambda>content err. \<lparr>cr_id = tc_id c, cr_name = tc_name c, cr_content = content, cr_isError = err\<rparr>);
         loc = (case runLocalTool env now ws user mode c w of ((content, err), w') \<Rightarrow> (answer content err, next_call w'))
     in case bridged of
          Some bs \<Rightarrow> (if has_tool bs (tc_name c)
             then (let r = call_bridged (ag_mcp env) bs (tc_name c) (tc_input c) in (answer (br_content r) (br_isError r), next_call w))
             else loc)
        | None \<Rightarrow> loc)"

interpretation runner: tool_runner "runTool env now ws user mode"
  by unfold_locales (auto simp: runTool_def Let_def split: option.splits if_splits prod.splits)

end
