(* ===== verification/AiService.thy ===== *)
theory AiService
  imports AiTools Attaching UsageLedger
begin

text \<open>
  A run of the model from the request to the answer: \<open>run\<close> of \<open>src/src/ai/ai.service.ts\<close> with what it does
  before and after the loop of \<open>AiRun\<close>, the MCP servers of \<open>pipedream.service.ts\<close> and the tones of
  \<open>personality.ts\<close>.  The declarations of the tools, which only the model reads, are the parameter \<open>ToolKit\<close>
  of the surroundings; the routing of tools asks the model through \<open>vi_router\<close>, and what it asks and is
  answered is kept apart from the conversation of the run.
\<close>

section \<open>Texts for the model\<close>

definition SYSTEM_PROMPT :: string where
  "SYSTEM_PROMPT = ''You are Gaspo, an AI assistant for a workspace. You can take actions across the user's connected apps using ''
     @ ''the available tools. Prefer acting over describing: when a request maps to a tool, use it. When you lack a ''
     @ ''connected app needed for a request, say so plainly and name the app to connect. Before any action that ''
     @ ''creates, edits, deletes, or starts spending on a connected app - especially Meta Ads campaigns (creating, ''
     @ ''activating, changing budgets, or deleting) - state exactly what you will do and get the user's explicit ''
     @ ''confirmation first; never perform such actions speculatively.''
     @ [CHR 0x0A]
     @ [CHR 0x0A]
     @ ''You can also build web apps for the workspace, each hosted at its own link with passwordless (magic-link) ''
     @ ''login, and there are two kinds. For something people read and use - a plan or gameplan, strategy, report, ''
     @ ''calculator, or a dashboard that presents analysis - build a page with create_page: you write the whole page ''
     @ ''as HTML, designed to the standard of a polished Claude artifact. For a tool where people keep entering and ''
     @ ''tracking records over time - a time logger, lead tracker, or content calendar - build an app with ''
     @ ''create_space, described as entities (data types with typed fields) and views (forms, tables, dashboards); ''
     @ ''when it should start with content, such as a checklist's items, put that in as starting rows with its ''
     @ ''records, and fill an existing app with add_space_records. When someone asks for a plan, gameplan or ''
     @ ''dashboard, build a page. Never invent or share end-user passwords; logins are always magic links. After ''
     @ ''building either, give the user its link and tell them how to get in: anyone on this team who is signed in to ''
     @ ''the Gaspo dashboard opens it signed in straight away, and otherwise they enter the email on their Slack ''
     @ ''profile and get a sign-in link from you as a Slack DM. Gaspo cannot email sign-in links, so people outside ''
     @ ''this team's Slack cannot sign in yet - never tell anyone to check their email.''
     @ [CHR 0x0A]
     @ [CHR 0x0A]
     @ ''You can also answer questions about this workspace itself - how many members it has and which apps members ''
     @ ''have connected - with the get_workspace_stats tool. Use it instead of guessing or saying you have no way to ''
     @ ''know.''
     @ [CHR 0x0A]
     @ [CHR 0x0A]
     @ ''You have a durable workspace memory that persists across every conversation. When the user states a lasting ''
     @ ''fact, preference, target, or standing instruction (e.g. \"our target ROAS is 3\", \"always report in EUR\"), save ''
     @ ''it with remember_fact - silently, without announcing it. Saved facts appear in your context under \"Workspace ''
     @ ''memory\"; treat them as current truth. Update a fact by re-saving its key; delete a retracted one with ''
     @ ''forget_fact. Never save transient, one-off request details.''
     @ [CHR 0x0A]
     @ [CHR 0x0A]
     @ ''When the user asks what you can do - overall or about a specific connected app - give a structured, scannable ''
     @ ''answer rather than a one-liner: confirm which relevant app(s) are connected, name the specific account when a ''
     @ ''quick read-only tool call can tell you (e.g. list Meta ad accounts to name the account and currency), group ''
     @ ''the concrete capabilities into a few labelled sections, and finish with 2-3 example prompts the user could ''
     @ ''send. This capability-overview case is the one exception to the brevity rule below.''
     @ [CHR 0x0A]
     @ [CHR 0x0A]
     @ ''Connected apps are listed below annotated with whose account each one is: the requester's own private ''
     @ ''account, or a shared team account labelled with the member who connected it. Ownership is load-bearing. When ''
     @ ''the user asks for THEIR OWN data (\"my email\", \"my calendar\", \"my repos\") and the only matching app is a ''
     @ ''shared team account connected by a different member, do not silently read it - say whose account it is and ''
     @ ''confirm that is what they want first. Never present another member's account or its contents as if it were ''
     @ ''the user's own. If an app the user names is not in the list, it is not connected for them in this workspace - ''
     @ ''say so plainly rather than guessing why.''
     @ [CHR 0x0A]
     @ [CHR 0x0A]
     @ ''When greeting someone or introducing yourself (e.g. they just say \"hi\"), ground the intro in what is actually ''
     @ ''available to this specific person: the connected apps listed below - their own accounts first, then shared ''
     @ ''team ones - plus building Spaces and answering workspace questions. Do not recite a generic pitch or lead ''
     @ ''with capabilities whose apps are not connected.''
     @ [CHR 0x0A]
     @ [CHR 0x0A]
     @ ''Your replies are delivered in Slack, so format for Slack's mrkdwn - not Markdown: use *single asterisks* for ''
     @ ''bold (never **double**, which Slack shows literally), _underscores_ for italics, and a leading \"- \" for ''
     @ ''bullets. Don't use # headings or [text](url) links; write links as <https://example.com|label>.''
     @ [CHR 0x0A]
     @ [CHR 0x0A]
     @ ''Be brief and lead with the answer. Put the direct response in the first sentence, then add only the detail ''
     @ ''the request actually needs. Prefer a few short sentences; use a short bulleted list only when giving steps or ''
     @ ''options. Don't restate the question, stack on caveats, or list the tools you have unless asked.''"

definition ROAS_GUIDANCE :: string where
  "ROAS_GUIDANCE = [CHR 0x0A]
     @ [CHR 0x0A]
     @ ''Both Meta Ads and Stripe are connected, so you can VERIFY ad performance instead of trusting Meta's ''
     @ ''self-reported conversions: use verify_roas to pair Meta spend with actual Stripe revenue for any ''
     @ ''profitability question (\"what's our real ROAS?\"). Prefer it over Meta-only numbers, present both when they ''
     @ ''differ, and always mention its caveats (blended revenue, currency notes). Past results are queryable with ''
     @ ''list_roas_snapshots.''"

definition SHEETS_GUIDANCE :: string where
  "SHEETS_GUIDANCE = [CHR 0x0A]
     @ [CHR 0x0A]
     @ ''Google Sheets is connected TWO ways and you have both. First, the Google Sheets app itself, whose ordinary ''
     @ ''actions do anything a person could do in Sheets - list the spreadsheets in the account, read a sheet, search, ''
     @ ''add or update arbitrary rows. Use those for any normal spreadsheet request; never tell the user you cannot ''
     @ ''list or read their spreadsheets, and never send them to connect Google Drive for something the Sheets app ''
     @ ''already covers. Second, on top of that, two reporting tools that write Gaspo's own datasets - verified ROAS ''
     @ ''runs, Meta campaign performance, and rule-engine actions: export_to_sheet for a one-off report and ''
     @ ''create_scheduled_export for a recurring one (\"every Monday put last week's numbers in the sheet\"), which runs ''
     @ ''on its own and appends only new rows so the sheet builds a history. Those two are ONLY for those three ''
     @ ''datasets; everything else goes through the app's own actions. Reuse a remembered sheet (e.g. an ''
     @ ''\"export_sheet_id\" fact) instead of creating new spreadsheets each time, remember the sheet id the first time ''
     @ ''one is created, and always give the user the spreadsheet link.''"

definition RULES_GUIDANCE :: string where
  "RULES_GUIDANCE = [CHR 0x0A]
     @ [CHR 0x0A]
     @ ''You can set up automated ad rules with create_ad_rule: scheduled checks that alert, pause, or scale ''
     @ ''campaigns/ad sets when a metric (CPA, ROAS, spend...) breaches a threshold - e.g. overnight pausing of losing ''
     @ ''campaigns or morning budget scaling of winners. Pause/scale rules act autonomously within guardrails and ''
     @ ''report to Slack afterwards, so ALWAYS describe the full rule (metric, threshold, window, action, schedule, ''
     @ ''guardrails) and get explicit confirmation before creating one. Use remembered targets (e.g. target_roas) as ''
     @ ''sensible defaults. Manage rules with list_ad_rules, set_ad_rule_active, and delete_ad_rule. Separately, an ''
     @ ''automatic hourly monitor alerts on CPA spikes, ROAS drops, and spend spikes (vs the trailing 7 days) once the ''
     @ ''workspace has an \"alerts_channel\" fact - if the user asks for automatic alerts, ask which channel and ''
     @ ''remember_fact its channel ID as alerts_channel.''"

definition BUTTONS_GUIDANCE :: string where
  "BUTTONS_GUIDANCE = [CHR 0x0A]
     @ [CHR 0x0A]
     @ ''For Meta Ads write actions (create/update/delete a campaign, ad set, creative, or ad; changing budgets or ''
     @ ''status), do NOT ask for confirmation in your text. Instead call the appropriate tool directly with your best ''
     @ ''parameters. Calling it does not execute anything - the platform automatically pauses and shows the user ''
     @ ''Approve/Cancel buttons, and only runs the action if they approve. First gather any ids you need with read ''
     @ ''tools, then call the one write tool and, in one short line, state exactly what you are about to do.''"

definition PERSONALITY_INSTRUCTIONS :: "(string \<times> string) list" where
  "PERSONALITY_INSTRUCTIONS = [(''friendly'', ''Tone: warm and conversational. Greet the user by name when you know it, acknowledge what they asked before ''
     @ ''answering, and keep the register informal - without padding the answer.''),
     (''professional'', ''Tone: formal and businesslike. Use complete sentences, avoid contractions, slang, and emoji, and present ''
     @ ''numbers precisely with their units and time period.''),
     (''concise'', ''Tone: maximally terse. Answer in as few words as the question allows, prefer fragments and bare numbers over ''
     @ ''sentences, and omit all preamble, restatement, and closing offers.'')]"

section \<open>Connected apps as servers\<close>

definition form_plain :: "char \<Rightarrow> bool" where
  "form_plain c \<longleftrightarrow> is_lower c \<or> is_upper c \<or> is_digit c \<or> c \<in> set ''*-._''"

text \<open>How \<open>URLSearchParams\<close> writes a value.\<close>

definition form_encode :: "string \<Rightarrow> string" where
  "form_encode s = concat (map (\<lambda>c. if form_plain c then [c] else if c = CHR '' '' then ''+''
     else let n = (of_char c :: nat) in if n < 128 then percent n else percent (192 + n div 64) @ percent (128 + n mod 64)) s)"

definition PIPEDREAM_MCP_BASE_URL :: string where
  "PIPEDREAM_MCP_BASE_URL = ''https://remote.mcp.pipedream.net/v3''"

definition name_safe :: "char \<Rightarrow> bool" where
  "name_safe c \<longleftrightarrow> is_lower c \<or> is_upper c \<or> is_digit c \<or> c = CHR ''_'' \<or> c = CHR ''-''"

definition scope_name :: "string \<Rightarrow> string" where
  "scope_name s = map (\<lambda>c. if name_safe c then c else CHR ''_'') s"

definition mcp_server :: "string \<times> string \<Rightarrow> string \<Rightarrow> string option \<Rightarrow> string \<Rightarrow> remote_server" where
  "mcp_server pd externalUserId token slug = \<lparr>rs_appSlug = slug, rs_name = ''pipedream-'' @ scope_name externalUserId @ ''-'' @ slug,
     rs_url = PIPEDREAM_MCP_BASE_URL @ ''?projectId='' @ form_encode (fst pd) @ ''&environment='' @ form_encode (snd pd)
       @ ''&externalUserId='' @ form_encode externalUserId @ ''&app='' @ form_encode slug,
     rs_authorizationToken = token, rs_enabledTools = None\<rparr>"

definition slugs_at :: "access_level \<Rightarrow> integration_view list \<Rightarrow> string list" where
  "slugs_at level apps = js_unique (map iv_appSlug (filter (\<lambda>c. iv_accessLevel c = level) apps))"

text \<open>The external users and apps a run attaches: the team's, and the member's own.\<close>

definition app_scopes :: "uuid \<Rightarrow> uuid option \<Rightarrow> integration_view list \<Rightarrow> (string \<times> string) list" where
  "app_scopes ws user apps = map (Pair ws) (slugs_at TEAM apps)
     @ (case user of Some (c # cs) \<Rightarrow> map (Pair (privateExternalUserId (c # cs))) (slugs_at PRIVATE apps) | _ \<Rightarrow> [])"

definition servers_for :: "string \<times> string \<Rightarrow> string option \<Rightarrow> (string \<times> string) list \<Rightarrow> remote_server list" where
  "servers_for pd token scopes = map (\<lambda>(external, slug). mcp_server pd external token slug) scopes"

section \<open>The system prompt\<close>

definition describeConnection :: "uuid option \<Rightarrow> integration_view \<Rightarrow> string" where
  "describeConnection user c =
    (let label = (if iv_provider c = META then ''Meta Ads'' else if iv_appName c = [] then iv_appSlug c else iv_appName c);
         account = coalesce (iv_nickname c) (iv_accountName c);
         ownership = (if iv_accessLevel c = PRIVATE then ''the requester's own private account''
            else if (case user of Some (x # xs) \<Rightarrow> iv_userId c = x # xs | _ \<Rightarrow> False) then ''shared team account, connected by the requester''
            else ''shared team account'' @ (case iv_userName c of Some (x # xs) \<Rightarrow> '', connected by '' @ x # xs | _ \<Rightarrow> []))
     in label @ '' ('' @ ownership @ (case account of Some (x # xs) \<Rightarrow> ''; account: '' @ x # xs | _ \<Rightarrow> []) @ '')'')"

definition break2 :: string where
  "break2 = [CHR 0x0A, CHR 0x0A]"

definition apps_section :: "uuid option \<Rightarrow> integration_view list \<Rightarrow> string" where
  "apps_section user apps = (let lines = js_unique (map (describeConnection user) apps) in
     if lines = [] then break2 @ ''No apps are connected in this workspace yet.''
     else break2 @ ''Apps connected and usable right now:'' @ [CHR 0x0A] @ join [CHR 0x0A] (map (\<lambda>l. ''- '' @ l) lines))"

definition requester_section :: "string \<Rightarrow> string option \<Rightarrow> user option \<Rightarrow> string" where
  "requester_section appUrl sourceName requester = (case requester of
     Some u \<Rightarrow> break2 @ ''The requester is '' @ u_name u @ '', a member of this workspace.''
   | None \<Rightarrow> if sourceName = Some ''slack''
       then break2 @ ''The requester could not be matched to a workspace member account, so only shared ''
         @ ''team apps are listed - anything they connected privately is not reachable in this run. ''
         @ ''If they ask for personal data or for an app that is missing, tell them to sign in with ''
         @ ''Slack at <'' @ appUrl @ ''|'' @ appUrl @ ''> so their account and private connections link up.''
       else [])"

definition settings_section :: "workspace \<Rightarrow> string" where
  "settings_section t =
     (case map_of PERSONALITY_INSTRUCTIONS (case w_personalityTone t of Some p \<Rightarrow> p | None \<Rightarrow> []) of Some i \<Rightarrow> break2 @ i | None \<Rightarrow> [])
     @ (case w_workspaceInstructions t of
          Some i \<Rightarrow> if js_trim i = [] then []
            else break2 @ ''Workspace instructions (set by an admin of this workspace - follow them unless ''
              @ ''they conflict with the confirmation rules above):'' @ [CHR 0x0A] @ js_trim i
        | None \<Rightarrow> [])"

definition system_prompt ::
  "string \<Rightarrow> string option \<Rightarrow> uuid option \<Rightarrow> user option \<Rightarrow> integration_view list \<Rightarrow> string option \<Rightarrow> workspace
     \<Rightarrow> bool \<Rightarrow> bool \<Rightarrow> bool \<Rightarrow> confirm_mode \<Rightarrow> string" where
  "system_prompt appUrl sourceName user requester apps memory t hasMeta hasRoas hasSheets mode =
     SYSTEM_PROMPT @ apps_section user apps @ requester_section appUrl sourceName requester
     @ (case memory of Some (c # cs) \<Rightarrow> break2 @ c # cs | _ \<Rightarrow> []) @ settings_section t
     @ (if hasRoas then ROAS_GUIDANCE else []) @ (if hasSheets then SHEETS_GUIDANCE else [])
     @ (if hasMeta then RULES_GUIDANCE else []) @ (if mode = BUTTONS \<and> hasMeta then BUTTONS_GUIDANCE else [])"

section \<open>Runs\<close>

record tool_kit =
  kt_local :: "ToolRouter.tool_spec list"
  kt_meta :: "ToolRouter.tool_spec list"
  kt_roas :: "ToolRouter.tool_spec list"
  kt_rules :: "ToolRouter.tool_spec list"
  kt_sheets :: "ToolRouter.tool_spec list"

record run_options =
  op_model :: "string option"
  op_taskId :: "uuid option"
  op_sourceName :: "string option"
  op_confirmVia :: "confirm_mode option"
  op_history :: "conversation_turn list"
  op_conversationId :: "string option"
  op_branchConversationId :: "string option"

text \<open>
  What a run takes from outside.  \<open>vi_redis\<close> says which Redis commands of the attached apps succeed;
  \<open>vi_bridgeUp\<close> and \<open>vi_nudgeUp\<close> say it for the cached tool lists and the throttle of the nudge,
  \<open>vi_memoryUp\<close> for reading the facts of the workspace, \<open>vi_usageDb\<close> whether the database takes the event
  of the run and the rows that pay for it.  \<open>vi_router\<close> is the provider as it answers the short requests of
  the router, \<open>vi_llm\<close> the provider as it answers those of the run's conversation.
\<close>

datatype usage_db = Accepting | RefusingRows | RefusingEvent

record service_env =
  vi_agent :: agent_env
  vi_gatewayModels :: string
  vi_model :: string
  vi_configured :: "provider_id \<Rightarrow> bool"
  vi_llm :: "provider_id \<Rightarrow> llm"
  vi_router :: "provider_id \<Rightarrow> provider_request \<Rightarrow> llm_failure + provider_response"
  vi_kit :: tool_kit
  vi_pipedream :: "string \<times> string"
  vi_pipedreamToken :: "string result"
  vi_catalogue :: catalogue
  vi_mcpTools :: "remote_server \<Rightarrow> ToolRouter.tool_spec list option"
  vi_redis :: redis_calls
  vi_bridgeUp :: bool
  vi_nudgeUp :: bool
  vi_memoryUp :: bool
  vi_eventId :: uuid
  vi_usageDb :: usage_db

record service_world =
  sv_workspaces :: "workspace list"
  sv_ledger :: ledger
  sv_kv :: kv
  sv_agent :: agent_world
  sv_requests :: "provider_request list"
  sv_replies :: "provider_response list"
  sv_routed :: "(provider_request \<times> (llm_failure + provider_response)) list"

record ai_run_result =
  an_answer :: string
  an_connectedApps :: "string list"
  an_actions :: "ai_action list"
  an_spaces :: "ai_space list"
  an_pendingAction :: "pending_action option"

definition link :: "string \<Rightarrow> string" where
  "link url = ''<'' @ url @ ''|'' @ url @ ''>''"

definition spoken :: "string \<Rightarrow> ai_run_result" where
  "spoken answer = \<lparr>an_answer = answer, an_connectedApps = [], an_actions = [], an_spaces = [], an_pendingAction = None\<rparr>"

definition out_of_credits :: "string \<Rightarrow> ai_run_result" where
  "out_of_credits billingUrl = spoken (''This workspace is out of credits, so I can't run that request. Top up at '' @ link billingUrl
     @ '' and I'll pick right back up.'')"

definition resolveModel :: "string \<Rightarrow> string \<Rightarrow> model_definition option" where
  "resolveModel gatewayModels i = List.find (\<lambda>m. md_id m = i) (buildCatalog gatewayModels)"

definition provider_text :: "provider_id \<Rightarrow> string" where
  "provider_text p = (case p of Anthropic \<Rightarrow> ''anthropic'' | Gateway \<Rightarrow> ''gateway'')"

text \<open>The model of a run, or the answer that says why there is none.\<close>

definition usable_model :: "service_env \<Rightarrow> string \<Rightarrow> string \<Rightarrow> ai_run_result + model_definition" where
  "usable_model env settingsUrl i = (case resolveModel (vi_gatewayModels env) i of
     None \<Rightarrow> Inl (spoken (''I'm set to use '' @ in_quotes i @ '', which isn't a model I recognise. Pick another one at '' @ link settingsUrl @ ''.''))
   | Some m \<Rightarrow> if vi_configured env (md_provider m) then Inr m
       else Inl (spoken (''I'm set to use '' @ md_name m @ '', but this deployment has no '' @ provider_text (md_provider m)
              @ '' credentials configured. Pick a different model at '' @ link settingsUrl @ ''.'')))"

definition listModels :: "service_env \<Rightarrow> (model_definition \<times> bool) list" where
  "listModels env = map (\<lambda>m. (m, md_supportsTools m \<and> vi_configured env (md_provider m))) (buildCatalog (vi_gatewayModels env))"

definition LOW_BALANCE_CREDITS :: int where
  "LOW_BALANCE_CREDITS = 10 * CREDITS_PER_DOLLAR"

definition LOW_BALANCE_NUDGE_TTL_SECONDS :: int where
  "LOW_BALANCE_NUDGE_TTL_SECONDS = 6 * 60 * 60"

definition nudge_key :: "uuid \<Rightarrow> string option \<Rightarrow> string" where
  "nudge_key ws conversation = ''ai:lowbalance:'' @ ws @ '':'' @ or_default conversation ''workspace''"

definition shouldNudgeLowBalance :: "bool \<Rightarrow> uuid \<Rightarrow> string option \<Rightarrow> time \<Rightarrow> kv \<Rightarrow> bool \<times> kv" where
  "shouldNudgeLowBalance up ws conversation now s =
    (if up then kv_set_nx (nudge_key ws conversation) ''1'' LOW_BALANCE_NUDGE_TTL_SECONDS now s else (True, s))"

definition nudge_text :: "string \<Rightarrow> int \<Rightarrow> string" where
  "nudge_text billingUrl balance = break2 @ ''_Heads up: this workspace has about $''
     @ to_fixed 2 (fl (of_int balance / of_int CREDITS_PER_DOLLAR)) @ '' of credits left. Top up at '' @ link billingUrl @ ''._''"

definition usage_input :: "uuid \<Rightarrow> uuid option \<Rightarrow> string \<Rightarrow> run_options \<Rightarrow> run_state \<Rightarrow> record_usage_input" where
  "usage_input ws user model op s = (let task = (case op_taskId op of Some (c # cs) \<Rightarrow> Some (c # cs) | _ \<Rightarrow> None) in
     \<lparr>ru_workspaceId = ws, ru_userId = user, ru_taskId = op_taskId op, ru_model = model,
      ru_inputTokens = rn_input s, ru_outputTokens = rn_output s, ru_cacheWriteTokens = Some (rn_cacheWrite s),
      ru_cacheReadTokens = Some (rn_cacheRead s), ru_sourceName = or_default (op_sourceName op) ''ai.run'',
      ru_type = Some (if task = None then THREAD else SCHEDULED_TASK),
      ru_providerCostUsd = rn_cost s, ru_resolvedModel = rn_resolved s\<rparr>)"

text \<open>
  What the database refuses is logged and forgotten: the event, and then nothing is charged, or, once the event
  is in, the rows that pay for it.
\<close>

definition recordUsage ::
  "service_env \<Rightarrow> time \<Rightarrow> uuid \<Rightarrow> uuid option \<Rightarrow> string \<Rightarrow> run_options \<Rightarrow> run_state \<Rightarrow> ledger \<Rightarrow> ledger" where
  "recordUsage env now ws user model op s l =
    (let inp = usage_input ws user model op s in
     if rn_input s + rn_output s \<le> 0 then l
     else case vi_usageDb env of
       Accepting \<Rightarrow> snd (recordEvent (vi_gatewayModels env) (vi_eventId env) now inp l)
     | RefusingRows \<Rightarrow> l\<lparr>events := events l @ [make_event (vi_gatewayModels env) (vi_eventId env) now inp]\<rparr>
     | RefusingEvent \<Rightarrow> l)"

text \<open>What a run can use of a workspace: its member's active accounts and what follows from them.\<close>

definition usable_apps :: "service_env \<Rightarrow> uuid \<Rightarrow> uuid option \<Rightarrow> agent_world \<Rightarrow> integration_view list" where
  "usable_apps env ws user a =
     filter iv_isActive (findVisibleForUser (ae_users (ag_ads (vi_agent env))) ws user (mw_rows (aw_meta (gw_ads a))))"

definition via_pipedream :: "integration_view list \<Rightarrow> integration_view list" where
  "via_pipedream apps = filter (\<lambda>c. iv_provider c = PIPEDREAM) apps"

definition has_meta :: "integration_view list \<Rightarrow> bool" where
  "has_meta apps \<longleftrightarrow> (\<exists>c \<in> set apps. iv_provider c = META)"

definition has_app :: "string \<Rightarrow> integration_view list \<Rightarrow> bool" where
  "has_app slug apps \<longleftrightarrow> (\<exists>c \<in> set (via_pipedream apps). iv_appSlug c = slug)"

definition has_roas :: "integration_view list \<Rightarrow> bool" where
  "has_roas apps \<longleftrightarrow> has_meta apps \<and> has_app ''stripe'' apps"

definition local_tools :: "tool_kit \<Rightarrow> integration_view list \<Rightarrow> ToolRouter.tool_spec list" where
  "local_tools k apps = kt_local k @ (if has_meta apps then kt_meta k else []) @ (if has_roas apps then kt_roas k else [])
     @ (if has_meta apps then kt_rules k else []) @ (if has_app ''google_sheets'' apps then kt_sheets k else [])"

definition history_messages :: "conversation_turn list \<Rightarrow> provider_message list" where
  "history_messages turns = map (\<lambda>t. if cv_fromAssistant t then AssistantMessage (cv_content t) [] None else UserMessage (cv_content t)) turns"

definition confirm_via :: "run_options \<Rightarrow> confirm_mode" where
  "confirm_via op = or_default (op_confirmVia op) INLINE"

definition requester_of :: "service_env \<Rightarrow> uuid option \<Rightarrow> user option" where
  "requester_of env user = (case user of Some (c # cs) \<Rightarrow> findById (ae_users (ag_ads (vi_agent env))) (c # cs) | _ \<Rightarrow> None)"

definition setup_for ::
  "service_env \<Rightarrow> workspace \<Rightarrow> uuid option \<Rightarrow> run_options \<Rightarrow> model_definition \<Rightarrow> agent_world \<Rightarrow> run_setup" where
  "setup_for env t user op m a =
    (let apps = usable_apps env (w_id t) user a in
     \<lparr>st_model = md_id m,
      st_system = system_prompt (ag_frontendUrl (vi_agent env)) (op_sourceName op) user (requester_of env user) apps
        (buildPromptBlock (vi_memoryUp env) (w_id t) (gw_facts a)) t (has_meta apps) (has_roas apps) (has_app ''google_sheets'' apps)
        (confirm_via op),
      st_adaptive = or_default (md_supportsAdaptiveThinking m) False, st_localTools = local_tools (vi_kit env) apps,
      st_hasMeta = has_meta apps\<rparr>)"

text \<open>
  The router's requests: one question, without tools or servers, to the model of the run; a failed request is
  no answer.
\<close>

definition router_request :: "string \<Rightarrow> string \<Rightarrow> string \<Rightarrow> provider_request" where
  "router_request model system message = \<lparr>rq_model = model, rq_system = system, rq_messages = [UserMessage message],
     rq_tools = [], rq_mcpServers = [], rq_adaptiveThinking = False\<rparr>"

definition router_ask :: "service_env \<Rightarrow> model_definition \<Rightarrow> ask" where
  "router_ask env m system message = (case vi_router env (md_provider m) (router_request (md_id m) system message) of
     Inl _ \<Rightarrow> None | Inr r \<Rightarrow> Some (pr_text r))"

text \<open>
  The servers the provider connects to, the bridged toolset and the apps that can be reached.  Building a
  toolset always comes back (\<open>bridge_builds_toolset\<close>), so \<open>the\<close> is a value.
\<close>

definition toolset_for ::
  "service_env \<Rightarrow> time \<Rightarrow> uuid \<Rightarrow> string \<Rightarrow> run_options \<Rightarrow> model_definition \<Rightarrow> ToolRouter.tool_spec list \<Rightarrow> remote_server list \<Rightarrow> kv
     \<Rightarrow> remote_server list \<times> bridged_toolset option \<times> string list \<times> kv" where
  "toolset_for env now ws prompt op m tools servers s =
    (let ask = router_ask env m in
     if md_supportsRemoteMcp m then
       (let (sending, s1) = (if servers = [] then ([], s)
              else attachServers (vi_redis env) ask (vi_catalogue env) prompt servers tools ws (op_conversationId op)
                     (op_branchConversationId op) now s)
        in (sending, None, map rs_appSlug servers, s1))
     else
       (let (built, s1) = buildToolset (vi_bridgeUp env) (vi_mcpTools env) servers now s; ts = the built;
            relevant = (case selectRelevant ask prompt (bs_tools ts) of None \<Rightarrow> bs_tools ts | Some kept \<Rightarrow> kept)
        in ([], Some (narrowTo ts relevant MAX_BRIDGED_TOOLS), bs_apps ts, s1)))"

text \<open>What is asked on the way, and the requests it makes with what came back.\<close>

definition questions_for ::
  "service_env \<Rightarrow> time \<Rightarrow> uuid \<Rightarrow> string \<Rightarrow> run_options \<Rightarrow> model_definition \<Rightarrow> ToolRouter.tool_spec list \<Rightarrow> remote_server list \<Rightarrow> kv
     \<Rightarrow> (string \<times> string) list" where
  "questions_for env now ws prompt op m tools servers s =
    (if md_supportsRemoteMcp m then
       (if servers = [] then []
        else attach_questions (rc_get (vi_redis env)) (router_ask env m) (vi_catalogue env) prompt servers tools ws (op_conversationId op) now s)
     else asks_tools ROUTE_THRESHOLD prompt (bs_tools (the (fst (buildToolset (vi_bridgeUp env) (vi_mcpTools env) servers now s)))))"

definition routed ::
  "service_env \<Rightarrow> model_definition \<Rightarrow> (string \<times> string) list \<Rightarrow> (provider_request \<times> (llm_failure + provider_response)) list" where
  "routed env m questions = map (\<lambda>(system, message). let q = router_request (md_id m) system message
     in (q, vi_router env (md_provider m) q)) questions"

definition start_state ::
  "run_setup \<Rightarrow> conversation_turn list \<Rightarrow> string \<Rightarrow> remote_server list \<Rightarrow> bridged_toolset option \<Rightarrow> string list \<Rightarrow> run_state" where
  "start_state u history prompt servers bridged reachable =
    \<lparr>rn_servers = servers, rn_bridged = bridged,
     rn_tools = st_localTools u @ (case bridged of Some b \<Rightarrow> bs_tools b | None \<Rightarrow> []),
     rn_apps = js_unique (reachable @ (if st_hasMeta u then [''meta_ads''] else [])), rn_available = (reachable \<noteq> [] \<or> st_hasMeta u),
     rn_messages = history_messages history @ [UserMessage prompt], rn_actions = [], rn_answer = [], rn_input = 0, rn_output = 0,
     rn_cacheWrite = 0, rn_cacheRead = 0, rn_cost = None, rn_resolved = None, rn_truncations = 0, rn_calls = [], rn_replies = []\<rparr>"

definition fresh_run :: "agent_world \<Rightarrow> agent_world" where
  "fresh_run a = a\<lparr>gw_built := [], gw_pending := None\<rparr>"

definition failure_error :: "llm_failure \<Rightarrow> http_error" where
  "failure_error f = (case f of McpConnectionError m \<Rightarrow> PlainError m | Refused e \<Rightarrow> e)"

text \<open>The run once its model is known and the servers can be named.\<close>

definition run_with_model ::
  "service_env \<Rightarrow> time \<Rightarrow> workspace \<Rightarrow> uuid option \<Rightarrow> string \<Rightarrow> run_options \<Rightarrow> model_definition \<Rightarrow> string option \<Rightarrow> int \<Rightarrow> service_world
     \<Rightarrow> ai_run_result result \<times> service_world" where
  "run_with_model env now t user prompt op m token balance w =
    (let ws = w_id t; a = sv_agent w; u = setup_for env t user op m a;
         servers = servers_for (vi_pipedream env) token (app_scopes ws user (via_pipedream (usable_apps env ws user a)));
         (sending, bridged, reachable, kv1) = toolset_for env now ws prompt op m (st_localTools u) servers (sv_kv w);
         asked = routed env m (questions_for env now ws prompt op m (st_localTools u) servers (sv_kv w));
         (res, s, a1) = run_loop MAX_TURNS (vi_llm env (md_provider m)) localToolApp
            (runTool (vi_agent env) now ws user (confirm_via op)) u (start_state u (op_history op) prompt sending bridged reachable) (fresh_run a);
         w1 = w\<lparr>sv_kv := kv1, sv_agent := a1, sv_requests := sv_requests w @ rn_calls s, sv_replies := sv_replies w @ rn_replies s,
                  sv_routed := sv_routed w @ asked\<rparr>
     in case res of
          Inl f \<Rightarrow> (Inl (failure_error f), w1)
        | Inr _ \<Rightarrow>
           (let w2 = w1\<lparr>sv_ledger := recordUsage env now ws user (md_id m) op s (sv_ledger w1)\<rparr>;
                (nudge, kv2) = (if js_trim (rn_answer s) \<noteq> [] \<and> balance < LOW_BALANCE_CREDITS
                   then shouldNudgeLowBalance (vi_nudgeUp env) ws (op_conversationId op) now kv1 else (False, kv1));
                answer = rn_answer s @ (if nudge then nudge_text (ag_frontendUrl (vi_agent env) @ ''/dashboard/billing'') balance else [])
            in (Inr \<lparr>an_answer = js_trim answer, an_connectedApps = (if rn_available s then rn_apps s else []), an_actions = rn_actions s,
                      an_spaces = gw_built a1, an_pendingAction = gw_pending a1\<rparr>, w2\<lparr>sv_kv := kv2\<rparr>)))"

definition ai_run ::
  "service_env \<Rightarrow> time \<Rightarrow> uuid \<Rightarrow> uuid option \<Rightarrow> string \<Rightarrow> run_options \<Rightarrow> service_world \<Rightarrow> ai_run_result result \<times> service_world" where
  "ai_run env now ws user prompt op w =
    (let appUrl = ag_frontendUrl (vi_agent env) in
     case workspaceByIdOrFail (sv_workspaces w) ws of Inl e \<Rightarrow> (Inl e, w)
     | Inr t \<Rightarrow>
        (let balance = cb_balance (getBalance ws now (sv_ledger w)) in
         if balance \<le> 0 then (Inr (out_of_credits (appUrl @ ''/dashboard/billing'')), w)
         else case usable_model env (appUrl @ ''/dashboard/settings/general'')
                (or_default (coalesce (op_model op) (w_defaultModel t)) (vi_model env)) of
            Inl r \<Rightarrow> (Inr r, w)
          | Inr m \<Rightarrow>
             (if app_scopes ws user (via_pipedream (usable_apps env ws user (sv_agent w))) = []
              then run_with_model env now t user prompt op m None balance w
              else case vi_pipedreamToken env of
                  Inl e \<Rightarrow> (Inl e, w)
                | Inr token \<Rightarrow> run_with_model env now t user prompt op m (Some token) balance w)))"

end
