(* ===== verification/AiToolFacts.thy ===== *)
theory AiToolFacts
  imports AiTools RuleFacts SpaceFacts
begin

text \<open>
  What the tools of a run leave alone: none of them but the Meta Ads tools asks Meta for a change, and with
  approval buttons not even these; and no tool reaches another workspace's rows.
\<close>

section \<open>Changes to ad accounts\<close>

definition ad_writes :: "agent_world \<Rightarrow> meta_log" where
  "ad_writes w = writes (mw_sent (aw_meta (gw_ads w)))"

lemma gw_sets [simp]:
  "gw_rules (set_rules r w) = r" "gw_ads (set_ads a w) = a" "gw_ads (set_rule_rows rs w) = gw_ads w"
  "gw_ads (w\<lparr>gw_spaces := db\<rparr>) = gw_ads w" "gw_ads (w\<lparr>gw_facts := fs\<rparr>) = gw_ads w" "gw_ads (w\<lparr>gw_built := bs\<rparr>) = gw_ads w"
  "gw_ads (w\<lparr>gw_pending := p\<rparr>) = gw_ads w" "gw_ads (next_call w) = gw_ads w" "gw_ads (set_export_rows xs w) = gw_ads w"
  "gw_ads (w\<lparr>gw_exports := x\<rparr>) = ads_of x"
  by (simp_all add: gw_rules_def gw_ads_def set_rules_def set_ads_def set_rule_rows_def next_call_def set_export_rows_def ads_of_def)

lemma gw_ads_exports: "gw_ads w = ads_of (gw_exports w)"
  by (simp add: gw_ads_def gw_rules_def ads_of_def)

definition export_writes :: "export_world \<Rightarrow> meta_log" where
  "export_writes w = writes (mw_sent (aw_meta (ads_of w)))"

lemma ad_writes_exports: "ad_writes w = export_writes (gw_exports w)"
  by (simp add: ad_writes_def export_writes_def gw_ads_exports)

lemma writes_read: "mq_method q = GET \<Longrightarrow> writes [q] = []"
  by (simp add: writes_def)

lemma campaign_writes: "export_writes (snd (campaign_table env now ws user r window w)) = export_writes w"
  by (simp add: campaign_table_def export_token_def rule_send_def meta_send_def export_writes_def ads_of_def
      Let_def split_beta writes_read split: option.split sum.split)

lemma build_writes: "export_writes (snd (buildTable env now ws user r m window w)) = export_writes w"
  by (simp add: buildTable_def campaign_writes Let_def)

lemma written_writes: "export_writes (snd (write_export env ws user r t w)) = export_writes w"
  by (simp add: write_export_def export_writes_def ads_of_def Let_def split_beta split: option.split)

lemma exportNow_writes: "export_writes (snd (exportNow env now ws user r w)) = export_writes w"
  by (simp add: exportNow_def Let_def split_beta build_writes written_writes split: sum.split)

lemma export_rows_writes: "export_writes (snd (export_rows env now x window w)) = export_writes w"
  by (simp add: export_rows_def split_beta build_writes written_writes split: sum.split)

lemma export_writes_rows [simp]: "export_writes (w\<lparr>ew_exports := xs\<rparr>) = export_writes w"
  by (simp add: export_writes_def ads_of_def)

lemma runExport_writes: "export_writes (snd (runExport env now adv x w)) = export_writes w"
  by (simp add: runExport_def Let_def split_beta export_rows_writes split: sum.split)

lemma runExportNow_writes: "export_writes (snd (runExportNow env now ws i w)) = export_writes w"
  by (simp add: runExportNow_def runExport_writes split: sum.split)

lemma ad_writes_updates [simp]:
  "ad_writes (w\<lparr>gw_exports := x\<rparr>) = export_writes x" "ad_writes (set_export_rows xs w) = ad_writes w"
  "ad_writes (set_rule_rows rs w) = ad_writes w" "ad_writes (w\<lparr>gw_facts := fs\<rparr>) = ad_writes w"
  "ad_writes (w\<lparr>gw_spaces := db\<rparr>) = ad_writes w" "ad_writes (w\<lparr>gw_built := bs\<rparr>) = ad_writes w"
  "ad_writes (next_call w) = ad_writes w" "ad_writes (set_ads a w) = writes (mw_sent (aw_meta a))"
  by (simp_all add: ad_writes_def export_writes_def)

lemma sheets_tool_writes: "ad_writes (snd (runSheetsTool env now ws user name raw w)) = ad_writes w"
  by (simp add: runSheetsTool_def Let_def split_beta exportNow_writes runExportNow_writes ad_writes_exports[symmetric]
      split: option.split sum.split)

lemma rule_tool_writes: "ad_writes (snd (runRuleTool env now ws user name raw w)) = ad_writes w"
  by (simp add: runRuleTool_def Let_def split_beta split: option.split sum.split)

lemma memory_tool_writes: "ad_writes (snd (runMemoryTool env now ws user name raw w)) = ad_writes w"
  by (simp add: runMemoryTool_def Let_def split_beta split: sum.split)

lemma verify_writes: "writes (mw_sent (aw_meta (snd (verify env i now ws user p w)))) = writes (mw_sent (aw_meta w))"
proof -
  obtain res w' where v: "verify env i now ws user p w = (res, w')" by fastforce
  from verify_reads[OF v] v show ?thesis by auto
qed

lemma roas_tool_writes: "ad_writes (snd (runRoasTool env now ws user name raw w)) = ad_writes w"
proof -
  have "writes (mw_sent (aw_meta (gw_ads w))) = ad_writes w" by (simp add: ad_writes_def)
  then show ?thesis by (simp add: runRoasTool_def Let_def split_beta verify_writes split: option.split sum.split)
qed

lemma space_tool_writes: "ad_writes (snd (runSpaceTool env now ws user name raw w)) = ad_writes w"
  by (simp add: runSpaceTool_def Let_def split_beta split: sum.split)

lemma meta_tool_reads:
  assumes "runMetaAdsTool mo graph now ws user BUTTONS callId name raw pending w = (res, pending', w')"
  shows "writes (mw_sent w') = writes (mw_sent w)"
  using assms
proof (cases rule: run_tool_cases)
  case (sent r token)
  then have "mq_method r = GET" using mutating_tool_is_write by blast
  with sent(1) show ?thesis by (simp add: writes_def)
qed simp

lemma run_meta_tool_reads: "ad_writes (snd (run_meta_tool env now ws user BUTTONS c w)) = ad_writes w"
proof -
  obtain res p m where r: "runMetaAdsTool (ae_oauth (ag_ads env)) (ae_graph (ag_ads env)) now ws user BUTTONS (tc_id c) (tc_name c) (tc_input c)
      (gw_pending w) (aw_meta (gw_ads w)) = (res, p, m)" by (metis prod_cases3)
  from meta_tool_reads[OF r] r show ?thesis by (simp add: run_meta_tool_def ad_writes_def)
qed

lemmas local_writes = sheets_tool_writes rule_tool_writes memory_tool_writes roas_tool_writes space_tool_writes

text \<open>With approval buttons no tool asks Meta for a change.\<close>

interpretation buttons: quiet_runner "runTool env now ws user BUTTONS" ad_writes
proof
  fix b c w r w'
  assume "runTool env now ws user BUTTONS b c w = (r, w')"
  moreover have "ad_writes (snd (runLocalTool env now ws user BUTTONS c w)) = ad_writes w"
    by (simp add: runLocalTool_def Let_def local_writes run_meta_tool_reads)
  ultimately show "ad_writes w' = ad_writes w"
    by (auto simp: runTool_def Let_def split: option.splits if_splits prod.splits)
qed

end
