(* ===== verification/AiServiceFacts.thy ===== *)
theory AiServiceFacts
  imports AiService AiToolFacts
begin

text \<open>
  What a run of the model guarantees: it costs nothing when the workspace has nothing left, it is charged for
  what the provider counted, it sends well-formed transcripts a bounded number of times, and it uses only the
  accounts of its member.
\<close>

section \<open>The parts of a run\<close>

abbreviation loop_of where
  "loop_of env now t user op m u s a \<equiv>
     run_loop MAX_TURNS (vi_llm env (md_provider m)) localToolApp (runTool (vi_agent env) now (w_id t) user (confirm_via op)) u s (fresh_run a)"

text \<open>The servers of a member's run.\<close>

definition own_servers :: "service_env \<Rightarrow> workspace \<Rightarrow> uuid option \<Rightarrow> string option \<Rightarrow> agent_world \<Rightarrow> remote_server list" where
  "own_servers env t user token a =
     servers_for (vi_pipedream env) token (app_scopes (w_id t) user (via_pipedream (usable_apps env (w_id t) user a)))"

text \<open>What remains of a run once the loop has come back.\<close>

definition run_settled ::
  "service_env \<Rightarrow> time \<Rightarrow> workspace \<Rightarrow> uuid option \<Rightarrow> run_options \<Rightarrow> model_definition \<Rightarrow> service_world
     \<Rightarrow> (llm_failure + unit) \<times> run_state \<times> agent_world \<Rightarrow> ai_run_result result \<Rightarrow> service_world \<Rightarrow> bool" where
  "run_settled env now t user op m w out res w' = (case out of (lres, s, a1) \<Rightarrow>
     sv_agent w' = a1 \<and> sv_requests w' = sv_requests w @ rn_calls s \<and> sv_replies w' = sv_replies w @ rn_replies s
     \<and> sv_workspaces w' = sv_workspaces w
     \<and> (case lres of Inl f \<Rightarrow> res = Inl (failure_error f) \<and> sv_ledger w' = sv_ledger w
        | Inr _ \<Rightarrow> (\<exists>r. res = Inr r \<and> an_actions r = rn_actions s \<and> an_spaces r = gw_built a1 \<and> an_pendingAction r = gw_pending a1)
            \<and> sv_ledger w' = recordUsage env now (w_id t) user (md_id m) op s (sv_ledger w)))"

lemma run_with_model_parts:
  assumes "run_with_model env now t user prompt op m token balance w = (res, w')"
  obtains sending bridged reachable kv1 where
    "toolset_for env now (w_id t) prompt op m (st_localTools (setup_for env t user op m (sv_agent w)))
       (own_servers env t user token (sv_agent w)) (sv_kv w) = (sending, bridged, reachable, kv1)"
    "run_settled env now t user op m w (loop_of env now t user op m (setup_for env t user op m (sv_agent w))
       (start_state (setup_for env t user op m (sv_agent w)) (op_history op) prompt sending bridged reachable) (sv_agent w)) res w'"
proof -
  obtain sending bridged reachable kv1 where t: "toolset_for env now (w_id t) prompt op m (st_localTools (setup_for env t user op m (sv_agent w)))
       (own_servers env t user token (sv_agent w)) (sv_kv w) = (sending, bridged, reachable, kv1)" by (metis prod_cases4)
  let ?s0 = "start_state (setup_for env t user op m (sv_agent w)) (op_history op) prompt sending bridged reachable"
  obtain lres s a1 where l: "loop_of env now t user op m (setup_for env t user op m (sv_agent w)) ?s0 (sv_agent w) = (lres, s, a1)"
    by (metis prod_cases3)
  have "run_settled env now t user op m w (lres, s, a1) res w'"
  proof (cases lres)
    case (Inl f)
    with assms t[unfolded own_servers_def] l show ?thesis by (auto simp: run_with_model_def Let_def run_settled_def)
  next
    case (Inr x)
    obtain n k where n: "(if js_trim (rn_answer s) \<noteq> [] \<and> balance < LOW_BALANCE_CREDITS
        then shouldNudgeLowBalance (vi_nudgeUp env) (w_id t) (op_conversationId op) now kv1 else (False, kv1)) = (n, k)" by fastforce
    from assms t[unfolded own_servers_def] l Inr show ?thesis
      by (simp add: run_with_model_def n run_settled_def Let_def) auto
  qed
  with t l that show thesis by simp
qed

lemma run_parts:
  assumes "ai_run env now ws user prompt op w = (res, w')"
  obtains (none) "w' = w" "(\<exists>e. res = Inl e) \<or> (\<exists>a. res = Inr (spoken a))"
  | (started) t m token where "workspaceById (sv_workspaces w) ws = Some t" "0 < cb_balance (getBalance ws now (sv_ledger w))"
      "resolveModel (vi_gatewayModels env) (or_default (coalesce (op_model op) (w_defaultModel t)) (vi_model env)) = Some m"
      "vi_configured env (md_provider m)"
      "run_with_model env now t user prompt op m token (cb_balance (getBalance ws now (sv_ledger w))) w = (res, w')"
proof (cases "workspaceById (sv_workspaces w) ws")
  case None
  with assms none show thesis by (auto simp: ai_run_def workspaceByIdOrFail_def Let_def)
next
  case t: (Some t)
  let ?i = "or_default (coalesce (op_model op) (w_defaultModel t)) (vi_model env)"
  let ?b = "cb_balance (getBalance ws now (sv_ledger w))"
  show thesis
  proof (cases "?b \<le> 0")
    case True
    with assms t none show thesis by (auto simp: ai_run_def workspaceByIdOrFail_def Let_def out_of_credits_def)
  next
    case b: False
    show thesis
    proof (cases "usable_model env (ag_frontendUrl (vi_agent env) @ ''/dashboard/settings/general'') ?i")
      case (Inl r)
      then have "\<exists>a. r = spoken a" by (auto simp: usable_model_def split: option.splits if_splits)
      with assms t b Inl none show thesis by (auto simp: ai_run_def workspaceByIdOrFail_def Let_def)
    next
      case (Inr m)
      then have m: "resolveModel (vi_gatewayModels env) ?i = Some m" "vi_configured env (md_provider m)"
        by (auto simp: usable_model_def split: option.splits if_splits)
      from b have pos: "0 < ?b" by simp
      note s = started[OF t pos m]
      from assms t b Inr s none show thesis
        by (auto simp: ai_run_def workspaceByIdOrFail_def Let_def split: if_splits sum.splits)
    qed
  qed
qed

text \<open>Either nothing happens, or the loop runs from its start state and is settled.\<close>

lemma run_cases:
  assumes "ai_run env now ws user prompt op w = (res, w')"
  obtains (none) "w' = w" "(\<exists>e. res = Inl e) \<or> (\<exists>a. res = Inr (spoken a))"
  | (looped) t m token u s0 sending bridged reachable kv1 lres s1 a1 where
      "w_id t = ws" "0 < cb_balance (getBalance ws now (sv_ledger w))"
      "resolveModel (vi_gatewayModels env) (md_id m) = Some m" "vi_configured env (md_provider m)"
      "u = setup_for env t user op m (sv_agent w)"
      "toolset_for env now ws prompt op m (st_localTools u) (own_servers env t user token (sv_agent w)) (sv_kv w) = (sending, bridged, reachable, kv1)"
      "s0 = start_state u (op_history op) prompt sending bridged reachable"
      "run_loop MAX_TURNS (vi_llm env (md_provider m)) localToolApp (runTool (vi_agent env) now ws user (confirm_via op)) u s0 (fresh_run (sv_agent w))
         = (lres, s1, a1)"
      "run_settled env now t user op m w (lres, s1, a1) res w'"
  using assms
proof (cases rule: run_parts)
  case none
  with that(1) show ?thesis by blast
next
  case (started t m token)
  let ?u = "setup_for env t user op m (sv_agent w)"
  from started(1) have id: "w_id t = ws" by (auto simp: workspaceById_def find_Some_iff)
  from started(3) have "md_id m = or_default (coalesce (op_model op) (w_defaultModel t)) (vi_model env)"
    by (auto simp: resolveModel_def find_Some_iff)
  with started(3) have m: "resolveModel (vi_gatewayModels env) (md_id m) = Some m" by simp
  from started(5) obtain sending bridged reachable kv1 where
    p: "toolset_for env now (w_id t) prompt op m (st_localTools ?u) (own_servers env t user token (sv_agent w)) (sv_kv w) = (sending, bridged, reachable, kv1)"
    "run_settled env now t user op m w (loop_of env now t user op m ?u (start_state ?u (op_history op) prompt sending bridged reachable) (sv_agent w)) res w'"
    by (rule run_with_model_parts)
  obtain lres s1 a1 where l: "loop_of env now t user op m ?u (start_state ?u (op_history op) prompt sending bridged reachable) (sv_agent w)
      = (lres, s1, a1)" by (metis prod_cases3)
  show ?thesis by (rule that(2)[OF id started(2) m started(4) refl p(1)[unfolded id] refl l[unfolded id] p(2)[unfolded l]])
qed

text \<open>What the router asked on the way, in every outcome.\<close>

lemma run_with_model_routes:
  assumes "run_with_model env now t user prompt op m token balance w = (res, w')"
  shows "sv_routed w' = sv_routed w @ routed env m (questions_for env now (w_id t) prompt op m
    (st_localTools (setup_for env t user op m (sv_agent w))) (own_servers env t user token (sv_agent w)) (sv_kv w))"
proof -
  let ?u = "setup_for env t user op m (sv_agent w)" and ?servers = "own_servers env t user token (sv_agent w)"
  obtain sending bridged reachable kv1 where
    t: "toolset_for env now (w_id t) prompt op m (st_localTools ?u) ?servers (sv_kv w) = (sending, bridged, reachable, kv1)"
    by (metis prod_cases4)
  let ?s0 = "start_state ?u (op_history op) prompt sending bridged reachable"
  obtain lres s a1 where l: "loop_of env now t user op m ?u ?s0 (sv_agent w) = (lres, s, a1)" by (metis prod_cases3)
  obtain n k where n: "(if js_trim (rn_answer s) \<noteq> [] \<and> balance < LOW_BALANCE_CREDITS
      then shouldNudgeLowBalance (vi_nudgeUp env) (w_id t) (op_conversationId op) now kv1 else (False, kv1)) = (n, k)" by fastforce
  from assms t[unfolded own_servers_def] l show ?thesis
    by (cases lres) (auto simp: run_with_model_def n Let_def own_servers_def)
qed

lemma run_routes:
  assumes "ai_run env now ws user prompt op w = (res, w')"
  obtains (none) "sv_routed w' = sv_routed w"
  | (asked) t m token where "w_id t = ws" "0 < cb_balance (getBalance ws now (sv_ledger w))"
      "resolveModel (vi_gatewayModels env) (md_id m) = Some m" "vi_configured env (md_provider m)"
      "sv_routed w' = sv_routed w @ routed env m (questions_for env now ws prompt op m
         (st_localTools (setup_for env t user op m (sv_agent w))) (own_servers env t user token (sv_agent w)) (sv_kv w))"
  using assms
proof (cases rule: run_parts)
  case none
  with that(1) show ?thesis by simp
next
  case (started t m token)
  from started(1) have id: "w_id t = ws" by (auto simp: workspaceById_def find_Some_iff)
  from started(3) have "md_id m = or_default (coalesce (op_model op) (w_defaultModel t)) (vi_model env)"
    by (auto simp: resolveModel_def find_Some_iff)
  with started(3) have "resolveModel (vi_gatewayModels env) (md_id m) = Some m" by simp
  from that(2)[OF id started(2) this started(4) run_with_model_routes[OF started(5), unfolded id]] show ?thesis .
qed

text \<open>The router never asks more than once for the apps and once for each of them.\<close>

lemma few_routed: "length (questions_for env now ws prompt op m tools servers s) \<le> Suc (length servers)"
proof -
  have "length (asks_tools n p ts) \<le> Suc (length servers)" for n p ts by (simp add: asks_tools_def)
  then show ?thesis by (simp add: questions_for_def few_questions)
qed

lemma routing_systems: "(system, text) \<in> set (questions_for env now ws prompt op m tools servers s) \<Longrightarrow>
    system \<in> {ROUTER_SYSTEM_PROMPT, SERVER_ROUTER_SYSTEM_PROMPT}"
  by (auto simp: questions_for_def attach_questions_def attach_asks_def server_asks_def asks_tools_def asks_servers_def Let_def
      split: if_splits)

text \<open>Only the answers to these questions matter for what a run attaches.\<close>

lemma toolset_asks_only:
  assumes "agree_on (questions_for env now ws prompt op m tools servers s) (router_ask env m) (router_ask env' m)"
    and "env' = env\<lparr>vi_router := r\<rparr>"
  shows "toolset_for env' now ws prompt op m tools servers s = toolset_for env now ws prompt op m tools servers s"
proof (cases "md_supportsRemoteMcp m")
  case True
  with assms show ?thesis
    using attaching_asks_only[of "vi_redis env" "router_ask env m" "vi_catalogue env" prompt servers tools ws "op_conversationId op" now s "router_ask env' m"]
    by (auto simp: toolset_for_def questions_for_def Let_def split: if_splits)
next
  case False
  let ?ts = "bs_tools (the (fst (buildToolset (vi_bridgeUp env) (vi_mcpTools env) servers now s)))"
  from False assms(1) have "selectRelevant (router_ask env m) prompt ?ts = selectRelevant (router_ask env' m) prompt ?ts"
    by (intro selections_ask_only(1)) (simp add: questions_for_def)
  with False show ?thesis by (simp add: toolset_for_def assms(2) Let_def split_beta)
qed

section \<open>What is sent\<close>

text \<open>Every request of a loop that began in \<open>s0\<close>.\<close>

definition request_ok :: "run_setup \<Rightarrow> run_state \<Rightarrow> provider_request \<Rightarrow> bool" where
  "request_ok u s0 q \<longleftrightarrow> rq_model q = st_model u \<and> rq_system q = st_system u \<and> rq_mcpServers q \<in> {rn_servers s0, []}
     \<and> (\<exists>ms. rq_messages q = rn_messages s0 @ ms)"

definition sends_ok :: "run_setup \<Rightarrow> run_state \<Rightarrow> run_state \<Rightarrow> bool" where
  "sends_ok u s0 s \<longleftrightarrow> (\<exists>ms. rn_messages s = rn_messages s0 @ ms) \<and> rn_servers s \<in> {rn_servers s0, []}
     \<and> (\<forall>q \<in> set (rn_calls s). request_ok u s0 q)"

lemma sends_reply:
  assumes "sends_ok u s0 s" "reply_of llm u s = (x, s1)"
  shows "sends_ok u s0 s1"
  using assms by (auto simp: sends_ok_def request_ok_def reply_of_def send_request_def without_apps_def request_for_def Let_def
      split: sum.splits llm_failure.splits if_splits)

lemma sends_message: "sends_ok u s0 s \<Longrightarrow> sends_ok u s0 (add_message m s)"
  by (auto simp: sends_ok_def add_message_def)

lemma sends_cong:
  "rn_messages s = rn_messages t \<Longrightarrow> rn_servers s = rn_servers t \<Longrightarrow> rn_calls s = rn_calls t \<Longrightarrow> sends_ok u s0 s = sends_ok u s0 t"
  by (simp add: sends_ok_def)

lemma sends_tally [simp]: "sends_ok u s0 (tally r s) = sends_ok u s0 s"
  by (rule sends_cong) (simp_all add: tally_def Let_def)

lemma sends_updates [simp]:
  "sends_ok u s0 (s\<lparr>rn_actions := as\<rparr>) = sends_ok u s0 s" "sends_ok u s0 (s\<lparr>rn_truncations := k\<rparr>) = sends_ok u s0 s"
  "sends_ok u s0 (s\<lparr>rn_answer := t\<rparr>) = sends_ok u s0 s"
  by (rule sends_cong; simp)+

lemma sends_turn:
  assumes "sends_ok u s0 s" "run_turn llm app exec u s w = (res, s2, w2)"
  shows "sends_ok u s0 s2"
proof -
  have k: "sends_ok u s0 s1" if "reply_of llm u s = (x, s1)" for x s1 using sends_reply[OF assms(1) that] .
  show ?thesis using assms(2) by (cases rule: run_turn_cases) (auto intro!: sends_message dest: k)
qed

lemma sends_loop:
  assumes "sends_ok u s0 s" "run_loop n llm app exec u s w = (res, s', w')"
  shows "sends_ok u s0 s'"
  by (rule loop_invariant[where I = "\<lambda>s w. sends_ok u s0 s", OF _ assms]) (erule sends_turn)

lemma start_ok:
  "sends_ok u (start_state u h p sv b re) (start_state u h p sv b re)" "tallied (start_state u h p sv b re)"
  "transcript_ok (start_state u h p sv b re)" "audited (start_state u h p sv b re)" "rn_calls (start_state u h p sv b re) = []"
  "rn_replies (start_state u h p sv b re) = []"
proof -
  have "well_paired (history_messages h @ [UserMessage p])"
    by (intro well_paired_append well_paired_history) (auto simp: history_messages_def)
  then show "transcript_ok (start_state u h p sv b re)" by (simp add: transcript_ok_def start_state_def)
qed (simp_all add: sends_ok_def tallied_def audited_def start_state_def)

text \<open>No more replies than requests.\<close>

definition few_replies :: "run_state \<Rightarrow> bool" where
  "few_replies s \<longleftrightarrow> length (rn_replies s) \<le> length (rn_calls s)"

lemma few_replies_turn:
  assumes "few_replies s" "run_turn llm app exec u s w = (res, s2, w2)"
  shows "few_replies s2"
proof -
  have k: "length (rn_replies s1) < length (rn_calls s1)" if "reply_of llm u s = (x, s1)" for x s1
  proof -
    from that have "length (rn_calls s) < length (rn_calls s1)"
      by (auto simp: reply_of_def send_request_def without_apps_def Let_def split: sum.splits llm_failure.splits if_splits)
    with assms(1) reply_of_keeps(11)[OF that] show ?thesis by (simp add: few_replies_def)
  qed
  show ?thesis
    using assms(2)
  proof (cases rule: run_turn_cases)
    case (failed e)
    from k[OF failed(2)] show ?thesis by (simp add: few_replies_def)
  next
    case (called r s1 results)
    with k[OF called(2)] show ?thesis by (simp add: few_replies_def add_message_def tally_def Let_def)
  next
    case (gave_up r s1 a)
    with k[OF gave_up(2)] show ?thesis by (simp add: few_replies_def add_message_def tally_def Let_def)
  next
    case (cut r s1)
    with k[OF cut(2)] show ?thesis by (simp add: few_replies_def add_message_def tally_def Let_def)
  next
    case (paused r s1)
    with k[OF paused(2)] show ?thesis by (simp add: few_replies_def add_message_def tally_def Let_def)
  next
    case (ended r s1)
    with k[OF ended(2)] show ?thesis by (simp add: few_replies_def add_message_def tally_def Let_def)
  qed
qed

lemma few_replies_loop:
  assumes "few_replies s" "run_loop n llm app exec u s w = (res, s', w')"
  shows "few_replies s'"
  by (rule loop_invariant[where I = "\<lambda>s w. few_replies s", OF _ assms]) (erule few_replies_turn)


section \<open>What is charged\<close>

definition tokens_counted :: "(provider_usage \<Rightarrow> int) \<Rightarrow> provider_response list \<Rightarrow> int" where
  "tokens_counted f reps = sum_list (map (f \<circ> pr_usage) reps)"

lemma recordEvent_event: "events (snd (recordEvent gw i now inp l)) = events l @ [make_event gw i now inp]"
  by (simp add: recordEvent_def allocate_def Let_def)

text \<open>C28: A run that comes back is charged once, for exactly the tokens the provider counted over the replies to the requests
  of its conversation (what the router's own questions cost is not among them, as \<open>routing_is_never_charged\<close> shows):
  one event of the workspace with their sums, by whose price the balance falls, or to zero.  A run that used no
  tokens, or whose event the database refused, leaves the ledger as it was, and one whose paying rows it refused
  keeps its event and its balance.\<close>

theorem run_charges_what_was_counted:
  assumes "ai_run env now ws user prompt op w = (Inr r, w')" and "ledger_wf (sv_ledger w)"
  shows "\<exists>reps. sv_replies w' = sv_replies w @ reps \<and> ledger_wf (sv_ledger w')
    \<and> (let inp = tokens_counted pu_inputTokens reps; out = tokens_counted pu_outputTokens reps; before = cb_balance (getBalance ws now (sv_ledger w)) in
        if inp + out \<le> 0 \<or> vi_usageDb env = RefusingEvent then sv_ledger w' = sv_ledger w
        else \<exists>e. events (sv_ledger w') = events (sv_ledger w) @ [e] \<and> ce_workspaceId e = ws \<and> ce_inputTokens e = inp \<and> ce_outputTokens e = out
          \<and> cb_balance (getBalance ws now (sv_ledger w')) = (if vi_usageDb env = RefusingRows then before
              else before - min (creditsFor (vi_gatewayModels env) (ce_model e) inp out) before))"
  using assms(1)
proof (cases rule: run_cases)
  case none
  with assms(2) show ?thesis by (intro exI[of _ "[]"]) (auto simp: tokens_counted_def)
next
  case (looped t m token u s0 sending bridged reachable kv1 lres s1 a1)
  from looped(1,9) have r: "sv_replies w' = sv_replies w @ rn_replies s1"
    "sv_ledger w' = recordUsage env now ws user (md_id m) op s1 (sv_ledger w)"
    by (auto simp: run_settled_def split: sum.splits)
  have "tallied s1" by (rule tallied_loop[OF _ looped(8)]) (simp add: looped(7) start_ok)
  then have c: "rn_input s1 = tokens_counted pu_inputTokens (rn_replies s1)" "rn_output s1 = tokens_counted pu_outputTokens (rn_replies s1)"
    by (simp_all add: tallied_def tokens_counted_def)
  let ?inp = "usage_input ws user (md_id m) op s1"
  have f: "ru_workspaceId ?inp = ws" "ru_inputTokens ?inp = rn_input s1" "ru_outputTokens ?inp = rn_output s1"
    by (simp_all add: usage_input_def Let_def)
  note bal = recordEvent_balance_lemma[OF assms(2) f(1), of now "vi_gatewayModels env" "vi_eventId env"]
  show ?thesis
  proof (cases "vi_usageDb env")
    case Accepting
    with r c recordEvent_wf[OF assms(2)] assms(2) bal show ?thesis
      by (intro exI[of _ "rn_replies s1"]) (simp add: recordUsage_def Let_def recordEvent_event, simp add: make_event_def f)
  next
    case RefusingRows
    with r c assms(2) show ?thesis
      by (intro exI[of _ "rn_replies s1"])
         (simp add: recordUsage_def Let_def balance_ignores_events events_irrelevant, simp add: make_event_def f)
  next
    case RefusingEvent
    with r assms(2) show ?thesis by (intro exI[of _ "rn_replies s1"]) (simp add: recordUsage_def Let_def)
  qed
qed

text \<open>
  The tokens the router's questions cost are charged to nobody: whatever usage the provider reports with its
  answers to them, the run comes out the same and leaves the same ledger.
\<close>

lemma routing_is_never_charged:
  fixes env :: service_env and count :: "provider_request \<Rightarrow> provider_usage"
  defines "dearer \<equiv> env\<lparr>vi_router := \<lambda>p q. map_sum id (\<lambda>r. r\<lparr>pr_usage := count q\<rparr>) (vi_router env p q)\<rparr>"
  shows "fst (ai_run dearer now ws user prompt op w) = fst (ai_run env now ws user prompt op w)
    \<and> sv_ledger (snd (ai_run dearer now ws user prompt op w)) = sv_ledger (snd (ai_run env now ws user prompt op w))"
proof -
  have ask: "router_ask dearer m = router_ask env m" for m
    by (simp add: fun_eq_iff router_ask_def dearer_def split: sum.split)
  have same: "vi_agent dearer = vi_agent env" "vi_gatewayModels dearer = vi_gatewayModels env" "vi_model dearer = vi_model env"
    "vi_configured dearer = vi_configured env" "vi_llm dearer = vi_llm env" "vi_kit dearer = vi_kit env"
    "vi_pipedream dearer = vi_pipedream env" "vi_pipedreamToken dearer = vi_pipedreamToken env" "vi_nudgeUp dearer = vi_nudgeUp env"
    "vi_memoryUp dearer = vi_memoryUp env" "vi_eventId dearer = vi_eventId env" "vi_usageDb dearer = vi_usageDb env"
    by (simp_all add: dearer_def)
  have tools: "toolset_for dearer now ws prompt op m tools servers s = toolset_for env now ws prompt op m tools servers s" for ws m tools servers s
    by (rule toolset_asks_only[OF _ dearer_def[THEN meta_eq_to_obj_eq]]) (simp add: ask agree_on_def)
  have apps: "usable_apps dearer ws user a = usable_apps env ws user a" for ws a unfolding usable_apps_def same ..
  have u: "setup_for dearer t user op m a = setup_for env t user op m a" for t m a
    unfolding setup_for_def Let_def apps same requester_of_def ..
  have rec: "recordUsage dearer now ws user i op s l = recordUsage env now ws user i op s l" for ws i s l
    unfolding recordUsage_def Let_def same ..
  have model: "usable_model dearer url i = usable_model env url i" for url i unfolding usable_model_def same ..
  have run: "fst (run_with_model dearer now t user prompt op m token b w) = fst (run_with_model env now t user prompt op m token b w)
      \<and> sv_ledger (snd (run_with_model dearer now t user prompt op m token b w)) = sv_ledger (snd (run_with_model env now t user prompt op m token b w))"
    for t m token b
    unfolding run_with_model_def Let_def same apps u tools rec by (simp split: prod.split sum.split)
  show ?thesis
    unfolding ai_run_def Let_def same model apps using run by (simp split: sum.split)
qed

text \<open>A run that throws is not charged at all.\<close>

lemma failed_run_uncharged:
  assumes "ai_run env now ws user prompt op w = (Inl e, w')"
  shows "sv_ledger w' = sv_ledger w"
  using assms by (cases rule: run_cases) (auto simp: run_settled_def split: sum.splits)

section \<open>What is run\<close>

text \<open>C29: What a run executes is exactly what the model asked for in the turns that stopped to have tools run, call by
  call and in order, each once; a call that was cut off by the output limit is never run.  The audit of the
  run lists these calls, and what the provider ran itself, and nothing else.\<close>

theorem run_executes_what_was_asked:
  assumes "ai_run env now ws user prompt op w = (Inr r, w')"
  shows "\<exists>reps. sv_replies w' = sv_replies w @ reps
    \<and> map ac_tool (an_actions r) = concat (map (\<lambda>p. map ac_tool (pr_remoteActivity p) @ map tc_name (executed p)) reps)
    \<and> (let calls = concat (map executed reps) in reps = [] \<or> (\<exists>bs. length bs = length calls \<and>
         sv_agent w' = play (runTool (vi_agent env) now ws user (confirm_via op)) bs calls (fresh_run (sv_agent w))))"
  using assms
proof (cases rule: run_cases)
  case none
  then show ?thesis by (intro exI[of _ "[]"]) (auto simp: spoken_def)
next
  case (looped t m token u s0 sending bridged reachable kv1 lres s1 a1)
  from looped(9) have r: "sv_replies w' = sv_replies w @ rn_replies s1" "an_actions r = rn_actions s1" "sv_agent w' = a1"
    by (auto simp: run_settled_def split: sum.splits)
  have a: "audited s1" by (rule runner.audited_loop[OF _ looped(8)]) (simp add: looped(7) start_ok)
  have "played (runTool (vi_agent env) now ws user (confirm_via op)) (fresh_run (sv_agent w)) s1 a1"
    by (rule played_loop[OF _ looped(8)]) (simp add: looped(7) start_ok played_def play_def)
  with r a show ?thesis by (auto simp: audited_def played_def Let_def intro!: exI[of _ "rn_replies s1"])
qed

section \<open>What is reached\<close>

text \<open>Where the surface has approval buttons, no run asks Meta for a change, whatever the model calls and however the run
  ends: the changes asked for before and after it are the same.\<close>

theorem run_with_buttons_only_reads:
  assumes "ai_run env now ws user prompt op w = (res, w')" and "op_confirmVia op = Some BUTTONS"
  shows "ad_writes (sv_agent w') = ad_writes (sv_agent w)"
  using assms(1)
proof (cases rule: run_cases)
  case (looped t m token u s0 sending bridged reachable kv1 lres s1 a1)
  have "confirm_via op = BUTTONS" using assms(2) by (simp add: confirm_via_def or_default_def)
  with looped(8) have "ad_writes a1 = ad_writes (fresh_run (sv_agent w))" by (auto dest: buttons.loop_untouched)
  with looped(9) show ?thesis by (auto simp: run_settled_def fresh_run_def ad_writes_def gw_ads_exports)
qed simp

lemma sent_server_bare:
  assumes "toolset_for env now ws prompt op m tools servers s = (sending, bridged, reachable, s')" "v \<in> set sending"
  shows "\<exists>x \<in> set servers. bare v = bare x"
proof -
  have "\<exists>x \<in> set servers. bare v = bare x" if "v \<in> set (fst (attachServers up ask cat msg servers lt ws c b now s))" for up ask cat msg lt c b
  proof -
    from that have "bare v \<in> set (map bare (fst (attachServers up ask cat msg servers lt ws c b now s)))" by simp
    from list_emb_set[OF sent_are_servers this] show ?thesis by auto
  qed
  with assms show ?thesis by (auto simp: toolset_for_def Let_def split: if_splits prod.splits) (metis fst_conv)
qed

lemma own_server:
  assumes "x \<in> set (own_servers env t user token a)"
  shows "\<exists>r \<in> set (mw_rows (aw_meta (gw_ads a))). ig_workspaceId r = w_id t \<and> ig_isActive r \<and> visible_to user r
    \<and> x = mcp_server (vi_pipedream env) (resolveExternalUserId (w_id t) (ig_userId r) (ig_accessLevel r)) token (ig_appSlug r)"
proof -
  from assms obtain external slug where x: "x = mcp_server (vi_pipedream env) external token slug"
    "(external, slug) \<in> set (app_scopes (w_id t) user (via_pipedream (usable_apps env (w_id t) user a)))"
    by (auto simp: own_servers_def servers_for_def)
  then show ?thesis
    by (fastforce simp: app_scopes_def slugs_at_def via_pipedream_def usable_apps_def findVisibleForUser_def integration_view_of_def
        visible_to_def resolveExternalUserId_def split: option.splits list.splits)
qed

text \<open>C30: The servers a run hands to the provider are those of active accounts of the workspace that the member may use: a team
  account through the workspace's external user, a private one through the external user of the member who
  connected it, who is the member the run is for.\<close>

theorem run_attaches_visible_accounts:
  assumes "ai_run env now ws user prompt op w = (res, w')" and "sv_requests w' = sv_requests w @ qs" and "q \<in> set qs"
    and "v \<in> set (rq_mcpServers q)"
  shows "\<exists>r \<in> set (mw_rows (aw_meta (gw_ads (sv_agent w)))). ig_workspaceId r = ws \<and> ig_isActive r
    \<and> (ig_accessLevel r = TEAM \<or> user = Some (ig_userId r))
    \<and> (\<exists>token. bare v = mcp_server (vi_pipedream env) (resolveExternalUserId ws (ig_userId r) (ig_accessLevel r)) token (ig_appSlug r))"
  using assms(1)
proof (cases rule: run_cases)
  case none
  with assms(2,3) show ?thesis by simp
next
  case (looped t m token u s0 sending bridged reachable kv1 lres s1 a1)
  from looped(9) assms(2) have "qs = rn_calls s1" by (simp add: run_settled_def)
  moreover have "sends_ok u s0 s1" by (rule sends_loop[OF _ looped(8)]) (simp add: looped(7) start_ok)
  ultimately have "v \<in> set (rn_servers s0)" using assms(3,4) by (fastforce simp: sends_ok_def request_ok_def)
  then have "v \<in> set sending" by (simp add: looped(7) start_state_def)
  with sent_server_bare[OF looped(6)] obtain x where x: "x \<in> set (own_servers env t user token (sv_agent w))" "bare v = bare x" by blast
  from own_server[OF x(1)] obtain r where r: "r \<in> set (mw_rows (aw_meta (gw_ads (sv_agent w))))" "ig_workspaceId r = ws" "ig_isActive r"
    "visible_to user r" "x = mcp_server (vi_pipedream env) (resolveExternalUserId ws (ig_userId r) (ig_accessLevel r)) token (ig_appSlug r)"
    by (auto simp: looped(1))
  have "bare x = x" by (simp add: r(5) bare_def mcp_server_def)
  with r x(2) show ?thesis by (auto simp: visible_to_def)
qed

end
