(* ===== verification/AiServiceRuns.thy ===== *)
theory AiServiceRuns
  imports AiServiceFacts ExportFacts
begin

text \<open>
  Concrete runs: the surroundings of the witnesses of \<open>AiServiceFacts\<close>, and the runs in which a workspace
  is not charged for what it used.
\<close>

section \<open>Surroundings\<close>

definition sample_model :: model_definition where
  "sample_model = claude_sonnet_5"

definition sample_reply :: "stop_reason \<Rightarrow> string \<Rightarrow> tool_call list \<Rightarrow> provider_response" where
  "sample_reply stop text calls = \<lparr>pr_text = text, pr_toolCalls = calls, pr_remoteActivity = [],
     pr_usage = \<lparr>pu_inputTokens = 12000, pu_outputTokens = 8000, pu_cacheWriteTokens = None, pu_cacheReadTokens = None, pu_costUsd = None,
                 pu_resolvedModel = None\<rparr>, pr_stopReason = stop, pr_raw = JNull\<rparr>"

definition sample_agent_env :: agent_env where
  "sample_agent_env = \<lparr>ag_exports = sample_export_env 0, ag_mcp = (\<lambda>_ n _. Inr (Blocks [TextBlock n] False)), ag_collate = (\<lambda>_. 0),
     ag_members = None, ag_frontendUrl = ''https://x'', ag_ids = (\<lambda>i j. show_nat i @ ''-'' @ show_nat j), ag_take = (\<lambda>_. Inr None),
     ag_untyped = (\<lambda>_. PlainError ''refused'')\<rparr>"

definition sample_service_env :: "llm \<Rightarrow> service_env" where
  "sample_service_env llm = \<lparr>vi_agent = sample_agent_env, vi_gatewayModels = [], vi_model = ''claude-sonnet-5'', vi_configured = (\<lambda>_. True),
     vi_llm = (\<lambda>_. llm), vi_router = (\<lambda>_ _. Inl (Refused (PlainError ''down''))), vi_kit = \<lparr>kt_local = [], kt_meta = [], kt_roas = [], kt_rules = [], kt_sheets = []\<rparr>,
     vi_pipedream = (''p'', ''dev''), vi_pipedreamToken = Inr ''token'', vi_catalogue = (\<lambda>_. None), vi_mcpTools = (\<lambda>_. None),
     vi_redis = \<lparr>rc_get = True, rc_merge_get = True, rc_merge_set = True, rc_branch = True\<rparr>, vi_bridgeUp = True, vi_nudgeUp = True,
     vi_memoryUp = True, vi_eventId = ''e1'', vi_usageDb = Accepting\<rparr>"

definition sample_agent_world :: "integration list \<Rightarrow> agent_world" where
  "sample_agent_world rows = \<lparr>gw_exports = \<lparr>ew_rules = \<lparr>ru_ads = \<lparr>aw_meta = \<lparr>mw_rows = rows, mw_sent = []\<rparr>, aw_snapshots = []\<rparr>,
       ru_rules = [], ru_actions = []\<rparr>, ew_exports = [], ew_sheets = []\<rparr>, gw_spaces = \<lparr>db_spaces = [], db_records = []\<rparr>, gw_facts = [],
     gw_built = [], gw_pending = None, gw_calls = 0\<rparr>"

definition sample_service_world :: "integration list \<Rightarrow> service_world" where
  "sample_service_world rows = \<lparr>sv_workspaces = [sample_workspace], sv_ledger = sample_ledger, sv_kv = empty_kv,
     sv_agent = sample_agent_world rows, sv_requests = [], sv_replies = [], sv_routed = []\<rparr>"

definition sample_options :: run_options where
  "sample_options = \<lparr>op_model = None, op_taskId = None, op_sourceName = None, op_confirmVia = None, op_history = [],
     op_conversationId = None, op_branchConversationId = None\<rparr>"

text \<open>A model that saves a fact and then answers.\<close>

definition remembering :: llm where
  "remembering earlier q = (if earlier = []
     then Inr (sample_reply TOOL_USE [] [\<lparr>tc_id = ''c1'', tc_name = ''remember_fact'', tc_input = JObj [(''key'', JStr ''k''), (''value'', JStr ''v'')]\<rparr>])
     else Inr (sample_reply END_TURN ''Noted.'' []))"

text \<open>A turn that asks for tools, one that ends the run and one that fails.\<close>

definition after_turn :: "run_setup \<Rightarrow> provider_response \<Rightarrow> run_state \<Rightarrow> run_state \<Rightarrow> bool" where
  "after_turn u r s s2 \<longleftrightarrow> rn_calls s2 = rn_calls s @ [request_for u s] \<and> rn_replies s2 = rn_replies s @ [r]
     \<and> rn_answer s2 = rn_answer s @ pr_text r \<and> rn_servers s2 = rn_servers s \<and> rn_bridged s2 = rn_bridged s"

lemma asked: "llm (rn_calls s) (request_for u s) = Inr r \<Longrightarrow> reply_of llm u s = (Inr r, s\<lparr>rn_calls := rn_calls s @ [request_for u s]\<rparr>)"
  by (simp add: reply_of_def send_request_def Let_def)

lemma loop_called:
  assumes "llm (rn_calls s) (request_for u s) = Inr r" "pr_stopReason r = TOOL_USE" "pr_toolCalls r \<noteq> []"
  shows "\<exists>s2 w2. run_loop (Suc n) llm app exec u s w = run_loop n llm app exec u s2 w2 \<and> after_turn u r s s2"
proof -
  let ?s1 = "tally r (s\<lparr>rn_calls := rn_calls s @ [request_for u s]\<rparr>)"
  obtain again s2 w2 where a: "after_reply app exec r ?s1 w = (again, s2, w2)" by (metis prod_cases3)
  obtain rs w3 where "run_calls exec (rn_bridged ?s1) (pr_toolCalls r) w = (rs, w3)" by fastforce
  with a assms(2,3) have "again" "after_turn u r s s2"
    by (auto simp: after_reply_def Let_def after_turn_def add_message_def tally_def)
  with a show ?thesis by (intro exI[of _ s2] exI[of _ w2]) (simp add: run_turn_def asked[of llm, OF assms(1)])
qed

lemma loop_ended:
  assumes "llm (rn_calls s) (request_for u s) = Inr r" "pr_stopReason r = END_TURN"
  shows "\<exists>s2. run_loop (Suc n) llm app exec u s w = (Inr (), s2, w) \<and> after_turn u r s s2"
  using assms by (simp add: run_turn_def asked[of llm] after_reply_def after_turn_def tally_def Let_def)

lemma loop_failed:
  assumes "llm (rn_calls s) (request_for u s) = Inl (Refused e)"
  shows "\<exists>s2. run_loop (Suc n) llm app exec u s w = (Inl (Refused e), s2, w) \<and> rn_replies s2 = rn_replies s"
  using assms by (simp add: run_turn_def reply_of_def send_request_def Let_def)

lemma turns: "MAX_TURNS = Suc 5" "(5::nat) = Suc 4"
  by (simp_all add: MAX_TURNS_def)

definition remembering_first :: provider_response where
  "remembering_first = sample_reply TOOL_USE [] [\<lparr>tc_id = ''c1'', tc_name = ''remember_fact'', tc_input = JObj [(''key'', JStr ''k''), (''value'', JStr ''v'')]\<rparr>]"

lemma remembering_loop:
  assumes "rn_calls s = []" "rn_replies s = []"
  shows "\<exists>s' w'. run_loop MAX_TURNS remembering app exec u s w = (Inr (), s', w')
    \<and> rn_replies s' = [remembering_first, sample_reply END_TURN ''Noted.'' []]"
proof -
  have "remembering (rn_calls s) (request_for u s) = Inr remembering_first" by (simp add: assms remembering_def remembering_first_def)
  then obtain s2 w2 where 1: "run_loop (Suc 5) remembering app exec u s w = run_loop 5 remembering app exec u s2 w2" "after_turn u remembering_first s s2"
    using loop_called[of remembering s u remembering_first 5 app exec w] by (auto simp: remembering_first_def sample_reply_def)
  then have "remembering (rn_calls s2) (request_for u s2) = Inr (sample_reply END_TURN ''Noted.'' [])"
    by (simp add: after_turn_def remembering_def)
  then obtain s3 where 2: "run_loop (Suc 4) remembering app exec u s2 w2 = (Inr (), s3, w2)" "after_turn u (sample_reply END_TURN ''Noted.'' []) s2 s3"
    using loop_ended[of remembering s2 u "sample_reply END_TURN ''Noted.'' []" 4 app exec w2] by (auto simp: sample_reply_def)
  from 1 2 show ?thesis unfolding turns by (auto simp: after_turn_def assms)
qed

lemma sample_balance: "cb_balance (getBalance ''w1'' 500 sample_ledger) = 40100"
  by code_simp

lemma sample_model_usable: "usable_model (sample_service_env llm) url ''claude-sonnet-5'' = Inr claude_sonnet_5"
  by (simp add: usable_model_def resolveModel_def buildCatalog_def sample_service_env_def parseGatewayModels_def ANTHROPIC_MODELS_def claude_sonnet_5_def)

lemma sample_run:
  assumes "app_scopes ''w1'' user (via_pipedream (usable_apps (sample_service_env llm) ''w1'' user (sample_agent_world rows))) = []"
    and "op_model op = None"
  shows "ai_run (sample_service_env llm) 500 ''w1'' user prompt op (sample_service_world rows)
    = run_with_model (sample_service_env llm) 500 sample_workspace user prompt op claude_sonnet_5 None 40100 (sample_service_world rows)"
  using assms sample_balance sample_model_usable[of llm]
  by (simp add: ai_run_def workspaceByIdOrFail_def workspaceById_def sample_service_world_def sample_workspace_def coalesce_def or_default_def Let_def)

section \<open>A run that saves a fact\<close>

abbreviation remembering_run where
  "remembering_run mode \<equiv> ai_run (sample_service_env remembering) 500 ''w1'' None ''hi'' (sample_options\<lparr>op_confirmVia := mode\<rparr>) (sample_service_world [])"

lemma no_apps: "usable_apps env ws user (sample_agent_world []) = []"
  by (simp add: usable_apps_def findVisibleForUser_def sample_agent_world_def gw_ads_exports ads_of_def)

lemma sample_llm [simp]: "vi_llm (sample_service_env llm) p = llm"
  by (simp add: sample_service_env_def)

text \<open>What becomes of a run without apps, given what becomes of its loop.\<close>

lemma sample_run_settled:
  assumes "\<And>u s app exec. rn_calls s = [] \<Longrightarrow> rn_replies s = [] \<Longrightarrow>
      \<exists>s' w'. run_loop MAX_TURNS llm app exec u s (w :: agent_world) = (res, s', w') \<and> rn_replies s' = reps"
    and "w = fresh_run (sample_agent_world [])" and "op_model op = None"
  shows "\<exists>x w'. ai_run (sample_service_env llm) 500 ''w1'' user ''hi'' op (sample_service_world []) = (x, w') \<and> sv_replies w' = reps
    \<and> (case res of Inl f \<Rightarrow> x = Inl (failure_error f) | Inr _ \<Rightarrow> \<exists>r. x = Inr r)"
proof -
  have scopes: "app_scopes ''w1'' user (via_pipedream (usable_apps (sample_service_env llm) ''w1'' user (sample_agent_world []))) = []"
    by (simp add: no_apps via_pipedream_def app_scopes_def slugs_at_def split: option.split list.split)
  obtain x w' where r: "run_with_model (sample_service_env llm) 500 sample_workspace user ''hi'' op claude_sonnet_5 None 40100 (sample_service_world []) = (x, w')"
    by fastforce
  have a: "sv_agent (sample_service_world []) = sample_agent_world []" "sv_replies (sample_service_world []) = []"
    by (simp_all add: sample_service_world_def)
  let ?u = "setup_for (sample_service_env llm) sample_workspace user op claude_sonnet_5 (sample_agent_world [])"
  from r obtain sending bridged reachable kv1 where
    "run_settled (sample_service_env llm) 500 sample_workspace user op claude_sonnet_5 (sample_service_world [])
       (loop_of (sample_service_env llm) 500 sample_workspace user op claude_sonnet_5 ?u
          (start_state ?u (op_history op) ''hi'' sending bridged reachable) (sample_agent_world [])) x w'"
    unfolding a(1)[symmetric] by (rule run_with_model_parts)
  moreover obtain s' w1 where "run_loop MAX_TURNS llm localToolApp (runTool (vi_agent (sample_service_env llm)) 500 (w_id sample_workspace) user (confirm_via op)) ?u
      (start_state ?u (op_history op) ''hi'' sending bridged reachable) w = (res, s', w1)" "rn_replies s' = reps"
    using assms(1)[OF start_ok(5,6)] by blast
  ultimately have "sv_replies w' = reps \<and> (case res of Inl f \<Rightarrow> x = Inl (failure_error f) | Inr _ \<Rightarrow> \<exists>r. x = Inr r)"
    by (auto simp: run_settled_def a assms(2) split: sum.splits)
  with sample_run[OF scopes assms(3)] r show ?thesis by auto
qed

lemma remembering_result:
  obtains r w' where "remembering_run mode = (Inr r, w')" "sv_replies w' = [remembering_first, sample_reply END_TURN ''Noted.'' []]"
proof -
  have "op_model (sample_options\<lparr>op_confirmVia := mode\<rparr>) = None" by (simp add: sample_options_def)
  from sample_run_settled[where llm = remembering and user = None and res = "Inr ()", OF remembering_loop refl this]
  obtain x w' where x: "remembering_run mode = (x, w')" "sv_replies w' = [remembering_first, sample_reply END_TURN ''Noted.'' []]" "\<exists>r. x = Inr r"
    by (auto simp only: sum.case)
  from x(3) obtain r where "x = Inr r" ..
  with x(1,2) show thesis by (intro that[of r w']) simp_all
qed


lemma run_charges_what_was_counted_witness:
  "cb_balance (getBalance ''w1'' 500 (sv_ledger (snd (remembering_run None)))) < 40100"
proof -
  obtain r w' where r: "remembering_run None = (Inr r, w')" "sv_replies w' = [remembering_first, sample_reply END_TURN ''Noted.'' []]"
    by (rule remembering_result)
  have w: "ledger_wf (sv_ledger (sample_service_world []))" "sv_replies (sample_service_world []) = []"
    "sv_ledger (sample_service_world []) = sample_ledger"
    by (simp_all add: sample_service_world_def sample_ledger_wf)
  from run_charges_what_was_counted[OF r(1) w(1)] r(2) obtain model where
    "cb_balance (getBalance ''w1'' 500 (sv_ledger w')) = 40100 - min (creditsFor [] model 24000 16000) 40100"
    by (auto simp: w tokens_counted_def remembering_first_def sample_reply_def sample_balance sample_service_env_def)
  moreover have "1 \<le> creditsFor [] model 24000 16000" by (rule creditsFor_pos)
  ultimately show ?thesis by (simp add: r)
qed

lemma run_executes_what_was_asked_witness:
  "\<exists>r w'. remembering_run None = (Inr r, w') \<and> map ac_tool (an_actions r) = [''remember_fact'']"
proof -
  obtain r w' where r: "remembering_run None = (Inr r, w')" "sv_replies w' = [remembering_first, sample_reply END_TURN ''Noted.'' []]"
    by (rule remembering_result)
  from run_executes_what_was_asked[OF r(1)] r show ?thesis
    by (auto simp: sample_service_world_def remembering_first_def sample_reply_def executed_def)
qed

lemma run_with_buttons_only_reads_witness: "ad_writes (sv_agent (snd (remembering_run (Some BUTTONS)))) = []"
proof -
  obtain r w' where r: "remembering_run (Some BUTTONS) = (Inr r, w')"
    by (rule remembering_result)
  from run_with_buttons_only_reads[OF r] r show ?thesis
    by (simp add: sample_service_world_def sample_agent_world_def ad_writes_def gw_ads_exports ads_of_def)
qed

section \<open>Turns nobody pays for\<close>

text \<open>A model that works for a turn and then fails.\<close>

definition failing :: llm where
  "failing earlier q = (if earlier = [] then Inr remembering_first else Inl (Refused (ServiceUnavailable ''overloaded'')))"

text \<open>
  When the provider fails on a later turn the exception leaves the run before it is metered: the workspace is
  not charged for the turns the provider did serve, and they are in no event.
\<close>

lemma served_turns_unpaid:
  "\<exists>e w'. ai_run (sample_service_env failing) 500 ''w1'' None ''hi'' sample_options (sample_service_world []) = (Inl e, w')
     \<and> tokens_counted pu_inputTokens (sv_replies w') = 12000 \<and> tokens_counted pu_outputTokens (sv_replies w') = 8000
     \<and> sv_ledger w' = sv_ledger (sample_service_world [])"
proof -
  have loop: "\<exists>s' w'. run_loop MAX_TURNS failing app exec u s w = (Inl (Refused (ServiceUnavailable ''overloaded'')), s', w') \<and> rn_replies s' = [remembering_first]"
    if "rn_calls s = []" "rn_replies s = []" for u s app exec and w :: agent_world
  proof -
    have "failing (rn_calls s) (request_for u s) = Inr remembering_first" by (simp add: that failing_def)
    then obtain s2 w2 where 1: "run_loop (Suc 5) failing app exec u s w = run_loop 5 failing app exec u s2 w2" "after_turn u remembering_first s s2"
      using loop_called[of failing s u remembering_first 5 app exec w] by (auto simp: remembering_first_def sample_reply_def)
    then have "failing (rn_calls s2) (request_for u s2) = Inl (Refused (ServiceUnavailable ''overloaded''))"
      by (simp add: after_turn_def failing_def)
    then obtain s3 where 2: "run_loop (Suc 4) failing app exec u s2 w2 = (Inl (Refused (ServiceUnavailable ''overloaded'')), s3, w2)"
        "rn_replies s3 = rn_replies s2"
      using loop_failed[of failing s2 u _ 4 app exec w2] by fastforce
    from 1 2 show ?thesis unfolding turns by (auto simp: after_turn_def that)
  qed
  obtain e w' where r: "ai_run (sample_service_env failing) 500 ''w1'' None ''hi'' sample_options (sample_service_world []) = (Inl e, w')"
    "sv_replies w' = [remembering_first]"
    using sample_run_settled[where llm = failing and op = sample_options and user = None, OF loop refl] by (auto simp: sample_options_def)
  from failed_run_uncharged[OF r(1)] r show ?thesis
    by (auto simp: tokens_counted_def remembering_first_def sample_reply_def)
qed

section \<open>A run with a connected app\<close>

definition gmail_row :: integration where
  "gmail_row = (sample_integration ''i9'' ''a'' PRIVATE ''gm'')\<lparr>ig_provider := PIPEDREAM, ig_appName := ''Gmail'', ig_appSlug := ''gmail''\<rparr>"

definition answering :: llm where
  "answering earlier q = Inr (sample_reply END_TURN ''Hello.'' [])"

lemma gmail_usable:
  "usable_apps (sample_service_env llm) ''w1'' (Some ''a'') (sample_agent_world [gmail_row]) = [integration_view_of [] gmail_row]"
  by (simp add: usable_apps_def findVisibleForUser_def sample_agent_world_def gw_ads_exports ads_of_def visible_to_def gmail_row_def
      sample_integration_def sample_service_env_def sample_agent_env_def sample_export_env_def sample_ads_env_def ag_ads_def ag_rules_def
      integration_view_of_def)

lemma gmail_scopes:
  "app_scopes ''w1'' (Some ''a'') (via_pipedream [integration_view_of [] gmail_row]) = [(''u:a'', ''gmail'')]"
  by (simp add: app_scopes_def via_pipedream_def slugs_at_def integration_view_of_def gmail_row_def sample_integration_def privateExternalUserId_def)

lemma gmail_run:
  "ai_run (sample_service_env answering) 500 ''w1'' (Some ''a'') ''hi'' sample_options (sample_service_world [gmail_row])
     = run_with_model (sample_service_env answering) 500 sample_workspace (Some ''a'') ''hi'' sample_options claude_sonnet_5 (Some ''token'') 40100
         (sample_service_world [gmail_row])"
  using sample_balance sample_model_usable[of answering]
  by (simp add: ai_run_def workspaceByIdOrFail_def workspaceById_def sample_service_world_def sample_workspace_def coalesce_def or_default_def
      sample_options_def gmail_usable gmail_scopes Let_def)
     (simp add: sample_service_env_def)

lemma gmail_attached:
  "toolset_for (sample_service_env llm) now ''w1'' p sample_options claude_sonnet_5 tools [v] s = ([with_tools v []], None, [rs_appSlug v], s)"
  by (simp add: toolset_for_def claude_sonnet_5_def attachServers_def chosen_names_def sample_options_def present_def sticky_in_def
      selectRelevantServers_def SERVER_ROUTE_THRESHOLD_def attach_actions_def sample_service_env_def appActions_def Let_def)

lemma run_attaches_visible_accounts_witness:
  "\<exists>w'. snd (ai_run (sample_service_env answering) 500 ''w1'' (Some ''a'') ''hi'' sample_options (sample_service_world [gmail_row])) = w'
     \<and> (\<exists>q \<in> set (sv_requests w'). \<exists>v \<in> set (rq_mcpServers q). \<exists>token. bare v = mcp_server (''p'', ''dev'') ''u:a'' token ''gmail'')"
proof -
  let ?w = "sample_service_world [gmail_row]"
  obtain x w' where r: "ai_run (sample_service_env answering) 500 ''w1'' (Some ''a'') ''hi'' sample_options ?w = (x, w')" by fastforce
  let ?u = "setup_for (sample_service_env answering) sample_workspace (Some ''a'') sample_options claude_sonnet_5 (sv_agent ?w)"
  have a: "sv_agent ?w = sample_agent_world [gmail_row]" "sv_requests ?w = []" "w_id sample_workspace = ''w1''"
    by (simp_all add: sample_service_world_def sample_workspace_def)
  let ?v = "mcp_server (''p'', ''dev'') ''u:a'' (Some ''token'') ''gmail''"
  have own: "own_servers (sample_service_env answering) sample_workspace (Some ''a'') (Some ''token'') (sv_agent ?w) = [?v]"
    by (simp add: own_servers_def a gmail_usable gmail_scopes servers_for_def) (simp add: sample_service_env_def)
  obtain sending bridged reachable kv1 where
    t: "toolset_for (sample_service_env answering) 500 (w_id sample_workspace) ''hi'' sample_options claude_sonnet_5 (st_localTools ?u) [?v] (sv_kv ?w)
          = (sending, bridged, reachable, kv1)"
    and s: "run_settled (sample_service_env answering) 500 sample_workspace (Some ''a'') sample_options claude_sonnet_5 ?w
       (loop_of (sample_service_env answering) 500 sample_workspace (Some ''a'') sample_options claude_sonnet_5 ?u
         (start_state ?u (op_history sample_options) ''hi'' sending bridged reachable) (sv_agent ?w)) x w'"
    using run_with_model_parts[OF r[unfolded gmail_run], unfolded own] by blast
  from t have sent: "sending = [with_tools ?v []]" by (simp add: a gmail_attached)
  let ?s0 = "start_state ?u (op_history sample_options) ''hi'' sending bridged reachable"
  have "answering (rn_calls ?s0) (request_for ?u ?s0) = Inr (sample_reply END_TURN ''Hello.'' [])" by (simp add: answering_def)
  from loop_ended[of answering ?s0 ?u _ 5 localToolApp "runTool (vi_agent (sample_service_env answering)) 500 (w_id sample_workspace) (Some ''a'')
      (confirm_via sample_options)" "fresh_run (sv_agent ?w)", OF this]
  obtain s2 where l: "loop_of (sample_service_env answering) 500 sample_workspace (Some ''a'') sample_options claude_sonnet_5 ?u ?s0 (sv_agent ?w)
      = (Inr (), s2, fresh_run (sv_agent ?w))" "after_turn ?u (sample_reply END_TURN ''Hello.'' []) ?s0 s2"
    by (auto simp: turns(1) sample_reply_def)
  from s l have q: "sv_requests w' = sv_requests ?w @ [request_for ?u ?s0]" by (simp add: run_settled_def after_turn_def start_ok)
  have v: "with_tools ?v [] \<in> set (rq_mcpServers (request_for ?u ?s0))" by (simp add: request_for_def start_state_def sent)
  from run_attaches_visible_accounts[OF r q _ v] obtain row token where
    "row \<in> {gmail_row}" "bare (with_tools ?v []) = mcp_server (''p'', ''dev'') (resolveExternalUserId ''w1'' (ig_userId row) (ig_accessLevel row)) token (ig_appSlug row)"
    by (auto simp: a sample_agent_world_def gw_ads_exports ads_of_def sample_service_env_def)
  then have "bare (with_tools ?v []) = mcp_server (''p'', ''dev'') ''u:a'' token ''gmail''"
    by (simp add: gmail_row_def sample_integration_def resolveExternalUserId_def privateExternalUserId_def)
  with v have "\<exists>v \<in> set (rq_mcpServers (request_for ?u ?s0)). \<exists>token. bare v = mcp_server (''p'', ''dev'') ''u:a'' token ''gmail''" by blast
  with r q a(2) show ?thesis by simp
qed

section \<open>The last turn\<close>

text \<open>A model that always asks for a tool.\<close>

definition insatiable :: llm where
  "insatiable earlier q = Inr remembering_first"

lemma insatiable_loop:
  "rn_calls s = cs \<Longrightarrow> \<exists>s' w'. run_loop n insatiable app exec u s w = (Inr (), s', w')
     \<and> rn_answer s' = rn_answer s \<and> rn_replies s' = rn_replies s @ replicate n remembering_first
     \<and> length (rn_calls s') = length cs + n"
proof (induction n arbitrary: s w cs)
  case 0
  then show ?case by simp
next
  case (Suc n)
  from loop_called[of insatiable s u remembering_first n app exec w]
  obtain s2 w2 where "run_loop (Suc n) insatiable app exec u s w = run_loop n insatiable app exec u s2 w2" "after_turn u remembering_first s s2"
    by (auto simp: insatiable_def remembering_first_def sample_reply_def)
  moreover from Suc.IH[of s2 "rn_calls s2" w2] obtain s' w' where
    "run_loop n insatiable app exec u s2 w2 = (Inr (), s', w')" "rn_answer s' = rn_answer s2"
    "rn_replies s' = rn_replies s2 @ replicate n remembering_first" "length (rn_calls s') = length (rn_calls s2) + n" by blast
  ultimately show ?case
    by (auto simp: after_turn_def remembering_first_def sample_reply_def Suc.prems)
qed

text \<open>
  The calls of the sixth turn are run like the others, but nothing is asked after them: their results are
  never seen, and a run that only called tools answers with the empty text.
\<close>

lemma last_results_unseen:
  assumes "rn_calls s = []" "rn_replies s = []" "rn_answer s = []"
  shows "\<exists>s' w'. run_loop MAX_TURNS insatiable app exec u s w = (Inr (), s', w') \<and> rn_answer s' = []
    \<and> length (rn_calls s') = 6 \<and> length (concat (map executed (rn_replies s'))) = 6"
proof -
  have "length (concat (map executed (replicate 6 remembering_first))) = 6"
    by (simp add: eval_nat_numeral executed_def remembering_first_def sample_reply_def)
  with insatiable_loop[OF assms(1), of MAX_TURNS app exec u w] show ?thesis by (auto simp: assms MAX_TURNS_def)
qed

end
