(* ===== verification/ProviderFacts.thy ===== *)
theory ProviderFacts
  imports Providers AiServiceRuns
begin

text \<open>
  What the adapters promise to a run: the cache breakpoints mark the last two turns of the user and
  change nothing else, tool calls survive the trip over the gateway's wire, every transcript a run
  sends is one the endpoint accepts, and both adapters keep the contract \<open>llm_adapter\<close> the loop of a
  run relies on.
\<close>

section \<open>Cache breakpoints\<close>

definition cached :: "jsval \<Rightarrow> bool" where
  "cached b \<longleftrightarrow> get_prop b ''cache_control'' \<noteq> JUndef"

definition breakpoints :: "wire_turn list \<Rightarrow> nat" where
  "breakpoints ms = sum_list (map (\<lambda>m. length (filter cached (blocks_of (wt_content m)))) (filter (\<lambda>m. wt_role m = ''user'') ms))"

text \<open>A block without its breakpoint, and what a turn of the user says without its breakpoints.\<close>

definition uncache :: "jsval \<Rightarrow> jsval" where
  "uncache b = (case b of JObj ps \<Rightarrow> JObj (filter (\<lambda>p. fst p \<noteq> ''cache_control'') ps) | _ \<Rightarrow> b)"

definition said :: "wire_turn \<Rightarrow> string \<times> jsval list" where
  "said m = (wt_role m, map uncache (blocks_of (wt_content m)))"

text \<open>The turns our own transcripts consist of, before any mark is set.\<close>

definition fresh_turn :: "wire_turn \<Rightarrow> bool" where
  "fresh_turn m \<longleftrightarrow> wt_role m = ''user'' \<longrightarrow>
     (\<forall>b \<in> set (blocks_of (wt_content m)). \<not> cached b \<and> carries_cache b \<and> (\<exists>ps. b = JObj ps \<and> ''cache_control'' \<notin> fst ` set ps))"

definition can_mark :: "wire_turn \<Rightarrow> bool" where
  "can_mark m \<longleftrightarrow> wt_role m = ''user'' \<and> blocks_of (wt_content m) \<noteq> []"

lemma fresh_turns: "list_all fresh_turn (toAnthropicMessages ms)"
proof -
  have "fresh_turn (toAnthropicMessage m)" for m
    by (cases m) (auto simp: fresh_turn_def blocks_of_def text_block_def result_block_def cached_def carries_cache_def
        object_prototype_def)
  then show ?thesis by (simp add: toAnthropicMessages_def list_all_iff)
qed

lemma aput_cache: "''cache_control'' \<notin> fst ` set ps \<Longrightarrow>
    filter (\<lambda>p. fst p \<noteq> ''cache_control'') (aput ''cache_control'' v ps) = filter (\<lambda>p. fst p \<noteq> ''cache_control'') ps"
  by (subst aput_fresh) simp_all

lemma mark_fresh:
  assumes "fresh_turn m"
  shows "mark_turn m \<noteq> None \<longleftrightarrow> can_mark m"
    and "mark_turn m = Some m' \<Longrightarrow> said m' = said m \<and> wt_role m' = ''user''
      \<and> length (filter cached (blocks_of (wt_content m'))) = 1"
    and "mark_turn m = Some m' \<Longrightarrow>
      map cached (blocks_of (wt_content m')) = replicate (length (blocks_of (wt_content m)) - 1) False @ [True]"
proof -
  have "carries_cache (last (blocks_of (wt_content m)))" if "blocks_of (wt_content m) \<noteq> []" "wt_role m = ''user''"
    using assms last_in_set[OF that(1)] that(2) by (auto simp: fresh_turn_def)
  then show "mark_turn m \<noteq> None \<longleftrightarrow> can_mark m"
    by (auto simp: mark_turn_def can_mark_def Let_def)
  have marked: "said m' = said m \<and> wt_role m' = ''user'' \<and> length (filter cached (blocks_of (wt_content m'))) = 1
      \<and> map cached (blocks_of (wt_content m')) = replicate (length (blocks_of (wt_content m)) - 1) False @ [True]"
    if a: "mark_turn m = Some m'"
  proof -
  from a have ne: "blocks_of (wt_content m) \<noteq> []" and u: "wt_role m = ''user''"
    and m': "m' = \<lparr>wt_role = ''user'', wt_content = JArr (butlast (blocks_of (wt_content m)) @ [with_cache (last (blocks_of (wt_content m)))])\<rparr>"
    by (auto simp: mark_turn_def Let_def split: if_splits)
  define bs b where "bs = butlast (blocks_of (wt_content m))" and "b = last (blocks_of (wt_content m))"
  have blocks: "blocks_of (wt_content m) = bs @ [b]" using ne by (simp add: bs_def b_def)
  with assms u obtain ps where b: "b = JObj ps" "''cache_control'' \<notin> fst ` set ps" "list_all (\<lambda>b. \<not> cached b) bs"
    by (auto simp: fresh_turn_def list_all_iff)
  have w: "with_cache b = JObj (ps @ [(''cache_control'', CACHE)])" by (simp add: with_cache_def b aput_fresh)
  have "uncache (with_cache b) = uncache b" by (simp add: w[unfolded b(1)] b(1) uncache_def)
  moreover have "map_of ps ''cache_control'' = None" using b(2) by (simp add: map_of_eq_None_iff)
  then have "cached (with_cache b)" by (simp add: cached_def w CACHE_def map_add_def)
  moreover have "filter cached bs = []" using b(3) by (simp add: filter_empty_conv list_all_iff)
  moreover have "map cached bs = replicate (length bs) False" using b(3) by (auto simp: list_all_iff intro!: replicate_eqI)
  ultimately show ?thesis
    unfolding m' said_def by (simp add: blocks u blocks_of_def[of "JArr _"] flip: bs_def b_def)
  qed
  show "mark_turn m = Some m' \<Longrightarrow> said m' = said m \<and> wt_role m' = ''user'' \<and> length (filter cached (blocks_of (wt_content m'))) = 1"
    using marked by blast
  show "mark_turn m = Some m' \<Longrightarrow>
      map cached (blocks_of (wt_content m')) = replicate (length (blocks_of (wt_content m)) - 1) False @ [True]"
    using marked by blast
qed

lemma fresh_unmarked: "fresh_turn m \<Longrightarrow> wt_role m = ''user'' \<Longrightarrow> filter cached (blocks_of (wt_content m)) = []"
  by (auto simp: fresh_turn_def filter_empty_conv)

lemma breakpoints_Cons: "breakpoints (m # ms) =
    (if wt_role m = ''user'' then length (filter cached (blocks_of (wt_content m))) else 0) + breakpoints ms"
  by (simp add: breakpoints_def)

lemma breakpoints_rev: "breakpoints (rev ms) = breakpoints ms"
  by (simp add: breakpoints_def rev_filter[symmetric] rev_map[symmetric] del: rev_filter)

lemma mark_back_facts:
  "list_all fresh_turn ms \<Longrightarrow> map said (mark_back n ms) = map said ms
     \<and> breakpoints (mark_back n ms) = min n (length (filter can_mark ms))
     \<and> filter (\<lambda>m. wt_role m \<noteq> ''user'') (mark_back n ms) = filter (\<lambda>m. wt_role m \<noteq> ''user'') ms"
proof (induction n ms rule: mark_back.induct)
  case (1 n)
  then show ?case by (simp add: breakpoints_def)
next
  case (2 n m ms)
  have none: "breakpoints xs = 0" if "list_all fresh_turn xs" for xs
    using that fresh_unmarked by (induction xs) (auto simp: breakpoints_Cons breakpoints_def[of "[]"])
  show ?case
  proof (cases "n = 0")
    case True
    with 2(3) none[OF 2(3)] show ?thesis by simp
  next
    case False
    note fresh = mark_fresh[of m]
    show ?thesis
    proof (cases "mark_turn m")
      case None
      with 2 False fresh fresh_unmarked[of m] show ?thesis by (auto simp: breakpoints_Cons)
    next
      case (Some m')
      with 2 False fresh(1) fresh(2)[of m'] show ?thesis
        by (auto simp: breakpoints_Cons can_mark_def)
    qed
  qed
qed

text \<open>Which turns are marked: over the reversed list, those that can be and have fewer than n such before them.\<close>

lemma mark_back_nth:
  "list_all fresh_turn ms \<Longrightarrow> length (mark_back n ms) = length ms \<and> (\<forall>i < length ms. mark_back n ms ! i =
     (if can_mark (ms ! i) \<and> length (filter can_mark (take i ms)) < n then the (mark_turn (ms ! i)) else ms ! i))"
proof (induction n ms rule: mark_back.induct)
  case (2 n m ms)
  show ?case
  proof (cases "n = 0")
    case False
    note fresh = mark_fresh(1)[of m]
    show ?thesis
    proof (cases "mark_turn m")
      case None
      with 2 False fresh show ?thesis by (auto simp: nth_Cons split: nat.split)
    next
      case (Some m')
      with 2 False fresh show ?thesis by (auto simp: nth_Cons less_diff_conv split: nat.split)
    qed
  qed simp
qed simp

text \<open>C39: The transcript Anthropic gets carries cache breakpoints on its last two turns of the user that have content, fewer only
  when it has fewer: each of these turns carries exactly one, on its last block, and says what it said; every other
  turn, the assistant's and the earlier ones, is passed on as it is.\<close>

theorem breakpoints_are_exact:
  fixes msgs :: "provider_message list"
  defines "ms \<equiv> toAnthropicMessages msgs"
  shows "length (withTranscriptCache ms) = length ms
    \<and> (\<forall>i < length ms. let m = ms ! i; m' = withTranscriptCache ms ! i in
         if can_mark m \<and> length (filter can_mark (drop (Suc i) ms)) < 2
         then said m' = said m
           \<and> map cached (blocks_of (wt_content m')) = replicate (length (blocks_of (wt_content m)) - 1) False @ [True]
         else m' = m)
    \<and> breakpoints (withTranscriptCache ms) = min 2 (length (filter can_mark ms))"
proof -
  have fresh: "list_all fresh_turn (rev ms)" using fresh_turns[of msgs] by (simp add: ms_def)
  note nths = mark_back_nth[OF fresh, of 2]
  have w: "withTranscriptCache ms = rev (mark_back 2 (rev ms))"
    by (simp add: withTranscriptCache_def TRANSCRIPT_BREAKPOINTS_def)
  have "let m = ms ! i; m' = withTranscriptCache ms ! i in
      if can_mark m \<and> length (filter can_mark (drop (Suc i) ms)) < 2
      then said m' = said m
        \<and> map cached (blocks_of (wt_content m')) = replicate (length (blocks_of (wt_content m)) - 1) False @ [True]
      else m' = m" if i: "i < length ms" for i
  proof -
    let ?j = "length ms - Suc i"
    have j: "?j < length (rev ms)" "rev ms ! ?j = ms ! i" using i by (simp_all add: rev_nth)
    have "length (filter can_mark (take ?j (rev ms))) = length (filter can_mark (drop (Suc i) ms))"
      using i by (simp add: take_rev rev_filter[symmetric])
    moreover have "withTranscriptCache ms ! i = mark_back 2 (rev ms) ! ?j" using nths i by (simp add: w rev_nth)
    ultimately have t: "withTranscriptCache ms ! i = (if can_mark (ms ! i) \<and> length (filter can_mark (drop (Suc i) ms)) < 2
        then the (mark_turn (ms ! i)) else ms ! i)" using nths j by simp
    have "fresh_turn (ms ! i)" using fresh i by (simp add: list_all_iff)
    note m = mark_fresh[OF this]
    show ?thesis
    proof (cases "can_mark (ms ! i) \<and> length (filter can_mark (drop (Suc i) ms)) < 2")
      case True
      with m(1) obtain m' where m': "mark_turn (ms ! i) = Some m'" by blast
      with True t have "withTranscriptCache ms ! i = m'" by simp
      with True m(2,3)[OF m'] show ?thesis by (simp add: Let_def)
    next
      case False
      then show ?thesis by (simp only: t if_False Let_def)
    qed
  qed
  moreover have "breakpoints (withTranscriptCache ms) = min 2 (length (filter can_mark ms))"
    using mark_back_facts[OF fresh, of 2] by (simp add: w breakpoints_rev rev_filter[symmetric])
  ultimately show ?thesis using nths by (simp add: w)
qed

definition three_asks :: "provider_message list" where
  "three_asks = [UserMessage ''a'', AssistantMessage ''b'' [] None, UserMessage ''c'', AssistantMessage ''d'' [] None, UserMessage ''e'']"

lemma three_turns: "map can_mark (toAnthropicMessages three_asks) = [True, False, True, False, True]"
  by code_simp

lemma breakpoints_are_exact_witness:
  "withTranscriptCache (toAnthropicMessages three_asks) ! 0 = toAnthropicMessages three_asks ! 0
   \<and> map cached (blocks_of (wt_content (withTranscriptCache (toAnthropicMessages three_asks) ! 2))) = [True]
   \<and> breakpoints (withTranscriptCache (toAnthropicMessages three_asks)) = 2"
proof -
  let ?ms = "toAnthropicMessages three_asks"
  have l: "length ?ms = 5" "length (filter can_mark ?ms) = 3" "length (filter can_mark (drop (Suc 0) ?ms)) = 2"
    "length (filter can_mark (drop (Suc 2) ?ms)) = 1" "can_mark (?ms ! 2)" "length (blocks_of (wt_content (?ms ! 2))) = 1"
    by code_simp+
  note x = breakpoints_are_exact[of three_asks]
  from x l(2) have "breakpoints (withTranscriptCache ?ms) = 2" by simp
  moreover from x[THEN conjunct2, THEN conjunct1, rule_format, of 0] l have "withTranscriptCache ?ms ! 0 = ?ms ! 0"
    by (simp add: Let_def)
  moreover from x[THEN conjunct2, THEN conjunct1, rule_format, of 2] l
  have "map cached (blocks_of (wt_content (withTranscriptCache ?ms ! 2))) = [True]"
    by (simp add: Let_def)
  ultimately show ?thesis by blast
qed

text \<open>With the breakpoint of the system block, at most three of the four Anthropic allows.\<close>

lemma at_most_three_breakpoints: "1 + breakpoints (withTranscriptCache (toAnthropicMessages msgs)) \<le> 3"
  using breakpoints_rev[of "mark_back 2 (rev (toAnthropicMessages msgs))"]
    mark_back_facts[of "rev (toAnthropicMessages msgs)" 2] fresh_turns[of msgs]
  by (simp add: withTranscriptCache_def TRANSCRIPT_BREAKPOINTS_def)

section \<open>The gateway's wire\<close>

lemma parse_own_arguments:
  assumes "textual v" "is_object v"
  shows "parseArguments (stringify v) = v"
proof -
  obtain ps where v: "v = JObj ps" using assms(2) by (cases v) simp_all
  then obtain r where r: "stringify v = CHR ''{'' # r" by simp
  have t: "js_trim (stringify v) \<noteq> []"
  proof -
    have "\<not> is_ws (CHR ''{'')" by (simp add: is_ws_def Let_def)
    then show ?thesis by (auto simp: r js_trim_def dropWhile_eq_Nil_conv)
  qed
  have p: "json_parse (stringify v) = Some (JObj ps)" using parse_stringify[OF assms(1)] by (simp only: v)
  from t p have "parseArguments (stringify v) = JObj ps" by (simp add: parseArguments_def)
  then show ?thesis by (simp only: v)
qed

lemma read_call_json:
  assumes "textual (tc_input c)" "is_object (tc_input c)"
  shows "read_call (call_json c) = c"
  using parse_own_arguments[OF assms] by (simp add: read_call_def call_json_def Let_def)

text \<open>C40: Tool calls survive the gateway's wire: the calls of a turn, written into an assistant's message with
  their arguments as text, are read back from such a message as the same calls in the same order, with their
  ids, names and arguments, for arguments that are JSON objects, nested at will, of texts, booleans, nulls and whole
  numbers below 2^53 (other numbers, such as fractions, are not covered).\<close>

theorem gateway_calls_round_trip:
  assumes "list_all (\<lambda>c. textual (tc_input c) \<and> is_object (tc_input c)) calls"
  shows "read_calls (get_prop (hd (toOpenAiMessages (AssistantMessage t calls raw # ms))) ''tool_calls'') = calls"
proof (cases "calls = []")
  case True
  then show ?thesis by (simp add: toOpenAiMessages_def read_calls_def object_prototype_def)
next
  case False
  have "filter (\<lambda>c. get_prop c ''type'' = JStr ''function'') (map call_json calls) = map call_json calls"
    by (auto simp: call_json_def intro!: filter_True)
  moreover have "map read_call (map call_json calls) = calls"
    using assms by (induction calls) (simp_all add: read_call_json)
  ultimately show ?thesis using False by (simp add: toOpenAiMessages_def read_calls_def)
qed

text \<open>
  What an OpenAI-compatible endpoint requires: after an assistant's message with tool calls come exactly the
  tool messages that answer them, by id and in order, before anything else is said.
\<close>

definition call_ids :: "jsval \<Rightarrow> string list" where
  "call_ids m = (case get_prop m ''tool_calls'' of JArr cs \<Rightarrow> map (\<lambda>c. str_of (get_prop c ''id'')) cs | _ \<Rightarrow> [])"

fun wire_paired :: "string list \<Rightarrow> jsval list \<Rightarrow> bool" where
  "wire_paired pending [] \<longleftrightarrow> pending = []"
| "wire_paired pending (m # ms) \<longleftrightarrow>
     (if get_prop m ''role'' = JStr ''tool''
      then (case pending of [] \<Rightarrow> False | i # rest \<Rightarrow> get_prop m ''tool_call_id'' = JStr i \<and> wire_paired rest ms)
      else pending = [] \<and> wire_paired (call_ids m) ms)"

lemma wire_results: "wire_paired (map cr_id rs @ ids) (map tool_message rs @ ms) \<longleftrightarrow> wire_paired ids ms"
  by (induction rs) (simp_all add: tool_message_def)

lemma assistant_ids: "call_ids (hd (toOpenAiMessage (AssistantMessage t calls raw))) = map tc_id calls"
  by (simp add: call_ids_def call_json_def comp_def object_prototype_def)

lemma paired_on_the_wire: "well_paired ms \<Longrightarrow> wire_paired [] (toOpenAiMessages ms)"
proof (induction ms rule: well_paired.induct)
  case (4 t c cs raw rs ms)
  then have ids: "map tc_id (c # cs) = map cr_id rs" and ih: "wire_paired [] (toOpenAiMessages ms)"
    by (simp_all add: answers_def)
  have "toOpenAiMessages (AssistantMessage t (c # cs) raw # ToolMessage rs # ms) =
      hd (toOpenAiMessage (AssistantMessage t (c # cs) raw)) # map tool_message rs @ toOpenAiMessages ms"
    by (simp add: toOpenAiMessages_def)
  moreover have "get_prop (hd (toOpenAiMessage (AssistantMessage t (c # cs) raw))) ''role'' \<noteq> JStr ''tool''" by simp
  ultimately show ?case
    using ih wire_results[of rs "[]" "toOpenAiMessages ms"]
    by (simp del: toOpenAiMessage.simps list.map add: assistant_ids ids)
qed (simp_all add: toOpenAiMessages_def call_ids_def object_prototype_def)

lemma run_requests_paired:
  assumes "ai_run env now ws user prompt op w = (res, w')"
  shows "\<exists>qs reps. sv_requests w' = sv_requests w @ qs \<and> sv_replies w' = sv_replies w @ reps \<and> length reps \<le> length qs
    \<and> (\<forall>q \<in> set qs. well_paired (rq_messages q))"
  using assms
proof (cases rule: run_cases)
  case none
  then show ?thesis by (intro exI[of _ "[]"]) auto
next
  case (looped t m token u s0 sending bridged reachable kv1 lres s1 a1)
  from looped(9) have "sv_requests w' = sv_requests w @ rn_calls s1" "sv_replies w' = sv_replies w @ rn_replies s1"
    by (simp_all add: run_settled_def)
  moreover have "few_replies s1" by (rule few_replies_loop[OF _ looped(8)]) (simp add: looped(7) few_replies_def start_ok)
  moreover have "transcript_ok s1" by (rule runner.transcript_loop[OF _ looped(8)]) (simp add: looped(7) start_ok)
  ultimately show ?thesis by (auto simp: transcript_ok_def few_replies_def)
qed

text \<open>C38: Every transcript a run sends is one an OpenAI-compatible endpoint accepts: in each of its requests, written for
  the gateway, every assistant's message with tool calls is followed at once by the tool messages that answer
  these calls, by id and in order, and no tool message answers anything else.\<close>

theorem run_transcripts_fit_the_wire:
  assumes "ai_run env now ws user prompt op w = (res, w')"
  shows "\<exists>qs. sv_requests w' = sv_requests w @ qs \<and> list_all (\<lambda>q. wire_paired [] (toOpenAiMessages (rq_messages q))) qs"
proof -
  from run_requests_paired[OF assms] obtain qs where "sv_requests w' = sv_requests w @ qs"
    "\<forall>q \<in> set qs. well_paired (rq_messages q)" by blast
  with paired_on_the_wire show ?thesis by (auto simp: list_all_iff)
qed

section \<open>The contract of an adapter\<close>

text \<open>
  What \<open>AiService\<close> relies on: an adapter without its keys refuses, a reply that stopped for tools names some, and
  the cached slices of the prompt are part of it.
\<close>

locale llm_adapter =
  fixes configured :: bool
    and create :: "provider_request \<Rightarrow> llm_failure + provider_response"
  assumes refuses: "\<not> configured \<Longrightarrow> \<exists>m. create q = Inl (Refused (ServiceUnavailable m))"
    and stops: "create q = Inr p \<Longrightarrow> pr_stopReason p = TOOL_USE \<Longrightarrow> pr_toolCalls p \<noteq> []"
begin

text \<open>A turn that asks for tools goes round again, with a result for each of its calls.\<close>

lemma tool_turn_goes_on:
  assumes "run_turn (\<lambda>_. create) app exec u s w = (Inr False, s1, w1)"
    and "reply_of (\<lambda>_. create) u s = (Inr r, s0)"
  shows "pr_stopReason r \<noteq> TOOL_USE"
proof
  assume t: "pr_stopReason r = TOOL_USE"
  from assms(2) have "\<exists>q. create q = Inr r"
    by (auto simp: reply_of_def send_request_def Let_def split: sum.splits llm_failure.splits if_splits)
  with stops t have "pr_toolCalls r \<noteq> []" by blast
  with t assms show False by (auto simp: run_turn_def after_reply_def Let_def split: prod.splits)
qed

text \<open>Without the keys a turn fails, is not tried again and executes nothing.\<close>

lemma unconfigured_turn:
  assumes "\<not> configured"
  shows "\<exists>m s1. run_turn (\<lambda>_. create) app exec u s w = (Inl (Refused (ServiceUnavailable m)), s1, w)"
proof -
  from refuses[OF assms, of "request_for u s"] obtain m where
    "create (request_for u s) = Inl (Refused (ServiceUnavailable m))" by blast
  then show ?thesis by (simp add: run_turn_def reply_of_def send_request_def Let_def)
qed

end

lemma anthropic_stop_calls: "anthropic_stop reason calls = TOOL_USE \<Longrightarrow> calls \<noteq> []"
  by (auto simp: anthropic_stop_def split: if_splits)

lemma gateway_stop_calls: "gateway_stop reason calls = TOOL_USE \<Longrightarrow> calls \<noteq> []"
  by (auto simp: gateway_stop_def split: if_splits)

lemma completion_stop:
  assumes "fromCompletion h c = Inr p"
  shows "\<exists>reason. pr_stopReason p = gateway_stop reason (pr_toolCalls p)"
proof (cases "is_nullish (get_prop c ''choices'')")
  case False
  with assms show ?thesis
    unfolding fromCompletion_def Let_def if_not_P[OF False] by (intro exI) (drule Inr_inject, erule subst, simp only: provider_response.simps)
qed (use assms in \<open>simp add: fromCompletion_def\<close>)

lemma completion_calls: "fromCompletion h c = Inr p \<Longrightarrow> pr_stopReason p = TOOL_USE \<Longrightarrow> pr_toolCalls p \<noteq> []"
  using completion_stop gateway_stop_calls by metis

interpretation anthropic: llm_adapter "anthropic_configured key" "anthropic_create key api" for key api
  by unfold_locales
    (auto simp: anthropic_create_def fromAnthropicMessage_def Let_def split: sum.splits if_splits dest: anthropic_stop_calls)

interpretation gateway: llm_adapter "gateway_configured baseUrl key" "gateway_create baseUrl key api" for baseUrl key api
  by unfold_locales (auto simp: gateway_create_def split: sum.split_asm prod.split_asm if_split_asm dest: completion_calls)

section \<open>Counting\<close>

text \<open>The prompt Anthropic counts includes its cached slices, as the charge of a run needs it.\<close>

lemma cached_slices_are_counted:
  assumes "0 \<le> token_count (get_prop (get_prop response ''usage'') ''input_tokens'')"
  shows "the (pu_cacheWriteTokens (pr_usage (fromAnthropicMessage response)))
     + the (pu_cacheReadTokens (pr_usage (fromAnthropicMessage response)))
     \<le> pu_inputTokens (pr_usage (fromAnthropicMessage response))"
  using assms by (simp add: fromAnthropicMessage_def Let_def)

text \<open>A connector that is down is told apart from every other failure.\<close>

lemma connector_failures:
  "anthropic_create key api q = Inl (McpConnectionError m) \<longleftrightarrow>
     anthropic_configured key \<and> api (anthropic_body q) = Inl m \<and> str_includes ''MCP server'' m"
  by (auto simp: anthropic_create_def split: sum.splits if_splits)

section \<open>Instances\<close>

definition lookup_call :: tool_call where
  "lookup_call = \<lparr>tc_id = ''c1'', tc_name = ''lookup'', tc_input = JObj [(''ids'', JArr [JNum (Fin 7), JStr ''a''])]\<rparr>"

theorem gateway_calls_round_trip_witness:
  "read_calls (get_prop (hd (toOpenAiMessages (AssistantMessage ''On it'' [lookup_call] None # []))) ''tool_calls'') = [lookup_call]"
  by (rule gateway_calls_round_trip) (simp add: lookup_call_def)

theorem run_transcripts_fit_the_wire_witness:
  "\<exists>qs. sv_requests (snd (remembering_run None)) = qs \<and> 2 \<le> length qs
     \<and> list_all (\<lambda>q. wire_paired [] (toOpenAiMessages (rq_messages q))) qs"
proof -
  obtain r w' where r: "remembering_run None = (Inr r, w')" "sv_replies w' = [remembering_first, sample_reply END_TURN ''Noted.'' []]"
    by (rule remembering_result)
  from run_transcripts_fit_the_wire[OF r(1)] obtain qs where qs: "sv_requests w' = qs"
    "list_all (\<lambda>q. wire_paired [] (toOpenAiMessages (rq_messages q))) qs" by (auto simp: sample_service_world_def)
  moreover have "2 \<le> length qs"
    using run_requests_paired[OF r(1)] qs(1) r(2) by (auto simp: sample_service_world_def)
  ultimately show ?thesis by (simp add: r)
qed

section \<open>What the modelling showed\<close>

text \<open>
  A gateway that answers with a body of no choices makes the adapter throw a type error of its own, not the
  service's refusal.
\<close>

lemma reply_without_choices:
  "gateway_create (Some ''https://g'') (Some ''k'') (\<lambda>_. Inr (JObj [(''error'', JStr ''no credit'')], \<lambda>_. None)) q =
     Inl (Refused (PlainError ''Cannot read properties of undefined (reading 0)''))"
  by (simp add: gateway_create_def gateway_configured_def non_empty_def fromCompletion_def object_prototype_def)

text \<open>Results that arrive after two calls of the provider's own are both booked on the second.\<close>

lemma parallel_results_are_mixed_up:
  "map ac_isError (rd_activity (read_blocks
     [JObj [(''type'', JStr ''mcp_tool_use''), (''server_name'', JStr ''s''), (''name'', JStr ''first'')],
      JObj [(''type'', JStr ''mcp_tool_use''), (''server_name'', JStr ''s''), (''name'', JStr ''second'')],
      JObj [(''type'', JStr ''mcp_tool_result''), (''is_error'', JBool True)],
      JObj [(''type'', JStr ''mcp_tool_result''), (''is_error'', JBool False)]])) = [False, False]"
  by (simp add: read_blocks_def read_block_def set_last_error_def)

end
