(* ===== verification/Monitoring.thy ===== *)
theory Monitoring
  imports Rules Memory
begin

text \<open>
  Proactive monitoring: \<open>src/src/monitoring/monitoring.service.ts\<close> over the table of
  \<open>anomaly-alert.entity.ts\<close>, with the tick of \<open>monitoring.scheduler.ts\<close>.  One clock reading stands for a
  whole sweep; messages are written without their leading emoji.  \<open>mv_refuses\<close> says which rows the database
  refuses for another reason than the unique index.
\<close>

section \<open>Rows and surroundings\<close>

record anomaly_alert =
  al_id :: uuid
  al_workspaceId :: uuid
  al_adAccountId :: string
  al_metric :: string
  al_day :: string
  al_message :: string
  al_createdAt :: time

record anomaly_report =
  an_workspaceId :: uuid
  an_slackChannel :: string
  an_message :: string

record monitor_env =
  mv_oauth :: meta_oauth
  mv_graph :: graph_api
  mv_facts :: "workspace_memory list"
  mv_id :: "nat \<Rightarrow> uuid"
  mv_refuses :: "anomaly_alert \<Rightarrow> bool"

record monitor_world =
  mw_meta :: meta_world
  mw_alerts :: "anomaly_alert list"

definition ALERTS_CHANNEL_FACT_KEYS :: "string list" where
  "ALERTS_CHANNEL_FACT_KEYS = [''alerts_channel'', ''alerts_channel_id'', ''slack_alerts_channel'']"

definition DEVIATION_THRESHOLD :: rat where
  "DEVIATION_THRESHOLD = fl (3 / 10)"

definition SPEND_SPIKE_MULTIPLE :: rat where
  "SPEND_SPIKE_MULTIPLE = 2"

definition MIN_SPEND_TODAY :: rat where
  "MIN_SPEND_TODAY = 10"

definition MAX_ACCOUNTS :: nat where
  "MAX_ACCOUNTS = 5"

definition MONITOR_FIELDS :: "string list" where
  "MONITOR_FIELDS = [''spend'', ''cost_per_action_type'', ''purchase_roas'', ''account_currency'']"

section \<open>The alerts channel\<close>

definition word_char :: "char \<Rightarrow> bool" where
  "word_char c \<longleftrightarrow> is_lower c \<or> is_upper c \<or> is_digit c \<or> c = CHR ''_''"

definition id_char :: "char \<Rightarrow> bool" where
  "id_char c \<longleftrightarrow> is_upper c \<or> is_digit c"

text \<open>\<open>value.match(/\b[CGDUW][A-Z0-9]{7,}\b/)\<close>, \<open>inside\<close> a word or not.\<close>

fun slack_id_in :: "bool \<Rightarrow> string \<Rightarrow> string option" where
  "slack_id_in inside [] = None"
| "slack_id_in inside (c # cs) = (let run = takeWhile id_char cs; behind = dropWhile id_char cs in
     if \<not> inside \<and> c \<in> set ''CGDUW'' \<and> 7 \<le> length run \<and> (behind = [] \<or> \<not> word_char (hd behind))
     then Some (c # run) else slack_id_in (word_char c) cs)"

definition resolveAlertsChannel :: "workspace_memory list \<Rightarrow> uuid \<Rightarrow> string option" where
  "resolveAlertsChannel mems ws =
    (case List.find (\<lambda>f. wm_key f \<in> set ALERTS_CHANNEL_FACT_KEYS) (list_facts ws mems) of
       None \<Rightarrow> None
     | Some f \<Rightarrow> (let v = js_trim (wm_value f) in
         if v = [] then None else Some (case slack_id_in False v of Some i \<Rightarrow> i | None \<Rightarrow> v)))"

section \<open>Comparing an account with its week\<close>

record insight_figures =
  if_spend :: rat
  if_cpa :: "jsnum option"
  if_roas :: "jsnum option"
  if_currency :: string

definition parseRow :: "jsval \<Rightarrow> insight_figures option" where
  "parseRow row = (if \<not> truthy row then None
     else case to_number (get_prop row ''spend'') of
        Fin s \<Rightarrow> Some \<lparr>if_spend = s, if_cpa = pickPurchaseValue (get_prop row ''cost_per_action_type''),
                   if_roas = pickPurchaseValue (get_prop row ''purchase_roas''),
                   if_currency = (let c = get_prop row ''account_currency'' in if is_nullish c then [] else to_string c)\<rparr>
      | _ \<Rightarrow> None)"

definition amount_text :: "jsnum \<Rightarrow> string \<Rightarrow> string" where
  "amount_text amount currency = num_fixed 2 amount @ (if currency = [] then [] else '' '' @ currency)"

text \<open>\<open>a / b\<close> for a positive \<open>b\<close>.\<close>

fun ratio :: "jsnum \<Rightarrow> jsnum \<Rightarrow> jsnum" where
  "ratio (Fin a) (Fin b) = Fin (fl (a / b))"
| "ratio (Fin a) _ = Fin 0"
| "ratio x (Fin b) = x"
| "ratio _ _ = NaN"

fun pct_text :: "jsnum \<Rightarrow> string" where
  "pct_text (Fin x) = show_int (math_round (fl (x * 100))) @ ''%''"
| "pct_text n = num_to_string n @ ''%''"

definition raised :: "jsnum \<Rightarrow> jsnum" where
  "raised = num_map (\<lambda>x. fl (x * fl (1 + DEVIATION_THRESHOLD)))"

definition lowered :: "jsnum \<Rightarrow> jsnum" where
  "lowered = num_map (\<lambda>x. fl (x * fl (1 - DEVIATION_THRESHOLD)))"

definition bold :: "string \<Rightarrow> string" where
  "bold s = ''*'' @ s @ ''*''"

type_synonym anomaly = "string \<times> string"

definition cpa_findings :: "string \<Rightarrow> insight_figures \<Rightarrow> insight_figures \<Rightarrow> anomaly list" where
  "cpa_findings name today base = (case if_cpa base of
     Some b \<Rightarrow>
       if \<not> num_lt (Fin 0) b then []
       else (case if_cpa today of
          None \<Rightarrow> [(''cpa_spike'', bold name @ '' has spent '' @ amount_text (Fin (if_spend today)) (if_currency today)
             @ '' today with *no purchases* (7-day average CPA: '' @ amount_text b (if_currency today) @ ''). Worth a look.'')]
        | Some a \<Rightarrow> if num_lt (raised b) a
            then [(''cpa_spike'', ''CPA spike on '' @ bold name @ '': '' @ amount_text a (if_currency today) @ '' today vs ''
               @ amount_text b (if_currency today) @ '' 7-day average ('' @ pct_text (num_map (\<lambda>x. fl (x - 1)) (ratio a b)) @ '' higher).'')]
            else [])
   | None \<Rightarrow> [])"

fun num_flip :: "jsnum \<Rightarrow> jsnum" where
  "num_flip (Fin x) = Fin (fl (1 - x))"
| "num_flip PInf = NInf" | "num_flip NInf = PInf" | "num_flip NaN = NaN"

definition roas_findings :: "string \<Rightarrow> insight_figures \<Rightarrow> insight_figures \<Rightarrow> anomaly list" where
  "roas_findings name today base = (case (if_roas base, if_roas today) of
     (Some b, Some a) \<Rightarrow> if num_lt (Fin 0) b \<and> num_lt a (lowered b)
       then [(''roas_drop'', ''ROAS drop on '' @ bold name @ '': '' @ num_fixed 2 a @ '' today vs '' @ num_fixed 2 b
          @ '' 7-day average ('' @ pct_text (num_flip (ratio a b)) @ '' lower).'')]
       else []
   | _ \<Rightarrow> [])"

definition spend_findings :: "string \<Rightarrow> insight_figures \<Rightarrow> insight_figures \<Rightarrow> anomaly list" where
  "spend_findings name today base = (let daily = fl (if_spend base / 7) in
     if 0 < daily \<and> fl (daily * SPEND_SPIKE_MULTIPLE) < if_spend today
     then [(''spend_spike'', ''Spend spike on '' @ bold name @ '': '' @ amount_text (Fin (if_spend today)) (if_currency today) @ '' today vs a ''
        @ amount_text (Fin daily) (if_currency today) @ '' daily average over the last 7 days.'')]
     else [])"

definition account_findings :: "string \<Rightarrow> insight_figures option \<Rightarrow> insight_figures option \<Rightarrow> anomaly list" where
  "account_findings name today base = (case (today, base) of
     (Some t, Some b) \<Rightarrow> if if_spend t < MIN_SPEND_TODAY \<or> if_spend b \<le> 0 then []
       else cpa_findings name t b @ roas_findings name t b @ spend_findings name t b
   | _ \<Rightarrow> [])"

definition monitor_insights :: "string \<Rightarrow> string \<Rightarrow> string \<Rightarrow> insights_params" where
  "monitor_insights account since until = \<lparr>in_adAccountId = account, in_level = JUndef, in_datePreset = JUndef,
     in_since = JStr since, in_until = JStr until, in_fields = map JStr MONITOR_FIELDS\<rparr>"

definition day_ago :: "time \<Rightarrow> int \<Rightarrow> string" where
  "day_ago now days = iso_date (now - days * ms_per_day)"

definition first_row :: "jsval \<Rightarrow> jsval result" where
  "first_row body = (case arr_of (get_prop body ''data'') of
     None \<Rightarrow> Inl (PlainError ''Cannot read properties of undefined (reading 0)'')
   | Some [] \<Rightarrow> Inr JUndef | Some (r # rs) \<Rightarrow> Inr r)"

definition monitor_send :: "monitor_env \<Rightarrow> meta_request \<Rightarrow> monitor_world \<Rightarrow> jsval result \<times> monitor_world" where
  "monitor_send env q w = (let m = mw_meta w; (answer, sent) = meta_send (mv_graph env) q (mw_sent m) in
     (answer, w\<lparr>mw_meta := m\<lparr>mw_sent := sent\<rparr>\<rparr>))"

text \<open>Both windows are asked for at once; the error of the first counts if both fail.\<close>

definition checkAccount :: "monitor_env \<Rightarrow> time \<Rightarrow> string \<Rightarrow> string \<Rightarrow> string \<Rightarrow> monitor_world \<Rightarrow> anomaly list result \<times> monitor_world" where
  "checkAccount env now token account name w =
    (let (today, w1) = monitor_send env (getInsights token (monitor_insights account (day_ago now 0) (day_ago now 0))) w;
         (week, w2) = monitor_send env (getInsights token (monitor_insights account (day_ago now 7) (day_ago now 1))) w1
     in (case today of Inl e \<Rightarrow> Inl e
         | Inr t \<Rightarrow> (case week of Inl e \<Rightarrow> Inl e
            | Inr b \<Rightarrow> (case first_row t of Inl e \<Rightarrow> Inl e
               | Inr tr \<Rightarrow> (case first_row b of Inl e \<Rightarrow> Inl e
                  | Inr br \<Rightarrow> Inr (account_findings name (parseRow tr) (parseRow br))))), w2))"

section \<open>The sweep\<close>

definition alert_key :: "anomaly_alert \<Rightarrow> uuid \<times> string \<times> string \<times> string" where
  "alert_key a = (al_workspaceId a, al_adAccountId a, al_metric a, al_day a)"

definition recordOnce ::
  "monitor_env \<Rightarrow> time \<Rightarrow> uuid \<Rightarrow> string \<Rightarrow> anomaly \<Rightarrow> monitor_world \<Rightarrow> bool \<times> monitor_world" where
  "recordOnce env now ws account f w =
    (let a = \<lparr>al_id = mv_id env (length (mw_alerts w)), al_workspaceId = ws, al_adAccountId = account, al_metric = fst f,
              al_day = day_ago now 0, al_message = snd f, al_createdAt = now\<rparr>
     in if alert_key a \<in> alert_key ` set (mw_alerts w) \<or> mv_refuses env a then (False, w)
        else (True, w\<lparr>mw_alerts := mw_alerts w @ [a]\<rparr>))"

fun report_findings ::
  "monitor_env \<Rightarrow> time \<Rightarrow> uuid \<Rightarrow> string \<Rightarrow> string \<Rightarrow> anomaly list \<Rightarrow> monitor_world \<Rightarrow> anomaly_report list \<times> monitor_world" where
  "report_findings env now ws channel account [] w = ([], w)"
| "report_findings env now ws channel account (f # fs) w =
    (let (fresh, w1) = recordOnce env now ws account f w;
         (reports, w2) = report_findings env now ws channel account fs w1
     in (if fresh then \<lparr>an_workspaceId = ws, an_slackChannel = channel, an_message = snd f\<rparr> # reports else reports, w2))"

definition account_id_of :: "jsval \<Rightarrow> string" where
  "account_id_of a = (let i = get_prop a ''id''; k = get_prop a ''account_id'' in
     if \<not> is_nullish i then to_string i else if truthy k then ''act_'' @ to_string k else [])"

definition account_name_of :: "jsval \<Rightarrow> string" where
  "account_name_of a = (let n = get_prop a ''name'' in if is_nullish n then account_id_of a else to_string n)"

fun sweep_accounts ::
  "monitor_env \<Rightarrow> time \<Rightarrow> uuid \<Rightarrow> string \<Rightarrow> string \<Rightarrow> jsval list \<Rightarrow> monitor_world \<Rightarrow> anomaly_report list result \<times> monitor_world" where
  "sweep_accounts env now ws channel token [] w = (Inr [], w)"
| "sweep_accounts env now ws channel token (a # as) w =
    (if account_id_of a = [] then sweep_accounts env now ws channel token as w
     else case checkAccount env now token (account_id_of a) (account_name_of a) w of
        (Inl e, w1) \<Rightarrow> (Inl e, w1)
      | (Inr fs, w1) \<Rightarrow>
         (let (reports, w2) = report_findings env now ws channel (account_id_of a) fs w1;
              (rest, w3) = sweep_accounts env now ws channel token as w2
          in (map_sum id (\<lambda>rs. reports @ rs) rest, w3)))"

definition sweepWorkspace :: "monitor_env \<Rightarrow> time \<Rightarrow> uuid \<Rightarrow> monitor_world \<Rightarrow> anomaly_report list result \<times> monitor_world" where
  "sweepWorkspace env now ws w = (case resolveAlertsChannel (mv_facts env) ws of
     None \<Rightarrow> (Inr [], w)
   | Some channel \<Rightarrow>
      (let (token, rows) = getMetaAccessToken (mv_oauth env) now ws None (mw_rows (mw_meta w));
           w1 = w\<lparr>mw_meta := (mw_meta w)\<lparr>mw_rows := rows\<rparr>\<rparr>
       in case token of None \<Rightarrow> (Inr [], w1)
        | Some t \<Rightarrow>
           (case monitor_send env (listAdAccounts t) w1 of
              (Inl e, w2) \<Rightarrow> (Inl e, w2)
            | (Inr body, w2) \<Rightarrow> (case arr_of (get_prop body ''data'') of
                None \<Rightarrow> (Inl (PlainError ''Cannot read properties of undefined (reading slice)''), w2)
              | Some accounts \<Rightarrow> sweep_accounts env now ws channel t (take MAX_ACCOUNTS accounts) w2))))"

text \<open>A workspace whose sweep throws contributes no reports; the others go on.\<close>

fun sweep_all :: "monitor_env \<Rightarrow> time \<Rightarrow> uuid list \<Rightarrow> monitor_world \<Rightarrow> anomaly_report list \<times> monitor_world" where
  "sweep_all env now [] w = ([], w)"
| "sweep_all env now (ws # wss) w =
    (let (r, w1) = sweepWorkspace env now ws w; (rest, w2) = sweep_all env now wss w1
     in ((case r of Inl _ \<Rightarrow> [] | Inr reports \<Rightarrow> reports) @ rest, w2))"

definition runSweep :: "monitor_env \<Rightarrow> time \<Rightarrow> monitor_world \<Rightarrow> anomaly_report list \<times> monitor_world" where
  "runSweep env now w = sweep_all env now (listActiveMetaWorkspaceIds (mw_rows (mw_meta w))) w"

text \<open>The messages a tick posts: bot token, channel and text.\<close>

definition anomaly_delivery :: "workspace list \<Rightarrow> anomaly_report \<Rightarrow> (string \<times> string \<times> string) list" where
  "anomaly_delivery ws r = (case workspaceById ws (an_workspaceId r) of
     Some t \<Rightarrow> (case w_slackBotToken t of Some (b # bt) \<Rightarrow> [(b # bt, an_slackChannel r, an_message r)] | _ \<Rightarrow> [])
   | None \<Rightarrow> [])"

definition monitor_tick ::
  "monitor_env \<Rightarrow> workspace list \<Rightarrow> time \<Rightarrow> bool \<Rightarrow> monitor_world \<Rightarrow> (string \<times> string \<times> string) list \<times> monitor_world" where
  "monitor_tick env ws now running w = (if running then ([], w)
     else (let (reports, w') = runSweep env now w in (concat (map (anomaly_delivery ws) reports), w')))"

end
