(* ===== verification/MonitoringFacts.thy ===== *)
theory MonitoringFacts
  imports Monitoring RuleFacts
begin

text \<open>
  What the monitor guarantees: it only reads from Meta, and an anomaly of an account is notified at most once
  a day; and where one that was recorded is never notified.
\<close>

section \<open>Alerts and reports\<close>

definition alerts_wf :: "monitor_world \<Rightarrow> bool" where
  "alerts_wf w \<longleftrightarrow> distinct (map alert_key (mw_alerts w))"

definition told :: "anomaly_report \<Rightarrow> uuid \<times> string" where
  "told r = (an_workspaceId r, an_message r)"

definition tells :: "anomaly_alert \<Rightarrow> uuid \<times> string" where
  "tells a = (al_workspaceId a, al_message a)"

text \<open>
  A part of a sweep at the time \<open>now\<close>: it adds rows of that day under fresh keys, and every report is of one
  of these rows, in their order.
\<close>

definition sweep_step :: "time \<Rightarrow> anomaly_report list \<Rightarrow> monitor_world \<Rightarrow> monitor_world \<Rightarrow> bool" where
  "sweep_step now reports w w' \<longleftrightarrow> (\<exists>new. mw_alerts w' = mw_alerts w @ new \<and> (\<forall>a \<in> set new. al_day a = day_ago now 0)
     \<and> (alerts_wf w \<longrightarrow> alerts_wf w') \<and> subseq (map told reports) (map tells new))
   \<and> writes (mw_sent (mw_meta w')) = writes (mw_sent (mw_meta w))"

lemma sweep_step_refl: "sweep_step now [] w w"
  by (auto simp: sweep_step_def)

lemma sweep_step_trans:
  assumes "sweep_step now r1 w w1" "sweep_step now r2 w1 w2"
  shows "sweep_step now (r1 @ r2) w w2"
proof -
  from assms obtain n1 n2 where "mw_alerts w1 = mw_alerts w @ n1" "subseq (map told r1) (map tells n1)" "\<forall>a \<in> set n1. al_day a = day_ago now 0"
    "mw_alerts w2 = mw_alerts w1 @ n2" "subseq (map told r2) (map tells n2)" "\<forall>a \<in> set n2. al_day a = day_ago now 0"
    by (auto simp: sweep_step_def)
  moreover from this have "subseq (map told (r1 @ r2)) (map tells (n1 @ n2))" by (simp add: list_emb_append_mono)
  ultimately show ?thesis using assms unfolding sweep_step_def by (intro conjI exI[of _ "n1 @ n2"]) auto
qed

lemma sweep_step_quiet: "sweep_step now r1 w w1 \<Longrightarrow> sweep_step now [] w w1"
  by (auto simp: sweep_step_def)

lemma sweep_step_send:
  assumes "monitor_send env q w = (x, w1)" "mq_method q = GET"
  shows "sweep_step now [] w w1"
  using assms by (auto simp: sweep_step_def monitor_send_def meta_send_def writes_def alerts_wf_def Let_def)

lemma recordOnce_step:
  assumes "recordOnce env now ws account f w = (fresh, w1)"
  shows "sweep_step now (if fresh then [\<lparr>an_workspaceId = ws, an_slackChannel = c, an_message = snd f\<rparr>] else []) w w1"
  using assms by (auto simp: recordOnce_def Let_def sweep_step_def alerts_wf_def told_def tells_def split: if_splits)

lemma report_findings_step:
  "report_findings env now ws channel account fs w = (reports, w') \<Longrightarrow> sweep_step now reports w w'"
proof (induction fs arbitrary: w w' reports)
  case Nil
  then show ?case by (simp add: sweep_step_refl)
next
  case (Cons f fs)
  obtain fresh w1 where f: "recordOnce env now ws account f w = (fresh, w1)" by fastforce
  obtain rs w2 where r: "report_findings env now ws channel account fs w1 = (rs, w2)" by fastforce
  from sweep_step_trans[OF recordOnce_step[OF f, of channel] Cons.IH[OF r]] Cons.prems f r show ?case
    by (auto split: if_splits)
qed

lemma checkAccount_step: "checkAccount env now token account name w = (x, w') \<Longrightarrow> sweep_step now [] w w'"
proof -
  assume c: "checkAccount env now token account name w = (x, w')"
  let ?q = "\<lambda>a b. getInsights token (monitor_insights account (day_ago now a) (day_ago now b))"
  obtain t w1 where 1: "monitor_send env (?q 0 0) w = (t, w1)" by fastforce
  obtain b w2 where 2: "monitor_send env (?q 7 1) w1 = (b, w2)" by fastforce
  from c 1 2 have "w' = w2" by (simp add: checkAccount_def)
  with sweep_step_trans[OF sweep_step_send[OF 1] sweep_step_send[OF 2]] show ?thesis by simp
qed

lemma sweep_accounts_step:
  "sweep_accounts env now ws channel token as w = (x, w') \<Longrightarrow> sweep_step now (case x of Inl _ \<Rightarrow> [] | Inr rs \<Rightarrow> rs) w w'"
proof (induction as arbitrary: w w' x)
  case Nil
  then show ?case by (auto simp: sweep_step_refl)
next
  case (Cons a as)
  show ?case
  proof (cases "account_id_of a = []")
    case True
    with Cons show ?thesis by simp
  next
    case False
    obtain y w1 where c: "checkAccount env now token (account_id_of a) (account_name_of a) w = (y, w1)" by fastforce
    note c1 = checkAccount_step[OF c]
    show ?thesis
    proof (cases y)
      case (Inl e)
      with Cons.prems False c c1 show ?thesis by auto
    next
      case (Inr fs)
      obtain rs w2 where r: "report_findings env now ws channel (account_id_of a) fs w1 = (rs, w2)" by fastforce
      obtain z w3 where s: "sweep_accounts env now ws channel token as w2 = (z, w3)" by fastforce
      have 12: "sweep_step now rs w w2" using sweep_step_trans[OF c1 report_findings_step[OF r]] by simp
      from Cons.prems False c Inr r s have "x = map_sum id (\<lambda>xs. rs @ xs) z" "w' = w3" by simp_all
      with sweep_step_trans[OF 12 Cons.IH[OF s]] sweep_step_trans[OF sweep_step_quiet[OF 12] Cons.IH[OF s]] show ?thesis
        by (cases z) simp_all
    qed
  qed
qed

lemma sweepWorkspace_step:
  assumes "sweepWorkspace env now ws w = (x, w')"
  shows "sweep_step now (case x of Inl _ \<Rightarrow> [] | Inr rs \<Rightarrow> rs) w w'"
proof (cases "resolveAlertsChannel (mv_facts env) ws")
  case None
  with assms show ?thesis by (auto simp: sweepWorkspace_def sweep_step_refl)
next
  case (Some channel)
  obtain token rows where t: "getMetaAccessToken (mv_oauth env) now ws None (mw_rows (mw_meta w)) = (token, rows)" by fastforce
  let ?w1 = "w\<lparr>mw_meta := (mw_meta w)\<lparr>mw_rows := rows\<rparr>\<rparr>"
  have 1: "sweep_step now [] w ?w1" by (auto simp: sweep_step_def alerts_wf_def)
  show ?thesis
  proof (cases token)
    case None
    with assms Some t 1 show ?thesis by (auto simp: sweepWorkspace_def)
  next
    case tok: (Some k)
    obtain y w2 where s: "monitor_send env (listAdAccounts k) ?w1 = (y, w2)" by fastforce
    have 2: "sweep_step now [] w w2"
      using sweep_step_trans[OF 1 sweep_step_send[OF s]] by (simp add: listAdAccounts_def meta_get_def)
    show ?thesis
    proof (cases "case y of Inl _ \<Rightarrow> None | Inr body \<Rightarrow> arr_of (get_prop body ''data'')")
      case none: None
      with assms Some t tok s 2 show ?thesis by (auto simp: sweepWorkspace_def split: sum.splits)
    next
      case acc: (Some accounts)
      then obtain body where y: "y = Inr body" "arr_of (get_prop body ''data'') = Some accounts" by (auto split: sum.splits)
      with assms Some t tok s have "sweep_accounts env now ws channel k (take MAX_ACCOUNTS accounts) w2 = (x, w')"
        by (simp add: sweepWorkspace_def)
      from sweep_step_trans[OF 2 sweep_accounts_step[OF this]] show ?thesis by simp
    qed
  qed
qed

lemma sweep_all_step: "sweep_all env now wss w = (rs, w') \<Longrightarrow> sweep_step now rs w w'"
proof (induction wss arbitrary: w w' rs)
  case Nil
  then show ?case by (simp add: sweep_step_refl)
next
  case (Cons ws wss)
  obtain r w1 where 1: "sweepWorkspace env now ws w = (r, w1)" by fastforce
  obtain rest w2 where 2: "sweep_all env now wss w1 = (rest, w2)" by fastforce
  from sweep_step_trans[OF sweepWorkspace_step[OF 1] Cons.IH[OF 2]] Cons.prems 1 2 show ?case by simp
qed

section \<open>One notice a day\<close>

text \<open>Sweeps that follow one another, each in surroundings of its own.\<close>

fun sweeps :: "(monitor_env \<times> time) list \<Rightarrow> monitor_world \<Rightarrow> anomaly_report list \<times> monitor_world" where
  "sweeps [] w = ([], w)"
| "sweeps ((env, now) # es) w = (let (r, w1) = runSweep env now w; (rest, w2) = sweeps es w1 in (r @ rest, w2))"

text \<open>C31: Whatever Meta answers and however often the monitor sweeps, every notice is of an alert that was recorded for it, and
  no two alerts are of the same workspace, account, metric and day: each anomaly is notified at most once a day.
  The monitor never asks Meta for a change.\<close>

theorem anomalies_notified_once:
  assumes "alerts_wf w" and "sweeps es w = (reports, w')"
  shows "\<exists>new. mw_alerts w' = mw_alerts w @ new \<and> distinct (map alert_key (mw_alerts w @ new)) \<and> subseq (map told reports) (map tells new)
    \<and> (\<forall>a \<in> set new. al_day a \<in> (\<lambda>(env, now). day_ago now 0) ` set es)
    \<and> writes (mw_sent (mw_meta w')) = writes (mw_sent (mw_meta w))"
  using assms
proof (induction es arbitrary: w w' reports)
  case Nil
  then show ?case by (auto simp: alerts_wf_def)
next
  case (Cons e es)
  obtain env now where e: "e = (env, now)" by fastforce
  obtain r w1 where 1: "runSweep env now w = (r, w1)" by fastforce
  obtain rest w2 where 2: "sweeps es w1 = (rest, w2)" by fastforce
  from sweep_all_step 1 have "sweep_step now r w w1" by (simp add: runSweep_def)
  then obtain n1 where n1: "mw_alerts w1 = mw_alerts w @ n1" "\<forall>a \<in> set n1. al_day a = day_ago now 0" "alerts_wf w1"
    "subseq (map told r) (map tells n1)" "writes (mw_sent (mw_meta w1)) = writes (mw_sent (mw_meta w))"
    using Cons.prems(1) by (auto simp: sweep_step_def)
  from Cons.prems(2) e 1 2 have "reports = r @ rest" "w2 = w'" by simp_all
  with Cons.IH[OF n1(3) 2] obtain n2 where n2: "mw_alerts w' = mw_alerts w1 @ n2" "distinct (map alert_key (mw_alerts w1 @ n2))"
    "subseq (map told rest) (map tells n2)" "\<forall>a \<in> set n2. al_day a \<in> (\<lambda>(env, now). day_ago now 0) ` set es"
    "writes (mw_sent (mw_meta w')) = writes (mw_sent (mw_meta w1))" by auto
  have "subseq (map told (r @ rest)) (map tells (n1 @ n2))" using n1(4) n2(3) by (simp add: list_emb_append_mono)
  with n1 n2 \<open>reports = r @ rest\<close> show ?case by (intro exI[of _ "n1 @ n2"]) (auto simp: e)
qed

section \<open>Alerts nobody hears of\<close>

definition insight_reply :: "string \<Rightarrow> fetch_reply" where
  "insight_reply spend = Reply True 200 (Some (JObj [(''data'', JArr [JObj [(''spend'', JStr spend)]])]))"

text \<open>Two accounts; the first spends a hundred times its daily average, the second cannot be read while \<open>down\<close>.\<close>

definition sample_today :: string where
  "sample_today = stringify (JObj [(''since'', JStr ''1970-01-08''), (''until'', JStr ''1970-01-08'')])"

definition sample_monitor_graph :: "bool \<Rightarrow> graph_api" where
  "sample_monitor_graph down sent q =
    (if mq_path q = ''me/adaccounts'' then Reply True 200 (Some (JObj [(''data'', JArr [JObj [(''id'', JStr ''act_1'')], JObj [(''id'', JStr ''act_2'')]])]))
     else if mq_path q = ''act_2/insights'' then (if down then Throws ''socket hang up'' else insight_reply ''1'')
     else if map_of (mq_params q) ''time_range'' = Some (sample_today)
     then insight_reply ''100'' else insight_reply ''7'')"

definition sample_monitor_env :: "bool \<Rightarrow> monitor_env" where
  "sample_monitor_env down = \<lparr>mv_oauth = sample_oauth True ''t'' ''1'', mv_graph = sample_monitor_graph down,
     mv_facts = [new_fact ''f1'' 0 ''w1'' None ''alerts_channel'' ''#ads (C0123ABCD)''], mv_id = show_nat, mv_refuses = (\<lambda>_. False)\<rparr>"

definition sample_monitor_world :: monitor_world where
  "sample_monitor_world = \<lparr>mw_meta = \<lparr>mw_rows = [(sample_integration ''i2'' ''b'' TEAM ''meta:2'')\<lparr>ig_accessToken := Some ''t'', ig_tokenExpiresAt := None\<rparr>], mw_sent = []\<rparr>, mw_alerts = []\<rparr>"

lemma anomalies_notified_once_witness:
  "\<exists>new. mw_alerts (snd (sweeps [(sample_monitor_env True, 7 * ms_per_day)] sample_monitor_world)) = mw_alerts sample_monitor_world @ new
    \<and> distinct (map alert_key (mw_alerts sample_monitor_world @ new))
    \<and> subseq (map told (fst (sweeps [(sample_monitor_env True, 7 * ms_per_day)] sample_monitor_world))) (map tells new)"
  using anomalies_notified_once[of sample_monitor_world "[(sample_monitor_env True, 7 * ms_per_day)]"
      "fst (sweeps [(sample_monitor_env True, 7 * ms_per_day)] sample_monitor_world)"
      "snd (sweeps [(sample_monitor_env True, 7 * ms_per_day)] sample_monitor_world)"]
  by (auto simp: alerts_wf_def sample_monitor_world_def simp del: sweeps.simps)

definition sample_notice :: string where
  "sample_notice = snd (hd (spend_findings ''act_1'' \<lparr>if_spend = 100, if_cpa = None, if_roas = None, if_currency = []\<rparr>
     \<lparr>if_spend = 7, if_cpa = None, if_roas = None, if_currency = []\<rparr>))"

lemma sample_findings:
  "account_findings ''act_1'' (parseRow (JObj [(''spend'', JStr ''100'')])) (parseRow (JObj [(''spend'', JStr ''7'')])) = [(''spend_spike'', sample_notice)]"
proof -
  have p: "parseRow (JObj [(''spend'', JStr ''100'')]) = Some \<lparr>if_spend = 100, if_cpa = None, if_roas = None, if_currency = []\<rparr>"
    "parseRow (JObj [(''spend'', JStr ''7'')]) = Some \<lparr>if_spend = 7, if_cpa = None, if_roas = None, if_currency = []\<rparr>"
    by code_simp+
  have "fl 1 = 1" "fl 2 = 2" using fl_of_int[of 1] fl_of_int[of 2] by simp_all
  then show ?thesis
    by (simp add: p account_findings_def MIN_SPEND_TODAY_def cpa_findings_def roas_findings_def sample_notice_def spend_findings_def SPEND_SPIKE_MULTIPLE_def)
qed


text \<open>What Meta answers to the sweep's questions.\<close>

lemma sample_days: "day_ago (7 * ms_per_day) 0 = ''1970-01-08''" "day_ago (7 * ms_per_day) 1 = ''1970-01-07''" "day_ago (7 * ms_per_day) 7 = ''1970-01-01''"
proof -
  have c: "civil 0 = (1970, 1, 1)" "civil 6 = (1970, 1, 7)" "civil 7 = (1970, 1, 8)" by code_simp+
  have t: "year_text 1970 = ''1970''" "pad0 2 (show_int 1) = ''01''" "pad0 2 (show_int 7) = ''07''" "pad0 2 (show_int 8) = ''08''"
    by (simp_all add: year_text_def show_int_def pad0_def show_nat.simps char_of_def bit_0)
  have "7 * ms_per_day div ms_per_day = 7" "(7 * ms_per_day - 1 * ms_per_day) div ms_per_day = 6" "(7 * ms_per_day - 7 * ms_per_day) div ms_per_day = 0"
    by (simp_all add: ms_per_day_def)
  with c t show "day_ago (7 * ms_per_day) 0 = ''1970-01-08''" "day_ago (7 * ms_per_day) 1 = ''1970-01-07''" "day_ago (7 * ms_per_day) 7 = ''1970-01-01''"
    by (simp_all add: day_ago_def iso_date_def)
qed

lemma sample_paths:
  "mq_path (listAdAccounts ''t'') = ''me/adaccounts''"
  "mq_path (getInsights ''t'' (monitor_insights account a b)) = normalizeAccount account @ ''/insights''"
  "normalizeAccount ''act_1'' = ''act_1''" "normalizeAccount ''act_2'' = ''act_2''"
  by (simp_all add: listAdAccounts_def getInsights_def monitor_insights_def meta_get_def normalizeAccount_def starts_with_def)

lemma sample_ranges:
  "map_of (mq_params (getInsights ''t'' (monitor_insights ''act_1'' ''1970-01-08'' ''1970-01-08''))) ''time_range'' = Some sample_today"
  "map_of (mq_params (getInsights ''t'' (monitor_insights ''act_1'' ''1970-01-01'' ''1970-01-07''))) ''time_range'' \<noteq> Some sample_today"
  by code_simp+

lemma read_data: "read_reply (Reply True 200 (Some (JObj [(''data'', v)]))) = Inr (JObj [(''data'', v)])"
  by (simp add: read_reply_def object_prototype_def)

lemma sample_answers:
  "read_reply (sample_monitor_graph down sent (listAdAccounts ''t''))
   = Inr (JObj [(''data'', JArr [JObj [(''id'', JStr ''act_1'')], JObj [(''id'', JStr ''act_2'')]])])"
  "read_reply (sample_monitor_graph down sent (getInsights ''t'' (monitor_insights ''act_1'' ''1970-01-08'' ''1970-01-08'')))
   = Inr (JObj [(''data'', JArr [JObj [(''spend'', JStr ''100'')]])])"
  "read_reply (sample_monitor_graph down sent (getInsights ''t'' (monitor_insights ''act_1'' ''1970-01-01'' ''1970-01-07'')))
   = Inr (JObj [(''data'', JArr [JObj [(''spend'', JStr ''7'')]])])"
  "read_reply (sample_monitor_graph True sent (getInsights ''t'' (monitor_insights ''act_2'' a b))) = Inl (PlainError ''socket hang up'')"
  by (simp_all add: sample_monitor_graph_def sample_paths sample_ranges insight_reply_def read_data) (simp add: read_reply_def)

lemma sample_setting:
  "resolveAlertsChannel (mv_facts (sample_monitor_env down)) ''w1'' = Some ''C0123ABCD''"
  "fst (getMetaAccessToken (mv_oauth (sample_monitor_env down)) (7 * ms_per_day) ''w1'' None (mw_rows (mw_meta sample_monitor_world))) = Some ''t''"
  "listActiveMetaWorkspaceIds (mw_rows (mw_meta sample_monitor_world)) = [''w1'']"
  by code_simp+

text \<open>
  The notice of the first account is recorded, so no later sweep of the day reports it, and then dropped, because
  the second account could not be read.
\<close>


lemma sample_env_sel [simp]:
  "mv_graph (sample_monitor_env down) = sample_monitor_graph down" "mv_refuses (sample_monitor_env down) a = False"
  by (simp_all add: sample_monitor_env_def)

lemma sample_account_one:
  "checkAccount (sample_monitor_env down) (7 * ms_per_day) ''t'' ''act_1'' ''act_1'' w = (x, w')
   \<Longrightarrow> x = Inr [(''spend_spike'', sample_notice)] \<and> mw_alerts w' = mw_alerts w"
  by (auto simp: checkAccount_def monitor_send_def meta_send_def sample_days sample_answers sample_findings first_row_def Let_def)

lemma sample_account_two:
  "checkAccount (sample_monitor_env True) (7 * ms_per_day) ''t'' ''act_2'' ''act_2'' w = (x, w')
   \<Longrightarrow> x = Inl (PlainError ''socket hang up'') \<and> mw_alerts w' = mw_alerts w"
  by (auto simp: checkAccount_def monitor_send_def meta_send_def sample_days sample_answers Let_def)

theorem recorded_but_never_told:
  "let now = 7 * ms_per_day; (heard, w) = runSweep (sample_monitor_env True) now sample_monitor_world
   in heard = [] \<and> map al_message (mw_alerts w) = [sample_notice]"
proof -
  let ?now = "7 * ms_per_day" and ?env = "sample_monitor_env True" and ?a = "\<lambda>i. JObj [(''id'', JStr i)]"
  let ?w1 = "sample_monitor_world\<lparr>mw_meta := (mw_meta sample_monitor_world)\<lparr>mw_rows := snd (getMetaAccessToken (mv_oauth ?env) ?now ''w1'' None (mw_rows (mw_meta sample_monitor_world)))\<rparr>\<rparr>"
  obtain x w2 where l: "monitor_send ?env (listAdAccounts ''t'') ?w1 = (x, w2)" by fastforce
  then have x: "x = Inr (JObj [(''data'', JArr [?a ''act_1'', ?a ''act_2''])])" "mw_alerts w2 = []"
    by (auto simp: monitor_send_def meta_send_def sample_answers sample_monitor_world_def Let_def)
  obtain y w3 where 3: "checkAccount ?env ?now ''t'' ''act_1'' ''act_1'' w2 = (y, w3)" by fastforce
  obtain rs w4 where 4: "report_findings ?env ?now ''w1'' ''C0123ABCD'' ''act_1'' [(''spend_spike'', sample_notice)] w3 = (rs, w4)" by fastforce
  obtain z w5 where 5: "checkAccount ?env ?now ''t'' ''act_2'' ''act_2'' w4 = (z, w5)" by fastforce
  have n: "account_id_of (?a i) = i" "account_name_of (?a i) = i" for i
    by (simp_all add: account_id_of_def account_name_of_def object_prototype_def)
  have "sweepWorkspace ?env ?now ''w1'' sample_monitor_world = (Inl (PlainError ''socket hang up''), w5)"
    using l x 3 4 5 sample_account_one[OF 3] sample_account_two[OF 5] sample_setting(1)[of True] sample_setting(2)[of True] n
    by (simp add: sweepWorkspace_def split_beta MAX_ACCOUNTS_def)
  moreover have "map al_message (mw_alerts w5) = [sample_notice]"
    using 4 x(2) sample_account_one[OF 3] sample_account_two[OF 5] by (auto simp: recordOnce_def Let_def)
  ultimately show ?thesis by (simp add: runSweep_def sample_setting)
qed

end
