(* ===== verification/SlackEvents.thy ===== *)
theory SlackEvents
  imports AiService Approvals Slack
begin

text \<open>
  The Slack side of the assistant: \<open>src/src/slack/slack-events.service.ts\<close> with the two webhooks of
  \<open>slack.controller.ts\<close>, the calls of \<open>slack.service.ts\<close> they lead to and the cards of \<open>slack-messages.ts\<close>.  A
  message becomes a run of \<open>AiService\<close>; a change the run leaves pending goes to the store of \<open>Approvals\<close>.  One
  clock reading stands for the handling of a request, and requests are handled one after the other.
\<close>

section \<open>Events\<close>

record slack_message_event =
  sm_type :: string
  sm_bot_id :: "string option"
  sm_subtype :: "string option"
  sm_user :: "string option"
  sm_text :: "string option"
  sm_channel :: "string option"
  sm_channel_type :: "string option"
  sm_ts :: "string option"
  sm_thread_ts :: "string option"

record slack_joiner =
  jn_id :: string
  jn_team_id :: "string option"
  jn_name :: "string option"
  jn_deleted :: bool
  jn_is_bot :: bool
  jn_real_name :: "string option"
  jn_display_name :: "string option"

text \<open>An event of type \<open>team_join\<close>, or of any other type.\<close>

datatype slack_event = TeamJoin "slack_joiner option" | MessageEvent slack_message_event

record event_envelope =
  ev_type :: string
  ev_challenge :: "string option"
  ev_team_id :: "string option"
  ev_event_id :: "string option"
  ev_event :: "slack_event option"

text \<open>A string that is there and not empty, as the code's truth tests ask.\<close>

definition filled :: "string option \<Rightarrow> string option" where
  "filled v = (case v of Some (c # cs) \<Rightarrow> Some (c # cs) | _ \<Rightarrow> None)"

text \<open>The key of the conversation, and of the one that branches off it.\<close>

definition conversationKeys :: "slack_message_event \<Rightarrow> string \<Rightarrow> string option \<times> string option" where
  "conversationKeys m channel =
    (let threadTs = coalesce (sm_thread_ts m) (sm_ts m);
         rollingDm = (sm_channel_type m = Some ''im'' \<and> filled (sm_thread_ts m) = None)
     in (if rollingDm then Some channel else threadTs,
         if rollingDm \<and> filled threadTs \<noteq> None \<and> threadTs \<noteq> Some channel then threadTs else None))"

definition isHandledMessage :: "slack_message_event \<Rightarrow> bool" where
  "isHandledMessage m \<longleftrightarrow> filled (sm_bot_id m) = None \<and> filled (sm_subtype m) = None
     \<and> (sm_type m = ''app_mention'' \<or> sm_type m = ''message'' \<and> sm_channel_type m = Some ''im'')"

text \<open>\<open>text.replace(/<@[^>]+>/g, '')\<close>: what follows a mention the text starts with.\<close>

definition after_mention :: "string \<Rightarrow> string option" where
  "after_mention s = (if take 2 s = ''<@'' then
     (let body = takeWhile (\<lambda>c. c \<noteq> CHR ''>'') (drop 2 s); behind = dropWhile (\<lambda>c. c \<noteq> CHR ''>'') (drop 2 s)
      in if body = [] \<or> behind = [] then None else Some (tl behind)) else None)"

lemma after_mention_shorter: "after_mention s = Some r \<Longrightarrow> length r < length s"
proof -
  assume "after_mention s = Some r"
  then have r: "r = tl (dropWhile (\<lambda>c. c \<noteq> CHR ''>'') (drop 2 s))" and s: "s \<noteq> []"
    by (auto simp: after_mention_def Let_def split: if_splits)
  have "length (dropWhile (\<lambda>c. c \<noteq> CHR ''>'') (drop 2 s)) \<le> length s - 2" by (metis length_dropWhile_le length_drop)
  with r s show ?thesis by (cases s) auto
qed

function (sequential) strip_mentions :: "string \<Rightarrow> string" where
  "strip_mentions [] = []"
| "strip_mentions (c # cs) = (case after_mention (c # cs) of Some r \<Rightarrow> strip_mentions r | None \<Rightarrow> c # strip_mentions cs)"
  by pat_completeness auto
termination
  by (relation "measure length") (auto dest: after_mention_shorter)

definition cleanText :: "string \<Rightarrow> string" where
  "cleanText text = js_trim (strip_mentions text)"

definition SEEN_LIMIT :: nat where
  "SEEN_LIMIT = 1000"

text \<open>The set of seen ids in the order of insertion.\<close>

definition rememberEventId :: "string \<Rightarrow> string list \<Rightarrow> string list" where
  "rememberEventId i seen = (let s = (if i \<in> set seen then seen else seen @ [i]) in
     if SEEN_LIMIT < length s \<and> hd s \<noteq> [] then tl s else s)"

section \<open>Cards\<close>

definition mrkdwn_section :: "string \<Rightarrow> jsval" where
  "mrkdwn_section text = JObj [(''type'', JStr ''section''), (''text'', JObj [(''type'', JStr ''mrkdwn''), (''text'', JStr text)])]"

definition card_button :: "(string \<times> jsval) list \<Rightarrow> string \<Rightarrow> string \<Rightarrow> string \<Rightarrow> jsval" where
  "card_button style text actionId token = JObj ((''type'', JStr ''button'') # style
     @ [(''text'', JObj [(''type'', JStr ''plain_text''), (''text'', JStr text), (''emoji'', JBool True)]),
        (''action_id'', JStr actionId), (''value'', JStr token)])"

definition buildApprovalBlocks :: "string \<Rightarrow> string \<Rightarrow> string \<Rightarrow> jsval" where
  "buildApprovalBlocks text token label = JArr [mrkdwn_section text,
     JObj [(''type'', JStr ''actions''), (''block_id'', JStr (''approval:'' @ token)),
       (''elements'', JArr [card_button [(''style'', JStr ''primary'')] (''Approve: '' @ label) APPROVE_ACTION_ID token,
          card_button [] ''Cancel'' CANCEL_ACTION_ID token])]]"

definition buildResolvedBlocks :: "string \<Rightarrow> string \<Rightarrow> jsval" where
  "buildResolvedBlocks text footer = JArr [mrkdwn_section text,
     JObj [(''type'', JStr ''context''), (''elements'', JArr [JObj [(''type'', JStr ''mrkdwn''), (''text'', JStr footer)]])]]"

section \<open>Surroundings\<close>

datatype slack_call =
    AddReaction string string string string
  | RemoveReaction string string string string
  | OpenIm string string
  | ChatPost string string string "string option" "jsval option"
  | ChatUpdate string string string string jsval
  | PrivateNote string string

text \<open>
  \<open>se_pageCount\<close> is what \<open>countMembers\<close> comes back with, \<open>se_provisions\<close> says whether a sender can be
  stored, the four \<open>Up\<close> flags whether the history can be read and written, and a pending change stored and patched.
  Ids are handed out by the number of rows, tokens by the number of calls so far.
\<close>

record slack_event_env =
  se_service :: service_env
  se_profile :: "string \<Rightarrow> string \<Rightarrow> user_response option"
  se_chat :: "slack_call \<Rightarrow> post_response option"
  se_open :: "string \<Rightarrow> string \<Rightarrow> open_response option"
  se_pageCount :: "string \<Rightarrow> nat option"
  se_userId :: "nat \<Rightarrow> uuid"
  se_messageId :: "nat \<Rightarrow> uuid"
  se_token :: "nat \<Rightarrow> string"
  se_provisions :: bool
  se_historyUp :: bool
  se_turnsUp :: bool
  se_storeUp :: bool
  se_patchUp :: bool

record slack_world =
  sw_seen :: "string list"
  sw_users :: "user list"
  sw_turns :: "message_row list"
  sw_service :: service_world
  sw_calls :: "slack_call list"

definition call_slack :: "slack_call \<Rightarrow> slack_world \<Rightarrow> slack_world" where
  "call_slack c w = w\<lparr>sw_calls := sw_calls w @ [c]\<rparr>"

definition post_chat ::
  "slack_event_env \<Rightarrow> string \<Rightarrow> string \<Rightarrow> string \<Rightarrow> string option \<Rightarrow> jsval option \<Rightarrow> slack_world \<Rightarrow> string option \<times> slack_world" where
  "post_chat env bt channel text threadTs blocks w =
    (let c = ChatPost bt channel text (filled threadTs) blocks in (postMessage (\<lambda>_ _. se_chat env c) channel text, call_slack c w))"

definition deliver_chat :: "slack_event_env \<Rightarrow> string \<Rightarrow> string \<Rightarrow> string \<Rightarrow> slack_world \<Rightarrow> slack_world" where
  "deliver_chat env bt destination text w =
    (let w1 = (if is_user_id destination then call_slack (OpenIm bt destination) w else w) in
     case filled (if is_user_id destination then openDm (se_open env bt) destination else Some destination) of
       None \<Rightarrow> w1 | Some channel \<Rightarrow> snd (post_chat env bt channel text None None w1))"

definition on_kv :: "(kv \<Rightarrow> kv) \<Rightarrow> slack_world \<Rightarrow> slack_world" where
  "on_kv f w = w\<lparr>sw_service := (sw_service w)\<lparr>sv_kv := f (sv_kv (sw_service w))\<rparr>\<rparr>"

text \<open>The services of a run see the users as they are now, and howMany the members with the bot's token.\<close>

definition with_members :: "user list \<Rightarrow> nat option \<Rightarrow> service_env \<Rightarrow> service_env" where
  "with_members us howMany env = env\<lparr>vi_agent := (vi_agent env)\<lparr>ag_members := Some (Inr howMany),
     ag_exports := (ag_exports (vi_agent env))\<lparr>ee_rules := (ag_rules (vi_agent env))\<lparr>re_ads := (ag_ads (vi_agent env))\<lparr>ae_users := us\<rparr>\<rparr>\<rparr>\<rparr>\<rparr>"

section \<open>Handling a message\<close>

definition PROCESSING_REACTION :: string where
  "PROCESSING_REACTION = ''hourglass_flowing_sand''"

text \<open>The member a sender is, provisioned from the Slack profile if there is none yet.\<close>

definition sender_input :: "slack_event_env \<Rightarrow> uuid \<Rightarrow> string \<Rightarrow> string \<Rightarrow> upsert_user_input" where
  "sender_input env ws bt u = (let p = fetchUserProfile (se_profile env bt) u (Some bt) in
     \<lparr>ui_workspaceId = ws, ui_slackUserId = u, ui_name = pe_name p, ui_email = pe_email p, ui_avatarUrl = pe_avatarUrl p,
      ui_role = Some MEMBER\<rparr>)"

definition resolve_sender ::
  "slack_event_env \<Rightarrow> time \<Rightarrow> uuid \<Rightarrow> string \<Rightarrow> string option \<Rightarrow> user list \<Rightarrow> user option \<times> user list" where
  "resolve_sender env now ws bt sender us = (case filled sender of
     None \<Rightarrow> (None, us)
   | Some u \<Rightarrow> (case findBySlackIdentity us ws u of
       Some m \<Rightarrow> (Some m, us)
     | None \<Rightarrow> if se_provisions env
         then (let (m, us') = upsertFromSlack (se_userId env (length us)) now (sender_input env ws bt u) us in (Some m, us'))
         else (None, us)))"

text \<open>One turn in each of the threads that have a key.\<close>

fun record_turns ::
  "slack_event_env \<Rightarrow> time \<Rightarrow> uuid \<Rightarrow> string option list \<Rightarrow> uuid option \<Rightarrow> message_role \<Rightarrow> string \<Rightarrow> message_row list \<Rightarrow> message_row list" where
  "record_turns env now ws [] user role text rows = rows"
| "record_turns env now ws (k # ks) user role text rows = record_turns env now ws ks user role text
     (case filled k of None \<Rightarrow> rows
      | Some thread \<Rightarrow> appendTurn (se_turnsUp env) (se_messageId env (length rows)) now ws thread user role text rows)"

definition slack_options :: "conversation_turn list \<Rightarrow> string option \<Rightarrow> string option \<Rightarrow> run_options" where
  "slack_options history memory branch = \<lparr>op_model = None, op_taskId = None, op_sourceName = Some ''slack'',
     op_confirmVia = Some BUTTONS, op_history = history, op_conversationId = memory, op_branchConversationId = branch\<rparr>"

definition pending_for ::
  "uuid \<Rightarrow> user option \<Rightarrow> string \<Rightarrow> string \<Rightarrow> string \<Rightarrow> string option \<Rightarrow> string \<Rightarrow> pending_action \<Rightarrow> pending_approval" where
  "pending_for ws member sender teamId channel threadTs answer pa =
    \<lparr>pg_workspaceId = ws, pg_requesterUserId = map_option u_id member, pg_requesterSlackId = sender,
     pg_requesterName = (case member of Some m \<Rightarrow> u_name m | None \<Rightarrow> ''the requester''), pg_teamId = teamId, pg_channel = channel,
     pg_threadTs = threadTs, pg_messageTs = [], pg_toolName = pn_tool pa, pg_input = pn_input pa, pg_label = pn_label pa, pg_answer = answer\<rparr>"

text \<open>A card with buttons for a pending change; \<open>False\<close> when something throws.\<close>

definition ask_approval ::
  "slack_event_env \<Rightarrow> time \<Rightarrow> string \<Rightarrow> pending_approval \<Rightarrow> slack_world \<Rightarrow> bool \<times> slack_world" where
  "ask_approval env now bt p w =
    (if \<not> se_storeUp env then (False, w)
     else let token = se_token env (length (sw_calls w));
              (ts, w1) = post_chat env bt (pg_channel p) (pg_answer p) (pg_threadTs p)
                 (Some (buildApprovalBlocks (pg_answer p) token (pg_label p))) (on_kv (storePending token p now) w)
          in (case filled ts of None \<Rightarrow> (True, w1)
              | Some posted \<Rightarrow> if \<not> se_patchUp env then (False, w1)
                  else (let (r, kv') = attachMessageTs token posted now (sv_kv (sw_service w1)) in (r = Inr (), on_kv (\<lambda>_. kv') w1))))"

definition NO_ANSWER :: string where
  "NO_ANSWER = ''I couldn't come up with a response to that.''"

definition APOLOGY :: string where
  "APOLOGY = '':warning: Sorry, something went wrong handling that. Please try again.''"

text \<open>The run of a prompt: as the member the sender is, with the turns of the conversation so far, and buttons for changes.\<close>

definition prompt_run ::
  "slack_event_env \<Rightarrow> time \<Rightarrow> workspace \<Rightarrow> string \<Rightarrow> string \<Rightarrow> slack_message_event \<Rightarrow> string \<Rightarrow> slack_world
     \<Rightarrow> ai_run_result result \<times> service_world" where
  "prompt_run env now t bt channel m prompt w =
    (let (memory, branch) = conversationKeys m channel; (member, us) = resolve_sender env now (w_id t) bt (sm_user m) (sw_users w);
         history = (case filled memory of None \<Rightarrow> []
            | Some thread \<Rightarrow> getThread (se_historyUp env) (w_id t) thread HISTORY_TURN_LIMIT (sw_turns w))
     in ai_run (with_members us (se_pageCount env bt) (se_service env)) now (w_id t) (map_option u_id member) prompt
          (slack_options history memory branch) (sw_service w))"

text \<open>The inside of the \<open>try\<close>; \<open>False\<close> when it throws.\<close>

definition answer_prompt ::
  "slack_event_env \<Rightarrow> time \<Rightarrow> workspace \<Rightarrow> string \<Rightarrow> string \<Rightarrow> string \<Rightarrow> slack_message_event \<Rightarrow> string \<Rightarrow> slack_world \<Rightarrow> bool \<times> slack_world" where
  "answer_prompt env now t bt teamId channel m prompt w =
    (let ws = w_id t; threadTs = coalesce (sm_thread_ts m) (sm_ts m); (memory, branch) = conversationKeys m channel;
         (member, us) = resolve_sender env now ws bt (sm_user m) (sw_users w);
         (res, sv) = prompt_run env now t bt channel m prompt w;
         w2 = w\<lparr>sw_users := us, sw_turns := record_turns env now ws [memory, branch] (map_option u_id member) USER_TURN prompt (sw_turns w),
                sw_service := sv\<rparr>
     in case res of
          Inl e \<Rightarrow> (False, w2)
        | Inr r \<Rightarrow>
           (let answer = (if an_answer r = [] then NO_ANSWER else an_answer r);
                w3 = (if an_answer r = [] then w2
                  else w2\<lparr>sw_turns := record_turns env now ws [memory, branch] None ASSISTANT_TURN (an_answer r) (sw_turns w2)\<rparr>)
            in case (an_pendingAction r, filled (sm_user m)) of
                 (Some pa, Some sender) \<Rightarrow> ask_approval env now bt (pending_for ws member sender teamId channel threadTs answer pa) w3
               | _ \<Rightarrow> (True, snd (post_chat env bt channel answer threadTs None w3))))"

definition with_reaction :: "(string \<Rightarrow> slack_call) \<Rightarrow> string option \<Rightarrow> slack_world \<Rightarrow> slack_world" where
  "with_reaction f ts w = (case filled ts of None \<Rightarrow> w | Some i \<Rightarrow> call_slack (f i) w)"

text \<open>A message of a team with a bot: the reaction, the answer or the apology, and the reaction removed.\<close>

definition attend ::
  "slack_event_env \<Rightarrow> time \<Rightarrow> workspace \<Rightarrow> string \<Rightarrow> string \<Rightarrow> string \<Rightarrow> slack_message_event \<Rightarrow> string \<Rightarrow> slack_world \<Rightarrow> slack_world" where
  "attend env now t bt teamId channel m prompt w =
    (let w1 = with_reaction (\<lambda>ts. AddReaction bt channel ts PROCESSING_REACTION) (sm_ts m) w;
         (ok, w2) = answer_prompt env now t bt teamId channel m prompt w1;
         w3 = (if ok then w2 else snd (post_chat env bt channel APOLOGY (coalesce (sm_thread_ts m) (sm_ts m)) None w2))
     in with_reaction (\<lambda>ts. RemoveReaction bt channel ts PROCESSING_REACTION) (sm_ts m) w3)"

text \<open>The workspace and the bot token a team's requests are served with.\<close>

definition team_bot :: "workspace list \<Rightarrow> string \<Rightarrow> (workspace \<times> string) option" where
  "team_bot wss teamId = (case findBySlackTeamId wss teamId of None \<Rightarrow> None
     | Some t \<Rightarrow> map_option (Pair t) (filled (w_slackBotToken t)))"

text \<open>Where a message is answered: the team, the channel, the prompt, the workspace and its bot.\<close>

definition message_target ::
  "workspace list \<Rightarrow> string option \<Rightarrow> slack_message_event \<Rightarrow> (string \<times> string \<times> string \<times> workspace \<times> string) option" where
  "message_target wss team m = (if \<not> isHandledMessage m then None
     else (let prompt = cleanText (case sm_text m of Some x \<Rightarrow> x | None \<Rightarrow> []) in
       case (filled team, filled (sm_channel m)) of
         (Some teamId, Some channel) \<Rightarrow> if prompt = [] then None
            else map_option (\<lambda>(t, bt). (teamId, channel, prompt, t, bt)) (team_bot wss teamId)
       | _ \<Rightarrow> None))"

definition handle_message ::
  "slack_event_env \<Rightarrow> time \<Rightarrow> string option \<Rightarrow> slack_message_event \<Rightarrow> slack_world \<Rightarrow> slack_world" where
  "handle_message env now team m w = (case message_target (sv_workspaces (sw_service w)) team m of None \<Rightarrow> w
     | Some (teamId, channel, prompt, t, bt) \<Rightarrow> attend env now t bt teamId channel m prompt w)"

definition handleTeamJoin :: "slack_event_env \<Rightarrow> string option \<Rightarrow> slack_joiner option \<Rightarrow> slack_world \<Rightarrow> slack_world" where
  "handleTeamJoin env team joiner w = (case joiner of None \<Rightarrow> w
   | Some u \<Rightarrow> if jn_id u = [] \<or> jn_is_bot u \<or> jn_deleted u then w
     else (case filled (coalesce team (jn_team_id u)) of None \<Rightarrow> w
       | Some teamId \<Rightarrow> (case team_bot (sv_workspaces (sw_service w)) teamId of None \<Rightarrow> w
         | Some (t, bt) \<Rightarrow> deliver_chat env bt (jn_id u)
             (buildWelcomeMessage (filled (Some (first_truthy [jn_display_name u, jn_real_name u, jn_name u] []))) False) w)))"

text \<open>Whether an event was seen before, and the note that it was seen now.\<close>

definition repeated :: "event_envelope \<Rightarrow> slack_world \<Rightarrow> bool" where
  "repeated e w = (case filled (ev_event_id e) of Some i \<Rightarrow> i \<in> set (sw_seen w) | None \<Rightarrow> False)"

definition note_event :: "event_envelope \<Rightarrow> slack_world \<Rightarrow> slack_world" where
  "note_event e w = (case filled (ev_event_id e) of Some i \<Rightarrow> w\<lparr>sw_seen := rememberEventId i (sw_seen w)\<rparr> | None \<Rightarrow> w)"

definition handleEventCallback :: "slack_event_env \<Rightarrow> time \<Rightarrow> event_envelope \<Rightarrow> slack_world \<Rightarrow> slack_world" where
  "handleEventCallback env now e w = (case ev_event e of None \<Rightarrow> w
   | Some event \<Rightarrow> if repeated e w then w
      else (case event of TeamJoin u \<Rightarrow> handleTeamJoin env (ev_team_id e) u (note_event e w)
        | MessageEvent m \<Rightarrow> handle_message env now (ev_team_id e) m (note_event e w)))"

section \<open>The webhooks\<close>

datatype slack_reply = Challenge "string option" | Acknowledged

text \<open>A request: headers, the raw body, and the body as the framework decoded it.\<close>

record 'b slack_request =
  rq_signature :: "string option"
  rq_timestamp :: "string option"
  rq_rawBody :: "string option"
  rq_body :: 'b

definition signed_request ::
  "(string \<Rightarrow> string \<Rightarrow> string) \<Rightarrow> string \<Rightarrow> time \<Rightarrow> 'b slack_request \<Rightarrow> unit result" where
  "signed_request hmac secret now q = (case rq_rawBody q of
     None \<Rightarrow> Inl (BadRequest ''Missing request body'')
   | Some raw \<Rightarrow> if slack_signature_ok hmac secret now (rq_signature q) (rq_timestamp q) raw then Inr ()
       else Inl (Unauthorized ''Invalid Slack signature''))"

definition handleEvents ::
  "(string \<Rightarrow> string \<Rightarrow> string) \<Rightarrow> string \<Rightarrow> slack_event_env \<Rightarrow> time \<Rightarrow> event_envelope slack_request \<Rightarrow> slack_world
     \<Rightarrow> slack_reply result \<times> slack_world" where
  "handleEvents hmac secret env now q w = (case signed_request hmac secret now q of
     Inl e \<Rightarrow> (Inl e, w)
   | Inr _ \<Rightarrow> (let e = rq_body q in
       if ev_type e = ''url_verification'' then (Inr (Challenge (ev_challenge e)), w)
       else (Inr Acknowledged, if ev_type e = ''event_callback'' then handleEventCallback env now e w else w)))"

text \<open>A click over the world of the assistant: its Redis, its ad accounts, and what is said on Slack.\<close>

definition meta_of :: "slack_world \<Rightarrow> meta_world" where
  "meta_of w = aw_meta (gw_ads (sv_agent (sw_service w)))"

definition set_meta :: "meta_world \<Rightarrow> agent_world \<Rightarrow> agent_world" where
  "set_meta x a = set_ads ((gw_ads a)\<lparr>aw_meta := x\<rparr>) a"

fun slack_call_of :: "slack_out \<Rightarrow> slack_call" where
  "slack_call_of (Ephemeral url text) = PrivateNote url text"
| "slack_call_of (UpdateMessage bt channel ts text footer) = ChatUpdate bt channel ts text (buildResolvedBlocks text footer)"
| "slack_call_of (PostMessage bt channel text threadTs) = ChatPost bt channel text (filled threadTs) None"

definition handle_click :: "slack_event_env \<Rightarrow> time \<Rightarrow> click \<Rightarrow> slack_world \<Rightarrow> slack_world" where
  "handle_click env now c w =
    (let ads = ag_ads (vi_agent (se_service env)); sv = sw_service w;
         st = handleInteraction (sv_workspaces sv) (ae_oauth ads) (ae_graph ads) now c \<lparr>av_kv = sv_kv sv, av_world = meta_of w, av_out = []\<rparr>
     in w\<lparr>sw_service := sv\<lparr>sv_kv := av_kv st, sv_agent := set_meta (av_world st) (sv_agent sv)\<rparr>,
          sw_calls := sw_calls w @ map slack_call_of (av_out st)\<rparr>)"

text \<open>\<open>payload.actions?.[0]\<close> and the other parts of a payload that is an object.\<close>

definition click_of :: "jsval \<Rightarrow> click" where
  "click_of v = (let action = (case arr_of (get_prop v ''actions'') of Some (a # as) \<Rightarrow> a | _ \<Rightarrow> JUndef);
       prop = (\<lambda>x k. if is_nullish x then None else opt_str (get_prop x k))
     in \<lparr>ck_type = prop v ''type'', ck_actionId = prop action ''action_id'', ck_value = prop action ''value'',
         ck_userId = prop (get_prop v ''user'') ''id'', ck_userName = prop (get_prop v ''user'') ''name'',
         ck_username = prop (get_prop v ''user'') ''username'', ck_responseUrl = prop v ''response_url''\<rparr>)"

definition handleInteractions ::
  "(string \<Rightarrow> string \<Rightarrow> string) \<Rightarrow> string \<Rightarrow> slack_event_env \<Rightarrow> time \<Rightarrow> string option slack_request \<Rightarrow> slack_world
     \<Rightarrow> slack_reply result \<times> slack_world" where
  "handleInteractions hmac secret env now q w = (case signed_request hmac secret now q of
     Inl e \<Rightarrow> (Inl e, w)
   | Inr _ \<Rightarrow> (case filled (rq_body q) of
       None \<Rightarrow> (Inr Acknowledged, w)
     | Some raw \<Rightarrow> (case json_parse raw of
         None \<Rightarrow> (Inl (BadRequest ''Invalid interaction payload''), w)
       | Some v \<Rightarrow> (Inr Acknowledged, if is_nullish v then w else handle_click env now (click_of v) w))))"

end
