(* ===== verification/SlackEventFacts.thy ===== *)
theory SlackEventFacts
  imports SlackEvents AiServiceFacts
begin

text \<open>
  What holds of the Slack side: whatever is sent to the webhooks, an ad account changes only by an approval of
  the member who asked; an event is handled once; a sender becomes a member but never more than that; every
  message that is taken on is answered; and a card always has the change it describes behind it.
\<close>

section \<open>What the calls of Slack leave alone\<close>

definition ad_log :: "slack_world \<Rightarrow> meta_log" where
  "ad_log w = writes (mw_sent (meta_of w))"

lemma ad_log_agent: "ad_log w = ad_writes (sv_agent (sw_service w))"
  by (simp add: ad_log_def meta_of_def ad_writes_def)

named_theorems slack_simps

lemma call_slack_sel [slack_simps, simp]:
  "sw_seen (call_slack c w) = sw_seen w" "sw_users (call_slack c w) = sw_users w" "sw_turns (call_slack c w) = sw_turns w"
  "sw_service (call_slack c w) = sw_service w" "sw_calls (call_slack c w) = sw_calls w @ [c]"
  by (simp_all add: call_slack_def)

lemma post_chat_sel [slack_simps, simp]:
  "sw_seen (snd (post_chat env bt ch text th bl w)) = sw_seen w" "sw_users (snd (post_chat env bt ch text th bl w)) = sw_users w"
  "sw_service (snd (post_chat env bt ch text th bl w)) = sw_service w"
  "sw_calls (snd (post_chat env bt ch text th bl w)) = sw_calls w @ [ChatPost bt ch text (filled th) bl]"
  by (simp_all add: post_chat_def Let_def)

lemma on_kv_sel [slack_simps, simp]:
  "sw_seen (on_kv f w) = sw_seen w" "sw_users (on_kv f w) = sw_users w" "sw_calls (on_kv f w) = sw_calls w"
  "sv_kv (sw_service (on_kv f w)) = f (sv_kv (sw_service w))" "sv_agent (sw_service (on_kv f w)) = sv_agent (sw_service w)"
  "sv_workspaces (sw_service (on_kv f w)) = sv_workspaces (sw_service w)"
  by (simp_all add: on_kv_def)

lemma with_reaction_sel [slack_simps, simp]:
  "sw_seen (with_reaction f ts w) = sw_seen w" "sw_users (with_reaction f ts w) = sw_users w"
  "sw_service (with_reaction f ts w) = sw_service w"
  "sw_calls (with_reaction f ts w) = sw_calls w @ (case filled ts of None \<Rightarrow> [] | Some i \<Rightarrow> [f i])"
  by (simp_all add: with_reaction_def split: option.split)

lemma deliver_chat_sel [slack_simps, simp]:
  "sw_seen (deliver_chat env bt d text w) = sw_seen w" "sw_users (deliver_chat env bt d text w) = sw_users w"
  "sw_service (deliver_chat env bt d text w) = sw_service w"
  by (simp_all add: deliver_chat_def Let_def split: option.split)

section \<open>The parts of an answer\<close>

text \<open>What asking for an approval does: it may store the change, and posts at most one card for it.\<close>

lemma ask_approval_cases:
  assumes "ask_approval env now bt p w = (ok, w')"
  obtains (down) "\<not> ok" "w' = w"
  | (asked) token ts kv' where "sw_calls w' = sw_calls w @ [ChatPost bt (pg_channel p) (pg_answer p) (filled (pg_threadTs p))
        (Some (buildApprovalBlocks (pg_answer p) token (pg_label p)))]"
      "sw_seen w' = sw_seen w" "sw_users w' = sw_users w" "sw_turns w' = sw_turns w" "sw_service w' = (sw_service w)\<lparr>sv_kv := kv'\<rparr>"
      "kv' = storePending token p now (sv_kv (sw_service w))
        \<or> kv' = snd (attachMessageTs token ts now (storePending token p now (sv_kv (sw_service w))))"
proof (cases "se_storeUp env")
  case False
  with assms down show thesis by (simp add: ask_approval_def)
next
  case True
  let ?token = "se_token env (length (sw_calls w))"
  obtain ts w1 where c: "post_chat env bt (pg_channel p) (pg_answer p) (pg_threadTs p)
      (Some (buildApprovalBlocks (pg_answer p) ?token (pg_label p))) (on_kv (storePending ?token p now) w) = (ts, w1)" by fastforce
  then have w1: "w1 = call_slack (ChatPost bt (pg_channel p) (pg_answer p) (filled (pg_threadTs p))
      (Some (buildApprovalBlocks (pg_answer p) ?token (pg_label p)))) (on_kv (storePending ?token p now) w)"
    by (auto simp: post_chat_def Let_def)
  show thesis
  proof (cases "filled ts = None \<or> \<not> se_patchUp env")
    case True
    with assms c \<open>se_storeUp env\<close> have "w' = w1" by (auto simp: ask_approval_def split: option.splits)
    with w1 show thesis
      by (intro asked[of ?token "storePending ?token p now (sv_kv (sw_service w))"]) (auto simp: on_kv_def call_slack_def)
  next
    case False
    then obtain posted where t: "filled ts = Some posted" "se_patchUp env" by auto
    obtain r kv' where a: "attachMessageTs ?token posted now (sv_kv (sw_service w1)) = (r, kv')" by fastforce
    from assms c t a \<open>se_storeUp env\<close> have "w' = on_kv (\<lambda>_. kv') w1" by (simp add: ask_approval_def)
    with w1 a show thesis
      by (intro asked[of ?token kv' posted]) (auto simp: on_kv_def call_slack_def)
  qed
qed

text \<open>An answer: the sender resolved, the run, and at most one post.\<close>

lemma prompt_run_reads:
  assumes "prompt_run env now t bt channel m prompt w = (res, sv)"
  shows "ad_writes (sv_agent sv) = ad_writes (sv_agent (sw_service w))"
proof -
  have b: "op_confirmVia (slack_options h k l) = Some BUTTONS" for h k l by (simp add: slack_options_def)
  from assms show ?thesis
    by (auto simp: prompt_run_def Let_def split: prod.splits intro: run_with_buttons_only_reads[OF _ b])
qed

lemma answer_prompt_cases:
  assumes "answer_prompt env now t bt teamId channel m prompt w = (ok, w')"
  obtains member us w1 res sv where
    "resolve_sender env now (w_id t) bt (sm_user m) (sw_users w) = (member, us)" "prompt_run env now t bt channel m prompt w = (res, sv)"
    "sw_service w1 = sv" "sw_users w1 = us" "sw_seen w1 = sw_seen w" "sw_calls w1 = sw_calls w"
    "(\<exists>e. res = Inl e) \<and> \<not> ok \<and> w' = w1
     \<or> (\<exists>r answer. res = Inr r \<and> ok \<and> w' = snd (post_chat env bt channel answer (coalesce (sm_thread_ts m) (sm_ts m)) None w1))
     \<or> (\<exists>r answer pa sender. res = Inr r \<and> an_pendingAction r = Some pa \<and> filled (sm_user m) = Some sender
          \<and> ask_approval env now bt (pending_for (w_id t) member sender teamId channel (coalesce (sm_thread_ts m) (sm_ts m)) answer pa) w1 = (ok, w'))"
proof -
  let ?ws = "w_id t"
  obtain memory branch where k: "conversationKeys m channel = (memory, branch)" by fastforce
  obtain member us where s: "resolve_sender env now ?ws bt (sm_user m) (sw_users w) = (member, us)" by fastforce
  obtain res sv where r: "prompt_run env now t bt channel m prompt w = (res, sv)" by fastforce
  define w2 where "w2 = w\<lparr>sw_users := us, sw_turns := record_turns env now ?ws [memory, branch] (map_option u_id member) USER_TURN prompt (sw_turns w),
      sw_service := sv\<rparr>"
  define w3 where "w3 = (case res of Inl e \<Rightarrow> w2 | Inr r \<Rightarrow> if an_answer r = [] then w2
     else w2\<lparr>sw_turns := record_turns env now ?ws [memory, branch] None ASSISTANT_TURN (an_answer r) (sw_turns w2)\<rparr>)"
  have w3: "sw_service w3 = sv" "sw_users w3 = us" "sw_seen w3 = sw_seen w" "sw_calls w3 = sw_calls w"
    by (simp_all add: w3_def w2_def split: sum.split)
  have d: "(case res of Inl e \<Rightarrow> (False, w3)
     | Inr r \<Rightarrow> let answer = (if an_answer r = [] then NO_ANSWER else an_answer r) in
         case (an_pendingAction r, filled (sm_user m)) of
           (Some pa, Some sender) \<Rightarrow> ask_approval env now bt (pending_for ?ws member sender teamId channel (coalesce (sm_thread_ts m) (sm_ts m)) answer pa) w3
         | _ \<Rightarrow> (True, snd (post_chat env bt channel answer (coalesce (sm_thread_ts m) (sm_ts m)) None w3))) = (ok, w')"
    using assms unfolding answer_prompt_def Let_def k s r prod.case w2_def[symmetric]
    by (cases res; cases "\<exists>x. res = Inr x \<and> an_answer x = []")
      (auto simp: w3_def simp del: record_turns.simps cong: option.case_cong)
  show thesis
  proof (rule that[OF s r w3])
    show "(\<exists>e. res = Inl e) \<and> \<not> ok \<and> w' = w3
     \<or> (\<exists>r answer. res = Inr r \<and> ok \<and> w' = snd (post_chat env bt channel answer (coalesce (sm_thread_ts m) (sm_ts m)) None w3))
     \<or> (\<exists>r answer pa sender. res = Inr r \<and> an_pendingAction r = Some pa \<and> filled (sm_user m) = Some sender
          \<and> ask_approval env now bt (pending_for (w_id t) member sender teamId channel (coalesce (sm_thread_ts m) (sm_ts m)) answer pa) w3 = (ok, w'))"
      using d by (cases res) (auto simp: Let_def split: option.splits)
  qed
qed

lemma answer_prompt_keeps:
  assumes "answer_prompt env now t bt teamId channel m prompt w = (ok, w')"
  shows "sw_seen w' = sw_seen w" "ad_log w' = ad_log w"
    "sw_users w' = snd (resolve_sender env now (w_id t) bt (sm_user m) (sw_users w))"
  using assms
proof (atomize (full), cases rule: answer_prompt_cases)
  case (1 member us w1 res sv)
  have ads: "ad_log w1 = ad_log w"
    using prompt_run_reads[OF 1(2)] 1(3) by (simp add: ad_log_agent)
  from 1(7) consider "w' = w1" | answer where "w' = snd (post_chat env bt channel answer (coalesce (sm_thread_ts m) (sm_ts m)) None w1)"
    | p where "ask_approval env now bt p w1 = (ok, w')" by blast
  then have "sw_seen w' = sw_seen w1 \<and> ad_log w' = ad_log w1 \<and> sw_users w' = sw_users w1"
  proof cases
    case (3 p)
    then show ?thesis by (cases rule: ask_approval_cases) (auto simp: ad_log_agent)
  qed (simp_all add: ad_log_agent)
  with 1(1,4,5) ads show "sw_seen w' = sw_seen w \<and> ad_log w' = ad_log w
    \<and> sw_users w' = snd (resolve_sender env now (w_id t) bt (sm_user m) (sw_users w))" by simp
qed

lemma attend_keeps:
  "sw_seen (attend env now t bt teamId channel m prompt w) = sw_seen w"
  "ad_log (attend env now t bt teamId channel m prompt w) = ad_log w"
  "sw_users (attend env now t bt teamId channel m prompt w) = snd (resolve_sender env now (w_id t) bt (sm_user m) (sw_users w))"
proof (atomize (full))
  let ?w1 = "with_reaction (\<lambda>ts. AddReaction bt channel ts PROCESSING_REACTION) (sm_ts m) w"
  obtain ok w2 where a: "answer_prompt env now t bt teamId channel m prompt ?w1 = (ok, w2)" by fastforce
  from answer_prompt_keeps[OF a] a show "sw_seen (attend env now t bt teamId channel m prompt w) = sw_seen w
    \<and> ad_log (attend env now t bt teamId channel m prompt w) = ad_log w
    \<and> sw_users (attend env now t bt teamId channel m prompt w) = snd (resolve_sender env now (w_id t) bt (sm_user m) (sw_users w))"
    by (auto simp: attend_def Let_def ad_log_agent)
qed

lemma handle_message_keeps:
  "sw_seen (handle_message env now team m w) = sw_seen w" "ad_log (handle_message env now team m w) = ad_log w"
  by (simp_all add: handle_message_def attend_keeps split: option.split)

lemma team_join_keeps:
  "sw_seen (handleTeamJoin env team u w) = sw_seen w" "ad_log (handleTeamJoin env team u w) = ad_log w"
  "sw_users (handleTeamJoin env team u w) = sw_users w"
  by (simp_all add: handleTeamJoin_def ad_log_agent split: option.split)

lemma note_event_sel [simp]:
  "sw_users (note_event e w) = sw_users w" "sw_service (note_event e w) = sw_service w" "sw_calls (note_event e w) = sw_calls w"
  "sw_turns (note_event e w) = sw_turns w"
  by (simp_all add: note_event_def split: option.split)

lemma event_reads: "ad_log (handleEventCallback env now e w) = ad_log w"
  by (simp add: handleEventCallback_def handle_message_keeps team_join_keeps split: option.split slack_event.split) (simp add: ad_log_agent)

section \<open>Who changes an ad account\<close>

datatype webhook = EventsRequest "event_envelope slack_request" | InteractionsRequest "string option slack_request"

text \<open>Requests to the webhooks, each in surroundings of its own.\<close>

fun serve_slack ::
  "(string \<Rightarrow> string \<Rightarrow> string) \<Rightarrow> string \<Rightarrow> slack_event_env \<times> time \<times> webhook \<Rightarrow> slack_world \<Rightarrow> slack_world" where
  "serve_slack hmac secret (env, now, EventsRequest q) w = snd (handleEvents hmac secret env now q w)"
| "serve_slack hmac secret (env, now, InteractionsRequest q) w = snd (handleInteractions hmac secret env now q w)"

fun serve_slack_all ::
  "(string \<Rightarrow> string \<Rightarrow> string) \<Rightarrow> string \<Rightarrow> (slack_event_env \<times> time \<times> webhook) list \<Rightarrow> slack_world \<Rightarrow> slack_world" where
  "serve_slack_all hmac secret [] w = w"
| "serve_slack_all hmac secret (r # rs) w = serve_slack_all hmac secret rs (serve_slack hmac secret r w)"

text \<open>A signed click on Approve of an open approval, by the member who asked for it.\<close>

definition approves ::
  "(string \<Rightarrow> string \<Rightarrow> string) \<Rightarrow> string \<Rightarrow> slack_world \<Rightarrow> slack_event_env \<times> time \<times> webhook \<Rightarrow> bool" where
  "approves hmac secret w r = (case r of
      (env, now, InteractionsRequest q) \<Rightarrow> signed_request hmac secret now q = Inr () \<and>
        (\<exists>raw v token p. rq_body q = Some raw \<and> json_parse raw = Some v \<and> ck_actionId (click_of v) = Some APPROVE_ACTION_ID
           \<and> ck_value (click_of v) = Some token \<and> approvals_abs (sv_kv (sw_service w)) token now = Some p \<and> by_requester (click_of v) p)
    | _ \<Rightarrow> False)"

lemma meta_of_click:
  "meta_of (handle_click env now c w) = av_world (handleInteraction (sv_workspaces (sw_service w)) (ae_oauth (ag_ads (vi_agent (se_service env))))
     (ae_graph (ag_ads (vi_agent (se_service env)))) now c \<lparr>av_kv = sv_kv (sw_service w), av_world = meta_of w, av_out = []\<rparr>)"
  by (simp add: handle_click_def Let_def meta_of_def set_meta_def gw_sets)

lemma click_changes:
  assumes "ad_log (handle_click env now c w) \<noteq> ad_log w"
  shows "\<exists>token p. ck_actionId c = Some APPROVE_ACTION_ID \<and> ck_value c = Some token
    \<and> approvals_abs (sv_kv (sw_service w)) token now = Some p \<and> by_requester c p"
proof -
  let ?d = "decide_click (sv_workspaces (sw_service w)) now c (sv_kv (sw_service w))"
  from assms have "meta_of (handle_click env now c w) \<noteq> meta_of w" by (auto simp: ad_log_def)
  then obtain p where "acts_on ?d = Some (True, p)"
    unfolding meta_of_click by (auto simp: handleInteraction_def finish_world split: option.splits if_splits bool.splits)
  then obtain token bt who where d: "?d = Approve token bt p who" by (cases ?d) auto
  with decide_acts[OF disjI1[OF d]] decide_approve[OF d] show ?thesis
    by (auto simp: approvals_abs_def by_requester_def)
qed

lemma request_changes:
  assumes "ad_log (serve_slack hmac secret r w) \<noteq> ad_log w"
  shows "approves hmac secret w r"
proof -
  obtain env now h where r: "r = (env, now, h)" by (cases r) auto
  show ?thesis
  proof (cases h)
    case (EventsRequest q)
    with assms r show ?thesis by (auto simp: handleEvents_def Let_def event_reads split: sum.splits if_splits)
  next
    case (InteractionsRequest q)
    with assms r obtain raw v where q: "signed_request hmac secret now q = Inr ()" "filled (rq_body q) = Some raw" "json_parse raw = Some v"
      "ad_log (handle_click env now (click_of v) w) \<noteq> ad_log w"
      by (auto simp: handleInteractions_def split: sum.splits option.splits if_splits)
    moreover from q(2) have "rq_body q = Some raw" by (auto simp: filled_def split: option.splits list.splits)
    ultimately show ?thesis using click_changes[OF q(4)] r InteractionsRequest by (auto simp: approves_def)
  qed
qed

text \<open>C5: Nothing that is said to the assistant on Slack changes an ad account: over any sequence of requests to its webhooks,
  whatever the model does and whatever Meta answers, the changes asked of Meta stay the same unless one of the
  requests was a signed click on the Approve button of an approval open at that moment, made by the very
  member who had asked for it.\<close>

theorem only_approvals_change_ads:
  assumes "ad_log (serve_slack_all hmac secret rs w) \<noteq> ad_log w"
  shows "\<exists>before r after. rs = before @ r # after \<and> approves hmac secret (serve_slack_all hmac secret before w) r"
  using assms
proof (induction rs arbitrary: w)
  case (Cons r rs)
  show ?case
  proof (cases "ad_log (serve_slack hmac secret r w) = ad_log w")
    case True
    with Cons.prems have "ad_log (serve_slack_all hmac secret rs (serve_slack hmac secret r w)) \<noteq> ad_log (serve_slack hmac secret r w)" by simp
    from Cons.IH[OF this] obtain bs r' as where "rs = bs @ r' # as"
      "approves hmac secret (serve_slack_all hmac secret bs (serve_slack hmac secret r w)) r'" by blast
    then show ?thesis by (intro exI[of _ "r # bs"] exI[of _ r'] exI[of _ as]) simp
  next
    case False
    from request_changes[OF this] show ?thesis by (intro exI[of _ "[]"] exI[of _ r] exI[of _ rs]) simp
  qed
qed simp

section \<open>Each event once\<close>

definition seen_by :: "event_envelope \<Rightarrow> string list \<Rightarrow> string list" where
  "seen_by e seen = (case (ev_event e, filled (ev_event_id e)) of
      (Some _, Some i) \<Rightarrow> if i \<in> set seen then seen else rememberEventId i seen | _ \<Rightarrow> seen)"

lemma event_seen: "sw_seen (handleEventCallback env now e w) = seen_by e (sw_seen w)"
  by (auto simp: handleEventCallback_def repeated_def note_event_def seen_by_def handle_message_keeps team_join_keeps split: option.split slack_event.split)

text \<open>The window: \<open>i\<close> is in it with at most \<open>k\<close> younger ids.\<close>

definition younger :: "nat \<Rightarrow> string \<Rightarrow> string list \<Rightarrow> bool" where
  "younger k i seen \<longleftrightarrow> (\<exists>old new. seen = old @ i # new \<and> length new \<le> k)"

lemma younger_remember:
  assumes "younger k i seen" "k < SEEN_LIMIT - 1"
  shows "younger (Suc k) i (seen_by e seen)"
proof -
  from assms(1) obtain old new where s: "seen = old @ i # new" "length new \<le> k" by (auto simp: younger_def)
  have "younger (Suc k) i (rememberEventId j seen)" if "j \<notin> set seen" for j
  proof (cases old)
    case Nil
    with s that assms(2) have "rememberEventId j seen = i # (new @ [j])" by (simp add: rememberEventId_def Let_def SEEN_LIMIT_def)
    with s(2) show ?thesis unfolding younger_def by (intro exI[of _ "[]"] exI[of _ "new @ [j]"]) simp
  next
    case (Cons a old')
    have "rememberEventId j seen = (a # old') @ i # (new @ [j]) \<or> rememberEventId j seen = old' @ i # (new @ [j])"
      using that by (simp add: rememberEventId_def Let_def s(1) Cons)
    with s(2) show ?thesis unfolding younger_def by (metis Suc_le_mono length_append_singleton)
  qed
  moreover have "younger (Suc k) i seen" using s unfolding younger_def by (intro exI[of _ old] exI[of _ new]) simp
  ultimately show ?thesis by (auto simp: seen_by_def split: option.split)
qed

lemma in_set_tail: "x \<in> set (tl xs) \<Longrightarrow> x \<in> set xs"
  by (cases xs) simp_all

lemma seen_by_bounded: "length seen \<le> SEEN_LIMIT \<Longrightarrow> [] \<notin> set seen \<Longrightarrow> length (seen_by e seen) \<le> SEEN_LIMIT \<and> [] \<notin> set (seen_by e seen)"
  by (cases seen) (auto simp: seen_by_def rememberEventId_def Let_def filled_def SEEN_LIMIT_def split: option.splits list.splits dest: in_set_tail)

fun serve_events :: "(slack_event_env \<times> time \<times> event_envelope) list \<Rightarrow> slack_world \<Rightarrow> slack_world" where
  "serve_events [] w = w"
| "serve_events ((env, now, e) # es) w = serve_events es (handleEventCallback env now e w)"

definition window_ok :: "string list \<Rightarrow> bool" where
  "window_ok seen \<longleftrightarrow> length seen \<le> SEEN_LIMIT \<and> [] \<notin> set seen"

lemma window_events: "window_ok (sw_seen w) \<Longrightarrow> window_ok (sw_seen (serve_events es w))"
  by (induction es w rule: serve_events.induct) (simp_all add: window_ok_def event_seen seen_by_bounded)

lemma younger_events:
  "younger k i (sw_seen w) \<Longrightarrow> k + length es < SEEN_LIMIT \<Longrightarrow> younger (k + length es) i (sw_seen (serve_events es w))"
proof (induction es w arbitrary: k rule: serve_events.induct)
  case (2 env now e es w)
  then have "younger (Suc k) i (sw_seen (handleEventCallback env now e w))"
    unfolding event_seen by (intro younger_remember) simp_all
  from "2.IH"[OF this] "2.prems"(2) show ?case by simp
qed simp

lemma younger_fresh:
  assumes "i \<notin> set seen" "i \<noteq> []" "ev_event e \<noteq> None" "ev_event_id e = Some i"
  shows "younger 0 i (seen_by e seen)"
proof -
  from assms(2,4) have "filled (ev_event_id e) = Some i" by (auto simp: filled_def split: list.split)
  with assms show ?thesis
    by (cases seen) (auto simp: seen_by_def rememberEventId_def Let_def younger_def SEEN_LIMIT_def)
qed

text \<open>C32: Slack's retries do nothing: once an event was taken on, an event with the same id changes nothing and says nothing as
  long as fewer than a thousand other events have come in between, whatever they were; and the ids kept for
  this are never more than a thousand.\<close>

theorem events_handled_once:
  assumes "window_ok (sw_seen w)" and "i \<notin> set (sw_seen w)" and "ev_event_id e = Some i" and "i \<noteq> []" and "ev_event e \<noteq> None"
    and "length es < SEEN_LIMIT" and "ev_event_id e' = Some i"
  shows "let w' = serve_events es (handleEventCallback env now e w) in
    handleEventCallback env' now' e' w' = w' \<and> length (sw_seen w') \<le> SEEN_LIMIT"
proof -
  let ?w' = "serve_events es (handleEventCallback env now e w)"
  have "younger 0 i (sw_seen (handleEventCallback env now e w))"
    unfolding event_seen by (rule younger_fresh[OF assms(2,4,5,3)])
  from younger_events[OF this, of es] assms(6) have "younger (length es) i (sw_seen ?w')" by simp
  then have "i \<in> set (sw_seen ?w')" by (auto simp: younger_def)
  moreover have "filled (ev_event_id e') = Some i" using assms(4,7) by (auto simp: filled_def split: list.split)
  moreover have "window_ok (sw_seen ?w')"
    using window_events[of "handleEventCallback env now e w" es] assms(1) by (simp add: window_ok_def event_seen seen_by_bounded)
  ultimately show ?thesis by (auto simp: handleEventCallback_def repeated_def window_ok_def split: option.split)
qed

section \<open>Senders\<close>

definition knows_identity :: "uuid \<Rightarrow> string \<Rightarrow> user list \<Rightarrow> bool" where
  "knows_identity ws slackId us \<longleftrightarrow> (ws, slackId) \<in> slack_identity ` set us"

lemma sender_resolved:
  assumes "resolve_sender env now ws bt sender us = (member, us')"
  obtains (kept) "us' = us"
  | (joined) u where "us' = save_user u us" "member = Some u" "u_role u = MEMBER" "u_isActive u" "u_workspaceId u = ws"
      "filled sender = Some (u_slackUserId u)" "\<not> knows_identity ws (u_slackUserId u) us" "u_id u = se_userId env (length us)"
proof (cases "us' = us")
  case False
  with assms obtain u0 m where f: "filled sender = Some u0" "findBySlackIdentity us ws u0 = None"
    "upsertFromSlack (se_userId env (length us)) now (sender_input env ws bt u0) us = (m, us')" "member = Some m"
    by (auto simp: resolve_sender_def split: option.splits if_splits prod.splits)
  from f(2) have "(ws, u0) \<notin> slack_identity ` set us" by (simp add: findBySlackIdentity_None)
  with f show thesis
    by (intro joined[of m]) (auto simp: upsertFromSlack_def sender_input_def Let_def knows_identity_def)
qed (rule kept)

definition fresh_user_ids :: "slack_event_env \<Rightarrow> user list \<Rightarrow> bool" where
  "fresh_user_ids env us \<longleftrightarrow> se_userId env (length us) \<notin> u_id ` set us"

lemma event_users:
  obtains (kept) "sw_users (handleEventCallback env now e w) = sw_users w"
  | (joined) u where "sw_users (handleEventCallback env now e w) = save_user u (sw_users w)" "u_role u = MEMBER" "u_isActive u"
      "\<not> knows_identity (u_workspaceId u) (u_slackUserId u) (sw_users w)" "u_id u = se_userId env (length (sw_users w))"
proof (cases "sw_users (handleEventCallback env now e w) = sw_users w")
  case False
  then obtain m where "handleEventCallback env now e w = handle_message env now (ev_team_id e) m (note_event e w)"
    by (auto simp: handleEventCallback_def team_join_keeps split: option.splits slack_event.splits if_splits)
  moreover from this False obtain t bt teamId channel prompt where
    "handle_message env now (ev_team_id e) m (note_event e w) = attend env now t bt teamId channel m prompt (note_event e w)"
    by (auto simp: handle_message_def split: option.splits)
  ultimately have u: "sw_users (handleEventCallback env now e w) = snd (resolve_sender env now (w_id t) bt (sm_user m) (sw_users w))"
    by (simp add: attend_keeps)
  obtain member us' where r: "resolve_sender env now (w_id t) bt (sm_user m) (sw_users w) = (member, us')" by fastforce
  from r show thesis
  proof (cases rule: sender_resolved)
    case kept
    with u r False show ?thesis by simp
  next
    case (joined u')
    with u r show ?thesis by (intro that(2)[of u']) simp_all
  qed
qed (rule that(1))

text \<open>Writing to the assistant never promotes anyone: an event leaves every row of the members as it is and adds at most one,
  for a Slack identity the workspace did not know, as an active member without administrator's rights; so
  the table stays sound and no administrator appears.\<close>

theorem senders_join_as_members:
  assumes "users_wf (sw_users w)" and "fresh_user_ids env (sw_users w)" and "us' = sw_users (handleEventCallback env now e w)"
  shows "users_wf us' \<and> (\<exists>new. us' = sw_users w @ new \<and> length new \<le> 1
    \<and> (\<forall>u \<in> set new. u_role u = MEMBER \<and> u_isActive u \<and> \<not> knows_identity (u_workspaceId u) (u_slackUserId u) (sw_users w)))"
proof (cases rule: event_users[of env now e w])
  case kept
  with assms(1,3) show ?thesis by simp
next
  case (joined u)
  from assms(2) joined(5) have n: "u_id u \<notin> u_id ` set (sw_users w)" by (simp add: fresh_user_ids_def)
  have "slack_identity u \<notin> slack_identity ` set (sw_users w)" using joined(4) by (simp add: knows_identity_def slack_identity_def)
  note wf = users_wf_insert[OF assms(1) n this]
  from n have "\<not> (\<exists>x \<in> set (sw_users w). u_id x = u_id u)" by (metis image_eqI)
  then have "save_user u (sw_users w) = sw_users w @ [u]" by (simp add: save_row_def)
  with wf joined(1) assms(3) have "us' = sw_users w @ [u]" "users_wf us'" by simp_all
  with joined(2-4) show ?thesis by simp
qed

section \<open>Answers\<close>

definition thread_of :: "slack_message_event \<Rightarrow> string option" where
  "thread_of m = filled (coalesce (sm_thread_ts m) (sm_ts m))"

text \<open>What a message gets: a post, a card, or one of them or nothing followed by the apology.\<close>

lemma answer_posts:
  assumes "answer_prompt env now t bt teamId channel m prompt w = (ok, w')"
  shows "\<exists>posts. sw_calls w' = sw_calls w @ posts \<and> length posts \<le> 1 \<and> (ok \<longrightarrow> posts \<noteq> [])
    \<and> (\<forall>c \<in> set posts. \<exists>text blocks. c = ChatPost bt channel text (thread_of m) blocks)"
  using assms
proof (cases rule: answer_prompt_cases)
  case (1 member us w1 res sv)
  from 1(7) consider "\<not> ok" "w' = w1"
    | answer where "w' = snd (post_chat env bt channel answer (coalesce (sm_thread_ts m) (sm_ts m)) None w1)"
    | sender answer pa where "ask_approval env now bt
        (pending_for (w_id t) member sender teamId channel (coalesce (sm_thread_ts m) (sm_ts m)) answer pa) w1 = (ok, w')" by blast
  then show ?thesis
  proof cases
    case 1
    with \<open>sw_calls w1 = sw_calls w\<close> show ?thesis by simp
  next
    case 2
    with \<open>sw_calls w1 = sw_calls w\<close> show ?thesis by (simp add: thread_of_def)
  next
    case (3 sender answer pa)
    then show ?thesis
    proof (cases rule: ask_approval_cases)
      case down
      with \<open>sw_calls w1 = sw_calls w\<close> show ?thesis by simp
    next
      case (asked token ts kv')
      with \<open>sw_calls w1 = sw_calls w\<close> show ?thesis by (simp add: pending_for_def thread_of_def)
    qed
  qed
qed

definition reacting :: "(string \<Rightarrow> slack_call) \<Rightarrow> string option \<Rightarrow> slack_call list" where
  "reacting f ts = (case filled ts of None \<Rightarrow> [] | Some i \<Rightarrow> [f i])"

lemma attend_posts:
  "\<exists>posts. sw_calls (attend env now t bt teamId channel m prompt w) = sw_calls w
     @ reacting (\<lambda>ts. AddReaction bt channel ts PROCESSING_REACTION) (sm_ts m) @ posts
     @ reacting (\<lambda>ts. RemoveReaction bt channel ts PROCESSING_REACTION) (sm_ts m)
   \<and> 1 \<le> length posts \<and> length posts \<le> 2 \<and> (\<forall>c \<in> set posts. \<exists>text blocks. c = ChatPost bt channel text (thread_of m) blocks)"
proof -
  let ?w1 = "with_reaction (\<lambda>ts. AddReaction bt channel ts PROCESSING_REACTION) (sm_ts m) w"
  obtain ok w2 where a: "answer_prompt env now t bt teamId channel m prompt ?w1 = (ok, w2)" by fastforce
  from answer_posts[OF a] obtain posts where p: "sw_calls w2 = sw_calls ?w1 @ posts" "length posts \<le> 1" "ok \<longrightarrow> posts \<noteq> []"
    "\<forall>c \<in> set posts. \<exists>text blocks. c = ChatPost bt channel text (thread_of m) blocks" by blast
  let ?all = "posts @ (if ok then [] else [ChatPost bt channel APOLOGY (thread_of m) None])"
  have "sw_calls (attend env now t bt teamId channel m prompt w) = sw_calls w
     @ reacting (\<lambda>ts. AddReaction bt channel ts PROCESSING_REACTION) (sm_ts m) @ ?all
     @ reacting (\<lambda>ts. RemoveReaction bt channel ts PROCESSING_REACTION) (sm_ts m)"
    using p(1) by (simp add: attend_def a reacting_def thread_of_def)
  moreover have "1 \<le> length ?all" "length ?all \<le> 2" using p(2,3) by (auto simp: Suc_le_eq)
  ultimately show ?thesis using p(4) by (intro exI[of _ ?all]) auto
qed

text \<open>C33: Whatever fails on the way - the run, the provisioning of the sender, the history, the store of approvals - a message
  the assistant takes on is answered: its calls of Slack mark the message, post once or twice in the thread it
  belongs to, and take the mark away again; nothing else is sent.\<close>

theorem every_message_is_answered:
  assumes "message_target (sv_workspaces (sw_service w)) team m = Some (teamId, channel, prompt, t, bt)"
  shows "\<exists>posts. sw_calls (handle_message env now team m w) = sw_calls w
     @ reacting (\<lambda>ts. AddReaction bt channel ts PROCESSING_REACTION) (sm_ts m) @ posts
     @ reacting (\<lambda>ts. RemoveReaction bt channel ts PROCESSING_REACTION) (sm_ts m)
   \<and> 1 \<le> length posts \<and> length posts \<le> 2 \<and> (\<forall>c \<in> set posts. \<exists>text blocks. c = ChatPost bt channel text (thread_of m) blocks)"
  using attend_posts by (simp add: handle_message_def assms)

section \<open>Cards\<close>

lemma set_messageTs_pending: "set_messageTs ts (pending_json p) = pending_json (p\<lparr>pg_messageTs := ts\<rparr>)"
  by (cases "pg_threadTs p") (simp_all add: set_messageTs_def pending_json_def null_or_str_def)

lemma storable_ts [simp]: "storable (p\<lparr>pg_messageTs := ts\<rparr>) = storable p"
  by (simp add: storable_def)

lemma attach_stored:
  assumes "storable p"
  shows "snd (attachMessageTs token ts now (storePending token p now s)) = storePending token (p\<lparr>pg_messageTs := ts\<rparr>) now (storePending token p now s)"
  using peek_stored[OF assms, of now now token s] parse_pending[OF assms]
  by (simp add: attachMessageTs_def patched_record_def set_messageTs_pending storePending_def APPROVAL_TTL_SECONDS_def)

text \<open>An open approval under the token: who asked, what for, and nothing else but the time stamp of its card.\<close>

definition backed_by :: "pending_approval \<Rightarrow> string \<Rightarrow> time \<Rightarrow> kv \<Rightarrow> bool" where
  "backed_by p token now s \<longleftrightarrow> (\<exists>ts. approvals_abs s token = (\<lambda>at_time. if at_time < now + 900 * 1000 then Some (p\<lparr>pg_messageTs := ts\<rparr>) else None))"

lemma backed_stored: "storable p \<Longrightarrow> backed_by p token now (storePending token (p\<lparr>pg_messageTs := ts\<rparr>) now s)"
  unfolding backed_by_def by (intro exI[of _ ts]) (simp add: abs_store)

text \<open>A card keeps what it says: when handling a message posts a card with buttons, the buttons carry a token under which
  the pending change of this run is open for fifteen minutes - asked for by the sender of the message, in the
  workspace and the thread of the message, with the tool and the input the model asked for - and so a click on
  Approve by that sender, and by nobody else, executes exactly this change.\<close>

theorem card_is_backed:
  assumes "answer_prompt env now t bt teamId channel m prompt w = (ok, w')"
    and "sw_calls w' = sw_calls w @ calls" and "ChatPost bt' channel' text thread (Some blocks) \<in> set calls"
  shows "\<exists>r token (pa :: pending_action) p. fst (prompt_run env now t bt channel m prompt w) = Inr r \<and> an_pendingAction r = Some pa
    \<and> blocks = buildApprovalBlocks text token (pn_label pa) \<and> filled (sm_user m) = Some (pg_requesterSlackId p)
    \<and> pg_workspaceId p = w_id t \<and> pg_channel p = channel \<and> pg_threadTs p = coalesce (sm_thread_ts m) (sm_ts m)
    \<and> pg_toolName p = pn_tool pa \<and> pg_input p = pn_input pa \<and> pg_answer p = text
    \<and> (storable p \<longrightarrow> backed_by p token now (sv_kv (sw_service w')))"
  using assms(1)
proof (cases rule: answer_prompt_cases)
  case (1 member us w1 res sv)
  from 1(7) assms(2,3) 1(6) obtain r answer pa sender where s: "filled (sm_user m) = Some sender" "res = Inr r" "an_pendingAction r = Some pa"
    "ask_approval env now bt (pending_for (w_id t) member sender teamId channel (coalesce (sm_thread_ts m) (sm_ts m)) answer pa) w1 = (ok, w')"
    by auto
  let ?p = "pending_for (w_id t) member sender teamId channel (coalesce (sm_thread_ts m) (sm_ts m)) answer pa"
  have p: "pg_workspaceId ?p = w_id t" "pg_channel ?p = channel" "pg_threadTs ?p = coalesce (sm_thread_ts m) (sm_ts m)" "pg_toolName ?p = pn_tool pa"
    "pg_input ?p = pn_input pa" "pg_answer ?p = answer" "pg_requesterSlackId ?p = sender" "pg_label ?p = pn_label pa" "?p\<lparr>pg_messageTs := []\<rparr> = ?p"
    by (simp_all add: pending_for_def)
  from s(4) show ?thesis
  proof (cases rule: ask_approval_cases)
    case down
    with assms(2,3) 1(6) show ?thesis by simp
  next
    case (asked token ts kv')
    have "calls = [ChatPost bt channel answer (filled (coalesce (sm_thread_ts m) (sm_ts m))) (Some (buildApprovalBlocks answer token (pn_label pa)))]"
      using assms(2) asked(1) 1(6) by (simp add: p)
    with assms(3) have b: "blocks = buildApprovalBlocks answer token (pn_label pa)" "text = answer" by simp_all
    have bk: "storable ?p \<longrightarrow> backed_by ?p token now kv'"
      using asked(6) backed_stored[of ?p token now "[]"] backed_stored[of ?p token now ts] attach_stored[of ?p] p(9) by auto
    from asked(5) have "sv_kv (sw_service w') = kv'" by simp
    with b p(1-7) s(1-3) 1(2) bk show ?thesis by (intro exI[of _ r] exI[of _ token] exI[of _ pa] exI[of _ ?p] conjI) simp_all
  qed
qed

end
