(* ===== verification/SlackEventRuns.thy ===== *)
theory SlackEventRuns
  imports SlackEventFacts AiServiceRuns
begin

text \<open>Concrete messages and clicks: the witnesses of \<open>SlackEventFacts\<close>, and a member who was switched off and is still served.\<close>

section \<open>A model that asks for a deletion\<close>

definition delete_call :: tool_call where
  "delete_call = \<lparr>tc_id = ''c1'', tc_name = ''meta_ads_delete_ad'', tc_input = JObj [(''ad_id'', JStr ''77'')]\<rparr>"

definition deleting_first :: provider_response where
  "deleting_first = sample_reply TOOL_USE [] [delete_call]"

definition deleting :: llm where
  "deleting earlier q = (if earlier = [] then Inr deleting_first else Inr (sample_reply END_TURN ''I will delete ad 77.'' []))"

definition delete_pending :: pending_action where
  "delete_pending = \<lparr>pn_app = ''meta_ads'', pn_tool = ''meta_ads_delete_ad'', pn_label = write_label ''meta_ads_delete_ad'',
     pn_input = JObj [(''ad_id'', JStr ''77'')]\<rparr>"

lemma deleting_loop:
  assumes "rn_calls s = []"
  shows "\<exists>s'. run_loop MAX_TURNS deleting app exec u s w = (Inr (), s', snd (exec (rn_bridged s) delete_call w))"
proof -
  let ?s1 = "tally deleting_first (s\<lparr>rn_calls := [request_for u s]\<rparr>)"
  have "deleting (rn_calls s) (request_for u s) = Inr deleting_first" by (simp add: assms deleting_def)
  from asked[of deleting, OF this] have q: "reply_of deleting u s = (Inr deleting_first, s\<lparr>rn_calls := [request_for u s]\<rparr>)" by (simp add: assms)
  obtain r w2 where e: "exec (rn_bridged s) delete_call w = (r, w2)" by fastforce
  have b: "rn_bridged ?s1 = rn_bridged s" "rn_calls ?s1 \<noteq> []" by (simp_all add: tally_def Let_def)
  have "\<exists>s2. after_reply app exec deleting_first ?s1 w = (True, s2, w2) \<and> rn_calls s2 \<noteq> []"
    using e b by (simp add: after_reply_def deleting_first_def sample_reply_def Let_def add_message_def)
  then obtain s2 where s2: "after_reply app exec deleting_first ?s1 w = (True, s2, w2)" "rn_calls s2 \<noteq> []" by blast
  then have 1: "run_loop (Suc n) deleting app exec u s w = run_loop n deleting app exec u s2 w2" for n
    by (simp add: run_turn_def q)
  from s2(2) have "deleting (rn_calls s2) (request_for u s2) = Inr (sample_reply END_TURN ''I will delete ad 77.'' [])" by (simp add: deleting_def)
  from loop_ended[of deleting, OF this] obtain s3 where "run_loop (Suc 4) deleting app exec u s2 w2 = (Inr (), s3, w2)"
    by (fastforce simp: sample_reply_def)
  with 1[of 5] e show ?thesis unfolding turns by simp
qed

lemma delete_captured:
  "gw_pending (snd (runTool env now ws user BUTTONS None delete_call (fresh_run a))) = Some delete_pending"
proof -
  have "''meta_ads_delete_ad'' \<in> set META_ADS_TOOL_NAMES" "is_write ''meta_ads_delete_ad''" by code_simp+
  then show ?thesis
    by (simp add: runTool_def runLocalTool_def delete_call_def run_meta_tool_def runMetaAdsTool_def tool_input_def capture_def
        fresh_run_def next_call_def set_ads_def set_rules_def delete_pending_def Let_def)
qed

section \<open>A mention\<close>

definition sample_slack_env :: slack_event_env where
  "sample_slack_env = \<lparr>se_service = sample_service_env deleting, se_profile = (\<lambda>_ _. None), se_chat = (\<lambda>_. Some \<lparr>po_ok = True, po_ts = Some ''9.9''\<rparr>),
     se_open = (\<lambda>_ _. None), se_pageCount = (\<lambda>_. None), se_userId = (\<lambda>n. ''u'' @ show_nat n), se_messageId = (\<lambda>n. ''m'' @ show_nat n),
     se_token = (\<lambda>n. ''tok'' @ show_nat n), se_provisions = True, se_historyUp = True, se_turnsUp = True, se_storeUp = True, se_patchUp = True\<rparr>"

definition sample_slack_world :: slack_world where
  "sample_slack_world = \<lparr>sw_seen = [], sw_users = [], sw_turns = [], sw_service = sample_service_world [], sw_calls = []\<rparr>"

definition sample_mention :: slack_message_event where
  "sample_mention = \<lparr>sm_type = ''app_mention'', sm_bot_id = None, sm_subtype = None, sm_user = Some ''U2'', sm_text = Some ''<@U0> delete ad 77'',
     sm_channel = Some ''C1'', sm_channel_type = Some ''channel'', sm_ts = Some ''5.0'', sm_thread_ts = None\<rparr>"

definition sample_envelope :: event_envelope where
  "sample_envelope = \<lparr>ev_type = ''event_callback'', ev_challenge = None, ev_team_id = Some ''T1'', ev_event_id = Some ''E1'',
     ev_event = Some (MessageEvent sample_mention)\<rparr>"

lemma sample_clean: "cleanText ''<@U0> delete ad 77'' = ''delete ad 77''"
  by code_simp

lemma sample_target:
  "message_target (sv_workspaces (sw_service sample_slack_world)) (Some ''T1'') sample_mention = Some (''T1'', ''C1'', ''delete ad 77'', sample_workspace, ''xoxb'')"
  by (simp add: message_target_def isHandledMessage_def sample_mention_def filled_def sample_clean team_bot_def sample_slack_world_def
      sample_service_world_def findBySlackTeamId_def sample_workspace_def Let_def)

text \<open>The run of a mention, whatever the members are.\<close>

lemma deleting_run:
  assumes "op_model op = None" "op_confirmVia op = Some BUTTONS"
  shows "\<exists>r sv. ai_run (with_members us k (sample_service_env deleting)) 500 ''w1'' user prompt op (sample_service_world []) = (Inr r, sv)
    \<and> an_pendingAction r = Some delete_pending"
proof -
  let ?env = "with_members us k (sample_service_env deleting)" and ?w = "sample_service_world []"
  have vi: "vi_llm ?env p = deleting" "vi_gatewayModels ?env = []" "vi_configured ?env p" "vi_model ?env = ''claude-sonnet-5''" for p
    by (simp_all add: with_members_def sample_service_env_def)
  have a: "sv_agent ?w = sample_agent_world []" by (simp add: sample_service_world_def)
  have scopes: "app_scopes ''w1'' user (via_pipedream (usable_apps ?env ''w1'' user (sample_agent_world []))) = []"
    by (simp add: no_apps via_pipedream_def app_scopes_def slugs_at_def split: option.split list.split)
  have m: "usable_model ?env url ''claude-sonnet-5'' = Inr claude_sonnet_5" for url
    by (simp add: usable_model_def resolveModel_def buildCatalog_def vi parseGatewayModels_def ANTHROPIC_MODELS_def claude_sonnet_5_def)
  obtain x w' where r: "run_with_model ?env 500 sample_workspace user prompt op claude_sonnet_5 None 40100 ?w = (x, w')" by fastforce
  have run: "ai_run ?env 500 ''w1'' user prompt op ?w = (x, w')"
    using assms(1) sample_balance scopes m r
    by (simp add: ai_run_def workspaceByIdOrFail_def workspaceById_def sample_service_world_def sample_workspace_def coalesce_def or_default_def Let_def)
  let ?u = "setup_for ?env sample_workspace user op claude_sonnet_5 (sample_agent_world [])"
  from r obtain sending bridged reachable kv1 where
    t: "toolset_for ?env 500 (w_id sample_workspace) prompt op claude_sonnet_5 (st_localTools ?u) (own_servers ?env sample_workspace user None (sample_agent_world []))
       (sv_kv ?w) = (sending, bridged, reachable, kv1)" and
    l: "run_settled ?env 500 sample_workspace user op claude_sonnet_5 ?w (loop_of ?env 500 sample_workspace user op claude_sonnet_5 ?u
       (start_state ?u (op_history op) prompt sending bridged reachable) (sample_agent_world [])) x w'"
    unfolding a[symmetric] by (rule run_with_model_parts)
  from t have b: "bridged = None" by (auto simp: toolset_for_def claude_sonnet_5_def Let_def split: prod.splits)
  have c: "confirm_via op = BUTTONS" using assms(2) by (simp add: confirm_via_def or_default_def)
  let ?s0 = "start_state ?u (op_history op) prompt sending bridged reachable"
  obtain s' where "loop_of ?env 500 sample_workspace user op claude_sonnet_5 ?u ?s0 (sample_agent_world [])
      = (Inr (), s', snd (runTool (vi_agent ?env) 500 (w_id sample_workspace) user BUTTONS None delete_call (fresh_run (sample_agent_world []))))"
    using deleting_loop[of ?s0 localToolApp "runTool (vi_agent ?env) 500 (w_id sample_workspace) user BUTTONS" ?u "fresh_run (sample_agent_world [])"]
    unfolding vi c by (auto simp: start_state_def b)
  with l obtain rr where "x = Inr rr" "an_pendingAction rr = Some delete_pending"
    by (auto simp: run_settled_def delete_captured)
  with run show ?thesis by blast
qed

abbreviation mention_answered where
  "mention_answered \<equiv> answer_prompt sample_slack_env 500 sample_workspace ''xoxb'' ''T1'' ''C1'' sample_mention ''delete ad 77'' sample_slack_world"

lemma sample_prompt_run:
  "\<exists>r sv. prompt_run sample_slack_env 500 sample_workspace ''xoxb'' ''C1'' sample_mention ''delete ad 77'' sample_slack_world = (Inr r, sv)
    \<and> an_pendingAction r = Some delete_pending"
proof -
  have "op_model (slack_options h k l) = None" "op_confirmVia (slack_options h k l) = Some BUTTONS" for h k l by (simp_all add: slack_options_def)
  from deleting_run[OF this] show ?thesis
    by (simp add: prompt_run_def split_beta Let_def sample_workspace_def) (simp add: sample_slack_env_def sample_slack_world_def)
qed

lemma sample_card:
  "\<exists>said. sw_calls (snd mention_answered) = [ChatPost ''xoxb'' ''C1'' said (Some ''5.0'') (Some (buildApprovalBlocks said ''tok0'' (pn_label delete_pending)))]"
proof -
  obtain r sv where r: "prompt_run sample_slack_env 500 sample_workspace ''xoxb'' ''C1'' sample_mention ''delete ad 77'' sample_slack_world = (Inr r, sv)"
    "an_pendingAction r = Some delete_pending" using sample_prompt_run by blast
  have m: "filled (sm_user sample_mention) = Some ''U2''" "coalesce (sm_thread_ts sample_mention) (sm_ts sample_mention) = Some ''5.0''"
    by (simp_all add: sample_mention_def filled_def)
  have calls: "sw_calls (snd (ask_approval sample_slack_env 500 ''xoxb'' p v)) = sw_calls v @ [ChatPost ''xoxb'' (pg_channel p) (pg_answer p)
      (filled (pg_threadTs p)) (Some (buildApprovalBlocks (pg_answer p) (''tok'' @ show_nat (length (sw_calls v))) (pg_label p)))]" for p v
    by (simp add: ask_approval_def sample_slack_env_def post_chat_def postMessage_def Let_def split_beta split: option.split)
  have z: "show_nat 0 = ''0''" "sw_calls sample_slack_world = []" by (simp_all add: show_nat.simps char_of_def bit_0 sample_slack_world_def)
  have t: "filled (Some ''5.0'') = Some ''5.0''" by (simp add: filled_def)
  show ?thesis
    by (cases "an_answer r = []") (simp_all add: answer_prompt_def Let_def split_beta r m calls pending_for_def z t del: record_turns.simps)
qed

lemma card_is_backed_witness:
  "\<exists>token p. Approvals.storable p \<and> pg_toolName p = ''meta_ads_delete_ad'' \<and> pg_requesterSlackId p = ''U2''
    \<and> backed_by p token 500 (sv_kv (sw_service (snd mention_answered)))"
proof -
  obtain said where c: "sw_calls (snd mention_answered) = sw_calls sample_slack_world
      @ [ChatPost ''xoxb'' ''C1'' said (Some ''5.0'') (Some (buildApprovalBlocks said ''tok0'' (pn_label delete_pending)))]"
    using sample_card by (auto simp: sample_slack_world_def)
  obtain ok w' where a: "mention_answered = (ok, w')" by fastforce
  from card_is_backed[OF a c[unfolded a snd_conv]] sample_prompt_run obtain token p where
    "filled (sm_user sample_mention) = Some (pg_requesterSlackId p)" "pg_toolName p = pn_tool delete_pending" "pg_input p = pn_input delete_pending"
    "Approvals.storable p \<longrightarrow> backed_by p token 500 (sv_kv (sw_service w'))" by fastforce
  then show ?thesis unfolding a snd_conv
    by (intro exI[of _ token] exI[of _ p]) (simp add: delete_pending_def sample_mention_def filled_def Approvals.storable_def)
qed

section \<open>Witnesses\<close>

lemma events_handled_once_witness:
  "let w' = handleEventCallback sample_slack_env 500 sample_envelope sample_slack_world in
     handleEventCallback sample_slack_env 900 sample_envelope w' = w' \<and> length (sw_seen w') \<le> SEEN_LIMIT"
  using events_handled_once[of sample_slack_world "''E1''" sample_envelope "[]" sample_envelope sample_slack_env 500 sample_slack_env 900]
  by (simp add: window_ok_def sample_slack_world_def sample_envelope_def SEEN_LIMIT_def)

lemma senders_join_as_members_witness:
  "users_wf (sw_users (handleEventCallback sample_slack_env 500 sample_envelope sample_slack_world))"
  using senders_join_as_members[of sample_slack_world sample_slack_env _ 500 sample_envelope, OF _ _ refl]
  by (simp add: sample_slack_world_def fresh_user_ids_def)

lemma every_message_is_answered_witness:
  "\<exists>posts. sw_calls (handle_message sample_slack_env 500 (Some ''T1'') sample_mention sample_slack_world)
     = AddReaction ''xoxb'' ''C1'' ''5.0'' PROCESSING_REACTION # posts @ [RemoveReaction ''xoxb'' ''C1'' ''5.0'' PROCESSING_REACTION] \<and> 1 \<le> length posts"
  using every_message_is_answered[OF sample_target, of sample_slack_env 500]
  by (auto simp: reacting_def sample_mention_def filled_def sample_slack_world_def)

definition sample_payload :: jsval where
  "sample_payload = JObj [(''type'', JStr ''block_actions''), (''user'', JObj [(''id'', JStr ''U2''), (''username'', JStr ''U2'')]),
     (''response_url'', JStr ''https://r''), (''actions'', JArr [JObj [(''action_id'', JStr ''gomer_approve''), (''value'', JStr ''tok'')]])]"

definition sample_approval_world :: slack_world where
  "sample_approval_world = sample_slack_world\<lparr>sw_service := (sample_service_world sample_integrations)\<lparr>sv_kv := storePending ''tok'' sample_pending 0 empty_kv\<rparr>\<rparr>"

definition sample_click_request :: "slack_event_env \<times> time \<times> webhook" where
  "sample_click_request = (sample_slack_env, 0, InteractionsRequest \<lparr>rq_signature = Some ''v0=h'', rq_timestamp = Some ''0'', rq_rawBody = Some [],
     rq_body = Some (stringify sample_payload)\<rparr>)"

lemma sample_click_of: "click_of sample_payload = sample_click ''gomer_approve'' ''U2''"
  by (simp add: click_of_def sample_payload_def sample_click_def opt_str_def object_prototype_def)

lemma sample_click_log:
  "ad_log (serve_slack (\<lambda>_ _. ''h'') ''s'' sample_click_request sample_approval_world) \<noteq> ad_log sample_approval_world"
proof -
  let ?q = "\<lparr>rq_signature = Some ''v0=h'', rq_timestamp = Some ''0'', rq_rawBody = Some [], rq_body = Some (stringify sample_payload)\<rparr>"
  let ?w = sample_approval_world
  have "number_of_string ''0'' = Fin 0" by code_simp
  then have "slack_signature_ok (\<lambda>_ _. ''h'') ''s'' 0 (Some ''v0=h'') (Some ''0'') []" by (simp add: slack_signature_ok_def)
  then have s: "signed_request (\<lambda>_ _. ''h'') ''s'' 0 ?q = Inr ()" by (simp add: signed_request_def)
  have "textual sample_payload" by (simp add: sample_payload_def)
  then have p: "json_parse (stringify sample_payload) = Some sample_payload" by (rule parse_stringify)
  have f: "filled (Some (stringify sample_payload)) = Some (stringify sample_payload)" "\<not> is_nullish sample_payload"
    by (simp_all add: filled_def sample_payload_def)
  have "serve_slack (\<lambda>_ _. ''h'') ''s'' sample_click_request ?w = handle_click sample_slack_env 0 (sample_click ''gomer_approve'' ''U2'') ?w"
    using s p f by (simp add: sample_click_request_def handleInteractions_def sample_click_of)
  moreover have kv: "sv_kv (sw_service ?w) = av_kv sample_approvals" "sv_workspaces (sw_service ?w) = [sample_workspace]" "meta_of ?w = sample_world"
    by (simp_all add: sample_approval_world_def sample_slack_world_def sample_service_world_def sample_approvals_def meta_of_def
        sample_agent_world_def gw_ads_exports ads_of_def sample_world_def)
  moreover have "ae_oauth (ag_ads (vi_agent (se_service sample_slack_env))) = sample_oauth True ''t'' ''1''"
    by (simp add: sample_slack_env_def sample_service_env_def sample_agent_env_def ag_ads_def ag_rules_def sample_export_env_def sample_ads_env_def)
  ultimately have "mw_sent (meta_of (serve_slack (\<lambda>_ _. ''h'') ''s'' sample_click_request ?w)) = [deleteAd ''token-i2'' ''77'']"
    by (simp add: meta_of_click handleInteraction_def sample_decision finish_click_def executeMetaAdsAction_def sample_world_def
        sample_approval_token dispatchMetaAdsTool_def sample_deletion meta_send_def split_beta split: sum.split)
  then show ?thesis by (simp add: ad_log_def kv sample_world_def writes_def)
qed

lemma only_approvals_change_ads_witness: "approves (\<lambda>_ _. ''h'') ''s'' sample_approval_world sample_click_request"
proof -
  have "ad_log (serve_slack_all (\<lambda>_ _. ''h'') ''s'' [sample_click_request] sample_approval_world) \<noteq> ad_log sample_approval_world"
    using sample_click_log by simp
  from only_approvals_change_ads[OF this] show ?thesis by (auto simp: Cons_eq_append_conv)
qed

section \<open>A member who was switched off\<close>

text \<open>The sender is looked up whatever the state of the row, so a member an administrator switched off still has runs, with the accounts that are theirs.\<close>

lemma deactivated_member_is_served:
  assumes "findBySlackIdentity (sw_users w) (w_id t) u = Some member" and "\<not> u_isActive member" and "filled (sm_user m) = Some u"
  shows "\<exists>op. prompt_run env now t bt channel m prompt w
    = ai_run (with_members (sw_users w) (se_pageCount env bt) (se_service env)) now (w_id t) (Some (u_id member)) prompt op (sw_service w)"
  using assms by (auto simp: prompt_run_def resolve_sender_def split_beta Let_def)

end
