(* ===== verification/Administration.thy ===== *)
theory Administration
  imports Usage Integrations
begin

text \<open>
  What a workspace's own administration reads and files: \<open>src/src/bug-reports/bug-reports.service.ts\<close>
  (reports as their author sees them), \<open>src/src/admin/admin.service.ts\<close> (the headline figures,
  analytics and revenue of the admin pages) and \<open>src/src/skills/skills.service.ts\<close> (the
  catalogue of skills and what a user installed).  The tables are lists of rows in insertion order.
\<close>

section \<open>Bug reports\<close>

datatype bug_report_severity = LOW | MEDIUM | HIGH | CRITICAL

datatype bug_report_status = OPEN | IN_PROGRESS | RESOLVED | DISMISSED

record bug_report =
  br_id :: uuid
  br_workspaceId :: uuid
  br_reportedByUserId :: "uuid option"
  br_title :: string
  br_description :: string
  br_stepsToReproduce :: "string option"
  br_severity :: bug_report_severity
  br_status :: bug_report_status
  br_pageUrl :: "string option"
  br_userAgent :: "string option"
  br_resolutionNote :: "string option"
  br_resolvedAt :: "time option"
  br_createdAt :: time

record create_bug_report_input =
  bi_workspaceId :: uuid
  bi_reportedByUserId :: uuid
  bi_title :: string
  bi_description :: string
  bi_stepsToReproduce :: "string option"
  bi_severity :: "bug_report_severity option"
  bi_pageUrl :: "string option"
  bi_userAgent :: "string option"

record bug_report_view =
  bv_id :: uuid
  bv_title :: string
  bv_description :: string
  bv_stepsToReproduce :: "string option"
  bv_severity :: bug_report_severity
  bv_status :: bug_report_status
  bv_pageUrl :: "string option"
  bv_createdAt :: time
  bv_resolvedAt :: "time option"

text \<open>The constraints of the request body; the enumeration of severities is the type's.\<close>

definition within_length :: "nat \<Rightarrow> nat \<Rightarrow> string \<Rightarrow> bool" where
  "within_length lo hi s \<longleftrightarrow> lo \<le> length s \<and> length s \<le> hi"

definition optional_max :: "nat \<Rightarrow> string option \<Rightarrow> bool" where
  "optional_max hi s = (case s of None \<Rightarrow> True | Some x \<Rightarrow> length x \<le> hi)"

definition create_report_dto_ok :: "create_bug_report_input \<Rightarrow> bool" where
  "create_report_dto_ok inp \<longleftrightarrow>
     within_length 3 200 (bi_title inp) \<and> within_length 10 10000 (bi_description inp)
     \<and> optional_max 10000 (bi_stepsToReproduce inp) \<and> optional_max 512 (bi_pageUrl inp)"

definition bug_toView :: "bug_report \<Rightarrow> bug_report_view" where
  "bug_toView r = \<lparr>bv_id = br_id r, bv_title = br_title r, bv_description = br_description r,
     bv_stepsToReproduce = br_stepsToReproduce r, bv_severity = br_severity r,
     bv_status = br_status r, bv_pageUrl = br_pageUrl r, bv_createdAt = br_createdAt r,
     bv_resolvedAt = br_resolvedAt r\<rparr>"

text \<open>\<open>text?.trim() || null\<close>.\<close>

definition trimmed_or_null :: "string option \<Rightarrow> string option" where
  "trimmed_or_null s = (case s of None \<Rightarrow> None | Some x \<Rightarrow> non_empty (Some (js_trim x)))"

definition make_report :: "uuid \<Rightarrow> time \<Rightarrow> create_bug_report_input \<Rightarrow> bug_report" where
  "make_report new_id now inp =
     \<lparr>br_id = new_id, br_workspaceId = bi_workspaceId inp,
      br_reportedByUserId = Some (bi_reportedByUserId inp),
      br_title = js_trim (bi_title inp), br_description = js_trim (bi_description inp),
      br_stepsToReproduce = trimmed_or_null (bi_stepsToReproduce inp),
      br_severity = (case bi_severity inp of Some s \<Rightarrow> s | None \<Rightarrow> MEDIUM),
      br_status = OPEN, br_pageUrl = bi_pageUrl inp,
      br_userAgent = map_option (take 512) (bi_userAgent inp),
      br_resolutionNote = None, br_resolvedAt = None, br_createdAt = now\<rparr>"

definition createBugReport ::
  "uuid \<Rightarrow> time \<Rightarrow> create_bug_report_input \<Rightarrow> bug_report list \<Rightarrow> bug_report_view \<times> bug_report list" where
  "createBugReport new_id now inp rows =
     (let saved = make_report new_id now inp in (bug_toView saved, rows @ [saved]))"

definition listMine :: "uuid \<Rightarrow> uuid \<Rightarrow> bug_report list \<Rightarrow> bug_report_view list" where
  "listMine ws user rows =
     map bug_toView (newest 50 (\<lambda>r. br_workspaceId r = ws \<and> br_reportedByUserId r = Some user) rows)"

section \<open>The admin pages\<close>

record admin_member_view =
  am_id :: uuid
  am_name :: string
  am_email :: "string option"
  am_avatarUrl :: "string option"
  am_role :: user_role
  am_isActive :: bool
  am_lastActiveAt :: "time option"
  am_createdAt :: time

definition toMemberView :: "user \<Rightarrow> admin_member_view" where
  "toMemberView u = \<lparr>am_id = u_id u, am_name = u_name u, am_email = u_email u,
     am_avatarUrl = u_avatarUrl u, am_role = u_role u, am_isActive = u_isActive u,
     am_lastActiveAt = u_lastActiveAt u, am_createdAt = u_createdAt u\<rparr>"

record member_counts =
  mc_total :: nat
  mc_active :: nat
  mc_admins :: nat

record admin_overview =
  ao_members :: member_counts
  ao_credits :: credit_balance
  ao_usage :: usage_summary
  ao_connectedAccounts :: nat

definition adminOverview ::
  "(string \<Rightarrow> nat) \<Rightarrow> user list \<Rightarrow> integration list \<Rightarrow> uuid \<Rightarrow> time \<Rightarrow> ledger \<Rightarrow> admin_overview" where
  "adminOverview collate us igs ws now l =
    (let members = listAllByWorkspace us ws;
         integrations = getWorkspaceIntegrations collate us ws igs
     in \<lparr>ao_members = \<lparr>mc_total = length members,
            mc_active = length (filter u_isActive members),
            mc_admins = length (filter (\<lambda>m. u_role m = ADMIN \<and> u_isActive m) members)\<rparr>,
         ao_credits = getBalance ws now l, ao_usage = summarizeForWorkspace ws l,
         ao_connectedAccounts = length (filter (\<lambda>(_, _, _, _, active, _). active) integrations)\<rparr>)"

record admin_analytics =
  aa_days :: int
  aa_daily :: "daily_usage list"
  aa_topSpenders :: "(spender_row \<times> string) list"

definition adminAnalytics ::
  "user list \<Rightarrow> uuid \<Rightarrow> int \<Rightarrow> time \<Rightarrow> ledger \<Rightarrow> admin_analytics" where
  "adminAnalytics us ws days now l =
    (let rng = \<lparr>dr_from = now - days * (24 * 60 * 60 * 1000), dr_to = now\<rparr>;
         nameById = map_of (map_from (map (\<lambda>m. (u_id m, display_name m)) (listAllByWorkspace us ws)))
     in \<lparr>aa_days = days, aa_daily = dailyUsage ws rng l,
         aa_topSpenders = map (\<lambda>row. (row, case non_empty (sp_userId row) of
             Some u \<Rightarrow> (case nameById u of Some n \<Rightarrow> n | None \<Rightarrow> u)
           | None \<Rightarrow> SYSTEM_SPENDER_NAME)) (topSpenders ws rng 10 l)\<rparr>)"

record admin_revenue =
  av_totalPaidCents :: int
  av_creditsGranted :: int
  av_creditsConsumed :: int
  av_creditsRemaining :: int
  av_byReason :: "reason_total list"
  av_recentGrants :: "credit_grant list"

definition adminRevenue :: "uuid \<Rightarrow> time \<Rightarrow> ledger \<Rightarrow> admin_revenue" where
  "adminRevenue ws now l =
    (let byReason = grantTotalsByReason ws l; balance = getBalance ws now l
     in \<lparr>av_totalPaidCents =
           sum_list (map rt_amountCents (filter (\<lambda>row. rt_reason row = TOPUP_PURCHASE) byReason)),
         av_creditsGranted = cb_granted balance, av_creditsConsumed = cb_used balance,
         av_creditsRemaining = cb_balance balance, av_byReason = byReason,
         av_recentGrants = findGrantsForWorkspace ws 50 l\<rparr>)"

section \<open>Skills\<close>

record skill =
  sk_id :: uuid
  sk_slug :: string
  sk_name :: string
  sk_description :: string
  sk_category :: string
  sk_systemPrompt :: string
  sk_author :: string
  sk_tags :: "string list"
  sk_isBundle :: bool
  sk_requiredIntegrations :: "string list"

record user_skill =
  uk_userId :: uuid
  uk_skillId :: uuid

record skill_view =
  kv_id :: uuid
  kv_slug :: string
  kv_title :: string
  kv_category :: "string \<times> string"
  kv_description :: string
  kv_tags :: "string list"
  kv_author :: string
  kv_isBundle :: bool
  kv_requiredIntegrations :: "string list"
  kv_installed :: bool

text \<open>\<open>replace(/\s+/g, '-')\<close>: every run of white space becomes one hyphen.\<close>

fun hyphenate :: "string \<Rightarrow> string" where
  "hyphenate [] = []"
| "hyphenate (c # s) =
     (if \<not> is_ws c then c # hyphenate s
      else case s of [] \<Rightarrow> ''-'' | d # _ \<Rightarrow> if is_ws d then hyphenate s else CHR ''-'' # hyphenate s)"

definition categorySlug :: "string \<Rightarrow> string" where
  "categorySlug label = hyphenate (to_lower (js_trim label))"

definition skill_toView :: "skill \<Rightarrow> bool \<Rightarrow> skill_view" where
  "skill_toView s installed =
     \<lparr>kv_id = sk_id s, kv_slug = sk_slug s, kv_title = sk_name s,
      kv_category = (categorySlug (sk_category s), sk_category s),
      kv_description = sk_description s, kv_tags = sk_tags s, kv_author = sk_author s,
      kv_isBundle = sk_isBundle s, kv_requiredIntegrations = sk_requiredIntegrations s,
      kv_installed = installed\<rparr>"

definition installedSkillIds :: "uuid \<Rightarrow> user_skill list \<Rightarrow> uuid list" where
  "installedSkillIds user rows = js_unique (map uk_skillId (filter (\<lambda>r. uk_userId r = user) rows))"

text \<open>\<open>collate\<close> is the rank the database's collation gives a name.\<close>

definition findCatalogue ::
  "(string \<Rightarrow> nat) \<Rightarrow> uuid \<Rightarrow> skill list \<Rightarrow> user_skill list \<Rightarrow> skill_view list" where
  "findCatalogue collate user skills rows =
     (let installed = installedSkillIds user rows
      in map (\<lambda>s. skill_toView s (sk_id s \<in> set installed)) (sort_key (\<lambda>s. collate (sk_name s)) skills))"

text \<open>The join follows a foreign key that deletes with the skill, so the skill is there.\<close>

definition findInstalledForUser :: "uuid \<Rightarrow> skill list \<Rightarrow> user_skill list \<Rightarrow> skill_view list" where
  "findInstalledForUser user skills rows =
     List.map_filter (\<lambda>r. map_option (\<lambda>s. skill_toView s True)
         (List.find (\<lambda>s. sk_id s = uk_skillId r) skills))
       (rev (filter (\<lambda>r. uk_userId r = user) rows))"

definition is_install :: "uuid \<Rightarrow> uuid \<Rightarrow> user_skill \<Rightarrow> bool" where
  "is_install user i r \<longleftrightarrow> uk_userId r = user \<and> uk_skillId r = i"

definition installSkill ::
  "skill list \<Rightarrow> uuid \<Rightarrow> uuid \<Rightarrow> user_skill list \<Rightarrow> skill_view result \<times> user_skill list" where
  "installSkill skills user i rows =
     (case List.find (\<lambda>s. sk_id s = i) skills of
        None \<Rightarrow> (Inl (NotFound ''Skill not found''), rows)
      | Some s \<Rightarrow>
         (Inr (skill_toView s True),
          case List.find (is_install user i) rows of
            Some _ \<Rightarrow> rows
          | None \<Rightarrow> rows @ [\<lparr>uk_userId = user, uk_skillId = i\<rparr>]))"

definition uninstallSkill ::
  "skill list \<Rightarrow> uuid \<Rightarrow> uuid \<Rightarrow> user_skill list \<Rightarrow> skill_view result \<times> user_skill list" where
  "uninstallSkill skills user i rows =
     (case List.find (\<lambda>s. sk_id s = i) skills of
        None \<Rightarrow> (Inl (NotFound ''Skill not found''), rows)
      | Some s \<Rightarrow> (Inr (skill_toView s False), delete_where (is_install user i) rows))"

end
