(* ===== verification/PlatformOwner.thy ===== *)
theory PlatformOwner
  imports Administration Workspaces Subscriptions
begin

text \<open>
  \<open>src/src/super-admin/super-admin.service.ts\<close> and its controller: the figures of the platform
  owner's panel, over the rows of every tenant.  A grouped query is \<open>group_rows\<close>, a left join the
  lookup in the joined rows with its \<open>COALESCE\<close>; times are UTC milliseconds.  The database gives
  the rows of a query no order beyond its \<open>ORDER BY\<close>: \<open>scan\<close> is the order in which it happens to
  read the workspaces of one request, which decides between equal sort keys.
\<close>

section \<open>The tables\<close>

record platform =
  pf_workspaces :: "workspace list"
  pf_users :: "user list"
  pf_ledger :: ledger
  pf_subscriptions :: "subscription list"
  pf_integrations :: "integration list"
  pf_bugs :: "bug_report list"
  pf_tasks :: "task_ref list"

section \<open>Credits of many workspaces\<close>

record credit_totals =
  ct_granted :: int
  ct_used :: int
  ct_balance :: int
  ct_paidCents :: int

definition cents_of :: "credit_grant \<Rightarrow> int" where
  "cents_of g = (case cg_amountCents g of Some c \<Rightarrow> c | None \<Rightarrow> 0)"

text \<open>The subquery \<open>spend\<close>: one row per grant that has been drawn on.\<close>

definition spend_rows :: "credit_allocation list \<Rightarrow> (uuid \<times> int) list" where
  "spend_rows as = map (\<lambda>(g, rows). (g, sum_list (map ca_credits rows))) (group_rows ca_grantId as)"

text \<open>The \<open>CASE\<close> of the live total.\<close>

definition live_part :: "time \<Rightarrow> (uuid \<times> int) list \<Rightarrow> credit_grant \<Rightarrow> int" where
  "live_part now spend g =
     (if is_live now g
      then max (cg_credits g - (case map_of spend (cg_id g) of Some s \<Rightarrow> s | None \<Rightarrow> 0)) 0 else 0)"

definition grant_rows :: "uuid list \<Rightarrow> time \<Rightarrow> ledger \<Rightarrow> (uuid \<times> int \<times> int \<times> int) list" where
  "grant_rows ids now l = (let spend = spend_rows (allocations l) in
     map (\<lambda>(w, gs). (w, sum_list (map cg_credits gs), sum_list (map cents_of gs),
                      sum_list (map (live_part now spend) gs)))
       (group_rows cg_workspaceId (filter (\<lambda>g. cg_workspaceId g \<in> set ids) (grants l))))"

definition used_rows :: "uuid list \<Rightarrow> ledger \<Rightarrow> (uuid \<times> int) list" where
  "used_rows ids l =
     map (\<lambda>(w, es). (w, sum_list (map ce_creditsUsed es)))
       (group_rows ce_workspaceId (filter (\<lambda>e. ce_workspaceId e \<in> set ids) (events l)))"

definition creditsByWorkspace :: "uuid list \<Rightarrow> time \<Rightarrow> ledger \<Rightarrow> (uuid \<times> credit_totals) list" where
  "creditsByWorkspace ids now l =
    (if ids = [] then []
     else let grantRows = grant_rows ids now l; usedById = map_of (map_from (used_rows ids l))
          in map_from (map (\<lambda>i.
               let (granted, paid, live) = (case map_of grantRows i of Some r \<Rightarrow> r | None \<Rightarrow> (0, 0, 0))
               in (i, \<lparr>ct_granted = granted,
                       ct_used = (case usedById i of Some n \<Rightarrow> n | None \<Rightarrow> 0),
                       ct_balance = live, ct_paidCents = paid\<rparr>)) ids))"

section \<open>The customer table\<close>

record workspace_aggregates =
  wa_members :: "(uuid \<times> member_counts) list"
  wa_credits :: "(uuid \<times> credit_totals) list"
  wa_integrations :: "(uuid \<times> nat) list"
  wa_activity :: "(uuid \<times> time) list"
  wa_plans :: "(uuid \<times> subscription) list"

definition count_members :: "user list \<Rightarrow> member_counts" where
  "count_members us = \<lparr>mc_total = length us, mc_active = length (filter u_isActive us),
     mc_admins = length (filter (\<lambda>u. u_role u = ADMIN) us)\<rparr>"

definition latest_event :: "credit_event list \<Rightarrow> time" where
  "latest_event es = Max (set (map ce_createdAt es))"

definition aggregatesFor :: "uuid list \<Rightarrow> time \<Rightarrow> platform \<Rightarrow> workspace_aggregates" where
  "aggregatesFor ids now p =
    (if ids = [] then \<lparr>wa_members = [], wa_credits = [], wa_integrations = [], wa_activity = [], wa_plans = []\<rparr>
     else \<lparr>wa_members = map_from (map (\<lambda>(w, us). (w, count_members us))
              (group_rows u_workspaceId (filter (\<lambda>u. u_workspaceId u \<in> set ids) (pf_users p)))),
           wa_credits = creditsByWorkspace ids now (pf_ledger p),
           wa_integrations = map_from (map (\<lambda>(w, igs). (w, length igs))
              (group_rows ig_workspaceId
                (filter (\<lambda>i. ig_workspaceId i \<in> set ids \<and> ig_isActive i) (pf_integrations p)))),
           wa_activity = map_from (map (\<lambda>(w, es). (w, latest_event es))
              (group_rows ce_workspaceId
                (filter (\<lambda>e. ce_workspaceId e \<in> set ids) (events (pf_ledger p))))),
           wa_plans = map_from (map (\<lambda>s. (su_workspaceId s, s))
              (filter (\<lambda>s. su_workspaceId s \<in> set ids) (pf_subscriptions p)))\<rparr>)"

record plan_summary =
  pl_planId :: string
  pl_status :: subscription_status
  pl_seats :: int
  pl_currentPeriodEnd :: time

record platform_workspace_row =
  wr_id :: uuid
  wr_name :: string
  wr_slackTeamId :: string
  wr_createdAt :: time
  wr_members :: member_counts
  wr_granted :: int
  wr_used :: int
  wr_balance :: int
  wr_paidCents :: int
  wr_plan :: "plan_summary option"
  wr_connectedAccounts :: nat
  wr_lastActivityAt :: "time option"

definition toWorkspaceRow :: "workspace_aggregates \<Rightarrow> workspace \<Rightarrow> platform_workspace_row" where
  "toWorkspaceRow a w =
    (let credits = map_of (wa_credits a) (w_id w);
         total = (\<lambda>f. case credits of Some c \<Rightarrow> f c | None \<Rightarrow> 0)
     in \<lparr>wr_id = w_id w, wr_name = w_name w, wr_slackTeamId = w_slackTeamId w,
         wr_createdAt = w_createdAt w,
         wr_members = (case map_of (wa_members a) (w_id w) of Some m \<Rightarrow> m
                       | None \<Rightarrow> \<lparr>mc_total = 0, mc_active = 0, mc_admins = 0\<rparr>),
         wr_granted = total ct_granted, wr_used = total ct_used, wr_balance = total ct_balance,
         wr_paidCents = total ct_paidCents,
         wr_plan = map_option (\<lambda>s. \<lparr>pl_planId = su_planId s, pl_status = su_status s,
             pl_seats = su_seats s, pl_currentPeriodEnd = su_currentPeriodEnd s\<rparr>)
             (map_of (wa_plans a) (w_id w)),
         wr_connectedAccounts = (case map_of (wa_integrations a) (w_id w) of Some n \<Rightarrow> n | None \<Rightarrow> 0),
         wr_lastActivityAt = map_of (wa_activity a) (w_id w)\<rparr>)"

text \<open>
  \<open>text ILIKE pattern\<close>: percent stands for any text, underscore for any character, a backslash
  quotes the next one.
\<close>

fun like_match :: "string \<Rightarrow> string \<Rightarrow> bool" where
  "like_match [] s = (s = [])"
| "like_match (c # q) s =
     (if c = CHR ''%'' then like_match q s \<or> (case s of [] \<Rightarrow> False | _ # r \<Rightarrow> like_match (c # q) r)
      else if c = CHR ''_'' then (case s of [] \<Rightarrow> False | _ # r \<Rightarrow> like_match q r)
      else if c = CHR 0x5C
        then (case q of [] \<Rightarrow> False
              | d # q' \<Rightarrow> (case s of [] \<Rightarrow> False | x # r \<Rightarrow> x = d \<and> like_match q' r))
      else (case s of [] \<Rightarrow> False | x # r \<Rightarrow> x = c \<and> like_match q r))"

definition ilike :: "string \<Rightarrow> string \<Rightarrow> bool" where
  "ilike s pattern = like_match (to_lower pattern) (to_lower s)"

datatype workspace_sort = SortCreated | SortMembers | SortActivity | SortName

definition parse_sort :: "string option \<Rightarrow> workspace_sort" where
  "parse_sort s = (if s = Some ''members'' then SortMembers
     else if s = Some ''activity'' then SortActivity
     else if s = Some ''name'' then SortName else SortCreated)"

record list_options =
  lo_search :: "string option"
  lo_limit :: "int option"
  lo_offset :: "int option"
  lo_sort :: "string option"

definition page_limit :: "int option \<Rightarrow> nat" where
  "page_limit l = nat (min (max (case l of Some n \<Rightarrow> n | None \<Rightarrow> 50) 1) 200)"

definition page_offset :: "int option \<Rightarrow> nat" where
  "page_offset f = nat (max (case f of Some n \<Rightarrow> n | None \<Rightarrow> 0) 0)"

text \<open>The \<open>WHERE\<close> of both queries; an empty search adds none.\<close>

definition search_matches :: "string option \<Rightarrow> workspace \<Rightarrow> bool" where
  "search_matches search w =
     (case non_empty (map_option js_trim search) of
        None \<Rightarrow> True
      | Some s \<Rightarrow> ilike (w_name w) (''%'' @ s @ ''%'') \<or> ilike (w_slackTeamId w) (''%'' @ s @ ''%''))"

definition headcounts :: "user list \<Rightarrow> (uuid \<times> nat) list" where
  "headcounts us = map (\<lambda>(w, ms). (w, length ms)) (group_rows u_workspaceId us)"

definition last_seen :: "credit_event list \<Rightarrow> (uuid \<times> time) list" where
  "last_seen es = map (\<lambda>(w, rs). (w, latest_event rs)) (group_rows ce_workspaceId es)"

text \<open>The driver's \<open>ORDER BY\<close>; a workspace that never ran anything sorts last by activity.\<close>

definition order_workspaces ::
  "(string \<Rightarrow> nat) \<Rightarrow> platform \<Rightarrow> workspace_sort \<Rightarrow> workspace list \<Rightarrow> workspace list" where
  "order_workspaces collate p s ws = (case s of
     SortMembers \<Rightarrow> sort_key (\<lambda>w. - int (case map_of (headcounts (pf_users p)) (w_id w) of
                        Some n \<Rightarrow> n | None \<Rightarrow> 0)) ws
   | SortActivity \<Rightarrow> (let seen = map_of (last_seen (events (pf_ledger p))) in
        sort_key (\<lambda>w. - the (seen (w_id w))) (filter (\<lambda>w. seen (w_id w) \<noteq> None) ws)
        @ filter (\<lambda>w. seen (w_id w) = None) ws)
   | SortName \<Rightarrow> sort_key (\<lambda>w. collate (to_lower (w_name w))) ws
   | SortCreated \<Rightarrow> sort_key (\<lambda>w. - w_createdAt w) ws)"

definition driver_ids ::
  "(string \<Rightarrow> nat) \<Rightarrow> (workspace list \<Rightarrow> workspace list) \<Rightarrow> list_options \<Rightarrow> platform \<Rightarrow> uuid list" where
  "driver_ids collate scan opts p =
     map w_id (take (page_limit (lo_limit opts)) (drop (page_offset (lo_offset opts))
       (order_workspaces collate p (parse_sort (lo_sort opts))
         (filter (search_matches (lo_search opts)) (scan (pf_workspaces p))))))"

record workspace_page =
  wp_total :: nat
  wp_rows :: "platform_workspace_row list"
  wp_sort :: workspace_sort

definition listPlatformWorkspaces ::
  "(string \<Rightarrow> nat) \<Rightarrow> (workspace list \<Rightarrow> workspace list) \<Rightarrow> time \<Rightarrow> list_options \<Rightarrow> platform \<Rightarrow> workspace_page" where
  "listPlatformWorkspaces collate scan now opts p =
    (let ids = driver_ids collate scan opts p;
         count = length (filter (search_matches (lo_search opts)) (pf_workspaces p));
         sort = parse_sort (lo_sort opts)
     in if ids = [] then \<lparr>wp_total = count, wp_rows = [], wp_sort = sort\<rparr>
        else let a = aggregatesFor ids now p;
                 byId = map_of (map_from (map (\<lambda>w. (w_id w, w))
                   (filter (\<lambda>w. w_id w \<in> set ids) (pf_workspaces p))))
             in \<lparr>wp_total = count, wp_rows = map (toWorkspaceRow a) (List.map_filter byId ids),
                 wp_sort = sort\<rparr>)"

section \<open>One customer\<close>

record integration_summary =
  is_id :: uuid
  is_provider :: provider
  is_appSlug :: string
  is_accountName :: "string option"
  is_accessLevel :: access_level
  is_connectedAt :: time

record workspace_detail =
  wd_id :: uuid
  wd_name :: string
  wd_slackTeamId :: string
  wd_defaultModel :: "string option"
  wd_createdAt :: time
  wd_members :: "admin_member_view list"
  wd_credits :: credit_balance
  wd_usage :: usage_summary
  wd_cost :: cost_summary
  wd_subscription :: "subscription option"
  wd_grants :: "credit_grant list"
  wd_integrations :: "integration_summary list"
  wd_recentActivity :: "activity_entry list"
  wd_bugReportCount :: nat

definition summarize_integration :: "integration \<Rightarrow> integration_summary" where
  "summarize_integration i = \<lparr>is_id = ig_id i, is_provider = ig_provider i, is_appSlug = ig_appSlug i,
     is_accountName = ig_accountName i, is_accessLevel = ig_accessLevel i,
     is_connectedAt = ig_connectedAt i\<rparr>"

definition workspaceDetail :: "uuid \<Rightarrow> time \<Rightarrow> platform \<Rightarrow> workspace_detail result" where
  "workspaceDetail ws now p =
    (case List.find (\<lambda>w. w_id w = ws) (pf_workspaces p) of
       None \<Rightarrow> Inl (NotFound (''Workspace '' @ ws @ '' not found''))
     | Some w \<Rightarrow>
        let rng = \<lparr>dr_from = now - 30 * 86400000, dr_to = now\<rparr>; l = pf_ledger p
        in Inr \<lparr>wd_id = w_id w, wd_name = w_name w, wd_slackTeamId = w_slackTeamId w,
             wd_defaultModel = w_defaultModel w, wd_createdAt = w_createdAt w,
             wd_members = map toMemberView (listAllByWorkspace (pf_users p) ws),
             wd_credits = getBalance ws now l, wd_usage = summarizeForWorkspace ws l,
             wd_cost = costSummary ws rng l,
             wd_subscription = List.find (\<lambda>s. su_workspaceId s = ws) (pf_subscriptions p),
             wd_grants = findGrantsForWorkspace ws 50 l,
             wd_integrations = map summarize_integration
               (filter (\<lambda>i. ig_workspaceId i = ws \<and> ig_isActive i) (pf_integrations p)),
             wd_recentActivity = recentActivity (pf_users p) (pf_tasks p) ws None (Some 25) l,
             wd_bugReportCount = length (filter (\<lambda>b. br_workspaceId b = ws) (pf_bugs p))\<rparr>)"

section \<open>Team sizes\<close>

text \<open>One row per workspace, a workspace without members at zero.\<close>

definition team_rows :: "platform \<Rightarrow> (nat \<times> nat) list" where
  "team_rows p = map (\<lambda>w. let ms = filter (\<lambda>u. u_workspaceId u = w_id w) (pf_users p)
                           in (length ms, length (filter u_isActive ms))) (pf_workspaces p)"

text \<open>\<open>percentile_cont(0.5)\<close>: halfway between the two middle values of an even count.\<close>

definition median_of :: "nat list \<Rightarrow> rat" where
  "median_of ns = (let xs = sort ns; n = length ns in
     if n = 0 then 0
     else if odd n then of_nat (xs ! (n div 2))
     else (of_nat (xs ! (n div 2 - 1)) + of_nat (xs ! (n div 2))) / 2)"

record team_sizes =
  tz_people :: nat
  tz_activePeople :: nat
  tz_meanTeamSize :: rat
  tz_medianTeamSize :: rat
  tz_largestTeam :: nat
  tz_solo :: nat
  tz_small :: nat
  tz_medium :: nat
  tz_large :: nat

text \<open>The mean is the exact quotient; the database prints it to sixteen significant digits.\<close>

definition teamSizes :: "platform \<Rightarrow> team_sizes" where
  "teamSizes p =
    (let rows = team_rows p; sizes = map fst rows
     in \<lparr>tz_people = sum_list sizes, tz_activePeople = sum_list (map snd rows),
         tz_meanTeamSize = (if sizes = [] then 0 else of_nat (sum_list sizes) / of_nat (length sizes)),
         tz_medianTeamSize = median_of sizes,
         tz_largestTeam = (if sizes = [] then 0 else Max (set sizes)),
         tz_solo = length (filter (\<lambda>n. n \<le> 1) sizes),
         tz_small = length (filter (\<lambda>n. 2 \<le> n \<and> n \<le> 5) sizes),
         tz_medium = length (filter (\<lambda>n. 6 \<le> n \<and> n \<le> 20) sizes),
         tz_large = length (filter (\<lambda>n. 20 < n) sizes)\<rparr>)"

section \<open>Headline figures\<close>

text \<open>\<open>new Date(to.getTime() - days * 86_400_000)\<close>: a date keeps whole milliseconds, towards zero.\<close>

definition window_start :: "time \<Rightarrow> rat \<Rightarrow> time" where
  "window_start now days = (let ms = fl (of_int now - fl (days * 86400000)) in
     if ms < 0 then - \<lfloor>- ms\<rfloor> else \<lfloor>ms\<rfloor>)"

record platform_overview =
  po_days :: rat
  po_from :: time
  po_to :: time
  po_workspaces :: nat
  po_newInWindow :: nat
  po_activeInWindow :: nat
  po_idleInWindow :: nat
  po_users :: nat
  po_usersActive :: nat
  po_usersActiveInWindow :: nat
  po_admins :: nat
  po_teams :: team_sizes
  po_totalCents :: int
  po_windowCents :: int
  po_granted :: int
  po_used :: int
  po_events :: nat
  po_chargedUsd :: rat
  po_costUsd :: rat
  po_marginUsd :: rat
  po_windowEvents :: nat
  po_bugsOpen :: nat
  po_bugsInProgress :: nat
  po_bugsTotal :: nat

definition bug_counts :: "bug_report list \<Rightarrow> (bug_report_status \<times> nat) list" where
  "bug_counts bs = map (\<lambda>(s, rows). (s, length rows)) (group_rows br_status bs)"

definition platformOverview :: "time \<Rightarrow> rat \<Rightarrow> platform \<Rightarrow> platform_overview" where
  "platformOverview now days p =
    (let from = window_start now days; l = pf_ledger p; us = pf_users p;
         workspaceCount = length (pf_workspaces p);
         windowEvents = filter (\<lambda>e. from \<le> ce_createdAt e) (events l);
         activeWorkspaces = length (js_unique (map ce_workspaceId windowEvents));
         counts = bug_counts (pf_bugs p);
         bugs = (\<lambda>s. case map_of counts s of Some n \<Rightarrow> n | None \<Rightarrow> 0);
         windowChargedUsd = fl (fl (of_int (sum_list (map ce_creditsUsed windowEvents)))
                                / of_int CREDITS_PER_DOLLAR);
         windowCostUsd = fl (sum_list (map ce_providerCostUsd windowEvents))
     in \<lparr>po_days = days, po_from = from, po_to = now,
         po_workspaces = workspaceCount,
         po_newInWindow = length (filter (\<lambda>w. from \<le> w_createdAt w) (pf_workspaces p)),
         po_activeInWindow = activeWorkspaces,
         po_idleInWindow = nat (max (int workspaceCount - int activeWorkspaces) 0),
         po_users = length us, po_usersActive = length (filter u_isActive us),
         po_usersActiveInWindow = length (filter (\<lambda>u. case u_lastActiveAt u of
             Some t \<Rightarrow> from \<le> t | None \<Rightarrow> False) us),
         po_admins = length (filter (\<lambda>u. u_role u = ADMIN) us),
         po_teams = teamSizes p,
         po_totalCents = sum_list (map cents_of (grants l)),
         po_windowCents = sum_list (map cents_of (filter (\<lambda>g. from \<le> cg_createdAt g) (grants l))),
         po_granted = sum_list (map cg_credits (grants l)),
         po_used = sum_list (map ce_creditsUsed (events l)),
         po_events = length (events l),
         po_chargedUsd = windowChargedUsd, po_costUsd = windowCostUsd,
         po_marginUsd = fl (windowChargedUsd - windowCostUsd),
         po_windowEvents = length windowEvents,
         po_bugsOpen = bugs OPEN, po_bugsInProgress = bugs IN_PROGRESS,
         po_bugsTotal = sum_list (map snd counts)\<rparr>)"

section \<open>The growth chart\<close>

record growth_point =
  gp_day :: int
  gp_signups :: nat
  gp_credits :: int
  gp_costUsd :: rat

text \<open>The loop over the calendar days, both ends included.\<close>

function growth_series ::
  "(int \<times> nat) list \<Rightarrow> (int \<times> int \<times> rat) list \<Rightarrow> int \<Rightarrow> int \<Rightarrow> growth_point list" where
  "growth_series signups usage cursor final =
     (if cursor \<le> final
      then (let (credits, cost) = (case map_of usage cursor of Some r \<Rightarrow> r | None \<Rightarrow> (0, 0))
            in \<lparr>gp_day = cursor,
                gp_signups = (case map_of signups cursor of Some n \<Rightarrow> n | None \<Rightarrow> 0),
                gp_credits = credits, gp_costUsd = fl cost\<rparr>)
           # growth_series signups usage (cursor + 1) final
      else [])"
  by pat_completeness auto
termination
  by (relation "measure (\<lambda>(_, _, c, t). nat (t + 1 - c))") auto

declare growth_series.simps [simp del]

definition signup_rows :: "time \<Rightarrow> workspace list \<Rightarrow> (int \<times> nat) list" where
  "signup_rows from ws = map (\<lambda>(d, rows). (d, length rows))
     (group_rows (\<lambda>w. day_of (w_createdAt w)) (filter (\<lambda>w. from \<le> w_createdAt w) ws))"

definition usage_rows :: "time \<Rightarrow> credit_event list \<Rightarrow> (int \<times> int \<times> rat) list" where
  "usage_rows from es = map (\<lambda>(d, rows). (d, sum_list (map ce_creditsUsed rows),
                                             sum_list (map ce_providerCostUsd rows)))
     (group_rows (\<lambda>e. day_of (ce_createdAt e)) (filter (\<lambda>e. from \<le> ce_createdAt e) es))"

definition growth :: "time \<Rightarrow> rat \<Rightarrow> platform \<Rightarrow> growth_point list" where
  "growth now days p =
    (let from = window_start now days
     in growth_series (map_from (signup_rows from (pf_workspaces p)))
          (map_from (usage_rows from (events (pf_ledger p)))) (day_of from) (day_of now))"

section \<open>The bug inbox\<close>

record bug_inbox_row =
  bx_id :: uuid
  bx_title :: string
  bx_description :: string
  bx_stepsToReproduce :: "string option"
  bx_severity :: bug_report_severity
  bx_status :: bug_report_status
  bx_pageUrl :: "string option"
  bx_userAgent :: "string option"
  bx_resolutionNote :: "string option"
  bx_resolvedAt :: "time option"
  bx_createdAt :: time
  bx_workspace :: "(uuid \<times> string) option"
  bx_reportedBy :: "(uuid \<times> string \<times> string option \<times> string option) option"

definition toBugReportView :: "platform \<Rightarrow> bug_report \<Rightarrow> bug_inbox_row" where
  "toBugReportView p r =
     \<lparr>bx_id = br_id r, bx_title = br_title r, bx_description = br_description r,
      bx_stepsToReproduce = br_stepsToReproduce r, bx_severity = br_severity r,
      bx_status = br_status r, bx_pageUrl = br_pageUrl r, bx_userAgent = br_userAgent r,
      bx_resolutionNote = br_resolutionNote r, bx_resolvedAt = br_resolvedAt r,
      bx_createdAt = br_createdAt r,
      bx_workspace = map_option (\<lambda>w. (w_id w, w_name w))
        (List.find (\<lambda>w. w_id w = br_workspaceId r) (pf_workspaces p)),
      bx_reportedBy = map_option (\<lambda>u. (u_id u, u_name u, u_email u, u_avatarUrl u))
        (Option.bind (br_reportedByUserId r) (findById (pf_users p)))\<rparr>"

definition listBugReports :: "bug_report_status option \<Rightarrow> int option \<Rightarrow> platform \<Rightarrow> bug_inbox_row list" where
  "listBugReports status limit p =
     map (toBugReportView p)
       (newest (nat (min (max (case limit of Some n \<Rightarrow> n | None \<Rightarrow> 100) 1) 500))
         (\<lambda>r. case status of None \<Rightarrow> True | Some s \<Rightarrow> br_status r = s) (pf_bugs p))"

record bug_changes =
  bc_status :: "bug_report_status option"
  bc_resolutionNote :: "string option option"

definition closed_status :: "bug_report_status \<Rightarrow> bool" where
  "closed_status s \<longleftrightarrow> s = RESOLVED \<or> s = DISMISSED"

definition apply_changes :: "time \<Rightarrow> bug_changes \<Rightarrow> bug_report \<Rightarrow> bug_report" where
  "apply_changes now ch r =
    (let r1 = (case bc_status ch of None \<Rightarrow> r
               | Some s \<Rightarrow> r\<lparr>br_status := s,
                   br_resolvedAt := (if closed_status s
                     then Some (case br_resolvedAt r of Some t \<Rightarrow> t | None \<Rightarrow> now) else None)\<rparr>)
     in case bc_resolutionNote ch of None \<Rightarrow> r1 | Some note \<Rightarrow> r1\<lparr>br_resolutionNote := note\<rparr>)"

definition updateBugReport :: "uuid \<Rightarrow> time \<Rightarrow> bug_changes \<Rightarrow> platform \<Rightarrow> bug_inbox_row result \<times> platform" where
  "updateBugReport i now ch p =
    (case List.find (\<lambda>r. br_id r = i) (pf_bugs p) of
       None \<Rightarrow> (Inl (NotFound (''Bug report '' @ i @ '' not found'')), p)
     | Some r \<Rightarrow> (let r' = apply_changes now ch r
                   in (Inr (toBugReportView p r'), p\<lparr>pf_bugs := save_row br_id r' (pf_bugs p)\<rparr>)))"

section \<open>The controller\<close>

definition parseDays :: "string option \<Rightarrow> rat \<Rightarrow> rat" where
  "parseDays raw fallback =
    (case (case raw of None \<Rightarrow> NaN | Some s \<Rightarrow> number_of_string s) of
       Fin n \<Rightarrow> min (max (if n = 0 then fallback else n) 1) 365
     | PInf \<Rightarrow> 365 | NInf \<Rightarrow> 1
     | NaN \<Rightarrow> min (max fallback 1) 365)"

text \<open>An unrecognised status is no filter.\<close>

definition parse_status :: "string option \<Rightarrow> bug_report_status option" where
  "parse_status s = (if s = Some ''open'' then Some OPEN
     else if s = Some ''in_progress'' then Some IN_PROGRESS
     else if s = Some ''resolved'' then Some RESOLVED
     else if s = Some ''dismissed'' then Some DISMISSED else None)"

end
