(* ===== verification/PlatformFacts.thy ===== *)
theory PlatformFacts
  imports PlatformOwner UsageLedger UsageAnalytics
begin

text \<open>
  What the platform owner's panel and the admin pages show is what the ledger holds: the grouped
  queries agree with the per-workspace services, pages tile the ordered list, the growth chart has
  one point per calendar day, and a bug report carries a resolution time exactly while it is closed.
\<close>

section \<open>Grouped queries\<close>

lemma map_of_groups:
  "map_of (map (\<lambda>(k, rs). (k, f rs)) (group_rows key rows)) k =
     (if k \<in> key ` set rows then Some (f (filter (\<lambda>r. key r = k) rows)) else None)"
  by (simp add: map_of_map map_of_group_rows)

lemma keys_groups: "map fst (map (\<lambda>(k, rs). (k, f rs)) (group_rows key rows)) = js_unique (map key rows)"
  by (simp add: group_rows_def comp_def)

lemma map_of_group_map:
  "map_of (map_from (map (\<lambda>(k, rs). (k, f rs)) (group_rows key rows))) k =
     (if k \<in> key ` set rows then Some (f (filter (\<lambda>r. key r = k) rows)) else None)"
proof -
  have "distinct (map fst (map (\<lambda>(k, rs). (k, f rs)) (group_rows key rows)))"
    by (simp only: keys_groups distinct_js_unique)
  then show ?thesis by (simp only: map_from_unique map_of_groups)
qed

lemma no_group: "k \<notin> key ` set rows \<Longrightarrow> filter (\<lambda>r. key r = k) rows = []"
  by (auto simp: filter_empty_conv)

lemma map_of_pairs: "map_of (map_from (map (\<lambda>i. (i, f i)) ids)) i = (if i \<in> set ids then Some (f i) else None)"
proof -
  have "map_of (rev (map (\<lambda>i. (i, f i)) ids)) i = map_of (map (\<lambda>i. (i, f i)) (rev ids)) i" by (simp add: rev_map)
  then show ?thesis by (simp add: map_of_map_from map_of_map_restrict restrict_map_def)
qed

lemma filter_key_in: "k \<in> A \<Longrightarrow> filter (\<lambda>r. key r = k) (filter (\<lambda>r. key r \<in> A \<and> q r) rows) = filter (\<lambda>r. key r = k \<and> q r) rows"
  by (induction rows) auto

lemmas filter_key_in' = filter_key_in[where q = "\<lambda>_. True", simplified]

text \<open>A grouped query restricted to a list of ids answers for each of them as over the whole table.\<close>

lemma scoped_groups:
  assumes "k \<in> A"
  shows "map_of (map (\<lambda>(k, rs). (k, f rs)) (group_rows key (filter (\<lambda>r. key r \<in> A) rows))) k =
      (if filter (\<lambda>r. key r = k) rows = [] then None else Some (f (filter (\<lambda>r. key r = k) rows)))"
    and "map_of (map_from (map (\<lambda>(k, rs). (k, f rs)) (group_rows key (filter (\<lambda>r. key r \<in> A) rows)))) k =
      (if filter (\<lambda>r. key r = k) rows = [] then None else Some (f (filter (\<lambda>r. key r = k) rows)))"
proof -
  have "k \<in> key ` set (filter (\<lambda>r. key r \<in> A) rows) \<longleftrightarrow> filter (\<lambda>r. key r = k) rows \<noteq> []"
    using assms by (force simp: filter_empty_conv)
  moreover note filter_key_in'[OF assms, of key rows]
  ultimately show "map_of (map (\<lambda>(k, rs). (k, f rs)) (group_rows key (filter (\<lambda>r. key r \<in> A) rows))) k =
      (if filter (\<lambda>r. key r = k) rows = [] then None else Some (f (filter (\<lambda>r. key r = k) rows)))"
    "map_of (map_from (map (\<lambda>(k, rs). (k, f rs)) (group_rows key (filter (\<lambda>r. key r \<in> A) rows)))) k =
      (if filter (\<lambda>r. key r = k) rows = [] then None else Some (f (filter (\<lambda>r. key r = k) rows)))"
    by (simp_all only: map_of_groups map_of_group_map if_split_asm split: if_split) simp_all
qed

text \<open>A map of the rows of a unique column finds what \<open>findOne\<close> finds.\<close>

lemma scoped_lookup:
  assumes "distinct (map key rows)" "k \<in> A"
  shows "map_of (map_from (map (\<lambda>r. (key r, r)) (filter (\<lambda>r. key r \<in> A) rows))) k =
    List.find (\<lambda>r. key r = k) rows"
proof -
  have "distinct (map fst (map (\<lambda>r. (key r, r)) (filter (\<lambda>r. key r \<in> A) rows)))"
    using assms(1) by (simp add: comp_def distinct_map_filter)
  moreover have "map_of (map (\<lambda>r. (key r, r)) (filter (\<lambda>r. key r \<in> A) rows)) k = List.find (\<lambda>r. key r = k) rows"
    using assms(2) by (induction rows) auto
  ultimately show ?thesis by (simp only: map_from_unique)
qed

section \<open>Credits\<close>

lemma spend_lookup:
  "(case map_of (spend_rows as) g of Some s \<Rightarrow> s | None \<Rightarrow> 0) = spent_on as g"
  unfolding spend_rows_def map_of_groups
  using no_group[of g ca_grantId as] by (simp add: spent_on_def)

lemma live_part_eq:
  "live_part now (spend_rows (allocations l)) g = (if is_live now g then remaining_of l g else 0)"
  by (simp add: live_part_def spend_lookup remaining_of_def max.commute)

definition grants_of :: "uuid \<Rightarrow> ledger \<Rightarrow> credit_grant list" where
  "grants_of ws l = filter (\<lambda>g. cg_workspaceId g = ws) (grants l)"

lemma live_total:
  "sum_list (map (live_part now (spend_rows (allocations l))) (grants_of ws l)) = cb_balance (getBalance ws now l)"
proof -
  have "sum_list (map (live_part now (spend_rows (allocations l))) gs) =
      sum_list (map (remaining_of l) (filter (is_live now) gs))" for gs
    by (induction gs) (auto simp: live_part_eq)
  then show ?thesis by (simp add: grants_of_def getBalance_closed live_grants_def conj_commute)
qed

lemma creditsByWorkspace_closed:
  assumes "ws \<in> set ids"
  shows "map_of (creditsByWorkspace ids now l) ws =
     Some \<lparr>ct_granted = cb_granted (getBalance ws now l), ct_used = cb_used (getBalance ws now l),
           ct_balance = cb_balance (getBalance ws now l),
           ct_paidCents = sum_list (map cents_of (grants_of ws l))\<rparr>"
proof -
  have gr: "(case map_of (grant_rows ids now l) ws of Some r \<Rightarrow> r | None \<Rightarrow> (0, 0, 0)) =
      (sum_list (map cg_credits (grants_of ws l)), sum_list (map cents_of (grants_of ws l)),
       sum_list (map (live_part now (spend_rows (allocations l))) (grants_of ws l)))"
  proof -
    let ?f = "\<lambda>gs. (sum_list (map cg_credits gs), sum_list (map cents_of gs),
        sum_list (map (live_part now (spend_rows (allocations l))) gs))"
    have "grant_rows ids now l = map (\<lambda>(w, gs). (w, ?f gs))
        (group_rows cg_workspaceId (filter (\<lambda>g. cg_workspaceId g \<in> set ids) (grants l)))"
      by (simp add: grant_rows_def Let_def)
    then show ?thesis
      by (simp add: scoped_groups(1)[OF assms] grants_of_def)
  qed
  have us: "(case map_of (map_from (used_rows ids l)) ws of Some n \<Rightarrow> n | None \<Rightarrow> 0) = cb_used (getBalance ws now l)"
    unfolding used_rows_def scoped_groups(2)[OF assms]
    by (auto simp: getBalance_def summarizeForWorkspace_def Let_def split: prod.splits)
  let ?g = "\<lambda>i. let (granted, paid, live) = (case map_of (grant_rows ids now l) i of Some r \<Rightarrow> r | None \<Rightarrow> (0, 0, 0))
       in \<lparr>ct_granted = granted,
           ct_used = (case map_of (map_from (used_rows ids l)) i of Some n \<Rightarrow> n | None \<Rightarrow> 0),
           ct_balance = live, ct_paidCents = paid\<rparr>"
  have "creditsByWorkspace ids now l = map_from (map (\<lambda>i. (i, ?g i)) ids)"
    using assms unfolding creditsByWorkspace_def by (auto simp: Let_def case_prod_unfold)
  then have "map_of (creditsByWorkspace ids now l) ws = Some (?g ws)"
    using assms by (simp only: map_of_pairs if_True)
  then show ?thesis by (simp add: gr us live_total) (simp add: getBalance_closed(1) grants_of_def)
qed

section \<open>The customer table\<close>

definition members_of :: "uuid \<Rightarrow> platform \<Rightarrow> user list" where
  "members_of ws p = filter (\<lambda>u. u_workspaceId u = ws) (pf_users p)"

lemma toWorkspaceRow_closed:
  fixes now :: time
  assumes "w_id w \<in> set ids" "distinct (map su_workspaceId (pf_subscriptions p))"
  defines "r \<equiv> toWorkspaceRow (aggregatesFor ids now p) w" and "b \<equiv> getBalance (w_id w) now (pf_ledger p)"
  shows "wr_id r = w_id w" "wr_members r = count_members (members_of (w_id w) p)"
    and "wr_granted r = cb_granted b" "wr_used r = cb_used b" "wr_balance r = cb_balance b"
    and "wr_paidCents r = sum_list (map cents_of (grants_of (w_id w) (pf_ledger p)))"
    and "wr_connectedAccounts r =
      length (filter (\<lambda>i. ig_workspaceId i = w_id w \<and> ig_isActive i) (pf_integrations p))"
    and "map_option pl_planId (wr_plan r) =
      map_option su_planId (List.find (\<lambda>s. su_workspaceId s = w_id w) (pf_subscriptions p))"
proof -
  have ne: "ids \<noteq> []" using assms(1) by auto
  note d = assms(3,4) toWorkspaceRow_def aggregatesFor_def
  have c: "map_of (wa_credits (aggregatesFor ids now p)) (w_id w) =
      map_of (creditsByWorkspace ids now (pf_ledger p)) (w_id w)"
    using ne by (simp add: aggregatesFor_def)
  show "wr_id r = w_id w" by (simp add: d Let_def)
  show "wr_members r = count_members (members_of (w_id w) p)"
    using ne by (simp add: d Let_def scoped_groups(2)[OF assms(1)] members_of_def count_members_def
        del: filter_filter)
  show "wr_granted r = cb_granted b" "wr_used r = cb_used b" "wr_balance r = cb_balance b"
    "wr_paidCents r = sum_list (map cents_of (grants_of (w_id w) (pf_ledger p)))"
    by (simp_all add: assms(3,4) toWorkspaceRow_def c creditsByWorkspace_closed[OF assms(1)])
  have "filter (\<lambda>i. ig_workspaceId i = w_id w)
      (filter (\<lambda>i. ig_workspaceId i \<in> set ids \<and> ig_isActive i) (pf_integrations p)) =
      filter (\<lambda>i. ig_workspaceId i = w_id w \<and> ig_isActive i) (pf_integrations p)"
    by (rule filter_key_in) (rule assms(1))
  moreover have "filter (\<lambda>i. ig_workspaceId i = w_id w \<and> ig_isActive i) (pf_integrations p) = []"
    if "w_id w \<notin> ig_workspaceId ` set (filter (\<lambda>i. ig_workspaceId i \<in> set ids \<and> ig_isActive i) (pf_integrations p))"
    using that assms(1) by (force simp: filter_empty_conv)
  ultimately show "wr_connectedAccounts r =
      length (filter (\<lambda>i. ig_workspaceId i = w_id w \<and> ig_isActive i) (pf_integrations p))"
    using ne by (simp add: d Let_def map_of_group_map)
  show "map_option pl_planId (wr_plan r) =
      map_option su_planId (List.find (\<lambda>s. su_workspaceId s = w_id w) (pf_subscriptions p))"
    using ne by (simp add: d Let_def option.map_comp comp_def scoped_lookup[OF assms(2,1)])
qed

section \<open>Pages\<close>

text \<open>The database reads every workspace once, in an order of its own.\<close>

definition fair_scan :: "(workspace list \<Rightarrow> workspace list) \<Rightarrow> platform \<Rightarrow> bool" where
  "fair_scan scan p \<longleftrightarrow> mset (scan (pf_workspaces p)) = mset (pf_workspaces p)"

definition ordered_ids ::
  "(string \<Rightarrow> nat) \<Rightarrow> (workspace list \<Rightarrow> workspace list) \<Rightarrow> list_options \<Rightarrow> platform \<Rightarrow> uuid list" where
  "ordered_ids collate scan opts p = map w_id (order_workspaces collate p (parse_sort (lo_sort opts))
     (filter (search_matches (lo_search opts)) (scan (pf_workspaces p))))"

lemma mset_order: "mset (order_workspaces collate p s ws) = mset ws"
proof (cases s)
  case SortActivity
  then show ?thesis by (simp add: order_workspaces_def Let_def)
qed (simp_all add: order_workspaces_def)

lemma ordered_ids_mset:
  assumes "fair_scan scan p"
  shows "mset (ordered_ids collate scan opts p) =
    mset (map w_id (filter (search_matches (lo_search opts)) (pf_workspaces p)))"
  using assms by (simp add: ordered_ids_def mset_order fair_scan_def)

lemma driver_ids_eq:
  "driver_ids collate scan opts p =
     take (page_limit (lo_limit opts)) (drop (page_offset (lo_offset opts)) (ordered_ids collate scan opts p))"
  by (simp add: driver_ids_def ordered_ids_def take_map drop_map)

lemma distinct_ordered:
  assumes "fair_scan scan p" "distinct (map w_id (pf_workspaces p))"
  shows "distinct (ordered_ids collate scan opts p)"
  using mset_eq_imp_distinct_iff[OF ordered_ids_mset[OF assms(1)]] assms(2)
  by (simp add: distinct_map_filter)

lemma driver_ids_known:
  assumes "fair_scan scan p" "i \<in> set (driver_ids collate scan opts p)"
  obtains w where "w \<in> set (pf_workspaces p)" "w_id w = i" "search_matches (lo_search opts) w"
proof -
  have "i \<in> set (ordered_ids collate scan opts p)"
    using assms(2) by (auto simp: driver_ids_eq dest: in_set_takeD in_set_dropD)
  then have "i \<in> set (map w_id (filter (search_matches (lo_search opts)) (pf_workspaces p)))"
    by (simp only: mset_eq_setD[OF ordered_ids_mset[OF assms(1)]])
  then show ?thesis using that by auto
qed

lemma find_by_id:
  "distinct (map w_id ws) \<Longrightarrow> w \<in> set ws \<Longrightarrow> List.find (\<lambda>x. w_id x = w_id w) ws = Some w"
  by (induction ws) auto

lemma map_filter_total: "(\<And>x. x \<in> set xs \<Longrightarrow> f x = Some (g x)) \<Longrightarrow> List.map_filter f xs = map g xs"
  by (induction xs) (simp_all add: List.map_filter_simps)

text \<open>The rows of a page are those of the driver's ids, in the driver's order.\<close>

lemma page_rows:
  fixes opts :: list_options and collate :: "string \<Rightarrow> nat"
  assumes scan: "fair_scan scan p"
    and ids: "distinct (map w_id (pf_workspaces p))"
  defines "is \<equiv> driver_ids collate scan opts p"
  shows "wp_rows (listPlatformWorkspaces collate scan now opts p) =
    map (\<lambda>i. toWorkspaceRow (aggregatesFor is now p)
               (the (List.find (\<lambda>w. w_id w = i) (pf_workspaces p)))) is"
proof (cases "is = []")
  case False
  let ?byId = "map_of (map_from (map (\<lambda>w. (w_id w, w)) (filter (\<lambda>w. w_id w \<in> set is) (pf_workspaces p))))"
  have "?byId i = List.find (\<lambda>w. w_id w = i) (pf_workspaces p)" if "i \<in> set is" for i
    by (rule scoped_lookup[OF ids that])
  moreover have "List.find (\<lambda>w. w_id w = i) (pf_workspaces p) \<noteq> None" if "i \<in> set is" for i
  proof -
    from driver_ids_known[OF scan] that obtain w where "w \<in> set (pf_workspaces p)" "w_id w = i"
      unfolding is_def by metis
    then show ?thesis using find_by_id[OF ids] by auto
  qed
  ultimately have "List.map_filter ?byId is = map (\<lambda>i. the (List.find (\<lambda>w. w_id w = i) (pf_workspaces p))) is"
    by (intro map_filter_total) auto
  with False show ?thesis by (simp add: listPlatformWorkspaces_def Let_def is_def comp_def)
qed (simp add: listPlatformWorkspaces_def Let_def is_def)

lemma page_ids:
  assumes scan: "fair_scan scan p"
    and ids: "distinct (map w_id (pf_workspaces p))"
  shows "map wr_id (wp_rows (listPlatformWorkspaces collate scan now opts p)) = driver_ids collate scan opts p"
proof -
  have "wr_id (toWorkspaceRow a (the (List.find (\<lambda>w. w_id w = i) (pf_workspaces p)))) = i"
    if "i \<in> set (driver_ids collate scan opts p)" for i a
  proof -
    from driver_ids_known[OF scan that] obtain w where "w \<in> set (pf_workspaces p)" "w_id w = i" .
    then show ?thesis using find_by_id[OF ids, of w] by (simp add: toWorkspaceRow_def Let_def)
  qed
  then show ?thesis by (simp add: page_rows[OF scan ids] map_idI)
qed

lemma concat_pages:
  "concat (map (\<lambda>k. take n (drop (k * n) xs)) [0..<m]) = take (m * n) xs"
proof (induction m)
  case (Suc m)
  then show ?case by (simp add: take_add add.commute[of n])
qed simp

lemma workspaceDetail_found:
  assumes "List.find (\<lambda>w. w_id w = ws) (pf_workspaces p) = Some w"
  shows "\<exists>d. workspaceDetail ws now p = Inr d \<and> wd_name d = w_name w
    \<and> wd_credits d = getBalance ws now (pf_ledger p) \<and> wd_members d = map toMemberView (members_of ws p)
    \<and> wd_integrations d = map summarize_integration
        (filter (\<lambda>i. ig_workspaceId i = ws \<and> ig_isActive i) (pf_integrations p))
    \<and> wd_subscription d = List.find (\<lambda>s. su_workspaceId s = ws) (pf_subscriptions p)"
  by (simp add: workspaceDetail_def assms Let_def listAllByWorkspace_def members_of_def)

lemma active_views: "am_isActive \<circ> toMemberView = u_isActive"
  by (simp add: fun_eq_iff toMemberView_def)

text \<open>C34: The customer table and the drill-in never disagree: for every row of any page, in any order
  and under any search, the detail of that workspace exists and shows the same credits granted,
  used and left, the same members and active members, the same number of connected accounts and
  the same plan.
\<close>

theorem rows_agree_with_drill_in:
  assumes "fair_scan scan p" "distinct (map w_id (pf_workspaces p))"
    and "distinct (map su_workspaceId (pf_subscriptions p))"
    and "r \<in> set (wp_rows (listPlatformWorkspaces collate scan now opts p))"
  shows "\<exists>d. workspaceDetail (wr_id r) now p = Inr d \<and> wd_name d = wr_name r
    \<and> cb_granted (wd_credits d) = wr_granted r \<and> cb_used (wd_credits d) = wr_used r
    \<and> cb_balance (wd_credits d) = wr_balance r
    \<and> length (wd_members d) = mc_total (wr_members r)
    \<and> length (filter am_isActive (wd_members d)) = mc_active (wr_members r)
    \<and> length (wd_integrations d) = wr_connectedAccounts r
    \<and> map_option su_planId (wd_subscription d) = map_option pl_planId (wr_plan r)"
proof -
  let ?is = "driver_ids collate scan opts p"
  from assms(4) obtain i where i: "i \<in> set ?is"
    "r = toWorkspaceRow (aggregatesFor ?is now p) (the (List.find (\<lambda>w. w_id w = i) (pf_workspaces p)))"
    by (auto simp: page_rows[OF assms(1,2)])
  from driver_ids_known[OF assms(1) i(1)] obtain w where w: "w \<in> set (pf_workspaces p)" "w_id w = i" .
  note find = find_by_id[OF assms(2) w(1)]
  have r: "r = toWorkspaceRow (aggregatesFor ?is now p) w" using i(2) find w(2) by simp
  have mem: "w_id w \<in> set ?is" using i(1) w(2) by simp
  note row = toWorkspaceRow_closed[where now = now, OF mem assms(3), folded r]
  have name: "wr_name r = w_name w" by (simp add: r toWorkspaceRow_def Let_def)
  from workspaceDetail_found[OF find, of now] obtain d where
    "workspaceDetail (w_id w) now p = Inr d" "wd_name d = w_name w"
    "wd_credits d = getBalance (w_id w) now (pf_ledger p)"
    "wd_members d = map toMemberView (members_of (w_id w) p)"
    "wd_integrations d = map summarize_integration
        (filter (\<lambda>i. ig_workspaceId i = w_id w \<and> ig_isActive i) (pf_integrations p))"
    "wd_subscription d = List.find (\<lambda>s. su_workspaceId s = w_id w) (pf_subscriptions p)" by blast
  then show ?thesis
    by (intro exI[of _ d]) (simp add: row name filter_map active_views count_members_def)
qed

text \<open>What the driver orders a workspace by; nothing for one that never ran anything, by activity.\<close>

definition order_value :: "(string \<Rightarrow> nat) \<Rightarrow> platform \<Rightarrow> workspace_sort \<Rightarrow> workspace \<Rightarrow> int option" where
  "order_value collate p s w = (case s of
     SortMembers \<Rightarrow> Some (- int (case map_of (headcounts (pf_users p)) (w_id w) of Some n \<Rightarrow> n | None \<Rightarrow> 0))
   | SortActivity \<Rightarrow> map_option uminus (map_of (last_seen (events (pf_ledger p))) (w_id w))
   | SortName \<Rightarrow> Some (int (collate (to_lower (w_name w))))
   | SortCreated \<Rightarrow> Some (- w_createdAt w))"

lemma sort_key_same:
  fixes f :: "'a \<Rightarrow> 'k::linorder"
  shows "mset xs = mset ys \<Longrightarrow> inj_on f (set xs) \<Longrightarrow> sort_key f xs = sort_key f ys"
  using sort_key_inj_key_eq[of xs "sort_key f ys" f] by simp

lemma alike_at_most_one:
  assumes "mset xs = mset ys" "distinct xs" "inj_on f (set xs)" "\<forall>x \<in> set xs. f x = c"
  shows "xs = ys"
proof -
  have "length xs \<le> 1"
  proof (rule ccontr)
    assume "\<not> length xs \<le> 1"
    then obtain x y zs where "xs = x # y # zs" by (cases xs rule: remdups_adj.cases) auto
    with assms(2-4) show False by (auto simp: inj_on_def)
  qed
  then consider "xs = []" | x where "xs = [x]" by (cases xs) auto
  then show ?thesis using assms(1) by cases auto
qed

text \<open>When no two workspaces tie in it, every scan is put into the same order.\<close>

lemma untied_order:
  assumes "mset xs = mset ys" "distinct xs" and inj: "inj_on (order_value collate p s) (set xs)"
  shows "order_workspaces collate p s xs = order_workspaces collate p s ys"
proof (cases s)
  case SortActivity
  let ?seen = "map_of (last_seen (events (pf_ledger p)))"
  have v: "order_value collate p s w = map_option uminus (?seen (w_id w))" for w by (simp add: order_value_def SortActivity)
  have part: "mset (filter P xs) = mset (filter P ys)" "distinct (filter P xs)"
    "inj_on (order_value collate p s) (set (filter P xs))" for P
    using assms by (auto intro: inj_on_subset)
  have "inj_on (\<lambda>w. - the (?seen (w_id w))) (set (filter (\<lambda>w. ?seen (w_id w) \<noteq> None) xs))"
    using part(3)[of "\<lambda>w. ?seen (w_id w) \<noteq> None"] unfolding inj_on_def v by fastforce
  note active = sort_key_same[OF part(1) this]
  have "filter (\<lambda>w. ?seen (w_id w) = None) xs = filter (\<lambda>w. ?seen (w_id w) = None) ys"
    by (rule alike_at_most_one[OF part, where c = None]) (auto simp: v)
  with active show ?thesis by (simp only: order_workspaces_def SortActivity Let_def workspace_sort.case)
next
  case SortMembers
  with inj have "inj_on (\<lambda>w. - int (case map_of (headcounts (pf_users p)) (w_id w) of Some n \<Rightarrow> n | None \<Rightarrow> 0)) (set xs)"
    by (simp add: order_value_def inj_on_def)
  from sort_key_same[OF assms(1) this] show ?thesis by (simp add: order_workspaces_def SortMembers)
next
  case SortName
  with inj have "inj_on (\<lambda>w. collate (to_lower (w_name w))) (set xs)" by (simp add: order_value_def inj_on_def)
  from sort_key_same[OF assms(1) this] show ?thesis by (simp add: order_workspaces_def SortName)
next
  case SortCreated
  with inj have "inj_on (\<lambda>w. - w_createdAt w) (set xs)" by (simp add: order_value_def inj_on_def)
  from sort_key_same[OF assms(1) this] show ?thesis by (simp add: order_workspaces_def SortCreated)
qed

text \<open>C35: Pages of the customer table tile it when no two workspaces that match the search tie in what the table is sorted
  by: walking the pages at one page size, however the database scans its rows for each page, lists every workspace that
  matches the search exactly once, in the one order of the table, and their number is the total every page
  reports.  (With ties, and a scan that may differ from page to page, a workspace can be skipped:
  \<open>pages_may_skip_a_workspace\<close>.)\<close>

theorem pages_tile_the_table:
  fixes opts :: list_options and now :: time and collate :: "string \<Rightarrow> nat" and scan :: "nat \<Rightarrow> workspace list \<Rightarrow> workspace list"
    and p :: platform and n :: nat
  defines "page \<equiv> \<lambda>k. listPlatformWorkspaces collate (scan k) now
      (opts\<lparr>lo_limit := Some (int n), lo_offset := Some (int (k * n))\<rparr>) p"
    and "matching \<equiv> filter (search_matches (lo_search opts)) (pf_workspaces p)"
  assumes "\<And>k. fair_scan (scan k) p" "distinct (map w_id (pf_workspaces p))" "1 \<le> n" "n \<le> 200"
    and "length (pf_workspaces p) \<le> m * n"
    and untied: "inj_on (order_value collate p (parse_sort (lo_sort opts))) (set matching)"
  shows "concat (map (\<lambda>k. map wr_id (wp_rows (page k))) [0..<m])
      = map w_id (order_workspaces collate p (parse_sort (lo_sort opts)) matching)
    \<and> mset (concat (map (\<lambda>k. map wr_id (wp_rows (page k))) [0..<m])) = mset (map w_id matching)
    \<and> wp_total (page k) = length matching"
proof -
  let ?opts = "\<lambda>k. opts\<lparr>lo_limit := Some (int n), lo_offset := Some (int (k * n))\<rparr>"
  let ?xs = "map w_id (order_workspaces collate p (parse_sort (lo_sort opts)) matching)"
  have lim: "page_limit (Some (int n)) = n" "page_offset (Some (int k)) = k" for k
    using assms(5,6) by (simp_all add: page_limit_def page_offset_def)
  have one: "ordered_ids collate (scan k) (?opts k) p = ?xs" for k
  proof -
    let ?found = "filter (search_matches (lo_search opts)) (scan k (pf_workspaces p))"
    have "mset matching = mset ?found" using assms(3)[of k] by (simp add: matching_def fair_scan_def)
    moreover have "distinct matching" using assms(4) by (simp add: matching_def distinct_map)
    ultimately have "order_workspaces collate p (parse_sort (lo_sort opts)) matching
        = order_workspaces collate p (parse_sort (lo_sort opts)) ?found" using untied by (rule untied_order)
    then show ?thesis by (simp add: ordered_ids_def)
  qed
  have "map wr_id (wp_rows (page k)) = take n (drop (k * n) ?xs)" for k
    unfolding page_def page_ids[OF assms(3,4)] driver_ids_eq one by (simp add: lim del: of_nat_mult)
  then have c: "concat (map (\<lambda>k. map wr_id (wp_rows (page k))) [0..<m]) = take (m * n) ?xs"
    by (simp only: concat_pages)
  have "length ?xs = length matching" using mset_order by (metis length_map size_mset)
  moreover have "length matching \<le> length (pf_workspaces p)" by (simp add: matching_def)
  ultimately have t: "take (m * n) ?xs = ?xs" using assms(7) by simp
  have "mset ?xs = mset (map w_id matching)" by (simp add: mset_order)
  moreover have "wp_total (page k) = length matching"
    by (simp add: page_def listPlatformWorkspaces_def Let_def matching_def)
  ultimately show ?thesis by (simp only: c t simp_thms)
qed

section \<open>Sums over the platform\<close>

lemma sum_over_keys:
  fixes f :: "'r \<Rightarrow> 'b::comm_monoid_add"
  assumes "distinct ks"
  shows "sum_list (map (\<lambda>k. sum_list (map f (filter (\<lambda>r. key r = k) rows))) ks) =
    sum_list (map f (filter (\<lambda>r. key r \<in> set ks) rows))"
  using assms
proof (induction ks)
  case (Cons k ks)
  have "sum_list (map f (filter (\<lambda>r. key r \<in> set (k # ks)) rows)) =
      sum_list (map f (filter (\<lambda>r. key r = k) rows)) + sum_list (map f (filter (\<lambda>r. key r \<in> set ks) rows))"
    using Cons.prems by (induction rows) (auto simp: ac_simps)
  with Cons show ?case by simp
qed simp

lemma sum_all_keys:
  fixes f :: "'r \<Rightarrow> 'b::comm_monoid_add"
  assumes "distinct ks" "key ` set rows \<subseteq> set ks"
  shows "sum_list (map (\<lambda>k. sum_list (map f (filter (\<lambda>r. key r = k) rows))) ks) = sum_list (map f rows)"
proof -
  have "filter (\<lambda>r. key r \<in> set ks) rows = rows" using assms(2) by (intro filter_True) auto
  then show ?thesis by (simp only: sum_over_keys[OF assms(1)])
qed

lemmas length_all_keys = sum_all_keys[where f = "\<lambda>_. 1 :: nat", simplified sum_list_triv, simplified]

text \<open>
  The headline figures are the sums of the customers' figures: over all workspaces of the
  platform, what was paid, granted and used adds up to the revenue and credits of the overview.
\<close>

lemma overview_sums_the_customers:
  fixes days :: rat and now :: time
  assumes "distinct (map w_id (pf_workspaces p))"
    and "cg_workspaceId ` set (grants (pf_ledger p)) \<subseteq> w_id ` set (pf_workspaces p)"
    and "ce_workspaceId ` set (events (pf_ledger p)) \<subseteq> w_id ` set (pf_workspaces p)"
  defines "ids \<equiv> map w_id (pf_workspaces p)"
    and "overview \<equiv> platformOverview now days p"
  defines "totals \<equiv> map (\<lambda>i. the (map_of (creditsByWorkspace ids now (pf_ledger p)) i)) ids"
  shows "sum_list (map ct_paidCents totals) = po_totalCents overview
    \<and> sum_list (map ct_granted totals) = po_granted overview
    \<and> sum_list (map ct_used totals) = po_used overview"
proof -
  let ?l = "pf_ledger p"
  have d: "distinct ids" using assms(1) by (simp add: ids_def)
  have g: "cg_workspaceId ` set (grants ?l) \<subseteq> set ids" and e: "ce_workspaceId ` set (events ?l) \<subseteq> set ids"
    using assms(2,3) by (simp_all add: ids_def)
  have t: "map f totals = map (\<lambda>i. f \<lparr>ct_granted = cb_granted (getBalance i now ?l),
      ct_used = cb_used (getBalance i now ?l), ct_balance = cb_balance (getBalance i now ?l),
      ct_paidCents = sum_list (map cents_of (grants_of i ?l))\<rparr>) ids" for f :: "credit_totals \<Rightarrow> int"
    by (simp add: totals_def creditsByWorkspace_closed)
  have u: "cb_used (getBalance i now ?l) =
      sum_list (map ce_creditsUsed (filter (\<lambda>e. ce_workspaceId e = i) (events ?l)))" for i
    by (simp add: getBalance_def summarizeForWorkspace_def Let_def split: prod.split)
  note o = overview_def platformOverview_def Let_def
  show ?thesis
    unfolding t by (simp add: o grants_of_def sum_all_keys[OF d g] getBalance_closed(1) u sum_all_keys[OF d e])
qed

section \<open>The growth chart\<close>

lemma growth_series_map:
  "growth_series signups usage a b = map (\<lambda>d. let (credits, cost) = (case map_of usage d of Some r \<Rightarrow> r | None \<Rightarrow> (0, 0))
     in \<lparr>gp_day = d, gp_signups = (case map_of signups d of Some n \<Rightarrow> n | None \<Rightarrow> 0),
         gp_credits = credits, gp_costUsd = fl cost\<rparr>) [a..b]"
proof (induction signups usage a b rule: growth_series.induct)
  case (1 signups usage a b)
  then show ?case by (subst growth_series.simps) (simp add: upto_rec1)
qed

lemma day_in_window:
  "from \<le> t \<Longrightarrow> t \<le> now \<Longrightarrow> day_of t \<in> set [day_of from..day_of now]"
  by (simp add: day_of_def day_ms_def zdiv_mono1)

lemma growth_lookups:
  fixes p :: platform and now :: time and days :: rat
  defines "from \<equiv> window_start now days"
  shows "map gp_day (growth now days p) = [day_of from..day_of now]"
    and "map gp_signups (growth now days p) = map (\<lambda>d. length (filter (\<lambda>w. day_of (w_createdAt w) = d)
      (filter (\<lambda>w. from \<le> w_createdAt w) (pf_workspaces p)))) [day_of from..day_of now]"
    and "map gp_credits (growth now days p) = map (\<lambda>d. sum_list (map ce_creditsUsed (filter (\<lambda>e. day_of (ce_createdAt e) = d)
      (filter (\<lambda>e. from \<le> ce_createdAt e) (events (pf_ledger p)))))) [day_of from..day_of now]"
proof -
  let ?ws = "filter (\<lambda>w. from \<le> w_createdAt w) (pf_workspaces p)"
  let ?es = "filter (\<lambda>e. from \<le> ce_createdAt e) (events (pf_ledger p))"
  have s: "(case map_of (map_from (signup_rows from (pf_workspaces p))) d of Some n \<Rightarrow> n | None \<Rightarrow> 0) =
      length (filter (\<lambda>w. day_of (w_createdAt w) = d) ?ws)" for d
    using no_group[of d "\<lambda>w. day_of (w_createdAt w)" ?ws]
    by (auto simp: signup_rows_def map_of_group_map)
  have u: "fst (case map_of (map_from (usage_rows from (events (pf_ledger p)))) d of Some r \<Rightarrow> r | None \<Rightarrow> (0, 0)) =
      sum_list (map ce_creditsUsed (filter (\<lambda>e. day_of (ce_createdAt e) = d) ?es))" for d
  proof -
    let ?f = "\<lambda>rows. (sum_list (map ce_creditsUsed rows), sum_list (map ce_providerCostUsd rows))"
    have "usage_rows from (events (pf_ledger p)) =
        map (\<lambda>(d, rows). (d, ?f rows)) (group_rows (\<lambda>e. day_of (ce_createdAt e)) ?es)"
      by (simp add: usage_rows_def)
    moreover have "(\<exists>e \<in> set ?es. day_of (ce_createdAt e) = d) \<or>
        filter (\<lambda>e. day_of (ce_createdAt e) = d) ?es = []" by (auto simp: filter_empty_conv)
    ultimately show ?thesis by (simp only: map_of_group_map) (auto split: if_splits)
  qed
  show "map gp_day (growth now days p) = [day_of from..day_of now]"
    by (simp add: growth_def growth_series_map from_def Let_def case_prod_unfold comp_def)
  show "map gp_signups (growth now days p) = map (\<lambda>d. length (filter (\<lambda>w. day_of (w_createdAt w) = d) ?ws)) [day_of from..day_of now]"
    by (simp add: growth_def growth_series_map case_prod_unfold Let_def comp_def s flip: from_def)
  show "map gp_credits (growth now days p) = map (\<lambda>d. sum_list (map ce_creditsUsed (filter (\<lambda>e. day_of (ce_createdAt e) = d) ?es))) [day_of from..day_of now]"
    by (simp add: growth_def growth_series_map case_prod_unfold Let_def comp_def u flip: from_def)
qed

text \<open>C36: The growth chart's axis is the calendar and its points lose nothing: one point for every UTC
  day from the start of the window to today, in order, and, no row being dated in the future, the
  signups add up to the overview's new workspaces and the credits to what the overview charges.
\<close>

theorem growth_covers_the_calendar:
  fixes now :: time and days :: rat
  assumes "list_all (\<lambda>w. w_createdAt w \<le> now) (pf_workspaces p)"
    and "list_all (\<lambda>e. ce_createdAt e \<le> now) (events (pf_ledger p))"
  defines "chart \<equiv> growth now days p" and "overview \<equiv> platformOverview now days p"
  shows "map gp_day chart = [day_of (po_from overview)..day_of now]
    \<and> sum_list (map gp_signups chart) = po_newInWindow overview
    \<and> fl (fl (of_int (sum_list (map gp_credits chart))) / of_int CREDITS_PER_DOLLAR) = po_chargedUsd overview"
proof -
  define start where "start = window_start now days"
  let ?ds = "[day_of start..day_of now]"
  note g = growth_lookups[of now days p, folded start_def]
  have w: "(\<lambda>w. day_of (w_createdAt w)) ` set (filter (\<lambda>w. start \<le> w_createdAt w) (pf_workspaces p)) \<subseteq> set ?ds"
    using assms(1) day_in_window by (fastforce simp: list_all_iff)
  have e: "(\<lambda>e. day_of (ce_createdAt e)) ` set (filter (\<lambda>e. start \<le> ce_createdAt e) (events (pf_ledger p))) \<subseteq> set ?ds"
    using assms(2) day_in_window by (fastforce simp: list_all_iff)
  have o: "po_from overview = start"
    "po_newInWindow overview = length (filter (\<lambda>w. start \<le> w_createdAt w) (pf_workspaces p))"
    "po_chargedUsd overview = fl (fl (of_int (sum_list (map ce_creditsUsed
        (filter (\<lambda>e. start \<le> ce_createdAt e) (events (pf_ledger p)))))) / of_int CREDITS_PER_DOLLAR)"
    by (simp_all add: overview_def platformOverview_def Let_def start_def)
  have "sum_list (map gp_signups chart) = po_newInWindow overview"
    using length_all_keys[OF distinct_upto w] by (simp only: chart_def g o)
  moreover have "sum_list (map gp_credits chart) =
      sum_list (map ce_creditsUsed (filter (\<lambda>e. start \<le> ce_createdAt e) (events (pf_ledger p))))"
    using sum_all_keys[OF distinct_upto e] by (simp only: chart_def g)
  ultimately show ?thesis by (simp only: o chart_def g simp_thms)
qed

section \<open>Team sizes\<close>

lemma buckets_partition:
  "length (filter (\<lambda>n. n \<le> 1) ns) + length (filter (\<lambda>n. 2 \<le> n \<and> n \<le> 5) ns)
    + length (filter (\<lambda>n. 6 \<le> n \<and> n \<le> 20) ns) + length (filter (\<lambda>n. 20 < n) ns) = length (ns :: nat list)"
  by (induction ns) auto

text \<open>Every workspace is in one bucket, every member of a known workspace is counted once.\<close>

lemma team_sizes_add_up:
  assumes "distinct (map w_id (pf_workspaces p))" "u_workspaceId ` set (pf_users p) \<subseteq> w_id ` set (pf_workspaces p)"
  shows "tz_solo (teamSizes p) + tz_small (teamSizes p) + tz_medium (teamSizes p) + tz_large (teamSizes p)
      = length (pf_workspaces p)"
    and "tz_people (teamSizes p) = length (pf_users p)"
    and "tz_activePeople (teamSizes p) = length (filter u_isActive (pf_users p))"
proof -
  let ?ids = "map w_id (pf_workspaces p)"
  have rows: "map fst (team_rows p) = map (\<lambda>i. length (filter (\<lambda>u. u_workspaceId u = i) (pf_users p))) ?ids"
    "map snd (team_rows p) = map (\<lambda>i. length (filter (\<lambda>u. u_workspaceId u = i) (filter u_isActive (pf_users p)))) ?ids"
    by (simp_all add: team_rows_def Let_def comp_def conj_commute)
  have u: "u_workspaceId ` set (pf_users p) \<subseteq> set ?ids" "u_workspaceId ` set (filter u_isActive (pf_users p)) \<subseteq> set ?ids"
    using assms(2) by auto
  show "tz_solo (teamSizes p) + tz_small (teamSizes p) + tz_medium (teamSizes p) + tz_large (teamSizes p)
      = length (pf_workspaces p)"
  proof -
    have "length (pf_workspaces p) = length (map fst (team_rows p))" by (simp add: team_rows_def)
    then show ?thesis
      by (simp only: teamSizes_def Let_def team_sizes.simps buckets_partition)
  qed
  show "tz_people (teamSizes p) = length (pf_users p)"
    using length_all_keys[OF assms(1) u(1)] by (simp only: teamSizes_def Let_def team_sizes.simps rows)
  show "tz_activePeople (teamSizes p) = length (filter u_isActive (pf_users p))"
    using length_all_keys[OF assms(1) u(2)] by (simp only: teamSizes_def Let_def team_sizes.simps rows)
qed

section \<open>Bug reports over time\<close>

text \<open>
  What happens to the platform's bug table: a member files a report, under a fresh id, or the owner
  changes one; a request that is refused changes nothing.
\<close>

inductive bug_step :: "platform \<Rightarrow> platform \<Rightarrow> bool" where
  filed: "i \<notin> br_id ` set (pf_bugs p) \<Longrightarrow> createBugReport i now inp (pf_bugs p) = (view, rows) \<Longrightarrow>
    bug_step p (p\<lparr>pf_bugs := rows\<rparr>)"
| triaged: "updateBugReport i now ch p = (res, q) \<Longrightarrow> bug_step p q"

definition stamped :: "bug_report \<Rightarrow> bool" where
  "stamped r \<longleftrightarrow> (br_resolvedAt r \<noteq> None \<longleftrightarrow> closed_status (br_status r))"

text \<open>What the reporter wrote and the server filled in when it was filed.\<close>

definition report_content ::
  "bug_report \<Rightarrow> uuid \<times> uuid \<times> uuid option \<times> string \<times> string \<times> string option \<times> bug_report_severity \<times> time" where
  "report_content r = (br_id r, br_workspaceId r, br_reportedByUserId r, br_title r, br_description r,
     br_stepsToReproduce r, br_severity r, br_createdAt r)"

definition bugs_ok :: "platform \<Rightarrow> bool" where
  "bugs_ok p \<longleftrightarrow> distinct (map br_id (pf_bugs p)) \<and> list_all stamped (pf_bugs p)"

lemma apply_changes_stamped: "stamped r \<Longrightarrow> stamped (apply_changes now ch r)"
  by (auto simp: apply_changes_def stamped_def Let_def split: option.split)

lemma apply_changes_content [simp]: "report_content (apply_changes now ch r) = report_content r"
  by (simp add: apply_changes_def report_content_def Let_def split: option.split)

lemma apply_changes_id [simp]: "br_id (apply_changes now ch r) = br_id r"
  using apply_changes_content[of now ch r] by (simp add: report_content_def)

lemma make_report_stamped: "stamped (make_report i now inp)"
  by (simp add: stamped_def make_report_def closed_status_def)

lemma find_in: "List.find P xs = Some x \<Longrightarrow> x \<in> set xs \<and> P x"
  by (induction xs) (auto split: if_splits)

lemma map_save_row_same:
  assumes "distinct (map key rows)" "r \<in> set rows" "key r' = key r" "f r' = f r"
  shows "map f (save_row key r' rows) = map f rows"
proof -
  have "\<exists>x \<in> set rows. key x = key r'" using assms(2,3) by auto
  moreover have "f (if key x = key r' then r' else x) = f x" if "x \<in> set rows" for x
    using assms that by (auto dest: distinct_map_inj_on inj_onD)
  ultimately show ?thesis by (simp add: save_row_def update_where_def)
qed

lemma bug_step_facts:
  assumes "bug_step p q" "bugs_ok p"
  shows "bugs_ok q" and "\<exists>new. map report_content (pf_bugs q) = map report_content (pf_bugs p) @ new"
proof -
  have "bugs_ok q \<and> (\<exists>new. map report_content (pf_bugs q) = map report_content (pf_bugs p) @ new)"
    using assms(1)
  proof cases
    case (filed i now inp view rows)
    then have "rows = pf_bugs p @ [make_report i now inp]" by (simp add: createBugReport_def Let_def)
    with filed assms(2) make_report_stamped[of i now inp] show ?thesis
      by (simp add: bugs_ok_def make_report_def)
  next
    case (triaged i now ch res)
    show ?thesis
    proof (cases "List.find (\<lambda>r. br_id r = i) (pf_bugs p)")
      case None
      with triaged assms(2) show ?thesis by (simp add: updateBugReport_def)
    next
      case (Some r)
      let ?r = "apply_changes now ch r"
      have r: "r \<in> set (pf_bugs p)" using find_in[OF Some] by simp
      have q: "pf_bugs q = save_row br_id ?r (pf_bugs p)"
        using triaged Some by (auto simp: updateBugReport_def Let_def)
      have d: "distinct (map br_id (pf_bugs p))" and s: "list_all stamped (pf_bugs p)"
        using assms(2) by (simp_all add: bugs_ok_def)
      have "stamped ?r" using s r by (auto simp: list_all_iff intro: apply_changes_stamped)
      then have "bugs_ok q" using d s by (auto simp: bugs_ok_def q distinct_save_row list_all_iff set_save_row)
      moreover have "map report_content (pf_bugs q) = map report_content (pf_bugs p)"
        unfolding q by (rule map_save_row_same[OF d r]) simp_all
      ultimately show ?thesis by simp
    qed
  qed
  then show "bugs_ok q" "\<exists>new. map report_content (pf_bugs q) = map report_content (pf_bugs p) @ new" by auto
qed

lemma bug_history:
  assumes "bug_step\<^sup>*\<^sup>* p q" "bugs_ok p"
  shows "bugs_ok q \<and> (\<exists>new. map report_content (pf_bugs q) = map report_content (pf_bugs p) @ new)"
  using assms
proof (induction rule: rtranclp_induct)
  case (step q r)
  then obtain new where "bugs_ok q" "map report_content (pf_bugs q) = map report_content (pf_bugs p) @ new" by blast
  with bug_step_facts[OF step.hyps(2)] show ?case by fastforce
qed simp

text \<open>C37: Whatever members file and the owner triages, starting from an empty inbox: a report carries a
  resolution time exactly while it is resolved or dismissed, ids stay unique, and no report is ever
  lost or rewritten: the reports of any later moment begin with those of the earlier one, with
  their author, workspace and text unchanged.
\<close>

theorem bug_reports_stay_true:
  assumes "bug_step\<^sup>*\<^sup>* p q" "bug_step\<^sup>*\<^sup>* q r" "pf_bugs p = []"
  shows "list_all (\<lambda>b. (br_resolvedAt b \<noteq> None) = (br_status b = RESOLVED \<or> br_status b = DISMISSED)) (pf_bugs r)
    \<and> distinct (map br_id (pf_bugs r))
    \<and> take (length (pf_bugs q)) (map report_content (pf_bugs r)) = map report_content (pf_bugs q)"
proof -
  have "bugs_ok p" using assms(3) by (simp add: bugs_ok_def)
  with bug_history[OF assms(1)] have "bugs_ok q" by simp
  with bug_history[OF assms(2)] obtain new where r: "bugs_ok r"
    "map report_content (pf_bugs r) = map report_content (pf_bugs q) @ new" by blast
  have "stamped = (\<lambda>b. (br_resolvedAt b \<noteq> None) = (br_status b = RESOLVED \<or> br_status b = DISMISSED))"
    by (simp add: fun_eq_iff stamped_def closed_status_def)
  with r show ?thesis by (simp add: bugs_ok_def)
qed

text \<open>A report that stays closed keeps the time it was first closed at.\<close>

lemma stamp_is_kept:
  assumes "closed_status (br_status r)" "stamped r" "bc_status ch = Some s" "closed_status s"
  shows "br_resolvedAt (apply_changes now ch r) = br_resolvedAt r"
  using assms by (auto simp: apply_changes_def stamped_def Let_def split: option.split)

section \<open>Searching by name\<close>

text \<open>Text without a character that means something in a pattern.\<close>

definition plain_text :: "string \<Rightarrow> bool" where
  "plain_text s \<longleftrightarrow> CHR ''%'' \<notin> set s \<and> CHR ''_'' \<notin> set s \<and> CHR 0x5C \<notin> set s"

lemma like_percent: "like_match (CHR ''%'' # q) s \<longleftrightarrow> (\<exists>u r. s = u @ r \<and> like_match q r)"
proof (induction s)
  case (Cons c s)
  have "(\<exists>u r. c # s = u @ r \<and> like_match q r) \<longleftrightarrow> like_match q (c # s) \<or> (\<exists>u r. s = u @ r \<and> like_match q r)"
    by (metis append_Cons append_Nil list.inject neq_Nil_conv)
  with Cons show ?case by simp
qed simp

lemma like_plain: "plain_text s \<Longrightarrow> like_match (s @ q) t \<longleftrightarrow> (\<exists>v. t = s @ v \<and> like_match q v)"
proof (induction s arbitrary: t)
  case (Cons c s)
  then show ?case by (cases t) (auto simp: plain_text_def)
qed simp

lemma lower_special: "lower_char c = d \<Longrightarrow> d \<in> {CHR ''%'', CHR ''_'', CHR 0x5C} \<Longrightarrow> c = d"
proof -
  assume l: "lower_char c = d" and d: "d \<in> {CHR ''%'', CHR ''_'', CHR 0x5C}"
  have n: "of_char c < (256 :: nat)" using nat_of_char_less_256 by blast
  have "of_char (lower_char c) \<in> {37, 95, 92 :: nat}" using l d by auto
  with n have "lower_char c = c"
    by (auto simp: lower_char_def Let_def of_char_of take_bit_eq_mod split: if_splits)
  with l show "c = d" by simp
qed

lemma plain_lower: "plain_text s \<Longrightarrow> plain_text (to_lower s)"
  using lower_special by (fastforce simp: plain_text_def to_lower_def)

lemma ilike_contains:
  assumes "plain_text s"
  shows "ilike t (''%'' @ s @ ''%'') \<longleftrightarrow> (\<exists>u v. to_lower t = u @ to_lower s @ v)"
proof -
  have p: "to_lower (''%'' @ s @ ''%'') = CHR ''%'' # to_lower s @ [CHR ''%'']"
    by (simp add: to_lower_def lower_char_def Let_def)
  have any: "like_match [CHR ''%''] v" for v
    by (simp only: like_percent) auto
  show ?thesis unfolding ilike_def p like_percent like_plain[OF plain_lower[OF assms]] by (auto simp: any)
qed

text \<open>
  Searching for text without pattern characters finds the workspaces whose name or Slack team id
  contains it, whatever the case.
\<close>

lemma search_finds_substrings:
  assumes "plain_text s" "js_trim s = s" "s \<noteq> []"
  shows "search_matches (Some s) w \<longleftrightarrow>
    (\<exists>u v. to_lower (w_name w) = u @ to_lower s @ v) \<or> (\<exists>u v. to_lower (w_slackTeamId w) = u @ to_lower s @ v)"
  using assms ilike_contains[OF assms(1)] by (simp add: search_matches_def non_empty_def)

text \<open>The characters of a pattern are not quoted: searching for an underscore lists every workspace.\<close>

lemma underscore_finds_everything: "w_name w \<noteq> [] \<Longrightarrow> search_matches (Some ''_'') w"
proof -
  assume "w_name w \<noteq> []"
  then obtain c s where cs: "to_lower (w_name w) = c # s" by (cases "w_name w") (auto simp: to_lower_def)
  have "to_lower (''%'' @ ''_'' @ ''%'') = [CHR ''%'', CHR ''_'', CHR ''%'']"
    by (simp add: to_lower_def lower_char_def Let_def)
  moreover have "like_match [CHR ''_'', CHR ''%''] (c # s)"
    using like_percent[of "[]" s] by (simp del: like_match.simps add: like_match.simps(2)[of "CHR ''_''"]) auto
  then have "like_match (CHR ''%'' # ''_%'') (c # s)" unfolding like_percent by blast
  moreover have "js_trim ''_'' = ''_''" by (simp add: js_trim_def is_ws_def Let_def)
  ultimately show ?thesis by (simp add: search_matches_def non_empty_def ilike_def cs del: like_match.simps)
qed

end
