(* ===== verification/AdminFacts.thy ===== *)
theory AdminFacts
  imports PlatformFacts
begin

text \<open>
  The admin pages and the skills catalogue: what the revenue tab counts, that installing and
  uninstalling change one user's one flag and nothing else, that filing and triage of bug reports
  stay inside a workspace, and instances of the panel's properties on a small platform.
\<close>

section \<open>Revenue\<close>

lemma filter_only: "distinct xs \<Longrightarrow> filter (\<lambda>k. k = x) xs = (if x \<in> set xs then [x] else [])"
  by (induction xs) (auto simp: filter_empty_conv)

lemmas filter_js_unique = filter_only[OF distinct_js_unique, unfolded set_js_unique]

text \<open>The revenue tab counts the money of top-ups; the owner's table counts all of it.\<close>

lemma revenue_counts_top_ups:
  "av_totalPaidCents (adminRevenue ws now l) =
     sum_list (map cents_of (filter (\<lambda>g. cg_reason g = TOPUP_PURCHASE) (grants_of ws l)))"
proof -
  let ?gs = "grants_of ws l"
  have "map rt_amountCents (filter (\<lambda>row. rt_reason row = TOPUP_PURCHASE) (grantTotalsByReason ws l)) =
      map (\<lambda>r. sum_list (map cents_of (filter (\<lambda>g. cg_reason g = r) ?gs)))
        (filter (\<lambda>r. r = TOPUP_PURCHASE) (js_unique (map cg_reason ?gs)))"
    by (simp add: grantTotalsByReason_def group_rows_def filter_map comp_def cents_of_def[abs_def] grants_of_def
        del: filter_filter)
  moreover have "filter (\<lambda>g. cg_reason g = TOPUP_PURCHASE) ?gs = []" if "TOPUP_PURCHASE \<notin> set (map cg_reason ?gs)"
    using that by (force simp: filter_empty_conv)
  ultimately show ?thesis by (simp add: adminRevenue_def Let_def filter_js_unique)
qed

lemma all_money_by_reason:
  "sum_list (map rt_amountCents (grantTotalsByReason ws l)) = sum_list (map cents_of (grants_of ws l))"
proof -
  have "map rt_amountCents (grantTotalsByReason ws l) =
      map (\<lambda>(r, gs). sum_list (map cents_of gs)) (group_rows cg_reason (grants_of ws l))"
    by (simp add: grantTotalsByReason_def grants_of_def case_prod_unfold comp_def cents_of_def[abs_def])
  then show ?thesis by (simp only: sum_list_groups)
qed

section \<open>Skills\<close>

lemma installed_ids: "set (installedSkillIds user rows) = {i. list_ex (is_install user i) rows}"
  by (auto simp: installedSkillIds_def is_install_def list_ex_iff)

lemma find_install: "List.find (is_install user i) rows = None \<longleftrightarrow> \<not> list_ex (is_install user i) rows"
  by (induction rows) auto

lemma install_effect:
  assumes "List.find (\<lambda>s. sk_id s = i) skills \<noteq> None"
  shows "list_ex (is_install u j) (snd (installSkill skills user i rows)) \<longleftrightarrow>
      list_ex (is_install u j) rows \<or> (u = user \<and> j = i)"
    and "list_ex (is_install u j) (snd (uninstallSkill skills user i rows)) \<longleftrightarrow>
      list_ex (is_install u j) rows \<and> \<not> (u = user \<and> j = i)"
proof -
  show "list_ex (is_install u j) (snd (installSkill skills user i rows)) \<longleftrightarrow>
      list_ex (is_install u j) rows \<or> (u = user \<and> j = i)"
    using assms find_install[of user i rows]
    by (auto simp: installSkill_def is_install_def[of _ _ "\<lparr>uk_userId = _, uk_skillId = _\<rparr>"] split: option.split)
  show "list_ex (is_install u j) (snd (uninstallSkill skills user i rows)) \<longleftrightarrow>
      list_ex (is_install u j) rows \<and> \<not> (u = user \<and> j = i)"
    using assms by (auto simp: uninstallSkill_def is_install_def list_ex_iff delete_where_def split: option.split)
qed

text \<open>
  Installing sets, uninstalling clears the installed flag of one skill in one user's catalogue.
\<close>

lemma catalogue_after_install:
  assumes "List.find (\<lambda>s. sk_id s = i) skills \<noteq> None"
  shows "findCatalogue collate u skills (snd (installSkill skills user i rows)) =
      map (\<lambda>v. v\<lparr>kv_installed := kv_installed v \<or> (u = user \<and> kv_id v = i)\<rparr>) (findCatalogue collate u skills rows)"
    and "findCatalogue collate u skills (snd (uninstallSkill skills user i rows)) =
      map (\<lambda>v. v\<lparr>kv_installed := kv_installed v \<and> \<not> (u = user \<and> kv_id v = i)\<rparr>) (findCatalogue collate u skills rows)"
  by (simp_all add: findCatalogue_def Let_def installed_ids install_effect[OF assms] skill_toView_def)

text \<open>The unique pairs of the table stay unique, and a second install or uninstall changes nothing.\<close>

definition installs_ok :: "user_skill list \<Rightarrow> bool" where
  "installs_ok rows \<longleftrightarrow> distinct (map (\<lambda>r. (uk_userId r, uk_skillId r)) rows)"

lemma installs_stay_unique:
  assumes "installs_ok rows"
  shows "installs_ok (snd (installSkill skills user i rows))" and "installs_ok (snd (uninstallSkill skills user i rows))"
proof -
  show "installs_ok (snd (installSkill skills user i rows))"
    using assms find_install[of user i rows]
    by (auto simp: installSkill_def installs_ok_def is_install_def list_ex_iff split: option.split)
  show "installs_ok (snd (uninstallSkill skills user i rows))"
    using assms by (auto simp: uninstallSkill_def installs_ok_def delete_where_def distinct_map_filter split: option.split)
qed

lemma install_twice: "snd (installSkill skills user i (snd (installSkill skills user i rows))) = snd (installSkill skills user i rows)"
proof (cases "List.find (\<lambda>s. sk_id s = i) skills = None")
  case False
  then have "List.find (is_install user i) (snd (installSkill skills user i rows)) \<noteq> None"
    by (simp only: find_install install_effect simp_thms)
  then show ?thesis by (subst installSkill_def) (auto split: option.split)
qed (simp add: installSkill_def)

lemma uninstall_twice: "snd (uninstallSkill skills user i (snd (uninstallSkill skills user i rows))) = snd (uninstallSkill skills user i rows)"
  by (auto simp: uninstallSkill_def delete_where_def split: option.split)

section \<open>Bug reports of a workspace\<close>

text \<open>Members only file; the owner only triages.\<close>

datatype bug_op = File uuid time create_bug_report_input

fun bug_op_ok :: "bug_op \<Rightarrow> bug_report list \<Rightarrow> bool" where
  "bug_op_ok (File i now inp) rows \<longleftrightarrow> i \<notin> br_id ` set rows"

text \<open>The controller takes the workspace from the session.\<close>

fun bug_op_step :: "uuid \<Rightarrow> bug_op \<Rightarrow> bug_report list \<Rightarrow> bug_report list" where
  "bug_op_step ws (File i now inp) rows = snd (createBugReport i now (inp\<lparr>bi_workspaceId := ws\<rparr>) rows)"

interpretation bug_tenant: tenant_service br_workspaceId "\<lambda>rows. distinct (map br_id rows)" bug_op_ok bug_op_step
proof (unfold_locales, goal_cases)
  case (1 rows op ws)
  then show ?case by (cases op) (simp add: createBugReport_def Let_def make_report_def)
next
  case (2 rows op w ws)
  then show ?case by (cases op) (simp add: createBugReport_def Let_def make_report_def)
qed

text \<open>However other workspaces file, a workspace's members read the same reports of their own.\<close>

lemma mine_are_mine:
  assumes "distinct (map br_id rows)" "bug_tenant.run_ok ops rows" "ws \<notin> fst ` set ops"
  shows "listMine ws user (bug_tenant.run ops rows) = listMine ws user rows"
proof -
  have f: "filter (\<lambda>r. br_workspaceId r = ws \<and> br_reportedByUserId r = Some user) rs =
      filter (\<lambda>r. br_reportedByUserId r = Some user) (filter (\<lambda>r. br_workspaceId r = ws) rs)" for rs
    by (simp add: conj_commute)
  show ?thesis by (simp only: listMine_def newest_def f bug_tenant.run_foreign[OF assms])
qed

section \<open>A small platform\<close>

definition sample_member :: "uuid \<Rightarrow> uuid \<Rightarrow> user_role \<Rightarrow> bool \<Rightarrow> user" where
  "sample_member i ws r a = \<lparr>u_id = i, u_workspaceId = ws, u_slackUserId = i, u_name = i, u_email = None,
     u_avatarUrl = None, u_role = r, u_isActive = a, u_lastActiveAt = None, u_invitedAt = None,
     u_refreshTokenHash = None, u_createdAt = 0\<rparr>"

definition sample_tenant :: "uuid \<Rightarrow> string \<Rightarrow> time \<Rightarrow> workspace" where
  "sample_tenant i n t = \<lparr>w_id = i, w_name = n, w_slackTeamId = ''T'' @ i, w_slackBotToken = None,
     w_credits = 0, w_workspaceInstructions = None, w_defaultModel = None, w_personalityTone = None,
     w_createdAt = t\<rparr>"

definition paid_plan :: "uuid \<Rightarrow> credit_grant" where
  "paid_plan ws = \<lparr>cg_id = ''g1'', cg_workspaceId = ws, cg_userId = None, cg_reason = SUBSCRIPTION,
     cg_bucket = PLAN, cg_credits = 100, cg_expiresAt = None, cg_amountCents = Some 5000,
     cg_currency = Some ''usd'', cg_stripeSessionId = None, cg_stripeInvoiceId = Some ''in1'',
     cg_note = None, cg_createdAt = 0\<rparr>"

definition sample_run :: "uuid \<Rightarrow> time \<Rightarrow> credit_event" where
  "sample_run ws t = \<lparr>ce_id = ''e1'', ce_workspaceId = ws, ce_userId = Some ''u1'', ce_taskId = None,
     ce_type = THREAD, ce_sourceName = ''chat'', ce_creditsUsed = 30, ce_tokensUsed = 0,
     ce_inputTokens = 0, ce_outputTokens = 0, ce_cacheWriteTokens = 0, ce_cacheReadTokens = 0,
     ce_model = ''m'', ce_resolvedModel = None, ce_providerCostUsd = 0, ce_createdAt = t\<rparr>"

definition sample_platform :: platform where
  "sample_platform = \<lparr>
     pf_workspaces = [sample_tenant ''w1'' ''Acme'' 10, sample_tenant ''w2'' ''Beta'' 10, sample_tenant ''w3'' ''Gamma'' 20],
     pf_users = [sample_member ''u1'' ''w1'' ADMIN True, sample_member ''u2'' ''w1'' MEMBER False],
     pf_ledger = \<lparr>grants = [paid_plan ''w1''], events = [sample_run ''w1'' 20],
       allocations = [\<lparr>ca_creditEventId = Some ''e1'', ca_grantId = ''g1'', ca_bucket = PLAN, ca_credits = 30\<rparr>]\<rparr>,
     pf_subscriptions = [], pf_integrations = [], pf_bugs = [], pf_tasks = []\<rparr>"

definition no_options :: list_options where
  "no_options = \<lparr>lo_search = None, lo_limit = None, lo_offset = None, lo_sort = None\<rparr>"

lemmas sample_defs = sample_platform_def sample_tenant_def sample_member_def no_options_def

lemma sample_workspaces: "pf_workspaces sample_platform =
    [sample_tenant ''w1'' ''Acme'' 10, sample_tenant ''w2'' ''Beta'' 10, sample_tenant ''w3'' ''Gamma'' 20]"
  by (simp add: sample_platform_def)

lemma sample_ids: "distinct (map w_id (pf_workspaces sample_platform))"
  by (simp add: sample_workspaces sample_tenant_def)

lemma sample_scans: "fair_scan id sample_platform" "fair_scan rev sample_platform"
  by (simp_all add: fair_scan_def)

definition sample_page :: workspace_page where
  "sample_page = listPlatformWorkspaces (\<lambda>_. 0) id 30 (no_options\<lparr>lo_sort := Some ''activity''\<rparr>) sample_platform"

lemma sample_row: "hd (wp_rows sample_page) \<in> set (wp_rows sample_page)
    \<and> wr_id (hd (wp_rows sample_page)) = ''w1'' \<and> wr_balance (hd (wp_rows sample_page)) = 70
    \<and> mc_active (wr_members (hd (wp_rows sample_page))) = 1"
  by code_simp

theorem rows_agree_with_drill_in_witness:
  "\<exists>d. workspaceDetail ''w1'' 30 sample_platform = Inr d \<and> cb_balance (wd_credits d) = 70
     \<and> length (filter am_isActive (wd_members d)) = 1"
proof -
  have "distinct (map su_workspaceId (pf_subscriptions sample_platform))" by (simp add: sample_platform_def)
  then show ?thesis
    using rows_agree_with_drill_in[OF sample_scans(1) sample_ids _ conjunct1[OF sample_row[unfolded sample_page_def]]]
      sample_row[unfolded sample_page_def] by auto
qed

definition by_initial :: "string \<Rightarrow> nat" where
  "by_initial s = (if s = ''acme'' then 0 else if s = ''beta'' then 1 else 2)"

theorem pages_tile_the_table_witness:
  "concat (map (\<lambda>k. map wr_id (wp_rows (listPlatformWorkspaces by_initial (if k = 0 then id else rev) 30
      (no_options\<lparr>lo_sort := Some ''name'', lo_limit := Some (int 2), lo_offset := Some (int (k * 2))\<rparr>) sample_platform))) [0..<2]) =
    [''w1'', ''w2'', ''w3'']"
proof -
  let ?opts = "no_options\<lparr>lo_sort := Some ''name''\<rparr>"
  have all: "search_matches (lo_search no_options) = (\<lambda>_. True)"
    by (simp add: fun_eq_iff search_matches_def no_options_def non_empty_def)
  have names: "map (order_value by_initial sample_platform SortName) (pf_workspaces sample_platform) = [Some 0, Some 1, Some 2]"
    by code_simp
  then have "distinct (map (order_value by_initial sample_platform SortName) (pf_workspaces sample_platform))" by simp
  then have "inj_on (order_value by_initial sample_platform (parse_sort (lo_sort ?opts))) (set (pf_workspaces sample_platform))"
    by (simp add: distinct_map parse_sort_def)
  moreover have "fair_scan (if k = (0::nat) then id else rev) sample_platform" for k using sample_scans by simp
  moreover have "map w_id (order_workspaces by_initial sample_platform (parse_sort (lo_sort ?opts)) (pf_workspaces sample_platform)) = [''w1'', ''w2'', ''w3'']"
    by code_simp
  moreover have "length (pf_workspaces sample_platform) = 3" by (simp add: sample_workspaces)
  ultimately show ?thesis
    using pages_tile_the_table[of "\<lambda>k. if k = 0 then id else rev" sample_platform 2 2 by_initial ?opts 30 0]
      sample_ids by (simp add: all)
qed

theorem growth_covers_the_calendar_witness:
  "sum_list (map gp_signups (growth 30 1 sample_platform)) = po_newInWindow (platformOverview 30 1 sample_platform)"
  by (rule growth_covers_the_calendar[THEN conjunct2, THEN conjunct1])
     (simp_all add: sample_platform_def sample_tenant_def sample_run_def)

definition sample_report :: create_bug_report_input where
  "sample_report = \<lparr>bi_workspaceId = ''w1'', bi_reportedByUserId = ''u1'', bi_title = ''Broken'',
     bi_description = ''It does not load'', bi_stepsToReproduce = None, bi_severity = None,
     bi_pageUrl = None, bi_userAgent = None\<rparr>"

definition sample_filed :: platform where
  "sample_filed = sample_platform\<lparr>pf_bugs := snd (createBugReport ''b1'' 40 sample_report [])\<rparr>"

definition sample_closed :: platform where
  "sample_closed = snd (updateBugReport ''b1'' 50 \<lparr>bc_status = Some RESOLVED, bc_resolutionNote = None\<rparr> sample_filed)"

theorem bug_reports_stay_true_witness:
  "list_all (\<lambda>b. (br_resolvedAt b \<noteq> None) = (br_status b = RESOLVED \<or> br_status b = DISMISSED)) (pf_bugs sample_closed)
    \<and> take 1 (map report_content (pf_bugs sample_closed)) = map report_content (pf_bugs sample_filed)
    \<and> map br_resolvedAt (pf_bugs sample_closed) = [Some 50]"
proof -
  have "bug_step sample_platform sample_filed"
    using filed[of "''b1''" sample_platform 40 sample_report "fst (createBugReport ''b1'' 40 sample_report [])"]
    by (simp add: sample_filed_def sample_platform_def)
  moreover have "bug_step sample_filed sample_closed"
    by (rule triaged[of "''b1''" 50 "\<lparr>bc_status = Some RESOLVED, bc_resolutionNote = None\<rparr>" _
          "fst (updateBugReport ''b1'' 50 \<lparr>bc_status = Some RESOLVED, bc_resolutionNote = None\<rparr> sample_filed)"])
       (simp add: sample_closed_def)
  moreover have "pf_bugs sample_platform = []" by (simp add: sample_platform_def)
  moreover have "length (pf_bugs sample_filed) = 1" by (simp add: sample_filed_def createBugReport_def Let_def)
  moreover have "map br_resolvedAt (pf_bugs sample_closed) = [Some 50]" by code_simp
  ultimately show ?thesis
    using bug_reports_stay_true[OF r_into_rtranclp r_into_rtranclp, of sample_platform sample_filed sample_closed] by simp
qed

section \<open>What the modelling showed\<close>

text \<open>A plan that was paid for is revenue in the owner's table and none on the revenue tab.\<close>

lemma paid_plan_is_no_revenue:
  "av_totalPaidCents (adminRevenue ''w1'' 30 (pf_ledger sample_platform)) = 0
    \<and> wr_paidCents (hd (wp_rows sample_page)) = 5000"
proof
  show "av_totalPaidCents (adminRevenue ''w1'' 30 (pf_ledger sample_platform)) = 0"
    by (simp add: revenue_counts_top_ups grants_of_def sample_platform_def paid_plan_def)
  show "wr_paidCents (hd (wp_rows sample_page)) = 5000" by code_simp
qed

text \<open>
  Equal sort keys have no second key: when the database reads the rows in another order for the
  second page, one workspace is listed twice and another on no page.
\<close>

lemma pages_may_skip_a_workspace:
  "map wr_id (wp_rows (listPlatformWorkspaces (\<lambda>_. 0) id 30 (no_options\<lparr>lo_limit := Some 2, lo_offset := Some 0\<rparr>) sample_platform))
     = [''w3'', ''w1'']
   \<and> map wr_id (wp_rows (listPlatformWorkspaces (\<lambda>_. 0) rev 30 (no_options\<lparr>lo_limit := Some 2, lo_offset := Some 2\<rparr>) sample_platform))
     = [''w1'']"
proof -
  have "driver_ids (\<lambda>_. 0) id (no_options\<lparr>lo_limit := Some 2, lo_offset := Some 0\<rparr>) sample_platform = [''w3'', ''w1'']"
    "driver_ids (\<lambda>_. 0) rev (no_options\<lparr>lo_limit := Some 2, lo_offset := Some 2\<rparr>) sample_platform = [''w1'']"
    by code_simp+
  then show ?thesis by (simp only: page_ids[OF sample_scans(1) sample_ids] page_ids[OF sample_scans(2) sample_ids] simp_thms)
qed

text \<open>The form's lengths are those of the untrimmed text: a title of blanks passes and is stored empty.\<close>

lemma blank_title_is_stored:
  "create_report_dto_ok (sample_report\<lparr>bi_title := ''   ''\<rparr>)
    \<and> bv_title (fst (createBugReport ''b1'' 40 (sample_report\<lparr>bi_title := ''   ''\<rparr>) [])) = []"
  by code_simp

text \<open>The owner's table counts a deactivated admin among the admins, the workspace's own page does not.\<close>

lemma deactivated_admin_counts:
  "mc_admins (count_members [sample_member ''u1'' ''w1'' ADMIN False]) = 1
    \<and> mc_admins (ao_members (adminOverview (\<lambda>_. 0) [sample_member ''u1'' ''w1'' ADMIN False] [] ''w1'' 0
         \<lparr>grants = [], events = [], allocations = []\<rparr>)) = 0"
  by (simp add: count_members_def adminOverview_def Let_def listAllByWorkspace_def sample_member_def)

end
