(* ===== verification/Spec2Isabelle.thy ===== *)
theory Spec2Isabelle
  imports UsageAnalytics BillingFacts Invites Approvals RuleFacts TaskFacts SpaceFacts SessionFacts
    Attaching BridgeFacts Memory ExportFacts ProviderFacts MonitoringFacts SlackEventRuns AdminFacts
begin

text \<open>
  A model of the backend in \<open>src/src\<close>, a NestJS service in TypeScript that puts an assistant into a
  company's Slack: members talk to it, it runs a language model with tools (Meta Ads, Google Sheets,
  connected apps, small hosted apps called spaces, rules and tasks that run on a schedule), and every
  run is paid for from a ledger of credits that Stripe payments fill.

  \<^bold>\<open>The parts and how they interact.\<close>  A request is authenticated (\<open>auth/\<close>, \<open>common/guards/\<close>) and acts
  inside one workspace.  A run of the model (\<open>ai/\<close>) is refused when the ledger (\<open>usage/\<close>) is empty, is
  given local tools and the tools of connected apps (\<open>ai/providers/\<close>), reaches Meta through a connected
  account the member may use (\<open>integrations/\<close>), waits for a click in Slack before it changes a live
  campaign (\<open>slack/slack-interactions.service.ts\<close>), and is charged to the ledger.  Stripe's webhooks
  (\<open>billing/\<close>) put credits into the ledger.  Three schedulers (\<open>rules/\<close>, \<open>tasks/\<close>, \<open>exports/\<close>) run what
  members set up, and a fourth (\<open>monitoring/\<close>) watches the ad accounts.  Spaces (\<open>spaces/\<close>) have tables,
  pages and sign-in links of their own.  Messages and clicks arrive through Slack's webhooks (\<open>slack/\<close>);
  admins and the owner of the platform read the same tables (\<open>admin/\<close>, \<open>super-admin/\<close>, \<open>bug-reports/\<close>).

  \<^bold>\<open>Theories.\<close>  Each theory says at its top which file it translates.

  \<^item> Language and libraries.  \<open>Prelude\<close>: exceptions as values, arrays and objects of JavaScript, the
    \<open>named_theorems\<close> collections.  \<open>JsNumber\<close>: numbers as rationals rounded to 53 bits.  \<open>JsString\<close>,
    \<open>JsValue\<close> (untyped values, conversions, \<open>JSON.parse\<close>), \<open>JsonText\<close> (\<open>JSON.stringify\<close> and the round
    trip), \<open>JsDate\<close>.  \<open>Tables\<close>: TypeORM repositories as lists of rows, with the locale \<open>tenant_service\<close>.
    \<open>KeyValue\<close>: Redis, with the locale \<open>ticket_store\<close>.  \<open>Crypto\<close>: bcrypt and JWT as parameters with the
    laws they document.  \<open>Schedule\<close>: cron, due rows and the locale both schedulers share.
  \<^item> Credits.  \<open>ModelCatalog\<close> (prices), \<open>Usage\<close> (\<open>usage.service.ts\<close>: grants, events, allocations and the
    analytics), \<open>UsageLedger\<close> (spending order, conservation, and what two concurrent requests do),
    \<open>UsageAnalytics\<close> (the daily series and the totals agree), \<open>Users\<close>, \<open>Workspaces\<close> (onboarding grant).
  \<^item> Payments.  \<open>Subscriptions\<close> and \<open>SubscriptionFacts\<close> (plans, the mirror of Stripe, renewals and
    rollover), \<open>Billing\<close> and \<open>BillingFacts\<close> (checkouts, signatures, webhooks, redelivery).
  \<^item> People.  \<open>Invites\<close>, \<open>Sessions\<close> and \<open>SessionFacts\<close> (tokens, guards, rate limits, switching),
    \<open>Slack\<close> (signatures, roster, messages).
  \<^item> Advertising.  \<open>MetaAds\<close> (every request of the client), \<open>MetaTools\<close> (the tools and the approval gate),
    \<open>Integrations\<close> and \<open>IntegrationFacts\<close> (visible accounts, OAuth), \<open>Approvals\<close> (pending changes and
    interleaved clicks, a refinement of an abstract contract), \<open>Roas\<close> (Stripe revenue against spend),
    \<open>Rules\<close> and \<open>RuleFacts\<close> (the rule engine and its caps), \<open>Monitoring\<close> and \<open>MonitoringFacts\<close> (the
    hourly sweep for anomalies and its once-a-day notices).
  \<^item> The model's run.  \<open>ToolRouter\<close>, \<open>AttachedApps\<close>, \<open>Attaching\<close>, \<open>Bridge\<close> and \<open>BridgeFacts\<close> (which tools
    a run gets and how a call finds its server), \<open>Memory\<close> (facts and turns), \<open>AiRun\<close> (the loop of requests,
    over any provider and any executor), \<open>AiTools\<close> and \<open>AiToolFacts\<close> (the tools a run executes itself),
    \<open>AiService\<close>, \<open>AiServiceFacts\<close> and \<open>AiServiceRuns\<close> (a whole run: credit gate, prompt, toolset with the
    questions of its router, loop, metering; the last holds concrete runs).  \<open>Providers\<close> and
    \<open>ProviderFacts\<close>: the two adapters that write a request for Anthropic or an OpenAI-compatible gateway.
  \<^item> Slack.  \<open>SlackEvents\<close>, \<open>SlackEventFacts\<close> and \<open>SlackEventRuns\<close>: both webhooks, from a message to a run
    of \<open>AiService\<close> to the answer, and from a click to \<open>Approvals\<close>.
  \<^item> Administration.  \<open>Administration\<close> (bug reports, admin pages, skills), \<open>PlatformOwner\<close> (the panel over
    every tenant), \<open>PlatformFacts\<close> and \<open>AdminFacts\<close> (its queries agree with the services of one workspace).
  \<^item> Scheduled work and spaces.  \<open>Tasks\<close> and \<open>TaskFacts\<close>, \<open>Sheets\<close>, \<open>Exports\<close> and \<open>ExportFacts\<close>,
    \<open>SpaceSpec\<close>, \<open>SpaceRecords\<close>, \<open>SpacePages\<close>, \<open>Spaces\<close>, \<open>SpaceFacts\<close>, \<open>SpacesAuth\<close> and
    \<open>SpacesAuthFacts\<close>.

  \<^bold>\<open>Conventions.\<close>  An operation is a function of the tables it uses; a thrown exception is \<open>Inl\<close> of its
  status and message, so every early return of the code is a branch.  A table is the list of its rows
  in insertion order, which is also the order of \<open>createdAt\<close>; SQL is written as the filters, joins and
  groupings it performs.  The clock, fresh identifiers, random bytes and everything outside
  \<open>src/\<close> (Stripe, Slack, Meta's Graph API, Pipedream, the model, cron, HMAC, bcrypt, JWT) are arguments;
  where a result rests on how such a library behaves the behaviour is a named hypothesis
  (\<open>bcrypt_law\<close>, \<open>jwt_format\<close>, \<open>fires_later\<close>) and a witness instantiates it.  The provider of a run
  answers every request the run sends, those of the loop (\<open>sv_requests\<close>) and the questions of the
  router (\<open>sv_routed\<close>).  Times are milliseconds; where
  Postgres keeps more, the parameter \<open>micros\<close> is the microseconds below the millisecond.  Texts of
  messages are written in ASCII.  Foreign keys and column widths matter only where the code
  depends on them; the rule engine takes what the database refuses as a parameter.

  \<^bold>\<open>Loops and bounds.\<close>  \<open>JSON.parse\<close> uses the length of the text as fuel (\<open>json_fuel_enough\<close> shows it is
  enough).  Paging through Stripe's charges stops after \<open>MAX_PAGES\<close> as in the code (\<open>revenue_of_window\<close>
  states when the result is exact).  The searches for a free slug, a free tool name and the paging
  through tables are \<open>partial_function\<close>s, and \<open>unique_slug_found\<close>, \<open>bridge_builds_toolset\<close> and the
  lemmas beside them show that they return.  \<open>build_loop\<close>, which fills the toolset round by round, is a
  \<open>function\<close> whose termination is proved from the tools still waiting.

  \<^bold>\<open>What the lemmas show.\<close>  Invariants and isolation: \<open>users_wf\<close>, \<open>integrations_wf\<close>, the ledger's
  conservation, the soundness of stored rules, records that fit their specification, and that every
  service stays inside its workspace or app.  Single use and idempotence: sign-in links, OAuth states,
  approvals, webhooks, invoices, daily caps, events and anomaly notices.  Exact functional results:
  charges, renewals, revenue, validators, page edits, exports, the prompt block of the memory, cache
  breakpoints, and the owner's queries.  A run of the model: what it asks, executes, attaches and is
  charged for.  Where the code does not do
  what it means to, a lemma shows the run in which it goes wrong (the findings of the manifest).

  \<^bold>\<open>Abstractions.\<close>  Operations of one service run one after the other; where the code's interleavings
  matter (approvals, sign-in links, concurrent charges, rate limits) the steps between two awaits are
  operations of their own.  One reading of the clock stands for a request, a run or a tick of a
  scheduler (\<open>evaluateRule\<close>, \<open>executeMutations\<close>, \<open>runDueRules\<close>).  The database accepts what is written,
  except where the code catches its refusal: \<open>recordUsage\<close>, the audit rows of the rule engine and the
  alerts of the monitoring; \<open>recordEvent\<close> and \<open>createBugReport\<close> by themselves have no such path.  A call of a
  bridged tool is a function of its arguments and leaves a count: what it does to the connected account
  lies outside the log of requests to Meta.  Days of the analytics and of the growth chart are days of
  UTC, as the comments of the code say.  A list argument of a Meta tool that is not an array is read as
  absent (\<open>getInsights\<close>), a model name in a reply that is not text is written as text (\<open>gateway_model\<close>),
  and limit and offset of the customer table are whole numbers.

  \<^bold>\<open>Not modelled.\<close>  The SDKs of the providers and of Pipedream, the discovery and registration of OAuth
  clients, the cached catalogue of app actions and of Meta's native MCP server, the texts that declare
  tools to the model, Slack's OAuth exchange, configuration and the validation of the environment,
  controllers that only call a service, the wiring of modules, logging, process start-up, and the SQL
  of the migrations with the seeded catalogue of skills.  Decorators that validate request bodies are
  modelled where a service relies on them.
\<close>

end
